(* ===== verification/ATS_Prelude.thy ===== *)
theory ATS_Prelude
  imports Complex_Main "HOL-Library.Sublist"
begin

text \<open>
  Shared vocabulary of the development: identifiers and times, the exceptions a request
  handler can end with, the three table operations the handlers use (a filtered select
  read through \<open>scalar_one_or_none\<close>, an insert under a primary key, an update of the rows
  that satisfy a condition), and the list facts the component proofs have in common.
\<close>

named_theorems table_simps "facts about rows, keys and the table operations"
named_theorems handler_defs "definitions that a handler proof unfolds"

section \<open>Identifiers, times, texts\<close>

text \<open>
  UUIDs are natural numbers (their 128-bit value), times are microseconds since the
  epoch, the resolution of the database.
  Strings that the program itself writes (roles, statuses, key prefixes) are ASCII and are
  \<open>string\<close>s; texts written by users are lists of Unicode code points (\<open>utext\<close>).
\<close>

type_synonym uuid = nat
type_synonym time = int
type_synonym utext = "nat list"

text \<open>An ASCII literal as a list of code points.\<close>

definition utext_of :: "string \<Rightarrow> utext" where
  "utext_of s = map of_char s"

text \<open>
  The Unicode tables of the interpreter that the program's string methods and regular
  expressions consult: white space, word characters, decimal digits with their value, and
  the lower-casing of a text. They are a parameter of every definition that depends on
  them; \<open>ascii_tables\<close> is the restriction to ASCII, for evaluation.
\<close>

record unicode =
  uc_space :: "nat \<Rightarrow> bool"
  uc_word :: "nat \<Rightarrow> bool"
  uc_digit :: "nat \<Rightarrow> nat option"
  uc_lower :: "utext \<Rightarrow> utext"

definition cp_ascii_lower :: "nat \<Rightarrow> nat" where
  "cp_ascii_lower c = (if 65 \<le> c \<and> c \<le> 90 then c + 32 else c)"

definition ascii_tables :: unicode where
  "ascii_tables = \<lparr>uc_space = (\<lambda>c. c = 32 \<or> (9 \<le> c \<and> c \<le> 13) \<or> (28 \<le> c \<and> c \<le> 31)),
     uc_word = (\<lambda>c. (48 \<le> c \<and> c \<le> 57) \<or> (65 \<le> c \<and> c \<le> 90) \<or> c = 95 \<or> (97 \<le> c \<and> c \<le> 122)),
     uc_digit = (\<lambda>c. if 48 \<le> c \<and> c \<le> 57 then Some (c - 48) else None),
     uc_lower = map cp_ascii_lower\<rparr>"

definition strip_by :: "('a \<Rightarrow> bool) \<Rightarrow> 'a list \<Rightarrow> 'a list" where
  "strip_by p s = rev (dropWhile p (rev (dropWhile p s)))"

lemma strip_by_id: "(\<And>x. x \<in> set s \<Longrightarrow> \<not> p x) \<Longrightarrow> strip_by p s = s"
  by (metis dropWhile_eq_self_iff hd_in_set rev_rev_ident set_rev strip_by_def)

text \<open>\<open>str.strip()\<close>\<close>

definition ustrip :: "unicode \<Rightarrow> utext \<Rightarrow> utext" where
  "ustrip U s = strip_by (uc_space U) s"

text \<open>A JSON column or document; its floating-point numbers are idealised as rationals.\<close>

datatype json =
    JNull
  | JBool bool
  | JInt int
  | JFloat rat
  | JStr utext
  | JArr "json list"
  | JObj "(string \<times> json) list"

section \<open>Runs of a character class\<close>

text \<open>\<open>re.findall\<close> of a one-or-more repetition of a character class: the maximal runs.\<close>

function class_runs :: "('a \<Rightarrow> bool) \<Rightarrow> 'a list \<Rightarrow> 'a list list" where
  "class_runs p s = (case dropWhile (\<lambda>c. \<not> p c) s of
      [] \<Rightarrow> []
    | c # cs \<Rightarrow> (c # takeWhile p cs) # class_runs p (dropWhile p cs))"
  by pat_completeness auto
termination
proof (relation "measure (\<lambda>(p, s). length s)")
  fix p :: "'a \<Rightarrow> bool" and s c cs
  assume "dropWhile (\<lambda>c. \<not> p c) s = c # cs"
  then have "length (c # cs) \<le> length s" by (metis length_dropWhile_le)
  then show "((p, dropWhile p cs), (p, s)) \<in> measure (\<lambda>(p, s). length s)"
    using length_dropWhile_le [of p cs] by simp
qed simp

declare class_runs.simps [simp del]

section \<open>Rounding\<close>

text \<open>\<open>round(x, 2)\<close>: the nearest multiple of a hundredth, a tie to the even one.\<close>

definition round_half_even :: "rat \<Rightarrow> int" where
  "round_half_even x = (let f = \<lfloor>x\<rfloor>; r = x - of_int f
     in if r < 1 / 2 then f else if r > 1 / 2 then f + 1 else if even f then f else f + 1)"

definition round2 :: "rat \<Rightarrow> rat" where
  "round2 x = of_int (round_half_even (100 * x)) / 100"

lemma round_half_even_bounds: "\<lfloor>x\<rfloor> \<le> round_half_even x" "round_half_even x \<le> \<lfloor>x\<rfloor> + 1"
  by (auto simp: round_half_even_def Let_def)

lemma round_half_even_mono:
  assumes "x \<le> y" shows "round_half_even x \<le> round_half_even y"
proof (cases "\<lfloor>x\<rfloor> = \<lfloor>y\<rfloor>")
  case True
  then show ?thesis using assms by (auto simp: round_half_even_def Let_def)
next
  case False
  then have "\<lfloor>x\<rfloor> + 1 \<le> \<lfloor>y\<rfloor>" using floor_mono [OF assms] by simp
  then show ?thesis using round_half_even_bounds [of x] round_half_even_bounds [of y] by linarith
qed

lemma round_half_even_error: "\<bar>of_int (round_half_even x) - x\<bar> \<le> 1 / 2"
proof -
  have "of_int \<lfloor>x\<rfloor> \<le> x" "x < of_int \<lfloor>x\<rfloor> + 1" by linarith+
  then show ?thesis by (auto simp: round_half_even_def Let_def abs_le_iff)
qed

lemma round2_mono: "x \<le> y \<Longrightarrow> round2 x \<le> round2 y"
  by (simp add: round2_def round_half_even_mono divide_right_mono)

lemma round_half_even_of_int [simp]: "round_half_even (of_int n) = n"
  by (simp add: round_half_even_def)

lemma round2_of_int [simp]: "round2 (of_int n) = of_int n"
proof -
  have "round_half_even (100 * of_int n) = 100 * n"
    using round_half_even_of_int [of "100 * n"] by simp
  then show ?thesis by (simp add: round2_def)
qed

lemma round2_range: "0 \<le> x \<Longrightarrow> x \<le> 100 \<Longrightarrow> 0 \<le> round2 x \<and> round2 x \<le> 100"
  using round2_mono [of 0 x] round2_mono [of x 100] round2_of_int [of 0] round2_of_int [of 100] by simp

lemma round2_error: "\<bar>round2 x - x\<bar> \<le> 1 / 200"
proof -
  have "round2 x - x = (of_int (round_half_even (100 * x)) - 100 * x) / 100"
    by (simp add: round2_def field_simps)
  then show ?thesis using round_half_even_error [of "100 * x"] by (simp only: abs_divide) simp
qed

section \<open>Positions in a list\<close>

text \<open>\<open>list.index\<close>: the position of the first occurrence.\<close>

fun index_of :: "'a list \<Rightarrow> 'a \<Rightarrow> nat option" where
  "index_of [] x = None"
| "index_of (y # ys) x = (if y = x then Some 0 else map_option Suc (index_of ys x))"

lemma index_of_Some: "index_of xs x = Some i \<Longrightarrow> i < length xs \<and> xs ! i = x"
  by (induction xs arbitrary: i) (auto split: if_splits)

lemma index_of_None: "index_of xs x = None \<longleftrightarrow> x \<notin> set xs"
  by (induction xs) auto

lemma index_of_nth: "distinct xs \<Longrightarrow> i < length xs \<Longrightarrow> index_of xs (xs ! i) = Some i"
  by (induction xs arbitrary: i) (auto simp: nth_Cons split: nat.splits)

section \<open>Outcomes of a request\<close>

text \<open>
  A handler either returns a response or ends with an exception: an \<open>HTTPException\<close> with
  its status code (the detail is named, not spelled), or an exception that no code of the
  program catches and that the framework turns into a 500 answer.
\<close>

datatype detail =
    Business_Logic_Violation
  | Application_Not_Found
  | Job_Not_Found
  | Not_An_Offer
  | Bad_File_Type
  | Empty_File
  | File_Too_Large
  | Database_Write_Failed
  | Invalid_Cursor
  | Unauthorized
  | Forbidden_Role
  | Session_Store_Unavailable
  | Email_Already_Registered
  | Invalid_Credentials
  | Refresh_Rejected
  | Session_Not_Found
  | Invalid_Otp
  | Tenant_Not_Found
  | Member_Not_Found
  | Interview_Not_Found
  | Invalid_Interviewer
  | Candidate_Not_Found
  | Not_Your_Interview
  | Interview_State_Error
  | Resume_Not_Found
  | Notification_Not_Found
  | Question_Set_Not_Found
  | Question_Not_Found
  | Validation_Error
  | Genai_Not_Configured
  | Resume_Not_Processed
  | Queue_Down
  | Invalid_Service_Token
  | Not_Found
  | Ops_Disabled
  | Ops_Token_Invalid

datatype exc =
    HTTPException nat detail
  | MultipleResultsFound
  | IntegrityError
  | InsufficientPrivilege
  | StaleDataError
  | DataError
  | TypeError
  | Uncaught
  | TenantAccessError

fun http_status :: "exc \<Rightarrow> nat" where
  "http_status (HTTPException c _) = c"
| "http_status _ = 500"

section \<open>Tables\<close>

text \<open>
  A table is the list of its rows. \<open>scalar_one_or_none\<close> of a query result: no row, the
  row, or the exception SQLAlchemy raises when there are several.
\<close>

fun scalar_one_or_none :: "'r list \<Rightarrow> exc + 'r option" where
  "scalar_one_or_none [] = Inr None"
| "scalar_one_or_none [r] = Inr (Some r)"
| "scalar_one_or_none (r # r' # rs) = Inl MultipleResultsFound"

text \<open>A comprehension whose body may raise: the first exception ends it.\<close>

fun collect :: "('e + 'a) list \<Rightarrow> 'e + 'a list" where
  "collect [] = Inr []"
| "collect (Inl e # xs) = Inl e"
| "collect (Inr a # xs) = (case collect xs of Inl e \<Rightarrow> Inl e | Inr as \<Rightarrow> Inr (a # as))"

lemma collect_map_Inr [simp]: "collect (map Inr ys) = Inr ys"
  by (induction ys) simp_all

lemma collect_Inr: "collect xs = Inr ys \<longleftrightarrow> xs = map Inr ys"
  by (induction xs arbitrary: ys rule: collect.induct) (auto split: sum.splits)

lemma find_member: "find P xs = Some x \<Longrightarrow> P x \<and> x \<in> set xs"
  by (induction xs) (auto split: if_splits)

text \<open>An insert under a primary key: a key that is taken is an \<open>IntegrityError\<close>.\<close>

definition insert_row :: "('r \<Rightarrow> 'k) \<Rightarrow> 'r \<Rightarrow> 'r list \<Rightarrow> exc + 'r list" where
  "insert_row key r rows = (if key r \<in> set (map key rows) then Inl IntegrityError else Inr (rows @ [r]))"

text \<open>\<open>UPDATE ... WHERE\<close>.\<close>

definition update_where :: "('r \<Rightarrow> bool) \<Rightarrow> ('r \<Rightarrow> 'r) \<Rightarrow> 'r list \<Rightarrow> 'r list" where
  "update_where p f rows = map (\<lambda>r. if p r then f r else r) rows"

text \<open>A table whose rows have distinct keys.\<close>

definition keyed :: "('r \<Rightarrow> 'k) \<Rightarrow> 'r list \<Rightarrow> bool" where
  "keyed key rows \<longleftrightarrow> distinct (map key rows)"

lemma keyed_Nil [simp, table_simps]: "keyed key []"
  by (simp add: keyed_def)

lemma keyed_insert_row [table_simps]:
  "keyed key rows \<Longrightarrow> insert_row key r rows = Inr rows' \<Longrightarrow> keyed key rows'"
  by (auto simp: keyed_def insert_row_def split: if_splits)

lemma set_insert_row [table_simps]:
  "insert_row key r rows = Inr rows' \<Longrightarrow> set rows' = insert r (set rows)"
  by (auto simp: insert_row_def split: if_splits)

lemma insert_row_Inr [table_simps]:
  "insert_row key r rows = Inr rows' \<longleftrightarrow> key r \<notin> set (map key rows) \<and> rows' = rows @ [r]"
  by (auto simp: insert_row_def)

lemma keyed_update_where [table_simps]:
  assumes "\<And>r. key (f r) = key r"
  shows "keyed key (update_where p f rows) = keyed key rows"
proof -
  have "map key (update_where p f rows) = map key rows"
    using assms by (simp add: update_where_def)
  then show ?thesis by (simp add: keyed_def)
qed

lemma update_where_Nil [simp]: "update_where p f [] = []"
  by (simp add: update_where_def)

lemma update_where_map_key [table_simps]:
  "(\<And>r. key (f r) = key r) \<Longrightarrow> map key (update_where p f rows) = map key rows"
  by (simp add: update_where_def)

text \<open>In a keyed table a query by key has at most one row.\<close>

lemma keyed_filter_key:
  assumes "keyed key rows"
  shows "filter (\<lambda>r. key r = k \<and> p r) rows =
    (case find (\<lambda>r. key r = k) rows of None \<Rightarrow> [] | Some r \<Rightarrow> if p r then [r] else [])"
  using assms
proof (induction rows)
  case Nil
  then show ?case by simp
next
  case (Cons r rows)
  show ?case
  proof (cases "key r = k")
    case True
    with Cons.prems have "\<forall>x \<in> set rows. key x \<noteq> k"
      by (auto simp: keyed_def) (metis image_eqI)
    then have "filter (\<lambda>r. key r = k \<and> p r) rows = []"
      by (auto simp: filter_empty_conv)
    with True show ?thesis by simp
  next
    case False
    with Cons show ?thesis by (simp add: keyed_def)
  qed
qed

lemma keyed_scalar_one_or_none:
  assumes "keyed key rows"
  shows "scalar_one_or_none (filter (\<lambda>r. key r = k \<and> p r) rows) \<noteq> Inl e"
  by (auto simp: keyed_filter_key [OF assms] split: option.splits)

lemma scalar_one_or_none_Some:
  "scalar_one_or_none rows = Inr (Some r) \<longleftrightarrow> rows = [r]"
  by (cases rows rule: scalar_one_or_none.cases) auto

lemma scalar_one_or_none_None:
  "scalar_one_or_none rows = Inr None \<longleftrightarrow> rows = []"
  by (cases rows rule: scalar_one_or_none.cases) auto

lemma scalar_filter_Some:
  assumes "scalar_one_or_none (filter p rows) = Inr (Some r)"
  shows "r \<in> set rows \<and> p r"
proof -
  from assms have "filter p rows = [r]" by (simp add: scalar_one_or_none_Some)
  then have "r \<in> set (filter p rows)" by simp
  then show ?thesis by simp
qed

text \<open>A row of a keyed table is determined by its key.\<close>

lemma keyed_unique:
  "keyed key rows \<Longrightarrow> r \<in> set rows \<Longrightarrow> r' \<in> set rows \<Longrightarrow> key r = key r' \<Longrightarrow> r = r'"
  by (auto simp: keyed_def distinct_map inj_on_def)

lemma keyed_find:
  assumes "keyed key rows" and "a \<in> set rows" and "key a = k"
  shows "find (\<lambda>r. key r = k) rows = Some a"
proof (cases "find (\<lambda>r. key r = k) rows")
  case None
  with assms(2,3) show ?thesis by (auto simp: find_None_iff)
next
  case (Some b)
  then have "b \<in> set rows" "key b = k" by (auto simp: find_Some_iff)
  with Some assms show ?thesis by (metis keyed_unique)
qed

end
