(* ===== verification/Question_Data.thy ===== *)
theory Question_Data
  imports ATS_Prelude
begin

text \<open>
  What the question generator stores with a set of questions: the profile it sent to the language model (app/genai/prompts.py),
  the rows of the plan, and the reason of a failure (app/genai/client.py, app/genai/service.py). The code keeps the
  profile as a JSON column; the English and Persian sentences in it are named here instead of spelled.
\<close>

section \<open>The comparison of a candidate with an advert\<close>

datatype fit_note =
    Has_Required "utext list"
  | Extra_Skills "utext list"
  | Meets_Level rat utext rat
  | Only_Related utext utext
  | Not_In_Resume utext
  | Below_Level rat utext rat
  | Education_Below utext
  | Unverified_Period "utext option" utext

record FitAnalysis =
  fa_strengths :: "fit_note list"
  fa_gaps :: "fit_note list"
  fa_matched :: "utext list"
  fa_related :: "(utext \<times> utext) list"
  fa_missing :: "utext list"
  fa_additional :: "utext list"

section \<open>The profile that is sent to the model\<close>

record job_posting =
  jp_title :: utext
  jp_department :: "utext option"
  jp_seniority :: "utext option"
  jp_required_education :: "utext option"
  jp_required_skills :: "utext list"
  jp_location :: "utext option"
  jp_description :: utext

record candidate_profile =
  cp_skills :: "utext list"
  cp_total_experience_years :: rat
  cp_experience :: "(utext option \<times> utext option \<times> bool) list"
  cp_education :: "utext list"
  cp_match_score :: "int option"

record input_profile =
  ip_job :: job_posting
  ip_candidate :: candidate_profile
  ip_fit :: FitAnalysis
  ip_excerpt :: utext

section \<open>The rows of a plan\<close>

datatype slot_target =
    Gap_Related utext utext
  | Gap_Missing utext
  | Focus_Skill utext
  | Strength_Skill utext
  | Role_Seniority utext
  | Teamwork
  | Applied utext
  | General_Interview

record QuestionSlot =
  sl_category :: string
  sl_skill :: utext
  sl_difficulty :: string
  sl_target :: slot_target

section \<open>The reasons of a failure\<close>

datatype genai_message =
    Not_Configured
  | Timed_Out
  | Not_Connected
  | Http_Error int utext
  | Bad_Structure utext
  | Truncated_Output
  | Empty_Output
  | Invalid_Output
  | Queue_Unavailable

end
