(* ===== verification/ATS_Models.thy ===== *)
theory ATS_Models
  imports Question_Data
begin

text \<open>
  The relational schema (app/models): one record per mapped class, one field per column,
  \<open>option\<close> for a nullable column, and the database as the record of its tables. Columns
  that are encrypted at rest (EncryptedText, EncryptedJSON) hold their decrypted value,
  which is what the ORM hands to the program. Object relationships are not columns and are
  the joins of the queries.
\<close>

section \<open>Core tables\<close>

record user =
  u_id :: uuid
  u_email :: utext
  u_password_hash :: string
  u_role :: string
  u_is_active :: bool
  u_created_at :: time
  u_tenant_id :: "uuid option"
  u_data_consent_at :: "time option"
  u_data_consent_version :: "string option"
  u_anonymized_at :: "time option"

record company =
  co_id :: uuid
  co_name :: utext
  co_industry :: "utext option"
  co_logo_url :: "string option"
  co_owner_id :: uuid

record candidate =
  c_id :: uuid
  c_user_id :: uuid
  c_first_name :: utext
  c_last_name :: utext
  c_phone :: "utext option"
  c_skills :: "utext list option"
  c_location :: "utext option"

record job =
  j_id :: uuid
  j_tenant_id :: uuid
  j_company_id :: "uuid option"
  j_created_by :: uuid
  j_title :: utext
  j_department :: "utext option"
  j_description :: "utext option"
  j_skills_required :: "utext list option"
  j_salary_range :: "utext option"
  j_status :: string
  j_required_seniority :: "utext option"
  j_required_education :: "utext option"
  j_location :: "utext option"
  j_created_at :: time

section \<open>The hiring process\<close>

record application =
  a_id :: uuid
  a_tenant_id :: uuid
  a_job_id :: uuid
  a_candidate_id :: uuid
  a_current_status :: string
  a_score_ai :: "int option"
  a_created_at :: time
  a_updated_at :: time

record interview =
  i_id :: uuid
  i_tenant_id :: uuid
  i_application_id :: uuid
  i_interviewer_id :: uuid
  i_scheduled_at :: "time option"
  i_meeting_link :: "utext option"
  i_reminder_job_ids :: "string list option"
  i_status :: string
  i_evaluation_scores :: "(string \<times> int) list option"
  i_overall_score :: "rat option"
  i_feedback_text :: "utext option"
  i_evaluated_at :: "time option"

record resume =
  r_id :: uuid
  r_tenant_id :: uuid
  r_candidate_id :: uuid
  r_file_url :: string
  r_raw_text :: "utext option"
  r_search_tokens :: "string list option"
  r_parsed_data :: "json option"
  r_skill_analysis :: "json option"
  r_agent_analysis :: "json option"

record skill =
  sk_id :: nat
  sk_tenant_id :: "uuid option"
  sk_name :: utext

section \<open>Security and audit tables\<close>

record notification =
  n_id :: uuid
  n_user_id :: uuid
  n_title :: utext
  n_content :: "utext option"
  n_is_read :: bool
  n_category :: "utext option"
  n_created_at :: time

record status_history =
  sh_id :: uuid
  sh_tenant_id :: uuid
  sh_application_id :: uuid
  sh_old_status :: "string option"
  sh_new_status :: string
  sh_changed_by :: uuid
  sh_changed_at :: time

section \<open>The question bank\<close>

record interview_question_set =
  qs_id :: uuid
  qs_tenant_id :: uuid
  qs_application_id :: uuid
  qs_job_id :: uuid
  qs_candidate_id :: uuid
  qs_requested_by :: uuid
  qs_status :: string
  qs_language :: string
  qs_question_count :: nat
  qs_difficulty :: string
  qs_focus_skills :: "utext list"
  qs_prompt_version :: string
  qs_provider_model :: "string option"
  qs_input_profile :: "(input_profile \<times> QuestionSlot list option) option"
  qs_focus_summary :: "utext option"
  qs_error :: "genai_message option"
  qs_prompt_tokens :: "int option"
  qs_completion_tokens :: "int option"
  qs_latency_ms :: "int option"
  qs_attempts :: nat
  qs_created_at :: time
  qs_completed_at :: "time option"

record interview_question =
  iq_id :: uuid
  iq_tenant_id :: uuid
  iq_question_set_id :: uuid
  iq_position :: nat
  iq_category :: string
  iq_skill :: utext
  iq_difficulty :: string
  iq_question :: utext
  iq_purpose :: utext
  iq_expected_answer :: utext
  iq_evaluation_points :: "utext list"
  iq_red_flags :: "utext list"
  iq_follow_ups :: "utext list"
  iq_estimated_minutes :: nat
  iq_is_approved :: bool
  iq_interviewer_notes :: "utext option"
  iq_updated_by :: "uuid option"
  iq_updated_at :: "time option"

section \<open>The database\<close>

record db =
  users :: "user list"
  companies :: "company list"
  candidates :: "candidate list"
  jobs :: "job list"
  applications :: "application list"
  interviews :: "interview list"
  resumes :: "resume list"
  skills :: "skill list"
  notifications :: "notification list"
  histories :: "status_history list"
  question_sets :: "interview_question_set list"
  questions :: "interview_question list"

definition empty_db :: db where
  "empty_db = \<lparr>users = [], companies = [], candidates = [], jobs = [], applications = [],
     interviews = [], resumes = [], skills = [], notifications = [], histories = [],
     question_sets = [], questions = []\<rparr>"

lemma empty_db_simps [simp]:
  "users empty_db = []" "companies empty_db = []" "candidates empty_db = []" "jobs empty_db = []"
  "applications empty_db = []" "interviews empty_db = []" "resumes empty_db = []"
  "skills empty_db = []" "notifications empty_db = []" "histories empty_db = []"
  "question_sets empty_db = []" "questions empty_db = []"
  by (simp_all add: empty_db_def)

text \<open>The primary keys of the tables that the handlers write.\<close>

definition keyed_db :: "db \<Rightarrow> bool" where
  "keyed_db d \<longleftrightarrow> keyed u_id (users d) \<and> keyed co_id (companies d) \<and> keyed c_id (candidates d)
     \<and> keyed j_id (jobs d) \<and> keyed a_id (applications d) \<and> keyed i_id (interviews d)
     \<and> keyed r_id (resumes d) \<and> keyed sh_id (histories d)"

lemma keyed_db_empty [simp]: "keyed_db empty_db"
  by (simp add: keyed_db_def empty_db_def)

end
