(* ===== verification/Py_Uuid.thy ===== *)
theory Py_Uuid
  imports ATS_Prelude
begin

text \<open>
  The two conversions of Python's \<open>uuid.UUID\<close> that the program uses everywhere: \<open>str(u)\<close>,
  which puts identifiers into tokens, cursors and database settings, and \<open>UUID(text)\<close>,
  which reads them back and raises \<open>ValueError\<close> (here \<open>None\<close>) on anything else. Both follow
  CPython: the hexadecimal digits are read by \<open>int(hex, 16)\<close>, with the white space, sign,
  prefix and underscores that function accepts.
\<close>

section \<open>Hexadecimal digits\<close>

definition hex_char :: "nat \<Rightarrow> char" where
  "hex_char d = ''0123456789abcdef'' ! d"

definition hex_val :: "char \<Rightarrow> nat option" where
  "hex_val c = (case index_of ''0123456789abcdef'' c of
     Some d \<Rightarrow> Some d
   | None \<Rightarrow> index_of ''0123456789ABCDEF'' c)"

fun to_hex :: "nat \<Rightarrow> nat \<Rightarrow> string" where
  "to_hex 0 x = []"
| "to_hex (Suc n) x = to_hex n (x div 16) @ [hex_char (x mod 16)]"

text \<open>Digits separated by single underscores, as Python's \<open>int\<close> accepts them.\<close>

fun hex_digits :: "nat \<Rightarrow> string \<Rightarrow> nat option" where
  "hex_digits acc [] = Some acc"
| "hex_digits acc (c # cs) =
     (case hex_val c of
        Some d \<Rightarrow> hex_digits (16 * acc + d) cs
      | None \<Rightarrow>
          (if c = CHR ''_''
           then (case cs of [] \<Rightarrow> None
                 | c' # cs' \<Rightarrow> (case hex_val c' of None \<Rightarrow> None | Some d \<Rightarrow> hex_digits (16 * acc + d) cs'))
           else None))"

definition hex_number :: "string \<Rightarrow> nat option" where
  "hex_number s = (case s of [] \<Rightarrow> None | c # cs \<Rightarrow>
     (case hex_val c of None \<Rightarrow> None | Some d \<Rightarrow> hex_digits d cs))"

text \<open>After \<open>0x\<close> one underscore may precede the digits.\<close>

definition hex_prefixed :: "string \<Rightarrow> nat option" where
  "hex_prefixed s =
     (if take 2 s = ''0x'' \<or> take 2 s = ''0X''
      then hex_number (if take 1 (drop 2 s) = ''_'' then drop 3 s else drop 2 s)
      else hex_number s)"

definition ascii_space :: "char \<Rightarrow> bool" where
  "ascii_space c \<longleftrightarrow> c = CHR '' '' \<or> (9 \<le> (of_char c :: nat) \<and> (of_char c :: nat) \<le> 13)
     \<or> (28 \<le> (of_char c :: nat) \<and> (of_char c :: nat) \<le> 31)"

definition py_int16 :: "string \<Rightarrow> int option" where
  "py_int16 s = (let t = strip_by ascii_space s in
     case t of
       [] \<Rightarrow> None
     | c # cs \<Rightarrow>
         (if c = CHR ''-'' then map_option (\<lambda>n. - int n) (hex_prefixed cs)
          else if c = CHR ''+'' then map_option int (hex_prefixed cs)
          else map_option int (hex_prefixed t)))"

section \<open>The conversions\<close>

text \<open>\<open>str.replace(pat, '')\<close> for a non-empty pattern: occurrences from the left are removed.\<close>

function remove_all :: "'a list \<Rightarrow> 'a list \<Rightarrow> 'a list" where
  "remove_all pat s =
     (if pat = [] then s
      else case s of [] \<Rightarrow> []
      | c # cs \<Rightarrow> if take (length pat) s = pat then remove_all pat (drop (length pat) s)
                  else c # remove_all pat cs)"
  by pat_completeness auto
termination
  by (relation "measure (\<lambda>(pat, s). length s)") auto

declare remove_all.simps [simp del]

definition str_of_uuid :: "uuid \<Rightarrow> string" where
  "str_of_uuid u = (let h = to_hex 32 u in
     take 8 h @ ''-'' @ take 4 (drop 8 h) @ ''-'' @ take 4 (drop 12 h) @ ''-''
     @ take 4 (drop 16 h) @ ''-'' @ drop 20 h)"

definition uuid_of_str :: "string \<Rightarrow> uuid option" where
  "uuid_of_str s =
     (let h = remove_all ''uuid:'' (remove_all ''urn:'' s);
          h = remove_all ''-'' (strip_by (\<lambda>c. c \<in> set ''{}'') h)
      in if length h \<noteq> 32 then None
         else case py_int16 h of
           None \<Rightarrow> None
         | Some i \<Rightarrow> if 0 \<le> i \<and> i < 2 ^ 128 then Some (nat i) else None)"

section \<open>Library lemmas\<close>

lemma hex_val_char: "d < 16 \<Longrightarrow> hex_val (hex_char d) = Some d"
  using index_of_nth [of "''0123456789abcdef''" d] by (simp add: hex_val_def hex_char_def)

lemma length_to_hex [simp]: "length (to_hex n x) = n"
  by (induction n arbitrary: x) auto

lemma hex_val_to_hex: "c \<in> set (to_hex n x) \<Longrightarrow> hex_val c \<noteq> None"
  by (induction n arbitrary: x) (auto simp: hex_val_char)

lemma hex_digits_append:
  "(\<And>c. c \<in> set xs \<Longrightarrow> hex_val c \<noteq> None) \<Longrightarrow>
   hex_digits acc (xs @ ys) = (case hex_digits acc xs of None \<Rightarrow> None | Some a \<Rightarrow> hex_digits a ys)"
proof (induction xs arbitrary: acc)
  case Nil
  then show ?case by simp
next
  case (Cons x xs)
  from Cons.prems [of x] obtain d where d: "hex_val x = Some d" by auto
  have "hex_digits a (xs @ ys) = (case hex_digits a xs of None \<Rightarrow> None | Some a \<Rightarrow> hex_digits a ys)" for a
    by (rule Cons.IH) (rule Cons.prems, simp)
  with d show ?case by simp
qed

lemma hex_digits_to_hex: "x < 16 ^ n \<Longrightarrow> hex_digits acc (to_hex n x) = Some (acc * 16 ^ n + x)"
proof (induction n arbitrary: x)
  case 0
  then show ?case by simp
next
  case (Suc n)
  from Suc.prems have "x div 16 < 16 ^ n" by (simp add: less_mult_imp_div_less mult.commute)
  with Suc.IH have "hex_digits acc (to_hex n (x div 16)) = Some (acc * 16 ^ n + x div 16)" by simp
  moreover have "16 * (x div 16) + x mod 16 = x" by simp
  ultimately show ?case
    using hex_digits_append [of "to_hex n (x div 16)" acc "[hex_char (x mod 16)]"]
      hex_val_to_hex [of _ n "x div 16"]
    by (simp add: hex_val_char algebra_simps)
qed

lemma hex_not_special:
  "hex_val CHR ''-'' = None" "hex_val CHR ''_'' = None" "hex_val CHR ''u'' = None"
  "hex_val CHR ''{'' = None" "hex_val CHR ''}'' = None" "hex_val CHR ''+'' = None"
  "hex_val CHR ''x'' = None" "hex_val CHR ''X'' = None"
  by (simp_all add: hex_val_def)

lemma hex_val_chars: "hex_val c \<noteq> None \<longleftrightarrow> c \<in> set ''0123456789abcdef'' \<or> c \<in> set ''0123456789ABCDEF''"
  unfolding hex_val_def using index_of_None [of "''0123456789abcdef''" c] index_of_None [of "''0123456789ABCDEF''" c]
  by (auto simp del: index_of.simps list.set split: option.split)

lemma hex_not_space: "hex_val c \<noteq> None \<Longrightarrow> \<not> ascii_space c"
  unfolding hex_val_chars by (auto simp: ascii_space_def)

lemma remove_all_id: "c \<in> set pat \<Longrightarrow> c \<notin> set s \<Longrightarrow> remove_all pat s = s"
proof (induction s)
  case Nil
  then show ?case by (simp add: remove_all.simps)
next
  case (Cons a s)
  have "take (length pat) (a # s) \<noteq> pat"
    using Cons.prems by (metis in_set_takeD)
  with Cons show ?case by (auto simp: remove_all.simps [of pat "a # s"])
qed

lemma remove_char: "remove_all [c] s = filter (\<lambda>x. x \<noteq> c) s"
  by (induction s) (simp_all add: remove_all.simps)

lemma str_of_uuid_chars:
  "c \<in> set (str_of_uuid u) \<Longrightarrow> c = CHR ''-'' \<or> hex_val c \<noteq> None"
  using hex_val_to_hex [of c 32 u]
  by (auto simp: str_of_uuid_def Let_def dest: in_set_takeD in_set_dropD)

lemma take_drop_parts:
  "take 8 h @ take 4 (drop 8 h) @ take 4 (drop 12 h) @ take 4 (drop 16 h) @ drop 20 h = h"
proof -
  have "drop 8 h = take 4 (drop 8 h) @ drop 12 h"
    using append_take_drop_id [of 4 "drop 8 h"] by simp
  moreover have "drop 12 h = take 4 (drop 12 h) @ drop 16 h"
    using append_take_drop_id [of 4 "drop 12 h"] by simp
  moreover have "drop 16 h = take 4 (drop 16 h) @ drop 20 h"
    using append_take_drop_id [of 4 "drop 16 h"] by simp
  ultimately show ?thesis by (metis append_take_drop_id)
qed

lemma filter_hex: "filter (\<lambda>x. x \<noteq> CHR ''-'') h = h" if "\<And>c. c \<in> set h \<Longrightarrow> hex_val c \<noteq> None"
  using that hex_not_special(1) by (intro filter_True) metis

lemma dashes_removed: "remove_all ''-'' (str_of_uuid u) = to_hex 32 u"
proof -
  let ?h = "to_hex 32 u"
  have f: "filter (\<lambda>x. x \<noteq> CHR ''-'') xs = xs" if "set xs \<subseteq> set ?h" for xs
    using that hex_val_to_hex [of _ 32 u] by (intro filter_hex) auto
  have "remove_all ''-'' (str_of_uuid u) =
      take 8 ?h @ take 4 (drop 8 ?h) @ take 4 (drop 12 ?h) @ take 4 (drop 16 ?h) @ drop 20 ?h"
    by (simp add: remove_char str_of_uuid_def Let_def f set_take_subset set_drop_subset
        order_trans [OF set_take_subset set_drop_subset])
  then show ?thesis by (simp only: take_drop_parts)
qed

lemma py_int16_to_hex:
  assumes "u < 16 ^ 32"
  shows "py_int16 (to_hex 32 u) = Some (int u)"
proof -
  let ?h = "to_hex 32 u"
  have hex: "hex_val c \<noteq> None" if "c \<in> set ?h" for c using that by (rule hex_val_to_hex)
  obtain c cs where h: "?h = c # cs" by (cases ?h) (auto dest: arg_cong [of _ _ length])
  have strip: "strip_by ascii_space ?h = ?h"
    by (rule strip_by_id) (use hex hex_not_space in blast)
  have hc: "hex_val c \<noteq> None" using hex [of c] h by simp
  moreover have "hex_digits 0 ?h = Some u" using hex_digits_to_hex [OF assms, of 0] by simp
  ultimately have num: "hex_number ?h = Some u"
    using h by (auto simp: hex_number_def split: option.splits)
  have "CHR ''x'' \<notin> set (take 2 ?h)" "CHR ''X'' \<notin> set (take 2 ?h)"
    using hex hex_not_special(7,8) by (metis in_set_takeD)+
  then have "take 2 ?h \<noteq> ''0x''" "take 2 ?h \<noteq> ''0X''"
    by (metis list.set_intros)+
  then have pre: "hex_prefixed ?h = Some u" by (simp add: hex_prefixed_def num)
  have "c \<noteq> CHR ''-''" "c \<noteq> CHR ''+''" using hc hex_not_special(1,6) by metis+
  with strip pre h show ?thesis by (simp add: py_int16_def Let_def)
qed

text \<open>Reading back what \<open>str\<close> printed: the fact every identifier in a token relies on.\<close>

lemma uuid_round_trip:
  assumes "u < 2 ^ 128"
  shows "uuid_of_str (str_of_uuid u) = Some u"
proof -
  let ?s = "str_of_uuid u"
  have nin: "CHR ''u'' \<notin> set ?s"
    using str_of_uuid_chars [of "CHR ''u''" u] by (auto simp: hex_not_special)
  have "remove_all ''uuid:'' (remove_all ''urn:'' ?s) = ?s"
    using nin by (simp add: remove_all_id [of "CHR ''u''"])
  moreover have "strip_by (\<lambda>c. c \<in> set ''{}'') ?s = ?s"
    using str_of_uuid_chars [of "CHR ''{''" u] str_of_uuid_chars [of "CHR ''}''" u]
    by (intro strip_by_id) (auto simp: hex_not_special)
  moreover have "py_int16 (to_hex 32 u) = Some (int u)"
    using assms by (intro py_int16_to_hex) simp
  ultimately show ?thesis
    using assms by (simp add: uuid_of_str_def Let_def dashes_removed)
qed

lemma str_of_uuid_not_empty [simp]: "str_of_uuid u \<noteq> []"
  by (simp add: str_of_uuid_def Let_def)

lemma str_of_uuid_inj:
  "u < 2 ^ 128 \<Longrightarrow> v < 2 ^ 128 \<Longrightarrow> str_of_uuid u = str_of_uuid v \<longleftrightarrow> u = v"
  by (metis option.inject uuid_round_trip)

end
