(* ===== verification/Tenancy.thy ===== *)
theory Tenancy
  imports ATS_Models Py_Uuid
begin

text \<open>
  Multi-tenancy. The request context (app/core/tenancy.py), how a bearer token selects it,
  the settings it puts on the database transaction, the row-level-security policies of the
  migration d2f6b8a41c37, the criterion the ORM adds to every query of a staff request, and
  the stamping of new rows. Signature checking of tokens is the job of the jose library: a
  parameter \<open>decode_token\<close> that returns the claims of an accepted token.
\<close>

section \<open>Contexts\<close>

definition SCOPE_SYSTEM :: string where "SCOPE_SYSTEM = ''system''"
definition SCOPE_TENANT :: string where "SCOPE_TENANT = ''tenant''"
definition SCOPE_CANDIDATE :: string where "SCOPE_CANDIDATE = ''candidate''"
definition SCOPE_PUBLIC :: string where "SCOPE_PUBLIC = ''public''"

lemmas scope_defs = SCOPE_SYSTEM_def SCOPE_TENANT_def SCOPE_CANDIDATE_def SCOPE_PUBLIC_def

record TenantContext =
  ctx_scope :: string
  ctx_tenant_id :: "uuid option"
  ctx_user_id :: "uuid option"

definition is_system :: "TenantContext \<Rightarrow> bool" where
  "is_system ctx \<longleftrightarrow> ctx_scope ctx = SCOPE_SYSTEM"

definition SYSTEM_CONTEXT :: TenantContext where
  "SYSTEM_CONTEXT = \<lparr>ctx_scope = SCOPE_SYSTEM, ctx_tenant_id = None, ctx_user_id = None\<rparr>"

definition PUBLIC_CONTEXT :: TenantContext where
  "PUBLIC_CONTEXT = \<lparr>ctx_scope = SCOPE_PUBLIC, ctx_tenant_id = None, ctx_user_id = None\<rparr>"

definition tenant_context :: "uuid \<Rightarrow> uuid \<Rightarrow> TenantContext" where
  "tenant_context t u = \<lparr>ctx_scope = SCOPE_TENANT, ctx_tenant_id = Some t, ctx_user_id = Some u\<rparr>"

definition candidate_context :: "uuid \<Rightarrow> TenantContext" where
  "candidate_context u = \<lparr>ctx_scope = SCOPE_CANDIDATE, ctx_tenant_id = None, ctx_user_id = Some u\<rparr>"

text \<open>The claims the program reads from a token whose signature and expiry were accepted.\<close>

record claims =
  cl_type :: "string option"
  cl_sub :: "string option"
  cl_tid :: "string option"
  cl_sid :: "string option"
  cl_jti :: "string option"

text \<open>\<open>str(None)\<close> is the text None, which is no UUID.\<close>

definition str_of_claim :: "string option \<Rightarrow> string" where
  "str_of_claim c = (case c of None \<Rightarrow> ''None'' | Some s \<Rightarrow> s)"

definition context_from_token :: "(string \<Rightarrow> claims option) \<Rightarrow> string option \<Rightarrow> TenantContext" where
  "context_from_token decode_token token =
     (case token of
        None \<Rightarrow> PUBLIC_CONTEXT
      | Some tok \<Rightarrow>
          if tok = [] then PUBLIC_CONTEXT
          else case decode_token tok of
            None \<Rightarrow> PUBLIC_CONTEXT
          | Some payload \<Rightarrow>
              if cl_type payload \<noteq> Some ''access'' then PUBLIC_CONTEXT
              else case uuid_of_str (str_of_claim (cl_sub payload)) of
                None \<Rightarrow> PUBLIC_CONTEXT
              | Some user_id \<Rightarrow>
                  (case cl_tid payload of
                     None \<Rightarrow> candidate_context user_id
                   | Some tid \<Rightarrow>
                       if tid = [] then candidate_context user_id
                       else case uuid_of_str tid of
                         None \<Rightarrow> PUBLIC_CONTEXT
                       | Some t \<Rightarrow> tenant_context t user_id))"

text \<open>
  The middleware: the first \<open>authorization\<close> header decides; header values are Latin-1, which
  is what \<open>char\<close> is.
\<close>

definition ascii_lower :: "char \<Rightarrow> char" where
  "ascii_lower c = (case index_of ''ABCDEFGHIJKLMNOPQRSTUVWXYZ'' c of
     None \<Rightarrow> c | Some i \<Rightarrow> ''abcdefghijklmnopqrstuvwxyz'' ! i)"

definition latin1_space :: "char \<Rightarrow> bool" where
  "latin1_space c \<longleftrightarrow> ascii_space c \<or> of_char c = (133::nat) \<or> of_char c = (160::nat)"

definition bearer_token :: "(string \<times> string) list \<Rightarrow> string option" where
  "bearer_token headers =
     (case find (\<lambda>h. fst h = ''authorization'') headers of
        None \<Rightarrow> None
      | Some (_, value) \<Rightarrow>
          (let scheme = takeWhile (\<lambda>c. c \<noteq> CHR '' '') value;
               credentials = drop (Suc (length scheme)) value
           in if map ascii_lower scheme = ''bearer'' then Some (strip_by latin1_space credentials)
              else None))"

definition middleware_context ::
  "(string \<Rightarrow> claims option) \<Rightarrow> (string \<times> string) list \<Rightarrow> TenantContext" where
  "middleware_context decode_token headers = context_from_token decode_token (bearer_token headers)"

section \<open>Transaction settings\<close>

definition DB_RLS_ROLE :: string where "DB_RLS_ROLE = ''ats_app''"

record guc =
  g_role :: string
  g_scope :: string
  g_tenant_id :: string
  g_user_id :: string

definition context_parameters :: "TenantContext \<Rightarrow> guc" where
  "context_parameters ctx =
     \<lparr>g_role = (if is_system ctx then ''none'' else DB_RLS_ROLE),
      g_scope = (if is_system ctx then '''' else ctx_scope ctx),
      g_tenant_id = (case ctx_tenant_id ctx of None \<Rightarrow> '''' | Some t \<Rightarrow> str_of_uuid t),
      g_user_id = (case ctx_user_id ctx of None \<Rightarrow> '''' | Some u \<Rightarrow> str_of_uuid u)\<rparr>"

text \<open>\<open>NULLIF(current_setting(...), '')::uuid\<close>\<close>

definition app_current_tenant :: "guc \<Rightarrow> uuid option" where
  "app_current_tenant s = (if g_tenant_id s = '''' then None else uuid_of_str (g_tenant_id s))"

definition app_current_scope :: "guc \<Rightarrow> string" where
  "app_current_scope s = (if g_scope s = '''' then ''public'' else g_scope s)"

definition app_current_user_id :: "guc \<Rightarrow> uuid option" where
  "app_current_user_id s = (if g_user_id s = '''' then None else uuid_of_str (g_user_id s))"

definition app_current_candidate_id :: "guc \<Rightarrow> db \<Rightarrow> uuid option" where
  "app_current_candidate_id s d =
     map_option c_id (find (\<lambda>c. app_current_scope s = ''candidate''
        \<and> app_current_user_id s = Some (c_user_id c)) (candidates d))"

section \<open>Row-level security\<close>

text \<open>
  A policy: its name, its command, and its USING and WITH CHECK expressions as predicates on
  a row (a comparison with SQL's NULL does not hold). The table owner, which is the role of
  the workers and of the system scope, is exempt. Otherwise a row is visible to a command if
  some policy of that command (or of ALL) admits it, and may be written if some policy's
  check admits it; without a check the USING expression serves as the check.
\<close>

datatype rls_cmd = R_ALL | R_SELECT | R_INSERT | R_UPDATE | R_DELETE

type_synonym 'r policy = "string \<times> rls_cmd \<times> ('r \<Rightarrow> bool) option \<times> ('r \<Rightarrow> bool) option"

definition owner :: "guc \<Rightarrow> bool" where
  "owner s \<longleftrightarrow> g_role s = ''none''"

fun using_admits :: "rls_cmd \<Rightarrow> 'r \<Rightarrow> 'r policy \<Rightarrow> bool" where
  "using_admits cmd r (n, c, us, ch) \<longleftrightarrow>
     (c = R_ALL \<or> c = cmd) \<and> (case us of None \<Rightarrow> True | Some f \<Rightarrow> f r)"

fun check_admits :: "rls_cmd \<Rightarrow> 'r \<Rightarrow> 'r policy \<Rightarrow> bool" where
  "check_admits cmd r (n, c, us, ch) \<longleftrightarrow>
     (c = R_ALL \<or> c = cmd) \<and>
     (case ch of Some f \<Rightarrow> f r | None \<Rightarrow> (case us of None \<Rightarrow> True | Some f \<Rightarrow> f r))"

definition rls_visible :: "guc \<Rightarrow> 'r policy list \<Rightarrow> rls_cmd \<Rightarrow> 'r \<Rightarrow> bool" where
  "rls_visible s pols cmd r \<longleftrightarrow> owner s \<or> list_ex (using_admits cmd r) pols"

definition rls_check :: "guc \<Rightarrow> 'r policy list \<Rightarrow> rls_cmd \<Rightarrow> 'r \<Rightarrow> bool" where
  "rls_check s pols cmd r \<longleftrightarrow> owner s \<or> list_ex (check_admits cmd r) pols"

definition tenant_match :: "guc \<Rightarrow> uuid \<Rightarrow> bool" where
  "tenant_match s t \<longleftrightarrow> app_current_tenant s = Some t"

definition own_candidate :: "guc \<Rightarrow> db \<Rightarrow> uuid \<Rightarrow> bool" where
  "own_candidate s d c \<longleftrightarrow> app_current_candidate_id s d = Some c"

text \<open>The policies, table by table, in the order of the migration; a sub-select of a policy
  reads its table through that table's own policies.\<close>

definition companies_policies :: "guc \<Rightarrow> company policy list" where
  "companies_policies s =
     [(''tenant_self_read'', R_SELECT, Some (\<lambda>c. tenant_match s (co_id c)), None),
      (''tenant_self_update'', R_UPDATE, Some (\<lambda>c. tenant_match s (co_id c)),
         Some (\<lambda>c. tenant_match s (co_id c)))]"

definition jobs_policies :: "guc \<Rightarrow> job policy list" where
  "jobs_policies s =
     [(''tenant_isolation'', R_ALL, Some (\<lambda>j. tenant_match s (j_tenant_id j)),
         Some (\<lambda>j. tenant_match s (j_tenant_id j))),
      (''public_read'', R_SELECT, Some (\<lambda>j. app_current_scope s \<in> {''public'', ''candidate''}), None)]"

definition rls_jobs :: "guc \<Rightarrow> db \<Rightarrow> job list" where
  "rls_jobs s d = filter (rls_visible s (jobs_policies s) R_SELECT) (jobs d)"

definition job_tenant :: "guc \<Rightarrow> db \<Rightarrow> application \<Rightarrow> bool" where
  "job_tenant s d a \<longleftrightarrow>
     map_option j_tenant_id (find (\<lambda>j. j_id j = a_job_id a) (rls_jobs s d)) = Some (a_tenant_id a)"

definition applications_policies :: "guc \<Rightarrow> db \<Rightarrow> application policy list" where
  "applications_policies s d =
     [(''tenant_isolation'', R_ALL, Some (\<lambda>a. tenant_match s (a_tenant_id a)),
         Some (\<lambda>a. tenant_match s (a_tenant_id a))),
      (''candidate_read'', R_SELECT, Some (\<lambda>a. own_candidate s d (a_candidate_id a)), None),
      (''candidate_apply'', R_INSERT, None,
         Some (\<lambda>a. own_candidate s d (a_candidate_id a) \<and> job_tenant s d a)),
      (''candidate_respond'', R_UPDATE, Some (\<lambda>a. own_candidate s d (a_candidate_id a)),
         Some (\<lambda>a. own_candidate s d (a_candidate_id a) \<and> job_tenant s d a))]"

definition rls_applications :: "guc \<Rightarrow> db \<Rightarrow> application list" where
  "rls_applications s d = filter (rls_visible s (applications_policies s d) R_SELECT) (applications d)"

definition candidates_policies :: "guc \<Rightarrow> db \<Rightarrow> candidate policy list" where
  "candidates_policies s d =
     [(''candidate_self'', R_ALL,
         Some (\<lambda>c. app_current_scope s = ''candidate'' \<and> app_current_user_id s = Some (c_user_id c)),
         Some (\<lambda>c. app_current_scope s = ''candidate'' \<and> app_current_user_id s = Some (c_user_id c))),
      (''tenant_applicants_read'', R_SELECT,
         Some (\<lambda>c. list_ex (\<lambda>a. a_candidate_id a = c_id c \<and> tenant_match s (a_tenant_id a))
                 (rls_applications s d)), None)]"

definition resumes_policies :: "guc \<Rightarrow> db \<Rightarrow> resume policy list" where
  "resumes_policies s d =
     [(''tenant_isolation'', R_ALL, Some (\<lambda>r. tenant_match s (r_tenant_id r)),
         Some (\<lambda>r. tenant_match s (r_tenant_id r))),
      (''candidate_read'', R_SELECT, Some (\<lambda>r. own_candidate s d (r_candidate_id r)), None),
      (''candidate_upload'', R_INSERT, None,
         Some (\<lambda>r. own_candidate s d (r_candidate_id r)
                 \<and> list_ex (\<lambda>j. j_tenant_id j = r_tenant_id r) (rls_jobs s d)))]"

definition interviews_policies :: "guc \<Rightarrow> interview policy list" where
  "interviews_policies s =
     [(''tenant_isolation'', R_ALL, Some (\<lambda>i. tenant_match s (i_tenant_id i)),
         Some (\<lambda>i. tenant_match s (i_tenant_id i)))]"

definition histories_policies :: "guc \<Rightarrow> db \<Rightarrow> status_history policy list" where
  "histories_policies s d =
     [(''tenant_isolation'', R_ALL, Some (\<lambda>h. tenant_match s (sh_tenant_id h)),
         Some (\<lambda>h. tenant_match s (sh_tenant_id h))),
      (''candidate_read'', R_SELECT,
         Some (\<lambda>h. list_ex (\<lambda>a. a_id a = sh_application_id h \<and> own_candidate s d (a_candidate_id a))
                 (rls_applications s d)), None),
      (''candidate_insert'', R_INSERT, None,
         Some (\<lambda>h. list_ex (\<lambda>a. a_id a = sh_application_id h \<and> own_candidate s d (a_candidate_id a)
                               \<and> a_tenant_id a = sh_tenant_id h) (rls_applications s d)))]"

definition question_sets_policies :: "guc \<Rightarrow> interview_question_set policy list" where
  "question_sets_policies s =
     [(''tenant_isolation'', R_ALL, Some (\<lambda>q. tenant_match s (qs_tenant_id q)),
         Some (\<lambda>q. tenant_match s (qs_tenant_id q)))]"

definition questions_policies :: "guc \<Rightarrow> interview_question policy list" where
  "questions_policies s =
     [(''tenant_isolation'', R_ALL, Some (\<lambda>q. tenant_match s (iq_tenant_id q)),
         Some (\<lambda>q. tenant_match s (iq_tenant_id q)))]"

definition skills_policies :: "guc \<Rightarrow> skill policy list" where
  "skills_policies s =
     [(''shared_read'', R_SELECT,
         Some (\<lambda>k. sk_tenant_id k = None \<or> (sk_tenant_id k \<noteq> None \<and> sk_tenant_id k = app_current_tenant s)), None),
      (''tenant_custom'', R_ALL,
         Some (\<lambda>k. sk_tenant_id k \<noteq> None \<and> sk_tenant_id k = app_current_tenant s),
         Some (\<lambda>k. sk_tenant_id k \<noteq> None \<and> sk_tenant_id k = app_current_tenant s))]"

lemmas policy_defs = companies_policies_def jobs_policies_def applications_policies_def
  candidates_policies_def resumes_policies_def interviews_policies_def histories_policies_def
  question_sets_policies_def questions_policies_def skills_policies_def

section \<open>The ORM's own criterion and the stamping of new rows\<close>

record execute_state =
  is_column_load :: bool
  is_select :: bool
  is_update :: bool
  is_delete :: bool

text \<open>
  The criteria added to a statement: one for the classes of \<open>TenantMixin\<close>, one for those of
  \<open>SharedTenantMixin\<close>; no criterion is the predicate that holds of every row.
\<close>

definition add_tenant_criteria ::
  "TenantContext \<Rightarrow> execute_state \<Rightarrow> (uuid \<Rightarrow> bool) \<times> (uuid option \<Rightarrow> bool)" where
  "add_tenant_criteria ctx st =
     (if ctx_scope ctx \<noteq> SCOPE_TENANT \<or> is_column_load st then (\<lambda>_. True, \<lambda>_. True)
      else if \<not> (is_select st \<or> is_update st \<or> is_delete st) then (\<lambda>_. True, \<lambda>_. True)
      else (\<lambda>t. ctx_tenant_id ctx = Some t,
            if is_select st then (\<lambda>t. (t \<noteq> None \<and> t = ctx_tenant_id ctx) \<or> t = None)
            else (\<lambda>t. t \<noteq> None \<and> t = ctx_tenant_id ctx)))"

definition select_state :: execute_state where
  "select_state = \<lparr>is_column_load = False, is_select = True, is_update = False, is_delete = False\<rparr>"

abbreviation tenant_criterion :: "TenantContext \<Rightarrow> uuid \<Rightarrow> bool" where
  "tenant_criterion ctx \<equiv> fst (add_tenant_criteria ctx select_state)"

text \<open>
  Before a flush, in tenant scope, each new row that carries a tenant column: an empty
  column is filled, a foreign tenant is refused. A row is given by whether its class has
  the column and by the column's value.
\<close>

fun stamp_tenant_on_new_rows :: "TenantContext \<Rightarrow> (bool \<times> uuid option) list \<Rightarrow> exc + (bool \<times> uuid option) list" where
  "stamp_tenant_on_new_rows ctx [] = Inr []"
| "stamp_tenant_on_new_rows ctx ((mixin, t) # rows) =
     (if ctx_scope ctx \<noteq> SCOPE_TENANT then Inr ((mixin, t) # rows)
      else if mixin \<and> t \<noteq> None \<and> t \<noteq> ctx_tenant_id ctx then Inl TenantAccessError
      else case stamp_tenant_on_new_rows ctx rows of
        Inl e \<Rightarrow> Inl e
      | Inr rows' \<Rightarrow> Inr ((mixin, if mixin \<and> t = None then ctx_tenant_id ctx else t) # rows'))"

text \<open>What a query of the request reads: the rows the policies show, under the ORM's criterion.\<close>

definition select_jobs :: "TenantContext \<Rightarrow> db \<Rightarrow> job list" where
  "select_jobs ctx d = filter (\<lambda>j. tenant_criterion ctx (j_tenant_id j)) (rls_jobs (context_parameters ctx) d)"

definition select_applications :: "TenantContext \<Rightarrow> db \<Rightarrow> application list" where
  "select_applications ctx d =
     filter (\<lambda>a. tenant_criterion ctx (a_tenant_id a)) (rls_applications (context_parameters ctx) d)"

definition select_candidates :: "TenantContext \<Rightarrow> db \<Rightarrow> candidate list" where
  "select_candidates ctx d =
     filter (rls_visible (context_parameters ctx) (candidates_policies (context_parameters ctx) d) R_SELECT)
       (candidates d)"

definition select_resumes :: "TenantContext \<Rightarrow> db \<Rightarrow> resume list" where
  "select_resumes ctx d =
     filter (\<lambda>r. tenant_criterion ctx (r_tenant_id r)
        \<and> rls_visible (context_parameters ctx) (resumes_policies (context_parameters ctx) d) R_SELECT r)
       (resumes d)"

definition select_interviews :: "TenantContext \<Rightarrow> db \<Rightarrow> interview list" where
  "select_interviews ctx d =
     filter (\<lambda>i. tenant_criterion ctx (i_tenant_id i)
        \<and> rls_visible (context_parameters ctx) (interviews_policies (context_parameters ctx)) R_SELECT i)
       (interviews d)"

section \<open>Library lemmas\<close>

lemma ctx_simps [simp]:
  "ctx_scope (tenant_context t u) = SCOPE_TENANT" "ctx_tenant_id (tenant_context t u) = Some t"
  "ctx_user_id (tenant_context t u) = Some u"
  "ctx_scope (candidate_context u) = SCOPE_CANDIDATE" "ctx_tenant_id (candidate_context u) = None"
  "ctx_user_id (candidate_context u) = Some u"
  "ctx_scope PUBLIC_CONTEXT = SCOPE_PUBLIC" "ctx_tenant_id PUBLIC_CONTEXT = None"
  "ctx_user_id PUBLIC_CONTEXT = None"
  by (simp_all add: tenant_context_def candidate_context_def PUBLIC_CONTEXT_def)

text \<open>What the three request scopes look like to the policies.\<close>

lemma settings_tenant:
  assumes "t < 2 ^ 128"
  shows "app_current_tenant (context_parameters (tenant_context t u)) = Some t"
    "app_current_scope (context_parameters (tenant_context t u)) = ''tenant''"
    "\<not> owner (context_parameters (tenant_context t u))"
    "app_current_candidate_id (context_parameters (tenant_context t u)) d = None"
  using assms
  by (simp_all add: context_parameters_def app_current_tenant_def app_current_scope_def
      app_current_candidate_id_def is_system_def owner_def scope_defs DB_RLS_ROLE_def
      uuid_round_trip find_None_iff)

lemma settings_candidate:
  assumes "u < 2 ^ 128"
  shows "app_current_tenant (context_parameters (candidate_context u)) = None"
    "app_current_scope (context_parameters (candidate_context u)) = ''candidate''"
    "app_current_user_id (context_parameters (candidate_context u)) = Some u"
    "\<not> owner (context_parameters (candidate_context u))"
  using assms
  by (simp_all add: context_parameters_def app_current_tenant_def app_current_scope_def
      app_current_user_id_def is_system_def owner_def scope_defs DB_RLS_ROLE_def uuid_round_trip)

lemma settings_public:
  "app_current_tenant (context_parameters PUBLIC_CONTEXT) = None"
  "app_current_scope (context_parameters PUBLIC_CONTEXT) = ''public''"
  "\<not> owner (context_parameters PUBLIC_CONTEXT)"
  "app_current_candidate_id (context_parameters PUBLIC_CONTEXT) d = None"
  by (simp_all add: context_parameters_def app_current_tenant_def app_current_scope_def
      app_current_candidate_id_def is_system_def owner_def scope_defs DB_RLS_ROLE_def find_None_iff)

lemma settings_system: "owner (context_parameters SYSTEM_CONTEXT)"
  by (simp add: context_parameters_def SYSTEM_CONTEXT_def is_system_def owner_def scope_defs)

lemma candidate_id_of_user:
  assumes "u < 2 ^ 128" and "c \<in> set (candidates d)" and "c_user_id c = u"
    and "keyed c_user_id (candidates d)"
  shows "app_current_candidate_id (context_parameters (candidate_context u)) d = Some (c_id c)"
proof -
  have "find (\<lambda>x. c_user_id x = u) (candidates d) = Some c"
    using keyed_find [OF assms(4,2,3)] .
  then show ?thesis
    using assms(1) by (simp add: app_current_candidate_id_def settings_candidate eq_commute [of "Some u"]
        eq_commute [of u])
qed

section \<open>The contract of a tenant table\<close>

text \<open>Only the organisation and the scope of the settings count, not the user.\<close>

definition tenant_settings :: "guc \<Rightarrow> db \<Rightarrow> uuid \<Rightarrow> bool" where
  "tenant_settings s d t \<longleftrightarrow> app_current_tenant s = Some t \<and> app_current_scope s = ''tenant'' \<and> \<not> owner s
     \<and> app_current_candidate_id s d = None"

text \<open>
  A table whose rows carry a tenant: it has the isolation policy, and in tenant scope no
  other policy of the table admits anything. The facts below hold for every such table.
\<close>

locale tenant_table =
  fixes tid :: "'r \<Rightarrow> uuid"
    and pols :: "guc \<Rightarrow> db \<Rightarrow> 'r policy list"
  assumes isolation: "(''tenant_isolation'', R_ALL, Some (\<lambda>r. tenant_match s (tid r)),
      Some (\<lambda>r. tenant_match s (tid r))) \<in> set (pols s d)"
    and others: "(n, c, us, ch) \<in> set (pols s d) \<Longrightarrow> app_current_scope s = ''tenant'' \<Longrightarrow>
      app_current_candidate_id s d = None \<Longrightarrow>
      (c \<noteq> R_INSERT \<longrightarrow> (\<exists>f. us = Some f \<and> (f r \<longrightarrow> tenant_match s (tid r)))) \<and>
      (c \<noteq> R_SELECT \<longrightarrow> (\<exists>f. ch = Some f \<and> (f r \<longrightarrow> tenant_match s (tid r))))"
begin

lemma visible_settings:
  assumes "tenant_settings s d t" and "cmd \<noteq> R_INSERT" and "cmd \<noteq> R_ALL"
  shows "rls_visible s (pols s d) cmd r \<longleftrightarrow> tid r = t"
proof -
  note st = assms(1) [unfolded tenant_settings_def]
  have match: "tenant_match s (tid r) \<longleftrightarrow> tid r = t" using st by (auto simp: tenant_match_def)
  have "tid r = t" if p: "p \<in> set (pols s d)" "using_admits cmd r p" for p
  proof (cases p)
    case (fields n c us ch)
    with p others [of n c us ch s d r] assms(2) match st show ?thesis by auto
  qed
  moreover have "list_ex (using_admits cmd r) (pols s d)" if "tid r = t"
    using isolation [of s d] that match by (auto simp: list_ex_iff intro!: bexI)
  ultimately show ?thesis using st by (auto simp: rls_visible_def list_ex_iff)
qed

lemma visible_iff:
  assumes "t < 2 ^ 128" and "cmd \<noteq> R_INSERT" and "cmd \<noteq> R_ALL"
  shows "rls_visible (context_parameters (tenant_context t u))
      (pols (context_parameters (tenant_context t u)) d) cmd r \<longleftrightarrow> tid r = t"
  using assms by (intro visible_settings) (simp_all add: tenant_settings_def settings_tenant)

lemma check_iff:
  assumes "t < 2 ^ 128" and "cmd \<noteq> R_SELECT" and "cmd \<noteq> R_ALL"
  shows "rls_check (context_parameters (tenant_context t u))
      (pols (context_parameters (tenant_context t u)) d) cmd r \<longleftrightarrow> tid r = t"
proof -
  let ?s = "context_parameters (tenant_context t u)"
  note st = settings_tenant [OF assms(1)]
  have match: "tenant_match ?s (tid r) \<longleftrightarrow> tid r = t" by (auto simp: tenant_match_def st)
  have "tid r = t" if p: "p \<in> set (pols ?s d)" "check_admits cmd r p" for p
  proof (cases p)
    case (fields n c us ch)
    with p others [of n c us ch ?s d r] assms(2) match show ?thesis
      by (auto simp: st)
  qed
  moreover have "list_ex (check_admits cmd r) (pols ?s d)" if "tid r = t"
    using isolation [of ?s d] that match by (auto simp: list_ex_iff intro!: bexI)
  ultimately show ?thesis by (auto simp: rls_check_def st list_ex_iff)
qed

lemma filter_visible:
  "t < 2 ^ 128 \<Longrightarrow>
   filter (rls_visible (context_parameters (tenant_context t u))
      (pols (context_parameters (tenant_context t u)) d) R_SELECT) rows = filter (\<lambda>r. tid r = t) rows"
  by (simp add: visible_iff cong: filter_cong)

end

interpretation jobs_tt: tenant_table j_tenant_id "\<lambda>s d. jobs_policies s"
  by unfold_locales (auto simp: jobs_policies_def)

interpretation applications_tt: tenant_table a_tenant_id applications_policies
  by unfold_locales (auto simp: applications_policies_def own_candidate_def)

interpretation resumes_tt: tenant_table r_tenant_id resumes_policies
  by unfold_locales (auto simp: resumes_policies_def own_candidate_def)

interpretation interviews_tt: tenant_table i_tenant_id "\<lambda>s d. interviews_policies s"
  by unfold_locales (auto simp: interviews_policies_def)

interpretation histories_tt: tenant_table sh_tenant_id histories_policies
  by unfold_locales (auto simp: histories_policies_def own_candidate_def list_ex_iff)

interpretation question_sets_tt: tenant_table qs_tenant_id "\<lambda>s d. question_sets_policies s"
  by unfold_locales (auto simp: question_sets_policies_def)

interpretation questions_tt: tenant_table iq_tenant_id "\<lambda>s d. questions_policies s"
  by unfold_locales (auto simp: questions_policies_def)

lemma criterion_tenant [simp]: "tenant_criterion (tenant_context t u) x \<longleftrightarrow> x = t"
  by (auto simp: add_tenant_criteria_def select_state_def)

lemma criterion_candidate [simp]: "tenant_criterion (candidate_context u) x"
  by (simp add: add_tenant_criteria_def scope_defs)

lemma criterion_public [simp]: "tenant_criterion PUBLIC_CONTEXT x"
  by (simp add: add_tenant_criteria_def scope_defs)

lemma criterion_system: "tenant_criterion SYSTEM_CONTEXT t"
  by (simp add: add_tenant_criteria_def SYSTEM_CONTEXT_def scope_defs)

lemma visible_system: "rls_visible (context_parameters SYSTEM_CONTEXT) pols cmd r"
    "rls_check (context_parameters SYSTEM_CONTEXT) pols cmd r"
  by (simp_all add: rls_visible_def rls_check_def settings_system)

lemma select_applications_tenant:
  "t < 2 ^ 128 \<Longrightarrow> select_applications (tenant_context t u) d = filter (\<lambda>a. a_tenant_id a = t) (applications d)"
  by (simp add: select_applications_def rls_applications_def applications_tt.filter_visible)

lemma select_jobs_tenant:
  "t < 2 ^ 128 \<Longrightarrow> select_jobs (tenant_context t u) d = filter (\<lambda>j. j_tenant_id j = t) (jobs d)"
  by (simp add: select_jobs_def rls_jobs_def jobs_tt.filter_visible)

lemma select_resumes_tenant:
  "t < 2 ^ 128 \<Longrightarrow> select_resumes (tenant_context t u) d = filter (\<lambda>r. r_tenant_id r = t) (resumes d)"
  by (auto simp: select_resumes_def resumes_tt.visible_iff intro: filter_cong)

lemma select_interviews_tenant:
  "t < 2 ^ 128 \<Longrightarrow> select_interviews (tenant_context t u) d = filter (\<lambda>i. i_tenant_id i = t) (interviews d)"
  by (auto simp: select_interviews_def interviews_tt.visible_iff intro: filter_cong)

lemma rls_jobs_candidate:
  "u < 2 ^ 128 \<Longrightarrow> rls_jobs (context_parameters (candidate_context u)) d = jobs d"
  by (simp add: rls_jobs_def rls_visible_def jobs_policies_def settings_candidate)

lemma select_jobs_candidate:
  "u < 2 ^ 128 \<Longrightarrow> select_jobs (candidate_context u) d = jobs d"
  by (simp add: select_jobs_def rls_jobs_candidate)

lemma rls_applications_candidate:
  "u < 2 ^ 128 \<Longrightarrow> rls_applications (context_parameters (candidate_context u)) d =
     filter (\<lambda>a. own_candidate (context_parameters (candidate_context u)) d (a_candidate_id a)) (applications d)"
  by (simp add: rls_applications_def rls_visible_def applications_policies_def settings_candidate
      tenant_match_def cong: filter_cong)

section \<open>Properties\<close>

text \<open>
  C2. Tenant isolation on reads, and defence in depth. For a staff request of tenant t the
  row-level-security policies alone already show exactly the rows of t in each of the seven
  tenant tables, and the ORM criterion alone selects the same rows; so neither layer
  depends on the other.
\<close>

theorem tenant_reads_exactly_own_rows:
  assumes "t < 2 ^ 128" and "s = context_parameters (tenant_context t u)"
  shows "filter (rls_visible s (jobs_policies s) R_SELECT) (jobs d) = filter (\<lambda>j. j_tenant_id j = t) (jobs d)
    \<and> filter (rls_visible s (applications_policies s d) R_SELECT) (applications d)
        = filter (\<lambda>a. a_tenant_id a = t) (applications d)
    \<and> filter (rls_visible s (resumes_policies s d) R_SELECT) (resumes d)
        = filter (\<lambda>r. r_tenant_id r = t) (resumes d)
    \<and> filter (rls_visible s (interviews_policies s) R_SELECT) (interviews d)
        = filter (\<lambda>i. i_tenant_id i = t) (interviews d)
    \<and> filter (rls_visible s (histories_policies s d) R_SELECT) (histories d)
        = filter (\<lambda>h. sh_tenant_id h = t) (histories d)
    \<and> filter (rls_visible s (question_sets_policies s) R_SELECT) (question_sets d)
        = filter (\<lambda>q. qs_tenant_id q = t) (question_sets d)
    \<and> filter (rls_visible s (questions_policies s) R_SELECT) (questions d)
        = filter (\<lambda>q. iq_tenant_id q = t) (questions d)
    \<and> tenant_criterion (tenant_context t u) x = (x = t)"
  using assms(1)
  by (simp add: assms(2) jobs_tt.filter_visible applications_tt.filter_visible
      resumes_tt.filter_visible interviews_tt.filter_visible histories_tt.filter_visible
      question_sets_tt.filter_visible questions_tt.filter_visible)

theorem tenant_reads_exactly_own_rows_witness:
  "(5::uuid) < 2 ^ 128 \<and>
   filter (rls_visible (context_parameters (tenant_context 5 9))
      (interviews_policies (context_parameters (tenant_context 5 9))) R_SELECT) (interviews empty_db)
     = filter (\<lambda>i. i_tenant_id i = 5) (interviews empty_db)"
  using tenant_reads_exactly_own_rows [of 5 _ 9 empty_db] by simp

text \<open>
  C3. Tenant isolation on writes. In a staff request of tenant t the checks of the policies
  accept an inserted or updated row of a tenant table only if it belongs to t, and the
  stamping either refuses the flush or leaves every new row of a tenant class with tenant t.
\<close>

theorem tenant_writes_only_own_rows:
  assumes "t < 2 ^ 128" and "s = context_parameters (tenant_context t u)"
    and "cmd = R_INSERT \<or> cmd = R_UPDATE"
  shows "(rls_check s (jobs_policies s) cmd j \<longleftrightarrow> j_tenant_id j = t)
    \<and> (rls_check s (applications_policies s d) cmd a \<longleftrightarrow> a_tenant_id a = t)
    \<and> (rls_check s (resumes_policies s d) cmd r \<longleftrightarrow> r_tenant_id r = t)
    \<and> (rls_check s (interviews_policies s) cmd i \<longleftrightarrow> i_tenant_id i = t)
    \<and> (rls_check s (histories_policies s d) cmd h \<longleftrightarrow> sh_tenant_id h = t)
    \<and> (rls_check s (question_sets_policies s) cmd q \<longleftrightarrow> qs_tenant_id q = t)
    \<and> (rls_check s (questions_policies s) cmd iq \<longleftrightarrow> iq_tenant_id iq = t)
    \<and> (\<forall>rows rows'. stamp_tenant_on_new_rows (tenant_context t u) rows = Inr rows' \<longrightarrow>
         (\<forall>(mixin, x) \<in> set rows'. mixin \<longrightarrow> x = Some t))"
proof -
  have stamp: "\<forall>(mixin, x) \<in> set rows'. mixin \<longrightarrow> x = Some t"
    if "stamp_tenant_on_new_rows (tenant_context t u) rows = Inr rows'" for rows rows'
    using that
    by (induction "tenant_context t u" rows arbitrary: rows' rule: stamp_tenant_on_new_rows.induct)
      (auto split: if_splits sum.splits)
  have "cmd \<noteq> R_SELECT" "cmd \<noteq> R_ALL" using assms(3) by auto
  with assms(1) stamp show ?thesis
    unfolding assms(2)
    by (simp add: jobs_tt.check_iff applications_tt.check_iff resumes_tt.check_iff
        interviews_tt.check_iff histories_tt.check_iff question_sets_tt.check_iff questions_tt.check_iff)
qed

theorem tenant_writes_only_own_rows_witness:
  "(5::uuid) < 2 ^ 128 \<and> (R_INSERT = R_INSERT \<or> R_INSERT = R_UPDATE) \<and>
   stamp_tenant_on_new_rows (tenant_context 5 9) [(True, None), (False, None)] = Inr [(True, Some 5), (False, None)] \<and>
   list_all (\<lambda>(mixin, x). mixin \<longrightarrow> x = Some (5::uuid)) [(True, Some 5), (False, None)]"
proof -
  have st: "stamp_tenant_on_new_rows (tenant_context 5 9) [(True, None), (False, None)]
      = Inr [(True, Some 5), (False, None)]" by simp
  have "\<forall>rows rows'. stamp_tenant_on_new_rows (tenant_context 5 9) rows = Inr rows' \<longrightarrow>
      (\<forall>(mixin, x) \<in> set rows'. mixin \<longrightarrow> x = Some 5)"
    by (rule tenant_writes_only_own_rows [OF _ refl, THEN conjunct2, THEN conjunct2, THEN conjunct2,
          THEN conjunct2, THEN conjunct2, THEN conjunct2, THEN conjunct2, of 5 R_INSERT 9]) simp_all
  with st have "\<forall>(mixin, x) \<in> set [(True, Some 5), (False, None)]. mixin \<longrightarrow> x = Some (5::uuid)"
    by blast
  with st show ?thesis by (simp add: list_all_iff del: stamp_tenant_on_new_rows.simps)
qed

text \<open>
  An anonymous request (no token, a rejected token, a refresh token, a malformed
  subject or tenant) gets the public context, which reads no row of a tenant table but the
  public job adverts, and may write none.
\<close>

theorem public_context_sees_only_adverts:
  assumes "token = None \<or> token = Some [] \<or> (\<exists>tok. token = Some tok \<and>
      (decode_token tok = None \<or> (\<exists>c. decode_token tok = Some c \<and> cl_type c \<noteq> Some ''access'')))"
    and "s = context_parameters (context_from_token decode_token token)"
  shows "context_from_token decode_token token = PUBLIC_CONTEXT
    \<and> rls_jobs s d = jobs d
    \<and> rls_applications s d = []
    \<and> \<not> rls_visible s (resumes_policies s d) R_SELECT r
    \<and> \<not> rls_visible s (candidates_policies s d) R_SELECT c
    \<and> \<not> rls_visible s (interviews_policies s) R_SELECT i
    \<and> \<not> rls_visible s (companies_policies s) R_SELECT co
    \<and> \<not> rls_check s (jobs_policies s) R_INSERT j
    \<and> \<not> rls_check s (applications_policies s d) R_INSERT a
    \<and> \<not> rls_check s (histories_policies s d) R_INSERT h
    \<and> \<not> rls_check s (candidates_policies s d) R_INSERT c"
proof -
  have ctx: "context_from_token decode_token token = PUBLIC_CONTEXT"
    using assms(1) by (auto simp: context_from_token_def split: option.splits)
  have no_apps: "rls_applications (context_parameters PUBLIC_CONTEXT) d = []"
    by (simp add: rls_applications_def rls_visible_def applications_policies_def settings_public
        tenant_match_def own_candidate_def)
  have "rls_jobs (context_parameters PUBLIC_CONTEXT) d = jobs d"
    by (simp add: rls_jobs_def rls_visible_def jobs_policies_def settings_public)
  with no_apps show ?thesis
    unfolding assms(2) ctx
    by (simp add: rls_visible_def rls_check_def policy_defs settings_public
        tenant_match_def own_candidate_def)
qed

theorem public_context_sees_only_adverts_witness:
  "context_from_token (\<lambda>_. None) (Some ''forged'') = PUBLIC_CONTEXT"
  using public_context_sees_only_adverts [of "Some ''forged''" "\<lambda>_. None"
      "context_parameters (context_from_token (\<lambda>_. None) (Some ''forged''))"]
  by simp



text \<open>
  The database context of a request never exceeds the signed token: the tenant scope
  arises only from an accepted access token that names that very tenant, and the settings
  put on the transaction read back as that tenant and that user.
\<close>

theorem tenant_scope_comes_from_token:
  assumes "context_from_token decode_token token = ctx" and "ctx_scope ctx = SCOPE_TENANT"
    and "\<And>c x. decode_token (the token) = Some c \<Longrightarrow> cl_tid c = Some x \<Longrightarrow> \<exists>t<2 ^ 128. x = str_of_uuid t"
    and "\<And>c x. decode_token (the token) = Some c \<Longrightarrow> cl_sub c = Some x \<Longrightarrow> \<exists>u<2 ^ 128. x = str_of_uuid u"
  shows "\<exists>tok c t u. token = Some tok \<and> decode_token tok = Some c \<and> cl_type c = Some ''access''
    \<and> cl_tid c = Some (str_of_uuid t) \<and> ctx_tenant_id ctx = Some t
    \<and> app_current_tenant (context_parameters ctx) = Some t
    \<and> app_current_user_id (context_parameters ctx) = Some u
    \<and> str_of_claim (cl_sub c) = str_of_uuid u"
proof -
  have nopub: "ctx \<noteq> PUBLIC_CONTEXT" "ctx \<noteq> candidate_context u" for u
    using assms(2) by (auto simp: scope_defs)
  obtain tok c u tid t where tok: "token = Some tok" "decode_token tok = Some c"
      "cl_type c = Some ''access''" "uuid_of_str (str_of_claim (cl_sub c)) = Some u"
      "cl_tid c = Some tid" "uuid_of_str tid = Some t" "ctx = tenant_context t u"
    using assms(1) nopub unfolding context_from_token_def
    by (auto split: option.splits if_splits)
  obtain t' where t': "t' < 2 ^ 128" "tid = str_of_uuid t'" using assms(3) tok by auto
  with tok have "t' = t" by (simp add: uuid_round_trip)
  have "cl_sub c \<noteq> None"
  proof
    assume "cl_sub c = None"
    then have "str_of_claim (cl_sub c) = ''None''" by (simp add: str_of_claim_def)
    moreover have "uuid_of_str ''None'' = None" by code_simp
    ultimately show False using tok(4) by simp
  qed
  then obtain x where x: "cl_sub c = Some x" by auto
  obtain u' where u': "u' < 2 ^ 128" "x = str_of_uuid u'" using assms(4) tok x by auto
  with tok x have "u' = u" by (simp add: str_of_claim_def uuid_round_trip)
  have "app_current_user_id (context_parameters ctx) = Some u"
    using u' \<open>u' = u\<close> by (simp add: tok app_current_user_id_def context_parameters_def uuid_round_trip)
  with tok t' u' x \<open>t' = t\<close> \<open>u' = u\<close> show ?thesis
    using settings_tenant(1) [of t u] by (auto simp: str_of_claim_def)
qed

theorem tenant_scope_comes_from_token_witness:
  "\<exists>tok c t u. Some ''tok'' = Some tok
    \<and> (\<lambda>_. Some \<lparr>cl_type = Some ''access'', cl_sub = Some (str_of_uuid 9), cl_tid = Some (str_of_uuid 5),
         cl_sid = None, cl_jti = None\<rparr>) tok = Some c \<and> cl_type c = Some ''access''
    \<and> cl_tid c = Some (str_of_uuid t) \<and> ctx_tenant_id (tenant_context 5 9) = Some t
    \<and> app_current_tenant (context_parameters (tenant_context 5 9)) = Some t
    \<and> app_current_user_id (context_parameters (tenant_context 5 9)) = Some u
    \<and> str_of_claim (cl_sub c) = str_of_uuid u"
proof (rule tenant_scope_comes_from_token)
  show "context_from_token (\<lambda>_. Some \<lparr>cl_type = Some ''access'', cl_sub = Some (str_of_uuid 9),
      cl_tid = Some (str_of_uuid 5), cl_sid = None, cl_jti = None\<rparr>) (Some ''tok'') = tenant_context 5 9"
    by (simp add: context_from_token_def str_of_claim_def uuid_round_trip)
qed (auto intro: exI [of _ 5] exI [of _ 9])

end
