(* ===== verification/Access_Control.thy ===== *)
theory Access_Control
  imports Tenancy
begin

text \<open>
  Role-based access control (the second half of app/core/deps.py): the role guard that the
  routes declare, the agreement between the tenant of the token and the tenant of the user,
  and the input sanitiser that the request schemas share (app/core/sanitize.py).
\<close>

section \<open>Roles and tenants\<close>

definition CANDIDATE_ROLE :: string where "CANDIDATE_ROLE = ''Candidate''"

definition unauthorized :: exc where
  "unauthorized = HTTPException 401 Unauthorized"

definition ensure_token_tenant_matches :: "user \<Rightarrow> string option \<Rightarrow> exc + unit" where
  "ensure_token_tenant_matches user token_tenant =
     (let expected = map_option str_of_uuid (u_tenant_id user) in
      if u_role user = CANDIDATE_ROLE then
        (if token_tenant \<noteq> None then Inl unauthorized else Inr ())
      else if expected = None \<or> token_tenant \<noteq> expected then Inl unauthorized
      else Inr ())"

definition require_roles :: "string list \<Rightarrow> user \<Rightarrow> exc + user" where
  "require_roles allowed_roles current_user =
     (if u_role current_user \<notin> set allowed_roles then Inl (HTTPException 403 Forbidden_Role)
      else Inr current_user)"

lemma require_roles_Inr [simp]:
  "require_roles rs u = Inr v \<longleftrightarrow> u_role u \<in> set rs \<and> v = u"
  by (auto simp: require_roles_def)

lemma require_roles_ok [simp]: "u_role u \<in> set rs \<Longrightarrow> require_roles rs u = Inr u"
  by (simp add: require_roles_def)

lemma require_roles_Inl:
  "require_roles rs u = Inl e \<longleftrightarrow> u_role u \<notin> set rs \<and> e = HTTPException 403 Forbidden_Role"
  by (auto simp: require_roles_def)

section \<open>Sanitising text\<close>

text \<open>
  The substitution of every match of \<open><[^>]*>\<close> by the empty text. From the left: at a \<open><\<close> that
  has a \<open>>\<close> after it, everything up to the first such \<open>>\<close> is dropped.
\<close>

abbreviation cp_lt :: nat where "cp_lt \<equiv> 60"
abbreviation cp_gt :: nat where "cp_gt \<equiv> 62"

function remove_tags :: "utext \<Rightarrow> utext" where
  "remove_tags [] = []"
| "remove_tags (c # cs) =
     (if c = cp_lt \<and> cp_gt \<in> set cs
      then remove_tags (drop (Suc (length (takeWhile (\<lambda>x. x \<noteq> cp_gt) cs))) cs)
      else c # remove_tags cs)"
  by pat_completeness auto
termination
  by (relation "measure length") auto

definition strip_html_tags :: "unicode \<Rightarrow> utext \<Rightarrow> utext" where
  "strip_html_tags U value = ustrip U (remove_tags value)"

text \<open>A text with no \<open><\<close> that is followed by a \<open>>\<close>.\<close>

fun tag_free :: "utext \<Rightarrow> bool" where
  "tag_free [] = True"
| "tag_free (c # cs) = ((c = cp_lt \<longrightarrow> cp_gt \<notin> set cs) \<and> tag_free cs)"

lemma set_remove_tags: "set (remove_tags s) \<subseteq> set s"
  by (induction s rule: remove_tags.induct) (auto dest: in_set_dropD)

lemma tag_free_remove_tags: "tag_free (remove_tags s)"
  by (induction s rule: remove_tags.induct) (use set_remove_tags in auto)

lemma remove_tags_id: "tag_free s \<Longrightarrow> remove_tags s = s"
  by (induction s rule: remove_tags.induct) auto

lemma tag_free_dropWhile: "tag_free s \<Longrightarrow> tag_free (dropWhile p s)"
  by (induction s) auto

lemma tag_free_takeWhile: "tag_free s \<Longrightarrow> tag_free (takeWhile p s)"
  by (induction s) (auto dest: set_takeWhileD)

lemma strip_by_parts: "\<exists>n. strip_by p s = take n (dropWhile p s)"
proof -
  let ?t = "dropWhile p s"
  have "rev (dropWhile p (rev ?t)) = take (length ?t - length (takeWhile p (rev ?t))) ?t"
    by (metis dropWhile_eq_drop rev_drop rev_rev_ident length_rev)
  then show ?thesis by (auto simp: strip_by_def)
qed

lemma tag_free_take: "tag_free s \<Longrightarrow> tag_free (take n s)"
  by (induction s arbitrary: n) (auto simp: take_Cons' dest: in_set_takeD)

lemma tag_free_strip: "tag_free s \<Longrightarrow> tag_free (strip_by p s)"
  using strip_by_parts [of p s] tag_free_dropWhile tag_free_take by metis

lemma strip_by_idem: "strip_by p (strip_by p s) = strip_by p s"
proof -
  let ?d = "dropWhile p"
  have hd: "?d (strip_by p s) = strip_by p s"
  proof (cases "?d s")
    case Nil
    show ?thesis unfolding strip_by_def Nil by simp
  next
    case (Cons a as)
    then have na: "\<not> p a" by (metis dropWhile_eq_Cons_conv)
    have "?d (xs @ [a]) = ?d xs @ [a]" for xs using na by (induction xs) auto
    moreover have "rev (?d (rev (a # as))) = rev (?d (rev as @ [a]))" by simp
    ultimately have "strip_by p s = a # rev (?d (rev as))" using Cons by (simp add: strip_by_def)
    with na show ?thesis by simp
  qed
  have "?d (rev (strip_by p s)) = rev (strip_by p s)"
    by (simp add: strip_by_def)
  then show ?thesis using hd by (simp add: strip_by_def)
qed

section \<open>Properties\<close>

text \<open>
  Sanitising is complete and stable: whatever the Unicode tables, the sanitised text
  contains no opening angle bracket with a closing one after it (so no tag survives, not
  even one assembled from the pieces of removed tags), and sanitising it again changes
  nothing.
\<close>

theorem strip_html_tags_complete:
  "tag_free (strip_html_tags U v) \<and> strip_html_tags U (strip_html_tags U v) = strip_html_tags U v"
proof -
  have "tag_free (strip_html_tags U v)"
    by (simp add: strip_html_tags_def ustrip_def tag_free_strip tag_free_remove_tags)
  moreover from this have "remove_tags (strip_html_tags U v) = strip_html_tags U v"
    by (rule remove_tags_id)
  ultimately show ?thesis
    by (simp add: strip_html_tags_def ustrip_def strip_by_idem)
qed

text \<open>
  The tenant check of a request: a user of a tenant is let through exactly with a token
  of that tenant, a candidate exactly with a token without a tenant, and a member of staff
  without a tenant never.
\<close>

theorem token_tenant_check:
  assumes "\<And>t. u_tenant_id user = Some t \<Longrightarrow> t < 2 ^ 128" and "tid < 2 ^ 128"
  shows "(ensure_token_tenant_matches user (Some (str_of_uuid tid)) = Inr () \<longleftrightarrow>
           u_role user \<noteq> ''Candidate'' \<and> u_tenant_id user = Some tid)
    \<and> (ensure_token_tenant_matches user None = Inr () \<longleftrightarrow> u_role user = ''Candidate'')"
  using assms
  by (cases "u_tenant_id user")
    (auto simp: ensure_token_tenant_matches_def Let_def CANDIDATE_ROLE_def str_of_uuid_inj)

theorem token_tenant_check_witness:
  "ensure_token_tenant_matches \<lparr>u_id = 1, u_email = [], u_password_hash = [], u_role = ''Admin'',
      u_is_active = True, u_created_at = 0, u_tenant_id = Some 5, u_data_consent_at = None,
      u_data_consent_version = None, u_anonymized_at = None\<rparr> (Some (str_of_uuid 5)) = Inr ()"
  using token_tenant_check [of "\<lparr>u_id = 1, u_email = [], u_password_hash = [], u_role = ''Admin'',
      u_is_active = True, u_created_at = 0, u_tenant_id = Some 5, u_data_consent_at = None,
      u_data_consent_version = None, u_anonymized_at = None\<rparr>" 5] by simp

end
