(* ===== verification/State_Machine.thy ===== *)
theory State_Machine
  imports ATS_Prelude
begin

text \<open>
  The strict state machine of the kanban board (app/core/state_machine.py): the statuses,
  the linear path, the two exits of every non-terminal status, and an abstract
  specification of the machine (stage numbers and a step relation) that the code's
  string-based functions implement.
\<close>

section \<open>Statuses and transitions\<close>

datatype ApplicationStatus =
    DRAFT | APPLIED | SCREENING | TECHNICAL_INTERVIEW | HR_INTERVIEW | OFFER | ACCEPTED | HIRED
  | REJECTED

fun status_value :: "ApplicationStatus \<Rightarrow> string" where
  "status_value DRAFT = ''Draft''"
| "status_value APPLIED = ''Applied''"
| "status_value SCREENING = ''Screening''"
| "status_value TECHNICAL_INTERVIEW = ''Technical Interview''"
| "status_value HR_INTERVIEW = ''HR Interview''"
| "status_value OFFER = ''Offer''"
| "status_value ACCEPTED = ''Accepted''"
| "status_value HIRED = ''Hired''"
| "status_value REJECTED = ''Rejected''"

definition LINEAR_PATH :: "string list" where
  "LINEAR_PATH = map status_value
     [DRAFT, APPLIED, SCREENING, TECHNICAL_INTERVIEW, HR_INTERVIEW, OFFER, ACCEPTED, HIRED]"

definition TERMINAL_STATUSES :: "string set" where
  "TERMINAL_STATUSES = {status_value HIRED, status_value REJECTED}"

definition FUNNEL_STAGES :: "string list" where
  "FUNNEL_STAGES = map status_value
     [APPLIED, SCREENING, TECHNICAL_INTERVIEW, HR_INTERVIEW, OFFER, ACCEPTED, HIRED]"

definition get_allowed_next_statuses :: "string \<Rightarrow> string set" where
  "get_allowed_next_statuses current_status =
     (if current_status \<in> TERMINAL_STATUSES then {}
      else case index_of LINEAR_PATH current_status of
        None \<Rightarrow> {}
      | Some current_index \<Rightarrow>
          (let next_index = current_index + 1;
               allowed = (if next_index < length LINEAR_PATH then {LINEAR_PATH ! next_index} else {})
           in insert (status_value REJECTED) allowed))"

definition is_transition_allowed :: "string \<Rightarrow> string \<Rightarrow> bool" where
  "is_transition_allowed current_status new_status \<longleftrightarrow>
     new_status \<in> get_allowed_next_statuses current_status"

section \<open>Library lemmas\<close>

lemma LINEAR_PATH_simps [simp]:
  "length LINEAR_PATH = 8" "distinct LINEAR_PATH" "''Rejected'' \<notin> set LINEAR_PATH"
  "LINEAR_PATH ! 0 = ''Draft''" "LINEAR_PATH ! 7 = ''Hired''"
  by (simp_all add: LINEAR_PATH_def)

lemma LINEAR_PATH_nth_not_Rejected: "i < 8 \<Longrightarrow> LINEAR_PATH ! i \<noteq> ''Rejected''"
  by (metis LINEAR_PATH_simps(1,3) nth_mem)

lemma status_value_inj: "status_value s = status_value t \<longleftrightarrow> s = t"
  by (cases s; cases t) simp_all

lemma is_transition_allowed_code [code]:
  "is_transition_allowed c n \<longleftrightarrow>
     \<not> (c = ''Hired'' \<or> c = ''Rejected'') \<and>
     (case index_of LINEAR_PATH c of
        None \<Rightarrow> False
      | Some i \<Rightarrow> n = ''Rejected'' \<or> (Suc i < 8 \<and> n = LINEAR_PATH ! Suc i))"
  by (auto simp: is_transition_allowed_def get_allowed_next_statuses_def TERMINAL_STATUSES_def
      Let_def split: option.splits)

section \<open>The specification the machine implements\<close>

text \<open>
  A stage of a live application is a number below 8; an application is at a stage or
  rejected. A step moves to the next stage, or rejects from a stage that is not the last.
\<close>

datatype stage = At nat | Out

inductive stage_step :: "stage \<Rightarrow> stage \<Rightarrow> bool" where
  advance: "i < 7 \<Longrightarrow> stage_step (At i) (At (Suc i))"
| reject: "i < 7 \<Longrightarrow> stage_step (At i) Out"

inductive_cases stage_step_AtE: "stage_step (At i) s"
inductive_cases stage_step_OutE: "stage_step Out s"

definition abs_status :: "string \<Rightarrow> stage option" where
  "abs_status s = (if s = ''Rejected'' then Some Out else map_option At (index_of LINEAR_PATH s))"

lemma abs_status_value: "abs_status (status_value s) \<noteq> None"
  by (cases s) (simp_all add: abs_status_def LINEAR_PATH_def)

lemma abs_status_inj: "abs_status s = Some x \<Longrightarrow> abs_status t = Some x \<Longrightarrow> s = t"
  by (auto simp: abs_status_def dest: index_of_Some split: if_splits)

lemma abs_status_nth: "i < 8 \<Longrightarrow> abs_status (LINEAR_PATH ! i) = Some (At i)"
  by (simp add: abs_status_def index_of_nth LINEAR_PATH_nth_not_Rejected)

lemma abs_status_At: "abs_status s = Some (At i) \<longleftrightarrow> i < 8 \<and> s = LINEAR_PATH ! i"
proof
  assume "abs_status s = Some (At i)"
  then have "index_of LINEAR_PATH s = Some i"
    by (auto simp: abs_status_def split: if_splits)
  then show "i < 8 \<and> s = LINEAR_PATH ! i" by (auto dest: index_of_Some)
next
  assume "i < 8 \<and> s = LINEAR_PATH ! i"
  then show "abs_status s = Some (At i)" by (simp add: abs_status_nth)
qed

lemma abs_status_Out: "abs_status s = Some Out \<longleftrightarrow> s = ''Rejected''"
  by (simp add: abs_status_def)

lemma transition_from_stage:
  assumes "i < 8"
  shows "is_transition_allowed (LINEAR_PATH ! i) n \<longleftrightarrow>
    i < 7 \<and> (n = LINEAR_PATH ! Suc i \<or> n = ''Rejected'')"
proof -
  have ix: "index_of LINEAR_PATH (LINEAR_PATH ! i) = Some i"
    using assms by (simp add: index_of_nth)
  have hired: "LINEAR_PATH ! i = ''Hired'' \<longleftrightarrow> i = 7"
    using assms nth_eq_iff_index_eq [of LINEAR_PATH i 7] by simp
  have "LINEAR_PATH ! i \<noteq> ''Rejected''"
    using assms by (rule LINEAR_PATH_nth_not_Rejected)
  with ix hired assms show ?thesis by (auto simp: is_transition_allowed_code)
qed

lemma transition_refines:
  "is_transition_allowed c n \<longleftrightarrow>
     (\<exists>s t. abs_status c = Some s \<and> abs_status n = Some t \<and> stage_step s t)"
proof (cases "\<exists>i<8. c = LINEAR_PATH ! i")
  case True
  then obtain i where i: "i < 8" "c = LINEAR_PATH ! i" by blast
  then have "abs_status c = Some (At i)" by (simp add: abs_status_nth)
  moreover have "abs_status n = Some t \<and> stage_step (At i) t \<longleftrightarrow>
      i < 7 \<and> (t = At (Suc i) \<and> n = LINEAR_PATH ! Suc i \<or> t = Out \<and> n = ''Rejected'')" for t
    using i(1) by (cases t) (auto simp: abs_status_At abs_status_Out elim: stage_step_AtE
        intro: stage_step.intros)
  ultimately show ?thesis using i by (auto simp: transition_from_stage)
next
  case False
  then have "index_of LINEAR_PATH c = None"
    by (auto simp: index_of_None in_set_conv_nth)
  then show ?thesis
    by (auto simp: is_transition_allowed_code abs_status_def elim: stage_step_OutE split: if_splits)
qed

section \<open>Properties\<close>

text \<open>
  C1. Refinement: the string-based transition check of the code implements the abstract
  machine exactly. A transition is allowed if and only if both strings are statuses of the
  machine and the abstract stages are related by one step; in particular a string that is
  no status has no transition.
\<close>

theorem is_transition_allowed_refines:
  "is_transition_allowed c n \<longleftrightarrow>
     (\<exists>s t. abs_status c = Some s \<and> abs_status n = Some t \<and> stage_step s t)"
  by (rule transition_refines)

text \<open>
  The funnel stages of the analytics are the linear path without its first status,
  every one of them is reached from the one before it by an allowed transition, and each
  non-terminal status of the path has exactly two allowed successors.
\<close>

theorem funnel_and_exits:
  "FUNNEL_STAGES = tl LINEAR_PATH \<and>
   (\<forall>i<7. is_transition_allowed (LINEAR_PATH ! i) (FUNNEL_STAGES ! i)) \<and>
   (\<forall>i<7. card (get_allowed_next_statuses (LINEAR_PATH ! i)) = 2) \<and>
   get_allowed_next_statuses ''Hired'' = {} \<and> get_allowed_next_statuses ''Rejected'' = {}"
proof (intro conjI allI impI)
  show tl: "FUNNEL_STAGES = tl LINEAR_PATH"
    by (simp add: FUNNEL_STAGES_def LINEAR_PATH_def)
  fix i :: nat
  assume i: "i < 7"
  then show "is_transition_allowed (LINEAR_PATH ! i) (FUNNEL_STAGES ! i)"
    by (simp add: tl transition_from_stage nth_tl)
  have "get_allowed_next_statuses (LINEAR_PATH ! i) = {LINEAR_PATH ! Suc i, ''Rejected''}"
    using i transition_from_stage [of i] by (auto simp: is_transition_allowed_def)
  moreover have "LINEAR_PATH ! Suc i \<noteq> ''Rejected''"
    using i by (simp add: LINEAR_PATH_nth_not_Rejected)
  ultimately show "card (get_allowed_next_statuses (LINEAR_PATH ! i)) = 2" by simp
qed (simp_all add: get_allowed_next_statuses_def TERMINAL_STATUSES_def)

theorem funnel_and_exits_witness:
  "(5::nat) < 7 \<and> is_transition_allowed (LINEAR_PATH ! 5) (FUNNEL_STAGES ! 5)
   \<and> card (get_allowed_next_statuses (LINEAR_PATH ! 5)) = 2"
proof (intro conjI)
  show "is_transition_allowed (LINEAR_PATH ! 5) (FUNNEL_STAGES ! 5)"
    using funnel_and_exits by force
  show "card (get_allowed_next_statuses (LINEAR_PATH ! 5)) = 2"
    using funnel_and_exits by force
qed simp

end
