(* ===== verification/Hiring.thy ===== *)
theory Hiring
  imports Access_Control State_Machine
begin

text \<open>
  The hiring workflow: job adverts (app/routers/jobs.py), the candidate profile
  (app/core/candidate_utils.py), applying with a resume (app/routers/resumes.py), moving a
  card on the board (app/routers/applications.py), the candidate's answer to an offer
  (app/routers/candidates.py) and the e-mail hook (app/core/status_notifier.py). A handler
  takes the context and user of the request, the clock, the identifiers it draws, and the
  database; it returns its response or exception and the database afterwards (an exception
  before the commit leaves what was committed earlier in the request).
\<close>

section \<open>Writes under row-level security\<close>

definition rls_insert :: "guc \<Rightarrow> 'r policy list \<Rightarrow> ('r \<Rightarrow> 'k) \<Rightarrow> 'r \<Rightarrow> 'r list \<Rightarrow> exc + 'r list" where
  "rls_insert s pols key r rows =
     (if \<not> rls_check s pols R_INSERT r then Inl InsufficientPrivilege else insert_row key r rows)"

text \<open>
  The UPDATE that the flush of one changed object sends, by primary key and for the changed
  columns only. It touches the rows that the policies show to UPDATE; none is a
  \<open>StaleDataError\<close>, and a new row that fails the check aborts the transaction.
\<close>

definition rls_update ::
  "guc \<Rightarrow> 'r policy list \<Rightarrow> ('r \<Rightarrow> 'k) \<Rightarrow> 'k \<Rightarrow> ('r \<Rightarrow> 'r) \<Rightarrow> 'r list \<Rightarrow> exc + 'r list" where
  "rls_update s pols key k f rows =
     (let target = (\<lambda>r. key r = k \<and> rls_visible s pols R_UPDATE r)
      in if \<not> list_ex target rows then Inl StaleDataError
         else if \<not> list_all (\<lambda>r. target r \<longrightarrow> rls_check s pols R_UPDATE (f r)) rows
         then Inl InsufficientPrivilege
         else Inr (update_where target f rows))"

text \<open>The tenant column of a new row whose class requires one: stamped, and never null.\<close>

definition stamped :: "TenantContext \<Rightarrow> uuid option \<Rightarrow> exc + uuid" where
  "stamped ctx t =
     (case stamp_tenant_on_new_rows ctx [(True, t)] of
        Inl e \<Rightarrow> Inl e
      | Inr rows \<Rightarrow> (case rows of (_, Some t') # _ \<Rightarrow> Inr t' | _ \<Rightarrow> Inl IntegrityError))"

section \<open>Job adverts\<close>

definition JOB_MANAGER_ROLES :: "string list" where
  "JOB_MANAGER_ROLES = [''Admin'', ''HR_Manager'']"

record job_create_request =
  jc_title :: utext
  jc_department :: "utext option"
  jc_description :: "utext option"
  jc_skills_required :: "utext list"
  jc_salary_range :: "utext option"
  jc_required_seniority :: "utext option"
  jc_required_education :: "utext option"
  jc_location :: "utext option"

text \<open>The request schema: every text is sanitised before the length limits are checked.\<close>

definition max_len :: "nat \<Rightarrow> utext option \<Rightarrow> bool" where
  "max_len n v \<longleftrightarrow> (case v of None \<Rightarrow> True | Some t \<Rightarrow> length t \<le> n)"

definition JobCreateRequest :: "unicode \<Rightarrow> job_create_request \<Rightarrow> exc + job_create_request" where
  "JobCreateRequest U raw =
     (let clean = strip_html_tags U;
          r = \<lparr>jc_title = clean (jc_title raw), jc_department = map_option clean (jc_department raw),
               jc_description = map_option clean (jc_description raw),
               jc_skills_required = map clean (jc_skills_required raw),
               jc_salary_range = map_option clean (jc_salary_range raw),
               jc_required_seniority = map_option clean (jc_required_seniority raw),
               jc_required_education = map_option clean (jc_required_education raw),
               jc_location = map_option clean (jc_location raw)\<rparr>
      in if 2 \<le> length (jc_title r) \<and> length (jc_title r) \<le> 255 \<and> max_len 100 (jc_department r)
            \<and> max_len 50 (jc_salary_range r) \<and> max_len 50 (jc_required_seniority r)
            \<and> max_len 50 (jc_required_education r) \<and> max_len 100 (jc_location r)
         then Inr r else Inl (HTTPException 422 Validation_Error))"

definition create_job ::
  "TenantContext \<Rightarrow> user \<Rightarrow> time \<Rightarrow> uuid \<Rightarrow> job_create_request \<Rightarrow> db \<Rightarrow> (exc + job) \<times> db" where
  "create_job ctx current_user now new_id payload d =
     (case require_roles JOB_MANAGER_ROLES current_user of
        Inl e \<Rightarrow> (Inl e, d)
      | Inr _ \<Rightarrow>
          (case stamped ctx None of
             Inl e \<Rightarrow> (Inl e, d)
           | Inr t \<Rightarrow>
               (let new_job = \<lparr>j_id = new_id, j_tenant_id = t, j_company_id = None,
                      j_created_by = u_id current_user, j_title = jc_title payload,
                      j_department = jc_department payload, j_description = jc_description payload,
                      j_skills_required = Some (jc_skills_required payload),
                      j_salary_range = jc_salary_range payload, j_status = ''Active'',
                      j_required_seniority = jc_required_seniority payload,
                      j_required_education = jc_required_education payload,
                      j_location = jc_location payload, j_created_at = now\<rparr>;
                    s = context_parameters ctx
                in case rls_insert s (jobs_policies s) j_id new_job (jobs d) of
                     Inl e \<Rightarrow> (Inl e, d)
                   | Inr js \<Rightarrow> (Inr new_job, d\<lparr>jobs := js\<rparr>))))"

definition close_job :: "TenantContext \<Rightarrow> user \<Rightarrow> uuid \<Rightarrow> db \<Rightarrow> (exc + uuid \<times> string) \<times> db" where
  "close_job ctx current_user job_id d =
     (case require_roles JOB_MANAGER_ROLES current_user of
        Inl e \<Rightarrow> (Inl e, d)
      | Inr _ \<Rightarrow>
          (case scalar_one_or_none (filter (\<lambda>j. j_id j = job_id) (select_jobs ctx d)) of
             Inl e \<Rightarrow> (Inl e, d)
           | Inr None \<Rightarrow> (Inl (HTTPException 404 Job_Not_Found), d)
           | Inr (Some job) \<Rightarrow>
               (let s = context_parameters ctx
                in if j_status job = ''Closed'' then (Inr (job_id, ''Closed''), d)
                   else case rls_update s (jobs_policies s) j_id job_id (\<lambda>j. j\<lparr>j_status := ''Closed''\<rparr>) (jobs d) of
                     Inl e \<Rightarrow> (Inl e, d)
                   | Inr js \<Rightarrow> (Inr (job_id, ''Closed''), d\<lparr>jobs := js\<rparr>))))"

section \<open>The candidate profile\<close>

definition cp_at :: nat where "cp_at = 64"

definition get_or_create_candidate_profile ::
  "TenantContext \<Rightarrow> user \<Rightarrow> uuid \<Rightarrow> db \<Rightarrow> (exc + candidate) \<times> db" where
  "get_or_create_candidate_profile ctx user new_id d =
     (case scalar_one_or_none (filter (\<lambda>c. c_user_id c = u_id user) (select_candidates ctx d)) of
        Inl e \<Rightarrow> (Inl e, d)
      | Inr (Some candidate) \<Rightarrow> (Inr candidate, d)
      | Inr None \<Rightarrow>
          (let placeholder_name = takeWhile (\<lambda>c. c \<noteq> cp_at) (u_email user);
               candidate = \<lparr>c_id = new_id, c_user_id = u_id user, c_first_name = placeholder_name,
                 c_last_name = [], c_phone = None, c_skills = None, c_location = None\<rparr>;
               s = context_parameters ctx
           in if u_id user \<in> set (map c_user_id (candidates d)) then (Inl IntegrityError, d)
              else case rls_insert s (candidates_policies s d) c_id candidate (candidates d) of
                Inl e \<Rightarrow> (Inl e, d)
              | Inr cs \<Rightarrow> (Inr candidate, d\<lparr>candidates := cs\<rparr>)))"

section \<open>Applying with a resume\<close>

definition ALLOWED_CONTENT_TYPES :: "string list" where
  "ALLOWED_CONTENT_TYPES =
     [''application/pdf'', ''application/vnd.openxmlformats-officedocument.wordprocessingml.document'']"

definition ALLOWED_EXTENSIONS :: "utext list" where
  "ALLOWED_EXTENSIONS = map utext_of [''.pdf'', ''.docx'']"

definition MAX_FILE_SIZE_BYTES :: nat where "MAX_FILE_SIZE_BYTES = 10 * 1024 * 1024"

definition cp_dot :: nat where "cp_dot = 46"

text \<open>
  The last dot-separated part of the name, lower-cased, with its dot. Lower-casing matters
  only for the comparison with the two allowed extensions, whose letters are the image of
  ASCII letters alone.
\<close>

definition file_extension :: "utext \<Rightarrow> utext" where
  "file_extension original_filename =
     (if cp_dot \<in> set original_filename
      then cp_dot # map cp_ascii_lower (rev (takeWhile (\<lambda>c. c \<noteq> cp_dot) (rev original_filename)))
      else [])"

record upload =
  up_filename :: "utext option"
  up_content_type :: "string option"
  up_bytes :: "nat list"

datatype task = ProcessResume uuid string | TriggerStatusEmail uuid uuid string

text \<open>
  The storage backend (a service) is the parameter \<open>save_file\<close>: from the candidate and the
  uploaded file to the URL it was stored under.
\<close>

definition upload_resume ::
  "(uuid \<Rightarrow> utext \<Rightarrow> nat list \<Rightarrow> string) \<Rightarrow> TenantContext \<Rightarrow> user \<Rightarrow> time \<Rightarrow> uuid \<Rightarrow> uuid \<Rightarrow> uuid \<Rightarrow>
   uuid \<Rightarrow> upload \<Rightarrow> db \<Rightarrow> (exc + uuid \<times> string) \<times> db \<times> task list" where
  "upload_resume save_file ctx current_user now cand_id resume_id app_id job_id file d =
     (case require_roles [''Candidate''] current_user of
        Inl e \<Rightarrow> (Inl e, d, [])
      | Inr _ \<Rightarrow>
     (let original_filename = (case up_filename file of None \<Rightarrow> [] | Some f \<Rightarrow> f) in
      if \<not> (\<exists>ct \<in> set ALLOWED_CONTENT_TYPES. up_content_type file = Some ct)
         \<or> file_extension original_filename \<notin> set ALLOWED_EXTENSIONS
      then (Inl (HTTPException 400 Bad_File_Type), d, [])
      else if length (up_bytes file) = 0 then (Inl (HTTPException 400 Empty_File), d, [])
      else if length (up_bytes file) > MAX_FILE_SIZE_BYTES
      then (Inl (HTTPException 400 File_Too_Large), d, [])
      else case scalar_one_or_none (filter (\<lambda>j. j_id j = job_id) (select_jobs ctx d)) of
        Inl e \<Rightarrow> (Inl e, d, [])
      | Inr None \<Rightarrow> (Inl (HTTPException 404 Job_Not_Found), d, [])
      | Inr (Some job) \<Rightarrow>
          (case get_or_create_candidate_profile ctx current_user cand_id d of
             (Inl e, d1) \<Rightarrow> (Inl e, d1, [])
           | (Inr candidate, d1) \<Rightarrow>
               (let file_url = save_file (c_id candidate) original_filename (up_bytes file);
                    resume = \<lparr>r_id = resume_id, r_tenant_id = j_tenant_id job,
                      r_candidate_id = c_id candidate, r_file_url = file_url, r_raw_text = None,
                      r_search_tokens = None, r_parsed_data = None, r_skill_analysis = None,
                      r_agent_analysis = None\<rparr>;
                    app = \<lparr>a_id = app_id, a_tenant_id = j_tenant_id job, a_job_id = j_id job,
                      a_candidate_id = c_id candidate, a_current_status = ''Draft'',
                      a_score_ai = None, a_created_at = now, a_updated_at = now\<rparr>;
                    s = context_parameters ctx;
                    failed = (Inl (HTTPException 500 Database_Write_Failed), d1, [])
                in case (stamped ctx (Some (j_tenant_id job)),
                         rls_insert s (resumes_policies s d1) r_id resume (resumes d1),
                         rls_insert s (applications_policies s d1) a_id app (applications d1)) of
                     (Inr _, Inr rs, Inr as) \<Rightarrow>
                       (Inr (app_id, ''Draft''), d1\<lparr>resumes := rs, applications := as\<rparr>,
                        [ProcessResume app_id file_url])
                   | _ \<Rightarrow> failed))))"

section \<open>Moving a card\<close>

definition APPLICATION_MANAGER_ROLES :: "string list" where
  "APPLICATION_MANAGER_ROLES = [''Admin'', ''HR_Manager'']"

definition business_logic_violation :: exc where
  "business_logic_violation = HTTPException 400 Business_Logic_Violation"

text \<open>
  The handler in its two halves: the reads and guards, which yield the application as it was
  read, and the write of that object with its history row, which ends with the commit.
\<close>

definition check_status_update ::
  "TenantContext \<Rightarrow> user \<Rightarrow> uuid \<Rightarrow> ApplicationStatus \<Rightarrow> ApplicationStatus \<Rightarrow> db \<Rightarrow> exc + application" where
  "check_status_update ctx current_user application_id current_status new_status d =
     (case require_roles APPLICATION_MANAGER_ROLES current_user of
        Inl e \<Rightarrow> Inl e
      | Inr _ \<Rightarrow>
          (case scalar_one_or_none (filter (\<lambda>a. a_id a = application_id) (select_applications ctx d)) of
             Inl e \<Rightarrow> Inl e
           | Inr None \<Rightarrow> Inl (HTTPException 404 Application_Not_Found)
           | Inr (Some application) \<Rightarrow>
               (let requested_current = status_value current_status;
                    requested_new = status_value new_status
                in if a_current_status application \<noteq> requested_current then Inl business_logic_violation
                   else if \<not> is_transition_allowed requested_current requested_new
                   then Inl business_logic_violation
                   else Inr application)))"

definition commit_status_update ::
  "TenantContext \<Rightarrow> user \<Rightarrow> time \<Rightarrow> uuid \<Rightarrow> application \<Rightarrow> string \<Rightarrow> uuid option \<Rightarrow> db \<Rightarrow> exc + db" where
  "commit_status_update ctx current_user now hist_id application requested_new hist_tenant d =
     (case stamped ctx hist_tenant of
        Inl e \<Rightarrow> Inl e
      | Inr t \<Rightarrow>
          (let s = context_parameters ctx;
               set_status = (\<lambda>a. a\<lparr>a_current_status := requested_new, a_updated_at := now\<rparr>);
               entry = \<lparr>sh_id = hist_id, sh_tenant_id = t, sh_application_id = a_id application,
                 sh_old_status = Some (a_current_status application), sh_new_status = requested_new,
                 sh_changed_by = u_id current_user, sh_changed_at = now\<rparr>
           in case rls_update s (applications_policies s d) a_id (a_id application) set_status (applications d) of
                Inl e \<Rightarrow> Inl e
              | Inr as \<Rightarrow>
                  (let d1 = d\<lparr>applications := as\<rparr>
                   in case rls_insert s (histories_policies s d1) sh_id entry (histories d1) of
                        Inl e \<Rightarrow> Inl e
                      | Inr hs \<Rightarrow> Inr (d1\<lparr>histories := hs\<rparr>))))"

definition update_application_status ::
  "TenantContext \<Rightarrow> user \<Rightarrow> time \<Rightarrow> uuid \<Rightarrow> uuid \<Rightarrow> ApplicationStatus \<Rightarrow> ApplicationStatus \<Rightarrow> db \<Rightarrow>
   (exc + uuid \<times> string \<times> string \<times> time) \<times> db \<times> task list" where
  "update_application_status ctx current_user now hist_id application_id current_status new_status d =
     (case check_status_update ctx current_user application_id current_status new_status d of
        Inl e \<Rightarrow> (Inl e, d, [])
      | Inr application \<Rightarrow>
          (let requested_new = status_value new_status
           in case commit_status_update ctx current_user now hist_id application requested_new None d of
                Inl e \<Rightarrow> (Inl e, d, [])
              | Inr d' \<Rightarrow>
                  (Inr (a_id application, a_current_status application, requested_new, now), d',
                   [TriggerStatusEmail (a_candidate_id application) (a_job_id application) requested_new])))"

section \<open>Answering an offer\<close>

definition respond_to_offer ::
  "TenantContext \<Rightarrow> user \<Rightarrow> time \<Rightarrow> uuid \<Rightarrow> uuid \<Rightarrow> uuid \<Rightarrow> string \<Rightarrow> db \<Rightarrow>
   (exc + uuid \<times> string) \<times> db" where
  "respond_to_offer ctx current_user now cand_id hist_id application_id decision d =
     (case require_roles [''Candidate''] current_user of
        Inl e \<Rightarrow> (Inl e, d)
      | Inr _ \<Rightarrow>
     (case get_or_create_candidate_profile ctx current_user cand_id d of
        (Inl e, d1) \<Rightarrow> (Inl e, d1)
      | (Inr candidate, d1) \<Rightarrow>
          (case scalar_one_or_none (filter (\<lambda>a. a_id a = application_id \<and> a_candidate_id a = c_id candidate)
                  (select_applications ctx d1)) of
             Inl e \<Rightarrow> (Inl e, d1)
           | Inr None \<Rightarrow> (Inl (HTTPException 404 Application_Not_Found), d1)
           | Inr (Some application) \<Rightarrow>
               if a_current_status application \<noteq> status_value OFFER
               then (Inl (HTTPException 400 Not_An_Offer), d1)
               else
                 (let new_status = (if decision = ''accept'' then status_value ACCEPTED else status_value REJECTED)
                  in if \<not> is_transition_allowed (a_current_status application) new_status
                     then (Inl business_logic_violation, d1)
                     else case commit_status_update ctx current_user now hist_id application new_status
                            (Some (a_tenant_id application)) d1 of
                       Inl e \<Rightarrow> (Inl e, d1)
                     | Inr d2 \<Rightarrow> (Inr (a_id application, new_status), d2)))))"

section \<open>The e-mail hook\<close>

definition STATUS_NOTIFICATION_STAGES :: "string list" where
  "STATUS_NOTIFICATION_STAGES = [''Screening'', ''Technical Interview'', ''HR Interview'', ''Rejected'']"

definition NOTIFIABLE_STATUSES :: "string list" where
  "NOTIFIABLE_STATUSES = ''Offer'' # STATUS_NOTIFICATION_STAGES"

datatype mail =
    JobOfferEmail utext utext utext "utext option"
  | StatusUpdateEmail utext utext utext string

definition trigger_status_change_email ::
  "unicode \<Rightarrow> TenantContext \<Rightarrow> uuid \<Rightarrow> uuid \<Rightarrow> string \<Rightarrow> db \<Rightarrow> exc + mail list" where
  "trigger_status_change_email U ctx candidate_id job_id new_status d =
     (if new_status \<notin> set NOTIFIABLE_STATUSES then Inr []
      else case scalar_one_or_none (filter (\<lambda>c. c_id c = candidate_id) (select_candidates ctx d)) of
        Inl e \<Rightarrow> Inl e
      | Inr None \<Rightarrow> Inr []
      | Inr (Some candidate) \<Rightarrow>
     (case scalar_one_or_none (filter (\<lambda>u. u_id u = c_user_id candidate) (users d)) of
        Inl e \<Rightarrow> Inl e
      | Inr None \<Rightarrow> Inr []
      | Inr (Some user) \<Rightarrow>
     (case scalar_one_or_none (filter (\<lambda>j. j_id j = job_id) (select_jobs ctx d)) of
        Inl e \<Rightarrow> Inl e
      | Inr None \<Rightarrow> Inr []
      | Inr (Some job) \<Rightarrow>
          (let full_name = ustrip U (c_first_name candidate @ [32] @ c_last_name candidate);
               candidate_name = (if full_name = [] then u_email user else full_name)
           in if new_status = ''Offer'' then
                (case j_company_id job of
                   None \<Rightarrow> Inr [JobOfferEmail (u_email user) candidate_name (j_title job) None]
                 | Some cid \<Rightarrow>
                     (let s = context_parameters ctx in
                      case scalar_one_or_none (filter (\<lambda>co. co_id co = cid
                             \<and> rls_visible s (companies_policies s) R_SELECT co) (companies d)) of
                        Inl e \<Rightarrow> Inl e
                      | Inr company \<Rightarrow>
                          Inr [JobOfferEmail (u_email user) candidate_name (j_title job)
                                 (map_option co_name company)]))
              else Inr [StatusUpdateEmail (u_email user) candidate_name (j_title job) new_status]))))"

end
