(* ===== verification/Hiring_Invariant.thy ===== *)
theory Hiring_Invariant
  imports Hiring
begin

text \<open>
  The hiring workflow as a state machine over the database: its steps are the handlers of
  the theory Hiring (with any request), and any other change that leaves the identifiers,
  tenants and statuses of applications and the status history alone. The invariant ties every
  application's status to its recorded history.
\<close>

section \<open>Steps and reachable databases\<close>

inductive hiring_step :: "db \<Rightarrow> db \<Rightarrow> bool" where
  create_job_step: "create_job ctx u now i payload d = (r, d') \<Longrightarrow> hiring_step d d'"
| close_job_step: "close_job ctx u i d = (r', d') \<Longrightarrow> hiring_step d d'"
| upload_step: "upload_resume save_file ctx u now ci ri ai j file d = (r, d', ts) \<Longrightarrow> hiring_step d d'"
| move_step: "update_application_status ctx u now hi ai cs ns d = (r, d', ts) \<Longrightarrow> hiring_step d d'"
| respond_step: "respond_to_offer ctx u now ci hi ai decision d = (r, d') \<Longrightarrow> hiring_step d d'"
| other_step: "map (\<lambda>a. (a_id a, a_tenant_id a, a_current_status a)) (applications d') =
      map (\<lambda>a. (a_id a, a_tenant_id a, a_current_status a)) (applications d) \<Longrightarrow>
    histories d' = histories d \<Longrightarrow> hiring_step d d'"

inductive hiring_reachable :: "db \<Rightarrow> bool" where
  start: "hiring_reachable empty_db"
| step: "hiring_reachable d \<Longrightarrow> hiring_step d d' \<Longrightarrow> hiring_reachable d'"

section \<open>The invariant\<close>

text \<open>A list of moves that leads from one status to another by allowed transitions.\<close>

fun chain :: "string \<Rightarrow> (string option \<times> string) list \<Rightarrow> string \<Rightarrow> bool" where
  "chain s [] t \<longleftrightarrow> s = t"
| "chain s ((old, new) # ms) t \<longleftrightarrow> old = Some s \<and> is_transition_allowed s new \<and> chain new ms t"

definition moves :: "db \<Rightarrow> uuid \<Rightarrow> (string option \<times> string) list" where
  "moves d i = map (\<lambda>h. (sh_old_status h, sh_new_status h))
     (filter (\<lambda>h. sh_application_id h = i) (histories d))"

definition workflow_inv :: "db \<Rightarrow> bool" where
  "workflow_inv d \<longleftrightarrow> keyed a_id (applications d)
     \<and> (\<forall>h \<in> set (histories d). sh_application_id h \<in> a_id ` set (applications d))
     \<and> (\<forall>a \<in> set (applications d). chain ''Draft'' (moves d (a_id a)) (a_current_status a))"

text \<open>The history of an application belongs to the tenant of the application.\<close>

definition history_tenants :: "db \<Rightarrow> bool" where
  "history_tenants d \<longleftrightarrow> (\<forall>h \<in> set (histories d). \<forall>a \<in> set (applications d).
     a_id a = sh_application_id h \<longrightarrow> a_tenant_id a = sh_tenant_id h)"

lemma chain_append: "chain s (xs @ [(old, new)]) t \<longleftrightarrow>
    (\<exists>m. chain s xs m \<and> old = Some m \<and> is_transition_allowed m new \<and> new = t)"
  by (induction s xs t rule: chain.induct) auto

text \<open>The invariant looks only at identifiers, statuses and the history.\<close>

lemma workflow_inv_cong:
  assumes st: "map (\<lambda>a. (a_id a, a_current_status a)) (applications d') =
      map (\<lambda>a. (a_id a, a_current_status a)) (applications d)"
    and hs: "histories d' = histories d" and inv: "workflow_inv d"
  shows "workflow_inv d'"
proof -
  have ids: "map a_id (applications d') = map a_id (applications d)"
    using arg_cong [OF st, of "map fst"] by (simp add: comp_def)
  then have ids': "a_id ` set (applications d') = a_id ` set (applications d)"
    by (metis list.set_map)
  have mv: "moves d' i = moves d i" for i by (simp add: moves_def hs)
  have "chain ''Draft'' (moves d' (a_id a)) (a_current_status a)" if "a \<in> set (applications d')" for a
  proof -
    have "(a_id a, a_current_status a) \<in> set (map (\<lambda>a. (a_id a, a_current_status a)) (applications d))"
      using that by (metis (no_types, lifting) st image_eqI list.set_map)
    then obtain b where "b \<in> set (applications d)" "a_id b = a_id a" "a_current_status b = a_current_status a"
      by auto
    with inv show ?thesis by (metis mv workflow_inv_def)
  qed
  with inv ids ids' hs show ?thesis by (simp add: workflow_inv_def keyed_def)
qed

lemma workflow_inv_same:
  "applications d' = applications d \<Longrightarrow> histories d' = histories d \<Longrightarrow> workflow_inv d' = workflow_inv d"
  by (simp add: workflow_inv_def moves_def)

section \<open>What each handler does to the tables\<close>

lemma profile_frame:
  "get_or_create_candidate_profile ctx u i d = (r, d') \<Longrightarrow>
     applications d' = applications d \<and> histories d' = histories d \<and> jobs d' = jobs d
     \<and> resumes d' = resumes d"
  by (auto simp: get_or_create_candidate_profile_def Let_def split: sum.splits option.splits if_splits)

lemma create_job_frame:
  "create_job ctx u now i p d = (r, d') \<Longrightarrow> applications d' = applications d \<and> histories d' = histories d"
  by (auto simp: create_job_def Let_def split: sum.splits)

lemma close_job_frame:
  "close_job ctx u i d = (r, d') \<Longrightarrow> applications d' = applications d \<and> histories d' = histories d"
  by (auto simp: close_job_def Let_def split: sum.splits option.splits if_splits)

text \<open>The commit half: one row gets the new status, one history row is appended.\<close>

definition history_entry :: "uuid \<Rightarrow> uuid \<Rightarrow> application \<Rightarrow> string \<Rightarrow> user \<Rightarrow> time \<Rightarrow> status_history" where
  "history_entry hist_id t app new u now =
     \<lparr>sh_id = hist_id, sh_tenant_id = t, sh_application_id = a_id app,
      sh_old_status = Some (a_current_status app), sh_new_status = new,
      sh_changed_by = u_id u, sh_changed_at = now\<rparr>"

lemma keyed_target:
  assumes "keyed key rows" and "list_ex (\<lambda>r. key r = k \<and> v r) rows"
  shows "update_where (\<lambda>r. key r = k \<and> v r) f rows = update_where (\<lambda>r. key r = k) f rows"
proof -
  obtain r where r: "r \<in> set rows" "key r = k" "v r" using assms(2) by (auto simp: list_ex_iff)
  have "v x" if "x \<in> set rows" "key x = k" for x
    using keyed_unique [OF assms(1) that(1) r(1)] that(2) r by simp
  then show ?thesis by (simp add: update_where_def)
qed

lemma commit_effect:
  assumes "commit_status_update ctx u now hist_id app new ht d = Inr d'"
    and "keyed a_id (applications d)"
  shows "\<exists>t. stamped ctx ht = Inr t \<and> hist_id \<notin> set (map sh_id (histories d)) \<and>
    d' = d\<lparr>applications := update_where (\<lambda>a. a_id a = a_id app)
             (\<lambda>a. a\<lparr>a_current_status := new, a_updated_at := now\<rparr>) (applications d),
           histories := histories d @ [history_entry hist_id t app new u now]\<rparr>"
  using assms
  by (auto simp: commit_status_update_def rls_update_def rls_insert_def insert_row_Inr Let_def
      history_entry_def keyed_target split: sum.splits if_splits)

lemma commit_tenant_eq:
  assumes "t < 2 ^ 128" and "keyed a_id (applications e)"
    and "\<exists>r \<in> set (applications e). a_id r = a_id a \<and> a_tenant_id r = t"
    and "h \<notin> set (map sh_id (histories e))"
  shows "commit_status_update (tenant_context t x) u now h a st None e =
      Inr (e\<lparr>applications := update_where (\<lambda>r. a_id r = a_id a)
               (\<lambda>r. r\<lparr>a_current_status := st, a_updated_at := now\<rparr>) (applications e),
             histories := histories e @ [history_entry h t a st u now]\<rparr>)"
proof -
  have ex: "list_ex (\<lambda>r. a_id r = a_id a \<and> a_tenant_id r = t) (applications e)"
    using assms(3) by (auto simp: list_ex_iff)
  show ?thesis
    using assms ex keyed_target [OF assms(2) ex]
    by (simp add: commit_status_update_def stamped_def rls_update_def rls_insert_def insert_row_def
        applications_tt.visible_iff applications_tt.check_iff histories_tt.check_iff Let_def
        history_entry_def list.pred_set)
qed

lemma commit_preserves:
  assumes c: "commit_status_update ctx u now hist_id app new ht d = Inr d'"
    and inv: "workflow_inv d" and app: "app \<in> set (applications d)"
    and ok: "is_transition_allowed (a_current_status app) new"
  shows "workflow_inv d'"
proof -
  have key: "keyed a_id (applications d)" using inv by (simp add: workflow_inv_def)
  let ?f = "\<lambda>a::application. a\<lparr>a_current_status := new, a_updated_at := now\<rparr>"
  obtain t where d': "d' = d\<lparr>applications := update_where (\<lambda>a. a_id a = a_id app) ?f (applications d),
        histories := histories d @ [history_entry hist_id t app new u now]\<rparr>"
    using commit_effect [OF c key] by blast
  have ids: "map a_id (applications d') = map a_id (applications d)"
    by (simp add: d' update_where_map_key)
  then have ids': "a_id ` set (applications d') = a_id ` set (applications d)"
    by (metis list.set_map)
  have mv: "moves d' i = moves d i @ (if i = a_id app then [(Some (a_current_status app), new)] else [])" for i
    by (simp add: moves_def d' history_entry_def)
  have "chain ''Draft'' (moves d' (a_id a)) (a_current_status a)" if a: "a \<in> set (applications d')" for a
  proof (cases "a_id a = a_id app")
    case True
    obtain b where b: "b \<in> set (applications d)" "a = (if a_id b = a_id app then ?f b else b)"
      using a by (auto simp: d' update_where_def)
    with True have "a_id b = a_id app" by (auto split: if_splits)
    with b have "a_current_status a = new" by simp
    moreover have "chain ''Draft'' (moves d (a_id app)) (a_current_status app)"
      using inv app by (simp add: workflow_inv_def)
    ultimately show ?thesis using True ok by (simp add: mv chain_append)
  next
    case False
    then have "a \<in> set (applications d)" using a by (auto simp: d' update_where_def split: if_splits)
    with inv False show ?thesis by (simp add: mv workflow_inv_def)
  qed
  moreover have "\<forall>h \<in> set (histories d'). sh_application_id h \<in> a_id ` set (applications d')"
    unfolding ids' using inv app by (auto simp: d' history_entry_def workflow_inv_def)
  ultimately show ?thesis using key ids by (simp add: workflow_inv_def keyed_def)
qed

lemma selected_application:
  "scalar_one_or_none (filter p (select_applications ctx d)) = Inr (Some a) \<Longrightarrow> a \<in> set (applications d) \<and> p a"
  by (auto dest!: scalar_filter_Some simp: select_applications_def rls_applications_def)

lemma check_status_update_Inr:
  assumes "check_status_update ctx u i cs ns d = Inr a"
  shows "a \<in> set (applications d) \<and> a_id a = i \<and> a_current_status a = status_value cs
    \<and> is_transition_allowed (status_value cs) (status_value ns)
    \<and> u_role u \<in> set APPLICATION_MANAGER_ROLES"
  using assms
  by (auto simp: check_status_update_def Let_def dest: selected_application
      split: sum.splits option.splits if_splits)

lemma move_preserves:
  assumes "update_application_status ctx u now hi ai cs ns d = (r, d', ts)" and "workflow_inv d"
  shows "workflow_inv d'"
  using assms
  by (auto simp: update_application_status_def Let_def split: sum.splits)
    (metis check_status_update_Inr commit_preserves)

lemma respond_preserves:
  assumes "respond_to_offer ctx u now ci hi ai decision d = (r, d')" and "workflow_inv d"
  shows "workflow_inv d'"
proof -
  obtain r1 d1 where p: "get_or_create_candidate_profile ctx u ci d = (r1, d1)" by fastforce
  have inv1: "workflow_inv d1"
    using profile_frame [OF p] assms(2) workflow_inv_same by blast
  show ?thesis
    using assms(1) p inv1 assms(2)
    by (auto simp: respond_to_offer_def Let_def dest: selected_application intro: commit_preserves
        split: sum.splits option.splits if_splits)
qed

lemma new_application_preserves:
  assumes inv: "workflow_inv d" and fresh: "a_id app \<notin> a_id ` set (applications d)"
    and draft: "a_current_status app = ''Draft''"
    and d': "applications d' = applications d @ [app]" "histories d' = histories d"
  shows "workflow_inv d'"
proof -
  have "filter (\<lambda>h. sh_application_id h = a_id app) (histories d) = []"
    using inv fresh unfolding workflow_inv_def filter_empty_conv by metis
  then have "moves d' (a_id app) = []" by (simp add: moves_def d')
  with inv fresh draft show ?thesis
    by (auto simp: workflow_inv_def keyed_def d' moves_def)
qed

lemma upload_effect:
  assumes "upload_resume sf ctx u now ci ri ai j file d = (r, d', ts)"
  shows "(applications d' = applications d \<and> histories d' = histories d) \<or>
    (\<exists>app. applications d' = applications d @ [app] \<and> histories d' = histories d
       \<and> a_id app \<notin> a_id ` set (applications d) \<and> a_current_status app = ''Draft'')"
proof -
  obtain r1 d1 where p: "get_or_create_candidate_profile ctx u ci d = (r1, d1)" by fastforce
  note frame = profile_frame [OF p]
  show ?thesis
    using assms p frame
    by (auto simp: upload_resume_def Let_def rls_insert_def insert_row_Inr
        split: sum.splits option.splits if_splits)
qed

lemma upload_preserves:
  assumes "upload_resume sf ctx u now ci ri ai j file d = (r, d', ts)" and "workflow_inv d"
  shows "workflow_inv d'"
  using upload_effect [OF assms(1)] assms(2) workflow_inv_same [of d' d] new_application_preserves
  by blast

lemma hiring_step_inv: "hiring_step d d' \<Longrightarrow> workflow_inv d \<Longrightarrow> workflow_inv d'"
proof (induction rule: hiring_step.induct)
  case (create_job_step ctx u now i payload d r d')
  then show ?case using create_job_frame workflow_inv_same by blast
next
  case (close_job_step ctx u i d r' d')
  then show ?case using close_job_frame workflow_inv_same by blast
next
  case (other_step d' d)
  have "map (\<lambda>a. (a_id a, a_current_status a)) (applications d') =
      map (\<lambda>a. (a_id a, a_current_status a)) (applications d)"
    using arg_cong [OF other_step(1), of "map (\<lambda>(i, t, s). (i, s))"] by (simp add: comp_def)
  with other_step show ?case using workflow_inv_cong by blast
qed (blast intro: upload_preserves move_preserves respond_preserves)+

lemma workflow_inv_empty: "workflow_inv empty_db"
  by (simp add: workflow_inv_def empty_db_def)

lemma reachable_inv: "hiring_reachable d \<Longrightarrow> workflow_inv d"
  by (induction rule: hiring_reachable.induct) (auto intro: workflow_inv_empty hiring_step_inv)

text \<open>The same for the tenants of the history.\<close>

lemma stamped_eq: "stamped ctx ht = Inr t \<Longrightarrow>
    (ctx_scope ctx = SCOPE_TENANT \<longrightarrow> ctx_tenant_id ctx = Some t) \<and> (ht \<noteq> None \<longrightarrow> ht = Some t)
    \<and> (ctx_scope ctx \<noteq> SCOPE_TENANT \<longrightarrow> ht = Some t)"
  by (cases ht) (auto simp: stamped_def split: if_splits option.splits)

lemma selected_tenant:
  "scalar_one_or_none (filter p (select_applications ctx d)) = Inr (Some a) \<Longrightarrow>
   ctx_scope ctx = SCOPE_TENANT \<longrightarrow> ctx_tenant_id ctx = Some (a_tenant_id a)"
  by (auto dest!: scalar_filter_Some simp: select_applications_def add_tenant_criteria_def select_state_def
      split: if_splits)

lemma commit_history_tenants:
  assumes c: "commit_status_update ctx u now hist_id app new ht d = Inr d'"
    and key: "keyed a_id (applications d)" and tn: "history_tenants d" and app: "app \<in> set (applications d)"
    and st: "\<And>t. stamped ctx ht = Inr t \<Longrightarrow> t = a_tenant_id app"
  shows "history_tenants d'"
proof -
  let ?f = "\<lambda>a::application. a\<lparr>a_current_status := new, a_updated_at := now\<rparr>"
  obtain t where t: "stamped ctx ht = Inr t" and
    d': "d' = d\<lparr>applications := update_where (\<lambda>a. a_id a = a_id app) ?f (applications d),
        histories := histories d @ [history_entry hist_id t app new u now]\<rparr>"
    using commit_effect [OF c key] by blast
  have "\<exists>b \<in> set (applications d). a_id b = a_id a \<and> a_tenant_id b = a_tenant_id a"
    if "a \<in> set (applications d')" for a
    using that by (auto simp: d' update_where_def)
  moreover have "a_tenant_id b = t" if "b \<in> set (applications d)" "a_id b = a_id app" for b
    using keyed_unique [OF key that(1) app that(2)] st [OF t] by simp
  ultimately show ?thesis
    using tn unfolding history_tenants_def d' by (fastforce simp: history_entry_def)
qed

lemma history_tenants_step:
  assumes "hiring_step d d'" and "workflow_inv d" and "history_tenants d"
  shows "history_tenants d'"
  using assms
proof (induction rule: hiring_step.induct)
  case (create_job_step ctx u now i payload d r d')
  then show ?case using create_job_frame by (fastforce simp: history_tenants_def)
next
  case (close_job_step ctx u i d r' d')
  then show ?case using close_job_frame by (fastforce simp: history_tenants_def)
next
  case (upload_step save_file ctx u now ci ri ai j fl d r d' ts)
  have fk: "\<forall>h \<in> set (histories d). sh_application_id h \<in> a_id ` set (applications d)"
    using upload_step by (simp add: workflow_inv_def)
  from upload_effect [OF upload_step(1)] show ?case
  proof (elim disjE exE conjE)
    fix app
    assume *: "applications d' = applications d @ [app]" "histories d' = histories d"
      "a_id app \<notin> a_id ` set (applications d)"
    then show ?thesis using fk upload_step(3) by (force simp: history_tenants_def)
  qed (use upload_step(3) in \<open>simp add: history_tenants_def\<close>)
next
  case (move_step ctx u now hi ai cs ns d r d' ts)
  have key: "keyed a_id (applications d)" using move_step by (simp add: workflow_inv_def)
  have ten: "t = a_tenant_id a"
    if "check_status_update ctx u ai cs ns d = Inr a" "stamped ctx None = Inr t" for a t
    using that stamped_eq [OF that(2)]
    by (auto simp: check_status_update_def Let_def dest!: selected_tenant split: sum.splits option.splits if_splits)
  show ?case
    using move_step check_status_update_Inr [of ctx u ai cs ns d] key
    by (auto simp: update_application_status_def Let_def split: sum.splits
        intro!: commit_history_tenants [OF _ key _ _ ten])
next
  case (respond_step ctx u now ci hi ai decision d r d')
  obtain r1 d1 where p: "get_or_create_candidate_profile ctx u ci d = (r1, d1)" by fastforce
  note frame = profile_frame [OF p]
  have key: "keyed a_id (applications d1)" and tn: "history_tenants d1"
    using respond_step frame by (auto simp: workflow_inv_def history_tenants_def)
  have ten: "t = a_tenant_id a" if "stamped ctx (Some (a_tenant_id a)) = Inr t" for a t
    using stamped_eq [OF that] by simp
  show ?case
    using respond_step(1,3) p tn
    by (auto simp: respond_to_offer_def Let_def dest: selected_application
        split: sum.splits option.splits if_splits intro: commit_history_tenants [OF _ key tn _ ten])
next
  case (other_step d' d)
  have "\<exists>b \<in> set (applications d). a_id b = a_id a \<and> a_tenant_id b = a_tenant_id a"
    if "a \<in> set (applications d')" for a
  proof -
    have "(a_id a, a_tenant_id a, a_current_status a) \<in>
        set (map (\<lambda>a. (a_id a, a_tenant_id a, a_current_status a)) (applications d))"
      unfolding other_step(1) [symmetric] using that by auto
    then show ?thesis by auto
  qed
  with other_step show ?case by (metis history_tenants_def)
qed

lemma reachable_history_tenants: "hiring_reachable d \<Longrightarrow> history_tenants d"
  by (induction rule: hiring_reachable.induct)
    (auto simp: history_tenants_def [of empty_db] intro: history_tenants_step reachable_inv)

section \<open>Chains are prefixes of the path\<close>

lemma chain_path:
  assumes "chain ''Draft'' ms cur"
  shows "(\<exists>i<8. cur = LINEAR_PATH ! i \<and> map snd ms = take i (tl LINEAR_PATH)) \<or>
    (\<exists>i<7. cur = ''Rejected'' \<and> map snd ms = take i (tl LINEAR_PATH) @ [''Rejected''])"
  using assms
proof (induction ms arbitrary: cur rule: rev_induct)
  case Nil
  then show ?case by (auto intro: exI [of _ 0])
next
  case (snoc m ms)
  obtain old new where m: "m = (old, new)" by fastforce
  from snoc.prems obtain p where p: "chain ''Draft'' ms p" "is_transition_allowed p new" "new = cur"
    by (auto simp: m chain_append)
  from snoc.IH [OF p(1)] consider
      (live) i where "i < 8" "p = LINEAR_PATH ! i" "map snd ms = take i (tl LINEAR_PATH)"
    | (out) "p = ''Rejected''" by blast
  then show ?case
  proof cases
    case live
    then have "i < 7" "new = LINEAR_PATH ! Suc i \<or> new = ''Rejected''"
      using p(2) by (auto simp: transition_from_stage)
    moreover have "take (Suc i) (tl LINEAR_PATH) = take i (tl LINEAR_PATH) @ [LINEAR_PATH ! Suc i]"
      using \<open>i < 7\<close> by (simp add: take_Suc_conv_app_nth nth_tl)
    ultimately show ?thesis using live p(3) m by (auto intro: exI [of _ "Suc i"])
  next
    case out
    with p(2) show ?thesis by (simp add: is_transition_allowed_code)
  qed
qed

lemma reachable_path:
  assumes "hiring_reachable d" and "a \<in> set (applications d)"
  shows "(\<exists>i<8. a_current_status a = LINEAR_PATH ! i \<and> map snd (moves d (a_id a)) = take i FUNNEL_STAGES) \<or>
    (\<exists>i<7. a_current_status a = ''Rejected'' \<and>
       map snd (moves d (a_id a)) = take i FUNNEL_STAGES @ [''Rejected''])"
proof -
  have "tl LINEAR_PATH = FUNNEL_STAGES" by (simp add: LINEAR_PATH_def FUNNEL_STAGES_def)
  moreover have "chain ''Draft'' (moves d (a_id a)) (a_current_status a)"
    using reachable_inv [OF assms(1)] assms(2) by (simp add: workflow_inv_def)
  ultimately show ?thesis using chain_path by metis
qed

section \<open>Properties\<close>

text \<open>
  C5. The board is never skipped. In every database reachable through the workflow, the
  history of an application at stage i of the path records exactly the stages 1 to i in
  their order; the history of a rejected application records the stages before the
  rejection and then the rejection. In particular an application that is Hired has passed
  all seven stages, and an Accepted one has passed through Offer.
\<close>

theorem status_history_is_the_path:
  assumes "hiring_reachable d" and "a \<in> set (applications d)"
  shows "(\<exists>i<8. a_current_status a = LINEAR_PATH ! i \<and> map snd (moves d (a_id a)) = take i FUNNEL_STAGES) \<or>
    (\<exists>i<7. a_current_status a = ''Rejected'' \<and>
       map snd (moves d (a_id a)) = take i FUNNEL_STAGES @ [''Rejected''])"
  using assms by (rule reachable_path)

text \<open>A small run, for evaluation: an advert of tenant 5 and one application to it.\<close>

definition demo_user :: "uuid \<Rightarrow> string \<Rightarrow> uuid option \<Rightarrow> user" where
  "demo_user i role t = \<lparr>u_id = i, u_email = utext_of ''ann@x.io'', u_password_hash = [], u_role = role,
     u_is_active = True, u_created_at = 0, u_tenant_id = t, u_data_consent_at = None,
     u_data_consent_version = None, u_anonymized_at = None\<rparr>"

definition demo_job :: job where
  "demo_job = \<lparr>j_id = 20, j_tenant_id = 5, j_company_id = None, j_created_by = 1,
     j_title = utext_of ''Dev'', j_department = None, j_description = None,
     j_skills_required = Some [], j_salary_range = None, j_status = ''Active'',
     j_required_seniority = None, j_required_education = None, j_location = None, j_created_at = 100\<rparr>"

definition demo_application :: application where
  "demo_application = \<lparr>a_id = 11, a_tenant_id = 5, a_job_id = 20, a_candidate_id = 3,
     a_current_status = ''Draft'', a_score_ai = None, a_created_at = 200, a_updated_at = 200\<rparr>"

definition demo_db :: db where
  "demo_db = empty_db\<lparr>jobs := [demo_job],
     candidates := [\<lparr>c_id = 3, c_user_id = 7, c_first_name = utext_of ''ann'', c_last_name = [],
       c_phone = None, c_skills = None, c_location = None\<rparr>],
     resumes := [\<lparr>r_id = 30, r_tenant_id = 5, r_candidate_id = 3, r_file_url = ''u'', r_raw_text = None,
       r_search_tokens = None, r_parsed_data = None, r_skill_analysis = None, r_agent_analysis = None\<rparr>],
     applications := [demo_application]\<rparr>"

lemma demo_job_created:
  "create_job (tenant_context 5 1) (demo_user 1 ''Admin'' (Some 5)) 100 20
     \<lparr>jc_title = utext_of ''Dev'', jc_department = None, jc_description = None, jc_skills_required = [],
      jc_salary_range = None, jc_required_seniority = None, jc_required_education = None, jc_location = None\<rparr>
     empty_db = (Inr demo_job, empty_db\<lparr>jobs := [demo_job]\<rparr>)"
  by (simp add: create_job_def JOB_MANAGER_ROLES_def demo_user_def stamped_def rls_insert_def
      jobs_tt.check_iff insert_row_def demo_job_def empty_db_def Let_def)

lemma demo_uploaded:
  "upload_resume (\<lambda>_ _ _. ''u'') (candidate_context 7) (demo_user 7 ''Candidate'' None) 200 3 30 11 20
     \<lparr>up_filename = Some (utext_of ''cv.PDF''), up_content_type = Some ''application/pdf'', up_bytes = [37]\<rparr>
     (empty_db\<lparr>jobs := [demo_job]\<rparr>)
   = (Inr (11, ''Draft''), demo_db, [ProcessResume 11 ''u''])"
proof -
  let ?d = "empty_db\<lparr>jobs := [demo_job]\<rparr>"
  let ?c = "\<lparr>c_id = 3, c_user_id = 7, c_first_name = utext_of ''ann'', c_last_name = [],
       c_phone = None, c_skills = None, c_location = None\<rparr>"
  let ?d1 = "?d\<lparr>candidates := [?c]\<rparr>"
  have own: "own_candidate (context_parameters (candidate_context 7)) ?d1 x \<longleftrightarrow> x = 3" for x
    using candidate_id_of_user [of 7 ?c ?d1] by (auto simp: own_candidate_def keyed_def)
  have jobs: "rls_jobs (context_parameters (candidate_context 7)) ?d1 = [demo_job]"
    using rls_jobs_candidate [of 7 ?d1] by simp
  have prof: "get_or_create_candidate_profile (candidate_context 7) (demo_user 7 ''Candidate'' None) 3 ?d
      = (Inr ?c, ?d1)"
    by (simp add: get_or_create_candidate_profile_def select_candidates_def empty_db_def Let_def
        rls_insert_def rls_check_def candidates_policies_def settings_candidate insert_row_def
        demo_user_def cp_at_def utext_of_def)
  have ext: "file_extension (utext_of ''cv.PDF'') \<in> set ALLOWED_EXTENSIONS"
    by (simp add: file_extension_def ALLOWED_EXTENSIONS_def utext_of_def cp_dot_def cp_ascii_lower_def)
  have role: "require_roles [''Candidate''] (demo_user 7 ''Candidate'' None) = Inr (demo_user 7 ''Candidate'' None)"
    by (simp add: demo_user_def)
  have job: "filter (\<lambda>j. j_id j = 20) (select_jobs (candidate_context 7) ?d) = [demo_job]"
    by (simp add: select_jobs_candidate demo_job_def)
  have jt: "j_tenant_id demo_job = 5" "j_id demo_job = 20" by (simp_all add: demo_job_def)
  have st: "stamped (candidate_context 7) (Some 5) = Inr 5" by (simp add: stamped_def scope_defs)
  let ?s = "context_parameters (candidate_context 7)"
  let ?r = "\<lparr>r_id = 30, r_tenant_id = 5, r_candidate_id = 3, r_file_url = ''u'', r_raw_text = None,
       r_search_tokens = None, r_parsed_data = None, r_skill_analysis = None, r_agent_analysis = None\<rparr>"
  have ins: "rls_insert ?s (resumes_policies ?s ?d1) r_id ?r (resumes ?d1) = Inr [?r]"
    by (simp add: rls_insert_def rls_check_def resumes_policies_def own jobs jt insert_row_def)
  have ins': "rls_insert ?s (applications_policies ?s ?d1) a_id demo_application (applications ?d1)
      = Inr [demo_application]"
    by (simp add: rls_insert_def rls_check_def applications_policies_def own jobs jt job_tenant_def
        insert_row_def demo_application_def)
  show ?thesis
    using ext ins ins'
    by (simp add: upload_resume_def role job prof jt st ALLOWED_CONTENT_TYPES_def MAX_FILE_SIZE_BYTES_def
        demo_application_def demo_db_def Let_def)
qed

lemma demo_reachable: "hiring_reachable demo_db"
  by (rule hiring_reachable.step [OF hiring_reachable.step [OF hiring_reachable.start
        hiring_step.create_job_step [OF demo_job_created]] hiring_step.upload_step [OF demo_uploaded]])

theorem status_history_is_the_path_witness:
  "hiring_reachable demo_db \<and> demo_application \<in> set (applications demo_db) \<and>
   ((\<exists>i<8. a_current_status demo_application = LINEAR_PATH ! i
       \<and> map snd (moves demo_db (a_id demo_application)) = take i FUNNEL_STAGES) \<or>
    (\<exists>i<7. a_current_status demo_application = ''Rejected'' \<and>
       map snd (moves demo_db (a_id demo_application)) = take i FUNNEL_STAGES @ [''Rejected'']))"
  using status_history_is_the_path [OF demo_reachable, of demo_application] demo_reachable
  by (simp add: demo_db_def)

text \<open>
  C6. The guard of the board is not atomic with the write. When two staff requests on the
  same live application both read it before either writes, one rejecting it and one moving
  it forward, both pass the guard and both commits succeed; the application ends at the
  next stage although its history already records the rejection, so the terminal status was
  left and the history is no path of the machine.
\<close>

theorem concurrent_moves_leave_rejected:
  assumes "hiring_reachable d" and "a \<in> set (applications d)" and "a_tenant_id a = t" and "t < 2 ^ 128"
    and "a_current_status a = status_value cs" and "is_transition_allowed (status_value cs) (status_value ns)"
    and "ns \<noteq> REJECTED" and "u_role u \<in> set APPLICATION_MANAGER_ROLES"
    and "h1 \<notin> set (map sh_id (histories d))" and "h2 \<notin> set (map sh_id (histories d))" and "h1 \<noteq> h2"
  shows "\<exists>d1 d2 a2. check_status_update (tenant_context t x) u (a_id a) cs REJECTED d = Inr a
    \<and> check_status_update (tenant_context t x) u (a_id a) cs ns d = Inr a
    \<and> commit_status_update (tenant_context t x) u now h1 a (status_value REJECTED) None d = Inr d1
    \<and> commit_status_update (tenant_context t x) u now h2 a (status_value ns) None d1 = Inr d2
    \<and> a2 \<in> set (applications d2) \<and> a_id a2 = a_id a \<and> a_current_status a2 = status_value ns
    \<and> (Some (status_value cs), ''Rejected'') \<in> set (moves d2 (a_id a)) \<and> \<not> workflow_inv d2"
proof -
  have inv: "workflow_inv d" by (rule reachable_inv [OF assms(1)])
  then have key: "keyed a_id (applications d)" by (simp add: workflow_inv_def)
  let ?set = "\<lambda>st (r::application). r\<lparr>a_current_status := st, a_updated_at := now\<rparr>"
  let ?d1 = "d\<lparr>applications := update_where (\<lambda>r. a_id r = a_id a) (?set ''Rejected'') (applications d),
      histories := histories d @ [history_entry h1 t a ''Rejected'' u now]\<rparr>"
  let ?d2 = "?d1\<lparr>applications := update_where (\<lambda>r. a_id r = a_id a) (?set (status_value ns)) (applications ?d1),
      histories := histories ?d1 @ [history_entry h2 t a (status_value ns) u now]\<rparr>"
  have c1: "commit_status_update (tenant_context t x) u now h1 a (status_value REJECTED) None d = Inr ?d1"
    unfolding status_value.simps
    by (rule commit_tenant_eq [OF assms(4) key _ assms(9)]) (use assms(2,3) in blast)
  have c2: "commit_status_update (tenant_context t x) u now h2 a (status_value ns) None ?d1 = Inr ?d2"
  proof (rule commit_tenant_eq [OF assms(4)])
    show "keyed a_id (applications ?d1)" using key by (simp add: keyed_update_where)
    show "\<exists>r \<in> set (applications ?d1). a_id r = a_id a \<and> a_tenant_id r = t"
      using assms(2,3)
      by (intro bexI [of _ "?set ''Rejected'' a"]) (auto simp: update_where_def image_iff intro!: bexI [of _ a])
    show "h2 \<notin> set (map sh_id (histories ?d1))" using assms(10,11) by (simp add: history_entry_def)
  qed
  have "filter (\<lambda>r. a_id r = a_id a \<and> a_tenant_id r = t) (applications d) = [a]"
    using keyed_find [OF key assms(2) refl] assms(3) by (simp add: keyed_filter_key [OF key])
  then have sel: "filter (\<lambda>r. a_id r = a_id a) (select_applications (tenant_context t x) d) = [a]"
    using assms(4) by (simp add: select_applications_tenant conj_commute)
  have live: "is_transition_allowed (status_value cs) ''Rejected''"
    using assms(6) by (auto simp: is_transition_allowed_code split: option.splits)
  have k: "check_status_update (tenant_context t x) u (a_id a) cs REJECTED d = Inr a"
      "check_status_update (tenant_context t x) u (a_id a) cs ns d = Inr a"
    using sel live assms(5,6,8) by (simp_all add: check_status_update_def Let_def)
  let ?a2 = "?set (status_value ns) (?set ''Rejected'' a)"
  have a2: "?a2 \<in> set (applications ?d2)" using assms(2)
    by (auto simp: update_where_def image_iff intro!: bexI [of _ a])
  have mv: "moves ?d2 (a_id a) = moves d (a_id a) @
      [(Some (status_value cs), ''Rejected''), (Some (status_value cs), status_value ns)]"
    using assms(5) by (simp add: moves_def history_entry_def)
  have "\<not> workflow_inv ?d2"
  proof
    assume "workflow_inv ?d2"
    then have "chain ''Draft'' (moves ?d2 (a_id ?a2)) (a_current_status ?a2)"
      using a2 unfolding workflow_inv_def by blast
    then have "chain ''Draft'' (moves ?d2 (a_id a)) (status_value ns)" by simp
    then have "chain ''Draft'' ((moves d (a_id a) @ [(Some (status_value cs), ''Rejected'')])
        @ [(Some (status_value cs), status_value ns)]) (status_value ns)"
      unfolding mv by simp
    then have "status_value cs = ''Rejected''"
      unfolding chain_append by auto
    with live show False by (simp add: is_transition_allowed_code)
  qed
  then show ?thesis
    using k c1 c2 a2 mv by (intro exI [of _ ?d1] exI [of _ ?d2] exI [of _ ?a2]) simp
qed

theorem concurrent_moves_leave_rejected_witness:
  "\<exists>d1 d2 a2. check_status_update (tenant_context 5 1) (demo_user 1 ''Admin'' (Some 5)) 11 DRAFT REJECTED demo_db
      = Inr demo_application
    \<and> check_status_update (tenant_context 5 1) (demo_user 1 ''Admin'' (Some 5)) 11 DRAFT APPLIED demo_db
      = Inr demo_application
    \<and> commit_status_update (tenant_context 5 1) (demo_user 1 ''Admin'' (Some 5)) 300 40 demo_application
        (status_value REJECTED) None demo_db = Inr d1
    \<and> commit_status_update (tenant_context 5 1) (demo_user 1 ''Admin'' (Some 5)) 300 41 demo_application
        (status_value APPLIED) None d1 = Inr d2
    \<and> a2 \<in> set (applications d2) \<and> a_id a2 = 11 \<and> a_current_status a2 = ''Applied''
    \<and> \<not> workflow_inv d2"
proof -
  have al: "is_transition_allowed (status_value DRAFT) (status_value APPLIED)"
    by (simp add: is_transition_allowed_code LINEAR_PATH_def)
  show ?thesis
    using concurrent_moves_leave_rejected [OF demo_reachable, of demo_application 5 DRAFT APPLIED
        "demo_user 1 ''Admin'' (Some 5)" 40 41 1 300] al
    by (auto simp: demo_db_def demo_application_def demo_user_def APPLICATION_MANAGER_ROLES_def)
qed

end
