(* ===== verification/Hiring_Properties.thy ===== *)
theory Hiring_Properties
  imports Hiring_Invariant
begin

text \<open>
  What each handler of the hiring workflow promises, branch by branch: moving a card,
  answering an offer, applying with a resume, and the e-mail hook.
\<close>

text \<open>
  C7. Moving a card, completely. A request of anybody but an Admin or an HR manager is answered 403 and
  changes nothing. A manager's request in tenant t answers 404 unless the
  application exists in t; 400 with the business-logic detail if the client's view is stale
  or the move is no step of the machine; otherwise the one row gets the new status and the
  time, one history row stamped with t is appended, and one notification is triggered. On
  every other branch the database is unchanged and nothing is triggered.
\<close>

theorem update_application_status_spec:
  assumes "t < 2 ^ 128" and "keyed a_id (applications d)"
  shows "update_application_status (tenant_context t x) u now hid i cs ns d =
    (if u_role u \<notin> {''Admin'', ''HR_Manager''} then (Inl (HTTPException 403 Forbidden_Role), d, []) else
     case find (\<lambda>a. a_id a = i) (applications d) of
       None \<Rightarrow> (Inl (HTTPException 404 Application_Not_Found), d, [])
     | Some a \<Rightarrow>
         if a_tenant_id a \<noteq> t then (Inl (HTTPException 404 Application_Not_Found), d, [])
         else if a_current_status a \<noteq> status_value cs \<or>
           \<not> (\<exists>p q. abs_status (status_value cs) = Some p \<and> abs_status (status_value ns) = Some q \<and> stage_step p q)
         then (Inl (HTTPException 400 Business_Logic_Violation), d, [])
         else if hid \<in> set (map sh_id (histories d)) then (Inl IntegrityError, d, [])
         else (Inr (i, status_value cs, status_value ns, now),
               d\<lparr>applications := update_where (\<lambda>r. a_id r = i)
                    (\<lambda>r. r\<lparr>a_current_status := status_value ns, a_updated_at := now\<rparr>) (applications d),
                 histories := histories d @ [history_entry hid t a (status_value ns) u now]\<rparr>,
               [TriggerStatusEmail (a_candidate_id a) (a_job_id a) (status_value ns)]))"
proof (cases "u_role u \<in> set APPLICATION_MANAGER_ROLES")
  case False
  then have "require_roles APPLICATION_MANAGER_ROLES u = Inl (HTTPException 403 Forbidden_Role)" by (simp add: require_roles_Inl)
  with False show ?thesis
    by (simp add: update_application_status_def check_status_update_def APPLICATION_MANAGER_ROLES_def)
next
  case role: True
  let ?ctx = "tenant_context t x"
  have manager: "u_role u \<in> {''Admin'', ''HR_Manager''}" using role by (simp add: APPLICATION_MANAGER_ROLES_def)
  have sel: "filter (\<lambda>a. a_id a = i) (select_applications ?ctx d) =
      (case find (\<lambda>a. a_id a = i) (applications d) of None \<Rightarrow> []
       | Some a \<Rightarrow> if a_tenant_id a = t then [a] else [])"
    using keyed_filter_key [OF assms(2), of i "\<lambda>a. a_tenant_id a = t"] assms(1)
    by (simp add: select_applications_tenant conj_commute)
  show ?thesis
  proof (cases "find (\<lambda>a. a_id a = i) (applications d)")
    case None
    with sel role manager show ?thesis by (simp add: update_application_status_def check_status_update_def)
  next
    case (Some a)
    then have a: "a \<in> set (applications d)" "a_id a = i" by (auto simp: find_Some_iff)
    show ?thesis
    proof (cases "a_tenant_id a = t \<and> a_current_status a = status_value cs
        \<and> is_transition_allowed (status_value cs) (status_value ns)")
      case False
      with Some sel role manager show ?thesis
        by (auto simp: update_application_status_def check_status_update_def Let_def
            business_logic_violation_def transition_refines)
    next
      case True
      have chk: "check_status_update ?ctx u i cs ns d = Inr a"
        using True Some sel role by (simp add: check_status_update_def Let_def)
      have ex: "\<exists>r \<in> set (applications d). a_id r = a_id a \<and> a_tenant_id r = t"
        using a True by blast
      have "commit_status_update ?ctx u now hid a (status_value ns) None d =
          (if hid \<in> set (map sh_id (histories d)) then Inl IntegrityError
           else Inr (d\<lparr>applications := update_where (\<lambda>r. a_id r = a_id a)
                    (\<lambda>r. r\<lparr>a_current_status := status_value ns, a_updated_at := now\<rparr>) (applications d),
                 histories := histories d @ [history_entry hid t a (status_value ns) u now]\<rparr>))"
        using commit_tenant_eq [OF assms(1,2) ex] ex assms(1)
        by (auto simp: commit_status_update_def stamped_def rls_update_def rls_insert_def insert_row_def
            applications_tt.visible_iff applications_tt.check_iff histories_tt.check_iff Let_def
            list.pred_set list_ex_iff)
      with chk True Some a(2) manager show ?thesis
        by (auto simp: update_application_status_def Let_def transition_refines)
    qed
  qed
qed

theorem update_application_status_spec_witness:
  "fst (update_application_status (tenant_context 5 1) (demo_user 1 ''Admin'' (Some 5)) 300 40 11
     DRAFT APPLIED demo_db) = Inr (11, ''Draft'', ''Applied'', 300)"
proof -
  have "\<exists>p q. abs_status (status_value DRAFT) = Some p \<and> abs_status (status_value APPLIED) = Some q \<and> stage_step p q"
    unfolding transition_refines [symmetric]
    by (simp add: is_transition_allowed_code LINEAR_PATH_def)
  then show ?thesis
    using update_application_status_spec [of 5 demo_db 1 "demo_user 1 ''Admin'' (Some 5)" 300 40 11 DRAFT APPLIED]
    by (simp add: demo_db_def demo_application_def demo_user_def keyed_def)
qed

text \<open>
  C8. Answering an offer touches only one's own offer. Whenever a request of the respond
  route changes the status of an application, that application stood at Offer, belongs to
  the profile of the requesting user, and moves to Accepted on the decision accept and to
  Rejected on any other; the applications themselves neither appear nor vanish.
\<close>

theorem respond_changes_only_own_offer:
  assumes "respond_to_offer ctx u now ci hi ai decision d = (r, d')"
    and "keyed a_id (applications d)" and "a \<in> set (applications d)" and "a' \<in> set (applications d')"
    and "a_id a' = a_id a" and "a_current_status a' \<noteq> a_current_status a"
  shows "a_id a = ai \<and> a_current_status a = ''Offer''
    \<and> (\<exists>c \<in> set (candidates d'). c_user_id c = u_id u \<and> c_id c = a_candidate_id a)
    \<and> a_current_status a' = (if decision = ''accept'' then ''Accepted'' else ''Rejected'')
    \<and> map a_id (applications d') = map a_id (applications d) \<and> u_role u = ''Candidate''"
proof -
  obtain r1 d1 where p: "get_or_create_candidate_profile ctx u ci d = (r1, d1)" by fastforce
  note frame = profile_frame [OF p]
  have own: "c \<in> set (candidates d1) \<and> c_user_id c = u_id u" if "r1 = Inr c" for c
    using p that
    by (auto simp: get_or_create_candidate_profile_def Let_def rls_insert_def insert_row_Inr
        select_candidates_def dest!: scalar_filter_Some split: sum.splits option.splits if_splits)
  have changed: "applications d' \<noteq> applications d"
    using assms(2-6) keyed_unique by metis
  then obtain c app where c: "r1 = Inr c" and role: "u_role u = ''Candidate''"
      and app: "app \<in> set (applications d1)" "a_id app = ai" "a_candidate_id app = c_id c"
        "a_current_status app = ''Offer''"
      and com: "commit_status_update ctx u now hi app (if decision = ''accept'' then ''Accepted'' else ''Rejected'')
          (Some (a_tenant_id app)) d1 = Inr d'"
    using assms(1) p frame
    by (auto simp: respond_to_offer_def Let_def dest: selected_application
        split: sum.splits option.splits if_splits)
  let ?new = "if decision = ''accept'' then ''Accepted'' else ''Rejected''"
  obtain t where d': "d' = d1\<lparr>applications := update_where (\<lambda>a. a_id a = a_id app)
        (\<lambda>a. a\<lparr>a_current_status := ?new, a_updated_at := now\<rparr>) (applications d1),
      histories := histories d1 @ [history_entry hi t app ?new u now]\<rparr>"
    using commit_effect [OF com] frame assms(2) by metis
  have apps': "applications d' = update_where (\<lambda>a. a_id a = ai)
        (\<lambda>a. a\<lparr>a_current_status := ?new, a_updated_at := now\<rparr>) (applications d)"
    using d' frame app(2) by simp
  then obtain b where b: "b \<in> set (applications d)"
      "a' = (if a_id b = ai then b\<lparr>a_current_status := ?new, a_updated_at := now\<rparr> else b)"
    using assms(4) by (auto simp: update_where_def)
  then have "a_id b = a_id a" using assms(5) by (auto split: if_splits)
  then have "b = a" using keyed_unique [OF assms(2) b(1) assms(3)] by simp
  with b assms(6) have ai: "a_id a = ai" "a_current_status a' = ?new" by (auto split: if_splits)
  then have "app = a" using keyed_unique [OF assms(2) _ assms(3)] app frame by simp
  with ai app own [OF c] c role apps' d' show ?thesis
    by (auto simp: update_where_map_key)
qed

lemma demo_fields:
  "a_id demo_application = 11" "a_tenant_id demo_application = 5" "a_job_id demo_application = 20"
  "a_candidate_id demo_application = 3" "a_current_status demo_application = ''Draft''"
  by (simp_all add: demo_application_def)

lemma demo_profile:
  assumes "applications d = [a]" and "candidates d = [c]" and "jobs d = [demo_job]"
    and "c_user_id c = 7" and "c_id c = 3"
  shows "own_candidate (context_parameters (candidate_context 7)) d y \<longleftrightarrow> y = 3"
    and "rls_jobs (context_parameters (candidate_context 7)) d = [demo_job]"
    and "get_or_create_candidate_profile (candidate_context 7) (demo_user 7 ''Candidate'' None) i d = (Inr c, d)"
proof -
  show "own_candidate (context_parameters (candidate_context 7)) d y \<longleftrightarrow> y = 3"
    using candidate_id_of_user [of 7 c d] assms by (auto simp: own_candidate_def keyed_def)
  show "rls_jobs (context_parameters (candidate_context 7)) d = [demo_job]"
    using rls_jobs_candidate [of 7 d] assms by simp
  show "get_or_create_candidate_profile (candidate_context 7) (demo_user 7 ''Candidate'' None) i d = (Inr c, d)"
    using assms by (simp add: get_or_create_candidate_profile_def select_candidates_def rls_visible_def
        candidates_policies_def settings_candidate demo_user_def)
qed

theorem respond_changes_only_own_offer_witness:
  "\<exists>r d'. respond_to_offer (candidate_context 7) (demo_user 7 ''Candidate'' None) 400 3 50 11 ''accept''
       (demo_db\<lparr>applications := [demo_application\<lparr>a_current_status := ''Offer''\<rparr>]\<rparr>) = (r, d')
     \<and> applications d' = [demo_application\<lparr>a_current_status := ''Accepted'', a_updated_at := 400\<rparr>]
     \<and> (\<exists>c \<in> set (candidates d'). c_user_id c = 7 \<and> c_id c = 3)"
proof -
  let ?a = "demo_application\<lparr>a_current_status := ''Offer''\<rparr>"
  let ?d = "demo_db\<lparr>applications := [?a]\<rparr>"
  let ?c = "\<lparr>c_id = 3, c_user_id = 7, c_first_name = utext_of ''ann'', c_last_name = [],
       c_phone = None, c_skills = None, c_location = None\<rparr>"
  let ?d1 = "?d\<lparr>applications := [?a\<lparr>a_current_status := ''Accepted'', a_updated_at := 400\<rparr>]\<rparr>"
  let ?d' = "?d1\<lparr>histories := [history_entry 50 5 ?a ''Accepted'' (demo_user 7 ''Candidate'' None) 400]\<rparr>"
  let ?s = "context_parameters (candidate_context 7)"
  have d: "applications ?d = [?a]" "candidates ?d = [?c]" "jobs ?d = [demo_job]" "c_user_id ?c = 7" "c_id ?c = 3"
    by (simp_all add: demo_db_def)
  have d1: "applications ?d1 = [?a\<lparr>a_current_status := ''Accepted'', a_updated_at := 400\<rparr>]"
      "candidates ?d1 = [?c]" "jobs ?d1 = [demo_job]"
    by (simp_all add: demo_db_def)
  note p = demo_profile [OF d] and p1 = demo_profile [OF d1 d(4,5)]
  have st: "stamped (candidate_context 7) (Some 5) = Inr 5" by (simp add: stamped_def scope_defs)
  have sel: "rls_applications ?s ?d = [?a]" "rls_applications ?s ?d1 = applications ?d1"
    using p(1) p1(1) by (simp_all add: rls_applications_candidate demo_application_def)
  have al: "is_transition_allowed ''Offer'' ''Accepted''"
    by (simp add: is_transition_allowed_code LINEAR_PATH_def)
  have upd: "rls_update ?s (applications_policies ?s ?d) a_id 11
      (\<lambda>a. a\<lparr>a_current_status := ''Accepted'', a_updated_at := 400\<rparr>) (applications ?d) = Inr (applications ?d1)"
    using p(1,2) by (simp add: rls_update_def rls_visible_def rls_check_def applications_policies_def
        update_where_def job_tenant_def demo_application_def demo_job_def)
  have ins: "rls_insert ?s (histories_policies ?s ?d1) sh_id
      (history_entry 50 5 ?a ''Accepted'' (demo_user 7 ''Candidate'' None) 400) (histories ?d1)
      = Inr (histories ?d')"
    using p1(1) sel(2) by (simp add: rls_insert_def rls_check_def histories_policies_def insert_row_def
        history_entry_def demo_application_def demo_db_def)
  have com: "commit_status_update (candidate_context 7) (demo_user 7 ''Candidate'' None) 400 50 ?a ''Accepted''
      (Some 5) ?d = Inr ?d'"
    using upd ins st
    by (simp add: commit_status_update_def Let_def history_entry_def demo_application_def demo_user_def)
  have role: "require_roles [''Candidate''] (demo_user 7 ''Candidate'' None) = Inr (demo_user 7 ''Candidate'' None)"
    by (simp add: demo_user_def)
  have run: "respond_to_offer (candidate_context 7) (demo_user 7 ''Candidate'' None) 400 3 50 11 ''accept'' ?d
      = (Inr (11, ''Accepted''), ?d')"
    using com al by (simp add: respond_to_offer_def role p(3) select_applications_def sel demo_fields Let_def)
  have "\<exists>c \<in> set (candidates ?d'). c_user_id c = u_id (demo_user 7 ''Candidate'' None) \<and> c_id c = a_candidate_id ?a"
    using respond_changes_only_own_offer [OF run, of ?a "?a\<lparr>a_current_status := ''Accepted'', a_updated_at := 400\<rparr>"]
    by (simp add: keyed_def)
  then show ?thesis
    using run by (intro exI [of _ "Inr (11, ''Accepted'')"] exI [of _ ?d']) (simp add: demo_user_def demo_application_def)
qed

text \<open>
  Applying. An answer of success to an upload means: the user is a candidate, the file
  has an allowed type and extension, between 1 byte and 10 MiB, the advert exists, and
  exactly one application and one resume were added, both with the advert's tenant and the
  user's own profile, the application at Draft, and the processing task was queued. Any
  other answer leaves applications, resumes, adverts and history unchanged.
\<close>

theorem upload_resume_spec:
  assumes "upload_resume save_file ctx u now ci ri ai ji file d = (r, d', ts)"
  shows "(case r of
      Inr (i, st) \<Rightarrow> i = ai \<and> st = ''Draft'' \<and> u_role u = ''Candidate''
        \<and> 0 < length (up_bytes file) \<and> length (up_bytes file) \<le> 10485760
        \<and> file_extension (case up_filename file of None \<Rightarrow> [] | Some f \<Rightarrow> f) \<in> set ALLOWED_EXTENSIONS
        \<and> (\<exists>j app res. j \<in> set (jobs d) \<and> j_id j = ji
             \<and> applications d' = applications d @ [app] \<and> resumes d' = resumes d @ [res]
             \<and> a_id app = ai \<and> a_current_status app = ''Draft'' \<and> a_job_id app = ji
             \<and> a_tenant_id app = j_tenant_id j \<and> r_tenant_id res = j_tenant_id j
             \<and> a_candidate_id app = r_candidate_id res
             \<and> (\<exists>c \<in> set (candidates d'). c_id c = a_candidate_id app \<and> c_user_id c = u_id u)
             \<and> ts = [ProcessResume ai (r_file_url res)])
        \<and> histories d' = histories d
    | Inl e \<Rightarrow> ts = [] \<and> applications d' = applications d \<and> resumes d' = resumes d
        \<and> histories d' = histories d)
    \<and> jobs d' = jobs d"
proof -
  obtain r1 d1 where p: "get_or_create_candidate_profile ctx u ci d = (r1, d1)" by fastforce
  note frame = profile_frame [OF p]
  have own: "c \<in> set (candidates d1) \<and> c_user_id c = u_id u" if "r1 = Inr c" for c
    using p that
    by (auto simp: get_or_create_candidate_profile_def Let_def rls_insert_def insert_row_Inr
        select_candidates_def dest!: scalar_filter_Some split: sum.splits option.splits if_splits)
  have job: "j \<in> set (jobs d) \<and> j_id j = ji"
    if "scalar_one_or_none (filter (\<lambda>j. j_id j = ji) (select_jobs ctx d)) = Inr (Some j)" for j
    using scalar_filter_Some [OF that] by (auto simp: select_jobs_def rls_jobs_def)
  show ?thesis
  proof (cases r)
    case (Inl e)
    with assms p frame show ?thesis
      by (auto simp: upload_resume_def Let_def split: sum.splits option.splits if_splits)
  next
    case (Inr v)
    with assms p obtain j c rs as where
        found: "scalar_one_or_none (filter (\<lambda>j. j_id j = ji) (select_jobs ctx d)) = Inr (Some j)" "r1 = Inr c"
      and guards: "u_role u = ''Candidate''" "up_bytes file \<noteq> []" "length (up_bytes file) \<le> MAX_FILE_SIZE_BYTES"
        "file_extension (case up_filename file of None \<Rightarrow> [] | Some f \<Rightarrow> f) \<in> set ALLOWED_EXTENSIONS"
      and ins: "rls_insert (context_parameters ctx) (resumes_policies (context_parameters ctx) d1) r_id
          \<lparr>r_id = ri, r_tenant_id = j_tenant_id j, r_candidate_id = c_id c,
           r_file_url = save_file (c_id c) (case up_filename file of None \<Rightarrow> [] | Some f \<Rightarrow> f) (up_bytes file),
           r_raw_text = None, r_search_tokens = None, r_parsed_data = None, r_skill_analysis = None,
           r_agent_analysis = None\<rparr> (resumes d1) = Inr rs"
        "rls_insert (context_parameters ctx) (applications_policies (context_parameters ctx) d1) a_id
          \<lparr>a_id = ai, a_tenant_id = j_tenant_id j, a_job_id = j_id j, a_candidate_id = c_id c,
           a_current_status = ''Draft'', a_score_ai = None, a_created_at = now, a_updated_at = now\<rparr>
          (applications d1) = Inr as"
      and res: "v = (ai, ''Draft'')" "d' = d1\<lparr>resumes := rs, applications := as\<rparr>"
        "ts = [ProcessResume ai (save_file (c_id c) (case up_filename file of None \<Rightarrow> [] | Some f \<Rightarrow> f) (up_bytes file))]"
      by (auto simp: upload_resume_def Let_def split: sum.splits option.splits if_splits)
    from ins have "as = applications d @ [\<lparr>a_id = ai, a_tenant_id = j_tenant_id j, a_job_id = j_id j,
          a_candidate_id = c_id c, a_current_status = ''Draft'', a_score_ai = None, a_created_at = now,
          a_updated_at = now\<rparr>]"
      and "\<exists>x. rs = resumes d @ [x] \<and> r_tenant_id x = j_tenant_id j \<and> r_candidate_id x = c_id c
        \<and> r_file_url x = save_file (c_id c) (case up_filename file of None \<Rightarrow> [] | Some f \<Rightarrow> f) (up_bytes file)"
      using frame by (auto simp: rls_insert_def insert_row_Inr split: if_splits)
    then show ?thesis
      using Inr res guards frame job [OF found(1)] own [OF found(2)]
      by (auto simp: MAX_FILE_SIZE_BYTES_def) blast
  qed
qed

theorem upload_resume_spec_witness:
  "\<exists>j app res. j \<in> set (jobs (empty_db\<lparr>jobs := [demo_job]\<rparr>)) \<and> applications demo_db = [app]
     \<and> resumes demo_db = [res] \<and> a_tenant_id app = j_tenant_id j \<and> a_current_status app = ''Draft''"
  using upload_resume_spec [OF demo_uploaded] by auto

text \<open>
  The e-mail hook. It sends at most one e-mail, only for the five notifiable statuses,
  always to the address of the user behind the candidate's profile, an offer letter exactly
  for Offer; in a staff context it writes only to a candidate who has applied to that tenant.
\<close>

theorem status_mail_goes_to_the_applicant:
  assumes "trigger_status_change_email U (tenant_context t x) ci ji st d = Inr ms" and "t < 2 ^ 128"
    and "m \<in> set ms"
  shows "length ms = 1 \<and> st \<in> {''Offer'', ''Screening'', ''Technical Interview'', ''HR Interview'', ''Rejected''}
    \<and> (\<exists>c u j a. c \<in> set (candidates d) \<and> c_id c = ci \<and> u \<in> set (users d) \<and> u_id u = c_user_id c
        \<and> j \<in> set (jobs d) \<and> j_id j = ji \<and> j_tenant_id j = t
        \<and> a \<in> set (applications d) \<and> a_candidate_id a = ci \<and> a_tenant_id a = t
        \<and> (if st = ''Offer'' then \<exists>nm co. m = JobOfferEmail (u_email u) nm (j_title j) co
           else \<exists>nm. m = StatusUpdateEmail (u_email u) nm (j_title j) st))"
proof -
  let ?ctx = "tenant_context t x"
  have cand: "c \<in> set (candidates d) \<and> c_id c = ci
      \<and> (\<exists>a \<in> set (applications d). a_candidate_id a = ci \<and> a_tenant_id a = t)"
    if "scalar_one_or_none (filter (\<lambda>c. c_id c = ci) (select_candidates ?ctx d)) = Inr (Some c)" for c
    using scalar_filter_Some [OF that] settings_tenant [OF assms(2)]
    by (auto simp: select_candidates_def rls_visible_def candidates_policies_def list_ex_iff
        rls_applications_def tenant_match_def)
  have usr: "u \<in> set (users d) \<and> u_id u = v"
    if "scalar_one_or_none (filter (\<lambda>u. u_id u = v) (users d)) = Inr (Some u)" for u v
    using scalar_filter_Some [OF that] by simp
  have job: "j \<in> set (jobs d) \<and> j_id j = ji \<and> j_tenant_id j = t"
    if "scalar_one_or_none (filter (\<lambda>j. j_id j = ji) (select_jobs ?ctx d)) = Inr (Some j)" for j
    using scalar_filter_Some [OF that] assms(2) by (simp add: select_jobs_tenant)
  have st: "st \<in> set NOTIFIABLE_STATUSES"
    using assms(1,3) by (auto simp: trigger_status_change_email_def split: if_splits)
  then have st': "st \<in> {''Offer'', ''Screening'', ''Technical Interview'', ''HR Interview'', ''Rejected''}"
    by (auto simp: NOTIFIABLE_STATUSES_def STATUS_NOTIFICATION_STAGES_def)
  obtain c u j where
      c: "scalar_one_or_none (filter (\<lambda>c. c_id c = ci) (select_candidates ?ctx d)) = Inr (Some c)"
      and u: "scalar_one_or_none (filter (\<lambda>u. u_id u = c_user_id c) (users d)) = Inr (Some u)"
      and j: "scalar_one_or_none (filter (\<lambda>j. j_id j = ji) (select_jobs ?ctx d)) = Inr (Some j)"
    using assms(1,3) st
    by (auto simp: trigger_status_change_email_def split: sum.splits option.splits)
  have "length ms = 1 \<and> (if st = ''Offer'' then \<exists>nm co. m = JobOfferEmail (u_email u) nm (j_title j) co
           else \<exists>nm. m = StatusUpdateEmail (u_email u) nm (j_title j) st)"
    using assms(1,3) st c u j
    by (auto simp: trigger_status_change_email_def Let_def split: sum.splits option.splits if_splits)
  then show ?thesis using cand [OF c] usr [OF u] job [OF j] st' by blast
qed

theorem status_mail_goes_to_the_applicant_witness:
  "\<exists>m. trigger_status_change_email ascii_tables (tenant_context 5 9) 3 20 ''Offer''
        (demo_db\<lparr>users := [demo_user 7 ''Candidate'' None]\<rparr>) = Inr [m]
     \<and> (\<exists>nm co. m = JobOfferEmail (utext_of ''ann@x.io'') nm (utext_of ''Dev'') co)"
proof -
  let ?d = "demo_db\<lparr>users := [demo_user 7 ''Candidate'' None]\<rparr>"
  let ?m = "JobOfferEmail (utext_of ''ann@x.io'') (utext_of ''ann'') (utext_of ''Dev'') None"
  let ?c = "\<lparr>c_id = 3, c_user_id = 7, c_first_name = utext_of ''ann'', c_last_name = [],
       c_phone = None, c_skills = None, c_location = None\<rparr>"
  have ten: "(5::nat) < 2 ^ 128" by simp
  have "rls_applications (context_parameters (tenant_context 5 9)) ?d = [demo_application]"
    unfolding rls_applications_def applications_tt.filter_visible [OF ten]
    by (simp add: demo_db_def demo_fields)
  then have c: "filter (\<lambda>c. c_id c = 3) (select_candidates (tenant_context 5 9) ?d) = [?c]"
    by (simp add: select_candidates_def rls_visible_def candidates_policies_def settings_tenant [OF ten]
        tenant_match_def demo_fields) (simp add: demo_db_def)
  have u: "filter (\<lambda>u. u_id u = 7) (users ?d) = [demo_user 7 ''Candidate'' None]"
    by (simp add: demo_user_def)
  have j: "filter (\<lambda>j. j_id j = 20) (select_jobs (tenant_context 5 9) ?d) = [demo_job]"
    by (simp add: select_jobs_tenant [OF ten]) (simp add: demo_db_def demo_job_def)
  have nm: "ustrip ascii_tables (utext_of ''ann'' @ [32]) = utext_of ''ann''"
    by (simp add: ustrip_def strip_by_def ascii_tables_def utext_of_def)
  have run: "trigger_status_change_email ascii_tables (tenant_context 5 9) 3 20 ''Offer'' ?d = Inr [?m]"
    using c u j nm
    by (simp add: trigger_status_change_email_def NOTIFIABLE_STATUSES_def Let_def)
      (simp add: demo_job_def demo_user_def utext_of_def)
  show ?thesis
    using run status_mail_goes_to_the_applicant [OF run ten, of ?m] by blast
qed

end
