(* ===== verification/Analytics.thy ===== *)
theory Analytics
  imports Hiring_Invariant
begin

text \<open>
  The analytics of the board (app/routers/analytics.py): the recruitment funnel, counted
  from the status history, and the daily trend of applications. The funnel's defining
  property, that each stage is at most as wide as the one before, is a consequence of the
  invariant of the hiring workflow and not of the query.
\<close>

section \<open>Definitions\<close>

definition ANALYTICS_ROLES :: "string list" where
  "ANALYTICS_ROLES = [''Admin'', ''HR_Manager'']"

definition select_histories :: "TenantContext \<Rightarrow> db \<Rightarrow> status_history list" where
  "select_histories ctx d =
     filter (\<lambda>h. tenant_criterion ctx (sh_tenant_id h)
        \<and> rls_visible (context_parameters ctx) (histories_policies (context_parameters ctx) d) R_SELECT h)
       (histories d)"

definition ensure_job_exists :: "TenantContext \<Rightarrow> db \<Rightarrow> uuid \<Rightarrow> exc + unit" where
  "ensure_job_exists ctx d job_id =
     (case scalar_one_or_none (filter (\<lambda>j. j_id j = job_id) (select_jobs ctx d)) of
        Inl e \<Rightarrow> Inl e
      | Inr None \<Rightarrow> Inl (HTTPException 404 Job_Not_Found)
      | Inr (Some _) \<Rightarrow> Inr ())"

definition check_job :: "TenantContext \<Rightarrow> db \<Rightarrow> uuid option \<Rightarrow> exc + unit" where
  "check_job ctx d job_id = (case job_id of None \<Rightarrow> Inr () | Some j \<Rightarrow> ensure_job_exists ctx d j)"

text \<open>The rows of the funnel query: history rows of a funnel stage, joined with their
  application when an advert is given.\<close>

definition funnel_rows :: "TenantContext \<Rightarrow> db \<Rightarrow> uuid option \<Rightarrow> status_history list" where
  "funnel_rows ctx d job_id =
     filter (\<lambda>h. sh_new_status h \<in> set FUNNEL_STAGES \<and>
        (case job_id of
           None \<Rightarrow> True
         | Some j \<Rightarrow> list_ex (\<lambda>a. a_id a = sh_application_id h \<and> a_job_id a = j) (select_applications ctx d)))
       (select_histories ctx d)"

text \<open>\<open>count(distinct application_id)\<close> of one group.\<close>

definition stage_count :: "TenantContext \<Rightarrow> db \<Rightarrow> uuid option \<Rightarrow> string \<Rightarrow> nat" where
  "stage_count ctx d job_id stage =
     length (remdups (map sh_application_id
       (filter (\<lambda>h. sh_new_status h = stage) (funnel_rows ctx d job_id))))"

definition get_recruitment_funnel ::
  "TenantContext \<Rightarrow> user \<Rightarrow> uuid option \<Rightarrow> db \<Rightarrow> exc + (string \<times> nat) list" where
  "get_recruitment_funnel ctx current_user job_id d =
     (case require_roles ANALYTICS_ROLES current_user of
        Inl e \<Rightarrow> Inl e
      | Inr _ \<Rightarrow>
          (case check_job ctx d job_id of
             Inl e \<Rightarrow> Inl e
           | Inr _ \<Rightarrow> Inr (map (\<lambda>stage. (stage, stage_count ctx d job_id stage)) FUNNEL_STAGES)))"

definition day_us :: int where "day_us = 86400000000"

definition get_applications_trend ::
  "TenantContext \<Rightarrow> user \<Rightarrow> time \<Rightarrow> int \<Rightarrow> uuid option \<Rightarrow> db \<Rightarrow> exc + (int \<times> nat) list" where
  "get_applications_trend ctx current_user now days job_id d =
     (case require_roles ANALYTICS_ROLES current_user of
        Inl e \<Rightarrow> Inl e
      | Inr _ \<Rightarrow>
          if days < 1 \<or> 365 < days then Inl (HTTPException 422 Validation_Error)
          else (case check_job ctx d job_id of
             Inl e \<Rightarrow> Inl e
           | Inr _ \<Rightarrow>
               (let today_utc = now div day_us;
                    start_date = today_utc - (days - 1);
                    range_start = start_date * day_us;
                    rows = filter (\<lambda>a. range_start \<le> a_created_at a
                      \<and> (case job_id of None \<Rightarrow> True | Some j \<Rightarrow> a_job_id a = j)) (select_applications ctx d);
                    counts_by_day = (\<lambda>day. length (filter (\<lambda>a. a_created_at a div day_us = day) rows))
                in Inr (map (\<lambda>offset. (start_date + int offset, counts_by_day (start_date + int offset)))
                     [0..<nat days]))))"

section \<open>Library lemmas\<close>

lemma select_histories_tenant:
  "t < 2 ^ 128 \<Longrightarrow> select_histories (tenant_context t u) d = filter (\<lambda>h. sh_tenant_id h = t) (histories d)"
  by (auto simp: select_histories_def histories_tt.visible_iff intro: filter_cong)

text \<open>An application that reached a stage of the funnel reached the stage before it.\<close>

lemma earlier_stage:
  assumes "hiring_reachable d" and "h \<in> set (histories d)" and "sh_new_status h = FUNNEL_STAGES ! Suc k"
    and "Suc k < 7"
  shows "\<exists>h' \<in> set (histories d). sh_application_id h' = sh_application_id h
    \<and> sh_new_status h' = FUNNEL_STAGES ! k \<and> sh_tenant_id h' = sh_tenant_id h"
proof -
  obtain a where a: "a \<in> set (applications d)" "a_id a = sh_application_id h"
    using reachable_inv [OF assms(1)] assms(2) by (auto simp: workflow_inv_def)
  have len: "length FUNNEL_STAGES = 7" "distinct FUNNEL_STAGES" "''Rejected'' \<notin> set FUNNEL_STAGES"
    by (simp_all add: FUNNEL_STAGES_def)
  have in_moves: "FUNNEL_STAGES ! Suc k \<in> set (map snd (moves d (a_id a)))"
    using assms(2,3) a by (force simp: moves_def)
  have nr: "FUNNEL_STAGES ! Suc k \<noteq> ''Rejected''"
    using len(3) assms(4) len(1) by (metis nth_mem)
  obtain n where n: "set (take n FUNNEL_STAGES) \<subseteq> set (map snd (moves d (a_id a)))"
      "FUNNEL_STAGES ! Suc k \<in> set (take n FUNNEL_STAGES)"
  proof -
    from reachable_path [OF assms(1) a(1)] show ?thesis
      using in_moves nr that by (elim disjE exE conjE) auto
  qed
  then obtain i where "i < n" "i < 7" "FUNNEL_STAGES ! i = FUNNEL_STAGES ! Suc k"
    using len(1) by (auto simp: in_set_conv_nth)
  then have "i = Suc k" using len assms(4) by (metis nth_eq_iff_index_eq)
  then have "FUNNEL_STAGES ! k \<in> set (take n FUNNEL_STAGES)"
    using \<open>i < n\<close> \<open>i < 7\<close> len(1) by (auto simp: in_set_conv_nth intro!: exI [of _ k])
  with n(1) obtain h' where "h' \<in> set (histories d)" "sh_application_id h' = a_id a"
      "sh_new_status h' = FUNNEL_STAGES ! k"
    by (auto simp: moves_def)
  moreover from this have "sh_tenant_id h' = sh_tenant_id h"
    using reachable_history_tenants [OF assms(1)] a assms(2) unfolding history_tenants_def by metis
  ultimately show ?thesis using a(2) by auto
qed

lemma length_remdups_mono: "set xs \<subseteq> set ys \<Longrightarrow> length (remdups xs) \<le> length (remdups ys)"
  by (simp add: length_remdups_card_conv card_mono)

text \<open>A list of day counts adds up to the number of rows whose day is in the range.\<close>

lemma sum_day_counts:
  "(\<Sum>o'\<leftarrow>[0..<n]. length (filter (\<lambda>a. f a = s + int o') rows)) =
   length (filter (\<lambda>a. s \<le> f a \<and> f a < s + int n) rows)"
proof (induction n)
  case 0
  then show ?case by simp
next
  case (Suc n)
  have "length (filter (\<lambda>a. s \<le> f a \<and> f a < s + int (Suc n)) rows) =
      length (filter (\<lambda>a. s \<le> f a \<and> f a < s + int n) rows) + length (filter (\<lambda>a. f a = s + int n) rows)"
    by (induction rows) auto
  with Suc show ?case by simp
qed

text \<open>Midnight of a day is not after a moment iff the day is not after the moment's day.\<close>

lemma midnight_le: "(s * day_us \<le> c) = (s \<le> c div day_us)"
proof
  assume "s * day_us \<le> c"
  then have "s * day_us div day_us \<le> c div day_us" by (intro zdiv_mono1) (simp_all add: day_us_def)
  then show "s \<le> c div day_us" by (simp add: day_us_def)
next
  assume "s \<le> c div day_us"
  then have "s * day_us \<le> c div day_us * day_us" by (simp add: day_us_def)
  also have "\<dots> \<le> c" by (simp add: day_us_def)
  finally show "s * day_us \<le> c" .
qed

section \<open>Properties\<close>

text \<open>
  C9. The funnel narrows. For every database the workflow can reach, with or without an
  advert, the answer to a manager's funnel request lists the seven stages in the order of
  the board and each count is at most the count of the stage before it.
\<close>

theorem funnel_is_monotone:
  assumes "hiring_reachable d" and "t < 2 ^ 128"
    and "get_recruitment_funnel (tenant_context t x) u job_id d = Inr stages"
  shows "map fst stages = FUNNEL_STAGES \<and> sorted_wrt (\<ge>) (map snd stages)"
proof -
  let ?ctx = "tenant_context t x"
  have st: "stages = map (\<lambda>stage. (stage, stage_count ?ctx d job_id stage)) FUNNEL_STAGES"
    using assms(3) by (auto simp: get_recruitment_funnel_def split: sum.splits)
  have len: "length FUNNEL_STAGES = 7" by (simp add: FUNNEL_STAGES_def)
  have "stage_count ?ctx d job_id (FUNNEL_STAGES ! Suc k) \<le> stage_count ?ctx d job_id (FUNNEL_STAGES ! k)"
    if k: "Suc k < 7" for k
    unfolding stage_count_def
  proof (rule length_remdups_mono, rule subsetI)
    fix i
    assume "i \<in> set (map sh_application_id
        (filter (\<lambda>h. sh_new_status h = FUNNEL_STAGES ! Suc k) (funnel_rows ?ctx d job_id)))"
    then obtain h where h: "h \<in> set (histories d)" "sh_tenant_id h = t" "sh_application_id h = i"
        "sh_new_status h = FUNNEL_STAGES ! Suc k"
        "case job_id of None \<Rightarrow> True
         | Some j \<Rightarrow> list_ex (\<lambda>a. a_id a = i \<and> a_job_id a = j) (select_applications ?ctx d)"
      using assms(2) by (auto simp: funnel_rows_def select_histories_tenant)
    from earlier_stage [OF assms(1) h(1,4) k] obtain h' where "h' \<in> set (histories d)"
        "sh_application_id h' = i" "sh_new_status h' = FUNNEL_STAGES ! k" "sh_tenant_id h' = t"
      using h by auto
    moreover have "FUNNEL_STAGES ! k \<in> set FUNNEL_STAGES" using k len by simp
    ultimately show "i \<in> set (map sh_application_id
        (filter (\<lambda>h. sh_new_status h = FUNNEL_STAGES ! k) (funnel_rows ?ctx d job_id)))"
      using assms(2) h(5) by (force simp: funnel_rows_def select_histories_tenant)
  qed
  then have "sorted_wrt (\<ge>) (map (stage_count ?ctx d job_id) FUNNEL_STAGES)"
    by (intro sorted_wrt_iff_nth_Suc_transp [THEN iffD2]) (auto simp: len transp_def)
  then show ?thesis by (simp add: st comp_def)
qed

theorem funnel_is_monotone_witness:
  "\<exists>stages. hiring_reachable demo_db \<and> (5::uuid) < 2 ^ 128 \<and>
     get_recruitment_funnel (tenant_context 5 9) (demo_user 9 ''Admin'' (Some 5)) None demo_db = Inr stages \<and>
     map fst stages = FUNNEL_STAGES \<and> sorted_wrt (\<ge>) (map snd stages)"
proof -
  have r: "get_recruitment_funnel (tenant_context 5 9) (demo_user 9 ''Admin'' (Some 5)) None demo_db =
      Inr (map (\<lambda>stage. (stage, stage_count (tenant_context 5 9) demo_db None stage)) FUNNEL_STAGES)"
    by (simp add: get_recruitment_funnel_def check_job_def ANALYTICS_ROLES_def demo_user_def)
  from funnel_is_monotone [OF demo_reachable _ r] r demo_reachable show ?thesis by auto
qed

text \<open>
  The trend is gap-free and complete: it has one entry per requested day, ending today,
  and its counts add up to the number of the tenant's applications (of the advert, if one is
  given) created in the window.
\<close>

theorem trend_complete:
  assumes "t < 2 ^ 128" and "get_applications_trend (tenant_context t x) u now days job_id d = Inr series"
  shows "1 \<le> days \<and> days \<le> 365 \<and> int (length series) = days
    \<and> map fst series = map (\<lambda>i. now div day_us - (days - 1) + int i) [0..<nat days]
    \<and> sum_list (map snd series) = length (filter (\<lambda>a. a_tenant_id a = t
         \<and> (case job_id of None \<Rightarrow> True | Some j \<Rightarrow> a_job_id a = j)
         \<and> now div day_us - (days - 1) \<le> a_created_at a div day_us
         \<and> a_created_at a div day_us \<le> now div day_us) (applications d))"
proof -
  let ?s = "now div day_us - (days - 1)"
  let ?rows = "filter (\<lambda>a. ?s * day_us \<le> a_created_at a
      \<and> (case job_id of None \<Rightarrow> True | Some j \<Rightarrow> a_job_id a = j)) (select_applications (tenant_context t x) d)"
  have days: "1 \<le> days" "days \<le> 365"
    and series: "series = map (\<lambda>i. (?s + int i,
        length (filter (\<lambda>a. a_created_at a div day_us = ?s + int i) ?rows))) [0..<nat days]"
    using assms(2) by (auto simp: get_applications_trend_def Let_def split: sum.splits if_splits)
  have "sum_list (map snd series) = length (filter (\<lambda>a. ?s \<le> a_created_at a div day_us
      \<and> a_created_at a div day_us < ?s + int (nat days)) ?rows)"
    using sum_day_counts [of "\<lambda>a. a_created_at a div day_us" ?s ?rows "nat days"]
    by (simp add: series comp_def)
  moreover have "filter (\<lambda>a. ?s \<le> a_created_at a div day_us \<and> a_created_at a div day_us < ?s + int (nat days)) ?rows
      = filter (\<lambda>a. a_tenant_id a = t \<and> (case job_id of None \<Rightarrow> True | Some j \<Rightarrow> a_job_id a = j)
         \<and> ?s \<le> a_created_at a div day_us \<and> a_created_at a div day_us \<le> now div day_us) (applications d)"
    unfolding select_applications_tenant [OF assms(1)] filter_filter midnight_le
    by (rule filter_cong [OF refl]) (use days in auto)
  ultimately show ?thesis
    using days by (simp add: series comp_def)
qed

theorem trend_complete_witness:
  "(5::uuid) < 2 ^ 128 \<and>
   get_applications_trend (tenant_context 5 9) (demo_user 9 ''Admin'' (Some 5)) 300 1 None demo_db = Inr [(0, 1)]
   \<and> sum_list (map snd [(0::int, 1::nat)]) = length (filter (\<lambda>a. a_tenant_id a = 5
         \<and> (300::int) div day_us - (1 - 1) \<le> a_created_at a div day_us
         \<and> a_created_at a div day_us \<le> 300 div day_us) (applications demo_db))"
proof -
  have ten: "(5::uuid) < 2 ^ 128" by simp
  have r: "get_applications_trend (tenant_context 5 9) (demo_user 9 ''Admin'' (Some 5)) 300 1 None demo_db = Inr [(0, 1)]"
    using select_applications_tenant [OF ten, of 9 demo_db]
    by (simp add: get_applications_trend_def check_job_def ANALYTICS_ROLES_def demo_user_def Let_def day_us_def)
      (simp add: demo_db_def demo_application_def)
  from trend_complete [OF ten r] r show ?thesis by simp
qed

end
