(* ===== verification/Cursor_Pagination.thy ===== *)
theory Cursor_Pagination
  imports Py_Uuid "HOL-Library.Product_Lexorder"
begin

text \<open>
  Keyset pagination (app/core/pagination.py). A query is the list of its rows, each with
  the value of the sort column and its primary key; a page is cut out of the rows on one
  side of a boundary, and the boundary travels to the client and back as an opaque token.
  The theorems of the theory say what a client sees that follows the tokens.
\<close>

section \<open>SQL values\<close>

text \<open>A nullable column. PostgreSQL sorts NULL above every value.\<close>

datatype 'v nullable = NotNull 'v | Null

instantiation nullable :: (linorder) linorder
begin

fun less_eq_nullable :: "'a nullable \<Rightarrow> 'a nullable \<Rightarrow> bool" where
  "less_eq_nullable (NotNull x) (NotNull y) \<longleftrightarrow> x \<le> y"
| "less_eq_nullable _ Null \<longleftrightarrow> True"
| "less_eq_nullable Null (NotNull _) \<longleftrightarrow> False"

definition less_nullable :: "'a nullable \<Rightarrow> 'a nullable \<Rightarrow> bool" where
  "less_nullable x y \<longleftrightarrow> x \<le> y \<and> \<not> y \<le> x"

instance
proof
  fix x y z :: "'a nullable"
  show "x < y \<longleftrightarrow> x \<le> y \<and> \<not> y \<le> x" by (rule less_nullable_def)
  show "x \<le> x" by (cases x) auto
  show "x \<le> y \<Longrightarrow> y \<le> z \<Longrightarrow> x \<le> z" by (cases x; cases y; cases z) auto
  show "x \<le> y \<Longrightarrow> y \<le> x \<Longrightarrow> x = y" by (cases x; cases y) auto
  show "x \<le> y \<or> y \<le> x" by (cases x; cases y) auto
qed

end

lemma less_NotNull [simp]: "NotNull x < NotNull y \<longleftrightarrow> x < y"
  by (auto simp: less_nullable_def)

text \<open>
  The row comparisons \<open>(a, b) < (c, d)\<close> and \<open>(a, b) > (c, d)\<close> of SQL as conditions of a
  WHERE clause: a comparison that comes out as NULL does not select the row.
\<close>

fun sql_lt :: "'v::linorder nullable \<times> 'i::linorder \<Rightarrow> 'v nullable \<times> 'i nullable \<Rightarrow> bool" where
  "sql_lt (NotNull v, i) (NotNull v', i') \<longleftrightarrow> v < v' \<or> (v = v' \<and> (case i' of NotNull k \<Rightarrow> i < k | Null \<Rightarrow> False))"
| "sql_lt _ _ \<longleftrightarrow> False"

fun sql_gt :: "'v::linorder nullable \<times> 'i::linorder \<Rightarrow> 'v nullable \<times> 'i nullable \<Rightarrow> bool" where
  "sql_gt (NotNull v, i) (NotNull v', i') \<longleftrightarrow> v > v' \<or> (v = v' \<and> (case i' of NotNull k \<Rightarrow> i > k | Null \<Rightarrow> False))"
| "sql_gt _ _ \<longleftrightarrow> False"

section \<open>Tokens\<close>

text \<open>
  What the token functions take from outside the program: the printing of a JSON document as
  URL-safe Base64 text and its reading (any failure is \<open>None\<close>), the ISO format of a
  time, and the reading of a textual UUID by the database driver. Tokens are of an
  arbitrary type \<open>'tok\<close>.
\<close>

record 'tok codec =
  c_dumps :: "json \<Rightarrow> 'tok"
  c_loads :: "'tok \<Rightarrow> json option"
  c_isoformat :: "time \<Rightarrow> utext"
  c_fromisoformat :: "utext \<Rightarrow> time option"
  c_pg_uuid :: "utext \<Rightarrow> uuid option"

definition codec_ok :: "'tok codec \<Rightarrow> bool" where
  "codec_ok C \<longleftrightarrow> (\<forall>x. c_loads C (c_dumps C x) = Some x)
     \<and> (\<forall>t. c_fromisoformat C (c_isoformat C t) = Some t)
     \<and> (\<forall>i. i < 2 ^ 128 \<longrightarrow> c_pg_uuid C (utext_of (str_of_uuid i)) = Some i)"

text \<open>The Python values that a sort column or a decoded cursor holds.\<close>

datatype py_value =
    Py_datetime time
  | Py_uuid uuid
  | Py_None
  | Py_bool bool
  | Py_int int
  | Py_str utext

text \<open>A decoded cursor may also hold a float, a list or a dictionary, which no column takes.\<close>

datatype decoded = Value py_value | Other json

fun py_of_json :: "json \<Rightarrow> decoded" where
  "py_of_json JNull = Value Py_None"
| "py_of_json (JBool b) = Value (Py_bool b)"
| "py_of_json (JInt n) = Value (Py_int n)"
| "py_of_json (JStr s) = Value (Py_str s)"
| "py_of_json j = Other j"

text \<open>
  \<open>int\<close> and \<open>UUID\<close> read the decimal digits and the white space of every script:
  they are replaced by their ASCII counterparts first.
\<close>

definition to_ascii :: "unicode \<Rightarrow> nat \<Rightarrow> char" where
  "to_ascii U c = (if c < 128 then char_of c else if uc_space U c then CHR '' ''
     else case uc_digit U c of Some d \<Rightarrow> hex_char d | None \<Rightarrow> CHR ''?'')"

definition uuid_of_utext :: "unicode \<Rightarrow> utext \<Rightarrow> uuid option" where
  "uuid_of_utext U s = uuid_of_str (map (to_ascii U) s)"

definition dec_val :: "char \<Rightarrow> nat option" where
  "dec_val c = index_of ''0123456789'' c"

fun dec_digits :: "nat \<Rightarrow> string \<Rightarrow> nat option" where
  "dec_digits acc [] = Some acc"
| "dec_digits acc (c # cs) =
     (case dec_val c of
        Some d \<Rightarrow> dec_digits (10 * acc + d) cs
      | None \<Rightarrow>
          (if c = CHR ''_''
           then (case cs of [] \<Rightarrow> None
                 | c' # cs' \<Rightarrow> (case dec_val c' of None \<Rightarrow> None | Some d \<Rightarrow> dec_digits (10 * acc + d) cs'))
           else None))"

definition dec_number :: "string \<Rightarrow> nat option" where
  "dec_number s = (case s of [] \<Rightarrow> None | c # cs \<Rightarrow>
     (case dec_val c of None \<Rightarrow> None | Some d \<Rightarrow> dec_digits d cs))"

definition py_int10 :: "string \<Rightarrow> int option" where
  "py_int10 s = (case strip_by ascii_space s of
       [] \<Rightarrow> None
     | c # cs \<Rightarrow>
         (if c = CHR ''-'' then map_option (\<lambda>n. - int n) (dec_number cs)
          else if c = CHR ''+'' then map_option int (dec_number cs)
          else map_option int (dec_number (c # cs))))"

definition truncate_rat :: "rat \<Rightarrow> int" where
  "truncate_rat x = (if 0 \<le> x then \<lfloor>x\<rfloor> else \<lceil>x\<rceil>)"

fun py_int :: "unicode \<Rightarrow> json \<Rightarrow> int option" where
  "py_int U (JInt n) = Some n"
| "py_int U (JBool b) = Some (if b then 1 else 0)"
| "py_int U (JFloat x) = Some (truncate_rat x)"
| "py_int U (JStr s) = py_int10 (map (to_ascii U) s)"
| "py_int U _ = None"

fun serialize_sort_value :: "'tok codec \<Rightarrow> py_value \<Rightarrow> string \<times> json" where
  "serialize_sort_value C (Py_datetime t) = (''dt'', JStr (c_isoformat C t))"
| "serialize_sort_value C (Py_bool b) = (''str'', JStr (utext_of (if b then ''True'' else ''False'')))"
| "serialize_sort_value C (Py_int n) = (''int'', JInt n)"
| "serialize_sort_value C (Py_uuid u) = (''str'', JStr (utext_of (str_of_uuid u)))"
| "serialize_sort_value C Py_None = (''str'', JStr (utext_of ''None''))"
| "serialize_sort_value C (Py_str s) = (''str'', JStr s)"

definition deserialize_sort_value :: "unicode \<Rightarrow> 'tok codec \<Rightarrow> json \<Rightarrow> json \<Rightarrow> decoded option" where
  "deserialize_sort_value U C kind raw =
     (if kind = JStr (utext_of ''dt'')
      then (case raw of JStr s \<Rightarrow> map_option (Value \<circ> Py_datetime) (c_fromisoformat C s) | _ \<Rightarrow> None)
      else if kind = JStr (utext_of ''int'') then map_option (Value \<circ> Py_int) (py_int U raw)
      else Some (py_of_json raw))"

definition deserialize_id_value :: "unicode \<Rightarrow> json \<Rightarrow> decoded" where
  "deserialize_id_value U raw =
     (case raw of
        JStr s \<Rightarrow> (case uuid_of_utext U s of Some u \<Rightarrow> Value (Py_uuid u) | None \<Rightarrow> Value (Py_str s))
      | _ \<Rightarrow> py_of_json raw)"

definition encode_cursor :: "'tok codec \<Rightarrow> py_value \<Rightarrow> uuid \<Rightarrow> 'tok" where
  "encode_cursor C sort_value row_id =
     (let (kind, serialized_value) = serialize_sort_value C sort_value
      in c_dumps C (JObj [(''v'', serialized_value), (''k'', JStr (utext_of kind)),
           (''id'', JStr (utext_of (str_of_uuid row_id)))]))"

definition decode_cursor :: "unicode \<Rightarrow> 'tok codec \<Rightarrow> 'tok \<Rightarrow> (decoded \<times> decoded) option" where
  "decode_cursor U C cursor =
     (case c_loads C cursor of
        Some (JObj payload) \<Rightarrow>
          (case (map_of payload ''k'', map_of payload ''v'', map_of payload ''id'') of
             (Some kind, Some raw, Some raw_id) \<Rightarrow>
               (case deserialize_sort_value U C kind raw of
                  None \<Rightarrow> None
                | Some sort_value \<Rightarrow> Some (sort_value, deserialize_id_value U raw_id))
           | _ \<Rightarrow> None)
      | _ \<Rightarrow> None)"

section \<open>Columns\<close>

text \<open>
  A sort column: the Python value the ORM reads from it, and the driver's encoding of a bound
  parameter for it, \<open>None\<close> where the driver refuses the value.
\<close>

record 'v column =
  col_read :: "'v \<Rightarrow> py_value"
  col_bind :: "py_value \<Rightarrow> 'v nullable option"

definition timestamp_column :: "time column" where
  "timestamp_column = \<lparr>col_read = Py_datetime,
     col_bind = (\<lambda>p. case p of Py_datetime t \<Rightarrow> Some (NotNull t) | Py_None \<Rightarrow> Some Null | _ \<Rightarrow> None)\<rparr>"

definition uuid_column :: "'tok codec \<Rightarrow> uuid column" where
  "uuid_column C = \<lparr>col_read = Py_uuid,
     col_bind = (\<lambda>p. case p of Py_uuid u \<Rightarrow> Some (NotNull u) | Py_None \<Rightarrow> Some Null
       | Py_str s \<Rightarrow> map_option NotNull (c_pg_uuid C s) | _ \<Rightarrow> None)\<rparr>"

fun bind_decoded :: "'v column \<Rightarrow> decoded \<Rightarrow> 'v nullable option" where
  "bind_decoded col (Value p) = col_bind col p"
| "bind_decoded col (Other _) = None"

fun nullable_py :: "('v \<Rightarrow> py_value) \<Rightarrow> 'v nullable \<Rightarrow> py_value" where
  "nullable_py f (NotNull v) = f v"
| "nullable_py f Null = Py_None"

section \<open>Pages\<close>

definition DEFAULT_PAGE_SIZE :: int where "DEFAULT_PAGE_SIZE = 20"
definition MAX_PAGE_SIZE :: int where "MAX_PAGE_SIZE = 100"

record 'tok CursorParams =
  cp_cursor :: "'tok option"
  cp_direction :: string
  cp_limit :: nat

definition cursor_params :: "'tok option \<Rightarrow> string option \<Rightarrow> int option \<Rightarrow> exc + 'tok CursorParams" where
  "cursor_params cursor direction limit =
     (let dir = (case direction of None \<Rightarrow> ''next'' | Some x \<Rightarrow> x);
          lim = (case limit of None \<Rightarrow> DEFAULT_PAGE_SIZE | Some n \<Rightarrow> n)
      in if (dir = ''next'' \<or> dir = ''prev'') \<and> 1 \<le> lim \<and> lim \<le> MAX_PAGE_SIZE
         then Inr \<lparr>cp_cursor = cursor, cp_direction = dir, cp_limit = nat lim\<rparr>
         else Inl (HTTPException 422 Validation_Error))"

record ('r, 'tok) CursorPage =
  pg_items :: "'r list"
  pg_next_cursor :: "'tok option"
  pg_previous_cursor :: "'tok option"
  pg_has_next :: bool
  pg_has_previous :: bool

definition empty_page :: "('r, 'tok) CursorPage" where
  "empty_page = \<lparr>pg_items = [], pg_next_cursor = None, pg_previous_cursor = None,
     pg_has_next = False, pg_has_previous = False\<rparr>"

text \<open>The boundary of a request: none, or the decoded token with its values bound.\<close>

definition boundary_of ::
  "unicode \<Rightarrow> 'tok codec \<Rightarrow> 'v column \<Rightarrow> 'tok option \<Rightarrow> exc + ('v nullable \<times> uuid nullable) option" where
  "boundary_of U C col cursor =
     (case cursor of
        None \<Rightarrow> Inr None
      | Some token \<Rightarrow>
          (case decode_cursor U C token of
             None \<Rightarrow> Inl (HTTPException 400 Invalid_Cursor)
           | Some (cursor_value, cursor_id) \<Rightarrow>
               (case (bind_decoded col cursor_value, bind_decoded (uuid_column C) cursor_id) of
                  (Some v, Some i) \<Rightarrow> Inr (Some (v, i))
                | _ \<Rightarrow> Inl DataError)))"

definition ordered :: "('r \<Rightarrow> 'v::linorder nullable \<times> uuid) \<Rightarrow> bool \<Rightarrow> 'r list \<Rightarrow> 'r list" where
  "ordered key desc rows = (if desc then rev (sort_key key rows) else sort_key key rows)"

definition exists_beyond ::
  "('r \<Rightarrow> 'v::linorder nullable \<times> uuid) \<Rightarrow> bool \<Rightarrow> 'r list \<Rightarrow> 'v nullable \<times> uuid \<Rightarrow> bool \<Rightarrow> bool" where
  "exists_beyond key descending rows boundary after =
     (let go_lower = (if after then descending else \<not> descending); b = (fst boundary, NotNull (snd boundary))
      in list_ex (\<lambda>r. if go_lower then sql_lt (key r) b else sql_gt (key r) b) rows)"

text \<open>\<open>encode_cursor(*boundary)\<close> for the boundary of a row.\<close>

definition row_token :: "'tok codec \<Rightarrow> 'v column \<Rightarrow> 'v nullable \<times> uuid \<Rightarrow> 'tok" where
  "row_token C col b = encode_cursor C (nullable_py (col_read col) (fst b)) (snd b)"

definition paginate_by_cursor ::
  "unicode \<Rightarrow> 'tok codec \<Rightarrow> 'v::linorder column \<Rightarrow> ('r \<Rightarrow> 'v nullable \<times> uuid) \<Rightarrow> bool \<Rightarrow>
   'tok CursorParams \<Rightarrow> 'r list \<Rightarrow> exc + ('r, 'tok) CursorPage" where
  "paginate_by_cursor U C col key descending params query =
     (case boundary_of U C col (cp_cursor params) of
        Inl e \<Rightarrow> Inl e
      | Inr boundary \<Rightarrow>
          (let limit = cp_limit params;
               is_next = (cp_direction params = ''next'');
               fetch_descending = (if is_next then descending else \<not> descending);
               fetch_query = (case boundary of
                   None \<Rightarrow> query
                 | Some b \<Rightarrow> filter (\<lambda>r. if fetch_descending then sql_lt (key r) b else sql_gt (key r) b) query);
               fetched = take (limit + 1) (ordered key fetch_descending fetch_query);
               has_more_in_fetch_direction = (limit < length fetched);
               items = (let xs = take limit fetched in if cp_direction params = ''prev'' then rev xs else xs)
           in if items = [] then Inr empty_page
              else
                (let next_boundary = key (last items);
                     prev_boundary = key (hd items);
                     has_next = (if is_next then has_more_in_fetch_direction
                       else exists_beyond key descending query next_boundary True);
                     has_previous = (if is_next
                       then cp_cursor params \<noteq> None \<and> exists_beyond key descending query prev_boundary False
                       else has_more_in_fetch_direction);
                     token = row_token C col
                 in Inr \<lparr>pg_items = items,
                      pg_next_cursor = (if has_next then Some (token next_boundary) else None),
                      pg_previous_cursor = (if has_previous then Some (token prev_boundary) else None),
                      pg_has_next = has_next, pg_has_previous = has_previous\<rparr>)))"

section \<open>Round trip of the tokens\<close>

lemma to_ascii_utext: "(\<And>c. c \<in> set s \<Longrightarrow> (of_char c :: nat) < 128) \<Longrightarrow> map (to_ascii U) (utext_of s) = s"
  by (induction s) (auto simp: utext_of_def to_ascii_def)

lemma hex_ascii: "hex_val c \<noteq> None \<Longrightarrow> (of_char c :: nat) < 128"
  using hex_val_chars [of c] by auto

lemma uuid_of_utext_str:
  assumes "i < 2 ^ 128" shows "uuid_of_utext U (utext_of (str_of_uuid i)) = Some i"
proof -
  have "(of_char c :: nat) < 128" if "c \<in> set (str_of_uuid i)" for c
    using str_of_uuid_chars [OF that] hex_ascii [of c] by auto
  then show ?thesis by (simp add: uuid_of_utext_def to_ascii_utext uuid_round_trip [OF assms])
qed

lemma boundary_of_None [simp]: "boundary_of U C col None = Inr None"
  by (simp add: boundary_of_def)

lemma utext_kinds [simp]: "utext_of ''str'' \<noteq> utext_of ''dt''" "utext_of ''str'' \<noteq> utext_of ''int''"
    "utext_of ''int'' \<noteq> utext_of ''dt''" "utext_of ''dt'' \<noteq> utext_of ''int''"
  by (simp_all add: utext_of_def)

text \<open>A column whose tokens are read back as the boundary they were made of.\<close>

definition tokens_ok :: "unicode \<Rightarrow> 'tok codec \<Rightarrow> 'v column \<Rightarrow> ('v nullable \<times> uuid) set \<Rightarrow> bool" where
  "tokens_ok U C col B \<longleftrightarrow> (\<forall>b \<in> B. boundary_of U C col (Some (row_token C col b)) = Inr (Some (fst b, NotNull (snd b))))"

lemma timestamp_tokens:
  assumes "codec_ok C" and "i < 2 ^ 128"
  shows "boundary_of U C timestamp_column (Some (row_token C timestamp_column (NotNull t, i)))
    = Inr (Some (NotNull t, NotNull i))"
  using assms
  by (simp add: boundary_of_def row_token_def encode_cursor_def decode_cursor_def codec_ok_def
      timestamp_column_def uuid_column_def deserialize_sort_value_def deserialize_id_value_def uuid_of_utext_str)

lemma uuid_tokens:
  assumes "codec_ok C" and "i < 2 ^ 128" and "v < 2 ^ 128"
  shows "boundary_of U C (uuid_column C) (Some (row_token C (uuid_column C) (NotNull v, i)))
    = Inr (Some (NotNull v, NotNull i))"
  using assms
  by (simp add: boundary_of_def row_token_def encode_cursor_def decode_cursor_def codec_ok_def
      uuid_column_def deserialize_sort_value_def deserialize_id_value_def uuid_of_utext_str)

section \<open>Display order\<close>

definition before :: "bool \<Rightarrow> 'k::linorder \<Rightarrow> 'k \<Rightarrow> bool" where
  "before desc a b \<longleftrightarrow> (if desc then b < a else a < b)"

lemma sql_lt_NotNull: "fst k \<noteq> Null \<Longrightarrow> sql_lt k (fst b, NotNull (snd b)) \<longleftrightarrow> fst b \<noteq> Null \<and> k < b"
  by (cases k; cases b; cases "fst k"; cases "fst b") (auto simp: less_prod_def')

lemma sql_gt_NotNull: "fst k \<noteq> Null \<Longrightarrow> sql_gt k (fst b, NotNull (snd b)) \<longleftrightarrow> fst b \<noteq> Null \<and> b < k"
  by (cases k; cases b; cases "fst k"; cases "fst b") (auto simp: less_prod_def')

lemma set_ordered [simp]: "set (ordered key desc rows) = set rows"
  by (simp add: ordered_def)

lemma length_ordered [simp]: "length (ordered key desc rows) = length rows"
  by (simp add: ordered_def)

lemma ordered_Nil: "ordered key desc rows = [] \<longleftrightarrow> rows = []"
  by (metis length_0_conv length_ordered)

lemma ordered_not: "ordered key (\<not> desc) rows = rev (ordered key desc rows)"
  by (simp add: ordered_def)

lemma ordered_filter: "ordered key desc (filter p rows) = filter p (ordered key desc rows)"
  by (simp add: ordered_def filter_sort flip: rev_filter)

lemma ordered_sorted:
  assumes "distinct (map key rows)"
  shows "sorted_wrt (\<lambda>r s. before desc (key r) (key s)) (ordered key desc rows)"
proof -
  have "distinct (map key (sort_key key rows))"
    using assms by (simp add: distinct_map)
  then have "sorted_wrt (<) (map key (sort_key key rows))"
    by (simp add: strict_sorted_iff)
  then have s: "sorted_wrt (\<lambda>r s. key r < key s) (sort_key key rows)"
    by (simp add: sorted_wrt_map)
  show ?thesis
  proof (cases desc)
    case True
    have "sorted_wrt (\<lambda>r s. key s < key r) (rev (sort_key key rows))"
      using s by (simp add: sorted_wrt_rev)
    with True show ?thesis by (simp add: ordered_def before_def)
  qed (use s in \<open>simp add: ordered_def before_def\<close>)
qed

lemma filter_after:
  assumes "sorted_wrt R xs" and "\<And>x y. R x y \<Longrightarrow> \<not> R y x" and "k < length xs"
  shows "filter (R (xs ! k)) xs = drop (Suc k) xs"
proof -
  have "xs = take k xs @ xs ! k # drop (Suc k) xs" using assms(3) by (simp add: id_take_nth_drop)
  then have "sorted_wrt R (take k xs @ xs ! k # drop (Suc k) xs)" using assms(1) by simp
  then have l: "\<forall>x \<in> set (take k xs). R x (xs ! k)" and g: "\<forall>x \<in> set (drop (Suc k) xs). R (xs ! k) x"
    by (auto simp: sorted_wrt_append)
  have "filter (R (xs ! k)) (take k xs @ xs ! k # drop (Suc k) xs) = drop (Suc k) xs"
    using l g assms(2) by (auto simp: filter_empty_conv filter_id_conv)
  then show ?thesis using assms(3) by (simp add: id_take_nth_drop [symmetric])
qed

lemma filter_before:
  assumes "sorted_wrt R xs" and "\<And>x y. R x y \<Longrightarrow> \<not> R y x" and "k < length xs"
  shows "filter (\<lambda>x. R x (xs ! k)) xs = take k xs"
proof -
  have "xs = take k xs @ xs ! k # drop (Suc k) xs" using assms(3) by (simp add: id_take_nth_drop)
  then have "sorted_wrt R (take k xs @ xs ! k # drop (Suc k) xs)" using assms(1) by simp
  then have l: "\<forall>x \<in> set (take k xs). R x (xs ! k)" and g: "\<forall>x \<in> set (drop (Suc k) xs). R (xs ! k) x"
    by (auto simp: sorted_wrt_append)
  have "filter (\<lambda>x. R x (xs ! k)) (take k xs @ xs ! k # drop (Suc k) xs) = take k xs"
    using l g assms(2) by (auto simp: filter_empty_conv filter_id_conv)
  then show ?thesis using assms(3) by (simp add: id_take_nth_drop [symmetric])
qed

text \<open>
  The page that shows positions \<open>a\<close> up to (and without) \<open>b\<close> of the displayed list.
\<close>

definition slice_page :: "('v nullable \<times> uuid \<Rightarrow> 'tok) \<Rightarrow> ('r \<Rightarrow> 'v nullable \<times> uuid) \<Rightarrow> 'r list \<Rightarrow>
    nat \<Rightarrow> nat \<Rightarrow> ('r, 'tok) CursorPage" where
  "slice_page tok key D a b = (if b \<le> a then empty_page
     else \<lparr>pg_items = drop a (take b D),
       pg_next_cursor = (if b < length D then Some (tok (key (D ! (b - 1)))) else None),
       pg_previous_cursor = (if 0 < a then Some (tok (key (D ! a))) else None),
       pg_has_next = (b < length D), pg_has_previous = (0 < a)\<rparr>)"

text \<open>What the theorems assume of a list: unique rows without NULL in the sort column, and tokens that survive the trip.\<close>

definition keyset :: "unicode \<Rightarrow> 'tok codec \<Rightarrow> 'v::linorder column \<Rightarrow> ('r \<Rightarrow> 'v nullable \<times> uuid) \<Rightarrow> 'r list \<Rightarrow> bool" where
  "keyset U C col key rows \<longleftrightarrow> distinct (map key rows) \<and> (\<forall>r \<in> set rows. fst (key r) \<noteq> Null)
     \<and> tokens_ok U C col (key ` set rows)"

lemma keyset_sorted:
  assumes "keyset U C col key rows"
  shows "sorted_wrt (\<lambda>r s. before desc (key r) (key s)) (ordered key desc rows)"
  using assms by (intro ordered_sorted) (simp add: keyset_def)

lemma before_asym: "before desc a b \<Longrightarrow> \<not> before desc b a"
  by (auto simp: before_def split: if_splits)

text \<open>The two WHERE conditions, on the rows of a keyset.\<close>

lemma where_before:
  assumes "keyset U C col key rows" and "r \<in> set rows" and "s \<in> set rows"
  shows "(if fd then sql_lt (key r) (fst (key s), NotNull (snd (key s))) else sql_gt (key r) (fst (key s), NotNull (snd (key s))))
    \<longleftrightarrow> before fd (key s) (key r)"
  using assms by (simp add: keyset_def sql_lt_NotNull sql_gt_NotNull before_def)

lemma fetch_after:
  assumes ks: "keyset U C col key rows" and k: "k < length rows"
    and b: "b = (fst (key (ordered key desc rows ! k)), NotNull (snd (key (ordered key desc rows ! k))))"
  shows "ordered key desc (filter (\<lambda>r. if desc then sql_lt (key r) b else sql_gt (key r) b) rows)
    = drop (Suc k) (ordered key desc rows)"
proof -
  let ?D = "ordered key desc rows"
  have mem: "?D ! k \<in> set rows" using nth_mem [of k ?D] k by simp
  have "filter (\<lambda>r. if desc then sql_lt (key r) b else sql_gt (key r) b) ?D
      = filter (\<lambda>r. before desc (key (?D ! k)) (key r)) ?D"
    unfolding b by (rule filter_cong [OF refl]) (use where_before [OF ks _ mem] in simp)
  also have "\<dots> = drop (Suc k) ?D"
    using filter_after [OF keyset_sorted [OF ks, of desc] before_asym, of k] k by simp
  finally show ?thesis by (simp add: ordered_filter)
qed

lemma fetch_before:
  assumes ks: "keyset U C col key rows" and k: "k < length rows"
    and b: "b = (fst (key (ordered key desc rows ! k)), NotNull (snd (key (ordered key desc rows ! k))))"
  shows "ordered key (\<not> desc) (filter (\<lambda>r. if \<not> desc then sql_lt (key r) b else sql_gt (key r) b) rows)
    = rev (take k (ordered key desc rows))"
proof -
  let ?D = "ordered key desc rows"
  have mem: "?D ! k \<in> set rows" using nth_mem [of k ?D] k by simp
  have "filter (\<lambda>r. if \<not> desc then sql_lt (key r) b else sql_gt (key r) b) ?D
      = filter (\<lambda>r. before (\<not> desc) (key (?D ! k)) (key r)) ?D"
    unfolding b by (rule filter_cong [OF refl], subst where_before [OF ks _ mem]) auto
  also have "\<dots> = filter (\<lambda>r. before desc (key r) (key (?D ! k))) ?D"
    by (rule filter_cong [OF refl]) (simp add: before_def)
  also have "\<dots> = take k ?D"
    using filter_before [OF keyset_sorted [OF ks, of desc] before_asym, of k] k by simp
  finally show ?thesis by (simp only: ordered_not ordered_filter flip: rev_filter)
qed

lemma exists_after:
  assumes ks: "keyset U C col key rows" and k: "k < length rows"
  shows "exists_beyond key desc rows (key (ordered key desc rows ! k)) True \<longleftrightarrow> Suc k < length rows"
proof -
  let ?D = "ordered key desc rows"
  let ?b = "(fst (key (?D ! k)), NotNull (snd (key (?D ! k))))"
  have "exists_beyond key desc rows (key (?D ! k)) True
      \<longleftrightarrow> filter (\<lambda>r. if desc then sql_lt (key r) ?b else sql_gt (key r) ?b) rows \<noteq> []"
    by (auto simp: exists_beyond_def list_ex_iff filter_empty_conv)
  also have "\<dots> \<longleftrightarrow> drop (Suc k) ?D \<noteq> []"
    unfolding fetch_after [OF ks k refl, symmetric] ordered_Nil ..
  finally show ?thesis using k by auto
qed

lemma exists_before:
  assumes ks: "keyset U C col key rows" and k: "k < length rows"
  shows "exists_beyond key desc rows (key (ordered key desc rows ! k)) False \<longleftrightarrow> 0 < k"
proof -
  let ?D = "ordered key desc rows"
  let ?b = "(fst (key (?D ! k)), NotNull (snd (key (?D ! k))))"
  have "exists_beyond key desc rows (key (?D ! k)) False
      \<longleftrightarrow> filter (\<lambda>r. if \<not> desc then sql_lt (key r) ?b else sql_gt (key r) ?b) rows \<noteq> []"
    by (auto simp: exists_beyond_def list_ex_iff filter_empty_conv)
  also have "\<dots> \<longleftrightarrow> rev (take k ?D) \<noteq> []"
    unfolding fetch_before [OF ks k refl, symmetric] ordered_Nil ..
  finally show ?thesis using k by (auto simp flip: length_greater_0_conv)
qed

section \<open>Pages are slices\<close>

lemma keyset_boundary:
  assumes "keyset U C col key rows" and "k < length rows"
  shows "boundary_of U C col (Some (row_token C col (key (ordered key desc rows ! k))))
    = Inr (Some (fst (key (ordered key desc rows ! k)), NotNull (snd (key (ordered key desc rows ! k)))))"
proof -
  have "ordered key desc rows ! k \<in> set rows"
    using nth_mem [of k "ordered key desc rows"] assms(2) by simp
  then show ?thesis using assms(1) by (simp add: keyset_def tokens_ok_def)
qed

lemma slice_ends:
  assumes "a < b" and "b \<le> length D"
  shows "hd (drop a (take b D)) = D ! a \<and> last (drop a (take b D)) = D ! (b - 1) \<and> drop a (take b D) \<noteq> []"
proof -
  have ne: "drop a (take b D) \<noteq> []" using assms by simp
  moreover have "last (drop a (take b D)) = D ! (b - 1)"
    using ne assms by (simp add: last_conv_nth)
  moreover have "hd (drop a (take b D)) = D ! a"
    using ne assms by (simp add: hd_drop_conv_nth)
  ultimately show ?thesis by simp
qed

text \<open>The page in terms of the rows that the fetch query orders.\<close>

lemma paginate_fetched:
  assumes bo: "boundary_of U C col (cp_cursor params) = Inr bo"
    and fd: "fd = (if cp_direction params = ''next'' then desc else \<not> desc)"
    and F: "ordered key fd (case bo of None \<Rightarrow> rows
        | Some c \<Rightarrow> filter (\<lambda>r. if fd then sql_lt (key r) c else sql_gt (key r) c) rows) = F"
    and items: "items = (if cp_direction params = ''prev'' then rev (take (cp_limit params) F) else take (cp_limit params) F)"
    and nxt: "nxt = (if cp_direction params = ''next'' then cp_limit params < length F
      else exists_beyond key desc rows (key (last items)) True)"
    and prv: "prv = (if cp_direction params = ''next''
      then cp_cursor params \<noteq> None \<and> exists_beyond key desc rows (key (hd items)) False else cp_limit params < length F)"
  shows "paginate_by_cursor U C col key desc params rows = Inr (if items = [] then empty_page
    else \<lparr>pg_items = items,
      pg_next_cursor = (if nxt then Some (row_token C col (key (last items))) else None),
      pg_previous_cursor = (if prv then Some (row_token C col (key (hd items))) else None),
      pg_has_next = nxt, pg_has_previous = prv\<rparr>)"
proof -
  have t: "take l (take (l + 1) F) = take l F" "(l < length (take (l + 1) F)) = (l < length F)" for l
    by auto
  show ?thesis
    unfolding paginate_by_cursor_def bo sum.case Let_def fd [symmetric] F t items [symmetric] nxt [symmetric] prv [symmetric]
    by simp
qed

lemma paginate_next_slice:
  assumes ks: "keyset U C col key rows" and dir: "cp_direction params = ''next''"
    and cur: "(cp_cursor params = None \<and> a = 0) \<or>
      (\<exists>k. cp_cursor params = Some (row_token C col (key (ordered key desc rows ! k))) \<and> k < length rows \<and> a = Suc k)"
    and b: "b = min (a + cp_limit params) (length rows)"
  shows "paginate_by_cursor U C col key desc params rows =
    Inr (slice_page (row_token C col) key (ordered key desc rows) a b)"
proof -
  let ?D = "ordered key desc rows" and ?l = "cp_limit params"
  obtain bo where bo: "boundary_of U C col (cp_cursor params) = Inr bo"
      "ordered key desc (case bo of None \<Rightarrow> rows
        | Some c \<Rightarrow> filter (\<lambda>r. if desc then sql_lt (key r) c else sql_gt (key r) c) rows) = drop a ?D"
    using cur by (elim disjE exE conjE) (simp_all add: keyset_boundary [OF ks] fetch_after [OF ks _ refl])
  have items: "take ?l (drop a ?D) = drop a (take b ?D)"
    by (auto simp: b take_drop min_def add.commute)
  have prev: "(cp_cursor params \<noteq> None \<and> exists_beyond key desc rows (key (?D ! a)) False) = (0 < a)"
    if "a < length rows" using cur that exists_before [OF ks] by auto
  have more: "(?l < length (drop a ?D)) = (b < length rows)" if "a < b"
    using that by (auto simp: b)
  have p: "paginate_by_cursor U C col key desc params rows = Inr (if take ?l (drop a ?D) = [] then empty_page
    else \<lparr>pg_items = take ?l (drop a ?D),
      pg_next_cursor = (if ?l < length (drop a ?D) then Some (row_token C col (key (last (take ?l (drop a ?D))))) else None),
      pg_previous_cursor = (if cp_cursor params \<noteq> None \<and> exists_beyond key desc rows (key (hd (take ?l (drop a ?D)))) False
        then Some (row_token C col (key (hd (take ?l (drop a ?D))))) else None),
      pg_has_next = ?l < length (drop a ?D),
      pg_has_previous = (cp_cursor params \<noteq> None \<and> exists_beyond key desc rows (key (hd (take ?l (drop a ?D)))) False)\<rparr>)"
    by (rule paginate_fetched [OF bo(1) _ bo(2)]) (simp_all add: dir)
  show ?thesis
  proof (cases "a < b")
    case True
    have "b \<le> length ?D" by (simp add: b)
    note ends = slice_ends [OF True this]
    have "a < length rows" using True by (simp add: b)
    note prev = prev [OF this]
    define X where "X = drop a (take b ?D)"
    from True ends prev show ?thesis
      unfolding p items more [OF True] slice_page_def X_def [symmetric] by simp
  next
    case False
    then have "drop a (take b ?D) = []" by simp
    with False show ?thesis unfolding p items by (simp add: slice_page_def)
  qed
qed

lemma paginate_prev_slice:
  assumes ks: "keyset U C col key rows" and lim: "1 \<le> cp_limit params" and dir: "cp_direction params = ''prev''"
    and cur: "cp_cursor params = Some (row_token C col (key (ordered key desc rows ! k)))" and k: "k < length rows"
    and a: "a = k - cp_limit params"
  shows "paginate_by_cursor U C col key desc params rows =
    Inr (slice_page (row_token C col) key (ordered key desc rows) a k)"
proof -
  let ?D = "ordered key desc rows" and ?l = "cp_limit params"
  let ?c = "(fst (key (?D ! k)), NotNull (snd (key (?D ! k))))"
  have F: "ordered key (\<not> desc) (case Some ?c of None \<Rightarrow> rows
      | Some c \<Rightarrow> filter (\<lambda>r. if \<not> desc then sql_lt (key r) c else sql_gt (key r) c) rows) = rev (take k ?D)"
    by (simp only: option.case fetch_before [OF ks k refl])
  have items: "rev (take ?l (rev (take k ?D))) = drop a (take k ?D)"
    using k by (simp add: take_rev a)
  have more: "(?l < length (rev (take k ?D))) = (0 < a)"
    using k by (auto simp: a)
  have p: "paginate_by_cursor U C col key desc params rows = Inr (if drop a (take k ?D) = [] then empty_page
    else \<lparr>pg_items = drop a (take k ?D),
      pg_next_cursor = (if exists_beyond key desc rows (key (last (drop a (take k ?D)))) True
        then Some (row_token C col (key (last (drop a (take k ?D))))) else None),
      pg_previous_cursor = (if 0 < a then Some (row_token C col (key (hd (drop a (take k ?D))))) else None),
      pg_has_next = exists_beyond key desc rows (key (last (drop a (take k ?D)))) True,
      pg_has_previous = (0 < a)\<rparr>)"
  proof (rule paginate_fetched [OF _ _ F])
    show "boundary_of U C col (cp_cursor params) = Inr (Some ?c)"
      by (simp only: cur keyset_boundary [OF ks k])
  qed (simp_all only: dir items more, simp_all)
  show ?thesis
  proof (cases "a < k")
    case True
    note ends = slice_ends [OF True, of ?D]
    have nxt: "exists_beyond key desc rows (key (?D ! (k - 1))) True = (k < length rows)"
      using exists_after [OF ks, of "k - 1" desc] True k by auto
    define X where "X = drop a (take k ?D)"
    from True ends k nxt show ?thesis unfolding p slice_page_def X_def [symmetric] by simp
  next
    case False
    with lim have "k = 0" by (simp add: a)
    then show ?thesis unfolding p by (simp add: slice_page_def)
  qed
qed

section \<open>Following the tokens\<close>

text \<open>A client that asks for the first page and follows \<open>next_cursor\<close> for at most the given number of requests.\<close>

fun walk :: "nat \<Rightarrow> ('tok option \<Rightarrow> exc + ('r, 'tok) CursorPage) \<Rightarrow> 'tok option \<Rightarrow> 'r list option" where
  "walk 0 get cursor = None"
| "walk (Suc n) get cursor =
     (case get cursor of
        Inl _ \<Rightarrow> None
      | Inr page \<Rightarrow>
          (case pg_next_cursor page of
             None \<Rightarrow> Some (pg_items page)
           | Some t \<Rightarrow> map_option ((@) (pg_items page)) (walk n get (Some t))))"

definition request :: "string \<Rightarrow> nat \<Rightarrow> 'tok option \<Rightarrow> 'tok CursorParams" where
  "request direction limit cursor = \<lparr>cp_cursor = cursor, cp_direction = direction, cp_limit = limit\<rparr>"

lemma request_simps [simp]:
  "cp_cursor (request d l c) = c" "cp_direction (request d l c) = d" "cp_limit (request d l c) = l"
  by (simp_all add: request_def)

lemma walk_from:
  assumes ks: "keyset U C col key rows" and lim: "1 \<le> l"
    and D: "D = ordered key desc rows" and n: "length rows - a < n"
    and cur: "(cur = None \<and> a = 0) \<or> (\<exists>k. cur = Some (row_token C col (key (D ! k))) \<and> k < length rows \<and> a = Suc k)"
  shows "walk n (\<lambda>c. paginate_by_cursor U C col key desc (request ''next'' l c) rows) cur = Some (drop a D)"
  using n cur
proof (induction n arbitrary: a cur)
  case 0
  then show ?case by simp
next
  case (Suc n)
  let ?get = "\<lambda>c. paginate_by_cursor U C col key desc (request ''next'' l c) rows"
  let ?b = "min (a + l) (length rows)"
  have page: "?get cur = Inr (slice_page (row_token C col) key D a ?b)"
    unfolding D by (rule paginate_next_slice [OF ks]) (use Suc.prems(2) D in auto)
  have len: "length D = length rows" by (simp add: D)
  show ?case
  proof (cases "a < ?b \<and> ?b < length rows")
    case True
    then have b: "?b = a + l" by auto
    have "walk n ?get (Some (row_token C col (key (D ! (a + l - 1))))) = Some (drop (a + l) D)"
      using Suc.prems(1) True lim b by (intro Suc.IH) auto
    moreover have "drop a (take (a + l) D) @ drop (a + l) D = drop a D"
      by (metis append_take_drop_id drop_drop drop_take add.commute add_diff_cancel_left')
    ultimately show ?thesis
      using True page b len by (simp add: slice_page_def)
  next
    case False
    then have "drop a (take ?b D) = drop a D" using len lim by auto
    then show ?thesis using page False len lim by (auto simp: slice_page_def empty_page_def)
  qed
qed

section \<open>Keysets of the program\<close>

lemma timestamp_keyset:
  assumes "codec_ok C" and "keyed idf rows" and "\<forall>r \<in> set rows. idf r < 2 ^ 128"
  shows "keyset U C timestamp_column (\<lambda>r. (NotNull (ts r), idf r)) rows"
proof -
  have "distinct (map (\<lambda>r. (NotNull (ts r), idf r)) rows)"
    using assms(2) by (auto simp: keyed_def distinct_map inj_on_def)
  then show ?thesis
    using assms(3) timestamp_tokens [OF assms(1)] by (auto simp: keyset_def tokens_ok_def)
qed

lemma uuid_keyset:
  assumes "codec_ok C" and "keyed idf rows" and "\<forall>r \<in> set rows. idf r < 2 ^ 128"
  shows "keyset U C (uuid_column C) (\<lambda>r. (NotNull (idf r), idf r)) rows"
proof -
  have "distinct (map (\<lambda>r. (NotNull (idf r), idf r)) rows)"
    using assms(2) by (auto simp: keyed_def distinct_map inj_on_def)
  then show ?thesis
    using assms(3) uuid_tokens [OF assms(1)] by (auto simp: keyset_def tokens_ok_def)
qed

text \<open>A codec to evaluate with: tokens are the documents themselves.\<close>

definition plain_codec :: "json codec" where
  "plain_codec = \<lparr>c_dumps = (\<lambda>x. x), c_loads = Some,
     c_isoformat = (\<lambda>t. [if t < 0 then 1 else 0, nat \<bar>t\<bar>]),
     c_fromisoformat = (\<lambda>s. case s of [g, n] \<Rightarrow> Some (if g = 1 then - int n else int n) | _ \<Rightarrow> None),
     c_pg_uuid = uuid_of_utext ascii_tables\<rparr>"

lemma plain_codec_ok: "codec_ok plain_codec"
  using uuid_of_utext_str by (auto simp: codec_ok_def plain_codec_def)

section \<open>Properties\<close>

text \<open>
  C10. Pages are complete and never repeat a row. For every list with unique rows and no
  NULL in its sort column, and every page size, a client that follows the next tokens from
  the first page gets, after at most one request more than there are rows, every row exactly once
  in the display order.
\<close>

theorem walk_visits_every_row:
  assumes "keyset U C col key rows" and "1 \<le> l"
  shows "walk (Suc (length rows)) (\<lambda>c. paginate_by_cursor U C col key desc (request ''next'' l c) rows) None
    = Some (ordered key desc rows)"
  using walk_from [OF assms refl, of 0 "Suc (length rows)" None desc] by simp

theorem walk_visits_every_row_witness:
  "keyset ascii_tables plain_codec timestamp_column (\<lambda>r. (NotNull (fst r), snd r)) [(10, 3), (20, 4), (10, 2::nat)] \<and>
   walk 4 (\<lambda>c. paginate_by_cursor ascii_tables plain_codec timestamp_column (\<lambda>r. (NotNull (fst r), snd r)) True
     (request ''next'' 2 c) [(10, 3), (20, 4), (10, 2::nat)]) None = Some [(20, 4), (10, 3), (10, 2)]"
proof -
  have ks: "keyset ascii_tables plain_codec timestamp_column (\<lambda>r. (NotNull (fst r), snd r)) [(10, 3), (20, 4), (10, 2::nat)]"
    by (rule timestamp_keyset [OF plain_codec_ok]) (simp_all add: keyed_def)
  have o: "ordered (\<lambda>r. (NotNull (fst r), snd r)) True [(10, 3), (20, 4), (10::int, 2::nat)] = [(20, 4), (10, 3), (10, 2)]"
    by (simp add: ordered_def)
  have l: "1 \<le> (2::nat)" by simp
  have n: "Suc (length [(10::int, 3::nat), (20, 4), (10, 2)]) = 4" by simp
  show ?thesis
    using walk_visits_every_row [OF ks l, of True] ks unfolding o n by blast
qed

text \<open>
  C11. Going back undoes going forward: when a page has a successor, the successor has a
  previous token, and the page at that token in the direction prev is the page one came from.
\<close>

theorem previous_undoes_next:
  assumes "keyset U C col key rows" and "1 \<le> l"
    and "cur = None \<or> (\<exists>r \<in> set rows. cur = Some (row_token C col (key r)))"
    and "paginate_by_cursor U C col key desc (request ''next'' l cur) rows = Inr page" and "pg_has_next page"
  shows "\<exists>t page' t'. pg_next_cursor page = Some t
    \<and> paginate_by_cursor U C col key desc (request ''next'' l (Some t)) rows = Inr page'
    \<and> pg_previous_cursor page' = Some t'
    \<and> (\<exists>pg0. paginate_by_cursor U C col key desc (request ''prev'' l (Some t')) rows = Inr pg0
         \<and> pg_items pg0 = pg_items page \<and> pg_next_cursor pg0 = Some t)"
proof -
  let ?D = "ordered key desc rows" and ?tok = "row_token C col"
  have len: "length ?D = length rows" by simp
  obtain a where a: "(cur = None \<and> a = 0) \<or>
      (\<exists>k. cur = Some (?tok (key (?D ! k))) \<and> k < length rows \<and> a = Suc k)"
    using assms(3) set_ordered [of key desc rows] len by (metis in_set_conv_nth)
  have "paginate_by_cursor U C col key desc (request ''next'' l cur) rows =
      Inr (slice_page ?tok key ?D a (min (a + l) (length rows)))"
    by (rule paginate_next_slice [OF assms(1)]) (use a in simp_all)
  with assms(4) have page: "page = slice_page ?tok key ?D a (min (a + l) (length rows))" by simp
  with assms(2,5) have b: "min (a + l) (length rows) = a + l" "a + l < length rows"
    by (auto simp: slice_page_def empty_page_def split: if_splits)
  let ?t = "?tok (key (?D ! (a + l - 1)))"
  have t: "pg_next_cursor page = Some ?t" using b assms(2) by (simp add: page slice_page_def)
  let ?e = "min (a + l + l) (length rows)"
  have p': "paginate_by_cursor U C col key desc (request ''next'' l (Some ?t)) rows = Inr (slice_page ?tok key ?D (a + l) ?e)"
    by (rule paginate_next_slice [OF assms(1)])
      (use b assms(2) in \<open>auto intro!: exI [of _ "a + l - 1"]\<close>)
  have t': "pg_previous_cursor (slice_page ?tok key ?D (a + l) ?e) = Some (?tok (key (?D ! (a + l))))"
    using b assms(2) by (auto simp: slice_page_def)
  have bk: "paginate_by_cursor U C col key desc (request ''prev'' l (Some (?tok (key (?D ! (a + l)))))) rows
      = Inr (slice_page ?tok key ?D a (a + l))"
    by (rule paginate_prev_slice [OF assms(1)]) (use b assms(2) in simp_all)
  have "pg_items (slice_page ?tok key ?D a (a + l)) = pg_items page
      \<and> pg_next_cursor (slice_page ?tok key ?D a (a + l)) = Some ?t"
    using b assms(2) by (simp add: page slice_page_def)
  with t p' t' bk show ?thesis by blast
qed

theorem previous_undoes_next_witness:
  "\<exists>page t page' t' pg0.
     paginate_by_cursor ascii_tables plain_codec timestamp_column (\<lambda>r. (NotNull (fst r), snd r)) True
       (request ''next'' 2 None) [(10, 3), (20, 4), (10, 2::nat)] = Inr page \<and> pg_has_next page \<and>
     pg_next_cursor page = Some t \<and>
     paginate_by_cursor ascii_tables plain_codec timestamp_column (\<lambda>r. (NotNull (fst r), snd r)) True
       (request ''next'' 2 (Some t)) [(10, 3), (20, 4), (10, 2)] = Inr page' \<and>
     pg_previous_cursor page' = Some t' \<and>
     paginate_by_cursor ascii_tables plain_codec timestamp_column (\<lambda>r. (NotNull (fst r), snd r)) True
       (request ''prev'' 2 (Some t')) [(10, 3), (20, 4), (10, 2)] = Inr pg0 \<and> pg_items pg0 = [(20, 4), (10, 3)]"
proof -
  let ?key = "\<lambda>r. (NotNull (fst r), snd r)"
  have ks: "keyset ascii_tables plain_codec timestamp_column ?key [(10, 3), (20, 4), (10, 2::nat)]"
    by (rule timestamp_keyset [OF plain_codec_ok]) (simp_all add: keyed_def)
  have p: "paginate_by_cursor ascii_tables plain_codec timestamp_column ?key True
      (request ''next'' 2 None) [(10, 3), (20, 4), (10, 2::nat)] =
      Inr \<lparr>pg_items = [(20, 4), (10, 3)], pg_next_cursor = Some (row_token plain_codec timestamp_column (NotNull 10, 3)),
        pg_previous_cursor = None, pg_has_next = True, pg_has_previous = False\<rparr>"
    by (simp add: paginate_by_cursor_def ordered_def Let_def)
  have l: "1 \<le> (2::nat)" by simp
  from previous_undoes_next [OF ks l disjI1 [OF refl] p] obtain t page' t' pg0 where
      "paginate_by_cursor ascii_tables plain_codec timestamp_column ?key True
         (request ''next'' 2 (Some t)) [(10, 3), (20, 4), (10, 2)] = Inr page'"
      "pg_previous_cursor page' = Some t'"
      "paginate_by_cursor ascii_tables plain_codec timestamp_column ?key True
         (request ''prev'' 2 (Some t')) [(10, 3), (20, 4), (10, 2)] = Inr pg0"
      "pg_items pg0 = [(20, 4), (10, 3)]" "t = row_token plain_codec timestamp_column (NotNull 10, 3)"
    by auto
  then show ?thesis unfolding p by simp
qed

end
