(* ===== verification/Listings.thy ===== *)
theory Listings
  imports Hiring_Invariant Cursor_Pagination
begin

text \<open>
  The list endpoints that page through a table (app/routers/jobs.py, applications.py,
  candidates.py, notifications.py) and the read marks of the notifications. A query is the
  list of rows that the policies, the ORM criterion, its joins and its WHERE clause
  leave; the page is cut by the theory of cursor pagination.
\<close>

section \<open>Queries\<close>

definition select_companies :: "TenantContext \<Rightarrow> db \<Rightarrow> company list" where
  "select_companies ctx d = (let s = context_parameters ctx in
     filter (rls_visible s (companies_policies s) R_SELECT) (companies d))"

definition inner_join :: "('a \<Rightarrow> 'b \<Rightarrow> bool) \<Rightarrow> 'a list \<Rightarrow> 'b list \<Rightarrow> ('a \<times> 'b) list" where
  "inner_join on xs ys = concat (map (\<lambda>x. map (Pair x) (filter (on x) ys)) xs)"

text \<open>A left outer join keeps a row without a partner, once, with NULLs.\<close>

definition outer_join :: "('a \<Rightarrow> 'b \<Rightarrow> bool) \<Rightarrow> 'a list \<Rightarrow> 'b list \<Rightarrow> ('a \<times> 'b option) list" where
  "outer_join on xs ys = concat (map (\<lambda>x.
     case filter (on x) ys of [] \<Rightarrow> [(x, None)] | y # zs \<Rightarrow> map (\<lambda>z. (x, Some z)) (y # zs)) xs)"

definition map_page :: "('r \<Rightarrow> 's) \<Rightarrow> ('r, 'tok) CursorPage \<Rightarrow> ('s, 'tok) CursorPage" where
  "map_page f p = \<lparr>pg_items = map f (pg_items p), pg_next_cursor = pg_next_cursor p,
     pg_previous_cursor = pg_previous_cursor p, pg_has_next = pg_has_next p, pg_has_previous = pg_has_previous p\<rparr>"

section \<open>Job adverts\<close>

definition list_jobs ::
  "unicode \<Rightarrow> 'tok codec \<Rightarrow> TenantContext \<Rightarrow> string option \<Rightarrow> utext option \<Rightarrow> 'tok CursorParams \<Rightarrow> db \<Rightarrow>
   exc + (job, 'tok) CursorPage" where
  "list_jobs U C ctx status_filter department page d =
     paginate_by_cursor U C timestamp_column (\<lambda>j. (NotNull (j_created_at j), j_id j)) True page
       (filter (\<lambda>j. (case status_filter of None \<Rightarrow> True | Some s \<Rightarrow> j_status j = s)
          \<and> (case department of None \<Rightarrow> True | Some x \<Rightarrow> j_department j = Some x)) (select_jobs ctx d))"

section \<open>The board\<close>

record application_list_item =
  ali_application_id :: uuid
  ali_candidate_id :: uuid
  ali_candidate_name :: utext
  ali_current_status :: string
  ali_score_ai :: "int option"
  ali_updated_at :: time

definition list_applications ::
  "unicode \<Rightarrow> 'tok codec \<Rightarrow> TenantContext \<Rightarrow> user \<Rightarrow> uuid \<Rightarrow> 'tok CursorParams \<Rightarrow> db \<Rightarrow>
   exc + (application_list_item, 'tok) CursorPage" where
  "list_applications U C ctx current_user job_id page d =
     (case require_roles APPLICATION_MANAGER_ROLES current_user of
        Inl e \<Rightarrow> Inl e
      | Inr _ \<Rightarrow>
          (let query = filter (\<lambda>(a, c). a_job_id a = job_id)
                 (inner_join (\<lambda>a c. c_id c = a_candidate_id a) (select_applications ctx d) (select_candidates ctx d))
           in case paginate_by_cursor U C timestamp_column
                     (\<lambda>(a, c). (NotNull (a_updated_at a), a_id a)) True page query of
                Inl e \<Rightarrow> Inl e
              | Inr p \<Rightarrow> Inr (map_page (\<lambda>(a, c). \<lparr>ali_application_id = a_id a,
                  ali_candidate_id = a_candidate_id a,
                  ali_candidate_name = c_first_name c @ [32] @ c_last_name c,
                  ali_current_status = a_current_status a, ali_score_ai = a_score_ai a,
                  ali_updated_at = a_updated_at a\<rparr>) p)))"

section \<open>The candidate's portal\<close>

record application_tracker_item =
  ati_application_id :: uuid
  ati_job_id :: uuid
  ati_job_title :: utext
  ati_current_status :: string
  ati_updated_at :: time

definition list_my_applications ::
  "unicode \<Rightarrow> 'tok codec \<Rightarrow> TenantContext \<Rightarrow> user \<Rightarrow> uuid \<Rightarrow> 'tok CursorParams \<Rightarrow> db \<Rightarrow>
   (exc + (application_tracker_item, 'tok) CursorPage) \<times> db" where
  "list_my_applications U C ctx current_user cand_id page d =
     (case require_roles [''Candidate''] current_user of
        Inl e \<Rightarrow> (Inl e, d)
      | Inr _ \<Rightarrow>
     (case get_or_create_candidate_profile ctx current_user cand_id d of
        (Inl e, d1) \<Rightarrow> (Inl e, d1)
      | (Inr candidate, d1) \<Rightarrow>
          (let query = filter (\<lambda>(a, j). a_candidate_id a = c_id candidate)
                 (inner_join (\<lambda>a j. j_id j = a_job_id a) (select_applications ctx d1) (select_jobs ctx d1))
           in case paginate_by_cursor U C timestamp_column
                     (\<lambda>(a, j). (NotNull (a_updated_at a), a_id a)) True page query of
                Inl e \<Rightarrow> (Inl e, d1)
              | Inr p \<Rightarrow> (Inr (map_page (\<lambda>(a, j). \<lparr>ati_application_id = a_id a, ati_job_id = a_job_id a,
                  ati_job_title = j_title j, ati_current_status = a_current_status a,
                  ati_updated_at = a_updated_at a\<rparr>) p), d1))))"

record offer_inbox_item =
  oi_application_id :: uuid
  oi_job_id :: uuid
  oi_job_title :: utext
  oi_company_name :: "utext option"
  oi_updated_at :: time

definition list_my_offers ::
  "unicode \<Rightarrow> 'tok codec \<Rightarrow> TenantContext \<Rightarrow> user \<Rightarrow> uuid \<Rightarrow> 'tok CursorParams \<Rightarrow> db \<Rightarrow>
   (exc + (offer_inbox_item, 'tok) CursorPage) \<times> db" where
  "list_my_offers U C ctx current_user cand_id page d =
     (case require_roles [''Candidate''] current_user of
        Inl e \<Rightarrow> (Inl e, d)
      | Inr _ \<Rightarrow>
     (case get_or_create_candidate_profile ctx current_user cand_id d of
        (Inl e, d1) \<Rightarrow> (Inl e, d1)
      | (Inr candidate, d1) \<Rightarrow>
          (let query = filter (\<lambda>((a, j), co). a_candidate_id a = c_id candidate \<and> a_current_status a = status_value OFFER)
                 (outer_join (\<lambda>(a, j) co. j_company_id j = Some (co_id co))
                   (inner_join (\<lambda>a j. j_id j = a_job_id a) (select_applications ctx d1) (select_jobs ctx d1))
                   (select_companies ctx d1))
           in case paginate_by_cursor U C timestamp_column
                     (\<lambda>((a, j), co). (NotNull (a_updated_at a), a_id a)) True page query of
                Inl e \<Rightarrow> (Inl e, d1)
              | Inr p \<Rightarrow> (Inr (map_page (\<lambda>((a, j), co). \<lparr>oi_application_id = a_id a, oi_job_id = a_job_id a,
                  oi_job_title = j_title j, oi_company_name = map_option co_name co,
                  oi_updated_at = a_updated_at a\<rparr>) p), d1))))"

section \<open>Notifications\<close>

definition list_my_notifications ::
  "unicode \<Rightarrow> 'tok codec \<Rightarrow> user \<Rightarrow> 'tok CursorParams \<Rightarrow> db \<Rightarrow> exc + (notification, 'tok) CursorPage \<times> nat" where
  "list_my_notifications U C current_user page d =
     (let query = filter (\<lambda>n. n_user_id n = u_id current_user) (notifications d)
      in case paginate_by_cursor U C timestamp_column (\<lambda>n. (NotNull (n_created_at n), n_id n)) True page query of
           Inl e \<Rightarrow> Inl e
         | Inr p \<Rightarrow> Inr (p, length (filter (\<lambda>n. n_user_id n = u_id current_user \<and> \<not> n_is_read n) (notifications d))))"

definition mark_all_notifications_read :: "user \<Rightarrow> db \<Rightarrow> nat \<times> db" where
  "mark_all_notifications_read current_user d =
     (let unread = (\<lambda>n. n_user_id n = u_id current_user \<and> \<not> n_is_read n)
      in (length (filter unread (notifications d)),
          d\<lparr>notifications := update_where unread (\<lambda>n. n\<lparr>n_is_read := True\<rparr>) (notifications d)\<rparr>))"

definition mark_notification_read :: "user \<Rightarrow> uuid \<Rightarrow> db \<Rightarrow> (exc + notification) \<times> db" where
  "mark_notification_read current_user notification_id d =
     (case scalar_one_or_none (filter (\<lambda>n. n_id n = notification_id \<and> n_user_id n = u_id current_user) (notifications d)) of
        Inl e \<Rightarrow> (Inl e, d)
      | Inr None \<Rightarrow> (Inl (HTTPException 404 Notification_Not_Found), d)
      | Inr (Some notification) \<Rightarrow>
          (Inr (notification\<lparr>n_is_read := True\<rparr>),
           d\<lparr>notifications := update_where (\<lambda>n. n_id n = notification_id) (\<lambda>n. n\<lparr>n_is_read := True\<rparr>) (notifications d)\<rparr>))"

section \<open>Library lemmas\<close>

lemma insort_key_map: "insort_key f (g x) (map g ys) = map g (insort_key (f \<circ> g) x ys)"
  by (induction ys) auto

lemma ordered_map: "ordered f desc (map g xs) = map g (ordered (f \<circ> g) desc xs)"
proof -
  have "sort_key f (map g xs) = map g (sort_key (f \<circ> g) xs)"
    by (induction xs) (simp_all add: insort_key_map comp_def)
  then show ?thesis by (simp add: ordered_def rev_map)
qed

text \<open>A join along a reference that always resolves, to a unique row.\<close>

lemma inner_join_unique:
  assumes "keyed key ys" and "\<forall>x \<in> set xs. f x \<in> key ` set ys"
  shows "inner_join (\<lambda>x y. key y = f x) xs ys = map (\<lambda>x. (x, the (find (\<lambda>y. key y = f x) ys))) xs"
  using assms(2)
proof (induction xs)
  case Nil
  then show ?case by (simp add: inner_join_def)
next
  case (Cons x xs)
  then obtain y where y: "y \<in> set ys" "key y = f x" by auto
  have "find (\<lambda>y. key y = f x) ys = Some y" using keyed_find [OF assms(1) y] .
  then have "filter (\<lambda>y. key y = f x) ys = [y]"
    using keyed_filter_key [OF assms(1), of "f x" "\<lambda>_. True"] by simp
  with Cons \<open>find _ _ = Some y\<close> show ?case by (simp add: inner_join_def)
qed

lemma walk_map:
  assumes "\<And>c. get' c = (case get c of Inl e \<Rightarrow> Inl e | Inr p \<Rightarrow> Inr (map_page f p))"
  shows "walk n get' cur = map_option (map f) (walk n get cur)"
  by (induction n arbitrary: cur) (auto simp: assms map_page_def option.map_comp comp_def split: sum.splits option.splits)

lemma select_companies_candidate: "u < 2 ^ 128 \<Longrightarrow> select_companies (candidate_context u) d = []"
  by (simp add: select_companies_def rls_visible_def companies_policies_def settings_candidate tenant_match_def
      filter_empty_conv Let_def)

lemma paginate_items_subset:
  assumes "paginate_by_cursor U C col key desc params rows = Inr p" and "x \<in> set (pg_items p)"
  shows "x \<in> set rows"
proof (cases "boundary_of U C col (cp_cursor params)")
  case (Inl e)
  with assms(1) show ?thesis by (simp add: paginate_by_cursor_def)
next
  case (Inr bo)
  define fd where "fd = (if cp_direction params = ''next'' then desc else \<not> desc)"
  define rows' where "rows' = (case bo of None \<Rightarrow> rows
    | Some c \<Rightarrow> filter (\<lambda>r. if fd then sql_lt (key r) c else sql_gt (key r) c) rows)"
  have sub: "set rows' \<subseteq> set rows" by (auto simp: rows'_def split: option.splits)
  define items where "items = (if cp_direction params = ''prev'' then rev (take (cp_limit params) (ordered key fd rows'))
    else take (cp_limit params) (ordered key fd rows'))"
  have "set items \<subseteq> set rows"
    using set_take_subset [of "cp_limit params" "ordered key fd rows'"] sub by (auto simp: items_def)
  moreover have "pg_items p = [] \<or> pg_items p = items"
    using paginate_fetched [OF Inr fd_def rows'_def [symmetric, THEN arg_cong] items_def refl refl] assms(1)
    by (auto simp: empty_page_def split: if_splits)
  ultimately show ?thesis using assms(2) by auto
qed

lemma outer_join_Nil: "outer_join on xs [] = map (\<lambda>x. (x, None)) xs"
  by (simp add: outer_join_def concat_map_singleton)

lemma keyed_filter: "keyed key rows \<Longrightarrow> keyed key (filter p rows)"
  by (simp add: keyed_def distinct_map_filter)

lemma select_applications_candidate:
  assumes "u < 2 ^ 128" and "p \<in> set (candidates d)" and "c_user_id p = u" and "keyed c_user_id (candidates d)"
  shows "select_applications (candidate_context u) d = filter (\<lambda>a. a_candidate_id a = c_id p) (applications d)"
proof -
  have "own_candidate (context_parameters (candidate_context u)) d x \<longleftrightarrow> x = c_id p" for x
    using candidate_id_of_user [OF assms] by (auto simp: own_candidate_def)
  then show ?thesis by (simp add: select_applications_def rls_applications_candidate [OF assms(1)])
qed

lemma profile_exists:
  assumes "u_id u < 2 ^ 128" and "p \<in> set (candidates d)" and "c_user_id p = u_id u" and "keyed c_user_id (candidates d)"
  shows "get_or_create_candidate_profile (candidate_context (u_id u)) u new d = (Inr p, d)"
proof -
  have "find (\<lambda>c. c_user_id c = u_id u) (candidates d) = Some p"
    using keyed_find [OF assms(4,2,3)] .
  moreover have "rls_visible (context_parameters (candidate_context (u_id u)))
      (candidates_policies (context_parameters (candidate_context (u_id u))) d) R_SELECT p"
    by (simp add: rls_visible_def candidates_policies_def settings_candidate [OF assms(1)] assms(3))
  ultimately have "filter (\<lambda>c. c_user_id c = u_id u) (select_candidates (candidate_context (u_id u)) d) = [p]"
    using keyed_filter_key [OF assms(4), of "u_id u" "rls_visible (context_parameters (candidate_context (u_id u)))
      (candidates_policies (context_parameters (candidate_context (u_id u))) d) R_SELECT"]
    by (simp add: select_candidates_def conj_commute)
  then show ?thesis by (simp add: get_or_create_candidate_profile_def)
qed

lemma whole_walk:
  assumes "keyset U C col key rows" and "1 \<le> l" and "n = Suc (length rows)"
  shows "walk n (\<lambda>c. paginate_by_cursor U C col key desc (request ''next'' l c) rows) None = Some (ordered key desc rows)"
  using walk_from [OF assms(1,2) refl, of 0 n None desc] assms(3) by simp

section \<open>Properties\<close>

text \<open>
  The advert list is complete for everyone it is meant for. Following the next tokens
  of the advert list, with any page size and any filters, a staff member gets every matching
  advert of the own tenant exactly once, newest first, and no other; a candidate gets
  every matching advert of every tenant.
\<close>

theorem advert_list_complete:
  assumes "codec_ok C" and "keyed j_id (jobs d)" and "\<forall>j \<in> set (jobs d). j_id j < 2 ^ 128"
    and "1 \<le> l" and "t < 2 ^ 128" and "u < 2 ^ 128"
    and "matches = (\<lambda>j. (case st of None \<Rightarrow> True | Some s \<Rightarrow> j_status j = s)
          \<and> (case dep of None \<Rightarrow> True | Some x \<Rightarrow> j_department j = Some x))"
  shows "(let own = filter (\<lambda>j. j_tenant_id j = t \<and> matches j) (jobs d)
          in walk (Suc (length own)) (\<lambda>c. list_jobs U C (tenant_context t u) st dep (request ''next'' l c) d) None
             = Some (ordered (\<lambda>j. (NotNull (j_created_at j), j_id j)) True own))
    \<and> (let all = filter matches (jobs d)
       in walk (Suc (length all)) (\<lambda>c. list_jobs U C (candidate_context u) st dep (request ''next'' l c) d) None
             = Some (ordered (\<lambda>j. (NotNull (j_created_at j), j_id j)) True all))"
proof -
  have ks: "keyset U C timestamp_column (\<lambda>j. (NotNull (j_created_at j), j_id j)) (filter p (jobs d))" for p
    using assms(1-3) by (intro timestamp_keyset keyed_filter) auto
  have q: "filter (\<lambda>j. (case st of None \<Rightarrow> True | Some s \<Rightarrow> j_status j = s)
        \<and> (case dep of None \<Rightarrow> True | Some x \<Rightarrow> j_department j = Some x)) (select_jobs (tenant_context t u) d)
      = filter (\<lambda>j. j_tenant_id j = t \<and> matches j) (jobs d)"
    using assms(5) by (simp add: select_jobs_tenant assms(7) conj_ac)
  have own: "walk (Suc (length (filter (\<lambda>j. j_tenant_id j = t \<and> matches j) (jobs d))))
      (\<lambda>c. list_jobs U C (tenant_context t u) st dep (request ''next'' l c) d) None
      = Some (ordered (\<lambda>j. (NotNull (j_created_at j), j_id j)) True (filter (\<lambda>j. j_tenant_id j = t \<and> matches j) (jobs d)))"
    unfolding list_jobs_def q by (rule whole_walk [OF ks assms(4) refl])
  have "walk (Suc (length (filter matches (jobs d))))
      (\<lambda>c. list_jobs U C (candidate_context u) st dep (request ''next'' l c) d) None
      = Some (ordered (\<lambda>j. (NotNull (j_created_at j), j_id j)) True (filter matches (jobs d)))"
    unfolding list_jobs_def select_jobs_candidate [OF assms(6)] assms(7) [symmetric]
    by (rule whole_walk [OF ks assms(4) refl])
  with own show ?thesis by (simp add: Let_def)
qed

theorem advert_list_complete_witness:
  "codec_ok plain_codec \<and> keyed j_id (jobs demo_db) \<and>
   walk 2 (\<lambda>c. list_jobs ascii_tables plain_codec (tenant_context 5 9) (Some ''Active'') None (request ''next'' 3 c) demo_db) None
     = Some [demo_job]"
proof -
  have js: "jobs demo_db = [demo_job]" by (simp add: demo_db_def)
  have m: "filter (\<lambda>j. j_tenant_id j = 5 \<and> (j_status j = ''Active'' \<and> True)) [demo_job] = [demo_job]"
    by (simp add: demo_job_def)
  have k: "keyed j_id (jobs demo_db)" "\<forall>j \<in> set (jobs demo_db). j_id j < 2 ^ 128" "(1::nat) \<le> 3"
      "(5::uuid) < 2 ^ 128" "(9::uuid) < 2 ^ 128"
    by (simp_all add: js keyed_def demo_job_def)
  have o: "ordered (\<lambda>j. (NotNull (j_created_at j), j_id j)) True [demo_job] = [demo_job]"
    by (simp add: ordered_def)
  have "walk (Suc (length [demo_job])) (\<lambda>c. list_jobs ascii_tables plain_codec (tenant_context 5 9) (Some ''Active'') None
      (request ''next'' 3 c) demo_db) None = Some [demo_job]"
    using advert_list_complete [OF plain_codec_ok k refl, of "Some ''Active''" None ascii_tables, THEN conjunct1]
    unfolding Let_def js option.case m o .
  moreover have "Suc (length [demo_job]) = 2" by simp
  ultimately show ?thesis using plain_codec_ok k(1) by metis
qed

text \<open>
  The candidate's tracker shows exactly the candidate's own applications: following its
  tokens lists each application of the caller's profile once, latest change first, with the
  title of its advert, and leaves the database alone.
\<close>

theorem tracker_shows_own_applications:
  assumes "codec_ok C" and "u_role u = ''Candidate''" and "u_id u < 2 ^ 128"
    and "p \<in> set (candidates d)" and "c_user_id p = u_id u" and "keyed c_user_id (candidates d)"
    and "keyed a_id (applications d)" and "\<forall>a \<in> set (applications d). a_id a < 2 ^ 128 \<and> a_job_id a \<in> j_id ` set (jobs d)"
    and "keyed j_id (jobs d)" and "1 \<le> l"
    and "own = filter (\<lambda>a. a_candidate_id a = c_id p) (applications d)"
    and "ctx = candidate_context (u_id u)"
  shows "walk (Suc (length own)) (\<lambda>c. fst (list_my_applications U C ctx u i (request ''next'' l c) d)) None
      = Some (map (\<lambda>a. \<lparr>ati_application_id = a_id a, ati_job_id = a_job_id a,
          ati_job_title = j_title (the (find (\<lambda>j. j_id j = a_job_id a) (jobs d))),
          ati_current_status = a_current_status a, ati_updated_at = a_updated_at a\<rparr>)
        (ordered (\<lambda>a. (NotNull (a_updated_at a), a_id a)) True own))
    \<and> snd (list_my_applications U C ctx u i params d) = d"
proof -
  let ?key = "\<lambda>(a, j). (NotNull (a_updated_at a), a_id a)"
  let ?g = "\<lambda>a. (a, the (find (\<lambda>j. j_id j = a_job_id a) (jobs d)))"
  let ?item = "\<lambda>(a, j). \<lparr>ati_application_id = a_id a, ati_job_id = a_job_id a, ati_job_title = j_title j,
      ati_current_status = a_current_status a, ati_updated_at = a_updated_at a\<rparr>"
  have prof: "get_or_create_candidate_profile ctx u i d = (Inr p, d)"
    unfolding assms(12) by (rule profile_exists [OF assms(3-6)])
  have sel: "select_applications ctx d = own"
    unfolding assms(11,12) by (rule select_applications_candidate [OF assms(3-6)])
  have "inner_join (\<lambda>a j. j_id j = a_job_id a) own (jobs d) = map ?g own"
    using assms(8,9,11) by (intro inner_join_unique) auto
  moreover have "filter (\<lambda>(a, j). a_candidate_id a = c_id p) (map ?g own) = map ?g own"
    by (simp add: filter_map comp_def assms(11))
  ultimately have query: "filter (\<lambda>(a, j). a_candidate_id a = c_id p)
      (inner_join (\<lambda>a j. j_id j = a_job_id a) (select_applications ctx d) (select_jobs ctx d)) = map ?g own"
    using select_jobs_candidate [OF assms(3), folded assms(12)] by (simp add: sel)
  have role: "require_roles [''Candidate''] u = Inr u"
    using assms(2) by (simp add: require_roles_def)
  have list: "list_my_applications U C ctx u i params d =
      (case paginate_by_cursor U C timestamp_column ?key True params (map ?g own) of
         Inl e \<Rightarrow> Inl e | Inr pg \<Rightarrow> Inr (map_page ?item pg), d)" for params
    unfolding list_my_applications_def role prof sum.case prod.case query Let_def by (simp split: sum.splits)
  have k: "keyset U C timestamp_column ?key (map ?g own)"
    using timestamp_keyset [OF assms(1) keyed_filter [OF assms(7)], of "\<lambda>a. a_candidate_id a = c_id p" U a_updated_at] assms(8)
    by (auto simp: keyset_def assms(11) comp_def image_image)
  have w: "walk (Suc (length own)) (\<lambda>c. paginate_by_cursor U C timestamp_column ?key True (request ''next'' l c) (map ?g own)) None
      = Some (ordered ?key True (map ?g own))"
    by (rule whole_walk [OF k assms(10)]) simp
  have "walk (Suc (length own)) (\<lambda>c. fst (list_my_applications U C ctx u i (request ''next'' l c) d)) None
      = Some (map ?item (map ?g (ordered (?key \<circ> ?g) True own)))"
  proof -
    have "walk (Suc (length own)) (\<lambda>c. fst (list_my_applications U C ctx u i (request ''next'' l c) d)) None
        = map_option (map ?item) (walk (Suc (length own))
            (\<lambda>c. paginate_by_cursor U C timestamp_column ?key True (request ''next'' l c) (map ?g own)) None)"
      by (rule walk_map) (simp add: list)
    then show ?thesis unfolding w by (simp only: option.map ordered_map)
  qed
  then show ?thesis by (simp add: list comp_def del: walk.simps)
qed

theorem tracker_shows_own_applications_witness:
  "u_role (demo_user 7 ''Candidate'' None) = ''Candidate'' \<and>
   walk 2 (\<lambda>c. fst (list_my_applications ascii_tables plain_codec (candidate_context 7)
     (demo_user 7 ''Candidate'' None) 99 (request ''next'' 3 c) demo_db)) None
   = Some [\<lparr>ati_application_id = 11, ati_job_id = 20, ati_job_title = utext_of ''Dev'',
       ati_current_status = ''Draft'', ati_updated_at = 200\<rparr>]"
proof -
  let ?u = "demo_user 7 ''Candidate'' None" and ?p = "hd (candidates demo_db)"
  have u: "u_role ?u = ''Candidate''" "u_id ?u < 2 ^ 128" by (simp_all add: demo_user_def)
  have p: "?p \<in> set (candidates demo_db)" "c_user_id ?p = u_id ?u" "keyed c_user_id (candidates demo_db)"
      "keyed a_id (applications demo_db)" "keyed j_id (jobs demo_db)" "(1::nat) \<le> 3"
      "\<forall>a \<in> set (applications demo_db). a_id a < 2 ^ 128 \<and> a_job_id a \<in> j_id ` set (jobs demo_db)"
    by (simp_all add: demo_db_def demo_user_def keyed_def demo_application_def demo_job_def)
  have own: "[demo_application] = filter (\<lambda>a. a_candidate_id a = c_id ?p) (applications demo_db)"
    by (simp add: demo_db_def demo_application_def)
  have ctx: "candidate_context 7 = candidate_context (u_id ?u)" by (simp add: demo_user_def)
  have j: "find (\<lambda>j. j_id j = a_job_id demo_application) (jobs demo_db) = Some demo_job"
    by (simp add: demo_db_def demo_application_def demo_job_def)
  have n: "Suc (length [demo_application]) = 2" by simp
  show ?thesis
    using tracker_shows_own_applications [OF plain_codec_ok u p(1-4) p(7) p(5,6) own ctx, THEN conjunct1,
        of ascii_tables 99] u(1) j
    unfolding n by (simp add: ordered_def demo_application_def demo_job_def)
qed

text \<open>
  No offer in a candidate's inbox ever carries the name of the company, whatever the
  database holds: the row policies of the companies table show a candidate no company, so the
  outer join of the query always comes out empty.
\<close>

theorem offer_inbox_without_company:
  assumes "ctx = candidate_context (u_id u)" and "u_id u < 2 ^ 128"
    and "list_my_offers U C ctx u i params d = (Inr page, d')" and "item \<in> set (pg_items page)"
  shows "oi_company_name item = None"
proof -
  obtain p where p: "get_or_create_candidate_profile ctx u i d = (Inr p, d')"
    using assms(3) by (auto simp: list_my_offers_def Let_def split: sum.splits prod.splits)
  let ?q = "filter (\<lambda>((a, j), co). a_candidate_id a = c_id p \<and> a_current_status a = status_value OFFER)
      (outer_join (\<lambda>(a, j) co. j_company_id j = Some (co_id co))
        (inner_join (\<lambda>a j. j_id j = a_job_id a) (select_applications ctx d') (select_jobs ctx d'))
        (select_companies ctx d'))"
  have none: "select_companies ctx d' = []"
    unfolding assms(1) by (rule select_companies_candidate [OF assms(2)])
  obtain pg where pg: "paginate_by_cursor U C timestamp_column
      (\<lambda>((a, j), co). (NotNull (a_updated_at a), a_id a)) True params ?q = Inr pg"
    and page: "pg_items page = map (\<lambda>((a, j), co). \<lparr>oi_application_id = a_id a, oi_job_id = a_job_id a,
                  oi_job_title = j_title j, oi_company_name = map_option co_name co,
                  oi_updated_at = a_updated_at a\<rparr>) (pg_items pg)"
    using assms(3) by (auto simp: list_my_offers_def p Let_def map_page_def split: sum.splits)
  from assms(4) page obtain a j co where "((a, j), co) \<in> set (pg_items pg)"
      "oi_company_name item = map_option co_name co" by auto
  moreover from paginate_items_subset [OF pg this(1)] have "co = None"
    by (auto simp: none outer_join_Nil)
  ultimately show ?thesis by simp
qed

definition demo_offer_db :: db where
  "demo_offer_db = demo_db\<lparr>jobs := [demo_job\<lparr>j_company_id := Some 5\<rparr>],
     applications := [demo_application\<lparr>a_current_status := ''Offer''\<rparr>],
     companies := [\<lparr>co_id = 5, co_name = utext_of ''Acme'', co_industry = None, co_logo_url = None, co_owner_id = 1\<rparr>]\<rparr>"

theorem offer_inbox_without_company_witness:
  "\<exists>page. list_my_offers ascii_tables plain_codec (candidate_context 7) (demo_user 7 ''Candidate'' None) 99
       (request ''next'' 3 None) demo_offer_db = (Inr page, demo_offer_db)
     \<and> map oi_application_id (pg_items page) = [11] \<and> oi_company_name (hd (pg_items page)) = None"
proof -
  let ?u = "demo_user 7 ''Candidate'' None" and ?p = "hd (candidates demo_offer_db)"
  have u: "u_id ?u = 7" "(7::uuid) < 2 ^ 128" by (simp_all add: demo_user_def)
  have p: "?p \<in> set (candidates demo_offer_db)" "c_user_id ?p = 7" "keyed c_user_id (candidates demo_offer_db)"
    by (simp_all add: demo_offer_db_def demo_db_def keyed_def)
  have prof: "get_or_create_candidate_profile (candidate_context 7) ?u 99 demo_offer_db = (Inr ?p, demo_offer_db)"
    using profile_exists [of ?u ?p demo_offer_db 99] p u by simp
  let ?a = "demo_application\<lparr>a_current_status := ''Offer''\<rparr>" and ?j = "demo_job\<lparr>j_company_id := Some 5\<rparr>"
  have apps: "select_applications (candidate_context 7) demo_offer_db = [?a]"
    using select_applications_candidate [OF u(2) p] by (simp add: demo_offer_db_def demo_db_def demo_application_def)
  have js: "select_jobs (candidate_context 7) demo_offer_db = [?j]"
    using select_jobs_candidate [OF u(2), of demo_offer_db] by (simp add: demo_offer_db_def)
  have cos: "select_companies (candidate_context 7) demo_offer_db = []"
    by (rule select_companies_candidate [OF u(2)])
  have facts: "j_id ?j = a_job_id ?a" "a_candidate_id ?a = c_id ?p" "a_current_status ?a = ''Offer''" "a_id ?a = 11"
      "require_roles [''Candidate''] ?u = Inr ?u"
    by (simp_all add: demo_offer_db_def demo_db_def demo_application_def demo_job_def demo_user_def)
  have query: "filter (\<lambda>((a, j), co). a_candidate_id a = c_id ?p \<and> a_current_status a = status_value OFFER)
      (map (\<lambda>x. (x, None)) (inner_join (\<lambda>a j. j_id j = a_job_id a) [?a] [?j])) = [((?a, ?j), None)]"
    unfolding inner_join_def using facts(1-3) by simp
  have single: "paginate_by_cursor ascii_tables plain_codec timestamp_column key True (request ''next'' 3 None) [r]
      = Inr \<lparr>pg_items = [r], pg_next_cursor = None, pg_previous_cursor = None, pg_has_next = False, pg_has_previous = False\<rparr>"
    for key and r :: "(application \<times> job) \<times> company option"
    by (simp add: paginate_by_cursor_def ordered_def Let_def)
  have "\<exists>page. list_my_offers ascii_tables plain_codec (candidate_context 7) ?u 99
      (request ''next'' 3 None) demo_offer_db = (Inr page, demo_offer_db) \<and> map oi_application_id (pg_items page) = [11]"
    unfolding list_my_offers_def facts(5) sum.case prof prod.case apps js cos outer_join_Nil query Let_def single
    by (rule exI, rule conjI, rule refl) (simp add: map_page_def demo_application_def)
  then obtain page where run: "list_my_offers ascii_tables plain_codec (candidate_context 7) ?u 99
      (request ''next'' 3 None) demo_offer_db = (Inr page, demo_offer_db)"
      "map oi_application_id (pg_items page) = [11]" by (elim exE conjE) (rule that)
  have "hd (pg_items page) \<in> set (pg_items page)" using run(2) by (cases "pg_items page") auto
  then have "oi_company_name (hd (pg_items page)) = None"
    using u by (intro offer_inbox_without_company [OF _ _ run(1)]) simp_all
  with run show ?thesis by (intro exI conjI)
qed

end
