(* ===== verification/Experience_Analyzer.thy ===== *)
theory Experience_Analyzer
  imports ATS_Prelude
begin

text \<open>
  The analysis of work experience (app/core/experience_analyzer.py): reading a duration such
  as "1398 - 1401", rejecting impossible periods, and summing the years of the
  valid periods without counting a year twice. The year of today's date is a parameter.
\<close>

section \<open>Reading a duration\<close>

definition CURRENT_MARKERS :: "utext list" where
  "CURRENT_MARKERS =
     [[1578, 1575, 1705, 1606, 1608, 1606], [1575, 1705, 1606, 1608, 1606],
      [1581, 1575, 1604, 32, 1581, 1575, 1590, 1585], utext_of ''present'', utext_of ''current'']"

definition SHAMSI_YEAR_THRESHOLD :: int where "SHAMSI_YEAR_THRESHOLD = 1500"
definition MAX_REASONABLE_SINGLE_JOB_YEARS :: int where "MAX_REASONABLE_SINGLE_JOB_YEARS = 40"
definition SHAMSI_TO_GREGORIAN_OFFSET :: int where "SHAMSI_TO_GREGORIAN_OFFSET = 621"

definition current_year_for_calendar :: "int \<Rightarrow> bool \<Rightarrow> int" where
  "current_year_for_calendar gregorian_now is_shamsi =
     (if is_shamsi then gregorian_now - SHAMSI_TO_GREGORIAN_OFFSET else gregorian_now)"

text \<open>\<open>\d{3,4}\<close>: at most four of the digits that a text starts with, and the leftmost place where there are three.\<close>

fun leading_digits :: "unicode \<Rightarrow> nat \<Rightarrow> utext \<Rightarrow> nat list" where
  "leading_digits U 0 s = []"
| "leading_digits U (Suc n) [] = []"
| "leading_digits U (Suc n) (c # cs) = (case uc_digit U c of None \<Rightarrow> [] | Some v \<Rightarrow> v # leading_digits U n cs)"

definition digits_value :: "nat list \<Rightarrow> int" where
  "digits_value ds = foldl (\<lambda>acc v. 10 * acc + int v) 0 ds"

fun search_year :: "unicode \<Rightarrow> utext \<Rightarrow> int option" where
  "search_year U [] = None"
| "search_year U (c # cs) =
     (let ds = leading_digits U 4 (c # cs)
      in if 3 \<le> length ds then Some (digits_value ds) else search_year U cs)"

fun has_substring :: "'a list \<Rightarrow> 'a list \<Rightarrow> bool" where
  "has_substring pat [] \<longleftrightarrow> pat = []"
| "has_substring pat (c # cs) \<longleftrightarrow> take (length pat) (c # cs) = pat \<or> has_substring pat cs"

definition is_dash :: "nat \<Rightarrow> bool" where
  "is_dash c \<longleftrightarrow> c = 45 \<or> c = 8211 \<or> c = 8212"

definition parse_duration :: "unicode \<Rightarrow> int \<Rightarrow> utext option \<Rightarrow> (int \<times> int) option" where
  "parse_duration U gregorian_now duration =
     (case duration of
        None \<Rightarrow> None
      | Some text \<Rightarrow>
          (if \<not> list_ex is_dash text then None
           else
             (let start_part = ustrip U (takeWhile (\<lambda>c. \<not> is_dash c) text);
                  end_part = ustrip U (drop 1 (dropWhile (\<lambda>c. \<not> is_dash c) text))
              in case search_year U start_part of
                   None \<Rightarrow> None
                 | Some start_year \<Rightarrow>
                     (let is_shamsi = (start_year < SHAMSI_YEAR_THRESHOLD);
                          lowered_end_part = uc_lower U end_part
                      in if list_ex (\<lambda>marker. has_substring marker end_part \<or> has_substring marker lowered_end_part)
                              CURRENT_MARKERS
                         then Some (start_year, current_year_for_calendar gregorian_now is_shamsi)
                         else map_option (Pair start_year) (search_year U end_part)))))"

section \<open>Validation\<close>

datatype flag_reason = Unrecognised_Period | End_Before_Start | In_The_Future | Unrealistic_Length int

definition validate_entry :: "int \<Rightarrow> int \<Rightarrow> int \<Rightarrow> bool \<Rightarrow> flag_reason option" where
  "validate_entry gregorian_now start_year end_year is_shamsi =
     (let current_year = current_year_for_calendar gregorian_now is_shamsi
      in if end_year < start_year then Some End_Before_Start
         else if start_year > current_year \<or> end_year > current_year then Some In_The_Future
         else if end_year - start_year > MAX_REASONABLE_SINGLE_JOB_YEARS
         then Some (Unrealistic_Length (end_year - start_year))
         else None)"

section \<open>Merging intervals\<close>

text \<open>One round of the loop; the list of merged intervals has its last element first.\<close>

fun merge_step :: "int \<times> int \<Rightarrow> (int \<times> int) list \<Rightarrow> (int \<times> int) list" where
  "merge_step (start_year, end_year) [] = [(start_year, end_year)]"
| "merge_step (start_year, end_year) ((s, e) # merged) =
     (if start_year \<le> e then (s, max e end_year) # merged
      else (start_year, end_year) # (s, e) # merged)"

definition merge_intervals_and_sum_years :: "(int \<times> int) list \<Rightarrow> rat" where
  "merge_intervals_and_sum_years intervals =
     (case sort_key fst intervals of
        [] \<Rightarrow> 0
      | first # rest \<Rightarrow>
          of_int (sum_list (map (\<lambda>(s, e). e - s) (rev (fold merge_step rest [first])))))"

section \<open>The analysis\<close>

record work_experience_entry =
  we_company :: "utext option"
  we_job_title :: "utext option"
  we_duration :: "utext option"

record experience_entry_analysis = work_experience_entry +
  ee_start_year :: "int option"
  ee_end_year :: "int option"
  ee_is_valid :: bool
  ee_flag_reason :: "flag_reason option"

definition analyze_entry :: "unicode \<Rightarrow> int \<Rightarrow> work_experience_entry \<Rightarrow> experience_entry_analysis" where
  "analyze_entry U gregorian_now entry =
     (case parse_duration U gregorian_now (we_duration entry) of
        None \<Rightarrow>
          work_experience_entry.extend entry \<lparr>ee_start_year = None, ee_end_year = None, ee_is_valid = False,
            ee_flag_reason = Some Unrecognised_Period\<rparr>
      | Some (start_year, end_year) \<Rightarrow>
          (let flag = validate_entry gregorian_now start_year end_year (start_year < SHAMSI_YEAR_THRESHOLD)
           in work_experience_entry.extend entry \<lparr>ee_start_year = Some start_year, ee_end_year = Some end_year,
                ee_is_valid = (flag = None), ee_flag_reason = flag\<rparr>))"

fun valid_interval :: "experience_entry_analysis \<Rightarrow> (int \<times> int) list" where
  "valid_interval a =
     (case (ee_start_year a, ee_end_year a) of
        (Some s, Some e) \<Rightarrow> if ee_is_valid a then [(s, e)] else []
      | _ \<Rightarrow> [])"

definition analyze_work_experience ::
  "unicode \<Rightarrow> int \<Rightarrow> work_experience_entry list \<Rightarrow> rat \<times> experience_entry_analysis list" where
  "analyze_work_experience U gregorian_now work_experience =
     (let analyzed_entries = map (analyze_entry U gregorian_now) work_experience;
          valid_intervals = concat (map valid_interval analyzed_entries)
      in (merge_intervals_and_sum_years valid_intervals, analyzed_entries))"

section \<open>Library lemmas\<close>

text \<open>The years an interval covers, each year named by its beginning.\<close>

definition years :: "(int \<times> int) list \<Rightarrow> int set" where
  "years xs = (\<Union>(s, e) \<in> set xs. {s..<e})"

lemma years_simps [simp]: "years [] = {}" "years ((s, e) # xs) = {s..<e} \<union> years xs"
    "years (xs @ ys) = years xs \<union> years ys"
  by (auto simp: years_def)

lemma finite_years [simp]: "finite (years xs)"
  by (auto simp: years_def)

text \<open>Merged intervals, last first: proper, and each begins after the next one ends.\<close>

fun apart :: "(int \<times> int) list \<Rightarrow> bool" where
  "apart [] \<longleftrightarrow> True"
| "apart [(s, e)] \<longleftrightarrow> s \<le> e"
| "apart ((s, e) # (s', e') # xs) \<longleftrightarrow> s \<le> e \<and> e' < s \<and> apart ((s', e') # xs)"

lemma apart_before: "apart ((s, e) # xs) \<Longrightarrow> years xs \<subseteq> {..<s}"
  by (induction xs arbitrary: s e rule: apart.induct) force+

lemma apart_sum: "apart xs \<Longrightarrow> sum_list (map (\<lambda>(s, e). e - s) xs) = int (card (years xs))"
proof (induction xs)
  case Nil
  then show ?case by simp
next
  case (Cons x xs)
  obtain s e where x: "x = (s, e)" by (cases x)
  have le: "s \<le> e" and ap: "apart xs" using Cons.prems by (cases xs; auto simp: x)+
  have "{s..<e} \<inter> years xs = {}" using apart_before [of s e xs] Cons.prems by (auto simp: x)
  then have "card (years (x # xs)) = card {s..<e} + card (years xs)"
    by (simp add: x card_Un_disjoint)
  with Cons.IH [OF ap] le show ?case by (simp add: x)
qed

lemma merge_step_years:
  assumes "apart m" and "m \<noteq> []" and "s \<le> e" and "fst (hd m) \<le> s"
  shows "apart (merge_step (s, e) m) \<and> years (merge_step (s, e) m) = {s..<e} \<union> years m
    \<and> merge_step (s, e) m \<noteq> [] \<and> fst (hd (merge_step (s, e) m)) \<le> s"
proof -
  obtain s' e' m' where m: "m = (s', e') # m'" using assms(2) by (metis list.exhaust surj_pair)
  show ?thesis
    using assms by (cases m') (auto simp: m)
qed

lemma merge_fold_years:
  assumes "sorted (map fst ((s, e) # rest))" and "\<forall>(a, b) \<in> set rest. a \<le> b"
    and "apart m" and "m \<noteq> []" and "fst (hd m) \<le> s"
  shows "apart (fold merge_step rest m) \<and> years (fold merge_step rest m) = years rest \<union> years m"
  using assms
proof (induction rest arbitrary: m s e)
  case Nil
  then show ?case by simp
next
  case (Cons x rest)
  obtain a b where x: "x = (a, b)" by (cases x)
  have st: "apart (merge_step (a, b) m) \<and> years (merge_step (a, b) m) = {a..<b} \<union> years m
      \<and> merge_step (a, b) m \<noteq> [] \<and> fst (hd (merge_step (a, b) m)) \<le> a"
    using Cons.prems by (intro merge_step_years) (auto simp: x)
  have "apart (fold merge_step rest (merge_step (a, b) m))
      \<and> years (fold merge_step rest (merge_step (a, b) m)) = years rest \<union> years (merge_step (a, b) m)"
    using st Cons.prems by (intro Cons.IH [of a b]) (auto simp: x)
  with st show ?case by (auto simp: x)
qed

lemma years_sort: "years (sort_key f xs) = years xs"
  by (simp add: years_def)

lemma merge_card:
  assumes "\<forall>(s, e) \<in> set xs. s \<le> e"
  shows "merge_intervals_and_sum_years xs = of_nat (card (years xs))"
proof (cases "sort_key fst xs")
  case Nil
  then have "xs = []" by (metis set_empty2 set_sort)
  then show ?thesis by (simp add: merge_intervals_and_sum_years_def)
next
  case (Cons x rest)
  obtain s e where x: "x = (s, e)" by (cases x)
  have set: "set ((s, e) # rest) = set xs" by (metis Cons x set_sort)
  have srt: "sorted (map fst ((s, e) # rest))" using sorted_sort_key [of fst xs] by (simp add: Cons x)
  have "apart (fold merge_step rest [(s, e)]) \<and> years (fold merge_step rest [(s, e)]) = years rest \<union> years [(s, e)]"
    using assms set by (intro merge_fold_years [OF srt]) auto
  moreover from this have "years (fold merge_step rest [(s, e)]) = years xs"
    using years_sort [of fst xs] by (auto simp: Cons x)
  ultimately show ?thesis
    using apart_sum by (simp add: merge_intervals_and_sum_years_def Cons x rev_map [symmetric] sum_list_rev)
qed

lemma analyze_entry_valid:
  assumes "ee_is_valid (analyze_entry U now w)"
  shows "\<exists>s e. ee_start_year (analyze_entry U now w) = Some s \<and> ee_end_year (analyze_entry U now w) = Some e
    \<and> s \<le> e \<and> e - s \<le> 40 \<and> e \<le> now"
  using assms
  by (auto simp: analyze_entry_def validate_entry_def Let_def work_experience_entry.defs
      MAX_REASONABLE_SINGLE_JOB_YEARS_def current_year_for_calendar_def SHAMSI_TO_GREGORIAN_OFFSET_def
      split: option.splits if_splits)

lemma valid_interval_mem:
  "(s, e) \<in> set (valid_interval a) \<longleftrightarrow> ee_is_valid a \<and> ee_start_year a = Some s \<and> ee_end_year a = Some e"
  by (auto split: option.splits)

lemma leading_digits_4: "leading_digits U 4 s = leading_digits U (Suc (Suc (Suc (Suc 0)))) s"
  by (simp add: eval_nat_numeral del: leading_digits.simps)

section \<open>Properties\<close>

text \<open>
  C12. Net experience: the total is the number of distinct years covered by the valid
  periods, so a year in which two jobs overlap counts once; there is one analysed
  entry per input entry, and a valid period is at most 40 years long.
\<close>

theorem net_experience_counts_each_year_once:
  "fst (analyze_work_experience U now work) = of_nat (card
     {y. \<exists>a s e. a \<in> set (snd (analyze_work_experience U now work)) \<and> ee_is_valid a
        \<and> ee_start_year a = Some s \<and> ee_end_year a = Some e \<and> s \<le> y \<and> y < e})
   \<and> map work_experience_entry.truncate (snd (analyze_work_experience U now work)) = work
   \<and> {a. a \<in> set (snd (analyze_work_experience U now work)) \<and> ee_is_valid a
       \<and> 40 < the (ee_end_year a) - the (ee_start_year a)} = {}"
proof -
  let ?es = "map (analyze_entry U now) work"
  let ?iv = "concat (map valid_interval ?es)"
  have proper: "\<forall>(s, e) \<in> set ?iv. s \<le> e"
  proof (clarify)
    fix s e assume "(s, e) \<in> set ?iv"
    then obtain w where "(s, e) \<in> set (valid_interval (analyze_entry U now w))" by auto
    then show "s \<le> e" using analyze_entry_valid [of U now w] unfolding valid_interval_mem by auto
  qed
  have "years ?iv = {y. \<exists>a s e. a \<in> set ?es \<and> ee_is_valid a
        \<and> ee_start_year a = Some s \<and> ee_end_year a = Some e \<and> s \<le> y \<and> y < e}"
    unfolding years_def set_concat set_map by (auto simp only: Union_iff image_iff valid_interval_mem) force+
  with merge_card [OF proper] have "fst (analyze_work_experience U now work) = of_nat (card
     {y. \<exists>a s e. a \<in> set ?es \<and> ee_is_valid a
        \<and> ee_start_year a = Some s \<and> ee_end_year a = Some e \<and> s \<le> y \<and> y < e})"
    by (simp add: analyze_work_experience_def)
  moreover have "work_experience_entry.truncate (analyze_entry U now w) = w" for w
    by (simp add: analyze_entry_def Let_def work_experience_entry.defs split: option.splits prod.splits)
  moreover have "{a. a \<in> set ?es \<and> ee_is_valid a \<and> 40 < the (ee_end_year a) - the (ee_start_year a)} = {}"
    using analyze_entry_valid [of U now] by fastforce
  ultimately show ?thesis by (simp add: analyze_work_experience_def comp_def)
qed

text \<open>
  The two calendars are never reconciled: the same period of employment, written once
  in Solar Hijri years and once in the corresponding Gregorian years (621 years later), is
  counted twice, although the sum is meant to be free of overlaps.
\<close>

theorem mixed_calendars_count_twice:
  assumes "parse_duration U now d1 = Some (s, e)"
    and "parse_duration U now d2 = Some (s + SHAMSI_TO_GREGORIAN_OFFSET, e + SHAMSI_TO_GREGORIAN_OFFSET)"
    and "1000 \<le> s" and "s \<le> e" and "e < 1500" and "e - s \<le> 40" and "e + SHAMSI_TO_GREGORIAN_OFFSET \<le> now"
  shows "fst (analyze_work_experience U now
      [\<lparr>we_company = c1, we_job_title = t1, we_duration = d1\<rparr>, \<lparr>we_company = c2, we_job_title = t2, we_duration = d2\<rparr>])
    = 2 * of_int (e - s)"
proof -
  let ?o = "SHAMSI_TO_GREGORIAN_OFFSET"
  have o: "?o = 621" by (simp add: SHAMSI_TO_GREGORIAN_OFFSET_def)
  have v: "validate_entry now s e True = None" "validate_entry now (s + ?o) (e + ?o) False = None"
    using assms(3-7) by (simp_all add: validate_entry_def current_year_for_calendar_def o
        MAX_REASONABLE_SINGLE_JOB_YEARS_def)
  have iv: "valid_interval (analyze_entry U now \<lparr>we_company = c1, we_job_title = t1, we_duration = d1\<rparr>) = [(s, e)]"
      "valid_interval (analyze_entry U now \<lparr>we_company = c2, we_job_title = t2, we_duration = d2\<rparr>) = [(s + ?o, e + ?o)]"
    using assms v by (simp_all add: analyze_entry_def work_experience_entry.defs SHAMSI_YEAR_THRESHOLD_def o)
  have "{s..<e} \<inter> {s + ?o..<e + ?o} = {}" using assms(3,5) by (auto simp: o)
  then have "card (years [(s, e), (s + ?o, e + ?o)]) = 2 * nat (e - s)"
    by (simp add: card_Un_disjoint)
  moreover have "merge_intervals_and_sum_years [(s, e), (s + ?o, e + ?o)] = of_nat (card (years [(s, e), (s + ?o, e + ?o)]))"
    using assms(4) by (intro merge_card) auto
  ultimately show ?thesis
    using assms(4) iv by (simp add: analyze_work_experience_def del: valid_interval.simps)
qed

theorem mixed_calendars_count_twice_witness:
  "parse_duration ascii_tables 2024 (Some (utext_of ''1390 - 1395'')) = Some (1390, 1395) \<and>
   parse_duration ascii_tables 2024 (Some (utext_of ''2011 - 2016'')) = Some (2011, 2016) \<and>
   fst (analyze_work_experience ascii_tables 2024
      [\<lparr>we_company = None, we_job_title = None, we_duration = Some (utext_of ''1390 - 1395'')\<rparr>,
       \<lparr>we_company = None, we_job_title = None, we_duration = Some (utext_of ''2011 - 2016'')\<rparr>]) = 10"
proof -
  have p: "parse_duration ascii_tables 2024 (Some (utext_of ''1390 - 1395'')) = Some (1390, 1395)"
    "parse_duration ascii_tables 2024 (Some (utext_of ''2011 - 2016'')) = Some (2011, 2016)"
    by (simp_all add: parse_duration_def utext_of_def ascii_tables_def is_dash_def ustrip_def strip_by_def
        leading_digits_4 digits_value_def CURRENT_MARKERS_def cp_ascii_lower_def Let_def)
  show ?thesis
    using mixed_calendars_count_twice [OF p(1), of "Some (utext_of ''2011 - 2016'')"] p
    by (simp add: SHAMSI_TO_GREGORIAN_OFFSET_def)
qed

end
