(* ===== verification/Matching.thy ===== *)
theory Matching
  imports Experience_Analyzer "HOL-Library.List_Lexorder"
begin

text \<open>
  The skill graph (app/core/skill_graph.py), the skill engine (app/core/skill_engine.py) and
  the matching score of a resume against an advert (app/core/matching_engine.py). Floating
  point numbers are idealised as rationals.
\<close>

section \<open>The skill graph\<close>

definition SKILL_ONTOLOGY :: "(string \<times> string list) list" where
  "SKILL_ONTOLOGY =
     [(''Python'', [''FastAPI'', ''Django'', ''Flask'', ''Pandas'', ''NumPy'', ''PyTest'', ''SQLAlchemy'']),
      (''JavaScript'', [''TypeScript'', ''React'', ''React.js'', ''Vue.js'', ''Angular'', ''Node.js'', ''Express.js'', ''Next.js'']),
      (''Java'', [''Spring'', ''Spring Boot'', ''Hibernate'']),
      (''C#'', [''ASP.NET'', ''.NET Core'']),
      (''SQL'', [''PostgreSQL'', ''MySQL'', ''SQL Server'', ''SQLite'', ''Oracle Database'']),
      (''NoSQL'', [''MongoDB'', ''Redis'', ''Cassandra'', ''Elasticsearch'']),
      (''DevOps'', [''Docker'', ''Kubernetes'', ''Jenkins'', ''Terraform'', ''Ansible'', ''CI/CD'']),
      (''Cloud Computing'', [''AWS'', ''Azure'', ''GCP'', ''Google Cloud'']),
      (''Machine Learning'', [''Deep Learning'', ''PyTorch'', ''TensorFlow'', ''Scikit-learn'', ''Keras'']),
      (''Project Management'', [''Scrum'', ''Agile'', ''Kanban'', ''Jira'']),
      (''UI/UX Design'', [''Figma'', ''Adobe XD'', ''Sketch''])]"

text \<open>A dictionary keeps the place of a key and replaces its value.\<close>

fun dict_set :: "('k \<times> 'v) list \<Rightarrow> 'k \<Rightarrow> 'v \<Rightarrow> ('k \<times> 'v) list" where
  "dict_set [] k v = [(k, v)]"
| "dict_set ((k', v') # kvs) k v = (if k' = k then (k, v) # kvs else (k', v') # dict_set kvs k v)"

definition lower_name :: "string \<Rightarrow> utext" where
  "lower_name s = map cp_ascii_lower (utext_of s)"

definition build_lookup_table :: "(utext \<times> utext \<times> utext) list" where
  "build_lookup_table =
     fold (\<lambda>(core_skill, sub_skills) lookup.
         fold (\<lambda>sub_skill l. dict_set l (lower_name sub_skill) (utext_of sub_skill, utext_of core_skill)) sub_skills
           (dict_set lookup (lower_name core_skill) (utext_of core_skill, utext_of core_skill)))
       SKILL_ONTOLOGY []"

definition alnum :: "nat \<Rightarrow> bool" where
  "alnum c \<longleftrightarrow> (48 \<le> c \<and> c \<le> 57) \<or> (65 \<le> c \<and> c \<le> 90) \<or> (97 \<le> c \<and> c \<le> 122)"

text \<open>The keyword stands at the head of a text, and no letter or digit follows it.\<close>

definition keyword_here :: "utext \<Rightarrow> utext \<Rightarrow> bool" where
  "keyword_here keyword text \<longleftrightarrow> take (length keyword) text = keyword
     \<and> (case drop (length keyword) text of [] \<Rightarrow> True | c # _ \<Rightarrow> \<not> alnum c)"

text \<open>The search of the bounded keyword; \<open>glued\<close> says that a letter or digit stands just before the text.\<close>

fun keyword_search :: "utext \<Rightarrow> bool \<Rightarrow> utext \<Rightarrow> bool" where
  "keyword_search keyword glued [] \<longleftrightarrow> \<not> glued \<and> keyword_here keyword []"
| "keyword_search keyword glued (c # cs) \<longleftrightarrow>
     (\<not> glued \<and> keyword_here keyword (c # cs)) \<or> keyword_search keyword (alnum c) cs"

definition detected_by :: "utext \<Rightarrow> utext \<times> utext \<times> utext \<Rightarrow> utext list" where
  "detected_by lowered_text entry =
     (case entry of (keyword, display_name, core_skill) \<Rightarrow>
        if keyword_search keyword False lowered_text then [display_name, core_skill] else [])"

definition match_skills :: "unicode \<Rightarrow> utext \<Rightarrow> utext list" where
  "match_skills U text =
     (if text = [] then []
      else sort (remdups (concat (map (detected_by (uc_lower U text)) build_lookup_table))))"

definition get_core_skill :: "unicode \<Rightarrow> utext \<Rightarrow> utext" where
  "get_core_skill U skill_name =
     (if skill_name = [] then skill_name
      else case map_of build_lookup_table (uc_lower U (ustrip U skill_name)) of
        Some (_, core_skill) \<Rightarrow> core_skill
      | None \<Rightarrow> skill_name)"

section \<open>The skill engine\<close>

record skill_analysis =
  sa_skills :: "utext list"
  sa_total_experience_years :: rat
  sa_experience_entries :: "experience_entry_analysis list"

definition run_skill_engine :: "unicode \<Rightarrow> int \<Rightarrow> utext \<Rightarrow> work_experience_entry list \<Rightarrow> skill_analysis" where
  "run_skill_engine U gregorian_now raw_text work_experience =
     (let skills = match_skills U raw_text;
          (total, entries) = analyze_work_experience U gregorian_now work_experience
      in \<lparr>sa_skills = skills, sa_total_experience_years = total, sa_experience_entries = entries\<rparr>)"

section \<open>The matching score\<close>

definition SKILL_MATCH_WEIGHT :: rat where "SKILL_MATCH_WEIGHT = 50"
definition TITLE_MATCH_WEIGHT :: rat where "TITLE_MATCH_WEIGHT = 15"
definition SENIORITY_MATCH_WEIGHT :: rat where "SENIORITY_MATCH_WEIGHT = 15"
definition EDUCATION_MATCH_WEIGHT :: rat where "EDUCATION_MATCH_WEIGHT = 8"
definition LOCATION_MATCH_WEIGHT :: rat where "LOCATION_MATCH_WEIGHT = 8"
definition SECONDARY_KEYWORDS_WEIGHT :: rat where "SECONDARY_KEYWORDS_WEIGHT = 4"

lemmas weight_defs = SKILL_MATCH_WEIGHT_def TITLE_MATCH_WEIGHT_def SENIORITY_MATCH_WEIGHT_def
  EDUCATION_MATCH_WEIGHT_def LOCATION_MATCH_WEIGHT_def SECONDARY_KEYWORDS_WEIGHT_def

definition SENIORITY_YEAR_RANGES :: "(utext \<times> rat \<times> rat option) list" where
  "SENIORITY_YEAR_RANGES =
     [(utext_of ''junior'', 0, Some 2), (utext_of ''mid-level'', 2, Some 5), (utext_of ''mid'', 2, Some 5),
      (utext_of ''senior'', 5, Some 10), (utext_of ''lead'', 8, None), (utext_of ''principal'', 10, None)]"

definition EDUCATION_LEVEL_RANKS :: "(utext \<times> nat) list" where
  "EDUCATION_LEVEL_RANKS =
     [([1583, 1740, 1662, 1604, 1605], 1), (utext_of ''diploma'', 1),
      ([1705, 1575, 1585, 1583, 1575, 1606, 1740], 2), (utext_of ''associate'', 2),
      ([1705, 1575, 1585, 1588, 1606, 1575, 1587, 1740], 3), (utext_of ''bachelor'', 3), (utext_of ''b.sc'', 3),
      ([1705, 1575, 1585, 1588, 1606, 1575, 1587, 1740, 32, 1575, 1585, 1588, 1583], 4),
      (utext_of ''master'', 4), (utext_of ''m.sc'', 4), (utext_of ''mba'', 4),
      ([1583, 1705, 1578, 1585, 1740], 5), (utext_of ''phd'', 5), (utext_of ''ph.d'', 5)]"

definition STOPWORDS :: "utext list" where
  "STOPWORDS = [[1608], [1583, 1585], [1576, 1585, 1575, 1740], [1576, 1575]]
     @ map utext_of [''the'', ''a'', ''an'', ''of'', ''and'', ''for'', ''to'']"

definition calculate_skill_match_score :: "unicode \<Rightarrow> utext list \<Rightarrow> utext list \<Rightarrow> rat \<times> utext list" where
  "calculate_skill_match_score U required_skills candidate_skills =
     (if required_skills = [] then (SKILL_MATCH_WEIGHT, [])
      else
        (let normalized_candidate_skills = set (map (uc_lower U) candidate_skills);
             matched_skills = filter (\<lambda>required_skill.
               uc_lower U required_skill \<in> normalized_candidate_skills
               \<or> uc_lower U (get_core_skill U required_skill) \<in> normalized_candidate_skills) required_skills;
             match_ratio = of_nat (length matched_skills) / of_nat (length required_skills)
         in (match_ratio * SKILL_MATCH_WEIGHT, matched_skills)))"

definition extract_significant_words :: "unicode \<Rightarrow> utext \<Rightarrow> utext list" where
  "extract_significant_words U text =
     remdups (filter (\<lambda>word. word \<notin> set STOPWORDS \<and> 1 < length word)
       (class_runs (\<lambda>c. uc_word U c \<or> (1536 \<le> c \<and> c \<le> 1791)) (uc_lower U text)))"

definition title_overlap :: "unicode \<Rightarrow> utext list \<Rightarrow> utext option \<Rightarrow> rat option" where
  "title_overlap U job_title_words candidate_title =
     (case candidate_title of
        None \<Rightarrow> None
      | Some title \<Rightarrow>
          (if title = [] then None
           else (let ws = extract_significant_words U title
                 in if ws = [] then None
                    else Some (of_nat (length (filter (\<lambda>w. w \<in> set ws) job_title_words))
                           / of_nat (length job_title_words)))))"

definition calculate_title_match_score :: "unicode \<Rightarrow> utext \<Rightarrow> utext option list \<Rightarrow> rat" where
  "calculate_title_match_score U job_title candidate_job_titles =
     (if candidate_job_titles = [] then 0
      else
        (let job_title_words = extract_significant_words U job_title
         in if job_title_words = [] then TITLE_MATCH_WEIGHT
            else fold (\<lambda>candidate_title best_overlap_ratio.
                   case title_overlap U job_title_words candidate_title of
                     None \<Rightarrow> best_overlap_ratio
                   | Some overlap_ratio \<Rightarrow> max best_overlap_ratio overlap_ratio) candidate_job_titles 0
                 * TITLE_MATCH_WEIGHT))"

definition calculate_seniority_match_score :: "unicode \<Rightarrow> utext option \<Rightarrow> rat \<Rightarrow> rat" where
  "calculate_seniority_match_score U required_seniority total_experience_years =
     (case required_seniority of
        None \<Rightarrow> SENIORITY_MATCH_WEIGHT
      | Some level \<Rightarrow>
          (if level = [] then SENIORITY_MATCH_WEIGHT
           else case map_of SENIORITY_YEAR_RANGES (uc_lower U (ustrip U level)) of
             None \<Rightarrow> SENIORITY_MATCH_WEIGHT
           | Some (min_years, _) \<Rightarrow>
               (if min_years \<le> 0 \<or> total_experience_years \<ge> min_years then SENIORITY_MATCH_WEIGHT
                else max 0 (total_experience_years / min_years) * SENIORITY_MATCH_WEIGHT)))"

record education_entry =
  ed_degree :: "utext option"
  ed_university :: "utext option"
  ed_gpa :: "rat option"

definition degree_rank :: "unicode \<Rightarrow> education_entry \<Rightarrow> nat" where
  "degree_rank U entry =
     (let degree = uc_lower U (ustrip U (case ed_degree entry of None \<Rightarrow> [] | Some x \<Rightarrow> x))
      in case map_of EDUCATION_LEVEL_RANKS degree of None \<Rightarrow> 0 | Some r \<Rightarrow> r)"

definition highest_education_rank :: "unicode \<Rightarrow> education_entry list \<Rightarrow> nat" where
  "highest_education_rank U education_entries =
     fold (\<lambda>entry best_rank. max best_rank (degree_rank U entry)) education_entries 0"

definition calculate_education_match_score :: "unicode \<Rightarrow> utext option \<Rightarrow> education_entry list \<Rightarrow> rat" where
  "calculate_education_match_score U required_education education_entries =
     (case required_education of
        None \<Rightarrow> EDUCATION_MATCH_WEIGHT
      | Some level \<Rightarrow>
          (if level = [] then EDUCATION_MATCH_WEIGHT
           else case map_of EDUCATION_LEVEL_RANKS (uc_lower U (ustrip U level)) of
             None \<Rightarrow> EDUCATION_MATCH_WEIGHT
           | Some required_rank \<Rightarrow>
               (let candidate_rank = highest_education_rank U education_entries
                in if candidate_rank = 0 then 0
                   else if candidate_rank \<ge> required_rank then EDUCATION_MATCH_WEIGHT
                   else of_nat candidate_rank / of_nat required_rank * EDUCATION_MATCH_WEIGHT)))"

definition calculate_location_match_score :: "unicode \<Rightarrow> utext option \<Rightarrow> utext option \<Rightarrow> rat" where
  "calculate_location_match_score U job_location candidate_location =
     (case (job_location, candidate_location) of
        (Some jl, Some cl) \<Rightarrow>
          (if jl = [] \<or> cl = [] then LOCATION_MATCH_WEIGHT
           else
             (let nj = uc_lower U (ustrip U jl); nc = uc_lower U (ustrip U cl)
              in if nj = nc then LOCATION_MATCH_WEIGHT
                 else if has_substring nj nc \<or> has_substring nc nj then LOCATION_MATCH_WEIGHT * (7 / 10)
                 else 0))
      | _ \<Rightarrow> LOCATION_MATCH_WEIGHT)"

definition calculate_secondary_keywords_score :: "unicode \<Rightarrow> utext option \<Rightarrow> utext list \<Rightarrow> rat" where
  "calculate_secondary_keywords_score U job_description candidate_skills =
     (case job_description of
        None \<Rightarrow> SECONDARY_KEYWORDS_WEIGHT
      | Some description \<Rightarrow>
          (let description_skills = match_skills U description
           in if description_skills = [] then SECONDARY_KEYWORDS_WEIGHT
              else
                (let normalized_candidate_skills = set (map (uc_lower U) candidate_skills);
                     matched = filter (\<lambda>skill. uc_lower U skill \<in> normalized_candidate_skills) description_skills
                 in of_nat (length matched) / of_nat (length description_skills) * SECONDARY_KEYWORDS_WEIGHT)))"

record matching_request =
  mr_job_skills_required :: "utext list"
  mr_job_title :: utext
  mr_job_required_seniority :: "utext option"
  mr_job_required_education :: "utext option"
  mr_job_location :: "utext option"
  mr_job_description :: "utext option"
  mr_candidate_skills :: "utext list"
  mr_candidate_job_titles :: "utext option list"
  mr_candidate_total_experience_years :: rat
  mr_candidate_education_entries :: "education_entry list"
  mr_candidate_location :: "utext option"

record matching_result =
  ms_final_score :: rat
  ms_skill_match :: rat
  ms_title_match :: rat
  ms_seniority_match :: rat
  ms_education_match :: rat
  ms_location_match :: rat
  ms_secondary_keywords_match :: rat
  ms_matched_required_skills :: "utext list"

definition total_score :: "unicode \<Rightarrow> matching_request \<Rightarrow> rat" where
  "total_score U m =
     fst (calculate_skill_match_score U (mr_job_skills_required m) (mr_candidate_skills m))
     + calculate_title_match_score U (mr_job_title m) (mr_candidate_job_titles m)
     + calculate_seniority_match_score U (mr_job_required_seniority m) (mr_candidate_total_experience_years m)
     + calculate_education_match_score U (mr_job_required_education m) (mr_candidate_education_entries m)
     + calculate_location_match_score U (mr_job_location m) (mr_candidate_location m)
     + calculate_secondary_keywords_score U (mr_job_description m) (mr_candidate_skills m)"

definition calculate_matching_score :: "unicode \<Rightarrow> matching_request \<Rightarrow> matching_result" where
  "calculate_matching_score U m =
     (let (skill_score, matched_skills) =
            calculate_skill_match_score U (mr_job_skills_required m) (mr_candidate_skills m);
          title_score = calculate_title_match_score U (mr_job_title m) (mr_candidate_job_titles m);
          seniority_score = calculate_seniority_match_score U (mr_job_required_seniority m)
            (mr_candidate_total_experience_years m);
          education_score = calculate_education_match_score U (mr_job_required_education m)
            (mr_candidate_education_entries m);
          location_score = calculate_location_match_score U (mr_job_location m) (mr_candidate_location m);
          secondary_score = calculate_secondary_keywords_score U (mr_job_description m) (mr_candidate_skills m);
          total = skill_score + title_score + seniority_score + education_score + location_score + secondary_score
      in \<lparr>ms_final_score = max 0 (min 100 (round2 total)),
          ms_skill_match = round2 skill_score, ms_title_match = round2 title_score,
          ms_seniority_match = round2 seniority_score, ms_education_match = round2 education_score,
          ms_location_match = round2 location_score, ms_secondary_keywords_match = round2 secondary_score,
          ms_matched_required_skills = matched_skills\<rparr>)"

section \<open>Library lemmas\<close>

lemma ratio_range:
  assumes "a \<le> b"
  shows "0 \<le> (of_nat a / of_nat b :: rat)" and "(of_nat a / of_nat b :: rat) \<le> 1"
  using assms by (cases "b = 0"; simp add: field_simps)+

lemma scaled_range:
  assumes "0 \<le> (w :: rat)" and "a \<le> b"
  shows "0 \<le> of_nat a / of_nat b * w \<and> of_nat a / of_nat b * w \<le> w"
  using ratio_range [OF assms(2)] mult_right_mono [of "of_nat a / of_nat b" 1 w] assms(1) by simp

lemma skill_range:
  "0 \<le> fst (calculate_skill_match_score U r c) \<and> fst (calculate_skill_match_score U r c) \<le> SKILL_MATCH_WEIGHT"
proof (cases "r = []")
  case True
  then show ?thesis by (simp add: calculate_skill_match_score_def weight_defs)
next
  case False
  have "0 \<le> SKILL_MATCH_WEIGHT" by (simp add: weight_defs)
  from scaled_range [OF this length_filter_le] False show ?thesis
    by (simp add: calculate_skill_match_score_def Let_def)
qed

lemma title_fold_range:
  assumes "0 \<le> b" and "b \<le> (1::rat)"
  shows "0 \<le> fold (\<lambda>t best. case title_overlap U ws t of None \<Rightarrow> best | Some o' \<Rightarrow> max best o') ts b
    \<and> fold (\<lambda>t best. case title_overlap U ws t of None \<Rightarrow> best | Some o' \<Rightarrow> max best o') ts b \<le> 1"
  using assms
proof (induction ts arbitrary: b)
  case Nil
  then show ?case by simp
next
  case (Cons t ts)
  have "o' \<le> 1" if "title_overlap U ws t = Some o'" for o'
    using that ratio_range(2) [OF length_filter_le]
    by (auto simp: title_overlap_def Let_def split: option.splits if_splits)
  then have "0 \<le> (case title_overlap U ws t of None \<Rightarrow> b | Some o' \<Rightarrow> max b o')
      \<and> (case title_overlap U ws t of None \<Rightarrow> b | Some o' \<Rightarrow> max b o') \<le> 1"
    using Cons.prems by (auto split: option.splits simp: le_max_iff_disj)
  with Cons.IH show ?case by simp
qed

lemma title_range:
  "0 \<le> calculate_title_match_score U j ts \<and> calculate_title_match_score U j ts \<le> TITLE_MATCH_WEIGHT"
  using title_fold_range [of 0 U "extract_significant_words U j" ts]
  by (auto simp: calculate_title_match_score_def Let_def weight_defs)

lemma seniority_range:
  "0 \<le> calculate_seniority_match_score U r y \<and> calculate_seniority_match_score U r y \<le> SENIORITY_MATCH_WEIGHT"
  by (auto simp: calculate_seniority_match_score_def weight_defs max_def field_simps split: option.splits)

lemma education_range:
  "0 \<le> calculate_education_match_score U r e \<and> calculate_education_match_score U r e \<le> EDUCATION_MATCH_WEIGHT"
  using scaled_range [of EDUCATION_MATCH_WEIGHT]
  by (auto simp: calculate_education_match_score_def Let_def weight_defs split: option.splits)

lemma location_range:
  "0 \<le> calculate_location_match_score U j c \<and> calculate_location_match_score U j c \<le> LOCATION_MATCH_WEIGHT"
  by (auto simp: calculate_location_match_score_def Let_def weight_defs split: option.splits)

lemma secondary_range:
  "0 \<le> calculate_secondary_keywords_score U d c \<and> calculate_secondary_keywords_score U d c \<le> SECONDARY_KEYWORDS_WEIGHT"
  using scaled_range [of SECONDARY_KEYWORDS_WEIGHT, OF _ length_filter_le]
  by (auto simp: calculate_secondary_keywords_score_def Let_def weight_defs split: option.splits)

lemmas component_ranges = skill_range title_range seniority_range education_range location_range secondary_range

lemma total_range: "0 \<le> total_score U m \<and> total_score U m \<le> 100"
  using skill_range [of U "mr_job_skills_required m" "mr_candidate_skills m"]
    title_range [of U "mr_job_title m" "mr_candidate_job_titles m"]
    seniority_range [of U "mr_job_required_seniority m" "mr_candidate_total_experience_years m"]
    education_range [of U "mr_job_required_education m" "mr_candidate_education_entries m"]
    location_range [of U "mr_job_location m" "mr_candidate_location m"]
    secondary_range [of U "mr_job_description m" "mr_candidate_skills m"]
  by (simp add: total_score_def weight_defs)

lemma final_score_total: "ms_final_score (calculate_matching_score U m) = round2 (total_score U m)"
  using round2_range [of "total_score U m"] total_range [of U m]
  by (simp add: calculate_matching_score_def total_score_def Let_def case_prod_beta)

text \<open>More skills and more years never lower a component.\<close>

lemma length_filter_mono: "(\<And>x. x \<in> set xs \<Longrightarrow> p x \<Longrightarrow> q x) \<Longrightarrow> length (filter p xs) \<le> length (filter q xs)"
  by (induction xs) (auto simp: le_SucI)

lemma ratio_mono: "a \<le> a' \<Longrightarrow> 0 \<le> (w::rat) \<Longrightarrow> of_nat a / of_nat b * w \<le> of_nat a' / of_nat b * w"
  by (intro mult_right_mono divide_right_mono) simp_all

lemma skill_mono:
  assumes "set c \<subseteq> set c'"
  shows "fst (calculate_skill_match_score U r c) \<le> fst (calculate_skill_match_score U r c')"
proof -
  have "length (filter (\<lambda>x. uc_lower U x \<in> set (map (uc_lower U) c)
        \<or> uc_lower U (get_core_skill U x) \<in> set (map (uc_lower U) c)) r)
      \<le> length (filter (\<lambda>x. uc_lower U x \<in> set (map (uc_lower U) c')
        \<or> uc_lower U (get_core_skill U x) \<in> set (map (uc_lower U) c')) r)"
    using assms by (intro length_filter_mono) auto
  from ratio_mono [OF this, of SKILL_MATCH_WEIGHT] show ?thesis
    by (simp add: calculate_skill_match_score_def Let_def weight_defs)
qed

lemma secondary_mono:
  assumes "set c \<subseteq> set c'"
  shows "calculate_secondary_keywords_score U d c \<le> calculate_secondary_keywords_score U d c'"
proof (cases d)
  case None
  then show ?thesis by (simp add: calculate_secondary_keywords_score_def)
next
  case (Some x)
  have "length (filter (\<lambda>s. uc_lower U s \<in> set (map (uc_lower U) c)) (match_skills U x))
      \<le> length (filter (\<lambda>s. uc_lower U s \<in> set (map (uc_lower U) c')) (match_skills U x))"
    using assms by (intro length_filter_mono) auto
  from ratio_mono [OF this, of SECONDARY_KEYWORDS_WEIGHT] show ?thesis
    by (simp add: Some calculate_secondary_keywords_score_def Let_def weight_defs)
qed

lemma seniority_mono:
  assumes "y \<le> y'"
  shows "calculate_seniority_match_score U r y \<le> calculate_seniority_match_score U r y'"
proof -
  have "max 0 (y / m) * SENIORITY_MATCH_WEIGHT \<le> SENIORITY_MATCH_WEIGHT" if "y < m" "0 < m" for m
    using that by (auto simp: weight_defs max_def field_simps)
  moreover have "max 0 (y / m) * SENIORITY_MATCH_WEIGHT \<le> max 0 (y' / m) * SENIORITY_MATCH_WEIGHT" if "0 < m" for m
    using that assms by (intro mult_right_mono max.mono) (auto simp: weight_defs divide_right_mono)
  ultimately show ?thesis
    using assms by (auto simp: calculate_seniority_match_score_def not_le split: option.splits)
qed

text \<open>Rows of the lookup table.\<close>

lemma set_dict_set: "(k', v') \<in> set (dict_set l k v) \<Longrightarrow> (k', v') = (k, v) \<or> (k', v') \<in> set l"
  by (induction l) (auto split: if_splits)

lemma dict_set_new: "k \<notin> set (map fst l) \<Longrightarrow> dict_set l k v = l @ [(k, v)]"
  by (induction l) auto

lemma map_of_dict_set: "map_of (dict_set l k v) = (map_of l)(k \<mapsto> v)"
  by (induction l) auto

lemma keys_dict_set: "fst ` set (dict_set l k v) = insert k (fst ` set l)"
proof (induction l)
  case (Cons x l)
  then show ?case by (cases x) auto
qed simp

lemma distinct_dict_set: "distinct (map fst l) \<Longrightarrow> distinct (map fst (dict_set l k v))"
proof (induction l)
  case (Cons x l)
  then show ?case by (cases x) (auto simp: keys_dict_set)
qed simp

lemma fold_dict_set_new:
  assumes "distinct (map f xs)" and "set (map f xs) \<inter> set (map fst l) = {}"
  shows "fold (\<lambda>x l. dict_set l (f x) (g x)) xs l = l @ map (\<lambda>x. (f x, g x)) xs"
  using assms
proof (induction xs arbitrary: l)
  case (Cons x xs)
  then have "dict_set l (f x) (g x) = l @ [(f x, g x)]" by (intro dict_set_new) auto
  moreover have "fold (\<lambda>x l. dict_set l (f x) (g x)) xs (l @ [(f x, g x)])
      = (l @ [(f x, g x)]) @ map (\<lambda>x. (f x, g x)) xs"
    using Cons.prems by (intro Cons.IH) auto
  ultimately show ?case by simp
qed simp

definition graph_rows :: "(string \<times> string list) list \<Rightarrow> (utext \<times> utext \<times> utext) list" where
  "graph_rows onto = concat (map (\<lambda>(c, ss).
     (lower_name c, utext_of c, utext_of c) # map (\<lambda>x. (lower_name x, utext_of x, utext_of c)) ss) onto)"

lemma fold_ontology:
  assumes "distinct (map fst l @ map fst (graph_rows onto))"
  shows "fold (\<lambda>(c, ss) lookup.
         fold (\<lambda>x l. dict_set l (lower_name x) (utext_of x, utext_of c)) ss
           (dict_set lookup (lower_name c) (utext_of c, utext_of c))) onto l = l @ graph_rows onto"
  using assms
proof (induction onto arbitrary: l)
  case Nil
  then show ?case by (simp add: graph_rows_def)
next
  case (Cons p onto)
  obtain c ss where p: "p = (c, ss)" by (cases p)
  let ?l' = "l @ [(lower_name c, utext_of c, utext_of c)]"
  let ?row = "\<lambda>x. (lower_name x, utext_of x, utext_of c)"
  have rows: "graph_rows (p # onto) = (lower_name c, utext_of c, utext_of c) # map ?row ss @ graph_rows onto"
    by (simp add: graph_rows_def p)
  have 1: "dict_set l (lower_name c) (utext_of c, utext_of c) = ?l'"
    using Cons.prems by (intro dict_set_new) (auto simp: rows)
  have 2: "fold (\<lambda>x l. dict_set l (lower_name x) (utext_of x, utext_of c)) ss ?l' = ?l' @ map ?row ss"
    using Cons.prems by (intro fold_dict_set_new) (auto simp: rows comp_def)
  have "fold (\<lambda>(c, ss) lookup.
         fold (\<lambda>x l. dict_set l (lower_name x) (utext_of x, utext_of c)) ss
           (dict_set lookup (lower_name c) (utext_of c, utext_of c))) onto (?l' @ map ?row ss)
      = (?l' @ map ?row ss) @ graph_rows onto"
    using Cons.prems by (intro Cons.IH) (auto simp: rows comp_def)
  then show ?case by (simp add: p 1 2 rows [unfolded p])
qed

definition graph_names :: "string list" where
  "graph_names = concat (map (\<lambda>(c, ss). c # ss) SKILL_ONTOLOGY)"

lemma graph_keys: "map fst (graph_rows SKILL_ONTOLOGY) = map lower_name graph_names"
  by (simp add: graph_rows_def graph_names_def map_concat comp_def case_prod_beta)

lemma distinct_names: "distinct (map lower_name graph_names)"
  by (simp add: graph_names_def SKILL_ONTOLOGY_def lower_name_def utext_of_def cp_ascii_lower_def)

lemma lookup_rows: "build_lookup_table = graph_rows SKILL_ONTOLOGY"
  unfolding build_lookup_table_def
  using fold_ontology [of "[]" SKILL_ONTOLOGY] distinct_names by (simp add: graph_keys)

text \<open>The Unicode tables of the interpreter agree with ASCII on ASCII.\<close>

definition unicode_ascii :: "unicode \<Rightarrow> bool" where
  "unicode_ascii U \<longleftrightarrow> (\<forall>s. list_all (\<lambda>c. c < 128) s \<longrightarrow> uc_lower U s = map cp_ascii_lower s)
     \<and> (\<forall>c < 128. uc_space U c = uc_space ascii_tables c)"

lemma ascii_tables_ascii: "unicode_ascii ascii_tables"
  by (simp add: unicode_ascii_def ascii_tables_def)

definition proper_name :: "string \<Rightarrow> bool" where
  "proper_name n \<longleftrightarrow> n \<noteq> [] \<and> list_all (\<lambda>c. (of_char c :: nat) < 128) n
     \<and> \<not> uc_space ascii_tables (of_char (hd n)) \<and> \<not> uc_space ascii_tables (of_char (last n))"

lemma names_proper: "list_all proper_name graph_names"
  by (simp add: graph_names_def SKILL_ONTOLOGY_def proper_name_def ascii_tables_def)

lemma strip_by_ends: "s \<noteq> [] \<Longrightarrow> \<not> p (hd s) \<Longrightarrow> \<not> p (last s) \<Longrightarrow> strip_by p s = s"
  by (metis dropWhile_eq_self_iff hd_rev rev_rev_ident strip_by_def)

lemma lower_of_name:
  assumes "unicode_ascii U" and "proper_name n"
  shows "uc_lower U (ustrip U (utext_of n)) = lower_name n"
proof -
  have n: "n \<noteq> []" "list_all (\<lambda>c. (of_char c :: nat) < 128) n" using assms(2) by (auto simp: proper_name_def)
  have small: "(of_char (hd n) :: nat) < 128" "(of_char (last n) :: nat) < 128"
    using n by (auto simp: list_all_iff)
  have "ustrip U (utext_of n) = utext_of n"
    unfolding ustrip_def using assms small n(1)
    by (intro strip_by_ends) (auto simp: utext_of_def proper_name_def unicode_ascii_def hd_map last_map)
  moreover have "list_all (\<lambda>c. c < 128) (utext_of n)" using n(2) by (simp add: utext_of_def list_all_iff)
  ultimately show ?thesis using assms(1) by (simp add: unicode_ascii_def lower_name_def)
qed

lemma graph_row_names:
  assumes "(k, disp, core) \<in> set build_lookup_table"
  shows "\<exists>n c. n \<in> set graph_names \<and> c \<in> set graph_names \<and> k = lower_name n \<and> disp = utext_of n \<and> core = utext_of c
    \<and> (lower_name c, utext_of c, utext_of c) \<in> set build_lookup_table"
proof -
  obtain c ss where cs: "(c, ss) \<in> set SKILL_ONTOLOGY"
    and row: "(k, disp, core) = (lower_name c, utext_of c, utext_of c)
      \<or> (\<exists>n \<in> set ss. (k, disp, core) = (lower_name n, utext_of n, utext_of c))"
    using assms unfolding lookup_rows graph_rows_def by auto
  have "set (c # ss) \<subseteq> set graph_names" using cs unfolding graph_names_def by force
  moreover have "(lower_name c, utext_of c, utext_of c) \<in> set build_lookup_table"
    using cs unfolding lookup_rows graph_rows_def by force
  ultimately show ?thesis using row by auto
qed

lemma core_of_row:
  assumes "unicode_ascii U" and "(lower_name n, disp, core) \<in> set build_lookup_table" and "n \<in> set graph_names"
  shows "get_core_skill U (utext_of n) = core"
proof -
  have pn: "proper_name n" using names_proper assms(3) by (simp add: list_all_iff)
  have "distinct (map fst build_lookup_table)" by (simp add: lookup_rows graph_keys distinct_names)
  then have "map_of build_lookup_table (lower_name n) = Some (disp, core)"
    using assms(2) by simp
  then show ?thesis
    using lower_of_name [OF assms(1) pn] pn by (simp add: get_core_skill_def proper_name_def utext_of_def)
qed

section \<open>Properties\<close>

text \<open>
  The score stays within the weights: each of the six components lies between zero and
  its weight, so the sum lies between 0 and 100, the final clamping never changes
  anything, and the score is within half a hundredth of the exact sum.
\<close>

theorem matching_score_range:
  "0 \<le> total_score U m \<and> total_score U m \<le> 100
   \<and> ms_final_score (calculate_matching_score U m) = round2 (total_score U m)
   \<and> 0 \<le> ms_final_score (calculate_matching_score U m) \<and> ms_final_score (calculate_matching_score U m) \<le> 100
   \<and> \<bar>ms_final_score (calculate_matching_score U m) - total_score U m\<bar> \<le> 1 / 200"
  using total_range [of U m] round2_range [of "total_score U m"] round2_error [of "total_score U m"]
  by (simp add: final_score_total)

text \<open>
  The score is monotone: a candidate who has at least the skills and at least the years
  of another, all else equal, never scores lower.
\<close>

theorem matching_score_monotone:
  assumes "m' = m\<lparr>mr_candidate_skills := skills, mr_candidate_total_experience_years := y\<rparr>"
    and "set (mr_candidate_skills m) \<subseteq> set skills" and "mr_candidate_total_experience_years m \<le> y"
  shows "ms_final_score (calculate_matching_score U m) \<le> ms_final_score (calculate_matching_score U m')"
proof -
  have "total_score U m \<le> total_score U m'"
    unfolding total_score_def assms(1)
    using skill_mono [OF assms(2)] secondary_mono [OF assms(2)] seniority_mono [OF assms(3)]
    by (simp add: add_mono)
  then show ?thesis by (simp add: final_score_total round2_mono)
qed

theorem matching_score_monotone_witness:
  "let m = \<lparr>mr_job_skills_required = [utext_of ''Photoshop''], mr_job_title = [], mr_job_required_seniority = None,
       mr_job_required_education = None, mr_job_location = None, mr_job_description = None,
       mr_candidate_skills = [], mr_candidate_job_titles = [], mr_candidate_total_experience_years = 2,
       mr_candidate_education_entries = [], mr_candidate_location = None\<rparr>;
       m' = m\<lparr>mr_candidate_skills := [utext_of ''photoshop''], mr_candidate_total_experience_years := 3\<rparr>
   in set (mr_candidate_skills m) \<subseteq> set [utext_of ''photoshop''] \<and> mr_candidate_total_experience_years m \<le> 3
     \<and> ms_final_score (calculate_matching_score ascii_tables m) \<le> ms_final_score (calculate_matching_score ascii_tables m')"
  unfolding Let_def
  by (intro conjI matching_score_monotone [OF refl]) simp_all

text \<open>
  The detected skills are closed under the graph: with every skill found in a text the
  core skill it belongs to is in the result as well, and the result is sorted and
  without repetition.
\<close>

theorem match_skills_closed:
  assumes "unicode_ascii U" and "x \<in> set (match_skills U text)"
  shows "get_core_skill U x \<in> set (match_skills U text) \<and> sorted (match_skills U text) \<and> distinct (match_skills U text)"
proof -
  obtain k disp core where row: "(k, disp, core) \<in> set build_lookup_table"
      "keyword_search k False (uc_lower U text)" "x = disp \<or> x = core" "text \<noteq> []"
    using assms(2) by (auto simp: match_skills_def detected_by_def split: if_splits)
  from graph_row_names [OF row(1)] obtain n c where nc: "n \<in> set graph_names" "c \<in> set graph_names"
      "k = lower_name n" "disp = utext_of n" "core = utext_of c"
      "(lower_name c, utext_of c, utext_of c) \<in> set build_lookup_table" by blast
  have "get_core_skill U disp = core" using core_of_row [OF assms(1) _ nc(1)] row(1) nc(3,4) by simp
  moreover have "get_core_skill U core = core" using core_of_row [OF assms(1) nc(6,2)] nc(5) by simp
  moreover have "core \<in> set (match_skills U text)"
    using row by (force simp: match_skills_def detected_by_def)
  ultimately show ?thesis using row(3) by (auto simp: match_skills_def)
qed

theorem match_skills_closed_witness:
  "unicode_ascii ascii_tables \<and> utext_of ''FastAPI'' \<in> set (match_skills ascii_tables (utext_of ''FastAPI''))
   \<and> get_core_skill ascii_tables (utext_of ''FastAPI'') \<in> set (match_skills ascii_tables (utext_of ''FastAPI''))"
proof -
  have "(lower_name ''FastAPI'', utext_of ''FastAPI'', utext_of ''Python'') \<in> set build_lookup_table"
    by (simp add: lookup_rows graph_rows_def SKILL_ONTOLOGY_def)
  moreover have "keyword_search (lower_name ''FastAPI'') False (uc_lower ascii_tables (utext_of ''FastAPI''))"
    by (simp add: lower_name_def utext_of_def ascii_tables_def keyword_here_def cp_ascii_lower_def)
  ultimately have m: "utext_of ''FastAPI'' \<in> set (match_skills ascii_tables (utext_of ''FastAPI''))"
    by (force simp: match_skills_def detected_by_def utext_of_def)
  from match_skills_closed [OF ascii_tables_ascii m] ascii_tables_ascii m show ?thesis by blast
qed

end
