(* ===== verification/Interviews.thy ===== *)
theory Interviews
  imports Hiring_Invariant Cursor_Pagination
begin

text \<open>
  Interviews (app/routers/interviews.py with app/schemas/interviews.py) and their reminders
  (app/core/interview_scheduler.py). The reminder queue of rq-scheduler is a second piece of state beside the
  database: it is not part of the transaction, so a request that fails may have changed
  it. What each call of the scheduler does is part of the request: an
  enqueue draws an identifier or raises, a cancel works or raises.
\<close>

section \<open>Reminders\<close>

record reminder =
  rm_time :: time
  rm_recipient_email :: utext
  rm_recipient_name :: utext
  rm_candidate_name :: utext
  rm_interviewer_name :: utext
  rm_scheduled_at :: time
  rm_meeting_link :: utext

type_synonym reminders = "(string \<times> reminder) list"

definition REMINDER_LEAD_TIME :: time where "REMINDER_LEAD_TIME = 24 * 3600 * 1000000"

text \<open>The loop over the recipients: it stops at the first call that raises.\<close>

fun enqueue_all :: "string option list \<Rightarrow> reminder list \<Rightarrow> reminders \<Rightarrow> string list option \<times> reminders" where
  "enqueue_all outcomes [] q = (Some [], q)"
| "enqueue_all (Some job_id # outcomes) (r # rs) q =
     (case enqueue_all outcomes rs (q @ [(job_id, r)]) of
        (None, q') \<Rightarrow> (None, q')
      | (Some ids, q') \<Rightarrow> (Some (job_id # ids), q'))"
| "enqueue_all _ (r # rs) q = (None, q)"

definition schedule_interview_reminder ::
  "time \<Rightarrow> string option list \<Rightarrow> time \<Rightarrow> utext \<Rightarrow> utext \<Rightarrow> utext \<Rightarrow> utext \<Rightarrow> utext \<Rightarrow> reminders \<Rightarrow>
   string list \<times> reminders" where
  "schedule_interview_reminder now outcomes scheduled_at candidate_email candidate_name interviewer_email
       interviewer_name meeting_link q =
     (let reminder_time = scheduled_at - REMINDER_LEAD_TIME;
          effective_time = (if reminder_time > now then reminder_time else now);
          recipients = [(candidate_email, candidate_name), (interviewer_email, interviewer_name)];
          jobs' = map (\<lambda>(email, name). \<lparr>rm_time = effective_time, rm_recipient_email = email, rm_recipient_name = name,
            rm_candidate_name = candidate_name, rm_interviewer_name = interviewer_name,
            rm_scheduled_at = scheduled_at, rm_meeting_link = meeting_link\<rparr>) recipients
      in case enqueue_all outcomes jobs' q of
           (None, q') \<Rightarrow> ([], q')
         | (Some job_ids, q') \<Rightarrow> (job_ids, q'))"

text \<open>Cancelling stops at the first call that raises; the exception is only logged.\<close>

fun cancel_all :: "(string \<Rightarrow> bool) \<Rightarrow> string list \<Rightarrow> reminders \<Rightarrow> reminders" where
  "cancel_all works [] q = q"
| "cancel_all works (i # is) q = (if works i then cancel_all works is (filter (\<lambda>(k, _). k \<noteq> i) q) else q)"

definition cancel_interview_reminder :: "(string \<Rightarrow> bool) \<Rightarrow> string list option \<Rightarrow> reminders \<Rightarrow> reminders" where
  "cancel_interview_reminder works job_ids q =
     (case job_ids of None \<Rightarrow> q | Some is \<Rightarrow> cancel_all works is q)"

section \<open>Requests\<close>

definition ALLOWED_EVALUATION_CRITERIA :: "string list" where
  "ALLOWED_EVALUATION_CRITERIA = [''technical_skill'', ''problem_solving'', ''communication'', ''culture_fit'']"

definition MIN_SCORE :: int where "MIN_SCORE = 1"
definition MAX_SCORE :: int where "MAX_SCORE = 10"

definition validation_error :: exc where
  "validation_error = HTTPException 422 Validation_Error"

text \<open>A time without a zone is read as UTC, so a request's time is a moment.\<close>

record interview_create_request =
  ic_application_id :: uuid
  ic_interviewer_id :: uuid
  ic_scheduled_at :: time
  ic_meeting_link :: utext

definition InterviewCreateRequest :: "unicode \<Rightarrow> interview_create_request \<Rightarrow> exc + interview_create_request" where
  "InterviewCreateRequest U raw =
     (let link = strip_html_tags U (ic_meeting_link raw)
      in if 1 \<le> length link \<and> length link \<le> 500 then Inr (raw\<lparr>ic_meeting_link := link\<rparr>) else Inl validation_error)"

text \<open>A field that is not sent is \<open>None\<close>; a field sent as null is \<open>Some None\<close>.\<close>

record interview_update_request =
  iu_interviewer_id :: "uuid option option"
  iu_scheduled_at :: "time option option"
  iu_meeting_link :: "utext option option"

definition InterviewUpdateRequest :: "unicode \<Rightarrow> interview_update_request \<Rightarrow> exc + interview_update_request" where
  "InterviewUpdateRequest U raw =
     (let link = map_option (map_option (strip_html_tags U)) (iu_meeting_link raw)
      in case link of
           Some (Some l) \<Rightarrow> if 1 \<le> length l \<and> length l \<le> 500 then Inr (raw\<lparr>iu_meeting_link := link\<rparr>)
             else Inl validation_error
         | _ \<Rightarrow> Inr (raw\<lparr>iu_meeting_link := link\<rparr>))"

record interview_evaluation_request =
  ie_evaluation_scores :: "(string \<times> int) list"
  ie_feedback_text :: utext

definition validate_scores :: "(string \<times> int) list \<Rightarrow> bool" where
  "validate_scores value \<longleftrightarrow> value \<noteq> []
     \<and> list_all (\<lambda>(criterion, _). criterion \<in> set ALLOWED_EVALUATION_CRITERIA) value
     \<and> list_all (\<lambda>(_, score). MIN_SCORE \<le> score \<and> score \<le> MAX_SCORE) value"

definition InterviewEvaluationRequest ::
  "unicode \<Rightarrow> interview_evaluation_request \<Rightarrow> exc + interview_evaluation_request" where
  "InterviewEvaluationRequest U raw =
     (let text = strip_html_tags U (ie_feedback_text raw)
      in if validate_scores (ie_evaluation_scores raw) \<and> 1 \<le> length text \<and> length text \<le> 4000
         then Inr (raw\<lparr>ie_feedback_text := text\<rparr>) else Inl validation_error)"

section \<open>Shared queries\<close>

definition INTERVIEW_MANAGER_ROLES :: "string list" where
  "INTERVIEW_MANAGER_ROLES = [''Admin'', ''HR_Manager'']"

definition VALID_INTERVIEWER_ROLES :: "string list" where
  "VALID_INTERVIEWER_ROLES = [''Interviewer'', ''HR_Manager'']"

definition INTERVIEW_VIEWER_ROLES :: "string list" where
  "INTERVIEW_VIEWER_ROLES = INTERVIEW_MANAGER_ROLES @ [''Interviewer'']"

text \<open>The comparison with a null identifier selects nothing, since no user has a null key.\<close>

definition get_valid_interviewer :: "TenantContext \<Rightarrow> db \<Rightarrow> uuid option \<Rightarrow> exc + user" where
  "get_valid_interviewer ctx d interviewer_id =
     (case scalar_one_or_none (filter (\<lambda>u. Some (u_id u) = interviewer_id \<and> u_tenant_id u = ctx_tenant_id ctx) (users d)) of
        Inl e \<Rightarrow> Inl e
      | Inr None \<Rightarrow> Inl (HTTPException 404 Invalid_Interviewer)
      | Inr (Some user) \<Rightarrow>
          if u_role user \<notin> set VALID_INTERVIEWER_ROLES then Inl (HTTPException 422 Invalid_Interviewer) else Inr user)"

definition get_candidate_contact :: "unicode \<Rightarrow> TenantContext \<Rightarrow> db \<Rightarrow> application \<Rightarrow> exc + utext \<times> utext" where
  "get_candidate_contact U ctx d application =
     (case scalar_one_or_none (filter (\<lambda>c. c_id c = a_candidate_id application) (select_candidates ctx d)) of
        Inl e \<Rightarrow> Inl e
      | Inr None \<Rightarrow> Inl (HTTPException 404 Candidate_Not_Found)
      | Inr (Some candidate) \<Rightarrow>
          (case scalar_one_or_none (filter (\<lambda>u. u_id u = c_user_id candidate) (users d)) of
             Inl e \<Rightarrow> Inl e
           | Inr None \<Rightarrow> Inl (HTTPException 404 Candidate_Not_Found)
           | Inr (Some user) \<Rightarrow>
               (let name = ustrip U (c_first_name candidate @ [32] @ c_last_name candidate)
                in Inr (u_email user, if name = [] then u_email user else name))))"

record interview_response =
  ir_interview :: interview
  ir_interviewer_name :: utext
  ir_candidate_name :: utext
  ir_job_title :: utext

definition build_interview_response :: "unicode \<Rightarrow> TenantContext \<Rightarrow> db \<Rightarrow> interview \<Rightarrow> exc + interview_response" where
  "build_interview_response U ctx d interview =
     (case scalar_one_or_none (filter (\<lambda>u. u_id u = i_interviewer_id interview) (users d)) of
        Inl e \<Rightarrow> Inl e
      | Inr interviewer \<Rightarrow>
          (let rows = [(j, c). a \<leftarrow> select_applications ctx d, a_id a = i_application_id interview,
                         j \<leftarrow> select_jobs ctx d, j_id j = a_job_id a,
                         c \<leftarrow> select_candidates ctx d, c_id c = a_candidate_id a]
           in Inr \<lparr>ir_interview = interview,
                ir_interviewer_name = (case interviewer of None \<Rightarrow> [] | Some u \<Rightarrow> u_email u),
                ir_candidate_name = (case rows of [] \<Rightarrow> []
                  | (j, c) # _ \<Rightarrow> ustrip U (c_first_name c @ [32] @ c_last_name c)),
                ir_job_title = (case rows of [] \<Rightarrow> [] | (j, c) # _ \<Rightarrow> j_title j)\<rparr>))"

definition find_interview :: "TenantContext \<Rightarrow> db \<Rightarrow> uuid \<Rightarrow> exc + interview" where
  "find_interview ctx d interview_id =
     (case scalar_one_or_none (filter (\<lambda>i. i_id i = interview_id) (select_interviews ctx d)) of
        Inl e \<Rightarrow> Inl e
      | Inr None \<Rightarrow> Inl (HTTPException 404 Interview_Not_Found)
      | Inr (Some interview) \<Rightarrow> Inr interview)"

definition find_application :: "TenantContext \<Rightarrow> db \<Rightarrow> uuid \<Rightarrow> exc + application" where
  "find_application ctx d application_id =
     (case scalar_one_or_none (filter (\<lambda>a. a_id a = application_id) (select_applications ctx d)) of
        Inl e \<Rightarrow> Inl e
      | Inr None \<Rightarrow> Inl (HTTPException 404 Application_Not_Found)
      | Inr (Some application) \<Rightarrow> Inr application)"

section \<open>Handlers\<close>

definition create_interview ::
  "unicode \<Rightarrow> TenantContext \<Rightarrow> user \<Rightarrow> time \<Rightarrow> uuid \<Rightarrow> string option list \<Rightarrow> interview_create_request \<Rightarrow>
   db \<times> reminders \<Rightarrow> (exc + interview_response) \<times> db \<times> reminders" where
  "create_interview U ctx current_user now new_id outcomes payload w =
     (let (d, q) = w; s = context_parameters ctx in
      case require_roles INTERVIEW_MANAGER_ROLES current_user of
        Inl e \<Rightarrow> (Inl e, d, q)
      | Inr _ \<Rightarrow>
     (case find_application ctx d (ic_application_id payload) of
        Inl e \<Rightarrow> (Inl e, d, q)
      | Inr application \<Rightarrow>
     (case get_valid_interviewer ctx d (Some (ic_interviewer_id payload)) of
        Inl e \<Rightarrow> (Inl e, d, q)
      | Inr interviewer \<Rightarrow>
     (case stamped ctx None of
        Inl e \<Rightarrow> (Inl e, d, q)
      | Inr t \<Rightarrow>
     (let interview = \<lparr>i_id = new_id, i_tenant_id = t, i_application_id = ic_application_id payload,
            i_interviewer_id = ic_interviewer_id payload, i_scheduled_at = Some (ic_scheduled_at payload),
            i_meeting_link = Some (ic_meeting_link payload), i_reminder_job_ids = None, i_status = ''Pending'',
            i_evaluation_scores = None, i_overall_score = None, i_feedback_text = None, i_evaluated_at = None\<rparr>
      in case rls_insert s (interviews_policies s) i_id interview (interviews d) of
           Inl e \<Rightarrow> (Inl e, d, q)
         | Inr flushed \<Rightarrow>
     (case get_candidate_contact U ctx d application of
        Inl e \<Rightarrow> (Inl e, d, q)
      | Inr (candidate_email, candidate_name) \<Rightarrow>
          (let (job_ids, q') = schedule_interview_reminder now outcomes (ic_scheduled_at payload)
                 candidate_email candidate_name (u_email interviewer) (u_email interviewer) (ic_meeting_link payload) q;
               stored = interview\<lparr>i_reminder_job_ids := (if job_ids = [] then None else Some job_ids)\<rparr>;
               d' = d\<lparr>interviews := interviews d @ [stored]\<rparr>
           in (build_interview_response U ctx d' stored, d', q'))))))))"

definition get_interview :: "unicode \<Rightarrow> TenantContext \<Rightarrow> user \<Rightarrow> uuid \<Rightarrow> db \<Rightarrow> exc + interview_response" where
  "get_interview U ctx current_user interview_id d =
     (case find_interview ctx d interview_id of
        Inl e \<Rightarrow> Inl e
      | Inr interview \<Rightarrow>
          (let is_manager = (u_role current_user \<in> set INTERVIEW_MANAGER_ROLES);
               is_assigned_interviewer = (u_id current_user = i_interviewer_id interview)
           in if \<not> (is_manager \<or> is_assigned_interviewer) then Inl (HTTPException 403 Not_Your_Interview)
              else build_interview_response U ctx d interview))"

definition list_interviews ::
  "unicode \<Rightarrow> 'tok codec \<Rightarrow> TenantContext \<Rightarrow> user \<Rightarrow> uuid option \<Rightarrow> int option \<Rightarrow> string option \<Rightarrow>
   'tok CursorParams \<Rightarrow> db \<Rightarrow> exc + (interview_response, 'tok) CursorPage" where
  "list_interviews U C ctx current_user application_id day evaluation_status page d =
     (if u_role current_user \<notin> set INTERVIEW_VIEWER_ROLES then Inl (HTTPException 403 Forbidden_Role)
      else
        (let day_us = 24 * 3600 * 1000000;
             query = filter (\<lambda>i.
               (case application_id of None \<Rightarrow> True | Some a \<Rightarrow> i_application_id i = a)
               \<and> (case day of None \<Rightarrow> True
                    | Some n \<Rightarrow> (case i_scheduled_at i of None \<Rightarrow> False
                        | Some t \<Rightarrow> n * day_us \<le> t \<and> t < n * day_us + day_us))
               \<and> (case evaluation_status of None \<Rightarrow> True | Some s \<Rightarrow> i_status i = s)
               \<and> (u_role current_user = ''Interviewer'' \<longrightarrow> i_interviewer_id i = u_id current_user))
               (select_interviews ctx d)
         in case paginate_by_cursor U C timestamp_column
                   (\<lambda>i. (case i_scheduled_at i of None \<Rightarrow> Null | Some t \<Rightarrow> NotNull t, i_id i)) False page query of
              Inl e \<Rightarrow> Inl e
            | Inr p \<Rightarrow>
                (case collect (map (build_interview_response U ctx d) (pg_items p)) of
                   Inl e \<Rightarrow> Inl e
                 | Inr items \<Rightarrow> Inr \<lparr>pg_items = items, pg_next_cursor = pg_next_cursor p,
                     pg_previous_cursor = pg_previous_cursor p, pg_has_next = pg_has_next p,
                     pg_has_previous = pg_has_previous p\<rparr>)))"

text \<open>The fields of the request are set on the row in any order.\<close>

definition apply_update :: "interview_update_request \<Rightarrow> interview \<Rightarrow> interview" where
  "apply_update payload i =
     (let i1 = (case iu_interviewer_id payload of Some (Some u) \<Rightarrow> i\<lparr>i_interviewer_id := u\<rparr> | _ \<Rightarrow> i);
          i2 = (case iu_scheduled_at payload of Some t \<Rightarrow> i1\<lparr>i_scheduled_at := t\<rparr> | None \<Rightarrow> i1)
      in case iu_meeting_link payload of Some l \<Rightarrow> i2\<lparr>i_meeting_link := l\<rparr> | None \<Rightarrow> i2)"

definition store_interview :: "TenantContext \<Rightarrow> interview \<Rightarrow> db \<Rightarrow> exc + db" where
  "store_interview ctx interview d =
     (let s = context_parameters ctx in
      case rls_update s (interviews_policies s) i_id (i_id interview) (\<lambda>_. interview) (interviews d) of
        Inl e \<Rightarrow> Inl e
      | Inr rows \<Rightarrow> Inr (d\<lparr>interviews := rows\<rparr>))"

definition commit_interview ::
  "unicode \<Rightarrow> TenantContext \<Rightarrow> interview \<Rightarrow> db \<Rightarrow> reminders \<Rightarrow> (exc + interview_response) \<times> db \<times> reminders" where
  "commit_interview U ctx interview d q =
     (case store_interview ctx interview d of
        Inl e \<Rightarrow> (Inl e, d, q)
      | Inr d' \<Rightarrow> (build_interview_response U ctx d' interview, d', q))"

definition update_interview ::
  "unicode \<Rightarrow> TenantContext \<Rightarrow> user \<Rightarrow> time \<Rightarrow> string option list \<Rightarrow> (string \<Rightarrow> bool) \<Rightarrow> uuid \<Rightarrow>
   interview_update_request \<Rightarrow> db \<times> reminders \<Rightarrow> (exc + interview_response) \<times> db \<times> reminders" where
  "update_interview U ctx current_user now outcomes cancel_works interview_id payload w =
     (let (d, q) = w in
      case require_roles INTERVIEW_MANAGER_ROLES current_user of
        Inl e \<Rightarrow> (Inl e, d, q)
      | Inr _ \<Rightarrow>
     (case find_interview ctx d interview_id of
        Inl e \<Rightarrow> (Inl e, d, q)
      | Inr interview0 \<Rightarrow>
     (case (case iu_interviewer_id payload of
              None \<Rightarrow> Inr None
            | Some u \<Rightarrow> map_sum id Some (get_valid_interviewer ctx d u)) of
        Inl e \<Rightarrow> (Inl e, d, q)
      | Inr new_interviewer \<Rightarrow>
     (let interview = apply_update payload interview0;
          needs_reschedule = (iu_scheduled_at payload \<noteq> None \<or> iu_interviewer_id payload \<noteq> None)
      in if \<not> needs_reschedule then commit_interview U ctx interview d q
         else
           (let q1 = cancel_interview_reminder cancel_works (i_reminder_job_ids interview) q in
            case find_application ctx d (i_application_id interview) of
              Inl e \<Rightarrow> (Inl e, d, q1)
            | Inr application \<Rightarrow>
           (case get_candidate_contact U ctx d application of
              Inl e \<Rightarrow> (Inl e, d, q1)
            | Inr (candidate_email, candidate_name) \<Rightarrow>
           (case (case new_interviewer of
                    Some u \<Rightarrow> Inr (Some u)
                  | None \<Rightarrow> scalar_one_or_none (filter (\<lambda>u. u_id u = i_interviewer_id interview) (users d))) of
              Inl e \<Rightarrow> (Inl e, d, q1)
            | Inr interviewer \<Rightarrow>
           (case i_scheduled_at interview of
              None \<Rightarrow> (Inl TypeError, d, q1)
            | Some scheduled_at \<Rightarrow>
                (let email = (case interviewer of None \<Rightarrow> [] | Some u \<Rightarrow> u_email u);
                     link = (case i_meeting_link interview of None \<Rightarrow> [] | Some l \<Rightarrow> l);
                     (job_ids, q2) = schedule_interview_reminder now outcomes scheduled_at
                       candidate_email candidate_name email email link q1;
                     stored = interview\<lparr>i_reminder_job_ids := (if job_ids = [] then None else Some job_ids)\<rparr>
                 in commit_interview U ctx stored d q2)))))))))"

definition submit_interview_evaluation ::
  "unicode \<Rightarrow> TenantContext \<Rightarrow> user \<Rightarrow> time \<Rightarrow> uuid \<Rightarrow> interview_evaluation_request \<Rightarrow> db \<Rightarrow>
   (exc + interview_response) \<times> db" where
  "submit_interview_evaluation U ctx current_user now interview_id payload d =
     (case find_interview ctx d interview_id of
        Inl e \<Rightarrow> (Inl e, d)
      | Inr interview \<Rightarrow>
          (let is_manager = (u_role current_user \<in> set INTERVIEW_MANAGER_ROLES);
               is_assigned_interviewer = (u_id current_user = i_interviewer_id interview)
           in if \<not> (is_manager \<or> is_assigned_interviewer) then (Inl (HTTPException 403 Not_Your_Interview), d)
              else
                (let scores = map snd (ie_evaluation_scores payload);
                     overall_score = of_int (sum_list scores) / of_nat (length scores);
                     stored = interview\<lparr>i_evaluation_scores := Some (ie_evaluation_scores payload),
                       i_overall_score := Some (round2 overall_score),
                       i_feedback_text := Some (ie_feedback_text payload),
                       i_status := ''Completed'', i_evaluated_at := Some now\<rparr>
                 in case store_interview ctx stored d of
                      Inl e \<Rightarrow> (Inl e, d)
                    | Inr d' \<Rightarrow> (build_interview_response U ctx d' stored, d'))))"

definition delete_interview ::
  "TenantContext \<Rightarrow> user \<Rightarrow> (string \<Rightarrow> bool) \<Rightarrow> uuid \<Rightarrow> db \<times> reminders \<Rightarrow> (exc + unit) \<times> db \<times> reminders" where
  "delete_interview ctx current_user cancel_works interview_id w =
     (let (d, q) = w; s = context_parameters ctx in
      case require_roles INTERVIEW_MANAGER_ROLES current_user of
        Inl e \<Rightarrow> (Inl e, d, q)
      | Inr _ \<Rightarrow>
     (case find_interview ctx d interview_id of
        Inl e \<Rightarrow> (Inl e, d, q)
      | Inr interview \<Rightarrow>
          (let q' = cancel_interview_reminder cancel_works (i_reminder_job_ids interview) q;
               gone = (\<lambda>i. i_id i = interview_id \<and> rls_visible s (interviews_policies s) R_DELETE i)
           in (Inr (), d\<lparr>interviews := filter (\<lambda>i. \<not> gone i) (interviews d)\<rparr>, q'))))"

section \<open>Library lemmas\<close>

lemma scalar_key_Some:
  assumes "keyed key rows"
  shows "scalar_one_or_none (filter (\<lambda>r. key r = k \<and> p r) rows) = Inr (Some r) \<longleftrightarrow> r \<in> set rows \<and> key r = k \<and> p r"
proof
  assume "scalar_one_or_none (filter (\<lambda>r. key r = k \<and> p r) rows) = Inr (Some r)"
  then show "r \<in> set rows \<and> key r = k \<and> p r" using scalar_filter_Some by fast
next
  assume r: "r \<in> set rows \<and> key r = k \<and> p r"
  then have "find (\<lambda>x. key x = k) rows = Some r" using keyed_find [OF assms] by blast
  with r show "scalar_one_or_none (filter (\<lambda>r. key r = k \<and> p r) rows) = Inr (Some r)"
    by (simp add: keyed_filter_key [OF assms])
qed

lemma find_interview_tenant:
  assumes "t < 2 ^ 128" and "keyed i_id (interviews d)"
  shows "find_interview (tenant_context t x) d i = Inr iv \<longleftrightarrow>
    iv \<in> set (interviews d) \<and> i_id iv = i \<and> i_tenant_id iv = t"
proof -
  have "filter (\<lambda>r. i_id r = i) (select_interviews (tenant_context t x) d)
      = filter (\<lambda>r. i_id r = i \<and> i_tenant_id r = t) (interviews d)"
    using assms(1) by (simp add: select_interviews_tenant conj_commute)
  then show ?thesis
    using scalar_key_Some [OF assms(2), of i "\<lambda>r. i_tenant_id r = t" iv]
    by (auto simp: find_interview_def split: sum.splits option.splits)
qed

lemma store_interview_tenant:
  assumes "t < 2 ^ 128" and "keyed i_id (interviews d)" and "iv \<in> set (interviews d)" and "i_tenant_id iv = t"
    and "i_id stored = i_id iv" and "i_tenant_id stored = t"
  shows "store_interview (tenant_context t x) stored d =
    Inr (d\<lparr>interviews := update_where (\<lambda>i. i_id i = i_id iv) (\<lambda>_. stored) (interviews d)\<rparr>)"
proof -
  let ?s = "context_parameters (tenant_context t x)"
  have vis: "rls_visible ?s (interviews_policies ?s) R_UPDATE i \<longleftrightarrow> i_tenant_id i = t" for i
    using assms(1) by (simp add: interviews_tt.visible_iff)
  have chk: "rls_check ?s (interviews_policies ?s) R_UPDATE stored"
    using assms(1,6) by (simp add: interviews_tt.check_iff)
  have same: "(i_id i = i_id iv \<and> i_tenant_id i = t) \<longleftrightarrow> i_id i = i_id iv" if "i \<in> set (interviews d)" for i
    using keyed_unique [OF assms(2) that assms(3)] assms(4) by blast
  have "update_where (\<lambda>i. i_id i = i_id iv \<and> i_tenant_id i = t) (\<lambda>_. stored) (interviews d)
      = update_where (\<lambda>i. i_id i = i_id iv) (\<lambda>_. stored) (interviews d)"
    using same by (auto simp: update_where_def)
  moreover have "list_ex (\<lambda>i. i_id i = i_id iv \<and> i_tenant_id i = t) (interviews d)"
    using assms(3,4) by (auto simp: list_ex_iff)
  ultimately show ?thesis
    using chk by (simp add: store_interview_def rls_update_def Let_def vis assms(5) list_all_iff)
qed

lemma sum_list_bounds:
  assumes "\<forall>x \<in> set xs. a \<le> x \<and> x \<le> (b::int)"
  shows "a * int (length xs) \<le> sum_list xs \<and> sum_list xs \<le> b * int (length xs)"
  using assms by (induction xs) (auto simp: algebra_simps)

lemma mean_range:
  assumes "xs \<noteq> []" and "\<forall>x \<in> set xs. a \<le> x \<and> x \<le> (b::int)"
  shows "of_int a \<le> (of_int (sum_list xs) / of_nat (length xs) :: rat)"
    and "(of_int (sum_list xs) / of_nat (length xs) :: rat) \<le> of_int b"
proof -
  have "of_int (a * int (length xs)) \<le> (of_int (sum_list xs) :: rat)"
      "(of_int (sum_list xs) :: rat) \<le> of_int (b * int (length xs))"
    using sum_list_bounds [OF assms(2)] by (auto simp only: of_int_le_iff)
  moreover have "0 < (of_nat (length xs) :: rat)" using assms(1) by simp
  ultimately show "of_int a \<le> (of_int (sum_list xs) / of_nat (length xs) :: rat)"
      "(of_int (sum_list xs) / of_nat (length xs) :: rat) \<le> of_int b"
    by (simp_all add: pos_le_divide_eq pos_divide_le_eq)
qed

text \<open>A small database with one interview, for evaluation.\<close>

definition demo_interview :: interview where
  "demo_interview = \<lparr>i_id = 40, i_tenant_id = 5, i_application_id = 11, i_interviewer_id = 8, i_scheduled_at = Some 500,
     i_meeting_link = Some (utext_of ''m''), i_reminder_job_ids = Some [''a'', ''b''], i_status = ''Pending'',
     i_evaluation_scores = None, i_overall_score = None, i_feedback_text = None, i_evaluated_at = None\<rparr>"

definition demo_staffed_db :: db where
  "demo_staffed_db = demo_db\<lparr>users := [demo_user 7 ''Candidate'' None, demo_user 8 ''Interviewer'' (Some 5)]\<rparr>"

definition demo_interview_db :: db where
  "demo_interview_db = demo_staffed_db\<lparr>interviews := [demo_interview]\<rparr>"

definition demo_reminder :: reminder where
  "demo_reminder = \<lparr>rm_time = 100, rm_recipient_email = [], rm_recipient_name = [], rm_candidate_name = [],
     rm_interviewer_name = [], rm_scheduled_at = 500, rm_meeting_link = []\<rparr>"

lemma demo_interview_facts:
  "keyed i_id (interviews demo_interview_db)" "keyed u_id (users demo_interview_db)"
  "demo_interview \<in> set (interviews demo_interview_db)" "i_tenant_id demo_interview = 5" "i_id demo_interview = 40"
  "i_reminder_job_ids demo_interview = Some [''a'', ''b'']"
  by (simp_all add: demo_interview_db_def demo_staffed_db_def demo_user_def keyed_def demo_interview_def)

lemma demo_application_found:
  assumes "applications d = [demo_application]"
  shows "find_application (tenant_context 5 x) d 11 = Inr demo_application"
  using select_applications_tenant [of 5 x d] assms by (simp add: find_application_def demo_application_def)

lemma demo_contact:
  assumes "applications d = [demo_application]" and "candidates d = candidates demo_db"
    and "users d = [demo_user 7 ''Candidate'' None, demo_user 8 ''Interviewer'' (Some 5)]"
  shows "get_candidate_contact ascii_tables (tenant_context 5 x) d demo_application
    = Inr (utext_of ''ann@x.io'', utext_of ''ann'')"
proof -
  let ?s = "context_parameters (tenant_context 5 x)"
  have "rls_applications ?s d = [demo_application]"
    using assms(1) by (simp add: rls_applications_def applications_tt.visible_iff demo_application_def)
  then have "rls_visible ?s (candidates_policies ?s d) R_SELECT (hd (candidates demo_db))"
    by (simp add: rls_visible_def candidates_policies_def tenant_match_def settings_tenant demo_db_def demo_application_def)
  then have "select_candidates (tenant_context 5 x) d = candidates demo_db"
    by (simp add: select_candidates_def assms(2) demo_db_def)
  then show ?thesis
    by (simp add: get_candidate_contact_def demo_db_def demo_application_def assms(3) demo_user_def ustrip_def strip_by_def
        utext_of_def ascii_tables_def)
qed

lemma build_response_ok:
  assumes "keyed u_id (users d)"
  shows "\<exists>r. build_interview_response U ctx d iv = Inr r"
proof -
  obtain o' where "scalar_one_or_none (filter (\<lambda>u. u_id u = i_interviewer_id iv) (users d)) = Inr o'"
    using keyed_scalar_one_or_none [OF assms, of "i_interviewer_id iv" "\<lambda>_. True"]
    by (cases "scalar_one_or_none (filter (\<lambda>u. u_id u = i_interviewer_id iv) (users d))") auto
  then show ?thesis by (simp add: build_interview_response_def Let_def)
qed

section \<open>Properties\<close>

text \<open>What a successful creation did.\<close>

lemma create_interview_effect:
  assumes "t < 2 ^ 128" and "create_interview U (tenant_context t x) u now iid outcomes payload (d, q) = (Inr r, d', q')"
  shows "\<exists>v a em nm ids stored. u_role u \<in> {''Admin'', ''HR_Manager''}
    \<and> v \<in> set (users d) \<and> u_id v = ic_interviewer_id payload \<and> u_tenant_id v = Some t
    \<and> u_role v \<in> {''Interviewer'', ''HR_Manager''}
    \<and> a \<in> set (applications d) \<and> a_id a = ic_application_id payload \<and> a_tenant_id a = t
    \<and> get_candidate_contact U (tenant_context t x) d a = Inr (em, nm)
    \<and> schedule_interview_reminder now outcomes (ic_scheduled_at payload) em nm (u_email v) (u_email v)
         (ic_meeting_link payload) q = (ids, q')
    \<and> i_id stored = iid \<and> i_tenant_id stored = t \<and> i_reminder_job_ids stored = (if ids = [] then None else Some ids)
    \<and> i_status stored = ''Pending''
    \<and> iid \<notin> i_id ` set (interviews d) \<and> d' = d\<lparr>interviews := interviews d @ [stored]\<rparr>"
proof -
  let ?ctx = "tenant_context t x"
  from assms(2) obtain a v em nm where steps:
      "u_role u \<in> {''Admin'', ''HR_Manager''}"
      "find_application ?ctx d (ic_application_id payload) = Inr a"
      "get_valid_interviewer ?ctx d (Some (ic_interviewer_id payload)) = Inr v"
      "get_candidate_contact U ?ctx d a = Inr (em, nm)"
    by (auto simp: create_interview_def Let_def require_roles_def INTERVIEW_MANAGER_ROLES_def
        split: sum.splits if_splits prod.splits)
  obtain ids q2 where sch: "schedule_interview_reminder now outcomes (ic_scheduled_at payload) em nm (u_email v) (u_email v)
         (ic_meeting_link payload) q = (ids, q2)" by (metis surj_pair)
  have rest: "q2 = q'" "iid \<notin> i_id ` set (interviews d)"
      "d' = d\<lparr>interviews := interviews d @ [\<lparr>i_id = iid, i_tenant_id = t, i_application_id = ic_application_id payload,
            i_interviewer_id = ic_interviewer_id payload, i_scheduled_at = Some (ic_scheduled_at payload),
            i_meeting_link = Some (ic_meeting_link payload),
            i_reminder_job_ids = (if ids = [] then None else Some ids), i_status = ''Pending'',
            i_evaluation_scores = None, i_overall_score = None, i_feedback_text = None, i_evaluated_at = None\<rparr>]\<rparr>"
    using assms(2) steps sch
    by (auto simp: create_interview_def Let_def require_roles_def INTERVIEW_MANAGER_ROLES_def stamped_def
        rls_insert_def insert_row_def split: sum.splits if_splits)
  have v: "v \<in> set (users d)" "u_id v = ic_interviewer_id payload" "u_tenant_id v = Some t"
      "u_role v \<in> {''Interviewer'', ''HR_Manager''}"
    using steps(3) by (auto simp: get_valid_interviewer_def VALID_INTERVIEWER_ROLES_def
        split: sum.splits option.splits if_splits dest!: scalar_filter_Some)
  have a: "a \<in> set (applications d)" "a_id a = ic_application_id payload" "a_tenant_id a = t"
    using steps(2) assms(1) by (auto simp: find_application_def select_applications_tenant
        split: sum.splits option.splits dest!: scalar_filter_Some)
  let ?st = "\<lparr>i_id = iid, i_tenant_id = t, i_application_id = ic_application_id payload,
            i_interviewer_id = ic_interviewer_id payload, i_scheduled_at = Some (ic_scheduled_at payload),
            i_meeting_link = Some (ic_meeting_link payload),
            i_reminder_job_ids = (if ids = [] then None else Some ids), i_status = ''Pending'',
            i_evaluation_scores = None, i_overall_score = None, i_feedback_text = None, i_evaluated_at = None\<rparr>"
  show ?thesis
    by (rule exI [of _ v], rule exI [of _ a], rule exI [of _ em], rule exI [of _ nm], rule exI [of _ ids],
        rule exI [of _ ?st], intro conjI) (rule steps v a rest sch [unfolded rest(1)] | simp)+
qed

lemma cancel_all_works: "(\<And>i. works i) \<Longrightarrow> cancel_all works js q = filter (\<lambda>(k, _). k \<notin> set js) q"
  by (induction js arbitrary: q) (auto intro: filter_cong)

definition demo_request :: interview_create_request where
  "demo_request = \<lparr>ic_application_id = 11, ic_interviewer_id = 8, ic_scheduled_at = 500, ic_meeting_link = utext_of ''m''\<rparr>"

lemma demo_created:
  "\<exists>r d' q'. create_interview ascii_tables (tenant_context 5 9) (demo_user 9 ''Admin'' (Some 5)) 100 40
     [Some ''a'', Some ''b''] demo_request (demo_staffed_db, []) = (Inr r, d', q')"
proof -
  let ?d = demo_staffed_db and ?ctx = "tenant_context 5 9"
  have a: "find_application ?ctx ?d (ic_application_id demo_request) = Inr demo_application"
    using demo_application_found [of ?d 9] by (simp add: demo_staffed_db_def demo_db_def demo_request_def)
  have c: "get_candidate_contact ascii_tables ?ctx ?d demo_application = Inr (utext_of ''ann@x.io'', utext_of ''ann'')"
    by (rule demo_contact) (simp_all add: demo_staffed_db_def demo_db_def)
  have v: "get_valid_interviewer ?ctx ?d (Some (ic_interviewer_id demo_request)) = Inr (demo_user 8 ''Interviewer'' (Some 5))"
    by (simp add: get_valid_interviewer_def demo_staffed_db_def demo_user_def demo_request_def VALID_INTERVIEWER_ROLES_def)
  have role: "require_roles INTERVIEW_MANAGER_ROLES (demo_user 9 ''Admin'' (Some 5)) = Inr (demo_user 9 ''Admin'' (Some 5))"
    by (simp add: require_roles_def INTERVIEW_MANAGER_ROLES_def demo_user_def)
  have st: "stamped ?ctx None = Inr 5" by (simp add: stamped_def)
  have ins: "rls_insert (context_parameters ?ctx) (interviews_policies (context_parameters ?ctx)) i_id iv (interviews ?d)
      = Inr [iv]" if "i_tenant_id iv = 5" for iv
    using that by (simp add: rls_insert_def interviews_tt.check_iff insert_row_def demo_staffed_db_def demo_db_def)
  have k: "keyed u_id (users (?d\<lparr>interviews := xs\<rparr>))" for xs
    by (simp add: demo_staffed_db_def demo_user_def keyed_def)
  show ?thesis
    unfolding create_interview_def a c v role st sum.case prod.case Let_def
    using build_response_ok [OF k] by (simp add: ins case_prod_beta)
qed

text \<open>
  An evaluation: when a validated evaluation is accepted, the interview belongs to
  the tenant and the caller manages interviews or is its interviewer; exactly this
  row changes, to Completed, and its overall score is the mean of the marks, rounded to
  hundredths, and lies between 1 and 10.
\<close>

theorem evaluation_spec:
  assumes "t < 2 ^ 128" and "keyed i_id (interviews d)" and "InterviewEvaluationRequest U raw = Inr payload"
    and "submit_interview_evaluation U (tenant_context t x) u now iid payload d = (Inr r, d')"
  shows "\<exists>iv s. iv \<in> set (interviews d) \<and> i_id iv = iid \<and> i_tenant_id iv = t
    \<and> (u_role u \<in> {''Admin'', ''HR_Manager''} \<or> u_id u = i_interviewer_id iv)
    \<and> d' = d\<lparr>interviews := update_where (\<lambda>i. i_id i = iid)
         (\<lambda>_. iv\<lparr>i_evaluation_scores := Some (ie_evaluation_scores raw), i_overall_score := Some s,
            i_feedback_text := Some (strip_html_tags U (ie_feedback_text raw)), i_status := ''Completed'',
            i_evaluated_at := Some now\<rparr>) (interviews d)\<rparr>
    \<and> 1 \<le> s \<and> s \<le> 10
    \<and> \<bar>s - of_int (sum_list (map snd (ie_evaluation_scores raw))) / of_nat (length (ie_evaluation_scores raw))\<bar> \<le> 1 / 200"
proof -
  have val: "validate_scores (ie_evaluation_scores raw)"
    and pay: "payload = raw\<lparr>ie_feedback_text := strip_html_tags U (ie_feedback_text raw)\<rparr>"
    using assms(3) by (auto simp: InterviewEvaluationRequest_def Let_def split: if_splits)
  let ?xs = "map snd (ie_evaluation_scores raw)"
  let ?mean = "of_int (sum_list ?xs) / of_nat (length ?xs) :: rat"
  have marks: "?xs \<noteq> []" "\<forall>x \<in> set ?xs. 1 \<le> x \<and> x \<le> 10"
    using val by (auto simp: validate_scores_def list_all_iff MIN_SCORE_def MAX_SCORE_def)
  have "1 \<le> ?mean" "?mean \<le> 10" using mean_range [OF marks] by simp_all
  then have range: "1 \<le> round2 ?mean" "round2 ?mean \<le> 10"
    using round2_mono [of 1 ?mean] round2_mono [of ?mean 10] round2_of_int [of 1] round2_of_int [of 10] by simp_all
  obtain iv where iv: "find_interview (tenant_context t x) d iid = Inr iv"
    and auth: "u_role u \<in> {''Admin'', ''HR_Manager''} \<or> u_id u = i_interviewer_id iv"
    using assms(4) by (auto simp: submit_interview_evaluation_def INTERVIEW_MANAGER_ROLES_def Let_def
        split: sum.splits if_splits)
  have iv': "iv \<in> set (interviews d)" "i_id iv = iid" "i_tenant_id iv = t"
    using iv find_interview_tenant [OF assms(1,2)] by auto
  let ?st = "iv\<lparr>i_evaluation_scores := Some (ie_evaluation_scores raw), i_overall_score := Some (round2 ?mean),
      i_feedback_text := Some (strip_html_tags U (ie_feedback_text raw)), i_status := ''Completed'',
      i_evaluated_at := Some now\<rparr>"
  have "store_interview (tenant_context t x) ?st d =
      Inr (d\<lparr>interviews := update_where (\<lambda>i. i_id i = i_id iv) (\<lambda>_. ?st) (interviews d)\<rparr>)"
    by (rule store_interview_tenant [OF assms(1,2) iv'(1,3)]) (simp_all add: iv')
  then have "d' = d\<lparr>interviews := update_where (\<lambda>i. i_id i = iid) (\<lambda>_. ?st) (interviews d)\<rparr>"
    using assms(4) iv auth iv'(2)
    by (auto simp: submit_interview_evaluation_def INTERVIEW_MANAGER_ROLES_def Let_def pay)
  with iv' auth range round2_error [of ?mean] show ?thesis by (intro exI [of _ iv] exI [of _ "round2 ?mean"]) simp
qed

theorem evaluation_spec_witness:
  "\<exists>r d'. InterviewEvaluationRequest ascii_tables
        \<lparr>ie_evaluation_scores = [(''communication'', 7), (''culture_fit'', 8)], ie_feedback_text = utext_of ''ok''\<rparr>
      = Inr \<lparr>ie_evaluation_scores = [(''communication'', 7), (''culture_fit'', 8)], ie_feedback_text = utext_of ''ok''\<rparr>
    \<and> submit_interview_evaluation ascii_tables (tenant_context 5 8) (demo_user 8 ''Interviewer'' (Some 5)) 900 40
        \<lparr>ie_evaluation_scores = [(''communication'', 7), (''culture_fit'', 8)], ie_feedback_text = utext_of ''ok''\<rparr>
        demo_interview_db = (Inr r, d')
    \<and> (\<exists>s. i_overall_score (hd (interviews d')) = Some s \<and> 1 \<le> s \<and> s \<le> 10)"
proof -
  let ?p = "\<lparr>ie_evaluation_scores = [(''communication'', 7), (''culture_fit'', 8)], ie_feedback_text = utext_of ''ok''\<rparr>"
  let ?u = "demo_user 8 ''Interviewer'' (Some 5)"
  have "strip_html_tags ascii_tables (utext_of ''ok'') = utext_of ''ok''"
    by (simp add: strip_html_tags_def utext_of_def ascii_tables_def remove_tags.simps ustrip_def strip_by_def)
  then have v: "InterviewEvaluationRequest ascii_tables ?p = Inr ?p"
    by (simp add: InterviewEvaluationRequest_def validate_scores_def ALLOWED_EVALUATION_CRITERIA_def MIN_SCORE_def
        MAX_SCORE_def utext_of_def)
  have f: "find_interview (tenant_context 5 8) demo_interview_db 40 = Inr demo_interview"
    using find_interview_tenant [OF _ demo_interview_facts(1), of 5 8 40 demo_interview] demo_interview_facts by simp
  have auth: "u_id ?u = i_interviewer_id demo_interview" by (simp add: demo_user_def demo_interview_def)
  define st where "st = demo_interview\<lparr>i_evaluation_scores := Some (ie_evaluation_scores ?p),
    i_overall_score := Some (round2 (of_int (sum_list (map snd (ie_evaluation_scores ?p)))
      / of_nat (length (map snd (ie_evaluation_scores ?p))))),
    i_feedback_text := Some (ie_feedback_text ?p), i_status := ''Completed'', i_evaluated_at := Some 900\<rparr>"
  let ?d' = "demo_interview_db\<lparr>interviews := [st]\<rparr>"
  have "store_interview (tenant_context 5 8) st demo_interview_db = Inr ?d'"
    using store_interview_tenant [OF _ demo_interview_facts(1,3,4), of st 8] demo_interview_facts
    by (simp add: demo_interview_db_def update_where_def st_def)
  then have "submit_interview_evaluation ascii_tables (tenant_context 5 8) ?u 900 40 ?p demo_interview_db
      = (build_interview_response ascii_tables (tenant_context 5 8) ?d' st, ?d')"
    unfolding submit_interview_evaluation_def f sum.case Let_def st_def [symmetric] using auth by simp
  moreover obtain r where "build_interview_response ascii_tables (tenant_context 5 8) ?d' st = Inr r"
    using build_response_ok [of ?d' ascii_tables "tenant_context 5 8" st] demo_interview_facts(2) by auto
  ultimately obtain d' where run: "submit_interview_evaluation ascii_tables (tenant_context 5 8) ?u 900 40 ?p demo_interview_db
      = (Inr r, d')" by simp
  from evaluation_spec [OF _ demo_interview_facts(1) v run] obtain iv s where
      "i_id iv = 40" "1 \<le> s" "s \<le> 10" "iv \<in> set (interviews demo_interview_db)"
      "d' = demo_interview_db\<lparr>interviews := update_where (\<lambda>i. i_id i = 40)
         (\<lambda>_. iv\<lparr>i_evaluation_scores := Some (ie_evaluation_scores ?p), i_overall_score := Some s,
            i_feedback_text := Some (strip_html_tags ascii_tables (ie_feedback_text ?p)), i_status := ''Completed'',
            i_evaluated_at := Some 900\<rparr>) (interviews demo_interview_db)\<rparr>"
    by auto
  then have "i_overall_score (hd (interviews d')) = Some s" "1 \<le> s" "s \<le> 10"
    by (simp_all add: demo_interview_db_def update_where_def demo_interview_def)
  with v run show ?thesis by (intro exI conjI)
qed

text \<open>
  Clearing the time of an interview loses its reminders: a manager's request that sends
  null for the time of an existing interview ends with an internal error and leaves the
  database as it was, but the reminders recorded in the row have already been cancelled.
\<close>

theorem clearing_the_time_loses_reminders:
  assumes "t < 2 ^ 128" and "keyed i_id (interviews d)" and "u_role u \<in> {''Admin'', ''HR_Manager''}"
    and "iv \<in> set (interviews d)" and "i_tenant_id iv = t" and "i_reminder_job_ids iv = Some ids"
    and "find_application (tenant_context t x) d (i_application_id iv) = Inr a"
    and "get_candidate_contact U (tenant_context t x) d a = Inr contact"
    and "keyed u_id (users d)" and "\<And>i. works i"
  shows "\<exists>q'. update_interview U (tenant_context t x) u now outcomes works (i_id iv)
      \<lparr>iu_interviewer_id = None, iu_scheduled_at = Some None, iu_meeting_link = None\<rparr> (d, q) = (Inl TypeError, d, q')
    \<and> http_status TypeError = 500 \<and> q' = filter (\<lambda>(k, _). k \<notin> set ids) q"
proof -
  have cancel: "cancel_all works js p = filter (\<lambda>(k, _). k \<notin> set js) p" for js p
    using cancel_all_works [of works] assms(10) by blast
  have f: "find_interview (tenant_context t x) d (i_id iv) = Inr iv"
    using find_interview_tenant [OF assms(1,2)] assms(4,5) by blast
  have role: "require_roles INTERVIEW_MANAGER_ROLES u = Inr u"
    using assms(3) by (auto simp: require_roles_def INTERVIEW_MANAGER_ROLES_def)
  obtain o' where users: "scalar_one_or_none (filter (\<lambda>v. u_id v = i_interviewer_id iv) (users d)) = Inr o'"
    using keyed_scalar_one_or_none [OF assms(9), of "i_interviewer_id iv" "\<lambda>_. True"]
    by (cases "scalar_one_or_none (filter (\<lambda>v. u_id v = i_interviewer_id iv) (users d))") auto
  obtain em nm where "contact = (em, nm)" by (cases contact)
  then show ?thesis
    using assms(6-8) f role users cancel
    by (simp add: update_interview_def apply_update_def cancel_interview_reminder_def)
qed

theorem clearing_the_time_loses_reminders_witness:
  "\<exists>q'. update_interview ascii_tables (tenant_context 5 9) (demo_user 9 ''Admin'' (Some 5)) 100 [] (\<lambda>_. True) 40
      \<lparr>iu_interviewer_id = None, iu_scheduled_at = Some None, iu_meeting_link = None\<rparr>
      (demo_interview_db, [(''a'', demo_reminder), (''b'', demo_reminder), (''c'', demo_reminder)])
      = (Inl TypeError, demo_interview_db, q')
    \<and> http_status TypeError = 500 \<and> q' = [(''c'', demo_reminder)]"
proof -
  have ten: "(5::uuid) < 2 ^ 128" by simp
  have role: "u_role (demo_user 9 ''Admin'' (Some 5)) \<in> {''Admin'', ''HR_Manager''}" by (simp add: demo_user_def)
  have a: "find_application (tenant_context 5 9) demo_interview_db (i_application_id demo_interview) = Inr demo_application"
    using demo_application_found [of demo_interview_db 9]
    by (simp add: demo_interview_db_def demo_staffed_db_def demo_db_def demo_interview_def)
  have c: "get_candidate_contact ascii_tables (tenant_context 5 9) demo_interview_db demo_application
      = Inr (utext_of ''ann@x.io'', utext_of ''ann'')"
    by (rule demo_contact) (simp_all add: demo_interview_db_def demo_staffed_db_def demo_db_def)
  show ?thesis
    using clearing_the_time_loses_reminders [OF ten demo_interview_facts(1) role demo_interview_facts(3,4,6) a c
        demo_interview_facts(2), of "\<lambda>_. True" 100 "[]" "[(''a'', demo_reminder), (''b'', demo_reminder), (''c'', demo_reminder)]"]
    by (simp add: demo_interview_facts(5))
qed

text \<open>
  A created interview: the caller manages interviews; the application and
  the interviewer belong to the tenant and the interviewer has a role that may interview; exactly one row is
  added; and, when both calls of the scheduler succeed, exactly two reminders are queued, for the
  candidate and the interviewer, a day before the interview or at once, and the row
  records their identifiers.
\<close>

theorem created_interview_spec:
  assumes "t < 2 ^ 128"
    and "create_interview U (tenant_context t x) u now iid [Some k1, Some k2] payload (d, q) = (Inr r, d', q')"
  shows "\<exists>v a em nm stored due. u_role u \<in> {''Admin'', ''HR_Manager''}
    \<and> v \<in> set (users d) \<and> u_id v = ic_interviewer_id payload \<and> u_tenant_id v = Some t
    \<and> u_role v \<in> {''Interviewer'', ''HR_Manager''}
    \<and> a \<in> set (applications d) \<and> a_id a = ic_application_id payload \<and> a_tenant_id a = t
    \<and> d' = d\<lparr>interviews := interviews d @ [stored]\<rparr> \<and> i_id stored = iid \<and> i_tenant_id stored = t
    \<and> i_reminder_job_ids stored = Some [k1, k2] \<and> i_status stored = ''Pending''
    \<and> due = max now (ic_scheduled_at payload - 24 * 3600 * 1000000)
    \<and> map (\<lambda>(k, m). (k, rm_time m, rm_recipient_email m, rm_recipient_name m)) q'
      = map (\<lambda>(k, m). (k, rm_time m, rm_recipient_email m, rm_recipient_name m)) q
        @ [(k1, due, em, nm), (k2, due, u_email v, u_email v)]"
proof -
  from create_interview_effect [OF assms] obtain v a em nm ids stored where e:
      "u_role u \<in> {''Admin'', ''HR_Manager''}"
      "v \<in> set (users d)" "u_id v = ic_interviewer_id payload" "u_tenant_id v = Some t"
      "u_role v \<in> {''Interviewer'', ''HR_Manager''}"
      "a \<in> set (applications d)" "a_id a = ic_application_id payload" "a_tenant_id a = t"
      "schedule_interview_reminder now [Some k1, Some k2] (ic_scheduled_at payload) em nm (u_email v) (u_email v)
         (ic_meeting_link payload) q = (ids, q')"
      "d' = d\<lparr>interviews := interviews d @ [stored]\<rparr>"
      "i_id stored = iid" "i_tenant_id stored = t" "i_reminder_job_ids stored = (if ids = [] then None else Some ids)"
      "i_status stored = ''Pending''"
    by (elim exE conjE) (rule that; assumption)
  have ids: "ids = [k1, k2]" and q': "map (\<lambda>(k, m). (k, rm_time m, rm_recipient_email m, rm_recipient_name m)) q'
      = map (\<lambda>(k, m). (k, rm_time m, rm_recipient_email m, rm_recipient_name m)) q
        @ [(k1, max now (ic_scheduled_at payload - 24 * 3600 * 1000000), em, nm),
           (k2, max now (ic_scheduled_at payload - 24 * 3600 * 1000000), u_email v, u_email v)]"
    using e(9) by (auto simp: schedule_interview_reminder_def Let_def REMINDER_LEAD_TIME_def max_def)
  have "i_reminder_job_ids stored = Some [k1, k2]" using e(13) ids by simp
  with e(1-8,10-12,14) q' show ?thesis
    by (intro exI [of _ v] exI [of _ a] exI [of _ em] exI [of _ nm] exI [of _ stored] exI conjI) (rule refl | assumption)+
qed

theorem created_interview_spec_witness:
  "\<exists>r d' q' v. create_interview ascii_tables (tenant_context 5 9) (demo_user 9 ''Admin'' (Some 5)) 100 40
     [Some ''a'', Some ''b''] demo_request (demo_staffed_db, []) = (Inr r, d', q')
   \<and> v \<in> set (users demo_staffed_db) \<and> u_id v = 8 \<and> u_tenant_id v = Some 5 \<and> map fst q' = [''a'', ''b'']"
proof -
  from demo_created obtain r d' q' where run: "create_interview ascii_tables (tenant_context 5 9) (demo_user 9 ''Admin'' (Some 5)) 100 40
     [Some ''a'', Some ''b''] demo_request (demo_staffed_db, []) = (Inr r, d', q')" by (elim exE) (rule that)
  have ten: "(5::uuid) < 2 ^ 128" by simp
  from created_interview_spec [OF ten run] obtain v :: user and em nm due where
    "v \<in> set (users demo_staffed_db)" "u_id v = 8" "u_tenant_id v = Some 5"
    "map (\<lambda>(k, m). (k, rm_time m, rm_recipient_email m, rm_recipient_name m)) q'
      = [(''a'', due, em, nm), (''b'', due, u_email v, u_email v)]"
    by (elim exE conjE) (rule that, simp_all add: demo_request_def)
  moreover from this(4) have "map fst q' = [''a'', ''b'']"
    by (auto simp: map_eq_Cons_conv case_prod_beta)
  ultimately show ?thesis using run by (intro exI conjI)
qed

text \<open>
  Deleting undoes creating: after an interview was created with both reminders queued
  under fresh identifiers, deleting it (with a scheduler that answers) brings back both the
  database and the reminder queue.
\<close>

theorem delete_undoes_create:
  assumes "t < 2 ^ 128" and "keyed i_id (interviews d)"
    and "create_interview U (tenant_context t x) u now iid [Some k1, Some k2] payload (d, q) = (Inr r, d', q')"
    and "k1 \<notin> fst ` set q" and "k2 \<notin> fst ` set q" and "\<And>i. works i"
  shows "delete_interview (tenant_context t x) u works iid (d', q') = (Inr (), d, q)"
proof -
  from create_interview_effect [OF assms(1,3)] obtain v :: user and em nm ids stored where e:
      "u_role u \<in> {''Admin'', ''HR_Manager''}"
      "schedule_interview_reminder now [Some k1, Some k2] (ic_scheduled_at payload) em nm (u_email v) (u_email v)
         (ic_meeting_link payload) q = (ids, q')"
      "iid \<notin> i_id ` set (interviews d)" "d' = d\<lparr>interviews := interviews d @ [stored]\<rparr>"
      "i_id stored = iid" "i_tenant_id stored = t" "i_reminder_job_ids stored = (if ids = [] then None else Some ids)"
    by (elim exE conjE) (rule that; assumption)
  obtain m1 m2 where q': "ids = [k1, k2]" "q' = q @ [(k1, m1), (k2, m2)]"
    using e(2) by (auto simp: schedule_interview_reminder_def Let_def)
  have "keyed i_id (interviews d')" using assms(2) e(3-5) by (auto simp: keyed_def)
  then have f: "find_interview (tenant_context t x) d' iid = Inr stored"
    using find_interview_tenant [OF assms(1), of d' x iid stored] e(4-6) by simp
  have role: "require_roles INTERVIEW_MANAGER_ROLES u = Inr u"
    using e(1) by (auto simp: require_roles_def INTERVIEW_MANAGER_ROLES_def)
  have "filter (\<lambda>i. \<not> (i_id i = iid \<and> i_tenant_id i = t)) (interviews d) = interviews d"
    by (rule filter_True) (use e(3) in \<open>metis imageI\<close>)
  then have g: "filter (\<lambda>i. \<not> (i_id i = iid \<and> rls_visible (context_parameters (tenant_context t x))
      (interviews_policies (context_parameters (tenant_context t x))) R_DELETE i)) (interviews d') = interviews d"
    using e(4-6) assms(1) by (simp add: interviews_tt.visible_iff)
  have "filter (\<lambda>(k, _). k \<notin> set [k1, k2]) q' = q"
    using assms(4,5) by (force simp: filter_id_conv q')
  then have c: "cancel_interview_reminder works (i_reminder_job_ids stored) q' = q"
    using cancel_all_works [of works "[k1, k2]" q'] assms(6) e(7) q'(1)
    by (simp add: cancel_interview_reminder_def del: cancel_all.simps)
  show ?thesis
    unfolding delete_interview_def Let_def prod.case role sum.case f c g using e(4) by simp
qed

theorem delete_undoes_create_witness:
  "\<exists>r d' q'. create_interview ascii_tables (tenant_context 5 9) (demo_user 9 ''Admin'' (Some 5)) 100 40
     [Some ''a'', Some ''b''] demo_request (demo_staffed_db, []) = (Inr r, d', q')
   \<and> delete_interview (tenant_context 5 9) (demo_user 9 ''Admin'' (Some 5)) (\<lambda>_. True) 40 (d', q')
     = (Inr (), demo_staffed_db, [])"
proof -
  from demo_created obtain r d' q' where run: "create_interview ascii_tables (tenant_context 5 9) (demo_user 9 ''Admin'' (Some 5)) 100 40
     [Some ''a'', Some ''b''] demo_request (demo_staffed_db, []) = (Inr r, d', q')" by (elim exE) (rule that)
  have "keyed i_id (interviews demo_staffed_db)" by (simp add: demo_staffed_db_def demo_db_def)
  from delete_undoes_create [OF _ this run, of "\<lambda>_. True"]
  have "delete_interview (tenant_context 5 9) (demo_user 9 ''Admin'' (Some 5)) (\<lambda>_. True) 40 (d', q')
     = (Inr (), demo_staffed_db, [])" by simp
  with run show ?thesis by (intro exI conjI)
qed

end
