(* ===== verification/Search.thy ===== *)
theory Search
  imports Listings
begin

text \<open>
  The candidate search (app/core/search_query.py, the blind index of app/core/crypto.py, and
  the search endpoint of app/routers/candidates.py). The text of a resume is stored encrypted;
  what is searched is the set of keyed hashes of its words. The keyed hash (HMAC-SHA256 under the
  secret index key, shortened to 32 hexadecimal digits) is the parameter \<open>hmac\<close>.
\<close>

section \<open>Words\<close>

text \<open>\<open>str.maketrans\<close>: the characters \<open>./+#@_-\<close> become spaces.\<close>

definition SPLIT_CHARS :: "nat list" where
  "SPLIT_CHARS = utext_of ''./+#@_-''"

definition translate_split :: "utext \<Rightarrow> utext" where
  "translate_split text = map (\<lambda>c. if c \<in> set SPLIT_CHARS then 32 else c) text"

definition resume_search_words :: "unicode \<Rightarrow> utext option \<Rightarrow> utext list" where
  "resume_search_words U text =
     (case text of None \<Rightarrow> [] | Some t \<Rightarrow> map (uc_lower U) (class_runs (uc_word U) (translate_split t)))"

section \<open>The query language\<close>

datatype operator = And | Or

definition is_word :: "string \<Rightarrow> utext \<Rightarrow> bool" where
  "is_word w s \<longleftrightarrow> map cp_ascii_lower s = utext_of w"

text \<open>
  A match of \<open>\s+(AND|OR)\s+\<close>, in any case, at the head of a text: the operator and
  the text after the match. The white space before and after is taken as far as it goes.
\<close>

definition operator_here :: "unicode \<Rightarrow> utext \<Rightarrow> (operator \<times> utext) option" where
  "operator_here U s =
     (let rest = dropWhile (uc_space U) s;
          after = (\<lambda>n op. let t = drop n rest in
             case t of c # _ \<Rightarrow> if uc_space U c then Some (op, dropWhile (uc_space U) t) else None | [] \<Rightarrow> None)
      in case s of
           [] \<Rightarrow> None
         | c # _ \<Rightarrow>
             (if \<not> uc_space U c then None
              else if is_word ''and'' (take 3 rest) then after 3 And
              else if is_word ''or'' (take 2 rest) then after 2 Or
              else None))"

lemma operator_here_shorter: "operator_here U s = Some (op, rest) \<Longrightarrow> length rest < length s"
proof -
  assume a: "operator_here U s = Some (op, rest)"
  obtain c cs where s: "s = c # cs" "uc_space U c"
    using a by (cases s) (auto simp: operator_here_def Let_def split: if_splits)
  have "length (dropWhile (uc_space U) ys) < Suc (length cs)" if "drop n (dropWhile (uc_space U) cs) = y # ys" for n y ys
  proof -
    have "length (drop n (dropWhile (uc_space U) cs)) \<le> length cs" using length_dropWhile_le [of "uc_space U" cs] by simp
    then show ?thesis using length_dropWhile_le [of "uc_space U" ys] that by simp
  qed
  with a s show ?thesis
    by (auto simp: operator_here_def Let_def split: if_splits list.splits)
qed

text \<open>\<open>re.split\<close> with the group kept: the first segment, and each operator with the segment after it.\<close>

function operator_split :: "unicode \<Rightarrow> utext \<Rightarrow> utext \<Rightarrow> utext \<times> (operator \<times> utext) list" where
  "operator_split U seg s =
     (case operator_here U s of
        Some (op, rest) \<Rightarrow> (let (seg', more) = operator_split U [] rest in (rev seg, (op, seg') # more))
      | None \<Rightarrow> (case s of [] \<Rightarrow> (rev seg, []) | c # cs \<Rightarrow> operator_split U (c # seg) cs))"
  by pat_completeness auto
termination
  by (relation "measure (\<lambda>(U, seg, s). length s)") (auto dest: operator_here_shorter)

declare operator_split.simps [simp del]

definition parse_search_query :: "unicode \<Rightarrow> utext option \<Rightarrow> (operator \<times> utext list) list" where
  "parse_search_query U raw_query =
     (case raw_query of
        None \<Rightarrow> []
      | Some q \<Rightarrow>
          (if ustrip U q = [] then []
           else
             (let (first, more) = operator_split U [] (ustrip U q)
              in filter (\<lambda>(_, words). words \<noteq> [])
                   (map (\<lambda>(op, segment). (op, resume_search_words U (Some segment))) ((And, first) # more)))))"

section \<open>The blind index\<close>

definition blind_index_token :: "(utext \<Rightarrow> string) \<Rightarrow> unicode \<Rightarrow> utext \<Rightarrow> string" where
  "blind_index_token hmac U word = hmac (uc_lower U word)"

text \<open>The tokens are a set; they are stored sorted, which no query depends on.\<close>

definition blind_index_tokens :: "(utext \<Rightarrow> string) \<Rightarrow> unicode \<Rightarrow> utext option \<Rightarrow> string list option" where
  "blind_index_tokens hmac U text =
     map_option (\<lambda>t. remdups (map (blind_index_token hmac U) (resume_search_words U (Some t)))) text"

text \<open>
  The SQL condition as a predicate on the token column: the terms are combined from the left.
  A NULL column makes every term NULL, so that the condition does not select the row.
\<close>

definition combine :: "operator \<times> utext list \<Rightarrow> (string set \<Rightarrow> bool) option \<Rightarrow> (utext list \<Rightarrow> string set \<Rightarrow> bool) \<Rightarrow>
    (string set \<Rightarrow> bool) option" where
  "combine t combined contains =
     (case t of (op, words) \<Rightarrow>
        (case combined of
           None \<Rightarrow> Some (contains words)
         | Some p \<Rightarrow> Some (if op = Or then (\<lambda>ts. p ts \<or> contains words ts) else (\<lambda>ts. p ts \<and> contains words ts))))"

definition resume_blind_index_condition ::
  "(utext \<Rightarrow> string) \<Rightarrow> unicode \<Rightarrow> utext option \<Rightarrow> (string list option \<Rightarrow> bool) option" where
  "resume_blind_index_condition hmac U raw_query =
     map_option (\<lambda>p col. case col of None \<Rightarrow> False | Some ts \<Rightarrow> p (set ts))
       (fold (\<lambda>t combined. combine t combined
            (\<lambda>words ts. set (map (blind_index_token hmac U) words) \<subseteq> ts)) (parse_search_query U raw_query) None)"

section \<open>The skill analysis column\<close>

definition json_get :: "json \<Rightarrow> string \<Rightarrow> json option" where
  "json_get j k = (case j of JObj kvs \<Rightarrow> map_of kvs k | _ \<Rightarrow> None)"

text \<open>
  The two SQL functions of the migration. The database's lower-casing of a text and its printing of an
  array element that is neither a string nor null are parameters; a null element becomes a NULL of the
  array, which no lookup matches.
\<close>

record pg_text =
  pg_lower :: "utext \<Rightarrow> utext"
  pg_json_text :: "json \<Rightarrow> utext"

definition ats_resume_skill_keys :: "pg_text \<Rightarrow> json option \<Rightarrow> utext list option" where
  "ats_resume_skill_keys PG analysis =
     Some (case analysis of
        None \<Rightarrow> []
      | Some j \<Rightarrow>
          (case json_get j ''skills'' of
             Some (JArr xs) \<Rightarrow> remdups (concat (map (\<lambda>x. case x of JStr s \<Rightarrow> [pg_lower PG s] | JNull \<Rightarrow> [] | _ \<Rightarrow> [pg_lower PG (pg_json_text PG x)]) xs))
           | _ \<Rightarrow> []))"

definition ats_resume_experience_years :: "json option \<Rightarrow> rat option" where
  "ats_resume_experience_years analysis =
     (case analysis of
        None \<Rightarrow> None
      | Some j \<Rightarrow>
          (case json_get j ''total_experience_years'' of
             Some (JInt n) \<Rightarrow> Some (of_int n)
           | Some (JFloat x) \<Rightarrow> Some x
           | _ \<Rightarrow> None))"

definition resume_has_skill_condition :: "pg_text \<Rightarrow> utext \<Rightarrow> resume \<Rightarrow> bool" where
  "resume_has_skill_condition PG skill_name r =
     (case ats_resume_skill_keys PG (r_skill_analysis r) of None \<Rightarrow> False | Some ks \<Rightarrow> pg_lower PG skill_name \<in> set ks)"

section \<open>The endpoint\<close>

definition CANDIDATE_SEARCH_ROLES :: "string list" where
  "CANDIDATE_SEARCH_ROLES = [''Admin'', ''HR_Manager'']"

record candidate_search_item =
  cs_candidate_id :: uuid
  cs_email :: utext
  cs_first_name :: utext
  cs_last_name :: utext
  cs_phone :: "utext option"
  cs_location :: "utext option"
  cs_skills :: "utext list"
  cs_best_ai_score :: "int option"
  cs_best_experience_years :: "rat option"

definition max_opt :: "('a::linorder) option list \<Rightarrow> 'a option" where
  "max_opt xs = (case List.map_filter id xs of [] \<Rightarrow> None | y # ys \<Rightarrow> Some (fold max ys y))"

text \<open>All the filters of a request, on one candidate; resumes and applications are those the request may see.\<close>

definition search_filters ::
  "(utext \<Rightarrow> string) \<Rightarrow> pg_text \<Rightarrow> unicode \<Rightarrow> utext option \<Rightarrow> utext list option \<Rightarrow> rat option \<Rightarrow> int option \<Rightarrow>
   application list \<Rightarrow> resume list \<Rightarrow> candidate \<Rightarrow> bool" where
  "search_filters hmac PG U q skill_names min_experience_years min_ai_score apps ress c \<longleftrightarrow>
     list_ex (\<lambda>a. a_candidate_id a = c_id c) apps
     \<and> (case resume_blind_index_condition hmac U q of None \<Rightarrow> True
          | Some p \<Rightarrow> list_ex (\<lambda>r. r_candidate_id r = c_id c \<and> p (r_search_tokens r)) ress)
     \<and> (case min_experience_years of None \<Rightarrow> True
          | Some y \<Rightarrow> list_ex (\<lambda>r. r_candidate_id r = c_id c
              \<and> (case ats_resume_experience_years (r_skill_analysis r) of None \<Rightarrow> False | Some x \<Rightarrow> y \<le> x)) ress)
     \<and> (case min_ai_score of None \<Rightarrow> True
          | Some n \<Rightarrow> list_ex (\<lambda>a. a_candidate_id a = c_id c
              \<and> (case a_score_ai a of None \<Rightarrow> False | Some s \<Rightarrow> n \<le> s)) apps)
     \<and> (case skill_names of None \<Rightarrow> True
          | Some names \<Rightarrow> list_all (\<lambda>name. let n = ustrip U name in n = []
              \<or> list_ex (\<lambda>r. r_candidate_id r = c_id c \<and> resume_has_skill_condition PG n r) ress) names)"

definition search_candidates ::
  "(utext \<Rightarrow> string) \<Rightarrow> pg_text \<Rightarrow> unicode \<Rightarrow> 'tok codec \<Rightarrow> TenantContext \<Rightarrow> user \<Rightarrow> utext option \<Rightarrow> utext list option \<Rightarrow>
   rat option \<Rightarrow> int option \<Rightarrow> 'tok CursorParams \<Rightarrow> db \<Rightarrow> exc + (candidate_search_item, 'tok) CursorPage" where
  "search_candidates hmac PG U C ctx current_user q skill_names min_experience_years min_ai_score page d =
     (case require_roles CANDIDATE_SEARCH_ROLES current_user of
        Inl e \<Rightarrow> Inl e
      | Inr _ \<Rightarrow>
          if (case q of None \<Rightarrow> False | Some t \<Rightarrow> 500 < length t)
             \<or> (case min_experience_years of None \<Rightarrow> False | Some y \<Rightarrow> y < 0)
             \<or> (case min_ai_score of None \<Rightarrow> False | Some n \<Rightarrow> n < 0 \<or> 100 < n)
          then Inl (HTTPException 422 Validation_Error)
          else
          (let apps = select_applications ctx d;
               ress = select_resumes ctx d;
               query = filter (\<lambda>(c, u). search_filters hmac PG U q skill_names min_experience_years min_ai_score apps ress c)
                 (inner_join (\<lambda>c u. u_id u = c_user_id c) (select_candidates ctx d) (users d))
           in case paginate_by_cursor U C (uuid_column C) (\<lambda>(c, u). (NotNull (c_id c), c_id c)) False page query of
                Inl e \<Rightarrow> Inl e
              | Inr p \<Rightarrow> Inr (map_page (\<lambda>(c, u). \<lparr>cs_candidate_id = c_id c, cs_email = u_email u,
                  cs_first_name = c_first_name c, cs_last_name = c_last_name c, cs_phone = c_phone c,
                  cs_location = c_location c, cs_skills = (case c_skills c of None \<Rightarrow> [] | Some xs \<Rightarrow> xs),
                  cs_best_ai_score = max_opt (map a_score_ai (filter (\<lambda>a. a_candidate_id a = c_id c) apps)),
                  cs_best_experience_years = max_opt (map (\<lambda>r. ats_resume_experience_years (r_skill_analysis r))
                    (filter (\<lambda>r. r_candidate_id r = c_id c) ress))\<rparr>) p)))"

section \<open>The meaning of a query\<close>

text \<open>The query read against a set of words: each term asks for all its words; terms associate to the left.\<close>

definition term_step :: "utext set \<Rightarrow> bool \<Rightarrow> operator \<times> utext list \<Rightarrow> bool" where
  "term_step W b t = (case t of (op, ws) \<Rightarrow> if op = Or then b \<or> set ws \<subseteq> W else b \<and> set ws \<subseteq> W)"

fun query_holds :: "(operator \<times> utext list) list \<Rightarrow> utext set \<Rightarrow> bool" where
  "query_holds [] W \<longleftrightarrow> True"
| "query_holds ((op, ws) # ts) W \<longleftrightarrow>
     foldl (term_step W) (set ws \<subseteq> W) ts"

lemma fold_combine:
  assumes "\<And>ws. ws \<in> snd ` set ts \<Longrightarrow> contains ws x = (set ws \<subseteq> W)"
  shows "\<exists>p'. fold (\<lambda>t c. combine t c contains) ts (Some p) = Some p'
    \<and> p' x = foldl (term_step W) (p x) ts"
  using assms
proof (induction ts arbitrary: p)
  case Nil
  then show ?case by simp
next
  case (Cons t ts)
  obtain op ws where t: "t = (op, ws)" by (cases t)
  have c: "contains ws x = (set ws \<subseteq> W)" using Cons.prems [of ws] by (simp add: t)
  obtain p1 where p1: "combine t (Some p) contains = Some p1"
      "p1 x = term_step W (p x) t"
    using c by (simp add: combine_def term_step_def t)
  have "\<And>ws. ws \<in> snd ` set ts \<Longrightarrow> contains ws x = (set ws \<subseteq> W)" using Cons.prems by simp
  from Cons.IH [OF this, where p = p1] show ?case by (simp add: p1)
qed

section \<open>Properties\<close>

text \<open>
  C13. Searching the blind index finds what searching the text would find: as long as the
  keyed hash does not collide on the words at hand, a resume is selected by a query exactly if
  the query, read word by word, holds of the words of its text.
\<close>

theorem blind_index_search_exact:
  assumes "resume_blind_index_condition hmac U q = Some p"
    and "inj_on (blind_index_token hmac U)
      (set (resume_search_words U (Some text)) \<union> \<Union> (set ` snd ` set (parse_search_query U q)))"
  shows "p (blind_index_tokens hmac U (Some text)) \<longleftrightarrow>
    query_holds (parse_search_query U q) (set (resume_search_words U (Some text)))"
proof -
  let ?W = "set (resume_search_words U (Some text))" and ?ts = "parse_search_query U q"
  let ?tok = "blind_index_token hmac U"
  let ?contains = "\<lambda>words T. set (map ?tok words) \<subseteq> T"
  have sub: "?contains ws (?tok ` ?W) \<longleftrightarrow> set ws \<subseteq> ?W" if "ws \<in> snd ` set ?ts" for ws
  proof -
    have all: "set ws \<subseteq> ?W \<union> \<Union> (set ` snd ` set ?ts)" using that by auto
    have "w \<in> ?W" if w: "w \<in> set ws" "?tok w \<in> ?tok ` ?W" for w
    proof -
      obtain v where v: "v \<in> ?W" "?tok w = ?tok v" using w(2) by (elim imageE)
      have "w = v" using inj_onD [OF assms(2) v(2)] w(1) all v(1) by blast
      with v(1) show ?thesis by simp
    qed
    then show ?thesis by auto
  qed
  have tokens: "blind_index_tokens hmac U (Some text) = Some (remdups (map ?tok (resume_search_words U (Some text))))"
    by (simp add: blind_index_tokens_def)
  show ?thesis
  proof (cases ?ts)
    case Nil
    with assms(1) show ?thesis by (simp add: resume_blind_index_condition_def)
  next
    case (Cons t ts)
    obtain op ws where t: "t = (op, ws)" by (cases t)
    have first: "combine t None ?contains = Some (?contains ws)" by (simp add: combine_def t)
    from fold_combine [of ts ?contains "?tok ` ?W" ?W "?contains ws"] sub
    obtain p' where p': "fold (\<lambda>t c. combine t c ?contains) ts (Some (?contains ws)) = Some p'"
        "p' (?tok ` ?W) = foldl (term_step ?W) (?contains ws (?tok ` ?W)) ts"
      by (force simp: Cons)
    have "p = (\<lambda>col. case col of None \<Rightarrow> False | Some ts \<Rightarrow> p' (set ts))"
      using assms(1) p'(1) first by (simp add: resume_blind_index_condition_def Cons)
    moreover have "?contains ws (?tok ` ?W) = (set ws \<subseteq> ?W)" using sub [of ws] by (simp add: Cons t)
    ultimately show ?thesis using p'(2) by (simp add: tokens Cons t)
  qed
qed

lemma demo_query_words:
  "parse_search_query ascii_tables (Some (utext_of ''ann or b'')) = [(And, [utext_of ''ann'']), (Or, [utext_of ''b''])]"
  "resume_search_words ascii_tables (Some (utext_of ''Ann'')) = [utext_of ''ann'']"
  by (simp_all add: parse_search_query_def ustrip_def strip_by_def utext_of_def ascii_tables_def operator_split.simps
      operator_here_def is_word_def cp_ascii_lower_def Let_def resume_search_words_def translate_split_def
      SPLIT_CHARS_def class_runs.simps)

theorem blind_index_search_exact_witness:
  "\<exists>p. resume_blind_index_condition (map char_of) ascii_tables (Some (utext_of ''ann or b'')) = Some p
     \<and> p (blind_index_tokens (map char_of) ascii_tables (Some (utext_of ''Ann'')))"
proof -
  let ?U = ascii_tables and ?q = "Some (utext_of ''ann or b'')"
  have "inj_on (blind_index_token (map char_of) ?U)
      (set (resume_search_words ?U (Some (utext_of ''Ann''))) \<union> \<Union> (set ` snd ` set (parse_search_query ?U ?q)))"
    unfolding demo_query_words by (simp add: blind_index_token_def ascii_tables_def utext_of_def cp_ascii_lower_def)
  moreover obtain p where p: "resume_blind_index_condition (map char_of) ?U ?q = Some p"
    by (simp add: resume_blind_index_condition_def demo_query_words combine_def)
  ultimately have "p (blind_index_tokens (map char_of) ?U (Some (utext_of ''Ann''))) \<longleftrightarrow>
      query_holds (parse_search_query ?U ?q) (set (resume_search_words ?U (Some (utext_of ''Ann''))))"
    using blind_index_search_exact [OF p] by simp
  then have "p (blind_index_tokens (map char_of) ?U (Some (utext_of ''Ann'')))"
    unfolding demo_query_words by (simp add: term_step_def)
  with p show ?thesis by (intro exI conjI)
qed

text \<open>
  A search shows a recruiter only applicants of the own tenant: every candidate on a page
  has an application in the tenant, and satisfies the asked minimal score and experience
  through an application or resume of this tenant.
\<close>

theorem search_confined_to_applicants:
  assumes "t < 2 ^ 128"
    and "search_candidates hmac PG U C (tenant_context t x) u q names min_exp min_ai params d = Inr page"
    and "item \<in> set (pg_items page)"
  shows "u_role u \<in> {''Admin'', ''HR_Manager''}
    \<and> (\<exists>a \<in> set (applications d). a_candidate_id a = cs_candidate_id item \<and> a_tenant_id a = t)
    \<and> (min_ai = Some n \<longrightarrow> (\<exists>a \<in> set (applications d). a_candidate_id a = cs_candidate_id item \<and> a_tenant_id a = t
         \<and> (\<exists>s. a_score_ai a = Some s \<and> n \<le> s)))
    \<and> (min_exp = Some y \<longrightarrow> (\<exists>r \<in> set (resumes d). r_candidate_id r = cs_candidate_id item \<and> r_tenant_id r = t
         \<and> (\<exists>z. ats_resume_experience_years (r_skill_analysis r) = Some z \<and> y \<le> z)))"
proof -
  let ?apps = "filter (\<lambda>a. a_tenant_id a = t) (applications d)"
  let ?ress = "filter (\<lambda>r. r_tenant_id r = t) (resumes d)"
  let ?q = "filter (\<lambda>(c, u). search_filters hmac PG U q names min_exp min_ai ?apps ?ress c)
      (inner_join (\<lambda>c u. u_id u = c_user_id c) (select_candidates (tenant_context t x) d) (users d))"
  have role: "u_role u \<in> {''Admin'', ''HR_Manager''}"
    using assms(2) by (auto simp: search_candidates_def CANDIDATE_SEARCH_ROLES_def require_roles_def split: if_splits)
  obtain p where p: "paginate_by_cursor U C (uuid_column C) (\<lambda>(c, u). (NotNull (c_id c), c_id c)) False params ?q = Inr p"
    and ids: "map cs_candidate_id (pg_items page) = map (\<lambda>(c, u). c_id c) (pg_items p)"
    using assms(2) select_applications_tenant [OF assms(1), of x d] select_resumes_tenant [OF assms(1), of x d]
    by (auto simp: search_candidates_def Let_def map_page_def comp_def case_prod_beta split: if_splits sum.splits)
  from assms(3) have "cs_candidate_id item \<in> set (map (\<lambda>(c, u). c_id c) (pg_items p))"
    unfolding ids [symmetric] by simp
  then obtain c v where cv: "(c, v) \<in> set (pg_items p)" "cs_candidate_id item = c_id c" by auto
  have "search_filters hmac PG U q names min_exp min_ai ?apps ?ress c"
    using paginate_items_subset [OF p cv(1)] by simp
  with role cv(2) show ?thesis
    by (auto simp: search_filters_def list_ex_iff split: option.splits)
qed

definition demo_scored_db :: db where
  "demo_scored_db = demo_db\<lparr>users := [demo_user 7 ''Candidate'' None],
     applications := [demo_application\<lparr>a_score_ai := Some 80\<rparr>]\<rparr>"

theorem search_confined_to_applicants_witness:
  "\<exists>page. search_candidates (map char_of) \<lparr>pg_lower = id, pg_json_text = (\<lambda>_. [])\<rparr> ascii_tables plain_codec (tenant_context 5 9) (demo_user 9 ''Admin'' (Some 5)) None None
       None (Some 70) (request ''next'' 3 None) demo_scored_db = Inr page
     \<and> map cs_candidate_id (pg_items page) = [3]
     \<and> (\<exists>a \<in> set (applications demo_scored_db). a_candidate_id a = 3 \<and> a_tenant_id a = 5 \<and> (\<exists>s. a_score_ai a = Some s \<and> 70 \<le> s))"
proof -
  let ?u = "demo_user 9 ''Admin'' (Some 5)" and ?ctx = "tenant_context 5 9" and ?d = demo_scored_db
  let ?c = "hd (candidates demo_db)" and ?v = "demo_user 7 ''Candidate'' None"
  let ?a = "demo_application\<lparr>a_score_ai := Some 80\<rparr>"
  have ten: "(5::uuid) < 2 ^ 128" by simp
  have apps: "select_applications ?ctx ?d = [?a]"
    unfolding select_applications_tenant [OF ten] by (simp add: demo_scored_db_def demo_application_def)
  have ress: "select_resumes ?ctx ?d = resumes demo_db"
    unfolding select_resumes_tenant [OF ten] by (simp add: demo_scored_db_def demo_db_def)
  have "rls_applications (context_parameters ?ctx) ?d = [?a]"
    by (simp add: rls_applications_def applications_tt.visible_iff demo_scored_db_def demo_application_def)
  then have "rls_visible (context_parameters ?ctx) (candidates_policies (context_parameters ?ctx) ?d) R_SELECT ?c"
    by (simp add: rls_visible_def candidates_policies_def tenant_match_def settings_tenant [OF ten]
        demo_db_def demo_application_def)
  then have cands: "select_candidates ?ctx ?d = [?c]"
    by (simp add: select_candidates_def demo_scored_db_def demo_db_def)
  have join: "inner_join (\<lambda>c u. u_id u = c_user_id c) [?c] (users ?d) = [(?c, ?v)]"
    by (simp add: inner_join_def demo_scored_db_def demo_db_def demo_user_def)
  have keep: "filter (\<lambda>(c, u). search_filters (map char_of) \<lparr>pg_lower = id, pg_json_text = (\<lambda>_. [])\<rparr> ascii_tables None None None (Some 70) [?a] (resumes demo_db) c) [(?c, ?v)]
      = [(?c, ?v)]"
    by (simp add: search_filters_def demo_db_def demo_application_def resume_blind_index_condition_def parse_search_query_def)
  have single: "paginate_by_cursor ascii_tables plain_codec (uuid_column plain_codec) key False (request ''next'' 3 None) [r]
      = Inr \<lparr>pg_items = [r], pg_next_cursor = None, pg_previous_cursor = None, pg_has_next = False, pg_has_previous = False\<rparr>"
    for key and r :: "candidate \<times> user"
    by (simp add: paginate_by_cursor_def ordered_def Let_def)
  have role: "require_roles CANDIDATE_SEARCH_ROLES ?u = Inr ?u"
    by (simp add: require_roles_def CANDIDATE_SEARCH_ROLES_def demo_user_def)
  have c3: "c_id ?c = 3" by (simp add: demo_db_def)
  have "\<exists>page. search_candidates (map char_of) \<lparr>pg_lower = id, pg_json_text = (\<lambda>_. [])\<rparr> ascii_tables plain_codec ?ctx ?u None None None (Some 70) (request ''next'' 3 None) ?d
      = Inr page \<and> map cs_candidate_id (pg_items page) = [3]"
    unfolding search_candidates_def role apps ress cands join keep Let_def single sum.case
    by (simp add: map_page_def c3)
  then obtain page where run: "search_candidates (map char_of) \<lparr>pg_lower = id, pg_json_text = (\<lambda>_. [])\<rparr> ascii_tables plain_codec ?ctx ?u None None None (Some 70)
      (request ''next'' 3 None) ?d = Inr page" "map cs_candidate_id (pg_items page) = [3]" by (elim exE conjE) (rule that)
  then obtain item where "item \<in> set (pg_items page)" "cs_candidate_id item = 3" by (cases "pg_items page") auto
  with search_confined_to_applicants [OF ten run(1), of item 70 0] run show ?thesis by auto
qed

end
