(* ===== verification/Redis_Store.thy ===== *)
theory Redis_Store
  imports ATS_Prelude "HOL-Library.Product_Lexorder" "HOL-Library.List_Lexorder" "HOL-Library.AList"
begin

text \<open>
  The key-value store (Redis) behind the sessions, the caches and the one-time codes. The server
  is not part of the repository: the definitions that use it take the function \<open>run\<close>, which
  sends a batch of commands at a time and returns the replies (or nothing, when the server cannot be reached).
  The locale \<open>redis_store\<close> states what the code relies on, the documented effect of the
  commands that it uses, on a view of the server's state. A number that is written with \<open>str\<close> and
  read back with \<open>float\<close>, and a document written with \<open>json.dumps\<close> and read
  back with \<open>json.loads\<close>, are kept as the number and the document.
\<close>

section \<open>Values, keys and their expiry\<close>

datatype hval = HS utext | HT time | HF real

datatype 'e rval =
    RString json
  | RHash "(string \<times> hval) list"
  | RZset "(utext \<times> time) list"
  | RList "'e list"

type_synonym 'e entry = "'e rval \<times> time option"
type_synonym 'e store = "utext \<Rightarrow> 'e entry option"

abbreviation seconds :: int where "seconds \<equiv> 1000000"

definition live :: "time \<Rightarrow> 'e store \<Rightarrow> utext \<Rightarrow> 'e entry option" where
  "live t st k = (case st k of
      None \<Rightarrow> None
    | Some (v, None) \<Rightarrow> Some (v, None)
    | Some (v, Some x) \<Rightarrow> if t < x then Some (v, Some x) else None)"

text \<open>A write to an existing key keeps its expiry; the empty collection is no key.\<close>

definition rwrite :: "time \<Rightarrow> utext \<Rightarrow> 'e rval \<Rightarrow> 'e store \<Rightarrow> 'e store" where
  "rwrite t k v st = st(k := if v = RZset [] \<or> v = RList [] \<or> v = RHash [] then None
      else Some (v, case live t st k of None \<Rightarrow> None | Some (_, x) \<Rightarrow> x))"

section \<open>Commands\<close>

datatype 'e cmd =
    HSET utext "(string \<times> hval) list"
  | HGETALL utext
  | HGET utext string
  | EXPIRE utext int
  | ZADD utext bool "(utext \<times> time) list"
  | ZREM utext "utext list"
  | ZREMRANGEBYSCORE utext time
  | ZREMRANGEBYRANK utext int int
  | ZRANGE utext
  | ZREVRANGE utext
  | LPUSH utext 'e
  | LTRIM utext nat
  | LRANGE utext
  | SET utext json bool "int option"
  | GET utext
  | EXISTS utext
  | DEL "utext list"

datatype 'e reply =
    Done
  | Nil_Reply
  | Flag bool
  | Hash "(string \<times> hval) list"
  | Field "hval option"
  | Members "(utext \<times> time) list"
  | Entries "'e list"
  | Value json
  | Wrong_Type

text \<open>The fields of a hash and the members of a sorted set: the last write of a name wins.\<close>

definition put_assoc :: "('k \<times> 'v) list \<Rightarrow> ('k \<times> 'v) list \<Rightarrow> ('k \<times> 'v) list" where
  "put_assoc new old = fold (\<lambda>(k, v). AList.update k v) new old"

definition by_score :: "(utext \<times> time) list \<Rightarrow> (utext \<times> time) list" where
  "by_score zs = sort_key (\<lambda>(m, s). (s, m)) zs"

definition rank_range :: "int \<Rightarrow> int \<Rightarrow> 'a list \<Rightarrow> 'a list" where
  "rank_range start stop xs =
     (let n = int (length xs); norm = (\<lambda>i. if i < 0 then i + n else i);
          a = max 0 (norm start); b = norm stop
      in if b < a then [] else take (nat (b - a + 1)) (drop (nat a) xs))"

definition zset_of :: "time \<Rightarrow> utext \<Rightarrow> 'e store \<Rightarrow> (utext \<times> time) list option" where
  "zset_of t k st = (case live t st k of None \<Rightarrow> Some [] | Some (RZset zs, _) \<Rightarrow> Some zs | _ \<Rightarrow> None)"

definition hash_of :: "time \<Rightarrow> utext \<Rightarrow> 'e store \<Rightarrow> (string \<times> hval) list option" where
  "hash_of t k st = (case live t st k of None \<Rightarrow> Some [] | Some (RHash h, _) \<Rightarrow> Some h | _ \<Rightarrow> None)"

definition list_of :: "time \<Rightarrow> utext \<Rightarrow> 'e store \<Rightarrow> 'e list option" where
  "list_of t k st = (case live t st k of None \<Rightarrow> Some [] | Some (RList es, _) \<Rightarrow> Some es | _ \<Rightarrow> None)"

fun redis_cmd :: "time \<Rightarrow> 'e cmd \<Rightarrow> 'e store \<Rightarrow> 'e reply \<times> 'e store" where
  "redis_cmd t (HSET k fs) st = (case hash_of t k st of None \<Rightarrow> (Wrong_Type, st)
     | Some h \<Rightarrow> (Done, rwrite t k (RHash (put_assoc fs h)) st))"
| "redis_cmd t (HGETALL k) st = (case hash_of t k st of None \<Rightarrow> (Wrong_Type, st) | Some h \<Rightarrow> (Hash h, st))"
| "redis_cmd t (HGET k f) st = (case hash_of t k st of None \<Rightarrow> (Wrong_Type, st) | Some h \<Rightarrow> (Field (map_of h f), st))"
| "redis_cmd t (EXPIRE k n) st = (case live t st k of None \<Rightarrow> (Flag False, st)
     | Some (v, _) \<Rightarrow> (Flag True, st(k \<mapsto> (v, Some (t + n * seconds)))))"
| "redis_cmd t (ZADD k xx ms) st = (case zset_of t k st of None \<Rightarrow> (Wrong_Type, st)
     | Some zs \<Rightarrow> (Done, rwrite t k (RZset (put_assoc (if xx then filter (\<lambda>(m, _). m \<in> fst ` set zs) ms else ms) zs)) st))"
| "redis_cmd t (ZREM k ms) st = (case zset_of t k st of None \<Rightarrow> (Wrong_Type, st)
     | Some zs \<Rightarrow> (Done, rwrite t k (RZset (filter (\<lambda>(m, _). m \<notin> set ms) zs)) st))"
| "redis_cmd t (ZREMRANGEBYSCORE k mx) st = (case zset_of t k st of None \<Rightarrow> (Wrong_Type, st)
     | Some zs \<Rightarrow> (Done, rwrite t k (RZset (filter (\<lambda>(_, s). mx < s) zs)) st))"
| "redis_cmd t (ZREMRANGEBYRANK k a b) st = (case zset_of t k st of None \<Rightarrow> (Wrong_Type, st)
     | Some zs \<Rightarrow> (Done, rwrite t k (RZset (filter (\<lambda>z. z \<notin> set (rank_range a b (by_score zs))) zs)) st))"
| "redis_cmd t (ZRANGE k) st = (case zset_of t k st of None \<Rightarrow> (Wrong_Type, st) | Some zs \<Rightarrow> (Members (by_score zs), st))"
| "redis_cmd t (ZREVRANGE k) st = (case zset_of t k st of None \<Rightarrow> (Wrong_Type, st)
     | Some zs \<Rightarrow> (Members (rev (by_score zs)), st))"
| "redis_cmd t (LPUSH k e) st = (case list_of t k st of None \<Rightarrow> (Wrong_Type, st)
     | Some es \<Rightarrow> (Done, rwrite t k (RList (e # es)) st))"
| "redis_cmd t (LTRIM k n) st = (case list_of t k st of None \<Rightarrow> (Wrong_Type, st)
     | Some es \<Rightarrow> (Done, rwrite t k (RList (take (Suc n) es)) st))"
| "redis_cmd t (LRANGE k) st = (case list_of t k st of None \<Rightarrow> (Wrong_Type, st) | Some es \<Rightarrow> (Entries es, st))"
| "redis_cmd t (SET k v nx ex) st =
     (if nx \<and> live t st k \<noteq> None then (Nil_Reply, st)
      else (Done, st(k \<mapsto> (RString v, map_option (\<lambda>n. t + n * seconds) ex))))"
| "redis_cmd t (GET k) st = (case live t st k of None \<Rightarrow> (Nil_Reply, st)
     | Some (RString v, _) \<Rightarrow> (Value v, st) | _ \<Rightarrow> (Wrong_Type, st))"
| "redis_cmd t (EXISTS k) st = (Flag (live t st k \<noteq> None), st)"
| "redis_cmd t (DEL ks) st = (Done, \<lambda>k. if k \<in> set ks then None else st k)"

fun redis_exec :: "time \<Rightarrow> 'e cmd list \<Rightarrow> 'e store \<Rightarrow> 'e reply list \<times> 'e store" where
  "redis_exec t [] st = ([], st)"
| "redis_exec t (c # cs) st =
     (let (r, st1) = redis_cmd t c st; (rs, st2) = redis_exec t cs st1 in (r # rs, st2))"

text \<open>The client raises \<open>RedisError\<close> when the server cannot be reached or a reply is an error.\<close>

type_synonym ('e, 's) server = "time \<Rightarrow> 'e cmd list \<Rightarrow> 's \<Rightarrow> 'e reply list option \<times> 's"

definition execute :: "('e, 's) server \<Rightarrow> ('e, 's) server" where
  "execute run t cs s =
     (case run t cs s of
        (None, s') \<Rightarrow> (None, s')
      | (Some rs, s') \<Rightarrow> if Wrong_Type \<in> set rs then (None, s') else (Some rs, s'))"

section \<open>What the code relies on\<close>

locale redis_store =
  fixes run :: "('e, 's) server" and view :: "'s \<Rightarrow> 'e store"
  assumes run_documented: "run t cs s = (Some rs, s') \<Longrightarrow> redis_exec t cs (view s) = (rs, view s')"
begin

lemma execute_documented:
  "execute run t cs s = (Some rs, s') \<Longrightarrow> redis_exec t cs (view s) = (rs, view s') \<and> Wrong_Type \<notin> set rs"
  by (auto simp: execute_def run_documented split: prod.splits option.splits if_splits)

end

text \<open>The server that is always reachable and keeps its state in memory.\<close>

definition mem_server :: "('e, 'e store) server" where
  "mem_server t cs st = (let (rs, st') = redis_exec t cs st in (Some rs, st'))"

interpretation mem: redis_store mem_server "\<lambda>st. st"
  by unfold_locales (auto simp: mem_server_def split: prod.splits)

section \<open>Reading after writing\<close>

lemma put_assoc_simps [simp]:
  "put_assoc [] old = old" "put_assoc ((k, v) # new) old = put_assoc new (AList.update k v old)"
  by (simp_all add: put_assoc_def)

lemma set_put_assoc: "fst ` set (put_assoc new old) = fst ` set new \<union> fst ` set old"
proof (induction new arbitrary: old)
  case (Cons kv new)
  then show ?case by (cases kv) (simp add: dom_update)
qed simp

lemma map_of_put_assoc:
  assumes "distinct (map fst new)"
  shows "map_of (put_assoc new old) = map_of old ++ map_of new"
  using assms
proof (induction new arbitrary: old)
  case (Cons kv new)
  obtain k v where kv: "kv = (k, v)" by (cases kv)
  have "k \<notin> dom (map_of new)" using Cons.prems by (simp add: kv dom_map_of_conv_image_fst)
  then have "(map_of old)(k \<mapsto> v) ++ map_of new = (map_of old ++ map_of new)(k \<mapsto> v)"
    by (rule map_add_upd_left)
  moreover have "map_of (put_assoc new (AList.update k v old)) = (map_of old)(k \<mapsto> v) ++ map_of new"
    using Cons by (simp add: kv update_conv')
  ultimately show ?case by (simp only: kv put_assoc_simps map_of.simps map_add_upd fst_conv snd_conv)
qed simp

lemma distinct_put_assoc: "distinct (map fst old) \<Longrightarrow> distinct (map fst (put_assoc new old))"
  by (induction new arbitrary: old) (auto simp: distinct_update)

lemma put_assoc_Nil: "put_assoc new old = [] \<longleftrightarrow> new = [] \<and> old = []"
proof -
  have "fst ` set (put_assoc new old) = {} \<longleftrightarrow> new = [] \<and> old = []" by (auto simp: set_put_assoc)
  then show ?thesis by simp
qed

lemma set_by_score [simp]: "set (by_score zs) = set zs"
  by (simp add: by_score_def)

end
