(* ===== verification/Sessions.thy ===== *)
theory Sessions
  imports Redis_Store
begin

text \<open>
  Sessions (app/core/sessions.py) and the geographic side of the login check (app/core/geoip.py).
  Every login creates a session in the key-value store; a refresh token is valid only as long as its session exists
  and carries its identifier. Parameters: the store (\<open>run\<close>), the user-agent parser,
  the location database, the clock and the random identifiers.
\<close>

section \<open>Settings and keys\<close>

record settings =
  REFRESH_TOKEN_EXPIRE_DAYS :: int
  ACCESS_TOKEN_EXPIRE_MINUTES :: int
  SUSPICIOUS_LOGIN_DISTANCE_KM :: real
  SUSPICIOUS_LOGIN_SPEED_KMH :: real

definition SESSION_KEY_PREFIX :: utext where "SESSION_KEY_PREFIX = utext_of ''session:''"
definition USER_SESSIONS_KEY_PREFIX :: utext where "USER_SESSIONS_KEY_PREFIX = utext_of ''user_sessions:''"
definition REVOKED_REFRESH_KEY_PREFIX :: utext where "REVOKED_REFRESH_KEY_PREFIX = utext_of ''revoked_refresh:''"
definition SESSION_TOUCH_KEY_PREFIX :: utext where "SESSION_TOUCH_KEY_PREFIX = utext_of ''session_touch:''"
definition KNOWN_DEVICES_KEY_PREFIX :: utext where "KNOWN_DEVICES_KEY_PREFIX = utext_of ''user_known_devices:''"
definition LOGIN_HISTORY_KEY_PREFIX :: utext where "LOGIN_HISTORY_KEY_PREFIX = utext_of ''user_login_history:''"

definition KNOWN_DEVICES_TTL_SECONDS :: int where "KNOWN_DEVICES_TTL_SECONDS = 90 * 24 * 3600"
definition KNOWN_DEVICES_MAX :: int where "KNOWN_DEVICES_MAX = 50"
definition LOGIN_HISTORY_MAX :: nat where "LOGIN_HISTORY_MAX = 20"
definition ACTIVITY_THROTTLE_SECONDS :: int where "ACTIVITY_THROTTLE_SECONDS = 60"
definition REFRESH_REUSE_GRACE_SECONDS :: int where "REFRESH_REUSE_GRACE_SECONDS = 10"
definition MAX_ROTATION_ATTEMPTS :: nat where "MAX_ROTATION_ATTEMPTS = 3"

lemmas prefix_defs = SESSION_KEY_PREFIX_def USER_SESSIONS_KEY_PREFIX_def REVOKED_REFRESH_KEY_PREFIX_def
  SESSION_TOUCH_KEY_PREFIX_def KNOWN_DEVICES_KEY_PREFIX_def LOGIN_HISTORY_KEY_PREFIX_def

definition session_key :: "utext \<Rightarrow> utext" where "session_key session_id = SESSION_KEY_PREFIX @ session_id"
definition user_sessions_key :: "utext \<Rightarrow> utext" where "user_sessions_key user_id = USER_SESSIONS_KEY_PREFIX @ user_id"
definition revoked_key :: "utext \<Rightarrow> utext" where "revoked_key jti = REVOKED_REFRESH_KEY_PREFIX @ jti"
definition touch_key :: "utext \<Rightarrow> utext" where "touch_key session_id = SESSION_TOUCH_KEY_PREFIX @ session_id"
definition known_key :: "utext \<Rightarrow> utext" where "known_key user_id = KNOWN_DEVICES_KEY_PREFIX @ user_id"
definition history_key :: "utext \<Rightarrow> utext" where "history_key user_id = LOGIN_HISTORY_KEY_PREFIX @ user_id"

lemmas key_defs = session_key_def user_sessions_key_def revoked_key_def touch_key_def known_key_def history_key_def

definition refresh_lifetime_seconds :: "settings \<Rightarrow> int" where
  "refresh_lifetime_seconds cfg = REFRESH_TOKEN_EXPIRE_DAYS cfg * 24 * 3600"

section \<open>Devices\<close>

record DeviceInfo =
  dv_browser :: utext
  dv_browser_version :: utext
  dv_os :: utext
  dv_os_version :: utext
  dv_device_type :: utext
  dv_device :: utext

definition fingerprint :: "DeviceInfo \<Rightarrow> utext" where
  "fingerprint d = dv_browser d @ utext_of ''|'' @ dv_os d"

text \<open>What the user-agent library reports.\<close>

record parsed_ua =
  ua_is_bot :: bool
  ua_is_tablet :: bool
  ua_is_mobile :: bool
  ua_is_pc :: bool
  ua_brand :: "utext option"
  ua_model :: "utext option"
  ua_browser_family :: utext
  ua_browser_version :: utext
  ua_os_family :: utext
  ua_os_version :: utext

fun join_texts :: "utext \<Rightarrow> utext list \<Rightarrow> utext" where
  "join_texts sep [] = []"
| "join_texts sep [x] = x"
| "join_texts sep (x # xs) = x @ sep @ join_texts sep xs"

definition truthy :: "utext option \<Rightarrow> bool" where
  "truthy t \<longleftrightarrow> t \<noteq> None \<and> t \<noteq> Some []"

definition or_else :: "utext \<Rightarrow> utext \<Rightarrow> utext" where
  "or_else a b = (if a = [] then b else a)"

definition parse_user_agent :: "(utext \<Rightarrow> parsed_ua) \<Rightarrow> utext option \<Rightarrow> DeviceInfo" where
  "parse_user_agent parse_ua user_agent =
     (let ua = parse_ua (case user_agent of None \<Rightarrow> [] | Some u \<Rightarrow> u);
          device_type = (if ua_is_bot ua then ''bot'' else if ua_is_tablet ua then ''tablet''
            else if ua_is_mobile ua then ''mobile'' else if ua_is_pc ua then ''desktop'' else ''other'')
      in \<lparr>dv_browser = or_else (ua_browser_family ua) (utext_of ''Other''), dv_browser_version = ua_browser_version ua,
          dv_os = or_else (ua_os_family ua) (utext_of ''Other''), dv_os_version = ua_os_version ua,
          dv_device_type = utext_of device_type,
          dv_device = join_texts (utext_of '' '') (map the (filter truthy [ua_brand ua, ua_model ua]))\<rparr>)"

text \<open>\<open>str.split(sep)\<close> for a separator of one character.\<close>

fun split_on :: "nat \<Rightarrow> utext \<Rightarrow> utext list" where
  "split_on c [] = [[]]"
| "split_on c (x # xs) = (if x = c then [] # split_on c xs
     else case split_on c xs of [] \<Rightarrow> [[x]] | w # ws \<Rightarrow> (x # w) # ws)"

definition cp_colon :: nat where "cp_colon = 58"

definition mask_ip :: "utext option \<Rightarrow> utext" where
  "mask_ip ip =
     (case ip of
        None \<Rightarrow> []
      | Some a \<Rightarrow>
          (if a = [] then []
           else if cp_colon \<in> set a then join_texts (utext_of '':'') (take 3 (split_on cp_colon a)) @ utext_of '':x''
           else let parts = split_on 46 a
             in if length parts = 4 then join_texts (utext_of ''.'') (take 3 parts @ [utext_of ''x'']) else a))"

section \<open>Locations\<close>

record GeoLocation =
  g_country_code :: "utext option"
  g_country :: "utext option"
  g_city :: "utext option"
  g_latitude :: "real option"
  g_longitude :: "real option"

definition has_coordinates :: "GeoLocation \<Rightarrow> bool" where
  "has_coordinates g \<longleftrightarrow> g_latitude g \<noteq> None \<and> g_longitude g \<noteq> None"

definition EARTH_RADIUS_KM :: real where "EARTH_RADIUS_KM = 6371"

definition radians :: "real \<Rightarrow> real" where "radians x = x * pi / 180"

definition haversine_km :: "real \<Rightarrow> real \<Rightarrow> real \<Rightarrow> real \<Rightarrow> real" where
  "haversine_km lat1 lon1 lat2 lon2 =
     (let phi1 = radians lat1; phi2 = radians lat2;
          d_phi = radians (lat2 - lat1); d_lambda = radians (lon2 - lon1);
          a = (sin (d_phi / 2))\<^sup>2 + cos phi1 * cos phi2 * (sin (d_lambda / 2))\<^sup>2
      in 2 * EARTH_RADIUS_KM * arcsin (sqrt a))"

section \<open>New devices and suspicious logins\<close>

record login_entry =
  le_ts :: time
  le_ip :: utext
  le_country_code :: "utext option"
  le_lat :: "real option"
  le_lon :: "real option"

datatype reason =
    New_Country utext
  | Impossible_Travel real real

record LoginAssessment =
  as_first_login :: bool
  as_new_device :: bool
  as_new_ip :: bool
  as_suspicious :: bool
  as_reasons :: "reason list"

definition should_alert_new_device :: "LoginAssessment \<Rightarrow> bool" where
  "should_alert_new_device a \<longleftrightarrow> \<not> as_first_login a \<and> \<not> as_suspicious a \<and> (as_new_device a \<or> as_new_ip a)"

definition detect_anomaly :: "settings \<Rightarrow> login_entry list \<Rightarrow> GeoLocation option \<Rightarrow> time \<Rightarrow> reason list" where
  "detect_anomaly cfg history geo now =
     (case geo of
        None \<Rightarrow> []
      | Some g \<Rightarrow>
          (let known_countries = map le_country_code (filter (\<lambda>e. truthy (le_country_code e)) history);
               country = (if truthy (g_country_code g) \<and> known_countries \<noteq> [] \<and> g_country_code g \<notin> set known_countries
                 then [New_Country (the (if truthy (g_country g) then g_country g else g_country_code g))] else []);
               previous = find (\<lambda>e. le_lat e \<noteq> None \<and> le_lon e \<noteq> None) history
           in country @
              (case (g_latitude g, g_longitude g, previous) of
                 (Some lat, Some lon, Some p) \<Rightarrow>
                   (let distance = haversine_km (the (le_lat p)) (the (le_lon p)) lat lon;
                        hours = of_int (max (now - le_ts p) (60 * seconds)) / of_int (3600 * seconds)
                    in if SUSPICIOUS_LOGIN_DISTANCE_KM cfg < distance \<and> SUSPICIOUS_LOGIN_SPEED_KMH cfg < distance / hours
                       then [Impossible_Travel distance (hours * 60)] else [])
               | _ \<Rightarrow> [])))"

definition assess_login ::
  "settings \<Rightarrow> utext list \<Rightarrow> login_entry list \<Rightarrow> DeviceInfo \<Rightarrow> utext \<Rightarrow> GeoLocation option \<Rightarrow> time \<Rightarrow> LoginAssessment" where
  "assess_login cfg known_members history device ip geo now =
     (let first_login = (known_members = [] \<and> history = []);
          reasons = (if first_login then [] else detect_anomaly cfg history geo now)
      in \<lparr>as_first_login = first_login,
          as_new_device = (utext_of ''ua:'' @ fingerprint device \<notin> set known_members),
          as_new_ip = (ip \<noteq> [] \<and> utext_of ''ip:'' @ ip \<notin> set known_members),
          as_suspicious = (reasons \<noteq> []), as_reasons = reasons\<rparr>)"

section \<open>The life of a session\<close>

datatype session_error = SessionStoreUnavailable | SessionInvalid string | KeyError string

type_synonym session_data = "(string \<times> hval) list"

record CreatedSession =
  cr_session_id :: utext
  cr_refresh_jti :: utext
  cr_data :: session_data
  cr_assessment :: LoginAssessment
  cr_geo :: "GeoLocation option"

type_synonym 's sserver = "(login_entry, 's) server"

definition text_or_empty :: "utext option \<Rightarrow> hval" where
  "text_or_empty t = HS (case t of None \<Rightarrow> [] | Some x \<Rightarrow> x)"

definition coordinate :: "GeoLocation option \<Rightarrow> (GeoLocation \<Rightarrow> real option) \<Rightarrow> hval" where
  "coordinate geo sel = (case geo of None \<Rightarrow> HS [] | Some g \<Rightarrow> if has_coordinates g then HF (the (sel g)) else HS [])"

definition session_fields ::
  "utext \<Rightarrow> utext \<Rightarrow> utext \<Rightarrow> utext option \<Rightarrow> utext \<Rightarrow> utext option \<Rightarrow> DeviceInfo \<Rightarrow> GeoLocation option \<Rightarrow> time \<Rightarrow> int \<Rightarrow> bool
   \<Rightarrow> session_data" where
  "session_fields session_id refresh_jti user_id tenant_id ip user_agent device geo now lifetime suspicious =
     [(''sid'', HS session_id), (''user_id'', HS user_id), (''tenant_id'', text_or_empty tenant_id), (''ip'', HS ip),
      (''user_agent'', HS (take 512 (case user_agent of None \<Rightarrow> [] | Some u \<Rightarrow> u))),
      (''browser'', HS (dv_browser device)), (''browser_version'', HS (dv_browser_version device)),
      (''os'', HS (dv_os device)), (''os_version'', HS (dv_os_version device)),
      (''device_type'', HS (dv_device_type device)), (''device'', HS (dv_device device)),
      (''country_code'', text_or_empty (Option.bind geo g_country_code)), (''country'', text_or_empty (Option.bind geo g_country)),
      (''city'', text_or_empty (Option.bind geo g_city)),
      (''lat'', coordinate geo g_latitude), (''lon'', coordinate geo g_longitude),
      (''created_at'', HT now), (''last_active_at'', HT now), (''expires_at'', HT (now + lifetime * seconds)),
      (''refresh_jti'', HS refresh_jti), (''previous_jti'', HS []), (''rotated_at'', HS []),
      (''suspicious'', HS (if suspicious then utext_of ''1'' else utext_of ''0''))]"

text \<open>The known devices and the login history of the user: the fifty latest devices, the twenty latest logins.\<close>

definition login_entry_of :: "time \<Rightarrow> utext \<Rightarrow> GeoLocation option \<Rightarrow> login_entry" where
  "login_entry_of now ip geo =
     \<lparr>le_ts = now, le_ip = ip,
      le_country_code = (case Option.bind geo g_country_code of None \<Rightarrow> None | Some c \<Rightarrow> if c = [] then None else Some c),
      le_lat = (case geo of None \<Rightarrow> None | Some g \<Rightarrow> if has_coordinates g then g_latitude g else None),
      le_lon = (case geo of None \<Rightarrow> None | Some g \<Rightarrow> if has_coordinates g then g_longitude g else None)\<rparr>"

definition device_commands :: "utext \<Rightarrow> (utext \<times> time) list \<Rightarrow> login_entry \<Rightarrow> login_entry cmd list" where
  "device_commands user_id new_known history_entry =
     [ZADD (known_key user_id) False new_known,
      ZREMRANGEBYRANK (known_key user_id) 0 (- (KNOWN_DEVICES_MAX + 1)),
      EXPIRE (known_key user_id) KNOWN_DEVICES_TTL_SECONDS,
      LPUSH (history_key user_id) history_entry,
      LTRIM (history_key user_id) (LOGIN_HISTORY_MAX - 1),
      EXPIRE (history_key user_id) KNOWN_DEVICES_TTL_SECONDS]"

definition create_session ::
  "'s sserver \<Rightarrow> settings \<Rightarrow> (utext \<Rightarrow> parsed_ua) \<Rightarrow> (utext \<Rightarrow> GeoLocation option) \<Rightarrow> time \<Rightarrow> utext \<Rightarrow> utext \<Rightarrow>
   utext \<Rightarrow> utext option \<Rightarrow> utext \<Rightarrow> utext option \<Rightarrow> 's \<Rightarrow> (session_error + CreatedSession) \<times> 's" where
  "create_session run cfg parse_ua geoip_lookup now session_id refresh_jti user_id tenant_id ip user_agent s =
     (let device = parse_user_agent parse_ua user_agent;
          geo = geoip_lookup ip;
          lifetime = refresh_lifetime_seconds cfg
      in case execute run now [ZRANGE (known_key user_id), LRANGE (history_key user_id)] s of
           (Some [Members known, Entries history], s1) \<Rightarrow>
             (let assessment = assess_login cfg (map fst known) history device ip geo now;
                  data = session_fields session_id refresh_jti user_id tenant_id ip user_agent device geo now lifetime
                    (as_suspicious assessment);
                  new_known = (utext_of ''ua:'' @ fingerprint device, now) # (if ip \<noteq> [] then [(utext_of ''ip:'' @ ip, now)] else [])
              in case execute run now
                   ([HSET (session_key session_id) data,
                    EXPIRE (session_key session_id) lifetime,
                    ZADD (user_sessions_key user_id) False [(session_id, now)],
                    ZREMRANGEBYSCORE (user_sessions_key user_id) (now - lifetime * seconds),
                    EXPIRE (user_sessions_key user_id) lifetime] @ device_commands user_id new_known (login_entry_of now ip geo)) s1 of
                   (None, s2) \<Rightarrow> (Inl SessionStoreUnavailable, s2)
                 | (Some _, s2) \<Rightarrow> (Inr \<lparr>cr_session_id = session_id, cr_refresh_jti = refresh_jti, cr_data = data,
                     cr_assessment = assessment, cr_geo = geo\<rparr>, s2))
         | (_, s1) \<Rightarrow> (Inl SessionStoreUnavailable, s1))"

text \<open>
  The remaining life of a token in whole seconds, at least one; a time field that was never set is the empty text.
\<close>

definition time_field :: "session_data \<Rightarrow> string \<Rightarrow> time option" where
  "time_field data f = (case map_of data f of Some (HT t) \<Rightarrow> Some t | _ \<Rightarrow> None)"

definition text_field :: "session_data \<Rightarrow> string \<Rightarrow> utext option" where
  "text_field data f = (case map_of data f of Some (HS t) \<Rightarrow> Some t | _ \<Rightarrow> None)"

definition remaining_seconds :: "time \<Rightarrow> time \<Rightarrow> int" where
  "remaining_seconds expires_at now = max 1 ((expires_at - now) div seconds)"

definition revoke_session :: "'s sserver \<Rightarrow> time \<Rightarrow> utext \<Rightarrow> utext option \<Rightarrow> 's \<Rightarrow> (session_error + bool) \<times> 's" where
  "revoke_session run now session_id user_id s =
     (case execute run now [HGETALL (session_key session_id)] s of
        (Some [Hash data], s1) \<Rightarrow>
          if data = [] \<or> (user_id \<noteq> None \<and> text_field data ''user_id'' \<noteq> user_id) then (Inr False, s1)
          else
            (let remaining = remaining_seconds (case time_field data ''expires_at'' of None \<Rightarrow> 0 | Some x \<Rightarrow> x) now
             in case (text_field data ''refresh_jti'', text_field data ''user_id'') of
                  (None, _) \<Rightarrow> (Inl (KeyError ''refresh_jti''), s1)
                | (_, None) \<Rightarrow> (Inl (KeyError ''user_id''), s1)
                | (Some refresh_jti, Some owner_id) \<Rightarrow>
                    (case execute run now
                       [SET (revoked_key refresh_jti) (JStr (utext_of ''revoked'')) False (Some remaining),
                        DEL [session_key session_id, touch_key session_id],
                        ZREM (user_sessions_key owner_id) [session_id]] s1 of
                       (None, s2) \<Rightarrow> (Inl SessionStoreUnavailable, s2)
                     | (Some _, s2) \<Rightarrow> (Inr True, s2)))
      | (_, s1) \<Rightarrow> (Inl SessionStoreUnavailable, s1))"

record RefreshOutcome =
  ro_data :: session_data
  ro_new_refresh_jti :: "utext option"

text \<open>
  Between the reads of an attempt and its transaction other clients may act (\<open>others\<close>): they leave
  a new state and whether they touched the watched key, in which case the transaction is refused.
\<close>

primrec rotate_attempts ::
  "'s sserver \<Rightarrow> settings \<Rightarrow> (nat \<Rightarrow> 's \<Rightarrow> bool \<times> 's) \<Rightarrow> (nat \<Rightarrow> time) \<Rightarrow> (nat \<Rightarrow> utext) \<Rightarrow> utext \<Rightarrow> utext \<Rightarrow> utext \<Rightarrow>
   nat \<Rightarrow> 's \<Rightarrow> (session_error + RefreshOutcome) \<times> 's" where
  "rotate_attempts run cfg others clock fresh session_id jti user_id 0 s = (Inl (SessionInvalid ''concurrent_rotation''), s)"
| "rotate_attempts run cfg others clock fresh session_id jti user_id (Suc n) s =
     (let key = session_key session_id; lifetime = refresh_lifetime_seconds cfg; now = clock n
      in case execute run now [HGETALL key, EXISTS (revoked_key jti)] s of
           (Some [Hash data, Flag blacklisted], s1) \<Rightarrow>
             if data = [] \<or> text_field data ''user_id'' \<noteq> Some user_id
             then (Inl (SessionInvalid (if blacklisted then ''revoked'' else ''unknown_session'')), s1)
             else if text_field data ''previous_jti'' = Some jti \<and>
                     (case time_field data ''rotated_at'' of None \<Rightarrow> False
                        | Some r \<Rightarrow> now - r \<le> REFRESH_REUSE_GRACE_SECONDS * seconds)
             then (Inr \<lparr>ro_data = data, ro_new_refresh_jti = None\<rparr>, s1)
             else if text_field data ''refresh_jti'' \<noteq> Some jti \<or> blacklisted
             then (case revoke_session run now session_id None s1 of
                     (Inl e, s2) \<Rightarrow> (Inl e, s2)
                   | (Inr _, s2) \<Rightarrow> (Inl (SessionInvalid ''refresh_token_reuse''), s2))
             else (case time_field data ''expires_at'' of
                     None \<Rightarrow> (Inl (KeyError ''expires_at''), s1)
                   | Some expires_at \<Rightarrow>
                       (let new_jti = fresh n;
                            update = [(''refresh_jti'', HS new_jti), (''previous_jti'', HS jti), (''rotated_at'', HT now),
                              (''last_active_at'', HT now), (''expires_at'', HT (now + lifetime * seconds))];
                            (touched, s2) = others n s1
                        in if touched
                           then rotate_attempts run cfg others clock fresh session_id jti user_id n s2
                           else case execute run now
                             [HSET key update,
                              EXPIRE key lifetime,
                              SET (revoked_key jti) (JStr (utext_of ''rotated'')) False (Some (remaining_seconds expires_at now)),
                              ZADD (user_sessions_key user_id) False [(session_id, now)],
                              EXPIRE (user_sessions_key user_id) lifetime] s2 of
                               (None, s3) \<Rightarrow> (Inl SessionStoreUnavailable, s3)
                             | (Some _, s3) \<Rightarrow> (Inr \<lparr>ro_data = put_assoc update data, ro_new_refresh_jti = Some new_jti\<rparr>, s3)))
         | (_, s1) \<Rightarrow> (Inl SessionStoreUnavailable, s1))"

definition rotate_refresh ::
  "'s sserver \<Rightarrow> settings \<Rightarrow> (nat \<Rightarrow> 's \<Rightarrow> bool \<times> 's) \<Rightarrow> (nat \<Rightarrow> time) \<Rightarrow> (nat \<Rightarrow> utext) \<Rightarrow> utext \<Rightarrow> utext \<Rightarrow> utext \<Rightarrow>
   's \<Rightarrow> (session_error + RefreshOutcome) \<times> 's" where
  "rotate_refresh run cfg others clock fresh session_id jti user_id s =
     rotate_attempts run cfg others clock fresh session_id jti user_id MAX_ROTATION_ATTEMPTS s"

definition refreshed_activity :: "utext \<times> time \<Rightarrow> session_data \<Rightarrow> session_data" where
  "refreshed_activity member row =
     put_assoc [(''last_active_at'', HT (max (snd member) (case time_field row ''last_active_at'' of None \<Rightarrow> 0 | Some x \<Rightarrow> x)))] row"

fun hash_replies :: "'e reply list \<Rightarrow> session_data list option" where
  "hash_replies [] = Some []"
| "hash_replies (Hash h # rs) = map_option ((#) h) (hash_replies rs)"
| "hash_replies (_ # rs) = None"

definition list_sessions :: "'s sserver \<Rightarrow> time \<Rightarrow> utext \<Rightarrow> 's \<Rightarrow> (session_error + session_data list) \<times> 's" where
  "list_sessions run now user_id s =
     (let index_key = user_sessions_key user_id
      in case execute run now [ZREVRANGE index_key] s of
           (Some [Members indexed], s1) \<Rightarrow>
             if indexed = [] then (Inr [], s1)
             else (case execute run now (map (\<lambda>(sid, _). HGETALL (session_key sid)) indexed) s1 of
                     (None, s2) \<Rightarrow> (Inl SessionStoreUnavailable, s2)
                   | (Some replies, s2) \<Rightarrow>
                       (case hash_replies replies of
                          None \<Rightarrow> (Inl SessionStoreUnavailable, s2)
                        | Some rows \<Rightarrow>
                            (let stale = map (\<lambda>((sid, _), _). sid) (filter (\<lambda>(_, row). row = []) (zip indexed rows));
                                 sessions = map (\<lambda>(member, row). refreshed_activity member row)
                                   (filter (\<lambda>(_, row). row \<noteq> []) (zip indexed rows))
                             in if stale = [] then (Inr sessions, s2)
                                else case execute run now [ZREM index_key stale] s2 of
                                  (None, s3) \<Rightarrow> (Inl SessionStoreUnavailable, s3)
                                | (Some _, s3) \<Rightarrow> (Inr sessions, s3))))
         | (_, s1) \<Rightarrow> (Inl SessionStoreUnavailable, s1))"

primrec revoke_each :: "'s sserver \<Rightarrow> time \<Rightarrow> utext \<Rightarrow> session_data list \<Rightarrow> nat \<Rightarrow> 's \<Rightarrow> (session_error + nat) \<times> 's" where
  "revoke_each run now user_id [] revoked s = (Inr revoked, s)"
| "revoke_each run now user_id (row # rows) revoked s =
     (case text_field row ''sid'' of
        None \<Rightarrow> (Inl (KeyError ''sid''), s)
      | Some sid \<Rightarrow>
          (case revoke_session run now sid (Some user_id) s of
             (Inl e, s1) \<Rightarrow> (Inl e, s1)
           | (Inr done, s1) \<Rightarrow> revoke_each run now user_id rows (if done then Suc revoked else revoked) s1))"

definition revoke_all_sessions :: "'s sserver \<Rightarrow> time \<Rightarrow> utext \<Rightarrow> 's \<Rightarrow> (session_error + nat) \<times> 's" where
  "revoke_all_sessions run now user_id s =
     (case list_sessions run now user_id s of
        (Inl e, s1) \<Rightarrow> (Inl e, s1)
      | (Inr rows, s1) \<Rightarrow> revoke_each run now user_id rows 0 s1)"

definition touch_session :: "'s sserver \<Rightarrow> time \<Rightarrow> utext \<Rightarrow> 's \<Rightarrow> (session_error + bool) \<times> 's" where
  "touch_session run now session_id s =
     (case execute run now
        [HGET (session_key session_id) ''user_id'',
         SET (touch_key session_id) (JStr (utext_of ''1'')) True (Some ACTIVITY_THROTTLE_SECONDS)] s of
        (Some [Field user_id, should_write], s1) \<Rightarrow>
          (case user_id of
             Some (HS uid) \<Rightarrow>
               (if should_write = Done
                then case execute run now [ZADD (user_sessions_key uid) True [(session_id, now)]] s1 of
                    (None, s2) \<Rightarrow> (Inl SessionStoreUnavailable, s2)
                  | (Some _, s2) \<Rightarrow> (Inr True, s2)
                else (Inr True, s1))
           | _ \<Rightarrow> (Inr False, s1))
      | (_, s1) \<Rightarrow> (Inl SessionStoreUnavailable, s1))"

end
