(* ===== verification/Session_Invariant.thy ===== *)
theory Session_Invariant
  imports Sessions
begin

text \<open>
  The invariant of the session store: a live session belongs to the list of its user, which outlives it.
  All session operations keep it, as long as the server answers; so ending all sessions of a user
  leaves none.
\<close>

section \<open>Keys and single commands\<close>

lemma utext_of_eq [simp]: "utext_of a = utext_of b \<longleftrightarrow> a = b"
proof -
  have "inj (map (of_char :: char \<Rightarrow> nat))" by (simp add: inj_on_def)
  then show ?thesis by (auto simp: utext_of_def dest: injD)
qed

lemma key_eq [simp]:
  "session_key a = session_key b \<longleftrightarrow> a = b" "user_sessions_key a = user_sessions_key b \<longleftrightarrow> a = b"
  "session_key a \<noteq> user_sessions_key b" "user_sessions_key b \<noteq> session_key a"
  "session_key a \<noteq> revoked_key b" "user_sessions_key a \<noteq> revoked_key b"
  "session_key a \<noteq> touch_key b" "user_sessions_key a \<noteq> touch_key b"
  "session_key a \<noteq> known_key b" "user_sessions_key a \<noteq> known_key b"
  "session_key a \<noteq> history_key b" "user_sessions_key a \<noteq> history_key b"
  by (simp_all add: key_defs prefix_defs utext_of_def)

fun cmd_keys :: "'e cmd \<Rightarrow> utext set" where
  "cmd_keys (HSET k _) = {k}" | "cmd_keys (HGETALL k) = {}" | "cmd_keys (HGET k _) = {}" | "cmd_keys (EXPIRE k _) = {k}"
| "cmd_keys (ZADD k _ _) = {k}" | "cmd_keys (ZREM k _) = {k}" | "cmd_keys (ZREMRANGEBYSCORE k _) = {k}"
| "cmd_keys (ZREMRANGEBYRANK k _ _) = {k}" | "cmd_keys (ZRANGE k) = {}" | "cmd_keys (ZREVRANGE k) = {}"
| "cmd_keys (LPUSH k _) = {k}" | "cmd_keys (LTRIM k _) = {k}" | "cmd_keys (LRANGE k) = {}" | "cmd_keys (SET k _ _ _) = {k}"
| "cmd_keys (GET k) = {}" | "cmd_keys (EXISTS k) = {}" | "cmd_keys (DEL ks) = set ks"

lemma redis_cmd_frame: "k \<notin> cmd_keys c \<Longrightarrow> snd (redis_cmd t c st) k = st k"
  by (cases c) (auto simp: rwrite_def split: option.splits rval.splits)

lemma redis_exec_frame: "k \<notin> \<Union> (cmd_keys ` set cs) \<Longrightarrow> snd (redis_exec t cs st) k = st k"
proof (induction cs arbitrary: st)
  case (Cons c cs)
  then show ?case using redis_cmd_frame [of k c t st] by (simp split: prod.splits) (metis snd_conv)
qed simp

lemma exec_snd:
  "snd (redis_exec t [] st) = st"
  "snd (redis_exec t (c # cs) st) = snd (redis_exec t cs (snd (redis_cmd t c st)))"
  by (simp_all split: prod.splits)

lemma exec_fst:
  "fst (redis_exec t [] st) = []"
  "fst (redis_exec t (c # cs) st) = fst (redis_cmd t c st) # fst (redis_exec t cs (snd (redis_cmd t c st)))"
  by (simp_all split: prod.splits)

lemma redis_exec_append:
  "redis_exec t (cs @ cs') st = (fst (redis_exec t cs st) @ fst (redis_exec t cs' (snd (redis_exec t cs st))),
     snd (redis_exec t cs' (snd (redis_exec t cs st))))"
  by (induction cs arbitrary: st) (simp_all split: prod.splits)

lemma live_upd [simp]:
  "live t (st(k := e)) k' = (if k' = k then live t (\<lambda>_. e) k else live t st k')"
  by (simp add: live_def)

lemma live_const [simp]:
  "live t (\<lambda>_. None) k = None" "live t (\<lambda>_. Some (v, None)) k = Some (v, None)"
  "live t (\<lambda>_. Some (v, Some x)) k = (if t < x then Some (v, Some x) else None)"
  by (simp_all add: live_def)

lemma live_cong: "st k = st' k \<Longrightarrow> live t st k = live t st' k"
  by (simp add: live_def)

lemma live_const_fresh: "(\<And>x. e = Some x \<Longrightarrow> t < x) \<Longrightarrow> live t (\<lambda>_. Some (v, e)) k = Some (v, e)"
  by (cases e) simp_all

lemma live_fresh: "live t st k = Some (v, Some x) \<Longrightarrow> t < x"
  by (auto simp: live_def split: option.splits if_splits)

lemma live_mono: "live t' st k = Some e \<Longrightarrow> t \<le> t' \<Longrightarrow> live t st k = Some e"
  by (auto simp: live_def split: option.splits if_splits)

lemma update_member: "(a, b) \<in> set zs \<Longrightarrow> a \<noteq> m \<Longrightarrow> (a, b) \<in> set (AList.update m s zs)"
  by (induction zs) auto

lemma update_new: "(m, s) \<in> set (AList.update m s zs)"
  by (induction zs) auto

section \<open>The invariant\<close>

definition tracked :: "int \<Rightarrow> time \<Rightarrow> login_entry store \<Rightarrow> utext \<Rightarrow> session_data \<Rightarrow> time \<Rightarrow> bool" where
  "tracked L t st sid data x \<longleftrightarrow>
     text_field data ''sid'' = Some sid \<and> text_field data ''refresh_jti'' \<noteq> None
     \<and> time_field data ''expires_at'' = Some x \<and> x \<le> t + L
     \<and> (\<exists>uid zs y sc. text_field data ''user_id'' = Some uid
          \<and> live t st (user_sessions_key uid) = Some (RZset zs, Some y) \<and> x \<le> y \<and> (sid, sc) \<in> set zs \<and> x \<le> sc + L)"

definition session_inv :: "int \<Rightarrow> time \<Rightarrow> login_entry store \<Rightarrow> bool" where
  "session_inv L t st \<longleftrightarrow>
     (\<forall>sid data e. live t st (session_key sid) = Some (RHash data, e) \<longrightarrow> (\<exists>x. e = Some x \<and> tracked L t st sid data x))"

lemma session_invD:
  assumes "session_inv L t st" and "live t st (session_key sid) = Some (RHash data, e)"
  obtains x uid zs y sc where "e = Some x" "t < x" "text_field data ''sid'' = Some sid" "text_field data ''refresh_jti'' \<noteq> None"
    "time_field data ''expires_at'' = Some x" "x \<le> t + L" "text_field data ''user_id'' = Some uid"
    "live t st (user_sessions_key uid) = Some (RZset zs, Some y)" "x \<le> y" "(sid, sc) \<in> set zs" "x \<le> sc + L"
proof -
  from assms obtain x where x: "e = Some x" "tracked L t st sid data x" unfolding session_inv_def by blast
  have "t < x" using assms(2) x(1) live_fresh by blast
  with x that show ?thesis unfolding tracked_def by blast
qed

lemma session_inv_empty: "session_inv L t (\<lambda>_. None)"
  by (simp add: session_inv_def live_def)

lemma session_inv_time:
  assumes "session_inv L t st" and "t \<le> t'"
  shows "session_inv L t' st"
  unfolding session_inv_def
proof (intro allI impI)
  fix sid data e
  assume now: "live t' st (session_key sid) = Some (RHash data, e)"
  obtain x uid zs y sc where f: "e = Some x" "t < x" "text_field data ''sid'' = Some sid" "text_field data ''refresh_jti'' \<noteq> None"
    "time_field data ''expires_at'' = Some x" "x \<le> t + L" "text_field data ''user_id'' = Some uid"
    "live t st (user_sessions_key uid) = Some (RZset zs, Some y)" "x \<le> y" "(sid, sc) \<in> set zs" "x \<le> sc + L"
    by (rule session_invD [OF assms(1) live_mono [OF now assms(2)]])
  have "t' < x" using live_fresh now f(1) by blast
  with f(8,9) have "live t' st (user_sessions_key uid) = Some (RZset zs, Some y)"
    by (auto simp: live_def split: option.splits if_splits)
  moreover have "x \<le> t' + L" using f(6) assms(2) by simp
  ultimately have "tracked L t' st sid data x" unfolding tracked_def using f by blast
  with f(1) show "\<exists>x. e = Some x \<and> tracked L t' st sid data x" by blast
qed

text \<open>What a batch of commands has to do to keep the invariant.\<close>

lemma session_inv_step:
  assumes inv: "session_inv L t st"
    and sessions: "\<And>sid d e. live t st' (session_key sid) = Some (RHash d, e) \<Longrightarrow>
      live t st (session_key sid) = Some (RHash d, e) \<or> (\<exists>x. e = Some x \<and> tracked L t st' sid d x)"
    and index: "\<And>uid zs y sid sc x d. live t st (user_sessions_key uid) = Some (RZset zs, Some y) \<Longrightarrow> (sid, sc) \<in> set zs \<Longrightarrow>
      live t st' (session_key sid) = Some (RHash d, Some x) \<Longrightarrow> text_field d ''user_id'' = Some uid \<Longrightarrow>
      x \<le> y \<Longrightarrow> x \<le> sc + L \<Longrightarrow> x \<le> t + L \<Longrightarrow> t < x \<Longrightarrow>
      \<exists>zs' y' sc'. live t st' (user_sessions_key uid) = Some (RZset zs', Some y') \<and> x \<le> y' \<and> (sid, sc') \<in> set zs' \<and> x \<le> sc' + L"
  shows "session_inv L t st'"
  unfolding session_inv_def
proof (intro allI impI)
  fix sid d e
  assume now: "live t st' (session_key sid) = Some (RHash d, e)"
  from sessions [OF now] show "\<exists>x. e = Some x \<and> tracked L t st' sid d x"
  proof
    assume before: "live t st (session_key sid) = Some (RHash d, e)"
    obtain x uid zs y sc where f: "e = Some x" "t < x" "text_field d ''sid'' = Some sid" "text_field d ''refresh_jti'' \<noteq> None"
      "time_field d ''expires_at'' = Some x" "x \<le> t + L" "text_field d ''user_id'' = Some uid"
      "live t st (user_sessions_key uid) = Some (RZset zs, Some y)" "x \<le> y" "(sid, sc) \<in> set zs" "x \<le> sc + L"
      by (rule session_invD [OF inv before])
    have "tracked L t st' sid d x"
      unfolding tracked_def using index [OF f(8,10) now [unfolded f(1)] f(7,9,11,6,2)] f(3-7) by blast
    with f(1) show ?thesis by blast
  qed
qed

section \<open>The batches of commands\<close>

text \<open>Single commands on the list of a user.\<close>

lemma live_zrem:
  assumes "live t st k = Some (RZset zs, Some y)" and "filter (\<lambda>(m, _). m \<notin> set ms) zs \<noteq> []"
  shows "live t (snd (redis_cmd t (ZREM k ms) st)) k = Some (RZset (filter (\<lambda>(m, _). m \<notin> set ms) zs), Some y)"
  using assms live_fresh [OF assms(1)] by (simp add: zset_of_def rwrite_def)

lemma live_zremrangebyscore:
  assumes "live t st k = Some (RZset zs, e)" and "filter (\<lambda>(_, sc). mx < sc) zs \<noteq> []"
  shows "live t (snd (redis_cmd t (ZREMRANGEBYSCORE k mx) st)) k = Some (RZset (filter (\<lambda>(_, sc). mx < sc) zs), e)"
  using assms live_fresh [of t st k] by (cases e) (auto simp: zset_of_def rwrite_def)

lemma live_zadd:
  assumes "zset_of t k st = Some zs"
  shows "live t (snd (redis_cmd t (ZADD k False [(m, sc)]) st)) k =
    Some (RZset (AList.update m sc zs), case live t st k of None \<Rightarrow> None | Some (_, e) \<Rightarrow> e)"
proof -
  have "AList.update m sc zs \<noteq> []" using update_new [of m sc zs] by auto
  then show ?thesis using assms live_fresh [of t st k]
    by (auto simp: rwrite_def zset_of_def live_const_fresh split: option.splits rval.splits)
qed

lemma live_expire:
  "live t (snd (redis_cmd t (EXPIRE k n) st)) k =
     (case live t st k of None \<Rightarrow> None | Some (v, _) \<Rightarrow> if 0 < n then Some (v, Some (t + n * seconds)) else None)"
  by (auto split: option.splits)

lemma live_frame: "k \<notin> cmd_keys c \<Longrightarrow> live t (snd (redis_cmd t c st)) k = live t st k"
  by (rule live_cong) (rule redis_cmd_frame)

text \<open>Ending one session: its key disappears and its name leaves the list of its owner.\<close>

definition revoke_batch :: "utext \<Rightarrow> int \<Rightarrow> utext \<Rightarrow> utext \<Rightarrow> login_entry cmd list" where
  "revoke_batch jti n sid uid = [SET (revoked_key jti) (JStr (utext_of ''revoked'')) False (Some n),
     DEL [session_key sid, touch_key sid], ZREM (user_sessions_key uid) [sid]]"

lemma revoke_batch_sessions:
  "redis_exec t (revoke_batch jti n sid uid) st = (rs, st') \<Longrightarrow>
     st' (session_key sid') = (if sid' = sid then None else st (session_key sid'))"
  by (auto simp: revoke_batch_def rwrite_def split: option.splits)

lemma revoke_batch_index:
  assumes "redis_exec t (revoke_batch jti n sid uid) st = (rs, st')"
    and "live t st (user_sessions_key u) = Some (RZset zs, Some y)" and "(sid', sc) \<in> set zs" and "sid' \<noteq> sid"
  shows "\<exists>zs'. live t st' (user_sessions_key u) = Some (RZset zs', Some y) \<and> (sid', sc) \<in> set zs'"
proof -
  define st1 where "st1 = snd (redis_exec t [SET (revoked_key jti) (JStr (utext_of ''revoked'')) False (Some n),
      DEL [session_key sid, touch_key sid]] st)"
  have "redis_exec t (revoke_batch jti n sid uid) st
      = redis_exec t ([SET (revoked_key jti) (JStr (utext_of ''revoked'')) False (Some n),
          DEL [session_key sid, touch_key sid]] @ [ZREM (user_sessions_key uid) [sid]]) st"
    by (simp only: revoke_batch_def append.simps)
  then have st': "st' = snd (redis_cmd t (ZREM (user_sessions_key uid) [sid]) st1)"
    using assms(1) unfolding redis_exec_append st1_def [symmetric] by (simp add: Let_def split: prod.splits)
  have l1: "live t st1 (user_sessions_key v) = live t st (user_sessions_key v)" for v
    unfolding st1_def by (rule live_cong, rule redis_exec_frame) simp
  show ?thesis
  proof (cases "u = uid")
    case True
    let ?zs = "filter (\<lambda>(m, _). m \<notin> set [sid]) zs"
    have m: "(sid', sc) \<in> set ?zs" using assms(3,4) by auto
    then have "?zs \<noteq> []" by (metis empty_iff empty_set)
    then have "live t st' (user_sessions_key u) = Some (RZset ?zs, Some y)"
      using assms(2) unfolding st' True by (intro live_zrem) (simp_all only: l1 not_False_eq_True)
    with m show ?thesis by blast
  next
    case False
    have "live t st' (user_sessions_key u) = live t st1 (user_sessions_key u)"
      unfolding st' by (rule live_frame) (simp add: False)
    with assms(2,3) l1 show ?thesis by simp
  qed
qed

lemma revoke_batch_inv:
  assumes "session_inv L t st" and "redis_exec t (revoke_batch jti n sid uid) st = (rs, st')"
  shows "session_inv L t st'"
proof (rule session_inv_step [OF assms(1)])
  fix sid' d e
  assume "live t st' (session_key sid') = Some (RHash d, e)"
  then show "live t st (session_key sid') = Some (RHash d, e) \<or> (\<exists>x. e = Some x \<and> tracked L t st' sid' d x)"
    using revoke_batch_sessions [OF assms(2), of sid'] by (simp add: live_def split: if_splits)
next
  fix u zs y sid' sc x d
  assume a: "live t st (user_sessions_key u) = Some (RZset zs, Some y)" "(sid', sc) \<in> set zs"
    "live t st' (session_key sid') = Some (RHash d, Some x)" "x \<le> y" "x \<le> sc + L"
  have "sid' \<noteq> sid" using a(3) revoke_batch_sessions [OF assms(2), of sid'] by (auto simp: live_def)
  then show "\<exists>zs' y' sc'. live t st' (user_sessions_key u) = Some (RZset zs', Some y') \<and> x \<le> y'
      \<and> (sid', sc') \<in> set zs' \<and> x \<le> sc' + L"
    using revoke_batch_index [OF assms(2) a(1,2)] a(4,5) by blast
qed

text \<open>Writing one session: what a login and a renewal have in common.\<close>

definition renewed :: "int \<Rightarrow> time \<Rightarrow> utext \<Rightarrow> utext \<Rightarrow> session_data \<Rightarrow> login_entry store \<Rightarrow> login_entry store \<Rightarrow> bool" where
  "renewed L t sid uid d st st' \<longleftrightarrow>
     live t st' (session_key sid) = Some (RHash d, Some (t + L))
     \<and> (\<forall>a. a \<noteq> sid \<longrightarrow> st' (session_key a) = st (session_key a))
     \<and> (\<forall>v. v \<noteq> uid \<longrightarrow> st' (user_sessions_key v) = st (user_sessions_key v))
     \<and> (\<exists>zs'. live t st' (user_sessions_key uid) = Some (RZset zs', Some (t + L)) \<and> (sid, t) \<in> set zs'
          \<and> (\<forall>zs e a sc. live t st (user_sessions_key uid) = Some (RZset zs, e) \<longrightarrow> (a, sc) \<in> set zs \<longrightarrow> a \<noteq> sid \<longrightarrow>
               t - L < sc \<longrightarrow> (a, sc) \<in> set zs'))"

lemma renewed_inv:
  assumes inv: "session_inv L t st" and ren: "renewed L t sid uid d st st'"
    and d: "text_field d ''sid'' = Some sid" "text_field d ''user_id'' = Some uid" "text_field d ''refresh_jti'' \<noteq> None"
      "time_field d ''expires_at'' = Some (t + L)"
  shows "session_inv L t st'"
proof -
  obtain zs' where zs': "live t st' (user_sessions_key uid) = Some (RZset zs', Some (t + L))" "(sid, t) \<in> set zs'"
    and keep: "\<forall>zs e a sc. live t st (user_sessions_key uid) = Some (RZset zs, e) \<longrightarrow> (a, sc) \<in> set zs \<longrightarrow> a \<noteq> sid \<longrightarrow>
               t - L < sc \<longrightarrow> (a, sc) \<in> set zs'"
    using ren unfolding renewed_def by (elim conjE exE) (rule that)
  have other: "st' (session_key a) = st (session_key a)" if "a \<noteq> sid" for a using ren that unfolding renewed_def by simp
  show ?thesis
  proof (rule session_inv_step [OF inv])
    fix a d' e
    assume now: "live t st' (session_key a) = Some (RHash d', e)"
    show "live t st (session_key a) = Some (RHash d', e) \<or> (\<exists>x. e = Some x \<and> tracked L t st' a d' x)"
    proof (cases "a = sid")
      case True
      then have "d' = d" "e = Some (t + L)" using now ren unfolding renewed_def by simp_all
      moreover have "tracked L t st' sid d (t + L)" unfolding tracked_def using d zs' by auto
      ultimately show ?thesis using True by blast
    next
      case False
      then show ?thesis using now live_cong [of st' "session_key a" st] other [OF False] by simp
    qed
  next
    fix v zs y a sc x d'
    assume a: "live t st (user_sessions_key v) = Some (RZset zs, Some y)" "(a, sc) \<in> set zs" "x \<le> y" "x \<le> sc + L" "x \<le> t + L" "t < x"
    show "\<exists>zs' y' sc'. live t st' (user_sessions_key v) = Some (RZset zs', Some y') \<and> x \<le> y' \<and> (a, sc') \<in> set zs' \<and> x \<le> sc' + L"
    proof (cases "v = uid")
      case True
      show ?thesis
      proof (cases "a = sid")
        case same: True
        with zs' a(5) True show ?thesis by blast
      next
        case False
        have "(a, sc) \<in> set zs'" using keep [rule_format, OF a(1) [unfolded True] a(2) False] a(4,6) by simp
        with zs'(1) a(4,5) True show ?thesis by blast
      qed
    next
      case False
      then have "st' (user_sessions_key v) = st (user_sessions_key v)" using ren unfolding renewed_def by blast
      with a(1-4) live_cong [of st' "user_sessions_key v" st] show ?thesis by auto
    qed
  qed
qed

definition renew_index :: "time \<Rightarrow> int \<Rightarrow> utext \<Rightarrow> utext \<Rightarrow> bool \<Rightarrow> login_entry cmd list" where
  "renew_index t n sid uid prune = [ZADD (user_sessions_key uid) False [(sid, t)]]
     @ (if prune then [ZREMRANGEBYSCORE (user_sessions_key uid) (t - n * seconds)] else [])
     @ [EXPIRE (user_sessions_key uid) n]"

lemma renew_index_effect:
  assumes "0 < n" and "fst (redis_cmd t (ZADD (user_sessions_key uid) False [(sid, t)]) st) \<noteq> Wrong_Type"
    and st'_def: "st' = snd (redis_exec t (renew_index t n sid uid prune) st)"
  shows "\<exists>zs'. live t st' (user_sessions_key uid) = Some (RZset zs', Some (t + n * seconds)) \<and> (sid, t) \<in> set zs'
    \<and> (\<forall>zs e a sc. live t st (user_sessions_key uid) = Some (RZset zs, e) \<longrightarrow> (a, sc) \<in> set zs \<longrightarrow> a \<noteq> sid \<longrightarrow>
         t - n * seconds < sc \<longrightarrow> (a, sc) \<in> set zs')"
proof -
  let ?k = "user_sessions_key uid"
  obtain zs where zs: "zset_of t ?k st = Some zs" using assms(2) by (simp split: option.splits)
  define st1 where "st1 = snd (redis_cmd t (ZADD ?k False [(sid, t)]) st)"
  let ?zs1 = "AList.update sid t zs"
  define e1 where "e1 = (case live t st ?k of None \<Rightarrow> None | Some (_, e) \<Rightarrow> e)"
  have l1: "live t st1 ?k = Some (RZset ?zs1, e1)" unfolding st1_def e1_def by (rule live_zadd [OF zs])
  define st2 where "st2 = (if prune then snd (redis_cmd t (ZREMRANGEBYSCORE ?k (t - n * seconds)) st1) else st1)"
  let ?zs2 = "if prune then filter (\<lambda>(_, sc). t - n * seconds < sc) ?zs1 else ?zs1"
  have new: "(sid, t) \<in> set ?zs2" using update_new [of sid t zs] assms(1) by simp
  have ne: "?zs2 \<noteq> []"
  proof
    assume "?zs2 = []"
    with new have "(sid, t) \<in> set []" by (simp only:)
    then show False by simp
  qed
  have l2: "live t st2 ?k = Some (RZset ?zs2, e1)"
  proof (cases prune)
    case True
    then show ?thesis using live_zremrangebyscore [OF l1, of "t - n * seconds"] ne by (simp add: st2_def)
  next
    case False
    then show ?thesis using l1 by (simp add: st2_def)
  qed
  have "st' = snd (redis_cmd t (EXPIRE ?k n) st2)"
    unfolding st'_def st2_def st1_def renew_index_def by (cases prune) (simp_all only: if_True if_False append.simps exec_snd)
  then have l3: "live t st' ?k = Some (RZset ?zs2, Some (t + n * seconds))"
    using live_expire [of t ?k n st2] l2 assms(1) by simp
  have "(a, sc) \<in> set ?zs2" if "live t st ?k = Some (RZset zs0, e)" "(a, sc) \<in> set zs0" "a \<noteq> sid" "t - n * seconds < sc" for zs0 e a sc
  proof -
    have "zs0 = zs" using zs that(1) by (simp add: zset_of_def)
    then show ?thesis using update_member [of a sc zs sid t] that by simp
  qed
  with l3 new show ?thesis by blast
qed

lemma live_hset:
  assumes "hash_of t k st = Some old" and "fs \<noteq> []"
  shows "live t (snd (redis_cmd t (HSET k fs) st)) k =
    Some (RHash (put_assoc fs old), case live t st k of None \<Rightarrow> None | Some (_, e) \<Rightarrow> e)"
  using assms live_fresh [of t st k] put_assoc_Nil [of fs old]
  by (auto simp: rwrite_def hash_of_def live_const_fresh split: option.splits rval.splits)

lemma write_session_effect:
  assumes "0 < n"
    and exec: "redis_exec t ([HSET (session_key sid) fs, EXPIRE (session_key sid) n] @ mid @ renew_index t n sid uid prune @ rest) st
      = (rs, st')" and ok: "Wrong_Type \<notin> set rs"
    and old: "hash_of t (session_key sid) st = Some old" "fs \<noteq> []"
    and mid: "\<And>a. session_key a \<notin> \<Union> (cmd_keys ` set mid)" "\<And>a. user_sessions_key a \<notin> \<Union> (cmd_keys ` set mid)"
    and rest: "\<And>a. session_key a \<notin> \<Union> (cmd_keys ` set rest)" "\<And>a. user_sessions_key a \<notin> \<Union> (cmd_keys ` set rest)"
  shows "renewed (n * seconds) t sid uid (put_assoc fs old) st st'"
proof -
  let ?k = "session_key sid" and ?d = "put_assoc fs old"
  define st1 where "st1 = snd (redis_exec t [HSET ?k fs, EXPIRE ?k n] st)"
  define st2 where "st2 = snd (redis_exec t mid st1)"
  define st3 where "st3 = snd (redis_exec t (renew_index t n sid uid prune) st2)"
  have split: "rs = fst (redis_exec t [HSET ?k fs, EXPIRE ?k n] st) @ fst (redis_exec t mid st1)
      @ fst (redis_exec t (renew_index t n sid uid prune) st2) @ fst (redis_exec t rest st3)"
      "st' = snd (redis_exec t rest st3)"
    using exec unfolding redis_exec_append st1_def [symmetric] st2_def [symmetric] st3_def [symmetric] by simp_all
  have s1: "live t st1 ?k = Some (RHash ?d, Some (t + n * seconds))"
    unfolding st1_def exec_snd live_expire live_hset [OF old] using \<open>0 < n\<close> by simp
  have f1: "st1 k = st k" if "k \<noteq> ?k" for k unfolding st1_def by (rule redis_exec_frame) (simp add: that)
  have f2: "st2 (session_key a) = st1 (session_key a)" "st2 (user_sessions_key a) = st1 (user_sessions_key a)" for a
    unfolding st2_def by (rule redis_exec_frame, rule mid)+
  have keys: "\<Union> (cmd_keys ` set (renew_index t n sid uid prune)) = {user_sessions_key uid}"
    by (auto simp: renew_index_def)
  have f3: "st3 k = st2 k" if "k \<noteq> user_sessions_key uid" for k
    unfolding st3_def by (rule redis_exec_frame) (simp only: keys singleton_iff that not_False_eq_True)
  have f4: "st' (session_key a) = st3 (session_key a)" "st' (user_sessions_key a) = st3 (user_sessions_key a)" for a
    unfolding split(2) by (rule redis_exec_frame, rule rest)+
  have "fst (redis_cmd t (ZADD (user_sessions_key uid) False [(sid, t)]) st2) \<in> set rs"
    unfolding split(1) renew_index_def append.simps exec_fst by simp
  with ok have "fst (redis_cmd t (ZADD (user_sessions_key uid) False [(sid, t)]) st2) \<noteq> Wrong_Type" by metis
  from renew_index_effect [OF \<open>0 < n\<close> this st3_def]
  have "\<exists>zs'. live t st3 (user_sessions_key uid) = Some (RZset zs', Some (t + n * seconds)) \<and> (sid, t) \<in> set zs'
    \<and> (\<forall>zs e a sc. live t st2 (user_sessions_key uid) = Some (RZset zs, e) \<longrightarrow> (a, sc) \<in> set zs \<longrightarrow> a \<noteq> sid \<longrightarrow>
         t - n * seconds < sc \<longrightarrow> (a, sc) \<in> set zs')" .
  moreover have "live t st2 (user_sessions_key uid) = live t st (user_sessions_key uid)"
    by (rule live_cong) (simp add: f2 f1)
  moreover have "live t st' (user_sessions_key uid) = live t st3 (user_sessions_key uid)"
    by (rule live_cong) (simp add: f4)
  moreover have "live t st' ?k = live t st1 ?k" by (rule live_cong) (simp add: f4 f3 f2)
  ultimately show ?thesis unfolding renewed_def using s1 by (simp add: f4 f3 f2 f1)
qed

lemma hash_of_live: "hash_of t k st = Some d \<Longrightarrow> d \<noteq> [] \<Longrightarrow> \<exists>e. live t st k = Some (RHash d, e)"
  by (auto simp: hash_of_def split: option.splits rval.splits)

lemma prune_stale_inv:
  assumes inv: "session_inv L t st" and stale: "\<And>a. a \<in> set stale \<Longrightarrow> hash_of t (session_key a) st = Some []"
    and st': "st' = snd (redis_cmd t (ZREM (user_sessions_key uid) stale) st)"
  shows "session_inv L t st'"
proof (rule session_inv_step [OF inv])
  fix sid d e
  assume "live t st' (session_key sid) = Some (RHash d, e)"
  moreover have "live t st' (session_key sid) = live t st (session_key sid)" unfolding st' by (rule live_frame) simp
  ultimately show "live t st (session_key sid) = Some (RHash d, e) \<or> (\<exists>x. e = Some x \<and> tracked L t st' sid d x)" by simp
next
  fix v zs y sid sc x d
  assume a: "live t st (user_sessions_key v) = Some (RZset zs, Some y)" "(sid, sc) \<in> set zs"
    "live t st' (session_key sid) = Some (RHash d, Some x)" "text_field d ''user_id'' = Some v" "x \<le> y" "x \<le> sc + L"
  have "live t st' (session_key sid) = live t st (session_key sid)" unfolding st' by (rule live_frame) simp
  with a(3) have h: "hash_of t (session_key sid) st = Some d" by (simp add: hash_of_def)
  have "d \<noteq> []" using a(4) by (auto simp: text_field_def)
  with h stale have keep: "sid \<notin> set stale" by auto
  show "\<exists>zs' y' sc'. live t st' (user_sessions_key v) = Some (RZset zs', Some y') \<and> x \<le> y' \<and> (sid, sc') \<in> set zs' \<and> x \<le> sc' + L"
  proof (cases "v = uid")
    case True
    let ?zs = "filter (\<lambda>(m, _). m \<notin> set stale) zs"
    have m: "(sid, sc) \<in> set ?zs" using a(2) keep by auto
    then have "?zs \<noteq> []" by (metis empty_iff empty_set)
    then have "live t st' (user_sessions_key v) = Some (RZset ?zs, Some y)"
      unfolding st' True by (rule live_zrem [OF a(1) [unfolded True]])
    with m a(5,6) show ?thesis by blast
  next
    case False
    have "live t st' (user_sessions_key v) = live t st (user_sessions_key v)" unfolding st' by (rule live_frame) (simp add: False)
    with a show ?thesis by auto
  qed
qed

lemma touch_index_inv:
  assumes inv: "session_inv L t st"
    and st': "st' = snd (redis_cmd t (ZADD (user_sessions_key uid) True [(sid, t)]) st)"
  shows "session_inv L t st'"
proof (rule session_inv_step [OF inv])
  fix a d e
  assume "live t st' (session_key a) = Some (RHash d, e)"
  moreover have "live t st' (session_key a) = live t st (session_key a)" unfolding st' by (rule live_frame) simp
  ultimately show "live t st (session_key a) = Some (RHash d, e) \<or> (\<exists>x. e = Some x \<and> tracked L t st' a d x)" by simp
next
  fix v zs y a sc x d
  assume a: "live t st (user_sessions_key v) = Some (RZset zs, Some y)" "(a, sc) \<in> set zs" "x \<le> y" "x \<le> sc + L" "x \<le> t + L"
  show "\<exists>zs' y' sc'. live t st' (user_sessions_key v) = Some (RZset zs', Some y') \<and> x \<le> y' \<and> (a, sc') \<in> set zs' \<and> x \<le> sc' + L"
  proof (cases "v = uid")
    case True
    let ?zs = "put_assoc (filter (\<lambda>(m, _). m \<in> fst ` set zs) [(sid, t)]) zs"
    have "\<exists>sc'. (a, sc') \<in> set ?zs \<and> x \<le> sc' + L"
    proof (cases "sid \<in> fst ` set zs \<and> sid = a")
      case True
      then show ?thesis using update_new [of sid t zs] a(5) by auto
    next
      case False
      then show ?thesis using update_member [of a sc zs sid t] a(2,4) by (auto intro: exI [of _ sc])
    qed
    moreover from this have "?zs \<noteq> []" by (metis empty_iff empty_set)
    moreover have "t < y" using a(1) by (rule live_fresh)
    ultimately have "live t st' (user_sessions_key v) = Some (RZset ?zs, Some y) \<and> (\<exists>sc'. (a, sc') \<in> set ?zs \<and> x \<le> sc' + L)"
      using a(1) unfolding st' True by (simp add: zset_of_def rwrite_def split del: if_split)
    with a(3) show ?thesis by blast
  next
    case False
    have "live t st' (user_sessions_key v) = live t st (user_sessions_key v)" unfolding st' by (rule live_frame) (simp add: False)
    with a show ?thesis by auto
  qed
qed

lemma frame_inv:
  assumes "session_inv L t st" and "\<And>a. st' (session_key a) = st (session_key a)"
    and "\<And>a. st' (user_sessions_key a) = st (user_sessions_key a)"
  shows "session_inv L t st'"
proof -
  have "live t st' (session_key a) = live t st (session_key a)" "live t st' (user_sessions_key a) = live t st (user_sessions_key a)" for a
    using assms(2,3) by (simp_all add: live_def)
  then show ?thesis using assms(1) unfolding session_inv_def tracked_def by simp
qed

end
