(* ===== verification/Session_Properties.thy ===== *)
theory Session_Properties
  imports Session_Invariant
begin

text \<open>
  The session operations against a store that behaves as documented: each keeps the invariant
  whenever the server answers, renewals rotate the token, and ending the sessions of a user is complete.
\<close>

section \<open>The operations keep the invariant\<close>

lemma field_put_assoc:
  assumes "distinct (map fst new)"
  shows "text_field (put_assoc new old) f = (if f \<in> fst ` set new then text_field new f else text_field old f)"
    "time_field (put_assoc new old) f = (if f \<in> fst ` set new then time_field new f else time_field old f)"
proof -
  have "map_of (put_assoc new old) f = (if f \<in> fst ` set new then map_of new f else map_of old f)"
    using map_of_eq_None_iff [of new f] by (auto simp: map_of_put_assoc [OF assms] map_add_def split: option.splits)
  then show "text_field (put_assoc new old) f = (if f \<in> fst ` set new then text_field new f else text_field old f)"
    "time_field (put_assoc new old) f = (if f \<in> fst ` set new then time_field new f else time_field old f)"
    by (simp_all add: text_field_def time_field_def)
qed

lemma session_fields_simps:
  assumes d_def: "d = put_assoc (session_fields sid jti uid tid ip ua dev geo t n b) []"
  shows "text_field d ''sid'' = Some sid" "text_field d ''user_id'' = Some uid" "text_field d ''refresh_jti'' = Some jti"
    "text_field d ''previous_jti'' = Some []" "time_field d ''rotated_at'' = None" "time_field d ''expires_at'' = Some (t + n * seconds)"
proof -
  have "distinct (map fst (session_fields sid jti uid tid ip ua dev geo t n b))" by (simp add: session_fields_def)
  note f = field_put_assoc [OF this, of "[]"]
  show "text_field d ''sid'' = Some sid" "text_field d ''user_id'' = Some uid" "text_field d ''refresh_jti'' = Some jti"
    "text_field d ''previous_jti'' = Some []" "time_field d ''rotated_at'' = None" "time_field d ''expires_at'' = Some (t + n * seconds)"
    unfolding d_def f by (simp_all add: session_fields_def text_field_def time_field_def)
qed

definition rotation_update :: "utext \<Rightarrow> utext \<Rightarrow> time \<Rightarrow> int \<Rightarrow> session_data" where
  "rotation_update new_jti jti now n = [(''refresh_jti'', HS new_jti), (''previous_jti'', HS jti), (''rotated_at'', HT now),
     (''last_active_at'', HT now), (''expires_at'', HT (now + n * seconds))]"

lemma rotation_update_simps:
  assumes d_def: "d = put_assoc (rotation_update new_jti jti t n) old"
  shows "text_field d ''sid'' = text_field old ''sid''" "text_field d ''user_id'' = text_field old ''user_id''"
    "text_field d ''refresh_jti'' = Some new_jti" "text_field d ''previous_jti'' = Some jti" "time_field d ''rotated_at'' = Some t"
    "time_field d ''expires_at'' = Some (t + n * seconds)"
proof -
  have "distinct (map fst (rotation_update new_jti jti t n))" by (simp add: rotation_update_def)
  note f = field_put_assoc [OF this, of old]
  show "text_field d ''sid'' = text_field old ''sid''" "text_field d ''user_id'' = text_field old ''user_id''"
    "text_field d ''refresh_jti'' = Some new_jti" "text_field d ''previous_jti'' = Some jti" "time_field d ''rotated_at'' = Some t"
    "time_field d ''expires_at'' = Some (t + n * seconds)"
    unfolding d_def f by (simp_all add: rotation_update_def text_field_def time_field_def)
qed

lemma exec_hgetalls_map:
  "redis_exec t (map (\<lambda>(sid, _). HGETALL (session_key sid)) zs) st =
     (map (\<lambda>(sid, _). case hash_of t (session_key sid) st of None \<Rightarrow> Wrong_Type | Some h \<Rightarrow> Hash h) zs, st)"
  by (induction zs) (auto split: option.splits)

lemma hash_replies_map:
  "hash_replies (map (\<lambda>(sid, _). case hash_of t (session_key sid) st of None \<Rightarrow> Wrong_Type | Some h \<Rightarrow> Hash h) zs) = Some rows \<Longrightarrow>
     rows = map (\<lambda>(sid, _). the (hash_of t (session_key sid) st)) zs \<and> (\<forall>z \<in> set zs. hash_of t (session_key (fst z)) st \<noteq> None)"
  by (induction zs arbitrary: rows) (fastforce split: option.splits)+

lemma refreshed_activity_text [simp]:
  "f \<noteq> ''last_active_at'' \<Longrightarrow> text_field (refreshed_activity m row) f = text_field row f"
  by (simp add: refreshed_activity_def text_field_def update_conv)

locale session_store = redis_store run view for run :: "'s sserver" and view :: "'s \<Rightarrow> login_entry store"
begin

lemma read_only:
  assumes "execute run t cs s = (Some rs, s')" and "\<Union> (cmd_keys ` set cs) = {}"
  shows "view s' = view s"
proof
  fix k
  have "view s' = snd (redis_exec t cs (view s))" using execute_documented [OF assms(1)] by simp
  then show "view s' k = view s k" using redis_exec_frame [of k cs t "view s"] assms(2) by simp
qed

lemma read_hash:
  assumes "execute run t [HGETALL k] s = (Some [Hash d], s')"
  shows "hash_of t k (view s) = Some d \<and> view s' = view s"
  using execute_documented [OF assms] by (simp split: option.splits)

lemma revoke_session_cases:
  assumes "revoke_session run t sid u s = (r, s')" and "r \<noteq> Inl SessionStoreUnavailable"
  obtains (absent) "r = Inr False" "view s' = view s"
      "\<And>d e uid. live t (view s) (session_key sid) = Some (RHash d, e) \<Longrightarrow> d \<noteq> [] \<Longrightarrow> u = Some uid \<Longrightarrow> text_field d ''user_id'' \<noteq> Some uid"
      "u = None \<Longrightarrow> hash_of t (session_key sid) (view s) = Some []"
  | (broken) f d where "r = Inl (KeyError f)" "view s' = view s" "hash_of t (session_key sid) (view s) = Some d"
      "text_field d ''refresh_jti'' = None \<or> text_field d ''user_id'' = None"
  | (revoked) jti n uid rs d where "r = Inr True" "redis_exec t (revoke_batch jti n sid uid) (view s) = (rs, view s')"
      "hash_of t (session_key sid) (view s) = Some d" "text_field d ''user_id'' = Some uid" "u = None \<or> u = Some uid"
proof -
  obtain d s1 where rd: "execute run t [HGETALL (session_key sid)] s = (Some [Hash d], s1)"
    using assms unfolding revoke_session_def
    by (auto split: prod.splits option.splits list.splits reply.splits)
  note h = read_hash [OF rd]
  let ?no = "d = [] \<or> (u \<noteq> None \<and> text_field d ''user_id'' \<noteq> u)"
  consider (a) ?no | (b) "\<not> ?no" "text_field d ''refresh_jti'' = None \<or> text_field d ''user_id'' = None"
    | (c) jti uid where "\<not> ?no" "text_field d ''refresh_jti'' = Some jti" "text_field d ''user_id'' = Some uid"
    by (cases "text_field d ''refresh_jti''"; cases "text_field d ''user_id''") blast+
  then show ?thesis
  proof cases
    case a
    then have "r = Inr False" "s' = s1" using assms(1) unfolding revoke_session_def rd by auto
    with a h show ?thesis by (intro absent) (auto simp: hash_of_def)
  next
    case b
    obtain f where "r = Inl (KeyError f)" "s' = s1"
    proof (cases "text_field d ''refresh_jti''")
      case None
      with assms(1) b(1) show thesis unfolding revoke_session_def rd by (cases u) (auto simp: Let_def that)
    next
      case (Some j)
      with b(2) have "text_field d ''user_id'' = None" by simp
      with assms(1) b(1) Some show thesis unfolding revoke_session_def rd by (cases u) (auto simp: Let_def that)
    qed
    with h b(2) show ?thesis by (intro broken) auto
  next
    case c
    let ?n = "remaining_seconds (case time_field d ''expires_at'' of None \<Rightarrow> 0 | Some x \<Rightarrow> x) t"
    have "(case execute run t (revoke_batch jti ?n sid uid) s1 of
        (None, s2) \<Rightarrow> (Inl SessionStoreUnavailable, s2) | (Some _, s2) \<Rightarrow> (Inr True, s2)) = (r, s')"
      using assms(1) c unfolding revoke_session_def rd revoke_batch_def by (cases u) (simp_all add: Let_def)
    then obtain rs where ex: "execute run t (revoke_batch jti ?n sid uid) s1 = (Some rs, s')" "r = Inr True"
      using assms(2) by (auto split: prod.splits option.splits)
    have "redis_exec t (revoke_batch jti ?n sid uid) (view s) = (rs, view s')"
      using execute_documented [OF ex(1)] h by simp
    then show ?thesis using ex(2) h c by (intro revoked) auto
  qed
qed

lemma revoke_session_inv:
  assumes "session_inv L t (view s)" and "revoke_session run t sid u s = (r, s')" and "r \<noteq> Inl SessionStoreUnavailable"
  shows "session_inv L t (view s')"
  using assms(2,3)
proof (cases rule: revoke_session_cases)
  case revoked
  then show ?thesis using revoke_batch_inv [OF assms(1)] by blast
qed (use assms(1) in simp_all)

text \<open>After an answered call the session of the given user is gone, and no other session has changed.\<close>

lemma revoke_session_sessions:
  assumes "revoke_session run t sid u s = (r, s')" and "r \<noteq> Inl SessionStoreUnavailable"
  shows "view s' (session_key a) = view s (session_key a) \<or> a = sid \<and> view s' (session_key a) = None"
  using assms
proof (cases rule: revoke_session_cases)
  case revoked
  then show ?thesis using revoke_batch_sessions [OF revoked(2), of a] by auto
qed simp_all

lemma revoke_session_ends:
  assumes "revoke_session run t sid (Some uid) s = (Inr b, s')"
    and "live t (view s') (session_key sid) = Some (RHash d, e)" and "d \<noteq> []"
  shows "text_field d ''user_id'' \<noteq> Some uid"
proof -
  have "Inr b \<noteq> Inl SessionStoreUnavailable" by simp
  with assms(1) show ?thesis
  proof (cases rule: revoke_session_cases)
    case absent
    with assms(2,3) show ?thesis by auto
  next
    case revoked
    then show ?thesis using revoke_batch_sessions [OF revoked(2), of sid] assms(2) by (simp add: live_def)
  qed simp
qed

lemma list_sessions_cases:
  assumes "list_sessions run t uid s = (r, s')" and "r \<noteq> Inl SessionStoreUnavailable"
  obtains zs where "zset_of t (user_sessions_key uid) (view s) = Some zs"
    "r = Inr (map (\<lambda>(sid, sc). refreshed_activity (sid, sc) (the (hash_of t (session_key sid) (view s))))
      (filter (\<lambda>(sid, _). the (hash_of t (session_key sid) (view s)) \<noteq> []) (rev (by_score zs))))"
    "view s' = view s \<or> (\<exists>stale. view s' = snd (redis_cmd t (ZREM (user_sessions_key uid) stale) (view s))
        \<and> (\<forall>a \<in> set stale. hash_of t (session_key a) (view s) = Some []))"
    "\<forall>z \<in> set zs. hash_of t (session_key (fst z)) (view s) \<noteq> None"
proof -
  let ?k = "user_sessions_key uid"
  obtain indexed s1 where rd: "execute run t [ZREVRANGE ?k] s = (Some [Members indexed], s1)"
    using assms unfolding list_sessions_def Let_def by (auto split: prod.splits option.splits list.splits reply.splits)
  obtain zs where zs: "zset_of t ?k (view s) = Some zs" "indexed = rev (by_score zs)" "view s1 = view s"
    using execute_documented [OF rd] by (auto split: option.splits)
  show ?thesis
  proof (cases "indexed = []")
    case True
    then have "zs = []" using zs(2) set_by_score [of zs] by simp
    with True assms rd zs that show ?thesis unfolding list_sessions_def by auto
  next
    case False
    let ?f = "\<lambda>(sid, _). the (hash_of t (session_key sid) (view s))"
    obtain replies s2 rows where ex: "execute run t (map (\<lambda>(sid, _). HGETALL (session_key sid)) indexed) s1 = (Some replies, s2)"
        and rows: "hash_replies replies = Some rows"
      using assms rd False unfolding list_sessions_def Let_def by (auto split: prod.splits option.splits)
    have doc: "redis_exec t (map (\<lambda>(sid, _). HGETALL (session_key sid)) indexed) (view s) = (replies, view s2)" "Wrong_Type \<notin> set replies"
      using execute_documented [OF ex] zs(3) by simp_all
    have v2: "view s2 = view s" and rep: "replies = map (\<lambda>(sid, _). case hash_of t (session_key sid) (view s) of None \<Rightarrow> Wrong_Type
        | Some h \<Rightarrow> Hash h) indexed"
      using doc(1) unfolding exec_hgetalls_map prod.inject by - (elim conjE, rule sym, assumption)+
    have fr: "rows = map ?f indexed" and some: "\<forall>z \<in> set indexed. hash_of t (session_key (fst z)) (view s) \<noteq> None"
      using hash_replies_map [OF rows [unfolded rep]] by simp_all
    have zip: "zip indexed rows = map (\<lambda>z. (z, ?f z)) indexed" unfolding fr by (induction indexed) auto
    define stale where "stale = map (\<lambda>((sid, _), _). sid) (filter (\<lambda>(_, row). row = []) (zip indexed rows))"
    define live_rows where "live_rows = map (\<lambda>(member, row). refreshed_activity member row) (filter (\<lambda>(_, row). row \<noteq> []) (zip indexed rows))"
    have lr: "live_rows = map (\<lambda>(sid, sc). refreshed_activity (sid, sc) (the (hash_of t (session_key sid) (view s))))
        (filter (\<lambda>(sid, _). the (hash_of t (session_key sid) (view s)) \<noteq> []) indexed)"
      unfolding live_rows_def zip by (induction indexed) auto
    have st: "hash_of t (session_key a) (view s) = Some []" if "a \<in> set stale" for a
      using that some unfolding stale_def zip by fastforce
    have run: "(if stale = [] then (Inr live_rows, s2) else case execute run t [ZREM ?k stale] s2 of
        (None, s3) \<Rightarrow> (Inl SessionStoreUnavailable, s3) | (Some _, s3) \<Rightarrow> (Inr live_rows, s3)) = (r, s')"
      using assms(1) rd False ex rows unfolding list_sessions_def Let_def stale_def live_rows_def by simp
    have "r = Inr live_rows \<and> (view s' = view s \<or> view s' = snd (redis_cmd t (ZREM ?k stale) (view s)))"
    proof (cases "stale = []")
      case True
      with run v2 show ?thesis by auto
    next
      case False
      then obtain rs where "execute run t [ZREM ?k stale] s2 = (Some rs, s')" "r = Inr live_rows"
        using run assms(2) by (auto split: prod.splits option.splits)
      then show ?thesis using execute_documented [of t "[ZREM ?k stale]" s2 rs s'] v2 by (auto split: prod.splits)
    qed
    with zs st lr some show ?thesis by (intro that) auto
  qed
qed

lemma revoke_session_other:
  assumes "revoke_session run t sid (Some uid) s = (r, s')" and "r \<noteq> Inl SessionStoreUnavailable"
    and "live t (view s) (session_key a) = Some (RHash d, e)" and "text_field d ''user_id'' \<noteq> Some uid"
  shows "view s' (session_key a) = view s (session_key a)"
  using assms(1,2)
proof (cases rule: revoke_session_cases)
  case revoked
  then show ?thesis using revoke_batch_sessions [OF revoked(2), of a] assms(3,4) by (auto simp: hash_of_def)
qed simp_all

lemma list_sessions_inv:
  assumes "session_inv L t (view s)" and "list_sessions run t uid s = (r, s')" and "r \<noteq> Inl SessionStoreUnavailable"
  shows "session_inv L t (view s') \<and> view s' (session_key a) = view s (session_key a)"
  using assms(2,3)
proof (cases rule: list_sessions_cases)
  case (1 zs)
  from 1(3) show ?thesis
  proof
    assume "\<exists>stale. view s' = snd (redis_cmd t (ZREM (user_sessions_key uid) stale) (view s))
        \<and> (\<forall>a \<in> set stale. hash_of t (session_key a) (view s) = Some [])"
    then obtain stale where st: "view s' = snd (redis_cmd t (ZREM (user_sessions_key uid) stale) (view s))"
        "\<forall>a \<in> set stale. hash_of t (session_key a) (view s) = Some []" by (elim exE conjE)
    have "session_inv L t (view s')" using prune_stale_inv [OF assms(1) _ st(1)] st(2) by blast
    moreover have "view s' (session_key a) = view s (session_key a)" unfolding st(1) by (rule redis_cmd_frame) simp
    ultimately show ?thesis by simp
  qed (use assms(1) in simp)
qed

lemma revoke_each_effect:
  assumes "revoke_each run t uid rows n s = (Inr m, s')" and "session_inv L t (view s)"
  shows "session_inv L t (view s')
    \<and> (\<forall>a. view s' (session_key a) = view s (session_key a) \<or> view s' (session_key a) = None)
    \<and> (\<forall>a d e. live t (view s) (session_key a) = Some (RHash d, e) \<longrightarrow> text_field d ''user_id'' \<noteq> Some uid
         \<longrightarrow> view s' (session_key a) = view s (session_key a))
    \<and> (\<forall>row \<in> set rows. \<forall>a d e. text_field row ''sid'' = Some a \<longrightarrow> live t (view s') (session_key a) = Some (RHash d, e)
         \<longrightarrow> d \<noteq> [] \<longrightarrow> text_field d ''user_id'' \<noteq> Some uid)"
  using assms
proof (induction rows arbitrary: n s)
  case (Cons row rows)
  obtain sid where sid: "text_field row ''sid'' = Some sid" using Cons.prems(1) by (auto split: option.splits)
  obtain b s1 where rv: "revoke_session run t sid (Some uid) s = (Inr b, s1)"
      and rest: "revoke_each run t uid rows (if b then Suc n else n) s1 = (Inr m, s')"
    using Cons.prems(1) by (auto simp: sid split: prod.splits sum.splits)
  have inv1: "session_inv L t (view s1)" using revoke_session_inv [OF Cons.prems(2) rv] by simp
  note IH = Cons.IH [OF rest inv1]
  note IH2 = conjunct1 [OF conjunct2 [OF IH], rule_format] and IH3 = conjunct1 [OF conjunct2 [OF conjunct2 [OF IH]], rule_format]
    and IH4 = conjunct2 [OF conjunct2 [OF conjunct2 [OF IH]]]
  have van1: "view s1 (session_key a) = view s (session_key a) \<or> view s1 (session_key a) = None" for a
    using revoke_session_sessions [OF rv, of a] by auto
  have van2: "view s' (session_key a) = view s1 (session_key a) \<or> view s' (session_key a) = None" for a by (rule IH2)
  have keep: "view s' (session_key a) = view s (session_key a)"
    if "live t (view s) (session_key a) = Some (RHash d, e)" "text_field d ''user_id'' \<noteq> Some uid" for a d e
  proof -
    have "view s1 (session_key a) = view s (session_key a)" using revoke_session_other [OF rv _ that] by simp
    moreover from this have "live t (view s1) (session_key a) = Some (RHash d, e)" using that(1) live_cong by metis
    ultimately show ?thesis using IH3 [of a d e] that(2) by simp
  qed
  have here: "text_field d ''user_id'' \<noteq> Some uid" if "live t (view s') (session_key sid) = Some (RHash d, e)" "d \<noteq> []" for d e
  proof -
    have "live t (view s1) (session_key sid) = Some (RHash d, e)" using van2 [of sid] that(1) by (auto simp: live_def)
    then show ?thesis using revoke_session_ends [OF rv] that(2) by blast
  qed
  have "view s' (session_key a) = view s (session_key a) \<or> view s' (session_key a) = None" for a using van1 [of a] van2 [of a] by auto
  moreover have "\<forall>r \<in> set (row # rows). \<forall>a d e. text_field r ''sid'' = Some a \<longrightarrow> live t (view s') (session_key a) = Some (RHash d, e)
         \<longrightarrow> d \<noteq> [] \<longrightarrow> text_field d ''user_id'' \<noteq> Some uid"
  proof
    fix r
    assume "r \<in> set (row # rows)"
    then consider "r = row" | "r \<in> set rows" by auto
    then show "\<forall>a d e. text_field r ''sid'' = Some a \<longrightarrow> live t (view s') (session_key a) = Some (RHash d, e)
         \<longrightarrow> d \<noteq> [] \<longrightarrow> text_field d ''user_id'' \<noteq> Some uid"
    proof cases
      case 1
      then show ?thesis using here sid by simp
    next
      case 2
      then show ?thesis using IH4 by (rule bspec [rotated])
    qed
  qed
  ultimately show ?case using conjunct1 [OF IH] keep by simp
qed simp

lemma revoke_all_effect:
  assumes inv: "session_inv L t (view s)" and run: "revoke_all_sessions run t uid s = (Inr m, s')"
  shows "session_inv L t (view s')"
    "\<And>a d e. live t (view s') (session_key a) = Some (RHash d, e) \<Longrightarrow> text_field d ''user_id'' \<noteq> Some uid"
    "\<And>a d e. live t (view s) (session_key a) = Some (RHash d, e) \<Longrightarrow> text_field d ''user_id'' \<noteq> Some uid \<Longrightarrow>
       live t (view s') (session_key a) = Some (RHash d, e)"
proof -
  obtain rows s1 where ls: "list_sessions run t uid s = (Inr rows, s1)" and ra: "revoke_each run t uid rows 0 s1 = (Inr m, s')"
    using run unfolding revoke_all_sessions_def by (auto split: prod.splits sum.splits)
  have inv1: "session_inv L t (view s1)" and same: "view s1 (session_key a) = view s (session_key a)" for a
    using list_sessions_inv [OF inv ls] by simp_all
  note eff = revoke_each_effect [OF ra inv1]
  note eff2 = conjunct1 [OF conjunct2 [OF eff], rule_format] and eff3 = conjunct1 [OF conjunct2 [OF conjunct2 [OF eff]], rule_format]
    and eff4 = conjunct2 [OF conjunct2 [OF conjunct2 [OF eff]], rule_format]
  show "session_inv L t (view s')" using eff by (rule conjunct1)
  show "live t (view s') (session_key a) = Some (RHash d, e)"
    if "live t (view s) (session_key a) = Some (RHash d, e)" "text_field d ''user_id'' \<noteq> Some uid" for a d e
  proof -
    have l1: "live t (view s1) (session_key a) = Some (RHash d, e)" using that(1) same live_cong by metis
    then have "view s' (session_key a) = view s1 (session_key a)" using eff3 that(2) by simp
    with l1 show ?thesis using live_cong by metis
  qed
  show "text_field d ''user_id'' \<noteq> Some uid" if now: "live t (view s') (session_key a) = Some (RHash d, e)" for a d e
  proof
    assume u: "text_field d ''user_id'' = Some uid"
    have "view s' (session_key a) = view s1 (session_key a)" using eff2 [of a] now by (auto simp: live_def)
    with now same have old: "live t (view s) (session_key a) = Some (RHash d, e)" using live_cong by metis
    obtain x v zs y sc where f: "e = Some x" "t < x" "text_field d ''sid'' = Some a" "text_field d ''refresh_jti'' \<noteq> None"
      "time_field d ''expires_at'' = Some x" "x \<le> t + L" "text_field d ''user_id'' = Some v"
      "live t (view s) (user_sessions_key v) = Some (RZset zs, Some y)" "x \<le> y" "(a, sc) \<in> set zs" "x \<le> sc + L"
      by (rule session_invD [OF inv old])
    have d: "d \<noteq> []" using u by (auto simp: text_field_def)
    have h: "hash_of t (session_key a) (view s) = Some d" using old by (simp add: hash_of_def)
    have "Inr rows \<noteq> Inl SessionStoreUnavailable" by simp
    with ls show False
    proof (cases rule: list_sessions_cases)
      case (1 zs')
      have "zs' = zs" using 1(1) f(7,8) u by (simp add: zset_of_def)
      then have m: "refreshed_activity (a, sc) d \<in> set rows" using 1(2) f(10) h d by force
      have "text_field (refreshed_activity (a, sc) d) ''sid'' = Some a" using f(3) by simp
      from eff4 [OF m this now d] u show False by simp
    qed
  qed
qed

lemma create_session_renews:
  assumes "create_session run cfg parse_ua geoip t sid jti uid tid ip ua s = (r, s')" and "r \<noteq> Inl SessionStoreUnavailable"
    and "0 < refresh_lifetime_seconds cfg" and "live t (view s) (session_key sid) = None"
  obtains c where "r = Inr c" "cr_session_id c = sid" "cr_refresh_jti c = jti"
    "cr_data c = session_fields sid jti uid tid ip ua (parse_user_agent parse_ua ua) (geoip ip) t (refresh_lifetime_seconds cfg)
       (as_suspicious (cr_assessment c))"
    "renewed (refresh_lifetime_seconds cfg * seconds) t sid uid (put_assoc (cr_data c) []) (view s) (view s')"
proof -
  let ?n = "refresh_lifetime_seconds cfg"
  obtain known history s1 where rd: "execute run t [ZRANGE (known_key uid), LRANGE (history_key uid)] s
      = (Some [Members known, Entries history], s1)"
    using assms(1,2) unfolding create_session_def Let_def by (auto split: prod.splits option.splits list.splits reply.splits)
  have v1: "view s1 = view s" using read_only [OF rd] by simp
  let ?as = "assess_login cfg (map fst known) history (parse_user_agent parse_ua ua) ip (geoip ip) t"
  let ?c = "\<lparr>cr_session_id = sid, cr_refresh_jti = jti, cr_data = session_fields sid jti uid tid ip ua (parse_user_agent parse_ua ua)
      (geoip ip) t ?n (as_suspicious ?as), cr_assessment = ?as, cr_geo = geoip ip\<rparr>"
  define rest where "rest = device_commands uid ((utext_of ''ua:'' @ fingerprint (parse_user_agent parse_ua ua), t)
      # (if ip \<noteq> [] then [(utext_of ''ip:'' @ ip, t)] else [])) (login_entry_of t ip (geoip ip))"
  have "create_session run cfg parse_ua geoip t sid jti uid tid ip ua s =
      (case execute run t ([HSET (session_key sid) (cr_data ?c), EXPIRE (session_key sid) ?n] @ [] @ renew_index t ?n sid uid True @ rest) s1 of
         (None, s2) \<Rightarrow> (Inl SessionStoreUnavailable, s2) | (Some _, s2) \<Rightarrow> (Inr ?c, s2))"
    unfolding create_session_def Let_def rd rest_def renew_index_def by simp
  then obtain c rs where c: "r = Inr c" "cr_session_id c = sid" "cr_refresh_jti c = jti"
    "cr_data c = session_fields sid jti uid tid ip ua (parse_user_agent parse_ua ua) (geoip ip) t ?n (as_suspicious (cr_assessment c))"
    and ex: "execute run t ([HSET (session_key sid) (cr_data c), EXPIRE (session_key sid) ?n] @ [] @ renew_index t ?n sid uid True @ rest) s1
        = (Some rs, s')"
    using assms(1,2) by (auto split: prod.splits option.splits)
  have rest: "\<Union> (cmd_keys ` set rest) = {known_key uid, history_key uid}" by (auto simp: rest_def device_commands_def)
  have fs: "cr_data c \<noteq> []" unfolding c(4) session_fields_def by simp
  have old: "hash_of t (session_key sid) (view s) = Some []" using assms(4) by (simp add: hash_of_def)
  have "renewed (?n * seconds) t sid uid (put_assoc (cr_data c) []) (view s) (view s')"
    using execute_documented [OF ex] v1 rest
    by (intro write_session_effect [OF assms(3) _ _ old fs, where mid = "[]" and rest = rest and prune = True and rs = rs]) simp_all
  with c show ?thesis by (rule that)
qed

lemma create_session_inv:
  assumes "session_inv (refresh_lifetime_seconds cfg * seconds) t (view s)"
    and "create_session run cfg parse_ua geoip t sid jti uid tid ip ua s = (r, s')" and "r \<noteq> Inl SessionStoreUnavailable"
    and "0 < refresh_lifetime_seconds cfg" and "live t (view s) (session_key sid) = None"
  shows "session_inv (refresh_lifetime_seconds cfg * seconds) t (view s')"
  using assms(2-5)
proof (cases rule: create_session_renews)
  case (1 c)
  show ?thesis
    by (rule renewed_inv [OF assms(1) 1(5)]) (simp_all only: 1(4) session_fields_simps [OF refl] option.distinct not_False_eq_True)
qed

lemma rotate_commit:
  assumes "execute run t
      [HSET (session_key sid) (rotation_update new_jti jti t n), EXPIRE (session_key sid) n,
       SET (revoked_key jti) (JStr (utext_of ''rotated'')) False (Some k),
       ZADD (user_sessions_key uid) False [(sid, t)], EXPIRE (user_sessions_key uid) n] s = (Some rs, s')"
    and "0 < n" and "hash_of t (session_key sid) (view s) = Some d"
  shows "renewed (n * seconds) t sid uid (put_assoc (rotation_update new_jti jti t n) d) (view s) (view s')"
proof -
  let ?mid = "[SET (revoked_key jti) (JStr (utext_of ''rotated'')) False (Some k)]"
  have "redis_exec t ([HSET (session_key sid) (rotation_update new_jti jti t n), EXPIRE (session_key sid) n] @ ?mid
      @ renew_index t n sid uid False @ []) (view s) = (rs, view s')" "Wrong_Type \<notin> set rs"
    using execute_documented [OF assms(1)] unfolding renew_index_def by simp_all
  then show ?thesis by (rule write_session_effect [OF assms(2) _ _ assms(3)]) (simp_all add: rotation_update_def)
qed

lemma touch_session_inv:
  assumes "session_inv L t (view s)" and "touch_session run t sid s = (r, s')" and "r \<noteq> Inl SessionStoreUnavailable"
  shows "session_inv L t (view s')"
proof -
  let ?set = "SET (touch_key sid) (JStr (utext_of ''1'')) True (Some ACTIVITY_THROTTLE_SECONDS)"
  obtain f w s1 where rd: "execute run t [HGET (session_key sid) ''user_id'', ?set] s = (Some [Field f, w], s1)"
    using assms(2,3) unfolding touch_session_def by (auto split: prod.splits option.splits list.splits reply.splits)
  have v1: "view s1 = snd (redis_exec t [HGET (session_key sid) ''user_id'', ?set] (view s))"
    using execute_documented [OF rd] by simp
  have inv1: "session_inv L t (view s1)"
    by (rule frame_inv [OF assms(1)]; unfold v1; rule redis_exec_frame; simp)
  consider "s' = s1" | uid where "execute run t [ZADD (user_sessions_key uid) True [(sid, t)]] s1 = (Some [Done], s')"
  proof -
    have "s' = s1 \<or> (\<exists>uid rs. execute run t [ZADD (user_sessions_key uid) True [(sid, t)]] s1 = (Some rs, s'))"
      using assms(2,3) unfolding touch_session_def rd by (auto split: option.splits hval.splits if_splits prod.splits)
    moreover have "rs = [Done]" if "execute run t [ZADD (user_sessions_key uid) True [(sid, t)]] s1 = (Some rs, s')" for uid rs
      using execute_documented [OF that] by (auto split: option.splits)
    ultimately show thesis using that by blast
  qed
  then show ?thesis
  proof cases
    case 1
    with inv1 show ?thesis by simp
  next
    case (2 uid)
    have "view s' = snd (redis_cmd t (ZADD (user_sessions_key uid) True [(sid, t)]) (view s1))"
      using execute_documented [OF 2] exec_snd [of t] by (metis snd_conv)
    then show ?thesis by (rule touch_index_inv [OF inv1])
  qed
qed

lemma rotate_cases:
  assumes "rotate_attempts run cfg others clock fresh sid jti uid (Suc n) s = (r, s')" and "r \<noteq> Inl SessionStoreUnavailable"
  obtains (unknown) why where "r = Inl (SessionInvalid why)" "view s' = view s"
      "\<And>d e. live (clock n) (view s) (session_key sid) = Some (RHash d, e) \<Longrightarrow> d \<noteq> [] \<Longrightarrow> text_field d ''user_id'' \<noteq> Some uid"
  | (grace) d rt where "r = Inr \<lparr>ro_data = d, ro_new_refresh_jti = None\<rparr>" "view s' = view s"
      "hash_of (clock n) (session_key sid) (view s) = Some d" "text_field d ''user_id'' = Some uid"
      "text_field d ''previous_jti'' = Some jti" "time_field d ''rotated_at'' = Some rt" "clock n - rt \<le> 10 * seconds"
  | (reuse) d s1 q where "hash_of (clock n) (session_key sid) (view s) = Some d" "view s1 = view s"
      "text_field d ''refresh_jti'' \<noteq> Some jti \<or> live (clock n) (view s) (revoked_key jti) \<noteq> None"
      "revoke_session run (clock n) sid None s1 = (q, s')" "q \<noteq> Inl SessionStoreUnavailable"
      "r = (case q of Inl e \<Rightarrow> Inl e | Inr _ \<Rightarrow> Inl (SessionInvalid ''refresh_token_reuse''))"
      "\<And>rt. text_field d ''previous_jti'' = Some jti \<Longrightarrow> time_field d ''rotated_at'' = Some rt \<Longrightarrow> 10 * seconds < clock n - rt"
  | (broken) d where "r = Inl (KeyError ''expires_at'')" "view s' = view s" "hash_of (clock n) (session_key sid) (view s) = Some d"
      "text_field d ''refresh_jti'' = Some jti" "time_field d ''expires_at'' = None"
  | (retry) s1 s2 where "view s1 = view s" "others n s1 = (True, s2)"
      "rotate_attempts run cfg others clock fresh sid jti uid n s2 = (r, s')"
  | (renew) d s1 s2 k rs where "hash_of (clock n) (session_key sid) (view s) = Some d" "d \<noteq> []" "text_field d ''user_id'' = Some uid"
      "text_field d ''refresh_jti'' = Some jti" "view s1 = view s" "others n s1 = (False, s2)"
      "execute run (clock n)
         [HSET (session_key sid) (rotation_update (fresh n) jti (clock n) (refresh_lifetime_seconds cfg)),
          EXPIRE (session_key sid) (refresh_lifetime_seconds cfg),
          SET (revoked_key jti) (JStr (utext_of ''rotated'')) False (Some k),
          ZADD (user_sessions_key uid) False [(sid, clock n)],
          EXPIRE (user_sessions_key uid) (refresh_lifetime_seconds cfg)] s2 = (Some rs, s')"
      "r = Inr \<lparr>ro_data = put_assoc (rotation_update (fresh n) jti (clock n) (refresh_lifetime_seconds cfg)) d,
         ro_new_refresh_jti = Some (fresh n)\<rparr>"
      "live (clock n) (view s) (revoked_key jti) = None" "time_field d ''expires_at'' \<noteq> None"
      "\<And>rt. text_field d ''previous_jti'' = Some jti \<Longrightarrow> time_field d ''rotated_at'' = Some rt \<Longrightarrow> 10 * seconds < clock n - rt"
proof -
  let ?t = "clock n" and ?k = "session_key sid"
  obtain d bl s1 where rd: "execute run ?t [HGETALL ?k, EXISTS (revoked_key jti)] s = (Some [Hash d, Flag bl], s1)"
    using assms unfolding rotate_attempts.simps Let_def
    by (auto split: prod.splits option.splits list.splits reply.splits)
  have h: "hash_of ?t ?k (view s) = Some d" "bl = (live ?t (view s) (revoked_key jti) \<noteq> None)" "view s1 = view s"
    using execute_documented [OF rd] by (auto split: option.splits)
  let ?no = "d = [] \<or> text_field d ''user_id'' \<noteq> Some uid"
  let ?gr = "text_field d ''previous_jti'' = Some jti \<and>
      (case time_field d ''rotated_at'' of None \<Rightarrow> False | Some r \<Rightarrow> ?t - r \<le> REFRESH_REUSE_GRACE_SECONDS * seconds)"
  let ?re = "text_field d ''refresh_jti'' \<noteq> Some jti \<or> bl"
  note eq = assms(1) [unfolded rotate_attempts.simps Let_def rd prod.case option.case list.case reply.case]
  show ?thesis
  proof (cases ?no)
    case True
    then have "r = Inl (SessionInvalid (if bl then ''revoked'' else ''unknown_session'')) \<and> s' = s1" using eq by (simp only: if_True prod.inject)
    with True h show ?thesis by (intro unknown) (auto simp: hash_of_def)
  next
    case no: False
    note eq = eq [unfolded if_not_P [OF no]]
    show ?thesis
    proof (cases ?gr)
      case True
      then have "r = Inr \<lparr>ro_data = d, ro_new_refresh_jti = None\<rparr>" "s' = s1" using eq by simp_all
      moreover obtain rt where "time_field d ''rotated_at'' = Some rt" "?t - rt \<le> 10 * seconds"
        using True by (auto simp: REFRESH_REUSE_GRACE_SECONDS_def split: option.splits)
      ultimately show ?thesis using True no h by (intro grace [of d rt]) auto
    next
      case gr: False
      note eq = eq [unfolded if_not_P [OF gr]]
      show ?thesis
      proof (cases ?re)
        case True
        obtain q s2 where q: "revoke_session run ?t sid None s1 = (q, s2)" by (cases "revoke_session run ?t sid None s1")
        have "s' = s2" "r = (case q of Inl e \<Rightarrow> Inl e | Inr _ \<Rightarrow> Inl (SessionInvalid ''refresh_token_reuse''))"
          using eq [unfolded if_P [OF True] q] by (auto split: sum.splits)
        moreover have "q \<noteq> Inl SessionStoreUnavailable" using assms(2) calculation by auto
        moreover have "10 * seconds < ?t - rt" if "text_field d ''previous_jti'' = Some jti" "time_field d ''rotated_at'' = Some rt" for rt
          using gr that by (simp add: REFRESH_REUSE_GRACE_SECONDS_def)
        ultimately show ?thesis using q h True by (intro reuse) auto
      next
        case re: False
        note eq = eq [unfolded if_not_P [OF re]]
        show ?thesis
        proof (cases "time_field d ''expires_at''")
          case None
          with eq h re show ?thesis by (intro broken) auto
        next
          case (Some x)
          obtain b s2 where o: "others n s1 = (b, s2)" by (cases "others n s1")
          note eq = eq [unfolded Some option.case o prod.case]
          show ?thesis
          proof (cases b)
            case True
            with eq o h show ?thesis by (intro retry) auto
          next
            case False
            let ?cs = "[HSET ?k (rotation_update (fresh n) jti ?t (refresh_lifetime_seconds cfg)), EXPIRE ?k (refresh_lifetime_seconds cfg),
                SET (revoked_key jti) (JStr (utext_of ''rotated'')) False (Some (remaining_seconds x ?t)),
                ZADD (user_sessions_key uid) False [(sid, ?t)], EXPIRE (user_sessions_key uid) (refresh_lifetime_seconds cfg)]"
            from eq False have "(case execute run ?t ?cs s2 of (None, s3) \<Rightarrow> (Inl SessionStoreUnavailable, s3)
                | (Some _, s3) \<Rightarrow> (Inr \<lparr>ro_data = put_assoc (rotation_update (fresh n) jti ?t (refresh_lifetime_seconds cfg)) d,
                    ro_new_refresh_jti = Some (fresh n)\<rparr>, s3)) = (r, s')"
              by (simp only: rotation_update_def if_False)
            with assms(2) obtain rs where ex: "execute run ?t ?cs s2 = (Some rs, s')"
                "r = Inr \<lparr>ro_data = put_assoc (rotation_update (fresh n) jti ?t (refresh_lifetime_seconds cfg)) d,
                    ro_new_refresh_jti = Some (fresh n)\<rparr>"
              by (cases "execute run ?t ?cs s2"; cases "fst (execute run ?t ?cs s2)") auto
            have "10 * seconds < ?t - rt" if "text_field d ''previous_jti'' = Some jti" "time_field d ''rotated_at'' = Some rt" for rt
              using gr that by (simp add: REFRESH_REUSE_GRACE_SECONDS_def)
            moreover have "live ?t (view s) (revoked_key jti) = None" using re h(2) by blast
            ultimately show ?thesis using no re o False Some by (intro renew [OF h(1) _ _ _ h(3) _ ex]) auto
          qed
        qed
      qed
    qed
  qed
qed

lemma renew_inv:
  assumes inv: "session_inv (refresh_lifetime_seconds cfg * seconds) t (view s2)" and life: "0 < refresh_lifetime_seconds cfg"
    and d: "hash_of t (session_key sid) (view s2) = Some d" "d \<noteq> []" "text_field d ''user_id'' = Some uid"
    and ex: "execute run t
         [HSET (session_key sid) (rotation_update new_jti jti t (refresh_lifetime_seconds cfg)),
          EXPIRE (session_key sid) (refresh_lifetime_seconds cfg),
          SET (revoked_key jti) (JStr (utext_of ''rotated'')) False (Some k),
          ZADD (user_sessions_key uid) False [(sid, t)],
          EXPIRE (user_sessions_key uid) (refresh_lifetime_seconds cfg)] s2 = (Some rs, s')"
  shows "session_inv (refresh_lifetime_seconds cfg * seconds) t (view s')"
proof -
  obtain e where l: "live t (view s2) (session_key sid) = Some (RHash d, e)" using hash_of_live [OF d(1,2)] by blast
  have sid: "text_field d ''sid'' = Some sid" by (rule session_invD [OF inv l])
  show ?thesis
    by (rule renewed_inv [OF inv rotate_commit [OF ex life d(1)]])
      (simp_all only: rotation_update_simps [OF refl] sid d(3) option.distinct not_False_eq_True)
qed

text \<open>A renewal keeps the invariant, whatever other clients do meanwhile that keeps it too.\<close>

lemma rotate_attempts_inv:
  assumes life: "0 < refresh_lifetime_seconds cfg"
    and others: "\<And>i x b y. others i x = (b, y) \<Longrightarrow> session_inv (refresh_lifetime_seconds cfg * seconds) (clock i) (view x) \<Longrightarrow>
        session_inv (refresh_lifetime_seconds cfg * seconds) (clock i) (view y)"
      "\<And>i x y. others i x = (False, y) \<Longrightarrow> view y (session_key sid) = view x (session_key sid)"
    and mono: "\<And>i j. i \<le> j \<Longrightarrow> clock j \<le> clock i"
    and inv: "session_inv (refresh_lifetime_seconds cfg * seconds) (clock (n - 1)) (view s)"
    and run: "rotate_attempts run cfg others clock fresh sid jti uid n s = (r, s')" "r \<noteq> Inl SessionStoreUnavailable"
  shows "session_inv (refresh_lifetime_seconds cfg * seconds) (clock 0) (view s')"
  using inv run
proof (induction n arbitrary: s)
  case 0
  then show ?case by simp
next
  case (Suc n)
  have inv: "session_inv (refresh_lifetime_seconds cfg * seconds) (clock n) (view s)" using Suc.prems(1) by simp
  have late: "session_inv (refresh_lifetime_seconds cfg * seconds) (clock n) st \<Longrightarrow>
      session_inv (refresh_lifetime_seconds cfg * seconds) (clock 0) st" for st
    using session_inv_time mono [of 0 n] by blast
  from Suc.prems(2,3) show ?case
  proof (cases rule: rotate_cases)
    case (reuse d s1 q)
    then show ?thesis using revoke_session_inv [OF _ reuse(4,5)] inv late by simp
  next
    case (retry s1 s2)
    have "session_inv (refresh_lifetime_seconds cfg * seconds) (clock n) (view s2)"
      using others(1) [OF retry(2)] retry(1) inv by simp
    moreover have "clock n \<le> clock (n - 1)" by (rule mono) simp
    ultimately have "session_inv (refresh_lifetime_seconds cfg * seconds) (clock (n - 1)) (view s2)" by (rule session_inv_time)
    then show ?thesis by (rule Suc.IH [OF _ retry(3) Suc.prems(3)])
  next
    case (renew d s1 s2 k rs)
    have "session_inv (refresh_lifetime_seconds cfg * seconds) (clock n) (view s2)"
      using others(1) [OF renew(6)] renew(5) inv by simp
    moreover have "hash_of (clock n) (session_key sid) (view s2) = Some d"
      using others(2) [OF renew(6)] renew(1,5) live_cong [of "view s2" "session_key sid" "view s"] by (simp add: hash_of_def)
    ultimately show ?thesis using renew_inv [OF _ life _ renew(2,3,7)] late by blast
  qed (use inv late in simp_all)
qed

lemma vanish_inv:
  assumes "session_inv L t (view s)" and "\<And>a. view s' (user_sessions_key a) = view s (user_sessions_key a)"
    and "\<And>a d e. view s' (session_key a) = Some (RHash d, e) \<Longrightarrow> view s (session_key a) = Some (RHash d, e)"
  shows "session_inv L t (view s')"
proof (rule session_inv_step [OF assms(1)])
  fix a d e
  assume "live t (view s') (session_key a) = Some (RHash d, e)"
  then show "live t (view s) (session_key a) = Some (RHash d, e) \<or> (\<exists>x. e = Some x \<and> tracked L t (view s') a d x)"
    using assms(3) [of a d e] by (auto simp: live_def split: option.splits if_splits)
next
  fix v zs y a sc x
  assume a: "live t (view s) (user_sessions_key v) = Some (RZset zs, Some y)" "(a, sc) \<in> set zs" "x \<le> y" "x \<le> sc + L"
  have "live t (view s') (user_sessions_key v) = live t (view s) (user_sessions_key v)" by (rule live_cong) (rule assms(2))
  with a show "\<exists>zs' y' sc'. live t (view s') (user_sessions_key v) = Some (RZset zs', Some y') \<and> x \<le> y' \<and> (a, sc') \<in> set zs' \<and> x \<le> sc' + L"
    by auto
qed

end

section \<open>Reachable states\<close>

text \<open>
  A run of the session service: time passes, users log in (under fresh session names), renew, end, list and use
  sessions, and other parts of the program write and delete keys that hold no sessions and no session lists (the
  user cache, one-time codes). Requests that the server did not answer are not steps.
\<close>

inductive session_step :: "'s sserver \<Rightarrow> ('s \<Rightarrow> login_entry store) \<Rightarrow> settings \<Rightarrow> time \<times> 's \<Rightarrow> time \<times> 's \<Rightarrow> bool"
  for run view cfg where
  pass: "t \<le> t' \<Longrightarrow> session_step run view cfg (t, s) (t', s)"
| login: "live t (view s) (session_key sid) = None \<Longrightarrow>
    create_session run cfg parse_ua geoip t sid jti uid tid ip ua s = (Inr c, s') \<Longrightarrow> session_step run view cfg (t, s) (t, s')"
| refresh: "rotate_refresh run cfg (\<lambda>_ x. (False, x)) (\<lambda>_. t) fresh sid jti uid s = (r, s') \<Longrightarrow> r \<noteq> Inl SessionStoreUnavailable \<Longrightarrow>
    session_step run view cfg (t, s) (t, s')"
| revoke: "revoke_session run t sid u s = (Inr b, s') \<Longrightarrow> session_step run view cfg (t, s) (t, s')"
| listing: "list_sessions run t uid s = (Inr rows, s') \<Longrightarrow> session_step run view cfg (t, s) (t, s')"
| touch: "touch_session run t sid s = (Inr b, s') \<Longrightarrow> session_step run view cfg (t, s) (t, s')"
| other: "(\<And>a. view s' (user_sessions_key a) = view s (user_sessions_key a)) \<Longrightarrow>
    (\<And>a d e. view s' (session_key a) = Some (RHash d, e) \<Longrightarrow> view s (session_key a) = Some (RHash d, e)) \<Longrightarrow>
    session_step run view cfg (t, s) (t, s')"

inductive session_reachable :: "'s sserver \<Rightarrow> ('s \<Rightarrow> login_entry store) \<Rightarrow> settings \<Rightarrow> time \<times> 's \<Rightarrow> bool"
  for run view cfg where
  start: "view s = (\<lambda>_. None) \<Longrightarrow> session_reachable run view cfg (t, s)"
| step: "session_reachable run view cfg p \<Longrightarrow> session_step run view cfg p q \<Longrightarrow> session_reachable run view cfg q"

lemma session_reachable_inv:
  assumes "session_store run view" and "0 < refresh_lifetime_seconds cfg" and "session_reachable run view cfg p"
  shows "session_inv (refresh_lifetime_seconds cfg * seconds) (fst p) (view (snd p))"
  using assms(3)
proof induction
  case (start s t)
  then show ?case by (simp add: session_inv_empty)
next
  case (step p q)
  from step(2,3) show ?case
  proof cases
    case (pass t t' s)
    with step(3) show ?thesis using session_inv_time by simp
  next
    case (login t s sid parse_ua geoip jti uid tid ip ua c s')
    with step(3) show ?thesis using session_store.create_session_inv [OF assms(1) _ login(4) _ assms(2) login(3)] by simp
  next
    case (refresh t fresh sid jti uid s r s')
    have "session_inv (refresh_lifetime_seconds cfg * seconds) t (view s)" using step(3) refresh(1) by simp
    then show ?thesis
      using session_store.rotate_attempts_inv [OF assms(1,2) _ _ _ _ refresh(3) [unfolded rotate_refresh_def] refresh(4)] refresh(2) by simp
  next
    case (revoke t sid u s b s')
    with step(3) show ?thesis using session_store.revoke_session_inv [OF assms(1) _ revoke(3)] by simp
  next
    case (listing t uid s rows s')
    with step(3) show ?thesis using session_store.list_sessions_inv [OF assms(1) _ listing(3)] by simp
  next
    case (touch t sid s b s')
    with step(3) show ?thesis using session_store.touch_session_inv [OF assms(1) _ touch(3)] by simp
  next
    case (other s' s t)
    with step(3) show ?thesis using session_store.vanish_inv [OF assms(1) _ other(3,4)] by simp
  qed
qed

interpretation mem_sessions: session_store mem_server "\<lambda>st. st" ..

end
