(* ===== verification/Auth.thy ===== *)
theory Auth
  imports Session_Properties Access_Control
begin

text \<open>
  Authentication (app/routers/auth.py, app/core/security.py, the current user of app/core/deps.py, and the
  JSON cache of app/core/cache.py). Parameters: the token library (\<open>jwt\<close>), the password
  hash, the validation of e-mail addresses, the key-value store and the clock. The request rate limits of the
  routes are not modelled. A task offered to the background queue is listed whether or not the queue
  accepts it (a refusal is only logged).
\<close>

section \<open>Tokens\<close>

text \<open>The token library, under the program's key: a token of given claims and expiry, and its decoding at a time.\<close>

record jwt =
  jw_encode :: "claims \<Rightarrow> time \<Rightarrow> string"
  jw_decode :: "time \<Rightarrow> string \<Rightarrow> claims option"

text \<open>What the program relies on: a token decodes to its claims until its expiry (in whole seconds) has passed.\<close>

definition jwt_ok :: "jwt \<Rightarrow> bool" where
  "jwt_ok J \<longleftrightarrow> (\<forall>c x t. jw_decode J t (jw_encode J c x) = (if x div seconds < t div seconds then None else Some c))"

definition create_access_token :: "settings \<Rightarrow> jwt \<Rightarrow> time \<Rightarrow> string \<Rightarrow> uuid option \<Rightarrow> string \<Rightarrow> string \<times> int" where
  "create_access_token cfg J now subject tenant_id session_id =
     (let lifetime = ACCESS_TOKEN_EXPIRE_MINUTES cfg * 60
      in (jw_encode J \<lparr>cl_type = Some ''access'', cl_sub = Some subject, cl_tid = map_option str_of_uuid tenant_id,
            cl_sid = (if session_id = [] then None else Some session_id), cl_jti = None\<rparr> (now + lifetime * seconds), lifetime))"

definition create_refresh_token :: "settings \<Rightarrow> jwt \<Rightarrow> time \<Rightarrow> string \<Rightarrow> string \<Rightarrow> string \<Rightarrow> string \<times> int" where
  "create_refresh_token cfg J now subject session_id jti =
     (let lifetime = refresh_lifetime_seconds cfg
      in (jw_encode J \<lparr>cl_type = Some ''refresh'', cl_sub = Some subject, cl_tid = None,
            cl_sid = (if session_id = [] then None else Some session_id),
            cl_jti = (if session_id = [] then None else Some jti)\<rparr> (now + lifetime * seconds), lifetime))"

text \<open>For an unknown account a hash of a fixed password is checked, and the answer is no.\<close>

definition verify_login_password :: "(utext \<Rightarrow> string \<Rightarrow> bool) \<Rightarrow> utext \<Rightarrow> string option \<Rightarrow> bool" where
  "verify_login_password verify plain_password password_hash =
     (case password_hash of None \<Rightarrow> False | Some h \<Rightarrow> verify plain_password h)"

section \<open>The JSON cache\<close>

text \<open>Every failure of the cache is a miss.\<close>

definition get_cached_json :: "'s sserver \<Rightarrow> time \<Rightarrow> utext \<Rightarrow> 's \<Rightarrow> json option \<times> 's" where
  "get_cached_json run t key s = (case run t [GET key] s of (Some [Value j], s1) \<Rightarrow> (if j = JNull then None else Some j, s1) | (_, s1) \<Rightarrow> (None, s1))"

definition set_cached_json :: "'s sserver \<Rightarrow> time \<Rightarrow> utext \<Rightarrow> json \<Rightarrow> int \<Rightarrow> 's \<Rightarrow> 's" where
  "set_cached_json run t key value ttl_seconds s = snd (run t [SET key value False (Some ttl_seconds)] s)"

definition delete_cached :: "'s sserver \<Rightarrow> time \<Rightarrow> utext \<Rightarrow> 's \<Rightarrow> 's" where
  "delete_cached run t key s = snd (run t [DEL [key]] s)"

section \<open>The user of a request\<close>

definition USER_SESSION_CACHE_TTL_SECONDS :: int where "USER_SESSION_CACHE_TTL_SECONDS = 300"

definition session_cache_key :: "uuid \<Rightarrow> utext" where
  "session_cache_key user_id = utext_of ''session:user:'' @ utext_of (str_of_uuid user_id)"

definition session_store_unavailable :: exc where
  "session_store_unavailable = HTTPException 503 Session_Store_Unavailable"

definition cached_user_json :: "user \<Rightarrow> json" where
  "cached_user_json user = JObj [(''id'', JStr (utext_of (str_of_uuid (u_id user)))), (''email'', JStr (u_email user)),
     (''role'', JStr (utext_of (u_role user))), (''is_active'', JBool (u_is_active user)),
     (''tenant_id'', case u_tenant_id user of None \<Rightarrow> JNull | Some t \<Rightarrow> JStr (utext_of (str_of_uuid t)))]"

text \<open>The cached object, read back into an account without the columns that were not cached.\<close>

definition text_string :: "utext \<Rightarrow> string" where
  "text_string t = map char_of t"

definition cached_user :: "json \<Rightarrow> user option" where
  "cached_user j =
     (case j of
        JObj kvs \<Rightarrow>
          (case (map_of kvs ''id'', map_of kvs ''email'', map_of kvs ''role'', map_of kvs ''is_active'', map_of kvs ''tenant_id'') of
             (Some (JStr i), Some (JStr email), Some (JStr role), Some (JBool active), Some tid) \<Rightarrow>
               (case uuid_of_str (text_string i) of
                  None \<Rightarrow> None
                | Some uid \<Rightarrow>
                    Some \<lparr>u_id = uid, u_email = email, u_password_hash = [], u_role = text_string role, u_is_active = active,
                      u_created_at = 0,
                      u_tenant_id = (case tid of JStr x \<Rightarrow> if x = [] then None else uuid_of_str (text_string x) | _ \<Rightarrow> None),
                      u_data_consent_at = None, u_data_consent_version = None, u_anonymized_at = None\<rparr>)
           | _ \<Rightarrow> None)
      | _ \<Rightarrow> None)"

definition has_tenant_field :: "json \<Rightarrow> bool" where
  "has_tenant_field j = (case j of JObj kvs \<Rightarrow> ''tenant_id'' \<in> set (map fst kvs) | _ \<Rightarrow> False)"

definition load_user :: "'s sserver \<Rightarrow> time \<Rightarrow> uuid \<Rightarrow> db \<Rightarrow> 's \<Rightarrow> (exc + user) \<times> 's" where
  "load_user run t user_uuid d s =
     (case get_cached_json run t (session_cache_key user_uuid) s of
        (cached, s1) \<Rightarrow>
          (case (case cached of Some j \<Rightarrow> if has_tenant_field j then Some j else None | None \<Rightarrow> None) of
             Some j \<Rightarrow> (case cached_user j of None \<Rightarrow> (Inl Uncaught, s1) | Some user \<Rightarrow> (Inr user, s1))
           | None \<Rightarrow>
               (case scalar_one_or_none (filter (\<lambda>u. u_id u = user_uuid) (users d)) of
                  Inl e \<Rightarrow> (Inl e, s1)
                | Inr None \<Rightarrow> (Inl unauthorized, s1)
                | Inr (Some user) \<Rightarrow>
                    (Inr user, set_cached_json run t (session_cache_key user_uuid) (cached_user_json user)
                       USER_SESSION_CACHE_TTL_SECONDS s1))))"

definition get_current_user :: "'s sserver \<Rightarrow> jwt \<Rightarrow> time \<Rightarrow> string option \<Rightarrow> db \<Rightarrow> 's \<Rightarrow> (exc + user) \<times> 's" where
  "get_current_user run J t credentials d s =
     (case credentials of
        None \<Rightarrow> (Inl unauthorized, s)
      | Some token \<Rightarrow>
          (case jw_decode J t token of
             None \<Rightarrow> (Inl unauthorized, s)
           | Some payload \<Rightarrow>
               if cl_type payload \<noteq> Some ''access'' then (Inl unauthorized, s)
               else (case cl_sub payload of
                 None \<Rightarrow> (Inl unauthorized, s)
               | Some user_id \<Rightarrow>
                   (case uuid_of_str user_id of
                      None \<Rightarrow> (Inl unauthorized, s)
                    | Some user_uuid \<Rightarrow>
                        (case cl_sid payload of
                           None \<Rightarrow> (Inl unauthorized, s)
                         | Some session_id \<Rightarrow>
                             if session_id = [] then (Inl unauthorized, s)
                             else (case touch_session run t (utext_of session_id) s of
                               (Inl _, s1) \<Rightarrow> (Inl session_store_unavailable, s1)
                             | (Inr False, s1) \<Rightarrow> (Inl unauthorized, s1)
                             | (Inr True, s1) \<Rightarrow>
                                 (case load_user run t user_uuid d s1 of
                                    (Inl e, s2) \<Rightarrow> (Inl e, s2)
                                  | (Inr user, s2) \<Rightarrow>
                                      (case ensure_token_tenant_matches user (cl_tid payload) of
                                         Inl e \<Rightarrow> (Inl e, s2)
                                       | Inr _ \<Rightarrow> (Inr user, s2)))))))))"

section \<open>Requests\<close>

text \<open>The state that the routes of this router change: the accounts, the store and the background queue.\<close>

record login_details =
  ld_signed_in_at :: time
  ld_browser :: utext
  ld_os :: utext
  ld_ip :: utext
  ld_location :: utext

datatype task =
    Welcome_Mail utext
  | Suspicious_Login_Mail utext login_details "reason list"
  | New_Signin_Mail utext login_details
  | Otp_Mail utext utext int

record 's world =
  w_db :: db
  w_store :: 's
  w_tasks :: "task list"

text \<open>\<open>EmailStr\<close> after the sanitiser: the validator (\<open>email_str\<close>) refuses or normalises.\<close>

definition clean_email :: "unicode \<Rightarrow> (utext \<Rightarrow> utext option) \<Rightarrow> utext \<Rightarrow> exc + utext" where
  "clean_email U email_str value =
     (case email_str (strip_html_tags U value) of None \<Rightarrow> Inl (HTTPException 422 Validation_Error) | Some e \<Rightarrow> Inr e)"

text \<open>The two texts of the label of a location: the separator and the word for unknown.\<close>

definition geo_separator :: utext where "geo_separator = [1548, 32]"
definition geo_unknown :: utext where "geo_unknown = [1606, 1575, 1605, 1588, 1582, 1589]"

definition geo_label :: "GeoLocation \<Rightarrow> utext" where
  "geo_label g = or_else (join_texts geo_separator (map the (filter truthy [g_city g, g_country g]))) geo_unknown"

definition enqueue_login_alerts :: "unicode \<Rightarrow> utext \<Rightarrow> CreatedSession \<Rightarrow> task list" where
  "enqueue_login_alerts U email created =
     (let assessment = cr_assessment created; data = cr_data created;
          text = (\<lambda>f. case text_field data f of None \<Rightarrow> [] | Some t \<Rightarrow> t)
      in if \<not> (as_suspicious assessment \<or> should_alert_new_device assessment) then []
         else
           (let details = \<lparr>ld_signed_in_at = (case time_field data ''created_at'' of None \<Rightarrow> 0 | Some t \<Rightarrow> t),
                  ld_browser = ustrip U (text ''browser'' @ [32] @ text ''browser_version''),
                  ld_os = ustrip U (text ''os'' @ [32] @ text ''os_version''), ld_ip = text ''ip'',
                  ld_location = (case cr_geo created of None \<Rightarrow> geo_unknown | Some g \<Rightarrow> geo_label g)\<rparr>
            in if as_suspicious assessment then [Suspicious_Login_Mail email details (as_reasons assessment)]
               else [New_Signin_Mail email details]))"

datatype cookie = Keep_Cookie | Set_Cookie string int | Clear_Cookie

record LoginResponse =
  lr_access_token :: string
  lr_refresh_token :: string
  lr_expires_in :: int
  lr_cookie :: cookie

definition login_user ::
  "'s sserver \<Rightarrow> settings \<Rightarrow> jwt \<Rightarrow> (utext \<Rightarrow> string \<Rightarrow> bool) \<Rightarrow> unicode \<Rightarrow> (utext \<Rightarrow> parsed_ua) \<Rightarrow> (utext \<Rightarrow> GeoLocation option) \<Rightarrow>
   time \<Rightarrow> string \<Rightarrow> string \<Rightarrow> utext \<Rightarrow> utext \<Rightarrow> utext \<Rightarrow> utext option \<Rightarrow> 's world \<Rightarrow> (exc + LoginResponse) \<times> 's world" where
  "login_user run cfg J verify U parse_ua geoip_lookup now new_sid new_jti email password ip user_agent w =
     (case scalar_one_or_none (filter (\<lambda>u. u_email u = email) (users (w_db w))) of
        Inl e \<Rightarrow> (Inl e, w)
      | Inr found \<Rightarrow>
          if \<not> verify_login_password verify password (map_option u_password_hash found)
          then (Inl (HTTPException 401 Invalid_Credentials), w)
          else (case found of
            None \<Rightarrow> (Inl (HTTPException 401 Invalid_Credentials), w)
          | Some user \<Rightarrow>
              (case create_session run cfg parse_ua geoip_lookup now (utext_of new_sid) (utext_of new_jti)
                      (utext_of (str_of_uuid (u_id user))) (map_option (\<lambda>t. utext_of (str_of_uuid t)) (u_tenant_id user))
                      ip user_agent (w_store w) of
                 (Inl _, s1) \<Rightarrow> (Inl session_store_unavailable, w\<lparr>w_store := s1\<rparr>)
               | (Inr created, s1) \<Rightarrow>
                   (let (access_token, expires_in) = create_access_token cfg J now (str_of_uuid (u_id user)) (u_tenant_id user) new_sid;
                        (refresh_token, refresh_max_age) = create_refresh_token cfg J now (str_of_uuid (u_id user)) new_sid new_jti
                    in (Inr \<lparr>lr_access_token = access_token, lr_refresh_token = refresh_token, lr_expires_in = expires_in,
                          lr_cookie = Set_Cookie refresh_token refresh_max_age\<rparr>,
                        w\<lparr>w_store := s1, w_tasks := w_tasks w @ enqueue_login_alerts U (u_email user) created\<rparr>)))))"

record RefreshResponse =
  rr_access_token :: string
  rr_refresh_token :: "string option"
  rr_expires_in :: int
  rr_cookie :: cookie

text \<open>A refused renewal answers 401 and clears the cookie.\<close>

datatype refresh_answer = Rejected cookie | Refreshed RefreshResponse

definition refresh_rejected :: refresh_answer where
  "refresh_rejected = Rejected Clear_Cookie"

definition nonempty_claim :: "string option \<Rightarrow> bool" where
  "nonempty_claim c \<longleftrightarrow> c \<noteq> None \<and> c \<noteq> Some []"

definition refresh_access_token ::
  "'s sserver \<Rightarrow> settings \<Rightarrow> jwt \<Rightarrow> (nat \<Rightarrow> 's \<Rightarrow> bool \<times> 's) \<Rightarrow> (nat \<Rightarrow> time) \<Rightarrow> (nat \<Rightarrow> string) \<Rightarrow> string option \<Rightarrow> string option \<Rightarrow>
   's world \<Rightarrow> (exc + refresh_answer) \<times> 's world" where
  "refresh_access_token run cfg J others clock fresh body_token cookie_token w =
     (let token = (if nonempty_claim body_token then body_token else cookie_token); now = clock 0
      in if \<not> nonempty_claim token then (Inr refresh_rejected, w)
         else (case jw_decode J now (the token) of
           None \<Rightarrow> (Inr refresh_rejected, w)
         | Some claims \<Rightarrow>
             if cl_type claims \<noteq> Some ''refresh'' \<or> \<not> nonempty_claim (cl_sid claims) \<or> \<not> nonempty_claim (cl_jti claims)
                \<or> \<not> nonempty_claim (cl_sub claims)
             then (Inr refresh_rejected, w)
             else
               (let sid = the (cl_sid claims); sub = the (cl_sub claims)
                in case rotate_refresh run cfg others clock (\<lambda>i. utext_of (fresh i)) (utext_of sid) (utext_of (the (cl_jti claims)))
                          (utext_of sub) (w_store w) of
                     (Inl (SessionInvalid _), s1) \<Rightarrow> (Inr refresh_rejected, w\<lparr>w_store := s1\<rparr>)
                   | (Inl SessionStoreUnavailable, s1) \<Rightarrow> (Inl session_store_unavailable, w\<lparr>w_store := s1\<rparr>)
                   | (Inl (KeyError _), s1) \<Rightarrow> (Inl Uncaught, w\<lparr>w_store := s1\<rparr>)
                   | (Inr outcome, s1) \<Rightarrow>
                       (case uuid_of_str sub of
                          None \<Rightarrow> (Inl Uncaught, w\<lparr>w_store := s1\<rparr>)
                        | Some uid \<Rightarrow>
                            (case scalar_one_or_none (filter (\<lambda>u. u_id u = uid) (users (w_db w))) of
                               Inl e \<Rightarrow> (Inl e, w\<lparr>w_store := s1\<rparr>)
                             | Inr None \<Rightarrow>
                                 (case revoke_session run now (utext_of sid) None s1 of
                                    (Inl _, s2) \<Rightarrow> (Inl Uncaught, w\<lparr>w_store := s2\<rparr>)
                                  | (Inr _, s2) \<Rightarrow> (Inr refresh_rejected, w\<lparr>w_store := s2\<rparr>))
                             | Inr (Some user) \<Rightarrow>
                                 (let (access_token, expires_in) = create_access_token cfg J now (str_of_uuid (u_id user))
                                        (u_tenant_id user) sid
                                  in (case ro_new_refresh_jti outcome of
                                        None \<Rightarrow> (Inr (Refreshed \<lparr>rr_access_token = access_token, rr_refresh_token = None,
                                          rr_expires_in = expires_in, rr_cookie = Keep_Cookie\<rparr>), w\<lparr>w_store := s1\<rparr>)
                                      | Some jti \<Rightarrow>
                                          (let (refresh_token, refresh_max_age) =
                                                 create_refresh_token cfg J now (str_of_uuid (u_id user)) sid (text_string jti)
                                           in (Inr (Refreshed \<lparr>rr_access_token = access_token, rr_refresh_token = Some refresh_token,
                                                 rr_expires_in = expires_in, rr_cookie = Set_Cookie refresh_token refresh_max_age\<rparr>),
                                               w\<lparr>w_store := s1\<rparr>)))))))))"

section \<open>Own sessions\<close>

definition logout :: "'s sserver \<Rightarrow> time \<Rightarrow> user \<Rightarrow> string \<Rightarrow> 's \<Rightarrow> (exc + cookie) \<times> 's" where
  "logout run now current_user session_id s =
     (case revoke_session run now (utext_of session_id) (Some (utext_of (str_of_uuid (u_id current_user)))) s of
        (Inl SessionStoreUnavailable, s1) \<Rightarrow> (Inl session_store_unavailable, s1)
      | (Inl _, s1) \<Rightarrow> (Inl Uncaught, s1)
      | (Inr _, s1) \<Rightarrow> (Inr Clear_Cookie, s1))"

record SessionLocation =
  sl_country :: "utext option"
  sl_country_code :: utext
  sl_city :: "utext option"

record SessionResponse =
  sr_id :: utext
  sr_browser :: utext
  sr_browser_version :: utext
  sr_os :: utext
  sr_os_version :: utext
  sr_device_type :: utext
  sr_device :: utext
  sr_user_agent :: utext
  sr_ip :: utext
  sr_location :: "SessionLocation option"
  sr_created_at :: time
  sr_last_active_at :: time
  sr_expires_at :: time
  sr_is_current :: bool
  sr_suspicious :: bool

definition from_store :: "session_data \<Rightarrow> utext option \<Rightarrow> (utext option \<Rightarrow> utext) \<Rightarrow> exc + SessionResponse" where
  "from_store data current_session_id masked =
     (let text = (\<lambda>f. case text_field data f of None \<Rightarrow> [] | Some t \<Rightarrow> t);
          non_empty = (\<lambda>t. if t = [] then None else Some t)
      in case (text_field data ''sid'', time_field data ''created_at'', time_field data ''last_active_at'', time_field data ''expires_at'') of
           (Some sid, Some created_at, Some last_active_at, Some expires_at) \<Rightarrow>
             (let is_current = (current_session_id = Some sid)
              in Inr \<lparr>sr_id = sid, sr_browser = text ''browser'', sr_browser_version = text ''browser_version'', sr_os = text ''os'',
                   sr_os_version = text ''os_version'', sr_device_type = text ''device_type'', sr_device = text ''device'',
                   sr_user_agent = text ''user_agent'', sr_ip = (if is_current then text ''ip'' else masked (text_field data ''ip'')),
                   sr_location = (if text ''country_code'' = [] then None
                     else Some \<lparr>sl_country = non_empty (text ''country''), sl_country_code = text ''country_code'',
                       sl_city = non_empty (text ''city'')\<rparr>),
                   sr_created_at = created_at, sr_last_active_at = last_active_at, sr_expires_at = expires_at,
                   sr_is_current = is_current, sr_suspicious = (text_field data ''suspicious'' = Some (utext_of ''1''))\<rparr>)
         | _ \<Rightarrow> Inl Uncaught)"

definition get_my_sessions :: "'s sserver \<Rightarrow> time \<Rightarrow> user \<Rightarrow> string \<Rightarrow> 's \<Rightarrow> (exc + SessionResponse list) \<times> 's" where
  "get_my_sessions run now current_user session_id s =
     (case list_sessions run now (utext_of (str_of_uuid (u_id current_user))) s of
        (Inl _, s1) \<Rightarrow> (Inl session_store_unavailable, s1)
      | (Inr rows, s1) \<Rightarrow> (collect (map (\<lambda>row. from_store row (Some (utext_of session_id)) mask_ip) rows), s1))"

definition revoke_my_session :: "'s sserver \<Rightarrow> time \<Rightarrow> utext \<Rightarrow> user \<Rightarrow> 's \<Rightarrow> (exc + unit) \<times> 's" where
  "revoke_my_session run now session_id current_user s =
     (case revoke_session run now session_id (Some (utext_of (str_of_uuid (u_id current_user)))) s of
        (Inl SessionStoreUnavailable, s1) \<Rightarrow> (Inl session_store_unavailable, s1)
      | (Inl _, s1) \<Rightarrow> (Inl Uncaught, s1)
      | (Inr revoked, s1) \<Rightarrow> if revoked then (Inr (), s1) else (Inl (HTTPException 404 Session_Not_Found), s1))"

record CurrentUserResponse =
  me_user_id :: uuid
  me_email :: utext
  me_role :: string
  me_tenant_id :: "uuid option"

definition get_me :: "user \<Rightarrow> CurrentUserResponse" where
  "get_me current_user = \<lparr>me_user_id = u_id current_user, me_email = u_email current_user, me_role = u_role current_user,
     me_tenant_id = u_tenant_id current_user\<rparr>"

section \<open>Password reset\<close>

definition OTP_TTL_SECONDS :: int where "OTP_TTL_SECONDS = 600"
definition OTP_CACHE_KEY_PREFIX :: utext where "OTP_CACHE_KEY_PREFIX = utext_of ''password_reset_otp:''"

text \<open>Six decimal digits of the random number, which is below one million.\<close>

definition generate_otp_code :: "nat \<Rightarrow> utext" where
  "generate_otp_code n = map (\<lambda>i. 48 + n div 10 ^ i mod 10) [5, 4, 3, 2, 1, 0]"

definition issue_and_send_password_reset_otp :: "'s sserver \<Rightarrow> time \<Rightarrow> nat \<Rightarrow> utext \<Rightarrow> 's world \<Rightarrow> 's world" where
  "issue_and_send_password_reset_otp run now random email w =
     (let otp_code = generate_otp_code random
      in w\<lparr>w_store := set_cached_json run now (OTP_CACHE_KEY_PREFIX @ email) (JObj [(''otp'', JStr otp_code)]) OTP_TTL_SECONDS (w_store w),
           w_tasks := w_tasks w @ [Otp_Mail email otp_code (OTP_TTL_SECONDS div 60)]\<rparr>)"

definition forgot_password :: "'s sserver \<Rightarrow> time \<Rightarrow> nat \<Rightarrow> utext \<Rightarrow> 's world \<Rightarrow> (exc + unit) \<times> 's world" where
  "forgot_password run now random email w =
     (case scalar_one_or_none (filter (\<lambda>u. u_email u = email) (users (w_db w))) of
        Inl e \<Rightarrow> (Inl e, w)
      | Inr None \<Rightarrow> (Inr (), w)
      | Inr (Some user) \<Rightarrow> (Inr (), issue_and_send_password_reset_otp run now random (u_email user) w))"

definition reset_password ::
  "'s sserver \<Rightarrow> time \<Rightarrow> (utext \<Rightarrow> string) \<Rightarrow> utext \<Rightarrow> utext \<Rightarrow> utext \<Rightarrow> 's world \<Rightarrow> (exc + unit) \<times> 's world" where
  "reset_password run now hash_password email otp_code new_password w =
     (case get_cached_json run now (OTP_CACHE_KEY_PREFIX @ email) (w_store w) of
        (cached_otp, s1) \<Rightarrow>
          (let w1 = w\<lparr>w_store := s1\<rparr>; invalid = (Inl (HTTPException 400 Invalid_Otp), w1)
           in if (case cached_otp of Some (JObj kvs) \<Rightarrow> map_of kvs ''otp'' \<noteq> Some (JStr otp_code) | _ \<Rightarrow> True) then invalid
              else (case scalar_one_or_none (filter (\<lambda>u. u_email u = email) (users (w_db w))) of
                Inl e \<Rightarrow> (Inl e, w1)
              | Inr None \<Rightarrow> invalid
              | Inr (Some user) \<Rightarrow>
                  (Inr (), w1\<lparr>w_db := (w_db w)\<lparr>users := update_where (\<lambda>u. u_id u = u_id user)
                       (\<lambda>u. u\<lparr>u_password_hash := hash_password new_password\<rparr>) (users (w_db w))\<rparr>,
                     w_store := delete_cached run now (OTP_CACHE_KEY_PREFIX @ email) s1\<rparr>))))"

section \<open>Registration\<close>

definition PRIVACY_NOTICE_VERSION :: string where "PRIVACY_NOTICE_VERSION = ''2026-10''"

datatype UserRole = ADMIN | HR_MANAGER | INTERVIEWER | CANDIDATE

fun role_value :: "UserRole \<Rightarrow> string" where
  "role_value ADMIN = ''Admin''"
| "role_value HR_MANAGER = ''HR_Manager''"
| "role_value INTERVIEWER = ''Interviewer''"
| "role_value CANDIDATE = ''Candidate''"

record register_request =
  rq_email :: utext
  rq_password :: utext
  rq_role :: UserRole
  rq_company_name :: "utext option"
  rq_data_consent :: bool

definition RegisterRequest :: "unicode \<Rightarrow> (utext \<Rightarrow> utext option) \<Rightarrow> register_request \<Rightarrow> exc + register_request" where
  "RegisterRequest U email_str raw =
     (case clean_email U email_str (rq_email raw) of
        Inl e \<Rightarrow> Inl e
      | Inr email \<Rightarrow>
          (let name = map_option (\<lambda>n. ustrip U (strip_html_tags U n)) (rq_company_name raw);
               named = (case name of None \<Rightarrow> False | Some n \<Rightarrow> n \<noteq> []);
               bad_length = (length (rq_password raw) < 8 \<or> 128 < length (rq_password raw)
                 \<or> (case name of None \<Rightarrow> False | Some n \<Rightarrow> length n < 2 \<or> 255 < length n))
           in if bad_length \<or> rq_role raw = HR_MANAGER \<or> rq_role raw = INTERVIEWER
                 \<or> (rq_role raw = ADMIN \<and> \<not> named) \<or> (rq_role raw = CANDIDATE \<and> named)
                 \<or> (rq_role raw = CANDIDATE \<and> \<not> rq_data_consent raw)
              then Inl (HTTPException 422 Validation_Error)
              else Inr (raw\<lparr>rq_email := email, rq_company_name := name\<rparr>)))"

text \<open>The owner is inserted first, then the company; the owner becomes its member.\<close>

definition provision_tenant :: "uuid \<Rightarrow> utext \<Rightarrow> user \<Rightarrow> db \<Rightarrow> exc + company \<times> db" where
  "provision_tenant new_id name new_owner d =
     (case insert_row u_id new_owner (users d) of
        Inl e \<Rightarrow> Inl e
      | Inr us \<Rightarrow>
          (let company = \<lparr>co_id = new_id, co_name = name, co_industry = None, co_logo_url = None, co_owner_id = u_id new_owner\<rparr>
           in case insert_row co_id company (companies d) of
                Inl e \<Rightarrow> Inl e
              | Inr cs \<Rightarrow> Inr (company, d\<lparr>companies := cs,
                  users := update_where (\<lambda>u. u_id u = u_id new_owner) (\<lambda>u. u\<lparr>u_tenant_id := Some new_id\<rparr>) us\<rparr>)))"

definition delete_owned_tenants :: "uuid list \<Rightarrow> db \<Rightarrow> nat \<times> db" where
  "delete_owned_tenants owner_ids d =
     (let tenant_ids = map co_id (filter (\<lambda>c. co_owner_id c \<in> set owner_ids) (companies d))
      in if tenant_ids = [] then (0, d)
         else (length tenant_ids, d\<lparr>users := update_where (\<lambda>u. \<exists>t \<in> set tenant_ids. u_tenant_id u = Some t) (\<lambda>u. u\<lparr>u_tenant_id := None\<rparr>) (users d),
             companies := filter (\<lambda>c. co_id c \<notin> set tenant_ids) (companies d)\<rparr>))"

definition register_user ::
  "(utext \<Rightarrow> string) \<Rightarrow> time \<Rightarrow> uuid \<Rightarrow> uuid \<Rightarrow> register_request \<Rightarrow> 's world \<Rightarrow> (exc + user) \<times> 's world" where
  "register_user hash_password now new_user_id new_company_id payload w =
     (case scalar_one_or_none (filter (\<lambda>u. u_email u = rq_email payload) (users (w_db w))) of
        Inl e \<Rightarrow> (Inl e, w)
      | Inr (Some _) \<Rightarrow> (Inl (HTTPException 400 Email_Already_Registered), w)
      | Inr None \<Rightarrow>
          (let new_user = \<lparr>u_id = new_user_id, u_email = rq_email payload, u_password_hash = hash_password (rq_password payload),
                 u_role = role_value (rq_role payload), u_is_active = True, u_created_at = now, u_tenant_id = None,
                 u_data_consent_at = (if rq_data_consent payload then Some now else None),
                 u_data_consent_version = (if rq_data_consent payload then Some PRIVACY_NOTICE_VERSION else None),
                 u_anonymized_at = None\<rparr>;
               stored = (if truthy (rq_company_name payload)
                 then (case provision_tenant new_company_id (the (rq_company_name payload)) new_user (w_db w) of
                     Inl e \<Rightarrow> Inl e
                   | Inr (company, d) \<Rightarrow> Inr (new_user\<lparr>u_tenant_id := Some (co_id company)\<rparr>, d))
                 else (case insert_row u_id new_user (users (w_db w)) of Inl e \<Rightarrow> Inl e | Inr us \<Rightarrow> Inr (new_user, (w_db w)\<lparr>users := us\<rparr>)))
           in case stored of
                Inl e \<Rightarrow> (Inl e, w)
              | Inr (user, d) \<Rightarrow> (Inr user, w\<lparr>w_db := d, w_tasks := w_tasks w @ [Welcome_Mail (u_email user)]\<rparr>)))"

end
