(* ===== verification/Session_Claims.thy ===== *)
theory Session_Claims
  imports Session_Properties
begin

text \<open>
  What the session service promises: ending all sessions of a user is complete, a refresh token is good for one
  renewal, and of two simultaneous renewals with one token only one receives a new token.
\<close>

abbreviation quiet :: "nat \<Rightarrow> 's \<Rightarrow> bool \<times> 's" where "quiet \<equiv> \<lambda>_ x. (False, x)"

context session_store begin

lemma rotated_session:
  assumes "rotate_attempts run cfg quiet clock fresh sid jti uid (Suc n) s = (Inr out, s1)"
    and "ro_new_refresh_jti out = Some new" and "0 < refresh_lifetime_seconds cfg"
  obtains d where "new = fresh n" "live (clock n) (view s1) (session_key sid) = Some (RHash d, Some (clock n + refresh_lifetime_seconds cfg * seconds))"
    "d \<noteq> []" "text_field d ''user_id'' = Some uid" "text_field d ''refresh_jti'' = Some new" "text_field d ''previous_jti'' = Some jti"
    "time_field d ''rotated_at'' = Some (clock n)"
proof -
  have "Inr out \<noteq> Inl SessionStoreUnavailable" by simp
  with assms(1) show ?thesis
  proof (cases rule: rotate_cases)
    case (renew d s1' s2 k rs)
    have "view s2 = view s" using renew(5,6) by simp
    then have ren: "renewed (refresh_lifetime_seconds cfg * seconds) (clock n) sid uid
        (put_assoc (rotation_update (fresh n) jti (clock n) (refresh_lifetime_seconds cfg)) d) (view s2) (view s1)"
      using rotate_commit [OF renew(7) assms(3)] renew(1) by simp
    let ?d = "put_assoc (rotation_update (fresh n) jti (clock n) (refresh_lifetime_seconds cfg)) d"
    have ne: "?d \<noteq> []" by (simp add: put_assoc_Nil rotation_update_def del: put_assoc_simps)
    have new: "new = fresh n" using assms(2) renew(8) by simp
    have l: "live (clock n) (view s1) (session_key sid) = Some (RHash ?d, Some (clock n + refresh_lifetime_seconds cfg * seconds))"
      using ren unfolding renewed_def by (rule conjunct1)
    show ?thesis by (rule that [OF new l ne]) (simp_all only: rotation_update_simps [OF refl] renew(3) new)
  next
    case (grace d rt)
    with assms(2) show ?thesis by simp
  next
    case (reuse d s1' q)
    then show ?thesis by (auto split: sum.splits)
  qed simp_all
qed

lemma reused_token:
  assumes h: "hash_of (clock n) (session_key sid) (view s) = Some d" "d \<noteq> []"
    and d: "text_field d ''user_id'' = Some uid" "text_field d ''refresh_jti'' = Some new" "text_field d ''previous_jti'' = Some jti"
      "time_field d ''rotated_at'' = Some rt" and "new \<noteq> jti"
    and run: "rotate_attempts run cfg others clock fresh sid jti uid (Suc n) s = (r, s')" "r \<noteq> Inl SessionStoreUnavailable"
    and undisturbed: "\<And>x. \<not> fst (others n x)"
  shows "if clock n - rt \<le> 10 * seconds then r = Inr \<lparr>ro_data = d, ro_new_refresh_jti = None\<rparr> \<and> view s' = view s
    else r = Inl (SessionInvalid ''refresh_token_reuse'') \<and> view s' (session_key sid) = None"
  using run
proof (cases rule: rotate_cases)
  case (unknown why)
  then show ?thesis using hash_of_live [OF h] h(2) d(1) by blast
next
  case (grace d' rt')
  then show ?thesis using h d by simp
next
  case (reuse d' s1 q)
  have d': "d' = d" using reuse(1) h(1) by simp
  have late: "10 * seconds < clock n - rt" using reuse(7) d d' by simp
  from reuse(4,5) have "q = Inr True \<and> view s' (session_key sid) = None"
  proof (cases rule: revoke_session_cases)
    case absent
    then show ?thesis using h reuse(2) by simp
  next
    case (broken f d'')
    then show ?thesis using h d reuse(2) by simp
  next
    case (revoked j m v rs d'')
    then show ?thesis using revoke_batch_sessions [OF revoked(2), of sid] by simp
  qed
  with late reuse(6) show ?thesis by simp
next
  case (broken d')
  then show ?thesis using h d \<open>new \<noteq> jti\<close> by simp
next
  case (retry s1 s2)
  then show ?thesis using undisturbed [of s1] by simp
next
  case (renew d' s1 s2 k rs)
  then show ?thesis using h d \<open>new \<noteq> jti\<close> by simp
qed

lemma renewable_session:
  assumes "rotate_attempts run cfg quiet clock fresh sid jti uid (Suc n) s = (Inr out, s1)" and "ro_new_refresh_jti out = Some new"
  obtains d where "hash_of (clock n) (session_key sid) (view s) = Some d" "d \<noteq> []" "text_field d ''user_id'' = Some uid"
    "text_field d ''refresh_jti'' = Some jti" "live (clock n) (view s) (revoked_key jti) = None" "time_field d ''expires_at'' \<noteq> None"
    "\<forall>rt. text_field d ''previous_jti'' = Some jti \<longrightarrow> time_field d ''rotated_at'' = Some rt \<longrightarrow> 10 * seconds < clock n - rt"
proof -
  have "Inr out \<noteq> Inl SessionStoreUnavailable" by simp
  with assms(1) show ?thesis
  proof (cases rule: rotate_cases)
    case (renew d s1' s2 k rs)
    show ?thesis by (rule that [OF renew(1-4) renew(9,10)]) (use renew(11) in blast)
  next
    case (grace d rt)
    with assms(2) show ?thesis by simp
  next
    case (reuse d s1' q)
    then show ?thesis by (auto split: sum.splits)
  qed simp_all
qed

text \<open>The second of two clients: its first attempt is overtaken, the second one finds the renewed session.\<close>

lemma overtaken_attempt:
  assumes d: "hash_of (clock n) (session_key sid) (view s) = Some d" "d \<noteq> []" "text_field d ''user_id'' = Some uid"
    "text_field d ''refresh_jti'' = Some jti" "live (clock n) (view s) (revoked_key jti) = None" "time_field d ''expires_at'' \<noteq> None"
    "\<And>rt. text_field d ''previous_jti'' = Some jti \<Longrightarrow> time_field d ''rotated_at'' = Some rt \<Longrightarrow> 10 * seconds < clock n - rt"
    and others: "\<And>x. fst (others n x)"
    and run: "rotate_attempts run cfg others clock fresh sid jti uid (Suc n) s = (r, s')" "r \<noteq> Inl SessionStoreUnavailable"
  shows "\<exists>x. view x = view s \<and> rotate_attempts run cfg others clock fresh sid jti uid n (snd (others n x)) = (r, s')"
  using run
proof (cases rule: rotate_cases)
  case (unknown why)
  then show ?thesis using hash_of_live [OF d(1,2)] d(2,3) by blast
next
  case (grace d' rt)
  then show ?thesis using d(1) d(7) [of rt] by simp
next
  case (reuse d' s1 q)
  then show ?thesis using d by simp
next
  case (broken d')
  then show ?thesis using d by simp
next
  case (retry s1 s2)
  then show ?thesis by (metis snd_conv)
next
  case (renew d' s1 s2 k rs)
  then show ?thesis using others [of s1] by simp
qed

end

section \<open>A small run\<close>

definition demo_cfg :: settings where
  "demo_cfg = \<lparr>REFRESH_TOKEN_EXPIRE_DAYS = 7, ACCESS_TOKEN_EXPIRE_MINUTES = 15, SUSPICIOUS_LOGIN_DISTANCE_KM = 500, SUSPICIOUS_LOGIN_SPEED_KMH = 900\<rparr>"

definition demo_ua :: "utext \<Rightarrow> parsed_ua" where
  "demo_ua u = \<lparr>ua_is_bot = False, ua_is_tablet = False, ua_is_mobile = False, ua_is_pc = True, ua_brand = None, ua_model = None,
     ua_browser_family = utext_of ''Firefox'', ua_browser_version = [], ua_os_family = utext_of ''Linux'', ua_os_version = []\<rparr>"

lemma lifetime: "refresh_lifetime_seconds demo_cfg = 604800" by (simp add: refresh_lifetime_seconds_def demo_cfg_def)

lemma more_key_eq:
  "known_key a \<noteq> history_key b" "history_key b \<noteq> known_key a" "known_key a \<noteq> session_key b" "known_key a \<noteq> user_sessions_key b"
  "history_key a \<noteq> session_key b" "history_key a \<noteq> user_sessions_key b" "touch_key a \<noteq> session_key b" "touch_key a \<noteq> user_sessions_key b"
  "revoked_key a \<noteq> known_key b" "revoked_key a \<noteq> history_key b" "revoked_key a \<noteq> session_key b" "revoked_key a \<noteq> user_sessions_key b" "revoked_key a = revoked_key b \<longleftrightarrow> a = b"
  by (simp_all add: key_defs prefix_defs utext_of_def)

lemmas run_simps = execute_def mem_server_def hash_of_def zset_of_def list_of_def rwrite_def 

definition demo_login :: "(session_error + CreatedSession) \<times> login_entry store" where
 "demo_login = create_session mem_server demo_cfg demo_ua (\<lambda>_. None) 0 [1] [3] [2] None [] None (\<lambda>_. None)"

lemma session_fields_nonempty [simp]: "session_fields sid jti uid tid ip ua dev geo t n b \<noteq> []" by (simp add: session_fields_def)

lemma live_if [simp]: "live t (\<lambda>k. if P k then None else st k) x = (if P x then None else live t st x)"
  by (simp add: live_def)

lemma demo_login_answer: "\<exists>c st b. demo_login = (Inr c, st) \<and>
   st (session_key [1]) = Some (RHash (put_assoc (session_fields [1] [3] [2] None [] None (parse_user_agent demo_ua None) None 0 604800 b) []), Some 604800000000)
   \<and> st (user_sessions_key [2]) = Some (RZset [([1], 0)], Some 604800000000) \<and> (\<forall>j. st (revoked_key j) = None)"
  unfolding demo_login_def create_session_def
  by (simp add: run_simps lifetime device_commands_def more_key_eq put_assoc_Nil Let_def split: prod.splits) blast

definition demo_store :: "login_entry store" where "demo_store = snd demo_login"

lemma demo_store:
  obtains d where "demo_store (session_key [1]) = Some (RHash d, Some 604800000000)"
    "demo_store (user_sessions_key [2]) = Some (RZset [([1], 0)], Some 604800000000)" "\<forall>j. demo_store (revoked_key j) = None"
    "d \<noteq> []" "text_field d ''sid'' = Some [1]" "text_field d ''user_id'' = Some [2]" "text_field d ''refresh_jti'' = Some [3]"
    "text_field d ''previous_jti'' = Some []" "time_field d ''rotated_at'' = None" "time_field d ''expires_at'' = Some 604800000000"
    "\<exists>c. demo_login = (Inr c, demo_store)"
proof -
  obtain c st b where st: "demo_login = (Inr c, st)" "st (session_key [1]) = Some (RHash (put_assoc (session_fields [1] [3] [2] None [] None
      (parse_user_agent demo_ua None) None 0 604800 b) []), Some 604800000000)"
    "st (user_sessions_key [2]) = Some (RZset [([1], 0)], Some 604800000000)" "\<forall>j. st (revoked_key j) = None"
    using demo_login_answer by (elim exE conjE) (rule that)
  have eq: "demo_store = st" unfolding demo_store_def st(1) by simp
  show thesis
    by (rule that [unfolded eq, OF st(2,3,4)]) (simp_all add: st(1) session_fields_simps [OF refl] put_assoc_Nil)
qed

lemma demo_revoke: "\<exists>st'. revoke_all_sessions mem_server 0 [2] demo_store = (Inr 1, st')"
proof -
  obtain d where d: "demo_store (session_key [1]) = Some (RHash d, Some 604800000000)"
    "demo_store (user_sessions_key [2]) = Some (RZset [([1], 0)], Some 604800000000)"
    "d \<noteq> []" "text_field d ''sid'' = Some [1]" "text_field d ''user_id'' = Some [2]" "text_field d ''refresh_jti'' = Some [3]"
     "time_field d ''expires_at'' = Some 604800000000"
    by (rule demo_store)
  have l: "live 0 demo_store (session_key [1]) = Some (RHash d, Some 604800000000)"
    "live 0 demo_store (user_sessions_key [2]) = Some (RZset [([1], 0)], Some 604800000000)"
    using d(1,2) by (simp_all add: live_def)
  have ls: "list_sessions mem_server 0 [2] demo_store = (Inr [refreshed_activity ([1], 0) d], demo_store)"
    using l d(3) by (simp add: list_sessions_def run_simps by_score_def Let_def)
  show ?thesis unfolding revoke_all_sessions_def ls
    using l d by (simp add: revoke_session_def run_simps Let_def)
qed

lemma field_update:
  "text_field (AList.update k v d) f = (if f = k then (case v of HS t \<Rightarrow> Some t | _ \<Rightarrow> None) else text_field d f)"
  "time_field (AList.update k v d) f = (if f = k then (case v of HT t \<Rightarrow> Some t | _ \<Rightarrow> None) else time_field d f)"
  by (simp_all add: text_field_def time_field_def update_conv)

lemma update_nonempty: "AList.update k v d \<noteq> []"
  using put_assoc_Nil [of "[(k, v)]" d] by simp

lemma demo_refresh:
  "\<exists>out st. rotate_refresh mem_server demo_cfg quiet (\<lambda>_. 1000000) (\<lambda>_. [4]) [1] [3] [2] demo_store = (Inr out, st)
     \<and> ro_new_refresh_jti out = Some [4]
     \<and> (\<exists>r st'. rotate_refresh mem_server demo_cfg quiet (\<lambda>_. 21000000) (\<lambda>_. [5]) [1] [3] [2] st = (r, st') \<and> r \<noteq> Inl SessionStoreUnavailable)"
proof -
  obtain d where d: "demo_store (session_key [1]) = Some (RHash d, Some 604800000000)"
    "demo_store (user_sessions_key [2]) = Some (RZset [([1], 0)], Some 604800000000)" "\<forall>j. demo_store (revoked_key j) = None"
    "d \<noteq> []" "text_field d ''user_id'' = Some [2]" "text_field d ''refresh_jti'' = Some [3]" "text_field d ''previous_jti'' = Some []"
     "time_field d ''rotated_at'' = None" "time_field d ''expires_at'' = Some 604800000000"
    by (rule demo_store)
  have l: "live 1000000 demo_store (session_key [1]) = Some (RHash d, Some 604800000000)"
    "live 1000000 demo_store (user_sessions_key [2]) = Some (RZset [([1], 0)], Some 604800000000)"
    "live 1000000 demo_store (revoked_key j) = None" for j
    using d(1-3) by (simp_all add: live_def)
  have attempts: "MAX_ROTATION_ATTEMPTS = Suc 2" by (simp add: MAX_ROTATION_ATTEMPTS_def)
  let ?d1 = "put_assoc (rotation_update [4] [3] 1000000 604800) d"
  let ?st = "demo_store(session_key [1] \<mapsto> (RHash ?d1, Some 604801000000),
      revoked_key [3] \<mapsto> (RString (JStr (utext_of ''rotated'')), Some (1000000 + remaining_seconds 604800000000 1000000 * seconds)),
      user_sessions_key [2] \<mapsto> (RZset [([1], 1000000)], Some 604801000000))"
  have one: "rotate_refresh mem_server demo_cfg quiet (\<lambda>_. 1000000) (\<lambda>_. [4]) [1] [3] [2] demo_store
      = (Inr \<lparr>ro_data = ?d1, ro_new_refresh_jti = Some [4]\<rparr>, ?st)"
    unfolding rotate_refresh_def attempts rotate_attempts.simps
    using l d by (simp add: run_simps lifetime more_key_eq Let_def rotation_update_def update_nonempty fun_upd_twist)
  have two: "\<exists>r st'. rotate_refresh mem_server demo_cfg quiet (\<lambda>_. 21000000) (\<lambda>_. [5]) [1] [3] [2] ?st = (r, st') \<and> r \<noteq> Inl SessionStoreUnavailable"
    unfolding rotate_refresh_def attempts rotate_attempts.simps revoke_session_def
    using l d by (simp add: run_simps lifetime more_key_eq Let_def rotation_update_def update_nonempty field_update REFRESH_REUSE_GRACE_SECONDS_def)
  show ?thesis by (rule exI, rule exI, rule conjI [OF one conjI [OF _ two]]) simp
qed

lemma demo_race:
  "\<exists>r st'. rotate_refresh mem_server demo_cfg
       (\<lambda>i x. if i = 2 then (True, snd (rotate_refresh mem_server demo_cfg quiet (\<lambda>_. 1000000) (\<lambda>_. [4]) [1] [3] [2] x)) else (False, x))
       (\<lambda>i. if i = 2 then 1000000 else 2000000) (\<lambda>_. [5]) [1] [3] [2] demo_store = (r, st') \<and> r \<noteq> Inl SessionStoreUnavailable"
proof -
  obtain d where d: "demo_store (session_key [1]) = Some (RHash d, Some 604800000000)"
    "demo_store (user_sessions_key [2]) = Some (RZset [([1], 0)], Some 604800000000)" "\<forall>j. demo_store (revoked_key j) = None"
    "d \<noteq> []" "text_field d ''user_id'' = Some [2]" "text_field d ''refresh_jti'' = Some [3]" "text_field d ''previous_jti'' = Some []"
     "time_field d ''rotated_at'' = None" "time_field d ''expires_at'' = Some 604800000000"
    by (rule demo_store)
  have l: "live 1000000 demo_store (session_key [1]) = Some (RHash d, Some 604800000000)"
    "live 1000000 demo_store (user_sessions_key [2]) = Some (RZset [([1], 0)], Some 604800000000)"
    "live 1000000 demo_store (revoked_key j) = None" for j
    using d(1-3) by (simp_all add: live_def)
  have attempts: "MAX_ROTATION_ATTEMPTS = Suc (Suc (Suc 0))" by (simp add: MAX_ROTATION_ATTEMPTS_def)
  show ?thesis
    unfolding rotate_refresh_def attempts rotate_attempts.simps
    using l d by (simp add: run_simps lifetime more_key_eq Let_def rotation_update_def update_nonempty field_update REFRESH_REUSE_GRACE_SECONDS_def)
qed

section \<open>Properties\<close>

text \<open>
  C14. Ending all sessions of a user is complete and touches nobody else. In every state that the session
  service reaches, if the operation succeeds, no live session of the user is left, and every live session of every
  other user is still there: the list of a user always names all of the live sessions, although the list and the sessions
  expire independently and the list is pruned on every login.
\<close>

theorem revoke_all_is_complete:
  assumes "session_store run view" and "0 < refresh_lifetime_seconds cfg" and "session_reachable run view cfg (t, s)"
    and "revoke_all_sessions run t uid s = (Inr m, s')"
  shows "(live t (view s') (session_key sid) = Some (RHash d, e) \<longrightarrow> text_field d ''user_id'' \<noteq> Some uid)
    \<and> (live t (view s) (session_key sid) = Some (RHash d, e) \<and> text_field d ''user_id'' \<noteq> Some uid \<longrightarrow>
         live t (view s') (session_key sid) = Some (RHash d, e))"
proof -
  have inv: "session_inv (refresh_lifetime_seconds cfg * seconds) t (view s)"
    using session_reachable_inv [OF assms(1-3)] by simp
  show ?thesis
    using session_store.revoke_all_effect(2,3) [OF assms(1) inv assms(4)] by blast
qed

theorem revoke_all_is_complete_witness:
  "\<exists>d st'. live 0 demo_store (session_key [1]) = Some (RHash d, Some 604800000000) \<and> text_field d ''user_id'' = Some [2]
     \<and> session_reachable mem_server (\<lambda>st. st) demo_cfg (0, demo_store)
     \<and> revoke_all_sessions mem_server 0 [2] demo_store = (Inr 1, st')
     \<and> live 0 st' (session_key [1]) \<noteq> Some (RHash d, Some 604800000000)"
proof -
  obtain d where d: "demo_store (session_key [1]) = Some (RHash d, Some 604800000000)" "text_field d ''user_id'' = Some [2]"
      "\<exists>c. demo_login = (Inr c, demo_store)"
    by (rule demo_store)
  have l: "live 0 demo_store (session_key [1]) = Some (RHash d, Some 604800000000)" using d(1) by (simp add: live_def)
  obtain st' where rv: "revoke_all_sessions mem_server 0 [2] demo_store = (Inr 1, st')" using demo_revoke by (rule exE)
  have "session_reachable mem_server (\<lambda>st. st) demo_cfg (0, \<lambda>_. None)" by (rule start) simp
  moreover obtain c where "demo_login = (Inr c, demo_store)" using d(3) by (rule exE)
  then have "session_step mem_server (\<lambda>st. st) demo_cfg (0, \<lambda>_. None) (0, demo_store)"
    unfolding demo_login_def by (intro login) (simp_all add: live_def)
  ultimately have re: "session_reachable mem_server (\<lambda>st. st) demo_cfg (0, demo_store)" by (rule step)
  have "0 < refresh_lifetime_seconds demo_cfg" by (simp add: lifetime)
  from revoke_all_is_complete [OF mem_sessions.session_store_axioms this re rv, of "[1]" d "Some 604800000000"] d(2)
  have "live 0 st' (session_key [1]) \<noteq> Some (RHash d, Some 604800000000)" by blast
  with l d(2) re rv show ?thesis by (intro exI conjI)
qed



text \<open>
  C16. Of two simultaneous renewals with the same token only one receives a new token. The second client
  has read the session when the first one commits; its transaction is refused, it reads again, finds its token to be the previous
  one and gets a bare access token; the session is the one that the first client left.
\<close>

theorem concurrent_refresh_one_winner:
  assumes "session_store run view" and "0 < refresh_lifetime_seconds cfg"
    and first: "first = (\<lambda>x. rotate_refresh run cfg quiet (\<lambda>_. t) fresh sid jti uid x)"
    and wins: "\<And>x. view x = view s \<Longrightarrow> \<exists>out new. fst (first x) = Inr out \<and> ro_new_refresh_jti out = Some new \<and> new \<noteq> jti"
    and second: "rotate_refresh run cfg (\<lambda>i x. if i = 2 then (True, snd (first x)) else (False, x)) clock fresh2 sid jti uid s = (r, s')"
    and "r \<noteq> Inl SessionStoreUnavailable"
    and clocks: "clock 2 = t" "t \<le> clock 1" "clock 1 \<le> t + 10 * seconds" "clock 1 < t + refresh_lifetime_seconds cfg * seconds"
  shows "\<exists>d x. r = Inr \<lparr>ro_data = d, ro_new_refresh_jti = None\<rparr> \<and> view x = view s \<and> view s' = view (snd (first x))"
proof -
  let ?n = "refresh_lifetime_seconds cfg" and ?others = "\<lambda>i x. if i = (2::nat) then (True, snd (first x)) else (False, x)"
  have attempts: "MAX_ROTATION_ATTEMPTS = Suc 2" by (simp add: MAX_ROTATION_ATTEMPTS_def)
  have one: "(2::nat) = Suc 1" by simp
  have win: "\<exists>out new x'. first x = (Inr out, x') \<and> ro_new_refresh_jti out = Some new \<and> new \<noteq> jti" if "view x = view s" for x
    using wins [OF that] by (metis prod.collapse)
  obtain out0 new0 x0 where w0: "first s = (Inr out0, x0)" "ro_new_refresh_jti out0 = Some new0" using win [OF refl] by blast
  obtain d0 where d0: "hash_of (clock 2) (session_key sid) (view s) = Some d0" "d0 \<noteq> []" "text_field d0 ''user_id'' = Some uid"
    "text_field d0 ''refresh_jti'' = Some jti" "live (clock 2) (view s) (revoked_key jti) = None" "time_field d0 ''expires_at'' \<noteq> None"
    "\<forall>rt. text_field d0 ''previous_jti'' = Some jti \<longrightarrow> time_field d0 ''rotated_at'' = Some rt \<longrightarrow> 10 * seconds < clock 2 - rt"
    unfolding clocks(1)
    by (rule session_store.renewable_session [OF assms(1) w0(1) [unfolded first rotate_refresh_def attempts] w0(2)])
  have "\<exists>x. view x = view s \<and> rotate_attempts run cfg ?others clock fresh2 sid jti uid 2 (snd (?others 2 x)) = (r, s')"
    by (rule session_store.overtaken_attempt [OF assms(1) d0(1-6) d0(7) [rule_format] _ second [unfolded rotate_refresh_def attempts] assms(6)]) simp_all
  then obtain x where x: "view x = view s" "rotate_attempts run cfg ?others clock fresh2 sid jti uid (Suc 1) (snd (first x)) = (r, s')"
    unfolding one [symmetric] by auto
  obtain out new x' where w: "first x = (Inr out, x')" "ro_new_refresh_jti out = Some new" "new \<noteq> jti" using win [OF x(1)] by blast
  obtain d where d: "live t (view x') (session_key sid) = Some (RHash d, Some (t + ?n * seconds))" "d \<noteq> []"
    "text_field d ''user_id'' = Some uid" "text_field d ''refresh_jti'' = Some new" "text_field d ''previous_jti'' = Some jti"
    "time_field d ''rotated_at'' = Some t"
    by (rule session_store.rotated_session [OF assms(1) w(1) [unfolded first rotate_refresh_def attempts] w(2) assms(2)])
  have "live (clock 1) (view x') (session_key sid) = Some (RHash d, Some (t + ?n * seconds))"
    using d(1) clocks(4) by (auto simp: live_def split: option.splits if_splits)
  then have h: "hash_of (clock 1) (session_key sid) (view x') = Some d" by (simp add: hash_of_def)
  have "rotate_attempts run cfg ?others clock fresh2 sid jti uid (Suc 1) x' = (r, s')" using x(2) w(1) by simp
  from session_store.reused_token [OF assms(1) h d(2-6) w(3) this assms(6)] clocks(3)
  have "r = Inr \<lparr>ro_data = d, ro_new_refresh_jti = None\<rparr> \<and> view s' = view x'" by simp
  with x(1) w(1) show ?thesis by (metis snd_conv)
qed

theorem concurrent_refresh_one_winner_witness:
  "\<exists>d st'. rotate_refresh mem_server demo_cfg
       (\<lambda>i x. if i = 2 then (True, snd (rotate_refresh mem_server demo_cfg quiet (\<lambda>_. 1000000) (\<lambda>_. [4]) [1] [3] [2] x)) else (False, x))
       (\<lambda>i. if i = 2 then 1000000 else 2000000) (\<lambda>_. [5]) [1] [3] [2] demo_store
     = (Inr \<lparr>ro_data = d, ro_new_refresh_jti = None\<rparr>, st')"
proof -
  obtain out st where one: "rotate_refresh mem_server demo_cfg quiet (\<lambda>_. 1000000) (\<lambda>_. [4]) [1] [3] [2] demo_store = (Inr out, st)"
      "ro_new_refresh_jti out = Some [4]"
    using demo_refresh by (elim exE conjE) (rule that)
  obtain r st' where two: "rotate_refresh mem_server demo_cfg
       (\<lambda>i x. if i = 2 then (True, snd (rotate_refresh mem_server demo_cfg quiet (\<lambda>_. 1000000) (\<lambda>_. [4]) [1] [3] [2] x)) else (False, x))
       (\<lambda>i. if i = 2 then 1000000 else 2000000) (\<lambda>_. [5]) [1] [3] [2] demo_store = (r, st')" "r \<noteq> Inl SessionStoreUnavailable"
    using demo_race by (elim exE conjE) (rule that)
  have win: "\<exists>out new. fst (rotate_refresh mem_server demo_cfg quiet (\<lambda>_. 1000000) (\<lambda>_. [4]) [1] [3] [2] demo_store) = Inr out
      \<and> ro_new_refresh_jti out = Some new \<and> new \<noteq> [3]"
    unfolding one(1) using one(2) by simp
  have "\<exists>d x. r = Inr \<lparr>ro_data = d, ro_new_refresh_jti = None\<rparr> \<and> x = demo_store
      \<and> st' = snd (rotate_refresh mem_server demo_cfg quiet (\<lambda>_. 1000000) (\<lambda>_. [4]) [1] [3] [2] x)"
    by (rule concurrent_refresh_one_winner [OF mem_sessions.session_store_axioms _ refl _ two]) (simp_all only: win, simp_all add: lifetime)
  with two(1) show ?thesis by auto
qed

end
