(* ===== verification/Auth_Properties.thy ===== *)
theory Auth_Properties
  imports Auth Session_Claims "HOL-Library.Countable"
begin

text \<open>
  Authentication end to end: the token that a login returns authenticates its owner, and a request is let
  in only while its session is live.
\<close>

context session_store begin

lemma touch_session_result:
  assumes "touch_session run t sid s = (Inr b, s')"
  shows "b \<longleftrightarrow> (\<exists>h e. live t (view s) (session_key sid) = Some (RHash h, e) \<and> text_field h ''user_id'' \<noteq> None)"
    "\<And>k. k \<noteq> touch_key sid \<Longrightarrow> (\<And>u. k \<noteq> user_sessions_key u) \<Longrightarrow> view s' k = view s k"
proof -
  let ?set = "SET (touch_key sid) (JStr (utext_of ''1'')) True (Some ACTIVITY_THROTTLE_SECONDS)"
  obtain f w s1 where rd: "execute run t [HGET (session_key sid) ''user_id'', ?set] s = (Some [Field f, w], s1)"
    using assms unfolding touch_session_def by (auto split: prod.splits option.splits list.splits reply.splits)
  have ex: "redis_exec t [HGET (session_key sid) ''user_id'', ?set] (view s) = ([Field f, w], view s1)"
    using execute_documented [OF rd] by simp
  obtain h where h: "hash_of t (session_key sid) (view s) = Some h" "f = map_of h ''user_id''"
  proof (cases "hash_of t (session_key sid) (view s)")
    case None
    with ex show thesis by (auto split: if_splits)
  next
    case (Some h)
    with ex show thesis by (auto intro!: that split: if_splits)
  qed
  have b: "b \<longleftrightarrow> text_field h ''user_id'' \<noteq> None"
    using assms h(2) unfolding touch_session_def rd
    by (auto simp: text_field_def split: option.splits hval.splits if_splits prod.splits)
  have "text_field [] ''user_id'' = None" by (simp add: text_field_def)
  then show "b \<longleftrightarrow> (\<exists>h e. live t (view s) (session_key sid) = Some (RHash h, e) \<and> text_field h ''user_id'' \<noteq> None)"
    using b h(1) by (auto simp: hash_of_def split: option.splits rval.splits)
  fix k
  assume k: "k \<noteq> touch_key sid" "\<And>u. k \<noteq> user_sessions_key u"
  have "view s1 = snd (redis_exec t [HGET (session_key sid) ''user_id'', ?set] (view s))" using ex by simp
  then have v1: "view s1 k = view s k" using redis_exec_frame [of k "[HGET (session_key sid) ''user_id'', ?set]" t "view s"] k(1) by simp
  have "s' = s1 \<or> (\<exists>uid rs. execute run t [ZADD (user_sessions_key uid) True [(sid, t)]] s1 = (Some rs, s'))"
    using assms unfolding touch_session_def rd by (auto split: option.splits hval.splits if_splits prod.splits)
  then show "view s' k = view s k"
  proof (elim disjE exE)
    fix uid rs
    assume z: "execute run t [ZADD (user_sessions_key uid) True [(sid, t)]] s1 = (Some rs, s')"
    have "view s' = snd (redis_exec t [ZADD (user_sessions_key uid) True [(sid, t)]] (view s1))" using execute_documented [OF z] by simp
    then show ?thesis using redis_exec_frame [of k "[ZADD (user_sessions_key uid) True [(sid, t)]]" t "view s1"] k(2) v1 by simp
  qed (use v1 in simp)
qed

lemma cache_miss:
  assumes "get_cached_json run t k s = (c, s')" and "live t (view s) k = None"
  shows "c = None"
proof -
  obtain r s1 where r: "run t [GET k] s = (r, s1)" by (cases "run t [GET k] s")
  have "redis_exec t [GET k] (view s) = (rs, view s1)" if "r = Some rs" for rs by (rule run_documented) (simp only: r that)
  then have "r = Some rs \<Longrightarrow> rs = [Nil_Reply]" for rs using assms(2) by (auto split: prod.splits)
  then show ?thesis using assms(1) r by (cases r) (auto simp: get_cached_json_def)
qed

lemma load_user_miss:
  assumes "live t (view s) (session_cache_key uid) = None" and "filter (\<lambda>u. u_id u = uid) (users d) = [u]"
  shows "fst (load_user run t uid d s) = Inr u"
proof -
  obtain c s1 where c: "get_cached_json run t (session_cache_key uid) s = (c, s1)" by (cases "get_cached_json run t (session_cache_key uid) s")
  have "c = None" by (rule cache_miss [OF c assms(1)])
  then show ?thesis by (simp add: load_user_def c assms(2))
qed

end

lemma cache_key_apart:
  "session_cache_key uid \<noteq> touch_key sid" "session_cache_key uid \<noteq> user_sessions_key v"
  by (simp_all add: session_cache_key_def key_defs prefix_defs utext_of_def)

section \<open>Requests one after the other\<close>

text \<open>The columns of an account that a request sees, from the data base or from the cache.\<close>

definition same_account :: "user \<Rightarrow> user \<Rightarrow> bool" where
  "same_account v u \<longleftrightarrow> u_id v = u_id u \<and> u_email v = u_email u \<and> u_role v = u_role u \<and> u_is_active v = u_is_active u
     \<and> u_tenant_id v = u_tenant_id u"

definition storable_ids :: "user \<Rightarrow> bool" where
  "storable_ids u \<longleftrightarrow> u_id u < 2 ^ 128 \<and> (\<forall>t. u_tenant_id u = Some t \<longrightarrow> t < 2 ^ 128)"

lemma cached_user_round_trip:
  assumes "storable_ids u"
  shows "\<exists>v. cached_user (cached_user_json u) = Some v \<and> same_account v u" and "has_tenant_field (cached_user_json u)"
proof -
  have t: "text_string (utext_of x) = x" for x by (simp add: text_string_def utext_of_def comp_def)
  have "utext_of (str_of_uuid i) \<noteq> []" for i by (simp add: utext_of_def)
  then show "\<exists>v. cached_user (cached_user_json u) = Some v \<and> same_account v u"
    using assms by (cases "u_tenant_id u") (simp_all add: storable_ids_def cached_user_def cached_user_json_def same_account_def t uuid_round_trip)
  show "has_tenant_field (cached_user_json u)" by (simp add: has_tenant_field_def cached_user_json_def)
qed

text \<open>The cache has no other copy of the account than the current one.\<close>

definition honest_cache :: "time \<Rightarrow> 'e store \<Rightarrow> user \<Rightarrow> bool" where
  "honest_cache t st u \<longleftrightarrow> (\<forall>v e. live t st (session_cache_key (u_id u)) = Some (v, e) \<longrightarrow> v = RString (cached_user_json u))"

lemma honest_cache_mono: "honest_cache t st u \<Longrightarrow> t \<le> t' \<Longrightarrow> honest_cache t' st u"
  by (auto simp: honest_cache_def dest: live_mono)

lemma honest_cache_cong: "st' (session_cache_key (u_id u)) = st (session_cache_key (u_id u)) \<Longrightarrow> honest_cache t st' u = honest_cache t st u"
  by (simp add: honest_cache_def live_cong [of st' _ st])

text \<open>The index of a user's sessions is a sorted set.\<close>

definition index_typed :: "time \<Rightarrow> 'e store \<Rightarrow> utext \<Rightarrow> bool" where
  "index_typed t st uid \<longleftrightarrow> zset_of t (user_sessions_key uid) st \<noteq> None"

lemma index_typed_mono: "index_typed t st uid \<Longrightarrow> t \<le> t' \<Longrightarrow> index_typed t' st uid"
  by (auto simp: index_typed_def zset_of_def live_def split: option.splits rval.splits if_splits)

lemma index_typed_cong: "st' (user_sessions_key uid) = st (user_sessions_key uid) \<Longrightarrow> index_typed t st' uid = index_typed t st uid"
  by (simp add: index_typed_def zset_of_def live_cong [of st' _ st])

lemma live_entry_fresh: "live t st k = Some (v, e) \<Longrightarrow> live t (\<lambda>_. Some (w, e)) k = Some (w, e)"
  by (cases e) (auto dest: live_fresh)

lemma index_typed_zadd:
  assumes "index_typed t st uid"
  shows "index_typed t (snd (redis_cmd t (ZADD (user_sessions_key v) xx ms) st)) uid"
proof (cases "v = uid")
  case True
  obtain zs where zs: "zset_of t (user_sessions_key uid) st = Some zs" using assms by (auto simp: index_typed_def)
  have written: "zset_of t k (rwrite t k (RZset z) st) \<noteq> None" for k z
  proof (cases "z = []")
    case True
    then show ?thesis by (simp add: zset_of_def rwrite_def)
  next
    case False
    define e where "e = (case live t st k of None \<Rightarrow> None | Some (_, x) \<Rightarrow> x)"
    have st': "rwrite t k (RZset z) st = st(k := Some (RZset z, e))" using False by (simp add: rwrite_def e_def)
    have "live t (rwrite t k (RZset z) st) k = Some (RZset z, e)"
      unfolding st' live_upd unfolding e_def by (cases "live t st k") (auto intro: live_entry_fresh)
    then show ?thesis by (simp add: zset_of_def)
  qed
  then show ?thesis using True zs by (simp add: index_typed_def)
next
  case False
  have "snd (redis_cmd t (ZADD (user_sessions_key v) xx ms) st) (user_sessions_key uid) = st (user_sessions_key uid)"
    by (rule redis_cmd_frame) (use False in simp)
  then have "index_typed t (snd (redis_cmd t (ZADD (user_sessions_key v) xx ms) st)) uid = index_typed t st uid" by (rule index_typed_cong)
  with assms show ?thesis by (simp only:)
qed

lemma session_cache_key_inj: "i < 2 ^ 128 \<Longrightarrow> j < 2 ^ 128 \<Longrightarrow> session_cache_key i = session_cache_key j \<longleftrightarrow> i = j"
  by (simp add: session_cache_key_def utext_of_eq str_of_uuid_inj)

text \<open>A session key is no cache key: the identifiers of sessions are UUIDs, which begin with no \<open>user:\<close>.\<close>

lemma session_key_apart: "\<not> prefix ''user:'' sid \<Longrightarrow> session_key (utext_of sid) \<noteq> session_cache_key i"
  "session_key k \<noteq> touch_key a" "session_key k \<noteq> user_sessions_key v"
proof -
  show "session_key (utext_of sid) \<noteq> session_cache_key i" if "\<not> prefix ''user:'' sid"
  proof
    assume "session_key (utext_of sid) = session_cache_key i"
    then have "utext_of sid = utext_of (''user:'' @ str_of_uuid i)" by (simp add: session_cache_key_def key_defs prefix_defs utext_of_def)
    then have "sid = ''user:'' @ str_of_uuid i" by (simp only: utext_of_eq)
    with that show False by (simp add: prefix_def)
  qed
qed (simp_all add: key_defs prefix_defs utext_of_def)

context session_store begin

lemma reached:
  assumes "\<And>t cs s. fst (run t cs s) \<noteq> None" and "run t cs s = (r, s')"
  shows "\<exists>rs. r = Some rs \<and> redis_exec t cs (view s) = (rs, view s')"
  using assms(1) [of t cs s] assms(2) run_documented [of t cs s] by (cases r) auto

lemma executed:
  assumes "\<And>t cs s. fst (run t cs s) \<noteq> None" and "execute run t cs s = (r, s')"
  shows "view s' = snd (redis_exec t cs (view s))"
proof -
  obtain r0 s0 where run: "run t cs s = (r0, s0)" by (cases "run t cs s")
  with reached [OF assms(1) run] assms(2) show ?thesis by (auto simp: execute_def split: if_splits)
qed

lemma touch_session_frame:
  assumes alive: "\<And>t cs s. fst (run t cs s) \<noteq> None" and touch: "touch_session run t sid s = (r, s')"
    and k: "k \<noteq> touch_key sid" "\<And>u. k \<noteq> user_sessions_key u"
  shows "view s' k = view s k"
proof -
  let ?cs = "[HGET (session_key sid) ''user_id'', SET (touch_key sid) (JStr (utext_of ''1'')) True (Some ACTIVITY_THROTTLE_SECONDS)]"
  obtain r1 s1 where first: "execute run t ?cs s = (r1, s1)" by (cases "execute run t ?cs s")
  have v1: "view s1 k = view s k" unfolding executed [OF alive first] by (rule redis_exec_frame) (simp add: k(1))
  have "s' = s1 \<or> (\<exists>uid q. execute run t [ZADD (user_sessions_key uid) True [(sid, t)]] s1 = (q, s'))"
    using touch unfolding touch_session_def first by (auto split: option.splits list.splits reply.splits hval.splits if_splits prod.splits)
  then show ?thesis
  proof (elim disjE exE)
    fix uid q
    assume "execute run t [ZADD (user_sessions_key uid) True [(sid, t)]] s1 = (q, s')"
    from executed [OF alive this] have "view s' k = view s1 k" by (simp only:) (rule redis_exec_frame, simp add: k(2))
    with v1 show ?thesis by simp
  qed (use v1 in simp)
qed

lemma touch_session_typed:
  assumes alive: "\<And>t cs s. fst (run t cs s) \<noteq> None" and touch: "touch_session run t sid s = (r, s')" and typed: "index_typed t (view s) uid"
  shows "index_typed t (view s') uid"
proof -
  let ?cs = "[HGET (session_key sid) ''user_id'', SET (touch_key sid) (JStr (utext_of ''1'')) True (Some ACTIVITY_THROTTLE_SECONDS)]"
  obtain r1 s1 where first: "execute run t ?cs s = (r1, s1)" by (cases "execute run t ?cs s")
  have "view s1 (user_sessions_key uid) = view s (user_sessions_key uid)"
    unfolding executed [OF alive first] by (rule redis_exec_frame) simp
  then have t1: "index_typed t (view s1) uid" using typed index_typed_cong [of "view s1" uid "view s" t] by simp
  have "s' = s1 \<or> (\<exists>v q. execute run t [ZADD (user_sessions_key v) True [(sid, t)]] s1 = (q, s'))"
    using touch unfolding touch_session_def first by (auto split: option.splits list.splits reply.splits hval.splits if_splits prod.splits)
  then show ?thesis
  proof (elim disjE exE)
    fix v q
    assume "execute run t [ZADD (user_sessions_key v) True [(sid, t)]] s1 = (q, s')"
    from executed [OF alive this] show ?thesis using index_typed_zadd [OF t1, of v True "[(sid, t)]"] by (simp only: exec_snd)
  qed (use t1 in simp)
qed

text \<open>A live session is found, and its use written down.\<close>

lemma touch_session_live:
  assumes alive: "\<And>t cs s. fst (run t cs s) \<noteq> None" and "live t (view s) (session_key sid) = Some (RHash h, e)"
    and uid: "text_field h ''user_id'' = Some uid" and typed: "index_typed t (view s) uid"
  shows "fst (touch_session run t sid s) = Inr True"
proof -
  let ?set = "SET (touch_key sid) (JStr (utext_of ''1'')) True (Some ACTIVITY_THROTTLE_SECONDS)"
  let ?cs = "[HGET (session_key sid) ''user_id'', ?set]"
  obtain r0 s0 where r0: "run t ?cs s = (r0, s0)" by (cases "run t ?cs s")
  obtain rs where rs: "r0 = Some rs" "redis_exec t ?cs (view s) = (rs, view s0)" using reached [OF alive r0] by blast
  have h: "hash_of t (session_key sid) (view s) = Some h" using assms(2) by (simp add: hash_of_def)
  have field: "map_of h ''user_id'' = Some (HS uid)" using uid by (auto simp: text_field_def split: option.splits hval.splits)
  obtain w where w: "rs = [Field (Some (HS uid)), w]" "w = Done \<or> w = Nil_Reply" using rs(2) h field by (auto split: if_splits)
  then have first: "execute run t ?cs s = (Some [Field (Some (HS uid)), w], s0)" using r0 rs(1) by (auto simp: execute_def)
  have "view s0 (user_sessions_key uid) = view s (user_sessions_key uid)"
    unfolding executed [OF alive first] by (rule redis_exec_frame) simp
  then have t0: "index_typed t (view s0) uid" using typed index_typed_cong [of "view s0" uid "view s" t] by simp
  obtain q s2 where z: "run t [ZADD (user_sessions_key uid) True [(sid, t)]] s0 = (q, s2)"
    by (cases "run t [ZADD (user_sessions_key uid) True [(sid, t)]] s0")
  obtain qs where qs: "q = Some qs" "redis_exec t [ZADD (user_sessions_key uid) True [(sid, t)]] (view s0) = (qs, view s2)"
    using reached [OF alive z] by blast
  then have "qs = [Done]" using t0 by (auto simp: index_typed_def split: option.splits)
  then have "execute run t [ZADD (user_sessions_key uid) True [(sid, t)]] s0 = (Some [Done], s2)" using z qs(1) by (simp add: execute_def)
  then show ?thesis unfolding touch_session_def first by simp
qed

lemma get_cached_reached:
  assumes "\<And>t cs s. fst (run t cs s) \<noteq> None" and "get_cached_json run t k s = (c, s')"
  shows "view s' = view s" and "c = (case live t (view s) k of Some (RString j, _) \<Rightarrow> if j = JNull then None else Some j | _ \<Rightarrow> None)"
proof -
  obtain r s1 where r: "run t [GET k] s = (r, s1)" by (cases "run t [GET k] s")
  obtain rs where rs: "r = Some rs" "redis_exec t [GET k] (view s) = (rs, view s1)" using reached [OF assms(1) r] by blast
  have s1: "s' = s1" using assms(2) r by (auto simp: get_cached_json_def split: option.splits list.splits reply.splits)
  show "view s' = view s" using rs(2) s1 by (auto split: option.splits rval.splits)
  show "c = (case live t (view s) k of Some (RString j, _) \<Rightarrow> if j = JNull then None else Some j | _ \<Rightarrow> None)"
    using assms(2) r rs by (auto simp: get_cached_json_def split: option.splits rval.splits)
qed

lemma set_cached_reached:
  assumes "\<And>t cs s. fst (run t cs s) \<noteq> None"
  shows "view (set_cached_json run t k v n s) = (view s)(k \<mapsto> (RString v, Some (t + n * seconds)))"
proof -
  obtain r s1 where r: "run t [SET k v False (Some n)] s = (r, s1)" by (cases "run t [SET k v False (Some n)] s")
  with reached [OF assms r] show ?thesis by (auto simp: set_cached_json_def)
qed

lemma load_user_step:
  assumes alive: "\<And>t cs s. fst (run t cs s) \<noteq> None" and u: "filter (\<lambda>v. u_id v = u_id u) (users d) = [u]" "\<forall>v \<in> set (users d). storable_ids v"
    and honest: "honest_cache t (view s) u" and sid: "\<not> prefix ''user:'' sid" and load: "load_user run t i d s = (r, s')"
  shows "honest_cache t (view s') u" and "view s' (session_key (utext_of sid)) = view s (session_key (utext_of sid))"
    and "view s' (user_sessions_key uid) = view s (user_sessions_key uid)"
    and "i = u_id u \<Longrightarrow> \<exists>v. r = Inr v \<and> same_account v u"
proof -
  obtain c s1 where c: "get_cached_json run t (session_cache_key i) s = (c, s1)" by (cases "get_cached_json run t (session_cache_key i) s")
  note read = get_cached_reached [OF alive c]
  have single: "v = u" if "v \<in> set (users d)" "u_id v = u_id u" for v
  proof -
    have "v \<in> set (filter (\<lambda>v. u_id v = u_id u) (users d))" using that by simp
    then show ?thesis unfolding u(1) by simp
  qed
  have "u \<in> set (filter (\<lambda>v. u_id v = u_id u) (users d))" unfolding u(1) by simp
  then have "u \<in> set (users d)" by simp
  then have ids: "storable_ids u" using u(2) by blast
  note copy = cached_user_round_trip [OF ids]
  consider (hit) "s' = s1" "i = u_id u \<longrightarrow> (\<exists>v. r = Inr v \<and> same_account v u)"
    | (none) "s' = s1" "filter (\<lambda>v. u_id v = i) (users d) \<noteq> [u]"
    | (found) v where "v \<in> set (users d)" "u_id v = i" "r = Inr v" "s' = set_cached_json run t (session_cache_key i) (cached_user_json v) USER_SESSION_CACHE_TTL_SECONDS s1"
  proof (cases "case c of Some j \<Rightarrow> if has_tenant_field j then Some j else None | None \<Rightarrow> None")
    case (Some j)
    then have j: "c = Some j" by (auto split: option.splits if_splits)
    have "i = u_id u \<longrightarrow> j = cached_user_json u"
      using honest read(2) unfolding j honest_cache_def by (auto split: option.splits rval.splits if_splits)
    then show ?thesis using load Some copy(1) by (intro hit) (auto simp: load_user_def c split: option.splits)
  next
    case None
    have only: "filter (\<lambda>v. u_id v = i) (users d) = [u] \<Longrightarrow> scalar_one_or_none (filter (\<lambda>v. u_id v = i) (users d)) = Inr (Some u)" by simp
    show ?thesis
    proof (cases "scalar_one_or_none (filter (\<lambda>v. u_id v = i) (users d))")
      case (Inr o1)
      show ?thesis
      proof (cases o1)
        case None
        with Inr only have "filter (\<lambda>v. u_id v = i) (users d) \<noteq> [u]" by auto
        with None Inr load \<open>(case c of Some j \<Rightarrow> if has_tenant_field j then Some j else None | None \<Rightarrow> None) = None\<close> show ?thesis
          by (intro none) (auto simp: load_user_def c)
      next
        case (Some v)
        with Inr load \<open>(case c of Some j \<Rightarrow> if has_tenant_field j then Some j else None | None \<Rightarrow> None) = None\<close> show ?thesis
          by (intro found) (auto simp: load_user_def c dest!: scalar_filter_Some)
      qed
    next
      case (Inl e)
      with only have "filter (\<lambda>v. u_id v = i) (users d) \<noteq> [u]" by auto
      with Inl load None show ?thesis by (intro none) (auto simp: load_user_def c)
    qed
  qed
  note ways = this
  show "honest_cache t (view s') u"
    using ways
  proof cases
    case found
    show ?thesis
    proof (cases "i = u_id u")
      case True
      then have "v = u" using found(1,2) single by simp
      then show ?thesis using True found(4) by (simp add: honest_cache_def set_cached_reached [OF alive] live_def)
    next
      case False
      moreover have "u_id u < 2 ^ 128" "i < 2 ^ 128" using ids found(1,2) u(2) by (auto simp: storable_ids_def)
      ultimately have "session_cache_key (u_id u) \<noteq> session_cache_key i" by (simp add: session_cache_key_inj)
      then show ?thesis using honest honest_cache_cong [of "view s'" u "view s" t] read(1) found(4) by (simp add: set_cached_reached [OF alive])
    qed
  qed (use honest read(1) in simp_all)
  show "view s' (session_key (utext_of sid)) = view s (session_key (utext_of sid))"
    using ways by cases (simp_all add: read(1) set_cached_reached [OF alive] session_key_apart(1) [OF sid])
  show "view s' (user_sessions_key uid) = view s (user_sessions_key uid)"
    using ways by cases (simp_all add: read(1) set_cached_reached [OF alive] cache_key_apart(2) [symmetric])
  show "\<exists>v. r = Inr v \<and> same_account v u" if "i = u_id u"
    using ways
  proof cases
    case found
    then have "v = u" using that single by simp
    with found(3) show ?thesis by (simp add: same_account_def)
  qed (use that u(1) in simp_all)
qed

text \<open>A request of anybody keeps the session of a login, its index and the honest cache.\<close>

definition undisturbed :: "time \<Rightarrow> user \<Rightarrow> utext \<Rightarrow> string \<Rightarrow> 's \<Rightarrow> 's \<Rightarrow> bool" where
  "undisturbed t u uid sid s s' \<longleftrightarrow> honest_cache t (view s') u \<and> index_typed t (view s') uid
     \<and> view s' (session_key (utext_of sid)) = view s (session_key (utext_of sid))"

lemma request_step:
  assumes alive: "\<And>t cs s. fst (run t cs s) \<noteq> None" and u: "filter (\<lambda>v. u_id v = u_id u) (users d) = [u]" "\<forall>v \<in> set (users d). storable_ids v"
    and sid: "\<not> prefix ''user:'' sid" and start: "honest_cache t (view s) u" "index_typed t (view s) uid"
    and req: "get_current_user run J t tok d s = (r, s')"
  shows "undisturbed t u uid sid s s'"
proof -
  have touched: "undisturbed t u uid sid s s1" if "touch_session run t a s = (q, s1)" for a q s1
  proof -
    have "view s1 (session_cache_key (u_id u)) = view s (session_cache_key (u_id u))"
      by (rule touch_session_frame [OF alive that]) (rule cache_key_apart)+
    moreover have "view s1 (session_key (utext_of sid)) = view s (session_key (utext_of sid))"
      by (rule touch_session_frame [OF alive that]) (rule session_key_apart(2,3))+
    ultimately show ?thesis
      using start(1) honest_cache_cong [of "view s1" u "view s" t] touch_session_typed [OF alive that start(2)] by (simp add: undisturbed_def)
  qed
  have "s' = s \<or> (\<exists>a q s1. touch_session run t a s = (q, s1) \<and> (s' = s1 \<or> (\<exists>i x. load_user run t i d s1 = (x, s'))))"
    using req unfolding get_current_user_def by (auto split: option.splits if_splits prod.splits sum.splits bool.splits)
  then show ?thesis
  proof (elim disjE exE conjE)
    fix a q s1 i x
    assume t: "touch_session run t a s = (q, s1)" and l: "load_user run t i d s1 = (x, s')"
    note t1 = touched [OF t, unfolded undisturbed_def]
    note l1 = load_user_step [OF alive u conjunct1 [OF t1] sid l]
    show ?thesis using l1(1,2) l1(3) [of uid] t1 index_typed_cong [of "view s'" uid "view s1" t] by (simp add: undisturbed_def)
  qed (use start touched in \<open>auto simp: undisturbed_def\<close>)
qed

end

text \<open>Authenticated requests of anybody, one after the other.\<close>

definition requests_run :: "'s sserver \<Rightarrow> jwt \<Rightarrow> db \<Rightarrow> (time \<times> string option) list \<Rightarrow> 's \<Rightarrow> 's" where
  "requests_run run J d requests s = fold (\<lambda>(t, tok) s. snd (get_current_user run J t tok d s)) requests s"

context session_store begin

lemma requests_keep:
  assumes alive: "\<And>t cs s. fst (run t cs s) \<noteq> None" and u: "filter (\<lambda>v. u_id v = u_id u) (users d) = [u]" "\<forall>v \<in> set (users d). storable_ids v"
    and sid: "\<not> prefix ''user:'' sid" and "honest_cache t (view s) u" and "index_typed t (view s) uid" and "sorted (t # map fst requests @ [t2])"
  shows "undisturbed t2 u uid sid s (requests_run run J d requests s)"
  using assms(5-)
proof (induction requests arbitrary: t s)
  case Nil
  then show ?case by (auto simp: requests_run_def undisturbed_def intro: honest_cache_mono index_typed_mono)
next
  case (Cons q requests)
  obtain t1 tok where q: "q = (t1, tok)" by (cases q)
  obtain r s1 where g: "get_current_user run J t1 tok d s = (r, s1)" by (cases "get_current_user run J t1 tok d s")
  have "honest_cache t1 (view s) u" "index_typed t1 (view s) uid" using Cons.prems q by (auto intro: honest_cache_mono index_typed_mono)
  from request_step [OF alive u sid this g] have step: "undisturbed t1 u uid sid s s1" .
  have "requests_run run J d (q # requests) s = requests_run run J d requests s1" by (simp add: requests_run_def q g)
  moreover have "sorted (t1 # map fst requests @ [t2])" using Cons.prems(3) q by simp
  ultimately show ?case using Cons.IH [of t1 s1] step by (simp add: undisturbed_def)
qed

end

lemma get_current_user_Inr:
  assumes "get_current_user run J t (Some tok) d s = (Inr u, s')"
  obtains p sid sub uid s1 where "jw_decode J t tok = Some p" "cl_type p = Some ''access''" "cl_sub p = Some sub" "uuid_of_str sub = Some uid"
    "cl_sid p = Some sid" "sid \<noteq> []" "touch_session run t (utext_of sid) s = (Inr True, s1)" "load_user run t uid d s1 = (Inr u, s')"
    "ensure_token_tenant_matches u (cl_tid p) = Inr ()"
  using assms unfolding get_current_user_def
  by (auto split: option.splits if_splits prod.splits sum.splits bool.splits)

section \<open>A concrete login\<close>

text \<open>A token library that satisfies the laws, one account and a server with an empty store.\<close>

definition plain_jwt :: jwt where
  "plain_jwt = \<lparr>jw_encode = (\<lambda>c x. replicate (to_nat (cl_type c, cl_sub c, cl_tid c, cl_sid c, cl_jti c, x)) CHR ''t''),
     jw_decode = (\<lambda>t tok. case from_nat (length tok) of (a, b, c, d, e, x) \<Rightarrow>
       if x div seconds < t div seconds then None else Some \<lparr>cl_type = a, cl_sub = b, cl_tid = c, cl_sid = d, cl_jti = e\<rparr>)\<rparr>"

lemma plain_jwt_ok: "jwt_ok plain_jwt"
  by (simp add: jwt_ok_def plain_jwt_def)

lemma first_login:
  "\<exists>c st b. create_session mem_server demo_cfg demo_ua (\<lambda>_. None) 0 sid jti uid tid [] None (\<lambda>_. None) = (Inr c, st)
     \<and> st (session_key sid) = Some (RHash (put_assoc (session_fields sid jti uid tid [] None (parse_user_agent demo_ua None) None 0 604800 b) []),
         Some 604800000000)
     \<and> st (user_sessions_key uid) = Some (RZset [(sid, 0)], Some 604800000000)
     \<and> (\<forall>k. k \<noteq> session_key sid \<longrightarrow> k \<noteq> user_sessions_key uid \<longrightarrow> k \<noteq> known_key uid \<longrightarrow> k \<noteq> history_key uid \<longrightarrow> st k = None)"
  unfolding create_session_def
  by (simp add: run_simps lifetime device_commands_def more_key_eq put_assoc_Nil Let_def split: prod.splits) blast

definition demo_candidate :: user where
  "demo_candidate = \<lparr>u_id = 7, u_email = utext_of ''ann@x.io'', u_password_hash = ''h'', u_role = ''Candidate'', u_is_active = True,
     u_created_at = 0, u_tenant_id = None, u_data_consent_at = None, u_data_consent_version = None, u_anonymized_at = None\<rparr>"

definition demo_world :: "login_entry store world" where
  "demo_world = \<lparr>w_db = empty_db\<lparr>users := [demo_candidate]\<rparr>, w_store = (\<lambda>_. None), w_tasks = []\<rparr>"

lemma demo_login_world:
  "\<exists>answer w' s'. login_user mem_server demo_cfg plain_jwt (\<lambda>p h. p = utext_of h) ascii_tables demo_ua (\<lambda>_. None) 0 ''s'' ''j''
       (utext_of ''ann@x.io'') (utext_of ''h'') [] None demo_world = (Inr answer, w')
     \<and> w_db w' = w_db demo_world \<and> w_store w' (session_cache_key 7) = None
     \<and> touch_session mem_server 60000000 (utext_of ''s'') (w_store w') = (Inr True, s')"
proof -
  let ?uid = "utext_of (str_of_uuid 7)"
  obtain c st b where st: "create_session mem_server demo_cfg demo_ua (\<lambda>_. None) 0 (utext_of ''s'') (utext_of ''j'') ?uid None [] None
        (\<lambda>_. None) = (Inr c, st)"
      "st (session_key (utext_of ''s'')) = Some (RHash (put_assoc (session_fields (utext_of ''s'') (utext_of ''j'') ?uid None [] None
          (parse_user_agent demo_ua None) None 0 604800 b) []), Some 604800000000)"
      "st (user_sessions_key ?uid) = Some (RZset [(utext_of ''s'', 0)], Some 604800000000)"
      "\<forall>k. k \<noteq> session_key (utext_of ''s'') \<longrightarrow> k \<noteq> user_sessions_key ?uid \<longrightarrow> k \<noteq> known_key ?uid \<longrightarrow> k \<noteq> history_key ?uid \<longrightarrow> st k = None"
    using first_login [of "utext_of ''s''" "utext_of ''j''" ?uid None] by (elim exE conjE) (rule that)
  let ?d = "put_assoc (session_fields (utext_of ''s'') (utext_of ''j'') ?uid None [] None (parse_user_agent demo_ua None) None 0 604800 b) []"
  have cache: "st (session_cache_key 7) = None" "st (touch_key (utext_of ''s'')) = None"
    by (rule st(4) [rule_format]; simp add: session_cache_key_def key_defs prefix_defs utext_of_def)+
  have f: "map_of ?d ''user_id'' = Some (HS ?uid)"
    using session_fields_simps(2) [OF refl, of "utext_of ''s''" "utext_of ''j''" ?uid None "[]" None "parse_user_agent demo_ua None" None 0 604800 b]
    by (auto simp: text_field_def split: option.splits hval.splits)
  have "\<exists>s'. touch_session mem_server 60000000 (utext_of ''s'') st = (Inr True, s')"
    unfolding touch_session_def using st(2,3) cache(2) f by (simp add: run_simps live_def split: prod.splits)
  then obtain s' where s': "touch_session mem_server 60000000 (utext_of ''s'') st = (Inr True, s')" by (rule exE)
  let ?tok = "fst (create_access_token demo_cfg plain_jwt 0 (str_of_uuid 7) None ''s'')"
  have run: "\<exists>answer. login_user mem_server demo_cfg plain_jwt (\<lambda>p h. p = utext_of h) ascii_tables demo_ua (\<lambda>_. None) 0 ''s'' ''j''
       (utext_of ''ann@x.io'') (utext_of ''h'') [] None demo_world
      = (Inr answer, demo_world\<lparr>w_store := st, w_tasks := enqueue_login_alerts ascii_tables (utext_of ''ann@x.io'') c\<rparr>)"
    using st(1) by (simp add: login_user_def demo_world_def demo_candidate_def verify_login_password_def Let_def case_prod_beta)
  then show ?thesis using cache(1) s' by auto
qed


lemma answered_unless_store_fails:
  assumes "get_current_user run J t (Some tok) d s = (Inl session_store_unavailable, s')"
  obtains p sid e s1 where "jw_decode J t tok = Some p" "cl_sid p = Some sid" "touch_session run t (utext_of sid) s = (Inl e, s1)"
proof -
  have load: "load_user run t uid d s1 \<noteq> (Inl session_store_unavailable, s2)" for uid s1 s2
    by (auto simp: load_user_def session_store_unavailable_def unauthorized_def split: prod.splits option.splits sum.splits elim!: scalar_one_or_none.elims)
  have "ensure_token_tenant_matches u c \<noteq> Inl session_store_unavailable" for u c
    by (auto simp: ensure_token_tenant_matches_def session_store_unavailable_def unauthorized_def Let_def split: option.splits if_splits)
  with assms load show thesis unfolding get_current_user_def
    by (auto simp: session_store_unavailable_def unauthorized_def intro: that split: option.splits if_splits prod.splits sum.splits bool.splits)
qed

lemma demo_request:
  "\<exists>answer w'. login_user mem_server demo_cfg plain_jwt (\<lambda>p h. p = utext_of h) ascii_tables demo_ua (\<lambda>_. None) 0 ''s'' ''j''
       (utext_of ''ann@x.io'') (utext_of ''h'') [] None demo_world = (Inr answer, w')
     \<and> w_db w' = w_db demo_world \<and> w_store w' (session_cache_key 7) = None
     \<and> fst (get_current_user mem_server plain_jwt 60000000 (Some (lr_access_token answer)) (w_db w') (w_store w')) \<noteq> Inl session_store_unavailable"
proof -
  obtain answer w' s' where l: "login_user mem_server demo_cfg plain_jwt (\<lambda>p h. p = utext_of h) ascii_tables demo_ua (\<lambda>_. None) 0 ''s'' ''j''
       (utext_of ''ann@x.io'') (utext_of ''h'') [] None demo_world = (Inr answer, w')"
     "w_db w' = w_db demo_world" "w_store w' (session_cache_key 7) = None"
     "touch_session mem_server 60000000 (utext_of ''s'') (w_store w') = (Inr True, s')"
    using demo_login_world by (elim exE conjE) (rule that)
  have db: "users (w_db demo_world) = [demo_candidate]" by (simp add: demo_world_def)
  have tok: "lr_access_token answer = fst (create_access_token demo_cfg plain_jwt 0 (str_of_uuid 7) None ''s'')"
    using l(1) db unfolding login_user_def
    by (auto simp: demo_candidate_def verify_login_password_def Let_def split: if_splits prod.splits sum.splits)
  have sid: "jw_decode plain_jwt 60000000 (lr_access_token answer) = Some p \<Longrightarrow> cl_sid p = Some ''s''" for p
    by (auto simp: tok create_access_token_def plain_jwt_def split: if_splits)
  have "get_current_user mem_server plain_jwt 60000000 (Some (lr_access_token answer)) (w_db w') (w_store w') \<noteq> (Inl session_store_unavailable, s2)" for s2
    using sid l(4) by (auto elim!: answered_unless_store_fails)
  then have "fst (get_current_user mem_server plain_jwt 60000000 (Some (lr_access_token answer)) (w_db w') (w_store w')) \<noteq> Inl session_store_unavailable"
    by (metis prod.collapse)
  with l(1-3) show ?thesis by blast
qed

definition demo_live_store :: "login_entry store" where
  "demo_live_store = (\<lambda>k. if k = session_key (utext_of ''s'') then Some (RHash [(''user_id'', HS (utext_of (str_of_uuid 7)))], Some 604800000000) else None)"

lemma demo_live_request:
  "\<exists>s'. get_current_user mem_server plain_jwt 60000000 (Some (fst (create_access_token demo_cfg plain_jwt 0 (str_of_uuid 7) None ''s'')))
     (w_db demo_world) demo_live_store = (Inr demo_candidate, s')"
proof -
  let ?tok = "fst (create_access_token demo_cfg plain_jwt 0 (str_of_uuid 7) None ''s'')"
  have dec: "jw_decode plain_jwt 60000000 ?tok
      = Some \<lparr>cl_type = Some ''access'', cl_sub = Some (str_of_uuid 7), cl_tid = None, cl_sid = Some ''s'', cl_jti = None\<rparr>"
    by (simp add: create_access_token_def plain_jwt_def demo_cfg_def)
  have "\<exists>s1. touch_session mem_server 60000000 (utext_of ''s'') demo_live_store = (Inr True, s1)"
    unfolding touch_session_def by (simp add: run_simps live_def demo_live_store_def more_key_eq split: prod.splits)
  then obtain s1 where s1: "touch_session mem_server 60000000 (utext_of ''s'') demo_live_store = (Inr True, s1)" by (rule exE)
  have "s1 (session_cache_key 7) = demo_live_store (session_cache_key 7)"
    by (rule mem_sessions.touch_session_result(2) [OF s1]) (rule cache_key_apart)+
  then have "live 60000000 s1 (session_cache_key 7) = None"
    by (simp add: demo_live_store_def live_def session_cache_key_def key_defs prefix_defs utext_of_def)
  from mem_sessions.load_user_miss [OF this, of "w_db demo_world" demo_candidate]
  obtain s2 where "load_user mem_server 60000000 7 (w_db demo_world) s1 = (Inr demo_candidate, s2)"
    by (cases "load_user mem_server 60000000 7 (w_db demo_world) s1") (simp add: demo_world_def demo_candidate_def)
  then show ?thesis using s1
    by (simp add: get_current_user_def dec uuid_round_trip ensure_token_tenant_matches_def demo_candidate_def CANDIDATE_ROLE_def)
qed

section \<open>Properties\<close>

text \<open>
  C17. A login works: with the right password of an account that is either a candidate or a member of a tenant, the
  access token of the answer authenticates its owner until it expires, and however many requests of anybody are authenticated in between:
  the account comes from the data base or, later, from the cache, which holds the same columns. The server answers, the
  accounts do not change meanwhile and no session is ended; the cache has no older copy of the account at the login.
\<close>

theorem login_authenticates:
  assumes "session_store run view" and "jwt_ok J" and "0 < refresh_lifetime_seconds cfg" and alive: "\<And>t cs s. fst (run t cs s) \<noteq> None"
    and login: "login_user run cfg J verify U parse_ua geoip t sid jti email password ip ua w = (Inr answer, w')"
    and fresh: "sid \<noteq> []" "\<not> prefix ''user:'' sid" "live t (view (w_store w)) (session_key (utext_of sid)) = None"
    and u: "filter (\<lambda>v. u_email v = email) (users (w_db w)) = [u]" "filter (\<lambda>v. u_id v = u_id u) (users (w_db w)) = [u]"
      "\<forall>v \<in> set (users (w_db w)). storable_ids v" "if u_role u = ''Candidate'' then u_tenant_id u = None else u_tenant_id u \<noteq> None"
    and time: "sorted (t # map fst requests @ [t2])" "t2 < t + ACCESS_TOKEN_EXPIRE_MINUTES cfg * 60 * seconds" "t2 < t + refresh_lifetime_seconds cfg * seconds"
    and cache: "honest_cache t (view (w_store w')) u"
    and req: "get_current_user run J t2 (Some (lr_access_token answer)) (w_db w') (requests_run run J (w_db w') requests (w_store w')) = (r, s')"
  shows "(\<exists>v. r = Inr v \<and> same_account v u) \<and> verify password (u_password_hash u)"
proof -
  let ?sid = "utext_of sid" and ?uid = "utext_of (str_of_uuid (u_id u))"
  obtain created s1 where cs: "create_session run cfg parse_ua geoip t ?sid (utext_of jti) ?uid
      (map_option (\<lambda>t. utext_of (str_of_uuid t)) (u_tenant_id u)) ip ua (w_store w) = (Inr created, s1)"
    and w': "w_store w' = s1" "w_db w' = w_db w" and pw: "verify password (u_password_hash u)"
    and tok: "lr_access_token answer = fst (create_access_token cfg J t (str_of_uuid (u_id u)) (u_tenant_id u) sid)"
    using login u(1) unfolding login_user_def
    by (auto simp: verify_login_password_def Let_def split: if_splits prod.splits sum.splits)
  have nn: "Inr created \<noteq> Inl SessionStoreUnavailable" by simp
  obtain c :: CreatedSession where c: "cr_data c = session_fields ?sid (utext_of jti) ?uid (map_option (\<lambda>t. utext_of (str_of_uuid t)) (u_tenant_id u)) ip ua
      (parse_user_agent parse_ua ua) (geoip ip) t (refresh_lifetime_seconds cfg) (as_suspicious (cr_assessment c))"
    "renewed (refresh_lifetime_seconds cfg * seconds) t ?sid ?uid (put_assoc (cr_data c) []) (view (w_store w)) (view s1)"
    by (rule session_store.create_session_renews [OF assms(1) cs nn assms(3) fresh(3)]) (rule that)
  have "text_field (put_assoc (cr_data c) []) ''user_id'' = Some ?uid" unfolding c(1) by (simp only: session_fields_simps [OF refl])
  with c(2) have "\<exists>dd. renewed (refresh_lifetime_seconds cfg * seconds) t ?sid ?uid dd (view (w_store w)) (view s1)
      \<and> text_field dd ''user_id'' = Some ?uid" by blast
  then obtain dd where dd: "live t (view s1) (session_key ?sid) = Some (RHash dd, Some (t + refresh_lifetime_seconds cfg * seconds))"
      "text_field dd ''user_id'' = Some ?uid"
    unfolding renewed_def by blast
  have typed: "index_typed t (view s1) ?uid" using c(2) by (auto simp: renewed_def index_typed_def zset_of_def)
  define s where "s = requests_run run J (w_db w) requests s1"
  have "session_store.undisturbed view t2 u ?uid sid s1 s"
    unfolding s_def by (rule session_store.requests_keep [OF assms(1) alive u(2,3) fresh(2) cache [unfolded w'(1)] typed time(1)])
  then have kept: "honest_cache t2 (view s) u" "index_typed t2 (view s) ?uid" "view s (session_key ?sid) = view s1 (session_key ?sid)"
    using assms(1) by (simp_all add: session_store.undisturbed_def)
  have l2: "live t2 (view s) (session_key ?sid) = Some (RHash dd, Some (t + refresh_lifetime_seconds cfg * seconds))"
    using dd(1) time(3) live_cong [of "view s" _ "view s1" t2, OF kept(3)] by (auto simp: live_def split: option.splits if_splits)
  let ?p = "\<lparr>cl_type = Some ''access'', cl_sub = Some (str_of_uuid (u_id u)), cl_tid = map_option str_of_uuid (u_tenant_id u),
      cl_sid = Some sid, cl_jti = None\<rparr>"
  have "\<not> (t + ACCESS_TOKEN_EXPIRE_MINUTES cfg * 60 * seconds) div seconds < t2 div seconds"
    using time(2) by (simp add: zdiv_mono1 not_less)
  then have dec: "jw_decode J t2 (lr_access_token answer) = Some ?p"
    using assms(2) fresh(1) unfolding tok create_access_token_def Let_def jwt_ok_def by simp
  have "u \<in> set (filter (\<lambda>v. u_id v = u_id u) (users (w_db w)))" unfolding u(2) by simp
  then have "u_id u < 2 ^ 128" using u(3) by (auto simp: storable_ids_def)
  then have sub: "uuid_of_str (str_of_uuid (u_id u)) = Some (u_id u)" by (rule uuid_round_trip)
  obtain s2 where touch: "touch_session run t2 ?sid s = (Inr True, s2)"
    using session_store.touch_session_live [OF assms(1) alive l2 dd(2) kept(2)] by (cases "touch_session run t2 ?sid s") auto
  have "view s2 (session_cache_key (u_id u)) = view s (session_cache_key (u_id u))"
    by (rule session_store.touch_session_frame [OF assms(1) alive touch]) (rule cache_key_apart)+
  then have honest: "honest_cache t2 (view s2) u" using kept(1) honest_cache_cong by metis
  obtain x s3 where ld: "load_user run t2 (u_id u) (w_db w) s2 = (x, s3)" by (cases "load_user run t2 (u_id u) (w_db w) s2")
  obtain v where v: "x = Inr v" "same_account v u"
    using session_store.load_user_step(4) [OF assms(1) alive u(2,3) honest fresh(2) ld] by blast
  have "ensure_token_tenant_matches v (map_option str_of_uuid (u_tenant_id u)) = Inr ()"
    using u(4) v(2) by (auto simp: same_account_def ensure_token_tenant_matches_def CANDIDATE_ROLE_def Let_def split: if_splits)
  with req touch ld v fresh(1) have "r = Inr v" by (simp add: get_current_user_def dec sub w' s_def)
  with pw v(2) show ?thesis by simp
qed

lemma mem_server_reached: "fst (mem_server t cs s) \<noteq> None"
  by (simp add: mem_server_def split: prod.split)

theorem login_authenticates_witness:
  "\<exists>answer w' v s'. login_user mem_server demo_cfg plain_jwt (\<lambda>p h. p = utext_of h) ascii_tables demo_ua (\<lambda>_. None) 0 ''s'' ''j''
       (utext_of ''ann@x.io'') (utext_of ''h'') [] None demo_world = (Inr answer, w')
     \<and> get_current_user mem_server plain_jwt 60000000 (Some (lr_access_token answer)) (w_db w')
         (requests_run mem_server plain_jwt (w_db w') [(30000000, Some (lr_access_token answer))] (w_store w')) = (Inr v, s')
     \<and> u_id v = 7"
proof -
  obtain answer w' where l: "login_user mem_server demo_cfg plain_jwt (\<lambda>p h. p = utext_of h) ascii_tables demo_ua (\<lambda>_. None) 0 ''s'' ''j''
       (utext_of ''ann@x.io'') (utext_of ''h'') [] None demo_world = (Inr answer, w')"
     "w_db w' = w_db demo_world" "w_store w' (session_cache_key 7) = None"
    using demo_login_world by (elim exE conjE) (rule that)
  obtain r s2 where req: "get_current_user mem_server plain_jwt 60000000 (Some (lr_access_token answer)) (w_db w')
         (requests_run mem_server plain_jwt (w_db w') [(30000000, Some (lr_access_token answer))] (w_store w')) = (r, s2)"
    by (meson surj_pair)
  have "(\<exists>v. r = Inr v \<and> same_account v demo_candidate) \<and> utext_of ''h'' = utext_of (u_password_hash demo_candidate)"
    by (rule login_authenticates [OF mem_sessions.session_store_axioms plain_jwt_ok _ mem_server_reached l(1) _ _ _ _ _ _ _ _ _ _ _ req])
      (use l(3) in \<open>simp_all add: demo_world_def demo_candidate_def live_def demo_cfg_def refresh_lifetime_seconds_def honest_cache_def storable_ids_def\<close>)
  then obtain v where "r = Inr v" "u_id v = 7" by (auto simp: same_account_def demo_candidate_def)
  with l(1) req show ?thesis by (intro exI conjI) simp_all
qed

text \<open>
  A request is let in only while its session is live: if a request is authenticated, its token
  is an unexpired access token whose session exists in the store at that moment, and the tenant of the token is the
  tenant of the account. So a token of a session that was ended or has expired is refused, however long the
  token itself would last.
\<close>

theorem authenticated_session_is_live:
  assumes "session_store run view" and "get_current_user run J t (Some tok) d s = (Inr u, s')"
  shows "\<exists>p sid h e. jw_decode J t tok = Some p \<and> cl_type p = Some ''access'' \<and> cl_sid p = Some sid
    \<and> live t (view s) (session_key (utext_of sid)) = Some (RHash h, e) \<and> ensure_token_tenant_matches u (cl_tid p) = Inr ()"
  using assms(2)
proof (cases rule: get_current_user_Inr)
  case (1 p sid sub uid s1)
  obtain h e where "live t (view s) (session_key (utext_of sid)) = Some (RHash h, e)"
    using session_store.touch_session_result(1) [OF assms(1) 1(7)] by auto
  with 1 show ?thesis by (intro exI conjI) assumption+
qed

theorem authenticated_session_is_live_witness:
  "\<exists>tok p sid h e. jw_decode plain_jwt 60000000 tok = Some p \<and> cl_type p = Some ''access'' \<and> cl_sid p = Some sid
    \<and> live 60000000 demo_live_store (session_key (utext_of sid)) = Some (RHash h, e)
    \<and> ensure_token_tenant_matches demo_candidate (cl_tid p) = Inr ()"
proof -
  obtain s' where "get_current_user mem_server plain_jwt 60000000 (Some (fst (create_access_token demo_cfg plain_jwt 0 (str_of_uuid 7) None ''s'')))
     (w_db demo_world) demo_live_store = (Inr demo_candidate, s')" using demo_live_request by (elim exE) (rule that)
  from authenticated_session_is_live [OF mem_sessions.session_store_axioms this] show ?thesis
    by (intro exI [where x = "fst (create_access_token demo_cfg plain_jwt 0 (str_of_uuid 7) None ''s'')"])
qed
end
