(* ===== verification/Py_Utf8.thy ===== *)
theory Py_Utf8
  imports ATS_Prelude
begin

text \<open>
  The codec of \<open>str.encode("utf-8")\<close> and \<open>bytes.decode("utf-8")\<close>, both strict: a surrogate cannot be encoded,
  and the decoder refuses overlong forms, surrogates, values beyond U+10FFFF and truncated sequences.
\<close>

definition utf8_char :: "nat \<Rightarrow> nat list option" where
  "utf8_char c =
     (if c < 128 then Some [c]
      else if c < 2048 then Some [192 + c div 64, 128 + c mod 64]
      else if c < 65536 then
        (if 55296 \<le> c \<and> c \<le> 57343 then None
         else Some [224 + c div 4096, 128 + c div 64 mod 64, 128 + c mod 64])
      else if c < 1114112 then Some [240 + c div 262144, 128 + c div 4096 mod 64, 128 + c div 64 mod 64, 128 + c mod 64]
      else None)"

fun utf8_encode :: "utext \<Rightarrow> nat list option" where
  "utf8_encode [] = Some []"
| "utf8_encode (c # cs) =
     (case (utf8_char c, utf8_encode cs) of (Some b, Some bs) \<Rightarrow> Some (b @ bs) | _ \<Rightarrow> None)"

definition utf8_cont :: "nat \<Rightarrow> bool" where
  "utf8_cont b \<longleftrightarrow> 128 \<le> b \<and> b < 192"

text \<open>One character at the head of a byte sequence, and the bytes after it.\<close>

definition utf8_head :: "nat list \<Rightarrow> (nat \<times> nat list) option" where
  "utf8_head s =
     (case s of
        [] \<Rightarrow> None
      | b # bs \<Rightarrow>
          if b < 128 then Some (b, bs)
          else if 194 \<le> b \<and> b < 224 then
            (case bs of c1 # r \<Rightarrow> if utf8_cont c1 then Some ((b - 192) * 64 + (c1 - 128), r) else None | _ \<Rightarrow> None)
          else if 224 \<le> b \<and> b < 240 then
            (case bs of
               c1 # c2 # r \<Rightarrow>
                 (let v = (b - 224) * 4096 + (c1 - 128) * 64 + (c2 - 128)
                  in if utf8_cont c1 \<and> utf8_cont c2 \<and> 2048 \<le> v \<and> \<not> (55296 \<le> v \<and> v \<le> 57343) then Some (v, r) else None)
             | _ \<Rightarrow> None)
          else if 240 \<le> b \<and> b < 245 then
            (case bs of
               c1 # c2 # c3 # r \<Rightarrow>
                 (let v = (b - 240) * 262144 + (c1 - 128) * 4096 + (c2 - 128) * 64 + (c3 - 128)
                  in if utf8_cont c1 \<and> utf8_cont c2 \<and> utf8_cont c3 \<and> 65536 \<le> v \<and> v < 1114112 then Some (v, r) else None)
             | _ \<Rightarrow> None)
          else None)"

lemma utf8_head_shorter: "utf8_head s = Some (c, r) \<Longrightarrow> length r < length s"
  by (auto simp: utf8_head_def Let_def split: list.splits if_splits)

function utf8_decode :: "nat list \<Rightarrow> utext option" where
  "utf8_decode s =
     (if s = [] then Some []
      else (case utf8_head s of None \<Rightarrow> None | Some (c, r) \<Rightarrow> map_option (Cons c) (utf8_decode r)))"
  by pat_completeness auto
termination
  by (relation "measure length") (auto dest: utf8_head_shorter)

declare utf8_decode.simps [simp del]

lemma base64:
  fixes c :: nat
  shows "c div 4096 * 4096 + c div 64 mod 64 * 64 + c mod 64 = c"
    "c div 262144 * 262144 + c div 4096 mod 64 * 4096 + c div 64 mod 64 * 64 + c mod 64 = c"
proof -
  have d: "c div 4096 = c div 64 div 64" "c div 262144 = c div 4096 div 64" by (simp_all add: div_mult2_eq [symmetric])
  have m: "n div 64 * 64 + n mod 64 = n" for n :: nat by simp
  show "c div 4096 * 4096 + c div 64 mod 64 * 64 + c mod 64 = c"
    using m [of c] m [of "c div 64"] unfolding d by linarith
  then show "c div 262144 * 262144 + c div 4096 mod 64 * 4096 + c div 64 mod 64 * 64 + c mod 64 = c"
    using m [of "c div 4096"] unfolding d(2) by linarith
qed

lemma utf8_char_nonempty: "utf8_char c = Some b \<Longrightarrow> b \<noteq> []"
  by (auto simp: utf8_char_def split: if_splits)

lemma utf8_head_char: "utf8_char c = Some b \<Longrightarrow> utf8_head (b @ r) = Some (c, r)"
proof -
  assume b: "utf8_char c = Some b"
  consider "c < 128" | "128 \<le> c" "c < 2048" | "2048 \<le> c" "c < 65536" | "65536 \<le> c" "c < 1114112"
    using b by (auto simp: utf8_char_def split: if_splits)
  then show ?thesis
  proof cases
    case 1
    then show ?thesis using b by (auto simp: utf8_char_def utf8_head_def)
  next
    case 2
    then have "194 \<le> 192 + c div 64" "192 + c div 64 < 224" by auto
    then show ?thesis using b 2 by (auto simp: utf8_char_def utf8_head_def utf8_cont_def)
  next
    case 3
    have "c div 4096 * 4096 + c div 64 mod 64 * 64 + c mod 64 = c" by (rule base64)
    moreover have "c div 4096 < 16" using 3 by auto
    ultimately show ?thesis using b 3
      by (auto simp: utf8_char_def utf8_head_def utf8_cont_def Let_def split: if_splits)
  next
    case 4
    have "c div 262144 * 262144 + c div 4096 mod 64 * 4096 + c div 64 mod 64 * 64 + c mod 64 = c" by (rule base64)
    moreover have "c div 262144 < 5" using 4 by auto
    ultimately show ?thesis using b 4
      by (auto simp: utf8_char_def utf8_head_def utf8_cont_def Let_def split: if_splits)
  qed
qed

text \<open>What is encoded is decoded, and what was decoded can be encoded.\<close>

lemma utf8_round_trip: "utf8_encode t = Some b \<Longrightarrow> utf8_decode b = Some t"
proof (induction t arbitrary: b)
  case Nil
  then show ?case by (simp add: utf8_decode.simps)
next
  case (Cons c cs)
  then obtain b1 b2 where b: "utf8_char c = Some b1" "utf8_encode cs = Some b2" "b = b1 @ b2"
    by (auto split: option.splits)
  have "b \<noteq> []" using b utf8_char_nonempty [OF b(1)] by simp
  then show ?case using utf8_head_char [OF b(1), of b2] Cons.IH [OF b(2)] b(3) by (simp add: utf8_decode.simps [of "b1 @ b2"])
qed

lemma utf8_head_encodable: "utf8_head s = Some (c, r) \<Longrightarrow> utf8_char c \<noteq> None"
  by (auto simp: utf8_head_def utf8_char_def utf8_cont_def Let_def split: list.splits if_splits)

lemma utf8_decoded_encodable: "utf8_decode s = Some t \<Longrightarrow> utf8_encode t \<noteq> None"
proof (induction s arbitrary: t rule: utf8_decode.induct)
  case (1 s)
  show ?case
  proof (cases "s = []")
    case True
    then show ?thesis using 1(2) by (simp add: utf8_decode.simps)
  next
    case False
    then obtain c r t' where h: "utf8_head s = Some (c, r)" "utf8_decode r = Some t'" "t = c # t'"
      using 1(2) by (auto simp: utf8_decode.simps [of s] split: option.splits)
    have "utf8_encode t' \<noteq> None" by (rule 1(1) [OF False h(1) refl h(2)])
    then show ?thesis using utf8_head_encodable [OF h(1)] h(3) by auto
  qed
qed

end
