(* ===== verification/Crypto.thy ===== *)
theory Crypto
  imports Search Py_Utf8
begin

text \<open>
  Encryption at rest (app/core/crypto.py): the column types that encrypt and decrypt, and the command that
  re-encrypts all rows after a change of key. Parameters: the Fernet cipher (\<open>fernet\<close>, with the random part of
  an encryption as an argument) and the JSON printer and parser (\<open>json_text\<close>).
\<close>

section \<open>The cipher\<close>

record ('k, 'n) fernet =
  fn_key :: "utext \<Rightarrow> 'k option"
  fn_encrypt :: "'k \<Rightarrow> 'n \<Rightarrow> nat list \<Rightarrow> utext"
  fn_decrypt :: "'k \<Rightarrow> utext \<Rightarrow> nat list option"

definition FERNET_PREFIX :: utext where "FERNET_PREFIX = utext_of ''gAAAAA''"

text \<open>
  What the program relies on: a token is an ASCII text that starts with \<open>gAAAAA\<close>; it opens with its own key and
  with no other.
\<close>

definition fernet_ok :: "('k, 'n) fernet \<Rightarrow> bool" where
  "fernet_ok F \<longleftrightarrow> (\<forall>k n b. prefix FERNET_PREFIX (fn_encrypt F k n b) \<and> (\<forall>c \<in> set (fn_encrypt F k n b). c < 128)
     \<and> (\<forall>k'. fn_decrypt F k' (fn_encrypt F k n b) = (if k' = k then Some b else None)))"

record json_text =
  dumps :: "json \<Rightarrow> utext"
  loads :: "utext \<Rightarrow> json option"

definition json_text_ok :: "json_text \<Rightarrow> bool" where
  "json_text_ok J \<longleftrightarrow> (\<forall>j. loads J (dumps J j) = Some j)"

datatype crypto_error = PiiKeyError | PiiDecryptionError | UnicodeEncodeError | UnicodeDecodeError | JSONDecodeError

text \<open>\<open>str.split(",")\<close>\<close>

fun split_at :: "nat \<Rightarrow> utext \<Rightarrow> utext list" where
  "split_at d [] = [[]]"
| "split_at d (c # cs) = (if c = d then [] # split_at d cs else (case split_at d cs of [] \<Rightarrow> [[c]] | s # ss \<Rightarrow> (c # s) # ss))"

text \<open>\<open>MultiFernet\<close>: the first key encrypts, every key is tried in turn to decrypt.\<close>

definition fernet_keys :: "unicode \<Rightarrow> ('k, 'n) fernet \<Rightarrow> utext \<Rightarrow> crypto_error + 'k list" where
  "fernet_keys U F PII_ENCRYPTION_KEYS =
     (let raw_keys = filter (\<lambda>k. k \<noteq> []) (map (ustrip U) (split_at 44 PII_ENCRYPTION_KEYS)); keys = map (fn_key F) raw_keys
      in if raw_keys = [] then Inl PiiKeyError
         else if None \<in> set keys then Inl PiiKeyError
         else Inr (map the keys))"

fun multi_decrypt :: "('k, 'n) fernet \<Rightarrow> 'k list \<Rightarrow> utext \<Rightarrow> nat list option" where
  "multi_decrypt F [] token = None"
| "multi_decrypt F (k # ks) token = (case fn_decrypt F k token of Some b \<Rightarrow> Some b | None \<Rightarrow> multi_decrypt F ks token)"

section \<open>Texts and columns\<close>

definition is_encrypted :: "utext option \<Rightarrow> bool" where
  "is_encrypted value = (case value of None \<Rightarrow> False | Some v \<Rightarrow> prefix FERNET_PREFIX v)"

definition encrypt_text :: "('k, 'n) fernet \<Rightarrow> crypto_error + 'k list \<Rightarrow> 'n \<Rightarrow> utext option \<Rightarrow> crypto_error + utext option" where
  "encrypt_text F keys n value =
     (case value of
        None \<Rightarrow> Inr None
      | Some v \<Rightarrow>
          (case keys of
             Inl e \<Rightarrow> Inl e
           | Inr ks \<Rightarrow>
               (case utf8_encode v of None \<Rightarrow> Inl UnicodeEncodeError | Some b \<Rightarrow> Inr (Some (fn_encrypt F (hd ks) n b)))))"

definition decrypt_text :: "('k, 'n) fernet \<Rightarrow> crypto_error + 'k list \<Rightarrow> utext option \<Rightarrow> crypto_error + utext option" where
  "decrypt_text F keys value =
     (case value of
        None \<Rightarrow> Inr None
      | Some v \<Rightarrow>
          (case keys of
             Inl e \<Rightarrow> Inl e
           | Inr ks \<Rightarrow>
               if \<exists>c \<in> set v. 128 \<le> c then Inl PiiDecryptionError
               else (case multi_decrypt F ks v of
                 None \<Rightarrow> Inl PiiDecryptionError
               | Some b \<Rightarrow> (case utf8_decode b of None \<Rightarrow> Inl UnicodeDecodeError | Some t \<Rightarrow> Inr (Some t)))))"

definition decrypt_stored :: "('k, 'n) fernet \<Rightarrow> crypto_error + 'k list \<Rightarrow> utext option \<Rightarrow> crypto_error + utext option" where
  "decrypt_stored F keys value = (if is_encrypted value then decrypt_text F keys value else Inr value)"

definition encrypted_json_bind :: "json_text \<Rightarrow> ('k, 'n) fernet \<Rightarrow> crypto_error + 'k list \<Rightarrow> 'n \<Rightarrow> json option \<Rightarrow> crypto_error + utext option" where
  "encrypted_json_bind J F keys n value = encrypt_text F keys n (map_option (dumps J) value)"

definition encrypted_json_result :: "json_text \<Rightarrow> ('k, 'n) fernet \<Rightarrow> crypto_error + 'k list \<Rightarrow> utext option \<Rightarrow> crypto_error + json option" where
  "encrypted_json_result J F keys value =
     (case value of
        None \<Rightarrow> Inr None
      | Some v \<Rightarrow>
          (case decrypt_stored F keys value of
             Inr (Some t) \<Rightarrow> (case loads J t of None \<Rightarrow> Inl JSONDecodeError | Some JNull \<Rightarrow> Inr None | Some j \<Rightarrow> Inr (Some j))
           | Inr None \<Rightarrow> Inr None
           | Inl e \<Rightarrow> Inl e))"

section \<open>Rows\<close>

text \<open>
  The database rows: a candidate's row has the same columns as the mapped object, with cipher texts in four of
  them; of a resume's row three columns hold the cipher texts of other types. Reading a row decrypts all its encrypted columns.
\<close>

record resume_row =
  rr_id :: uuid
  rr_tenant_id :: uuid
  rr_candidate_id :: uuid
  rr_file_url :: string
  rr_raw_text :: "utext option"
  rr_search_tokens :: "string list option"
  rr_parsed_data :: "utext option"
  rr_skill_analysis :: "json option"
  rr_agent_analysis :: "utext option"

definition load_candidate :: "('k, 'n) fernet \<Rightarrow> crypto_error + 'k list \<Rightarrow> candidate \<Rightarrow> crypto_error + candidate" where
  "load_candidate F keys row =
     (case collect (map (decrypt_stored F keys) [Some (c_first_name row), Some (c_last_name row), c_phone row, c_location row]) of
        Inr [Some first_name, Some last_name, phone, location] \<Rightarrow>
          Inr (row\<lparr>c_first_name := first_name, c_last_name := last_name, c_phone := phone, c_location := location\<rparr>)
      | Inl e \<Rightarrow> Inl e
      | Inr _ \<Rightarrow> Inl PiiDecryptionError)"

definition load_resume :: "json_text \<Rightarrow> ('k, 'n) fernet \<Rightarrow> crypto_error + 'k list \<Rightarrow> resume_row \<Rightarrow> crypto_error + resume" where
  "load_resume J F keys row =
     (case decrypt_stored F keys (rr_raw_text row) of
        Inl e \<Rightarrow> Inl e
      | Inr raw_text \<Rightarrow>
     (case encrypted_json_result J F keys (rr_parsed_data row) of
        Inl e \<Rightarrow> Inl e
      | Inr parsed_data \<Rightarrow>
     (case encrypted_json_result J F keys (rr_agent_analysis row) of
        Inl e \<Rightarrow> Inl e
      | Inr agent_analysis \<Rightarrow>
          Inr \<lparr>r_id = rr_id row, r_tenant_id = rr_tenant_id row, r_candidate_id = rr_candidate_id row, r_file_url = rr_file_url row,
            r_raw_text = raw_text, r_search_tokens = rr_search_tokens row, r_parsed_data = parsed_data,
            r_skill_analysis = rr_skill_analysis row, r_agent_analysis = agent_analysis\<rparr>)))"

section \<open>Re-encryption\<close>

text \<open>The fields of the table of encrypted fields, for each of the two mapped classes.\<close>

definition ENCRYPTED_FIELDS :: "string \<Rightarrow> string list" where
  "ENCRYPTED_FIELDS name = (if name = ''candidates'' then [''first_name'', ''last_name'', ''phone'', ''location''] else [''raw_text'', ''parsed_data''])"

text \<open>A flagged field is written back: encrypted anew, with new randomness for each row and field.\<close>

definition flag_candidate ::
  "('k, 'n) fernet \<Rightarrow> crypto_error + 'k list \<Rightarrow> (uuid \<Rightarrow> string \<Rightarrow> 'n) \<Rightarrow> candidate \<Rightarrow> candidate \<Rightarrow> crypto_error + candidate" where
  "flag_candidate F keys nonce row c =
     (case collect (map2 (\<lambda>f v. encrypt_text F keys (nonce (c_id row) f) v) (ENCRYPTED_FIELDS ''candidates'')
             [Some (c_first_name c), Some (c_last_name c), c_phone c, c_location c]) of
        Inr [Some first_name, Some last_name, phone, location] \<Rightarrow>
          Inr (row\<lparr>c_first_name := first_name, c_last_name := last_name, c_phone := phone, c_location := location\<rparr>)
      | Inl e \<Rightarrow> Inl e
      | Inr _ \<Rightarrow> Inl PiiDecryptionError)"

definition flag_resume ::
  "json_text \<Rightarrow> (utext \<Rightarrow> string) \<Rightarrow> unicode \<Rightarrow> ('k, 'n) fernet \<Rightarrow> crypto_error + 'k list \<Rightarrow> (uuid \<Rightarrow> string \<Rightarrow> 'n) \<Rightarrow> resume_row \<Rightarrow> resume \<Rightarrow>
   crypto_error + resume_row" where
  "flag_resume J hmac U F keys nonce row r =
     (case encrypt_text F keys (nonce (rr_id row) ''raw_text'') (r_raw_text r) of
        Inl e \<Rightarrow> Inl e
      | Inr raw_text \<Rightarrow>
     (case encrypted_json_bind J F keys (nonce (rr_id row) ''parsed_data'') (r_parsed_data r) of
        Inl e \<Rightarrow> Inl e
      | Inr parsed_data \<Rightarrow>
          Inr (row\<lparr>rr_raw_text := raw_text, rr_parsed_data := parsed_data, rr_search_tokens := blind_index_tokens hmac U (r_raw_text r)\<rparr>)))"

text \<open>The SQL condition for rows that were written unencrypted; a NULL column does not satisfy it.\<close>

definition legacy_field :: "utext option \<Rightarrow> bool" where
  "legacy_field v \<longleftrightarrow> v \<noteq> None \<and> \<not> is_encrypted v"

definition legacy_candidate :: "candidate \<Rightarrow> bool" where
  "legacy_candidate row \<longleftrightarrow> list_ex legacy_field [Some (c_first_name row), Some (c_last_name row), c_phone row, c_location row]"

definition legacy_resume :: "resume_row \<Rightarrow> bool" where
  "legacy_resume row \<longleftrightarrow> list_ex legacy_field [rr_raw_text row, rr_parsed_data row]"

text \<open>One batch: all its rows are read, then all are written; an exception leaves the batch as it was.\<close>

definition rewrite_batch :: "('r \<Rightarrow> 'e + 'o) \<Rightarrow> ('r \<Rightarrow> 'o \<Rightarrow> 'e + 'r) \<Rightarrow> 'r list \<Rightarrow> 'e + 'r list" where
  "rewrite_batch load save rows = (case collect (map load rows) of Inl e \<Rightarrow> Inl e | Inr objs \<Rightarrow> collect (map2 save rows objs))"

definition beyond :: "uuid option \<Rightarrow> uuid \<Rightarrow> bool" where
  "beyond last_id i = (case last_id of None \<Rightarrow> True | Some l \<Rightarrow> l < i)"

definition store_rows :: "('r \<Rightarrow> uuid) \<Rightarrow> 'r list \<Rightarrow> 'r list \<Rightarrow> 'r list" where
  "store_rows ident new table = map (\<lambda>r. case find (\<lambda>r'. ident r' = ident r) new of Some r' \<Rightarrow> r' | None \<Rightarrow> r) table"

definition next_batch :: "('r \<Rightarrow> uuid) \<Rightarrow> ('r \<Rightarrow> bool) \<Rightarrow> nat \<Rightarrow> uuid option \<Rightarrow> 'r list \<Rightarrow> 'r list" where
  "next_batch ident cond batch_size last_id table = take batch_size (sort_key ident (filter (\<lambda>r. cond r \<and> beyond last_id (ident r)) table))"

lemma store_rows_ident [simp]: "map ident (store_rows ident new table) = map ident table"
  by (auto simp: store_rows_def find_Some_iff split: option.splits)

lemma set_next_batch: "set (next_batch ident cond n l table) \<subseteq> {r \<in> set table. cond r \<and> beyond l (ident r)}"
  using set_take_subset unfolding next_batch_def by fastforce

text \<open>
  The loop ends because every round moves \<open>last_id\<close> past at least one row: the rows beyond it are fewer.
\<close>

lemma beyond_fewer:
  assumes "next_batch ident cond n l table \<noteq> []"
  shows "length (filter (beyond (Some (ident (last (next_batch ident cond n l table))))) (map ident table))
    < length (filter (beyond l) (map ident table))"
proof -
  let ?i = "ident (last (next_batch ident cond n l table))"
  have "last (next_batch ident cond n l table) \<in> set (next_batch ident cond n l table)" using assms by simp
  then have i: "?i \<in> set (map ident table)" "beyond l ?i" using set_next_batch [of ident cond n l table] by auto
  have "filter (beyond (Some ?i)) (map ident table) = filter (beyond (Some ?i)) (filter (beyond l) (map ident table))"
    using i(2) by (auto simp: beyond_def intro!: filter_cong split: option.splits)
  moreover have "length (filter (beyond (Some ?i)) (filter (beyond l) (map ident table))) < length (filter (beyond l) (map ident table))"
    using i by (intro length_filter_less [of ?i]) (auto simp: beyond_def)
  ultimately show ?thesis by simp
qed

function batch_loop ::
  "('r \<Rightarrow> uuid) \<Rightarrow> ('r \<Rightarrow> bool) \<Rightarrow> ('r list \<Rightarrow> 'e + 'r list) \<Rightarrow> nat \<Rightarrow> uuid option \<Rightarrow> nat \<Rightarrow> 'r list \<Rightarrow> ('e + nat) \<times> 'r list" where
  "batch_loop ident cond rewrite batch_size last_id count table =
     (let rows = next_batch ident cond batch_size last_id table
      in if rows = [] then (Inr count, table)
         else (case rewrite rows of
           Inl e \<Rightarrow> (Inl e, table)
         | Inr new \<Rightarrow>
             batch_loop ident cond rewrite batch_size (Some (ident (last rows))) (count + length rows) (store_rows ident new table)))"
  by pat_completeness auto
termination
  by (relation "measure (\<lambda>(ident, cond, rewrite, n, last_id, count, table). length (filter (beyond last_id) (map ident table)))")
    (simp_all add: beyond_fewer del: length_filter_map)

declare batch_loop.simps [simp del]

definition reencrypt ::
  "json_text \<Rightarrow> (utext \<Rightarrow> string) \<Rightarrow> unicode \<Rightarrow> ('k, 'n) fernet \<Rightarrow> utext \<Rightarrow> (uuid \<Rightarrow> string \<Rightarrow> 'n) \<Rightarrow> bool \<Rightarrow> nat \<Rightarrow>
   candidate list \<times> resume_row list \<Rightarrow> (crypto_error + nat \<times> nat) \<times> candidate list \<times> resume_row list" where
  "reencrypt J hmac U F PII_ENCRYPTION_KEYS nonce only_legacy batch_size db =
     (let (cs, rs) = db; keys = fernet_keys U F PII_ENCRYPTION_KEYS
      in case batch_loop c_id (\<lambda>r. only_legacy \<longrightarrow> legacy_candidate r) (rewrite_batch (load_candidate F keys) (flag_candidate F keys nonce))
                batch_size None 0 cs of
           (Inl e, cs') \<Rightarrow> (Inl e, cs', rs)
         | (Inr n, cs') \<Rightarrow>
             (case batch_loop rr_id (\<lambda>r. only_legacy \<longrightarrow> legacy_resume r)
                     (rewrite_batch (load_resume J F keys) (flag_resume J hmac U F keys nonce)) batch_size None 0 rs of
                (Inl e, rs') \<Rightarrow> (Inl e, cs', rs')
              | (Inr m, rs') \<Rightarrow> (Inr (n, m), cs', rs')))"

end
