(* ===== verification/Crypto_Properties.thy ===== *)
theory Crypto_Properties
  imports Crypto "HOL-Library.Countable"
begin

text \<open>
  The loop over batches rewrites every selected row once, whatever the size of the batches (the locale
  \<open>row_rewrite\<close>, interpreted for both tables); after a re-encryption every listed field is readable with the new
  key alone.
\<close>

section \<open>The loop over batches\<close>

text \<open>A way to rewrite rows in batches: a batch of rewritable rows becomes the list of its rewritten rows.\<close>

locale row_rewrite =
  fixes ident :: "'r \<Rightarrow> uuid" and rewrite :: "'r list \<Rightarrow> 'e + 'r list" and ok :: "'r \<Rightarrow> bool" and f :: "'r \<Rightarrow> 'r"
  assumes ident_kept: "ident (f r) = ident r"
    and rewrite_ok: "(\<And>r. r \<in> set rows \<Longrightarrow> ok r) \<Longrightarrow> rewrite rows = Inr (map f rows)"
begin

lemma batch_split:
  assumes "distinct (map ident table)" and "next_batch ident cond n l table \<noteq> []" and "r \<in> set table"
  defines "b \<equiv> next_batch ident cond n l table"
  shows "r \<in> set b \<longleftrightarrow> cond r \<and> beyond l (ident r) \<and> \<not> beyond (Some (ident (last b))) (ident r)"
    "beyond (Some (ident (last b))) (ident r) \<Longrightarrow> beyond l (ident r)"
proof -
  define sel where "sel = sort_key ident (filter (\<lambda>r. cond r \<and> beyond l (ident r)) table)"
  have b: "b = take n sel" "b \<noteq> []" using assms(2) by (simp_all add: b_def sel_def next_batch_def)
  have "sorted (map ident sel)" "distinct (map ident sel)"
    using assms(1) by (simp_all add: sel_def distinct_map inj_on_def)
  moreover have app: "map ident sel = map ident b @ map ident (drop n sel)" unfolding b(1) by (simp only: map_append [symmetric] append_take_drop_id)
  ultimately have parts: "sorted (map ident b)" "\<And>x y. x \<in> set b \<Longrightarrow> y \<in> set (drop n sel) \<Longrightarrow> ident x \<le> ident y \<and> ident x \<noteq> ident y"
    by (auto simp: sorted_append)
  have in_sel: "r \<in> set sel \<longleftrightarrow> cond r \<and> beyond l (ident r)" using assms(3) by (simp add: sel_def)
  have sets: "set sel = set b \<union> set (drop n sel)" unfolding b(1) by (metis append_take_drop_id set_append)
  have lastb: "last b \<in> set b" using b(2) by simp
  then have "last b \<in> set sel" using sets by simp
  then show "beyond l (ident r)" if "beyond (Some (ident (last b))) (ident r)"
    using that by (auto simp: sel_def beyond_def split: option.splits)
  have up: "x \<in> set b \<Longrightarrow> ident x \<le> ident (last b)" for x
  proof -
    assume x: "x \<in> set b"
    have split: "butlast b @ [last b] = b" using b(2) by simp
    have "sorted (map ident (butlast b @ [last b]))" using split parts(1) by simp
    then have "\<forall>y \<in> set (butlast b). ident y \<le> ident (last b)" by (simp add: sorted_append)
    moreover have "x \<in> set (butlast b @ [last b])" using x split by simp
    ultimately show ?thesis by auto
  qed
  show "r \<in> set b \<longleftrightarrow> cond r \<and> beyond l (ident r) \<and> \<not> beyond (Some (ident (last b))) (ident r)"
    using in_sel sets up [of r] parts(2) [OF lastb, of r] by (auto simp: beyond_def)
qed

lemma store_batch:
  fixes cond :: "'r \<Rightarrow> bool" and n :: nat and l :: "uuid option"
  assumes "distinct (map ident table)"
  defines "b \<equiv> next_batch ident cond n l table"
  shows "store_rows ident (map f b) table = map (\<lambda>r. if r \<in> set b then f r else r) table"
proof -
  have "find (\<lambda>r'. ident r' = ident r) (map f b) = (if r \<in> set b then Some (f r) else None)" if r: "r \<in> set table" for r
  proof -
    have same: "q \<in> set b \<Longrightarrow> ident q = ident r \<Longrightarrow> q = r" for q
      using set_next_batch [of ident cond n l table] assms(1) r by (auto simp: b_def distinct_map inj_on_def)
    show ?thesis
    proof (cases "find (\<lambda>r'. ident r' = ident r) (map f b)")
      case None
      then show ?thesis by (auto simp: find_None_iff ident_kept)
    next
      case (Some r')
      then obtain q where "q \<in> set b" "r' = f q" "ident q = ident r" using find_member [OF Some] by (auto simp: ident_kept)
      then show ?thesis using same Some by auto
    qed
  qed
  then show ?thesis by (auto simp: store_rows_def)
qed

lemma batch_count:
  assumes "distinct (map ident table)" and "next_batch ident cond n l table \<noteq> []"
  defines "b \<equiv> next_batch ident cond n l table"
  shows "length b + length (filter (\<lambda>r. cond r \<and> beyond (Some (ident (last b))) (ident r)) (store_rows ident (map f b) table))
    = length (filter (\<lambda>r. cond r \<and> beyond l (ident r)) table)"
proof -
  let ?Q = "\<lambda>r. cond r \<and> beyond (Some (ident (last b))) (ident r)" and ?sel = "\<lambda>r. cond r \<and> beyond l (ident r)"
  note split = batch_split [OF assms(1,2), folded b_def]
  have dt: "distinct table" using assms(1) by (simp add: distinct_map)
  then have db: "distinct b" by (simp add: b_def next_batch_def)
  have "length (filter ?Q (store_rows ident (map f b) table)) = length (filter (\<lambda>q. ?Q (if q \<in> set b then f q else q)) table)"
    unfolding b_def store_batch [OF assms(1)] by (simp add: o_def)
  also have "\<dots> = length (filter ?Q table)"
    using split(1) by (intro arg_cong [of _ _ length] filter_cong) (auto simp: ident_kept)
  finally have l: "length (filter ?Q (store_rows ident (map f b) table)) = card {r \<in> set table. ?Q r}"
    using dt by (simp add: distinct_card [symmetric])
  have "set b \<subseteq> set table" using set_next_batch [of ident cond n l table] unfolding b_def by blast
  then have "{r \<in> set table. ?sel r} = set b \<union> {r \<in> set table. ?Q r}" "set b \<inter> {r \<in> set table. ?Q r} = {}" using split by blast+
  then have "card {r \<in> set table. ?sel r} = card (set b) + card {r \<in> set table. ?Q r}" by (simp add: card_Un_disjoint)
  then show ?thesis using l dt distinct_card [OF db] by (simp add: distinct_card [symmetric])
qed

text \<open>With batches of at least one row, the loop rewrites every selected row once and counts them.\<close>

theorem batch_loop_all:
  assumes "0 < n" and "distinct (map ident table)"
    and "\<And>r. r \<in> set table \<Longrightarrow> cond r \<Longrightarrow> beyond l (ident r) \<Longrightarrow> ok r"
  shows "batch_loop ident cond rewrite n l count table
    = (Inr (count + length (filter (\<lambda>r. cond r \<and> beyond l (ident r)) table)),
       map (\<lambda>r. if cond r \<and> beyond l (ident r) then f r else r) table)"
  using assms
proof (induction "length (filter (beyond l) (map ident table))" arbitrary: l count table rule: less_induct)
  case less
  let ?b = "next_batch ident cond n l table" and ?sel = "\<lambda>r. cond r \<and> beyond l (ident r)"
  show ?case
  proof (cases "?b = []")
    case True
    then have "sort_key ident (filter ?sel table) = []" using less.prems(1) by (simp add: next_batch_def)
    then have "filter ?sel table = []" by (metis length_0_conv length_sort)
    then have "map (\<lambda>r. if ?sel r then f r else r) table = table" by (auto simp: filter_empty_conv intro!: map_idI)
    then show ?thesis using True \<open>filter ?sel table = []\<close> by (simp add: batch_loop.simps [of _ _ _ _ _ _ table])
  next
    case False
    let ?l = "Some (ident (last ?b))" and ?t = "store_rows ident (map f ?b) table"
    note split = batch_split [OF less.prems(2) False]
    have "\<And>r. r \<in> set ?b \<Longrightarrow> ok r" using set_next_batch [of ident cond n l table] less.prems(3) by blast
    then have rw: "rewrite ?b = Inr (map f ?b)" by (rule rewrite_ok)
    have t: "?t = map (\<lambda>r. if r \<in> set ?b then f r else r) table"
      by (rule store_batch [OF less.prems(2)])
    have "batch_loop ident cond rewrite n ?l (count + length ?b) ?t
      = (Inr (count + length ?b + length (filter (\<lambda>r. cond r \<and> beyond ?l (ident r)) ?t)),
         map (\<lambda>r. if cond r \<and> beyond ?l (ident r) then f r else r) ?t)"
    proof (rule less.hyps)
      show "length (filter (beyond ?l) (map ident ?t)) < length (filter (beyond l) (map ident table))"
        unfolding store_rows_ident by (rule beyond_fewer [OF False])
      show "ok r" if rt: "r \<in> set ?t" and rc: "cond r" and rb: "beyond ?l (ident r)" for r
      proof -
        obtain q where q: "q \<in> set table" "r = (if q \<in> set ?b then f q else q)" using rt unfolding t by auto
        have "q \<notin> set ?b" using q rb split(1) [OF q(1)] by (auto simp: ident_kept)
        then show ?thesis using q rc rb less.prems(3) split(2) [OF q(1)] by auto
      qed
    qed (use less.prems in simp_all)
    moreover have "map (\<lambda>r. if cond r \<and> beyond ?l (ident r) then f r else r) ?t = map (\<lambda>r. if ?sel r then f r else r) table"
      unfolding t using split by (auto simp: ident_kept)
    moreover have "length ?b + length (filter (\<lambda>r. cond r \<and> beyond ?l (ident r)) ?t) = length (filter ?sel table)"
      using batch_count [OF less.prems(2) False] by simp
    ultimately show ?thesis using False rw by (simp add: batch_loop.simps [of _ _ _ _ l _ table] Let_def add.assoc)
  qed
qed

end

section \<open>Rewriting through the mapped objects\<close>

definition rewritten :: "('r \<Rightarrow> 'e + 'o) \<Rightarrow> ('r \<Rightarrow> 'o \<Rightarrow> 'e + 'r) \<Rightarrow> 'r \<Rightarrow> 'r" where
  "rewritten load save r = (case load r of Inl _ \<Rightarrow> r | Inr obj \<Rightarrow> (case save r obj of Inl _ \<Rightarrow> r | Inr r' \<Rightarrow> r'))"

definition rewritable :: "('r \<Rightarrow> 'e + 'o) \<Rightarrow> ('r \<Rightarrow> 'o \<Rightarrow> 'e + 'r) \<Rightarrow> 'r \<Rightarrow> bool" where
  "rewritable load save r \<longleftrightarrow> (\<exists>obj r'. load r = Inr obj \<and> save r obj = Inr r')"

lemma rewrite_batch_ok:
  assumes "\<And>r. r \<in> set rows \<Longrightarrow> rewritable load save r"
  shows "rewrite_batch load save rows = Inr (map (rewritten load save) rows)"
proof -
  have "\<exists>objs. collect (map load rows) = Inr objs \<and> collect (map2 save rows objs) = Inr (map (rewritten load save) rows)"
    using assms
  proof (induction rows)
    case (Cons r rows)
    then obtain objs where objs: "collect (map load rows) = Inr objs" "collect (map2 save rows objs) = Inr (map (rewritten load save) rows)" by auto
    obtain obj r' where "load r = Inr obj" "save r obj = Inr r'" using Cons.prems [of r] by (auto simp: rewritable_def)
    then show ?case using objs by (intro exI [of _ "obj # objs"]) (simp add: rewritten_def)
  qed simp
  then show ?thesis by (auto simp: rewrite_batch_def)
qed

locale row_codec =
  fixes ident :: "'r \<Rightarrow> uuid" and load :: "'r \<Rightarrow> 'e + 'o" and save :: "'r \<Rightarrow> 'o \<Rightarrow> 'e + 'r"
  assumes save_ident: "save r obj = Inr r' \<Longrightarrow> ident r' = ident r"

sublocale row_codec \<subseteq> row_rewrite ident "rewrite_batch load save" "rewritable load save" "rewritten load save"
proof
  show "ident (rewritten load save r) = ident r" for r
    by (auto simp: rewritten_def save_ident split: sum.splits)
qed (rule rewrite_batch_ok)

interpretation candidate_rows: row_codec c_id "load_candidate F keys" "flag_candidate F keys nonce"
  by unfold_locales (auto simp: flag_candidate_def split: sum.splits list.splits option.splits)

interpretation resume_rows: row_codec rr_id "load_resume J F keys" "flag_resume J hmac U F keys nonce"
  by unfold_locales (auto simp: flag_resume_def split: sum.splits)

section \<open>What a rewritten row holds\<close>

text \<open>The database stores only texts that have a UTF-8 encoding.\<close>

definition db_text :: "utext option \<Rightarrow> bool" where
  "db_text v \<longleftrightarrow> (case v of None \<Rightarrow> True | Some t \<Rightarrow> utf8_encode t \<noteq> None)"

lemma multi_decrypt_own:
  "fernet_ok F \<Longrightarrow> multi_decrypt F (k # ks) (fn_encrypt F k n b) = Some b"
  by (simp add: fernet_ok_def)

lemma multi_decrypt_foreign:
  "fernet_ok F \<Longrightarrow> k \<notin> set ks \<Longrightarrow> multi_decrypt F ks (fn_encrypt F k n b) = None"
  by (induction ks) (auto simp: fernet_ok_def)

lemma token_encrypted: "fernet_ok F \<Longrightarrow> is_encrypted (Some (fn_encrypt F k n b))"
  by (simp add: fernet_ok_def is_encrypted_def)

lemma token_ascii: "fernet_ok F \<Longrightarrow> \<not> (\<exists>c \<in> set (fn_encrypt F k n b). 128 \<le> c)"
  by (auto simp: fernet_ok_def not_le)

lemma encrypt_then_read:
  assumes "fernet_ok F" and "db_text t"
  obtains v where "encrypt_text F (Inr (new # old)) n t = Inr v" "decrypt_stored F (Inr (new # ks)) v = Inr t" "v = None \<longleftrightarrow> t = None"
proof (cases t)
  case None
  then show thesis using that [of None] by (simp add: encrypt_text_def decrypt_stored_def is_encrypted_def)
next
  case (Some x)
  then obtain b where b: "utf8_encode x = Some b" using assms(2) by (auto simp: db_text_def)
  show thesis
  proof (rule that [of "Some (fn_encrypt F new n b)"])
    show "decrypt_stored F (Inr (new # ks)) (Some (fn_encrypt F new n b)) = Inr t"
      unfolding decrypt_stored_def decrypt_text_def
      using token_encrypted [OF assms(1)] token_ascii [OF assms(1)] multi_decrypt_own [OF assms(1)] utf8_round_trip [OF b] Some by simp
  qed (simp_all add: encrypt_text_def Some b)
qed

lemma encrypt_then_read_Some:
  assumes "fernet_ok F" and "db_text (Some t)"
  obtains v where "encrypt_text F (Inr (new # old)) n (Some t) = Inr (Some v)" "decrypt_stored F (Inr (new # ks)) (Some v) = Inr (Some t)"
proof -
  obtain v where "encrypt_text F (Inr (new # old)) n (Some t) = Inr v" "decrypt_stored F (Inr (new # ks)) v = Inr (Some t)" "v = None \<longleftrightarrow> Some t = None"
    by (rule encrypt_then_read [OF assms])
  then show thesis using that by (cases v) auto
qed

lemma foreign_token_unreadable:
  assumes "fernet_ok F" and "k \<notin> set ks"
  shows "decrypt_stored F (Inr ks) (Some (fn_encrypt F k n b)) = Inl PiiDecryptionError"
  using token_encrypted [OF assms(1)] multi_decrypt_foreign [OF assms] by (simp add: decrypt_stored_def decrypt_text_def)

lemma read_text_encodable:
  assumes "decrypt_stored F keys v = Inr t" and "db_text v"
  shows "db_text t"
  using assms utf8_decoded_encodable
  by (auto simp: decrypt_stored_def decrypt_text_def is_encrypted_def db_text_def split: if_splits option.splits sum.splits; metis)

lemma candidate_rotates:
  fixes nonce :: "uuid \<Rightarrow> string \<Rightarrow> 'n"
  assumes F: "fernet_ok F" and load: "load_candidate F (Inr (new # old)) c = Inr obj"
    and valid: "list_all db_text [Some (c_first_name c), Some (c_last_name c), c_phone c, c_location c]"
  defines "c' \<equiv> rewritten (load_candidate F (Inr (new # old))) (flag_candidate F (Inr (new # old)) nonce) c"
  shows "rewritable (load_candidate F (Inr (new # old))) (flag_candidate F (Inr (new # old)) nonce) c"
    "load_candidate F (Inr (new # ks)) c' = Inr obj"
proof -
  let ?read = "decrypt_stored F (Inr (new # old))"
  obtain f l p a where r: "?read (Some (c_first_name c)) = Inr (Some f)" "?read (Some (c_last_name c)) = Inr (Some l)"
      "?read (c_phone c) = Inr p" "?read (c_location c) = Inr a"
    and obj: "obj = c\<lparr>c_first_name := f, c_last_name := l, c_phone := p, c_location := a\<rparr>"
    using load by (auto simp: load_candidate_def collect_Inr split: sum.splits list.splits option.splits)
  have v: "db_text (Some f)" "db_text (Some l)" "db_text p" "db_text a" using read_text_encodable r valid by auto
  obtain f' where f': "encrypt_text F (Inr (new # old)) (nonce (c_id c) ''first_name'') (Some f) = Inr (Some f')"
      "decrypt_stored F (Inr (new # ks)) (Some f') = Inr (Some f)"
    by (rule encrypt_then_read_Some [OF F v(1)])
  obtain l' where l': "encrypt_text F (Inr (new # old)) (nonce (c_id c) ''last_name'') (Some l) = Inr (Some l')"
      "decrypt_stored F (Inr (new # ks)) (Some l') = Inr (Some l)"
    by (rule encrypt_then_read_Some [OF F v(2)])
  obtain p' where p': "encrypt_text F (Inr (new # old)) (nonce (c_id c) ''phone'') p = Inr p'" "decrypt_stored F (Inr (new # ks)) p' = Inr p"
    by (rule encrypt_then_read [OF F v(3)])
  obtain a' where a': "encrypt_text F (Inr (new # old)) (nonce (c_id c) ''location'') a = Inr a'" "decrypt_stored F (Inr (new # ks)) a' = Inr a"
    by (rule encrypt_then_read [OF F v(4)])
  have flag: "flag_candidate F (Inr (new # old)) nonce c obj
      = Inr (c\<lparr>c_first_name := f', c_last_name := l', c_phone := p', c_location := a'\<rparr>)"
    using f'(1) l'(1) p'(1) a'(1) by (simp add: flag_candidate_def ENCRYPTED_FIELDS_def obj)
  then show "rewritable (load_candidate F (Inr (new # old))) (flag_candidate F (Inr (new # old)) nonce) c"
    using load by (auto simp: rewritable_def)
  have "c' = c\<lparr>c_first_name := f', c_last_name := l', c_phone := p', c_location := a'\<rparr>" by (simp add: c'_def rewritten_def load flag)
  then show "load_candidate F (Inr (new # ks)) c' = Inr obj"
    using f'(2) l'(2) p'(2) a'(2) by (simp add: load_candidate_def obj)
qed

lemma json_result_encodable:
  assumes "encrypted_json_result J F keys v = Inr j"
  shows "j \<noteq> Some JNull" and "v = None \<Longrightarrow> j = None"
  using assms by (auto simp: encrypted_json_result_def split: option.splits sum.splits json.splits)

lemma json_then_read:
  assumes F: "fernet_ok F" and J: "json_text_ok J" and "db_text (map_option (dumps J) j)" and "j \<noteq> Some JNull"
  obtains v where "encrypted_json_bind J F (Inr (new # old)) n j = Inr v" "encrypted_json_result J F (Inr (new # ks)) v = Inr j"
proof -
  obtain v where v: "encrypt_text F (Inr (new # old)) n (map_option (dumps J) j) = Inr v"
      "decrypt_stored F (Inr (new # ks)) v = Inr (map_option (dumps J) j)" "v = None \<longleftrightarrow> map_option (dumps J) j = None"
    by (rule encrypt_then_read [OF F assms(3)])
  have "encrypted_json_result J F (Inr (new # ks)) v = Inr j"
    using v(2,3) J assms(4) by (cases j) (auto simp: encrypted_json_result_def json_text_ok_def split: option.splits json.splits)
  then show thesis using v(1) by (intro that) (simp add: encrypted_json_bind_def)
qed

lemma resume_rotates:
  fixes hmac :: "utext \<Rightarrow> string" and U :: unicode and nonce :: "uuid \<Rightarrow> string \<Rightarrow> 'n"
  assumes F: "fernet_ok F" and J: "json_text_ok J" and load: "load_resume J F (Inr (new # old)) r = Inr obj"
    and valid: "db_text (rr_raw_text r)" "db_text (map_option (dumps J) (r_parsed_data obj))"
  defines "r' \<equiv> rewritten (load_resume J F (Inr (new # old))) (flag_resume J hmac U F (Inr (new # old)) nonce) r"
  shows "rewritable (load_resume J F (Inr (new # old))) (flag_resume J hmac U F (Inr (new # old)) nonce) r"
    "decrypt_stored F (Inr (new # ks)) (rr_raw_text r') = Inr (r_raw_text obj)"
    "encrypted_json_result J F (Inr (new # ks)) (rr_parsed_data r') = Inr (r_parsed_data obj)"
    "rr_search_tokens r' = blind_index_tokens hmac U (r_raw_text obj)"
    "r' = r\<lparr>rr_raw_text := rr_raw_text r', rr_parsed_data := rr_parsed_data r', rr_search_tokens := rr_search_tokens r'\<rparr>"
proof -
  have o: "decrypt_stored F (Inr (new # old)) (rr_raw_text r) = Inr (r_raw_text obj)"
      "encrypted_json_result J F (Inr (new # old)) (rr_parsed_data r) = Inr (r_parsed_data obj)"
    using load by (auto simp: load_resume_def split: sum.splits)
  obtain t' where t': "encrypt_text F (Inr (new # old)) (nonce (rr_id r) ''raw_text'') (r_raw_text obj) = Inr t'"
      "decrypt_stored F (Inr (new # ks)) t' = Inr (r_raw_text obj)"
    by (rule encrypt_then_read [OF F read_text_encodable [OF o(1) valid(1)]])
  obtain p' where p': "encrypted_json_bind J F (Inr (new # old)) (nonce (rr_id r) ''parsed_data'') (r_parsed_data obj) = Inr p'"
      "encrypted_json_result J F (Inr (new # ks)) p' = Inr (r_parsed_data obj)"
    by (rule json_then_read [OF F J valid(2) json_result_encodable(1) [OF o(2)]])
  have flag: "flag_resume J hmac U F (Inr (new # old)) nonce r obj
      = Inr (r\<lparr>rr_raw_text := t', rr_parsed_data := p', rr_search_tokens := blind_index_tokens hmac U (r_raw_text obj)\<rparr>)"
    using t'(1) p'(1) by (simp add: flag_resume_def)
  then show "rewritable (load_resume J F (Inr (new # old))) (flag_resume J hmac U F (Inr (new # old)) nonce) r"
    using load by (auto simp: rewritable_def)
  have r': "r' = r\<lparr>rr_raw_text := t', rr_parsed_data := p', rr_search_tokens := blind_index_tokens hmac U (r_raw_text obj)\<rparr>"
    by (simp add: r'_def rewritten_def load flag)
  then show "decrypt_stored F (Inr (new # ks)) (rr_raw_text r') = Inr (r_raw_text obj)"
    "encrypted_json_result J F (Inr (new # ks)) (rr_parsed_data r') = Inr (r_parsed_data obj)"
    "rr_search_tokens r' = blind_index_tokens hmac U (r_raw_text obj)"
    "r' = r\<lparr>rr_raw_text := rr_raw_text r', rr_parsed_data := rr_parsed_data r', rr_search_tokens := rr_search_tokens r'\<rparr>"
    using t'(2) p'(2) by simp_all
qed

section \<open>Properties\<close>

text \<open>
  C18. The change of key works and ends: with the new key first in the list, \<open>reencrypt\<close> returns after rewriting
  every candidate and every resume once, whatever the size of a batch, if all rows were readable before. Then
  every listed field reads with the new key alone as it read before. The agent analysis of a resume is not
  a listed field: its column is left as it was, and a resume whose analysis was encrypted with another key cannot be read
  any more when only the new key is kept.
\<close>

theorem reencrypt_rotates_keys:
  assumes F: "fernet_ok F" and J: "json_text_ok J"
    and keys: "fernet_keys U F setting = Inr (new # old)" and n: "0 < batch_size"
    and ids: "distinct (map c_id cs)" "distinct (map rr_id rs)"
    and cs: "\<forall>c \<in> set cs. (\<exists>obj. load_candidate F (Inr (new # old)) c = Inr obj)
      \<and> list_all db_text [Some (c_first_name c), Some (c_last_name c), c_phone c, c_location c]"
    and rs: "\<forall>r \<in> set rs. (\<exists>obj. load_resume J F (Inr (new # old)) r = Inr obj \<and> db_text (map_option (dumps J) (r_parsed_data obj)))
      \<and> db_text (rr_raw_text r)"
  shows "\<exists>cs' rs'. reencrypt J hmac U F setting nonce False batch_size (cs, rs) = (Inr (length cs, length rs), cs', rs')
    \<and> map (load_candidate F (Inr [new])) cs' = map (load_candidate F (Inr (new # old))) cs
    \<and> list_all2 (\<lambda>r r'. decrypt_stored F (Inr [new]) (rr_raw_text r') = decrypt_stored F (Inr (new # old)) (rr_raw_text r)
         \<and> encrypted_json_result J F (Inr [new]) (rr_parsed_data r') = encrypted_json_result J F (Inr (new # old)) (rr_parsed_data r)
         \<and> rr_agent_analysis r' = rr_agent_analysis r
         \<and> (\<forall>k m b. k \<noteq> new \<and> rr_agent_analysis r = Some (fn_encrypt F k m b) \<longrightarrow> load_resume J F (Inr [new]) r' = Inl PiiDecryptionError)) rs rs'"
proof -
  let ?ks = "Inr (new # old) :: crypto_error + _"
  let ?f = "rewritten (load_candidate F ?ks) (flag_candidate F ?ks nonce)" and ?g = "rewritten (load_resume J F ?ks) (flag_resume J hmac U F ?ks nonce)"
  have c: "batch_loop c_id (\<lambda>r. True) (rewrite_batch (load_candidate F ?ks) (flag_candidate F ?ks nonce)) batch_size None 0 cs
      = (Inr (length cs), map ?f cs)"
    by (subst candidate_rows.batch_loop_all [OF n ids(1)]) (use candidate_rotates(1) [OF F] cs in \<open>blast, simp add: beyond_def\<close>)
  have r: "batch_loop rr_id (\<lambda>r. True) (rewrite_batch (load_resume J F ?ks) (flag_resume J hmac U F ?ks nonce)) batch_size None 0 rs
      = (Inr (length rs), map ?g rs)"
    by (subst resume_rows.batch_loop_all [OF n ids(2)]) (use resume_rotates(1) [OF F J] rs in \<open>blast, simp add: beyond_def\<close>)
  have run: "reencrypt J hmac U F setting nonce False batch_size (cs, rs) = (Inr (length cs, length rs), map ?f cs, map ?g rs)"
    using c r by (simp add: reencrypt_def keys Let_def)
  have "map (load_candidate F (Inr [new])) (map ?f cs) = map (load_candidate F ?ks) cs"
    using cs candidate_rotates(2) [OF F, where ks = "[]"] by fastforce
  moreover have "decrypt_stored F (Inr [new]) (rr_raw_text (?g q)) = decrypt_stored F ?ks (rr_raw_text q)
      \<and> encrypted_json_result J F (Inr [new]) (rr_parsed_data (?g q)) = encrypted_json_result J F ?ks (rr_parsed_data q)
      \<and> rr_agent_analysis (?g q) = rr_agent_analysis q
      \<and> (\<forall>k m b. k \<noteq> new \<and> rr_agent_analysis q = Some (fn_encrypt F k m b) \<longrightarrow> load_resume J F (Inr [new]) (?g q) = Inl PiiDecryptionError)"
    if q: "q \<in> set rs" for q
  proof -
    obtain obj where o: "load_resume J F ?ks q = Inr obj" "db_text (map_option (dumps J) (r_parsed_data obj))" "db_text (rr_raw_text q)"
      using rs q by blast
    note rot = resume_rotates(2,3) [OF F J o(1) o(3) o(2), where ks = "[]" and hmac = hmac and U = U and nonce = nonce]
    have a: "rr_agent_analysis (?g q) = rr_agent_analysis q"
      by (subst resume_rotates(5) [OF F J o(1) o(3) o(2), where hmac = hmac and U = U and nonce = nonce]) simp
    have "decrypt_stored F ?ks (rr_raw_text q) = Inr (r_raw_text obj)" "encrypted_json_result J F ?ks (rr_parsed_data q) = Inr (r_parsed_data obj)"
      using o(1) by (auto simp: load_resume_def split: sum.splits)
    then show ?thesis using rot a foreign_token_unreadable [OF F, of _ "[new]"]
      by (auto simp: load_resume_def encrypted_json_result_def)
  qed
  ultimately show ?thesis using run by (auto simp: list_all2_map2 list_all2_same)
qed

text \<open>A cipher and a printer that satisfy the laws, and a database with rows under an old key.\<close>

instance json :: countable
  by countable_datatype

definition plain_fernet :: "(nat, unit) fernet" where
  "plain_fernet = \<lparr>fn_key = (\<lambda>s. Some (length s)),
     fn_encrypt = (\<lambda>k n b. FERNET_PREFIX @ replicate (to_nat (k, b)) 65),
     fn_decrypt = (\<lambda>k token. case from_nat (length token - 6) of (k', b) \<Rightarrow> if k' = k then Some b else None)\<rparr>"

definition plain_json :: json_text where
  "plain_json = \<lparr>dumps = (\<lambda>j. replicate (to_nat j) 32), loads = (\<lambda>t. Some (from_nat (length t)))\<rparr>"

lemma plain_fernet_ok: "fernet_ok plain_fernet"
  by (auto simp: fernet_ok_def plain_fernet_def FERNET_PREFIX_def utext_of_def)

lemma plain_json_ok: "json_text_ok plain_json"
  by (simp add: json_text_ok_def plain_json_def)

lemma read_token:
  assumes "fernet_ok F" and "k \<in> set ks" and "utf8_encode t = Some b"
  shows "decrypt_stored F (Inr ks) (Some (fn_encrypt F k n b)) = Inr (Some t)"
proof -
  have "multi_decrypt F ks (fn_encrypt F k n b) = Some b"
    using assms(1,2) by (induction ks) (auto simp: fernet_ok_def split: option.splits)
  then show ?thesis
    using token_encrypted [OF assms(1)] token_ascii [OF assms(1)] utf8_round_trip [OF assms(3)] by (simp add: decrypt_stored_def decrypt_text_def)
qed

lemma utf8_ascii: "(\<And>c. c \<in> set t \<Longrightarrow> c < 128) \<Longrightarrow> utf8_encode t = Some t"
  by (induction t) (auto simp: utf8_char_def split: option.splits)

definition demo_candidate_row :: candidate where
  "demo_candidate_row = \<lparr>c_id = 1, c_user_id = 7, c_first_name = utext_of ''Ann'', c_last_name = fn_encrypt plain_fernet 2 () (utext_of ''Lee''),
     c_phone = None, c_skills = None, c_location = None\<rparr>"

definition demo_resume_row :: resume_row where
  "demo_resume_row = \<lparr>rr_id = 3, rr_tenant_id = 5, rr_candidate_id = 1, rr_file_url = ''f'', rr_raw_text = None, rr_search_tokens = None,
     rr_parsed_data = None, rr_skill_analysis = None, rr_agent_analysis = Some (fn_encrypt plain_fernet 2 () (dumps plain_json (JInt 1)))\<rparr>"

lemma demo_rows_readable:
  "load_candidate plain_fernet (Inr [1, 2]) demo_candidate_row = Inr (demo_candidate_row\<lparr>c_last_name := utext_of ''Lee''\<rparr>)"
  "\<exists>obj. load_resume plain_json plain_fernet (Inr [1, 2]) demo_resume_row = Inr obj \<and> r_parsed_data obj = None"
  "list_all db_text [Some (c_first_name demo_candidate_row), Some (c_last_name demo_candidate_row)]"
proof -
  have lee: "utf8_encode (utext_of ''Lee'') = Some (utext_of ''Lee'')" by (rule utf8_ascii) (auto simp: utext_of_def)
  have js: "utf8_encode (dumps plain_json (JInt 1)) = Some (dumps plain_json (JInt 1))" by (rule utf8_ascii) (auto simp: plain_json_def)
  have tok: "utf8_encode (fn_encrypt plain_fernet 2 () b) = Some (fn_encrypt plain_fernet 2 () b)" for b
    by (rule utf8_ascii) (use plain_fernet_ok in \<open>auto simp: fernet_ok_def\<close>)
  note rd = read_token [OF plain_fernet_ok, of 2 "[1, 2]" _ _ "()"]
  have ann: "\<not> is_encrypted (Some (utext_of ''Ann''))" by (simp add: is_encrypted_def FERNET_PREFIX_def utext_of_def)
  have none: "decrypt_stored F keys None = Inr None" for F :: "(nat, unit) fernet" and keys by (simp add: decrypt_stored_def is_encrypted_def)
  show "load_candidate plain_fernet (Inr [1, 2]) demo_candidate_row = Inr (demo_candidate_row\<lparr>c_last_name := utext_of ''Lee''\<rparr>)"
    using rd [OF _ lee] ann by (simp add: load_candidate_def demo_candidate_row_def none decrypt_stored_def [of _ _ "Some (utext_of ''Ann'')"])
  show "\<exists>obj. load_resume plain_json plain_fernet (Inr [1, 2]) demo_resume_row = Inr obj \<and> r_parsed_data obj = None"
    using rd [OF _ js] plain_json_ok
    by (simp add: load_resume_def demo_resume_row_def none encrypted_json_result_def json_text_ok_def)
  have "utf8_encode (utext_of ''Ann'') = Some (utext_of ''Ann'')" by (rule utf8_ascii) (auto simp: utext_of_def)
  then show "list_all db_text [Some (c_first_name demo_candidate_row), Some (c_last_name demo_candidate_row)]"
    using tok by (simp add: db_text_def demo_candidate_row_def)
qed

theorem reencrypt_rotates_keys_witness:
  "\<exists>c' r'. reencrypt plain_json (\<lambda>_. []) ascii_tables plain_fernet (utext_of ''a,bb'') (\<lambda>_ _. ()) False 1 ([demo_candidate_row], [demo_resume_row])
      = (Inr (1, 1), [c'], [r'])
    \<and> load_candidate plain_fernet (Inr [1]) c' = Inr (demo_candidate_row\<lparr>c_last_name := utext_of ''Lee''\<rparr>)
    \<and> load_resume plain_json plain_fernet (Inr [1]) r' = Inl PiiDecryptionError"
proof -
  have keys: "fernet_keys ascii_tables plain_fernet (utext_of ''a,bb'') = Inr [1, 2]"
    by (simp add: fernet_keys_def utext_of_def ustrip_def strip_by_def ascii_tables_def plain_fernet_def)
  have side: "0 < (1 :: nat)" "distinct (map c_id [demo_candidate_row])" "distinct (map rr_id [demo_resume_row])" by simp_all
  have hyps: "\<forall>c \<in> set [demo_candidate_row]. (\<exists>obj. load_candidate plain_fernet (Inr [1, 2]) c = Inr obj)
      \<and> list_all db_text [Some (c_first_name c), Some (c_last_name c), c_phone c, c_location c]"
    "\<forall>r \<in> set [demo_resume_row]. (\<exists>obj. load_resume plain_json plain_fernet (Inr [1, 2]) r = Inr obj
      \<and> db_text (map_option (dumps plain_json) (r_parsed_data obj))) \<and> db_text (rr_raw_text r)"
    using demo_rows_readable by (auto simp: db_text_def demo_candidate_row_def demo_resume_row_def)
  obtain cs' rs' where run: "reencrypt plain_json (\<lambda>_. []) ascii_tables plain_fernet (utext_of ''a,bb'') (\<lambda>_ _. ()) False 1 ([demo_candidate_row], [demo_resume_row])
      = (Inr (length [demo_candidate_row], length [demo_resume_row]), cs', rs')"
    "map (load_candidate plain_fernet (Inr [1])) cs' = map (load_candidate plain_fernet (Inr [1, 2])) [demo_candidate_row]"
    "list_all2 (\<lambda>r r'. decrypt_stored plain_fernet (Inr [1]) (rr_raw_text r') = decrypt_stored plain_fernet (Inr [1, 2]) (rr_raw_text r)
         \<and> encrypted_json_result plain_json plain_fernet (Inr [1]) (rr_parsed_data r')
           = encrypted_json_result plain_json plain_fernet (Inr [1, 2]) (rr_parsed_data r)
         \<and> rr_agent_analysis r' = rr_agent_analysis r
         \<and> (\<forall>k m b. k \<noteq> 1 \<and> rr_agent_analysis r = Some (fn_encrypt plain_fernet k m b)
           \<longrightarrow> load_resume plain_json plain_fernet (Inr [1]) r' = Inl PiiDecryptionError)) [demo_resume_row] rs'"
    using reencrypt_rotates_keys [OF plain_fernet_ok plain_json_ok keys side hyps, of "\<lambda>_. []" "\<lambda>_ _. ()"]
    by (elim exE conjE) (rule that)
  obtain c' r' where cr: "cs' = [c']" "rs' = [r']" using run(2,3) by (auto simp: list_all2_Cons1)
  have "\<forall>k m b. k \<noteq> 1 \<and> rr_agent_analysis demo_resume_row = Some (fn_encrypt plain_fernet k m b)
      \<longrightarrow> load_resume plain_json plain_fernet (Inr [1]) r' = Inl PiiDecryptionError"
    using run(3) unfolding cr list_all2_Cons by (elim conjE)
  from this [rule_format, of 2 "()" "dumps plain_json (JInt 1)"]
  have "load_resume plain_json plain_fernet (Inr [1]) r' = Inl PiiDecryptionError" by (simp add: demo_resume_row_def)
  then show ?thesis using run(1,2) demo_rows_readable(1) by (simp add: cr)
qed

end
