(* ===== verification/Storage.thy ===== *)
theory Storage
  imports ATS_Models Py_Uuid
begin

text \<open>
  The file store (app/core/storage.py): the two backends behind one interface, over a map from paths
  (local disk) or object keys (S3) to contents. Parameters: the random part of a key, and whether the
  disk or the service works at the moment (a failure raises). Directories have no symbolic links.
\<close>

section \<open>Names\<close>

definition safe_char :: "nat \<Rightarrow> bool" where
  "safe_char c \<longleftrightarrow> (48 \<le> c \<and> c \<le> 57) \<or> (65 \<le> c \<and> c \<le> 90) \<or> (97 \<le> c \<and> c \<le> 122) \<or> c = 46 \<or> c = 95 \<or> c = 45"

text \<open>\<open>re.sub\<close> of \<open>[^A-Za-z0-9._-]+\<close> by an underscore.\<close>

function safe_filename :: "utext \<Rightarrow> string" where
  "safe_filename [] = []"
| "safe_filename (c # cs) =
     (if safe_char c then char_of c # safe_filename cs else CHR ''_'' # safe_filename (dropWhile (\<lambda>c. \<not> safe_char c) cs))"
  by pat_completeness auto
termination
  by (relation "measure length") (auto simp: le_imp_less_Suc length_dropWhile_le)

definition build_object_key :: "uuid \<Rightarrow> string \<Rightarrow> utext \<Rightarrow> string" where
  "build_object_key candidate_id new_hex original_filename =
     (let name = safe_filename original_filename; safe_name = (if name = [] then ''resume'' else name)
      in str_of_uuid candidate_id @ ''/'' @ new_hex @ ''_'' @ safe_name)"

text \<open>\<open>str.rstrip("/")\<close>\<close>

definition rstrip_slash :: "string \<Rightarrow> string" where
  "rstrip_slash s = rev (dropWhile (\<lambda>c. c = CHR ''/'') (rev s))"

section \<open>The interface\<close>

text \<open>\<open>StorageBackend\<close>: a failed operation raises (None).\<close>

record 'f storage_backend =
  sb_save :: "uuid \<Rightarrow> string \<Rightarrow> utext \<Rightarrow> nat list \<Rightarrow> 'f \<Rightarrow> string option \<times> 'f"
  sb_delete :: "string \<Rightarrow> 'f \<Rightarrow> bool option \<times> 'f"

section \<open>Local disk\<close>

type_synonym path = "string list"
type_synonym disk = "path \<Rightarrow> nat list option"

record media_settings =
  MEDIA_ROOT :: path
  MEDIA_BASE_URL :: string

text \<open>\<open>Path.resolve\<close>, on the components of a path below an absolute one.\<close>

definition step_into :: "path \<Rightarrow> string \<Rightarrow> path" where
  "step_into p c = (if c = [] \<or> c = ''.'' then p else if c = ''..'' then butlast p else p @ [c])"

fun split_slash :: "string \<Rightarrow> string list" where
  "split_slash [] = [[]]"
| "split_slash (c # cs) = (if c = CHR ''/'' then [] # split_slash cs else (case split_slash cs of [] \<Rightarrow> [[c]] | s # ss \<Rightarrow> (c # s) # ss))"

definition join_path :: "path \<Rightarrow> string \<Rightarrow> path" where
  "join_path dir rest = fold (\<lambda>c p. step_into p c) (split_slash rest) (if prefix ''/'' rest then [] else dir)"

definition resolve_local_media_path :: "media_settings \<Rightarrow> string \<Rightarrow> path option" where
  "resolve_local_media_path cfg file_url =
     (let base_url = rstrip_slash (MEDIA_BASE_URL cfg) @ ''/''
      in if \<not> prefix base_url file_url then None
         else
           (let candidate_path = join_path (MEDIA_ROOT cfg) (drop (length base_url) file_url)
            in if \<not> prefix (MEDIA_ROOT cfg) candidate_path then None else Some candidate_path))"

definition local_save :: "media_settings \<Rightarrow> bool \<Rightarrow> uuid \<Rightarrow> string \<Rightarrow> utext \<Rightarrow> nat list \<Rightarrow> disk \<Rightarrow> string option \<times> disk" where
  "local_save cfg works candidate_id new_hex filename content d =
     (let object_key = build_object_key candidate_id new_hex filename
      in if \<not> works then (None, d)
         else (Some (rstrip_slash (MEDIA_BASE_URL cfg) @ ''/resumes/'' @ object_key),
               d(join_path (MEDIA_ROOT cfg @ [''resumes'']) object_key \<mapsto> content)))"

definition local_delete :: "media_settings \<Rightarrow> bool \<Rightarrow> string \<Rightarrow> disk \<Rightarrow> bool option \<times> disk" where
  "local_delete cfg works file_url d =
     (case resolve_local_media_path cfg file_url of
        None \<Rightarrow> (Some False, d)
      | Some path \<Rightarrow> if d path = None then (Some False, d) else if \<not> works then (None, d) else (Some True, d(path := None)))"

definition LocalStorageBackend :: "media_settings \<Rightarrow> bool \<Rightarrow> disk storage_backend" where
  "LocalStorageBackend cfg works = \<lparr>sb_save = local_save cfg works, sb_delete = local_delete cfg works\<rparr>"

section \<open>Object storage\<close>

type_synonym bucket = "string \<Rightarrow> nat list option"

record s3_settings =
  S3_BUCKET_NAME :: string
  S3_ENDPOINT_URL :: string
  S3_REGION :: string
  S3_PUBLIC_BASE_URL :: string

definition aws_base :: "s3_settings \<Rightarrow> string" where
  "aws_base cfg = ''https://'' @ S3_BUCKET_NAME cfg @ ''.s3.'' @ S3_REGION cfg @ ''.amazonaws.com''"

definition build_public_url :: "s3_settings \<Rightarrow> string \<Rightarrow> string" where
  "build_public_url cfg object_key =
     (if S3_PUBLIC_BASE_URL cfg \<noteq> [] then rstrip_slash (S3_PUBLIC_BASE_URL cfg) @ ''/'' @ object_key
      else if S3_ENDPOINT_URL cfg \<noteq> [] then rstrip_slash (S3_ENDPOINT_URL cfg) @ ''/'' @ S3_BUCKET_NAME cfg @ ''/'' @ object_key
      else aws_base cfg @ ''/'' @ object_key)"

fun first_key :: "string list \<Rightarrow> string \<Rightarrow> string option" where
  "first_key [] file_url = None"
| "first_key (p # ps) file_url =
     (let pre = rstrip_slash p @ ''/''
      in if prefix pre file_url \<and> length pre < length file_url then Some (drop (length pre) file_url) else first_key ps file_url)"

definition object_key_from_url :: "s3_settings \<Rightarrow> string \<Rightarrow> string option" where
  "object_key_from_url cfg file_url =
     (let prefixes = [S3_PUBLIC_BASE_URL cfg,
            if S3_ENDPOINT_URL cfg \<noteq> [] then rstrip_slash (S3_ENDPOINT_URL cfg) @ ''/'' @ S3_BUCKET_NAME cfg else [], aws_base cfg]
      in first_key (filter (\<lambda>p. p \<noteq> []) prefixes) file_url)"

definition s3_save :: "s3_settings \<Rightarrow> bool \<Rightarrow> uuid \<Rightarrow> string \<Rightarrow> utext \<Rightarrow> nat list \<Rightarrow> bucket \<Rightarrow> string option \<times> bucket" where
  "s3_save cfg works candidate_id new_hex filename content b =
     (let object_key = build_object_key candidate_id new_hex filename
      in if \<not> works then (None, b) else (Some (build_public_url cfg object_key), b(object_key \<mapsto> content)))"

definition s3_delete :: "s3_settings \<Rightarrow> bool \<Rightarrow> string \<Rightarrow> bucket \<Rightarrow> bool option \<times> bucket" where
  "s3_delete cfg works file_url b =
     (case object_key_from_url cfg file_url of
        None \<Rightarrow> (Some False, b)
      | Some object_key \<Rightarrow> if \<not> works then (None, b) else (Some True, b(object_key := None)))"

definition S3StorageBackend :: "s3_settings \<Rightarrow> bool \<Rightarrow> bucket storage_backend" where
  "S3StorageBackend cfg works = \<lparr>sb_save = s3_save cfg works, sb_delete = s3_delete cfg works\<rparr>"

section \<open>What is saved can be deleted\<close>

text \<open>The contract of a backend: under a key that is not taken, a saved file is found by its URL and deleted.\<close>

locale file_store =
  fixes B :: "'f storage_backend" and vacant :: "uuid \<Rightarrow> string \<Rightarrow> utext \<Rightarrow> 'f \<Rightarrow> bool"
  assumes delete_undoes_save:
    "sb_save B candidate_id new_hex filename content f = (Some url, f') \<Longrightarrow> CHR ''/'' \<notin> set new_hex
      \<Longrightarrow> vacant candidate_id new_hex filename f \<Longrightarrow> sb_delete B url f' = (Some True, f)"

lemma drop_prefix [simp]: "drop (length p) (p @ s) = s" by simp

lemma safe_filename_no_slash: "CHR ''/'' \<notin> set (safe_filename s)"
proof (induction s rule: safe_filename.induct)
  case (2 c cs)
  have "char_of c \<noteq> CHR ''/''" if "safe_char c"
  proof
    assume "char_of c = CHR ''/''"
    then have "(of_char (char_of c) :: nat) = 47" by simp
    with that show False by (auto simp: safe_char_def)
  qed
  with 2 show ?case by auto
qed simp

lemma build_object_key_nonempty: "build_object_key c h f \<noteq> []"
  by (simp add: build_object_key_def Let_def)

lemma rstrip_slash_id: "s = [] \<or> last s \<noteq> CHR ''/'' \<Longrightarrow> rstrip_slash s = s"
  by (cases s rule: rev_cases) (simp_all add: rstrip_slash_def)

lemma key_of_public_url:
  assumes "S3_BUCKET_NAME cfg \<noteq> []" and "CHR ''/'' \<notin> set (S3_BUCKET_NAME cfg)" and "k \<noteq> []"
  shows "object_key_from_url cfg (build_public_url cfg k) = Some k"
proof -
  have "last (S3_BUCKET_NAME cfg) \<noteq> CHR ''/''" using assms(1,2) by (metis last_in_set)
  then have b: "rstrip_slash (p @ ''/'' @ S3_BUCKET_NAME cfg) = p @ ''/'' @ S3_BUCKET_NAME cfg" for p
    using assms(1) by (intro rstrip_slash_id) simp
  have a: "rstrip_slash (aws_base cfg) = aws_base cfg" by (rule rstrip_slash_id) (simp add: aws_base_def)
  have "aws_base cfg \<noteq> []" by (simp add: aws_base_def)
  consider "S3_PUBLIC_BASE_URL cfg \<noteq> []" | "S3_PUBLIC_BASE_URL cfg = []" "S3_ENDPOINT_URL cfg \<noteq> []"
    | "S3_PUBLIC_BASE_URL cfg = []" "S3_ENDPOINT_URL cfg = []" by auto
  then show ?thesis
    using assms(3) \<open>aws_base cfg \<noteq> []\<close> a b [of "rstrip_slash (S3_ENDPOINT_URL cfg)"]
    by cases (simp_all add: object_key_from_url_def build_public_url_def Let_def)
qed

interpretation s3: file_store "S3StorageBackend cfg True"
  "\<lambda>c h f b. S3_BUCKET_NAME cfg \<noteq> [] \<and> CHR ''/'' \<notin> set (S3_BUCKET_NAME cfg) \<and> b (build_object_key c h f) = None"
  using key_of_public_url build_object_key_nonempty
  by unfold_locales (auto simp: S3StorageBackend_def s3_save_def s3_delete_def Let_def fun_upd_idem)

text \<open>On the disk, the path under which a file is written is the path that its URL names.\<close>

lemma split_slash_append: "CHR ''/'' \<notin> set a \<Longrightarrow> split_slash (a @ CHR ''/'' # r) = a # split_slash r"
  by (induction a) auto

lemma split_slash_single: "CHR ''/'' \<notin> set a \<Longrightarrow> split_slash a = [a]"
  by (induction a) auto

lemma str_of_uuid_component: "CHR ''/'' \<notin> set (str_of_uuid u)" "step_into p (str_of_uuid u) = p @ [str_of_uuid u]"
proof -
  show "CHR ''/'' \<notin> set (str_of_uuid u)"
    using str_of_uuid_chars [of "CHR ''/''" u] by (auto simp: hex_val_def)
  have "length (str_of_uuid u) = 36" by (simp add: str_of_uuid_def Let_def)
  then show "step_into p (str_of_uuid u) = p @ [str_of_uuid u]" by (auto simp: step_into_def)
qed

lemma object_key_path:
  assumes "CHR ''/'' \<notin> set h"
  shows "join_path dir (build_object_key c h f) = dir @ split_slash (build_object_key c h f)"
    "join_path dir (''resumes/'' @ build_object_key c h f) = dir @ ''resumes'' # split_slash (build_object_key c h f)"
proof -
  define n where "n = h @ ''_'' @ (if safe_filename f = [] then ''resume'' else safe_filename f)"
  have key: "build_object_key c h f = str_of_uuid c @ CHR ''/'' # n" by (simp add: build_object_key_def n_def Let_def)
  have n: "CHR ''/'' \<notin> set n" using assms safe_filename_no_slash by (auto simp: n_def)
  have "CHR ''_'' \<in> set n" by (simp add: n_def)
  then have step: "step_into p n = p @ [n]" for p by (auto simp: step_into_def)
  have split: "split_slash (build_object_key c h f) = [str_of_uuid c, n]"
    by (simp add: key split_slash_append split_slash_single str_of_uuid_component n)
  have "\<not> prefix ''/'' (build_object_key c h f)"
    using str_of_uuid_component(1) [of c] by (cases "str_of_uuid c") (auto simp: key)
  then show "join_path dir (build_object_key c h f) = dir @ split_slash (build_object_key c h f)"
    by (simp add: join_path_def split str_of_uuid_component step)
  have "split_slash (''resumes/'' @ build_object_key c h f) = ''resumes'' # split_slash (build_object_key c h f)"
    using split_slash_append [of "''resumes''"] by simp
  then show "join_path dir (''resumes/'' @ build_object_key c h f) = dir @ ''resumes'' # split_slash (build_object_key c h f)"
    by (simp add: join_path_def split str_of_uuid_component step step_into_def [of _ "''resumes''"])
qed

interpretation local_disk: file_store "LocalStorageBackend cfg True"
  "\<lambda>c h f d. d (join_path (MEDIA_ROOT cfg @ [''resumes'']) (build_object_key c h f)) = None"
proof unfold_locales
  fix c h f content d url d'
  assume a: "sb_save (LocalStorageBackend cfg True) c h f content d = (Some url, d')" and h: "CHR ''/'' \<notin> set h"
    and v: "d (join_path (MEDIA_ROOT cfg @ [''resumes'']) (build_object_key c h f)) = None"
  let ?p = "join_path (MEDIA_ROOT cfg @ [''resumes'']) (build_object_key c h f)"
  have url: "url = (rstrip_slash (MEDIA_BASE_URL cfg) @ ''/'') @ ''resumes/'' @ build_object_key c h f" and d': "d' = d(?p \<mapsto> content)"
    using a by (auto simp: LocalStorageBackend_def local_save_def Let_def)
  have "join_path (MEDIA_ROOT cfg) (''resumes/'' @ build_object_key c h f) = ?p"
    unfolding object_key_path [OF h] by simp
  then have "resolve_local_media_path cfg url = Some ?p"
    unfolding url resolve_local_media_path_def Let_def drop_prefix by (simp add: object_key_path [OF h])
  then show "sb_delete (LocalStorageBackend cfg True) url d' = (Some True, d)"
    using v by (simp add: LocalStorageBackend_def local_delete_def d' fun_upd_idem)
qed

text \<open>Whatever the URL, the disk backend names no path outside of its directory.\<close>

lemma resolved_path_inside: "resolve_local_media_path cfg url = Some p \<Longrightarrow> prefix (MEDIA_ROOT cfg) p"
  by (auto simp: resolve_local_media_path_def Let_def split: if_splits)

end
