(* ===== verification/Privacy.thy ===== *)
theory Privacy
  imports Auth Search Storage
begin

text \<open>
  The candidate's own account: the profile endpoints of app/routers/candidates.py and the right to be
  forgotten (app/core/privacy.py). Deleting an account keeps every row that the hiring statistics count, and replaces the
  personal data in it. Random values (new key, name, address and password) are arguments.
\<close>

section \<open>The profile\<close>

record profile_update =
  pu_first_name :: "utext option option"
  pu_last_name :: "utext option option"
  pu_phone :: "utext option option"
  pu_location :: "utext option option"
  pu_skills :: "utext list option option"

text \<open>A field that was not sent is None; one that was sent as null is \<open>Some None\<close>.\<close>

definition CandidateProfileUpdateRequest :: "unicode \<Rightarrow> profile_update \<Rightarrow> exc + profile_update" where
  "CandidateProfileUpdateRequest U raw =
     (let text = map_option (map_option (strip_html_tags U));
          sized = (\<lambda>lo hi f. case f of Some (Some t) \<Rightarrow> lo \<le> length t \<and> length t \<le> (hi :: nat) | _ \<Rightarrow> True);
          p = \<lparr>pu_first_name = text (pu_first_name raw), pu_last_name = text (pu_last_name raw), pu_phone = text (pu_phone raw),
                pu_location = text (pu_location raw), pu_skills = map_option (map_option (map (strip_html_tags U))) (pu_skills raw)\<rparr>
      in if sized 1 100 (pu_first_name p) \<and> sized 1 100 (pu_last_name p) \<and> sized 0 20 (pu_phone p) \<and> sized 0 100 (pu_location p)
         then Inr p else Inl (HTTPException 422 Validation_Error))"

record CandidateProfileResponse =
  pr_id :: uuid
  pr_email :: utext
  pr_first_name :: utext
  pr_last_name :: utext
  pr_phone :: "utext option"
  pr_location :: "utext option"
  pr_skills :: "utext list"

definition profile_response :: "user \<Rightarrow> candidate \<Rightarrow> CandidateProfileResponse" where
  "profile_response current_user c = \<lparr>pr_id = c_id c, pr_email = u_email current_user, pr_first_name = c_first_name c,
     pr_last_name = c_last_name c, pr_phone = c_phone c, pr_location = c_location c,
     pr_skills = (case c_skills c of None \<Rightarrow> [] | Some s \<Rightarrow> s)\<rparr>"

definition get_my_profile :: "TenantContext \<Rightarrow> user \<Rightarrow> uuid \<Rightarrow> db \<Rightarrow> (exc + CandidateProfileResponse) \<times> db" where
  "get_my_profile ctx current_user new_id d =
     (case require_roles [''Candidate''] current_user of
        Inl e \<Rightarrow> (Inl e, d)
      | Inr _ \<Rightarrow>
          (case get_or_create_candidate_profile ctx current_user new_id d of
             (Inl e, d1) \<Rightarrow> (Inl e, d1)
           | (Inr candidate, d1) \<Rightarrow> (Inr (profile_response current_user candidate), d1)))"

text \<open>The names are NOT NULL columns: a null that was sent for one of them ends the commit.\<close>

definition apply_profile :: "profile_update \<Rightarrow> candidate \<Rightarrow> exc + candidate" where
  "apply_profile p c =
     (if pu_first_name p = Some None \<or> pu_last_name p = Some None then Inl IntegrityError
      else Inr (c\<lparr>c_first_name := (case pu_first_name p of Some (Some v) \<Rightarrow> v | _ \<Rightarrow> c_first_name c),
             c_last_name := (case pu_last_name p of Some (Some v) \<Rightarrow> v | _ \<Rightarrow> c_last_name c),
             c_phone := (case pu_phone p of Some v \<Rightarrow> v | None \<Rightarrow> c_phone c),
             c_location := (case pu_location p of Some v \<Rightarrow> v | None \<Rightarrow> c_location c),
             c_skills := (case pu_skills p of Some v \<Rightarrow> v | None \<Rightarrow> c_skills c)\<rparr>))"

definition update_my_profile ::
  "TenantContext \<Rightarrow> user \<Rightarrow> uuid \<Rightarrow> profile_update \<Rightarrow> db \<Rightarrow> (exc + CandidateProfileResponse) \<times> db" where
  "update_my_profile ctx current_user new_id payload d =
     (case require_roles [''Candidate''] current_user of
        Inl e \<Rightarrow> (Inl e, d)
      | Inr _ \<Rightarrow>
     (case get_or_create_candidate_profile ctx current_user new_id d of
        (Inl e, d1) \<Rightarrow> (Inl e, d1)
      | (Inr candidate, d1) \<Rightarrow>
     (case apply_profile payload candidate of
        Inl e \<Rightarrow> (Inl e, d1)
      | Inr changed \<Rightarrow>
          (let s = context_parameters ctx
           in if changed = candidate then (Inr (profile_response current_user candidate), d1)
              else case rls_update s (candidates_policies s d1) c_id (c_id candidate) (\<lambda>_. changed) (candidates d1) of
                Inl e \<Rightarrow> (Inl e, d1)
              | Inr cs \<Rightarrow> (Inr (profile_response current_user changed), d1\<lparr>candidates := cs\<rparr>)))))"

section \<open>The right to be forgotten\<close>

text \<open>The first name of an anonymised candidate (a Persian text) as its code points.\<close>

definition ANONYMIZED_FIRST_NAME :: utext where
  "ANONYMIZED_FIRST_NAME = [1705, 1575, 1585, 1576, 1585, 32, 1581, 1584, 1601, 8204, 1588, 1583, 1607]"

definition ANONYMIZED_EMAIL_DOMAIN :: string where "ANONYMIZED_EMAIL_DOMAIN = ''anonymized.invalid''"
definition DELETED_FILE_URL_PREFIX :: string where "DELETED_FILE_URL_PREFIX = ''deleted:''"

text \<open>The truth value of a JSON value.\<close>

fun json_truthy :: "json \<Rightarrow> bool" where
  "json_truthy JNull = False"
| "json_truthy (JBool b) = b"
| "json_truthy (JInt i) = (i \<noteq> 0)"
| "json_truthy (JFloat q) = (q \<noteq> 0)"
| "json_truthy (JStr s) = (s \<noteq> [])"
| "json_truthy (JArr xs) = (xs \<noteq> [])"
| "json_truthy (JObj kvs) = (kvs \<noteq> [])"

definition anonymous_skill_analysis :: "json option \<Rightarrow> exc + json option" where
  "anonymous_skill_analysis analysis =
     (case analysis of
        None \<Rightarrow> Inr None
      | Some j \<Rightarrow>
          if \<not> json_truthy j then Inr None
          else (case j of
            JObj kvs \<Rightarrow>
              (let get = (\<lambda>k. case map_of kvs k of None \<Rightarrow> JNull | Some v \<Rightarrow> v)
               in Inr (Some (JObj [(''skills'', if json_truthy (get ''skills'') then get ''skills'' else JArr []),
                    (''total_experience_years'', get ''total_experience_years'')])))
          | _ \<Rightarrow> Inl Uncaught))"

text \<open>The listener of the model class: a new text renews the blind index.\<close>

definition set_raw_text :: "(utext \<Rightarrow> string) \<Rightarrow> unicode \<Rightarrow> utext option \<Rightarrow> resume \<Rightarrow> resume" where
  "set_raw_text hmac U value r = r\<lparr>r_raw_text := value, r_search_tokens := blind_index_tokens hmac U value\<rparr>"

definition clear_resume :: "(utext \<Rightarrow> string) \<Rightarrow> unicode \<Rightarrow> resume \<Rightarrow> exc + resume" where
  "clear_resume hmac U r =
     (case anonymous_skill_analysis (r_skill_analysis r) of
        Inl e \<Rightarrow> Inl e
      | Inr analysis \<Rightarrow>
          Inr ((set_raw_text hmac U None (r\<lparr>r_file_url := DELETED_FILE_URL_PREFIX @ str_of_uuid (r_id r)\<rparr>))
            \<lparr>r_parsed_data := None, r_skill_analysis := analysis\<rparr>))"

record AnonymizationResult =
  ar_resumes_cleared :: nat
  ar_files_deleted :: nat

text \<open>The files, one by one: a failure is logged and does not stop the rest.\<close>

fun delete_files :: "'f storage_backend \<Rightarrow> string list \<Rightarrow> 'f \<Rightarrow> nat \<times> 'f" where
  "delete_files B [] f = (0, f)"
| "delete_files B (url # urls) f =
     (case sb_delete B url f of
        (outcome, f1) \<Rightarrow> (case delete_files B urls f1 of (n, f2) \<Rightarrow> ((if outcome = Some True then n + 1 else n), f2)))"

text \<open>
  The change of the database, in one transaction of the system scope: the files to delete, the number of
  resumes, and the new database.
\<close>

definition anonymize_rows ::
  "(utext \<Rightarrow> string) \<Rightarrow> unicode \<Rightarrow> time \<Rightarrow> string \<Rightarrow> string \<Rightarrow> string \<Rightarrow> uuid \<Rightarrow> db \<Rightarrow> exc + string list \<times> nat \<times> db" where
  "anonymize_rows hmac U now name_hex email_hex new_hash user_id d =
     (case scalar_one_or_none (filter (\<lambda>c. c_user_id c = user_id) (candidates d)) of
        Inl e \<Rightarrow> Inl e
      | Inr found \<Rightarrow>
     (let resumes_of = (case found of None \<Rightarrow> [] | Some c \<Rightarrow> filter (\<lambda>r. r_candidate_id r = c_id c) (resumes d));
          file_urls = filter (\<lambda>u. \<not> prefix DELETED_FILE_URL_PREFIX u) (map r_file_url resumes_of)
      in case collect (map (clear_resume hmac U) resumes_of) of
           Inl e \<Rightarrow> Inl e
         | Inr cleared \<Rightarrow>
             if user_id \<notin> set (map u_id (users d)) then Inl Uncaught
             else Inr (file_urls, length resumes_of,
               d\<lparr>resumes := map (\<lambda>r. case find (\<lambda>r'. r_id r' = r_id r) cleared of Some r' \<Rightarrow> r' | None \<Rightarrow> r) (resumes d),
                 candidates := (case found of
                     None \<Rightarrow> candidates d
                   | Some c \<Rightarrow> update_where (\<lambda>x. c_id x = c_id c)
                       (\<lambda>x. x\<lparr>c_first_name := ANONYMIZED_FIRST_NAME, c_last_name := utext_of (''#'' @ name_hex),
                          c_phone := None, c_location := None, c_skills := None\<rparr>) (candidates d)),
                 users := update_where (\<lambda>u. u_id u = user_id)
                   (\<lambda>u. u\<lparr>u_email := utext_of (''deleted-'' @ email_hex @ ''@'' @ ANONYMIZED_EMAIL_DOMAIN), u_password_hash := new_hash,
                      u_is_active := False, u_anonymized_at := Some now\<rparr>) (users d)\<rparr>)))"

definition anonymize_candidate_account ::
  "'s sserver \<Rightarrow> 'f storage_backend \<Rightarrow> (utext \<Rightarrow> string) \<Rightarrow> unicode \<Rightarrow> time \<Rightarrow> string \<Rightarrow> string \<Rightarrow> string \<Rightarrow> user \<Rightarrow> 's world \<Rightarrow> 'f \<Rightarrow>
   (exc + AnonymizationResult) \<times> 's world \<times> 'f" where
  "anonymize_candidate_account run B hmac U now name_hex email_hex new_hash user w f =
     (case anonymize_rows hmac U now name_hex email_hex new_hash (u_id user) (w_db w) of
        Inl e \<Rightarrow> (Inl e, w, f)
      | Inr (file_urls, n, d') \<Rightarrow>
          (let user_id = utext_of (str_of_uuid (u_id user));
               s1 = (case revoke_all_sessions run now user_id (w_store w) of
                       (Inl _, s) \<Rightarrow> s
                     | (Inr _, s) \<Rightarrow> snd (run now [DEL [known_key user_id, history_key user_id]] s));
               s2 = delete_cached run now (session_cache_key (u_id user)) s1;
               (files_deleted, f') = delete_files B file_urls f
           in (Inr \<lparr>ar_resumes_cleared = n, ar_files_deleted = files_deleted\<rparr>, w\<lparr>w_db := d', w_store := s2\<rparr>, f')))"

definition delete_my_account ::
  "'s sserver \<Rightarrow> 'f storage_backend \<Rightarrow> (utext \<Rightarrow> string) \<Rightarrow> unicode \<Rightarrow> time \<Rightarrow> string \<Rightarrow> string \<Rightarrow> string \<Rightarrow> user \<Rightarrow> 's world \<Rightarrow> 'f \<Rightarrow>
   (exc + AnonymizationResult) \<times> 's world \<times> 'f" where
  "delete_my_account run B hmac U now name_hex email_hex new_hash current_user w f =
     (case require_roles [''Candidate''] current_user of
        Inl e \<Rightarrow> (Inl e, w, f)
      | Inr _ \<Rightarrow> anonymize_candidate_account run B hmac U now name_hex email_hex new_hash current_user w f)"

end
