(* ===== verification/Privacy_Properties.thy ===== *)
theory Privacy_Properties
  imports Privacy Auth_Properties Analytics
begin

text \<open>
  What deleting an account leaves: the hiring statistics as they were, and of the candidate's data only what the
  statistics need, with one exception (the analysis that the agents wrote). What a file backend stores under a
  URL is gone after the deletion of that URL (the client of the locale \<open>file_store\<close>).
\<close>

context file_store begin

lemma uploaded_file_deleted:
  assumes "sb_save B candidate_id new_hex filename content f = (Some url, f')" and "CHR ''/'' \<notin> set new_hex"
    and "vacant candidate_id new_hex filename f"
  shows "delete_files B [url] f' = (1, f)"
  by (simp add: delete_undoes_save [OF assms])

end

lemma anonymize_rows_Inr:
  assumes "anonymize_rows hmac U now h1 h2 h3 uid d = Inr (urls, n, d')"
  obtains (none) "filter (\<lambda>c. c_user_id c = uid) (candidates d) = []" "resumes d' = resumes d" "candidates d' = candidates d"
      "users d' = update_where (\<lambda>u. u_id u = uid) (\<lambda>u. u\<lparr>u_email := utext_of (''deleted-'' @ h2 @ ''@'' @ ANONYMIZED_EMAIL_DOMAIN),
          u_password_hash := h3, u_is_active := False, u_anonymized_at := Some now\<rparr>) (users d)"
  | (one) c cleared where "filter (\<lambda>c. c_user_id c = uid) (candidates d) = [c]"
      "map (clear_resume hmac U) (filter (\<lambda>r. r_candidate_id r = c_id c) (resumes d)) = map Inr cleared"
      "resumes d' = map (\<lambda>r. case find (\<lambda>r'. r_id r' = r_id r) cleared of Some r' \<Rightarrow> r' | None \<Rightarrow> r) (resumes d)"
      "candidates d' = update_where (\<lambda>x. c_id x = c_id c)
         (\<lambda>x. x\<lparr>c_first_name := ANONYMIZED_FIRST_NAME, c_last_name := utext_of (''#'' @ h1), c_phone := None, c_location := None, c_skills := None\<rparr>)
         (candidates d)"
      "users d' = update_where (\<lambda>u. u_id u = uid) (\<lambda>u. u\<lparr>u_email := utext_of (''deleted-'' @ h2 @ ''@'' @ ANONYMIZED_EMAIL_DOMAIN),
          u_password_hash := h3, u_is_active := False, u_anonymized_at := Some now\<rparr>) (users d)"
proof (cases "filter (\<lambda>c. c_user_id c = uid) (candidates d)")
  case Nil
  with assms show thesis by (intro none) (auto simp: anonymize_rows_def Let_def split: if_splits)
next
  case (Cons c cs)
  with assms have "cs = []" by (cases cs) (auto simp: anonymize_rows_def Let_def)
  from assms obtain cleared where "collect (map (clear_resume hmac U) (filter (\<lambda>r. r_candidate_id r = c_id c) (resumes d))) = Inr cleared"
    by (auto simp: anonymize_rows_def Let_def Cons \<open>cs = []\<close> split: sum.splits)
  with assms Cons \<open>cs = []\<close> show thesis
    by (intro one [of c cleared]) (auto simp: anonymize_rows_def Let_def collect_Inr split: if_splits)
qed

text \<open>What is left of the analysis of the parser: the skills and the years, and no job, employer, school or date.\<close>

definition only_skills_and_years :: "json option \<Rightarrow> json option \<Rightarrow> bool" where
  "only_skills_and_years old new \<longleftrightarrow>
     (if \<exists>j. old = Some j \<and> json_truthy j
      then \<exists>kvs skills. old = Some (JObj kvs)
        \<and> new = Some (JObj [(''skills'', skills),
            (''total_experience_years'', case map_of kvs ''total_experience_years'' of Some y \<Rightarrow> y | None \<Rightarrow> JNull)])
        \<and> (skills = JArr [] \<or> map_of kvs ''skills'' = Some skills)
      else new = None)"

lemma anonymous_skill_analysis_kept: "anonymous_skill_analysis old = Inr new \<Longrightarrow> only_skills_and_years old new"
  by (auto simp: anonymous_skill_analysis_def only_skills_and_years_def Let_def split: option.splits if_splits json.splits)

lemma clear_resume_Inr:
  assumes "clear_resume hmac U r = Inr r'"
  shows "r_id r' = r_id r" "r_candidate_id r' = r_candidate_id r" "r_raw_text r' = None" "r_search_tokens r' = None" "r_parsed_data r' = None"
    "r_file_url r' = ''deleted:'' @ str_of_uuid (r_id r)" "r_agent_analysis r' = r_agent_analysis r"
    "only_skills_and_years (r_skill_analysis r) (r_skill_analysis r')"
  using assms by (auto simp: anonymous_skill_analysis_kept clear_resume_def set_raw_text_def blind_index_tokens_def DELETED_FILE_URL_PREFIX_def split: sum.splits)

lemma cleared_lookup:
  assumes ids: "distinct (map r_id rs)" and cleared: "map (clear_resume hmac U) (filter P rs) = map Inr cleared" and r: "r \<in> set rs"
  shows "(\<exists>r'. find (\<lambda>r'. r_id r' = r_id r) cleared = Some r' \<and> P r \<and> clear_resume hmac U r = Inr r')
    \<or> find (\<lambda>r'. r_id r' = r_id r) cleared = None \<and> \<not> P r"
proof -
  have sets: "clear_resume hmac U ` set (filter P rs) = Inr ` set cleared" using arg_cong [OF cleared, of set] by (simp only: set_map)
  have source: "\<exists>q \<in> set rs. P q \<and> clear_resume hmac U q = Inr r'" if "r' \<in> set cleared" for r'
  proof -
    have "Inr r' \<in> clear_resume hmac U ` set (filter P rs)" unfolding sets using that by (rule imageI)
    then obtain q where "Inr r' = clear_resume hmac U q" "q \<in> set (filter P rs)" by (rule imageE)
    then show ?thesis by (intro bexI [of _ q]) simp_all
  qed
  have target: "\<exists>r' \<in> set cleared. clear_resume hmac U r = Inr r'" if "P r"
  proof -
    have "clear_resume hmac U r \<in> Inr ` set cleared" unfolding sets [symmetric] using that r by (intro imageI) simp
    then show ?thesis by (auto elim: imageE)
  qed
  show ?thesis
  proof (cases "find (\<lambda>r'. r_id r' = r_id r) cleared")
    case None
    then have "\<not> P r" using target clear_resume_Inr(1) [of hmac U r] by (auto simp: find_None_iff)
    with None show ?thesis by simp
  next
    case (Some r')
    then obtain q where q: "q \<in> set rs" "P q" "clear_resume hmac U q = Inr r'" "r_id r' = r_id r" using source find_member [OF Some] by blast
    then have "q = r" using clear_resume_Inr(1) [OF q(3)] ids r by (auto simp: distinct_map inj_on_def)
    with q Some show ?thesis by auto
  qed
qed

text \<open>The two statistics read only the adverts, the applications and the status histories.\<close>

lemma statistics_read:
  assumes "t < 2 ^ 128" and "jobs d' = jobs d" "applications d' = applications d" "histories d' = histories d"
  shows "get_recruitment_funnel (tenant_context t x) v j d' = get_recruitment_funnel (tenant_context t x) v j d"
    "get_applications_trend (tenant_context t x) v now days j d' = get_applications_trend (tenant_context t x) v now days j d"
proof -
  have s: "select_jobs (tenant_context t x) d' = select_jobs (tenant_context t x) d"
    "select_applications (tenant_context t x) d' = select_applications (tenant_context t x) d"
    "select_histories (tenant_context t x) d' = select_histories (tenant_context t x) d"
    using assms by (simp_all add: select_jobs_tenant select_applications_tenant select_histories_tenant)
  have c: "check_job (tenant_context t x) d' j = check_job (tenant_context t x) d j"
    by (simp add: check_job_def ensure_job_exists_def s split: option.splits)
  show "get_recruitment_funnel (tenant_context t x) v j d' = get_recruitment_funnel (tenant_context t x) v j d"
    unfolding get_recruitment_funnel_def c stage_count_def funnel_rows_def s by (rule refl)
  show "get_applications_trend (tenant_context t x) v now days j d' = get_applications_trend (tenant_context t x) v now days j d"
    unfolding get_applications_trend_def c s by (rule refl)
qed

lemma deleted_account_rows:
  assumes "delete_my_account run B hmac U now h1 h2 h3 u w f = (Inr res, w', f')"
  obtains urls n where "anonymize_rows hmac U now h1 h2 h3 (u_id u) (w_db w) = Inr (urls, n, w_db w')"
  using assms
  by (auto simp: delete_my_account_def anonymize_candidate_account_def Let_def split: sum.splits prod.splits intro: that)

lemma anonymized_kept:
  assumes "anonymize_rows hmac U now h1 h2 h3 uid d = Inr (urls, n, d')"
  shows "jobs d' = jobs d" "applications d' = applications d" "histories d' = histories d"
  using assms by (auto simp: anonymize_rows_def Let_def split: sum.splits if_splits)

lemma anonymized_users:
  assumes "anonymize_rows hmac U now h1 h2 h3 uid d = Inr (urls, n, d')"
  shows "list_all2 (\<lambda>v v'. if u_id v = uid then u_email v' = utext_of (''deleted-'' @ h2 @ ''@anonymized.invalid'') \<and> \<not> u_is_active v' else v' = v)
    (users d) (users d')"
proof -
  have "users d' = update_where (\<lambda>u. u_id u = uid) (\<lambda>u. u\<lparr>u_email := utext_of (''deleted-'' @ h2 @ ''@'' @ ANONYMIZED_EMAIL_DOMAIN),
      u_password_hash := h3, u_is_active := False, u_anonymized_at := Some now\<rparr>) (users d)"
    by (rule anonymize_rows_Inr [OF assms])
  then show ?thesis by (simp add: update_where_def ANONYMIZED_EMAIL_DOMAIN_def list_all2_map2 list_all2_same)
qed

lemma anonymized_candidates:
  assumes "anonymize_rows hmac U now h1 h2 h3 uid d = Inr (urls, n, d')" and "distinct (map c_id (candidates d))"
  shows "list_all2 (\<lambda>c c'. if c_user_id c = uid
      then c_first_name c' = ANONYMIZED_FIRST_NAME \<and> c_last_name c' = utext_of (''#'' @ h1) \<and> c_phone c' = None \<and> c_location c' = None \<and> c_skills c' = None
      else c' = c) (candidates d) (candidates d')"
  using assms(1)
proof (cases rule: anonymize_rows_Inr)
  case none
  then show ?thesis by (simp add: filter_empty_conv list_all2_same)
next
  case (one c cleared)
  have c: "c \<in> set (candidates d)" "c_user_id c = uid" using arg_cong [OF one(1), of set] by auto
  have same: "c_id x = c_id c \<longleftrightarrow> c_user_id x = uid" if "x \<in> set (candidates d)" for x
  proof
    assume "c_id x = c_id c"
    then show "c_user_id x = uid" using assms(2) c that by (auto simp: distinct_map inj_on_def)
  next
    assume "c_user_id x = uid"
    then have "x \<in> set (filter (\<lambda>c. c_user_id c = uid) (candidates d))" using that by simp
    then show "c_id x = c_id c" unfolding one(1) by simp
  qed
  then show ?thesis unfolding one(4) by (simp add: update_where_def list_all2_map2 list_all2_same)
qed

lemma anonymized_resumes:
  assumes "anonymize_rows hmac U now h1 h2 h3 uid d = Inr (urls, n, d')" and "distinct (map r_id (resumes d))"
  shows "list_all2 (\<lambda>r r'. if \<exists>c \<in> set (candidates d). c_user_id c = uid \<and> c_id c = r_candidate_id r
      then r_raw_text r' = None \<and> r_search_tokens r' = None \<and> r_parsed_data r' = None \<and> r_file_url r' = ''deleted:'' @ str_of_uuid (r_id r)
        \<and> only_skills_and_years (r_skill_analysis r) (r_skill_analysis r') \<and> r_agent_analysis r' = r_agent_analysis r
      else r' = r) (resumes d) (resumes d')"
  using assms(1)
proof (cases rule: anonymize_rows_Inr)
  case none
  then show ?thesis by (simp add: filter_empty_conv list_all2_same)
next
  case (one c cleared)
  have "(\<exists>x \<in> set (candidates d). c_user_id x = uid \<and> c_id x = i) \<longleftrightarrow> i = c_id c" for i
    using arg_cong [OF one(1), of set] by auto
  then show ?thesis
    unfolding one(3) list_all2_map2
    using cleared_lookup [OF assms(2) one(2)] clear_resume_Inr
    by (fastforce simp: list_all2_same)
qed

section \<open>Properties\<close>

text \<open>
  C19. Deleting an account forgets the person and keeps the numbers. After it, the funnel and the trend of every
  tenant are what they were; the candidate's name, phone, address and skills and the account's address are replaced
  and the account is inactive; of every resume of the candidate the text, the search index, the extracted data and the file
  address are gone, and of the parser's analysis, with its jobs, employers, schools and dates, only the skills and the number of years
  are left; all other accounts, candidates and resumes are as they were. But the analysis that the agents wrote about a
  resume, which holds employers and dates, is kept unchanged.
\<close>

theorem deleted_account_is_forgotten:
  assumes run: "delete_my_account run B hmac U now h1 h2 h3 u w f = (Inr res, w', f')"
    and ids: "distinct (map r_id (resumes (w_db w)))" "distinct (map c_id (candidates (w_db w)))"
  shows "(\<forall>t x v j n days. t < 2 ^ 128 \<longrightarrow>
        get_recruitment_funnel (tenant_context t x) v j (w_db w') = get_recruitment_funnel (tenant_context t x) v j (w_db w)
        \<and> get_applications_trend (tenant_context t x) v n days j (w_db w') = get_applications_trend (tenant_context t x) v n days j (w_db w))
    \<and> list_all2 (\<lambda>v v'. if u_id v = u_id u then u_email v' = utext_of (''deleted-'' @ h2 @ ''@anonymized.invalid'') \<and> \<not> u_is_active v' else v' = v)
        (users (w_db w)) (users (w_db w'))
    \<and> list_all2 (\<lambda>c c'. if c_user_id c = u_id u
          then c_first_name c' = ANONYMIZED_FIRST_NAME \<and> c_last_name c' = utext_of (''#'' @ h1) \<and> c_phone c' = None \<and> c_location c' = None \<and> c_skills c' = None
          else c' = c) (candidates (w_db w)) (candidates (w_db w'))
    \<and> list_all2 (\<lambda>r r'. if \<exists>c \<in> set (candidates (w_db w)). c_user_id c = u_id u \<and> c_id c = r_candidate_id r
          then r_raw_text r' = None \<and> r_search_tokens r' = None \<and> r_parsed_data r' = None \<and> r_file_url r' = ''deleted:'' @ str_of_uuid (r_id r)
            \<and> only_skills_and_years (r_skill_analysis r) (r_skill_analysis r') \<and> r_agent_analysis r' = r_agent_analysis r
          else r' = r) (resumes (w_db w)) (resumes (w_db w'))"
proof -
  obtain urls n where rows: "anonymize_rows hmac U now h1 h2 h3 (u_id u) (w_db w) = Inr (urls, n, w_db w')"
    using run by (rule deleted_account_rows)
  show ?thesis
    using statistics_read [OF _ anonymized_kept [OF rows]] anonymized_users [OF rows] anonymized_candidates [OF rows ids(2)] anonymized_resumes [OF rows ids(1)]
    by (intro conjI) simp_all
qed

definition demo_person_world :: "login_entry store world" where
  "demo_person_world = demo_world\<lparr>w_db := (w_db demo_world)\<lparr>
     candidates := [\<lparr>c_id = 1, c_user_id = 7, c_first_name = utext_of ''Ann'', c_last_name = utext_of ''Lee'', c_phone = None, c_skills = None, c_location = None\<rparr>],
     resumes := [\<lparr>r_id = 3, r_tenant_id = 5, r_candidate_id = 1, r_file_url = ''f'', r_raw_text = Some (utext_of ''Ann Lee''), r_search_tokens = None,
       r_parsed_data = None,
       r_skill_analysis = Some (JObj [(''total_experience_years'', JInt 3), (''work_history'', JStr (utext_of ''Acme''))]), r_agent_analysis = Some (JStr (utext_of ''Acme 2019''))\<rparr>]\<rparr>\<rparr>"

definition demo_bucket :: "bucket storage_backend" where
  "demo_bucket = S3StorageBackend \<lparr>S3_BUCKET_NAME = ''b'', S3_ENDPOINT_URL = [], S3_REGION = ''r'', S3_PUBLIC_BASE_URL = []\<rparr> True"

theorem deleted_account_is_forgotten_witness:
  "\<exists>res w' f'. delete_my_account mem_server demo_bucket (\<lambda>_. []) ascii_tables 0 ''0f'' ''2a'' ''x'' demo_candidate demo_person_world (\<lambda>_. None)
      = (Inr res, w', f')
    \<and> map r_raw_text (resumes (w_db w')) = [None]
    \<and> map r_skill_analysis (resumes (w_db w')) = [Some (JObj [(''skills'', JArr []), (''total_experience_years'', JInt 3)])] \<and> map r_agent_analysis (resumes (w_db w')) = [Some (JStr (utext_of ''Acme 2019''))]"
proof -
  obtain res w' f' where run: "delete_my_account mem_server demo_bucket (\<lambda>_. []) ascii_tables 0 ''0f'' ''2a'' ''x'' demo_candidate demo_person_world (\<lambda>_. None)
      = (Inr res, w', f')"
    by (simp add: delete_my_account_def anonymize_candidate_account_def anonymize_rows_def Let_def demo_person_world_def demo_world_def demo_candidate_def
        require_roles_def clear_resume_def anonymous_skill_analysis_def case_prod_beta)
  have ids: "distinct (map r_id (resumes (w_db demo_person_world)))" "distinct (map c_id (candidates (w_db demo_person_world)))"
    by (simp_all add: demo_person_world_def)
  have u: "u_id demo_candidate = 7" by (simp add: demo_candidate_def)
  show ?thesis
    using deleted_account_is_forgotten [OF run ids] run u
    by (auto simp: demo_person_world_def list_all2_Cons1 only_skills_and_years_def)
qed

end
