(* ===== verification/Py_Regex.thy ===== *)
theory Py_Regex
  imports ATS_Prelude
begin

text \<open>
  The part of Python's \<open>re\<close> that the program uses: a backtracking matcher whose results come in the order
  in which the engine tries them, so that the first result is the match. A position is the character before it and
  the rest of the text. Repetitions are greedy (one is lazy); an iteration that consumes nothing ends a repetition; a lookahead keeps its groups; a back
  reference repeats the last text of its group.
  \<open>IGNORECASE\<close> identifies characters with the same lower case (the engine identifies a few more letters, among
  them the long s with s).
\<close>

section \<open>Expressions\<close>

datatype regex =
    Eps
  | Cls "nat \<Rightarrow> bool"
  | Seq regex regex
  | Alt regex regex
  | Star regex
  | Cap nat regex
  | Not_Behind "nat \<Rightarrow> bool"
  | Not_Ahead "nat \<Rightarrow> bool"
  | Ahead regex
  | Word_Edge "nat \<Rightarrow> bool"
  | At_Start
  | At_End
  | Back nat

definition Char :: "nat \<Rightarrow> regex" where "Char c = Cls (\<lambda>d. d = c)"

definition Char_i :: "unicode \<Rightarrow> nat \<Rightarrow> regex" where
  "Char_i U c = Cls (\<lambda>d. uc_lower U [d] = uc_lower U [c])"

definition seqs :: "regex list \<Rightarrow> regex" where "seqs rs = foldr Seq rs Eps"

fun alts :: "regex list \<Rightarrow> regex" where
  "alts [] = Cls (\<lambda>_. False)"
| "alts [r] = r"
| "alts (r # rs) = Alt r (alts rs)"

definition Lit :: "string \<Rightarrow> regex" where "Lit s = seqs (map Char (utext_of s))"
definition Lit_i :: "unicode \<Rightarrow> string \<Rightarrow> regex" where "Lit_i U s = seqs (map (Char_i U) (utext_of s))"
definition Plus :: "regex \<Rightarrow> regex" where "Plus r = Seq r (Star r)"
definition Opt :: "regex \<Rightarrow> regex" where "Opt r = Alt r Eps"

text \<open>Between \<open>m\<close> and \<open>m + n\<close> times.\<close>

fun Up_To :: "nat \<Rightarrow> regex \<Rightarrow> regex" where
  "Up_To 0 r = Eps"
| "Up_To (Suc n) r = Alt (Seq r (Up_To n r)) Eps"

text \<open>At most so many times, fewer first.\<close>

fun Up_To_Lazy :: "nat \<Rightarrow> regex \<Rightarrow> regex" where
  "Up_To_Lazy 0 r = Eps"
| "Up_To_Lazy (Suc n) r = Alt Eps (Seq r (Up_To_Lazy n r))"

definition Rep :: "nat \<Rightarrow> nat \<Rightarrow> regex \<Rightarrow> regex" where
  "Rep m n r = seqs (replicate m r @ [Up_To (n - m) r])"

definition one_of :: "string \<Rightarrow> nat \<Rightarrow> bool" where
  "one_of s c \<longleftrightarrow> c \<in> set (utext_of s)"

definition digit :: "nat \<Rightarrow> bool" where "digit c \<longleftrightarrow> 48 \<le> c \<and> c \<le> 57"

section \<open>Matching\<close>

type_synonym pos = "nat option \<times> utext \<times> (nat \<times> utext) list"

function match :: "regex \<Rightarrow> pos \<Rightarrow> pos list" where
  "match Eps ps = [ps]"
| "match (Cls P) (p, s, g) = (case s of [] \<Rightarrow> [] | c # cs \<Rightarrow> if P c then [(Some c, cs, g)] else [])"
| "match (Seq a b) ps = concat (map (match b) (match a ps))"
| "match (Alt a b) ps = match a ps @ match b ps"
| "match (Star a) (p, s, g) =
     concat (map (\<lambda>(p', s', g'). if length s' < length s then match (Star a) (p', s', g') else []) (match a (p, s, g))) @ [(p, s, g)]"
| "match (Cap n a) (p, s, g) = map (\<lambda>(p', s', g'). (p', s', (n, take (length s - length s') s) # g')) (match a (p, s, g))"
| "match (Not_Behind P) (p, s, g) = (case p of Some c \<Rightarrow> if P c then [] else [(p, s, g)] | None \<Rightarrow> [(p, s, g)])"
| "match (Not_Ahead P) (p, s, g) = (case s of c # _ \<Rightarrow> if P c then [] else [(p, s, g)] | [] \<Rightarrow> [(p, s, g)])"
| "match (Ahead a) (p, s, g) = (case match a (p, s, g) of [] \<Rightarrow> [] | (_, _, g') # _ \<Rightarrow> [(p, s, g')])"
| "match (Word_Edge P) (p, s, g) =
     (if (case p of Some c \<Rightarrow> P c | None \<Rightarrow> False) \<noteq> (case s of c # _ \<Rightarrow> P c | [] \<Rightarrow> False) then [(p, s, g)] else [])"
| "match At_Start (p, s, g) = (if p = None then [(p, s, g)] else [])"
| "match At_End (p, s, g) = (if s = [] then [(p, s, g)] else [])"
| "match (Back n) (p, s, g) =
     (case map_of g n of
        None \<Rightarrow> []
      | Some t \<Rightarrow> if take (length t) s = t then [(if t = [] then p else Some (last t), drop (length t) s, g)] else [])"
  by pat_completeness auto
termination
  by (relation "measures [\<lambda>(r, _). size r, \<lambda>(_, _, s, _). length s]") auto

declare match.simps(5) [simp del]

text \<open>\<open>match\<close> at a position: the first result, as the text after the match and its groups.\<close>

definition match_here :: "regex \<Rightarrow> nat option \<Rightarrow> utext \<Rightarrow> (nat option \<times> utext \<times> (nat \<times> utext) list) option" where
  "match_here r p s = (case match r (p, s, []) of [] \<Rightarrow> None | m # _ \<Rightarrow> Some m)"

text \<open>\<open>search\<close>: the first position with a match.\<close>

fun search_from :: "regex \<Rightarrow> nat option \<Rightarrow> utext \<Rightarrow> (nat option \<times> utext \<times> (nat \<times> utext) list) option" where
  "search_from r p s =
     (case match_here r p s of
        Some m \<Rightarrow> Some m
      | None \<Rightarrow> (case s of [] \<Rightarrow> None | c # cs \<Rightarrow> search_from r (Some c) cs))"

declare search_from.simps [simp del]

definition re_search :: "regex \<Rightarrow> utext \<Rightarrow> (nat \<times> utext) list option" where
  "re_search r s = map_option (\<lambda>(_, _, g). g) (search_from r None s)"

definition re_found :: "regex \<Rightarrow> utext \<Rightarrow> bool" where
  "re_found r s \<longleftrightarrow> search_from r None s \<noteq> None"

text \<open>
  \<open>sub\<close> with a fixed replacement, and the texts of \<open>finditer\<close> with their groups: the matches from left to right.
  The program's patterns for these match no empty text; a match that consumed nothing is passed over.
\<close>

function sub_from :: "regex \<Rightarrow> utext \<Rightarrow> nat option \<Rightarrow> utext \<Rightarrow> utext" where
  "sub_from r repl p s =
     (case s of
        [] \<Rightarrow> []
      | c # cs \<Rightarrow>
          (case match_here r p s of
             Some (p', s', _) \<Rightarrow> if length s' < length s then repl @ sub_from r repl p' s' else c # sub_from r repl (Some c) cs
           | None \<Rightarrow> c # sub_from r repl (Some c) cs))"
  by pat_completeness auto
termination
  by (relation "measure (\<lambda>(_, _, _, s). length s)") auto

declare sub_from.simps [simp del]

definition re_sub :: "regex \<Rightarrow> utext \<Rightarrow> utext \<Rightarrow> utext" where
  "re_sub r repl s = sub_from r repl None s"

text \<open>\<open>sub\<close> with a function of the match (its text and its groups), and \<open>fullmatch\<close>.\<close>

function sub_with :: "regex \<Rightarrow> (utext \<Rightarrow> (nat \<times> utext) list \<Rightarrow> utext) \<Rightarrow> nat option \<Rightarrow> utext \<Rightarrow> utext" where
  "sub_with r f p s =
     (case s of
        [] \<Rightarrow> []
      | c # cs \<Rightarrow>
          (case match_here r p s of
             Some (p', s', g) \<Rightarrow>
               if length s' < length s then f (take (length s - length s') s) g @ sub_with r f p' s' else c # sub_with r f (Some c) cs
           | None \<Rightarrow> c # sub_with r f (Some c) cs))"
  by pat_completeness auto
termination
  by (relation "measure (\<lambda>(_, _, _, s). length s)") auto

declare sub_with.simps [simp del]

definition re_sub_with :: "regex \<Rightarrow> (utext \<Rightarrow> (nat \<times> utext) list \<Rightarrow> utext) \<Rightarrow> utext \<Rightarrow> utext" where
  "re_sub_with r f s = sub_with r f None s"

text \<open>The text of a group of a match; a group that took no part is empty here.\<close>

definition group_text :: "(nat \<times> utext) list \<Rightarrow> nat \<Rightarrow> utext" where
  "group_text g n = (case map_of g n of None \<Rightarrow> [] | Some t \<Rightarrow> t)"

definition re_fullmatch :: "regex \<Rightarrow> utext \<Rightarrow> bool" where
  "re_fullmatch r s \<longleftrightarrow> match (Seq r At_End) (None, s, []) \<noteq> []"

function iter_from :: "regex \<Rightarrow> nat option \<Rightarrow> utext \<Rightarrow> (utext \<times> (nat \<times> utext) list) list" where
  "iter_from r p s =
     (case s of
        [] \<Rightarrow> []
      | c # cs \<Rightarrow>
          (case match_here r p s of
             Some (p', s', g) \<Rightarrow>
               if length s' < length s then (take (length s - length s') s, g) # iter_from r p' s' else iter_from r (Some c) cs
           | None \<Rightarrow> iter_from r (Some c) cs))"
  by pat_completeness auto
termination
  by (relation "measure (\<lambda>(_, _, s). length s)") auto

declare iter_from.simps [simp del]

definition re_findall :: "regex \<Rightarrow> utext \<Rightarrow> utext list" where
  "re_findall r s = map fst (iter_from r None s)"

text \<open>The first match as its text and groups, and the pieces between the matches (\<open>split\<close>).\<close>

definition re_first :: "regex \<Rightarrow> utext \<Rightarrow> (utext \<times> (nat \<times> utext) list) option" where
  "re_first r s = (case iter_from r None s of [] \<Rightarrow> None | m # _ \<Rightarrow> Some m)"

function split_from :: "regex \<Rightarrow> nat option \<Rightarrow> utext \<Rightarrow> utext \<Rightarrow> utext list" where
  "split_from r p piece s =
     (case s of
        [] \<Rightarrow> [rev piece]
      | c # cs \<Rightarrow>
          (case match_here r p s of
             Some (p', s', _) \<Rightarrow>
               if length s' < length s then rev piece # split_from r p' [] s' else split_from r (Some c) (c # piece) cs
           | None \<Rightarrow> split_from r (Some c) (c # piece) cs))"
  by pat_completeness auto
termination
  by (relation "measure (\<lambda>(_, _, _, s). length s)") auto

declare split_from.simps [simp del]

definition re_split :: "regex \<Rightarrow> utext \<Rightarrow> utext list" where
  "re_split r s = split_from r None [] s"

section \<open>Facts about matches\<close>

text \<open>A match is a prefix of the rest of the text.\<close>

lemma match_suffix: "q \<in> set (match r ps) \<Longrightarrow> suffix (fst (snd q)) (fst (snd ps))"
proof (induction r ps arbitrary: q rule: match.induct)
  case (3 a b ps)
  then obtain q1 where 1: "q1 \<in> set (match a ps)" "q \<in> set (match b q1)" by auto
  have "suffix (fst (snd q1)) (fst (snd ps))" by (rule 3(1) [OF 1(1)])
  moreover have "suffix (fst (snd q)) (fst (snd q1))" by (rule 3(2) [OF 1])
  ultimately show ?case by (rule suffix_order.trans [rotated])
next
  case (5 a p s g)
  have "q \<in> set (concat (map (\<lambda>(p', s', g'). if length s' < length s then match (Star a) (p', s', g') else []) (match a (p, s, g))) @ [(p, s, g)])"
    using 5(3) by (subst (asm) match.simps(5))
  then consider "fst (snd q) = s"
    | p1 s1 g1 where "(p1, s1, g1) \<in> set (match a (p, s, g))" "length s1 < length s" "q \<in> set (match (Star a) (p1, s1, g1))"
    by (auto split: if_splits)
  then show ?case
  proof cases
    case 2
    have "suffix s1 s" using 5(1) [OF 2(1)] by simp
    moreover have "suffix (fst (snd q)) s1" using 5(2) [OF 2(1) refl refl 2(2) 2(3)] by simp
    ultimately show ?thesis by (simp add: suffix_order.trans)
  qed simp
next
  case (2 P p s g)
  then show ?case by (cases s) (auto simp: suffix_Cons split: if_splits)
next
  case (6 n a p s g)
  then obtain q1 where "q1 \<in> set (match a (p, s, g))" "fst (snd q) = fst (snd q1)" by (auto split: prod.splits)
  with 6 show ?case by simp
next
  case (7 P p s g)
  then show ?case by (cases p) (auto split: if_splits)
next
  case (8 P p s g)
  then show ?case by (cases s) (auto split: if_splits)
next
  case (9 a p s g)
  then show ?case by (cases "match a (p, s, g)") (auto split: prod.splits)
next
  case (10 P p s g)
  then show ?case by (auto split: if_splits)
next
  case (13 n p s g)
  then show ?case by (auto simp: suffix_drop split: option.splits if_splits)
qed (auto split: if_splits)

lemma match_prefix: "(p', s', g') \<in> set (match r (p, s, g)) \<Longrightarrow> \<exists>m. s = m @ s'"
  using match_suffix [of "(p', s', g')" r "(p, s, g)"] by (simp add: suffix_def)

lemma match_shorter: "(p', s', g') \<in> set (match r (p, s, g)) \<Longrightarrow> length s' \<le> length s"
  using match_prefix by fastforce

text \<open>A text in which an expression is nowhere found is left as it is by a substitution.\<close>

lemma sub_from_none: "search_from r p s = None \<Longrightarrow> sub_from r repl p s = s"
proof (induction s arbitrary: p)
  case Nil
  then show ?case by (simp add: sub_from.simps)
next
  case (Cons c cs)
  then have "match_here r p (c # cs) = None" "search_from r (Some c) cs = None"
    by (auto simp: search_from.simps [of r p "c # cs"] split: option.splits)
  then show ?case using Cons.IH by (simp add: sub_from.simps [of r repl p "c # cs"])
qed

lemma re_sub_none: "\<not> re_found r s \<Longrightarrow> re_sub r repl s = s"
  unfolding re_sub_def by (rule sub_from_none, cases "search_from r None s") (simp_all add: re_found_def)

end
