(* ===== verification/Question_Plan.thy ===== *)
theory Question_Plan
  imports Question_Data Matching Py_Regex
begin

text \<open>
  The input of the question generator (app/genai/prompts.py): the comparison of a candidate with an advert, the
  cleaning of the resume's text, and the plan that fixes what each question asks. The English sentences of the
  analysis are named (\<open>fit_note\<close>, \<open>slot_target\<close>) instead of spelled.
\<close>

section \<open>The comparison of a candidate with an advert\<close>

text \<open>An entry of the work history, as the two analysers store it.\<close>

record experience_item =
  xi_job_title :: "utext option"
  xi_duration :: "utext option"
  xi_is_valid :: bool
  xi_flag_reason :: "utext option"

definition filled :: "utext option \<Rightarrow> bool" where
  "filled v \<longleftrightarrow> v \<noteq> None \<and> v \<noteq> Some []"

definition education_rank :: "unicode \<Rightarrow> utext option \<Rightarrow> nat" where
  "education_rank U text =
     (if \<not> filled text then 0
      else Max (set (0 # map snd (filter (\<lambda>(keyword, _). sublist keyword (uc_lower U (the text))) EDUCATION_LEVEL_RANKS))))"

definition meaningful_experience :: "experience_item list \<Rightarrow> experience_item list" where
  "meaningful_experience entries = filter (\<lambda>e. filled (xi_job_title e) \<or> filled (xi_duration e)) entries"

text \<open>The skill stands in the text and no word character is next to it.\<close>

definition mentioned :: "unicode \<Rightarrow> utext \<Rightarrow> utext \<Rightarrow> bool" where
  "mentioned U skill text = re_found (seqs (Not_Behind (uc_word U) # map Char skill @ [Not_Ahead (uc_word U)])) text"

text \<open>The dictionary of the candidate's skills by their lower case: the last spelling stays.\<close>

definition owned_skills :: "unicode \<Rightarrow> utext list \<Rightarrow> utext \<Rightarrow> utext option" where
  "owned_skills U candidate_skills = map_of (rev (map (\<lambda>skill. (uc_lower U skill, skill)) candidate_skills))"

datatype coverage = Direct | Related utext | Missing

definition coverage_of :: "unicode \<Rightarrow> utext list \<Rightarrow> utext \<Rightarrow> coverage" where
  "coverage_of U candidate_skills required =
     (let core = get_core_skill U required; owned = owned_skills U candidate_skills
      in if owned (uc_lower U required) \<noteq> None then Direct
         else if uc_lower U core \<noteq> uc_lower U required \<and> owned (uc_lower U core) \<noteq> None then Related (the (owned (uc_lower U core)))
         else Missing)"

record fit_request =
  fr_candidate_skills :: "utext list"
  fr_total_experience_years :: rat
  fr_experience :: "experience_item list"
  fr_degrees :: "utext option list"
  fr_job_skills :: "utext list"
  fr_seniority :: "utext option"
  fr_education :: "utext option"
  fr_description :: "utext option"

definition analyze_fit :: "unicode \<Rightarrow> fit_request \<Rightarrow> FitAnalysis" where
  "analyze_fit U q =
     (let cov = coverage_of U (fr_candidate_skills q);
          matched = filter (\<lambda>r. cov r = Direct) (fr_job_skills q);
          related = fold (\<lambda>r d. case cov r of Related s \<Rightarrow> dict_set d r s | _ \<Rightarrow> d) (fr_job_skills q) [];
          missing = filter (\<lambda>r. cov r = Missing) (fr_job_skills q);
          description = uc_lower U (case fr_description q of None \<Rightarrow> [] | Some t \<Rightarrow> t);
          required_lower = set (map (uc_lower U) (fr_job_skills q));
          additional = filter (\<lambda>s. uc_lower U s \<notin> required_lower \<and> mentioned U (uc_lower U s) description) (fr_candidate_skills q);
          level = (case fr_seniority q of None \<Rightarrow> [] | Some t \<Rightarrow> t);
          years = fr_total_experience_years q;
          years_note = (case map_of SENIORITY_YEAR_RANGES (uc_lower U (ustrip U level)) of
              None \<Rightarrow> ([], [])
            | Some (minimum, _) \<Rightarrow>
                if minimum \<le> years then ([Meets_Level years level minimum], []) else ([], [Below_Level years level minimum]));
          required_rank = education_rank U (fr_education q);
          candidate_rank = Max (set (0 # map (education_rank U) (fr_degrees q)));
          education_note = (if required_rank \<noteq> 0 \<and> candidate_rank < required_rank
            then [Education_Below (the (fr_education q))] else []);
          periods = map (\<lambda>e. Unverified_Period (if filled (xi_job_title e) then xi_job_title e else None) (the (xi_flag_reason e)))
            (filter (\<lambda>e. \<not> xi_is_valid e \<and> filled (xi_flag_reason e)) (meaningful_experience (fr_experience q)))
      in \<lparr>fa_strengths = (if matched \<noteq> [] then [Has_Required matched] else [])
              @ (if additional \<noteq> [] then [Extra_Skills additional] else []) @ fst years_note,
          fa_gaps = map (\<lambda>(r, s). Only_Related r s) related @ map Not_In_Resume missing @ snd years_note @ education_note @ periods,
          fa_matched = matched, fa_related = related, fa_missing = missing, fa_additional = additional\<rparr>)"

section \<open>The cleaning of the resume's text\<close>

definition normalize_digits :: "utext \<Rightarrow> utext" where
  "normalize_digits = map (\<lambda>c. if 1776 \<le> c \<and> c \<le> 1785 then c - 1776 + 48 else if 1632 \<le> c \<and> c \<le> 1641 then c - 1632 + 48 else c)"

definition word_or :: "unicode \<Rightarrow> string \<Rightarrow> regex" where
  "word_or U extra = Cls (\<lambda>c. uc_word U c \<or> one_of extra c)"

definition EMAIL_PATTERN :: "unicode \<Rightarrow> regex" where
  "EMAIL_PATTERN U =
     seqs [Plus (word_or U ''.+-''), Lit ''@'', Plus (word_or U ''-''), Plus (Seq (Lit ''.'') (Plus (word_or U ''-'')))]"

definition phone_digit :: "nat \<Rightarrow> bool" where
  "phone_digit c \<longleftrightarrow> digit c \<or> (1776 \<le> c \<and> c \<le> 1785)"

definition gap_opt :: regex where "gap_opt = Opt (Cls (one_of '' -''))"

definition PHONE_PATTERN :: regex where
  "PHONE_PATTERN =
     (let D = Cls phone_digit
      in seqs [Not_Behind phone_digit,
           alts [seqs [Opt (alts [Lit ''+98'', Lit ''0098'', Lit ''0'']), gap_opt, Lit ''9'', Rep 2 2 D, gap_opt, Rep 3 3 D, gap_opt, Rep 4 4 D],
                 seqs [Lit ''0'', Rep 2 3 D, gap_opt, Rep 7 8 D],
                 seqs [Lit ''+'', Rep 1 3 D, Rep 2 4 (seqs [gap_opt, Opt (Lit ''(''), Rep 2 4 D, Opt (Lit '')'')])]],
           Not_Ahead phone_digit])"

definition URL_PATTERN :: "unicode \<Rightarrow> regex" where
  "URL_PATTERN U =
     (let solid = Cls (\<lambda>c. \<not> uc_space U c)
      in Alt (Seq (Alt (seqs [Lit_i U ''http'', Opt (Lit_i U ''s''), Lit ''://'']) (seqs [Lit_i U ''www'', Lit ''.''])) (Plus solid))
           (seqs [Word_Edge (uc_word U), Plus (word_or U ''-''), Plus (Seq (Lit ''.'') (Plus (word_or U ''-''))), Lit ''/'', Star solid]))"

definition PROMPT_TAGS :: "string list" where
  "PROMPT_TAGS = [''resume_excerpt'', ''candidate_profile'', ''job_posting'', ''fit_analysis'', ''question_plan'', ''system'']"

definition PROMPT_TAG_PATTERN :: "unicode \<Rightarrow> regex" where
  "PROMPT_TAG_PATTERN U =
     (let spaces = Star (Cls (uc_space U))
      in seqs [Lit ''<'', Opt (Lit ''/''), spaces,
           alts (map (Lit_i U) PROMPT_TAGS @ [Seq (Lit_i U ''instruction'') (Opt (Lit_i U ''s''))]), spaces, Lit ''>''])"

definition RESUME_EXCERPT_CHARS :: nat where "RESUME_EXCERPT_CHARS = 1500"

definition redact_resume_text :: "unicode \<Rightarrow> utext option \<Rightarrow> utext option \<Rightarrow> utext" where
  "redact_resume_text U raw_text candidate_name =
     (let text0 = normalize_digits (case raw_text of None \<Rightarrow> [] | Some t \<Rightarrow> t);
          name = (case candidate_name of None \<Rightarrow> [] | Some n \<Rightarrow> ustrip U n);
          text1 = (if name \<noteq> [] then re_sub (seqs (map (Char_i U) name)) (utext_of ''[CANDIDATE]'') text0 else text0);
          text2 = re_sub (EMAIL_PATTERN U) (utext_of ''[EMAIL]'') text1;
          text3 = re_sub (URL_PATTERN U) (utext_of ''[URL]'') text2;
          text4 = re_sub PHONE_PATTERN (utext_of ''[PHONE]'') text3;
          text5 = re_sub (PROMPT_TAG_PATTERN U) [] text4;
          text6 = re_sub (Plus (Cls (\<lambda>c. c = 32 \<or> c = 9))) [32] text5
      in take RESUME_EXCERPT_CHARS (ustrip U text6))"

section \<open>The profile that is sent to the model\<close>

definition JOB_DESCRIPTION_CHARS :: nat where "JOB_DESCRIPTION_CHARS = 2000"

text \<open>What the analysers stored about a resume; the work history comes from the skill engine, or else from the parser.\<close>

record resume_data =
  rd_skills :: "utext list"
  rd_total_experience_years :: rat
  rd_experience_entries :: "experience_item list"
  rd_work_experience :: "experience_item list"
  rd_degrees :: "utext option list"
  rd_name :: "utext option"
  rd_raw_text :: "utext option"

text \<open>\<open>dict.fromkeys\<close>: the first occurrence of each.\<close>

fun first_occurrences :: "'a list \<Rightarrow> 'a list" where
  "first_occurrences [] = []"
| "first_occurrences (x # xs) = x # first_occurrences (filter (\<lambda>y. y \<noteq> x) xs)"
  
definition build_input_profile :: "unicode \<Rightarrow> resume_data \<Rightarrow> utext list \<Rightarrow> int option \<Rightarrow> job_posting \<Rightarrow> input_profile" where
  "build_input_profile U r self_declared_skills match_score job =
     (let experience = (if rd_experience_entries r \<noteq> [] then rd_experience_entries r else rd_work_experience r);
          skills = first_occurrences (rd_skills r @ self_declared_skills);
          fit = analyze_fit U \<lparr>fr_candidate_skills = skills, fr_total_experience_years = rd_total_experience_years r,
            fr_experience = experience, fr_degrees = rd_degrees r, fr_job_skills = jp_required_skills job, fr_seniority = jp_seniority job,
            fr_education = jp_required_education job, fr_description = Some (jp_description job)\<rparr>
      in \<lparr>ip_job = job\<lparr>jp_description := take JOB_DESCRIPTION_CHARS (jp_description job)\<rparr>,
           ip_candidate = \<lparr>cp_skills = skills, cp_total_experience_years = rd_total_experience_years r,
             cp_experience = map (\<lambda>e. (xi_job_title e, xi_duration e, xi_is_valid e)) (meaningful_experience experience),
             cp_education = map the (filter filled (rd_degrees r)), cp_match_score = match_score\<rparr>,
           ip_fit = fit, ip_excerpt = redact_resume_text U (rd_raw_text r) (rd_name r)\<rparr>)"

section \<open>The plan\<close>

definition question_slot :: "string \<Rightarrow> utext \<Rightarrow> string \<Rightarrow> slot_target \<Rightarrow> QuestionSlot" where
  "question_slot category skill difficulty target = \<lparr>sl_category = category, sl_skill = skill, sl_difficulty = difficulty, sl_target = target\<rparr>"

definition SENIOR_LEVELS :: "utext list" where "SENIOR_LEVELS = map utext_of [''senior'', ''lead'', ''principal'']"
definition MID_PLUS_LEVELS :: "utext list" where "MID_PLUS_LEVELS = SENIOR_LEVELS @ map utext_of [''mid-level'', ''mid'']"

definition INTERVIEW_ORDER :: "string list" where
  "INTERVIEW_ORDER = [''technical'', ''problem_solving'', ''system_design'', ''gap_probe'', ''behavioral'']"

definition interview_rank :: "QuestionSlot \<Rightarrow> nat" where
  "interview_rank slot = the (index_of INTERVIEW_ORDER (sl_category slot))"

definition gap_slots :: "FitAnalysis \<Rightarrow> QuestionSlot list" where
  "gap_slots fit = map (\<lambda>(skill, related). question_slot ''gap_probe'' skill ''medium'' (Gap_Related skill related)) (fa_related fit)
     @ map (\<lambda>skill. question_slot ''gap_probe'' skill ''medium'' (Gap_Missing skill)) (fa_missing fit)"

text \<open>A slot for a skill that no earlier slot has asked about yet.\<close>

definition add_uncovered :: "unicode \<Rightarrow> (utext \<Rightarrow> QuestionSlot) \<Rightarrow> utext \<Rightarrow> QuestionSlot list \<times> utext set \<Rightarrow> QuestionSlot list \<times> utext set" where
  "add_uncovered U slot skill st =
     (case st of (cands, covered) \<Rightarrow>
        if uc_lower U skill \<in> covered then st else (cands @ [slot skill], insert (uc_lower U skill) covered))"

fun pad_plan :: "nat \<Rightarrow> QuestionSlot list \<Rightarrow> QuestionSlot list" where
  "pad_plan 0 cands = cands"
| "pad_plan (Suc k) cands =
     (let base = cands ! (length cands mod length cands)
      in pad_plan k (cands @ [question_slot ''problem_solving'' (sl_skill base) ''medium'' (Applied (sl_skill base))]))"

definition planned_slots :: "unicode \<Rightarrow> input_profile \<Rightarrow> nat \<Rightarrow> utext list \<Rightarrow> QuestionSlot list" where
  "planned_slots U profile question_count focus_skills =
     (let fit = ip_fit profile;
          seniority = uc_lower U (ustrip U (case jp_seniority (ip_job profile) of None \<Rightarrow> [] | Some t \<Rightarrow> t));
          strong = (if seniority \<in> set SENIOR_LEVELS then ''hard'' else ''medium'');
          gaps = take (max 1 (question_count div 2)) (gap_slots fit);
          matched = fa_matched fit;
          st1 = fold (add_uncovered U (\<lambda>skill. question_slot ''technical'' skill strong (Focus_Skill skill))) focus_skills
                  (gaps, set (map (\<lambda>slot. uc_lower U (sl_skill slot)) gaps));
          st2 = fold (\<lambda>(index, skill). add_uncovered U
                    (\<lambda>skill. question_slot ''technical'' skill (if index = 0 then ''easy'' else strong) (Strength_Skill skill)) skill)
                  (enumerate 0 matched) st1;
          cands3 = (if seniority \<in> set MID_PLUS_LEVELS
            then fst st2 @ [question_slot ''system_design'' (utext_of ''System Design'') strong (Role_Seniority seniority)] else fst st2);
          cands4 = cands3 @ [question_slot ''behavioral'' (utext_of ''Collaboration'') ''medium'' Teamwork];
          cands5 = cands4 @ map (\<lambda>skill. question_slot ''problem_solving'' skill ''medium'' (Applied skill))
                  (take (question_count - length cands4) (fa_additional fit @ matched))
      in pad_plan (question_count - length cands5) cands5)"

definition plan_questions :: "unicode \<Rightarrow> input_profile \<Rightarrow> nat \<Rightarrow> string \<Rightarrow> utext list \<Rightarrow> QuestionSlot list" where
  "plan_questions U profile question_count difficulty focus_skills =
     (let plan = sort_key interview_rank (take question_count (planned_slots U profile question_count focus_skills))
      in if difficulty = ''mixed'' then plan else map (\<lambda>slot. slot\<lparr>sl_difficulty := difficulty\<rparr>) plan)"

section \<open>Facts about the plan\<close>

definition ordinary_slot :: "QuestionSlot \<Rightarrow> bool" where
  "ordinary_slot s \<longleftrightarrow> sl_category s \<in> {''technical'', ''problem_solving'', ''system_design'', ''behavioral''}
     \<and> sl_difficulty s \<in> {''easy'', ''medium'', ''hard''}"

lemma question_slot_simps [simp]:
  "sl_category (question_slot c s d t) = c" "sl_skill (question_slot c s d t) = s" "sl_difficulty (question_slot c s d t) = d"
  by (simp_all add: question_slot_def)

lemma add_uncovered_grows:
  assumes "ordinary_slot (f x)"
  shows "\<exists>more. fst (add_uncovered U f x st) = fst st @ more \<and> list_all ordinary_slot more"
  using assms by (cases st) (auto simp: add_uncovered_def)

lemma fold_grows:
  assumes "\<And>x st. \<exists>more. fst (step x st) = fst st @ more \<and> list_all P more"
  shows "\<exists>more. fst (fold step xs st) = fst st @ more \<and> list_all P more"
proof (induction xs arbitrary: st)
  case (Cons x xs)
  obtain m1 where m1: "fst (step x st) = fst st @ m1" "list_all P m1" using assms by blast
  obtain m2 where m2: "fst (fold step xs (step x st)) = fst (step x st) @ m2" "list_all P m2" using Cons.IH by blast
  show ?case by (rule exI [of _ "m1 @ m2"]) (simp add: m1 m2)
qed simp

lemma slots_of_focus:
  assumes "\<And>s. ordinary_slot (f s)"
  shows "\<exists>more. fst (fold (add_uncovered U f) xs st) = fst st @ more \<and> list_all ordinary_slot more"
  by (rule fold_grows) (rule add_uncovered_grows [where f = f, OF assms])

text \<open>The covered set is the set of the skills that the slots ask about, and every focus skill gets into it.\<close>

definition covers :: "unicode \<Rightarrow> QuestionSlot list \<times> utext set \<Rightarrow> bool" where
  "covers U st \<longleftrightarrow> snd st = set (map (\<lambda>slot. uc_lower U (sl_skill slot)) (fst st))"

lemma focus_covered:
  assumes "\<And>s. sl_skill (f s) = s" and "covers U st"
  shows "covers U (fold (add_uncovered U f) xs st)
    \<and> snd st \<union> uc_lower U ` set xs \<subseteq> snd (fold (add_uncovered U f) xs st)
    \<and> length (fst (fold (add_uncovered U f) xs st)) \<le> length (fst st) + length xs"
  using assms(2)
proof (induction xs arbitrary: st)
  case (Cons x xs)
  have step: "covers U (add_uncovered U f x st)" "insert (uc_lower U x) (snd st) \<subseteq> snd (add_uncovered U f x st)"
      "length (fst (add_uncovered U f x st)) \<le> Suc (length (fst st))"
    using Cons.prems assms(1) by (cases st, auto simp: covers_def add_uncovered_def)+
  show ?case using Cons.IH [OF step(1)] step(2, 3) by auto
qed simp

lemma slots_of_strengths:
  fixes f :: "'i \<Rightarrow> utext \<Rightarrow> QuestionSlot" and xs :: "('i \<times> utext) list"
  assumes "\<And>i s. ordinary_slot (f i s)"
  shows "\<exists>more. fst (fold (\<lambda>(i, s). add_uncovered U (f i) s) xs st) = fst st @ more \<and> list_all ordinary_slot more"
proof (rule fold_grows)
  fix x :: "'i \<times> utext" and st
  have "ordinary_slot (f (fst x) (snd x))" by (rule assms)
  then show "\<exists>more. fst ((case x of (i, s) \<Rightarrow> add_uncovered U (f i) s) st) = fst st @ more \<and> list_all ordinary_slot more"
    by (cases st, cases x) (auto simp: add_uncovered_def)
qed

lemma pad_plan_more:
  "\<exists>more. pad_plan k cands = cands @ more \<and> length more = k \<and> list_all ordinary_slot more"
proof (induction k arbitrary: cands)
  case (Suc k)
  define b where "b = question_slot ''problem_solving'' (sl_skill (cands ! (length cands mod length cands))) ''medium''
    (Applied (sl_skill (cands ! (length cands mod length cands))))"
  have b: "ordinary_slot b" by (simp add: b_def ordinary_slot_def)
  have step: "pad_plan (Suc k) cands = pad_plan k (cands @ [b])" unfolding pad_plan.simps Let_def b_def by (rule refl)
  obtain more where more: "pad_plan k (cands @ [b]) = (cands @ [b]) @ more" "length more = k" "list_all ordinary_slot more"
    using Suc.IH by blast
  show ?case unfolding step more(1) by (intro exI [of _ "b # more"]) (simp add: b more)
qed simp

lemma planned_slots_parts:
  obtains more where "planned_slots U p n focus = take (max 1 (n div 2)) (gap_slots (ip_fit p)) @ more" "list_all ordinary_slot more"
    "n \<le> length (planned_slots U p n focus)"
    "\<And>s. s \<in> set focus \<Longrightarrow> \<exists>slot \<in> set (take (max 1 (n div 2) + length focus) (planned_slots U p n focus)).
       uc_lower U (sl_skill slot) = uc_lower U s"
proof -
  define seniority where "seniority = uc_lower U (ustrip U (case jp_seniority (ip_job p) of None \<Rightarrow> [] | Some t \<Rightarrow> t))"
  define strong where "strong = (if seniority \<in> set SENIOR_LEVELS then ''hard'' else ''medium'')"
  define gaps where "gaps = take (max 1 (n div 2)) (gap_slots (ip_fit p))"
  define st1 where "st1 = fold (add_uncovered U (\<lambda>skill. question_slot ''technical'' skill strong (Focus_Skill skill))) focus
      (gaps, set (map (\<lambda>slot. uc_lower U (sl_skill slot)) gaps))"
  define st2 where "st2 = fold (\<lambda>(index, skill). add_uncovered U
      (\<lambda>skill. question_slot ''technical'' skill (if index = (0 :: nat) then ''easy'' else strong) (Strength_Skill skill)) skill)
      (enumerate 0 (fa_matched (ip_fit p))) st1"
  define cands3 where "cands3 = (if seniority \<in> set MID_PLUS_LEVELS
      then fst st2 @ [question_slot ''system_design'' (utext_of ''System Design'') strong (Role_Seniority seniority)] else fst st2)"
  define cands4 where "cands4 = cands3 @ [question_slot ''behavioral'' (utext_of ''Collaboration'') ''medium'' Teamwork]"
  define cands5 where "cands5 = cands4 @ map (\<lambda>skill. question_slot ''problem_solving'' skill ''medium'' (Applied skill))
      (take (n - length cands4) (fa_additional (ip_fit p) @ fa_matched (ip_fit p)))"
  have eq: "planned_slots U p n focus = pad_plan (n - length cands5) cands5"
    unfolding planned_slots_def Let_def cands5_def cands4_def cands3_def st2_def st1_def gaps_def strong_def seniority_def by (rule refl)
  have ok: "ordinary_slot (question_slot ''technical'' s strong t)" "ordinary_slot (question_slot ''technical'' s ''easy'' t)"
      "ordinary_slot (question_slot ''system_design'' s strong t)" for s t
    by (simp_all add: ordinary_slot_def strong_def)
  obtain m1 where m1: "fst st1 = gaps @ m1" "list_all ordinary_slot m1"
    using slots_of_focus [of "\<lambda>skill. question_slot ''technical'' skill strong (Focus_Skill skill)" U focus
        "(gaps, set (map (\<lambda>slot. uc_lower U (sl_skill slot)) gaps))"] ok unfolding st1_def by auto
  have level: "ordinary_slot (question_slot ''technical'' s (if i = (0 :: nat) then ''easy'' else strong) (Strength_Skill s))" for i s
    by (simp add: ordinary_slot_def strong_def)
  obtain m2 where m2: "fst st2 = fst st1 @ m2" "list_all ordinary_slot m2"
    using slots_of_strengths [of "\<lambda>index skill. question_slot ''technical'' skill (if index = (0 :: nat) then ''easy'' else strong) (Strength_Skill skill)"
        U "enumerate 0 (fa_matched (ip_fit p))" st1, OF level, folded st2_def] by blast
  obtain m6 where m6: "pad_plan (n - length cands5) cands5 = cands5 @ m6" "length m6 = n - length cands5" "list_all ordinary_slot m6"
    using pad_plan_more by blast
  define m3 where "m3 = (if seniority \<in> set MID_PLUS_LEVELS
        then [question_slot ''system_design'' (utext_of ''System Design'') strong (Role_Seniority seniority)] else [])
      @ [question_slot ''behavioral'' (utext_of ''Collaboration'') ''medium'' Teamwork]
      @ map (\<lambda>skill. question_slot ''problem_solving'' skill ''medium'' (Applied skill))
          (take (n - length cands4) (fa_additional (ip_fit p) @ fa_matched (ip_fit p)))"
  have m3: "cands5 = fst st2 @ m3" by (simp only: cands5_def m3_def cands4_def cands3_def append_assoc split: if_splits) simp
  have ok3: "list_all ordinary_slot m3"
    using ok(3) [of "utext_of ''System Design''" "Role_Seniority seniority"]
    by (auto simp: m3_def list_all_iff ordinary_slot_def)
  have plan: "planned_slots U p n focus = gaps @ m1 @ m2 @ m3 @ m6" using eq m6(1) m3 m2(1) m1(1) by simp
  have cov: "covers U st1" "uc_lower U ` set focus \<subseteq> snd st1" "length (fst st1) \<le> length gaps + length focus"
    using focus_covered [of "\<lambda>skill. question_slot ''technical'' skill strong (Focus_Skill skill)" U
        "(gaps, set (map (\<lambda>slot. uc_lower U (sl_skill slot)) gaps))" focus, folded st1_def]
    by (auto simp: covers_def simp del: set_map)
  have early: "set (gaps @ m1) \<subseteq> set (take (max 1 (n div 2) + length focus) (planned_slots U p n focus))"
  proof -
    have "length (gaps @ m1) \<le> max 1 (n div 2) + length focus" using cov(3) m1(1) by (simp add: gaps_def)
    then have "take (length (gaps @ m1)) (take (max 1 (n div 2) + length focus) (planned_slots U p n focus)) = gaps @ m1"
      by (simp add: plan min_def)
    then show ?thesis by (metis set_take_subset)
  qed
  show thesis
  proof
    show "planned_slots U p n focus = take (max 1 (n div 2)) (gap_slots (ip_fit p)) @ m1 @ m2 @ m3 @ m6"
      using plan by (simp add: gaps_def)
    show "list_all ordinary_slot (m1 @ m2 @ m3 @ m6)" using m1(2) m2(2) ok3 m6(3) by simp
    show "n \<le> length (planned_slots U p n focus)" using eq m6 by simp
    show "\<exists>slot \<in> set (take (max 1 (n div 2) + length focus) (planned_slots U p n focus)). uc_lower U (sl_skill slot) = uc_lower U s"
      if s: "s \<in> set focus" for s
    proof -
      have "uc_lower U s \<in> snd st1" using cov(2) s by blast
      then have "uc_lower U s \<in> (\<lambda>slot. uc_lower U (sl_skill slot)) ` set (gaps @ m1)" using cov(1) m1(1) by (simp only: covers_def set_map)
      then show ?thesis using early by (metis (no_types, lifting) image_iff subsetD)
    qed
  qed
qed

lemma interview_rank_ok: "ordinary_slot s \<Longrightarrow> interview_rank s < 5"
  by (auto simp: ordinary_slot_def interview_rank_def INTERVIEW_ORDER_def)

lemma gap_slots_ok:
  "s \<in> set (gap_slots fit) \<Longrightarrow> sl_category s = ''gap_probe'' \<and> sl_difficulty s = ''medium''"
  by (auto simp: gap_slots_def)

lemma gap_slots_length: "length (gap_slots fit) = length (fa_related fit) + length (fa_missing fit)"
  by (simp add: gap_slots_def)

lemma ordinary_not_gap: "list_all ordinary_slot xs \<Longrightarrow> filter (\<lambda>s. sl_category s = ''gap_probe'') xs = []"
  by (auto simp: filter_empty_conv list_all_iff ordinary_slot_def)

lemma take_past: "length xs \<le> n \<Longrightarrow> take n (xs @ ys) = xs @ take (n - length xs) ys"
  by simp

lemma list_all_take: "list_all P xs \<Longrightarrow> list_all P (take n xs)"
  by (auto simp: list_all_iff dest: in_set_takeD)

lemma plan_shape:
  assumes "0 < n"
  obtains more where "take n (planned_slots U p n focus) = take (max 1 (n div 2)) (gap_slots (ip_fit p)) @ more"
    "list_all ordinary_slot more"
proof -
  obtain more where more: "planned_slots U p n focus = take (max 1 (n div 2)) (gap_slots (ip_fit p)) @ more" "list_all ordinary_slot more"
    using planned_slots_parts [of U p n focus thesis] by blast
  have "length (take (max 1 (n div 2)) (gap_slots (ip_fit p))) \<le> n" using assms by simp
  from take_past [OF this, of more] show thesis
    using list_all_take [OF more(2)] by (intro that [of "take (n - length (take (max 1 (n div 2)) (gap_slots (ip_fit p)))) more"]) (simp_all only: more(1))
qed

lemma plan_questions_length: "length (plan_questions U p n d focus) = n"
  using planned_slots_parts [of U p n focus] by (force simp: plan_questions_def Let_def)

text \<open>What the model is asked for. The slots of a plan stay in the order of the interview, since the sort is stable and the
  ranks decide.\<close>

lemma plan_questions_set:
  "set (plan_questions U p n d focus) = (if d = ''mixed'' then set (take n (planned_slots U p n focus))
     else (\<lambda>s. s\<lparr>sl_difficulty := d\<rparr>) ` set (take n (planned_slots U p n focus)))"
  by (simp add: plan_questions_def Let_def)

text \<open>
  C20. The plan of an interview has exactly as many rows as were asked for; its rows are in the order of the interview (technical, problem
  solving, system design, gaps, behavioural); it probes every gap of the candidate up to half of the questions; a fixed difficulty
  holds for every row and a mixed plan uses the three levels; and when the focus skills fit beside the gaps, every
  one of them is asked about.
\<close>

theorem plan_questions_spec:
  assumes "0 < n"
  shows "length (plan_questions U p n d focus) = n
    \<and> sorted (map interview_rank (plan_questions U p n d focus))
    \<and> length (filter (\<lambda>s. sl_category s = ''gap_probe'') (plan_questions U p n d focus))
        = min (length (fa_related (ip_fit p)) + length (fa_missing (ip_fit p))) (max 1 (n div 2))
    \<and> list_all (\<lambda>s. if d = ''mixed'' then sl_difficulty s \<in> {''easy'', ''medium'', ''hard''} else sl_difficulty s = d)
        (plan_questions U p n d focus)
    \<and> (max 1 (n div 2) + length focus \<le> n
        \<longrightarrow> uc_lower U ` set focus \<subseteq> uc_lower U ` sl_skill ` set (plan_questions U p n d focus))"
proof (intro conjI)
  let ?plan = "plan_questions U p n d focus" and ?all = "take n (planned_slots U p n focus)" and ?g = "\<lambda>s. sl_category s = ''gap_probe''"
  have long: "n \<le> length (planned_slots U p n focus)" using planned_slots_parts [of U p n focus] by blast
  obtain more where more: "?all = take (max 1 (n div 2)) (gap_slots (ip_fit p)) @ more" "list_all ordinary_slot more"
    using plan_shape [OF assms] by blast
  show "length ?plan = n" by (rule plan_questions_length)
  have rank: "interview_rank (s\<lparr>sl_difficulty := d\<rparr>) = interview_rank s" for s by (simp add: interview_rank_def)
  show "sorted (map interview_rank ?plan)" by (simp add: plan_questions_def Let_def rank comp_def)
  have gaps: "filter ?g (take k (gap_slots (ip_fit p))) = take k (gap_slots (ip_fit p))" for k
    using gap_slots_ok by (auto simp: filter_id_conv dest: in_set_takeD)
  have "length (filter ?g ?plan) = length (filter ?g ?all)"
    by (simp add: plan_questions_def Let_def comp_def filter_map filter_sort)
  then show "length (filter ?g ?plan) = min (length (fa_related (ip_fit p)) + length (fa_missing (ip_fit p))) (max 1 (n div 2))"
    by (simp add: more(1) gaps ordinary_not_gap [OF more(2)] gap_slots_length)
  have levels: "sl_difficulty s \<in> {''easy'', ''medium'', ''hard''}" if "s \<in> set ?all" for s
    using that more(2) gap_slots_ok [of s "ip_fit p"] unfolding more(1) by (auto simp: list_all_iff ordinary_slot_def dest: in_set_takeD)
  then show "list_all (\<lambda>s. if d = ''mixed'' then sl_difficulty s \<in> {''easy'', ''medium'', ''hard''} else sl_difficulty s = d) ?plan"
    unfolding list_all_iff plan_questions_set by simp
  have skills: "sl_skill ` set ?plan = sl_skill ` set ?all" by (auto simp: plan_questions_set image_image)
  have "uc_lower U s \<in> uc_lower U ` sl_skill ` set ?all" if "max 1 (n div 2) + length focus \<le> n" "s \<in> set focus" for s
  proof -
    have "\<exists>slot \<in> set (take (max 1 (n div 2) + length focus) (planned_slots U p n focus)). uc_lower U (sl_skill slot) = uc_lower U s"
      using planned_slots_parts [of U p n focus] that(2) by blast
    moreover have "set (take (max 1 (n div 2) + length focus) (planned_slots U p n focus)) \<subseteq> set ?all"
      using that(1) by (rule set_take_subset_set_take)
    ultimately show ?thesis by (auto simp: image_image) (metis (no_types, lifting) image_eqI subsetD)
  qed
  then show "max 1 (n div 2) + length focus \<le> n \<longrightarrow> uc_lower U ` set focus \<subseteq> uc_lower U ` sl_skill ` set ?plan"
    unfolding skills by (meson image_subsetI)
qed

definition demo_profile :: input_profile where
  "demo_profile = \<lparr>ip_job = \<lparr>jp_title = utext_of ''Dev'', jp_department = None, jp_seniority = Some (utext_of ''Senior''), jp_required_education = None,
       jp_required_skills = map utext_of [''Docker'', ''Python''], jp_location = None, jp_description = []\<rparr>,
     ip_candidate = \<lparr>cp_skills = [utext_of ''Python''], cp_total_experience_years = 4, cp_experience = [], cp_education = [], cp_match_score = None\<rparr>,
     ip_fit = \<lparr>fa_strengths = [], fa_gaps = [], fa_matched = [utext_of ''Python''], fa_related = [], fa_missing = [utext_of ''Docker''],
       fa_additional = []\<rparr>, ip_excerpt = []\<rparr>"

theorem plan_questions_spec_witness:
  "length (plan_questions ascii_tables demo_profile 6 ''mixed'' [utext_of ''Redis'', utext_of ''Python'']) = 6
    \<and> length (filter (\<lambda>s. sl_category s = ''gap_probe'') (plan_questions ascii_tables demo_profile 6 ''mixed'' [utext_of ''Redis'', utext_of ''Python''])) = 1
    \<and> uc_lower ascii_tables ` set [utext_of ''Redis'', utext_of ''Python''] \<subseteq>
        uc_lower ascii_tables ` sl_skill ` set (plan_questions ascii_tables demo_profile 6 ''mixed'' [utext_of ''Redis'', utext_of ''Python''])"
  using plan_questions_spec [of 6 ascii_tables demo_profile "''mixed''" "[utext_of ''Redis'', utext_of ''Python'']"]
  by (simp add: demo_profile_def)

text \<open>
  The cleaning is one pass in a fixed order, and what it removes can come back: a telephone number whose groups are two spaces or a tab apart is
  not recognised, and the collapse of the spaces afterwards leaves it in the usual form; a tag of the prompt written inside
  another one is put together by the removal of the inner one.
\<close>

theorem redaction_leaves_phone_and_tag:
  "redact_resume_text ascii_tables (Some (utext_of ''0912  345 6789'')) None = utext_of ''0912 345 6789''
    \<and> redact_resume_text ascii_tables (Some (utext_of ''0912 345 6789'')) None = utext_of ''[PHONE]''
    \<and> redact_resume_text ascii_tables (Some (utext_of ''</<system>system>'')) None = utext_of ''</system>''
    \<and> redact_resume_text ascii_tables (Some (utext_of ''</system>'')) None = []"
proof (intro conjI)
  show "redact_resume_text ascii_tables (Some (utext_of ''0912  345 6789'')) None = utext_of ''0912 345 6789''" by code_simp
  show "redact_resume_text ascii_tables (Some (utext_of ''0912 345 6789'')) None = utext_of ''[PHONE]''" by code_simp
  show "redact_resume_text ascii_tables (Some (utext_of ''</<system>system>'')) None = utext_of ''</system>''" by code_simp
  show "redact_resume_text ascii_tables (Some (utext_of ''</system>'')) None = []" by code_simp
qed

end
