(* ===== verification/Question_Generation.thy ===== *)
theory Question_Generation
  imports Question_Plan "HOL-Library.Monad_Syntax"
begin

text \<open>
  The call of the language model (app/genai/client.py), the contract of its output (app/schemas/genai.py) and one
  generation with its single repair (app/genai/service.py). The HTTP exchange, the JSON parser and pydantic's
  conversion of a number are parameters; what the code does with their results is modelled.
\<close>

section \<open>One call of the model\<close>

text \<open>What \<open>httpx\<close> makes of a request: an exception or a response with its latency, status, text and parsed body.\<close>

datatype http_outcome =
    TimeoutException
  | TransportError
  | Other_Request_Error
  | Response int int utext "json option"

datatype genai_error =
    GenAINotConfiguredError
  | GenAIProviderError genai_message bool
  | GenAIOutputError genai_message

text \<open>A call ends with a \<open>GenAIError\<close> or with an exception that the job does not expect.\<close>

datatype call_error = GenAI genai_error | Unexpected exc

fun retryable :: "genai_error \<Rightarrow> bool" where
  "retryable (GenAIProviderError _ r) = r"
| "retryable _ = False"

fun error_text :: "genai_error \<Rightarrow> genai_message" where
  "error_text GenAINotConfiguredError = Not_Configured"
| "error_text (GenAIProviderError m _) = m"
| "error_text (GenAIOutputError m) = m"

definition RETRYABLE_STATUS :: "int set" where
  "RETRYABLE_STATUS = {408, 409, 425, 429, 500, 502, 503, 504}"

record CompletionResult =
  cr_content :: utext
  cr_prompt_tokens :: "json option"
  cr_completion_tokens :: "json option"
  cr_latency_ms :: int
  cr_finish_reason :: "json option"

text \<open>Subscripts of a parsed body; \<open>None\<close> is a \<open>KeyError\<close>, an \<open>IndexError\<close> or a \<open>TypeError\<close>.\<close>

fun json_item :: "string \<Rightarrow> json \<Rightarrow> json option" where
  "json_item k (JObj kvs) = map_of kvs k"
| "json_item k _ = None"

fun json_first :: "json \<Rightarrow> json option" where
  "json_first (JArr (j # _)) = Some j"
| "json_first (JStr (c # _)) = Some (JStr [c])"
| "json_first _ = None"

fun truthy :: "json \<Rightarrow> bool" where
  "truthy JNull = False"
| "truthy (JBool b) = b"
| "truthy (JInt n) = (n \<noteq> 0)"
| "truthy (JFloat x) = (x \<noteq> 0)"
| "truthy (JStr s) = (s \<noteq> [])"
| "truthy (JArr js) = (js \<noteq> [])"
| "truthy (JObj kvs) = (kvs \<noteq> [])"

text \<open>\<open>.get(key)\<close> of a dictionary, a null value being no value.\<close>

definition get_or_none :: "(string \<times> json) list \<Rightarrow> string \<Rightarrow> json option" where
  "get_or_none kvs k = (case map_of kvs k of Some JNull \<Rightarrow> None | v \<Rightarrow> v)"

text \<open>
  \<open>complete_json\<close> after the exchange: a message that is no object, a content that is no string and a usage that is no
  object end with an \<open>AttributeError\<close>.
\<close>

definition read_completion :: "unicode \<Rightarrow> int \<Rightarrow> utext \<Rightarrow> json option \<Rightarrow> call_error + CompletionResult" where
  "read_completion U latency text body =
     (case do { b \<leftarrow> body; choices \<leftarrow> json_item ''choices'' b; choice \<leftarrow> json_first choices; message \<leftarrow> json_item ''message'' choice; Some (b, choice, message) } of
        Some (JObj bkvs, JObj ckvs, JObj mkvs) \<Rightarrow>
          (let content = (case get_or_none mkvs ''content'' of Some c \<Rightarrow> if truthy c then c else JStr [] | None \<Rightarrow> JStr []);
               finish = get_or_none ckvs ''finish_reason''
           in if finish = Some (JStr (utext_of ''length'')) then Inl (GenAI (GenAIOutputError Truncated_Output))
              else case content of
                JStr s \<Rightarrow>
                  if ustrip U s = [] then Inl (GenAI (GenAIOutputError Empty_Output))
                  else (case (case get_or_none bkvs ''usage'' of Some u \<Rightarrow> if truthy u then u else JObj [] | None \<Rightarrow> JObj []) of
                      JObj ukvs \<Rightarrow> Inr \<lparr>cr_content = s, cr_prompt_tokens = get_or_none ukvs ''prompt_tokens'',
                        cr_completion_tokens = get_or_none ukvs ''completion_tokens'', cr_latency_ms = latency, cr_finish_reason = finish\<rparr>
                    | _ \<Rightarrow> Inl (Unexpected Uncaught))
              | _ \<Rightarrow> Inl (Unexpected Uncaught))
      | Some _ \<Rightarrow> Inl (Unexpected Uncaught)
      | None \<Rightarrow> Inl (GenAI (GenAIOutputError (Bad_Structure (take 300 text)))))"

fun complete_json :: "unicode \<Rightarrow> http_outcome \<Rightarrow> call_error + CompletionResult" where
  "complete_json U TimeoutException = Inl (GenAI (GenAIProviderError Timed_Out True))"
| "complete_json U TransportError = Inl (GenAI (GenAIProviderError Not_Connected True))"
| "complete_json U Other_Request_Error = Inl (Unexpected Uncaught)"
| "complete_json U (Response latency status text body) =
     (if status \<ge> 400
      then Inl (GenAI (GenAIProviderError (Http_Error status (take 300 text)) (status \<in> RETRYABLE_STATUS)))
      else read_completion U latency text body)"

section \<open>The contract of the output\<close>

record GeneratedQuestion =
  gq_category :: string
  gq_skill :: utext
  gq_difficulty :: string
  gq_question :: utext
  gq_purpose :: utext
  gq_expected_answer :: utext
  gq_evaluation_points :: "utext list"
  gq_red_flags :: "utext list"
  gq_follow_ups :: "utext list"
  gq_estimated_minutes :: nat

record GeneratedQuestionSet =
  gs_focus_summary :: utext
  gs_questions :: "GeneratedQuestion list"

definition MIN_QUESTIONS :: int where "MIN_QUESTIONS = 3"
definition MAX_QUESTIONS :: int where "MAX_QUESTIONS = 15"

definition QuestionCategory :: "string list" where
  "QuestionCategory = [''technical'', ''problem_solving'', ''system_design'', ''behavioral'', ''gap_probe'']"
definition QuestionDifficulty :: "string list" where "QuestionDifficulty = [''easy'', ''medium'', ''hard'']"

definition text_field :: "nat \<Rightarrow> nat \<Rightarrow> json option \<Rightarrow> utext option" where
  "text_field m n v = (case v of Some (JStr s) \<Rightarrow> if m \<le> length s \<and> length s \<le> n then Some s else None | _ \<Rightarrow> None)"

definition literal_field :: "string list \<Rightarrow> json option \<Rightarrow> string option" where
  "literal_field names v = (case v of Some (JStr s) \<Rightarrow> find (\<lambda>name. utext_of name = s) names | _ \<Rightarrow> None)"

definition texts_field :: "nat \<Rightarrow> nat \<Rightarrow> json option \<Rightarrow> utext list option" where
  "texts_field m n v =
     (case v of Some (JArr js) \<Rightarrow>
        if m \<le> length js \<and> length js \<le> n then those (map (\<lambda>j. case j of JStr s \<Rightarrow> Some s | _ \<Rightarrow> None) js) else None
      | _ \<Rightarrow> None)"

definition minutes_field :: "(json \<Rightarrow> int option) \<Rightarrow> json option \<Rightarrow> nat option" where
  "minutes_field lax_int v =
     (case v of None \<Rightarrow> None | Some j \<Rightarrow> (case lax_int j of Some n \<Rightarrow> if 1 \<le> n \<and> n \<le> 30 then Some (nat n) else None | None \<Rightarrow> None))"

definition QUESTION_FIELDS :: "string list" where
  "QUESTION_FIELDS = [''category'', ''skill'', ''difficulty'', ''question'', ''purpose'', ''expected_answer'', ''evaluation_points'',
     ''red_flags'', ''follow_ups'', ''estimated_minutes'']"

fun validate_question :: "(json \<Rightarrow> int option) \<Rightarrow> json \<Rightarrow> GeneratedQuestion option" where
  "validate_question lax_int (JObj kvs) =
     (if \<not> set (map fst kvs) \<subseteq> set QUESTION_FIELDS then None
      else do {
        category \<leftarrow> literal_field QuestionCategory (map_of kvs ''category'');
        skill \<leftarrow> text_field 1 100 (map_of kvs ''skill'');
        difficulty \<leftarrow> literal_field QuestionDifficulty (map_of kvs ''difficulty'');
        question \<leftarrow> text_field 10 1200 (map_of kvs ''question'');
        purpose \<leftarrow> text_field 5 600 (map_of kvs ''purpose'');
        answer \<leftarrow> text_field 10 2500 (map_of kvs ''expected_answer'');
        points \<leftarrow> texts_field 1 6 (map_of kvs ''evaluation_points'');
        flags \<leftarrow> texts_field 0 4 (map_of kvs ''red_flags'');
        follow \<leftarrow> texts_field 0 3 (map_of kvs ''follow_ups'');
        minutes \<leftarrow> minutes_field lax_int (map_of kvs ''estimated_minutes'');
        Some \<lparr>gq_category = category, gq_skill = skill, gq_difficulty = difficulty, gq_question = question, gq_purpose = purpose,
          gq_expected_answer = answer, gq_evaluation_points = points, gq_red_flags = flags, gq_follow_ups = follow,
          gq_estimated_minutes = minutes\<rparr> })"
| "validate_question lax_int _ = None"

fun validate_question_set :: "(json \<Rightarrow> int option) \<Rightarrow> json \<Rightarrow> GeneratedQuestionSet option" where
  "validate_question_set lax_int (JObj kvs) =
     (if \<not> set (map fst kvs) \<subseteq> {''focus_summary'', ''questions''} then None
      else do {
        summary \<leftarrow> text_field 10 1500 (map_of kvs ''focus_summary'');
        items \<leftarrow> (case map_of kvs ''questions'' of Some (JArr js) \<Rightarrow> Some js | _ \<Rightarrow> None);
        questions \<leftarrow> (if 1 \<le> length items \<and> int (length items) \<le> MAX_QUESTIONS then those (map (validate_question lax_int) items) else None);
        Some \<lparr>gs_focus_summary = summary, gs_questions = questions\<rparr> })"
| "validate_question_set lax_int _ = None"

text \<open>The code around JSON: a fence at the start and a fence at the end of the answer are removed.\<close>

definition CODE_FENCE_PATTERN :: "unicode \<Rightarrow> regex" where
  "CODE_FENCE_PATTERN U =
     (let spaces = Star (Cls (uc_space U))
      in Alt (seqs [At_Start, spaces, Lit ''```'', Opt (Lit_i U ''json''), spaces]) (seqs [spaces, Lit ''```'', spaces, At_End]))"

text \<open>The settings and the parameters of a generation.\<close>

record genai_env =
  ge_unicode :: unicode
  ge_parse_json :: "utext \<Rightarrow> json option"
  ge_lax_int :: "json \<Rightarrow> int option"
  ge_configured :: bool
  ge_model :: "string option"

definition parse_question_set :: "genai_env \<Rightarrow> utext \<Rightarrow> GeneratedQuestionSet option" where
  "parse_question_set E content =
     Option.bind (ge_parse_json E (re_sub (CODE_FENCE_PATTERN (ge_unicode E)) [] (ustrip (ge_unicode E) content)))
       (validate_question_set (ge_lax_int E))"

section \<open>A generation\<close>

text \<open>The messages of a call, by what their text is made of.\<close>

datatype llm_request =
    Ask input_profile "QuestionSlot list" string
  | Repair llm_request utext

record generation_options =
  go_question_count :: nat
  go_difficulty :: string
  go_focus_skills :: "utext list"
  go_language :: string

record GenerationResult =
  gr_question_set :: GeneratedQuestionSet
  gr_completion :: CompletionResult
  gr_repaired :: bool
  gr_plan :: "QuestionSlot list"

definition parse_for_plan :: "genai_env \<Rightarrow> utext \<Rightarrow> QuestionSlot list \<Rightarrow> GeneratedQuestionSet option" where
  "parse_for_plan E content plan =
     (case parse_question_set E content of
        Some q \<Rightarrow> if length (gs_questions q) < length plan then None else Some q
      | None \<Rightarrow> None)"

text \<open>\<open>_add\<close>: Python's sum of two counts, either of which the provider may leave out.\<close>

fun bool_number :: "json \<Rightarrow> json" where
  "bool_number (JBool b) = JInt (of_bool b)"
| "bool_number j = j"

fun py_add :: "json \<Rightarrow> json \<Rightarrow> json option" where
  "py_add (JInt a) (JInt b) = Some (JInt (a + b))"
| "py_add (JInt a) (JFloat b) = Some (JFloat (of_int a + b))"
| "py_add (JFloat a) (JInt b) = Some (JFloat (a + of_int b))"
| "py_add (JFloat a) (JFloat b) = Some (JFloat (a + b))"
| "py_add (JStr a) (JStr b) = Some (JStr (a @ b))"
| "py_add (JArr a) (JArr b) = Some (JArr (a @ b))"
| "py_add _ _ = None"

definition or_zero :: "json option \<Rightarrow> json" where
  "or_zero v = (case v of Some j \<Rightarrow> if truthy j then j else JInt 0 | None \<Rightarrow> JInt 0)"

definition add_counts :: "json option \<Rightarrow> json option \<Rightarrow> exc + json option" where
  "add_counts a b =
     (if a = None \<and> b = None then Inr None
      else case py_add (bool_number (or_zero a)) (bool_number (or_zero b)) of Some j \<Rightarrow> Inr (Some j) | None \<Rightarrow> Inl TypeError)"

definition total_completion :: "CompletionResult \<Rightarrow> CompletionResult \<Rightarrow> exc + CompletionResult" where
  "total_completion a b =
     (case add_counts (cr_prompt_tokens a) (cr_prompt_tokens b) of Inl e \<Rightarrow> Inl e
      | Inr p \<Rightarrow> (case add_counts (cr_completion_tokens a) (cr_completion_tokens b) of Inl e \<Rightarrow> Inl e
          | Inr c \<Rightarrow> Inr \<lparr>cr_content = cr_content b, cr_prompt_tokens = p, cr_completion_tokens = c,
              cr_latency_ms = cr_latency_ms a + cr_latency_ms b, cr_finish_reason = cr_finish_reason b\<rparr>))"

definition repair_questions ::
  "genai_env \<Rightarrow> (llm_request \<Rightarrow> http_outcome) \<Rightarrow> llm_request \<Rightarrow> QuestionSlot list \<Rightarrow> CompletionResult \<Rightarrow> call_error + GenerationResult" where
  "repair_questions E llm messages plan completion =
     (case complete_json (ge_unicode E) (llm (Repair messages (take 8000 (cr_content completion)))) of
        Inl e \<Rightarrow> Inl e
      | Inr second \<Rightarrow>
          (case parse_for_plan E (cr_content second) plan of
             None \<Rightarrow> Inl (GenAI (GenAIOutputError Invalid_Output))
           | Some q \<Rightarrow>
               (case total_completion completion second of
                  Inl e \<Rightarrow> Inl (Unexpected e)
                | Inr combined \<Rightarrow> Inr \<lparr>gr_question_set = q, gr_completion = combined, gr_repaired = True, gr_plan = plan\<rparr>)))"

definition generate_questions ::
  "genai_env \<Rightarrow> (llm_request \<Rightarrow> http_outcome) \<Rightarrow> input_profile \<Rightarrow> generation_options \<Rightarrow> call_error + GenerationResult" where
  "generate_questions E llm profile opts =
     (let plan = plan_questions (ge_unicode E) profile (go_question_count opts) (go_difficulty opts) (go_focus_skills opts);
          messages = Ask profile plan (go_language opts)
      in case complete_json (ge_unicode E) (llm messages) of
           Inl e \<Rightarrow> Inl e
         | Inr completion \<Rightarrow>
             (case parse_for_plan E (cr_content completion) plan of
                Some q \<Rightarrow> Inr \<lparr>gr_question_set = q, gr_completion = completion, gr_repaired = False, gr_plan = plan\<rparr>
              | None \<Rightarrow> repair_questions E llm messages plan completion))"

definition generate_with_settings ::
  "genai_env \<Rightarrow> (llm_request \<Rightarrow> http_outcome) \<Rightarrow> input_profile \<Rightarrow> generation_options \<Rightarrow> call_error + GenerationResult" where
  "generate_with_settings E llm profile opts =
     (if \<not> ge_configured E then Inl (GenAI GenAINotConfiguredError) else generate_questions E llm profile opts)"

end
