(* ===== verification/Task_Queue.thy ===== *)
theory Task_Queue
  imports ATS_Prelude
begin

text \<open>
  The queues of background work (app/core/queue.py): the policy of a task by the module of its function, the options of a
  job, single and bulk enqueueing, and the runs that a queue's retry policy gives a job. Redis is the list of the jobs
  it holds and, for each command sent to it, whether it answers.
\<close>

section \<open>Policies\<close>

record Retry =
  re_max :: nat
  re_interval :: "nat list"

record QueuePolicy =
  qp_queue_name :: string
  qp_job_timeout :: nat
  qp_retry :: Retry

definition QUEUE_NOTIFICATIONS :: string where "QUEUE_NOTIFICATIONS = ''notifications''"
definition QUEUE_BULK :: string where "QUEUE_BULK = ''bulk''"
definition QUEUE_RESUMES :: string where "QUEUE_RESUMES = ''resumes''"
definition QUEUE_GENAI :: string where "QUEUE_GENAI = ''genai''"
definition QUEUE_DEFAULT :: string where "QUEUE_DEFAULT = ''default''"

definition ALL_QUEUES :: "string list" where
  "ALL_QUEUES = [QUEUE_NOTIFICATIONS, QUEUE_RESUMES, QUEUE_GENAI, QUEUE_BULK, QUEUE_DEFAULT]"

definition RESULT_TTL_SECONDS :: nat where "RESULT_TTL_SECONDS = 600"
definition FAILURE_TTL_SECONDS :: nat where "FAILURE_TTL_SECONDS = 7 * 24 * 3600"

definition TRANSIENT_FAILURE_RETRY :: Retry where
  "TRANSIENT_FAILURE_RETRY = \<lparr>re_max = 3, re_interval = [30, 120, 600]\<rparr>"

definition NOTIFICATION_POLICY :: QueuePolicy where
  "NOTIFICATION_POLICY = \<lparr>qp_queue_name = QUEUE_NOTIFICATIONS, qp_job_timeout = 120, qp_retry = TRANSIENT_FAILURE_RETRY\<rparr>"
definition RESUME_POLICY :: QueuePolicy where
  "RESUME_POLICY = \<lparr>qp_queue_name = QUEUE_RESUMES, qp_job_timeout = 300, qp_retry = \<lparr>re_max = 2, re_interval = [60, 300]\<rparr>\<rparr>"
definition GENAI_POLICY :: QueuePolicy where
  "GENAI_POLICY = \<lparr>qp_queue_name = QUEUE_GENAI, qp_job_timeout = 600, qp_retry = \<lparr>re_max = 2, re_interval = [30, 120]\<rparr>\<rparr>"
definition DEFAULT_POLICY :: QueuePolicy where
  "DEFAULT_POLICY = \<lparr>qp_queue_name = QUEUE_DEFAULT, qp_job_timeout = 180, qp_retry = \<lparr>re_max = 2, re_interval = [30, 120]\<rparr>\<rparr>"

definition POLICY_BY_MODULE :: "(string \<times> QueuePolicy) list" where
  "POLICY_BY_MODULE = [(''app.tasks.notifications'', NOTIFICATION_POLICY), (''app.tasks.resume_processing'', RESUME_POLICY),
     (''app.tasks.genai'', GENAI_POLICY)]"

text \<open>A task is its function, by module and name.\<close>

type_synonym task = "string \<times> string"

definition policy_for :: "task \<Rightarrow> QueuePolicy" where
  "policy_for func = (case map_of POLICY_BY_MODULE (fst func) of Some p \<Rightarrow> p | None \<Rightarrow> DEFAULT_POLICY)"

section \<open>Jobs\<close>

record 'a queued_job =
  qj_func :: task
  qj_args :: 'a
  qj_queue :: string
  qj_retry :: Retry
  qj_timeout :: nat
  qj_result_ttl :: nat
  qj_failure_ttl :: nat

text \<open>The options of a call, each of which the caller may set.\<close>

record enqueue_kwargs =
  ek_queue_name :: "string option"
  ek_retry :: "Retry option"
  ek_job_timeout :: "nat option"
  ek_result_ttl :: "nat option"
  ek_failure_ttl :: "nat option"

definition no_kwargs :: enqueue_kwargs where
  "no_kwargs = \<lparr>ek_queue_name = None, ek_retry = None, ek_job_timeout = None, ek_result_ttl = None, ek_failure_ttl = None\<rparr>"

definition default_to :: "'a option \<Rightarrow> 'a \<Rightarrow> 'a" where
  "default_to v d = (case v of Some x \<Rightarrow> x | None \<Rightarrow> d)"

definition enqueue_options :: "task \<Rightarrow> enqueue_kwargs \<Rightarrow> 'a \<Rightarrow> 'a queued_job" where
  "enqueue_options func kwargs args =
     (let policy = policy_for func
      in \<lparr>qj_func = func, qj_args = args, qj_queue = default_to (ek_queue_name kwargs) (qp_queue_name policy),
          qj_retry = default_to (ek_retry kwargs) (qp_retry policy), qj_timeout = default_to (ek_job_timeout kwargs) (qp_job_timeout policy),
          qj_result_ttl = default_to (ek_result_ttl kwargs) RESULT_TTL_SECONDS,
          qj_failure_ttl = default_to (ek_failure_ttl kwargs) FAILURE_TTL_SECONDS\<rparr>)"

text \<open>\<open>up\<close>: does Redis answer; the identifier of the new job comes from RQ. A failure is logged and gives \<open>None\<close>.\<close>

definition enqueue_task :: "bool \<Rightarrow> string \<Rightarrow> task \<Rightarrow> enqueue_kwargs \<Rightarrow> 'a \<Rightarrow> 'a queued_job list \<Rightarrow> string option \<times> 'a queued_job list" where
  "enqueue_task up job_id func kwargs args broker =
     (if up then (Some job_id, broker @ [enqueue_options func kwargs args]) else (None, broker))"

definition BULK_CHUNK_SIZE :: nat where "BULK_CHUNK_SIZE = 500"

text \<open>\<open>up k\<close>: does Redis take the \<open>k\<close>-th pipeline; an exception (\<open>None\<close>) ends the loop.\<close>

function enqueue_chunks ::
  "(nat \<Rightarrow> bool) \<Rightarrow> nat \<Rightarrow> task \<Rightarrow> enqueue_kwargs \<Rightarrow> 'a list \<Rightarrow> 'a queued_job list \<Rightarrow> nat option \<times> 'a queued_job list" where
  "enqueue_chunks up k func kwargs args_list broker =
     (if args_list = [] then (Some 0, broker)
      else if \<not> up k then (None, broker)
      else (case enqueue_chunks up (Suc k) func kwargs (drop BULK_CHUNK_SIZE args_list)
              (broker @ map (enqueue_options func kwargs) (take BULK_CHUNK_SIZE args_list)) of
          (None, b) \<Rightarrow> (None, b)
        | (Some n, b) \<Rightarrow> (Some (length (take BULK_CHUNK_SIZE args_list) + n), b)))"
  by pat_completeness auto
termination
  by (relation "measure (\<lambda>(up, k, func, kwargs, args_list, broker). length args_list)") (auto simp: BULK_CHUNK_SIZE_def)

declare enqueue_chunks.simps [simp del]

definition enqueue_bulk :: "(nat \<Rightarrow> bool) \<Rightarrow> task \<Rightarrow> 'a list \<Rightarrow> string \<Rightarrow> 'a queued_job list \<Rightarrow> nat \<times> 'a queued_job list" where
  "enqueue_bulk up func args_list queue_name broker =
     (case enqueue_chunks up 0 func (no_kwargs\<lparr>ek_queue_name := Some queue_name\<rparr>) args_list broker of
        (Some n, b) \<Rightarrow> (n, b)
      | (None, b) \<Rightarrow> (0, b))"

section \<open>The runs of a job\<close>

text \<open>
  RQ runs a job; when it raises, it runs it again as often as the retry policy allows (\<open>left\<close>). A run sees its number and
  the world that the earlier runs left.
\<close>

fun run_attempts :: "nat \<Rightarrow> nat \<Rightarrow> (nat \<Rightarrow> 'w \<Rightarrow> ('e + 'r) \<times> 'w) \<Rightarrow> 'w \<Rightarrow> ('e + 'r) \<times> 'w" where
  "run_attempts 0 k job w = job k w"
| "run_attempts (Suc left) k job w =
     (case job k w of
        (Inr r, w') \<Rightarrow> (Inr r, w')
      | (Inl _, w') \<Rightarrow> run_attempts left (Suc k) job w')"

definition run_queued :: "Retry \<Rightarrow> (nat \<Rightarrow> 'w \<Rightarrow> ('e + 'r) \<times> 'w) \<Rightarrow> 'w \<Rightarrow> ('e + 'r) \<times> 'w" where
  "run_queued retry job w = run_attempts (re_max retry) 0 job w"

section \<open>Facts\<close>

lemma run_attempts_invariant:
  assumes "\<And>k w r w'. I w \<Longrightarrow> job k w = (r, w') \<Longrightarrow> I w'" and "I w"
  shows "I (snd (run_attempts left k job w))"
  using assms(2)
proof (induction left arbitrary: k w)
  case 0
  then show ?case using assms(1) by (metis prod.collapse run_attempts.simps(1))
next
  case (Suc left)
  obtain r w' where job: "job k w = (r, w')" by (cases "job k w")
  then have "I w'" using assms(1) Suc.prems by blast
  then show ?case using Suc.IH by (cases r) (simp_all add: job)
qed

text \<open>A job that gets better with each run: the measure of the work that is left falls until a run returns.\<close>

lemma run_attempts_returns:
  assumes fall: "\<And>k w e w'. I w \<Longrightarrow> job k w = (Inl e, w') \<Longrightarrow> I w' \<and> m w' < m w"
    and ends: "\<And>k w r w'. I w \<Longrightarrow> job k w = (Inr r, w') \<Longrightarrow> Q w'"
    and "I w" "m w \<le> left"
  shows "\<exists>r w'. run_attempts left k job w = (Inr r, w') \<and> Q w'"
  using assms(3, 4)
proof (induction left arbitrary: k w)
  case 0
  obtain r w' where job: "job k w = (r, w')" by (cases "job k w")
  show ?case using fall [OF \<open>I w\<close>, of k] ends [OF \<open>I w\<close>, of k] 0(2) by (cases r) (auto simp: job)
next
  case (Suc left)
  obtain r w' where job: "job k w = (r, w')" by (cases "job k w")
  show ?case
  proof (cases r)
    case (Inl e)
    then have "I w'" "m w' < m w" using fall [OF Suc.prems(1), of k] job by auto
    then show ?thesis using Suc.IH [of w' "Suc k"] Suc.prems(2) by (simp add: job Inl)
  next
    case (Inr a)
    then show ?thesis using ends [OF Suc.prems(1)] job by simp
  qed
qed

text \<open>The pipelines one after the other, and what they leave behind when the \<open>f\<close>-th one is the first to fail.\<close>

lemma enqueue_chunks_step:
  assumes "xs \<noteq> []" and "up k"
  shows "enqueue_chunks up k func kwargs xs broker =
    (case enqueue_chunks up (Suc k) func kwargs (drop BULK_CHUNK_SIZE xs) (broker @ map (enqueue_options func kwargs) (take BULK_CHUNK_SIZE xs)) of
        (None, b) \<Rightarrow> (None, b)
      | (Some n, b) \<Rightarrow> (Some (length (take BULK_CHUNK_SIZE xs) + n), b))"
  using assms by (subst enqueue_chunks.simps) (simp only: if_False not_True_eq_False simp_thms)

lemma enqueue_chunks_all:
  assumes "\<And>i. BULK_CHUNK_SIZE * i < length xs \<Longrightarrow> up (k + i)"
  shows "enqueue_chunks up k func kwargs xs broker = (Some (length xs), broker @ map (enqueue_options func kwargs) xs)"
  using assms
proof (induction "length xs" arbitrary: k xs broker rule: less_induct)
  case less
  show ?case
  proof (cases "xs = []")
    case False
    let ?o = "enqueue_options func kwargs"
    have "up k" using less.prems [of 0] False by simp
    have "length (drop BULK_CHUNK_SIZE xs) < length xs" using False by (simp add: BULK_CHUNK_SIZE_def)
    moreover have "up (Suc k + i)" if "BULK_CHUNK_SIZE * i < length (drop BULK_CHUNK_SIZE xs)" for i
      using less.prems [of "Suc i"] that by simp
    ultimately have "enqueue_chunks up (Suc k) func kwargs (drop BULK_CHUNK_SIZE xs) (broker @ map ?o (take BULK_CHUNK_SIZE xs))
        = (Some (length (drop BULK_CHUNK_SIZE xs)), (broker @ map ?o (take BULK_CHUNK_SIZE xs)) @ map ?o (drop BULK_CHUNK_SIZE xs))"
      by (rule less.hyps)
    moreover have "map ?o (take BULK_CHUNK_SIZE xs) @ map ?o (drop BULK_CHUNK_SIZE xs) = map ?o xs"
      by (metis append_take_drop_id map_append)
    ultimately show ?thesis
      unfolding enqueue_chunks_step [where up = up and k = k, OF False \<open>up k\<close>] by (simp add: min_def)
  qed (simp add: enqueue_chunks.simps)
qed

lemma enqueue_chunks_failing:
  assumes "BULK_CHUNK_SIZE * f < length xs" "\<not> up (k + f)" "\<And>i. i < f \<Longrightarrow> up (k + i)"
  shows "enqueue_chunks up k func kwargs xs broker = (None, broker @ map (enqueue_options func kwargs) (take (BULK_CHUNK_SIZE * f) xs))"
  using assms
proof (induction f arbitrary: k xs broker)
  case 0
  then show ?case by (subst enqueue_chunks.simps) auto
next
  case (Suc f)
  let ?o = "enqueue_options func kwargs"
  have "xs \<noteq> []" "up k" using Suc.prems(1) Suc.prems(3) [of 0] by auto
  have "BULK_CHUNK_SIZE * f < length (drop BULK_CHUNK_SIZE xs)" "\<not> up (Suc k + f)" using Suc.prems(1, 2) by simp_all
  moreover have "up (Suc k + i)" if "i < f" for i using Suc.prems(3) [of "Suc i"] that by simp
  ultimately have "enqueue_chunks up (Suc k) func kwargs (drop BULK_CHUNK_SIZE xs) (broker @ map ?o (take BULK_CHUNK_SIZE xs))
      = (None, (broker @ map ?o (take BULK_CHUNK_SIZE xs)) @ map ?o (take (BULK_CHUNK_SIZE * f) (drop BULK_CHUNK_SIZE xs)))"
    by (rule Suc.IH)
  moreover have "map ?o (take BULK_CHUNK_SIZE xs) @ map ?o (take (BULK_CHUNK_SIZE * f) (drop BULK_CHUNK_SIZE xs))
      = map ?o (take (BULK_CHUNK_SIZE * Suc f) xs)"
    by (simp add: take_add [symmetric] flip: map_append)
  ultimately show ?case
    unfolding enqueue_chunks_step [where up = up and k = k, OF \<open>xs \<noteq> []\<close> \<open>up k\<close>] by simp
qed

text \<open>
  When Redis takes every pipeline, a bulk call queues one job for each argument, in order and on the queue it was given, with the retry
  policy of the task, and returns their number. When a later pipeline is the first to fail, the call returns 0, although the
  jobs of the pipelines before it stay queued.
\<close>

theorem enqueue_bulk_spec:
  "((\<forall>i. BULK_CHUNK_SIZE * i < length xs \<longrightarrow> up i) \<longrightarrow>
      (\<exists>jobs. enqueue_bulk up func xs q broker = (length xs, broker @ jobs) \<and> map qj_args jobs = xs
        \<and> list_all (\<lambda>j. qj_queue j = q \<and> qj_func j = func \<and> qj_retry j = qp_retry (policy_for func)) jobs))
   \<and> (BULK_CHUNK_SIZE * f < length xs \<and> \<not> up f \<and> (\<forall>i < f. up i) \<longrightarrow>
      (\<exists>jobs. enqueue_bulk up func xs q broker = (0, broker @ jobs) \<and> map qj_args jobs = take (BULK_CHUNK_SIZE * f) xs))"
  (is "(?all \<longrightarrow> ?good) \<and> (?part \<longrightarrow> ?bad)")
proof -
  let ?o = "\<lambda>x. enqueue_options func (no_kwargs\<lparr>ek_queue_name := Some q\<rparr>) x"
  have opts: "qj_args (?o x) = x" "qj_queue (?o x) = q" "qj_func (?o x) = func" "qj_retry (?o x) = qp_retry (policy_for func)" for x
    by (simp_all add: enqueue_options_def no_kwargs_def default_to_def Let_def)
  have ?good if ?all
    using enqueue_chunks_all [of xs up 0] that
    by (intro exI [of _ "map ?o xs"]) (simp add: enqueue_bulk_def opts list_all_iff comp_def)
  moreover have ?bad if ?part
    using enqueue_chunks_failing [of f xs up 0] that
    by (intro exI [of _ "map ?o (take (BULK_CHUNK_SIZE * f) xs)"]) (simp add: enqueue_bulk_def opts comp_def)
  ultimately show ?thesis by blast
qed

theorem enqueue_bulk_spec_witness:
  "(\<exists>jobs. enqueue_bulk (\<lambda>_. True) (''app.tasks.notifications'', ''send_welcome_email_task'') [1 :: nat, 2] QUEUE_BULK [] = (length [1 :: nat, 2], [] @ jobs)
      \<and> map qj_args jobs = [1, 2]
      \<and> list_all (\<lambda>j. qj_queue j = QUEUE_BULK \<and> qj_func j = (''app.tasks.notifications'', ''send_welcome_email_task'')
          \<and> qj_retry j = qp_retry (policy_for (''app.tasks.notifications'', ''send_welcome_email_task''))) jobs)
    \<and> (\<exists>jobs. enqueue_bulk (\<lambda>k. k < 1) (''app.tasks.notifications'', ''send_welcome_email_task'') [0 ..< 700] QUEUE_BULK [] = (0, [] @ jobs)
        \<and> map qj_args jobs = take (BULK_CHUNK_SIZE * 1) [0 ..< 700])"
  by (intro conjI enqueue_bulk_spec [THEN conjunct1, THEN mp] enqueue_bulk_spec [THEN conjunct2, THEN mp]) (simp_all add: BULK_CHUNK_SIZE_def)

end
