(* ===== verification/Question_Sets.thy ===== *)
theory Question_Sets
  imports Question_Generation Interviews Task_Queue
begin

text \<open>
  The sets of interview questions: the endpoints (app/routers/genai.py), the requests' validators (app/schemas/genai.py), the profile of
  an application and the worker's job (app/genai/service.py). A text that PostgreSQL refuses (U+0000) is not modelled.
\<close>

section \<open>Rows that a request sees\<close>

definition select_question_sets :: "TenantContext \<Rightarrow> db \<Rightarrow> interview_question_set list" where
  "select_question_sets ctx d =
     filter (\<lambda>q. tenant_criterion ctx (qs_tenant_id q)
        \<and> rls_visible (context_parameters ctx) (question_sets_policies (context_parameters ctx)) R_SELECT q) (question_sets d)"

definition select_questions :: "TenantContext \<Rightarrow> db \<Rightarrow> interview_question list" where
  "select_questions ctx d =
     filter (\<lambda>q. tenant_criterion ctx (iq_tenant_id q)
        \<and> rls_visible (context_parameters ctx) (questions_policies (context_parameters ctx)) R_SELECT q) (questions d)"

section \<open>Requests\<close>

record generate_questions_request =
  gq_application_id :: uuid
  gq_question_count :: int
  gq_requested_difficulty :: string
  gq_focus_skills :: "utext list"
  gq_language :: string

definition clean_focus_skills :: "unicode \<Rightarrow> utext list \<Rightarrow> utext list" where
  "clean_focus_skills U texts =
     filter (\<lambda>s. s \<noteq> []) (first_occurrences (map (\<lambda>s. take 100 (ustrip U (strip_html_tags U s))) texts))"

definition GenerateQuestionsRequest :: "unicode \<Rightarrow> generate_questions_request \<Rightarrow> exc + generate_questions_request" where
  "GenerateQuestionsRequest U r =
     (if MIN_QUESTIONS \<le> gq_question_count r \<and> gq_question_count r \<le> MAX_QUESTIONS
         \<and> gq_requested_difficulty r \<in> {''mixed'', ''easy'', ''medium'', ''hard''} \<and> length (gq_focus_skills r) \<le> 10
         \<and> gq_language r \<in> {''fa'', ''en''}
      then Inr (r\<lparr>gq_focus_skills := clean_focus_skills U (gq_focus_skills r)\<rparr>) else Inl validation_error)"

text \<open>Each field of an update may be left out, and most may be null.\<close>

record question_update_request =
  qu_question :: "utext option option"
  qu_expected_answer :: "utext option option"
  qu_is_approved :: "bool option option"
  qu_interviewer_notes :: "utext option option"

definition bounded :: "nat \<Rightarrow> nat \<Rightarrow> utext option option \<Rightarrow> bool" where
  "bounded m n v = (case v of Some (Some t) \<Rightarrow> m \<le> length t \<and> length t \<le> n | _ \<Rightarrow> True)"

definition sanitized :: "unicode \<Rightarrow> utext option option \<Rightarrow> utext option option" where
  "sanitized U = map_option (map_option (\<lambda>t. ustrip U (strip_html_tags U t)))"

definition QuestionUpdateRequest :: "unicode \<Rightarrow> question_update_request \<Rightarrow> exc + question_update_request" where
  "QuestionUpdateRequest U r =
     (if bounded 10 1200 (qu_question r) \<and> bounded 10 2500 (qu_expected_answer r) \<and> bounded 0 2000 (qu_interviewer_notes r)
      then Inr \<lparr>qu_question = sanitized U (qu_question r), qu_expected_answer = sanitized U (qu_expected_answer r),
        qu_is_approved = qu_is_approved r, qu_interviewer_notes = sanitized U (qu_interviewer_notes r)\<rparr>
      else Inl validation_error)"

section \<open>The profile of an application\<close>

text \<open>\<open>jsonb_array_length(skill_analysis -> 'skills')\<close>, where a missing list counts as none.\<close>

fun skill_count :: "json \<Rightarrow> exc + nat" where
  "skill_count (JObj kvs) = (case map_of kvs ''skills'' of None \<Rightarrow> Inr 0 | Some (JArr js) \<Rightarrow> Inr (length js) | Some _ \<Rightarrow> Inl DataError)"
| "skill_count _ = Inr 0"

definition latest_processed_resume :: "TenantContext \<Rightarrow> db \<Rightarrow> uuid \<Rightarrow> uuid \<Rightarrow> exc + resume option" where
  "latest_processed_resume ctx d candidate_id tenant_id =
     (let rows = filter (\<lambda>r. r_candidate_id r = candidate_id \<and> r_tenant_id r = tenant_id \<and> r_skill_analysis r \<noteq> None) (select_resumes ctx d)
      in case collect (map (\<lambda>r. map_sum id (\<lambda>n. (n, r)) (skill_count (the (r_skill_analysis r)))) rows) of
           Inl e \<Rightarrow> Inl e
         | Inr counted \<Rightarrow> Inr (case sort_key (\<lambda>(n, r). (- int n, r_id r)) counted of [] \<Rightarrow> None | (_, r) # _ \<Rightarrow> Some r))"

text \<open>What the generator reads from the two JSON columns; a value of another shape than the analysers write raises.\<close>

definition texts_of :: "json option \<Rightarrow> utext list option" where
  "texts_of v = (case v of None \<Rightarrow> Some [] | Some JNull \<Rightarrow> Some []
     | Some (JArr js) \<Rightarrow> those (map (\<lambda>j. case j of JStr s \<Rightarrow> Some s | _ \<Rightarrow> None) js) | _ \<Rightarrow> None)"

definition text_of :: "json option \<Rightarrow> utext option" where
  "text_of v = (case v of Some (JStr s) \<Rightarrow> Some s | _ \<Rightarrow> None)"

definition number_of :: "json option \<Rightarrow> rat option" where
  "number_of v = (case v of None \<Rightarrow> Some 0 | Some JNull \<Rightarrow> Some 0 | Some (JInt n) \<Rightarrow> Some (of_int n) | Some (JFloat x) \<Rightarrow> Some x | _ \<Rightarrow> None)"

fun experience_item_of :: "json \<Rightarrow> experience_item option" where
  "experience_item_of (JObj kvs) = Some \<lparr>xi_job_title = text_of (map_of kvs ''job_title''), xi_duration = text_of (map_of kvs ''duration''),
     xi_is_valid = (case map_of kvs ''is_valid'' of None \<Rightarrow> True | Some v \<Rightarrow> truthy v), xi_flag_reason = text_of (map_of kvs ''flag_reason'')\<rparr>"
| "experience_item_of _ = None"

fun degree_of :: "json \<Rightarrow> utext option option" where
  "degree_of (JObj kvs) = Some (text_of (map_of kvs ''degree''))"
| "degree_of _ = None"

definition items_of :: "(json \<Rightarrow> 'a option) \<Rightarrow> json option \<Rightarrow> 'a list option" where
  "items_of f v = (case v of None \<Rightarrow> Some [] | Some JNull \<Rightarrow> Some [] | Some (JArr js) \<Rightarrow> those (map f js) | _ \<Rightarrow> None)"

definition fields_of :: "json option \<Rightarrow> (string \<times> json) list option" where
  "fields_of v = (case v of None \<Rightarrow> Some [] | Some JNull \<Rightarrow> Some [] | Some (JObj kvs) \<Rightarrow> Some kvs | _ \<Rightarrow> None)"

definition resume_data_of :: "resume option \<Rightarrow> resume_data option" where
  "resume_data_of resume = do {
     skill_analysis \<leftarrow> fields_of (Option.bind resume r_skill_analysis);
     parsed_data \<leftarrow> fields_of (Option.bind resume r_parsed_data);
     personal \<leftarrow> fields_of (map_of parsed_data ''personal_info'');
     known \<leftarrow> texts_of (map_of skill_analysis ''skills'');
     years \<leftarrow> number_of (map_of skill_analysis ''total_experience_years'');
     entries \<leftarrow> items_of experience_item_of (map_of skill_analysis ''experience_entries'');
     work \<leftarrow> items_of experience_item_of (map_of parsed_data ''work_experience'');
     degrees \<leftarrow> items_of degree_of (map_of parsed_data ''education'');
     Some \<lparr>rd_skills = known, rd_total_experience_years = years, rd_experience_entries = entries, rd_work_experience = work,
       rd_degrees = degrees, rd_name = text_of (map_of personal ''name''), rd_raw_text = Option.bind resume r_raw_text\<rparr> }"

definition job_posting_of :: "job \<Rightarrow> job_posting" where
  "job_posting_of j = \<lparr>jp_title = j_title j, jp_department = j_department j, jp_seniority = j_required_seniority j,
     jp_required_education = j_required_education j, jp_required_skills = default_to (j_skills_required j) [],
     jp_location = j_location j, jp_description = default_to (j_description j) []\<rparr>"

definition build_profile_for_application :: "unicode \<Rightarrow> TenantContext \<Rightarrow> db \<Rightarrow> application \<Rightarrow> exc + input_profile" where
  "build_profile_for_application U ctx d application =
     (case latest_processed_resume ctx d (a_candidate_id application) (a_tenant_id application) of
        Inl e \<Rightarrow> Inl e
      | Inr resume \<Rightarrow>
          (case (find (\<lambda>j. j_id j = a_job_id application) (select_jobs ctx d), resume_data_of resume) of
             (Some job, Some data) \<Rightarrow>
               (let candidate = find (\<lambda>c. c_id c = a_candidate_id application) (select_candidates ctx d)
                in Inr (build_input_profile U data (default_to (Option.bind candidate c_skills) []) (a_score_ai application) (job_posting_of job)))
           | _ \<Rightarrow> Inl Uncaught))"

text \<open>\<open>internal\<close>: the answer of the internal API, where it is enabled.\<close>

definition load_interview_profile ::
  "unicode \<Rightarrow> (application \<Rightarrow> exc + input_profile) option \<Rightarrow> TenantContext \<Rightarrow> db \<Rightarrow> application \<Rightarrow> exc + input_profile" where
  "load_interview_profile U internal ctx d application =
     (case internal of None \<Rightarrow> build_profile_for_application U ctx d application | Some fetch \<Rightarrow> fetch application)"

section \<open>The worker's job\<close>

definition MAX_ATTEMPTS :: nat where "MAX_ATTEMPTS = 3"

definition PROMPT_VERSION :: string where "PROMPT_VERSION = ''interview-questions/v1''"

definition update_set :: "TenantContext \<Rightarrow> uuid \<Rightarrow> (interview_question_set \<Rightarrow> interview_question_set) \<Rightarrow> db \<Rightarrow> exc + db" where
  "update_set ctx set_id f d =
     (case rls_update (context_parameters ctx) (question_sets_policies (context_parameters ctx)) qs_id set_id f (question_sets d) of
        Inl e \<Rightarrow> Inl e
      | Inr rows \<Rightarrow> Inr (d\<lparr>question_sets := rows\<rparr>))"

abbreviation worker_set :: "uuid \<Rightarrow> db \<Rightarrow> interview_question_set option" where
  "worker_set set_id d \<equiv> find (\<lambda>q. qs_id q = set_id) (select_question_sets SYSTEM_CONTEXT d)"

definition options_of :: "interview_question_set \<Rightarrow> generation_options" where
  "options_of q = \<lparr>go_question_count = qs_question_count q, go_difficulty = qs_difficulty q,
     go_focus_skills = qs_focus_skills q, go_language = qs_language q\<rparr>"

text \<open>The first transaction: the set is taken (or there is nothing to do), its profile is loaded and stored.\<close>

definition start_job ::
  "genai_env \<Rightarrow> (application \<Rightarrow> exc + input_profile) option \<Rightarrow> uuid \<Rightarrow> db \<Rightarrow>
   (call_error + (input_profile \<times> generation_options \<times> nat) option) \<times> db" where
  "start_job E internal set_id d =
     (case worker_set set_id d of
        None \<Rightarrow> (Inr None, d)
      | Some q \<Rightarrow>
          if qs_status q \<notin> {''pending'', ''processing''} then (Inr None, d)
          else
            (case find (\<lambda>a. a_id a = qs_application_id q) (select_applications SYSTEM_CONTEXT d) of
               None \<Rightarrow> (Inl (Unexpected Uncaught), d)
             | Some application \<Rightarrow>
                 (case load_interview_profile (ge_unicode E) internal SYSTEM_CONTEXT d application of
                    Inl e \<Rightarrow> (Inl (Unexpected e), d)
                  | Inr profile \<Rightarrow>
                      (case update_set SYSTEM_CONTEXT set_id (\<lambda>r. r\<lparr>qs_status := ''processing'', qs_attempts := qs_attempts q + 1,
                            qs_error := None, qs_input_profile := Some (profile, None), qs_prompt_version := PROMPT_VERSION,
                            qs_provider_model := ge_model E\<rparr>) d of
                         Inl e \<Rightarrow> (Inl (Unexpected e), d)
                       | Inr d' \<Rightarrow> (Inr (Some (profile, options_of q, qs_attempts q + 1)), d')))))"

text \<open>The second transaction after a \<open>GenAIError\<close>.\<close>

definition record_failure :: "uuid \<Rightarrow> time \<Rightarrow> nat \<Rightarrow> genai_error \<Rightarrow> db \<Rightarrow> (call_error + unit) \<times> db" where
  "record_failure set_id now attempts err d =
     (let final = (\<not> retryable err \<or> attempts \<ge> MAX_ATTEMPTS)
      in case worker_set set_id d of
           None \<Rightarrow> (Inl (Unexpected Uncaught), d)
         | Some q \<Rightarrow>
             (case update_set SYSTEM_CONTEXT set_id (\<lambda>r. r\<lparr>qs_status := (if final then ''failed'' else ''pending''),
                  qs_error := Some (error_text err), qs_completed_at := (if final then Some now else qs_completed_at q)\<rparr>) d of
                Inl e \<Rightarrow> (Inl (Unexpected e), d)
              | Inr d' \<Rightarrow> (if final then Inr () else Inl (GenAI err), d')))"

text \<open>A value bound to an INTEGER column.\<close>

definition db_integer :: "json option \<Rightarrow> exc + int option" where
  "db_integer v =
     (case map_option bool_number v of
        None \<Rightarrow> Inr None
      | Some (JInt n) \<Rightarrow> if - (2 ^ 31) \<le> n \<and> n < 2 ^ 31 then Inr (Some n) else Inl DataError
      | Some _ \<Rightarrow> Inl DataError)"

definition question_row :: "interview_question_set \<Rightarrow> uuid \<Rightarrow> nat \<Rightarrow> GeneratedQuestion \<Rightarrow> interview_question" where
  "question_row q new_id position item =
     \<lparr>iq_id = new_id, iq_tenant_id = qs_tenant_id q, iq_question_set_id = qs_id q, iq_position = position,
      iq_category = gq_category item, iq_skill = gq_skill item, iq_difficulty = gq_difficulty item,
      iq_question = gq_question item, iq_purpose = gq_purpose item, iq_expected_answer = gq_expected_answer item,
      iq_evaluation_points = gq_evaluation_points item, iq_red_flags = gq_red_flags item, iq_follow_ups = gq_follow_ups item,
      iq_estimated_minutes = gq_estimated_minutes item, iq_is_approved = False, iq_interviewer_notes = None,
      iq_updated_by = None, iq_updated_at = None\<rparr>"

text \<open>The rows of the flush, under the primary key and the unique index on the set and the position.\<close>

fun insert_questions :: "interview_question list \<Rightarrow> interview_question list \<Rightarrow> exc + interview_question list" where
  "insert_questions [] rows = Inr rows"
| "insert_questions (r # rs) rows =
     (if list_ex (\<lambda>x. iq_question_set_id x = iq_question_set_id r \<and> iq_position x = iq_position r) rows then Inl IntegrityError
      else (case rls_insert (context_parameters SYSTEM_CONTEXT) (questions_policies (context_parameters SYSTEM_CONTEXT)) iq_id r rows of
          Inl e \<Rightarrow> Inl e
        | Inr rows' \<Rightarrow> insert_questions rs rows'))"

text \<open>The second transaction after a success.\<close>

definition store_questions :: "uuid \<Rightarrow> time \<Rightarrow> (nat \<Rightarrow> uuid) \<Rightarrow> input_profile \<Rightarrow> GenerationResult \<Rightarrow> db \<Rightarrow> (call_error + unit) \<times> db" where
  "store_questions set_id now new_id profile result d =
     (case worker_set set_id d of
        None \<Rightarrow> (Inl (Unexpected Uncaught), d)
      | Some q \<Rightarrow>
          (let items = take (qs_question_count q) (gs_questions (gr_question_set result));
               rows = map (\<lambda>(position, item). question_row q (new_id position) position item) (enumerate 1 items);
               completion = gr_completion result
           in case collect (map db_integer [cr_prompt_tokens completion, cr_completion_tokens completion, Some (JInt (cr_latency_ms completion))]) of
                Inl e \<Rightarrow> (Inl (Unexpected e), d)
              | Inr counts \<Rightarrow>
                  (case update_set SYSTEM_CONTEXT set_id (\<lambda>r. r\<lparr>qs_status := ''completed'', qs_input_profile := Some (profile, Some (gr_plan result)),
                       qs_focus_summary := Some (gs_focus_summary (gr_question_set result)), qs_prompt_tokens := counts ! 0,
                       qs_completion_tokens := counts ! 1, qs_latency_ms := counts ! 2, qs_completed_at := Some now\<rparr>) d of
                     Inl e \<Rightarrow> (Inl (Unexpected e), d)
                   | Inr d' \<Rightarrow>
                       (case insert_questions rows (questions d') of
                          Inl e \<Rightarrow> (Inl (Unexpected e), d)
                        | Inr qs \<Rightarrow> (Inr (), d'\<lparr>questions := qs\<rparr>)))))"

text \<open>A run of the job; \<open>meanwhile\<close> is what other transactions do while the model answers.\<close>

record job_run =
  run_internal :: "(application \<Rightarrow> exc + input_profile) option"
  run_llm :: "llm_request \<Rightarrow> http_outcome"
  run_meanwhile :: "db \<Rightarrow> db"
  run_now :: time
  run_new_id :: "nat \<Rightarrow> uuid"

definition run_question_set_job :: "genai_env \<Rightarrow> uuid \<Rightarrow> job_run \<Rightarrow> db \<Rightarrow> (call_error + unit) \<times> db" where
  "run_question_set_job E set_id run d =
     (case start_job E (run_internal run) set_id d of
        (Inl e, d1) \<Rightarrow> (Inl e, d1)
      | (Inr None, d1) \<Rightarrow> (Inr (), d1)
      | (Inr (Some (profile, opts, attempts)), d1) \<Rightarrow>
          (let d2 = run_meanwhile run d1
           in case generate_with_settings E (run_llm run) profile opts of
                Inl (GenAI err) \<Rightarrow> record_failure set_id (run_now run) attempts err d2
              | Inl (Unexpected e) \<Rightarrow> (Inl (Unexpected e), d2)
              | Inr result \<Rightarrow> store_questions set_id (run_now run) (run_new_id run) profile result d2))"

text \<open>The job in its queue: the runs that the queue's policy gives it.\<close>

definition genai_task :: task where "genai_task = (''app.tasks.genai'', ''generate_interview_questions_task'')"

definition question_set_runs :: "genai_env \<Rightarrow> uuid \<Rightarrow> (nat \<Rightarrow> job_run) \<Rightarrow> db \<Rightarrow> (call_error + unit) \<times> db" where
  "question_set_runs E set_id runs d =
     run_queued (qp_retry (policy_for genai_task)) (\<lambda>k. run_question_set_job E set_id (runs k)) d"

end
