(* ===== verification/Question_Api.thy ===== *)
theory Question_Api
  imports Question_Sets Listings
begin

text \<open>The endpoints of the question bank (app/routers/genai.py).\<close>

definition MANAGER_ROLES :: "string list" where "MANAGER_ROLES = [''Admin'', ''HR_Manager'']"
definition REVIEWER_ROLES :: "string list" where "REVIEWER_ROLES = [''Admin'', ''HR_Manager'', ''Interviewer'']"

definition ensure_role :: "user \<Rightarrow> string list \<Rightarrow> exc + unit" where
  "ensure_role u roles = (if u_role u \<notin> set roles then Inl (HTTPException 403 Forbidden_Role) else Inr ())"

definition ensure_can_review :: "TenantContext \<Rightarrow> db \<Rightarrow> user \<Rightarrow> uuid \<Rightarrow> exc + unit" where
  "ensure_can_review ctx d u application_id =
     (case ensure_role u REVIEWER_ROLES of
        Inl e \<Rightarrow> Inl e
      | Inr _ \<Rightarrow>
          if u_role u = ''Interviewer''
             \<and> \<not> list_ex (\<lambda>i. i_application_id i = application_id \<and> i_interviewer_id i = u_id u) (select_interviews ctx d)
          then Inl (HTTPException 403 Forbidden_Role) else Inr ())"

text \<open>A set with its questions in the order of their positions.\<close>

definition questions_of :: "TenantContext \<Rightarrow> db \<Rightarrow> uuid \<Rightarrow> interview_question list" where
  "questions_of ctx d set_id = sort_key iq_position (filter (\<lambda>q. iq_question_set_id q = set_id) (select_questions ctx d))"

definition load_set :: "TenantContext \<Rightarrow> db \<Rightarrow> uuid \<Rightarrow> exc + interview_question_set" where
  "load_set ctx d set_id =
     (case scalar_one_or_none (filter (\<lambda>q. qs_id q = set_id) (select_question_sets ctx d)) of
        Inl e \<Rightarrow> Inl e
      | Inr None \<Rightarrow> Inl (HTTPException 404 Question_Set_Not_Found)
      | Inr (Some q) \<Rightarrow> Inr q)"

text \<open>\<open>up\<close>: does the queue take the job; \<open>genai_enabled\<close>: are the address and the name of a model configured.\<close>

definition request_question_set ::
  "TenantContext \<Rightarrow> user \<Rightarrow> bool \<Rightarrow> time \<Rightarrow> uuid \<Rightarrow> bool \<Rightarrow> string \<Rightarrow> generate_questions_request \<Rightarrow>
   db \<times> uuid queued_job list \<Rightarrow> (exc + uuid) \<times> db \<times> uuid queued_job list" where
  "request_question_set ctx current_user genai_enabled now new_id up job_id payload w =
     (let (d, broker) = w; s = context_parameters ctx in
      case ensure_role current_user MANAGER_ROLES of
        Inl e \<Rightarrow> (Inl e, d, broker)
      | Inr _ \<Rightarrow>
      if \<not> genai_enabled then (Inl (HTTPException 503 Genai_Not_Configured), d, broker) else
     (case find (\<lambda>a. a_id a = gq_application_id payload) (select_applications ctx d) of
        None \<Rightarrow> (Inl (HTTPException 404 Application_Not_Found), d, broker)
      | Some application \<Rightarrow>
     (case latest_processed_resume ctx d (a_candidate_id application) (a_tenant_id application) of
        Inl e \<Rightarrow> (Inl e, d, broker)
      | Inr None \<Rightarrow> (Inl (HTTPException 409 Resume_Not_Processed), d, broker)
      | Inr (Some _) \<Rightarrow>
     (case stamped ctx None of
        Inl e \<Rightarrow> (Inl e, d, broker)
      | Inr t \<Rightarrow>
     (let question_set = \<lparr>qs_id = new_id, qs_tenant_id = t, qs_application_id = a_id application, qs_job_id = a_job_id application,
            qs_candidate_id = a_candidate_id application, qs_requested_by = u_id current_user, qs_status = ''pending'',
            qs_language = gq_language payload, qs_question_count = nat (gq_question_count payload),
            qs_difficulty = gq_requested_difficulty payload, qs_focus_skills = gq_focus_skills payload,
            qs_prompt_version = PROMPT_VERSION, qs_provider_model = None, qs_input_profile = None, qs_focus_summary = None,
            qs_error = None, qs_prompt_tokens = None, qs_completion_tokens = None, qs_latency_ms = None, qs_attempts = 0,
            qs_created_at = now, qs_completed_at = None\<rparr>
      in case rls_insert s (question_sets_policies s) qs_id question_set (question_sets d) of
           Inl e \<Rightarrow> (Inl e, d, broker)
         | Inr rows \<Rightarrow>
             (let d1 = d\<lparr>question_sets := rows\<rparr>;
                  (queued, broker1) = enqueue_task up job_id genai_task no_kwargs new_id broker
              in if queued = None
                 then (case update_set ctx new_id (\<lambda>q. q\<lparr>qs_status := ''failed'', qs_error := Some Queue_Unavailable,
                           qs_completed_at := Some now\<rparr>) d1 of
                         Inl e \<Rightarrow> (Inl e, d1, broker1)
                       | Inr d2 \<Rightarrow> (Inl (HTTPException 503 Queue_Down), d2, broker1))
                 else (Inr new_id, d1, broker1)))))))"

definition list_question_sets ::
  "unicode \<Rightarrow> 'tok codec \<Rightarrow> TenantContext \<Rightarrow> user \<Rightarrow> uuid \<Rightarrow> 'tok CursorParams \<Rightarrow> db \<Rightarrow>
   exc + (interview_question_set \<times> interview_question list, 'tok) CursorPage" where
  "list_question_sets U C ctx current_user application_id page d =
     (case ensure_can_review ctx d current_user application_id of
        Inl e \<Rightarrow> Inl e
      | Inr _ \<Rightarrow>
          map_sum id (map_page (\<lambda>q. (q, questions_of ctx d (qs_id q))))
            (paginate_by_cursor U C timestamp_column (\<lambda>q. (NotNull (qs_created_at q), qs_id q)) True page
               (filter (\<lambda>q. qs_application_id q = application_id) (select_question_sets ctx d))))"

definition get_question_set ::
  "TenantContext \<Rightarrow> user \<Rightarrow> uuid \<Rightarrow> db \<Rightarrow> exc + interview_question_set \<times> interview_question list" where
  "get_question_set ctx current_user set_id d =
     (case ensure_role current_user REVIEWER_ROLES of
        Inl e \<Rightarrow> Inl e
      | Inr _ \<Rightarrow>
     (case load_set ctx d set_id of
        Inl e \<Rightarrow> Inl e
      | Inr q \<Rightarrow>
     (case ensure_can_review ctx d current_user (qs_application_id q) of
        Inl e \<Rightarrow> Inl e
      | Inr _ \<Rightarrow> Inr (q, questions_of ctx d (qs_id q)))))"

text \<open>The fields of an update on the row: a null question or answer is passed over, a null approval reaches the column.\<close>

definition apply_review :: "question_update_request \<Rightarrow> interview_question \<Rightarrow> interview_question" where
  "apply_review payload q =
     (let q1 = (case qu_question payload of Some (Some t) \<Rightarrow> q\<lparr>iq_question := t\<rparr> | _ \<Rightarrow> q);
          q2 = (case qu_expected_answer payload of Some (Some t) \<Rightarrow> q1\<lparr>iq_expected_answer := t\<rparr> | _ \<Rightarrow> q1);
          q3 = (case qu_is_approved payload of Some (Some b) \<Rightarrow> q2\<lparr>iq_is_approved := b\<rparr> | _ \<Rightarrow> q2)
      in case qu_interviewer_notes payload of Some t \<Rightarrow> q3\<lparr>iq_interviewer_notes := t\<rparr> | None \<Rightarrow> q3)"

definition update_question ::
  "TenantContext \<Rightarrow> user \<Rightarrow> time \<Rightarrow> uuid \<Rightarrow> uuid \<Rightarrow> question_update_request \<Rightarrow> db \<Rightarrow> (exc + interview_question) \<times> db" where
  "update_question ctx current_user now set_id question_id payload d =
     (let s = context_parameters ctx in
      case ensure_role current_user REVIEWER_ROLES of
        Inl e \<Rightarrow> (Inl e, d)
      | Inr _ \<Rightarrow>
     (case load_set ctx d set_id of
        Inl e \<Rightarrow> (Inl e, d)
      | Inr question_set \<Rightarrow>
     (case ensure_can_review ctx d current_user (qs_application_id question_set) of
        Inl e \<Rightarrow> (Inl e, d)
      | Inr _ \<Rightarrow>
     (case find (\<lambda>q. iq_id q = question_id) (questions_of ctx d (qs_id question_set)) of
        None \<Rightarrow> (Inl (HTTPException 404 Question_Not_Found), d)
      | Some question \<Rightarrow>
          if qu_is_approved payload = Some None then (Inl IntegrityError, d)
          else
            (let stored = (apply_review payload question)\<lparr>iq_updated_by := Some (u_id current_user), iq_updated_at := Some now\<rparr>
             in case rls_update s (questions_policies s) iq_id question_id (\<lambda>_. stored) (questions d) of
                  Inl e \<Rightarrow> (Inl e, d)
                | Inr rows \<Rightarrow> (Inr stored, d\<lparr>questions := rows\<rparr>))))))"

record question_bank_item =
  bi_question :: interview_question
  bi_question_set_id :: uuid
  bi_job_id :: uuid

definition truthy_text :: "'a list option \<Rightarrow> bool" where
  "truthy_text v \<longleftrightarrow> v \<noteq> None \<and> v \<noteq> Some []"

text \<open>The filters of the bank; the database lowers the stored skill, Python the one that is asked for.\<close>

definition bank_query :: "unicode \<Rightarrow> TenantContext \<Rightarrow> utext option \<Rightarrow> string option \<Rightarrow> string option \<Rightarrow> db \<Rightarrow> interview_question list" where
  "bank_query U ctx skill difficulty category d =
     filter (\<lambda>q. iq_is_approved q
        \<and> (truthy_text skill \<longrightarrow> uc_lower U (iq_skill q) = uc_lower U (ustrip U (the skill)))
        \<and> (truthy_text difficulty \<longrightarrow> Some (iq_difficulty q) = difficulty)
        \<and> (truthy_text category \<longrightarrow> Some (iq_category q) = category)) (select_questions ctx d)"

definition search_question_bank ::
  "unicode \<Rightarrow> 'tok codec \<Rightarrow> TenantContext \<Rightarrow> user \<Rightarrow> utext option \<Rightarrow> string option \<Rightarrow> string option \<Rightarrow> 'tok CursorParams \<Rightarrow> db \<Rightarrow>
   exc + (question_bank_item, 'tok) CursorPage" where
  "search_question_bank U C ctx current_user skill difficulty category page d =
     (case ensure_role current_user REVIEWER_ROLES of
        Inl e \<Rightarrow> Inl e
      | Inr _ \<Rightarrow>
     (case paginate_by_cursor U C (uuid_column C) (\<lambda>q. (NotNull (iq_id q), iq_id q)) True page
             (bank_query U ctx skill difficulty category d) of
        Inl e \<Rightarrow> Inl e
      | Inr p \<Rightarrow>
     (case collect (map (\<lambda>q. case find (\<lambda>s. qs_id s = iq_question_set_id q) (select_question_sets ctx d) of
             None \<Rightarrow> Inl Uncaught
           | Some s \<Rightarrow> Inr \<lparr>bi_question = q, bi_question_set_id = iq_question_set_id q, bi_job_id = qs_job_id s\<rparr>) (pg_items p)) of
        Inl e \<Rightarrow> Inl e
      | Inr items \<Rightarrow> Inr \<lparr>pg_items = items, pg_next_cursor = pg_next_cursor p, pg_previous_cursor = pg_previous_cursor p,
          pg_has_next = pg_has_next p, pg_has_previous = pg_has_previous p\<rparr>)))"

end
