(* ===== verification/Question_Properties.thy ===== *)
theory Question_Properties
  imports Question_Api
begin

text \<open>Facts about the sets of interview questions: the job ends, the bank stays well formed, and no organisation reads another's.\<close>

section \<open>The worker sees every row\<close>

declare criterion_system [simp] visible_system [simp]

lemma select_system [simp]:
  "select_question_sets SYSTEM_CONTEXT d = question_sets d" "select_applications SYSTEM_CONTEXT d = applications d"
  "select_resumes SYSTEM_CONTEXT d = resumes d" "select_jobs SYSTEM_CONTEXT d = jobs d" "select_candidates SYSTEM_CONTEXT d = candidates d"
  by (simp_all add: select_question_sets_def select_applications_def rls_applications_def select_resumes_def select_jobs_def rls_jobs_def
      select_candidates_def)

lemma update_set_system:
  "update_set SYSTEM_CONTEXT i f d =
     (if list_ex (\<lambda>q. qs_id q = i) (question_sets d)
      then Inr (d\<lparr>question_sets := update_where (\<lambda>q. qs_id q = i) f (question_sets d)\<rparr>) else Inl StaleDataError)"
  by (simp add: update_set_def rls_update_def Let_def list_all_iff)

lemma find_list_ex: "find P xs = Some x \<Longrightarrow> list_ex P xs"
  using find_member by (fastforce simp: list_ex_iff)

lemma find_update_where:
  assumes "\<And>x. P (f x) = P x"
  shows "find P (update_where P f xs) = map_option f (find P xs)"
  using assms by (induction xs) (auto simp: update_where_def)

lemma update_found:
  assumes "find (\<lambda>q. qs_id q = i) (question_sets d) = Some q" and "\<And>q. qs_id (f q) = qs_id q"
  shows "\<exists>d'. update_set SYSTEM_CONTEXT i f d = Inr d' \<and> find (\<lambda>q. qs_id q = i) (question_sets d') = Some (f q)
    \<and> d' = d\<lparr>question_sets := update_where (\<lambda>q. qs_id q = i) f (question_sets d)\<rparr>"
  using assms find_list_ex [OF assms(1)] find_update_where [of "\<lambda>q. qs_id q = i" f "question_sets d"]
  by (simp add: update_set_system)

section \<open>The job ends\<close>

lemma parse_for_plan_enough: "parse_for_plan E c plan = Some g \<Longrightarrow> length plan \<le> length (gs_questions g)"
  by (auto simp: parse_for_plan_def split: option.splits if_splits)

lemma generate_enough:
  assumes "generate_with_settings E llm p opts = Inr r"
  shows "go_question_count opts \<le> length (gs_questions (gr_question_set r))"
proof -
  let ?plan = "plan_questions (ge_unicode E) p (go_question_count opts) (go_difficulty opts) (go_focus_skills opts)"
  have "length ?plan \<le> length (gs_questions (gr_question_set r))"
    using assms parse_for_plan_enough [of E _ ?plan]
    by (auto simp: generate_with_settings_def generate_questions_def repair_questions_def Let_def split: if_splits sum.splits option.splits)
  then show ?thesis by (simp add: plan_questions_length)
qed

text \<open>The rows of a flush all go in when their keys and positions are new.\<close>

lemma insert_questions_new:
  assumes "distinct (map iq_id rs)" "set (map iq_id rs) \<inter> set (map iq_id rows) = {}"
    and "distinct (map iq_position rs)" "\<And>r. r \<in> set rs \<Longrightarrow> iq_question_set_id r = i"
    and "\<And>x. x \<in> set rows \<Longrightarrow> iq_question_set_id x = i \<Longrightarrow> iq_position x \<notin> set (map iq_position rs)"
  shows "insert_questions rs rows = Inr (rows @ rs)"
  using assms
proof (induction rs arbitrary: rows)
  case (Cons r rs)
  have free: "\<not> list_ex (\<lambda>x. iq_question_set_id x = iq_question_set_id r \<and> iq_position x = iq_position r) rows"
    using Cons.prems(5) Cons.prems(4) [of r] unfolding list_ex_iff by (metis list.set_intros(1) list.simps(9))
  have "insert_questions rs (rows @ [r]) = Inr ((rows @ [r]) @ rs)"
  proof (rule Cons.IH)
    show "distinct (map iq_id rs)" using Cons.prems(1) by simp
    show "set (map iq_id rs) \<inter> set (map iq_id (rows @ [r])) = {}" using Cons.prems(1, 2) by auto
    show "distinct (map iq_position rs)" using Cons.prems(3) by simp
    show "iq_question_set_id x = i" if "x \<in> set rs" for x by (rule Cons.prems(4)) (simp add: that)
    show "iq_position x \<notin> set (map iq_position rs)" if x: "x \<in> set (rows @ [r])" "iq_question_set_id x = i" for x
    proof (cases "x = r")
      case True
      then show ?thesis using Cons.prems(3) by simp
    next
      case False
      then show ?thesis using Cons.prems(5) [of x] x by simp
    qed
  qed
  moreover have "rls_insert (context_parameters SYSTEM_CONTEXT) (questions_policies (context_parameters SYSTEM_CONTEXT)) iq_id r rows = Inr (rows @ [r])"
    using Cons.prems(2) by (auto simp: rls_insert_def insert_row_def)
  ultimately show ?case using free by simp
qed simp

text \<open>A profile does not depend on the sets of questions.\<close>

lemma latest_resume_system:
  "resumes d = resumes d' \<Longrightarrow> latest_processed_resume SYSTEM_CONTEXT d c t = latest_processed_resume SYSTEM_CONTEXT d' c t"
  by (simp add: latest_processed_resume_def)

lemma profile_system:
  assumes "resumes d = resumes d'" "jobs d = jobs d'" "candidates d = candidates d'"
  shows "load_interview_profile U internal SYSTEM_CONTEXT d a = load_interview_profile U internal SYSTEM_CONTEXT d' a"
  by (simp only: load_interview_profile_def build_profile_for_application_def latest_resume_system [OF assms(1)] select_system assms)

lemma profile_without_sets [simp]:
  "load_interview_profile U internal SYSTEM_CONTEXT (d\<lparr>question_sets := qs\<rparr>) a = load_interview_profile U internal SYSTEM_CONTEXT d a"
  by (rule profile_system) simp_all

text \<open>
  A run whose profile loads, whose call of the model ends with a result that the database takes or with a \<open>GenAIError\<close>, and that no other
  transaction disturbs.
\<close>

definition calm_run :: "genai_env \<Rightarrow> db \<Rightarrow> application \<Rightarrow> job_run \<Rightarrow> bool" where
  "calm_run E d a run \<longleftrightarrow> run_meanwhile run = id
     \<and> (\<exists>p. load_interview_profile (ge_unicode E) (run_internal run) SYSTEM_CONTEXT d a = Inr p)
     \<and> (\<forall>p opts. case generate_with_settings E (run_llm run) p opts of
          Inl (Unexpected e) \<Rightarrow> False
        | Inl (GenAI e) \<Rightarrow> True
        | Inr r \<Rightarrow> isl (collect (map db_integer [cr_prompt_tokens (gr_completion r), cr_completion_tokens (gr_completion r),
            Some (JInt (cr_latency_ms (gr_completion r)))])) = False)
     \<and> inj (run_new_id run) \<and> range (run_new_id run) \<inter> iq_id ` set (questions d) = {}"

text \<open>What holds before each run: only the table of the sets has changed, and the set waits.\<close>

definition set_waits :: "uuid \<Rightarrow> application \<Rightarrow> db \<Rightarrow> nat \<Rightarrow> db \<Rightarrow> bool" where
  "set_waits i a d0 n d \<longleftrightarrow> d = d0\<lparr>question_sets := question_sets d\<rparr>
     \<and> (\<exists>q. find (\<lambda>q. qs_id q = i) (question_sets d) = Some q \<and> qs_status q \<in> {''pending'', ''processing''}
           \<and> qs_question_count q = n \<and> find (\<lambda>a. a_id a = qs_application_id q) (applications d0) = Some a)"

definition attempts_left :: "uuid \<Rightarrow> db \<Rightarrow> nat" where
  "attempts_left i d = (case find (\<lambda>q. qs_id q = i) (question_sets d) of None \<Rightarrow> 0 | Some q \<Rightarrow> MAX_ATTEMPTS - 1 - qs_attempts q)"

text \<open>What holds after the last one.\<close>

definition set_ended :: "uuid \<Rightarrow> db \<Rightarrow> nat \<Rightarrow> db \<Rightarrow> bool" where
  "set_ended i d0 n d \<longleftrightarrow> (\<exists>q. find (\<lambda>q. qs_id q = i) (question_sets d) = Some q \<and> qs_completed_at q \<noteq> None
     \<and> (qs_status q = ''failed'' \<and> qs_error q \<noteq> None \<and> questions d = questions d0
        \<or> qs_status q = ''completed'' \<and> (\<exists>rows. questions d = questions d0 @ rows \<and> map iq_position rows = [1 ..< Suc n]
             \<and> list_all (\<lambda>r. iq_question_set_id r = i \<and> \<not> iq_is_approved r) rows)))"

lemma start_job_waits:
  assumes w: "set_waits i a d0 n d" and calm: "calm_run E d0 a run"
  shows "\<exists>p opts k d1 q1. start_job E (run_internal run) i d = (Inr (Some (p, opts, k)), d1)
    \<and> d1 = d0\<lparr>question_sets := question_sets d1\<rparr> \<and> find (\<lambda>q. qs_id q = i) (question_sets d1) = Some q1
    \<and> qs_status q1 = ''processing'' \<and> qs_question_count q1 = n \<and> go_question_count opts = n \<and> qs_attempts q1 = k
    \<and> find (\<lambda>a. a_id a = qs_application_id q1) (applications d0) = Some a
    \<and> attempts_left i d = MAX_ATTEMPTS - 1 - (k - 1) \<and> 0 < k"
proof -
  obtain q where q: "find (\<lambda>q. qs_id q = i) (question_sets d) = Some q" "qs_status q \<in> {''pending'', ''processing''}"
      "qs_question_count q = n" "find (\<lambda>a. a_id a = qs_application_id q) (applications d0) = Some a"
    and d: "d = d0\<lparr>question_sets := question_sets d\<rparr>"
    using w by (auto simp: set_waits_def)
  obtain p where p: "load_interview_profile (ge_unicode E) (run_internal run) SYSTEM_CONTEXT d0 a = Inr p"
    using calm by (auto simp: calm_run_def)
  have same: "load_interview_profile (ge_unicode E) (run_internal run) SYSTEM_CONTEXT d a = Inr p" "applications d = applications d0"
    by (subst d, simp add: p)+
  let ?f = "\<lambda>r. r\<lparr>qs_status := ''processing'', qs_attempts := qs_attempts q + 1, qs_error := None,
    qs_input_profile := Some (p, None), qs_prompt_version := PROMPT_VERSION, qs_provider_model := ge_model E\<rparr>"
  obtain d1 where d1: "update_set SYSTEM_CONTEXT i ?f d = Inr d1" "find (\<lambda>q. qs_id q = i) (question_sets d1) = Some (?f q)"
      "d1 = d\<lparr>question_sets := update_where (\<lambda>q. qs_id q = i) ?f (question_sets d)\<rparr>"
    using update_found [OF q(1), of ?f] by auto
  have step: "start_job E (run_internal run) i d = (Inr (Some (p, options_of q, qs_attempts q + 1)), d1)"
    using q same d1(1) by (simp add: start_job_def)
  have d1': "d1 = d0\<lparr>question_sets := question_sets d1\<rparr>" using d1(3) by (subst (asm) d) simp
  show ?thesis
    by (rule exI [of _ p], rule exI [of _ "options_of q"], rule exI [of _ "qs_attempts q + 1"], rule exI [of _ d1], rule exI [of _ "?f q"])
      (use step d1(2) d1' q in \<open>simp add: options_of_def attempts_left_def\<close>)
qed

text \<open>The second transaction of a calm run.\<close>

lemma record_failure_found:
  assumes "find (\<lambda>q. qs_id q = i) (question_sets d) = Some q"
  shows "\<exists>d' q'. record_failure i now k err d = (if \<not> retryable err \<or> MAX_ATTEMPTS \<le> k then Inr () else Inl (GenAI err), d')
    \<and> d' = d\<lparr>question_sets := question_sets d'\<rparr> \<and> find (\<lambda>q. qs_id q = i) (question_sets d') = Some q'
    \<and> qs_error q' \<noteq> None \<and> qs_question_count q' = qs_question_count q \<and> qs_application_id q' = qs_application_id q \<and> qs_attempts q' = qs_attempts q
    \<and> (if \<not> retryable err \<or> MAX_ATTEMPTS \<le> k then qs_status q' = ''failed'' \<and> qs_completed_at q' \<noteq> None else qs_status q' = ''pending'')"
proof -
  let ?final = "\<not> retryable err \<or> MAX_ATTEMPTS \<le> k"
  let ?f = "\<lambda>r. r\<lparr>qs_status := (if ?final then ''failed'' else ''pending''), qs_error := Some (error_text err),
    qs_completed_at := (if ?final then Some now else qs_completed_at q)\<rparr>"
  obtain d' where d': "update_set SYSTEM_CONTEXT i ?f d = Inr d'" "find (\<lambda>q. qs_id q = i) (question_sets d') = Some (?f q)"
      "d' = d\<lparr>question_sets := update_where (\<lambda>q. qs_id q = i) ?f (question_sets d)\<rparr>"
    using update_found [OF assms, of ?f] by auto
  have step: "record_failure i now k err d = (if ?final then Inr () else Inl (GenAI err), d')"
    using assms d'(1) by (simp add: record_failure_def Let_def)
  have d: "d' = d\<lparr>question_sets := question_sets d'\<rparr>" unfolding d'(3) by simp
  show ?thesis by (rule exI [of _ d'], rule exI [of _ "?f q"]) (use step d'(2) d in simp)
qed

lemma store_questions_found:
  assumes q: "find (\<lambda>q. qs_id q = i) (question_sets d) = Some q" "qs_question_count q = n"
    and counts: "collect (map db_integer [cr_prompt_tokens (gr_completion r), cr_completion_tokens (gr_completion r),
            Some (JInt (cr_latency_ms (gr_completion r)))]) = Inr counts"
    and fresh: "inj new_id" "range new_id \<inter> iq_id ` set (questions d) = {}" "\<forall>x \<in> set (questions d). iq_question_set_id x \<noteq> i"
    and enough: "n \<le> length (gs_questions (gr_question_set r))"
  shows "\<exists>d'. store_questions i now new_id p r d = (Inr (), d') \<and> set_ended i d n d'"
proof -
  have qi: "qs_id q = i" using find_member [OF q(1)] by simp
  define items where "items = take (qs_question_count q) (gs_questions (gr_question_set r))"
  define rows where "rows = map (\<lambda>(position, item). question_row q (new_id position) position item) (enumerate (Suc 0) items)"
  have len: "length items = n" using enough q(2) by (simp add: items_def)
  have ids: "map iq_id rows = map new_id [1 ..< Suc n]" "map iq_position rows = [1 ..< Suc n]"
    by ((rule nth_equalityI; simp add: rows_def len nth_enumerate_eq question_row_def del: upt_Suc), (rule nth_equalityI; simp add: rows_def len nth_enumerate_eq question_row_def del: upt_Suc))
  have sets: "list_all (\<lambda>x. iq_question_set_id x = i \<and> \<not> iq_is_approved x) rows"
    by (auto simp: rows_def list_all_iff question_row_def qi)
  let ?f = "\<lambda>x. x\<lparr>qs_status := ''completed'', qs_input_profile := Some (p, Some (gr_plan r)),
     qs_focus_summary := Some (gs_focus_summary (gr_question_set r)), qs_prompt_tokens := counts ! 0,
     qs_completion_tokens := counts ! 1, qs_latency_ms := counts ! 2, qs_completed_at := Some now\<rparr>"
  obtain d' where d': "update_set SYSTEM_CONTEXT i ?f d = Inr d'" "find (\<lambda>q. qs_id q = i) (question_sets d') = Some (?f q)"
      "d' = d\<lparr>question_sets := update_where (\<lambda>q. qs_id q = i) ?f (question_sets d)\<rparr>"
    using update_found [OF q(1), of ?f] by auto
  have qs: "questions d' = questions d" by (simp add: d'(3))
  have "insert_questions rows (questions d') = Inr (questions d' @ rows)"
  proof (rule insert_questions_new)
    show "distinct (map iq_id rows)" unfolding ids using fresh(1) by (simp add: distinct_map inj_on_def inj_def del: upt_Suc)
    show "set (map iq_id rows) \<inter> set (map iq_id (questions d')) = {}" unfolding ids qs using fresh(2) by auto
    show "distinct (map iq_position rows)" unfolding ids by (rule distinct_upt)
    show "iq_question_set_id x = i" if "x \<in> set rows" for x using sets that by (simp add: list_all_iff)
    show "iq_position x \<notin> set (map iq_position rows)" if "x \<in> set (questions d')" "iq_question_set_id x = i" for x
      using fresh(3) that by (simp add: qs)
  qed
  then have step: "store_questions i now new_id p r d = (Inr (), d'\<lparr>questions := questions d @ rows\<rparr>)"
    using q(1) counts d'(1) by (simp add: store_questions_def Let_def items_def [symmetric] rows_def [symmetric] qs)
  show ?thesis
    by (rule exI [of _ "d'\<lparr>questions := questions d @ rows\<rparr>"]) (use step d'(2) ids(2) sets in \<open>auto simp: set_ended_def\<close>)
qed

text \<open>A calm run either ends the set or leaves it waiting with one attempt less.\<close>

lemma run_waits:
  assumes w: "set_waits i a d0 n d" and calm: "calm_run E d0 a run" and empty: "\<forall>x \<in> set (questions d0). iq_question_set_id x \<noteq> i"
  shows "\<exists>d'. (run_question_set_job E i run d = (Inr (), d') \<and> set_ended i d0 n d')
    \<or> (\<exists>e. run_question_set_job E i run d = (Inl e, d') \<and> set_waits i a d0 n d' \<and> attempts_left i d' < attempts_left i d)"
proof -
  obtain p opts k d1 q1 where st: "start_job E (run_internal run) i d = (Inr (Some (p, opts, k)), d1)"
      and d1: "d1 = d0\<lparr>question_sets := question_sets d1\<rparr>"
      and q1: "find (\<lambda>q. qs_id q = i) (question_sets d1) = Some q1" "qs_question_count q1 = n" "qs_attempts q1 = k"
        "find (\<lambda>a. a_id a = qs_application_id q1) (applications d0) = Some a"
      and n: "go_question_count opts = n" and left: "attempts_left i d = MAX_ATTEMPTS - 1 - (k - 1)" "0 < k"
    using start_job_waits [OF w calm] by auto
  have qs: "questions d1 = questions d0" by (subst d1) simp
  have still: "run_meanwhile run d1 = d1" using calm by (simp add: calm_run_def)
  show ?thesis
  proof (cases "generate_with_settings E (run_llm run) p opts")
    case (Inl ce)
    then obtain err where err: "generate_with_settings E (run_llm run) p opts = Inl (GenAI err)"
      using calm by (cases ce) (auto simp: calm_run_def split: sum.splits call_error.splits dest: spec)
    let ?final = "\<not> retryable err \<or> MAX_ATTEMPTS \<le> k"
    obtain d' q' where r: "record_failure i (run_now run) k err d1 = (if ?final then Inr () else Inl (GenAI err), d')"
        "d' = d1\<lparr>question_sets := question_sets d'\<rparr>" "find (\<lambda>q. qs_id q = i) (question_sets d') = Some q'" "qs_error q' \<noteq> None"
        "qs_question_count q' = qs_question_count q1" "qs_application_id q' = qs_application_id q1" "qs_attempts q' = qs_attempts q1"
        "if ?final then qs_status q' = ''failed'' \<and> qs_completed_at q' \<noteq> None else qs_status q' = ''pending''"
      using record_failure_found [OF q1(1), of "run_now run" k err] by blast
    have run: "run_question_set_job E i run d = (if ?final then Inr () else Inl (GenAI err), d')"
      using st err r(1) still by (simp add: run_question_set_job_def)
    have d': "d' = d0\<lparr>question_sets := question_sets d'\<rparr>" by (subst r(2), subst d1) simp
    have qs': "questions d' = questions d0" by (subst d') simp
    show ?thesis
    proof (cases ?final)
      case True
      have "set_ended i d0 n d'" using r True qs' by (simp add: set_ended_def)
      then show ?thesis using run True by auto
    next
      case False
      have "set_waits i a d0 n d'" using r False d' q1 by (simp add: set_waits_def)
      moreover have "attempts_left i d' = MAX_ATTEMPTS - 1 - k" using r(3, 7) q1(3) by (simp add: attempts_left_def)
      then have "attempts_left i d' < attempts_left i d" using left False by linarith
      ultimately show ?thesis using run False by auto
    qed
  next
    case (Inr r)
    obtain counts where counts: "collect (map db_integer [cr_prompt_tokens (gr_completion r), cr_completion_tokens (gr_completion r),
            Some (JInt (cr_latency_ms (gr_completion r)))]) = Inr counts"
      using calm Inr by (cases "collect (map db_integer [cr_prompt_tokens (gr_completion r), cr_completion_tokens (gr_completion r),
            Some (JInt (cr_latency_ms (gr_completion r)))])") (auto simp: calm_run_def simp del: list.map collect.simps dest!: spec [of _ p] spec [of _ opts])
    have fresh: "inj (run_new_id run)" "range (run_new_id run) \<inter> iq_id ` set (questions d1) = {}" "\<forall>x \<in> set (questions d1). iq_question_set_id x \<noteq> i"
      using calm empty by (simp_all add: calm_run_def qs)
    have "n \<le> length (gs_questions (gr_question_set r))" using generate_enough [OF Inr] n by simp
    from store_questions_found [OF q1(1, 2) counts fresh this, of "run_now run" p]
    obtain d' where "store_questions i (run_now run) (run_new_id run) p r d1 = (Inr (), d')" "set_ended i d1 n d'" by blast
    then have "run_question_set_job E i run d = (Inr (), d') \<and> set_ended i d0 n d'"
      using st Inr still by (simp add: run_question_set_job_def set_ended_def qs)
    then show ?thesis by blast
  qed
qed

text \<open>
  C21. A waiting set of questions always comes to an end in its queue: when the profile loads and each call of the model ends with a
  result or with one of the client's own errors, the three runs that the queue gives the job leave the set completed, with
  exactly the requested number of unapproved questions at the positions 1, 2, ..., or failed with a reason and with no question.
\<close>

theorem question_set_job_ends:
  assumes "find (\<lambda>q. qs_id q = i) (question_sets d) = Some q" "qs_status q \<in> {''pending'', ''processing''}"
    and "find (\<lambda>a. a_id a = qs_application_id q) (applications d) = Some a"
    and "\<forall>x \<in> set (questions d). iq_question_set_id x \<noteq> i" and "\<forall>k. calm_run E d a (runs k)"
  shows "\<exists>d'. question_set_runs E i runs d = (Inr (), d') \<and> set_ended i d (qs_question_count q) d'"
proof -
  have start: "set_waits i a d (qs_question_count q) d" using assms by (simp add: set_waits_def)
  have policy: "re_max (qp_retry (policy_for genai_task)) = 2"
    by (simp add: policy_for_def genai_task_def POLICY_BY_MODULE_def GENAI_POLICY_def)
  have "\<exists>r d'. run_attempts 2 0 (\<lambda>k. run_question_set_job E i (runs k)) d = (Inr r, d') \<and> set_ended i d (qs_question_count q) d'"
  proof (rule run_attempts_returns [where I = "set_waits i a d (qs_question_count q)" and m = "attempts_left i"])
    show "set_waits i a d (qs_question_count q) w' \<and> attempts_left i w' < attempts_left i w"
      if "set_waits i a d (qs_question_count q) w" "run_question_set_job E i (runs k) w = (Inl e, w')" for k w e w'
      using run_waits [OF that(1) assms(5) [THEN spec, of k] assms(4)] that(2) by auto
    show "set_ended i d (qs_question_count q) w'"
      if "set_waits i a d (qs_question_count q) w" "run_question_set_job E i (runs k) w = (Inr r, w')" for k w r w'
      using run_waits [OF that(1) assms(5) [THEN spec, of k] assms(4)] that(2) by auto
    show "attempts_left i d \<le> 2" by (simp add: attempts_left_def MAX_ATTEMPTS_def split: option.split)
  qed (rule start)
  then show ?thesis by (simp add: question_set_runs_def run_queued_def policy)
qed

text \<open>A set for the demonstration application: the model times out once and answers at the second run.\<close>

definition demo_set_row :: interview_question_set where
  "demo_set_row = \<lparr>qs_id = 60, qs_tenant_id = 5, qs_application_id = 11, qs_job_id = 20, qs_candidate_id = 3, qs_requested_by = 1,
     qs_status = ''pending'', qs_language = ''en'', qs_question_count = 3, qs_difficulty = ''mixed'', qs_focus_skills = [],
     qs_prompt_version = PROMPT_VERSION, qs_provider_model = None, qs_input_profile = None, qs_focus_summary = None, qs_error = None,
     qs_prompt_tokens = None, qs_completion_tokens = None, qs_latency_ms = None, qs_attempts = 0, qs_created_at = 300,
     qs_completed_at = None\<rparr>"

definition demo_set_db :: db where "demo_set_db = demo_db\<lparr>question_sets := [demo_set_row]\<rparr>"

definition demo_text :: "string \<Rightarrow> json" where "demo_text s = JStr (utext_of s)"

definition demo_question_json :: json where
  "demo_question_json = JObj [(''category'', demo_text ''technical''), (''skill'', demo_text ''Python''), (''difficulty'', demo_text ''easy''),
     (''question'', demo_text ''What is a list?''), (''purpose'', demo_text ''warm up''), (''expected_answer'', demo_text ''a mutable sequence''),
     (''evaluation_points'', JArr [demo_text ''mutability'']), (''red_flags'', JArr []), (''follow_ups'', JArr []), (''estimated_minutes'', JInt 5)]"

definition demo_set_json :: json where
  "demo_set_json = JObj [(''focus_summary'', demo_text ''python basics''), (''questions'', JArr [demo_question_json, demo_question_json, demo_question_json])]"

definition demo_env :: genai_env where
  "demo_env = \<lparr>ge_unicode = ascii_tables, ge_parse_json = (\<lambda>_. Some demo_set_json),
     ge_lax_int = (\<lambda>j. case j of JInt n \<Rightarrow> Some n | _ \<Rightarrow> None), ge_configured = True, ge_model = Some ''model''\<rparr>"

definition demo_reply :: http_outcome where
  "demo_reply = Response 900 200 [] (Some (JObj [(''choices'', JArr [JObj [(''message'', JObj [(''content'', demo_text ''{}'')])]])]))"

definition demo_run :: "nat \<Rightarrow> job_run" where
  "demo_run k = \<lparr>run_internal = None, run_llm = (\<lambda>_. if k = 0 then TimeoutException else demo_reply), run_meanwhile = id,
     run_now = 400, run_new_id = (\<lambda>n. 70 + n)\<rparr>"

lemma demo_reply_read:
  "complete_json ascii_tables demo_reply = Inr \<lparr>cr_content = utext_of ''{}'', cr_prompt_tokens = None, cr_completion_tokens = None,
     cr_latency_ms = 900, cr_finish_reason = None\<rparr>"
  by code_simp

lemma demo_parse: "\<exists>g. \<forall>c. parse_question_set demo_env c = Some g"
proof -
  have "validate_question_set (\<lambda>j. case j of JInt n \<Rightarrow> Some n | _ \<Rightarrow> None) demo_set_json \<noteq> None" by code_simp
  then show ?thesis by (auto simp: parse_question_set_def demo_env_def)
qed

lemma demo_calm: "calm_run demo_env demo_set_db demo_application (demo_run k)"
proof -
  obtain g where g: "\<And>c. parse_question_set demo_env c = Some g" using demo_parse by blast
  have env: "ge_unicode demo_env = ascii_tables" "ge_configured demo_env" by (simp_all add: demo_env_def)
  have out: "generate_with_settings demo_env (run_llm (demo_run k)) p opts = Inl (GenAI e)" if "k = 0" "e = GenAIProviderError Timed_Out True" for p opts e
    using that env by (simp add: generate_with_settings_def generate_questions_def demo_run_def Let_def)
  have ok: "(\<exists>e. generate_with_settings demo_env (run_llm (demo_run k)) p opts = Inl (GenAI e))
      \<or> (\<exists>r. generate_with_settings demo_env (run_llm (demo_run k)) p opts = Inr r \<and> cr_prompt_tokens (gr_completion r) = None
           \<and> cr_completion_tokens (gr_completion r) = None \<and> cr_latency_ms (gr_completion r) = 900)" if "k \<noteq> 0" for p opts
    using that env by (simp add: generate_with_settings_def generate_questions_def repair_questions_def demo_run_def Let_def demo_reply_read
        parse_for_plan_def g)
  have counts: "collect (map db_integer [None, None, Some (JInt 900)]) = Inr [None, None, Some 900]" by code_simp
  have "\<exists>p. load_interview_profile ascii_tables None SYSTEM_CONTEXT demo_set_db demo_application = Inr p"
    by (simp add: load_interview_profile_def build_profile_for_application_def latest_processed_resume_def demo_set_db_def demo_db_def
        resume_data_of_def fields_of_def texts_of_def number_of_def items_of_def demo_application_def demo_job_def)
  moreover have "case generate_with_settings demo_env (run_llm (demo_run k)) p opts of Inl (Unexpected e) \<Rightarrow> False | Inl (GenAI e) \<Rightarrow> True
      | Inr r \<Rightarrow> isl (collect (map db_integer [cr_prompt_tokens (gr_completion r), cr_completion_tokens (gr_completion r),
            Some (JInt (cr_latency_ms (gr_completion r)))])) = False" for p opts
    using out [OF _ refl, of p opts] ok [of p opts] counts by (cases "k = 0") (auto simp del: list.map collect.simps)
  ultimately show ?thesis
    by (auto simp: calm_run_def env demo_run_def demo_set_db_def demo_db_def inj_def simp del: list.map collect.simps)
qed

theorem question_set_job_ends_witness:
  "\<exists>d'. question_set_runs demo_env 60 demo_run demo_set_db = (Inr (), d') \<and> set_ended 60 demo_set_db 3 d'"
  using question_set_job_ends [of 60 demo_set_db demo_set_row demo_application demo_env demo_run] demo_calm
  by (simp add: demo_set_db_def demo_set_row_def demo_db_def demo_application_def)

end
