(* ===== verification/Question_Bank.thy ===== *)
theory Question_Bank
  imports Question_Properties
begin

text \<open>The invariant of the question bank, kept by the endpoints and by the worker's job.\<close>

section \<open>The invariant\<close>

text \<open>
  A set ends exactly when its end is recorded; it holds questions only when it is completed, at different positions between 1 and the
  requested number, all of its own organisation.
\<close>

definition own_questions :: "interview_question list \<Rightarrow> uuid \<Rightarrow> interview_question list" where
  "own_questions qs i = filter (\<lambda>x. iq_question_set_id x = i) qs"

definition set_ok :: "interview_question list \<Rightarrow> interview_question_set \<Rightarrow> bool" where
  "set_ok qs q \<longleftrightarrow> qs_status q \<in> {''pending'', ''processing'', ''completed'', ''failed''}
     \<and> (qs_completed_at q \<noteq> None \<longleftrightarrow> qs_status q \<in> {''completed'', ''failed''})
     \<and> (if qs_status q = ''completed''
        then distinct (map iq_position (own_questions qs (qs_id q)))
           \<and> list_all (\<lambda>x. 1 \<le> iq_position x \<and> iq_position x \<le> qs_question_count q \<and> iq_tenant_id x = qs_tenant_id q) (own_questions qs (qs_id q))
        else own_questions qs (qs_id q) = [])"

definition bank_ok :: "db \<Rightarrow> bool" where
  "bank_ok d \<longleftrightarrow> keyed qs_id (question_sets d) \<and> keyed iq_id (questions d) \<and> list_all (set_ok (questions d)) (question_sets d)
     \<and> list_all (\<lambda>x. \<exists>q \<in> set (question_sets d). qs_id q = iq_question_set_id x) (questions d)"

lemma own_questions_simps [simp]:
  "own_questions [] i = []" "own_questions (xs @ ys) i = own_questions xs i @ own_questions ys i"
  by (simp_all add: own_questions_def)

lemma own_questions_all: "(\<And>x. x \<in> set xs \<Longrightarrow> iq_question_set_id x = i) \<Longrightarrow> own_questions xs j = (if i = j then xs else [])"
  by (auto simp: own_questions_def filter_id_conv filter_empty_conv)

lemma set_ok_cong: "own_questions qs (qs_id q) = own_questions qs' (qs_id q) \<Longrightarrow> set_ok qs q \<longleftrightarrow> set_ok qs' q"
  by (simp add: set_ok_def)

text \<open>The row of one set is changed, its identity kept.\<close>

lemma bank_ok_update:
  assumes ok: "bank_ok d" and f: "\<And>q. qs_id (f q) = qs_id q"
    and new: "\<And>q. q \<in> set (question_sets d) \<Longrightarrow> qs_id q = i \<Longrightarrow> set_ok (questions d) q \<Longrightarrow> set_ok (questions d) (f q)"
  shows "bank_ok (d\<lparr>question_sets := update_where (\<lambda>q. qs_id q = i) f (question_sets d)\<rparr>)"
proof -
  define u where "u q = (if qs_id q = i then f q else q)" for q
  have ids: "map qs_id (update_where (\<lambda>q. qs_id q = i) f (question_sets d)) = map qs_id (question_sets d)"
    by (simp add: update_where_def f comp_def)
  have keyed: "keyed qs_id (update_where (\<lambda>q. qs_id q = i) f (question_sets d))" using ok by (simp add: bank_ok_def keyed_def ids)
  have sets: "set (update_where (\<lambda>q. qs_id q = i) f (question_sets d)) = u ` set (question_sets d)" by (simp add: update_where_def u_def)
  have "set_ok (questions d) (u q)" if "q \<in> set (question_sets d)" for q
    using ok new that by (simp add: bank_ok_def list_all_iff u_def)
  moreover have "\<exists>q \<in> set (question_sets d). qs_id (u q) = iq_question_set_id x" if "x \<in> set (questions d)" for x
    using ok that by (auto simp: bank_ok_def list_all_iff f u_def)
  ultimately show ?thesis using ok keyed by (simp add: bank_ok_def list_all_iff sets)
qed

lemma bank_ok_member: "bank_ok d \<Longrightarrow> q \<in> set (question_sets d) \<Longrightarrow> set_ok (questions d) q"
  by (simp add: bank_ok_def list_all_iff)

section \<open>The job\<close>

definition waiting :: "uuid \<Rightarrow> db \<Rightarrow> bool" where
  "waiting i d \<longleftrightarrow> (\<forall>q \<in> set (question_sets d). qs_id q = i \<longrightarrow> qs_status q \<in> {''pending'', ''processing''})"

lemma waiting_found:
  assumes "bank_ok d" "find (\<lambda>q. qs_id q = i) (question_sets d) = Some q" "qs_status q \<in> {''pending'', ''processing''}"
  shows "waiting i d"
  using assms find_member [OF assms(2)] by (auto simp: waiting_def bank_ok_def keyed_def distinct_map inj_on_def)

lemma set_ok_waiting:
  assumes "set_ok qs q" "qs_status q \<in> {''pending'', ''processing''}"
  shows "own_questions qs (qs_id q) = []" "qs_completed_at q = None"
  using assms by (auto simp: set_ok_def)

lemma waiting_status: "waiting i d \<Longrightarrow> q \<in> set (question_sets d) \<Longrightarrow> qs_id q = i \<Longrightarrow> qs_status q \<in> {''pending'', ''processing''}"
  by (simp add: waiting_def)

lemma waiting_update:
  assumes "\<And>q. qs_status (f q) \<in> {''pending'', ''processing''}"
  shows "waiting i (d\<lparr>question_sets := update_where (\<lambda>q. qs_id q = i) f (question_sets d)\<rparr>)"
  using assms by (auto simp: waiting_def update_where_def)

lemma set_ok_open:
  assumes "qs_status q \<in> {''pending'', ''processing'', ''failed''}" "own_questions qs (qs_id q) = []"
    and "qs_completed_at q \<noteq> None \<longleftrightarrow> qs_status q = ''failed''"
  shows "set_ok qs q"
  using assms by (auto simp: set_ok_def)

lemma start_job_bank:
  assumes ok: "bank_ok d" and st: "start_job E internal i d = (r, d')"
  shows "bank_ok d' \<and> ((\<exists>x. r = Inr (Some x)) \<longrightarrow> waiting i d')"
proof (cases "\<exists>x. r = Inr (Some x)")
  case False
  have "d' = d" using st False
    by (auto simp: start_job_def split: option.splits if_splits sum.splits)
  then show ?thesis using ok False by simp
next
  case True
  then obtain q p a where q: "find (\<lambda>q. qs_id q = i) (question_sets d) = Some q" "qs_status q \<in> {''pending'', ''processing''}"
      and d': "update_set SYSTEM_CONTEXT i (\<lambda>r. r\<lparr>qs_status := ''processing'', qs_attempts := qs_attempts q + 1,
                            qs_error := None, qs_input_profile := Some (p, None), qs_prompt_version := PROMPT_VERSION,
                            qs_provider_model := ge_model E\<rparr>) d = Inr d'"
    using st by (auto simp: start_job_def split: option.splits if_splits sum.splits)
  have d'': "d' = d\<lparr>question_sets := update_where (\<lambda>q. qs_id q = i) (\<lambda>r. r\<lparr>qs_status := ''processing'', qs_attempts := qs_attempts q + 1,
                            qs_error := None, qs_input_profile := Some (p, None), qs_prompt_version := PROMPT_VERSION,
                            qs_provider_model := ge_model E\<rparr>) (question_sets d)\<rparr>"
    using d' by (auto simp: update_set_system split: if_splits)
  have w: "waiting i d" by (rule waiting_found [OF ok q])
  have "bank_ok d'" unfolding d''
  proof (rule bank_ok_update [OF ok])
    show "set_ok (questions d) (x\<lparr>qs_status := ''processing'', qs_attempts := qs_attempts q + 1,
        qs_error := None, qs_input_profile := Some (p, None), qs_prompt_version := PROMPT_VERSION, qs_provider_model := ge_model E\<rparr>)"
      if x: "x \<in> set (question_sets d)" "qs_id x = i" "set_ok (questions d) x" for x
    proof -
      note old = set_ok_waiting [OF x(3) waiting_status [OF w x(1, 2)]]
      show ?thesis by (rule set_ok_open) (use old in simp_all)
    qed
  qed simp
  moreover have "waiting i d'" unfolding d'' by (rule waiting_update) simp
  ultimately show ?thesis by simp
qed

lemma record_failure_bank:
  assumes ok: "bank_ok d" and w: "waiting i d"
  shows "bank_ok (snd (record_failure i now k err d))"
proof (cases "find (\<lambda>q. qs_id q = i) (question_sets d)")
  case None
  then show ?thesis using ok by (simp add: record_failure_def Let_def)
next
  case (Some q)
  let ?final = "\<not> retryable err \<or> MAX_ATTEMPTS \<le> k"
  let ?f = "\<lambda>r. r\<lparr>qs_status := (if ?final then ''failed'' else ''pending''), qs_error := Some (error_text err),
    qs_completed_at := (if ?final then Some now else qs_completed_at q)\<rparr>"
  have q: "q \<in> set (question_sets d)" "qs_id q = i" using find_member [OF Some] by auto
  have none: "qs_completed_at q = None" by (rule set_ok_waiting(2) [OF bank_ok_member [OF ok q(1)] waiting_status [OF w q]])
  have "bank_ok (d\<lparr>question_sets := update_where (\<lambda>q. qs_id q = i) ?f (question_sets d)\<rparr>)"
  proof (rule bank_ok_update [OF ok])
    show "set_ok (questions d) (?f x)" if x: "x \<in> set (question_sets d)" "qs_id x = i" "set_ok (questions d) x" for x
    proof -
      note old = set_ok_waiting [OF x(3) waiting_status [OF w x(1, 2)]]
      show ?thesis by (rule set_ok_open) (use old none in simp_all)
    qed
  qed simp
  then show ?thesis using Some find_list_ex [OF Some] by (simp add: record_failure_def Let_def update_set_system)
qed

lemma insert_questions_rows:
  "insert_questions rs rows = Inr rows' \<Longrightarrow> keyed iq_id rows \<Longrightarrow> rows' = rows @ rs \<and> keyed iq_id rows'"
proof (induction rs arbitrary: rows)
  case (Cons r rs)
  then obtain rows1 where r: "insert_row iq_id r rows = Inr rows1" "insert_questions rs rows1 = Inr rows'"
    by (auto simp: rls_insert_def split: if_splits sum.splits)
  then have "rows1 = rows @ [r]" "keyed iq_id rows1" using keyed_insert_row [OF Cons.prems(2)] by (auto simp: insert_row_def split: if_splits)
  then show ?case using Cons.IH [OF r(2)] by force
qed simp

lemma store_questions_bank:
  assumes ok: "bank_ok d" and w: "waiting i d"
  shows "bank_ok (snd (store_questions i now new_id p r d))"
proof (cases "\<exists>x. fst (store_questions i now new_id p r d) = Inr x")
  case False
  have "snd (store_questions i now new_id p r d) = d"
    using False by (auto simp: store_questions_def Let_def split: option.splits sum.splits)
  then show ?thesis using ok by simp
next
  case True
  obtain q where q: "find (\<lambda>q. qs_id q = i) (question_sets d) = Some q" using True by (auto simp: store_questions_def split: option.splits)
  have qi: "q \<in> set (question_sets d)" "qs_id q = i" using find_member [OF q] by auto
  define items where "items = take (qs_question_count q) (gs_questions (gr_question_set r))"
  define rows where "rows = map (\<lambda>(position, item). question_row q (new_id position) position item) (enumerate (Suc 0) items)"
  obtain counts d1 qs where d1: "update_set SYSTEM_CONTEXT i (\<lambda>x. x\<lparr>qs_status := ''completed'', qs_input_profile := Some (p, Some (gr_plan r)),
       qs_focus_summary := Some (gs_focus_summary (gr_question_set r)), qs_prompt_tokens := counts ! 0,
       qs_completion_tokens := counts ! 1, qs_latency_ms := counts ! 2, qs_completed_at := Some now\<rparr>) d = Inr d1"
      and ins: "insert_questions rows (questions d1) = Inr qs" and d': "snd (store_questions i now new_id p r d) = d1\<lparr>questions := qs\<rparr>"
    using True q by (auto simp: store_questions_def Let_def items_def rows_def split: sum.splits)
  let ?f = "\<lambda>x. x\<lparr>qs_status := ''completed'', qs_input_profile := Some (p, Some (gr_plan r)),
       qs_focus_summary := Some (gs_focus_summary (gr_question_set r)), qs_prompt_tokens := counts ! 0,
       qs_completion_tokens := counts ! 1, qs_latency_ms := counts ! 2, qs_completed_at := Some now\<rparr>"
  have sets: "d1 = d\<lparr>question_sets := update_where (\<lambda>q. qs_id q = i) ?f (question_sets d)\<rparr>"
    using d1 by (auto simp: update_set_system split: if_splits)
  have "questions d1 = questions d" by (simp add: sets)
  moreover have "keyed iq_id (questions d)" using ok by (simp add: bank_ok_def)
  ultimately have qs: "qs = questions d @ rows" "keyed iq_id qs" using insert_questions_rows [OF ins] by (metis, metis)
  have row: "iq_question_set_id x = i" "iq_tenant_id x = qs_tenant_id q" "1 \<le> iq_position x" "iq_position x \<le> length items" if "x \<in> set rows" for x
    using that by (auto simp: rows_def question_row_def qi(2) in_set_enumerate_eq)
  have pos: "map iq_position rows = [1 ..< Suc (length items)]"
    by (rule nth_equalityI; simp add: rows_def nth_enumerate_eq question_row_def del: upt_Suc)
  have same: "x = q" if "x \<in> set (question_sets d)" "qs_id x = i" for x
    using that qi ok by (auto simp: bank_ok_def keyed_def distinct_map inj_on_def)
  have own: "own_questions qs j = own_questions (questions d) j @ (if j = i then rows else [])" for j
    using own_questions_all [of rows i j] row(1) by (auto simp: qs(1))
  have empty: "own_questions (questions d) i = []"
    using set_ok_waiting(1) [OF bank_ok_member [OF ok qi(1)] waiting_status [OF w qi]] qi(2) by simp
  have "set_ok qs (?f q)"
    using row pos by (simp add: set_ok_def own qi(2) empty list_all_iff items_def del: upt_Suc)
  moreover have "set_ok qs x" if "x \<in> set (question_sets d)" "qs_id x \<noteq> i" for x
    using bank_ok_member [OF ok that(1)] set_ok_cong [of qs x "questions d"] that(2) by (simp add: own)
  ultimately have all: "set_ok qs x" if "x \<in> set (question_sets d1)" for x
    using that same by (auto simp: sets update_where_def)
  have ids: "map qs_id (question_sets d1) = map qs_id (question_sets d)" by (simp add: sets update_where_def comp_def if_distrib cong: if_cong)
  have "\<exists>x \<in> set (question_sets d1). qs_id x = iq_question_set_id y" if "y \<in> set qs" for y
  proof -
    have "iq_question_set_id y \<in> qs_id ` set (question_sets d)"
      using that ok row(1) qi by (auto simp: qs(1) bank_ok_def list_all_iff) (metis image_eqI)
    then have "iq_question_set_id y \<in> qs_id ` set (question_sets d1)" using ids by (metis list.set_map)
    then show ?thesis by force
  qed
  moreover have "keyed qs_id (question_sets d1)" using ok by (simp add: bank_ok_def keyed_def ids)
  ultimately show ?thesis using all qs(2) by (simp add: bank_ok_def d' list_all_iff)
qed

text \<open>What other transactions do meanwhile keeps the bank well formed and does not end this set.\<close>

definition gentle :: "uuid \<Rightarrow> (db \<Rightarrow> db) \<Rightarrow> bool" where
  "gentle i f \<longleftrightarrow> (\<forall>d. bank_ok d \<and> waiting i d \<longrightarrow> bank_ok (f d) \<and> waiting i (f d))"

lemma run_job_bank:
  assumes ok: "bank_ok d" and g: "gentle i (run_meanwhile run)"
  shows "bank_ok (snd (run_question_set_job E i run d))"
proof -
  obtain r d1 where st: "start_job E (run_internal run) i d = (r, d1)" by (cases "start_job E (run_internal run) i d")
  note s = start_job_bank [OF ok st]
  show ?thesis
  proof (cases "\<exists>x. r = Inr (Some x)")
    case False
    then have "snd (run_question_set_job E i run d) = d1"
      by (cases r) (auto simp: run_question_set_job_def st split: option.splits)
    then show ?thesis using s by simp
  next
    case True
    then obtain p opts k where r: "r = Inr (Some (p, opts, k))" by auto
    have d2: "bank_ok (run_meanwhile run d1)" "waiting i (run_meanwhile run d1)" using s True g by (simp_all add: gentle_def)
    show ?thesis
    proof (cases "generate_with_settings E (run_llm run) p opts")
      case (Inl ce)
      then show ?thesis using d2(1) record_failure_bank [OF d2]
        by (cases ce) (simp_all add: run_question_set_job_def st r)
    next
      case (Inr a)
      then show ?thesis using store_questions_bank [OF d2] by (simp add: run_question_set_job_def st r)
    qed
  qed
qed

section \<open>The endpoints\<close>

lemma bank_ok_insert:
  assumes ok: "bank_ok d" and new: "qs_id q \<notin> qs_id ` set (question_sets d)" and q: "qs_status q = ''pending''" "qs_completed_at q = None"
  shows "bank_ok (d\<lparr>question_sets := question_sets d @ [q]\<rparr>)"
proof -
  have "own_questions (questions d) (qs_id q) = []"
    using ok new by (auto simp: bank_ok_def list_all_iff own_questions_def filter_empty_conv) (metis image_eqI)
  then have "set_ok (questions d) q" using q by (simp add: set_ok_def)
  then show ?thesis using ok new by (auto simp: bank_ok_def keyed_def list_all_iff)
qed

lemma update_set_ok:
  assumes "update_set ctx i f d = Inr d'"
  shows "\<exists>vis. d' = d\<lparr>question_sets := update_where (\<lambda>q. qs_id q = i \<and> vis q) f (question_sets d)\<rparr>"
  using assms by (auto simp: update_set_def rls_update_def Let_def split: if_splits)

lemma bank_ok_update_some:
  assumes ok: "bank_ok d" and f: "\<And>q. qs_id (f q) = qs_id q"
    and new: "\<And>q. q \<in> set (question_sets d) \<Longrightarrow> qs_id q = i \<Longrightarrow> set_ok (questions d) q \<Longrightarrow> set_ok (questions d) (f q)"
  shows "bank_ok (d\<lparr>question_sets := update_where (\<lambda>q. qs_id q = i \<and> vis q) f (question_sets d)\<rparr>)"
proof -
  have "update_where (\<lambda>q. qs_id q = i \<and> vis q) f (question_sets d) =
      update_where (\<lambda>q. qs_id q = i) (\<lambda>q. if vis q then f q else q) (question_sets d)"
    by (simp add: update_where_def)
  then show ?thesis using bank_ok_update [OF ok, of "\<lambda>q. if vis q then f q else q" i] f new by simp
qed

text \<open>A request either leaves the database, or adds a waiting set, or adds a set that has failed for want of a queue.\<close>

lemma request_effect:
  assumes r_def: "r = request_question_set ctx u enabled now new_id up job_id payload (d, broker)"
    and changed: "fst (snd r) \<noteq> d"
  obtains q rows where "rls_insert (context_parameters ctx) (question_sets_policies (context_parameters ctx)) qs_id q (question_sets d) = Inr rows"
    "qs_id q = new_id" "qs_status q = ''pending''" "qs_completed_at q = None"
    "fst (snd r) = d\<lparr>question_sets := rows\<rparr>
     \<or> update_set ctx new_id (\<lambda>q. q\<lparr>qs_status := ''failed'', qs_error := Some Queue_Unavailable, qs_completed_at := Some now\<rparr>)
        (d\<lparr>question_sets := rows\<rparr>) = Inr (fst (snd r))"
proof -
  note req = r_def request_question_set_def Let_def
  obtain x1 where 1: "ensure_role u MANAGER_ROLES = Inr x1" using changed by (cases "ensure_role u MANAGER_ROLES") (simp_all add: req)
  have 2: enabled using changed by (rule contrapos_np) (simp add: req 1)
  obtain a where 3: "find (\<lambda>a. a_id a = gq_application_id payload) (select_applications ctx d) = Some a"
    using changed by (cases "find (\<lambda>a. a_id a = gq_application_id payload) (select_applications ctx d)") (simp_all add: req 1 2)
  obtain x4 where 4: "latest_processed_resume ctx d (a_candidate_id a) (a_tenant_id a) = Inr (Some x4)"
    using changed by (cases "latest_processed_resume ctx d (a_candidate_id a) (a_tenant_id a)") (auto simp: req 1 2 3 split: option.splits)
  obtain t where 5: "stamped ctx None = Inr t" using changed by (cases "stamped ctx None") (simp_all add: req 1 2 3 4)
  define q where "q = \<lparr>qs_id = new_id, qs_tenant_id = t, qs_application_id = a_id a, qs_job_id = a_job_id a,
      qs_candidate_id = a_candidate_id a, qs_requested_by = u_id u, qs_status = ''pending'',
      qs_language = gq_language payload, qs_question_count = nat (gq_question_count payload),
      qs_difficulty = gq_requested_difficulty payload, qs_focus_skills = gq_focus_skills payload,
      qs_prompt_version = PROMPT_VERSION, qs_provider_model = None, qs_input_profile = None, qs_focus_summary = None,
      qs_error = None, qs_prompt_tokens = None, qs_completion_tokens = None, qs_latency_ms = None, qs_attempts = 0,
      qs_created_at = now, qs_completed_at = None\<rparr>"
  note step = req 1 2 3 4 5 q_def [symmetric] enqueue_task_def
  obtain rows where 6: "rls_insert (context_parameters ctx) (question_sets_policies (context_parameters ctx)) qs_id q (question_sets d) = Inr rows"
    using changed by (cases "rls_insert (context_parameters ctx) (question_sets_policies (context_parameters ctx)) qs_id q (question_sets d)") (simp_all add: step)
  show thesis
  proof (rule that [OF 6])
    show "fst (snd r) = d\<lparr>question_sets := rows\<rparr>
     \<or> update_set ctx new_id (\<lambda>q. q\<lparr>qs_status := ''failed'', qs_error := Some Queue_Unavailable, qs_completed_at := Some now\<rparr>)
        (d\<lparr>question_sets := rows\<rparr>) = Inr (fst (snd r))"
      by (cases up; cases "update_set ctx new_id (\<lambda>q. q\<lparr>qs_status := ''failed'', qs_error := Some Queue_Unavailable, qs_completed_at := Some now\<rparr>)
        (d\<lparr>question_sets := rows\<rparr>)") (simp_all add: step 6)
  qed (simp_all add: q_def)
qed

lemma request_bank:
  assumes ok: "bank_ok d"
  shows "bank_ok (fst (snd (request_question_set ctx u enabled now new_id up job_id payload (d, broker))))"
    (is "bank_ok (fst (snd ?r))")
proof (cases "fst (snd ?r) = d")
  case False
  obtain q rows where q: "rls_insert (context_parameters ctx) (question_sets_policies (context_parameters ctx)) qs_id q (question_sets d) = Inr rows"
      "qs_id q = new_id" "qs_status q = ''pending''" "qs_completed_at q = None"
    and eff: "fst (snd ?r) = d\<lparr>question_sets := rows\<rparr>
      \<or> update_set ctx new_id (\<lambda>q. q\<lparr>qs_status := ''failed'', qs_error := Some Queue_Unavailable, qs_completed_at := Some now\<rparr>)
        (d\<lparr>question_sets := rows\<rparr>) = Inr (fst (snd ?r))"
    by (rule request_effect [OF refl False])
  have rows: "rows = question_sets d @ [q]" "new_id \<notin> qs_id ` set (question_sets d)"
    using q(1, 2) by (auto simp: rls_insert_def insert_row_def split: if_splits)
  let ?d = "d\<lparr>question_sets := rows\<rparr>"
  have okd: "bank_ok ?d" using q rows bank_ok_insert [OF ok, of q] by simp
  show ?thesis using eff
  proof
    let ?f = "\<lambda>q. q\<lparr>qs_status := ''failed'', qs_error := Some Queue_Unavailable, qs_completed_at := Some now\<rparr>"
    assume u: "update_set ctx new_id ?f ?d = Inr (fst (snd ?r))"
    obtain vis where r: "fst (snd ?r) = ?d\<lparr>question_sets := update_where (\<lambda>q. qs_id q = new_id \<and> vis q) ?f (question_sets ?d)\<rparr>"
      using update_set_ok [OF u] by blast
    show ?thesis unfolding r
    proof (rule bank_ok_update_some [OF okd])
      show "set_ok (questions ?d) (?f x)" if x: "x \<in> set (question_sets ?d)" "qs_id x = new_id" "set_ok (questions ?d) x" for x
      proof (rule set_ok_open)
        have "x = q" using x(1, 2) rows by auto
        then show "own_questions (questions ?d) (qs_id (?f x)) = []" using x(3) q(3) by (simp add: set_ok_def)
      qed simp_all
    qed simp
  qed (simp add: okd)
qed (simp add: ok)

lemma bank_ok_review:
  assumes ok: "bank_ok d"
    and u: "\<And>x. x \<in> set (questions d) \<Longrightarrow> iq_id (u x) = iq_id x \<and> iq_question_set_id (u x) = iq_question_set_id x
      \<and> iq_position (u x) = iq_position x \<and> iq_tenant_id (u x) = iq_tenant_id x"
  shows "bank_ok (d\<lparr>questions := map u (questions d)\<rparr>)"
proof -
  have own: "own_questions (map u (questions d)) j = map u (own_questions (questions d) j)" for j
    using u by (auto simp: own_questions_def filter_map comp_def intro!: map_cong filter_cong)
  have ids: "map iq_id (map u (questions d)) = map iq_id (questions d)" by (simp add: u)
  have keyed: "keyed iq_id (map u (questions d))" unfolding keyed_def ids using ok by (simp add: bank_ok_def keyed_def)
  have in_own: "x \<in> set (questions d)" if "x \<in> set (own_questions (questions d) j)" for x j using that by (simp add: own_questions_def)
  have "set_ok (map u (questions d)) q" if "q \<in> set (question_sets d)" for q
  proof -
    have pos: "map iq_position (map u (own_questions (questions d) (qs_id q))) = map iq_position (own_questions (questions d) (qs_id q))"
      using u in_own by auto
    have all: "list_all (\<lambda>x. 1 \<le> iq_position x \<and> iq_position x \<le> qs_question_count q \<and> iq_tenant_id x = qs_tenant_id q)
        (map u (own_questions (questions d) (qs_id q)))"
      if "list_all (\<lambda>x. 1 \<le> iq_position x \<and> iq_position x \<le> qs_question_count q \<and> iq_tenant_id x = qs_tenant_id q) (own_questions (questions d) (qs_id q))"
      using that u in_own by (simp add: list_all_iff)
    show ?thesis using bank_ok_member [OF ok that] all unfolding set_ok_def own pos by (auto simp del: list.map(2) split: if_splits)
  qed
  moreover have "\<exists>q \<in> set (question_sets d). qs_id q = iq_question_set_id (u x)" if "x \<in> set (questions d)" for x
    using ok u that by (simp add: bank_ok_def list_all_iff)
  ultimately show ?thesis using ok keyed by (simp add: bank_ok_def list_all_iff)
qed

lemma apply_review_same [simp]:
  "iq_id (apply_review p q) = iq_id q" "iq_question_set_id (apply_review p q) = iq_question_set_id q"
  "iq_position (apply_review p q) = iq_position q" "iq_tenant_id (apply_review p q) = iq_tenant_id q"
  by (simp_all add: apply_review_def Let_def split: option.split)

text \<open>The effect of a review: one question of the set, in the fields a reviewer may change.\<close>

lemma update_question_effect:
  assumes "fst (update_question ctx u now set_id question_id payload d) = Inr stored"
  shows "\<exists>q vis. q \<in> set (questions_of ctx d set_id) \<and> iq_id q = question_id
    \<and> stored = (apply_review payload q)\<lparr>iq_updated_by := Some (u_id u), iq_updated_at := Some now\<rparr>
    \<and> qu_is_approved payload \<noteq> Some None \<and> u_role u \<in> set REVIEWER_ROLES
    \<and> (\<exists>s. load_set ctx d set_id = Inr s \<and> ensure_can_review ctx d u (qs_application_id s) = Inr ())
    \<and> snd (update_question ctx u now set_id question_id payload d) =
        d\<lparr>questions := update_where (\<lambda>x. iq_id x = question_id \<and> vis x) (\<lambda>_. stored) (questions d)\<rparr>
    \<and> (\<forall>x. vis x \<longrightarrow> rls_visible (context_parameters ctx) (questions_policies (context_parameters ctx)) R_UPDATE x)"
proof -
  obtain x1 where 1: "ensure_role u REVIEWER_ROLES = Inr x1"
    using assms by (cases "ensure_role u REVIEWER_ROLES") (simp_all add: update_question_def Let_def)
  obtain s where 2: "load_set ctx d set_id = Inr s"
    using assms by (cases "load_set ctx d set_id") (simp_all add: update_question_def Let_def 1)
  have s: "qs_id s = set_id"
    using 2 by (auto simp: load_set_def split: sum.splits option.splits elim!: scalar_one_or_none.elims dest: filter_eq_ConsD)
  obtain x3 where 3: "ensure_can_review ctx d u (qs_application_id s) = Inr x3"
    using assms by (cases "ensure_can_review ctx d u (qs_application_id s)") (simp_all add: update_question_def Let_def 1 2)
  obtain q where 4: "find (\<lambda>q. iq_id q = question_id) (questions_of ctx d set_id) = Some q"
    using assms s by (cases "find (\<lambda>q. iq_id q = question_id) (questions_of ctx d set_id)") (simp_all add: update_question_def Let_def 1 2 3)
  have 5: "qu_is_approved payload \<noteq> Some None" using assms by (auto simp: update_question_def Let_def 1 2 3 4 s)
  let ?stored = "(apply_review payload q)\<lparr>iq_updated_by := Some (u_id u), iq_updated_at := Some now\<rparr>"
  obtain rows where 6: "rls_update (context_parameters ctx) (questions_policies (context_parameters ctx)) iq_id question_id (\<lambda>_. ?stored) (questions d) = Inr rows"
    using assms 5 by (cases "rls_update (context_parameters ctx) (questions_policies (context_parameters ctx)) iq_id question_id (\<lambda>_. ?stored) (questions d)")
      (simp_all add: update_question_def Let_def 1 2 3 4 s)
  have out: "update_question ctx u now set_id question_id payload d = (Inr ?stored, d\<lparr>questions := rows\<rparr>)"
    using 5 6 by (simp add: update_question_def Let_def 1 2 3 4 s)
  have "\<exists>vis. rows = update_where (\<lambda>x. iq_id x = question_id \<and> vis x) (\<lambda>_. ?stored) (questions d)
      \<and> (\<forall>x. vis x \<longrightarrow> rls_visible (context_parameters ctx) (questions_policies (context_parameters ctx)) R_UPDATE x)"
    using 6 by (auto simp: rls_update_def Let_def split: if_splits)
  moreover have "stored = ?stored" using assms out by simp
  moreover have "u_role u \<in> set REVIEWER_ROLES" using 1 by (simp add: ensure_role_def split: if_splits)
  ultimately show ?thesis using out 5 find_member [OF 4] 2 3 by (cases x3) auto
qed

lemma update_question_error:
  assumes "fst (update_question ctx u now set_id question_id payload d) = Inl e"
  shows "snd (update_question ctx u now set_id question_id payload d) = d"
proof (rule ccontr)
  assume changed: "snd (update_question ctx u now set_id question_id payload d) \<noteq> d"
  note upd = update_question_def Let_def
  obtain x1 where 1: "ensure_role u REVIEWER_ROLES = Inr x1" using changed by (cases "ensure_role u REVIEWER_ROLES") (simp_all add: upd)
  obtain s where 2: "load_set ctx d set_id = Inr s" using changed by (cases "load_set ctx d set_id") (simp_all add: upd 1)
  obtain x3 where 3: "ensure_can_review ctx d u (qs_application_id s) = Inr x3"
    using changed by (cases "ensure_can_review ctx d u (qs_application_id s)") (simp_all add: upd 1 2)
  obtain q where 4: "find (\<lambda>q. iq_id q = question_id) (questions_of ctx d (qs_id s)) = Some q"
    using changed by (cases "find (\<lambda>q. iq_id q = question_id) (questions_of ctx d (qs_id s))") (simp_all add: upd 1 2 3)
  show False using changed assms
    by (cases "rls_update (context_parameters ctx) (questions_policies (context_parameters ctx)) iq_id question_id
          (\<lambda>_. (apply_review payload q)\<lparr>iq_updated_by := Some (u_id u), iq_updated_at := Some now\<rparr>) (questions d)")
      (simp_all add: upd 1 2 3 4 split: if_splits)
qed

lemma review_bank:
  assumes ok: "bank_ok d"
  shows "bank_ok (snd (update_question ctx u now set_id question_id payload d))"
proof (cases "fst (update_question ctx u now set_id question_id payload d)")
  case (Inl e)
  then show ?thesis using update_question_error [OF Inl] ok by simp
next
  case (Inr stored)
  obtain q vis where q: "q \<in> set (questions_of ctx d set_id)" "iq_id q = question_id"
      "stored = (apply_review payload q)\<lparr>iq_updated_by := Some (u_id u), iq_updated_at := Some now\<rparr>"
    and d': "snd (update_question ctx u now set_id question_id payload d) =
        d\<lparr>questions := update_where (\<lambda>x. iq_id x = question_id \<and> vis x) (\<lambda>_. stored) (questions d)\<rparr>"
    using update_question_effect [OF Inr] by blast
  have mem: "q \<in> set (questions d)" using q(1) by (auto simp: questions_of_def select_questions_def)
  have same: "x = q" if "x \<in> set (questions d)" "iq_id x = question_id" for x
    using that q(2) mem ok by (auto simp: bank_ok_def keyed_def distinct_map inj_on_def)
  show ?thesis unfolding d' update_where_def
    by (rule bank_ok_review [OF ok]) (use same q in auto)
qed

section \<open>Reachable banks\<close>

text \<open>Requests, reviews and runs of the job, in any order and any number.\<close>

inductive bank_reachable :: "db \<Rightarrow> bool" where
  start: "question_sets d = [] \<Longrightarrow> questions d = [] \<Longrightarrow> bank_reachable d"
| asked: "bank_reachable d \<Longrightarrow> request_question_set ctx u enabled now new_id up job_id payload (d, broker) = (r, d', broker') \<Longrightarrow> bank_reachable d'"
| reviewed: "bank_reachable d \<Longrightarrow> update_question ctx u now set_id question_id payload d = (r, d') \<Longrightarrow> bank_reachable d'"
| worked: "bank_reachable d \<Longrightarrow> gentle i (run_meanwhile run) \<Longrightarrow> run_question_set_job E i run d = (r, d') \<Longrightarrow> bank_reachable d'"

inductive_cases bank_reachable_cases: "bank_reachable d"

text \<open>
  C22. Whatever order the requests, the reviews and the runs of the worker come in, every set of questions stays well formed: its status is one of the four,
  its end is recorded exactly when it is completed or failed, it holds questions only when it is completed, and these have
  different positions between 1 and the requested number and belong to the set's own organisation.
\<close>

theorem question_bank_invariant:
  assumes "bank_reachable d"
  shows "bank_ok d"
  using assms
proof (induction rule: bank_reachable.induct)
  case (start d)
  then show ?case by (simp add: bank_ok_def)
next
  case (asked d ctx u enabled now new_id up job_id payload broker r d' broker')
  then show ?case using request_bank [OF asked.IH, of ctx u enabled now new_id up job_id payload broker] by simp
next
  case (reviewed d ctx u now set_id question_id payload r d')
  then show ?case using review_bank [OF reviewed.IH, of ctx u now set_id question_id payload] by simp
next
  case (worked d i run E r d')
  then show ?case using run_job_bank [OF worked.IH worked.hyps(2), of E] by simp
qed

text \<open>A set is requested for the demonstration application and a worker runs its job.\<close>

definition demo_ready_db :: db where
  "demo_ready_db = demo_db\<lparr>resumes := [\<lparr>r_id = 30, r_tenant_id = 5, r_candidate_id = 3, r_file_url = ''u'', r_raw_text = None,
     r_search_tokens = None, r_parsed_data = None, r_skill_analysis = Some (JObj [(''skills'', JArr [])]), r_agent_analysis = None\<rparr>]\<rparr>"

definition demo_asked_db :: db where
  "demo_asked_db = fst (snd (request_question_set (tenant_context 5 1) (demo_user 1 ''Admin'' (Some 5)) True 300 60 True ''j''
     \<lparr>gq_application_id = 11, gq_question_count = 3, gq_requested_difficulty = ''mixed'', gq_focus_skills = [], gq_language = ''en''\<rparr> (demo_ready_db, [])))"

theorem question_bank_invariant_witness:
  "bank_ok demo_asked_db \<and> bank_ok (snd (run_question_set_job demo_env 60 (demo_run 1) demo_asked_db))"
proof -
  have "bank_reachable demo_ready_db" by (rule bank_reachable.start) (simp_all add: demo_ready_db_def demo_db_def)
  then have asked: "bank_reachable demo_asked_db" unfolding demo_asked_db_def by (rule bank_reachable.asked) (rule prod_eqI, simp, rule prod_eqI, simp_all)
  have "gentle 60 (run_meanwhile (demo_run 1))" by (simp add: gentle_def demo_run_def)
  then have "bank_reachable (snd (run_question_set_job demo_env 60 (demo_run 1) demo_asked_db))"
    by (rule bank_reachable.worked [OF asked]) (rule prod.collapse [symmetric])
  then show ?thesis using question_bank_invariant asked by blast
qed

section \<open>Who sees the answer keys\<close>

lemma select_questions_tenant:
  "t < 2 ^ 128 \<Longrightarrow> select_question_sets (tenant_context t u) d = filter (\<lambda>q. qs_tenant_id q = t) (question_sets d)"
  "t < 2 ^ 128 \<Longrightarrow> select_questions (tenant_context t u) d = filter (\<lambda>q. iq_tenant_id q = t) (questions d)"
  by (auto simp: select_question_sets_def select_questions_def question_sets_tt.visible_iff questions_tt.visible_iff intro: filter_cong)

lemma load_set_member:
  "load_set ctx d i = Inr s \<Longrightarrow> s \<in> set (select_question_sets ctx d) \<and> qs_id s = i"
  by (auto simp: load_set_def split: sum.splits option.splits elim!: scalar_one_or_none.elims dest: filter_eq_ConsD)

definition may_review :: "uuid \<Rightarrow> db \<Rightarrow> user \<Rightarrow> uuid \<Rightarrow> bool" where
  "may_review t d u application_id \<longleftrightarrow> u_role u \<in> {''Admin'', ''HR_Manager''}
     \<or> u_role u = ''Interviewer'' \<and> (\<exists>i \<in> set (interviews d). i_application_id i = application_id \<and> i_interviewer_id i = u_id u \<and> i_tenant_id i = t)"

lemma ensure_can_review_tenant:
  assumes "t < 2 ^ 128" and "ensure_can_review (tenant_context t x) d u a = Inr r"
  shows "may_review t d u a"
  using assms by (auto simp: ensure_can_review_def ensure_role_def may_review_def REVIEWER_ROLES_def select_interviews_tenant list_ex_iff
      split: if_splits)

lemma update_question_refused:
  "update_question ctx u now i j payload d = (Inl e, d') \<Longrightarrow> d' = d"
  by (auto simp: update_question_def Let_def split: sum.splits option.splits if_splits)

text \<open>
  C23. The questions and their answer keys reach only the reviewers of the organisation. A set with its questions, and the list of
  the sets of an application, are shown to an administrator, an HR manager, or an interviewer to whom an interview of that very
  application is assigned, and hold rows of the organisation only. An edit reaches a question only through its own set: the
  question belongs to the set of the request, the set to the organisation and to an application that the user may review, and no other question
  changes; a refused edit changes nothing. The shared bank shows approved questions of the organisation only; a candidate gets 403 everywhere.
\<close>

theorem answer_keys_stay_inside:
  assumes t: "t < 2 ^ 128"
  shows "(get_question_set (tenant_context t x) u i d = Inr (s, qs) \<longrightarrow>
      s \<in> set (question_sets d) \<and> qs_id s = i \<and> qs_tenant_id s = t \<and> may_review t d u (qs_application_id s)
      \<and> list_all (\<lambda>q. q \<in> set (questions d) \<and> iq_tenant_id q = t \<and> iq_question_set_id q = i) qs)
    \<and> (list_question_sets U C (tenant_context t x) u ai page d = Inr l \<longrightarrow>
      may_review t d u ai \<and> (\<forall>(s, qs) \<in> set (pg_items l). s \<in> set (question_sets d) \<and> qs_application_id s = ai \<and> qs_tenant_id s = t
        \<and> list_all (\<lambda>q. q \<in> set (questions d) \<and> iq_tenant_id q = t \<and> iq_question_set_id q = qs_id s) qs))
    \<and> (case update_question (tenant_context t x) u now i j payload d of
        (Inl e, d') \<Rightarrow> d' = d
      | (Inr q, d') \<Rightarrow>
          (\<exists>s \<in> set (question_sets d). \<exists>old \<in> set (questions d). qs_id s = i \<and> qs_tenant_id s = t \<and> may_review t d u (qs_application_id s)
            \<and> iq_id old = j \<and> iq_question_set_id old = i \<and> iq_tenant_id old = t
            \<and> q = (apply_review payload old)\<lparr>iq_updated_by := Some (u_id u), iq_updated_at := Some now\<rparr>)
          \<and> d' = d\<lparr>questions := questions d'\<rparr>
          \<and> list_all2 (\<lambda>old new. new = old \<or> iq_id old = j \<and> iq_tenant_id old = t \<and> new = q) (questions d) (questions d'))
    \<and> (search_question_bank U C (tenant_context t x) u skill difficulty category page d = Inr p \<longrightarrow>
      u_role u \<in> {''Admin'', ''HR_Manager'', ''Interviewer''}
      \<and> set (pg_items p) \<subseteq> {b. bi_question b \<in> set (questions d) \<and> iq_tenant_id (bi_question b) = t \<and> iq_is_approved (bi_question b)})
    \<and> (u_role u = ''Candidate'' \<longrightarrow> get_question_set (tenant_context t x) u i d = Inl (HTTPException 403 Forbidden_Role)
      \<and> list_question_sets U C (tenant_context t x) u ai page d = Inl (HTTPException 403 Forbidden_Role)
      \<and> update_question (tenant_context t x) u now i j payload d = (Inl (HTTPException 403 Forbidden_Role), d)
      \<and> search_question_bank U C (tenant_context t x) u skill difficulty category page d = Inl (HTTPException 403 Forbidden_Role))"
proof (intro conjI impI)
  assume g: "get_question_set (tenant_context t x) u i d = Inr (s, qs)"
  then have s: "load_set (tenant_context t x) d i = Inr s" "ensure_can_review (tenant_context t x) d u (qs_application_id s) = Inr ()"
      "qs = questions_of (tenant_context t x) d (qs_id s)"
    by (auto simp: get_question_set_def split: sum.splits)
  note m = load_set_member [OF s(1), unfolded select_questions_tenant [OF t]]
  show "s \<in> set (question_sets d)" "qs_id s = i" "qs_tenant_id s = t" using m by simp_all
  show "may_review t d u (qs_application_id s)" by (rule ensure_can_review_tenant [OF t s(2)])
  show "list_all (\<lambda>q. q \<in> set (questions d) \<and> iq_tenant_id q = t \<and> iq_question_set_id q = i) qs"
    using m by (simp add: s(3) questions_of_def select_questions_tenant [OF t] list_all_iff)
next
  assume "list_question_sets U C (tenant_context t x) u ai page d = Inr l"
  then obtain r pg where rv: "ensure_can_review (tenant_context t x) d u ai = Inr r"
    and pg: "paginate_by_cursor U C timestamp_column (\<lambda>q. (NotNull (qs_created_at q), qs_id q)) True page
        (filter (\<lambda>q. qs_application_id q = ai) (select_question_sets (tenant_context t x) d)) = Inr pg"
    and l: "l = map_page (\<lambda>q. (q, questions_of (tenant_context t x) d (qs_id q))) pg"
    by (cases "ensure_can_review (tenant_context t x) d u ai"; cases "paginate_by_cursor U C timestamp_column (\<lambda>q. (NotNull (qs_created_at q), qs_id q)) True page
        (filter (\<lambda>q. qs_application_id q = ai) (select_question_sets (tenant_context t x) d))") (auto simp: list_question_sets_def)
  show "may_review t d u ai" by (rule ensure_can_review_tenant [OF t rv])
  show "\<forall>(s, qs) \<in> set (pg_items l). s \<in> set (question_sets d) \<and> qs_application_id s = ai \<and> qs_tenant_id s = t
        \<and> list_all (\<lambda>q. q \<in> set (questions d) \<and> iq_tenant_id q = t \<and> iq_question_set_id q = qs_id s) qs"
    using paginate_items_subset [OF pg] by (auto simp: l map_page_def questions_of_def select_questions_tenant [OF t] list_all_iff)
next
  show "case update_question (tenant_context t x) u now i j payload d of
        (Inl e, d') \<Rightarrow> d' = d
      | (Inr q, d') \<Rightarrow>
          (\<exists>s \<in> set (question_sets d). \<exists>old \<in> set (questions d). qs_id s = i \<and> qs_tenant_id s = t \<and> may_review t d u (qs_application_id s)
            \<and> iq_id old = j \<and> iq_question_set_id old = i \<and> iq_tenant_id old = t
            \<and> q = (apply_review payload old)\<lparr>iq_updated_by := Some (u_id u), iq_updated_at := Some now\<rparr>)
          \<and> d' = d\<lparr>questions := questions d'\<rparr>
          \<and> list_all2 (\<lambda>old new. new = old \<or> iq_id old = j \<and> iq_tenant_id old = t \<and> new = q) (questions d) (questions d')"
  proof (cases "update_question (tenant_context t x) u now i j payload d")
    case out: (Pair r d')
    show ?thesis
    proof (cases r)
      case (Inl e)
      then have "d' = d" using out update_question_refused by simp
      then show ?thesis by (simp only: out Inl prod.case sum.case)
    next
      case (Inr q)
      then have "fst (update_question (tenant_context t x) u now i j payload d) = Inr q" using out by simp
      from update_question_effect [OF this] obtain old vis s where old: "old \<in> set (questions_of (tenant_context t x) d i)" "iq_id old = j"
          "q = (apply_review payload old)\<lparr>iq_updated_by := Some (u_id u), iq_updated_at := Some now\<rparr>"
        and s: "load_set (tenant_context t x) d i = Inr s" "ensure_can_review (tenant_context t x) d u (qs_application_id s) = Inr ()"
        and d': "d' = d\<lparr>questions := update_where (\<lambda>x. iq_id x = j \<and> vis x) (\<lambda>_. q) (questions d)\<rparr>"
        and vis: "\<And>y. vis y \<Longrightarrow> iq_tenant_id y = t"
        using t out by (auto simp: questions_tt.visible_iff)
      note m = load_set_member [OF s(1), unfolded select_questions_tenant [OF t]]
      have o: "old \<in> set (questions d)" "iq_question_set_id old = i" "iq_tenant_id old = t"
        using old(1) by (simp_all add: questions_of_def select_questions_tenant [OF t])
      have "may_review t d u (qs_application_id s)" by (rule ensure_can_review_tenant [OF t s(2)])
      then have "\<exists>s \<in> set (question_sets d). \<exists>old \<in> set (questions d). qs_id s = i \<and> qs_tenant_id s = t \<and> may_review t d u (qs_application_id s)
            \<and> iq_id old = j \<and> iq_question_set_id old = i \<and> iq_tenant_id old = t
            \<and> q = (apply_review payload old)\<lparr>iq_updated_by := Some (u_id u), iq_updated_at := Some now\<rparr>"
        using m o old by auto
      then show ?thesis using vis by (simp add: out Inr d' update_where_def list_all2_map2 list_all2_same)
    qed
  qed
next
  assume p: "search_question_bank U C (tenant_context t x) u skill difficulty category page d = Inr p"
  then show "u_role u \<in> {''Admin'', ''HR_Manager'', ''Interviewer''}"
    by (auto simp: search_question_bank_def ensure_role_def REVIEWER_ROLES_def split: if_splits)
  show "set (pg_items p) \<subseteq> {b. bi_question b \<in> set (questions d) \<and> iq_tenant_id (bi_question b) = t \<and> iq_is_approved (bi_question b)}"
  proof -
    obtain pg items where pg: "paginate_by_cursor U C (uuid_column C) (\<lambda>q. (NotNull (iq_id q), iq_id q)) True page
          (bank_query U (tenant_context t x) skill difficulty category d) = Inr pg"
        and items: "collect (map (\<lambda>q. case find (\<lambda>s. qs_id s = iq_question_set_id q) (select_question_sets (tenant_context t x) d) of
             None \<Rightarrow> Inl Uncaught
           | Some s \<Rightarrow> Inr \<lparr>bi_question = q, bi_question_set_id = iq_question_set_id q, bi_job_id = qs_job_id s\<rparr>) (pg_items pg)) = Inr items"
        and p': "pg_items p = items"
      using p by (auto simp: search_question_bank_def split: sum.splits)
    have "bi_question b \<in> set (bank_query U (tenant_context t x) skill difficulty category d)" if "b \<in> set items" for b
    proof -
      have "Inr b \<in> set (map (\<lambda>q. case find (\<lambda>s. qs_id s = iq_question_set_id q) (select_question_sets (tenant_context t x) d) of
             None \<Rightarrow> Inl Uncaught
           | Some s \<Rightarrow> Inr \<lparr>bi_question = q, bi_question_set_id = iq_question_set_id q, bi_job_id = qs_job_id s\<rparr>) (pg_items pg))"
        using items that by (simp only: collect_Inr set_map image_eqI)
      then have "bi_question b \<in> set (pg_items pg)" by (auto split: option.splits)
      then show ?thesis using paginate_items_subset [OF pg] by blast
    qed
    then show ?thesis by (auto simp: p' bank_query_def select_questions_tenant [OF t])
  qed
qed (simp_all add: get_question_set_def list_question_sets_def ensure_can_review_def update_question_def search_question_bank_def ensure_role_def REVIEWER_ROLES_def Let_def)

theorem answer_keys_stay_inside_witness:
  "demo_set_row \<in> set (question_sets demo_set_db) \<and> may_review 5 demo_set_db (demo_user 1 ''HR_Manager'' (Some 5)) (qs_application_id demo_set_row)
    \<and> get_question_set (tenant_context 5 3) (demo_user 3 ''Candidate'' None) 60 demo_set_db = Inl (HTTPException 403 Forbidden_Role)"
proof -
  have "get_question_set (tenant_context 5 1) (demo_user 1 ''HR_Manager'' (Some 5)) 60 demo_set_db = Inr (demo_set_row, [])"
    by (simp add: get_question_set_def ensure_role_def ensure_can_review_def REVIEWER_ROLES_def demo_user_def load_set_def questions_of_def
        select_questions_tenant demo_set_db_def demo_db_def demo_set_row_def)
  then have "demo_set_row \<in> set (question_sets demo_set_db) \<and> may_review 5 demo_set_db (demo_user 1 ''HR_Manager'' (Some 5)) (qs_application_id demo_set_row)"
    using answer_keys_stay_inside [of 5 1 "demo_user 1 ''HR_Manager'' (Some 5)" 60 demo_set_db demo_set_row "[]", THEN conjunct1] by simp
  moreover have "get_question_set (tenant_context 5 3) (demo_user 3 ''Candidate'' None) 60 demo_set_db = Inl (HTTPException 403 Forbidden_Role)"
    by (rule answer_keys_stay_inside [THEN conjunct2, THEN conjunct2, THEN conjunct2, THEN conjunct2, THEN mp, THEN conjunct1]) (simp_all add: demo_user_def)
  ultimately show ?thesis by simp
qed

section \<open>What a profile is made of\<close>

text \<open>
  The worker reads every organisation's rows, and yet the profile that it sends to the model for an application is made of the resumes that the
  candidate sent to the application's own organisation: resumes of other organisations or of other candidates do not change it.
\<close>

theorem profile_of_own_tenant:
  assumes "filter (\<lambda>r. r_candidate_id r = a_candidate_id a \<and> r_tenant_id r = a_tenant_id a) (resumes d) =
      filter (\<lambda>r. r_candidate_id r = a_candidate_id a \<and> r_tenant_id r = a_tenant_id a) (resumes d')"
    and "find (\<lambda>j. j_id j = a_job_id a) (jobs d) = find (\<lambda>j. j_id j = a_job_id a) (jobs d')"
    and "find (\<lambda>c. c_id c = a_candidate_id a) (candidates d) = find (\<lambda>c. c_id c = a_candidate_id a) (candidates d')"
  shows "load_interview_profile U internal SYSTEM_CONTEXT d a = load_interview_profile U internal SYSTEM_CONTEXT d' a"
proof -
  have rows: "filter (\<lambda>r. r_candidate_id r = a_candidate_id a \<and> r_tenant_id r = a_tenant_id a \<and> r_skill_analysis r \<noteq> None) (resumes e) =
      filter (\<lambda>r. r_skill_analysis r \<noteq> None) (filter (\<lambda>r. r_candidate_id r = a_candidate_id a \<and> r_tenant_id r = a_tenant_id a) (resumes e))" for e
    by (simp only: filter_filter conj_assoc)
  have latest: "latest_processed_resume SYSTEM_CONTEXT d (a_candidate_id a) (a_tenant_id a) = latest_processed_resume SYSTEM_CONTEXT d' (a_candidate_id a) (a_tenant_id a)"
    unfolding latest_processed_resume_def select_system rows assms(1) by (rule refl)
  show ?thesis
    unfolding load_interview_profile_def build_profile_for_application_def latest select_system assms(2, 3) by (rule refl)
qed

theorem profile_of_own_tenant_witness:
  "load_interview_profile ascii_tables None SYSTEM_CONTEXT
     (demo_ready_db\<lparr>resumes := \<lparr>r_id = 31, r_tenant_id = 6, r_candidate_id = 3, r_file_url = ''v'', r_raw_text = Some [65],
       r_search_tokens = None, r_parsed_data = None, r_skill_analysis = Some (JObj [(''skills'', JArr [demo_text ''Go''])]), r_agent_analysis = None\<rparr>
       # resumes demo_ready_db\<rparr>) demo_application =
   load_interview_profile ascii_tables None SYSTEM_CONTEXT demo_ready_db demo_application"
  by (rule profile_of_own_tenant) (simp_all add: demo_application_def)

end
