(* ===== verification/Service_Auth.thy ===== *)
theory Service_Auth
  imports Question_Properties
begin

text \<open>
  Authentication between services (app/core/service_auth.py) and the internal endpoints (app/routers/internal.py). The token
  library (ES256) is a parameter with the laws the code relies on; keys are abstract, and \<open>sj_public\<close> is the public key of
  a private one. Times are in whole seconds, as \<open>int(time.time())\<close>.
\<close>

section \<open>Tokens\<close>

record service_token_claims =
  st_iss :: string
  st_sub :: string
  st_aud :: string
  st_iat :: int
  st_nbf :: int
  st_exp :: int
  st_jti :: string
  st_typ :: "string option"
  st_tid :: "string option"

text \<open>
  \<open>sj_header\<close>: the unverified \<open>kid\<close> and \<open>alg\<close> of a token, nothing if it has no such structure; \<open>sj_decode\<close>: the claims
  under a public key, at a time with a leeway, for an audience and an issuer.
\<close>

record ('priv, 'pub, 'tok) service_jwt =
  sj_encode :: "service_token_claims \<Rightarrow> 'priv \<Rightarrow> string \<Rightarrow> 'tok"
  sj_header :: "'tok \<Rightarrow> (string option \<times> string option) option"
  sj_decode :: "'tok \<Rightarrow> 'pub \<Rightarrow> int \<Rightarrow> int \<Rightarrow> string \<Rightarrow> string \<Rightarrow> service_token_claims option"
  sj_public :: "'priv \<Rightarrow> 'pub"

definition SERVICE_ALGORITHM :: string where "SERVICE_ALGORITHM = ''ES256''"
definition SERVICE_TOKEN_TYPE :: string where "SERVICE_TOKEN_TYPE = ''service''"
definition BACKEND_AUDIENCE :: string where "BACKEND_AUDIENCE = ''backend-api''"
definition DEFAULT_TTL_SECONDS :: int where "DEFAULT_TTL_SECONDS = 60"
definition MAX_TTL_SECONDS :: int where "MAX_TTL_SECONDS = 300"
definition CLOCK_SKEW_SECONDS :: int where "CLOCK_SKEW_SECONDS = 10"

text \<open>
  The laws: the header of a token names its key and the algorithm; a token decodes to its claims under its own key, for its audience and
  issuer and in its time; what decodes under a public key was signed with its private key, and is in time.
\<close>

definition service_jwt_ok :: "('priv, 'pub, 'tok) service_jwt \<Rightarrow> bool" where
  "service_jwt_ok J \<longleftrightarrow>
     (\<forall>c k kid. sj_header J (sj_encode J c k kid) = Some (Some kid, Some SERVICE_ALGORITHM))
     \<and> (\<forall>c k kid now leeway aud iss.
          sj_decode J (sj_encode J c k kid) (sj_public J k) now leeway aud iss =
            (if st_aud c = aud \<and> st_iss c = iss \<and> st_nbf c \<le> now + leeway \<and> now - leeway \<le> st_exp c then Some c else None))
     \<and> (\<forall>tok pub now leeway aud iss c. sj_decode J tok pub now leeway aud iss = Some c \<longrightarrow>
          (\<exists>k kid. sj_public J k = pub \<and> tok = sj_encode J c k kid))"

datatype service_auth_error =
    No_Private_Key
  | Bad_Token_Structure
  | Bad_Algorithm
  | Issuer_Not_Allowed
  | No_Public_Key
  | Bad_Signature_Or_Claims
  | Not_A_Service_Token
  | Lifetime_Too_Long
  | Bad_Tenant
  | Bad_Lifetime_Argument

record ServiceClaims =
  sc_issuer :: string
  sc_audience :: string
  sc_token_id :: string
  sc_expires_at :: int
  sc_tenant_id :: "uuid option"

text \<open>\<open>ttl_seconds\<close> outside its bounds is a \<open>ValueError\<close>; a service without a key file cannot issue.\<close>

definition issue_service_token ::
  "('priv, 'pub, 'tok) service_jwt \<Rightarrow> 'priv option \<Rightarrow> string \<Rightarrow> int \<Rightarrow> string \<Rightarrow> string \<Rightarrow> uuid option \<Rightarrow> int \<Rightarrow> service_auth_error + 'tok" where
  "issue_service_token J private_key issuer now jti audience tenant_id ttl_seconds =
     (if \<not> (0 < ttl_seconds \<and> ttl_seconds \<le> MAX_TTL_SECONDS) then Inl Bad_Lifetime_Argument
      else case private_key of
        None \<Rightarrow> Inl No_Private_Key
      | Some k \<Rightarrow> Inr (sj_encode J \<lparr>st_iss = issuer, st_sub = issuer, st_aud = audience, st_iat = now, st_nbf = now,
          st_exp = now + ttl_seconds, st_jti = jti, st_typ = Some SERVICE_TOKEN_TYPE, st_tid = map_option str_of_uuid tenant_id\<rparr> k issuer))"

definition verify_service_token ::
  "('priv, 'pub, 'tok) service_jwt \<Rightarrow> (string \<Rightarrow> 'pub option) \<Rightarrow> int \<Rightarrow> 'tok \<Rightarrow> string \<Rightarrow> string list \<Rightarrow> service_auth_error + ServiceClaims" where
  "verify_service_token J public_keys now token audience allowed_issuers =
     (case sj_header J token of
        None \<Rightarrow> Inl Bad_Token_Structure
      | Some (kid, alg) \<Rightarrow>
          if alg \<noteq> Some SERVICE_ALGORITHM then Inl Bad_Algorithm
          else if kid \<notin> Some ` set allowed_issuers then Inl Issuer_Not_Allowed
          else (case public_keys (the kid) of
              None \<Rightarrow> Inl No_Public_Key
            | Some public_key \<Rightarrow>
                (case sj_decode J token public_key now CLOCK_SKEW_SECONDS audience (the kid) of
                   None \<Rightarrow> Inl Bad_Signature_Or_Claims
                 | Some claims \<Rightarrow>
                     if st_typ claims \<noteq> Some SERVICE_TOKEN_TYPE then Inl Not_A_Service_Token
                     else if st_exp claims - st_iat claims > MAX_TTL_SECONDS then Inl Lifetime_Too_Long
                     else (case (case st_tid claims of None \<Rightarrow> Inr None | Some t \<Rightarrow> if t = [] then Inr None
                           else (case uuid_of_str t of None \<Rightarrow> Inl Bad_Tenant | Some u \<Rightarrow> Inr (Some u))) of
                         Inl e \<Rightarrow> Inl e
                       | Inr tenant_id \<Rightarrow> Inr \<lparr>sc_issuer = the kid, sc_audience = audience, sc_token_id = st_jti claims,
                           sc_expires_at = st_exp claims, sc_tenant_id = tenant_id\<rparr>))))"

section \<open>The internal endpoints\<close>

definition PROFILE_READERS :: "string list" where "PROFILE_READERS = [''worker'', ''genai-worker'']"

text \<open>A request by what the dependencies read of it: the two headers a public gateway sets, and the token of the internal header.\<close>

record 'tok internal_request =
  ir_x_forwarded_for :: "string option"
  ir_x_real_ip :: "string option"
  ir_token :: "'tok option"

definition header_set :: "string option \<Rightarrow> bool" where "header_set h \<longleftrightarrow> h \<noteq> None \<and> h \<noteq> Some []"

definition reject_public_edge :: "'tok internal_request \<Rightarrow> exc + unit" where
  "reject_public_edge r =
     (if header_set (ir_x_forwarded_for r) \<or> header_set (ir_x_real_ip r) then Inl (HTTPException 404 Not_Found) else Inr ())"

definition require_service_token ::
  "('priv, 'pub, 'tok) service_jwt \<Rightarrow> (string \<Rightarrow> 'pub option) \<Rightarrow> int \<Rightarrow> string list \<Rightarrow> string \<Rightarrow> 'tok internal_request \<Rightarrow> exc + ServiceClaims" where
  "require_service_token J public_keys now allowed_issuers audience r =
     (case ir_token r of
        None \<Rightarrow> Inl (HTTPException 401 Invalid_Service_Token)
      | Some token \<Rightarrow>
          (case verify_service_token J public_keys now token audience allowed_issuers of
             Inl _ \<Rightarrow> Inl (HTTPException 401 Invalid_Service_Token)
           | Inr claims \<Rightarrow> Inr claims))"

definition service_context :: "uuid \<Rightarrow> TenantContext" where
  "service_context t = \<lparr>ctx_scope = SCOPE_TENANT, ctx_tenant_id = Some t, ctx_user_id = None\<rparr>"

definition interview_profile ::
  "unicode \<Rightarrow> ('priv, 'pub, 'tok) service_jwt \<Rightarrow> (string \<Rightarrow> 'pub option) \<Rightarrow> int \<Rightarrow> 'tok internal_request \<Rightarrow> uuid \<Rightarrow> db \<Rightarrow> exc + input_profile" where
  "interview_profile U J public_keys now r application_id d =
     (case reject_public_edge r of
        Inl e \<Rightarrow> Inl e
      | Inr _ \<Rightarrow>
     (case require_service_token J public_keys now PROFILE_READERS BACKEND_AUDIENCE r of
        Inl e \<Rightarrow> Inl e
      | Inr claims \<Rightarrow>
     (case sc_tenant_id claims of
        None \<Rightarrow> Inl (HTTPException 403 Forbidden_Role)
      | Some t \<Rightarrow>
          (let ctx = service_context t
           in case scalar_one_or_none (filter (\<lambda>a. a_id a = application_id) (select_applications ctx d)) of
                Inl e \<Rightarrow> Inl e
              | Inr None \<Rightarrow> Inl (HTTPException 404 Application_Not_Found)
              | Inr (Some application) \<Rightarrow> build_profile_for_application U ctx d application))))"

definition whoami ::
  "('priv, 'pub, 'tok) service_jwt \<Rightarrow> (string \<Rightarrow> 'pub option) \<Rightarrow> int \<Rightarrow> 'tok internal_request \<Rightarrow> exc + ServiceClaims" where
  "whoami J public_keys now r =
     (case reject_public_edge r of
        Inl e \<Rightarrow> Inl e
      | Inr _ \<Rightarrow> require_service_token J public_keys now PROFILE_READERS BACKEND_AUDIENCE r)"

section \<open>The worker's request of a profile\<close>

text \<open>\<open>load_interview_profile\<close> over the internal API: a token of the application's organisation, and any failing answer raises.\<close>

definition fetch_profile ::
  "unicode \<Rightarrow> ('priv, 'pub, 'tok) service_jwt \<Rightarrow> 'priv option \<Rightarrow> (string \<Rightarrow> 'pub option) \<Rightarrow> string \<Rightarrow> int \<Rightarrow> int \<Rightarrow> string \<Rightarrow> db \<Rightarrow> application \<Rightarrow> exc + input_profile" where
  "fetch_profile U J private_key public_keys service_name sent received jti d application =
     (case issue_service_token J private_key service_name sent jti BACKEND_AUDIENCE (Some (a_tenant_id application)) DEFAULT_TTL_SECONDS of
        Inl _ \<Rightarrow> Inl Uncaught
      | Inr token \<Rightarrow>
          (case interview_profile U J public_keys received \<lparr>ir_x_forwarded_for = None, ir_x_real_ip = None, ir_token = Some token\<rparr> (a_id application) d of
             Inl _ \<Rightarrow> Inl Uncaught
           | Inr profile \<Rightarrow> Inr profile))"

end
