(* ===== verification/Service_Properties.thy ===== *)
theory Service_Properties
  imports Service_Auth
begin

text \<open>What a service token proves, and what the internal endpoint shows.\<close>

section \<open>Tokens\<close>

text \<open>The tenant of the claims, as the receiver reads it.\<close>

definition tenant_claim :: "service_token_claims \<Rightarrow> uuid option option" where
  "tenant_claim c = (case st_tid c of None \<Rightarrow> Some None | Some t \<Rightarrow> if t = [] then Some None else map_option Some (uuid_of_str t))"

definition token_admitted :: "int \<Rightarrow> string \<Rightarrow> service_token_claims \<Rightarrow> bool" where
  "token_admitted now audience c \<longleftrightarrow> st_aud c = audience \<and> st_nbf c \<le> now + CLOCK_SKEW_SECONDS \<and> now - CLOCK_SKEW_SECONDS \<le> st_exp c
     \<and> st_typ c = Some SERVICE_TOKEN_TYPE \<and> st_exp c - st_iat c \<le> MAX_TTL_SECONDS"

lemma service_jwt_laws:
  assumes "service_jwt_ok J"
  shows "sj_header J (sj_encode J c k kid) = Some (Some kid, Some SERVICE_ALGORITHM)"
    and "sj_decode J (sj_encode J c k kid) (sj_public J k) now leeway aud iss =
      (if st_aud c = aud \<and> st_iss c = iss \<and> st_nbf c \<le> now + leeway \<and> now - leeway \<le> st_exp c then Some c else None)"
    and "sj_decode J tok pub now leeway aud iss = Some c \<Longrightarrow> \<exists>k kid. sj_public J k = pub \<and> tok = sj_encode J c k kid"
  using assms by (simp_all add: service_jwt_ok_def)

lemma verify_signed:
  assumes "service_jwt_ok J" and "kid \<in> set allowed" and "keys kid = Some (sj_public J k)"
    and "st_iss c = kid" "token_admitted now audience c" "tenant_claim c = Some t"
  shows "verify_service_token J keys now (sj_encode J c k kid) audience allowed =
    Inr \<lparr>sc_issuer = kid, sc_audience = audience, sc_token_id = st_jti c, sc_expires_at = st_exp c, sc_tenant_id = t\<rparr>"
proof -
  have "(case st_tid c of None \<Rightarrow> Inr None | Some t \<Rightarrow> if t = [] then Inr None
      else (case uuid_of_str t of None \<Rightarrow> Inl Bad_Tenant | Some u \<Rightarrow> Inr (Some u))) = Inr t"
    using assms(6) by (auto simp: tenant_claim_def split: option.splits if_splits)
  then show ?thesis
    using assms(2-5) by (simp add: verify_service_token_def service_jwt_laws [OF assms(1)] token_admitted_def)
qed

lemma verify_sound:
  assumes ok: "service_jwt_ok J" and v: "verify_service_token J keys now token audience allowed = Inr cl"
  shows "\<exists>c k. token = sj_encode J c k (sc_issuer cl) \<and> sc_issuer cl \<in> set allowed \<and> keys (sc_issuer cl) = Some (sj_public J k)
    \<and> st_iss c = sc_issuer cl \<and> token_admitted now audience c \<and> tenant_claim c = Some (sc_tenant_id cl)
    \<and> cl = \<lparr>sc_issuer = sc_issuer cl, sc_audience = audience, sc_token_id = st_jti c, sc_expires_at = st_exp c, sc_tenant_id = sc_tenant_id cl\<rparr>"
proof -
  obtain issuer pub c t where h: "sj_header J token = Some (Some issuer, Some SERVICE_ALGORITHM)" "issuer \<in> set allowed" "keys issuer = Some pub"
      and dec: "sj_decode J token pub now CLOCK_SKEW_SECONDS audience issuer = Some c"
      and kind: "st_typ c = Some SERVICE_TOKEN_TYPE" "st_exp c - st_iat c \<le> MAX_TTL_SECONDS" and t: "tenant_claim c = Some t"
      and cl: "cl = \<lparr>sc_issuer = issuer, sc_audience = audience, sc_token_id = st_jti c, sc_expires_at = st_exp c, sc_tenant_id = t\<rparr>"
    using v by (auto simp: verify_service_token_def tenant_claim_def split: option.splits if_splits sum.splits prod.splits)
  obtain k kid where tok: "sj_public J k = pub" "token = sj_encode J c k kid" using service_jwt_laws(3) [OF ok dec] by blast
  have kid: "kid = issuer" using h(1) service_jwt_laws(1) [OF ok, of c k kid] tok(2) by simp
  have "st_aud c = audience \<and> st_iss c = issuer \<and> st_nbf c \<le> now + CLOCK_SKEW_SECONDS \<and> now - CLOCK_SKEW_SECONDS \<le> st_exp c"
    using dec service_jwt_laws(2) [OF ok, of c k kid now CLOCK_SKEW_SECONDS audience issuer] tok by (simp split: if_splits)
  then show ?thesis using h kind t cl tok kid by (auto simp: token_admitted_def)
qed

text \<open>
  A receiver accepts exactly the tokens that a service on its list of callers signed with the key registered under that service's own name, for this
  receiver, within their time (up to the clock skew) and with a lifetime of at most five minutes; and a token that an allowed service
  issues is accepted for its whole lifetime, with the organisation it was issued for.
\<close>

theorem service_token_spec:
  assumes ok: "service_jwt_ok J"
  shows "(verify_service_token J keys now token audience allowed = Inr cl \<longleftrightarrow>
      (\<exists>c k. token = sj_encode J c k (sc_issuer cl) \<and> sc_issuer cl \<in> set allowed \<and> keys (sc_issuer cl) = Some (sj_public J k)
         \<and> st_iss c = sc_issuer cl \<and> token_admitted now audience c \<and> tenant_claim c = Some (sc_tenant_id cl)
         \<and> cl = \<lparr>sc_issuer = sc_issuer cl, sc_audience = audience, sc_token_id = st_jti c, sc_expires_at = st_exp c, sc_tenant_id = sc_tenant_id cl\<rparr>))
    \<and> (issue_service_token J (Some k) issuer sent jti audience tenant ttl = Inr token \<and> pred_option (\<lambda>t. t < 2 ^ 128) tenant \<and> issuer \<in> set allowed
        \<and> keys issuer = Some (sj_public J k) \<and> sent \<le> now + CLOCK_SKEW_SECONDS \<and> now \<le> sent + ttl + CLOCK_SKEW_SECONDS
      \<longrightarrow> verify_service_token J keys now token audience allowed =
        Inr \<lparr>sc_issuer = issuer, sc_audience = audience, sc_token_id = jti, sc_expires_at = sent + ttl, sc_tenant_id = tenant\<rparr>)"
proof (intro conjI impI iffI)
  assume "verify_service_token J keys now token audience allowed = Inr cl"
  then show "\<exists>c k. token = sj_encode J c k (sc_issuer cl) \<and> sc_issuer cl \<in> set allowed \<and> keys (sc_issuer cl) = Some (sj_public J k)
      \<and> st_iss c = sc_issuer cl \<and> token_admitted now audience c \<and> tenant_claim c = Some (sc_tenant_id cl)
      \<and> cl = \<lparr>sc_issuer = sc_issuer cl, sc_audience = audience, sc_token_id = st_jti c, sc_expires_at = st_exp c, sc_tenant_id = sc_tenant_id cl\<rparr>"
    by (rule verify_sound [OF ok])
next
  assume "\<exists>c k. token = sj_encode J c k (sc_issuer cl) \<and> sc_issuer cl \<in> set allowed \<and> keys (sc_issuer cl) = Some (sj_public J k)
      \<and> st_iss c = sc_issuer cl \<and> token_admitted now audience c \<and> tenant_claim c = Some (sc_tenant_id cl)
      \<and> cl = \<lparr>sc_issuer = sc_issuer cl, sc_audience = audience, sc_token_id = st_jti c, sc_expires_at = st_exp c, sc_tenant_id = sc_tenant_id cl\<rparr>"
  then show "verify_service_token J keys now token audience allowed = Inr cl" using verify_signed [OF ok] by metis
next
  assume a: "issue_service_token J (Some k) issuer sent jti audience tenant ttl = Inr token \<and> pred_option (\<lambda>t. t < 2 ^ 128) tenant \<and> issuer \<in> set allowed
        \<and> keys issuer = Some (sj_public J k) \<and> sent \<le> now + CLOCK_SKEW_SECONDS \<and> now \<le> sent + ttl + CLOCK_SKEW_SECONDS"
  let ?c = "\<lparr>st_iss = issuer, st_sub = issuer, st_aud = audience, st_iat = sent, st_nbf = sent,
          st_exp = sent + ttl, st_jti = jti, st_typ = Some SERVICE_TOKEN_TYPE, st_tid = map_option str_of_uuid tenant\<rparr>"
  have tok: "token = sj_encode J ?c k issuer" "0 < ttl" "ttl \<le> MAX_TTL_SECONDS"
    using a by (simp_all add: issue_service_token_def split: if_splits)
  have "tenant_claim ?c = Some tenant" using a by (cases tenant) (auto simp: tenant_claim_def uuid_round_trip str_of_uuid_not_empty)
  moreover have "token_admitted now audience ?c" using a tok by (simp add: token_admitted_def)
  ultimately show "verify_service_token J keys now token audience allowed =
      Inr \<lparr>sc_issuer = issuer, sc_audience = audience, sc_token_id = jti, sc_expires_at = sent + ttl, sc_tenant_id = tenant\<rparr>"
    using verify_signed [OF ok, of issuer allowed keys k ?c now audience tenant] a by (simp add: tok(1))
qed

definition plain_service_jwt :: "(nat, nat, service_token_claims \<times> nat \<times> string) service_jwt" where
  "plain_service_jwt = \<lparr>sj_encode = (\<lambda>c k kid. (c, k, kid)), sj_header = (\<lambda>(c, k, kid). Some (Some kid, Some SERVICE_ALGORITHM)),
     sj_decode = (\<lambda>(c, k, kid) pub now leeway aud iss.
       if pub = k \<and> st_aud c = aud \<and> st_iss c = iss \<and> st_nbf c \<le> now + leeway \<and> now - leeway \<le> st_exp c then Some c else None),
     sj_public = id\<rparr>"

lemma plain_service_jwt_ok: "service_jwt_ok plain_service_jwt"
  by (auto simp: service_jwt_ok_def plain_service_jwt_def split: if_splits)

definition demo_service_token :: "service_token_claims \<times> nat \<times> string" where
  "demo_service_token = (\<lparr>st_iss = ''worker'', st_sub = ''worker'', st_aud = BACKEND_AUDIENCE, st_iat = 1000, st_nbf = 1000, st_exp = 1060,
     st_jti = ''j'', st_typ = Some SERVICE_TOKEN_TYPE, st_tid = Some (str_of_uuid 5)\<rparr>, 7, ''worker'')"

lemma demo_issue: "issue_service_token plain_service_jwt (Some 7) ''worker'' 1000 ''j'' BACKEND_AUDIENCE (Some 5) 60 = Inr demo_service_token"
  by (simp add: issue_service_token_def plain_service_jwt_def demo_service_token_def MAX_TTL_SECONDS_def)

theorem service_token_spec_witness:
  "verify_service_token plain_service_jwt [''worker'' \<mapsto> 7] 1050 demo_service_token BACKEND_AUDIENCE PROFILE_READERS =
     Inr \<lparr>sc_issuer = ''worker'', sc_audience = BACKEND_AUDIENCE, sc_token_id = ''j'', sc_expires_at = 1060, sc_tenant_id = Some 5\<rparr>"
proof -
  have "issue_service_token plain_service_jwt (Some 7) ''worker'' 1000 ''j'' BACKEND_AUDIENCE (Some 5) 60 = Inr demo_service_token
      \<and> pred_option (\<lambda>t. t < 2 ^ 128) (Some (5 :: nat)) \<and> ''worker'' \<in> set PROFILE_READERS
      \<and> [''worker'' \<mapsto> 7] ''worker'' = Some (sj_public plain_service_jwt 7)
      \<and> (1000 :: int) \<le> 1050 + CLOCK_SKEW_SECONDS \<and> (1050 :: int) \<le> 1000 + 60 + CLOCK_SKEW_SECONDS"
    using demo_issue by (simp add: PROFILE_READERS_def CLOCK_SKEW_SECONDS_def) (simp add: plain_service_jwt_def)
  from service_token_spec [where keys = "[''worker'' \<mapsto> 7]" and now = 1050 and k = 7, OF plain_service_jwt_ok, THEN conjunct2, THEN mp, OF this]
  show ?thesis by simp
qed

section \<open>The internal endpoint\<close>

lemma settings_service:
  assumes "t < 2 ^ 128"
  shows "tenant_settings (context_parameters (service_context t)) d t" "tenant_criterion (service_context t) x = (x = t)"
  using assms
  by (auto simp: tenant_settings_def service_context_def context_parameters_def app_current_tenant_def app_current_scope_def
      app_current_candidate_id_def is_system_def owner_def scope_defs DB_RLS_ROLE_def uuid_round_trip find_None_iff add_tenant_criteria_def
      select_state_def)

lemma select_service:
  assumes t: "t < 2 ^ 128"
  shows "select_applications (service_context t) d = filter (\<lambda>a. a_tenant_id a = t) (applications d)"
    and "select_jobs (service_context t) d = filter (\<lambda>j. j_tenant_id j = t) (jobs d)"
    and "select_resumes (service_context t) d = filter (\<lambda>r. r_tenant_id r = t) (resumes d)"
    and "select_candidates (service_context t) d =
      filter (\<lambda>c. \<exists>a \<in> set (applications d). a_candidate_id a = c_id c \<and> a_tenant_id a = t) (candidates d)"
proof -
  let ?s = "context_parameters (service_context t)"
  note st = settings_service [OF t]
  have apps: "rls_applications ?s d = filter (\<lambda>a. a_tenant_id a = t) (applications d)"
    unfolding rls_applications_def by (rule filter_cong [OF refl]) (rule applications_tt.visible_settings [OF st(1)], simp_all)
  show "select_applications (service_context t) d = filter (\<lambda>a. a_tenant_id a = t) (applications d)"
    by (simp add: select_applications_def apps st(2))
  have js: "rls_jobs ?s d = filter (\<lambda>j. j_tenant_id j = t) (jobs d)"
    unfolding rls_jobs_def by (rule filter_cong [OF refl]) (rule jobs_tt.visible_settings [OF st(1)], simp_all)
  show "select_jobs (service_context t) d = filter (\<lambda>j. j_tenant_id j = t) (jobs d)" by (simp add: select_jobs_def js st(2))
  show "select_resumes (service_context t) d = filter (\<lambda>r. r_tenant_id r = t) (resumes d)"
    unfolding select_resumes_def using resumes_tt.visible_settings [OF st(1), of R_SELECT d] by (auto simp: st(2) intro!: filter_cong)
  have "rls_visible ?s (candidates_policies ?s d) R_SELECT c \<longleftrightarrow> (\<exists>a \<in> set (applications d). a_candidate_id a = c_id c \<and> a_tenant_id a = t)" for c
    using st(1) [of d] by (auto simp: rls_visible_def candidates_policies_def tenant_settings_def apps list_ex_iff tenant_match_def)
  then show "select_candidates (service_context t) d =
      filter (\<lambda>c. \<exists>a \<in> set (applications d). a_candidate_id a = c_id c \<and> a_tenant_id a = t) (candidates d)"
    unfolding select_candidates_def by (intro filter_cong refl)
qed

lemma find_filter_same:
  assumes "find P xs = Some x" and "keyed key xs" and "\<And>y. P y \<longleftrightarrow> key y = key x" and "Q x"
  shows "find P (filter Q xs) = Some x"
proof -
  have x: "x \<in> set xs" "P x" using find_member [OF assms(1)] by auto
  have "y = x" if "y \<in> set xs" "P y" for y
    using that x assms(2, 3) by (auto simp: keyed_def distinct_map inj_on_def)
  then have same: "y = x" if "y \<in> set (filter Q xs)" "P y" for y using that by simp
  show ?thesis
  proof (cases "find P (filter Q xs)")
    case None
    then show ?thesis using x assms(4) by (simp add: find_None_iff)
  next
    case (Some y)
    then show ?thesis using same find_member [OF Some] by simp
  qed
qed

lemma find_filtered:
  assumes "keyed key xs" and "\<And>x. x \<in> set xs \<Longrightarrow> key x = k \<Longrightarrow> Q x"
  shows "find (\<lambda>x. key x = k) (filter Q xs) = find (\<lambda>x. key x = k) xs"
proof (cases "find (\<lambda>x. key x = k) xs")
  case None
  then have "find (\<lambda>x. key x = k) (filter Q xs) = None" by (auto simp: find_None_iff)
  then show ?thesis using None by simp
next
  case (Some x)
  then have "x \<in> set xs" "key x = k" using find_member [OF Some] by auto
  then show ?thesis using find_filter_same [OF Some assms(1), of Q] assms(2) Some by auto
qed

text \<open>In the scope of its organisation, an application's profile is the one the worker would read itself.\<close>

lemma profile_service:
  assumes t: "a_tenant_id a < 2 ^ 128" and keyed: "keyed_db d" and a: "a \<in> set (applications d)"
    and job: "\<And>j. j \<in> set (jobs d) \<Longrightarrow> j_id j = a_job_id a \<Longrightarrow> j_tenant_id j = a_tenant_id a"
  shows "build_profile_for_application U (service_context (a_tenant_id a)) d a = build_profile_for_application U SYSTEM_CONTEXT d a"
proof -
  note sel = select_service [OF t]
  have resume: "latest_processed_resume (service_context (a_tenant_id a)) d (a_candidate_id a) (a_tenant_id a) =
      latest_processed_resume SYSTEM_CONTEXT d (a_candidate_id a) (a_tenant_id a)"
  proof -
    have "filter (\<lambda>r. r_candidate_id r = a_candidate_id a \<and> r_tenant_id r = a_tenant_id a \<and> r_skill_analysis r \<noteq> None)
        (filter (\<lambda>r. r_tenant_id r = a_tenant_id a) (resumes d))
      = filter (\<lambda>r. r_candidate_id r = a_candidate_id a \<and> r_tenant_id r = a_tenant_id a \<and> r_skill_analysis r \<noteq> None) (resumes d)"
      by (simp only: filter_filter) (rule filter_cong [OF refl], blast)
    then show ?thesis unfolding latest_processed_resume_def sel select_system by (simp only:)
  qed
  have jobs: "find (\<lambda>j. j_id j = a_job_id a) (select_jobs (service_context (a_tenant_id a)) d) = find (\<lambda>j. j_id j = a_job_id a) (jobs d)"
    unfolding sel using keyed job by (intro find_filtered) (auto simp: keyed_db_def)
  have cands: "find (\<lambda>c. c_id c = a_candidate_id a) (select_candidates (service_context (a_tenant_id a)) d) =
      find (\<lambda>c. c_id c = a_candidate_id a) (candidates d)"
    unfolding sel using keyed a by (intro find_filtered) (auto simp: keyed_db_def)
  show ?thesis unfolding build_profile_for_application_def resume jobs cands select_system by (rule refl)
qed

lemma filter_keyed:
  assumes "keyed key xs" and "x \<in> set xs"
  shows "filter (\<lambda>y. key y = key x) xs = [x]"
  using assms
proof (induction xs)
  case (Cons y ys)
  then show ?case
    by (cases "y = x") (auto simp: keyed_def filter_empty_conv image_iff)
qed simp

text \<open>
  C24. The two ways to load a profile agree: with a token for the application's organisation, the internal endpoint answers the worker with
  the very profile that the worker would read from the database in its own, unrestricted scope (and every failure
  raises).
\<close>

theorem internal_profile_agrees:
  assumes "service_jwt_ok J" and "keys name = Some (sj_public J k)" and "name \<in> set PROFILE_READERS"
    and "sent \<le> received + CLOCK_SKEW_SECONDS" "received \<le> sent + DEFAULT_TTL_SECONDS + CLOCK_SKEW_SECONDS"
    and "a_tenant_id a < 2 ^ 128" "keyed_db d" "a \<in> set (applications d)"
    and "\<forall>j \<in> set (jobs d). j_id j = a_job_id a \<longrightarrow> j_tenant_id j = a_tenant_id a"
  shows "fetch_profile U J (Some k) keys name sent received jti d a =
    map_sum (\<lambda>_. Uncaught) id (load_interview_profile U None SYSTEM_CONTEXT d a)"
proof -
  obtain token where token: "issue_service_token J (Some k) name sent jti BACKEND_AUDIENCE (Some (a_tenant_id a)) DEFAULT_TTL_SECONDS = Inr token"
    by (simp add: issue_service_token_def DEFAULT_TTL_SECONDS_def MAX_TTL_SECONDS_def)
  let ?c = "\<lparr>st_iss = name, st_sub = name, st_aud = BACKEND_AUDIENCE, st_iat = sent, st_nbf = sent, st_exp = sent + DEFAULT_TTL_SECONDS,
     st_jti = jti, st_typ = Some SERVICE_TOKEN_TYPE, st_tid = Some (str_of_uuid (a_tenant_id a))\<rparr>"
  have tok: "token = sj_encode J ?c k name" using token by (simp add: issue_service_token_def split: if_splits)
  have "tenant_claim ?c = Some (Some (a_tenant_id a))" by (simp add: tenant_claim_def uuid_round_trip [OF assms(6)])
  moreover have "token_admitted received BACKEND_AUDIENCE ?c"
    using assms(4, 5) by (simp add: token_admitted_def DEFAULT_TTL_SECONDS_def MAX_TTL_SECONDS_def)
  ultimately have ver: "verify_service_token J keys received token BACKEND_AUDIENCE PROFILE_READERS =
      Inr \<lparr>sc_issuer = name, sc_audience = BACKEND_AUDIENCE, sc_token_id = jti, sc_expires_at = sent + DEFAULT_TTL_SECONDS,
        sc_tenant_id = Some (a_tenant_id a)\<rparr>"
    using verify_signed [where keys = keys and k = k, OF assms(1, 3, 2), of ?c] by (simp add: tok)
  have app: "filter (\<lambda>x. a_id x = a_id a) (select_applications (service_context (a_tenant_id a)) d) = [a]"
  proof -
    have "filter (\<lambda>x. a_id x = a_id a) (applications d) = [a]" using assms(7, 8) by (intro filter_keyed) (simp_all add: keyed_db_def)
    then have "filter (\<lambda>x. a_tenant_id x = a_tenant_id a) (filter (\<lambda>x. a_id x = a_id a) (applications d)) = [a]" by simp
    then show ?thesis unfolding select_service [OF assms(6)] by (simp only: filter_filter conj_commute)
  qed
  have prof: "build_profile_for_application U (service_context (a_tenant_id a)) d a = build_profile_for_application U SYSTEM_CONTEXT d a"
    using assms(6-9) by (intro profile_service) auto
  have "interview_profile U J keys received \<lparr>ir_x_forwarded_for = None, ir_x_real_ip = None, ir_token = Some token\<rparr> (a_id a) d
      = build_profile_for_application U SYSTEM_CONTEXT d a"
    by (simp add: interview_profile_def reject_public_edge_def header_set_def require_service_token_def ver Let_def app prof)
  then show ?thesis
    by (simp add: fetch_profile_def token load_interview_profile_def split: sum.split)
qed

theorem internal_profile_agrees_witness:
  "fetch_profile ascii_tables plain_service_jwt (Some 7) [''worker'' \<mapsto> 7] ''worker'' 1000 1030 ''j'' demo_db demo_application =
     map_sum (\<lambda>_. Uncaught) id (load_interview_profile ascii_tables None SYSTEM_CONTEXT demo_db demo_application)"
  by (rule internal_profile_agrees [where k = 7, OF plain_service_jwt_ok])
    (simp_all add: plain_service_jwt_def PROFILE_READERS_def CLOCK_SKEW_SECONDS_def DEFAULT_TTL_SECONDS_def demo_application_def
      demo_db_def keyed_db_def keyed_def demo_job_def)

end
