(* ===== verification/Backup.thy ===== *)
theory Backup
  imports Py_Regex Matching Redis_Store Sessions
begin

text \<open>
  The disaster-recovery backups: the retention policy (backup/retention.py) and the commands of ats-backup
  (backup/ats_backup.py) that change the offsite storage or choose what to restore. The offsite storage is the list
  of its files; encryption, compression and their inverse are parameters, as is the failure of each call of rclone.
  A \<open>datetime\<close> is held by its fields in UTC; its instant is counted in microseconds.
\<close>

section \<open>Points in time\<close>

record datetime =
  dt_year :: int
  dt_month :: int
  dt_day :: int
  dt_hour :: int
  dt_minute :: int
  dt_second :: int
  dt_micro :: int

definition is_leap :: "int \<Rightarrow> bool" where
  "is_leap y \<longleftrightarrow> y mod 4 = 0 \<and> (y mod 100 \<noteq> 0 \<or> y mod 400 = 0)"

definition month_lengths :: "int \<Rightarrow> int list" where
  "month_lengths y = [31, if is_leap y then 29 else 28, 31, 30, 31, 30, 31, 31, 30, 31, 30, 31]"

definition days_in_month :: "int \<Rightarrow> int \<Rightarrow> int" where
  "days_in_month y m = month_lengths y ! nat (m - 1)"

definition ymd2ord :: "int \<Rightarrow> int \<Rightarrow> int \<Rightarrow> int" where
  "ymd2ord y m d =
     (let y1 = y - 1 in y1 * 365 + y1 div 4 - y1 div 100 + y1 div 400)
     + sum_list (take (nat (m - 1)) (month_lengths y)) + d"

definition instant :: "datetime \<Rightarrow> time" where
  "instant t =
     (((ymd2ord (dt_year t) (dt_month t) (dt_day t) * 24 + dt_hour t) * 60 + dt_minute t) * 60 + dt_second t) * seconds
     + dt_micro t"

definition valid_datetime :: "datetime \<Rightarrow> bool" where
  "valid_datetime t \<longleftrightarrow>
     1 \<le> dt_year t \<and> dt_year t \<le> 9999 \<and> 1 \<le> dt_month t \<and> dt_month t \<le> 12
     \<and> 1 \<le> dt_day t \<and> dt_day t \<le> days_in_month (dt_year t) (dt_month t)
     \<and> 0 \<le> dt_hour t \<and> dt_hour t \<le> 23 \<and> 0 \<le> dt_minute t \<and> dt_minute t \<le> 59
     \<and> 0 \<le> dt_second t \<and> dt_second t \<le> 59 \<and> 0 \<le> dt_micro t \<and> dt_micro t \<le> 999999"

abbreviation days :: "int \<Rightarrow> time" where "days n \<equiv> n * 86400 * seconds"

definition HOURLY_RETENTION :: time where "HOURLY_RETENTION = days 2"
definition DAILY_RETENTION :: time where "DAILY_RETENTION = days 30"
definition MONTHLY_RETENTION :: time where "MONTHLY_RETENTION = days 365"

section \<open>Time stamps\<close>

text \<open>
  The regular expression that \<open>strptime\<close> builds from \<open>STAMP_FORMAT\<close>, with the group of a field numbered by
  its place; a digit of \<open>\d\<close> is a decimal digit of any script.
\<close>

definition decimal :: "unicode \<Rightarrow> regex" where "decimal U = Cls (\<lambda>c. uc_digit U c \<noteq> None)"

definition digit_to :: "nat \<Rightarrow> nat \<Rightarrow> regex" where "digit_to a b = Cls (\<lambda>c. 48 + a \<le> c \<and> c \<le> 48 + b)"

definition year_group :: "unicode \<Rightarrow> regex" where
  "year_group U = Cap 1 (seqs [decimal U, decimal U, decimal U, decimal U])"

definition month_group :: regex where
  "month_group = Cap 2 (alts [seqs [digit_to 1 1, digit_to 0 2], seqs [digit_to 0 0, digit_to 1 9], digit_to 1 9])"

definition day_group :: "unicode \<Rightarrow> regex" where
  "day_group U =
     Cap 3 (alts [seqs [digit_to 3 3, digit_to 0 1], seqs [digit_to 1 2, decimal U], seqs [digit_to 0 0, digit_to 1 9],
       digit_to 1 9, seqs [Char 32, digit_to 1 9]])"

definition hour_group :: "unicode \<Rightarrow> regex" where
  "hour_group U = Cap 4 (alts [seqs [digit_to 2 2, digit_to 0 3], seqs [digit_to 0 1, decimal U], decimal U])"

definition minute_group :: "unicode \<Rightarrow> regex" where
  "minute_group U = Cap 5 (alts [seqs [digit_to 0 5, decimal U], decimal U])"

definition second_group :: "unicode \<Rightarrow> regex" where
  "second_group U = Cap 6 (alts [seqs [digit_to 6 6, digit_to 0 1], seqs [digit_to 0 5, decimal U], decimal U])"

definition STAMP_FORMAT :: "unicode \<Rightarrow> regex" where
  "STAMP_FORMAT U =
     Seq (year_group U) (Seq month_group (Seq (day_group U) (Seq (Char_i U (of_char (CHR ''T'')))
       (Seq (hour_group U) (Seq (minute_group U) (Seq (second_group U) (Char_i U (of_char (CHR ''Z'')))))))))"

text \<open>\<open>int\<close> of a group: white space around the digits is ignored.\<close>

definition group_int :: "unicode \<Rightarrow> (nat \<times> utext) list \<Rightarrow> nat \<Rightarrow> int" where
  "group_int U g k = digits_value (map (\<lambda>c. the (uc_digit U c)) (ustrip U (the (map_of g k))))"

datatype backup_error = Value_Error | Called_Process_Error | Runtime_Error | System_Exit

definition parse_stamp :: "unicode \<Rightarrow> utext \<Rightarrow> backup_error + datetime" where
  "parse_stamp U stamp =
     (case match_here (STAMP_FORMAT U) None stamp of
        Some (_, [], g) \<Rightarrow>
          (let t = \<lparr>dt_year = group_int U g 1, dt_month = group_int U g 2, dt_day = group_int U g 3, dt_hour = group_int U g 4,
                    dt_minute = group_int U g 5, dt_second = group_int U g 6, dt_micro = 0\<rparr>
           in if valid_datetime t then Inr t else Inl Value_Error)
      | _ \<Rightarrow> Inl Value_Error)"

text \<open>\<open>strftime\<close> with the same format, for years of four digits.\<close>

fun digits_of :: "nat \<Rightarrow> nat \<Rightarrow> utext" where
  "digits_of 0 n = []"
| "digits_of (Suc k) n = digits_of k (n div 10) @ [48 + n mod 10]"

definition stamp_of :: "datetime \<Rightarrow> utext" where
  "stamp_of t =
     digits_of 4 (nat (dt_year t)) @ digits_of 2 (nat (dt_month t)) @ digits_of 2 (nat (dt_day t)) @ utext_of ''T''
     @ digits_of 2 (nat (dt_hour t)) @ digits_of 2 (nat (dt_minute t)) @ digits_of 2 (nat (dt_second t)) @ utext_of ''Z''"

section \<open>Retention policy\<close>

text \<open>The kinds in the order of their names.\<close>

datatype item_kind = Full | Resumes | Wal

fun kind_rank :: "item_kind \<Rightarrow> nat" where
  "kind_rank Full = 0"
| "kind_rank Resumes = 1"
| "kind_rank Wal = 2"

lemma kind_rank_inj: "kind_rank a = kind_rank b \<Longrightarrow> a = b"
  by (cases a; cases b) auto

instantiation item_kind :: linorder
begin

definition less_eq_item_kind :: "item_kind \<Rightarrow> item_kind \<Rightarrow> bool" where
  "less_eq_item_kind a b \<longleftrightarrow> kind_rank a \<le> kind_rank b"

definition less_item_kind :: "item_kind \<Rightarrow> item_kind \<Rightarrow> bool" where
  "less_item_kind a b \<longleftrightarrow> kind_rank a < kind_rank b"

instance
  by standard (auto simp: less_eq_item_kind_def less_item_kind_def intro: kind_rank_inj)

end

record BackupItem =
  bi_kind :: item_kind
  bi_path :: utext
  bi_created_at :: datetime

abbreviation created :: "BackupItem \<Rightarrow> time" where "created item \<equiv> instant (bi_created_at item)"

definition month_of :: "BackupItem \<Rightarrow> int \<times> int" where
  "month_of item = (dt_year (bi_created_at item), dt_month (bi_created_at item))"

definition of_kind :: "item_kind \<Rightarrow> BackupItem list \<Rightarrow> BackupItem list" where
  "of_kind k items = filter (\<lambda>item. bi_kind item = k) items"

text \<open>\<open>setdefault\<close> over the ordered snapshots: the first of each month.\<close>

fun first_of_month :: "(int \<times> int) list \<Rightarrow> BackupItem list \<Rightarrow> BackupItem list" where
  "first_of_month seen [] = []"
| "first_of_month seen (item # items) =
     (if month_of item \<in> set seen then first_of_month seen items
      else item # first_of_month (month_of item # seen) items)"

text \<open>Whether a snapshot stays; \<open>newest\<close> is an object, here the last place of the ordered list.\<close>

definition keep_snapshot :: "BackupItem list \<Rightarrow> datetime \<Rightarrow> time \<Rightarrow> time \<Rightarrow> nat \<Rightarrow> bool" where
  "keep_snapshot ordered now daily monthly i =
     (let item = ordered ! i; age = instant now - created item
      in i = length ordered - 1 \<or> age \<le> daily \<or> item \<in> set (first_of_month [] ordered) \<and> age \<le> monthly)"

definition expired_snapshots :: "BackupItem list \<Rightarrow> datetime \<Rightarrow> time \<Rightarrow> time \<Rightarrow> BackupItem list" where
  "expired_snapshots snapshots now daily monthly =
     (if snapshots = [] then []
      else let ordered = sort_key created snapshots
        in map ((!) ordered) (filter (\<lambda>i. \<not> keep_snapshot ordered now daily monthly i) [0..<length ordered]))"

definition wal_floor :: "BackupItem list \<Rightarrow> time option" where
  "wal_floor items =
     (let fulls = map created (of_kind Full items) in if fulls = [] then None else Some (Max (set fulls)))"

definition wal_expired :: "BackupItem list \<Rightarrow> datetime \<Rightarrow> time \<Rightarrow> BackupItem \<Rightarrow> bool" where
  "wal_expired items now hourly item \<longleftrightarrow>
     bi_kind item = Wal \<and> instant now - created item > hourly
     \<and> (case wal_floor items of None \<Rightarrow> True | Some newest \<Rightarrow> created item < newest)"

definition plan_deletions :: "BackupItem list \<Rightarrow> datetime \<Rightarrow> time \<Rightarrow> time \<Rightarrow> time \<Rightarrow> BackupItem list" where
  "plan_deletions items now hourly daily monthly =
     sort_key (\<lambda>item. (bi_kind item, created item))
       (filter (wal_expired items now hourly) items
        @ expired_snapshots (of_kind Full items) now daily monthly
        @ expired_snapshots (of_kind Resumes items) now daily monthly)"

section \<open>The offsite storage\<close>

text \<open>A file of the storage with the text of its modification time.\<close>

record 'c remote_file =
  rf_path :: utext
  rf_modtime :: utext
  rf_content :: 'c

text \<open>
  One entry of the listing. A name that is no time stamp raises; \<open>fromiso\<close> is \<open>fromisoformat\<close>, whose result the
  model holds in UTC.
\<close>

definition item_of_entry :: "unicode \<Rightarrow> (utext \<Rightarrow> datetime option) \<Rightarrow> utext \<times> utext \<Rightarrow> backup_error + (utext \<times> BackupItem) option" where
  "item_of_entry U fromiso entry =
     (let parts = split_on 47 (fst entry)
      in if parts ! 0 = utext_of ''full'' \<and> length parts = 3
         then (let path = utext_of ''full/'' @ parts ! 1
               in map_sum id (\<lambda>t. Some (path, \<lparr>bi_kind = Full, bi_path = path, bi_created_at = t\<rparr>)) (parse_stamp U (parts ! 1)))
         else if parts ! 0 = utext_of ''resumes'' \<and> length parts = 2
         then map_sum id (\<lambda>t. Some (fst entry, \<lparr>bi_kind = Resumes, bi_path = fst entry, bi_created_at = t\<rparr>))
                (parse_stamp U (split_on 46 (parts ! 1) ! 0))
         else if parts ! 0 = utext_of ''wal'' \<and> length parts = 2
         then (case fromiso (snd entry) of
                 None \<Rightarrow> Inl Value_Error
               | Some t \<Rightarrow> Inr (Some (fst entry, \<lparr>bi_kind = Wal, bi_path = fst entry, bi_created_at = t\<rparr>)))
         else Inr None)"

definition add_item :: "(utext \<times> BackupItem) option \<Rightarrow> (utext \<times> BackupItem) list \<Rightarrow> (utext \<times> BackupItem) list" where
  "add_item e items = (case e of None \<Rightarrow> items | Some (path, item) \<Rightarrow> dict_set items path item)"

definition items_of_listing :: "unicode \<Rightarrow> (utext \<Rightarrow> datetime option) \<Rightarrow> (utext \<times> utext) list \<Rightarrow> backup_error + BackupItem list" where
  "items_of_listing U fromiso listing =
     (case collect (map (item_of_entry U fromiso) listing) of
        Inl e \<Rightarrow> Inl e
      | Inr entries \<Rightarrow> Inr (sort_key (\<lambda>item. (bi_kind item, created item)) (map snd (fold add_item entries []))))"

definition inventory :: "unicode \<Rightarrow> (utext \<Rightarrow> datetime option) \<Rightarrow> bool \<Rightarrow> 'c remote_file list \<Rightarrow> backup_error + BackupItem list" where
  "inventory U fromiso listed files =
     (if listed then items_of_listing U fromiso (map (\<lambda>f. (rf_path f, rf_modtime f)) files) else Inr [])"

text \<open>
  Deleting an item: \<open>purge\<close> of a directory or \<open>deletefile\<close>. A call that fails (\<open>Some gone\<close>) may have removed
  the files \<open>gone\<close> of the directory already.
\<close>

definition doomed :: "BackupItem \<Rightarrow> 'c remote_file \<Rightarrow> bool" where
  "doomed item f \<longleftrightarrow>
     (if bi_kind item = Full then prefix (bi_path item @ utext_of ''/'') (rf_path f) else rf_path f = bi_path item)"

fun delete_items :: "(utext \<Rightarrow> ('c remote_file \<Rightarrow> bool) option) \<Rightarrow> BackupItem list \<Rightarrow> 'c remote_file list \<Rightarrow>
    backup_error option \<times> 'c remote_file list" where
  "delete_items broken [] files = (None, files)"
| "delete_items broken (item # items) files =
     (case broken (bi_path item) of
        None \<Rightarrow> delete_items broken items (filter (\<lambda>f. \<not> doomed item f) files)
      | Some gone \<Rightarrow> (Some Called_Process_Error, filter (\<lambda>f. \<not> (doomed item f \<and> gone f)) files))"

definition cmd_retention :: "unicode \<Rightarrow> (utext \<Rightarrow> datetime option) \<Rightarrow> bool \<Rightarrow> (utext \<Rightarrow> ('c remote_file \<Rightarrow> bool) option) \<Rightarrow>
    datetime \<Rightarrow> bool \<Rightarrow> 'c remote_file list \<Rightarrow> backup_error option \<times> 'c remote_file list" where
  "cmd_retention U fromiso listed broken now dry_run files =
     (case inventory U fromiso listed files of
        Inl e \<Rightarrow> (Some e, files)
      | Inr items \<Rightarrow>
          if dry_run then (None, files)
          else delete_items broken (plan_deletions items now HOURLY_RETENTION DAILY_RETENTION MONTHLY_RETENTION) files)"

section \<open>Making backups\<close>

text \<open>\<open>copyto\<close> of one file; a failed transfer leaves the storage as it was.\<close>

definition upload :: "(utext \<Rightarrow> bool) \<Rightarrow> 'c remote_file \<Rightarrow> 'c remote_file list \<Rightarrow> backup_error + 'c remote_file list" where
  "upload fails f files =
     (if fails (rf_path f) then Inl Called_Process_Error else Inr (filter (\<lambda>g. rf_path g \<noteq> rf_path f) files @ [f]))"

fun upload_all :: "(utext \<Rightarrow> bool) \<Rightarrow> 'c remote_file list \<Rightarrow> 'c remote_file list \<Rightarrow> backup_error option \<times> 'c remote_file list" where
  "upload_all fails [] files = (None, files)"
| "upload_all fails (f # fs) files =
     (case upload fails f files of Inl e \<Rightarrow> (Some e, files) | Inr files' \<Rightarrow> upload_all fails fs files')"

text \<open>
  What the commands meet outside: the listing and the deletions of the retention, failed transfers, the modification
  time that the storage reports for the files of this run, and the clock when the retention starts.
\<close>

record 'c surroundings =
  s_unicode :: unicode
  s_iso :: "utext \<Rightarrow> datetime option"
  s_listed :: bool
  s_broken :: "utext \<Rightarrow> ('c remote_file \<Rightarrow> bool) option"
  s_fails :: "utext \<Rightarrow> bool"
  s_modtime :: utext
  s_later :: datetime

definition retain :: "'c surroundings \<Rightarrow> 'c remote_file list \<Rightarrow> backup_error option \<times> 'c remote_file list" where
  "retain S files = cmd_retention (s_unicode S) (s_iso S) (s_listed S) (s_broken S) (s_later S) False files"

text \<open>
  A full backup of the stamp of \<open>now\<close>: the two encrypted streams and the manifest, each of which may fail to be
  made, and their upload in the order of their names.
\<close>

definition cmd_full :: "'c surroundings \<Rightarrow> datetime \<Rightarrow> backup_error + 'c \<Rightarrow> backup_error + 'c \<Rightarrow> backup_error + 'c \<Rightarrow>
    'c remote_file list \<Rightarrow> backup_error option \<times> 'c remote_file list" where
  "cmd_full S now base database manifest files =
     (let remote = (\<lambda>name content. \<lparr>rf_path = utext_of ''full/'' @ stamp_of now @ utext_of (''/'' @ name),
            rf_modtime = s_modtime S, rf_content = content\<rparr>)
      in case collect [base, database, manifest] of
           Inl e \<Rightarrow> (Some e, files)
         | Inr work \<Rightarrow>
             (case upload_all (s_fails S) (map2 remote [''base.tar.zst.age'', ''database.dump.zst.age'', ''manifest.json''] work) files of
                (Some e, files') \<Rightarrow> (Some e, files')
              | (None, files') \<Rightarrow> retain S files'))"

definition cmd_ensure_full :: "'c surroundings \<Rightarrow> datetime \<Rightarrow> backup_error + 'c \<Rightarrow> backup_error + 'c \<Rightarrow> backup_error + 'c \<Rightarrow>
    'c remote_file list \<Rightarrow> backup_error option \<times> 'c remote_file list" where
  "cmd_ensure_full S now base database manifest files =
     (case inventory (s_unicode S) (s_iso S) (s_listed S) files of
        Inl e \<Rightarrow> (Some e, files)
      | Inr items \<Rightarrow>
          if \<exists>item \<in> set items. bi_kind item = Full then (None, files) else cmd_full S now base database manifest files)"

text \<open>
  Waiting for the archiver: each poll reads the clock, the last archived segment and whether the segment's file is in
  the archive; a poll at or after the deadline ends the wait.
\<close>

fun await_archived :: "time \<Rightarrow> utext \<Rightarrow> (time \<times> utext \<times> bool) list \<Rightarrow> bool" where
  "await_archived deadline segment [] = False"
| "await_archived deadline segment ((clock, archived, there) # polls) =
     (clock < deadline \<and> (segment \<le> archived \<or> there \<or> await_archived deadline segment polls))"

definition wal_path :: "utext \<Rightarrow> utext" where
  "wal_path name = utext_of ''wal/'' @ name @ utext_of ''.zst.age''"

definition pending_segments :: "(utext \<times> 'c) list \<Rightarrow> (utext \<times> 'c) list" where
  "pending_segments archive = sort_key fst (filter (\<lambda>(name, _). \<not> suffix (utext_of ''.tmp'') name) archive)"

text \<open>Shipping the segments: encrypted, transferred, and only then removed from the archive.\<close>

fun ship_segments :: "'c surroundings \<Rightarrow> ('c \<Rightarrow> 'c option) \<Rightarrow> (utext \<times> 'c) list \<Rightarrow> (utext \<times> 'c) list \<Rightarrow> 'c remote_file list \<Rightarrow>
    backup_error option \<times> (utext \<times> 'c) list \<times> 'c remote_file list" where
  "ship_segments S enc [] archive files = (None, archive, files)"
| "ship_segments S enc ((name, content) # pending) archive files =
     (case enc content of
        None \<Rightarrow> (Some Runtime_Error, archive, files)
      | Some sealed \<Rightarrow>
          (case upload (s_fails S) \<lparr>rf_path = wal_path name, rf_modtime = s_modtime S, rf_content = sealed\<rparr> files of
             Inl e \<Rightarrow> (Some e, archive, files)
           | Inr files' \<Rightarrow> ship_segments S enc pending (filter (\<lambda>(n, _). n \<noteq> name) archive) files'))"

definition cmd_wal :: "'c surroundings \<Rightarrow> ('c \<Rightarrow> 'c option) \<Rightarrow> time \<Rightarrow> utext option \<Rightarrow> (time \<times> utext \<times> bool) list \<Rightarrow>
    (utext \<times> 'c) list \<Rightarrow> 'c remote_file list \<Rightarrow> backup_error option \<times> (utext \<times> 'c) list \<times> 'c remote_file list" where
  "cmd_wal S enc started switched polls archive files =
     (case switched of
        None \<Rightarrow> (Some Called_Process_Error, archive, files)
      | Some segment \<Rightarrow>
          if \<not> await_archived (started + 120 * seconds) segment polls then (Some Runtime_Error, archive, files)
          else (case ship_segments S enc (pending_segments archive) archive files of
                  (Some e, archive', files') \<Rightarrow> (Some e, archive', files')
                | (None, archive', files') \<Rightarrow>
                    (let (err, files'') = retain S files' in (err, archive', files''))))"

definition cmd_resumes :: "'c surroundings \<Rightarrow> datetime \<Rightarrow> bool \<Rightarrow> backup_error + 'c \<Rightarrow> 'c remote_file list \<Rightarrow>
    backup_error option \<times> 'c remote_file list" where
  "cmd_resumes S now source_exists sealed files =
     (if \<not> source_exists then (None, files)
      else case sealed of
             Inl e \<Rightarrow> (Some e, files)
           | Inr content \<Rightarrow>
               (case upload (s_fails S) \<lparr>rf_path = utext_of ''resumes/'' @ stamp_of now @ utext_of ''.tar.zst.age'',
                       rf_modtime = s_modtime S, rf_content = content\<rparr> files of
                  Inl e \<Rightarrow> (Some e, files)
                | Inr files' \<Rightarrow> retain S files'))"

section \<open>Restoring\<close>

text \<open>The full backup that \<open>recover\<close> starts from, and the resume backup that is unpacked.\<close>

definition newest_before :: "item_kind \<Rightarrow> datetime \<Rightarrow> BackupItem list \<Rightarrow> backup_error + BackupItem" where
  "newest_before k limit items =
     (let candidates = filter (\<lambda>item. bi_kind item = k \<and> created item \<le> instant limit) items
      in if candidates = [] then Inl System_Exit else Inr (last candidates))"

definition find_file :: "utext \<Rightarrow> 'c remote_file list \<Rightarrow> 'c remote_file option" where
  "find_file path files = find (\<lambda>f. rf_path f = path) files"

text \<open>\<open>rclone cat | age -d | zstd -d\<close>: any stage may fail.\<close>

definition decrypt_from_remote :: "('c \<Rightarrow> 'c option) \<Rightarrow> utext \<Rightarrow> 'c remote_file list \<Rightarrow> backup_error + 'c" where
  "decrypt_from_remote dec path files =
     (case find_file path files of
        None \<Rightarrow> Inl Runtime_Error
      | Some f \<Rightarrow> (case dec (rf_content f) of None \<Rightarrow> Inl Runtime_Error | Some content \<Rightarrow> Inr content))"

definition recover_base :: "unicode \<Rightarrow> (utext \<Rightarrow> datetime option) \<Rightarrow> bool \<Rightarrow> ('c \<Rightarrow> 'c option) \<Rightarrow> datetime \<Rightarrow> bool \<Rightarrow>
    'c remote_file list \<Rightarrow> backup_error + BackupItem \<times> 'c" where
  "recover_base U fromiso listed dec limit target_empty files =
     (if \<not> target_empty then Inl System_Exit
      else case inventory U fromiso listed files of
             Inl e \<Rightarrow> Inl e
           | Inr items \<Rightarrow>
               (case newest_before Full limit items of
                  Inl e \<Rightarrow> Inl e
                | Inr base \<Rightarrow>
                    map_sum id (Pair base) (decrypt_from_remote dec (bi_path base @ utext_of ''/base.tar.zst.age'') files)))"

definition restore_resumes :: "unicode \<Rightarrow> (utext \<Rightarrow> datetime option) \<Rightarrow> bool \<Rightarrow> ('c \<Rightarrow> 'c option) \<Rightarrow> datetime \<Rightarrow>
    'c remote_file list \<Rightarrow> backup_error + BackupItem \<times> 'c" where
  "restore_resumes U fromiso listed dec limit files =
     (case inventory U fromiso listed files of
        Inl e \<Rightarrow> Inl e
      | Inr items \<Rightarrow>
          (case newest_before Resumes limit items of
             Inl e \<Rightarrow> Inl e
           | Inr item \<Rightarrow> map_sum id (Pair item) (decrypt_from_remote dec (bi_path item) files)))"

text \<open>\<open>restore_command\<close>: a segment that is not there, or any failure, ends with a non-zero code.\<close>

definition cmd_fetch_wal :: "('c \<Rightarrow> 'c option) \<Rightarrow> utext \<Rightarrow> 'c remote_file list \<Rightarrow> backup_error + 'c" where
  "cmd_fetch_wal dec segment files =
     (case find_file (wal_path segment) files of
        None \<Rightarrow> Inl System_Exit
      | Some _ \<Rightarrow>
          (case decrypt_from_remote dec (wal_path segment) files of
             Inl e \<Rightarrow> Inl System_Exit
           | Inr content \<Rightarrow> Inr content))"

end
