(* ===== verification/Backup_Stamps.thy ===== *)
theory Backup_Stamps
  imports Backup
begin

text \<open>
  What the backups promise: a stamp is read back, the retention settles after one run, a segment leaves the archive
  only for the storage and is fetched back as it was, and the points in time to which the kept backups still lead.
\<close>

section \<open>Stamps\<close>

text \<open>The first match of an expression on a text consumes exactly \<open>x\<close>.\<close>

definition begins :: "regex \<Rightarrow> utext \<Rightarrow> bool" where
  "begins r x \<longleftrightarrow> (\<forall>p s g. \<exists>p' qs. match r (p, x @ s, g) = (p', s, g) # qs)"

lemma begins_Cls: "P c \<Longrightarrow> begins (Cls P) [c]"
  by (simp add: begins_def)

lemma begins_Seq: "begins a x \<Longrightarrow> begins b y \<Longrightarrow> begins (Seq a b) (x @ y)"
  unfolding begins_def
proof (intro allI)
  fix p s g
  assume a: "\<forall>p s g. \<exists>p' qs. match a (p, x @ s, g) = (p', s, g) # qs"
    and b: "\<forall>p s g. \<exists>p' qs. match b (p, y @ s, g) = (p', s, g) # qs"
  obtain p1 q1 where "match a (p, x @ y @ s, g) = (p1, y @ s, g) # q1" using a by blast
  moreover obtain p2 q2 where "match b (p1, y @ s, g) = (p2, s, g) # q2" using b by blast
  ultimately show "\<exists>p' qs. match (Seq a b) (p, (x @ y) @ s, g) = (p', s, g) # qs" by simp
qed

lemma begins_Eps: "begins Eps []"
  by (simp add: begins_def)

lemma begins_Alt1: "begins a x \<Longrightarrow> begins (Alt a b) x"
  unfolding begins_def
proof (intro allI)
  fix p s g
  assume "\<forall>p s g. \<exists>p' qs. match a (p, x @ s, g) = (p', s, g) # qs"
  then obtain p' qs where "match a (p, x @ s, g) = (p', s, g) # qs" by blast
  then show "\<exists>p' qs. match (Alt a b) (p, x @ s, g) = (p', s, g) # qs" by simp
qed

lemma begins_Alt2: "(\<And>p s g. match a (p, x @ s, g) = []) \<Longrightarrow> begins b x \<Longrightarrow> begins (Alt a b) x"
  by (simp add: begins_def)

lemma begins_pair: "P c \<Longrightarrow> Q d \<Longrightarrow> begins (seqs [Cls P, Cls Q]) [c, d]"
  by (simp add: seqs_def begins_def)

lemma two_digits: "n < 100 \<Longrightarrow> digits_of 2 n = [48 + n div 10, 48 + n mod 10]"
  by (simp add: numeral_2_eq_2)

text \<open>The tables read the ASCII digits as digits.\<close>

definition ascii_digits :: "unicode \<Rightarrow> bool" where
  "ascii_digits U \<longleftrightarrow> (\<forall>d < 10. uc_digit U (48 + d) = Some d \<and> \<not> uc_space U (48 + d))"

lemma ascii_digitsD:
  assumes "ascii_digits U"
  shows "uc_digit U (48 + n mod 10) = Some (n mod 10)" "\<not> uc_space U (48 + n mod 10)"
    "n < 100 \<Longrightarrow> uc_digit U (48 + n div 10) = Some (n div 10)" "n < 100 \<Longrightarrow> \<not> uc_space U (48 + n div 10)"
  using assms by (auto simp: ascii_digits_def)

lemma begins_month: "1 \<le> n \<Longrightarrow> n \<le> 12 \<Longrightarrow>
  begins (alts [seqs [digit_to 1 1, digit_to 0 2], seqs [digit_to 0 0, digit_to 1 9], digit_to 1 9]) (digits_of 2 n)"
proof -
  assume n: "1 \<le> n" "n \<le> 12"
  show ?thesis
  proof (cases "n < 10")
    case True
    with n show ?thesis
      by (simp add: two_digits digit_to_def) (intro begins_Alt2 begins_Alt1 begins_pair; simp add: seqs_def)
  next
    case False
    with n have "n div 10 = 1" "n mod 10 \<le> 2" by presburger+
    with n show ?thesis by (simp add: two_digits digit_to_def) (intro begins_Alt1 begins_pair; simp)
  qed
qed

lemma begins_day:
  assumes U: "ascii_digits U" and n: "1 \<le> n" "n \<le> 31"
  shows "begins (alts [seqs [digit_to 3 3, digit_to 0 1], seqs [digit_to 1 2, decimal U], seqs [digit_to 0 0, digit_to 1 9],
    digit_to 1 9, seqs [Char 32, digit_to 1 9]]) (digits_of 2 n)"
proof -
  consider "n div 10 = 3" "n mod 10 \<le> 1" | "1 \<le> n div 10" "n div 10 \<le> 2" | "n div 10 = 0" "1 \<le> n mod 10"
    using n div_mult_mod_eq [of n 10] mod_less_divisor [of 10 n] by linarith
  then show ?thesis
  proof cases
    case 1
    with n show ?thesis by (simp add: two_digits digit_to_def) (intro begins_Alt1 begins_pair; simp)
  next
    case 2
    with n show ?thesis
      by (simp add: two_digits digit_to_def decimal_def)
        (intro begins_Alt2 begins_Alt1 begins_pair; simp add: seqs_def ascii_digitsD [OF U])
  next
    case 3
    with n show ?thesis
      by (simp add: two_digits digit_to_def decimal_def) (rule begins_Alt2, simp add: seqs_def,
        rule begins_Alt2, simp add: seqs_def, rule begins_Alt1, intro begins_pair; simp)
  qed
qed

lemma begins_hour:
  assumes U: "ascii_digits U" and n: "n \<le> 23"
  shows "begins (alts [seqs [digit_to 2 2, digit_to 0 3], seqs [digit_to 0 1, decimal U], decimal U]) (digits_of 2 n)"
proof -
  consider "n div 10 = 2" "n mod 10 \<le> 3" | "n div 10 \<le> 1"
    using n div_mult_mod_eq [of n 10] mod_less_divisor [of 10 n] by linarith
  then show ?thesis
  proof cases
    case 1
    with n show ?thesis by (simp add: two_digits digit_to_def) (intro begins_Alt1 begins_pair; simp)
  next
    case 2
    with n show ?thesis
      by (simp add: two_digits digit_to_def decimal_def)
        (intro begins_Alt2 begins_Alt1 begins_pair; simp add: seqs_def ascii_digitsD [OF U])
  qed
qed

lemma begins_minute:
  assumes U: "ascii_digits U" and n: "n \<le> 59"
  shows "begins (alts [seqs [digit_to 0 5, decimal U], decimal U]) (digits_of 2 n)"
  using n by (simp add: two_digits digit_to_def decimal_def) (intro begins_Alt1 begins_pair; simp add: ascii_digitsD [OF U])

lemma begins_second:
  assumes U: "ascii_digits U" and n: "n \<le> 59"
  shows "begins (alts [seqs [digit_to 6 6, digit_to 0 1], seqs [digit_to 0 5, decimal U], decimal U]) (digits_of 2 n)"
proof -
  have "n div 10 \<le> 5" using n by simp
  with n show ?thesis
    by (simp add: two_digits digit_to_def decimal_def)
      (intro begins_Alt2 begins_Alt1 begins_pair; simp add: seqs_def ascii_digitsD [OF U])
qed

lemma begins_year:
  assumes U: "ascii_digits U"
  shows "begins (seqs [decimal U, decimal U, decimal U, decimal U]) (digits_of 4 n)"
proof -
  have four: "4 = Suc (Suc (Suc (Suc 0)))" by simp
  have "digits_of 4 n = [48 + n div 10 div 10 div 10 mod 10, 48 + n div 10 div 10 mod 10, 48 + n div 10 mod 10, 48 + n mod 10]"
    unfolding four digits_of.simps by simp
  then show ?thesis by (simp add: begins_def seqs_def decimal_def ascii_digitsD [OF U])
qed

text \<open>A group adds the text that it consumed.\<close>

lemma match_Cap: "begins r x \<Longrightarrow> \<exists>p' qs. match (Cap k r) (p, x @ s, g) = (p', s, (k, x) # g) # qs"
proof -
  assume "begins r x"
  then obtain p' qs where "match r (p, x @ s, g) = (p', s, g) # qs" unfolding begins_def by blast
  then show ?thesis by simp
qed

lemma match_Seq_first: "match a ps = q # qs \<Longrightarrow> \<exists>rs. match b q = r # rs \<Longrightarrow> \<exists>rs. match (Seq a b) ps = r # rs"
  by auto

lemma digits_of_value:
  assumes "ascii_digits U"
  shows "digits_value (map (\<lambda>c. the (uc_digit U c)) (digits_of k n)) = int (n mod 10 ^ k)"
proof (induction k arbitrary: n)
  case (Suc k)
  have "n mod 10 ^ Suc k = 10 * (n div 10 mod 10 ^ k) + n mod 10"
    by (simp add: mod_mult2_eq)
  with Suc [of "n div 10"] show ?case by (simp add: digits_value_def ascii_digitsD [OF assms])
qed (simp add: digits_value_def)

lemma digits_not_space: "ascii_digits U \<Longrightarrow> c \<in> set (digits_of k n) \<Longrightarrow> \<not> uc_space U c"
  by (induction k arbitrary: n) (auto simp: ascii_digitsD)

lemma group_int_digits:
  "ascii_digits U \<Longrightarrow> map_of g j = Some (digits_of k n) \<Longrightarrow> group_int U g j = int (n mod 10 ^ k)"
  by (simp add: group_int_def ustrip_def strip_by_id digits_not_space digits_of_value)

lemma match_Char_i: "match (Char_i U c) (p, c # s, g) = [(Some c, s, g)]"
  by (simp add: Char_i_def)

lemma match_last: "match r ps = [q] \<Longrightarrow> \<exists>rs. match r ps = q # rs"
  by simp

text \<open>Reading the stamp of a moment gives the moment to the second.\<close>

lemma days_in_month_le: "1 \<le> m \<Longrightarrow> m \<le> 12 \<Longrightarrow> days_in_month y m \<le> 31"
proof -
  assume "1 \<le> m" "m \<le> 12"
  then have "nat (m - 1) < length (month_lengths y)" by (simp add: month_lengths_def)
  then have "days_in_month y m \<in> set (month_lengths y)" by (simp add: days_in_month_def)
  then show ?thesis by (auto simp: month_lengths_def split: if_splits)
qed

lemma stamp_matches:
  assumes U: "ascii_digits U" and t: "valid_datetime t"
  shows "\<exists>p. match_here (STAMP_FORMAT U) None (stamp_of t) =
    Some (p, [], [(6, digits_of 2 (nat (dt_second t))), (5, digits_of 2 (nat (dt_minute t))), (4, digits_of 2 (nat (dt_hour t))),
      (3, digits_of 2 (nat (dt_day t))), (2, digits_of 2 (nat (dt_month t))), (1, digits_of 4 (nat (dt_year t)))])"
proof -
  let ?Y = "digits_of 4 (nat (dt_year t))" and ?m = "digits_of 2 (nat (dt_month t))" and ?d = "digits_of 2 (nat (dt_day t))"
    and ?H = "digits_of 2 (nat (dt_hour t))" and ?M = "digits_of 2 (nat (dt_minute t))" and ?S = "digits_of 2 (nat (dt_second t))"
  have d: "dt_day t \<le> 31" using t days_in_month_le [of "dt_month t" "dt_year t"] by (auto simp: valid_datetime_def)
  note bounds = t [unfolded valid_datetime_def]
  have ranges: "1 \<le> nat (dt_month t)" "nat (dt_month t) \<le> 12" "1 \<le> nat (dt_day t)" "nat (dt_day t) \<le> 31"
    "nat (dt_hour t) \<le> 23" "nat (dt_minute t) \<le> 59" "nat (dt_second t) \<le> 59"
    using bounds d by linarith+
  note begins_fields = begins_month [OF ranges(1,2)] begins_day [OF U ranges(3,4)] begins_hour [OF U ranges(5)]
    begins_minute [OF U ranges(6)] begins_second [OF U ranges(7)]
  let ?s6 = "[90 :: nat]" let ?s5 = "?S @ ?s6" let ?s4 = "?M @ ?s5" let ?s3 = "?H @ ?s4" let ?s2 = "84 # ?s3" let ?s1 = "?d @ ?s2"
  let ?s0 = "?m @ ?s1"
  obtain p1 q1 where 1: "match (year_group U) (None, ?Y @ ?s0, []) = (p1, ?s0, [(1, ?Y)]) # q1"
    using match_Cap [OF begins_year [OF U]] unfolding year_group_def by blast
  obtain p2 q2 where 2: "match month_group (p1, ?m @ ?s1, [(1, ?Y)]) = (p2, ?s1, [(2, ?m), (1, ?Y)]) # q2"
    using match_Cap [OF begins_fields(1)] unfolding month_group_def by blast
  obtain p3 q3 where 3: "match (day_group U) (p2, ?d @ ?s2, [(2, ?m), (1, ?Y)]) = (p3, ?s2, [(3, ?d), (2, ?m), (1, ?Y)]) # q3"
    using match_Cap [OF begins_fields(2)] unfolding day_group_def by blast
  obtain p4 q4 where 4: "match (hour_group U) (Some 84, ?H @ ?s4, [(3, ?d), (2, ?m), (1, ?Y)])
      = (p4, ?s4, [(4, ?H), (3, ?d), (2, ?m), (1, ?Y)]) # q4"
    using match_Cap [OF begins_fields(3)] unfolding hour_group_def by blast
  obtain p5 q5 where 5: "match (minute_group U) (p4, ?M @ ?s5, [(4, ?H), (3, ?d), (2, ?m), (1, ?Y)])
      = (p5, ?s5, [(5, ?M), (4, ?H), (3, ?d), (2, ?m), (1, ?Y)]) # q5"
    using match_Cap [OF begins_fields(4)] unfolding minute_group_def by blast
  obtain p6 q6 where 6: "match (second_group U) (p5, ?S @ ?s6, [(5, ?M), (4, ?H), (3, ?d), (2, ?m), (1, ?Y)])
      = (p6, ?s6, [(6, ?S), (5, ?M), (4, ?H), (3, ?d), (2, ?m), (1, ?Y)]) # q6"
    using match_Cap [OF begins_fields(5)] unfolding second_group_def by blast
  let ?g = "[(6, ?S), (5, ?M), (4, ?H), (3, ?d), (2, ?m), (1, ?Y)]"
  have T: "of_char (CHR ''T'') = (84 :: nat)" "of_char (CHR ''Z'') = (90 :: nat)" by simp_all
  have "\<exists>qs. match (STAMP_FORMAT U) (None, ?Y @ ?s0, []) = (Some 90, [], ?g) # qs"
    unfolding STAMP_FORMAT_def T
    by (intro match_Seq_first [OF 1] match_Seq_first [OF 2] match_Seq_first [OF 3] match_Seq_first [OF match_Char_i]
      match_Seq_first [OF 4] match_Seq_first [OF 5] match_Seq_first [OF 6] match_last [OF match_Char_i])
  moreover have "stamp_of t = ?Y @ ?s0" by (simp add: stamp_of_def utext_of_def)
  ultimately show ?thesis by (auto simp only: match_here_def list.case)
qed

lemma parse_stamp_of:
  assumes U: "ascii_digits U" and t: "valid_datetime t"
  shows "parse_stamp U (stamp_of t) = Inr (t\<lparr>dt_micro := 0\<rparr>)"
proof -
  obtain p where m: "match_here (STAMP_FORMAT U) None (stamp_of t) =
    Some (p, [], [(6, digits_of 2 (nat (dt_second t))), (5, digits_of 2 (nat (dt_minute t))), (4, digits_of 2 (nat (dt_hour t))),
      (3, digits_of 2 (nat (dt_day t))), (2, digits_of 2 (nat (dt_month t))), (1, digits_of 4 (nat (dt_year t)))])"
    using stamp_matches [OF U t] by blast
  have d: "dt_day t \<le> 31" using t days_in_month_le [of "dt_month t" "dt_year t"] by (auto simp: valid_datetime_def)
  have v: "valid_datetime (t\<lparr>dt_micro := 0\<rparr>)" using t by (simp add: valid_datetime_def)
  have mods: "nat (dt_year t) mod 10000 = nat (dt_year t)" "nat (dt_month t) mod 100 = nat (dt_month t)"
    "nat (dt_day t) mod 100 = nat (dt_day t)" "nat (dt_hour t) mod 100 = nat (dt_hour t)"
    "nat (dt_minute t) mod 100 = nat (dt_minute t)" "nat (dt_second t) mod 100 = nat (dt_second t)"
    using t d by (auto simp: valid_datetime_def)
  have nonneg: "0 \<le> dt_year t" "0 \<le> dt_month t" "0 \<le> dt_day t" "0 \<le> dt_hour t" "0 \<le> dt_minute t" "0 \<le> dt_second t"
    using t by (simp_all add: valid_datetime_def)
  have eq: "(t\<lparr>dt_micro := 0\<rparr>) = \<lparr>dt_year = dt_year t, dt_month = dt_month t, dt_day = dt_day t, dt_hour = dt_hour t,
      dt_minute = dt_minute t, dt_second = dt_second t, dt_micro = 0\<rparr>" by (cases t) simp
  show ?thesis
    using v [unfolded eq] eq by (simp add: parse_stamp_def m group_int_digits [OF U] mods nonneg Let_def)
qed

end
