(* ===== verification/Backup_Policy.thy ===== *)
theory Backup_Policy
  imports Backup_Stamps
begin

text \<open>
  The retention against an order-free statement of the policy, and what a retention run leaves: it settles at once,
  and points in time after the newest full backup stay recoverable.
\<close>

section \<open>The policy\<close>

text \<open>
  The policy as the operators read it: a segment goes when it is older than \<open>hourly\<close> and lies before the newest
  full backup (or there is none); a snapshot goes when it is older than \<open>daily\<close>, is not the newest of its kind and
  is not the first of its month within \<open>monthly\<close>.
\<close>

definition policy_deletes :: "BackupItem set \<Rightarrow> time \<Rightarrow> time \<Rightarrow> time \<Rightarrow> time \<Rightarrow> BackupItem \<Rightarrow> bool" where
  "policy_deletes items now hourly daily monthly x \<longleftrightarrow> x \<in> items \<and>
     (case bi_kind x of
        Wal \<Rightarrow> now - created x > hourly
          \<and> ((\<exists>y \<in> items. bi_kind y = Full \<and> created x < created y) \<or> (\<forall>y \<in> items. bi_kind y \<noteq> Full))
      | k \<Rightarrow> now - created x > daily \<and> (\<exists>y \<in> items. bi_kind y = k \<and> created x < created y)
          \<and> (now - created x > monthly
             \<or> (\<exists>y \<in> items. bi_kind y = k \<and> month_of y = month_of x \<and> created y < created x)))"

text \<open>No two snapshots of a kind from the same moment.\<close>

definition apart :: "BackupItem set \<Rightarrow> bool" where
  "apart items \<longleftrightarrow> (\<forall>x \<in> items. \<forall>y \<in> items. bi_kind x = bi_kind y \<and> bi_kind x \<noteq> Wal \<and> created x = created y \<longrightarrow> x = y)"

section \<open>Snapshots in order\<close>

lemma first_of_month_iff:
  "sorted_wrt (\<lambda>a b. created a < created b) xs \<Longrightarrow>
   x \<in> set (first_of_month seen xs) \<longleftrightarrow>
     x \<in> set xs \<and> month_of x \<notin> set seen \<and> (\<forall>y \<in> set xs. month_of y = month_of x \<longrightarrow> created x \<le> created y)"
proof (induction seen xs rule: first_of_month.induct)
  case (2 seen item items)
  show ?case
  proof (cases "x = item")
    case True
    with 2 show ?thesis by (auto intro: less_imp_le)
  next
    case False
    with 2 show ?thesis by (auto simp: not_le)
  qed
qed simp

lemma strictly_ordered:
  assumes "distinct s" "inj_on created (set s)"
  shows "sorted_wrt (\<lambda>a b. created a < created b) (sort_key created s)"
proof -
  have "distinct (map created (sort_key created s))" using assms by (simp add: distinct_map)
  then have "sorted_wrt (<) (map created (sort_key created s))" by (simp add: strict_sorted_iff)
  then show ?thesis by (simp add: sorted_wrt_map)
qed

lemma last_place:
  assumes "sorted_wrt (\<lambda>a b. created a < created b) xs" "i < length xs"
  shows "i = length xs - 1 \<longleftrightarrow> (\<forall>y \<in> set xs. created y \<le> created (xs ! i))"
proof
  assume i: "i = length xs - 1"
  show "\<forall>y \<in> set xs. created y \<le> created (xs ! i)"
  proof
    fix y
    assume "y \<in> set xs"
    then obtain j where "j < length xs" "y = xs ! j" by (auto simp: in_set_conv_nth)
    then show "created y \<le> created (xs ! i)"
      using sorted_wrt_nth_less [OF assms(1), of j i] assms(2) i by (cases "j = i") (simp_all add: less_imp_le)
  qed
next
  assume top: "\<forall>y \<in> set xs. created y \<le> created (xs ! i)"
  show "i = length xs - 1"
  proof (rule ccontr)
    assume "i \<noteq> length xs - 1"
    then have "Suc i < length xs" using assms(2) by simp
    then show False using sorted_wrt_nth_less [OF assms(1), of i "Suc i"] top nth_mem [of "Suc i" xs] by fastforce
  qed
qed

lemma expired_snapshots_iff:
  assumes "distinct s" "inj_on created (set s)"
  shows "x \<in> set (expired_snapshots s now daily monthly) \<longleftrightarrow>
    x \<in> set s \<and> instant now - created x > daily \<and> (\<exists>y \<in> set s. created x < created y)
    \<and> (instant now - created x > monthly \<or> (\<exists>y \<in> set s. month_of y = month_of x \<and> created y < created x))"
proof (cases "s = []")
  case False
  let ?o = "sort_key created s"
  note ord = strictly_ordered [OF assms]
  have k: "\<not> keep_snapshot ?o now daily monthly i \<longleftrightarrow>
      instant now - created (?o ! i) > daily \<and> (\<exists>y \<in> set s. created (?o ! i) < created y)
      \<and> (instant now - created (?o ! i) > monthly
         \<or> (\<exists>y \<in> set s. month_of y = month_of (?o ! i) \<and> created y < created (?o ! i)))" if "i < length ?o" for i
  proof -
    have "?o ! i \<in> set ?o" using that by (rule nth_mem)
    then have m: "?o ! i \<in> set s" by (simp only: set_sort)
    have "(i = length ?o - 1) \<longleftrightarrow> (\<forall>y \<in> set s. created y \<le> created (?o ! i))"
      using last_place [OF ord that] by (simp only: set_sort)
    moreover have "?o ! i \<in> set (first_of_month [] ?o) \<longleftrightarrow>
        (\<forall>y \<in> set s. month_of y = month_of (?o ! i) \<longrightarrow> created (?o ! i) \<le> created y)"
      using first_of_month_iff [OF ord, of "?o ! i" "[]"] m by simp
    ultimately show ?thesis unfolding keep_snapshot_def Let_def by (auto simp: not_le not_less)
  qed
  have "x \<in> set (expired_snapshots s now daily monthly) \<longleftrightarrow>
      (\<exists>i < length ?o. x = ?o ! i \<and> \<not> keep_snapshot ?o now daily monthly i)"
    using False by (auto simp: expired_snapshots_def Let_def)
  also have "\<dots> \<longleftrightarrow> (\<exists>i < length ?o. x = ?o ! i \<and> instant now - created x > daily \<and> (\<exists>y \<in> set s. created x < created y)
      \<and> (instant now - created x > monthly \<or> (\<exists>y \<in> set s. month_of y = month_of x \<and> created y < created x)))"
    using k by blast
  also have "\<dots> \<longleftrightarrow> x \<in> set ?o \<and> instant now - created x > daily \<and> (\<exists>y \<in> set s. created x < created y)
      \<and> (instant now - created x > monthly \<or> (\<exists>y \<in> set s. month_of y = month_of x \<and> created y < created x))"
    unfolding in_set_conv_nth by blast
  finally show ?thesis by (simp only: set_sort)
qed (simp add: expired_snapshots_def)

lemma expired_subset: "set (expired_snapshots s now daily monthly) \<subseteq> set s"
proof
  fix x
  assume "x \<in> set (expired_snapshots s now daily monthly)"
  then obtain i where "i < length (sort_key created s)" "x = sort_key created s ! i"
    by (auto simp: expired_snapshots_def Let_def split: if_splits)
  then have "x \<in> set (sort_key created s)" by (simp only: nth_mem)
  then show "x \<in> set s" by simp
qed

lemma distinct_expired: "distinct s \<Longrightarrow> distinct (expired_snapshots s now daily monthly)"
  by (auto simp: expired_snapshots_def Let_def distinct_map nth_eq_iff_index_eq intro!: inj_onI)

lemma wal_floor_passed:
  "(case wal_floor items of None \<Rightarrow> True | Some newest \<Rightarrow> created x < newest) \<longleftrightarrow>
   (\<exists>y \<in> set items. bi_kind y = Full \<and> created x < created y) \<or> (\<forall>y \<in> set items. bi_kind y \<noteq> Full)"
proof (cases "of_kind Full items = []")
  case True
  then have "\<forall>y \<in> set items. bi_kind y \<noteq> Full" by (simp add: of_kind_def filter_empty_conv)
  with True show ?thesis by (auto simp: wal_floor_def Let_def)
next
  case False
  then have "created x < Max (set (map created (of_kind Full items))) \<longleftrightarrow>
      (\<exists>a \<in> set (map created (of_kind Full items)). created x < a)"
    by (intro Max_gr_iff) auto
  with False show ?thesis by (auto simp: wal_floor_def Let_def of_kind_def filter_empty_conv)
qed

lemma set_of_kind: "set (of_kind k items) = {x \<in> set items. bi_kind x = k}"
  by (auto simp: of_kind_def)

lemma expired_kind: "x \<in> set (expired_snapshots (of_kind k items) now daily monthly) \<Longrightarrow> x \<in> set items \<and> bi_kind x = k"
  using expired_subset [of "of_kind k items"] by (auto simp: set_of_kind)

lemma plan_deletions_iff:
  assumes "distinct items" "apart (set items)"
  shows "x \<in> set (plan_deletions items now hourly daily monthly) \<longleftrightarrow>
    policy_deletes (set items) (instant now) hourly daily monthly x"
proof -
  have d: "distinct (of_kind k items)" for k using assms(1) by (simp add: of_kind_def)
  have i: "inj_on created (set (of_kind k items))" if "k \<noteq> Wal" for k
    using assms(2) that by (auto simp: inj_on_def apart_def set_of_kind)
  have f: "inj_on created (set (of_kind Full items))" "inj_on created (set (of_kind Resumes items))"
    by (auto intro: i)
  show ?thesis
    by (cases "bi_kind x")
      (auto simp: plan_deletions_def policy_deletes_def wal_expired_def wal_floor_passed
        expired_snapshots_iff [OF d f(1)] expired_snapshots_iff [OF d f(2)] set_of_kind)
qed

text \<open>The newest snapshot of a kind stays.\<close>

lemma newest_stays:
  assumes "finite items" "x \<in> items" "bi_kind x = k" "k \<noteq> Wal"
  shows "\<exists>b \<in> items. bi_kind b = k \<and> (\<forall>y \<in> items. bi_kind y = k \<longrightarrow> created y \<le> created b)
    \<and> \<not> policy_deletes items now hourly daily monthly b"
proof -
  let ?S = "{y \<in> items. bi_kind y = k}"
  have "finite (created ` ?S)" "created ` ?S \<noteq> {}" using assms by auto
  then have "Max (created ` ?S) \<in> created ` ?S" by (rule Max_in)
  then obtain b where b: "b \<in> ?S" "created b = Max (created ` ?S)" by force
  then have top: "created y \<le> created b" if "y \<in> items" "bi_kind y = k" for y
    using that assms(1) by simp
  with b have "\<not> policy_deletes items now hourly daily monthly b"
    using assms(4) by (cases k) (auto simp: policy_deletes_def not_less dest!: top)
  with b top show ?thesis by blast
qed

lemma policy_settles:
  assumes "finite items"
  shows "\<not> policy_deletes {x \<in> items. \<not> policy_deletes items now hourly daily monthly x} now hourly daily monthly x"
    (is "\<not> policy_deletes ?kept now hourly daily monthly x")
proof
  assume del: "policy_deletes ?kept now hourly daily monthly x"
  then have x: "x \<in> items" "\<not> policy_deletes items now hourly daily monthly x" by (auto simp: policy_deletes_def)
  show False
  proof (cases "bi_kind x")
    case Wal
    with x del obtain y where "y \<in> items" "bi_kind y = Full" "\<forall>z \<in> ?kept. bi_kind z \<noteq> Full"
      by (auto simp: policy_deletes_def)
    with newest_stays [OF assms, of y Full now hourly daily monthly] show ?thesis by auto
  next
    case Full
    with x del show ?thesis by (auto simp: policy_deletes_def)
  next
    case Resumes
    with x del show ?thesis by (auto simp: policy_deletes_def)
  qed
qed

text \<open>
  C25. The retention is the policy, whatever the order of the listing: an item is scheduled for deletion exactly when
  the policy says so, each of them once, and a second run on what is left finds nothing more to delete.
\<close>

theorem retention_is_the_policy:
  assumes "distinct items" and "apart (set items)"
    and plan: "plan = plan_deletions items now hourly daily monthly"
  shows "distinct plan \<and> (\<forall>x. x \<in> set plan \<longleftrightarrow> policy_deletes (set items) (instant now) hourly daily monthly x)
    \<and> plan_deletions (filter (\<lambda>x. x \<notin> set plan) items) now hourly daily monthly = []"
proof -
  note iff = plan_deletions_iff [OF assms(1,2), of _ now hourly daily monthly, folded plan]
  let ?left = "filter (\<lambda>x. x \<notin> set plan) items"
  have "distinct ?left" "apart (set ?left)" using assms(1,2) by (auto simp: apart_def)
  note iff' = plan_deletions_iff [OF this, of _ now hourly daily monthly]
  have "set ?left = {x \<in> set items. \<not> policy_deletes (set items) (instant now) hourly daily monthly x}"
    using iff by auto
  then have "x \<notin> set (plan_deletions ?left now hourly daily monthly)" for x
    using policy_settles [of "set items"] iff' [of x] by simp
  then have "plan_deletions ?left now hourly daily monthly = []"
    by (metis list.set_intros(1) neq_Nil_conv)
  moreover have "distinct plan"
  proof -
    have kinds: "bi_kind x = k" if "x \<in> set (expired_snapshots (of_kind k items) now daily monthly)" for x k
      using that expired_subset [of "of_kind k items"] by (auto simp: set_of_kind)
    have "distinct (expired_snapshots (of_kind k items) now daily monthly)" for k
      using assms(1) by (simp add: of_kind_def distinct_expired)
    moreover have "bi_kind x = Wal" if "wal_expired items now hourly x" for x using that by (simp add: wal_expired_def)
    ultimately show ?thesis
      using assms(1) by (auto simp: plan plan_deletions_def dest!: kinds) 
  qed
  ultimately show ?thesis using iff by simp
qed

end
