(* ===== verification/Backup_Storage.thy ===== *)
theory Backup_Storage
  imports Backup_Policy
begin

text \<open>
  The commands of the backups over the offsite storage: what a listing yields, what a retention run removes, that a
  segment survives its transfer, and that the newest full backup stays recoverable.
\<close>

section \<open>Listings\<close>

lemma split_on_nonempty: "split_on c s \<noteq> []"
  by (cases s) (auto split: list.splits)

lemma split_on_append: "c \<notin> set a \<Longrightarrow> split_on c (a @ c # b) = a # split_on c b"
  by (induction a) auto

lemma split_on_single: "c \<notin> set a \<Longrightarrow> split_on c a = [a]"
  by (induction a) auto

lemma split_on_parts: "x \<in> set (split_on c s) \<Longrightarrow> c \<notin> set x"
proof (induction s arbitrary: x)
  case (Cons a s)
  then show ?case by (cases "split_on c s") (auto split: if_splits)
qed simp

lemma split_on_one: "split_on c s = [a] \<Longrightarrow> s = a"
proof (induction s arbitrary: a)
  case (Cons x s)
  then show ?case using split_on_nonempty [of c s] by (cases "split_on c s") (auto split: if_splits)
qed simp

lemma split_on_Cons: "split_on c s = a # b # r \<Longrightarrow> \<exists>s'. s = a @ c # s' \<and> split_on c s' = b # r"
proof (induction s arbitrary: a)
  case (Cons x s)
  show ?case
  proof (cases "x = c")
    case False
    with Cons.prems obtain a' where "split_on c s = a' # b # r" "a = x # a'"
      by (auto split: list.splits)
    with Cons.IH [of a'] show ?thesis by auto
  qed (use Cons.prems in auto)
qed simp

abbreviation entry_of :: "unicode \<Rightarrow> (utext \<Rightarrow> datetime option) \<Rightarrow> 'c remote_file \<Rightarrow> backup_error + (utext \<times> BackupItem) option" where
  "entry_of U fromiso f \<equiv> item_of_entry U fromiso (rf_path f, rf_modtime f)"

text \<open>What an entry yields, by the kind of the item.\<close>

lemma entry_of_Full:
  assumes "entry_of U fromiso f = Inr (Some (k, x))" "bi_kind x = Full"
  shows "\<exists>s t r. k = utext_of ''full/'' @ s \<and> parse_stamp U s = Inr t \<and> 47 \<notin> set s
    \<and> x = \<lparr>bi_kind = Full, bi_path = k, bi_created_at = t\<rparr> \<and> rf_path f = k @ 47 # r"
proof -
  let ?parts = "split_on 47 (rf_path f)"
  from assms have p: "?parts ! 0 = utext_of ''full''" "length ?parts = 3"
    by (auto simp: item_of_entry_def Let_def map_sum_def split: if_splits sum.splits option.splits)
  then obtain b c where parts: "?parts = [utext_of ''full'', b, c]"
    by (auto simp: numeral_3_eq_3 length_Suc_conv)
  then obtain s' where s': "rf_path f = utext_of ''full'' @ 47 # s'" "split_on 47 s' = [b, c]"
    using split_on_Cons by blast
  then obtain r where "s' = b @ 47 # r" using split_on_Cons by blast
  with s' have path: "rf_path f = (utext_of ''full/'' @ b) @ 47 # r" by (simp add: utext_of_def)
  have b: "47 \<notin> set b" using split_on_parts [of b 47 "rf_path f"] parts by simp
  from assms parts show ?thesis
    using path b by (cases "parse_stamp U b") (auto simp: item_of_entry_def Let_def)
qed

lemma entry_of_other:
  assumes "entry_of U fromiso f = Inr (Some (k, x))" "bi_kind x \<noteq> Full"
  shows "k = rf_path f \<and> bi_path x = k \<and> (\<exists>r. k = utext_of (if bi_kind x = Wal then ''wal/'' else ''resumes/'') @ r)
    \<and> (bi_kind x = Wal \<longrightarrow> fromiso (rf_modtime f) = Some (bi_created_at x))"
proof -
  let ?parts = "split_on 47 (rf_path f)"
  from assms obtain w where w: "?parts ! 0 = w" "length ?parts = 2" "w = utext_of (if bi_kind x = Wal then ''wal'' else ''resumes'')"
    and x: "k = rf_path f" "bi_path x = k" "bi_kind x = Wal \<longrightarrow> fromiso (rf_modtime f) = Some (bi_created_at x)"
    by (auto simp: item_of_entry_def Let_def map_sum_def split: if_splits sum.splits option.splits)
  then obtain b where "?parts = [w, b]"
    by (auto simp: numeral_2_eq_2 length_Suc_conv)
  then obtain s' where "rf_path f = w @ 47 # s'" using split_on_Cons by blast
  with x w(3) show ?thesis by (auto simp: utext_of_def)
qed

lemma entry_path: "entry_of U fromiso f = Inr (Some (k, x)) \<Longrightarrow> bi_path x = k"
  using entry_of_Full [of U fromiso f k x] entry_of_other [of U fromiso f k x] by (cases "bi_kind x = Full") auto

text \<open>An item is determined by its key.\<close>

lemma entry_functional:
  assumes "keyed rf_path files" "f \<in> set files" "g \<in> set files"
    and "entry_of U fromiso f = Inr (Some (k, x))" "entry_of U fromiso g = Inr (Some (k, y))"
  shows "x = y"
proof (cases "bi_kind x = Full")
  case True
  note fx = entry_of_Full [OF assms(4) True]
  then have "bi_kind y = Full"
    using entry_of_other [OF assms(5)] by (cases "bi_kind y") (auto simp: utext_of_def)
  with fx entry_of_Full [OF assms(5)] show ?thesis by auto
next
  case False
  note fx = entry_of_other [OF assms(4) False]
  then have "bi_kind y \<noteq> Full"
    using entry_of_Full [OF assms(5)] by (cases "bi_kind x") (auto simp: utext_of_def)
  with fx entry_of_other [OF assms(5)] have "rf_path f = rf_path g" by auto
  with assms(1-3) have "f = g" by (auto simp: keyed_def distinct_map inj_on_def)
  with assms(4,5) show ?thesis by simp
qed

lemma set_dict_set_eq: "distinct (map fst l) \<Longrightarrow> set (dict_set l k v) = insert (k, v) {e \<in> set l. fst e \<noteq> k}"
proof (induction l k v rule: dict_set.induct)
  case (2 k' v' kvs k v)
  then show ?case by (cases "k' = k") (auto simp: image_iff)
qed simp

lemma add_item_simps: "add_item None d = d" "add_item (Some (k, x)) d = dict_set d k x"
  by (simp_all add: add_item_def)

lemma fold_add_item:
  assumes "\<And>k x y. Some (k, x) \<in> set es \<union> Some ` set d \<Longrightarrow> Some (k, y) \<in> set es \<union> Some ` set d \<Longrightarrow> x = y"
    and "distinct (map fst d)"
  shows "set (fold add_item es d) = set d \<union> {e. Some e \<in> set es} \<and> distinct (map fst (fold add_item es d))"
  using assms
proof (induction es arbitrary: d)
  case (Cons e es)
  show ?case
  proof (cases e)
    case None
    have "set (fold add_item es d) = set d \<union> {e. Some e \<in> set es} \<and> distinct (map fst (fold add_item es d))"
      by (rule Cons.IH [OF Cons.prems(1) Cons.prems(2)]) auto
    with None show ?thesis by (simp add: add_item_simps)
  next
    case (Some p)
    obtain k x where p: "p = (k, x)" by (cases p)
    have same: "fst q = k \<Longrightarrow> q \<in> set d \<Longrightarrow> q = (k, x)" for q
      using Cons.prems(1) [of k x "snd q"] Some p by (cases q) auto
    have d: "set (dict_set d k x) = insert (k, x) (set d)"
      unfolding set_dict_set_eq [OF Cons.prems(2)] using same by auto
    have "set (fold add_item es (dict_set d k x)) = set (dict_set d k x) \<union> {e. Some e \<in> set es}
        \<and> distinct (map fst (fold add_item es (dict_set d k x)))"
    proof (rule Cons.IH)
      show "distinct (map fst (dict_set d k x))" by (rule distinct_dict_set [OF Cons.prems(2)])
      fix k' a b
      assume "Some (k', a) \<in> set es \<union> Some ` set (dict_set d k x)" "Some (k', b) \<in> set es \<union> Some ` set (dict_set d k x)"
      then show "a = b" using Cons.prems(1) [of k' a b] Some p unfolding d by auto
    qed
    with Some p d show ?thesis by (auto simp: add_item_simps)
  qed
qed simp

text \<open>The items of an inventory are what the files yield; their paths are distinct.\<close>

lemma inventory_items:
  assumes keyed: "keyed rf_path files" and inv: "inventory U fromiso True files = Inr items"
  shows "set items = {x. \<exists>f \<in> set files. \<exists>k. entry_of U fromiso f = Inr (Some (k, x))} \<and> distinct items \<and> inj_on bi_path (set items)
    \<and> sorted (map (\<lambda>x. (bi_kind x, created x)) items) \<and> (\<forall>f \<in> set files. \<exists>e. entry_of U fromiso f = Inr e)"
proof -
  let ?entries = "map (\<lambda>f. entry_of U fromiso f) files"
  from inv obtain es where es: "collect ?entries = Inr es"
    and items: "items = sort_key (\<lambda>x. (bi_kind x, created x)) (map snd (fold add_item es []))"
    by (auto simp: inventory_def items_of_listing_def comp_def split: sum.splits)
  from es have maps: "?entries = map Inr es" by (simp add: collect_Inr)
  have e: "Some (k, x) \<in> set es \<longleftrightarrow> (\<exists>f \<in> set files. entry_of U fromiso f = Inr (Some (k, x)))" for k x
  proof -
    have "Inr (Some (k, x)) \<in> set ?entries \<longleftrightarrow> Some (k, x) \<in> set es" unfolding maps by auto
    moreover have "Inr (Some (k, x)) \<in> set ?entries \<longleftrightarrow> (\<exists>f \<in> set files. entry_of U fromiso f = Inr (Some (k, x)))"
      by (metis (mono_tags, lifting) imageE image_eqI list.set_map)
    ultimately show ?thesis by blast
  qed
  have same: "x = y" if "Some (k, x) \<in> set es \<union> Some ` set []" "Some (k, y) \<in> set es \<union> Some ` set []" for k x y
    using that entry_functional [OF keyed, of _ _ U fromiso k x y] by (auto simp: e)
  have fold: "set (fold add_item es []) = {e. Some e \<in> set es}" "distinct (map fst (fold add_item es []))"
    using fold_add_item [of es "[]", OF same] by simp_all
  have path: "bi_path x = k" if "(k, x) \<in> set (fold add_item es [])" for k x
    using that entry_path by (auto simp: fold e)
  then have paths: "map bi_path (map snd (fold add_item es [])) = map fst (fold add_item es [])"
    by (simp add: path split_beta)
  have dist: "distinct (map bi_path (map snd (fold add_item es [])))" using fold(2) unfolding paths .
  have "set items = {x. \<exists>f \<in> set files. \<exists>k. entry_of U fromiso f = Inr (Some (k, x))}"
  proof -
    have "set items = snd ` {e. Some e \<in> set es}" by (simp add: items fold)
    also have "\<dots> = {x. \<exists>k. Some (k, x) \<in> set es}" by force
    also have "\<dots> = {x. \<exists>f \<in> set files. \<exists>k. entry_of U fromiso f = Inr (Some (k, x))}" unfolding e by blast
    finally show ?thesis .
  qed
  moreover have "distinct items" "inj_on bi_path (set items)"
    using dist unfolding distinct_map [of bi_path] by (simp_all add: items del: set_map)
  moreover have "sorted (map (\<lambda>x. (bi_kind x, created x)) items)" by (simp add: items)
  moreover have "\<exists>e. entry_of U fromiso f = Inr e" if "f \<in> set files" for f
  proof -
    have "entry_of U fromiso f \<in> set (map Inr es)" using that unfolding maps [symmetric] by simp
    then show ?thesis by auto
  qed
  ultimately show ?thesis by blast
qed

lemma inventory_defined:
  assumes "\<forall>f \<in> set files. \<exists>e. entry_of U fromiso f = Inr e"
  shows "\<exists>items. inventory U fromiso True files = Inr items"
proof -
  let ?entries = "map (\<lambda>f. entry_of U fromiso f) files"
  have "\<exists>es. collect ?entries = Inr es"
    using assms by (induction files) auto
  then show ?thesis by (auto simp: inventory_def items_of_listing_def comp_def)
qed

section \<open>What a run removes\<close>

lemma delete_items_filter:
  "\<exists>P. snd (delete_items broken items files) = filter P files \<and> (\<forall>f. (\<forall>x \<in> set items. \<not> doomed x f) \<longrightarrow> P f)"
proof (induction broken items files rule: delete_items.induct)
  case (1 broken files)
  show ?case by (intro exI [of _ "\<lambda>_. True"]) simp
next
  case (2 broken item items files)
  show ?case
  proof (cases "broken (bi_path item)")
    case None
    from 2 [OF None] obtain P where
      "snd (delete_items broken items (filter (\<lambda>f. \<not> doomed item f) files)) = filter P (filter (\<lambda>f. \<not> doomed item f) files)"
      "\<forall>f. (\<forall>x \<in> set items. \<not> doomed x f) \<longrightarrow> P f"
      by (elim exE conjE) (rule that)
    with None show ?thesis by (intro exI [of _ "\<lambda>f. \<not> doomed item f \<and> P f"]) (auto intro: filter_cong)
  next
    case (Some gone)
    then show ?thesis by (intro exI [of _ "\<lambda>f. \<not> (doomed item f \<and> gone f)"]) simp
  qed
qed

lemma find_file_filter:
  "(\<And>f. f \<in> set files \<Longrightarrow> rf_path f = path \<Longrightarrow> P f) \<Longrightarrow> find_file path (filter P files) = find_file path files"
  unfolding find_file_def by (induction files) auto

lemma decrypt_filter:
  "(\<And>f. f \<in> set files \<Longrightarrow> rf_path f = path \<Longrightarrow> P f) \<Longrightarrow>
   decrypt_from_remote dec path (filter P files) = decrypt_from_remote dec path files"
  by (simp add: decrypt_from_remote_def find_file_filter)

lemma fetch_filter:
  "(\<And>f. f \<in> set files \<Longrightarrow> rf_path f = wal_path name \<Longrightarrow> P f) \<Longrightarrow>
   cmd_fetch_wal dec name (filter P files) = cmd_fetch_wal dec name files"
  unfolding cmd_fetch_wal_def
  by (simp only: find_file_filter [of files "wal_path name" P] decrypt_filter [of files "wal_path name" P])

lemma plan_subset: "x \<in> set (plan_deletions items now h d m) \<Longrightarrow> x \<in> set items"
  by (auto simp: plan_deletions_def dest!: expired_kind)

lemma plan_Wal: "x \<in> set (plan_deletions items now h d m) \<Longrightarrow> bi_kind x = Wal \<Longrightarrow> wal_expired items now h x"
  by (auto simp: plan_deletions_def dest!: expired_kind)

text \<open>A segment is doomed only by its own item.\<close>

lemma doomed_segment:
  assumes keyed: "keyed rf_path files" and inv: "inventory U fromiso True files = Inr items"
    and f: "f \<in> set files" "rf_path f = wal_path name" and x: "x \<in> set items" "doomed x f"
  shows "bi_kind x = Wal \<and> fromiso (rf_modtime f) = Some (bi_created_at x)"
proof -
  from inventory_items [OF keyed inv] x obtain g k where g: "g \<in> set files" "entry_of U fromiso g = Inr (Some (k, x))" by auto
  show ?thesis
  proof (cases "bi_kind x = Full")
    case True
    from entry_of_Full [OF g(2) True] obtain s where "bi_path x = utext_of ''full/'' @ s" by auto
    with x True f have False by (auto simp: doomed_def wal_path_def utext_of_def)
    then show ?thesis ..
  next
    case False
    note o = entry_of_other [OF g(2) False]
    with x False have "rf_path g = rf_path f" by (auto simp: doomed_def)
    with keyed g f have "g = f" by (auto simp: keyed_def distinct_map inj_on_def)
    moreover have "bi_kind x = Wal"
      using o x False f by (cases "bi_kind x") (auto simp: doomed_def wal_path_def utext_of_def)
    ultimately show ?thesis using o by simp
  qed
qed

text \<open>A file of a full backup is doomed only by that backup.\<close>

lemma doomed_base:
  assumes keyed: "keyed rf_path files" and inv: "inventory U fromiso True files = Inr items"
    and b: "b \<in> set items" "bi_kind b = Full" and f: "rf_path f = bi_path b @ 47 # r" and x: "x \<in> set items" "doomed x f"
  shows "x = b"
proof -
  note items = inventory_items [OF keyed inv]
  from items b obtain h k where h: "h \<in> set files" "entry_of U fromiso h = Inr (Some (k, b))" by auto
  from entry_of_Full [OF h(2) b(2)] obtain s where s: "bi_path b = utext_of ''full/'' @ s" "47 \<notin> set s" by auto
  from items x obtain g k where g: "g \<in> set files" "entry_of U fromiso g = Inr (Some (k, x))" by auto
  show ?thesis
  proof (cases "bi_kind x = Full")
    case True
    from entry_of_Full [OF g(2) True] obtain s' where s': "bi_path x = utext_of ''full/'' @ s'" "47 \<notin> set s'" by auto
    from x True f s s' have "prefix (s' @ [47]) (s @ 47 # r)" by (auto simp: doomed_def utext_of_def)
    then obtain z where "s' @ 47 # z = s @ 47 # r" by (auto simp: prefix_def)
    then have "split_on 47 (s' @ 47 # z) = split_on 47 (s @ 47 # r)" by simp
    with s s' have "s' = s" by (simp add: split_on_append)
    with s s' have "bi_path x = bi_path b" by simp
    moreover have "inj_on bi_path (set items)" using items by blast
    ultimately show ?thesis using x b by (auto dest: inj_onD)
  next
    case False
    from entry_of_other [OF g(2) False] x False f s have False
      by (auto simp: doomed_def utext_of_def split: if_splits)
    then show ?thesis ..
  qed
qed

text \<open>The backup that a restore starts from: the newest one that is not later than the target.\<close>

lemma sorted_last: "sorted (map f xs) \<Longrightarrow> x \<in> set xs \<Longrightarrow> f x \<le> f (last xs)"
  by (induction xs rule: rev_induct) (auto simp: sorted_append)

lemma newest_before_iff:
  assumes sorted: "sorted (map (\<lambda>x. (bi_kind x, created x)) items)" and apart: "apart (set items)" and k: "k \<noteq> Wal"
  shows "newest_before k limit items = Inr b \<longleftrightarrow> b \<in> set items \<and> bi_kind b = k \<and> created b \<le> instant limit
    \<and> (\<forall>x \<in> set items. bi_kind x = k \<and> created x \<le> instant limit \<longrightarrow> created x \<le> created b)"
proof -
  let ?c = "filter (\<lambda>x. bi_kind x = k \<and> created x \<le> instant limit) items"
  have set_c: "set ?c = {x \<in> set items. bi_kind x = k \<and> created x \<le> instant limit}" by auto
  show ?thesis
  proof (cases "?c = []")
    case True
    then have "newest_before k limit items = Inl System_Exit" by (simp add: newest_before_def)
    moreover have "\<not> (b \<in> set items \<and> bi_kind b = k \<and> created b \<le> instant limit)" using True by (auto simp: filter_empty_conv)
    ultimately show ?thesis by auto
  next
    case False
    have "sorted (map (\<lambda>x. (bi_kind x, created x)) ?c)" using sorted by (rule sorted_filter)
    then have top: "(bi_kind x, created x) \<le> (bi_kind (last ?c), created (last ?c))" if "x \<in> set ?c" for x
      using sorted_last [OF \<open>sorted (map (\<lambda>x. (bi_kind x, created x)) ?c)\<close> that] by (simp only:)
    have l: "last ?c \<in> set ?c" using False by (rule last_in_set)
    have top': "created x \<le> created (last ?c)" if "x \<in> set ?c" for x
      using top [OF that] that l by auto
    have "newest_before k limit items = Inr b \<longleftrightarrow> b = last ?c" using False by (auto simp: newest_before_def Let_def)
    also have "\<dots> \<longleftrightarrow> b \<in> set ?c \<and> (\<forall>x \<in> set ?c. created x \<le> created b)"
    proof
      assume b: "b \<in> set ?c \<and> (\<forall>x \<in> set ?c. created x \<le> created b)"
      with l top' have "created b = created (last ?c)" by (auto intro: antisym)
      with b l k apart show "b = last ?c" by (auto simp: apart_def)
    qed (use l top' in auto)
    finally show ?thesis by auto
  qed
qed

text \<open>A retention run filters the files, and keeps those that no planned item names.\<close>

lemma cmd_retention_filter:
  assumes inv: "inventory U fromiso True files = Inr items"
    and run: "cmd_retention U fromiso listed broken now False files = (err, files')"
  shows "\<exists>P. files' = filter P files
    \<and> (\<forall>f. (\<forall>x \<in> set (plan_deletions items now HOURLY_RETENTION DAILY_RETENTION MONTHLY_RETENTION). \<not> doomed x f) \<longrightarrow> P f)"
proof (cases listed)
  case True
  with run inv have "files' = snd (delete_items broken (plan_deletions items now HOURLY_RETENTION DAILY_RETENTION MONTHLY_RETENTION) files)"
    by (simp add: cmd_retention_def)
  with delete_items_filter show ?thesis by metis
next
  case False
  then have "inventory U fromiso listed files = Inr []" by (simp add: inventory_def)
  moreover have "plan_deletions [] now HOURLY_RETENTION DAILY_RETENTION MONTHLY_RETENTION = []"
    by (simp add: plan_deletions_def expired_snapshots_def of_kind_def)
  ultimately have "files' = files" using run by (simp add: cmd_retention_def)
  then show ?thesis by (intro exI [of _ "\<lambda>_. True"]) simp
qed

text \<open>What a recovery to a moment at or after the newest full backup needs is not removed.\<close>

lemma recovery_kept:
  assumes keyed: "keyed rf_path files" and inv: "inventory U fromiso True files = Inr items" and apart: "apart (set items)"
    and base: "newest_before Full limit items = Inr base"
    and newest: "\<forall>x \<in> set items. bi_kind x = Full \<longrightarrow> created x \<le> created base"
    and run: "cmd_retention U fromiso listed broken now False files = (err, files')"
  shows "recover_base U fromiso True dec limit True files' = recover_base U fromiso True dec limit True files
    \<and> (\<forall>f \<in> set files. \<forall>name t. rf_path f = wal_path name \<and> fromiso (rf_modtime f) = Some t \<and> created base \<le> instant t
         \<longrightarrow> cmd_fetch_wal dec name files' = cmd_fetch_wal dec name files)"
proof -
  let ?plan = "plan_deletions items now HOURLY_RETENTION DAILY_RETENTION MONTHLY_RETENTION"
  note items = inventory_items [OF keyed inv]
  have sorted: "sorted (map (\<lambda>x. (bi_kind x, created x)) items)" and dist: "distinct items" using items by auto
  have b: "base \<in> set items" "bi_kind base = Full" "created base \<le> instant limit"
    using base newest_before_iff [OF sorted apart, of Full limit base] by auto
  obtain P where files': "files' = filter P files" and P: "(\<forall>x \<in> set ?plan. \<not> doomed x f) \<Longrightarrow> P f" for f
    using cmd_retention_filter [OF inv run] by blast
  have not_planned: "base \<notin> set ?plan"
    using plan_deletions_iff [OF dist apart] newest b by (auto simp: policy_deletes_def)
  have keep_base: "P f" if "rf_path f = bi_path base @ 47 # r" for f r
    using P doomed_base [OF keyed inv b(1,2) that] plan_subset not_planned by blast
  have keyed': "keyed rf_path files'" using keyed by (simp add: files' keyed_def distinct_map_filter)
  obtain items' where inv': "inventory U fromiso True files' = Inr items'"
    using inventory_defined [of files' U fromiso] items by (auto simp: files')
  note items' = inventory_items [OF keyed' inv']
  have sub: "set items' \<subseteq> set items" using items items' by (auto simp: files')
  then have apart': "apart (set items')" using apart by (auto simp: apart_def)
  have "base \<in> set items'"
  proof -
    from items b(1) obtain f k where f: "f \<in> set files" "entry_of U fromiso f = Inr (Some (k, base))" by auto
    from entry_of_Full [OF f(2) b(2)] have "\<exists>r. rf_path f = bi_path base @ 47 # r" by auto
    with keep_base f(1) have "f \<in> set files'" by (auto simp: files')
    with f(2) items' show ?thesis by auto
  qed
  then have base': "newest_before Full limit items' = Inr base"
    using newest_before_iff [of items' Full limit base] items' apart' b newest sub by auto
  have dec: "decrypt_from_remote dec (bi_path base @ utext_of ''/base.tar.zst.age'') files'
      = decrypt_from_remote dec (bi_path base @ utext_of ''/base.tar.zst.age'') files"
    unfolding files' by (rule decrypt_filter) (auto intro: keep_base simp: utext_of_def)
  have fetch: "cmd_fetch_wal dec name files' = cmd_fetch_wal dec name files"
    if f: "f \<in> set files" "rf_path f = wal_path name" and t: "fromiso (rf_modtime f) = Some t" "created base \<le> instant t" for f name t
    unfolding files'
  proof (rule fetch_filter)
    fix g
    assume g: "g \<in> set files" "rf_path g = wal_path name"
    with keyed f have [simp]: "g = f" by (auto simp: keyed_def distinct_map inj_on_def)
    show "P g"
    proof (rule P, rule ballI, rule notI)
      fix x
      assume x: "x \<in> set ?plan" "doomed x g"
      with doomed_segment [OF keyed inv f plan_subset [OF x(1)]] t have k: "bi_kind x = Wal" "bi_created_at x = t" by auto
      from plan_Wal [OF x(1) k(1)] have "\<not> (\<exists>y \<in> set items. bi_kind y = Full \<and> created x < created y) \<Longrightarrow> \<forall>y \<in> set items. bi_kind y \<noteq> Full"
        using wal_floor_passed [where items = items and x = x] by (auto simp: wal_expired_def)
      with b newest t k show False by fastforce
    qed
  qed
  show ?thesis using fetch by (auto simp: recover_base_def inv inv' base base' dec)
qed

text \<open>
  C26. A retention run, wherever it fails, does not touch what a recovery to a moment at or after the newest full
  backup needs: the same full backup is chosen and unpacked, and every segment that was stored since that backup is
  fetched as before.
\<close>

theorem retention_keeps_recovery:
  assumes "keyed rf_path files" and "inventory U fromiso True files = Inr items" and "apart (set items)"
    and "newest_before Full limit items = Inr base"
    and "\<forall>x \<in> set items. bi_kind x = Full \<longrightarrow> created x \<le> created base"
    and "cmd_retention U fromiso listed broken now False files = (err, files')"
  shows "recover_base U fromiso True dec limit True files' = recover_base U fromiso True dec limit True files
    \<and> (\<forall>f \<in> set files. \<forall>name t. rf_path f = wal_path name \<and> fromiso (rf_modtime f) = Some t \<and> created base \<le> instant t
         \<longrightarrow> cmd_fetch_wal dec name files' = cmd_fetch_wal dec name files)"
  by (rule recovery_kept [OF assms])

section \<open>Segments\<close>

lemma wal_path_inj: "wal_path a = wal_path b \<longleftrightarrow> a = b"
  by (simp add: wal_path_def)

lemma remote_upload_effect:
  assumes "upload fails f files = Inr files'" "keyed rf_path files"
  shows "keyed rf_path files' \<and> f \<in> set files' \<and> (\<forall>g \<in> set files. rf_path g \<noteq> rf_path f \<longrightarrow> g \<in> set files')"
  using assms by (auto simp: upload_def keyed_def distinct_map_filter image_iff split: if_splits)

lemma ship_segments_effect:
  assumes "ship_segments S enc pending archive files = (err, archive', files')"
    and "distinct (map fst pending)" and "keyed rf_path files"
  shows "\<exists>sent. keyed rf_path files' \<and> archive' = filter (\<lambda>(n, _). n \<notin> sent) archive \<and> sent \<subseteq> set (map fst pending)
    \<and> (err = None \<longrightarrow> sent = set (map fst pending))
    \<and> (\<forall>n c. (n, c) \<in> set pending \<and> n \<in> sent \<longrightarrow>
         (\<exists>s. enc c = Some s \<and> \<lparr>rf_path = wal_path n, rf_modtime = s_modtime S, rf_content = s\<rparr> \<in> set files'))
    \<and> (\<forall>g \<in> set files. rf_path g \<notin> wal_path ` set (map fst pending) \<longrightarrow> g \<in> set files')"
  using assms
proof (induction pending arbitrary: archive files)
  case Nil
  then show ?case by (intro exI [of _ "{}"]) auto
next
  case (Cons p pending)
  obtain n c where p: "p = (n, c)" by (cases p)
  show ?case
  proof (cases "enc c")
    case None
    with Cons.prems p show ?thesis by (intro exI [of _ "{}"]) auto
  next
    case (Some s)
    let ?f = "\<lparr>rf_path = wal_path n, rf_modtime = s_modtime S, rf_content = s\<rparr>"
    show ?thesis
    proof (cases "upload (s_fails S) ?f files")
      case (Inl e)
      with Some Cons.prems p show ?thesis by (intro exI [of _ "{}"]) auto
    next
      case (Inr files1)
      note up = remote_upload_effect [OF Inr Cons.prems(3)]
      have run: "ship_segments S enc pending (filter (\<lambda>(m, _). m \<noteq> n) archive) files1 = (err, archive', files')"
        using Cons.prems(1) p Some Inr by simp
      have dist: "distinct (map fst pending)" "n \<notin> set (map fst pending)" using Cons.prems(2) p by auto
      from Cons.IH [OF run dist(1)] up obtain sent where sent: "keyed rf_path files'"
        "archive' = filter (\<lambda>(m, _). m \<notin> sent) (filter (\<lambda>(m, _). m \<noteq> n) archive)" "sent \<subseteq> set (map fst pending)"
        "err = None \<longrightarrow> sent = set (map fst pending)"
        "\<forall>m c. (m, c) \<in> set pending \<and> m \<in> sent \<longrightarrow>
           (\<exists>s. enc c = Some s \<and> \<lparr>rf_path = wal_path m, rf_modtime = s_modtime S, rf_content = s\<rparr> \<in> set files')"
        "\<forall>g \<in> set files1. rf_path g \<notin> wal_path ` set (map fst pending) \<longrightarrow> g \<in> set files'" by blast
      have "?f \<in> set files'" using sent(6) up dist(2) by (auto simp: wal_path_inj image_iff)
      moreover have "g \<in> set files'" if "g \<in> set files" "rf_path g \<notin> wal_path ` set (map fst (p # pending))" for g
        using that up sent(6) p by auto
      moreover have "archive' = filter (\<lambda>(m, _). m \<notin> insert n sent) archive"
        unfolding sent(2) by (auto intro: filter_cong)
      moreover have "\<exists>s. enc d = Some s \<and> \<lparr>rf_path = wal_path m, rf_modtime = s_modtime S, rf_content = s\<rparr> \<in> set files'"
        if m: "(m, d) \<in> set (p # pending)" "m \<in> insert n sent" for m d
      proof (cases "m = n")
        case True
        with m(1) p dist(2) have "d = c" by (force simp: image_iff)
        with True Some \<open>?f \<in> set files'\<close> show ?thesis by auto
      next
        case False
        with m p have "(m, d) \<in> set pending" "m \<in> sent" by auto
        with sent(5) show ?thesis by blast
      qed
      ultimately show ?thesis using sent(1,3,4) p
        by (intro exI [of _ "insert n sent"] conjI) (simp_all add: subset_insertI2)
    qed
  qed
qed

text \<open>A file that the retention has no reason to remove is still there.\<close>

lemma retained:
  assumes keyed: "keyed rf_path files" and run: "retain S files = (err, files')"
    and f: "f \<in> set files" "rf_path f = wal_path name"
    and young: "s_iso S (rf_modtime f) = Some t" "instant (s_later S) - instant t \<le> HOURLY_RETENTION"
  shows "f \<in> set files' \<and> keyed rf_path files'"
proof (cases "inventory (s_unicode S) (s_iso S) True files")
  case (Inl e)
  with run have "files' = files"
    by (cases "s_listed S") (auto simp: retain_def cmd_retention_def inventory_def plan_deletions_def expired_snapshots_def of_kind_def)
  with f keyed show ?thesis by simp
next
  case (Inr items)
  from cmd_retention_filter [OF Inr run [unfolded retain_def]] obtain P where files': "files' = filter P files"
    and P: "\<And>f. (\<forall>x \<in> set (plan_deletions items (s_later S) HOURLY_RETENTION DAILY_RETENTION MONTHLY_RETENTION). \<not> doomed x f) \<Longrightarrow> P f"
    by blast
  have "P f"
  proof (rule P, rule ballI, rule notI)
    fix x
    assume x: "x \<in> set (plan_deletions items (s_later S) HOURLY_RETENTION DAILY_RETENTION MONTHLY_RETENTION)" "doomed x f"
    with doomed_segment [OF keyed Inr f plan_subset [OF x(1)]] young have k: "bi_kind x = Wal" "bi_created_at x = t" by auto
    from plan_Wal [OF x(1) k(1)] young k show False by (simp add: wal_expired_def)
  qed
  with f keyed show ?thesis by (simp add: files' keyed_def distinct_map_filter)
qed

text \<open>
  C27. A segment leaves the archive of the database only for the offsite storage: whatever step of the hourly run fails,
  the archive afterwards holds the segment unchanged or \<open>fetch-wal\<close> returns its bytes; a run that shipped everything
  leaves only the archiver's temporary files behind.
\<close>

theorem segments_survive_the_hourly_run:
  assumes keyed: "keyed fst archive" "keyed rf_path files"
    and seal: "\<forall>c s. enc c = Some s \<longrightarrow> dec s = Some c"
    and clock: "s_iso S (s_modtime S) = Some t" "instant (s_later S) - instant t \<le> HOURLY_RETENTION"
    and run: "cmd_wal S enc started switched polls archive files = (err, archive', files')"
  shows "set archive' \<subseteq> set archive
    \<and> (\<forall>(name, content) \<in> set archive. (name, content) \<in> set archive' \<or> cmd_fetch_wal dec name files' = Inr content)
    \<and> (err = None \<longrightarrow> (\<forall>(name, content) \<in> set archive'. suffix (utext_of ''.tmp'') name))"
proof (cases "\<exists>segment. switched = Some segment \<and> await_archived (started + 120 * seconds) segment polls")
  case False
  then have "archive' = archive" "err \<noteq> None" using run by (auto simp: cmd_wal_def split: option.splits if_splits)
  then show ?thesis by auto
next
  case True
  let ?pending = "pending_segments archive"
  have pending: "set ?pending = {(n, c). (n, c) \<in> set archive \<and> \<not> suffix (utext_of ''.tmp'') n}"
    by (auto simp: pending_segments_def)
  have names: "distinct (map fst ?pending)"
  proof -
    have "distinct (map fst (filter (\<lambda>(name, _). \<not> suffix (utext_of ''.tmp'') name) archive))"
      using keyed(1) by (simp add: keyed_def distinct_map_filter)
    then show ?thesis by (simp add: pending_segments_def distinct_map)
  qed
  obtain err1 files1 where ship: "ship_segments S enc ?pending archive files = (err1, archive', files1)"
    and rest: "err1 = None \<and> retain S files1 = (err, files') \<or> err1 \<noteq> None \<and> err = err1 \<and> files' = files1"
    using run True by (auto simp: cmd_wal_def split: option.splits prod.splits)
  from ship_segments_effect [OF ship names keyed(2)] obtain sent where keyed1: "keyed rf_path files1"
    and archive': "archive' = filter (\<lambda>(n, _). n \<notin> sent) archive" and sub: "sent \<subseteq> set (map fst ?pending)"
    and all_sent: "err1 = None \<longrightarrow> sent = set (map fst ?pending)"
    and sealed: "\<forall>n c. (n, c) \<in> set ?pending \<and> n \<in> sent \<longrightarrow>
       (\<exists>s. enc c = Some s \<and> \<lparr>rf_path = wal_path n, rf_modtime = s_modtime S, rf_content = s\<rparr> \<in> set files1)" by blast
  have kept: "(n, c) \<in> set archive' \<or> cmd_fetch_wal dec n files' = Inr c" if nc: "(n, c) \<in> set archive" for n c
  proof (cases "n \<in> sent")
    case True
    then have "(n, c) \<in> set ?pending" using sub nc keyed(1) by (auto simp: pending keyed_def distinct_map inj_on_def)
    with sealed True obtain s where s: "enc c = Some s"
      "\<lparr>rf_path = wal_path n, rf_modtime = s_modtime S, rf_content = s\<rparr> \<in> set files1" (is "?f \<in> _") by blast
    have f: "?f \<in> set files' \<and> keyed rf_path files'" using rest
    proof
      assume "err1 = None \<and> retain S files1 = (err, files')"
      then show ?thesis by (intro retained [where S = S and files = files1 and t = t]) (use keyed1 s clock in simp_all)
    qed (use s keyed1 in simp)
    have "find_file (wal_path n) files' = Some ?f"
      using f keyed_find [of rf_path files' ?f] by (simp add: find_file_def)
    with seal s show ?thesis by (simp add: cmd_fetch_wal_def decrypt_from_remote_def)
  qed (use nc in \<open>auto simp: archive'\<close>)
  moreover have "suffix (utext_of ''.tmp'') n" if "err = None" "(n, c) \<in> set archive'" for n c
    using that rest all_sent by (auto simp: archive' pending image_iff)
  ultimately show ?thesis by (auto simp: archive')
qed

section \<open>A new full backup\<close>

text \<open>The item that a full backup of this moment becomes.\<close>

definition full_item :: "datetime \<Rightarrow> BackupItem" where
  "full_item now = \<lparr>bi_kind = Full, bi_path = utext_of ''full/'' @ stamp_of now, bi_created_at = now\<lparr>dt_micro := 0\<rparr>\<rparr>"

lemma stamp_plain: "47 \<notin> set (stamp_of now)"
proof -
  have "c \<noteq> 47" if "c \<in> set (digits_of k n)" for c k n
    using that by (induction k arbitrary: n) auto
  then show ?thesis by (auto simp: stamp_of_def utext_of_def)
qed

lemma entry_of_new_full:
  assumes "ascii_digits U" "valid_datetime now" "47 \<notin> set (utext_of name)" "rf_path f = utext_of ''full/'' @ stamp_of now @ utext_of (''/'' @ name)"
  shows "entry_of U fromiso f = Inr (Some (utext_of ''full/'' @ stamp_of now, full_item now))"
proof -
  have "rf_path f = utext_of ''full'' @ 47 # stamp_of now @ 47 # utext_of name" using assms(4) by (simp add: utext_of_def)
  then have parts: "split_on 47 (rf_path f) = [utext_of ''full'', stamp_of now, utext_of name]"
    using assms(3) by (simp only:) (simp add: split_on_append stamp_plain split_on_single utext_of_def)
  then show ?thesis
    by (simp add: item_of_entry_def parse_stamp_of [OF assms(1,2)] full_item_def Let_def)
qed

text \<open>Uploading keeps the other files.\<close>

lemma upload_all_effect:
  assumes "upload_all fails fs files = (None, files')" "keyed rf_path files" "distinct (map rf_path fs)"
  shows "keyed rf_path files' \<and> set files' = set fs \<union> {g \<in> set files. rf_path g \<notin> rf_path ` set fs}"
  using assms
proof (induction fs arbitrary: files)
  case (Cons f fs)
  then obtain files1 where up: "upload fails f files = Inr files1" and rest: "upload_all fails fs files1 = (None, files')"
    by (auto split: sum.splits)
  have 1: "set files1 = insert f {g \<in> set files. rf_path g \<noteq> rf_path f}" "keyed rf_path files1"
    using up remote_upload_effect [OF up Cons.prems(2)] by (auto simp: upload_def split: if_splits)
  from Cons.IH [OF rest 1(2)] Cons.prems(3) show ?case by (auto simp: 1)
qed simp

lemma upload_all_ok: "\<forall>path. \<not> fails path \<Longrightarrow> fst (upload_all fails fs files) = None"
  by (induction fs arbitrary: files) (simp_all add: upload_def)

text \<open>The files of a full backup, and the listing after their upload.\<close>

definition full_files :: "'c surroundings \<Rightarrow> datetime \<Rightarrow> 'c \<Rightarrow> 'c \<Rightarrow> 'c \<Rightarrow> 'c remote_file list" where
  "full_files S now base dump manifest =
     map (\<lambda>(name, content). \<lparr>rf_path = utext_of ''full/'' @ stamp_of now @ utext_of (''/'' @ name),
         rf_modtime = s_modtime S, rf_content = content\<rparr>)
       [(''base.tar.zst.age'', base), (''database.dump.zst.age'', dump), (''manifest.json'', manifest)]"

lemma cmd_full_runs:
  assumes transfers: "\<forall>path. \<not> s_fails S path" and run: "cmd_full S now (Inr base) (Inr dump) (Inr manifest) files = (err, files')"
  shows "\<exists>files1. upload_all (s_fails S) (full_files S now base dump manifest) files = (None, files1) \<and> retain S files1 = (err, files')"
proof -
  let ?new = "full_files S now base dump manifest"
  obtain e files1 where up: "upload_all (s_fails S) ?new files = (e, files1)" by force
  with upload_all_ok [of "s_fails S" ?new files] transfers have e: "e = None" by simp
  have "cmd_full S now (Inr base) (Inr dump) (Inr manifest) files =
    (case upload_all (s_fails S) ?new files of (Some e, files') \<Rightarrow> (Some e, files') | (None, files') \<Rightarrow> retain S files')"
    by (simp only: cmd_full_def full_files_def Let_def collect.simps sum.case list.map zip_Cons_Cons zip.simps list.case prod.case)
  with run up e show ?thesis by simp
qed

lemma entry_of_full_files:
  assumes "ascii_digits U" "valid_datetime now" "f \<in> set (full_files S now base dump manifest)"
  shows "entry_of U fromiso f = Inr (Some (utext_of ''full/'' @ stamp_of now, full_item now))"
proof -
  from assms(3) obtain name c where f: "f = \<lparr>rf_path = utext_of ''full/'' @ stamp_of now @ utext_of (''/'' @ name),
      rf_modtime = s_modtime S, rf_content = c\<rparr>" "name \<in> {''base.tar.zst.age'', ''database.dump.zst.age'', ''manifest.json''}"
    by (auto simp: full_files_def)
  then show ?thesis by (intro entry_of_new_full [OF assms(1,2), of name]) (auto simp: utext_of_def)
qed

lemma listing_with_new_full:
  assumes tables: "ascii_digits U" "valid_datetime now" and keyed: "keyed rf_path files"
    and inv: "inventory U fromiso True files = Inr items"
    and up: "upload_all fails (full_files S now base dump manifest) files = (None, files1)"
  shows "keyed rf_path files1 \<and> set (full_files S now base dump manifest) \<subseteq> set files1
    \<and> (\<exists>items1. inventory U fromiso True files1 = Inr items1 \<and> full_item now \<in> set items1
         \<and> set items1 \<subseteq> insert (full_item now) (set items))"
proof -
  let ?new = "full_files S now base dump manifest"
  have names: "distinct (map rf_path ?new)" by (simp add: full_files_def utext_of_def)
  from upload_all_effect [OF up keyed names] have keyed1: "keyed rf_path files1"
    and set1: "set files1 = set ?new \<union> {g \<in> set files. rf_path g \<notin> rf_path ` set ?new}" by auto
  note entry = entry_of_full_files [OF tables]
  note items = inventory_items [OF keyed inv]
  have "\<forall>f \<in> set files1. \<exists>e. entry_of U fromiso f = Inr e"
  proof
    fix f
    assume "f \<in> set files1"
    then consider "f \<in> set ?new" | "f \<in> set files" unfolding set1 by auto
    then show "\<exists>e. entry_of U fromiso f = Inr e"
      by cases (use entry [of f S base dump manifest fromiso] items in simp_all)
  qed
  then obtain items1 where inv1: "inventory U fromiso True files1 = Inr items1"
    using inventory_defined by blast
  note items1 = inventory_items [OF keyed1 inv1]
  have sub: "x \<in> insert (full_item now) (set items)" if "x \<in> set items1" for x
  proof -
    from that obtain f k where f: "f \<in> set files1" "entry_of U fromiso f = Inr (Some (k, x))" using items1 by auto
    show ?thesis
    proof (cases "f \<in> set ?new")
      case True
      from entry [OF this] f(2) show ?thesis by simp
    next
      case False
      with f(1) have "f \<in> set files" unfolding set1 by simp
      with f(2) items show ?thesis by auto
    qed
  qed
  obtain f where "f \<in> set ?new" by (auto simp: full_files_def)
  then have f: "f \<in> set files1" "entry_of U fromiso f = Inr (Some (utext_of ''full/'' @ stamp_of now, full_item now))"
    using entry unfolding set1 by simp_all
  then have "\<exists>f \<in> set files1. \<exists>k. entry_of U fromiso f = Inr (Some (k, full_item now))"
    by (intro bexI [of _ f] exI)
  then have "full_item now \<in> set items1" using items1 by simp
  with keyed1 inv1 sub set1 show ?thesis by blast
qed

text \<open>
  A full backup whose transfers succeed is the one that a recovery to any later moment starts from, with the
  bytes that were stored, whatever the retention that follows deletes or fails to delete.
\<close>

theorem full_backup_is_the_next_base:
  assumes tables: "ascii_digits (s_unicode S)" and now: "valid_datetime now" "instant now \<le> instant limit"
    and keyed: "keyed rf_path files" and inv: "inventory (s_unicode S) (s_iso S) True files = Inr items" and apart: "apart (set items)"
    and latest: "\<forall>x \<in> set items. bi_kind x = Full \<longrightarrow> created x < created (full_item now)"
    and transfers: "\<forall>path. \<not> s_fails S path" and bytes: "dec sealed = Some content"
    and run: "cmd_full S now (Inr sealed) (Inr dump) (Inr manifest) files = (err, files')"
  shows "recover_base (s_unicode S) (s_iso S) True dec limit True files' = Inr (full_item now, content)"
proof -
  from cmd_full_runs [OF transfers run] obtain files1 where up: "upload_all (s_fails S) (full_files S now sealed dump manifest) files = (None, files1)"
    and ret: "retain S files1 = (err, files')" by blast
  from listing_with_new_full [OF tables now(1) keyed inv up] obtain items1 where keyed1: "keyed rf_path files1"
    and stored: "set (full_files S now sealed dump manifest) \<subseteq> set files1"
    and inv1: "inventory (s_unicode S) (s_iso S) True files1 = Inr items1" and new: "full_item now \<in> set items1"
    and sub: "set items1 \<subseteq> insert (full_item now) (set items)" by blast
  have kind: "bi_kind (full_item now) = Full" by (simp add: full_item_def)
  have apart1: "apart (set items1)"
    unfolding apart_def using sub apart latest kind
    by (metis apart_def insertE order_less_irrefl subsetD)
  have top: "\<forall>x \<in> set items1. bi_kind x = Full \<longrightarrow> created x \<le> created (full_item now)"
    using sub latest by (auto intro: less_imp_le)
  have "created (full_item now) \<le> instant now"
    using now(1) by (simp add: full_item_def instant_def valid_datetime_def)
  moreover have "sorted (map (\<lambda>x. (bi_kind x, created x)) items1)" using inventory_items [OF keyed1 inv1] by blast
  ultimately have base: "newest_before Full limit items1 = Inr (full_item now)"
    using newest_before_iff [OF _ apart1, of Full limit "full_item now"] new kind top now(2) by auto
  let ?base = "\<lparr>rf_path = utext_of ''full/'' @ stamp_of now @ utext_of ''/base.tar.zst.age'', rf_modtime = s_modtime S, rf_content = sealed\<rparr>"
  have "?base \<in> set files1" using stored by (simp add: full_files_def)
  then have "find_file (bi_path (full_item now) @ utext_of ''/base.tar.zst.age'') files1 = Some ?base"
    unfolding find_file_def by (rule keyed_find [OF keyed1]) (simp add: full_item_def)
  with bytes base inv1 have "recover_base (s_unicode S) (s_iso S) True dec limit True files1 = Inr (full_item now, content)"
    by (simp add: recover_base_def decrypt_from_remote_def)
  with recovery_kept [OF keyed1 inv1 apart1 base top ret [unfolded retain_def], of dec] show ?thesis by simp
qed

end
