(* ===== verification/Backup_Claims.thy ===== *)
theory Backup_Claims
  imports Backup_Storage
begin

text \<open>
  The claims about the backups at concrete storages, and a moment inside the two days for which segments are promised
  to which the kept backups no longer lead.
\<close>

section \<open>A storage of three nights\<close>

definition march :: "int \<Rightarrow> int \<Rightarrow> datetime" where
  "march d h = \<lparr>dt_year = 2026, dt_month = 3, dt_day = d, dt_hour = h, dt_minute = 0, dt_second = 0, dt_micro = 0\<rparr>"

definition demo_full :: "int \<Rightarrow> BackupItem" where "demo_full d = full_item (march d 2)"

definition demo_name :: "int \<Rightarrow> int \<Rightarrow> utext" where "demo_name d h = [65 + nat d, 65 + nat h]"

definition demo_wal :: "int \<Rightarrow> int \<Rightarrow> BackupItem" where
  "demo_wal d h = \<lparr>bi_kind = Wal, bi_path = wal_path (demo_name d h), bi_created_at = march d h\<rparr>"

definition demo_taken :: "BackupItem list" where
  "demo_taken = [demo_full 1, demo_full 2, demo_full 3, demo_wal 1 3, demo_wal 2 0, demo_wal 3 0]"

definition demo_iso :: "utext \<Rightarrow> datetime option" where
  "demo_iso s = (case s of [d, h] \<Rightarrow> Some (march (int d) (int h)) | _ \<Rightarrow> None)"

definition demo_file :: "utext \<Rightarrow> int \<Rightarrow> int \<Rightarrow> int \<Rightarrow> int remote_file" where
  "demo_file path d h c = \<lparr>rf_path = path, rf_modtime = [nat d, nat h], rf_content = c\<rparr>"

definition demo_base_path :: "datetime \<Rightarrow> utext" where
  "demo_base_path t = utext_of ''full/'' @ stamp_of t @ utext_of ''/base.tar.zst.age''"

definition demo_files :: "int remote_file list" where
  "demo_files = [demo_file (demo_base_path (march 1 2)) 1 2 10, demo_file (demo_base_path (march 2 2)) 2 2 20,
     demo_file (demo_base_path (march 3 2)) 3 2 30, demo_file (wal_path (demo_name 1 3)) 1 3 11,
     demo_file (wal_path (demo_name 2 0)) 2 0 12, demo_file (wal_path (demo_name 3 3)) 3 3 13]"

definition demo_items :: "BackupItem list" where
  "demo_items = [demo_full 1, demo_full 2, demo_full 3, demo_wal 1 3, demo_wal 2 0, demo_wal 3 3]"

lemma instant_march: "instant (march d h) = (739675 + d) * 86400000000 + h * 3600000000"
  by (simp add: instant_def march_def ymd2ord_def month_lengths_def is_leap_def)

lemma storage_demo_fields [simp]:
  "bi_kind (demo_full d) = Full" "bi_kind (demo_wal d h) = Wal"
  "bi_path (demo_full d) = utext_of ''full/'' @ stamp_of (march d 2)" "bi_path (demo_wal d h) = wal_path (demo_name d h)"
  "bi_created_at (demo_full d) = march d 2" "bi_created_at (demo_wal d h) = march d h"
  by (simp_all add: demo_full_def full_item_def demo_wal_def march_def)

lemma demo_neq [simp]: "demo_full d \<noteq> demo_wal e h" "demo_wal e h \<noteq> demo_full d"
  "demo_full d = demo_full e \<longleftrightarrow> d = e"
  by (auto simp: demo_full_def full_item_def demo_wal_def march_def)

lemma demo_wal_eq [simp]: "demo_wal d h = demo_wal e k \<longleftrightarrow> d = e \<and> h = k"
proof
  assume "demo_wal d h = demo_wal e k"
  then have "bi_created_at (demo_wal d h) = bi_created_at (demo_wal e k)" by simp
  then show "d = e \<and> h = k" by (simp add: march_def)
qed simp

lemma month_demo: "month_of (demo_full d) = (2026, 3)" by (simp add: month_of_def march_def)

lemma kinds_less [simp]: "\<not> (Full :: item_kind) < Full" "Full < Wal" "\<not> Wal < Full" "(Full :: item_kind) \<le> k"  "\<not> Wal \<le> Full"
  by (auto simp: less_item_kind_def less_eq_item_kind_def)

lemma none_expired: "\<forall>x \<in> set s. instant now - created x \<le> daily \<Longrightarrow> expired_snapshots s now daily monthly = []"
proof -
  assume a: "\<forall>x \<in> set s. instant now - created x \<le> daily"
  have "keep_snapshot (sort_key created s) now daily monthly i" if "i < length s" for i
  proof -
    have "sort_key created s ! i \<in> set (sort_key created s)" using that by (intro nth_mem) simp
    with a show ?thesis by (simp add: keep_snapshot_def Let_def)
  qed
  then show ?thesis by (simp add: expired_snapshots_def Let_def filter_empty_conv)
qed

lemma demo_plan_of:
  assumes "items = [demo_full 1, demo_full 2, demo_full 3, demo_wal 1 3, demo_wal 2 0, demo_wal 3 h]" "0 \<le> h"
  shows "plan_deletions items (march 3 23) HOURLY_RETENTION DAILY_RETENTION MONTHLY_RETENTION = [demo_wal 1 3]"
proof -
  have "expired_snapshots (of_kind k items) (march 3 23) DAILY_RETENTION MONTHLY_RETENTION = []" if "k \<noteq> Wal" for k
    using that by (intro none_expired) (auto simp: set_of_kind assms(1) DAILY_RETENTION_def instant_march)
  moreover have "wal_floor items = Some (created (demo_full 3))"
    by (simp add: wal_floor_def of_kind_def assms(1) Let_def instant_march)
  then have "filter (wal_expired items (march 3 23) HOURLY_RETENTION) items = [demo_wal 1 3]"
    using assms(2) by (simp add: assms(1) wal_expired_def HOURLY_RETENTION_def instant_march)
  ultimately show ?thesis by (simp add: plan_deletions_def)
qed

lemma demo_plan: "plan_deletions demo_taken (march 3 23) HOURLY_RETENTION DAILY_RETENTION MONTHLY_RETENTION = [demo_wal 1 3]"
  using demo_plan_of [of demo_taken 0] by (simp add: demo_taken_def)

lemma march_valid: "1 \<le> d \<Longrightarrow> d \<le> 31 \<Longrightarrow> 0 \<le> h \<Longrightarrow> h \<le> 23 \<Longrightarrow> valid_datetime (march d h)"
  by (simp add: valid_datetime_def march_def days_in_month_def month_lengths_def)

lemma digits: "ascii_digits ascii_tables" by (auto simp: ascii_digits_def ascii_tables_def)

lemma demo_entry_full: "1 \<le> d \<Longrightarrow> d \<le> 31 \<Longrightarrow>
  entry_of ascii_tables fi (demo_file (demo_base_path (march d 2)) e h c) = Inr (Some (bi_path (demo_full d), demo_full d))"
  using entry_of_new_full [OF digits march_valid, of d 2 "''base.tar.zst.age''" "demo_file (demo_base_path (march d 2)) e h c" fi]
  by (simp add: demo_full_def full_item_def demo_file_def demo_base_path_def utext_of_def)

lemma names: "utext_of ''wal'' \<noteq> utext_of ''full''" "utext_of ''wal'' \<noteq> utext_of ''resumes''"
  by (simp_all add: utext_of_def)

lemma demo_entry_wal: "0 \<le> d \<Longrightarrow> 0 \<le> h \<Longrightarrow> 
  entry_of ascii_tables demo_iso (demo_file (wal_path (demo_name d h)) d h c) = Inr (Some (bi_path (demo_wal d h), demo_wal d h))"
proof -
  have "wal_path (demo_name d h) = utext_of ''wal'' @ 47 # demo_name d h @ utext_of ''.zst.age''" by (simp add: wal_path_def utext_of_def)
  moreover have "47 \<notin> set (demo_name d h @ utext_of ''.zst.age'')" by (auto simp: demo_name_def utext_of_def)
  ultimately have "split_on 47 (wal_path (demo_name d h)) = [utext_of ''wal'', demo_name d h @ utext_of ''.zst.age'']"
    by (simp only:) (simp add: split_on_append split_on_single utext_of_def)
  moreover assume "0 \<le> d" "0 \<le> h"
  ultimately show ?thesis
    by (simp add: item_of_entry_def demo_file_def demo_iso_def demo_wal_def names)
qed

lemma demo_inventory: "inventory ascii_tables demo_iso True demo_files = Inr demo_items"
proof -
  have "map (\<lambda>f. entry_of ascii_tables demo_iso f) demo_files = map Inr (map (\<lambda>x. Some (bi_path x, x)) demo_items)"
    by (simp add: demo_files_def demo_items_def demo_entry_full demo_entry_wal del: storage_demo_fields)
  moreover have "fold add_item (map (\<lambda>x. Some (bi_path x, x)) demo_items) [] = map (\<lambda>x. (bi_path x, x)) demo_items"
    by (simp add: demo_items_def add_item_simps stamp_of_def march_def two_digits utext_of_def wal_path_def demo_name_def)
  ultimately show ?thesis
    by (simp add: inventory_def items_of_listing_def comp_def)
      (simp add: demo_items_def instant_march)
qed

lemma demo_keyed: "keyed rf_path demo_files"
  by (simp add: keyed_def demo_files_def demo_file_def demo_base_path_def stamp_of_def march_def two_digits utext_of_def wal_path_def demo_name_def)

lemma demo_apart: "apart (set demo_taken)" "apart (set demo_items)"
  by (simp_all add: apart_def demo_taken_def demo_items_def instant_march)

lemma demo_newest:
  "newest_before Full (march 3 4) demo_items = Inr (demo_full 3)"
  "\<forall>x \<in> set demo_items. bi_kind x = Full \<longrightarrow> created x \<le> created (demo_full 3)"
  by (simp_all add: newest_before_def demo_items_def instant_march)

lemma demo_decrypt: "decrypt_from_remote Some (bi_path (demo_full 3) @ utext_of ''/base.tar.zst.age'') demo_files = Inr 30"
  by (simp add: decrypt_from_remote_def find_file_def demo_files_def demo_file_def demo_base_path_def stamp_of_def march_def two_digits utext_of_def)

theorem retention_is_the_policy_witness:
  "distinct demo_taken \<and> apart (set demo_taken)
   \<and> (\<forall>x. x \<in> {demo_wal 1 3} \<longleftrightarrow> policy_deletes (set demo_taken) (instant (march 3 23)) HOURLY_RETENTION DAILY_RETENTION MONTHLY_RETENTION x)"
proof -
  have d: "distinct demo_taken" by (simp add: demo_taken_def)
  from retention_is_the_policy [OF d demo_apart(1) demo_plan [symmetric]] d demo_apart(1) show ?thesis by simp
qed

theorem retention_keeps_recovery_witness:
  "\<exists>err files'. cmd_retention ascii_tables demo_iso True (\<lambda>_. None) (march 3 23) False demo_files = (err, files')
     \<and> files' \<noteq> demo_files
     \<and> recover_base ascii_tables demo_iso True Some (march 3 4) True files' = Inr (demo_full 3, 30)"
proof -
  obtain err files' where run: "cmd_retention ascii_tables demo_iso True (\<lambda>_. None) (march 3 23) False demo_files = (err, files')" by force
  have before: "recover_base ascii_tables demo_iso True Some (march 3 4) True demo_files = Inr (demo_full 3, 30)"
    using demo_decrypt by (simp add: recover_base_def demo_inventory demo_newest)
  have "plan_deletions demo_items (march 3 23) HOURLY_RETENTION DAILY_RETENTION MONTHLY_RETENTION = [demo_wal 1 3]"
    using demo_plan_of [of demo_items] by (simp add: demo_items_def)
  then have "files' = filter (\<lambda>f. \<not> doomed (demo_wal 1 3) f) demo_files"
    using run by (simp add: cmd_retention_def demo_inventory)
  moreover have "doomed (demo_wal 1 3) (demo_file (wal_path (demo_name 1 3)) 1 3 11)"
    by (simp add: doomed_def demo_file_def)
  ultimately have "files' \<noteq> demo_files"
    by (auto simp: demo_files_def filter_id_conv [symmetric] dest: filter_id_conv [THEN iffD1])
  with run retention_keeps_recovery [OF demo_keyed demo_inventory demo_apart(2) demo_newest run, of Some] before show ?thesis by auto
qed

definition demo_surroundings :: "int surroundings" where
  "demo_surroundings = \<lparr>s_unicode = ascii_tables, s_iso = demo_iso, s_listed = True, s_broken = (\<lambda>_. None),
     s_fails = (\<lambda>path. path = wal_path [90]), s_modtime = [4, 3], s_later = march 4 3\<rparr>"

theorem segments_survive_the_hourly_run_witness:
  "\<exists>err archive' files'. cmd_wal demo_surroundings (\<lambda>c. Some (c + 1)) 0 (Some [66]) [(1, [66], False)] [([66], 5), ([90], 6)] demo_files
       = (err, archive', files') \<and> err \<noteq> None
     \<and> archive' = [([90], 6)] \<and> cmd_fetch_wal (\<lambda>c. Some (c - 1)) [66] files' = Inr 5"
proof -
  let ?archive = "[([66], 5), ([90], 6)] :: (utext \<times> int) list"
  obtain err archive' files' where run: "cmd_wal demo_surroundings (\<lambda>c. Some (c + 1)) 0 (Some [66]) [(1, [66], False)] ?archive demo_files
       = (err, archive', files')" by (metis prod_cases3)
  have "(case cmd_wal demo_surroundings (\<lambda>c. Some (c + 1)) 0 (Some [66]) [(1, [66], False)] ?archive demo_files of
       (err, archive', files') \<Rightarrow> (err, archive')) = (Some Called_Process_Error, [([90], 6)])" by code_simp
  then have now: "err = Some Called_Process_Error" "archive' = [([90], 6)]" unfolding run by simp_all
  have seal: "\<forall>c s. Some (c + 1) = Some s \<longrightarrow> Some (s - 1) = Some (c :: int)" by auto
  have k: "keyed fst ?archive" by (simp add: keyed_def)
  have t: "s_iso demo_surroundings (s_modtime demo_surroundings) = Some (march 4 3)" by (simp add: demo_surroundings_def demo_iso_def)
  have late: "instant (s_later demo_surroundings) - instant (march 4 3) \<le> HOURLY_RETENTION"
    by (simp add: demo_surroundings_def instant_march HOURLY_RETENTION_def)
  from segments_survive_the_hourly_run [where dec = "\<lambda>c. Some (c - 1)", OF k demo_keyed seal t late run]
  have "([66], 5) \<in> set archive' \<or> cmd_fetch_wal (\<lambda>c. Some (c - 1)) [66] files' = Inr 5" by simp
  with run now show ?thesis by simp
qed

definition calm_surroundings :: "int surroundings" where
  "calm_surroundings = demo_surroundings\<lparr>s_fails := (\<lambda>_. False), s_broken := (\<lambda>_. Some (\<lambda>_. False))\<rparr>"

theorem full_backup_is_the_next_base_witness:
  "\<exists>err files'. cmd_full calm_surroundings (march 4 2) (Inr 40) (Inr 41) (Inr 42) demo_files = (err, files')
     \<and> recover_base ascii_tables demo_iso True Some (march 4 3) True files' = Inr (full_item (march 4 2), 40)"
proof -
  obtain err files' where run: "cmd_full calm_surroundings (march 4 2) (Inr 40) (Inr 41) (Inr 42) demo_files = (err, files')" by force
  have sel: "s_unicode calm_surroundings = ascii_tables" "s_iso calm_surroundings = demo_iso" "\<forall>path. \<not> s_fails calm_surroundings path"
    by (simp_all add: calm_surroundings_def demo_surroundings_def)
    have now: "valid_datetime (march 4 2)" "instant (march 4 2) \<le> instant (march 4 3)" by (simp_all add: march_valid instant_march)
  have latest: "\<forall>x \<in> set demo_items. bi_kind x = Full \<longrightarrow> created x < created (full_item (march 4 2))"
    by (simp add: demo_items_def demo_full_def [symmetric] instant_march)
  from full_backup_is_the_next_base [where S = calm_surroundings and dec = Some and limit = "march 4 3" and sealed = 40 and content = 40,
      unfolded sel(1,2), OF digits now demo_keyed demo_inventory demo_apart(2) latest sel(3) _ run] run show ?thesis by simp
qed

section \<open>A lost moment\<close>

text \<open>Whether the kept items lead to a moment: all segments since the full backup that \<open>recover\<close> chooses are there.\<close>

definition replayable :: "BackupItem list \<Rightarrow> BackupItem list \<Rightarrow> datetime \<Rightarrow> bool" where
  "replayable taken kept target =
     (case newest_before Full target kept of
        Inl _ \<Rightarrow> False
      | Inr base \<Rightarrow>
          list_all (\<lambda>w. bi_kind w = Wal \<and> created base \<le> created w \<and> created w \<le> instant target \<longrightarrow> w \<in> set kept) taken)"

text \<open>
  A segment of the last two days can be kept in vain: with nightly full backups, a moment 46 hours ago could be
  restored before the retention ran and cannot afterwards, because the segments between its full backup and the start of
  the two days are deleted with the others.
\<close>

theorem recent_moment_lost:
  "\<exists>taken now target. instant now - instant target \<le> HOURLY_RETENTION \<and> replayable taken taken target
     \<and> \<not> replayable taken
         (filter (\<lambda>x. x \<notin> set (plan_deletions taken now HOURLY_RETENTION DAILY_RETENTION MONTHLY_RETENTION)) taken) target"
proof (intro exI conjI)
  show "instant (march 3 23) - instant (march 2 1) \<le> HOURLY_RETENTION" by (simp add: instant_march HOURLY_RETENTION_def)
  show "replayable demo_taken demo_taken (march 2 1)"
    by (simp add: replayable_def newest_before_def demo_taken_def instant_march)
  show "\<not> replayable demo_taken (filter (\<lambda>x. x \<notin> set (plan_deletions demo_taken (march 3 23) HOURLY_RETENTION
      DAILY_RETENTION MONTHLY_RETENTION)) demo_taken) (march 2 1)" unfolding demo_plan
    by (simp add: replayable_def newest_before_def demo_taken_def instant_march)
qed

end
