(* ===== verification/Resume_Parser.thy ===== *)
theory Resume_Parser
  imports Question_Plan Sessions
begin

text \<open>
  From the uploaded file to structured data: the text of a PDF or DOCX file (app/core/text_extraction.py) and its
  sections, periods, employers, titles and degrees (app/core/resume_parser.py). The readers of the file formats, the
  character recognition and the language model that names persons and organisations are parameters.
\<close>

section \<open>Lines and words\<close>

text \<open>The line boundaries of \<open>splitlines\<close>; a carriage return takes a following line feed with it.\<close>

definition line_break :: "nat \<Rightarrow> bool" where
  "line_break c \<longleftrightarrow> (10 \<le> c \<and> c \<le> 13) \<or> (28 \<le> c \<and> c \<le> 30) \<or> c = 133 \<or> c = 8232 \<or> c = 8233"

function splitlines :: "utext \<Rightarrow> utext list" where
  "splitlines s =
     (if s = [] then []
      else takeWhile (\<lambda>c. \<not> line_break c) s #
        (case dropWhile (\<lambda>c. \<not> line_break c) s of
           [] \<Rightarrow> []
         | c # cs \<Rightarrow> splitlines (if c = 13 \<and> cs \<noteq> [] \<and> hd cs = 10 then tl cs else cs)))"
  by pat_completeness auto
termination
proof (relation "measure length")
  fix s :: utext and c cs
  assume "dropWhile (\<lambda>c. \<not> line_break c) s = c # cs"
  then have "length cs < length s" using length_dropWhile_le [of "\<lambda>c. \<not> line_break c" s] by simp
  then show "(if c = 13 \<and> cs \<noteq> [] \<and> hd cs = 10 then tl cs else cs, s) \<in> measure length" by auto
qed simp

declare splitlines.simps [simp del]

text \<open>\<open>split()\<close> and \<open>" ".join(...)\<close>.\<close>

definition words :: "unicode \<Rightarrow> utext \<Rightarrow> utext list" where
  "words U s = class_runs (\<lambda>c. \<not> uc_space U c) s"

definition join_words :: "utext list \<Rightarrow> utext" where "join_words = join_texts [32]"
definition join_lines :: "utext list \<Rightarrow> utext" where "join_lines = join_texts [10]"

section \<open>The text of a file\<close>

text \<open>
  What the format libraries tell of a file: whether a PDF opens, whether it wants a password, the text layer and the
  recognised text of its pages, the paragraphs and the table cells of a DOCX; any later failure by its type.
\<close>

record 'f document_reader =
  rd_pdf_opens :: "'f \<Rightarrow> bool"
  rd_needs_pass :: "'f \<Rightarrow> bool"
  rd_pages :: "'f \<Rightarrow> string + utext list"
  rd_ocr :: "'f \<Rightarrow> string + utext list"
  rd_docx :: "'f \<Rightarrow> (utext list \<times> utext list) option"

datatype text_error = UnreadableResumeFileError | Other_Error string

definition MIN_TEXT_LAYER_CHARS :: nat where "MIN_TEXT_LAYER_CHARS = 40"

definition normalize_text :: "unicode \<Rightarrow> utext \<Rightarrow> utext" where
  "normalize_text U text =
     (let normalized_lines = map (\<lambda>line. join_words (words U line)) (splitlines text);
          non_empty_lines = filter (\<lambda>line. line \<noteq> []) normalized_lines
      in ustrip U (join_lines non_empty_lines))"

definition extract_from_pdf :: "unicode \<Rightarrow> 'f document_reader \<Rightarrow> 'f \<Rightarrow> text_error + utext" where
  "extract_from_pdf U R file =
     (if \<not> rd_pdf_opens R file \<or> rd_needs_pass R file then Inl UnreadableResumeFileError
      else case rd_pages R file of
        Inl e \<Rightarrow> Inl (Other_Error e)
      | Inr pages \<Rightarrow>
          (let direct_text = join_lines (filter (\<lambda>t. t \<noteq> []) (map (ustrip U) pages))
           in if MIN_TEXT_LAYER_CHARS \<le> length direct_text then Inr (normalize_text U direct_text)
              else case rd_ocr R file of
                Inl e \<Rightarrow> Inl (Other_Error e)
              | Inr ocr_pages \<Rightarrow>
                  (let ocr_text = join_lines (filter (\<lambda>t. t \<noteq> []) (map (ustrip U) ocr_pages))
                   in if ustrip U ocr_text = [] then Inl UnreadableResumeFileError else Inr (normalize_text U ocr_text))))"

definition extract_from_docx :: "unicode \<Rightarrow> 'f document_reader \<Rightarrow> 'f \<Rightarrow> text_error + utext" where
  "extract_from_docx U R file =
     (case rd_docx R file of
        None \<Rightarrow> Inl UnreadableResumeFileError
      | Some (paragraphs, cells) \<Rightarrow>
          (let filled = filter (\<lambda>t. ustrip U t \<noteq> []);
               combined_text = join_lines (filled paragraphs @ filled cells)
           in if ustrip U combined_text = [] then Inl UnreadableResumeFileError else Inr (normalize_text U combined_text)))"

definition extract_raw_text :: "unicode \<Rightarrow> 'f document_reader \<Rightarrow> 'f \<Rightarrow> utext \<Rightarrow> text_error + utext" where
  "extract_raw_text U R file filename =
     (let lowered_filename = uc_lower U filename
      in if suffix (utext_of ''.pdf'') lowered_filename then extract_from_pdf U R file
         else if suffix (utext_of ''.docx'') lowered_filename then extract_from_docx U R file
         else Inl UnreadableResumeFileError)"

section \<open>Patterns\<close>

definition ascii_alnum_or :: "string \<Rightarrow> regex" where
  "ascii_alnum_or extra = Cls (\<lambda>c. alnum c \<or> one_of extra c)"

text \<open>A decimal digit of any script (\<open>\d\<close>), of ASCII (\<open>[0-9]\<close>), and white space (\<open>\s\<close>).\<close>

definition any_digit :: "unicode \<Rightarrow> regex" where "any_digit U = Cls (\<lambda>c. uc_digit U c \<noteq> None)"
definition blank :: "unicode \<Rightarrow> regex" where "blank U = Cls (uc_space U)"

definition word_i :: "unicode \<Rightarrow> utext \<Rightarrow> regex" where "word_i U w = seqs (map (Char_i U) w)"

definition RESUME_EMAIL_PATTERN :: regex where
  "RESUME_EMAIL_PATTERN =
     seqs [Plus (ascii_alnum_or ''_.+-''), Lit ''@'', Plus (ascii_alnum_or ''-''), Lit ''.'', Plus (ascii_alnum_or ''-.'')]"

definition RESUME_PHONE_PATTERN :: "unicode \<Rightarrow> regex" where
  "RESUME_PHONE_PATTERN U =
     seqs [Opt (Alt (Lit ''+98'') (Lit ''0'')), Lit ''9'', Rep 9 9 (any_digit U), Word_Edge (uc_word U)]"

definition GPA_PATTERN :: "unicode \<Rightarrow> regex" where
  "GPA_PATTERN U =
     seqs [Alt (word_i U [1605, 1593, 1583, 1604]) (Lit_i U ''GPA''), Star (blank U), Opt (Cls (\<lambda>c. c = 58 \<or> c = 1600)), Star (blank U),
       Cap 1 (Seq (Plus (Cls digit)) (Opt (Seq (Cls (one_of ''.,'')) (Plus (Cls digit)))))]"

definition year_pattern :: "unicode \<Rightarrow> regex list" where
  "year_pattern U = [seqs [Char 49, Cls (one_of ''349''), any_digit U, any_digit U], seqs [Lit ''20'', any_digit U, any_digit U]]"

definition NOW_WORDS :: "utext list" where
  "NOW_WORDS =
     [[1578, 1575, 1705, 1606, 1608, 1606], [1575, 1705, 1606, 1608, 1606], [1581, 1575, 1604, 32, 1581, 1575, 1590, 1585],
      utext_of ''present'', utext_of ''current'']"

definition DATE_RANGE_PATTERN :: "unicode \<Rightarrow> regex" where
  "DATE_RANGE_PATTERN U =
     seqs [Cap 1 (alts (year_pattern U)), Star (blank U),
       alts [Plus (Cls is_dash), word_i U [1578, 1575], Lit_i U ''to''], Star (blank U),
       Cap 2 (alts (year_pattern U @ map (word_i U) NOW_WORDS))]"

text \<open>A keyword, white space, and the name after it: two to sixty characters up to a line end, comma or full stop.\<close>

definition named_after :: "unicode \<Rightarrow> utext list \<Rightarrow> regex" where
  "named_after U keywords =
     seqs [alts (map (\<lambda>k. seqs (map Char k)) keywords), Plus (blank U),
       Cap 1 (Rep 2 60 (Cls (\<lambda>c. c \<notin> {10, 44, 46, 1548})))]"

definition ORG_KEYWORD_PATTERN :: "unicode \<Rightarrow> regex" where
  "ORG_KEYWORD_PATTERN U = named_after U [[1588, 1585, 1705, 1578], [1587, 1575, 1586, 1605, 1575, 1606]]"

definition UNIVERSITY_KEYWORD_PATTERN :: "unicode \<Rightarrow> regex" where
  "UNIVERSITY_KEYWORD_PATTERN U = named_after U [[1583, 1575, 1606, 1588, 1711, 1575, 1607]]"

definition BLOCK_PATTERN :: "unicode \<Rightarrow> regex" where
  "BLOCK_PATTERN U = seqs [Char 10, Star (blank U), Char 10]"

definition EXPERIENCE_SECTION_HEADERS :: "utext list" where
  "EXPERIENCE_SECTION_HEADERS =
     [[1578, 1580, 1585, 1576, 1607, 32, 1705, 1575, 1585, 1740],
      [1578, 1580, 1585, 1576, 1740, 1575, 1578, 32, 1588, 1594, 1604, 1740],
      [1587, 1608, 1575, 1576, 1602, 32, 1588, 1594, 1604, 1740],
      [1587, 1608, 1575, 1576, 1602, 32, 1705, 1575, 1585, 1740],
      [1587, 1575, 1576, 1602, 1607, 32, 1705, 1575, 1585], utext_of ''work experience'',
      utext_of ''employment history'', utext_of ''professional experience'', utext_of ''experience'']"

definition EDUCATION_SECTION_HEADERS :: "utext list" where
  "EDUCATION_SECTION_HEADERS =
     [[1587, 1608, 1575, 1576, 1602, 32, 1578, 1581, 1589, 1740, 1604, 1740],
      [1578, 1581, 1589, 1740, 1604, 1575, 1578, 32, 1583, 1575, 1606, 1588, 1711, 1575, 1607, 1740],
      [1578, 1581, 1589, 1740, 1604, 1575, 1578], utext_of ''education'', utext_of ''academic background'',
      utext_of ''academic qualifications'']"

definition JOB_TITLE_KEYWORDS :: "utext list" where
  "JOB_TITLE_KEYWORDS =
     [[1578, 1608, 1587, 1593, 1607, 8204, 1583, 1607, 1606, 1583, 1607],
      [1576, 1585, 1606, 1575, 1605, 1607, 8204, 1606, 1608, 1740, 1587], [1605, 1607, 1606, 1583, 1587],
      [1705, 1575, 1585, 1588, 1606, 1575, 1587], [1605, 1583, 1740, 1585], [1591, 1585, 1575, 1581],
      [1578, 1581, 1604, 1740, 1604, 1711, 1585], utext_of ''developer'', utext_of ''engineer'',
      utext_of ''manager'', utext_of ''designer'', utext_of ''analyst'', utext_of ''specialist'',
      utext_of ''consultant'', utext_of ''administrator'', utext_of ''lead'', utext_of ''architect'']"

definition DEGREE_KEYWORDS :: "utext list" where
  "DEGREE_KEYWORDS =
     [[1583, 1705, 1578, 1585, 1740], [1705, 1575, 1585, 1588, 1606, 1575, 1587, 1740, 32, 1575, 1585, 1588, 1583],
      [1705, 1575, 1585, 1588, 1606, 1575, 1587, 1740], [1705, 1575, 1585, 1583, 1575, 1606, 1740],
      [1583, 1740, 1662, 1604, 1605], utext_of ''phd'', utext_of ''ph.d'', utext_of ''master'',
      utext_of ''bachelor'', utext_of ''associate'', utext_of ''mba'', utext_of ''b.sc'', utext_of ''m.sc'']"

definition MAX_SECTION_HEADER_LINE_LENGTH :: nat where "MAX_SECTION_HEADER_LINE_LENGTH = 40"

section \<open>Sections and blocks\<close>

datatype resume_section = Header | Experience | Education

text \<open>The section that a line opens, if it is a heading.\<close>

definition opens_section :: "unicode \<Rightarrow> utext \<Rightarrow> resume_section option" where
  "opens_section U line =
     (let normalized_line = uc_lower U (ustrip U line);
          is_short_line = (length normalized_line < MAX_SECTION_HEADER_LINE_LENGTH)
      in if is_short_line \<and> list_ex (\<lambda>h. has_substring h normalized_line) EXPERIENCE_SECTION_HEADERS then Some Experience
         else if is_short_line \<and> list_ex (\<lambda>h. has_substring h normalized_line) EDUCATION_SECTION_HEADERS then Some Education
         else None)"

fun section_lines :: "unicode \<Rightarrow> resume_section \<Rightarrow> utext list \<Rightarrow> (resume_section \<times> utext) list" where
  "section_lines U current [] = []"
| "section_lines U current (line # lines) =
     (case opens_section U line of
        Some opened \<Rightarrow> section_lines U opened lines
      | None \<Rightarrow> (current, line) # section_lines U current lines)"

definition split_into_sections :: "unicode \<Rightarrow> utext \<Rightarrow> resume_section \<Rightarrow> utext" where
  "split_into_sections U text name =
     join_lines (map snd (filter (\<lambda>(s, _). s = name) (section_lines U Header (splitlines text))))"

definition split_into_blocks :: "unicode \<Rightarrow> utext \<Rightarrow> utext list" where
  "split_into_blocks U section_text =
     (let raw_blocks = re_split (BLOCK_PATTERN U) (ustrip U section_text)
      in filter (\<lambda>b. b \<noteq> []) (map (ustrip U) raw_blocks))"

section \<open>Entities\<close>

text \<open>The entities that the language model marks in a text, with their labels; None when no model is installed.\<close>

type_synonym ner = "(utext \<Rightarrow> (utext \<times> string) list) option"

definition first_entity :: "unicode \<Rightarrow> ner \<Rightarrow> string \<Rightarrow> utext \<Rightarrow> utext option" where
  "first_entity U nlp label text =
     (case nlp of
        None \<Rightarrow> None
      | Some model \<Rightarrow>
          (case map (ustrip U \<circ> fst) (filter (\<lambda>(_, l). l = label) (model text)) of [] \<Rightarrow> None | e # _ \<Rightarrow> Some e))"

record PersonalInfo =
  pi_name :: "utext option"
  pi_email :: "utext option"
  pi_phone :: "utext option"

record ParsedResumeData =
  pd_personal_info :: PersonalInfo
  pd_education :: "education_entry list"
  pd_work_experience :: "work_experience_entry list"

definition guess_name :: "unicode \<Rightarrow> ner \<Rightarrow> utext \<Rightarrow> utext option" where
  "guess_name U nlp header_text =
     (case first_entity U nlp ''PERSON'' (take 500 header_text) of
        Some name \<Rightarrow> Some name
      | None \<Rightarrow>
          find (\<lambda>line. line \<noteq> [] \<and> \<not> re_found RESUME_EMAIL_PATTERN line \<and> \<not> re_found (RESUME_PHONE_PATTERN U) line)
            (map (ustrip U) (splitlines header_text)))"

definition extract_personal_info :: "unicode \<Rightarrow> ner \<Rightarrow> utext \<Rightarrow> utext \<Rightarrow> PersonalInfo" where
  "extract_personal_info U nlp header_text full_text =
     \<lparr>pi_name = guess_name U nlp header_text, pi_email = map_option fst (re_first RESUME_EMAIL_PATTERN full_text),
      pi_phone = map_option fst (re_first (RESUME_PHONE_PATTERN U) full_text)\<rparr>"

definition find_duration :: "unicode \<Rightarrow> utext \<Rightarrow> utext option" where
  "find_duration U block =
     (case re_first (DATE_RANGE_PATTERN U) block of
        None \<Rightarrow> None
      | Some (_, g) \<Rightarrow> Some (the (map_of g 1) @ utext_of '' - '' @ the (map_of g 2)))"

definition find_organization :: "unicode \<Rightarrow> ner \<Rightarrow> regex \<Rightarrow> utext \<Rightarrow> utext option" where
  "find_organization U nlp keyword_pattern block =
     (case re_first keyword_pattern block of
        Some (_, g) \<Rightarrow> Some (ustrip U (the (map_of g 1)))
      | None \<Rightarrow> first_entity U nlp ''ORG'' block)"

definition find_keyword_line :: "unicode \<Rightarrow> utext list \<Rightarrow> utext \<Rightarrow> utext option" where
  "find_keyword_line U keywords block =
     map_option (ustrip U)
       (find (\<lambda>line. list_ex (\<lambda>k. has_substring k (uc_lower U line)) keywords) (splitlines block))"

definition find_degree :: "unicode \<Rightarrow> utext \<Rightarrow> utext option" where
  "find_degree U block = find (\<lambda>k. has_substring k (uc_lower U block)) DEGREE_KEYWORDS"

text \<open>\<open>float\<close> of digits with at most one decimal point.\<close>

definition decimal_value :: "utext \<Rightarrow> rat" where
  "decimal_value s =
     (let whole = takeWhile digit s; fraction = drop 1 (dropWhile digit s);
          value = (\<lambda>ds. rat_of_int (digits_value (map (\<lambda>c. c - 48) ds)))
      in value whole + value fraction / 10 ^ length fraction)"

definition find_gpa :: "unicode \<Rightarrow> utext \<Rightarrow> rat option" where
  "find_gpa U block =
     (case re_first (GPA_PATTERN U) block of
        None \<Rightarrow> None
      | Some (_, g) \<Rightarrow> Some (decimal_value (map (\<lambda>c. if c = 44 then 46 else c) (the (map_of g 1)))))"

definition extract_work_experience :: "unicode \<Rightarrow> ner \<Rightarrow> utext \<Rightarrow> work_experience_entry list" where
  "extract_work_experience U nlp section_text =
     (if ustrip U section_text = [] then []
      else filter (\<lambda>e. truthy (we_duration e) \<or> truthy (we_company e) \<or> truthy (we_job_title e))
        (map (\<lambda>block. \<lparr>we_company = find_organization U nlp (ORG_KEYWORD_PATTERN U) block,
             we_job_title = find_keyword_line U JOB_TITLE_KEYWORDS block, we_duration = find_duration U block\<rparr>)
          (split_into_blocks U section_text)))"

definition extract_education :: "unicode \<Rightarrow> ner \<Rightarrow> utext \<Rightarrow> education_entry list" where
  "extract_education U nlp section_text =
     (if ustrip U section_text = [] then []
      else filter (\<lambda>e. truthy (ed_degree e) \<or> truthy (ed_university e) \<or> ed_gpa e \<noteq> None)
        (map (\<lambda>block. \<lparr>ed_degree = find_degree U block,
             ed_university = find_organization U nlp (UNIVERSITY_KEYWORD_PATTERN U) block, ed_gpa = find_gpa U block\<rparr>)
          (split_into_blocks U section_text)))"

definition parse_resume_text :: "unicode \<Rightarrow> ner \<Rightarrow> utext \<Rightarrow> ParsedResumeData" where
  "parse_resume_text U nlp raw_text =
     (let normalized_text = normalize_digits raw_text;
          sections = split_into_sections U normalized_text
      in \<lparr>pd_personal_info = extract_personal_info U nlp (sections Header) normalized_text,
          pd_education = extract_education U nlp (sections Education),
          pd_work_experience = extract_work_experience U nlp (sections Experience)\<rparr>)"

text \<open>\<open>model_dump\<close>, as the column stores it.\<close>

definition json_text :: "utext option \<Rightarrow> json" where
  "json_text t = (case t of None \<Rightarrow> JNull | Some s \<Rightarrow> JStr s)"

definition parsed_json :: "ParsedResumeData \<Rightarrow> json" where
  "parsed_json p =
     JObj [(''personal_info'', JObj [(''name'', json_text (pi_name (pd_personal_info p))), (''email'', json_text (pi_email (pd_personal_info p))),
            (''phone'', json_text (pi_phone (pd_personal_info p)))]),
       (''education'', JArr (map (\<lambda>e. JObj [(''degree'', json_text (ed_degree e)), (''university'', json_text (ed_university e)),
            (''gpa'', case ed_gpa e of None \<Rightarrow> JNull | Some g \<Rightarrow> JFloat g)]) (pd_education p))),
       (''work_experience'', JArr (map (\<lambda>e. JObj [(''company'', json_text (we_company e)), (''job_title'', json_text (we_job_title e)),
            (''duration'', json_text (we_duration e))]) (pd_work_experience p)))]"

end
