(* ===== verification/Text_Signals.thy ===== *)
theory Text_Signals
  imports Resume_Parser
begin

text \<open>
  What several agents read in the text of a resume (app/agents/text_signals.py): claims of "N years of experience", in
  total or for one skill, with the piece of text that makes them; and how often each skill is mentioned
  (\<open>count_skill_mentions\<close> of app/core/skill_graph.py).
\<close>

section \<open>Mentions of skills\<close>

definition bounded_keyword :: "utext \<Rightarrow> regex" where
  "bounded_keyword keyword = seqs [Not_Behind alnum, seqs (map Char keyword), Not_Ahead alnum]"

definition count_mention ::
  "utext \<Rightarrow> utext \<times> utext \<times> utext \<Rightarrow> (utext \<times> utext \<times> nat) list \<Rightarrow> (utext \<times> utext \<times> nat) list" where
  "count_mention lowered_text entry mentions =
     (case entry of (keyword, display_name, core_skill) \<Rightarrow>
        let count = length (re_findall (bounded_keyword keyword) lowered_text)
        in if count = 0 then mentions
           else (let previous = (case map_of mentions display_name of None \<Rightarrow> 0 | Some (_, n) \<Rightarrow> n)
                 in dict_set mentions display_name (core_skill, previous + count)))"

definition count_skill_mentions :: "unicode \<Rightarrow> utext \<Rightarrow> (utext \<times> utext \<times> nat) list" where
  "count_skill_mentions U text =
     (if text = [] then [] else fold (count_mention (uc_lower U text)) build_lookup_table [])"

section \<open>Patterns\<close>

text \<open>A class under \<open>IGNORECASE\<close>, and white space at least once.\<close>

definition Cls_i :: "unicode \<Rightarrow> (nat \<Rightarrow> bool) \<Rightarrow> regex" where
  "Cls_i U P = Cls (\<lambda>c. P c \<or> (case uc_lower U [c] of [l] \<Rightarrow> P l | _ \<Rightarrow> False))"

definition gap :: "unicode \<Rightarrow> regex" where "gap U = Plus (blank U)"

definition SAL :: utext where "SAL = [1587, 1575, 1604]"
definition SABEQE :: utext where "SABEQE = [1587, 1575, 1576, 1602, 1607]"
definition TAJROBE :: utext where "TAJROBE = [1578, 1580, 1585, 1576, 1607]"

definition YEARS_CLAIMED :: "unicode \<Rightarrow> nat \<Rightarrow> regex" where
  "YEARS_CLAIMED U n = seqs [Cap n (Rep 1 2 (any_digit U)), Star (blank U), Opt (Lit ''+''), Star (blank U)]"

text \<open>\<open>(?:years?|yrs)\<close>, and the same with the Persian word.\<close>

definition years_word :: "unicode \<Rightarrow> regex list" where
  "years_word U = [Seq (Lit_i U ''year'') (Opt (Lit_i U ''s'')), Lit_i U ''yrs'']"

definition year_unit :: "unicode \<Rightarrow> regex" where
  "year_unit U = alts (years_word U @ [word_i U SAL])"

definition TOTAL_CLAIM_PATTERNS :: "unicode \<Rightarrow> regex list" where
  "TOTAL_CLAIM_PATTERNS U =
     [seqs [YEARS_CLAIMED U 1, alts (years_word U), gap U, Opt (Seq (Lit_i U ''of'') (gap U)),
        Opt (alts (map (\<lambda>w. Seq (Lit_i U w) (gap U)) [''professional'', ''industry'', ''work'', ''hands-on''])),
        Lit_i U ''experience''],
      seqs [Lit_i U ''experience'', gap U, Lit_i U ''of'', gap U, YEARS_CLAIMED U 1, alts (years_word U)],
      seqs [YEARS_CLAIMED U 1, seqs (map Char SAL), gap U, Alt (seqs (map Char SABEQE)) (seqs (map Char TAJROBE))],
      seqs [Alt (seqs (map Char SABEQE)) (seqs (map Char TAJROBE)),
        Opt (Alt (Seq (gap U) (seqs (map Char [1705, 1575, 1585, 1740]))) (Seq (gap U) (seqs (map Char [1705, 1575, 1585])))),
        gap U, YEARS_CLAIMED U 1, seqs (map Char SAL)]]"

definition SKILL_CLAIM_AFTER :: "unicode \<Rightarrow> regex" where
  "SKILL_CLAIM_AFTER U =
     seqs [YEARS_CLAIMED U 1, year_unit U, gap U, Opt (Seq (Lit_i U ''of'') (gap U)),
       Opt (alts [seqs [Lit_i U ''experience'', gap U, Alt (Lit_i U ''in'') (Lit_i U ''with''), gap U],
         Seq (word_i U TAJROBE) (gap U), Seq (word_i U SABEQE) (gap U)]),
       Opt (alts [Seq (word_i U [1583, 1585]) (gap U), Seq (word_i U [1576, 1575]) (gap U),
         seqs [word_i U [1705, 1575, 1585], gap U, word_i U [1576, 1575], gap U]]),
       Ahead (Cap 2 (Rep 1 40 (Cls (\<lambda>c. \<not> one_of '',;()'' c \<and> c \<notin> {10, 1548, 1563}))))]"

definition WINDOW_SPLIT :: "unicode \<Rightarrow> regex" where
  "WINDOW_SPLIT U = Alt (seqs [blank U, alts [Lit_i U ''and'', word_i U [1608], Lit_i U ''&''], blank U]) (Lit_i U ''/'')"

definition SKILL_CLAIM_BEFORE :: "unicode \<Rightarrow> regex" where
  "SKILL_CLAIM_BEFORE U =
     seqs [Cap 1 (Seq (Cls_i U (\<lambda>c. (65 \<le> c \<and> c \<le> 90) \<or> (97 \<le> c \<and> c \<le> 122)))
         (Up_To_Lazy 30 (Cls (\<lambda>c. uc_word U c \<or> one_of ''.#+/- '' c)))),
       Star (blank U), Cls (\<lambda>c. one_of ''(-:'' c \<or> c = 8211), Star (blank U), YEARS_CLAIMED U 2, year_unit U]"

section \<open>Claims\<close>

definition MAX_EVIDENCE_LENGTH :: nat where "MAX_EVIDENCE_LENGTH = 80"
definition MAX_PLAUSIBLE_YEARS :: rat where "MAX_PLAUSIBLE_YEARS = 50"

text \<open>
  The piece of text of a match; \<open>extra\<close> is the text right behind it that counts as well (the start of the window, which
  the pattern sees without consuming it).
\<close>

definition claim_evidence :: "unicode \<Rightarrow> utext \<Rightarrow> utext \<Rightarrow> utext" where
  "claim_evidence U matched extra = take MAX_EVIDENCE_LENGTH (join_words (words U (matched @ extra)))"

definition year_number :: "unicode \<Rightarrow> utext \<Rightarrow> rat" where
  "year_number U g = rat_of_int (digits_value (map (\<lambda>c. the (uc_digit U c)) g))"

definition plausible :: "rat \<Rightarrow> bool" where
  "plausible y \<longleftrightarrow> 0 < y \<and> y \<le> MAX_PLAUSIBLE_YEARS"

definition better_total ::
  "unicode \<Rightarrow> utext \<times> (nat \<times> utext) list \<Rightarrow> rat option \<times> utext option \<Rightarrow> rat option \<times> utext option" where
  "better_total U m best =
     (let years = year_number U (the (map_of (snd m) 1))
      in if plausible years \<and> (fst best = None \<or> the (fst best) < years)
         then (Some years, Some (claim_evidence U (fst m) [])) else best)"

definition extract_claimed_total_years :: "unicode \<Rightarrow> utext \<Rightarrow> rat option \<times> utext option" where
  "extract_claimed_total_years U text =
     (if text = [] then (None, None)
      else
        (let normalized = normalize_digits text
         in fold (\<lambda>pattern. fold (better_total U) (iter_from pattern None normalized)) (TOTAL_CLAIM_PATTERNS U) (None, None)))"

type_synonym skill_claims = "(utext \<times> rat \<times> utext) list"

definition record_skill :: "rat \<Rightarrow> utext \<Rightarrow> utext \<Rightarrow> skill_claims \<Rightarrow> skill_claims" where
  "record_skill n evidence skill claims =
     (if (case map_of claims skill of None \<Rightarrow> True | Some (y, _) \<Rightarrow> y < n)
      then dict_set claims skill (n, evidence) else claims)"

definition record_claim :: "unicode \<Rightarrow> rat \<Rightarrow> utext \<Rightarrow> utext \<Rightarrow> skill_claims \<Rightarrow> skill_claims" where
  "record_claim U n window evidence claims =
     (if \<not> plausible n then claims
      else (let direct = filter (\<lambda>skill. re_found (word_i U skill) window) (match_skills U window)
            in fold (record_skill n evidence) direct claims))"

definition record_after :: "unicode \<Rightarrow> utext \<times> (nat \<times> utext) list \<Rightarrow> skill_claims \<Rightarrow> skill_claims" where
  "record_after U m =
     (let window = hd (re_split (WINDOW_SPLIT U) (the (map_of (snd m) 2)))
      in record_claim U (year_number U (the (map_of (snd m) 1))) window (claim_evidence U (fst m) window))"

definition record_before :: "unicode \<Rightarrow> utext \<times> (nat \<times> utext) list \<Rightarrow> skill_claims \<Rightarrow> skill_claims" where
  "record_before U m =
     record_claim U (year_number U (the (map_of (snd m) 2))) (the (map_of (snd m) 1)) (claim_evidence U (fst m) [])"

definition extract_skill_year_claims :: "unicode \<Rightarrow> utext \<Rightarrow> skill_claims" where
  "extract_skill_year_claims U text =
     (if text = [] then []
      else
        (let normalized = normalize_digits text
         in fold (record_before U) (iter_from (SKILL_CLAIM_BEFORE U) None normalized)
              (fold (record_after U) (iter_from (SKILL_CLAIM_AFTER U) None normalized) [])))"

record shared_signals =
  sg_claimed_total :: "rat option \<times> utext option"
  sg_skill_year_claims :: skill_claims

definition compute_shared_signals :: "unicode \<Rightarrow> utext \<Rightarrow> shared_signals" where
  "compute_shared_signals U text =
     \<lparr>sg_claimed_total = extract_claimed_total_years U text, sg_skill_year_claims = extract_skill_year_claims U text\<rparr>"

section \<open>Mentions and detected skills\<close>

lemma match_seqs_Cons [simp]: "match (seqs (r # rs)) ps = concat (map (match (seqs rs)) (match r ps))"
  by (simp add: seqs_def)

lemma match_seqs_Nil [simp]: "match (seqs []) ps = [ps]"
  by (simp add: seqs_def)

lemma match_chars:
  "match (seqs (map Char w)) (p, s, g) =
     (if take (length w) s = w then [(if w = [] then p else Some (last w), drop (length w) s, g)] else [])"
proof (induction w arbitrary: p s)
  case Nil
  then show ?case by simp
next
  case (Cons c w)
  then show ?case by (cases s) (auto simp: Char_def)
qed

lemma match_bounded_keyword:
  "match (bounded_keyword k) (p, s, g) =
     (if \<not> (case p of None \<Rightarrow> False | Some c \<Rightarrow> alnum c) \<and> keyword_here k s
      then [(if k = [] then p else Some (last k), drop (length k) s, g)] else [])"
  by (auto simp: bounded_keyword_def match_chars keyword_here_def split: option.splits list.splits)

lemma keyword_findall:
  assumes "k \<noteq> []"
  shows "iter_from (bounded_keyword k) p s = [] \<longleftrightarrow> \<not> keyword_search k (case p of None \<Rightarrow> False | Some c \<Rightarrow> alnum c) s"
proof (induction s arbitrary: p)
  case Nil
  show ?case using assms by (subst iter_from.simps) (simp add: keyword_here_def)
next
  case (Cons c cs)
  show ?case
  proof (cases "\<not> (case p of None \<Rightarrow> False | Some c \<Rightarrow> alnum c) \<and> keyword_here k (c # cs)")
    case True
    then have "match_here (bounded_keyword k) p (c # cs) = Some (Some (last k), drop (length k) (c # cs), [])"
      using assms by (simp add: match_here_def match_bounded_keyword)
    moreover have "length (drop (length k) (c # cs)) < length (c # cs)" using assms by (cases k) auto
    ultimately have "iter_from (bounded_keyword k) p (c # cs) \<noteq> []" by (subst iter_from.simps) simp
    with True show ?thesis by simp
  next
    case False
    then have "match_here (bounded_keyword k) p (c # cs) = None"
      by (simp add: match_here_def match_bounded_keyword)
    then have "iter_from (bounded_keyword k) p (c # cs) = iter_from (bounded_keyword k) (Some c) cs"
      by (subst iter_from.simps) simp
    with Cons.IH [of "Some c"] False show ?thesis by auto
  qed
qed

declare map_of_dict_set [simp] keys_dict_set [simp] distinct_dict_set [simp]

end
