(* ===== verification/Resume_Agents.thy ===== *)
theory Resume_Agents
  imports Text_Signals
begin

text \<open>
  The three agents that read a resume (app/agents/skill_agent.py, experience_agent.py, soft_skills_agent.py) and the schema of
  their outputs (app/agents/schema.py). Building an object whose field constraints fail raises; the outputs are therefore
  sums with the type of the exception. The Persian messages are named. The lexicon of the soft skills is a data file; its
  phrases are not empty.
\<close>

section \<open>The schema\<close>

datatype agent_status = Agent_Completed | Agent_Failed
datatype severity = Low | Medium | High

datatype flag_code =
    invalid_period
  | claimed_years_exceed_history
  | seniority_title_vs_tenure
  | concurrent_full_time_roles
  | skill_years_exceed_career

datatype seniority_level = Executive_Level | Manager_Level | Senior_Level

datatype flag_message =
    Reason_Given flag_reason
  | No_Valid_Period
  | Claim_Against_History rat rat
  | Title_Against_Tenure seniority_level rat rat
  | Roles_At_Once nat
  | Skill_Against_Career rat utext rat

record validation_flag =
  fl_code :: flag_code
  fl_severity :: severity
  fl_message :: flag_message
  fl_evidence :: "utext option"
  fl_source :: string

record SkillItem =
  si_name :: utext
  si_core :: utext
  si_category :: utext
  si_evidence_count :: nat
  si_inferred :: bool
  si_confidence :: rat
  si_claimed_years :: "rat option"

definition valid_skill_item :: "SkillItem \<Rightarrow> bool" where
  "valid_skill_item i \<longleftrightarrow> 0 \<le> si_confidence i \<and> si_confidence i \<le> 1
     \<and> (case si_claimed_years i of None \<Rightarrow> True | Some y \<Rightarrow> 0 \<le> y)"

record SkillAgentOutput =
  so_status :: agent_status
  so_error :: "string option"
  so_skills :: "SkillItem list"

record ExperienceEntry =
  en_index :: nat
  en_company :: "utext option"
  en_job_title :: "utext option"
  en_duration :: "utext option"
  en_start_year :: "int option"
  en_end_year :: "int option"
  en_start_year_gregorian :: "int option"
  en_end_year_gregorian :: "int option"
  en_is_valid :: bool
  en_flag_reason :: "flag_reason option"

record Overlap =
  ov_entries :: "nat \<times> nat"
  ov_years :: rat

record ExperienceAgentOutput =
  eo_status :: agent_status
  eo_error :: "string option"
  eo_entries :: "ExperienceEntry list"
  eo_total_experience_years :: rat
  eo_overlaps :: "Overlap list"
  eo_invalid_periods :: "nat list"
  eo_claimed_total_years :: "rat option"
  eo_flags :: "validation_flag list"

record SoftSkillItem =
  ss_key :: utext
  ss_label_fa :: utext
  ss_score :: rat
  ss_evidence :: "utext list"

definition valid_soft_skill :: "SoftSkillItem \<Rightarrow> bool" where
  "valid_soft_skill i \<longleftrightarrow> 0 \<le> ss_score i \<and> ss_score i \<le> 1"

record ToneProfile =
  tp_confident :: rat
  tp_collaborative :: rat
  tp_individual :: rat
  tp_hedging :: rat
  tp_passive_voice_ratio :: rat
  tp_dominant :: utext

definition valid_tone :: "ToneProfile \<Rightarrow> bool" where
  "valid_tone t \<longleftrightarrow> 0 \<le> tp_confident t \<and> 0 \<le> tp_collaborative t \<and> 0 \<le> tp_individual t \<and> 0 \<le> tp_hedging t
     \<and> 0 \<le> tp_passive_voice_ratio t \<and> tp_passive_voice_ratio t \<le> 1"

record SoftSkillsAgentOutput =
  fo_status :: agent_status
  fo_error :: "string option"
  fo_soft_skills :: "SoftSkillItem list"
  fo_tone :: "ToneProfile option"
  fo_word_count :: nat
  fo_confidence :: rat

text \<open>The constraints of a whole output.\<close>

definition valid_skill_output :: "SkillAgentOutput \<Rightarrow> bool" where
  "valid_skill_output o' \<longleftrightarrow> list_all valid_skill_item (so_skills o')"

definition valid_experience_output :: "ExperienceAgentOutput \<Rightarrow> bool" where
  "valid_experience_output o' \<longleftrightarrow> list_all (\<lambda>v. 0 < ov_years v) (eo_overlaps o')"

definition valid_soft_output :: "SoftSkillsAgentOutput \<Rightarrow> bool" where
  "valid_soft_output o' \<longleftrightarrow> list_all valid_soft_skill (fo_soft_skills o')
     \<and> (case fo_tone o' of None \<Rightarrow> True | Some t \<Rightarrow> valid_tone t) \<and> 0 \<le> fo_confidence o' \<and> fo_confidence o' \<le> 1"

definition checked :: "('a \<Rightarrow> bool) \<Rightarrow> 'a \<Rightarrow> string + 'a" where
  "checked valid x = (if valid x then Inr x else Inl ''ValidationError'')"

text \<open>A list built one object at a time: the first failure ends it.\<close>

fun build_all :: "(string + 'a) list \<Rightarrow> string + 'a list" where
  "build_all [] = Inr []"
| "build_all (Inl e # xs) = Inl e"
| "build_all (Inr x # xs) = (case build_all xs of Inl e \<Rightarrow> Inl e | Inr ys \<Rightarrow> Inr (x # ys))"

section \<open>Skill extraction\<close>

definition DIRECT_BASE_CONFIDENCE :: rat where "DIRECT_BASE_CONFIDENCE = 6 / 10"
definition PER_EXTRA_MENTION :: rat where "PER_EXTRA_MENTION = 1 / 10"
definition INFERRED_CONFIDENCE :: rat where "INFERRED_CONFIDENCE = 5 / 10"

definition set_default :: "'k \<Rightarrow> 'v \<Rightarrow> ('k \<times> 'v) list \<Rightarrow> ('k \<times> 'v) list" where
  "set_default k v d = (if k \<in> set (map fst d) then d else d @ [(k, v)])"

definition skill_cores :: "(utext \<times> utext \<times> nat) list \<Rightarrow> (utext \<times> utext) list" where
  "skill_cores mentions =
     (let cores = map (\<lambda>(name, core, _). (name, core)) mentions
      in fold (\<lambda>core. set_default core core) (remdups (map snd cores)) cores)"

definition skill_item :: "(utext \<times> utext \<times> nat) list \<Rightarrow> skill_claims \<Rightarrow> (utext \<times> utext) list \<Rightarrow> utext \<Rightarrow> string + SkillItem" where
  "skill_item mentions claims cores name =
     (let core = the (map_of cores name);
          count = (case map_of mentions name of None \<Rightarrow> 0 | Some (_, n) \<Rightarrow> n);
          confidence = (if count \<noteq> 0 then min 1 (DIRECT_BASE_CONFIDENCE + PER_EXTRA_MENTION * (of_nat count - 1)) else INFERRED_CONFIDENCE)
      in checked valid_skill_item
           \<lparr>si_name = name, si_core = core, si_category = core, si_evidence_count = count, si_inferred = (count = 0),
            si_confidence = round2 confidence, si_claimed_years = map_option fst (map_of claims name)\<rparr>)"

definition run_skill_agent ::
  "unicode \<Rightarrow> utext \<Rightarrow> ParsedResumeData option \<Rightarrow> shared_signals option \<Rightarrow> string + SkillAgentOutput" where
  "run_skill_agent U raw_text parsed_data signals =
     (let mentions = count_skill_mentions U raw_text;
          claims = (case signals of None \<Rightarrow> extract_skill_year_claims U raw_text | Some s \<Rightarrow> sg_skill_year_claims s);
          cores = skill_cores mentions
      in case build_all (map (skill_item mentions claims cores) (sort (map fst cores))) of
           Inl e \<Rightarrow> Inl e
         | Inr items \<Rightarrow> Inr \<lparr>so_status = Agent_Completed, so_error = None, so_skills = items\<rparr>)"

section \<open>Validation of the work history\<close>

definition EXPERIENCE_AGENT_NAME :: string where "EXPERIENCE_AGENT_NAME = ''experience_validation''"

definition edged :: "unicode \<Rightarrow> string list \<Rightarrow> regex" where
  "edged U ws = seqs [Word_Edge (uc_word U), alts (map (Lit_i U) ws), Word_Edge (uc_word U)]"

definition MODIR :: utext where "MODIR = [1605, 1583, 1740, 1585]"
definition SARPARAST :: utext where "SARPARAST = [1587, 1585, 1662, 1585, 1587, 1578]"

definition SENIORITY_TITLE_MIN_YEARS :: "unicode \<Rightarrow> (regex \<times> rat \<times> seniority_level) list" where
  "SENIORITY_TITLE_MIN_YEARS U =
     [(alts [edged U [''cto'', ''vp'', ''director'', ''head of'', ''principal''], word_i U (MODIR @ [32, 1601, 1606, 1740]),
         word_i U (MODIR @ [1593, 1575, 1605, 1604])], 7, Executive_Level),
      (alts [edged U [''lead'', ''manager'', ''architect''], word_i U SARPARAST, word_i U MODIR,
         word_i U [1605, 1593, 1605, 1575, 1585]], 5, Manager_Level),
      (Alt (seqs [Word_Edge (uc_word U), Alt (Lit_i U ''senior'') (Seq (Lit_i U ''sr'') (Opt (Lit ''.''))), Word_Edge (uc_word U)])
         (word_i U [1575, 1585, 1588, 1583]), 3, Senior_Level)]"

definition CLAIM_TOLERANCE_YEARS :: rat where "CLAIM_TOLERANCE_YEARS = 2"
definition MAX_CONCURRENT_ROLES :: nat where "MAX_CONCURRENT_ROLES = 2"

definition gregorian :: "int option \<Rightarrow> int option" where
  "gregorian year =
     map_option (\<lambda>y. if y < SHAMSI_YEAR_THRESHOLD then y + SHAMSI_TO_GREGORIAN_OFFSET else y) year"

definition agent_flag :: "flag_code \<Rightarrow> severity \<Rightarrow> flag_message \<Rightarrow> utext option \<Rightarrow> validation_flag" where
  "agent_flag code sev message evidence =
     \<lparr>fl_code = code, fl_severity = sev, fl_message = message, fl_evidence = evidence, fl_source = EXPERIENCE_AGENT_NAME\<rparr>"

definition experience_entry :: "nat \<times> experience_entry_analysis \<Rightarrow> ExperienceEntry" where
  "experience_entry ie =
     (case ie of (index, e) \<Rightarrow>
        \<lparr>en_index = index, en_company = we_company e, en_job_title = we_job_title e, en_duration = we_duration e,
         en_start_year = ee_start_year e, en_end_year = ee_end_year e,
         en_start_year_gregorian = gregorian (ee_start_year e), en_end_year_gregorian = gregorian (ee_end_year e),
         en_is_valid = ee_is_valid e, en_flag_reason = ee_flag_reason e\<rparr>)"

text \<open>The two years of a valid row (\<open>analyze_work_experience\<close> gives such a row both).\<close>

definition span :: "ExperienceEntry \<Rightarrow> int \<times> int" where
  "span e = (the (en_start_year_gregorian e), the (en_end_year_gregorian e))"

definition shared_years :: "int \<times> int \<Rightarrow> int \<times> int \<Rightarrow> int" where
  "shared_years a b = min (snd a) (snd b) - max (fst a) (fst b)"

definition overlap_of :: "ExperienceEntry \<Rightarrow> ExperienceEntry \<Rightarrow> Overlap list" where
  "overlap_of first second =
     (let n = shared_years (span first) (span second)
      in if 0 < n then [\<lparr>ov_entries = (en_index first, en_index second), ov_years = of_int n\<rparr>] else [])"

fun find_overlaps :: "ExperienceEntry list \<Rightarrow> Overlap list" where
  "find_overlaps [] = []"
| "find_overlaps (first # rest) = concat (map (overlap_of first) rest) @ find_overlaps rest"

definition invalid_flag :: "ExperienceEntry \<Rightarrow> validation_flag" where
  "invalid_flag e =
     agent_flag invalid_period Low (case en_flag_reason e of Some r \<Rightarrow> Reason_Given r | None \<Rightarrow> No_Valid_Period) (en_duration e)"

definition history_flags :: "ExperienceEntry list \<Rightarrow> rat \<Rightarrow> rat option \<times> utext option \<Rightarrow> validation_flag list" where
  "history_flags valid total_years claimed =
     (case fst claimed of
        None \<Rightarrow> []
      | Some claimed_total \<Rightarrow>
          (if valid \<noteq> [] \<and> claimed_total > total_years + CLAIM_TOLERANCE_YEARS
           then [agent_flag claimed_years_exceed_history (if 5 \<le> claimed_total - total_years then High else Medium)
                   (Claim_Against_History claimed_total total_years) (snd claimed)]
           else []))"

definition title_flags :: "unicode \<Rightarrow> rat \<Rightarrow> ExperienceEntry \<Rightarrow> validation_flag list" where
  "title_flags U total_years e =
     (let title = (case en_job_title e of None \<Rightarrow> [] | Some t \<Rightarrow> t)
      in case find (\<lambda>(pattern, _). re_found pattern title) (SENIORITY_TITLE_MIN_YEARS U) of
           None \<Rightarrow> []
         | Some (_, min_years, level) \<Rightarrow>
             (if total_years < min_years
              then [agent_flag seniority_title_vs_tenure Medium (Title_Against_Tenure level total_years min_years) (Some (take 80 title))]
              else []))"

definition roles_in :: "ExperienceEntry list \<Rightarrow> int \<Rightarrow> nat" where
  "roles_in valid year = length (filter (\<lambda>e. fst (span e) \<le> year \<and> year < snd (span e)) valid)"

definition peak_roles :: "ExperienceEntry list \<Rightarrow> nat" where
  "peak_roles valid =
     fold max (map (roles_in valid) [Min (set (map (fst \<circ> span) valid)) .. Max (set (map (snd \<circ> span) valid)) - 1]) 0"

definition concurrency_flags :: "ExperienceEntry list \<Rightarrow> validation_flag list" where
  "concurrency_flags valid =
     (if valid = [] then []
      else (let peak = peak_roles valid
            in if MAX_CONCURRENT_ROLES < peak then [agent_flag concurrent_full_time_roles Medium (Roles_At_Once peak) None] else []))"

definition skill_flags :: "ExperienceEntry list \<Rightarrow> rat \<Rightarrow> utext \<times> rat \<times> utext \<Rightarrow> validation_flag list" where
  "skill_flags valid total_years claim =
     (case claim of (skill, n, evidence) \<Rightarrow>
        if valid \<noteq> [] \<and> n > total_years + CLAIM_TOLERANCE_YEARS
        then [agent_flag skill_years_exceed_career (if 5 \<le> n - total_years then High else Medium)
                (Skill_Against_Career n skill total_years) (Some evidence)]
        else [])"

definition run_experience_agent ::
  "unicode \<Rightarrow> int \<Rightarrow> utext \<Rightarrow> ParsedResumeData option \<Rightarrow> shared_signals option \<Rightarrow> string + ExperienceAgentOutput" where
  "run_experience_agent U gregorian_now raw_text parsed_data signals =
     (let work_experience = (case parsed_data of None \<Rightarrow> [] | Some p \<Rightarrow> pd_work_experience p);
          entries = map experience_entry (enumerate 0 (snd (analyze_work_experience U gregorian_now work_experience)));
          valid = filter (\<lambda>e. en_is_valid e \<and> en_start_year_gregorian e \<noteq> None) entries;
          total_years = merge_intervals_and_sum_years (map span valid);
          overlaps = find_overlaps valid;
          claimed = (case signals of None \<Rightarrow> extract_claimed_total_years U raw_text | Some s \<Rightarrow> sg_claimed_total s);
          skill_claims = (case signals of None \<Rightarrow> extract_skill_year_claims U raw_text | Some s \<Rightarrow> sg_skill_year_claims s);
          flags = map invalid_flag (filter (\<lambda>e. \<not> en_is_valid e) entries) @ history_flags valid total_years claimed
            @ concat (map (title_flags U total_years) valid) @ concurrency_flags valid
            @ concat (map (skill_flags valid total_years) (sort_key fst skill_claims))
      in checked valid_experience_output
           \<lparr>eo_status = Agent_Completed, eo_error = None, eo_entries = entries, eo_total_experience_years = total_years,
            eo_overlaps = overlaps, eo_invalid_periods = map en_index (filter (\<lambda>e. \<not> en_is_valid e) entries),
            eo_claimed_total_years = fst claimed, eo_flags = flags\<rparr>)"

section \<open>Soft skills\<close>

record phrase_group =
  pg_en :: "utext list"
  pg_fa :: "utext list"

record lexicon =
  lx_soft_skills :: "(utext \<times> utext \<times> phrase_group) list"
  lx_tone :: "(string \<times> phrase_group) list"
  lx_passive_en :: regex
  lx_passive_fa :: "utext list"

definition HITS_FOR_FULL_SCORE :: rat where "HITS_FOR_FULL_SCORE = 3"
definition MAX_EVIDENCE :: nat where "MAX_EVIDENCE = 3"
definition WORDS_FOR_FULL_CONFIDENCE :: rat where "WORDS_FOR_FULL_CONFIDENCE = 300"

definition SENTENCE_SPLIT :: regex where "SENTENCE_SPLIT = Plus (Cls (\<lambda>c. one_of ''.!?'' c \<or> c = 1567 \<or> c = 10))"
definition fa_letter :: "nat \<Rightarrow> bool" where "fa_letter c \<longleftrightarrow> 1536 \<le> c \<and> c \<le> 1791"
definition en_letter :: "nat \<Rightarrow> bool" where "en_letter c \<longleftrightarrow> (97 \<le> c \<and> c \<le> 122) \<or> (48 \<le> c \<and> c \<le> 57)"

text \<open>Longer phrases first; phrases of one length exclude each other, so that their order does not matter.\<close>

definition group_pattern :: "utext list \<Rightarrow> bool \<Rightarrow> regex option" where
  "group_pattern phrases persian =
     (if phrases = [] then None
      else (let alternation = alts (map (\<lambda>p. seqs (map Char p)) (sort_key (\<lambda>p. - int (length p)) (remdups phrases)));
                letter = (if persian then fa_letter else en_letter)
            in Some (seqs [Not_Behind letter, alternation, Not_Ahead letter])))"

definition compile_group :: "phrase_group \<Rightarrow> regex list" where
  "compile_group grp =
     concat (map (\<lambda>p. case p of None \<Rightarrow> [] | Some r \<Rightarrow> [r]) [group_pattern (pg_en grp) False, group_pattern (pg_fa grp) True])"

definition count_phrases :: "regex list \<Rightarrow> utext \<Rightarrow> nat \<times> utext list" where
  "count_phrases patterns text =
     (let found = concat (map (\<lambda>p. re_findall p text) patterns) in (length found, first_occurrences found))"

definition soft_skill_item :: "utext \<Rightarrow> utext \<times> utext \<times> phrase_group \<Rightarrow> (string + SoftSkillItem) list" where
  "soft_skill_item text entry =
     (case entry of (key, label_fa, grp) \<Rightarrow>
        let (hits, phrases) = count_phrases (compile_group grp) text
        in if hits = 0 then []
           else [checked valid_soft_skill
                  \<lparr>ss_key = key, ss_label_fa = label_fa, ss_score = round2 (min 1 (of_nat hits / HITS_FOR_FULL_SCORE)),
                   ss_evidence = take MAX_EVIDENCE phrases\<rparr>])"

definition tone_rate :: "utext \<Rightarrow> nat \<Rightarrow> string \<times> phrase_group \<Rightarrow> string \<times> rat" where
  "tone_rate text word_count entry =
     (fst entry, round2 (of_nat (fst (count_phrases (compile_group (snd entry)) text))
        * (if word_count = 0 then 0 else 100 / of_nat word_count)))"

text \<open>The first key with the largest rate.\<close>

definition dominant_tone :: "(string \<times> rat) list \<Rightarrow> utext" where
  "dominant_tone rates =
     (if list_ex (\<lambda>(_, v). v \<noteq> 0) rates
      then utext_of (fst (the (find (\<lambda>(_, v). v = Max (set (map snd rates))) rates))) else utext_of ''neutral'')"

definition is_passive :: "lexicon \<Rightarrow> utext \<Rightarrow> string + bool" where
  "is_passive L sentence =
     (if re_found (lx_passive_en L) sentence then Inr True
      else case group_pattern (lx_passive_fa L) True of
        None \<Rightarrow> Inl ''AttributeError''
      | Some r \<Rightarrow> Inr (re_found r sentence))"

text \<open>The keys of the rates are the names of arguments; exactly the four names of the schema fit.\<close>

definition tone_profile :: "(string \<times> rat) list \<Rightarrow> rat \<Rightarrow> utext \<Rightarrow> string + ToneProfile" where
  "tone_profile rates passive_voice_ratio dominant =
     (if ''passive_voice_ratio'' \<in> set (map fst rates) \<or> ''dominant'' \<in> set (map fst rates) then Inl ''TypeError''
      else if set (map fst rates) \<noteq> {''confident'', ''collaborative'', ''individual'', ''hedging''} then Inl ''ValidationError''
      else (let rate = (\<lambda>k. the (map_of rates k))
            in checked valid_tone
                 \<lparr>tp_confident = rate ''confident'', tp_collaborative = rate ''collaborative'', tp_individual = rate ''individual'',
                  tp_hedging = rate ''hedging'', tp_passive_voice_ratio = passive_voice_ratio, tp_dominant = dominant\<rparr>))"

definition soft_confidence :: "nat \<Rightarrow> nat \<Rightarrow> rat" where
  "soft_confidence word_count total_hits =
     min 1 (of_nat word_count / WORDS_FOR_FULL_CONFIDENCE) * (5 / 10 + 5 / 10 * min 1 (of_nat total_hits / 5))"

definition run_soft_skills_agent ::
  "unicode \<Rightarrow> lexicon \<Rightarrow> utext \<Rightarrow> ParsedResumeData option \<Rightarrow> shared_signals option \<Rightarrow> string + SoftSkillsAgentOutput" where
  "run_soft_skills_agent U L raw_text parsed_data signals =
     (let text = uc_lower U raw_text;
          word_count = length (class_runs (\<lambda>c. uc_word U c \<or> c = 8204) text);
          total_hits = sum_list (map (\<lambda>(_, _, grp). fst (count_phrases (compile_group grp) text)) (lx_soft_skills L))
      in case build_all (concat (map (soft_skill_item text) (lx_soft_skills L))) of
           Inl e \<Rightarrow> Inl e
         | Inr items \<Rightarrow>
        (let tone_rates = map (tone_rate text word_count) (lx_tone L);
             sentences = filter (\<lambda>s. ustrip U s \<noteq> []) (re_split SENTENCE_SPLIT text)
         in case build_all (map (is_passive L) sentences) of
              Inl e \<Rightarrow> Inl e
            | Inr answers \<Rightarrow>
           (let passive = length (filter id answers)
            in case tone_profile tone_rates
                  (if sentences = [] then 0 else round2 (of_nat passive / of_nat (length sentences))) (dominant_tone tone_rates) of
                 Inl e \<Rightarrow> Inl e
               | Inr tone \<Rightarrow>
                   checked valid_soft_output
                     \<lparr>fo_status = Agent_Completed, fo_error = None,
                      fo_soft_skills = sort_key (\<lambda>i. - ss_score i) (sort_key ss_key items), fo_tone = Some tone,
                      fo_word_count = word_count, fo_confidence = round2 (soft_confidence word_count total_hits)\<rparr>)))"

end
