(* ===== verification/Supervisor.thy ===== *)
theory Supervisor
  imports Resume_Agents
begin

text \<open>
  The supervisor of the agents (app/agents/supervisor.py) and the graph that runs them (app/agents/graph.py): the text is
  extracted and parsed once, the three agents run side by side, and their outputs become one analysis with the conflicts
  between them resolved. How long each node takes, whether an agent exceeds its time, and the order in which the agents end are
  inputs. The Persian descriptions of a conflict are named by their data.
\<close>

section \<open>The unified analysis\<close>

definition SKILL_AGENT :: string where "SKILL_AGENT = ''skill_extraction''"
definition EXPERIENCE_AGENT :: string where "EXPERIENCE_AGENT = ''experience_validation''"
definition SOFT_SKILLS_AGENT :: string where "SOFT_SKILLS_AGENT = ''culture_fit_soft_skills''"
definition AGENTS :: "string list" where "AGENTS = [SKILL_AGENT, EXPERIENCE_AGENT, SOFT_SKILLS_AGENT]"

datatype conflict =
    agent_failed string
  | skill_years_capped rat utext rat
  | claimed_total_overridden rat rat
  | leadership_unsupported

record ConflictResolution =
  cr_conflict :: conflict
  cr_agents :: "string list"

record Matching =
  mt_score :: "rat option"
  mt_base_score :: "rat option"
  mt_components :: "(string \<times> rat) list"
  mt_soft_skill_bonus :: rat
  mt_validation_penalty :: rat
  mt_matched_required_skills :: "utext list"

definition no_matching :: Matching where
  "no_matching = \<lparr>mt_score = None, mt_base_score = None, mt_components = [], mt_soft_skill_bonus = 0, mt_validation_penalty = 0,
     mt_matched_required_skills = []\<rparr>"

definition valid_matching :: "Matching \<Rightarrow> bool" where
  "valid_matching m \<longleftrightarrow> (case mt_score m of None \<Rightarrow> True | Some s \<Rightarrow> 0 \<le> s \<and> s \<le> 100)"

record Timing =
  tm_start_ms :: rat
  tm_end_ms :: rat
  tm_duration_ms :: rat

record UnifiedSkills =
  us_status :: agent_status
  us_items :: "SkillItem list"

record UnifiedExperience =
  ue_status :: agent_status
  ue_total_experience_years :: rat
  ue_entries :: "ExperienceEntry list"
  ue_overlaps :: "Overlap list"
  ue_invalid_periods :: "nat list"

record UnifiedSoftSkills =
  uf_status :: agent_status
  uf_items :: "SoftSkillItem list"
  uf_tone :: "ToneProfile option"
  uf_confidence :: rat

datatype analysis_status = All_Completed | Partly_Completed | All_Failed

record UnifiedAnalysis =
  ua_status :: analysis_status
  ua_skills :: UnifiedSkills
  ua_experience :: UnifiedExperience
  ua_soft_skills :: UnifiedSoftSkills
  ua_conflicts_resolved :: "ConflictResolution list"
  ua_flags :: "validation_flag list"
  ua_matching :: Matching
  ua_errors :: "string \<rightharpoonup> string"
  ua_timings_ms :: "string \<rightharpoonup> Timing"

section \<open>Distribution\<close>

text \<open>
  The shared input of the agents. A parse ends with an exception only where the language model does; \<open>nlp_error\<close> is
  its type then.
\<close>

definition dispatch ::
  "unicode \<Rightarrow> 'f document_reader \<Rightarrow> ner \<Rightarrow> (utext \<Rightarrow> string option) \<Rightarrow> 'f \<Rightarrow> utext
     \<Rightarrow> text_error + (utext \<times> ParsedResumeData option \<times> string option)" where
  "dispatch U R nlp nlp_error file filename =
     (case extract_raw_text U R file filename of
        Inl e \<Rightarrow> Inl e
      | Inr raw_text \<Rightarrow>
          (case nlp_error raw_text of
             None \<Rightarrow> Inr (raw_text, Some (parse_resume_text U nlp raw_text), None)
           | Some e \<Rightarrow> Inr (raw_text, None, Some e)))"

section \<open>Summing up\<close>

definition SOFT_SKILL_MAX_BONUS :: rat where "SOFT_SKILL_MAX_BONUS = 5"
definition VALIDATION_MAX_PENALTY :: rat where "VALIDATION_MAX_PENALTY = 15"
definition CAPPED_SKILL_CONFIDENCE_FACTOR :: rat where "CAPPED_SKILL_CONFIDENCE_FACTOR = 7 / 10"
definition LEADERSHIP_MIN_YEARS :: rat where "LEADERSHIP_MIN_YEARS = 3"

fun VALIDATION_PENALTY :: "severity \<Rightarrow> rat" where
  "VALIDATION_PENALTY High = 6"
| "VALIDATION_PENALTY Medium = 3"
| "VALIDATION_PENALTY Low = 1"

definition LEADERSHIP_TITLE :: "unicode \<Rightarrow> regex" where
  "LEADERSHIP_TITLE U =
     alts [edged U [''lead'', ''manager'', ''head'', ''director'', ''cto'', ''vp'', ''principal'', ''supervisor''],
       word_i U SARPARAST, word_i U MODIR, word_i U [1585, 1575, 1607, 1576, 1585]]"

text \<open>
  What an agent left: its output, the record of a failure, or nothing. (The graph hands over a finished output as an object, never as a
  dictionary that would have to be validated again.)
\<close>

datatype 'a payload = Output 'a | Failure string | Missing

definition failed_skills :: "string \<Rightarrow> SkillAgentOutput" where
  "failed_skills e = \<lparr>so_status = Agent_Failed, so_error = Some e, so_skills = []\<rparr>"
definition failed_experience :: "string \<Rightarrow> ExperienceAgentOutput" where
  "failed_experience e = \<lparr>eo_status = Agent_Failed, eo_error = Some e, eo_entries = [], eo_total_experience_years = 0, eo_overlaps = [],
     eo_invalid_periods = [], eo_claimed_total_years = None, eo_flags = []\<rparr>"
definition failed_soft :: "string \<Rightarrow> SoftSkillsAgentOutput" where
  "failed_soft e = \<lparr>fo_status = Agent_Failed, fo_error = Some e, fo_soft_skills = [], fo_tone = None, fo_word_count = 0, fo_confidence = 0\<rparr>"

definition or_default :: "string option \<Rightarrow> string \<Rightarrow> string" where
  "or_default e d = (case e of None \<Rightarrow> d | Some x \<Rightarrow> if x = [] then d else x)"

definition output_or_failed ::
  "('a \<Rightarrow> agent_status) \<Rightarrow> ('a \<Rightarrow> string option) \<Rightarrow> (string \<Rightarrow> 'a) \<Rightarrow> 'a payload \<Rightarrow> string \<Rightarrow> 'a" where
  "output_or_failed status err failed payload default_error =
     (case payload of
        Output x \<Rightarrow> if status x = Agent_Completed then x else failed (or_default (err x) default_error)
      | Failure e \<Rightarrow> failed (or_default (Some e) default_error)
      | Missing \<Rightarrow> failed default_error)"

definition note_failure ::
  "string \<times> agent_status \<times> string option \<Rightarrow> ConflictResolution list \<times> (string \<rightharpoonup> string) \<Rightarrow> ConflictResolution list \<times> (string \<rightharpoonup> string)" where
  "note_failure output acc =
     (case output of (name, status, err) \<Rightarrow>
        if status \<noteq> Agent_Failed then acc
        else (fst acc @ [\<lparr>cr_conflict = agent_failed name, cr_agents = [name]\<rparr>],
              (case snd acc name of None \<Rightarrow> (snd acc)(name \<mapsto> or_default err ''failed'') | Some _ \<Rightarrow> snd acc)))"

text \<open>R1: more years of one skill than the whole validated history.\<close>

definition cap_skill :: "bool \<Rightarrow> rat \<Rightarrow> SkillItem \<Rightarrow> SkillItem \<times> ConflictResolution list" where
  "cap_skill has_history validated_years item =
     (case si_claimed_years item of
        None \<Rightarrow> (item, [])
      | Some claimed \<Rightarrow>
          (if has_history \<and> claimed > validated_years + CLAIM_TOLERANCE_YEARS
           then (item\<lparr>si_claimed_years := Some validated_years,
                   si_confidence := round2 (si_confidence item * CAPPED_SKILL_CONFIDENCE_FACTOR)\<rparr>,
                 [\<lparr>cr_conflict = skill_years_capped claimed (si_name item) validated_years, cr_agents = [SKILL_AGENT, EXPERIENCE_AGENT]\<rparr>])
           else (item, [])))"

text \<open>R2: the periods count, not the claim.\<close>

definition override_total :: "bool \<Rightarrow> rat \<Rightarrow> rat option \<Rightarrow> ConflictResolution list" where
  "override_total has_history validated_years claimed_total =
     (case claimed_total of
        None \<Rightarrow> []
      | Some claimed \<Rightarrow>
          (if has_history \<and> claimed > validated_years + CLAIM_TOLERANCE_YEARS
           then [\<lparr>cr_conflict = claimed_total_overridden claimed validated_years, cr_agents = [EXPERIENCE_AGENT]\<rparr>] else []))"

text \<open>R3: leadership without a leading title and with a short history.\<close>

definition halve_leadership :: "bool \<Rightarrow> rat \<Rightarrow> SoftSkillItem \<Rightarrow> SoftSkillItem \<times> ConflictResolution list" where
  "halve_leadership has_lead_title validated_years item =
     (if ss_key item = utext_of ''leadership'' \<and> \<not> has_lead_title \<and> validated_years < LEADERSHIP_MIN_YEARS
      then (item\<lparr>ss_score := round2 (ss_score item / 2)\<rparr>,
            [\<lparr>cr_conflict = leadership_unsupported, cr_agents = [SOFT_SKILLS_AGENT, EXPERIENCE_AGENT]\<rparr>])
      else (item, []))"

record job_context =
  jx_title :: utext
  jx_skills_required :: "utext list option"
  jx_required_seniority :: "utext option"
  jx_required_education :: "utext option"
  jx_location :: "utext option"
  jx_description :: "utext option"
  jx_candidate_location :: "utext option"

definition matching_input :: "job_context \<Rightarrow> utext list \<Rightarrow> rat \<Rightarrow> ParsedResumeData option \<Rightarrow> matching_request" where
  "matching_input job skills validated_years parsed =
     \<lparr>mr_job_skills_required = (case jx_skills_required job of None \<Rightarrow> [] | Some s \<Rightarrow> s), mr_job_title = jx_title job,
      mr_job_required_seniority = jx_required_seniority job, mr_job_required_education = jx_required_education job,
      mr_job_location = jx_location job, mr_job_description = jx_description job, mr_candidate_skills = skills,
      mr_candidate_job_titles =
        filter truthy (map we_job_title (case parsed of None \<Rightarrow> [] | Some p \<Rightarrow> pd_work_experience p)),
      mr_candidate_total_experience_years = validated_years,
      mr_candidate_education_entries = (case parsed of None \<Rightarrow> [] | Some p \<Rightarrow> pd_education p),
      mr_candidate_location = jx_candidate_location job\<rparr>"

definition soft_bonus :: "SoftSkillItem list \<Rightarrow> rat \<Rightarrow> rat" where
  "soft_bonus soft_items confidence =
     (let top_scores = take 3 (rev (sort (map ss_score soft_items)))
      in if top_scores = [] then 0
         else SOFT_SKILL_MAX_BONUS * (sum_list top_scores / of_nat (length top_scores)) * max (5 / 10) confidence)"

definition validation_penalty :: "validation_flag list \<Rightarrow> rat" where
  "validation_penalty flags = min VALIDATION_MAX_PENALTY (sum_list (map (VALIDATION_PENALTY \<circ> fl_severity) flags))"

definition matching_of ::
  "unicode \<Rightarrow> SkillItem list \<Rightarrow> rat \<Rightarrow> SoftSkillItem list \<Rightarrow> rat \<Rightarrow> validation_flag list \<Rightarrow> ParsedResumeData option
     \<Rightarrow> job_context option \<Rightarrow> Matching" where
  "matching_of U skill_items validated_years soft_items confidence flags parsed_data job_context =
     (case job_context of
        None \<Rightarrow> no_matching
      | Some job \<Rightarrow>
          (let base = calculate_matching_score U (matching_input job (map si_name skill_items) validated_years parsed_data);
               bonus = soft_bonus soft_items confidence;
               penalty = validation_penalty flags
           in \<lparr>mt_score = Some (max 0 (min 100 (round2 (ms_final_score base + bonus - penalty)))),
               mt_base_score = Some (ms_final_score base),
               mt_components = [(''skill_match'', ms_skill_match base), (''title_match'', ms_title_match base),
                 (''seniority_match'', ms_seniority_match base), (''education_match'', ms_education_match base),
                 (''location_match'', ms_location_match base), (''secondary_keywords_match'', ms_secondary_keywords_match base)],
               mt_soft_skill_bonus = round2 bonus, mt_validation_penalty = round2 penalty,
               mt_matched_required_skills = ms_matched_required_skills base\<rparr>))"

definition valid_analysis_fields :: "UnifiedAnalysis \<Rightarrow> bool" where
  "valid_analysis_fields a \<longleftrightarrow> valid_matching (ua_matching a) \<and> 0 \<le> uf_confidence (ua_soft_skills a) \<and> uf_confidence (ua_soft_skills a) \<le> 1"

definition overall_status :: "(string \<rightharpoonup> string) \<Rightarrow> analysis_status" where
  "overall_status errors =
     (let failed = filter (\<lambda>name. errors name \<noteq> None) AGENTS
      in if failed = [] then All_Completed else if length failed = length AGENTS then All_Failed else Partly_Completed)"

definition aggregate ::
  "unicode \<Rightarrow> SkillAgentOutput payload \<Rightarrow> ExperienceAgentOutput payload \<Rightarrow> SoftSkillsAgentOutput payload
     \<Rightarrow> ParsedResumeData option \<Rightarrow> job_context option \<Rightarrow> (string \<rightharpoonup> Timing) \<Rightarrow> (string \<rightharpoonup> string) \<Rightarrow> string + UnifiedAnalysis" where
  "aggregate U skill_payload experience_payload soft_payload parsed_data job_context timings errors0 =
     (let skills = output_or_failed so_status so_error failed_skills skill_payload ''no_output'';
          experience = output_or_failed eo_status eo_error failed_experience experience_payload ''no_output'';
          soft = output_or_failed fo_status fo_error failed_soft soft_payload ''no_output'';
          (failures, errors) = fold note_failure
            [(SKILL_AGENT, so_status skills, so_error skills), (EXPERIENCE_AGENT, eo_status experience, eo_error experience),
             (SOFT_SKILLS_AGENT, fo_status soft, fo_error soft)] ([], errors0);
          validated_years = (if eo_status experience = Agent_Completed then eo_total_experience_years experience else 0);
          has_history = (eo_status experience = Agent_Completed \<and> list_ex en_is_valid (eo_entries experience));
          capped = map (cap_skill has_history validated_years) (so_skills skills);
          skill_items = map fst capped;
          has_lead_title = list_ex (\<lambda>e. re_found (LEADERSHIP_TITLE U) (case en_job_title e of None \<Rightarrow> [] | Some t \<Rightarrow> t)) (eo_entries experience);
          halved = (if eo_status experience = Agent_Completed then map (halve_leadership has_lead_title validated_years) (fo_soft_skills soft)
                    else map (\<lambda>item. (item, [])) (fo_soft_skills soft));
          soft_items = map fst halved;
          flags = eo_flags experience
      in checked valid_analysis_fields
           \<lparr>ua_status = overall_status errors, ua_skills = \<lparr>us_status = so_status skills, us_items = skill_items\<rparr>,
            ua_experience = \<lparr>ue_status = eo_status experience, ue_total_experience_years = validated_years, ue_entries = eo_entries experience,
              ue_overlaps = eo_overlaps experience, ue_invalid_periods = eo_invalid_periods experience\<rparr>,
            ua_soft_skills = \<lparr>uf_status = fo_status soft, uf_items = soft_items, uf_tone = fo_tone soft, uf_confidence = fo_confidence soft\<rparr>,
            ua_conflicts_resolved = failures @ concat (map snd capped)
              @ override_total has_history validated_years (eo_claimed_total_years experience) @ concat (map snd halved),
            ua_flags = flags,
            ua_matching = matching_of U skill_items validated_years soft_items (fo_confidence soft) flags parsed_data job_context,
            ua_errors = errors, ua_timings_ms = timings\<rparr>)"

text \<open>\<open>to_skill_analysis\<close>: the column of the linear pipeline, as the record of \<open>run_skill_engine\<close>.\<close>

definition entry_analysis :: "ExperienceEntry \<Rightarrow> experience_entry_analysis" where
  "entry_analysis e =
     \<lparr>we_company = en_company e, we_job_title = en_job_title e, we_duration = en_duration e, ee_start_year = en_start_year e,
      ee_end_year = en_end_year e, ee_is_valid = en_is_valid e, ee_flag_reason = en_flag_reason e\<rparr>"

definition to_skill_analysis :: "UnifiedAnalysis \<Rightarrow> skill_analysis" where
  "to_skill_analysis a =
     \<lparr>sa_skills = sort (remdups (map si_name (us_items (ua_skills a)))),
      sa_total_experience_years = ue_total_experience_years (ua_experience a),
      sa_experience_entries = map entry_analysis (ue_entries (ua_experience a))\<rparr>"

section \<open>The graph\<close>

record pipeline_state =
  ps_raw_text :: utext
  ps_parsed_data :: "ParsedResumeData option"
  ps_signals :: shared_signals
  ps_skill_extraction :: "SkillAgentOutput payload"
  ps_experience_validation :: "ExperienceAgentOutput payload"
  ps_culture_fit_soft_skills :: "SoftSkillsAgentOutput payload"
  ps_timings :: "string \<rightharpoonup> Timing"
  ps_errors :: "string \<rightharpoonup> string"

definition AGENT_TIMEOUT_ERROR :: string where "AGENT_TIMEOUT_ERROR = ''timeout>20s''"

definition timing :: "rat \<times> rat \<Rightarrow> Timing" where
  "timing se = \<lparr>tm_start_ms = fst se, tm_end_ms = snd se, tm_duration_ms = round2 (snd se - fst se)\<rparr>"

text \<open>The clock readings of the nodes by their names, and which agents exceed their time.\<close>

record schedule =
  sc_clock :: "string \<Rightarrow> rat \<times> rat"
  sc_late :: "string \<Rightarrow> bool"

text \<open>The update that an agent's node returns; the reducers merge the two dictionaries into the state.\<close>

datatype agent_payload =
    Skill_Payload "SkillAgentOutput payload"
  | Experience_Payload "ExperienceAgentOutput payload"
  | Soft_Payload "SoftSkillsAgentOutput payload"

record node_update =
  nu_name :: string
  nu_payload :: agent_payload
  nu_timings :: "string \<rightharpoonup> Timing"
  nu_errors :: "string \<rightharpoonup> string"

definition agent_node :: "schedule \<Rightarrow> string \<Rightarrow> ('a payload \<Rightarrow> agent_payload) \<Rightarrow> string + 'a \<Rightarrow> node_update" where
  "agent_node S name wrap result =
     (let outcome = (if sc_late S name then Inl AGENT_TIMEOUT_ERROR else result);
          timings = [name \<mapsto> timing (sc_clock S name)]
      in case outcome of
           Inr output \<Rightarrow> \<lparr>nu_name = name, nu_payload = wrap (Output output), nu_timings = timings, nu_errors = Map.empty\<rparr>
         | Inl e \<Rightarrow> \<lparr>nu_name = name, nu_payload = wrap (Failure e), nu_timings = timings, nu_errors = [name \<mapsto> e]\<rparr>)"

definition agent_nodes :: "unicode \<Rightarrow> lexicon \<Rightarrow> int \<Rightarrow> schedule \<Rightarrow> pipeline_state \<Rightarrow> node_update list" where
  "agent_nodes U L gregorian_now S st =
     (let raw_text = ps_raw_text st; parsed = ps_parsed_data st; signals = Some (ps_signals st)
      in [agent_node S SKILL_AGENT Skill_Payload (run_skill_agent U raw_text parsed signals),
          agent_node S EXPERIENCE_AGENT Experience_Payload (run_experience_agent U gregorian_now raw_text parsed signals),
          agent_node S SOFT_SKILLS_AGENT Soft_Payload (run_soft_skills_agent U L raw_text parsed signals)])"

definition merge_update :: "node_update \<Rightarrow> pipeline_state \<Rightarrow> pipeline_state" where
  "merge_update u st =
     (let st' = st\<lparr>ps_timings := ps_timings st ++ nu_timings u, ps_errors := ps_errors st ++ nu_errors u\<rparr>
      in case nu_payload u of
           Skill_Payload p \<Rightarrow> st'\<lparr>ps_skill_extraction := p\<rparr>
         | Experience_Payload p \<Rightarrow> st'\<lparr>ps_experience_validation := p\<rparr>
         | Soft_Payload p \<Rightarrow> st'\<lparr>ps_culture_fit_soft_skills := p\<rparr>)"

definition dispatch_node :: "unicode \<Rightarrow> schedule \<Rightarrow> utext \<times> ParsedResumeData option \<times> string option \<Rightarrow> pipeline_state" where
  "dispatch_node U S dispatched =
     (case dispatched of (raw_text, parsed_data, parse_error) \<Rightarrow>
        \<lparr>ps_raw_text = raw_text, ps_parsed_data = parsed_data, ps_signals = compute_shared_signals U raw_text,
         ps_skill_extraction = Missing, ps_experience_validation = Missing, ps_culture_fit_soft_skills = Missing,
         ps_timings = [''supervisor_dispatch'' \<mapsto> timing (sc_clock S ''supervisor_dispatch'')],
         ps_errors = (case parse_error of None \<Rightarrow> Map.empty | Some e \<Rightarrow> [''parser'' \<mapsto> e])\<rparr>)"

definition aggregate_node :: "unicode \<Rightarrow> schedule \<Rightarrow> job_context option \<Rightarrow> pipeline_state \<Rightarrow> string + UnifiedAnalysis" where
  "aggregate_node U S job_context st =
     (let start = fst (sc_clock S ''supervisor_aggregate'');
          errors = (ps_errors st)(''parser'' := None)
      in case aggregate U (ps_skill_extraction st) (ps_experience_validation st) (ps_culture_fit_soft_skills st) (ps_parsed_data st)
             job_context ((ps_timings st)(''supervisor_aggregate'' \<mapsto> timing (start, start))) errors of
           Inl e \<Rightarrow> Inl e
         | Inr a \<Rightarrow> Inr (a\<lparr>ua_timings_ms := (ua_timings_ms a)(''supervisor_aggregate'' \<mapsto> timing (sc_clock S ''supervisor_aggregate''))\<rparr>))"

record PipelineResult =
  pr_raw_text :: utext
  pr_parsed_data :: "ParsedResumeData option"
  pr_analysis :: UnifiedAnalysis

text \<open>The whole graph; \<open>arrange\<close> is the order in which the updates of the three agents are merged.\<close>

definition run_agent_pipeline ::
  "unicode \<Rightarrow> lexicon \<Rightarrow> 'f document_reader \<Rightarrow> ner \<Rightarrow> (utext \<Rightarrow> string option) \<Rightarrow> int \<Rightarrow> schedule
     \<Rightarrow> (node_update list \<Rightarrow> node_update list) \<Rightarrow> 'f \<Rightarrow> utext \<Rightarrow> job_context option \<Rightarrow> text_error + PipelineResult" where
  "run_agent_pipeline U L R nlp nlp_error gregorian_now S arrange file filename job_context =
     (case dispatch U R nlp nlp_error file filename of
        Inl e \<Rightarrow> Inl e
      | Inr dispatched \<Rightarrow>
          (let st = dispatch_node U S dispatched;
               st' = fold merge_update (arrange (agent_nodes U L gregorian_now S st)) st
           in case aggregate_node U S job_context st' of
                Inl e \<Rightarrow> Inl (Other_Error e)
              | Inr a \<Rightarrow>
                  Inr \<lparr>pr_raw_text = ps_raw_text st', pr_parsed_data = ps_parsed_data st',
                    pr_analysis = a\<lparr>ua_timings_ms := (ua_timings_ms a)(''total'' \<mapsto> timing (0, snd (sc_clock S ''total'')))\<rparr>\<rparr>))"

end
