(* ===== verification/Agent_Properties.thy ===== *)
theory Agent_Properties
  imports Supervisor Question_Properties
begin

text \<open>
  What the agents return: each output meets its schema, the skills are those that the linear pipeline detects, and the
  validation of the work history agrees with a specification over sets of years.
\<close>

section \<open>Outputs built one object at a time\<close>

lemma build_all_map: "(\<And>x. x \<in> set xs \<Longrightarrow> f x = Inr (g x)) \<Longrightarrow> build_all (map f xs) = Inr (map g xs)"
  by (induction xs) auto

lemma build_all_Inr: "build_all xs = Inr ys \<Longrightarrow> xs = map Inr ys"
  by (induction xs arbitrary: ys rule: build_all.induct) (auto split: sum.splits)

lemma checked_Inr [simp]: "checked valid x = Inr y \<longleftrightarrow> valid x \<and> y = x"
  by (auto simp: checked_def)

lemma checked_valid: "valid x \<Longrightarrow> checked valid x = Inr x"
  by (simp add: checked_def)

lemma round2_unit: "0 \<le> x \<Longrightarrow> x \<le> 1 \<Longrightarrow> 0 \<le> round2 x \<and> round2 x \<le> 1"
  using round2_mono [of 0 x] round2_mono [of x 1] round2_of_int [of 0] round2_of_int [of 1] by simp

lemma round2_nonneg: "0 \<le> x \<Longrightarrow> 0 \<le> round2 x"
  using round2_mono [of 0 x] round2_of_int [of 0] by simp

section \<open>Claims are plausible\<close>

definition plausible_claims :: "skill_claims \<Rightarrow> bool" where
  "plausible_claims claims \<longleftrightarrow> (\<forall>s n e. map_of claims s = Some (n, e) \<longrightarrow> plausible n)"

lemma plausible_claims_Nil [simp]: "plausible_claims []"
  by (simp add: plausible_claims_def)

lemma record_skill_plausible: "plausible n \<Longrightarrow> plausible_claims c \<Longrightarrow> plausible_claims (record_skill n e s c)"
  by (auto simp: record_skill_def plausible_claims_def)

lemma record_claim_plausible: "plausible_claims c \<Longrightarrow> plausible_claims (record_claim U n w e c)"
proof -
  have "plausible n \<Longrightarrow> plausible_claims c \<Longrightarrow> plausible_claims (fold (record_skill n e) ss c)" for ss
    by (induction ss arbitrary: c) (auto simp: record_skill_plausible)
  then show "plausible_claims c \<Longrightarrow> plausible_claims (record_claim U n w e c)"
    by (simp add: record_claim_def Let_def)
qed

lemma extract_plausible: "plausible_claims (extract_skill_year_claims U text)"
proof -
  have a: "plausible_claims c \<Longrightarrow> plausible_claims (fold (record_after U) ms c)" for ms c
    by (induction ms arbitrary: c) (auto simp: record_after_def Let_def record_claim_plausible)
  have b: "plausible_claims c \<Longrightarrow> plausible_claims (fold (record_before U) ms c)" for ms c
    by (induction ms arbitrary: c) (auto simp: record_before_def record_claim_plausible)
  show ?thesis by (simp add: extract_skill_year_claims_def Let_def a b)
qed

text \<open>The claims that an agent works with: those of the shared signals, or its own reading of the text.\<close>

definition claims_in :: "unicode \<Rightarrow> utext \<Rightarrow> shared_signals option \<Rightarrow> skill_claims" where
  "claims_in U raw_text signals =
     (case signals of None \<Rightarrow> extract_skill_year_claims U raw_text | Some s \<Rightarrow> sg_skill_year_claims s)"

lemma claims_in_shared [simp]: "claims_in U t (Some (compute_shared_signals U t)) = extract_skill_year_claims U t"
    "claims_in U t None = extract_skill_year_claims U t"
  by (simp_all add: claims_in_def compute_shared_signals_def)

section \<open>The skill agent\<close>

lemma table_keys_distinct: "distinct (map fst build_lookup_table)"
  by (simp add: lookup_rows graph_keys distinct_names)

lemma table_row_key:
  assumes "(k, disp, core) \<in> set build_lookup_table"
  shows "k = map cp_ascii_lower disp \<and> k \<noteq> []"
proof -
  from graph_row_names [OF assms] obtain n where n: "n \<in> set graph_names" "k = lower_name n" "disp = utext_of n" by blast
  with names_proper have "n \<noteq> []" by (auto simp: list_all_iff proper_name_def)
  with n show ?thesis by (simp add: lower_name_def utext_of_def)
qed

lemma table_row_unique:
  assumes "(k, disp, core) \<in> set build_lookup_table" and "(k', disp, core') \<in> set build_lookup_table"
  shows "core' = core"
proof -
  have "k' = k" using table_row_key [OF assms(1)] table_row_key [OF assms(2)] by simp
  then show ?thesis using assms eq_key_imp_eq_value [OF table_keys_distinct] by blast
qed

text \<open>The rows of the graph that a text mentions.\<close>

definition mentioned :: "utext \<Rightarrow> utext \<times> utext \<times> utext \<Rightarrow> bool" where
  "mentioned lowered row \<longleftrightarrow> keyword_search (fst row) False lowered"

lemma count_mention_row:
  assumes "row \<in> set build_lookup_table"
  shows "mentioned lowered row \<longleftrightarrow> re_findall (bounded_keyword (fst row)) lowered \<noteq> []"
proof -
  obtain k d c where row: "row = (k, d, c)" by (cases row)
  then have "k \<noteq> []" using table_row_key assms by blast
  then show ?thesis using keyword_findall [of k None lowered] by (simp add: mentioned_def re_findall_def row)
qed

definition mention_facts :: "utext \<Rightarrow> (utext \<times> utext \<times> utext) set \<Rightarrow> (utext \<times> utext \<times> nat) list \<Rightarrow> bool" where
  "mention_facts lowered rows ms \<longleftrightarrow> distinct (map fst ms)
     \<and> (\<forall>d c. (\<exists>n. map_of ms d = Some (c, n)) \<longleftrightarrow> (\<exists>k. (k, d, c) \<in> rows \<and> mentioned lowered (k, d, c)))
     \<and> (\<forall>d c n. map_of ms d = Some (c, n) \<longrightarrow> 0 < n)"

lemma count_mention_facts:
  assumes "mention_facts lowered rows ms" and "row \<in> set build_lookup_table" and "rows \<subseteq> set build_lookup_table"
  shows "mention_facts lowered (insert row rows) (count_mention lowered row ms)"
proof -
  obtain k0 d0 c0 where row: "row = (k0, d0, c0)" by (cases row)
  let ?n = "length (re_findall (bounded_keyword k0) lowered)"
  show ?thesis
  proof (cases "mentioned lowered row")
    case False
    then have "?n = 0" using count_mention_row [OF assms(2), of lowered] by (simp add: row)
    then have "count_mention lowered row ms = ms" by (simp add: count_mention_def row)
    moreover have "((k, d, c) \<in> insert row rows \<and> mentioned lowered (k, d, c)) \<longleftrightarrow> (k, d, c) \<in> rows \<and> mentioned lowered (k, d, c)" for k d c
      using False by blast
    ultimately show ?thesis using assms(1) by (simp only: mention_facts_def) blast
  next
    case True
    then have n: "?n \<noteq> 0" using count_mention_row [OF assms(2), of lowered] by (simp add: row)
    then obtain m where m: "count_mention lowered row ms = dict_set ms d0 (c0, m)" "m \<noteq> 0"
      by (auto simp: count_mention_def row Let_def)
    have uniq: "c = c0" if "(k, d0, c) \<in> rows" for k c
      using table_row_unique [of k0 d0 c0 k c] that assms(2,3) by (auto simp: row)
    have "(\<exists>x. map_of (dict_set ms d0 (c0, m)) d = Some (c, x))
        \<longleftrightarrow> (\<exists>k. (k, d, c) \<in> insert row rows \<and> mentioned lowered (k, d, c))" for d c
    proof (cases "d = d0")
      case True
      then show ?thesis using uniq \<open>mentioned lowered row\<close> by (auto simp: row)
    next
      case False
      then have "map_of (dict_set ms d0 (c0, m)) d = map_of ms d" by simp
      moreover have "(k, d, c) \<in> insert row rows \<longleftrightarrow> (k, d, c) \<in> rows" for k using False by (simp add: row)
      ultimately show ?thesis using assms(1) by (simp only: mention_facts_def)
    qed
    then show ?thesis using assms(1) m by (simp add: mention_facts_def)
  qed
qed

lemma fold_count_mention:
  assumes "set rs \<subseteq> set build_lookup_table" and "rows \<subseteq> set build_lookup_table" and "mention_facts lowered rows ms"
  shows "mention_facts lowered (rows \<union> set rs) (fold (count_mention lowered) rs ms)"
  using assms
proof (induction rs arbitrary: rows ms)
  case (Cons r rs)
  then have "mention_facts lowered (insert r rows \<union> set rs) (fold (count_mention lowered) rs (count_mention lowered r ms))"
    by (intro Cons.IH count_mention_facts) auto
  then show ?case by simp
qed simp

lemma mentions_facts:
  "text \<noteq> [] \<Longrightarrow> mention_facts (uc_lower U text) (set build_lookup_table) (count_skill_mentions U text)"
  using fold_count_mention [of build_lookup_table "{}" "uc_lower U text" "[]"]
  unfolding count_skill_mentions_def by (simp add: mention_facts_def [of _ "{}"])

lemma fold_set_default:
  "distinct (map fst d) \<Longrightarrow> distinct (map fst (fold (\<lambda>c. set_default c c) cs d))
     \<and> fst ` set (fold (\<lambda>c. set_default c c) cs d) = fst ` set d \<union> set cs"
proof (induction cs arbitrary: d)
  case (Cons c cs)
  from Cons.prems have "distinct (map fst (set_default c c d))" by (simp add: set_default_def)
  from Cons.IH [OF this] show ?case by (auto simp: set_default_def)
qed simp

lemma skill_cores_names:
  assumes "mention_facts lowered rows ms"
  shows "distinct (map fst (skill_cores ms))"
    and "fst ` set (skill_cores ms) = {x. \<exists>k d c. (k, d, c) \<in> rows \<and> mentioned lowered (k, d, c) \<and> (x = d \<or> x = c)}"
proof -
  let ?cores = "map (\<lambda>(name, core, _). (name, core)) ms"
  have ms: "distinct (map fst ms)" using assms by (simp add: mention_facts_def)
  have fst_cores: "map fst ?cores = map fst ms" by (induction ms) auto
  have ex: "(\<exists>n. (d, c, n) \<in> set ms) \<longleftrightarrow> (\<exists>k. (k, d, c) \<in> rows \<and> mentioned lowered (k, d, c))" for d c
    using assms ms unfolding mention_facts_def by simp
  have d: "distinct (map fst ?cores)" unfolding fst_cores by (rule ms)
  note f = fold_set_default [OF d, of "remdups (map snd ?cores)"]
  show "distinct (map fst (skill_cores ms))" unfolding skill_cores_def Let_def using f by blast
  have "fst ` set (skill_cores ms) = fst ` set ?cores \<union> snd ` set ?cores"
    unfolding skill_cores_def Let_def using f by (simp add: image_image)
  also have "\<dots> = {x. \<exists>d c n. (d, c, n) \<in> set ms \<and> (x = d \<or> x = c)}" by (force simp: image_iff)
  also have "\<dots> = {x. \<exists>k d c. (k, d, c) \<in> rows \<and> mentioned lowered (k, d, c) \<and> (x = d \<or> x = c)}"
    using ex by blast
  finally show "fst ` set (skill_cores ms)
      = {x. \<exists>k d c. (k, d, c) \<in> rows \<and> mentioned lowered (k, d, c) \<and> (x = d \<or> x = c)}" .
qed

lemma skill_names: "sort (map fst (skill_cores (count_skill_mentions U text))) = match_skills U text"
proof (cases "text = []")
  case True
  then show ?thesis by (simp add: count_skill_mentions_def match_skills_def skill_cores_def)
next
  case False
  note c = skill_cores_names [OF mentions_facts [OF False, of U]]
  have "set (match_skills U text) = fst ` set (skill_cores (count_skill_mentions U text))"
    unfolding c(2) using False by (auto simp: match_skills_def detected_by_def mentioned_def split: if_splits)
  with c(1) False show ?thesis
    by (intro sorted_distinct_set_unique) (auto simp: match_skills_def)
qed

text \<open>The item of a skill.\<close>

definition agent_skill :: "(utext \<times> utext \<times> nat) list \<Rightarrow> skill_claims \<Rightarrow> (utext \<times> utext) list \<Rightarrow> utext \<Rightarrow> SkillItem" where
  "agent_skill mentions claims cores name =
     (let count = (case map_of mentions name of None \<Rightarrow> 0 | Some (_, n) \<Rightarrow> n)
      in \<lparr>si_name = name, si_core = the (map_of cores name), si_category = the (map_of cores name), si_evidence_count = count,
          si_inferred = (count = 0),
          si_confidence = round2 (if count \<noteq> 0 then min 1 (DIRECT_BASE_CONFIDENCE + PER_EXTRA_MENTION * (of_nat count - 1)) else INFERRED_CONFIDENCE),
          si_claimed_years = map_option fst (map_of claims name)\<rparr>)"

lemma skill_item_valid:
  assumes "plausible_claims claims"
  shows "valid_skill_item (agent_skill mentions claims cores name)"
proof -
  have "0 \<le> DIRECT_BASE_CONFIDENCE + PER_EXTRA_MENTION * (of_nat n - 1)" if "n \<noteq> 0" for n :: nat
    using that by (auto simp: DIRECT_BASE_CONFIDENCE_def PER_EXTRA_MENTION_def field_simps)
  then show ?thesis
    using assms unfolding valid_skill_item_def agent_skill_def Let_def
    by (auto simp: round2_unit INFERRED_CONFIDENCE_def plausible_claims_def plausible_def less_imp_le split: option.splits)
qed

lemma run_skill_agent_result:
  assumes "plausible_claims (claims_in U raw_text signals)"
  shows "run_skill_agent U raw_text parsed signals = Inr \<lparr>so_status = Agent_Completed, so_error = None,
     so_skills = map (agent_skill (count_skill_mentions U raw_text) (claims_in U raw_text signals)
       (skill_cores (count_skill_mentions U raw_text))) (match_skills U raw_text)\<rparr>"
proof -
  let ?ms = "count_skill_mentions U raw_text" and ?cl = "claims_in U raw_text signals"
  have item: "skill_item ?ms ?cl (skill_cores ?ms) x = Inr (agent_skill ?ms ?cl (skill_cores ?ms) x)" for x
    unfolding skill_item_def Let_def
    using checked_valid [of valid_skill_item, OF skill_item_valid [OF assms, of ?ms "skill_cores ?ms" x]]
    by (simp add: agent_skill_def Let_def)
  have "build_all (map (skill_item ?ms ?cl (skill_cores ?ms)) (match_skills U raw_text))
      = Inr (map (agent_skill ?ms ?cl (skill_cores ?ms)) (match_skills U raw_text))"
    by (rule build_all_map) (rule item)
  then show ?thesis unfolding run_skill_agent_def Let_def skill_names by (simp add: claims_in_def)
qed

lemma agent_skill_name [simp]: "si_name (agent_skill m c k x) = x"
  by (simp add: agent_skill_def Let_def)

section \<open>The experience agent\<close>

lemmas year_consts = SHAMSI_YEAR_THRESHOLD_def SHAMSI_TO_GREGORIAN_OFFSET_def

text \<open>Both years of a valid row are years of one calendar (until the Iranian year 1500).\<close>

lemma valid_row:
  assumes "ee_is_valid (analyze_entry U now w)" and "now < 2121"
  shows "\<exists>s e. ee_start_year (analyze_entry U now w) = Some s \<and> ee_end_year (analyze_entry U now w) = Some e
    \<and> s \<le> e \<and> (s < SHAMSI_YEAR_THRESHOLD \<longleftrightarrow> e < SHAMSI_YEAR_THRESHOLD)"
  using assms
  by (auto simp: analyze_entry_def validate_entry_def Let_def work_experience_entry.defs year_consts
      current_year_for_calendar_def split: option.splits if_splits)

definition agent_entries :: "unicode \<Rightarrow> int \<Rightarrow> work_experience_entry list \<Rightarrow> ExperienceEntry list" where
  "agent_entries U now work = map experience_entry (enumerate 0 (map (analyze_entry U now) work))"

definition valid_entries :: "ExperienceEntry list \<Rightarrow> ExperienceEntry list" where
  "valid_entries es = filter (\<lambda>e. en_is_valid e \<and> en_start_year_gregorian e \<noteq> None) es"

text \<open>The years that a row counts, each named by its beginning.\<close>

definition role_years :: "ExperienceEntry \<Rightarrow> int set" where
  "role_years e = (if en_is_valid e then {fst (span e)..<snd (span e)} else {})"

lemma length_agent_entries [simp]: "length (agent_entries U now work) = length work"
  by (simp add: agent_entries_def)

lemma agent_entries_nth:
  "i < length work \<Longrightarrow> agent_entries U now work ! i = experience_entry (i, analyze_entry U now (work ! i))"
  by (simp add: agent_entries_def nth_enumerate_eq)

lemma agent_entry_index: "i < length work \<Longrightarrow> en_index (agent_entries U now work ! i) = i"
  by (simp add: agent_entries_nth experience_entry_def)

lemma agent_entry_span:
  assumes "e \<in> set (agent_entries U now work)" and "en_is_valid e" and "now < 2121"
  shows "en_start_year_gregorian e \<noteq> None \<and> fst (span e) \<le> snd (span e)"
proof -
  obtain i where i: "i < length work" "e = experience_entry (i, analyze_entry U now (work ! i))"
    using assms(1) by (metis agent_entries_nth in_set_conv_nth length_agent_entries)
  then have "ee_is_valid (analyze_entry U now (work ! i))" using assms(2) by (simp add: experience_entry_def)
  from valid_row [OF this assms(3)] show ?thesis
    by (auto simp: i(2) experience_entry_def gregorian_def span_def)
qed

lemma valid_entries_filter:
  "now < 2121 \<Longrightarrow> valid_entries (agent_entries U now work) = filter en_is_valid (agent_entries U now work)"
  using agent_entry_span unfolding valid_entries_def by (intro filter_cong) auto

lemma role_years_valid: "en_is_valid e \<Longrightarrow> role_years e = {fst (span e)..<snd (span e)}"
  by (simp add: role_years_def)

lemma years_spans: "years (map span (filter en_is_valid es)) = (\<Union>e \<in> set es. role_years e)"
  by (induction es) (auto simp: role_years_def years_def split: prod.splits)

lemma overlap_of_mem:
  assumes "en_is_valid a" and "en_is_valid b"
  shows "v \<in> set (overlap_of a b) \<longleftrightarrow> role_years a \<inter> role_years b \<noteq> {}
    \<and> v = \<lparr>ov_entries = (en_index a, en_index b), ov_years = of_nat (card (role_years a \<inter> role_years b))\<rparr>"
proof -
  have "role_years a \<inter> role_years b
      = {max (fst (span a)) (fst (span b))..<min (snd (span a)) (snd (span b))}"
    using assms by (auto simp: role_years_def)
  then show ?thesis by (auto simp: overlap_of_def shared_years_def Let_def of_nat_nat)
qed

lemma find_overlaps_mem:
  assumes "sorted_wrt (\<lambda>a b. en_index a < en_index b) es"
  shows "v \<in> set (find_overlaps es) \<longleftrightarrow>
    (\<exists>a \<in> set es. \<exists>b \<in> set es. en_index a < en_index b \<and> v \<in> set (overlap_of a b))"
  using assms
proof (induction es)
  case (Cons e es)
  have lt: "en_index e < en_index b" "\<not> en_index b < en_index e" if "b \<in> set es" for b
    using that Cons.prems by auto
  have "v \<in> set (find_overlaps es) \<longleftrightarrow>
      (\<exists>a \<in> set es. \<exists>b \<in> set es. en_index a < en_index b \<and> v \<in> set (overlap_of a b))"
    using Cons.prems by (intro Cons.IH) simp
  moreover have "v \<in> set (find_overlaps (e # es)) \<longleftrightarrow> (\<exists>b \<in> set es. v \<in> set (overlap_of e b)) \<or> v \<in> set (find_overlaps es)"
    by simp
  ultimately show ?case using lt unfolding list.set bex_simps by blast
qed simp

lemma agent_entries_sorted: "sorted_wrt (\<lambda>a b. en_index a < en_index b) (agent_entries U now work)"
  by (simp add: sorted_wrt_iff_nth_less agent_entry_index)

lemma agent_overlaps:
  fixes U :: unicode and now :: int and work :: "work_experience_entry list"
  assumes "now < 2121"
  defines "E \<equiv> agent_entries U now work"
  shows "set (find_overlaps (valid_entries E)) =
    {\<lparr>ov_entries = (i, j), ov_years = of_nat (card (role_years (E ! i) \<inter> role_years (E ! j)))\<rparr> | i j.
       i < j \<and> j < length E \<and> role_years (E ! i) \<inter> role_years (E ! j) \<noteq> {}}"
proof -
  have valid: "valid_entries E = filter en_is_valid E" using valid_entries_filter [OF assms(1)] by (simp add: E_def)
  have srt: "sorted_wrt (\<lambda>a b. en_index a < en_index b) (filter en_is_valid E)"
    unfolding E_def using agent_entries_sorted by (rule sorted_wrt_filter)
  have idx: "i < length E \<Longrightarrow> en_index (E ! i) = i" for i by (simp add: E_def agent_entry_index)
  have "v \<in> set (find_overlaps (valid_entries E)) \<longleftrightarrow> (\<exists>i j. i < j \<and> j < length E
      \<and> role_years (E ! i) \<inter> role_years (E ! j) \<noteq> {}
      \<and> v = \<lparr>ov_entries = (i, j), ov_years = of_nat (card (role_years (E ! i) \<inter> role_years (E ! j)))\<rparr>)" (is "?l \<longleftrightarrow> ?r") for v
  proof
    assume ?l
    then obtain a b where ab: "a \<in> set E" "b \<in> set E" "en_is_valid a" "en_is_valid b" "en_index a < en_index b"
        "v \<in> set (overlap_of a b)"
      unfolding valid find_overlaps_mem [OF srt] by auto
    then obtain i j where "i < length E" "a = E ! i" "j < length E" "b = E ! j" by (metis in_set_conv_nth)
    with ab overlap_of_mem [OF ab(3,4)] idx show ?r by auto
  next
    assume ?r
    then obtain i j where ij: "i < j" "j < length E" "role_years (E ! i) \<inter> role_years (E ! j) \<noteq> {}"
        "v = \<lparr>ov_entries = (i, j), ov_years = of_nat (card (role_years (E ! i) \<inter> role_years (E ! j)))\<rparr>" by blast
    then have "en_is_valid (E ! i)" "en_is_valid (E ! j)" by (auto simp: role_years_def split: if_splits)
    with ij idx [of i] idx [of j] overlap_of_mem [of "E ! i" "E ! j" v] show ?l
      unfolding valid find_overlaps_mem [OF srt] by (intro bexI [of _ "E ! i"] bexI [of _ "E ! j"]) auto
  qed
  then show ?thesis by blast
qed

text \<open>Roles at once.\<close>

lemma fold_max_less: "(n::nat) < fold max xs m \<longleftrightarrow> n < m \<or> (\<exists>x \<in> set xs. n < x)"
proof (induction xs arbitrary: m)
  case (Cons x xs)
  have "n < fold max (x # xs) m \<longleftrightarrow> n < max x m \<or> (\<exists>y \<in> set xs. n < y)" using Cons.IH [of "max x m"] by (simp only: fold_simps)
  then show ?case by (simp only: less_max_iff_disj list.set bex_simps) blast
qed simp

lemma peak_roles_exceeds:
  assumes "valid \<noteq> []"
  shows "n < peak_roles valid \<longleftrightarrow> (\<exists>y. n < roles_in valid y)"
proof -
  have "y \<in> {Min (set (map (fst \<circ> span) valid))..Max (set (map (snd \<circ> span) valid)) - 1}" if "n < roles_in valid y" for y
  proof -
    from that have "filter (\<lambda>e. fst (span e) \<le> y \<and> y < snd (span e)) valid \<noteq> []" by (auto simp: roles_in_def)
    then obtain e where e: "e \<in> set valid" "fst (span e) \<le> y" "y < snd (span e)" by (auto simp: filter_empty_conv)
    have "Min (set (map (fst \<circ> span) valid)) \<le> fst (span e)" using e(1) by (intro Min_le) auto
    moreover have "snd (span e) \<le> Max (set (map (snd \<circ> span) valid))" using e(1) by (intro Max_ge) auto
    ultimately show ?thesis using e(2,3) by (simp only: atLeastAtMost_iff) linarith
  qed
  moreover have "n < peak_roles valid \<longleftrightarrow>
      (\<exists>y \<in> {Min (set (map (fst \<circ> span) valid))..Max (set (map (snd \<circ> span) valid)) - 1}. n < roles_in valid y)"
    unfolding peak_roles_def fold_max_less by simp
  ultimately show ?thesis by blast
qed

lemma roles_in_card:
  "roles_in (filter en_is_valid es) y = card {i. i < length es \<and> y \<in> role_years (es ! i)}"
proof -
  have "filter (\<lambda>e. fst (span e) \<le> y \<and> y < snd (span e)) (filter en_is_valid es) = filter (\<lambda>e. y \<in> role_years e) es"
    by (simp add: role_years_def) (metis (no_types, lifting) filter_cong empty_iff)
  then show ?thesis by (simp add: roles_in_def length_filter_conv_card)
qed

lemma concurrency_flag_iff:
  fixes U :: unicode and now :: int and work :: "work_experience_entry list"
  assumes "now < 2121"
  defines "E \<equiv> agent_entries U now work"
  shows "concurrency_flags (valid_entries E) \<noteq> [] \<longleftrightarrow> (\<exists>y. 2 < card {i. i < length E \<and> y \<in> role_years (E ! i)})"
proof -
  have valid: "valid_entries E = filter en_is_valid E" using valid_entries_filter [OF assms(1)] by (simp add: E_def)
  show ?thesis
  proof (cases "filter en_is_valid E = []")
    case True
    then have "{i. i < length E \<and> y \<in> role_years (E ! i)} = {}" for y
      by (auto simp: filter_empty_conv role_years_def split: if_splits)
    then show ?thesis using True by (simp only: concurrency_flags_def valid) simp
  next
    case False
    then show ?thesis
      using peak_roles_exceeds [OF False, of 2]
      by (simp add: concurrency_flags_def valid Let_def MAX_CONCURRENT_ROLES_def roles_in_card)
  qed
qed

definition work_of :: "ParsedResumeData option \<Rightarrow> work_experience_entry list" where
  "work_of parsed = (case parsed of None \<Rightarrow> [] | Some p \<Rightarrow> pd_work_experience p)"

lemma filter_concat_map: "filter P (concat (map f xs)) = concat (map (\<lambda>x. filter P (f x)) xs)"
  by (induction xs) auto

lemma concat_map_Nil: "concat (map (\<lambda>x. []) xs) = []"
  by (induction xs) auto

lemma no_concurrent_code:
  "filter (\<lambda>f. fl_code f = concurrent_full_time_roles) (map invalid_flag es) = []"
  "filter (\<lambda>f. fl_code f = concurrent_full_time_roles) (history_flags valid t c) = []"
  "filter (\<lambda>f. fl_code f = concurrent_full_time_roles) (title_flags U t e) = []"
  "filter (\<lambda>f. fl_code f = concurrent_full_time_roles) (skill_flags valid t cl) = []"
  "filter (\<lambda>f. fl_code f = concurrent_full_time_roles) (concurrency_flags valid) = concurrency_flags valid"
  by (auto simp: invalid_flag_def history_flags_def title_flags_def skill_flags_def concurrency_flags_def agent_flag_def Let_def
      filter_empty_conv split: option.splits prod.splits)

lemma run_experience_agent_result:
  fixes U :: unicode and now :: int and parsed :: "ParsedResumeData option"
  assumes "now < 2121"
  defines "E \<equiv> agent_entries U now (work_of parsed)"
  shows "\<exists>out. run_experience_agent U now raw_text parsed signals = Inr out \<and> eo_status out = Agent_Completed
    \<and> eo_entries out = E \<and> eo_total_experience_years out = of_nat (card (\<Union>e \<in> set E. role_years e))
    \<and> eo_overlaps out = find_overlaps (valid_entries E) \<and> valid_experience_output out
    \<and> eo_invalid_periods out = map en_index (filter (\<lambda>e. \<not> en_is_valid e) E)
    \<and> filter (\<lambda>f. fl_code f = concurrent_full_time_roles) (eo_flags out) = concurrency_flags (valid_entries E)"
proof -
  have valid: "valid_entries E = filter en_is_valid E" using valid_entries_filter [OF assms(1)] by (simp add: E_def)
  have "\<forall>p \<in> set (map span (valid_entries E)). fst p \<le> snd p"
    using agent_entry_span [OF _ _ assms(1), of _ U "work_of parsed"] unfolding valid unfolding E_def by simp
  then have "\<forall>(s, e) \<in> set (map span (valid_entries E)). s \<le> e" by (simp add: case_prod_beta)
  then have tot: "merge_intervals_and_sum_years (map span (valid_entries E)) = of_nat (card (\<Union>e \<in> set E. role_years e))"
    using merge_card [of "map span (valid_entries E)"] years_spans [of E] by (simp only: valid)
  have pos: "0 < ov_years v" if "v \<in> set (find_overlaps (valid_entries E))" for v
  proof -
    have "finite (role_years (E ! i) \<inter> role_years (E ! j))" for i j by (simp add: role_years_def)
    then show ?thesis using that agent_overlaps [OF assms(1), of U "work_of parsed"] by (auto simp: E_def card_gt_0_iff)
  qed
  have ents: "map experience_entry (enumerate 0 (snd (analyze_work_experience U now (case parsed of None \<Rightarrow> [] | Some p \<Rightarrow> pd_work_experience p)))) = E"
    by (simp add: analyze_work_experience_def Let_def E_def agent_entries_def work_of_def)
  show ?thesis
    unfolding run_experience_agent_def Let_def ents valid_entries_def [symmetric] tot
    by (rule exI, rule conjI, rule checked_valid)
      (simp_all add: pos valid_experience_output_def list_all_iff no_concurrent_code filter_concat_map concat_map_Nil)
qed

lemma map_filter_index:
  assumes "\<And>i. i < length xs \<Longrightarrow> f (xs ! i) = i"
  shows "map f (filter P xs) = filter (\<lambda>i. P (xs ! i)) [0..<length xs]"
proof -
  have "filter P (map ((!) xs) [0..<length xs]) = map ((!) xs) (filter (P \<circ> (!) xs) [0..<length xs])" by (rule filter_map)
  then have "map f (filter P xs) = map (\<lambda>i. f (xs ! i)) (filter (\<lambda>i. P (xs ! i)) [0..<length xs])"
    by (simp add: map_nth comp_def)
  also have "\<dots> = filter (\<lambda>i. P (xs ! i)) [0..<length xs]" using assms by (intro map_idI) simp
  finally show ?thesis .
qed

text \<open>
  C29. The validation of the work history, all years converted to one calendar: the total is the number of distinct years in which the candidate worked, the
  overlaps are exactly the pairs of rows that share years, each with the number of shared years, and the warning about
  roles at once is raised if and only if in some year three rows count.
\<close>

theorem experience_agent_spec:
  assumes "now < 2121"
  shows "\<exists>out. run_experience_agent U now raw_text parsed signals = Inr out
    \<and> eo_total_experience_years out = of_nat (card (\<Union>e \<in> set (eo_entries out). role_years e))
    \<and> set (eo_overlaps out) = {\<lparr>ov_entries = (i, j),
          ov_years = of_nat (card (role_years (eo_entries out ! i) \<inter> role_years (eo_entries out ! j)))\<rparr> | i j.
        i < j \<and> j < length (eo_entries out) \<and> role_years (eo_entries out ! i) \<inter> role_years (eo_entries out ! j) \<noteq> {}}
    \<and> ((\<exists>f \<in> set (eo_flags out). fl_code f = concurrent_full_time_roles) \<longleftrightarrow>
        (\<exists>y. 2 < card {i. i < length (eo_entries out) \<and> y \<in> role_years (eo_entries out ! i)}))
    \<and> eo_invalid_periods out = filter (\<lambda>i. \<not> en_is_valid (eo_entries out ! i)) [0..<length (eo_entries out)]"
proof -
  let ?E = "agent_entries U now (work_of parsed)"
  obtain out where out: "run_experience_agent U now raw_text parsed signals = Inr out" "eo_entries out = ?E"
      "eo_total_experience_years out = of_nat (card (\<Union>e \<in> set ?E. role_years e))"
      "eo_overlaps out = find_overlaps (valid_entries ?E)"
      "eo_invalid_periods out = map en_index (filter (\<lambda>e. \<not> en_is_valid e) ?E)"
      "filter (\<lambda>f. fl_code f = concurrent_full_time_roles) (eo_flags out) = concurrency_flags (valid_entries ?E)"
    using run_experience_agent_result [OF assms, of U raw_text parsed signals] by blast
  have "(\<exists>f \<in> set (eo_flags out). fl_code f = concurrent_full_time_roles)
      \<longleftrightarrow> filter (\<lambda>f. fl_code f = concurrent_full_time_roles) (eo_flags out) \<noteq> []"
    by (auto simp: filter_empty_conv)
  moreover have "map en_index (filter (\<lambda>e. \<not> en_is_valid e) ?E) = filter (\<lambda>i. \<not> en_is_valid (?E ! i)) [0..<length ?E]"
    by (rule map_filter_index) (simp add: agent_entry_index)
  ultimately show ?thesis
    using out agent_overlaps [OF assms, of U "work_of parsed"] concurrency_flag_iff [OF assms, of U "work_of parsed"]
    by (intro exI [of _ out]) simp
qed

definition demo_history :: ParsedResumeData where
  "demo_history = \<lparr>pd_personal_info = \<lparr>pi_name = None, pi_email = None, pi_phone = None\<rparr>, pd_education = [],
     pd_work_experience = map (\<lambda>d. \<lparr>we_company = None, we_job_title = None, we_duration = Some (utext_of d)\<rparr>)
       [''2010 - 2014'', ''2012 - 2016'', ''1391 - 1393'']\<rparr>"

lemma demo_entries:
  "map (\<lambda>e. (en_is_valid e, span e)) (agent_entries ascii_tables 2026 (work_of (Some demo_history)))
     = [(True, 2010, 2014), (True, 2012, 2016), (True, 2012, 2014)]"
proof -
  have p: "parse_duration ascii_tables 2026 (Some (utext_of ''2010 - 2014'')) = Some (2010, 2014)"
    "parse_duration ascii_tables 2026 (Some (utext_of ''2012 - 2016'')) = Some (2012, 2016)"
    "parse_duration ascii_tables 2026 (Some (utext_of ''1391 - 1393'')) = Some (1391, 1393)"
    by (simp_all add: parse_duration_def utext_of_def ascii_tables_def is_dash_def ustrip_def strip_by_def
        leading_digits_4 digits_value_def CURRENT_MARKERS_def cp_ascii_lower_def Let_def)
  show ?thesis
    by (simp add: agent_entries_def work_of_def demo_history_def experience_entry_def analyze_entry_def p validate_entry_def Let_def
        work_experience_entry.defs year_consts current_year_for_calendar_def MAX_REASONABLE_SINGLE_JOB_YEARS_def span_def gregorian_def)
qed

theorem experience_agent_spec_witness:
  "\<exists>out. run_experience_agent ascii_tables 2026 [] (Some demo_history) None = Inr out
    \<and> eo_total_experience_years out = 6 \<and> (\<exists>f \<in> set (eo_flags out). fl_code f = concurrent_full_time_roles)"
proof -
  let ?E = "agent_entries ascii_tables 2026 (work_of (Some demo_history))"
  obtain e1 e2 e3 where E: "?E = [e1, e2, e3]" "en_is_valid e1" "en_is_valid e2" "en_is_valid e3"
      "span e1 = (2010, 2014)" "span e2 = (2012, 2016)" "span e3 = (2012, 2014)"
    using demo_entries by (auto simp: map_eq_Cons_conv)
  obtain out where out: "run_experience_agent ascii_tables 2026 [] (Some demo_history) None = Inr out" "eo_entries out = ?E"
    using run_experience_agent_result [of 2026 ascii_tables "[]" "Some demo_history" None] by auto
  have "(\<Union>e \<in> set ?E. role_years e) = {2010..<2016}" by (auto simp: E role_years_def)
  moreover have "2 < card {i. i < length ?E \<and> 2013 \<in> role_years (?E ! i)}"
  proof -
    have "{i. i < length ?E \<and> 2013 \<in> role_years (?E ! i)} = {0, 1, 2}"
      by (auto simp: E role_years_def less_Suc_eq numeral_3_eq_3 nth_Cons')
    then show ?thesis by simp
  qed
  ultimately show ?thesis
    using experience_agent_spec [of 2026 ascii_tables "[]" "Some demo_history" None] out by (intro exI [of _ out]) auto
qed

end
