(* ===== verification/Resume_Processing.thy ===== *)
theory Resume_Processing
  imports Agent_Properties Privacy Storage
begin

text \<open>
  The background job that processes an uploaded resume (app/tasks/resume_processing.py), in both pipelines. The multi-agent job reads
  the database, works without a connection, and opens a second session to write; in between other
  requests may change the database, so the job takes both of its states. A failed reading of the file or of its text is only logged. The worker runs
  without a tenant. Parameters: the web (\<open>http\<close>), the printed analysis (\<open>dump\<close>), the sentences of the analyser (\<open>say\<close>) and
  those of the agents' theories.
\<close>

section \<open>Reading\<close>

definition download_file :: "media_settings \<Rightarrow> disk \<Rightarrow> (string \<Rightarrow> nat list option) \<Rightarrow> string \<Rightarrow> nat list option" where
  "download_file cfg disk http file_url =
     (case resolve_local_media_path cfg file_url of
        Some local_path \<Rightarrow> disk local_path
      | None \<Rightarrow> http file_url)"

definition resume_by_url :: "db \<Rightarrow> string \<Rightarrow> exc + resume option" where
  "resume_by_url d file_url = scalar_one_or_none (filter (\<lambda>r. r_file_url r = file_url) (select_resumes SYSTEM_CONTEXT d))"

definition context_of_job :: "job \<Rightarrow> candidate option \<Rightarrow> job_context" where
  "context_of_job j candidate =
     \<lparr>jx_title = j_title j, jx_skills_required = j_skills_required j, jx_required_seniority = j_required_seniority j,
      jx_required_education = j_required_education j, jx_location = j_location j, jx_description = j_description j,
      jx_candidate_location = (case candidate of None \<Rightarrow> None | Some c \<Rightarrow> c_location c)\<rparr>"

definition load_job_context :: "db \<Rightarrow> string \<Rightarrow> resume \<Rightarrow> exc + job_context option" where
  "load_job_context d application_id r =
     (case uuid_of_str application_id of
        None \<Rightarrow> Inl Uncaught
      | Some aid \<Rightarrow>
     (case scalar_one_or_none (filter (\<lambda>a. a_id a = aid) (select_applications SYSTEM_CONTEXT d)) of
        Inl e \<Rightarrow> Inl e
      | Inr None \<Rightarrow> Inr None
      | Inr (Some a) \<Rightarrow>
     (case scalar_one_or_none (filter (\<lambda>j. j_id j = a_job_id a) (select_jobs SYSTEM_CONTEXT d)) of
        Inl e \<Rightarrow> Inl e
      | Inr None \<Rightarrow> Inr None
      | Inr (Some j) \<Rightarrow>
     (case scalar_one_or_none (filter (\<lambda>c. c_id c = r_candidate_id r) (select_candidates SYSTEM_CONTEXT d)) of
        Inl e \<Rightarrow> Inl e
      | Inr candidate \<Rightarrow> Inr (Some (context_of_job j candidate))))))"

section \<open>Writing\<close>

definition skill_analysis_json :: "(flag_reason \<Rightarrow> utext) \<Rightarrow> skill_analysis \<Rightarrow> json" where
  "skill_analysis_json say sa =
     JObj [(''skills'', JArr (map JStr (sa_skills sa))), (''total_experience_years'', JFloat (sa_total_experience_years sa)),
       (''experience_entries'', JArr (map (\<lambda>e. JObj [(''company'', json_text (we_company e)), (''job_title'', json_text (we_job_title e)),
          (''duration'', json_text (we_duration e)),
          (''start_year'', case ee_start_year e of None \<Rightarrow> JNull | Some y \<Rightarrow> JInt y),
          (''end_year'', case ee_end_year e of None \<Rightarrow> JNull | Some y \<Rightarrow> JInt y), (''is_valid'', JBool (ee_is_valid e)),
          (''flag_reason'', case ee_flag_reason e of None \<Rightarrow> JNull | Some f \<Rightarrow> JStr (say f))]) (sa_experience_entries sa)))]"

definition write_resume :: "uuid \<Rightarrow> (resume \<Rightarrow> resume) \<Rightarrow> db \<Rightarrow> db" where
  "write_resume rid f d = d\<lparr>resumes := update_where (\<lambda>r. r_id r = rid) f (resumes d)\<rparr>"

definition write_score :: "uuid \<Rightarrow> rat \<Rightarrow> db \<Rightarrow> db" where
  "write_score aid score d =
     d\<lparr>applications := update_where (\<lambda>a. a_id a = aid) (\<lambda>a. a\<lparr>a_score_ai := Some (round_half_even score)\<rparr>) (applications d)\<rparr>"

definition store_text :: "(utext \<Rightarrow> string) \<Rightarrow> unicode \<Rightarrow> utext \<Rightarrow> ParsedResumeData option \<Rightarrow> resume \<Rightarrow> resume" where
  "store_text hmac U raw_text parsed r =
     (let r' = set_raw_text hmac U (Some raw_text) r
      in case parsed of None \<Rightarrow> r' | Some p \<Rightarrow> r'\<lparr>r_parsed_data := Some (parsed_json p)\<rparr>)"

section \<open>The linear pipeline\<close>

text \<open>Whatever goes wrong while scoring is logged, and the rest is kept.\<close>

definition linear_score :: "unicode \<Rightarrow> db \<Rightarrow> string \<Rightarrow> resume \<Rightarrow> ParsedResumeData \<Rightarrow> skill_analysis \<Rightarrow> (uuid \<times> rat) option" where
  "linear_score U d application_id r parsed analysis =
     (case (uuid_of_str application_id, load_job_context d application_id r) of
        (Some aid, Inr (Some job)) \<Rightarrow>
          Some (aid, ms_final_score (calculate_matching_score U
            (matching_input job (sa_skills analysis) (sa_total_experience_years analysis) (Some parsed))))
      | _ \<Rightarrow> None)"

definition process_resume_linear ::
  "unicode \<Rightarrow> (utext \<Rightarrow> string) \<Rightarrow> (flag_reason \<Rightarrow> utext) \<Rightarrow> nat list document_reader \<Rightarrow> ner \<Rightarrow> (utext \<Rightarrow> string option)
     \<Rightarrow> (string \<Rightarrow> nat list option) \<Rightarrow> int \<Rightarrow> string \<Rightarrow> string \<Rightarrow> db \<Rightarrow> exc + db" where
  "process_resume_linear U hmac say R nlp nlp_error download gregorian_now application_id file_url d =
     (case download file_url of
        None \<Rightarrow> Inr d
      | Some file_bytes \<Rightarrow>
     (case extract_raw_text U R file_bytes (utext_of file_url) of
        Inl e \<Rightarrow> Inr d
      | Inr raw_text \<Rightarrow>
          (let parsed = (if nlp_error raw_text = None then Some (parse_resume_text U nlp raw_text) else None);
               analysis = run_skill_engine U gregorian_now raw_text (work_of parsed)
           in case resume_by_url d file_url of
                Inl e \<Rightarrow> Inl e
              | Inr None \<Rightarrow> Inr d
              | Inr (Some r) \<Rightarrow>
                  (let d1 = write_resume (r_id r) (\<lambda>x. (store_text hmac U raw_text parsed x)
                         \<lparr>r_skill_analysis := Some (skill_analysis_json say analysis)\<rparr>) d
                   in case parsed of
                        None \<Rightarrow> Inr d1
                      | Some p \<Rightarrow>
                          (case linear_score U d application_id r p analysis of
                             None \<Rightarrow> Inr d1
                           | Some (aid, score) \<Rightarrow> Inr (write_score aid score d1))))))"

section \<open>The multi-agent pipeline\<close>

text \<open>The first session: the resume and what its application is for.\<close>

definition begin_multi_agent :: "string \<Rightarrow> string \<Rightarrow> db \<Rightarrow> exc + (uuid \<times> job_context option) option" where
  "begin_multi_agent application_id file_url d =
     (case resume_by_url d file_url of
        Inl e \<Rightarrow> Inl e
      | Inr None \<Rightarrow> Inr None
      | Inr (Some r) \<Rightarrow>
          (case load_job_context d application_id r of
             Inl e \<Rightarrow> Inl e
           | Inr job \<Rightarrow> Inr (Some (r_id r, job))))"

text \<open>The second session.\<close>

definition store_multi_agent ::
  "unicode \<Rightarrow> (utext \<Rightarrow> string) \<Rightarrow> (flag_reason \<Rightarrow> utext) \<Rightarrow> (UnifiedAnalysis \<Rightarrow> json) \<Rightarrow> uuid \<Rightarrow> string \<Rightarrow> PipelineResult \<Rightarrow> db \<Rightarrow> exc + db" where
  "store_multi_agent U hmac say dump resume_id application_id result d =
     (if resume_id \<notin> set (map r_id (select_resumes SYSTEM_CONTEXT d)) then Inl Uncaught
      else
        (let a = pr_analysis result;
             analysed = (us_status (ua_skills a) = Agent_Completed \<or> ue_status (ua_experience a) = Agent_Completed);
             d1 = write_resume resume_id (\<lambda>x.
               (let x' = store_text hmac U (pr_raw_text result) (pr_parsed_data result) x
                in (if analysed then x'\<lparr>r_skill_analysis := Some (skill_analysis_json say (to_skill_analysis a))\<rparr> else x')
                     \<lparr>r_agent_analysis := Some (dump a)\<rparr>)) d
         in case mt_score (ua_matching a) of
              None \<Rightarrow> Inr d1
            | Some score \<Rightarrow>
                (case uuid_of_str application_id of
                   None \<Rightarrow> Inl Uncaught
                 | Some aid \<Rightarrow> Inr (if aid \<in> set (map a_id (select_applications SYSTEM_CONTEXT d1)) then write_score aid score d1 else d1))))"

definition process_resume_multi_agent ::
  "unicode \<Rightarrow> (utext \<Rightarrow> string) \<Rightarrow> (flag_reason \<Rightarrow> utext) \<Rightarrow> (UnifiedAnalysis \<Rightarrow> json)
     \<Rightarrow> (nat list \<Rightarrow> utext \<Rightarrow> job_context option \<Rightarrow> text_error + PipelineResult) \<Rightarrow> (string \<Rightarrow> nat list option)
     \<Rightarrow> string \<Rightarrow> string \<Rightarrow> db \<Rightarrow> db \<Rightarrow> exc + db" where
  "process_resume_multi_agent U hmac say dump pipeline download application_id file_url d d' =
     (case begin_multi_agent application_id file_url d of
        Inl e \<Rightarrow> Inl e
      | Inr None \<Rightarrow> Inr d'
      | Inr (Some (resume_id, job)) \<Rightarrow>
     (case download file_url of
        None \<Rightarrow> Inr d'
      | Some file_bytes \<Rightarrow>
     (case pipeline file_bytes (utext_of file_url) job of
        Inl e \<Rightarrow> Inr d'
      | Inr result \<Rightarrow> store_multi_agent U hmac say dump resume_id application_id result d')))"

text \<open>The setting chooses the pipeline; the linear one reads and writes in its only session.\<close>

definition process_resume ::
  "string \<Rightarrow> (db \<Rightarrow> exc + db) \<Rightarrow> (db \<Rightarrow> db \<Rightarrow> exc + db) \<Rightarrow> db \<Rightarrow> db \<Rightarrow> exc + db" where
  "process_resume RESUME_PIPELINE run_linear run_multi_agent d d' =
     (if RESUME_PIPELINE = ''linear'' then run_linear d' else run_multi_agent d d')"

end
