(* ===== verification/Parser_Properties.thy ===== *)
theory Parser_Properties
  imports Resume_Parser
begin

text \<open>
  The extraction of the text and the parser together: the text that the extraction leaves has no blank line, while the parser separates
  the entries of a section by blank lines.
\<close>

section \<open>Lines\<close>

lemma splitlines_Nil [simp]: "splitlines [] = []"
  by (simp add: splitlines.simps)

lemma splitlines_plain: "s \<noteq> [] \<Longrightarrow> list_all (\<lambda>c. \<not> line_break c) s \<Longrightarrow> splitlines s = [s]"
proof -
  assume s: "s \<noteq> []" "list_all (\<lambda>c. \<not> line_break c) s"
  have ends: "takeWhile (\<lambda>c. \<not> line_break c) s = s" "dropWhile (\<lambda>c. \<not> line_break c) s = []"
    using s(2) by (simp_all add: takeWhile_eq_all_conv list_all_iff)
  show ?thesis unfolding splitlines.simps [of s] ends using s(1) by simp
qed

lemma splitlines_line:
  assumes "list_all (\<lambda>c. \<not> line_break c) l"
  shows "splitlines (l @ 10 # s) = l # splitlines s"
proof -
  have "line_break 10" by (simp add: line_break_def)
  then have ends: "takeWhile (\<lambda>c. \<not> line_break c) (l @ 10 # s) = l" "dropWhile (\<lambda>c. \<not> line_break c) (l @ 10 # s) = 10 # s"
    using assms by (simp_all add: takeWhile_append dropWhile_append list_all_iff)
  show ?thesis unfolding splitlines.simps [of "l @ 10 # s"] ends by simp
qed

text \<open>A line that begins and ends with something visible.\<close>

definition tidy :: "unicode \<Rightarrow> utext \<Rightarrow> bool" where
  "tidy U l \<longleftrightarrow> l \<noteq> [] \<and> \<not> uc_space U (hd l) \<and> \<not> uc_space U (last l) \<and> list_all (\<lambda>c. \<not> line_break c) l"

lemma join_lines_simps [simp]:
  "join_lines [] = []" "join_lines [l] = l" "ls \<noteq> [] \<Longrightarrow> join_lines (l # ls) = l @ 10 # join_lines ls"
  by (simp_all add: join_lines_def) (cases ls; simp)

lemma splitlines_join: "list_all (tidy U) ls \<Longrightarrow> splitlines (join_lines ls) = ls"
proof (induction ls)
  case (Cons l ls)
  then show ?case by (cases "ls = []") (simp_all add: tidy_def splitlines_plain splitlines_line)
qed simp

lemma join_lines_ends:
  "list_all (tidy U) ls \<Longrightarrow> ls \<noteq> [] \<Longrightarrow> join_lines ls \<noteq> [] \<and> \<not> uc_space U (hd (join_lines ls)) \<and> \<not> uc_space U (last (join_lines ls))"
proof (induction ls)
  case (Cons l ls)
  then show ?case by (cases "ls = []") (auto simp: tidy_def)
qed simp

lemma strip_join: "list_all (tidy U) ls \<Longrightarrow> ustrip U (join_lines ls) = join_lines ls"
  using join_lines_ends [of U ls] strip_by_ends [of "join_lines ls" "uc_space U"]
  by (cases "ls = []") (simp_all add: ustrip_def strip_by_def [of _ "[]"])

text \<open>Words have no white space.\<close>

lemma class_runs_step:
  "dropWhile (\<lambda>c. \<not> p c) s = [] \<Longrightarrow> class_runs p s = []"
  "dropWhile (\<lambda>c. \<not> p c) s = c # cs \<Longrightarrow> class_runs p s = (c # takeWhile p cs) # class_runs p (dropWhile p cs)"
  by (subst class_runs.simps, simp only: list.case)+

lemma class_runs_mem: "x \<in> set (class_runs p s) \<Longrightarrow> x \<noteq> [] \<and> list_all p x"
proof (induction "length s" arbitrary: s rule: less_induct)
  case less
  show ?case
  proof (cases "dropWhile (\<lambda>c. \<not> p c) s")
    case Nil
    then show ?thesis using less.prems class_runs_step(1) [of p s] by (simp only:) simp
  next
    case (Cons c cs)
    have head: "p c" using Cons hd_dropWhile [of "\<lambda>c. \<not> p c" s] by simp
    have "length (dropWhile p cs) < length s"
      using length_dropWhile_le [of p cs] length_dropWhile_le [of "\<lambda>c. \<not> p c" s] Cons by simp
    note IH = less.hyps [OF this]
    have "x = c # takeWhile p cs \<or> x \<in> set (class_runs p (dropWhile p cs))"
      using less.prems unfolding class_runs_step(2) [OF Cons] by simp
    then show ?thesis
    proof
      assume x: "x = c # takeWhile p cs"
      have "list_all p (takeWhile p cs)" unfolding list_all_iff using set_takeWhileD by metis
      with head show ?thesis by (simp add: x)
    qed (rule IH)
  qed
qed

definition blank_breaks :: "unicode \<Rightarrow> bool" where
  "blank_breaks U \<longleftrightarrow> (\<forall>c. line_break c \<longrightarrow> uc_space U c) \<and> (\<forall>c. digit c \<longrightarrow> \<not> uc_space U c)"

lemma join_words_tidy:
  assumes "blank_breaks U" and "\<forall>w \<in> set ws. w \<noteq> [] \<and> list_all (\<lambda>c. \<not> uc_space U c) w" and "ws \<noteq> []"
  shows "tidy U (join_words ws)"
  using assms(2,3)
proof (induction ws)
  case (Cons w ws)
  have w: "w \<noteq> []" "\<not> uc_space U (hd w)" "\<not> uc_space U (last w)" "list_all (\<lambda>c. \<not> line_break c) w"
    using Cons.prems assms(1) by (auto simp: list_all_iff blank_breaks_def)
  show ?case
  proof (cases "ws = []")
    case True
    with w show ?thesis by (simp add: tidy_def join_words_def)
  next
    case False
    then have "join_words (w # ws) = w @ 32 # join_words ws" by (cases ws) (simp_all add: join_words_def)
    moreover have "tidy U (join_words ws)" using Cons False by simp
    ultimately show ?thesis using w by (simp add: tidy_def line_break_def)
  qed
qed simp

lemma normalize_text_lines:
  assumes "blank_breaks U"
  shows "\<exists>ls. normalize_text U text = join_lines ls \<and> list_all (tidy U) ls"
proof -
  let ?ls = "filter (\<lambda>line. line \<noteq> []) (map (\<lambda>line. join_words (words U line)) (splitlines text))"
  have "tidy U l" if l: "l \<in> set ?ls" for l
  proof -
    from l obtain line where line: "l = join_words (words U line)" "l \<noteq> []" by auto
    then have "words U line \<noteq> []" by (auto simp: join_words_def)
    then show ?thesis unfolding line(1)
      by (intro join_words_tidy [OF assms]) (auto simp: words_def dest: class_runs_mem)
  qed
  then have "list_all (tidy U) ?ls" unfolding list_all_iff by (rule ballI)
  with strip_join [OF this] show ?thesis by (intro exI [of _ ?ls]) (simp add: normalize_text_def Let_def)
qed

lemma extracted_lines:
  assumes "blank_breaks U" and "extract_raw_text U R file filename = Inr raw_text"
  shows "\<exists>ls. raw_text = join_lines ls \<and> list_all (tidy U) ls"
  using assms(2) normalize_text_lines [OF assms(1)]
  by (auto simp: extract_raw_text_def extract_from_pdf_def extract_from_docx_def Let_def split: if_splits sum.splits option.splits)

section \<open>Blocks\<close>

text \<open>No line of white space between two lines.\<close>

fun calm :: "unicode \<Rightarrow> utext \<Rightarrow> bool" where
  "calm U [] \<longleftrightarrow> True"
| "calm U (c # cs) \<longleftrightarrow> (c = 10 \<and> cs \<noteq> [] \<longrightarrow> \<not> uc_space U (hd cs)) \<and> calm U cs"

lemma no_block_here:
  assumes "blank_breaks U" and "calm U s"
  shows "match_here (BLOCK_PATTERN U) p s = None"
proof (cases s)
  case (Cons c cs)
  have nl: "uc_space U 10" using assms(1) by (simp add: blank_breaks_def line_break_def)
  show ?thesis
  proof (cases "c = 10")
    case True
    then have "cs = [] \<or> \<not> uc_space U (hd cs)" using assms(2) by (cases "cs = []") (simp_all add: Cons)
    then have "match (Star (blank U)) (Some c, cs, g) = [(Some c, cs, g)]" for g
      by (cases cs) (simp_all add: match.simps(5) blank_def)
    moreover have "match (Char 10) (Some c, cs, g) = []" for g
      using \<open>cs = [] \<or> \<not> uc_space U (hd cs)\<close> nl by (cases cs) (auto simp: Char_def)
    ultimately show ?thesis using True by (simp add: match_here_def BLOCK_PATTERN_def seqs_def Cons Char_def)
  next
    case False
    then show ?thesis by (simp add: match_here_def BLOCK_PATTERN_def seqs_def Cons Char_def)
  qed
qed (simp add: match_here_def BLOCK_PATTERN_def seqs_def Char_def)

lemma split_calm:
  assumes "blank_breaks U"
  shows "calm U s \<Longrightarrow> split_from (BLOCK_PATTERN U) p piece s = [rev piece @ s]"
proof (induction s arbitrary: p piece)
  case Nil
  then show ?case by (subst split_from.simps) simp
next
  case (Cons c cs)
  then show ?case
    using no_block_here [OF assms Cons.prems, of p] unfolding split_from.simps [of _ p piece "c # cs"] by simp
qed

lemma calm_line: "list_all (\<lambda>c. \<not> line_break c) l \<Longrightarrow> calm U (l @ s) \<longleftrightarrow> calm U s"
proof (induction l)
  case (Cons c l)
  then have "c \<noteq> 10" by (auto simp: line_break_def)
  with Cons show ?case by simp
qed simp

lemma calm_join: "list_all (tidy U) ls \<Longrightarrow> calm U (join_lines ls)"
proof (induction ls)
  case (Cons l ls)
  show ?case
  proof (cases "ls = []")
    case True
    then show ?thesis using Cons.prems calm_line [of l U "[]"] by (simp add: tidy_def)
  next
    case False
    moreover have "list_all (tidy U) ls" "tidy U l" using Cons.prems by simp_all
    moreover from this(2) have "list_all (\<lambda>c. \<not> line_break c) l" by (simp add: tidy_def)
    ultimately show ?thesis using Cons.IH join_lines_ends [of U ls] by (simp add: calm_line)
  qed
qed simp

lemma one_block:
  assumes "blank_breaks U" and "list_all (tidy U) ls"
  shows "length (split_into_blocks U (join_lines ls)) \<le> 1"
  using split_calm [OF assms(1) calm_join [OF assms(2)], of None "[]"]
  by (simp add: split_into_blocks_def Let_def strip_join [OF assms(2)] re_split_def)

section \<open>Sections\<close>

lemma section_lines_sub: "set (map snd (section_lines U cur ls)) \<subseteq> set ls"
proof (induction ls arbitrary: cur)
  case (Cons l ls)
  then show ?case by (cases "opens_section U l") (simp_all add: subset_insertI2)
qed simp

lemma normalize_digits_map: "\<exists>f. normalize_digits = map f \<and> (\<forall>c. f c = c \<or> digit (f c))"
  unfolding normalize_digits_def by (rule exI, rule conjI, rule refl) (auto simp: digit_def)

lemma digits_tidy:
  assumes "blank_breaks U" and "tidy U l"
  shows "tidy U (normalize_digits l)"
proof -
  obtain f where f: "normalize_digits = map f" "\<And>c. f c = c \<or> digit (f c)" using normalize_digits_map by blast
  have d: "digit c \<Longrightarrow> \<not> uc_space U c \<and> \<not> line_break c" for c
    using assms(1) by (auto simp: blank_breaks_def digit_def line_break_def)
  have "\<not> uc_space U c \<Longrightarrow> \<not> uc_space U (f c)" "\<not> line_break c \<Longrightarrow> \<not> line_break (f c)" for c
    using f(2) [of c] d [of "f c"] by auto
  then show ?thesis using assms(2) by (simp add: tidy_def f(1) hd_map last_map list_all_iff)
qed

lemma digits_join: "normalize_digits (join_lines ls) = join_lines (map normalize_digits ls)"
proof (induction ls)
  case (Cons l ls)
  then show ?case by (cases "ls = []") (simp_all add: normalize_digits_def)
qed (simp add: normalize_digits_def)

lemma entries_per_block: "length (if b then [] else filter P (map f xs)) \<le> length xs"
  using length_filter_le [of P "map f xs"] by simp

text \<open>
  C28. The parser and the extraction disagree: the extraction removes every blank line, the parser takes blank lines for the borders between entries; so
  from an uploaded file at most one job and at most one degree are ever read.
\<close>

theorem resume_yields_one_entry:
  assumes "blank_breaks U" and "extract_raw_text U R file filename = Inr raw_text"
  shows "length (pd_work_experience (parse_resume_text U nlp raw_text)) \<le> 1 \<and> length (pd_education (parse_resume_text U nlp raw_text)) \<le> 1"
proof -
  obtain ls where ls: "raw_text = join_lines ls" "list_all (tidy U) ls" using extracted_lines [OF assms] by blast
  let ?ls = "map normalize_digits ls"
  have tidy: "list_all (tidy U) ?ls" using ls(2) digits_tidy [OF assms(1)] by (simp add: list_all_iff)
  have sec: "length (split_into_blocks U (split_into_sections U (normalize_digits raw_text) name)) \<le> 1" for name
  proof -
    let ?sub = "map snd (filter (\<lambda>(s, _). s = name) (section_lines U Header ?ls))"
    have "set ?sub \<subseteq> set ?ls" using section_lines_sub [of U Header ?ls] by auto
    then have "list_all (tidy U) ?sub" using tidy unfolding list_all_iff by blast
    then show ?thesis
      unfolding ls(1) digits_join split_into_sections_def splitlines_join [OF tidy] by (rule one_block [OF assms(1)])
  qed
  have "length (extract_work_experience U nlp s) \<le> length (split_into_blocks U s)"
      "length (extract_education U nlp s) \<le> length (split_into_blocks U s)" for s
    unfolding extract_work_experience_def extract_education_def by (rule entries_per_block)+
  from this [of "split_into_sections U (normalize_digits raw_text) Experience"]
    this [of "split_into_sections U (normalize_digits raw_text) Education"] sec [of Experience] sec [of Education]
  show ?thesis by (simp add: parse_resume_text_def Let_def)
qed

definition break_tables :: unicode where
  "break_tables = ascii_tables\<lparr>uc_space := (\<lambda>c. uc_space ascii_tables c \<or> c = 133 \<or> c = 8232 \<or> c = 8233)\<rparr>"

definition two_jobs :: "nat document_reader" where
  "two_jobs = \<lparr>rd_pdf_opens = (\<lambda>_. False), rd_needs_pass = (\<lambda>_. False), rd_pages = (\<lambda>_. Inr []), rd_ocr = (\<lambda>_. Inr []),
     rd_docx = (\<lambda>n. Some ([utext_of ''A'' @ 10 # 10 # utext_of ''B''], []))\<rparr>"

lemma two_jobs_text: "extract_raw_text break_tables two_jobs 0 (utext_of ''a.docx'') = Inr (utext_of ''A'' @ 10 # utext_of ''B'')"
  by (simp add: extract_raw_text_def extract_from_docx_def two_jobs_def utext_of_def break_tables_def ascii_tables_def suffix_to_prefix
      cp_ascii_lower_def ustrip_def strip_by_def Let_def normalize_text_def join_lines_def splitlines.simps line_break_def words_def
      class_runs.simps join_words_def)

lemma two_blocks: "split_into_blocks break_tables (utext_of ''A'' @ 10 # 10 # utext_of ''B'') = [utext_of ''A'', utext_of ''B'']"
  by (simp add: split_into_blocks_def Let_def re_split_def split_from.simps match_here_def BLOCK_PATTERN_def seqs_def Char_def blank_def
      match.simps(5) utext_of_def break_tables_def ascii_tables_def ustrip_def strip_by_def)

theorem resume_yields_one_entry_witness:
  "split_into_blocks break_tables (utext_of ''A'' @ 10 # 10 # utext_of ''B'') = [utext_of ''A'', utext_of ''B'']
   \<and> extract_raw_text break_tables two_jobs 0 (utext_of ''a.docx'') = Inr (utext_of ''A'' @ 10 # utext_of ''B'')
   \<and> length (pd_work_experience (parse_resume_text break_tables None (utext_of ''A'' @ 10 # utext_of ''B''))) \<le> 1"
proof -
  have "blank_breaks break_tables"
    by (auto simp: blank_breaks_def break_tables_def ascii_tables_def line_break_def digit_def)
  from resume_yields_one_entry [OF this two_jobs_text] two_blocks two_jobs_text show ?thesis by simp
qed

end
