(* ===== verification/Pipeline_Properties.thy ===== *)
theory Pipeline_Properties
  imports Resume_Processing Parser_Properties "HOL-Library.Multiset"
begin

text \<open>
  The graph of the agents as a whole: every readable file ends in an analysis that meets the schema, whatever fails; a failure stays in
  its own section; the order in which the agents end is irrelevant; the final score stays close to the score of the linear pipeline.
\<close>

section \<open>Merging the updates of the agents\<close>

definition settle :: "schedule \<Rightarrow> string \<Rightarrow> string + 'a \<Rightarrow> 'a payload" where
  "settle S name result =
     (case (if sc_late S name then Inl AGENT_TIMEOUT_ERROR else result) of Inr output \<Rightarrow> Output output | Inl e \<Rightarrow> Failure e)"

definition agent_error :: "schedule \<Rightarrow> string \<Rightarrow> string + 'a \<Rightarrow> string option" where
  "agent_error S name result =
     (case (if sc_late S name then Inl AGENT_TIMEOUT_ERROR else result) of Inr output \<Rightarrow> None | Inl e \<Rightarrow> Some e)"

lemma agent_node_fields:
  "nu_name (agent_node S name wrap result) = name"
  "nu_payload (agent_node S name wrap result) = wrap (settle S name result)"
  "nu_timings (agent_node S name wrap result) = [name \<mapsto> timing (sc_clock S name)]"
  "nu_errors (agent_node S name wrap result) = (\<lambda>n. if n = name then agent_error S name result else None)"
  by (auto simp: agent_node_def settle_def agent_error_def Let_def split: sum.splits)

lemmas agent_names = SKILL_AGENT_def EXPERIENCE_AGENT_def SOFT_SKILLS_AGENT_def

definition skill_result :: "unicode \<Rightarrow> pipeline_state \<Rightarrow> string + SkillAgentOutput" where
  "skill_result U st = run_skill_agent U (ps_raw_text st) (ps_parsed_data st) (Some (ps_signals st))"
definition experience_result :: "unicode \<Rightarrow> int \<Rightarrow> pipeline_state \<Rightarrow> string + ExperienceAgentOutput" where
  "experience_result U now st = run_experience_agent U now (ps_raw_text st) (ps_parsed_data st) (Some (ps_signals st))"
definition soft_result :: "unicode \<Rightarrow> lexicon \<Rightarrow> pipeline_state \<Rightarrow> string + SoftSkillsAgentOutput" where
  "soft_result U L st = run_soft_skills_agent U L (ps_raw_text st) (ps_parsed_data st) (Some (ps_signals st))"

definition merged_state :: "unicode \<Rightarrow> lexicon \<Rightarrow> int \<Rightarrow> schedule \<Rightarrow> pipeline_state \<Rightarrow> pipeline_state" where
  "merged_state U L now S st = fold merge_update (agent_nodes U L now S st) st"

lemma merge_update_commute:
  assumes "u \<in> set (agent_nodes U L now S st)" and "v \<in> set (agent_nodes U L now S st)"
  shows "merge_update u \<circ> merge_update v = merge_update v \<circ> merge_update u"
proof (cases "u = v")
  case False
  have comm: "merge_update u (merge_update v x) = merge_update v (merge_update u x)"
    if "dom (nu_timings u) \<inter> dom (nu_timings v) = {}" "dom (nu_errors u) \<inter> dom (nu_errors v) = {}"
      "(\<forall>p q. \<not> (nu_payload u = Skill_Payload p \<and> nu_payload v = Skill_Payload q))
       \<and> (\<forall>p q. \<not> (nu_payload u = Experience_Payload p \<and> nu_payload v = Experience_Payload q))
       \<and> (\<forall>p q. \<not> (nu_payload u = Soft_Payload p \<and> nu_payload v = Soft_Payload q))" for x
  proof -
    have "nu_timings u ++ nu_timings v = nu_timings v ++ nu_timings u" using that(1) by (rule map_add_comm)
    moreover have "nu_errors u ++ nu_errors v = nu_errors v ++ nu_errors u" using that(2) by (rule map_add_comm)
    ultimately show ?thesis using that(3)
      by (cases "nu_payload u"; cases "nu_payload v") (simp_all add: merge_update_def flip: map_add_assoc)
  qed
  have "dom (nu_timings u) \<inter> dom (nu_timings v) = {}" "dom (nu_errors u) \<inter> dom (nu_errors v) = {}"
    using assms False by (auto simp: agent_nodes_def Let_def agent_node_fields agent_names dom_def split: if_splits)
  moreover have "(\<forall>p q. \<not> (nu_payload u = Skill_Payload p \<and> nu_payload v = Skill_Payload q))
       \<and> (\<forall>p q. \<not> (nu_payload u = Experience_Payload p \<and> nu_payload v = Experience_Payload q))
       \<and> (\<forall>p q. \<not> (nu_payload u = Soft_Payload p \<and> nu_payload v = Soft_Payload q))"
    using assms False by (auto simp: agent_nodes_def Let_def agent_node_fields)
  ultimately show ?thesis using comm by (simp add: fun_eq_iff)
qed simp

lemma merge_any_order:
  assumes "mset us = mset (agent_nodes U L now S st)"
  shows "fold merge_update us st = merged_state U L now S st"
proof -
  have "set us = set (agent_nodes U L now S st)" using assms by (rule mset_eq_setD)
  then have "fold merge_update us = fold merge_update (agent_nodes U L now S st)"
    using assms merge_update_commute by (intro fold_multiset_equiv) auto
  then show ?thesis by (simp add: merged_state_def)
qed

lemma merged_state_fields:
  "ps_raw_text (merged_state U L now S st) = ps_raw_text st" "ps_parsed_data (merged_state U L now S st) = ps_parsed_data st"
  "ps_skill_extraction (merged_state U L now S st) = settle S SKILL_AGENT (skill_result U st)"
  "ps_experience_validation (merged_state U L now S st) = settle S EXPERIENCE_AGENT (experience_result U now st)"
  "ps_culture_fit_soft_skills (merged_state U L now S st) = settle S SOFT_SKILLS_AGENT (soft_result U L st)"
  "ps_errors (merged_state U L now S st) = ps_errors st
     ++ (\<lambda>n. if n = SKILL_AGENT then agent_error S SKILL_AGENT (skill_result U st) else None)
     ++ (\<lambda>n. if n = EXPERIENCE_AGENT then agent_error S EXPERIENCE_AGENT (experience_result U now st) else None)
     ++ (\<lambda>n. if n = SOFT_SKILLS_AGENT then agent_error S SOFT_SKILLS_AGENT (soft_result U L st) else None)"
  by (simp_all add: merged_state_def agent_nodes_def Let_def merge_update_def agent_node_fields skill_result_def
      experience_result_def soft_result_def cong: if_cong)

section \<open>Summing up\<close>

definition valid_analysis :: "UnifiedAnalysis \<Rightarrow> bool" where
  "valid_analysis a \<longleftrightarrow> list_all valid_skill_item (us_items (ua_skills a)) \<and> 0 \<le> ue_total_experience_years (ua_experience a)
     \<and> list_all (\<lambda>v. 0 < ov_years v) (ue_overlaps (ua_experience a)) \<and> list_all valid_soft_skill (uf_items (ua_soft_skills a))
     \<and> (case uf_tone (ua_soft_skills a) of None \<Rightarrow> True | Some t \<Rightarrow> valid_tone t) \<and> valid_analysis_fields a
     \<and> dom (ua_errors a) \<subseteq> set AGENTS"

lemma cap_skill_name [simp]: "si_name (fst (cap_skill h v i)) = si_name i"
  by (simp add: cap_skill_def split: option.splits)

lemma cap_skill_valid: "valid_skill_item i \<Longrightarrow> 0 \<le> v \<Longrightarrow> valid_skill_item (fst (cap_skill h v i))"
  using round2_unit [of "si_confidence i * CAPPED_SKILL_CONFIDENCE_FACTOR"]
  by (auto simp: cap_skill_def valid_skill_item_def CAPPED_SKILL_CONFIDENCE_FACTOR_def split: option.splits)

lemma halve_leadership_key [simp]: "ss_key (fst (halve_leadership t v i)) = ss_key i"
  by (simp add: halve_leadership_def)

lemma halve_leadership_valid: "valid_soft_skill i \<Longrightarrow> valid_soft_skill (fst (halve_leadership t v i))"
  using round2_unit [of "ss_score i / 2"] by (auto simp: halve_leadership_def valid_soft_skill_def)

lemma valid_matching_of: "valid_matching (matching_of U sk v so c f p j)"
  by (auto simp: matching_of_def valid_matching_def no_matching_def Let_def split: option.splits)

definition resolved_skills :: "ExperienceAgentOutput \<Rightarrow> SkillAgentOutput \<Rightarrow> SkillItem list" where
  "resolved_skills ex sk = map (\<lambda>i. fst (cap_skill (eo_status ex = Agent_Completed \<and> list_ex en_is_valid (eo_entries ex))
     (if eo_status ex = Agent_Completed then eo_total_experience_years ex else 0) i)) (so_skills sk)"

definition resolved_soft :: "unicode \<Rightarrow> ExperienceAgentOutput \<Rightarrow> SoftSkillsAgentOutput \<Rightarrow> SoftSkillItem list" where
  "resolved_soft U ex so =
     (if eo_status ex = Agent_Completed
      then map (\<lambda>i. fst (halve_leadership
        (list_ex (\<lambda>e. re_found (LEADERSHIP_TITLE U) (case en_job_title e of None \<Rightarrow> [] | Some t \<Rightarrow> t)) (eo_entries ex))
        (eo_total_experience_years ex) i)) (fo_soft_skills so)
      else fo_soft_skills so)"

lemma note_failure_known: "(fst (snd x) = Agent_Failed \<longrightarrow> e (fst x) \<noteq> None) \<Longrightarrow> snd (note_failure x (c, e)) = e"
  by (auto simp: note_failure_def split: prod.splits)

lemma note_failures_known:
  "\<forall>x \<in> set xs. fst (snd x) = Agent_Failed \<longrightarrow> e (fst x) \<noteq> None \<Longrightarrow> snd (fold note_failure xs (c, e)) = e"
proof (induction xs arbitrary: c)
  case (Cons x xs)
  have "snd (note_failure x (c, e)) = e" using Cons.prems by (intro note_failure_known) simp
  then obtain c' where "note_failure x (c, e) = (c', e)" by (metis prod.collapse)
  then show ?case using Cons by simp
qed simp

lemma aggregate_result:
  assumes "output_or_failed so_status so_error failed_skills sp ''no_output'' = sk"
    and "output_or_failed eo_status eo_error failed_experience ep ''no_output'' = ex"
    and "output_or_failed fo_status fo_error failed_soft fp ''no_output'' = so"
    and "valid_soft_output so"
    and "so_status sk = Agent_Failed \<Longrightarrow> errors SKILL_AGENT \<noteq> None" and "eo_status ex = Agent_Failed \<Longrightarrow> errors EXPERIENCE_AGENT \<noteq> None"
    and "fo_status so = Agent_Failed \<Longrightarrow> errors SOFT_SKILLS_AGENT \<noteq> None"
  shows "\<exists>a. aggregate U sp ep fp parsed job timings errors = Inr a \<and> ua_errors a = errors \<and> ua_status a = overall_status errors
    \<and> ua_skills a = \<lparr>us_status = so_status sk, us_items = resolved_skills ex sk\<rparr>
    \<and> ua_experience a = \<lparr>ue_status = eo_status ex,
        ue_total_experience_years = (if eo_status ex = Agent_Completed then eo_total_experience_years ex else 0),
        ue_entries = eo_entries ex, ue_overlaps = eo_overlaps ex, ue_invalid_periods = eo_invalid_periods ex\<rparr>
    \<and> ua_soft_skills a = \<lparr>uf_status = fo_status so, uf_items = resolved_soft U ex so, uf_tone = fo_tone so, uf_confidence = fo_confidence so\<rparr>
    \<and> ua_flags a = eo_flags ex \<and> ua_timings_ms a = timings \<and> valid_analysis_fields a
    \<and> ua_matching a = matching_of U (resolved_skills ex sk)
        (if eo_status ex = Agent_Completed then eo_total_experience_years ex else 0) (resolved_soft U ex so) (fo_confidence so) (eo_flags ex) parsed job"
proof -
  let ?notes = "fold note_failure [(SKILL_AGENT, so_status sk, so_error sk), (EXPERIENCE_AGENT, eo_status ex, eo_error ex),
             (SOFT_SKILLS_AGENT, fo_status so, fo_error so)] ([], errors)"
  have "snd ?notes = errors" using assms(5-7) by (intro note_failures_known) auto
  then obtain failures where noted: "?notes = (failures, errors)" by (metis prod.collapse)
  have items: "map fst (map (cap_skill h v) xs) = map (\<lambda>i. fst (cap_skill h v i)) xs" for h v xs by (simp add: comp_def)
  have soft: "map fst (if eo_status ex = Agent_Completed then map (halve_leadership t v) xs else map (\<lambda>item. (item, [])) xs)
      = (if eo_status ex = Agent_Completed then map (\<lambda>i. fst (halve_leadership t v i)) xs else xs)" for t v xs
    by (simp add: comp_def)
  have soft': "(if eo_status ex = Agent_Completed then map (\<lambda>i. fst (halve_leadership
        (list_ex (\<lambda>e. re_found (LEADERSHIP_TITLE U) (case en_job_title e of None \<Rightarrow> [] | Some t \<Rightarrow> t)) (eo_entries ex))
        (if eo_status ex = Agent_Completed then eo_total_experience_years ex else 0) i)) (fo_soft_skills so) else fo_soft_skills so)
      = resolved_soft U ex so" by (simp add: resolved_soft_def)
  show ?thesis
    unfolding aggregate_def Let_def assms(1-3) noted prod.case items soft soft' resolved_skills_def [symmetric]
    using assms(4) unfolding valid_soft_output_def
    by - (rule exI, rule conjI, rule checked_valid, simp_all add: valid_analysis_fields_def valid_matching_of)
qed

section \<open>A run of the graph\<close>

text \<open>The three results that the nodes compute for a dispatched resume.\<close>

definition agent_outputs ::
  "unicode \<Rightarrow> lexicon \<Rightarrow> int \<Rightarrow> schedule \<Rightarrow> utext \<Rightarrow> ParsedResumeData option
     \<Rightarrow> SkillAgentOutput \<Rightarrow> ExperienceAgentOutput \<Rightarrow> SoftSkillsAgentOutput \<Rightarrow> bool" where
  "agent_outputs U L now S raw_text parsed sk ex so \<longleftrightarrow>
     (let signals = Some (compute_shared_signals U raw_text) in
      (if sc_late S SKILL_AGENT then sk = failed_skills AGENT_TIMEOUT_ERROR
       else run_skill_agent U raw_text parsed signals = Inr sk \<and> so_status sk = Agent_Completed)
      \<and> (if sc_late S EXPERIENCE_AGENT then ex = failed_experience AGENT_TIMEOUT_ERROR
         else run_experience_agent U now raw_text parsed signals = Inr ex \<and> eo_status ex = Agent_Completed)
      \<and> (if sc_late S SOFT_SKILLS_AGENT then so = failed_soft AGENT_TIMEOUT_ERROR
         else case run_soft_skills_agent U L raw_text parsed signals of
                Inr out \<Rightarrow> so = out \<and> fo_status so = Agent_Completed
              | Inl e \<Rightarrow> fo_status so = Agent_Failed \<and> fo_soft_skills so = [] \<and> fo_tone so = None \<and> fo_confidence so = 0)
      \<and> list_all valid_skill_item (so_skills sk) \<and> valid_experience_output ex \<and> 0 \<le> eo_total_experience_years ex \<and> valid_soft_output so)"

lemma failed_outputs_valid:
  "list_all valid_skill_item (so_skills (failed_skills e))" "valid_experience_output (failed_experience e)"
  "eo_total_experience_years (failed_experience e) = 0" "valid_soft_output (failed_soft e)"
  by (simp_all add: failed_skills_def failed_experience_def failed_soft_def valid_experience_output_def valid_soft_output_def)

lemma failed_status [simp]: "so_status (failed_skills e) = Agent_Failed" "eo_status (failed_experience e) = Agent_Failed"
    "fo_status (failed_soft e) = Agent_Failed"
  by (simp_all add: failed_skills_def failed_experience_def failed_soft_def)

lemma run_soft_valid:
  assumes "run_soft_skills_agent U L t parsed signals = Inr out"
  shows "fo_status out = Agent_Completed \<and> valid_soft_output out"
  using assms unfolding run_soft_skills_agent_def Let_def by (auto split: sum.splits)

lemma timeout_text: "or_default (Some AGENT_TIMEOUT_ERROR) d = AGENT_TIMEOUT_ERROR"
  by (simp add: or_default_def AGENT_TIMEOUT_ERROR_def)

lemma output_late:
  "sc_late S name \<Longrightarrow> output_or_failed status err failed (settle S name r) d = failed AGENT_TIMEOUT_ERROR"
  by (simp add: output_or_failed_def settle_def timeout_text)

lemma output_in_time:
  "\<not> sc_late S name \<Longrightarrow> status out = Agent_Completed \<Longrightarrow> output_or_failed status err failed (settle S name (Inr out)) d = out"
  by (simp add: output_or_failed_def settle_def)

lemma error_late: "agent_error S name r = None \<longleftrightarrow> \<not> sc_late S name \<and> (\<exists>x. r = Inr x)"
  by (auto simp: agent_error_def split: sum.splits)

lemma agents_run:
  assumes "now < 2121" and "st = dispatch_node U S (raw_text, parsed, perr)"
  shows "\<exists>sk ex so. agent_outputs U L now S raw_text parsed sk ex so
    \<and> output_or_failed so_status so_error failed_skills (settle S SKILL_AGENT (skill_result U st)) ''no_output'' = sk
    \<and> output_or_failed eo_status eo_error failed_experience (settle S EXPERIENCE_AGENT (experience_result U now st)) ''no_output'' = ex
    \<and> output_or_failed fo_status fo_error failed_soft (settle S SOFT_SKILLS_AGENT (soft_result U L st)) ''no_output'' = so
    \<and> (so_status sk = Agent_Failed \<longleftrightarrow> agent_error S SKILL_AGENT (skill_result U st) \<noteq> None)
    \<and> (eo_status ex = Agent_Failed \<longleftrightarrow> agent_error S EXPERIENCE_AGENT (experience_result U now st) \<noteq> None)
    \<and> (fo_status so = Agent_Failed \<longleftrightarrow> agent_error S SOFT_SKILLS_AGENT (soft_result U L st) \<noteq> None)"
proof -
  let ?sig = "Some (compute_shared_signals U raw_text)"
  have results: "skill_result U st = run_skill_agent U raw_text parsed ?sig"
      "experience_result U now st = run_experience_agent U now raw_text parsed ?sig"
      "soft_result U L st = run_soft_skills_agent U L raw_text parsed ?sig"
    by (simp_all add: assms(2) dispatch_node_def skill_result_def experience_result_def soft_result_def)
  obtain sk0 where sk0: "run_skill_agent U raw_text parsed ?sig = Inr sk0" "so_status sk0 = Agent_Completed"
      "list_all valid_skill_item (so_skills sk0)"
    using run_skill_agent_result [of U raw_text ?sig parsed] extract_plausible [of U raw_text]
    by (simp add: list_all_iff skill_item_valid)
  obtain ex0 where ex0: "run_experience_agent U now raw_text parsed ?sig = Inr ex0" "eo_status ex0 = Agent_Completed"
      "valid_experience_output ex0" "0 \<le> eo_total_experience_years ex0"
    using run_experience_agent_result [OF assms(1), of U raw_text parsed ?sig] by auto
  define sk where "sk = (if sc_late S SKILL_AGENT then failed_skills AGENT_TIMEOUT_ERROR else sk0)"
  define ex where "ex = (if sc_late S EXPERIENCE_AGENT then failed_experience AGENT_TIMEOUT_ERROR else ex0)"
  define so where "so = output_or_failed fo_status fo_error failed_soft (settle S SOFT_SKILLS_AGENT (soft_result U L st)) ''no_output''"
  have so: "(if sc_late S SOFT_SKILLS_AGENT then so = failed_soft AGENT_TIMEOUT_ERROR
       else case run_soft_skills_agent U L raw_text parsed ?sig of
                Inr out \<Rightarrow> so = out \<and> fo_status so = Agent_Completed
              | Inl e \<Rightarrow> fo_status so = Agent_Failed \<and> fo_soft_skills so = [] \<and> fo_tone so = None \<and> fo_confidence so = 0)
      \<and> valid_soft_output so \<and> (fo_status so = Agent_Failed \<longleftrightarrow> agent_error S SOFT_SKILLS_AGENT (soft_result U L st) \<noteq> None)"
  proof (cases "sc_late S SOFT_SKILLS_AGENT")
    case True
    then show ?thesis by (simp add: so_def output_late failed_outputs_valid agent_error_def)
  next
    case False
    then show ?thesis
      using run_soft_valid [of U L raw_text parsed ?sig]
      by (cases "run_soft_skills_agent U L raw_text parsed ?sig")
        (auto simp: so_def results agent_error_def settle_def output_or_failed_def failed_soft_def valid_soft_output_def)
  qed
  have "output_or_failed so_status so_error failed_skills (settle S SKILL_AGENT (skill_result U st)) ''no_output'' = sk"
    using sk0 by (auto simp: sk_def results output_late output_in_time)
  moreover have "output_or_failed eo_status eo_error failed_experience (settle S EXPERIENCE_AGENT (experience_result U now st)) ''no_output'' = ex"
    using ex0 by (auto simp: ex_def results output_late output_in_time)
  moreover have "so_status sk = Agent_Failed \<longleftrightarrow> agent_error S SKILL_AGENT (skill_result U st) \<noteq> None"
    using sk0 by (simp add: sk_def results agent_error_def)
  moreover have "eo_status ex = Agent_Failed \<longleftrightarrow> agent_error S EXPERIENCE_AGENT (experience_result U now st) \<noteq> None"
    using ex0 by (simp add: ex_def results agent_error_def)
  moreover have "agent_outputs U L now S raw_text parsed sk ex so"
    unfolding agent_outputs_def Let_def using sk0 ex0 so failed_outputs_valid(1-3) by (simp add: sk_def ex_def)
  ultimately show ?thesis using so so_def by blast
qed

text \<open>The agents may end in any order.\<close>

definition rearranges :: "(node_update list \<Rightarrow> node_update list) \<Rightarrow> bool" where
  "rearranges arrange \<longleftrightarrow> (\<forall>us. mset (arrange us) = mset us)"

lemma rearranged: "rearranges arrange \<Longrightarrow> fold merge_update (arrange (agent_nodes U L now S st)) st = merged_state U L now S st"
  by (simp add: rearranges_def merge_any_order)

definition failed_agents :: "SkillAgentOutput \<Rightarrow> ExperienceAgentOutput \<Rightarrow> SoftSkillsAgentOutput \<Rightarrow> string set" where
  "failed_agents sk ex so = {n. (n = SKILL_AGENT \<and> so_status sk = Agent_Failed) \<or> (n = EXPERIENCE_AGENT \<and> eo_status ex = Agent_Failed)
     \<or> (n = SOFT_SKILLS_AGENT \<and> fo_status so = Agent_Failed)}"

definition validated_years :: "ExperienceAgentOutput \<Rightarrow> rat" where
  "validated_years ex = (if eo_status ex = Agent_Completed then eo_total_experience_years ex else 0)"

lemma agents_distinct:
  "''parser'' \<notin> {SKILL_AGENT, EXPERIENCE_AGENT, SOFT_SKILLS_AGENT}"
  "SKILL_AGENT \<noteq> EXPERIENCE_AGENT" "SKILL_AGENT \<noteq> SOFT_SKILLS_AGENT" "EXPERIENCE_AGENT \<noteq> SOFT_SKILLS_AGENT"
  by (simp_all add: agent_names)

lemma collected_errors:
  assumes "st = dispatch_node U S (raw_text, parsed, perr)"
  shows "(ps_errors (merged_state U L now S st))(''parser'' := None) =
    (\<lambda>n. if n = SKILL_AGENT then agent_error S SKILL_AGENT (skill_result U st)
      else if n = EXPERIENCE_AGENT then agent_error S EXPERIENCE_AGENT (experience_result U now st)
      else if n = SOFT_SKILLS_AGENT then agent_error S SOFT_SKILLS_AGENT (soft_result U L st) else None)"
proof -
  have "ps_errors st n = None" if "n \<noteq> ''parser''" for n
    using that by (simp add: assms dispatch_node_def split: option.splits)
  then show ?thesis using agents_distinct
    by (auto simp: fun_eq_iff merged_state_fields(6) map_add_def split: option.splits)
qed

lemma pipeline_run:
  assumes "dispatch U R nlp nlp_error file filename = Inr (raw_text, parsed, perr)" and "now < 2121" and "rearranges arrange"
  shows "\<exists>r sk ex so. run_agent_pipeline U L R nlp nlp_error now S arrange file filename job = Inr r
    \<and> agent_outputs U L now S raw_text parsed sk ex so \<and> pr_raw_text r = raw_text \<and> pr_parsed_data r = parsed
    \<and> ua_skills (pr_analysis r) = \<lparr>us_status = so_status sk, us_items = resolved_skills ex sk\<rparr>
    \<and> ua_experience (pr_analysis r) = \<lparr>ue_status = eo_status ex, ue_total_experience_years = validated_years ex,
        ue_entries = eo_entries ex, ue_overlaps = eo_overlaps ex, ue_invalid_periods = eo_invalid_periods ex\<rparr>
    \<and> ua_soft_skills (pr_analysis r) = \<lparr>uf_status = fo_status so, uf_items = resolved_soft U ex so, uf_tone = fo_tone so, uf_confidence = fo_confidence so\<rparr>
    \<and> ua_flags (pr_analysis r) = eo_flags ex \<and> dom (ua_errors (pr_analysis r)) = failed_agents sk ex so
    \<and> ua_status (pr_analysis r) = overall_status (ua_errors (pr_analysis r)) \<and> valid_analysis_fields (pr_analysis r)
    \<and> ua_matching (pr_analysis r) = matching_of U (resolved_skills ex sk) (validated_years ex) (resolved_soft U ex so) (fo_confidence so) (eo_flags ex) parsed job"
proof -
  define st where "st = dispatch_node U S (raw_text, parsed, perr)"
  let ?m = "merged_state U L now S st" and ?e = "(ps_errors (merged_state U L now S st))(''parser'' := None)"
  have fields: "ps_raw_text st = raw_text" "ps_parsed_data st = parsed" by (simp_all add: st_def dispatch_node_def)
  obtain sk ex so where out: "agent_outputs U L now S raw_text parsed sk ex so"
      "output_or_failed so_status so_error failed_skills (settle S SKILL_AGENT (skill_result U st)) ''no_output'' = sk"
      "output_or_failed eo_status eo_error failed_experience (settle S EXPERIENCE_AGENT (experience_result U now st)) ''no_output'' = ex"
      "output_or_failed fo_status fo_error failed_soft (settle S SOFT_SKILLS_AGENT (soft_result U L st)) ''no_output'' = so"
      "so_status sk = Agent_Failed \<longleftrightarrow> agent_error S SKILL_AGENT (skill_result U st) \<noteq> None"
      "eo_status ex = Agent_Failed \<longleftrightarrow> agent_error S EXPERIENCE_AGENT (experience_result U now st) \<noteq> None"
      "fo_status so = Agent_Failed \<longleftrightarrow> agent_error S SOFT_SKILLS_AGENT (soft_result U L st) \<noteq> None"
    using agents_run [OF assms(2) st_def, of L] by blast
  have valid: "valid_soft_output so" using out(1) by (simp add: agent_outputs_def Let_def)
  have mem: "?e n \<noteq> None \<longleftrightarrow> n \<in> failed_agents sk ex so" for n
    unfolding collected_errors [OF st_def] failed_agents_def mem_Collect_eq out(5-7) using agents_distinct
    by (cases "n = SKILL_AGENT"; cases "n = EXPERIENCE_AGENT"; cases "n = SOFT_SKILLS_AGENT") simp_all
  then have dom: "dom ?e = failed_agents sk ex so" by (simp only: dom_def mem_Collect_eq Collect_mem_eq)
  have known: "so_status sk = Agent_Failed \<Longrightarrow> ?e SKILL_AGENT \<noteq> None" "eo_status ex = Agent_Failed \<Longrightarrow> ?e EXPERIENCE_AGENT \<noteq> None"
      "fo_status so = Agent_Failed \<Longrightarrow> ?e SOFT_SKILLS_AGENT \<noteq> None"
    unfolding mem by (simp_all add: failed_agents_def)
  from aggregate_result [OF out(2-4) valid known, of U parsed job
      "(ps_timings ?m)(''supervisor_aggregate'' \<mapsto> timing (fst (sc_clock S ''supervisor_aggregate''), fst (sc_clock S ''supervisor_aggregate'')))"]
  obtain a where a: "aggregate U (settle S SKILL_AGENT (skill_result U st)) (settle S EXPERIENCE_AGENT (experience_result U now st))
        (settle S SOFT_SKILLS_AGENT (soft_result U L st)) parsed job
        ((ps_timings ?m)(''supervisor_aggregate'' \<mapsto> timing (fst (sc_clock S ''supervisor_aggregate''), fst (sc_clock S ''supervisor_aggregate'')))) ?e = Inr a"
      "ua_errors a = ?e" "ua_status a = overall_status ?e" "ua_skills a = \<lparr>us_status = so_status sk, us_items = resolved_skills ex sk\<rparr>"
      "ua_experience a = \<lparr>ue_status = eo_status ex, ue_total_experience_years = validated_years ex,
        ue_entries = eo_entries ex, ue_overlaps = eo_overlaps ex, ue_invalid_periods = eo_invalid_periods ex\<rparr>"
      "ua_soft_skills a = \<lparr>uf_status = fo_status so, uf_items = resolved_soft U ex so, uf_tone = fo_tone so, uf_confidence = fo_confidence so\<rparr>"
      "ua_flags a = eo_flags ex" "valid_analysis_fields a"
      "ua_matching a = matching_of U (resolved_skills ex sk) (validated_years ex) (resolved_soft U ex so) (fo_confidence so) (eo_flags ex) parsed job"
    unfolding validated_years_def by blast
  define r where "r = \<lparr>pr_raw_text = raw_text, pr_parsed_data = parsed,
      pr_analysis = a\<lparr>ua_timings_ms := (ua_timings_ms a)(''supervisor_aggregate'' \<mapsto> timing (sc_clock S ''supervisor_aggregate''),
        ''total'' \<mapsto> timing (0, snd (sc_clock S ''total'')))\<rparr>\<rparr>"
  have run: "run_agent_pipeline U L R nlp nlp_error now S arrange file filename job = Inr r"
    unfolding run_agent_pipeline_def assms(1) sum.case Let_def st_def [symmetric] rearranged [OF assms(3)] aggregate_node_def
      merged_state_fields(1-5) fields a(1) r_def by simp
  have f: "pr_raw_text r = raw_text" "pr_parsed_data r = parsed" "ua_skills (pr_analysis r) = ua_skills a"
      "ua_experience (pr_analysis r) = ua_experience a" "ua_soft_skills (pr_analysis r) = ua_soft_skills a"
      "ua_flags (pr_analysis r) = ua_flags a" "ua_errors (pr_analysis r) = ua_errors a" "ua_status (pr_analysis r) = ua_status a"
      "ua_matching (pr_analysis r) = ua_matching a" "valid_analysis_fields (pr_analysis r) = valid_analysis_fields a"
    by (simp_all add: r_def valid_analysis_fields_def)
  show ?thesis
    by (rule exI [of _ r], rule exI [of _ sk], rule exI [of _ ex], rule exI [of _ so])
      (simp only: run out(1) f a(2-) dom simp_thms)
qed

lemma resolved_skills_valid:
  assumes "agent_outputs U L now S raw_text parsed sk ex so"
  shows "list_all valid_skill_item (resolved_skills ex sk)" and "0 \<le> validated_years ex"
  using assms cap_skill_valid by (auto simp: agent_outputs_def Let_def resolved_skills_def list_all_iff validated_years_def)

lemma resolved_soft_valid:
  assumes "agent_outputs U L now S raw_text parsed sk ex so"
  shows "list_all valid_soft_skill (resolved_soft U ex so)"
  using assms halve_leadership_valid by (auto simp: agent_outputs_def Let_def resolved_soft_def list_all_iff valid_soft_output_def)

lemma resolved_names [simp]:
  "map si_name (resolved_skills ex sk) = map si_name (so_skills sk)" "map ss_key (resolved_soft U ex so) = map ss_key (fo_soft_skills so)"
  by (simp_all add: resolved_skills_def resolved_soft_def comp_def)

section \<open>The score\<close>

lemma round2_add_int: "round2 (round2 x + of_int n) = round2 x + of_int n"
proof -
  have "100 * (round2 x + of_int n) = of_int (round_half_even (100 * x) + 100 * n)"
    by (simp add: round2_def field_simps)
  then have "round_half_even (100 * (round2 x + of_int n)) = round_half_even (100 * x) + 100 * n"
    by (simp only: round_half_even_of_int)
  then show ?thesis by (simp add: round2_def field_simps)
qed

lemma sum_unit: "list_all (\<lambda>x. 0 \<le> x \<and> x \<le> (1::rat)) xs \<Longrightarrow> 0 \<le> sum_list xs \<and> sum_list xs \<le> of_nat (length xs)"
  by (induction xs) auto

lemma soft_bonus_range:
  assumes "list_all valid_soft_skill items" and "0 \<le> c" and "c \<le> 1"
  shows "0 \<le> soft_bonus items c \<and> soft_bonus items c \<le> 5"
proof -
  let ?top = "take 3 (rev (sort (map ss_score items)))"
  have "list_all (\<lambda>x. 0 \<le> x \<and> x \<le> 1) ?top"
    using assms(1) by (auto simp: list_all_iff valid_soft_skill_def dest!: in_set_takeD)
  from sum_unit [OF this] have "0 \<le> sum_list ?top / of_nat (length ?top) \<and> sum_list ?top / of_nat (length ?top) \<le> 1"
    if "?top \<noteq> []" using that by (simp add: divide_le_eq)
  moreover have "0 \<le> max (5 / 10) c \<and> max (5 / 10) c \<le> 1" using assms(2,3) by simp
  ultimately have "0 \<le> sum_list ?top / of_nat (length ?top) * max (5 / 10) c
      \<and> sum_list ?top / of_nat (length ?top) * max (5 / 10) c \<le> 1" if "?top \<noteq> []"
    using that by (meson mult_le_one mult_nonneg_nonneg)
  then show ?thesis by (auto simp: soft_bonus_def Let_def SOFT_SKILL_MAX_BONUS_def mult.assoc)
qed

lemma validation_penalty_range: "0 \<le> validation_penalty flags \<and> validation_penalty flags \<le> 15"
proof -
  have "0 \<le> VALIDATION_PENALTY s" for s by (cases s) simp_all
  then have "0 \<le> sum_list (map (VALIDATION_PENALTY \<circ> fl_severity) flags)" by (intro sum_list_nonneg) auto
  then show ?thesis by (simp add: validation_penalty_def VALIDATION_MAX_PENALTY_def)
qed

lemma score_near_base:
  fixes x :: rat
  assumes "b = round2 x" and "0 \<le> b" and "b \<le> 100" and "0 \<le> bonus" and "bonus \<le> 5" and "0 \<le> penalty" and "penalty \<le> 15"
  shows "b - 15 \<le> max 0 (min 100 (round2 (b + bonus - penalty))) \<and> max 0 (min 100 (round2 (b + bonus - penalty))) \<le> b + 5"
proof -
  have "round2 (b + of_int 5) = b + 5" "round2 (b + of_int (- 15)) = b - 15"
    unfolding assms(1) round2_add_int by simp_all
  then have "round2 (b + bonus - penalty) \<le> b + 5" "b - 15 \<le> round2 (b + bonus - penalty)"
    using round2_mono [of "b + bonus - penalty" "b + of_int 5"] round2_mono [of "b + of_int (- 15)" "b + bonus - penalty"] assms(4-7) by auto
  with assms(2,3) show ?thesis by auto
qed

lemma matching_of_near:
  assumes "list_all valid_soft_skill soft" and "0 \<le> c" and "c \<le> 1"
    and "b = ms_final_score (calculate_matching_score U (matching_input job (map si_name sk) v parsed))"
  shows "\<exists>s. mt_score (matching_of U sk v soft c flags parsed (Some job)) = Some s \<and> 0 \<le> s \<and> s \<le> 100 \<and> b - 15 \<le> s \<and> s \<le> b + 5
    \<and> (flags = [] \<and> soft = [] \<longrightarrow> s = b)"
proof -
  let ?m = "matching_input job (map si_name sk) v parsed"
  let ?bonus = "soft_bonus soft c" and ?pen = "validation_penalty flags"
  have base: "b = round2 (total_score U ?m)" "0 \<le> b" "b \<le> 100"
    using final_score_total [of U ?m] total_range [of U ?m] round2_range [of "total_score U ?m"] by (simp_all add: assms(4))
  have bonus: "0 \<le> ?bonus" "?bonus \<le> 5" using soft_bonus_range [OF assms(1-3)] by simp_all
  have pen: "0 \<le> ?pen" "?pen \<le> 15" using validation_penalty_range [of flags] by simp_all
  have score: "mt_score (matching_of U sk v soft c flags parsed (Some job)) = Some (max 0 (min 100 (round2 (b + ?bonus - ?pen))))"
    by (simp add: matching_of_def Let_def assms(4))
  have "max 0 (min 100 (round2 (b + ?bonus - ?pen))) = b" if "flags = []" "soft = []"
    using base round2_add_int [of "total_score U ?m" 0]
    by (simp add: that soft_bonus_def validation_penalty_def VALIDATION_MAX_PENALTY_def)
  with score score_near_base [OF base bonus pen] show ?thesis by auto
qed

section \<open>What a run guarantees\<close>

text \<open>
  C30. Every readable file ends in an analysis that meets the schema: whatever the resume says, whichever agents fail or exceed their
  time, and however the parse ended, the graph returns an analysis, and all of its confidences, scores, shares, years and the
  final score are in the ranges that the schema declares, also after the conflict rules have changed them.
\<close>

theorem pipeline_output_meets_schema:
  assumes "dispatch U R nlp nlp_error file filename = Inr dispatched" and "now < 2121" and "rearranges arrange"
  shows "\<exists>r. run_agent_pipeline U L R nlp nlp_error now S arrange file filename job = Inr r \<and> valid_analysis (pr_analysis r)"
proof -
  obtain raw_text parsed perr where d: "dispatched = (raw_text, parsed, perr)" by (cases dispatched)
  from pipeline_run [OF assms(1) [unfolded d] assms(2,3), of L S job] obtain r sk ex so where r: "run_agent_pipeline U L R nlp nlp_error now S arrange file filename job = Inr r"
      "agent_outputs U L now S raw_text parsed sk ex so"
      "ua_skills (pr_analysis r) = \<lparr>us_status = so_status sk, us_items = resolved_skills ex sk\<rparr>"
      "ua_experience (pr_analysis r) = \<lparr>ue_status = eo_status ex, ue_total_experience_years = validated_years ex,
        ue_entries = eo_entries ex, ue_overlaps = eo_overlaps ex, ue_invalid_periods = eo_invalid_periods ex\<rparr>"
      "ua_soft_skills (pr_analysis r) = \<lparr>uf_status = fo_status so, uf_items = resolved_soft U ex so, uf_tone = fo_tone so, uf_confidence = fo_confidence so\<rparr>"
      "dom (ua_errors (pr_analysis r)) = failed_agents sk ex so" "valid_analysis_fields (pr_analysis r)"
    by blast
  have "list_all (\<lambda>v. 0 < ov_years v) (eo_overlaps ex)" "(case fo_tone so of None \<Rightarrow> True | Some t \<Rightarrow> valid_tone t)"
    using r(2) by (simp_all add: agent_outputs_def Let_def valid_experience_output_def valid_soft_output_def)
  moreover have "failed_agents sk ex so \<subseteq> set AGENTS" by (auto simp: failed_agents_def AGENTS_def)
  ultimately show ?thesis
    using r resolved_skills_valid [OF r(2)] resolved_soft_valid [OF r(2)] by (intro exI [of _ r]) (simp add: valid_analysis_def)
qed

definition demo_reader :: "nat document_reader" where
  "demo_reader = \<lparr>rd_pdf_opens = (\<lambda>_. False), rd_needs_pass = (\<lambda>_. False), rd_pages = (\<lambda>_. Inr []), rd_ocr = (\<lambda>_. Inr []),
     rd_docx = (\<lambda>n. Some ([utext_of ''Django''], []))\<rparr>"

definition demo_lexicon :: lexicon where
  "demo_lexicon = \<lparr>lx_soft_skills = [], lx_tone = [], lx_passive_en = Eps, lx_passive_fa = []\<rparr>"

definition late_experience :: schedule where
  "late_experience = \<lparr>sc_clock = (\<lambda>_. (0, 1)), sc_late = (\<lambda>n. n = EXPERIENCE_AGENT)\<rparr>"

lemma demo_dispatch:
  "dispatch ascii_tables demo_reader None (\<lambda>_. None) 0 (utext_of ''cv.docx'')
     = Inr (utext_of ''Django'', Some (parse_resume_text ascii_tables None (utext_of ''Django'')), None)"
proof -
  have "extract_raw_text ascii_tables demo_reader 0 (utext_of ''cv.docx'') = Inr (utext_of ''Django'')"
    by (simp add: extract_raw_text_def extract_from_docx_def demo_reader_def utext_of_def ascii_tables_def suffix_to_prefix cp_ascii_lower_def
        ustrip_def strip_by_def Let_def normalize_text_def join_lines_def splitlines_plain line_break_def words_def class_runs.simps join_words_def)
  then show ?thesis by (simp add: dispatch_def)
qed

lemma rearranges_rev: "rearranges rev"
  by (simp add: rearranges_def)

theorem pipeline_output_meets_schema_witness:
  "\<exists>r. run_agent_pipeline ascii_tables demo_lexicon demo_reader None (\<lambda>_. None) 2026 late_experience rev 0 (utext_of ''cv.docx'') None = Inr r
     \<and> valid_analysis (pr_analysis r)"
  by (rule pipeline_output_meets_schema [OF demo_dispatch _ rearranges_rev]) simp

definition soft_outcome :: "unicode \<Rightarrow> lexicon \<Rightarrow> utext \<Rightarrow> ParsedResumeData option \<Rightarrow> string + SoftSkillsAgentOutput" where
  "soft_outcome U L raw_text parsed = run_soft_skills_agent U L raw_text parsed (Some (compute_shared_signals U raw_text))"

definition failing_agents :: "unicode \<Rightarrow> lexicon \<Rightarrow> schedule \<Rightarrow> utext \<Rightarrow> ParsedResumeData option \<Rightarrow> string set" where
  "failing_agents U L S raw_text parsed =
     {n \<in> set AGENTS. sc_late S n \<or> (n = SOFT_SKILLS_AGENT \<and> isl (soft_outcome U L raw_text parsed))}"

lemma in_failing_agents:
  "SKILL_AGENT \<in> failing_agents U L S t p \<longleftrightarrow> sc_late S SKILL_AGENT"
  "EXPERIENCE_AGENT \<in> failing_agents U L S t p \<longleftrightarrow> sc_late S EXPERIENCE_AGENT"
  "SOFT_SKILLS_AGENT \<in> failing_agents U L S t p \<longleftrightarrow> sc_late S SOFT_SKILLS_AGENT \<or> isl (soft_outcome U L t p)"
  using agents_distinct by (auto simp: failing_agents_def AGENTS_def)

lemma outputs_sections:
  assumes "agent_outputs U L now S raw_text parsed sk ex so" and "now < 2121"
  defines "F \<equiv> failing_agents U L S raw_text parsed"
  shows "map si_name (so_skills sk) = (if SKILL_AGENT \<in> F then [] else match_skills U raw_text)"
    and "eo_entries ex = (if EXPERIENCE_AGENT \<in> F then [] else agent_entries U now (work_of parsed))"
    and "map ss_key (fo_soft_skills so) = (if SOFT_SKILLS_AGENT \<in> F then [] else map ss_key (fo_soft_skills (projr (soft_outcome U L raw_text parsed))))"
    and "failed_agents sk ex so = F"
proof -
  let ?sig = "Some (compute_shared_signals U raw_text)"
  note o = assms(1) [unfolded agent_outputs_def Let_def]
  have "plausible_claims (claims_in U raw_text ?sig)" using extract_plausible [of U raw_text] by simp
  from run_skill_agent_result [OF this, of parsed] show "map si_name (so_skills sk) = (if SKILL_AGENT \<in> F then [] else match_skills U raw_text)"
    using o by (auto simp: F_def in_failing_agents failed_skills_def comp_def split: if_splits)
  from run_experience_agent_result [OF assms(2), of U raw_text parsed ?sig]
  show "eo_entries ex = (if EXPERIENCE_AGENT \<in> F then [] else agent_entries U now (work_of parsed))"
    using o by (auto simp: F_def in_failing_agents failed_experience_def split: if_splits)
  show "map ss_key (fo_soft_skills so) = (if SOFT_SKILLS_AGENT \<in> F then [] else map ss_key (fo_soft_skills (projr (soft_outcome U L raw_text parsed))))"
    using o by (auto simp: F_def in_failing_agents failed_soft_def soft_outcome_def split: if_splits sum.splits)
  have st: "so_status sk = Agent_Failed \<longleftrightarrow> SKILL_AGENT \<in> F" "eo_status ex = Agent_Failed \<longleftrightarrow> EXPERIENCE_AGENT \<in> F"
      "fo_status so = Agent_Failed \<longleftrightarrow> SOFT_SKILLS_AGENT \<in> F"
    using o by (auto simp: F_def in_failing_agents soft_outcome_def split: if_splits sum.splits)
  have "F \<subseteq> set AGENTS" by (simp add: F_def failing_agents_def)
  then show "failed_agents sk ex so = F" unfolding failed_agents_def st by (auto simp: AGENTS_def)
qed

lemma all_filtered: "length (filter P xs) = length xs \<longleftrightarrow> (\<forall>x \<in> set xs. P x)"
  using length_filter_less [of _ xs P] by (metis filter_True less_irrefl)

lemma overall_status_dom:
  assumes "dom e \<subseteq> set AGENTS"
  shows "overall_status e = (if dom e = {} then All_Completed else if dom e = set AGENTS then All_Failed else Partly_Completed)"
proof -
  have d: "e n \<noteq> None \<longleftrightarrow> n \<in> dom e" for n by auto
  have "filter (\<lambda>name. e name \<noteq> None) AGENTS = [] \<longleftrightarrow> dom e = {}" using assms by (auto simp: d filter_empty_conv)
  moreover have "length (filter (\<lambda>name. e name \<noteq> None) AGENTS) = length AGENTS \<longleftrightarrow> dom e = set AGENTS"
    unfolding all_filtered d using assms by auto
  ultimately show ?thesis by (simp only: overall_status_def Let_def)
qed

lemma pipeline_order:
  "rearranges f \<Longrightarrow> rearranges g \<Longrightarrow>
     run_agent_pipeline U L R nlp nlp_error now S f file filename job = run_agent_pipeline U L R nlp nlp_error now S g file filename job"
  by (simp only: run_agent_pipeline_def rearranged)

text \<open>
  C31. A failing agent costs its own section and no other: the text, the parse, the names of the skills, the rows of the work history and the
  soft skills are what each agent alone returns, or empty for an agent that failed or was too late; the errors name exactly these agents, the overall status counts
  them, and the order in which the agents end changes nothing.
\<close>

theorem failed_agent_is_contained:
  assumes "dispatch U R nlp nlp_error file filename = Inr (raw_text, parsed, perr)" and "now < 2121" and "rearranges arrange"
    and "failing = failing_agents U L S raw_text parsed"
  shows "\<exists>r. run_agent_pipeline U L R nlp nlp_error now S arrange file filename job = Inr r
    \<and> run_agent_pipeline U L R nlp nlp_error now S id file filename job = Inr r
    \<and> pr_raw_text r = raw_text \<and> pr_parsed_data r = parsed
    \<and> map si_name (us_items (ua_skills (pr_analysis r))) = (if SKILL_AGENT \<in> failing then [] else match_skills U raw_text)
    \<and> ue_entries (ua_experience (pr_analysis r)) = (if EXPERIENCE_AGENT \<in> failing then [] else agent_entries U now (work_of parsed))
    \<and> map ss_key (uf_items (ua_soft_skills (pr_analysis r))) =
        (if SOFT_SKILLS_AGENT \<in> failing then [] else map ss_key (fo_soft_skills (projr (soft_outcome U L raw_text parsed))))
    \<and> dom (ua_errors (pr_analysis r)) = failing
    \<and> ua_status (pr_analysis r) = (if failing = {} then All_Completed else if failing = set AGENTS then All_Failed else Partly_Completed)"
proof -
  from pipeline_run [OF assms(1-3), of L S job]
  obtain r sk ex so where r: "run_agent_pipeline U L R nlp nlp_error now S arrange file filename job = Inr r"
      "agent_outputs U L now S raw_text parsed sk ex so" "pr_raw_text r = raw_text" "pr_parsed_data r = parsed"
      "ua_skills (pr_analysis r) = \<lparr>us_status = so_status sk, us_items = resolved_skills ex sk\<rparr>"
      "ua_experience (pr_analysis r) = \<lparr>ue_status = eo_status ex, ue_total_experience_years = validated_years ex,
        ue_entries = eo_entries ex, ue_overlaps = eo_overlaps ex, ue_invalid_periods = eo_invalid_periods ex\<rparr>"
      "ua_soft_skills (pr_analysis r) = \<lparr>uf_status = fo_status so, uf_items = resolved_soft U ex so, uf_tone = fo_tone so, uf_confidence = fo_confidence so\<rparr>"
      "dom (ua_errors (pr_analysis r)) = failed_agents sk ex so" "ua_status (pr_analysis r) = overall_status (ua_errors (pr_analysis r))"
    by blast
  note sec = outputs_sections [OF r(2) assms(2), folded assms(4)]
  have "failing \<subseteq> set AGENTS" by (simp add: assms(4) failing_agents_def)
  then have "ua_status (pr_analysis r) = (if failing = {} then All_Completed else if failing = set AGENTS then All_Failed else Partly_Completed)"
    unfolding r(9) using overall_status_dom [of "ua_errors (pr_analysis r)"] r(8) sec(4) by simp
  moreover have "rearranges id" by (simp add: rearranges_def)
  note order = pipeline_order [OF this assms(3)]
  ultimately show ?thesis
    using r sec unfolding order by (intro exI [of _ r]) simp
qed

theorem failed_agent_is_contained_witness:
  "\<exists>r. run_agent_pipeline ascii_tables demo_lexicon demo_reader None (\<lambda>_. None) 2026 late_experience rev 0 (utext_of ''cv.docx'') None = Inr r
     \<and> map si_name (us_items (ua_skills (pr_analysis r))) = match_skills ascii_tables (utext_of ''Django'')
     \<and> ue_entries (ua_experience (pr_analysis r)) = [] \<and> ua_status (pr_analysis r) = Partly_Completed"
proof -
  let ?F = "failing_agents ascii_tables demo_lexicon late_experience (utext_of ''Django'') (Some (parse_resume_text ascii_tables None (utext_of ''Django'')))"
  have F: "SKILL_AGENT \<notin> ?F" "EXPERIENCE_AGENT \<in> ?F"
    using agents_distinct by (simp_all add: in_failing_agents late_experience_def)
  then have "?F \<noteq> {}" "?F \<noteq> set AGENTS" by (auto simp: AGENTS_def)
  with F failed_agent_is_contained [OF demo_dispatch _ rearranges_rev refl, of 2026 demo_lexicon late_experience None]
  show ?thesis by auto
qed

text \<open>
  The final score: it lies between 0 and 100, at most 15 points below and 5 points above the matching score of the skills, the titles, the
  education and the validated years, and it is that score when there is no warning and no soft skill.
\<close>

theorem final_score_bounds:
  assumes "dispatch U R nlp nlp_error file filename = Inr dispatched" and "now < 2121" and "rearranges arrange"
  shows "\<exists>r s b. run_agent_pipeline U L R nlp nlp_error now S arrange file filename (Some job) = Inr r
    \<and> mt_score (ua_matching (pr_analysis r)) = Some s \<and> 0 \<le> s \<and> s \<le> 100
    \<and> b = ms_final_score (calculate_matching_score U (matching_input job (map si_name (us_items (ua_skills (pr_analysis r))))
            (ue_total_experience_years (ua_experience (pr_analysis r))) (pr_parsed_data r)))
    \<and> b - 15 \<le> s \<and> s \<le> b + 5
    \<and> (ua_flags (pr_analysis r) = [] \<and> uf_items (ua_soft_skills (pr_analysis r)) = [] \<longrightarrow> s = b)"
proof -
  obtain raw_text parsed perr where d: "dispatched = (raw_text, parsed, perr)" by (cases dispatched)
  from pipeline_run [OF assms(1) [unfolded d] assms(2,3), of L S "Some job"] obtain r sk ex so where
      r: "run_agent_pipeline U L R nlp nlp_error now S arrange file filename (Some job) = Inr r"
      "agent_outputs U L now S raw_text parsed sk ex so" "pr_parsed_data r = parsed"
      "ua_skills (pr_analysis r) = \<lparr>us_status = so_status sk, us_items = resolved_skills ex sk\<rparr>"
      "ua_experience (pr_analysis r) = \<lparr>ue_status = eo_status ex, ue_total_experience_years = validated_years ex,
        ue_entries = eo_entries ex, ue_overlaps = eo_overlaps ex, ue_invalid_periods = eo_invalid_periods ex\<rparr>"
      "ua_soft_skills (pr_analysis r) = \<lparr>uf_status = fo_status so, uf_items = resolved_soft U ex so, uf_tone = fo_tone so, uf_confidence = fo_confidence so\<rparr>"
      "ua_flags (pr_analysis r) = eo_flags ex"
      "ua_matching (pr_analysis r) = matching_of U (resolved_skills ex sk) (validated_years ex) (resolved_soft U ex so) (fo_confidence so) (eo_flags ex) parsed (Some job)"
    by blast
  have "0 \<le> fo_confidence so" "fo_confidence so \<le> 1" using r(2) by (simp_all add: agent_outputs_def Let_def valid_soft_output_def)
  note near = matching_of_near [OF resolved_soft_valid [OF r(2)] this refl, of U "resolved_skills ex sk" "validated_years ex" "eo_flags ex" parsed job]
  let ?b = "ms_final_score (calculate_matching_score U (matching_input job (map si_name (resolved_skills ex sk)) (validated_years ex) parsed))"
  obtain s where s: "mt_score (ua_matching (pr_analysis r)) = Some s \<and> 0 \<le> s \<and> s \<le> 100 \<and> ?b - 15 \<le> s \<and> s \<le> ?b + 5
      \<and> (eo_flags ex = [] \<and> resolved_soft U ex so = [] \<longrightarrow> s = ?b)"
    unfolding r(8) using near by blast
  show ?thesis by (rule exI [of _ r], rule exI [of _ s], rule exI [of _ ?b]) (use r(1,3-7) s in simp)
qed

theorem final_score_bounds_witness:
  "\<exists>r s. run_agent_pipeline ascii_tables demo_lexicon demo_reader None (\<lambda>_. None) 2026 late_experience rev 0 (utext_of ''cv.docx'')
       (Some \<lparr>jx_title = [], jx_skills_required = None, jx_required_seniority = None, jx_required_education = None, jx_location = None,
          jx_description = None, jx_candidate_location = None\<rparr>) = Inr r
     \<and> mt_score (ua_matching (pr_analysis r)) = Some s \<and> 0 \<le> s \<and> s \<le> 100"
proof -
  have now: "(2026 :: int) < 2121" by simp
  from final_score_bounds [OF demo_dispatch now rearranges_rev] show ?thesis by blast
qed

end
