(* ===== verification/Processing_Properties.thy ===== *)
theory Processing_Properties
  imports Pipeline_Properties Privacy_Properties
begin

text \<open>
  The processing job as a whole: both pipelines leave the same data, except for the opinion of the agents; and a job that was
  running while the account was deleted.
\<close>

section \<open>One analysis\<close>

lemma entry_analysis_inverse: "entry_analysis (experience_entry (i, a)) = a"
  by (cases a) (simp add: entry_analysis_def experience_entry_def)

lemma entries_agree: "map entry_analysis (agent_entries U now work) = map (analyze_entry U now) work"
  by (rule nth_equalityI) (simp_all add: agent_entries_nth entry_analysis_inverse)

text \<open>All valid rows give their years in one calendar.\<close>

definition one_calendar :: "unicode \<Rightarrow> int \<Rightarrow> work_experience_entry list \<Rightarrow> bool" where
  "one_calendar U now work \<longleftrightarrow> (\<exists>b. \<forall>w \<in> set work. ee_is_valid (analyze_entry U now w) \<longrightarrow>
     ((the (ee_start_year (analyze_entry U now w)) < SHAMSI_YEAR_THRESHOLD) = b))"

lemma years_intervals: "years (concat (map valid_interval as)) = (\<Union>a \<in> set as. years (valid_interval a))"
  by (induction as) (simp_all del: valid_interval.simps)

lemma totals_agree:
  assumes "now < 2121" and "one_calendar U now work"
  shows "fst (analyze_work_experience U now work) = of_nat (card (\<Union>e \<in> set (agent_entries U now work). role_years e))"
proof -
  let ?iv = "concat (map valid_interval (map (analyze_entry U now) work))"
  have "\<forall>(s, e) \<in> set ?iv. s \<le> e"
    using valid_row [OF _ assms(1)] by (fastforce simp: valid_interval_mem simp del: valid_interval.simps)
  then have total: "fst (analyze_work_experience U now work) = of_nat (card (years ?iv))"
    by (simp add: analyze_work_experience_def Let_def merge_card del: valid_interval.simps)
  obtain b where b: "\<And>w. w \<in> set work \<Longrightarrow> ee_is_valid (analyze_entry U now w) \<Longrightarrow>
      (the (ee_start_year (analyze_entry U now w)) < SHAMSI_YEAR_THRESHOLD) = b"
    using assms(2) by (auto simp: one_calendar_def)
  define c where "c = (if b then SHAMSI_TO_GREGORIAN_OFFSET else 0)"
  have row: "role_years (experience_entry (i, analyze_entry U now w)) = (+) c ` years (valid_interval (analyze_entry U now w))"
    if "w \<in> set work" for w i
  proof (cases "ee_is_valid (analyze_entry U now w)")
    case True
    with valid_row [OF True assms(1)] b [OF that True] show ?thesis
      by (auto simp: role_years_def experience_entry_def span_def gregorian_def c_def add.commute)
  next
    case False
    then show ?thesis by (auto simp: role_years_def experience_entry_def split: option.splits)
  qed
  have "agent_entries U now work = map (\<lambda>i. experience_entry (i, analyze_entry U now (work ! i))) [0..<length work]"
    by (rule nth_equalityI) (simp_all add: agent_entries_nth)
  then have "(\<Union>e \<in> set (agent_entries U now work). role_years e)
      = (\<Union>i \<in> {..<length work}. role_years (experience_entry (i, analyze_entry U now (work ! i))))"
    by (simp add: atLeast0LessThan)
  also have "\<dots> = (\<Union>i \<in> {..<length work}. (+) c ` years (valid_interval (analyze_entry U now (work ! i))))"
    using row by simp
  also have "\<dots> = (+) c ` (\<Union>w \<in> set work. years (valid_interval (analyze_entry U now w)))"
  proof -
    have "set work = (!) work ` {..<length work}" by (force simp: set_conv_nth)
    then show ?thesis by (simp only: image_UN UN_simps image_image)
  qed
  finally have "(\<Union>e \<in> set (agent_entries U now work). role_years e) = (+) c ` years ?iv"
    using years_intervals [of "map (analyze_entry U now) work"] by (simp del: valid_interval.simps map_map)
  then show ?thesis using total by (simp add: card_image)
qed

section \<open>Both pipelines\<close>

lemma match_skills_sorted: "sort (remdups (match_skills U text)) = match_skills U text"
  by (simp add: match_skills_def distinct_remdups_id sorted_sort_id)

lemma analysis_agrees:
  assumes "agent_outputs U L now S raw_text (Some p) sk ex so" and "now < 2121" and "\<not> sc_late S SKILL_AGENT" and "\<not> sc_late S EXPERIENCE_AGENT"
    and "one_calendar U now (pd_work_experience p)"
    and "ua_skills a = \<lparr>us_status = so_status sk, us_items = resolved_skills ex sk\<rparr>"
    and "ua_experience a = \<lparr>ue_status = eo_status ex, ue_total_experience_years = validated_years ex,
        ue_entries = eo_entries ex, ue_overlaps = eo_overlaps ex, ue_invalid_periods = eo_invalid_periods ex\<rparr>"
  shows "to_skill_analysis a = run_skill_engine U now raw_text (pd_work_experience p)"
    and "map si_name (resolved_skills ex sk) = match_skills U raw_text"
    and "validated_years ex = sa_total_experience_years (run_skill_engine U now raw_text (pd_work_experience p))"
    and "so_status sk = Agent_Completed"
proof -
  let ?sig = "Some (compute_shared_signals U raw_text)"
  note o = assms(1) [unfolded agent_outputs_def Let_def]
  show names: "map si_name (resolved_skills ex sk) = match_skills U raw_text"
    using outputs_sections(1) [OF assms(1,2)] assms(3) by (simp add: in_failing_agents)
  have ents: "eo_entries ex = agent_entries U now (pd_work_experience p)"
    using outputs_sections(2) [OF assms(1,2)] assms(4) by (simp add: in_failing_agents work_of_def)
  have "eo_status ex = Agent_Completed" "run_experience_agent U now raw_text (Some p) ?sig = Inr ex" using o assms(4) by auto
  then have "validated_years ex = of_nat (card (\<Union>e \<in> set (agent_entries U now (pd_work_experience p)). role_years e))"
    using run_experience_agent_result [OF assms(2), of U raw_text "Some p" ?sig] by (auto simp: validated_years_def work_of_def)
  then have years: "validated_years ex = fst (analyze_work_experience U now (pd_work_experience p))"
    using totals_agree [OF assms(2,5)] by simp
  then show "validated_years ex = sa_total_experience_years (run_skill_engine U now raw_text (pd_work_experience p))"
    by (simp add: run_skill_engine_def case_prod_beta)
  have "snd (analyze_work_experience U now (pd_work_experience p)) = map (analyze_entry U now) (pd_work_experience p)"
    by (simp add: analyze_work_experience_def Let_def)
  with names ents years assms(6,7) show "to_skill_analysis a = run_skill_engine U now raw_text (pd_work_experience p)"
    by (simp add: to_skill_analysis_def run_skill_engine_def case_prod_beta entries_agree match_skills_sorted)
  show "so_status sk = Agent_Completed" using o assms(3) by simp
qed

text \<open>What a job leaves of a resume, without the opinion of the agents.\<close>

definition plain :: "resume \<Rightarrow> resume" where "plain r = r\<lparr>r_agent_analysis := None\<rparr>"

lemma load_context_facts:
  assumes "load_job_context d application_id r = Inr (Some job)"
  shows "\<exists>aid. uuid_of_str application_id = Some aid \<and> aid \<in> set (map a_id (applications d))"
  using assms scalar_filter_Some
  by (fastforce simp: load_job_context_def split: option.splits sum.splits)

lemma resume_by_url_Some:
  assumes "resume_by_url d url = Inr (Some r)"
  shows "filter (\<lambda>r. r_file_url r = url) (resumes d) = [r]" and "r \<in> set (resumes d)" and "r_file_url r = url"
proof -
  show f: "filter (\<lambda>r. r_file_url r = url) (resumes d) = [r]"
    using assms by (simp add: resume_by_url_def scalar_one_or_none_Some)
  then have "r \<in> set (filter (\<lambda>r. r_file_url r = url) (resumes d))" by simp
  then show "r \<in> set (resumes d)" "r_file_url r = url" by auto
qed

text \<open>
  C32. Both pipelines do the same work: on a readable resume whose parse succeeds, with skill and experience agents in time and the valid periods in one
  calendar, they write the same text, index, parsed data and skill analysis to the same resume and touch no other row; the score
  of the application differs by at most 15 points down and 5 points up before rounding, and not at all without warnings and soft skills.
\<close>

theorem pipelines_agree:
  assumes "now < 2121" and "rearranges arrange" and "download url = Some bytes" and "extract_raw_text U R bytes (utext_of url) = Inr raw_text"
    and "nlp_error raw_text = None" and "\<not> sc_late S SKILL_AGENT" and "\<not> sc_late S EXPERIENCE_AGENT"
    and "one_calendar U now (pd_work_experience (parse_resume_text U nlp raw_text))"
    and "resume_by_url d url = Inr (Some r)" and "load_job_context d application_id r = Inr (Some job)"
    and "pipeline = run_agent_pipeline U L R nlp nlp_error now S arrange"
  shows "\<exists>dl dm sl sm aid a. process_resume_linear U hmac say R nlp nlp_error download now application_id url d = Inr dl
    \<and> process_resume_multi_agent U hmac say dump pipeline download application_id url d d = Inr dm
    \<and> map plain (resumes dl) = map plain (resumes dm) \<and> list_all2 (\<lambda>x y. r_id x = r_id r \<or> y = x) (resumes d) (resumes dm)
    \<and> uuid_of_str application_id = Some aid \<and> dl = write_score aid sl (dl\<lparr>applications := applications d\<rparr>)
    \<and> dm = write_score aid sm (dm\<lparr>applications := applications d\<rparr>) \<and> dm\<lparr>resumes := [], applications := []\<rparr> = d\<lparr>resumes := [], applications := []\<rparr>
    \<and> sl - 15 \<le> sm \<and> sm \<le> sl + 5 \<and> map_sum id pr_analysis (pipeline bytes (utext_of url) (Some job)) = Inr a
    \<and> (ua_flags a = [] \<and> uf_items (ua_soft_skills a) = [] \<longrightarrow> sm = sl)"
proof -
  let ?p = "parse_resume_text U nlp raw_text"
  have disp: "dispatch U R nlp nlp_error bytes (utext_of url) = Inr (raw_text, Some ?p, None)" by (simp add: dispatch_def assms(4,5))
  from pipeline_run [OF disp assms(1,2), of L S "Some job"] obtain res sk ex so where
      res: "run_agent_pipeline U L R nlp nlp_error now S arrange bytes (utext_of url) (Some job) = Inr res"
      "agent_outputs U L now S raw_text (Some ?p) sk ex so" "pr_raw_text res = raw_text" "pr_parsed_data res = Some ?p"
      "ua_skills (pr_analysis res) = \<lparr>us_status = so_status sk, us_items = resolved_skills ex sk\<rparr>"
      "ua_experience (pr_analysis res) = \<lparr>ue_status = eo_status ex, ue_total_experience_years = validated_years ex,
        ue_entries = eo_entries ex, ue_overlaps = eo_overlaps ex, ue_invalid_periods = eo_invalid_periods ex\<rparr>"
      "ua_soft_skills (pr_analysis res) = \<lparr>uf_status = fo_status so, uf_items = resolved_soft U ex so, uf_tone = fo_tone so, uf_confidence = fo_confidence so\<rparr>"
      "ua_flags (pr_analysis res) = eo_flags ex"
      "ua_matching (pr_analysis res) = matching_of U (resolved_skills ex sk) (validated_years ex) (resolved_soft U ex so) (fo_confidence so) (eo_flags ex) (Some ?p) (Some job)"
    by blast
  note agree = analysis_agrees [OF res(2) assms(1,6,7,8) res(5,6)]
  obtain aid where aid: "uuid_of_str application_id = Some aid" "aid \<in> set (map a_id (applications d))"
    using load_context_facts [OF assms(10)] by blast
  define sl where "sl = ms_final_score (calculate_matching_score U (matching_input job (match_skills U raw_text) (validated_years ex) (Some ?p)))"
  have conf: "0 \<le> fo_confidence so" "fo_confidence so \<le> 1" using res(2) by (simp_all add: agent_outputs_def Let_def valid_soft_output_def)
  have "sl = ms_final_score (calculate_matching_score U (matching_input job (map si_name (resolved_skills ex sk)) (validated_years ex) (Some ?p)))"
    unfolding sl_def agree(2) ..
  from matching_of_near [OF resolved_soft_valid [OF res(2)] conf this]
  obtain sm where sm: "mt_score (ua_matching (pr_analysis res)) = Some sm" "sl - 15 \<le> sm" "sm \<le> sl + 5"
      "eo_flags ex = [] \<and> resolved_soft U ex so = [] \<longrightarrow> sm = sl"
    unfolding res(9) by blast
  let ?f = "\<lambda>x. (store_text hmac U raw_text (Some ?p) x)\<lparr>r_skill_analysis := Some (skill_analysis_json say (run_skill_engine U now raw_text (pd_work_experience ?p)))\<rparr>"
  let ?g = "\<lambda>x. (?f x)\<lparr>r_agent_analysis := Some (dump (pr_analysis res))\<rparr>"
  let ?dl = "write_score aid sl (write_resume (r_id r) ?f d)" and ?dm = "write_score aid sm (write_resume (r_id r) ?g d)"
  have sel: "select_resumes SYSTEM_CONTEXT d = resumes d" "select_applications SYSTEM_CONTEXT d = applications d" for d by simp_all
  have skills: "sa_skills (run_skill_engine U now raw_text w) = match_skills U raw_text" for w by (simp add: run_skill_engine_def case_prod_beta)
  have linear: "process_resume_linear U hmac say R nlp nlp_error download now application_id url d = Inr ?dl"
    by (simp add: process_resume_linear_def assms(3,4,5,9,10) linear_score_def aid(1) work_of_def skills agree(3) [symmetric] sl_def Let_def)
  have multi: "process_resume_multi_agent U hmac say dump pipeline download application_id url d d = Inr ?dm"
  proof -
    have "r_id r \<in> set (map r_id (resumes d))" using resume_by_url_Some(2) [OF assms(9)] by simp
    moreover have "aid \<in> set (map a_id (applications (write_resume (r_id r) ?g d)))" using aid(2) by (simp add: write_resume_def)
    ultimately show ?thesis
      by (simp add: process_resume_multi_agent_def begin_multi_agent_def assms(3,9,10,11) res(1,3,4,5) store_multi_agent_def Let_def sm(1) aid(1)
          agree(1,4) sel del: set_map)
  qed
  have rows: "map plain (resumes ?dl) = map plain (resumes ?dm)"
    by (simp add: write_score_def write_resume_def update_where_def plain_def)
  have others: "list_all2 (\<lambda>x y. r_id x = r_id r \<or> y = x) (resumes d) (resumes ?dm)"
    by (simp add: write_score_def write_resume_def update_where_def list_all2_map2 list_all2_same)
  show ?thesis
    by (rule exI [of _ ?dl], rule exI [of _ ?dm], rule exI [of _ sl], rule exI [of _ sm], rule exI [of _ aid], rule exI [of _ "pr_analysis res"])
      (use linear multi rows others aid(1) sm(2-4) res(1,7,8) in \<open>simp add: assms(11) write_score_def write_resume_def\<close>)
qed

lemma one_line_no_work:
  assumes "splitlines (normalize_digits t) = [l]"
  shows "pd_work_experience (parse_resume_text U nlp t) = []"
  using assms by (auto simp: parse_resume_text_def Let_def split_into_sections_def extract_work_experience_def ustrip_def strip_by_def split: option.splits)

definition upload_db :: db where
  "upload_db = demo_db\<lparr>users := [demo_user 7 ''Candidate'' None], resumes := [\<lparr>r_id = 30, r_tenant_id = 5, r_candidate_id = 3, r_file_url = ''cv.docx'', r_raw_text = None,
     r_search_tokens = None, r_parsed_data = None, r_skill_analysis = None, r_agent_analysis = None\<rparr>]\<rparr>"

definition upload_reader :: "nat list document_reader" where
  "upload_reader = \<lparr>rd_pdf_opens = (\<lambda>_. False), rd_needs_pass = (\<lambda>_. False), rd_pages = (\<lambda>_. Inr []), rd_ocr = (\<lambda>_. Inr []),
     rd_docx = (\<lambda>n. Some ([utext_of ''Django''], []))\<rparr>"

definition in_time :: schedule where
  "in_time = \<lparr>sc_clock = (\<lambda>_. (0, 1)), sc_late = (\<lambda>_. False)\<rparr>"

lemma upload_text: "extract_raw_text ascii_tables upload_reader [] (utext_of ''cv.docx'') = Inr (utext_of ''Django'')"
  by (simp add: extract_raw_text_def extract_from_docx_def upload_reader_def utext_of_def ascii_tables_def suffix_to_prefix cp_ascii_lower_def
      ustrip_def strip_by_def Let_def normalize_text_def join_lines_def splitlines_plain line_break_def words_def class_runs.simps join_words_def)

lemma upload_rows:
  "resume_by_url upload_db ''cv.docx'' = Inr (Some (hd (resumes upload_db)))"
  "load_job_context upload_db (str_of_uuid 11) (hd (resumes upload_db)) = Inr (Some (context_of_job demo_job (Some (hd (candidates demo_db)))))"
  using uuid_round_trip [of 11]
  by (simp_all add: resume_by_url_def load_job_context_def upload_db_def demo_db_def demo_application_def demo_job_def)

theorem pipelines_agree_witness:
  "\<exists>dl dm. process_resume_linear ascii_tables (\<lambda>_. []) (\<lambda>_. []) upload_reader None (\<lambda>_. None) (\<lambda>_. Some []) 2026 (str_of_uuid 11) ''cv.docx'' upload_db = Inr dl
     \<and> process_resume_multi_agent ascii_tables (\<lambda>_. []) (\<lambda>_. []) (\<lambda>_. JNull)
         (run_agent_pipeline ascii_tables demo_lexicon upload_reader None (\<lambda>_. None) 2026 in_time rev) (\<lambda>_. Some []) (str_of_uuid 11) ''cv.docx'' upload_db upload_db = Inr dm
     \<and> map plain (resumes dl) = map plain (resumes dm)"
proof -
  have now: "(2026 :: int) < 2121" and d: "(\<lambda>_. Some []) ''cv.docx'' = Some ([] :: nat list)" and n: "(\<lambda>_. None) (utext_of ''Django'') = (None :: string option)"
    by simp_all
  have late: "\<not> sc_late in_time n" for n by (simp add: in_time_def)
  have "splitlines (normalize_digits (utext_of ''Django'')) = [utext_of ''Django'']"
    by (simp add: utext_of_def normalize_digits_def splitlines_plain line_break_def)
  then have cal: "one_calendar ascii_tables 2026 (pd_work_experience (parse_resume_text ascii_tables None (utext_of ''Django'')))"
    by (simp add: one_line_no_work one_calendar_def)
  from pipelines_agree [OF now rearranges_rev d upload_text n late late cal upload_rows refl]
  show ?thesis by blast
qed

section \<open>A deletion while the job runs\<close>

lemma anonymized_resume_ids:
  assumes "anonymize_rows hmac U t h1 h2 h3 uid d = Inr (urls, n, d')"
  shows "map r_id (resumes d') = map r_id (resumes d)"
  using assms
proof (cases rule: anonymize_rows_Inr)
  case (one c cleared)
  show ?thesis unfolding one(3) by (auto split: option.splits simp: find_Some_iff)
qed simp

lemma list_all2_source: "list_all2 P xs ys \<Longrightarrow> y \<in> set ys \<Longrightarrow> \<exists>x \<in> set xs. P x y"
  by (induction rule: list_all2_induct) auto

text \<open>
  C33. A resume that is being processed while its owner deletes the account: the linear pipeline no longer finds it and writes nothing, but the multi-agent pipeline,
  which remembers the row from its first session, writes the whole text and its search index back into the row that the deletion has emptied.
\<close>

theorem running_job_undoes_deletion:
  assumes "begin_multi_agent application_id url d = Inr (Some (rid, job))" and "anonymize_rows hmac U t h1 h2 h3 uid d = Inr (urls, n, d')"
    and "r \<in> set (resumes d)" and "r_file_url r = url" and "c \<in> set (candidates d)" and "c_user_id c = uid" and "c_id c = r_candidate_id r"
    and "\<not> prefix ''deleted:'' url" and "distinct (map r_id (resumes d))"
    and "download url = Some bytes" and "pipeline bytes (utext_of url) job = Inr res"
  shows "(\<exists>d''. process_resume_multi_agent U hmac say dump pipeline download application_id url d d' = Inr d''
      \<and> (\<exists>x \<in> set (resumes d''). r_id x = rid \<and> r_raw_text x = Some (pr_raw_text res)
          \<and> r_search_tokens x = blind_index_tokens hmac U (Some (pr_raw_text res))))
    \<and> process_resume_linear U hmac say R nlp nlp_error download now application_id url d' = Inr d'"
proof
  from assms(1) obtain r0 where r0: "resume_by_url d url = Inr (Some r0)" "load_job_context d application_id r0 = Inr job" "rid = r_id r0"
    by (auto simp: begin_multi_agent_def split: sum.splits option.splits)
  then obtain aid where aid: "uuid_of_str application_id = Some aid" by (auto simp: load_job_context_def split: option.splits)
  have "set (filter (\<lambda>r. r_file_url r = url) (resumes d)) = {r0}" by (simp only: resume_by_url_Some(1) [OF r0(1)]) simp
  then have one: "x \<in> set (resumes d) \<and> r_file_url x = url \<longleftrightarrow> x = r0" for x by auto
  then have only: "x = r" if "x \<in> set (resumes d)" "r_file_url x = url" for x
    using that assms(3,4) by metis
  have rid: "rid = r_id r" using only resume_by_url_Some(2,3) [OF r0(1)] r0(3) by blast
  then have known: "rid \<in> set (map r_id (resumes d'))" unfolding anonymized_resume_ids [OF assms(2)] using assms(3) by simp
  then obtain x where x: "x \<in> set (resumes d')" "r_id x = rid" by auto
  define f where "f = (\<lambda>x. let x' = store_text hmac U (pr_raw_text res) (pr_parsed_data res) x
     in (if us_status (ua_skills (pr_analysis res)) = Agent_Completed \<or> ue_status (ua_experience (pr_analysis res)) = Agent_Completed
         then x'\<lparr>r_skill_analysis := Some (skill_analysis_json say (to_skill_analysis (pr_analysis res)))\<rparr> else x')\<lparr>r_agent_analysis := Some (dump (pr_analysis res))\<rparr>)"
  have f: "r_id (f x) = rid" "r_raw_text (f x) = Some (pr_raw_text res)" "r_search_tokens (f x) = blind_index_tokens hmac U (Some (pr_raw_text res))"
    using x(2) by (simp_all add: f_def Let_def store_text_def set_raw_text_def split: option.splits)
  have stored: "\<exists>d''. store_multi_agent U hmac say dump rid application_id res d' = Inr d'' \<and> resumes d'' = resumes (write_resume rid f d')"
    using known by (simp add: store_multi_agent_def Let_def aid f_def write_score_def split: option.splits)
  moreover have "f x \<in> set (resumes (write_resume rid f d'))" using x by (force simp: write_resume_def update_where_def)
  ultimately show "\<exists>d''. process_resume_multi_agent U hmac say dump pipeline download application_id url d d' = Inr d''
      \<and> (\<exists>x \<in> set (resumes d''). r_id x = rid \<and> r_raw_text x = Some (pr_raw_text res) \<and> r_search_tokens x = blind_index_tokens hmac U (Some (pr_raw_text res)))"
    using f by (auto simp: process_resume_multi_agent_def assms(1,10,11))
  have "filter (\<lambda>r. r_file_url r = url) (resumes d') = []"
  proof -
    have "r_file_url y \<noteq> url" if y: "y \<in> set (resumes d')" for y
    proof -
      obtain x where "x \<in> set (resumes d)" and xy: "if \<exists>c \<in> set (candidates d). c_user_id c = uid \<and> c_id c = r_candidate_id x
          then r_raw_text y = None \<and> r_search_tokens y = None \<and> r_parsed_data y = None \<and> r_file_url y = ''deleted:'' @ str_of_uuid (r_id x)
            \<and> only_skills_and_years (r_skill_analysis x) (r_skill_analysis y) \<and> r_agent_analysis y = r_agent_analysis x else y = x"
        using list_all2_source [OF anonymized_resumes [OF assms(2,9)] y] by blast
      then show ?thesis using only [of x] assms(5-8) by (auto split: if_splits)
    qed
    then show ?thesis by (simp add: filter_empty_conv)
  qed
  then have "resume_by_url d' url = Inr None" by (simp add: resume_by_url_def)
  then show "process_resume_linear U hmac say R nlp nlp_error download now application_id url d' = Inr d'"
    by (simp add: process_resume_linear_def Let_def split: option.splits sum.splits)
qed

lemma upload_started: "begin_multi_agent (str_of_uuid 11) ''cv.docx'' upload_db = Inr (Some (30, Some (context_of_job demo_job (Some (hd (candidates demo_db))))))"
  using upload_rows by (simp add: begin_multi_agent_def) (simp add: upload_db_def)

theorem running_job_undoes_deletion_witness:
  "\<exists>urls n d' d''. anonymize_rows (\<lambda>_. []) ascii_tables 0 ''0f'' ''2a'' ''x'' 7 upload_db = Inr (urls, n, d') \<and> map r_raw_text (resumes d') = [None]
     \<and> process_resume_multi_agent ascii_tables (\<lambda>_. []) (\<lambda>_. []) (\<lambda>_. JNull)
         (run_agent_pipeline ascii_tables demo_lexicon upload_reader None (\<lambda>_. None) 2026 in_time rev) (\<lambda>_. Some []) (str_of_uuid 11) ''cv.docx'' upload_db d' = Inr d''
     \<and> (\<exists>x \<in> set (resumes d''). r_id x = 30 \<and> r_raw_text x = Some (utext_of ''Django''))"
proof -
  let ?job = "Some (context_of_job demo_job (Some (hd (candidates demo_db))))"
  have disp: "dispatch ascii_tables upload_reader None (\<lambda>_. None) [] (utext_of ''cv.docx'')
      = Inr (utext_of ''Django'', Some (parse_resume_text ascii_tables None (utext_of ''Django'')), None)"
    by (simp add: dispatch_def upload_text)
  have now: "(2026 :: int) < 2121" by simp
  obtain res where res: "run_agent_pipeline ascii_tables demo_lexicon upload_reader None (\<lambda>_. None) 2026 in_time rev [] (utext_of ''cv.docx'') ?job = Inr res"
      "pr_raw_text res = utext_of ''Django''"
    using pipeline_run [OF disp now rearranges_rev, of demo_lexicon in_time ?job] by blast
  obtain urls n d' where gone: "anonymize_rows (\<lambda>_. []) ascii_tables 0 ''0f'' ''2a'' ''x'' 7 upload_db = Inr (urls, n, d')" "map r_raw_text (resumes d') = [None]"
    by (simp add: anonymize_rows_def Let_def upload_db_def demo_db_def demo_user_def clear_resume_def anonymous_skill_analysis_def set_raw_text_def)
  have r: "hd (resumes upload_db) \<in> set (resumes upload_db)" "r_file_url (hd (resumes upload_db)) = ''cv.docx''"
      "hd (candidates upload_db) \<in> set (candidates upload_db)" "c_user_id (hd (candidates upload_db)) = 7"
      "c_id (hd (candidates upload_db)) = r_candidate_id (hd (resumes upload_db))" "\<not> prefix ''deleted:'' ''cv.docx''"
      "distinct (map r_id (resumes upload_db))" "(\<lambda>_. Some []) ''cv.docx'' = Some ([] :: nat list)"
    by (simp_all add: upload_db_def demo_db_def)
  note undone = running_job_undoes_deletion [where download = "\<lambda>_. Some []"
      and pipeline = "run_agent_pipeline ascii_tables demo_lexicon upload_reader None (\<lambda>_. None) 2026 in_time rev"
      and hmac = "\<lambda>_. []" and U = ascii_tables and say = "\<lambda>_. []" and dump = "\<lambda>_. JNull", OF upload_started gone(1) r res(1)]
  from conjunct1 [OF undone] obtain d'' where "process_resume_multi_agent ascii_tables (\<lambda>_. []) (\<lambda>_. []) (\<lambda>_. JNull)
         (run_agent_pipeline ascii_tables demo_lexicon upload_reader None (\<lambda>_. None) 2026 in_time rev) (\<lambda>_. Some []) (str_of_uuid 11) ''cv.docx'' upload_db d' = Inr d''"
      "\<exists>x \<in> set (resumes d''). r_id x = 30 \<and> r_raw_text x = Some (utext_of ''Django'')"
    unfolding res(2) by blast
  with gone show ?thesis by (intro exI [of _ urls] exI [of _ n] exI [of _ d'] exI [of _ d''] conjI)
qed

end
