(* ===== verification/Administration.thy ===== *)
theory Administration
  imports Auth Listings Py_Utf8
begin

text \<open>
  What the administrator of an organisation does (app/routers/tenants.py, app/routers/admin.py, app/schemas/tenants.py)
  and the intake of operational messages (app/routers/ops.py, app/core/ops_notifier.py, app/schemas/ops.py). The table
  of accounts is global, without row-level security, so every query of it carries its own condition on the
  organisation. Parameters: the validation of e-mail addresses, the password hash, the key-value store, the printed
  form of a moment and upper case.
\<close>

section \<open>The organisation and its staff\<close>

definition ADMIN_ONLY :: "string list" where "ADMIN_ONLY = [''Admin'']"

definition TENANT_MEMBER_ROLES :: "string list" where
  "TENANT_MEMBER_ROLES = [''Admin'', ''HR_Manager'', ''Interviewer'']"

record TenantResponse =
  tr_id :: uuid
  tr_name :: utext
  tr_industry :: "utext option"
  tr_owner_id :: uuid

definition get_my_tenant :: "TenantContext \<Rightarrow> user \<Rightarrow> db \<Rightarrow> exc + TenantResponse" where
  "get_my_tenant ctx current_user d =
     (case require_roles TENANT_MEMBER_ROLES current_user of
        Inl e \<Rightarrow> Inl e
      | Inr _ \<Rightarrow>
          (case scalar_one_or_none (filter (\<lambda>c. Some (co_id c) = u_tenant_id current_user) (select_companies ctx d)) of
             Inl e \<Rightarrow> Inl e
           | Inr None \<Rightarrow> Inl (HTTPException 404 Tenant_Not_Found)
           | Inr (Some company) \<Rightarrow> Inr \<lparr>tr_id = co_id company, tr_name = co_name company, tr_industry = co_industry company,
               tr_owner_id = co_owner_id company\<rparr>))"

datatype StaffRole = STAFF_HR_MANAGER | STAFF_INTERVIEWER

fun staff_role_value :: "StaffRole \<Rightarrow> string" where
  "staff_role_value STAFF_HR_MANAGER = ''HR_Manager''"
| "staff_role_value STAFF_INTERVIEWER = ''Interviewer''"

record StaffCreateRequest =
  sc_email :: utext
  sc_password :: utext
  sc_role :: StaffRole

definition validate_staff :: "unicode \<Rightarrow> (utext \<Rightarrow> utext option) \<Rightarrow> StaffCreateRequest \<Rightarrow> exc + StaffCreateRequest" where
  "validate_staff U email_str raw =
     (case clean_email U email_str (sc_email raw) of
        Inl e \<Rightarrow> Inl e
      | Inr email \<Rightarrow>
          if length (sc_password raw) < 8 \<or> 128 < length (sc_password raw) then Inl (HTTPException 422 Validation_Error)
          else Inr (raw\<lparr>sc_email := email\<rparr>))"

record StaffResponse =
  sf_id :: uuid
  sf_email :: utext
  sf_role :: string
  sf_is_active :: bool
  sf_tenant_id :: uuid
  sf_created_at :: time

text \<open>An answer that does not validate is an error of the server.\<close>

definition staff_response :: "(utext \<Rightarrow> utext option) \<Rightarrow> user \<Rightarrow> exc + StaffResponse" where
  "staff_response email_str user =
     (case (email_str (u_email user), u_tenant_id user) of
        (Some email, Some tenant) \<Rightarrow> Inr \<lparr>sf_id = u_id user, sf_email = email, sf_role = u_role user,
          sf_is_active = u_is_active user, sf_tenant_id = tenant, sf_created_at = u_created_at user\<rparr>
      | _ \<Rightarrow> Inl Uncaught)"

definition list_tenant_staff :: "(utext \<Rightarrow> utext option) \<Rightarrow> user \<Rightarrow> db \<Rightarrow> exc + StaffResponse list" where
  "list_tenant_staff email_str current_user d =
     (case require_roles ADMIN_ONLY current_user of
        Inl e \<Rightarrow> Inl e
      | Inr _ \<Rightarrow> collect (map (staff_response email_str)
          (sort_key u_created_at (sort_key u_id (filter (\<lambda>u. u_tenant_id u = u_tenant_id current_user) (users d))))))"

definition create_tenant_staff ::
  "unicode \<Rightarrow> (utext \<Rightarrow> utext option) \<Rightarrow> (utext \<Rightarrow> string) \<Rightarrow> time \<Rightarrow> uuid \<Rightarrow> StaffCreateRequest \<Rightarrow> user \<Rightarrow> db \<Rightarrow>
   (exc + StaffResponse) \<times> db" where
  "create_tenant_staff U email_str hash_password now new_id raw current_user d =
     (case require_roles ADMIN_ONLY current_user of
        Inl e \<Rightarrow> (Inl e, d)
      | Inr _ \<Rightarrow>
          (case validate_staff U email_str raw of
             Inl e \<Rightarrow> (Inl e, d)
           | Inr payload \<Rightarrow>
               (case scalar_one_or_none (filter (\<lambda>u. u_email u = sc_email payload) (users d)) of
                  Inl e \<Rightarrow> (Inl e, d)
                | Inr (Some _) \<Rightarrow> (Inl (HTTPException 400 Email_Already_Registered), d)
                | Inr None \<Rightarrow>
                    (let staff = \<lparr>u_id = new_id, u_email = sc_email payload, u_password_hash = hash_password (sc_password payload),
                           u_role = staff_role_value (sc_role payload), u_is_active = True, u_created_at = now,
                           u_tenant_id = u_tenant_id current_user, u_data_consent_at = None,
                           u_data_consent_version = None, u_anonymized_at = None\<rparr>
                     in case insert_row u_id staff (users d) of
                          Inl e \<Rightarrow> (Inl e, d)
                        | Inr us \<Rightarrow> (staff_response email_str staff, d\<lparr>users := us\<rparr>)))))"

section \<open>The administrator's panel\<close>

record AdminStats =
  total_users :: nat
  total_companies :: nat
  total_jobs :: nat

definition get_admin_stats :: "TenantContext \<Rightarrow> user \<Rightarrow> db \<Rightarrow> exc + AdminStats" where
  "get_admin_stats ctx current_user d =
     (case require_roles ADMIN_ONLY current_user of
        Inl e \<Rightarrow> Inl e
      | Inr _ \<Rightarrow> Inr \<lparr>total_users = length (filter (\<lambda>u. u_tenant_id u = ctx_tenant_id ctx) (users d)),
          total_companies = length (select_companies ctx d), total_jobs = length (select_jobs ctx d)\<rparr>)"

definition tenant_member :: "TenantContext \<Rightarrow> uuid \<Rightarrow> db \<Rightarrow> exc + user" where
  "tenant_member ctx user_id d =
     (case scalar_one_or_none (filter (\<lambda>u. u_id u = user_id \<and> u_tenant_id u = ctx_tenant_id ctx) (users d)) of
        Inl e \<Rightarrow> Inl e
      | Inr None \<Rightarrow> Inl (HTTPException 404 Member_Not_Found)
      | Inr (Some member) \<Rightarrow> Inr member)"

text \<open>A store that fails answers 503; a session without one of its fields raises.\<close>

fun admin_error :: "session_error \<Rightarrow> exc" where
  "admin_error SessionStoreUnavailable = session_store_unavailable"
| "admin_error (SessionInvalid _) = Uncaught"
| "admin_error (KeyError _) = Uncaught"

text \<open>The administrator sees the whole address of a session.\<close>

definition list_member_sessions ::
  "'s sserver \<Rightarrow> time \<Rightarrow> TenantContext \<Rightarrow> user \<Rightarrow> uuid \<Rightarrow> db \<Rightarrow> 's \<Rightarrow> (exc + SessionResponse list) \<times> 's" where
  "list_member_sessions run now ctx current_user user_id d s =
     (case require_roles ADMIN_ONLY current_user of
        Inl e \<Rightarrow> (Inl e, s)
      | Inr _ \<Rightarrow>
          (case tenant_member ctx user_id d of
             Inl e \<Rightarrow> (Inl e, s)
           | Inr member \<Rightarrow>
               (case list_sessions run now (utext_of (str_of_uuid (u_id member))) s of
                  (Inl e, s1) \<Rightarrow> (Inl (admin_error e), s1)
                | (Inr rows, s1) \<Rightarrow>
                    (collect (map (\<lambda>row. from_store row None (\<lambda>ip. case ip of None \<Rightarrow> [] | Some a \<Rightarrow> a)) rows), s1))))"

definition revoke_member_session ::
  "'s sserver \<Rightarrow> time \<Rightarrow> TenantContext \<Rightarrow> user \<Rightarrow> uuid \<Rightarrow> utext \<Rightarrow> db \<Rightarrow> 's \<Rightarrow> (exc + unit) \<times> 's" where
  "revoke_member_session run now ctx current_user user_id session_id d s =
     (case require_roles ADMIN_ONLY current_user of
        Inl e \<Rightarrow> (Inl e, s)
      | Inr _ \<Rightarrow>
          (case tenant_member ctx user_id d of
             Inl e \<Rightarrow> (Inl e, s)
           | Inr member \<Rightarrow>
               (case revoke_session run now session_id (Some (utext_of (str_of_uuid (u_id member)))) s of
                  (Inl e, s1) \<Rightarrow> (Inl (admin_error e), s1)
                | (Inr revoked, s1) \<Rightarrow> if revoked then (Inr (), s1) else (Inl (HTTPException 404 Session_Not_Found), s1))))"

definition revoke_all_member_sessions ::
  "'s sserver \<Rightarrow> time \<Rightarrow> TenantContext \<Rightarrow> user \<Rightarrow> uuid \<Rightarrow> db \<Rightarrow> 's \<Rightarrow> (exc + nat) \<times> 's" where
  "revoke_all_member_sessions run now ctx current_user user_id d s =
     (case require_roles ADMIN_ONLY current_user of
        Inl e \<Rightarrow> (Inl e, s)
      | Inr _ \<Rightarrow>
          (case tenant_member ctx user_id d of
             Inl e \<Rightarrow> (Inl e, s)
           | Inr member \<Rightarrow>
               (case revoke_all_sessions run now (utext_of (str_of_uuid (u_id member))) s of
                  (Inl e, s1) \<Rightarrow> (Inl (admin_error e), s1)
                | (Inr revoked, s1) \<Rightarrow> (Inr revoked, s1))))"

section \<open>Operational messages\<close>

record ops_settings =
  OPS_WEBHOOK_TOKEN :: utext
  OPS_ALERT_RECIPIENT_ROLES :: utext
  OPS_ALERT_TENANT_ID :: string

text \<open>The comparison is one of UTF-8 encodings; an unencodable text raises.\<close>

definition verify_ops_token :: "ops_settings \<Rightarrow> utext option \<Rightarrow> exc + unit" where
  "verify_ops_token cfg credentials =
     (if OPS_WEBHOOK_TOKEN cfg = [] then Inl (HTTPException 503 Ops_Disabled)
      else case credentials of
        None \<Rightarrow> Inl (HTTPException 401 Ops_Token_Invalid)
      | Some given \<Rightarrow>
          (case (utf8_encode given, utf8_encode (OPS_WEBHOOK_TOKEN cfg)) of
             (Some a, Some b) \<Rightarrow> if a = b then Inr () else Inl (HTTPException 401 Ops_Token_Invalid)
           | _ \<Rightarrow> Inl Uncaught))"

definition get_ops_recipient_roles :: "unicode \<Rightarrow> ops_settings \<Rightarrow> utext list" where
  "get_ops_recipient_roles U cfg = filter (\<lambda>r. r \<noteq> []) (map (ustrip U) (split_on 44 (OPS_ALERT_RECIPIENT_ROLES cfg)))"

text \<open>The configured organisation, else that of the first administrator; a text that is no identifier raises.\<close>

definition get_operator_tenant_id :: "ops_settings \<Rightarrow> db \<Rightarrow> exc + uuid option" where
  "get_operator_tenant_id cfg d =
     (if OPS_ALERT_TENANT_ID cfg \<noteq> []
      then (case uuid_of_str (OPS_ALERT_TENANT_ID cfg) of None \<Rightarrow> Inl Uncaught | Some t \<Rightarrow> Inr (Some t))
      else case sort_key u_created_at (sort_key u_id
                  (filter (\<lambda>u. u_role u = ''Admin'' \<and> u_tenant_id u \<noteq> None) (users d))) of
             [] \<Rightarrow> Inr None | u # _ \<Rightarrow> Inr (u_tenant_id u))"

definition ops_recipient :: "unicode \<Rightarrow> ops_settings \<Rightarrow> uuid \<Rightarrow> user \<Rightarrow> bool" where
  "ops_recipient U cfg operator_tenant_id u \<longleftrightarrow>
     utext_of (u_role u) \<in> set (get_ops_recipient_roles U cfg) \<and> u_is_active u \<and> u_tenant_id u = Some operator_tenant_id"

definition get_ops_recipient_ids :: "unicode \<Rightarrow> ops_settings \<Rightarrow> db \<Rightarrow> exc + uuid list" where
  "get_ops_recipient_ids U cfg d =
     (case get_operator_tenant_id cfg d of
        Inl e \<Rightarrow> Inl e
      | Inr None \<Rightarrow> Inr []
      | Inr (Some operator_tenant_id) \<Rightarrow> Inr (map u_id (filter (ops_recipient U cfg operator_tenant_id) (users d))))"

text \<open>
  The rows that wait in the session of the ORM, after those (\<open>pending\<close>) of earlier messages; their identifiers are
  drawn when they are inserted, in order.
\<close>

definition add_broadcast :: "time \<Rightarrow> (nat \<Rightarrow> uuid) \<Rightarrow> uuid list \<Rightarrow> utext \<Rightarrow> utext option \<Rightarrow> utext \<Rightarrow> notification list \<Rightarrow> nat \<times> notification list" where
  "add_broadcast now new_id recipient_ids title content category pending =
     (length recipient_ids,
      pending @ map (\<lambda>(i, user_id). \<lparr>n_id = new_id i, n_user_id = user_id, n_title = take 255 title, n_content = content,
         n_is_read = False, n_category = Some category, n_created_at = now\<rparr>)
       (enumerate (length pending) recipient_ids))"

fun insert_rows :: "('r \<Rightarrow> 'k) \<Rightarrow> 'r list \<Rightarrow> 'r list \<Rightarrow> exc + 'r list" where
  "insert_rows key [] rows = Inr rows"
| "insert_rows key (r # rs) rows = (case insert_row key r rows of Inl e \<Rightarrow> Inl e | Inr rows1 \<Rightarrow> insert_rows key rs rows1)"

definition commit_notifications :: "notification list \<Rightarrow> db \<Rightarrow> exc + db" where
  "commit_notifications pending d =
     (case insert_rows n_id pending (notifications d) of Inl e \<Rightarrow> Inl e | Inr ns \<Rightarrow> Inr (d\<lparr>notifications := ns\<rparr>))"

datatype alert_status = Firing | Resolved

record 't AlertmanagerAlert =
  al_status :: alert_status
  al_labels :: "utext \<Rightarrow> utext option"
  al_annotations :: "utext \<Rightarrow> utext option"
  al_startsAt :: "'t option"
  al_endsAt :: "'t option"

definition cp_resolved :: utext where "cp_resolved = [9989, 32, 91, 1576, 1585, 1591, 1585, 1601, 32, 1588, 1583, 93, 32]"
definition cp_source :: utext where "cp_source = [1605, 1606, 1576, 1593, 58, 32]"
definition cp_start :: utext where "cp_start = [1588, 1585, 1608, 1593, 58, 32]"
definition cp_end :: utext where "cp_end = [1662, 1575, 1740, 1575, 1606, 58, 32]"

definition severity_icon :: "utext \<Rightarrow> utext" where
  "severity_icon severity =
     (if severity = utext_of ''critical'' then [128308] else if severity = utext_of ''warning'' then [128992]
      else if severity = utext_of ''info'' then [128309] else [128992])"

text \<open>A line of the message, when its value is there and not empty.\<close>

definition line_of :: "utext \<Rightarrow> utext option \<Rightarrow> utext list" where
  "line_of label value = (case value of None \<Rightarrow> [] | Some v \<Rightarrow> if v = [] then [] else [label @ v])"

definition format_alert_message :: "(utext \<Rightarrow> utext) \<Rightarrow> ('t \<Rightarrow> utext) \<Rightarrow> 't AlertmanagerAlert \<Rightarrow> utext \<times> utext" where
  "format_alert_message upper isoformat alert =
     (let alert_name = (case al_labels alert (utext_of ''alertname'') of None \<Rightarrow> utext_of ''UnknownAlert'' | Some n \<Rightarrow> n);
          severity = (case al_labels alert (utext_of ''severity'') of None \<Rightarrow> utext_of ''warning'' | Some v \<Rightarrow> v);
          title = (if al_status alert = Resolved then cp_resolved @ alert_name
            else severity_icon severity @ utext_of '' ['' @ upper severity @ utext_of ''] '' @ alert_name)
      in (title, join_texts [10]
        (line_of [] (al_annotations alert (utext_of ''summary'')) @ line_of [] (al_annotations alert (utext_of ''description''))
         @ line_of cp_source (al_labels alert (utext_of ''instance''))
         @ (case al_startsAt alert of None \<Rightarrow> [] | Some t \<Rightarrow> [cp_start @ isoformat t])
         @ (case al_endsAt alert of None \<Rightarrow> [] | Some t \<Rightarrow> if al_status alert = Resolved then [cp_end @ isoformat t] else []))))"

record OpsDeliveryResponse =
  delivered_notifications :: nat
  recipients :: nat

definition receive_alertmanager_webhook ::
  "unicode \<Rightarrow> (utext \<Rightarrow> utext) \<Rightarrow> ('t \<Rightarrow> utext) \<Rightarrow> ops_settings \<Rightarrow> time \<Rightarrow> (nat \<Rightarrow> uuid) \<Rightarrow> utext option \<Rightarrow>
   't AlertmanagerAlert list \<Rightarrow> db \<Rightarrow> (exc + OpsDeliveryResponse) \<times> db" where
  "receive_alertmanager_webhook U upper isoformat cfg now new_id credentials alerts d =
     (case verify_ops_token cfg credentials of
        Inl e \<Rightarrow> (Inl e, d)
      | Inr _ \<Rightarrow>
          (case get_ops_recipient_ids U cfg d of
             Inl e \<Rightarrow> (Inl e, d)
           | Inr recipient_ids \<Rightarrow>
               (let (delivered, pending) = fold (\<lambda>alert (delivered, pending).
                      let (title, content) = format_alert_message upper isoformat alert;
                          (n, pending1) = add_broadcast now new_id recipient_ids title (Some content) (utext_of ''alert'') pending
                      in (delivered + n, pending1)) alerts (0, [])
                in case commit_notifications pending d of
                     Inl e \<Rightarrow> (Inl e, d)
                   | Inr d1 \<Rightarrow> (Inr \<lparr>delivered_notifications = delivered, recipients = length recipient_ids\<rparr>, d1))))"

datatype event_level = Success | Failure | Info

fun event_level_icon :: "event_level \<Rightarrow> utext" where
  "event_level_icon Success = [9989]"
| "event_level_icon Failure = [10060]"
| "event_level_icon Info = [8505, 65039]"

record OpsEventRequest =
  oe_title :: utext
  oe_content :: "utext option"
  oe_level :: event_level
  oe_category :: utext

definition validate_ops_event :: "unicode \<Rightarrow> OpsEventRequest \<Rightarrow> exc + OpsEventRequest" where
  "validate_ops_event U raw =
     (let title = strip_html_tags U (oe_title raw); content = map_option (strip_html_tags U) (oe_content raw);
          category = strip_html_tags U (oe_category raw)
      in if title = [] \<or> 200 < length title \<or> (case content of None \<Rightarrow> False | Some c \<Rightarrow> 4000 < length c)
           \<or> category = [] \<or> 50 < length category
         then Inl (HTTPException 422 Validation_Error)
         else Inr (raw\<lparr>oe_title := title, oe_content := content, oe_category := category\<rparr>))"

definition receive_ops_event ::
  "unicode \<Rightarrow> ops_settings \<Rightarrow> time \<Rightarrow> (nat \<Rightarrow> uuid) \<Rightarrow> utext option \<Rightarrow> OpsEventRequest \<Rightarrow> db \<Rightarrow>
   (exc + OpsDeliveryResponse) \<times> db" where
  "receive_ops_event U cfg now new_id credentials raw d =
     (case verify_ops_token cfg credentials of
        Inl e \<Rightarrow> (Inl e, d)
      | Inr _ \<Rightarrow>
          (case validate_ops_event U raw of
             Inl e \<Rightarrow> (Inl e, d)
           | Inr payload \<Rightarrow>
               (case get_ops_recipient_ids U cfg d of
                  Inl e \<Rightarrow> (Inl e, d)
                | Inr recipient_ids \<Rightarrow>
                    (let (delivered, pending) = add_broadcast now new_id recipient_ids
                           (event_level_icon (oe_level payload) @ [32] @ oe_title payload) (oe_content payload) (oe_category payload) []
                     in case commit_notifications pending d of
                          Inl e \<Rightarrow> (Inl e, d)
                        | Inr d1 \<Rightarrow> (Inr \<lparr>delivered_notifications = delivered, recipients = length recipient_ids\<rparr>, d1)))))"

end
