(* ===== verification/Admin_Properties.thy ===== *)
theory Admin_Properties
  imports Administration Auth_Properties
begin

text \<open>
  The administrator's powers end at the border of the organisation, and operational messages reach the
  operators only.
\<close>

section \<open>Members\<close>

lemma tenant_member_Inr:
  assumes "tenant_member ctx user_id d = Inr m"
  shows "m \<in> set (users d)" and "u_id m = user_id" and "u_tenant_id m = ctx_tenant_id ctx"
  using assms scalar_filter_Some [of "\<lambda>u. u_id u = user_id \<and> u_tenant_id u = ctx_tenant_id ctx" "users d" m]
  by (auto simp: tenant_member_def split: sum.splits option.splits)

lemma tenant_member_outside:
  assumes "\<forall>u \<in> set (users d). u_id u = user_id \<longrightarrow> u_tenant_id u \<noteq> ctx_tenant_id ctx"
  shows "tenant_member ctx user_id d = Inl (HTTPException 404 Member_Not_Found)"
proof -
  have "filter (\<lambda>u. u_id u = user_id \<and> u_tenant_id u = ctx_tenant_id ctx) (users d) = []" using assms by (auto simp: filter_empty_conv)
  then show ?thesis by (simp add: tenant_member_def scalar_one_or_none_None)
qed

lemma admin_error_store: "admin_error e = session_store_unavailable \<longleftrightarrow> e = SessionStoreUnavailable"
  by (cases e) (simp_all add: session_store_unavailable_def)

text \<open>A live session of a user, and the sessions of everybody else left as they were.\<close>

definition session_of :: "time \<Rightarrow> login_entry store \<Rightarrow> uuid \<Rightarrow> utext \<Rightarrow> bool" where
  "session_of t st i a \<longleftrightarrow> (\<exists>h e. live t st (session_key a) = Some (RHash h, e) \<and> text_field h ''user_id'' = Some (utext_of (str_of_uuid i)))"

definition others_kept :: "time \<Rightarrow> login_entry store \<Rightarrow> uuid \<Rightarrow> login_entry store \<Rightarrow> bool" where
  "others_kept t st i st' \<longleftrightarrow> (\<forall>a h e. live t st (session_key a) = Some (RHash h, e) \<and> text_field h ''user_id'' \<noteq> Some (utext_of (str_of_uuid i))
     \<longrightarrow> live t st' (session_key a) = Some (RHash h, e))"

lemma from_store_sid: "from_store row c m = Inr x \<Longrightarrow> text_field row ''sid'' = Some (sr_id x)"
  by (cases "text_field row ''sid''"; cases "time_field row ''created_at''"; cases "time_field row ''last_active_at''"; cases "time_field row ''expires_at''")
    (simp_all add: from_store_def Let_def, clarsimp)

text \<open>The requests that are refused before the store is asked, and those that reach it.\<close>

lemma member_request_cases:
  obtains (refused) e where "\<forall>sid. revoke_member_session run t ctx admin i sid d s = (Inl e, s)"
      "list_member_sessions run t ctx admin i d s = (Inl e, s)" "revoke_all_member_sessions run t ctx admin i d s = (Inl e, s)"
      "u_role admin \<noteq> ''Admin'' \<or> (\<nexists>m. tenant_member ctx i d = Inr m)"
  | (allowed) m where "u_role admin = ''Admin''" "m \<in> set (users d)" "u_id m = i" "u_tenant_id m = ctx_tenant_id ctx"
      "\<forall>sid. revoke_member_session run t ctx admin i sid d s
        = (case revoke_session run t sid (Some (utext_of (str_of_uuid i))) s of
             (Inl e, s1) \<Rightarrow> (Inl (admin_error e), s1)
           | (Inr revoked, s1) \<Rightarrow> if revoked then (Inr (), s1) else (Inl (HTTPException 404 Session_Not_Found), s1))"
      "list_member_sessions run t ctx admin i d s
        = (case list_sessions run t (utext_of (str_of_uuid i)) s of
             (Inl e, s1) \<Rightarrow> (Inl (admin_error e), s1)
           | (Inr rows, s1) \<Rightarrow> (collect (map (\<lambda>row. from_store row None (\<lambda>ip. case ip of None \<Rightarrow> [] | Some a \<Rightarrow> a)) rows), s1))"
      "revoke_all_member_sessions run t ctx admin i d s
        = (case revoke_all_sessions run t (utext_of (str_of_uuid i)) s of
             (Inl e, s1) \<Rightarrow> (Inl (admin_error e), s1) | (Inr revoked, s1) \<Rightarrow> (Inr revoked, s1))"
proof (cases "require_roles ADMIN_ONLY admin")
  case (Inl e)
  then have "u_role admin \<noteq> ''Admin''" by (simp add: require_roles_Inl ADMIN_ONLY_def)
  with Inl show ?thesis
    by (intro refused [of e]) (simp_all add: revoke_member_session_def list_member_sessions_def revoke_all_member_sessions_def)
next
  case admin: (Inr a)
  show ?thesis
  proof (cases "tenant_member ctx i d")
    case (Inl e)
    with admin show ?thesis
      by (intro refused [of e]) (simp_all add: revoke_member_session_def list_member_sessions_def revoke_all_member_sessions_def)
  next
    case (Inr m)
    note m = tenant_member_Inr [OF Inr]
    show ?thesis
      by (rule allowed [OF _ m])
        (use admin Inr m(2) in \<open>simp_all add: revoke_member_session_def list_member_sessions_def revoke_all_member_sessions_def ADMIN_ONLY_def\<close>)
  qed
qed

context session_store begin

lemma revoke_session_ended:
  assumes q: "revoke_session run t sid (Some (utext_of (str_of_uuid i))) s = (Inr True, s')"
  shows "session_of t (view s) i sid \<and> live t (view s') (session_key sid) = None"
proof -
  have "Inr True \<noteq> Inl SessionStoreUnavailable" by simp
  with q show ?thesis
  proof (cases rule: revoke_session_cases)
    case (revoked jti n uid rs h)
    then show ?thesis using revoke_batch_sessions [OF revoked(2), of sid]
      by (auto simp: session_of_def hash_of_def live_def text_field_def split: option.splits rval.splits if_splits)
  qed simp_all
qed

lemma revoke_session_keeps:
  assumes "revoke_session run t sid (Some (utext_of (str_of_uuid i))) s = (r, s')" and "r \<noteq> Inl SessionStoreUnavailable"
  shows "others_kept t (view s) i (view s')"
  unfolding others_kept_def
proof (intro allI impI)
  fix a h e
  assume "live t (view s) (session_key a) = Some (RHash h, e) \<and> text_field h ''user_id'' \<noteq> Some (utext_of (str_of_uuid i))"
  then have old: "live t (view s) (session_key a) = Some (RHash h, e)" "text_field h ''user_id'' \<noteq> Some (utext_of (str_of_uuid i))" by simp_all
  show "live t (view s') (session_key a) = Some (RHash h, e)"
    using revoke_session_other [OF assms old] old(1) by (metis live_cong)
qed

text \<open>The list names the live sessions of the user's index, and every live session of the user is in the index.\<close>

lemma listed_sessions:
  assumes inv: "session_inv L t (view s)" and run: "list_sessions run t uid s = (Inr rows, s')"
    and xs: "collect (map (\<lambda>row. from_store row c m) rows) = Inr xs"
  shows "\<exists>zs. zset_of t (user_sessions_key uid) (view s) = Some zs
    \<and> sr_id ` set xs = {a. a \<in> fst ` set zs \<and> (\<exists>h e. live t (view s) (session_key a) = Some (RHash h, e))}"
    and "\<And>a h e. live t (view s) (session_key a) = Some (RHash h, e) \<Longrightarrow> text_field h ''user_id'' = Some uid \<Longrightarrow> a \<in> sr_id ` set xs"
proof -
  have nr: "Inr rows \<noteq> Inl SessionStoreUnavailable" by simp
  have ids: "(\<lambda>row. text_field row ''sid'') ` set rows = Some ` (sr_id ` set xs)"
  proof -
    have "map (\<lambda>row. from_store row c m) rows = map Inr xs" using xs by (simp add: collect_Inr)
    then have "map (\<lambda>row. text_field row ''sid'') rows = map (\<lambda>x. Some (sr_id x)) xs"
      by (induction rows arbitrary: xs) (auto dest: from_store_sid)
    from arg_cong [OF this, of set] show ?thesis by (simp add: image_image)
  qed
  have sid: "text_field h ''sid'' = Some a" "h \<noteq> []" if "live t (view s) (session_key a) = Some (RHash h, e)" for a h e
    by (rule session_invD [OF inv that], assumption) (rule session_invD [OF inv that], auto simp: text_field_def)
  from run nr obtain zs where zs: "zset_of t (user_sessions_key uid) (view s) = Some zs"
    and rows: "rows = map (\<lambda>(sid, sc). refreshed_activity (sid, sc) (the (hash_of t (session_key sid) (view s))))
      (filter (\<lambda>(sid, _). the (hash_of t (session_key sid) (view s)) \<noteq> []) (rev (by_score zs)))"
    and typed: "\<forall>z \<in> set zs. hash_of t (session_key (fst z)) (view s) \<noteq> None"
    by (cases rule: list_sessions_cases) simp
  have hash: "the (hash_of t (session_key (fst z)) (view s)) \<noteq> [] \<longleftrightarrow> (\<exists>h e. live t (view s) (session_key (fst z)) = Some (RHash h, e))"
    if z: "z \<in> set zs" for z
  proof -
    obtain h where h: "hash_of t (session_key (fst z)) (view s) = Some h" using bspec [OF typed z] by (cases "hash_of t (session_key (fst z)) (view s)") auto
    show ?thesis
    proof (cases "live t (view s) (session_key (fst z))")
      case None
      with h show ?thesis by (auto simp: hash_of_def)
    next
      case (Some p)
      then obtain e where l: "live t (view s) (session_key (fst z)) = Some (RHash h, e)"
        using h by (cases p) (auto simp: hash_of_def split: rval.splits)
      from sid(2) [OF l] h l show ?thesis by simp
    qed
  qed
  have name: "text_field (refreshed_activity (a, sc) (the (hash_of t (session_key a) (view s)))) ''sid'' = Some a"
    if "\<exists>h e. live t (view s) (session_key a) = Some (RHash h, e)" for a sc
    using that sid(1) by (auto simp: hash_of_def)
  have "(\<lambda>row. text_field row ''sid'') ` set rows
      = Some ` {a. a \<in> fst ` set zs \<and> (\<exists>h e. live t (view s) (session_key a) = Some (RHash h, e))}" (is "?l = Some ` ?r")
  proof (intro equalityI subsetI)
    fix x
    assume "x \<in> ?l"
    then obtain z where z: "z \<in> set zs" "the (hash_of t (session_key (fst z)) (view s)) \<noteq> []"
      "x = text_field (refreshed_activity (fst z, snd z) (the (hash_of t (session_key (fst z)) (view s)))) ''sid''"
      unfolding rows by force
    then have l: "\<exists>h e. live t (view s) (session_key (fst z)) = Some (RHash h, e)" using hash by blast
    then show "x \<in> Some ` ?r" using z(1) unfolding z(3) name [OF l] by blast
  next
    fix x
    assume "x \<in> Some ` ?r"
    then obtain z where z: "z \<in> set zs" "x = Some (fst z)" and l: "\<exists>h e. live t (view s) (session_key (fst z)) = Some (RHash h, e)" by auto
    have "x = text_field (refreshed_activity (fst z, snd z) (the (hash_of t (session_key (fst z)) (view s)))) ''sid''"
      unfolding name [OF l] by (rule z(2))
    moreover have "refreshed_activity (fst z, snd z) (the (hash_of t (session_key (fst z)) (view s))) \<in> set rows"
      unfolding rows using z(1) l hash [OF z(1)] by (force simp: case_prod_beta)
    ultimately show "x \<in> ?l" by blast
  qed
  then have eq: "sr_id ` set xs = ?r" unfolding ids by (simp add: inj_image_eq_iff)
  with zs show "\<exists>zs. zset_of t (user_sessions_key uid) (view s) = Some zs
    \<and> sr_id ` set xs = {a. a \<in> fst ` set zs \<and> (\<exists>h e. live t (view s) (session_key a) = Some (RHash h, e))}" by blast
  show "a \<in> sr_id ` set xs" if l: "live t (view s) (session_key a) = Some (RHash h, e)" and u: "text_field h ''user_id'' = Some uid" for a h e
  proof -
    obtain zs' y sc where "live t (view s) (user_sessions_key uid) = Some (RZset zs', Some y)" "(a, sc) \<in> set zs'"
      using session_invD [OF inv l] u by (metis option.inject)
    then have "a \<in> fst ` set zs" using zs by (force simp: zset_of_def)
    with l show ?thesis unfolding eq by blast
  qed
qed

end

text \<open>
  C40. An administrator sees and ends the sessions of members of the own organisation only. In every state that the session service
  reaches: either the caller is an administrator and the account is a member of the organisation, or all three requests answer
  with an error and do not touch the store. A session that was ended was live, belonged to the account and is gone, and whatever the answer
  (unless the store failed) every live session of everybody else stays as it was. The list names the live sessions in the
  account's index and no others, and leaves out no live session of the account. After ending all, no live session of the account is left and everybody else's are as they were.
\<close>

theorem admin_ends_own_members_sessions_only:
  assumes "session_store run view" and "0 < refresh_lifetime_seconds cfg" and "session_reachable run view cfg (t, s)"
  shows "(u_role admin = ''Admin'' \<and> (\<exists>m \<in> set (users d). u_id m = i \<and> u_tenant_id m = ctx_tenant_id ctx)
      \<or> (\<exists>e. revoke_member_session run t ctx admin i sid d s = (Inl e, s) \<and> list_member_sessions run t ctx admin i d s = (Inl e, s)
          \<and> revoke_all_member_sessions run t ctx admin i d s = (Inl e, s)))
    \<and> (case revoke_member_session run t ctx admin i sid d s of (r, s') \<Rightarrow>
        (r = Inr () \<longrightarrow> session_of t (view s) i sid \<and> live t (view s') (session_key sid) = None)
        \<and> (r \<noteq> Inl session_store_unavailable \<longrightarrow> others_kept t (view s) i (view s')))
    \<and> (case list_member_sessions run t ctx admin i d s of (r, s') \<Rightarrow> \<forall>xs. r = Inr xs \<longrightarrow>
        (\<forall>a. session_of t (view s) i a \<longrightarrow> a \<in> sr_id ` set xs)
        \<and> (\<exists>zs. zset_of t (user_sessions_key (utext_of (str_of_uuid i))) (view s) = Some zs
            \<and> sr_id ` set xs = {a. a \<in> fst ` set zs \<and> (\<exists>h e. live t (view s) (session_key a) = Some (RHash h, e))}))
    \<and> (case revoke_all_member_sessions run t ctx admin i d s of (r, s') \<Rightarrow> \<forall>n. r = Inr n \<longrightarrow>
        (\<forall>a. \<not> session_of t (view s') i a) \<and> others_kept t (view s) i (view s'))"
proof (cases rule: member_request_cases [of run t ctx admin i d s])
  case (refused e)
  then show ?thesis by (auto simp: others_kept_def)
next
  case (allowed m)
  have inv: "session_inv (refresh_lifetime_seconds cfg * seconds) t (view s)" using session_reachable_inv [OF assms] by simp
  note revoke = session_store.revoke_session_ended [OF assms(1)] session_store.revoke_session_keeps [OF assms(1)]
    and listed = session_store.listed_sessions [OF assms(1) inv]
    and all = session_store.revoke_all_effect [OF assms(1) inv]
  show ?thesis
  proof (intro conjI)
    show "case revoke_member_session run t ctx admin i sid d s of (r, s') \<Rightarrow>
        (r = Inr () \<longrightarrow> session_of t (view s) i sid \<and> live t (view s') (session_key sid) = None)
        \<and> (r \<noteq> Inl session_store_unavailable \<longrightarrow> others_kept t (view s) i (view s'))"
      using allowed(5) revoke by (auto simp: admin_error_store split: prod.splits sum.splits if_splits)
    show "case list_member_sessions run t ctx admin i d s of (r, s') \<Rightarrow> \<forall>xs. r = Inr xs \<longrightarrow>
        (\<forall>a. session_of t (view s) i a \<longrightarrow> a \<in> sr_id ` set xs)
        \<and> (\<exists>zs. zset_of t (user_sessions_key (utext_of (str_of_uuid i))) (view s) = Some zs
            \<and> sr_id ` set xs = {a. a \<in> fst ` set zs \<and> (\<exists>h e. live t (view s) (session_key a) = Some (RHash h, e))})"
      using listed by (fastforce simp: allowed(6) session_of_def split: prod.splits sum.splits)
    show "case revoke_all_member_sessions run t ctx admin i d s of (r, s') \<Rightarrow> \<forall>n. r = Inr n \<longrightarrow>
        (\<forall>a. \<not> session_of t (view s') i a) \<and> others_kept t (view s) i (view s')"
      using all by (auto simp: allowed(7) session_of_def others_kept_def split: prod.splits sum.splits)
  qed (use allowed(1-4) in blast)
qed

text \<open>A member with one session, in a state that a login reaches.\<close>

definition demo_admin :: user where
  "demo_admin = demo_candidate\<lparr>u_id := 1, u_role := ''Admin'', u_tenant_id := Some 5\<rparr>"

definition demo_member :: user where
  "demo_member = demo_candidate\<lparr>u_role := ''Interviewer'', u_tenant_id := Some 5\<rparr>"

definition demo_member_login :: "(session_error + CreatedSession) \<times> login_entry store" where
  "demo_member_login = create_session mem_server demo_cfg demo_ua (\<lambda>_. None) 0 [9] [3] (utext_of (str_of_uuid 7)) None [] None (\<lambda>_. None)"

lemma demo_member_login_answer: "\<exists>c st b. demo_member_login = (Inr c, st) \<and>
   st (session_key [9]) = Some (RHash (put_assoc (session_fields [9] [3] (utext_of (str_of_uuid 7)) None [] None (parse_user_agent demo_ua None) None 0 604800 b) []),
      Some 604800000000)
   \<and> st (user_sessions_key (utext_of (str_of_uuid 7))) = Some (RZset [([9], 0)], Some 604800000000)"
  unfolding demo_member_login_def create_session_def
  by (simp add: run_simps lifetime device_commands_def more_key_eq put_assoc_Nil Let_def split: prod.splits) blast

lemma demo_member_session:
  obtains c st h where "demo_member_login = (Inr c, st)"
    "live 0 st (session_key [9]) = Some (RHash h, Some 604800000000)"
    "live 0 st (user_sessions_key (utext_of (str_of_uuid 7))) = Some (RZset [([9], 0)], Some 604800000000)"
    "h \<noteq> []" "text_field h ''sid'' = Some [9]" "text_field h ''user_id'' = Some (utext_of (str_of_uuid 7))" "text_field h ''refresh_jti'' = Some [3]"
    "time_field h ''expires_at'' = Some 604800000000"
proof -
  obtain c st b where st: "demo_member_login = (Inr c, st)"
   "st (session_key [9]) = Some (RHash (put_assoc (session_fields [9] [3] (utext_of (str_of_uuid 7)) None [] None (parse_user_agent demo_ua None) None 0 604800 b) []),
      Some 604800000000)"
   "st (user_sessions_key (utext_of (str_of_uuid 7))) = Some (RZset [([9], 0)], Some 604800000000)"
    using demo_member_login_answer by (elim exE conjE) (rule that)
  have l: "live 0 st k = Some (v, Some 604800000000)" if "st k = Some (v, Some 604800000000)" for k v using that by (simp add: live_def)
  show thesis
    by (rule that [OF st(1) l [OF st(2)] l [OF st(3)]]) (simp_all add: session_fields_simps [OF refl] put_assoc_Nil)
qed

theorem admin_ends_own_members_sessions_only_witness:
  "\<exists>st s' s'' n. session_reachable mem_server (\<lambda>st. st) demo_cfg (0, st) \<and> session_of 0 st 7 [9]
     \<and> revoke_member_session mem_server 0 (tenant_context 5 3) demo_admin 7 [9] (empty_db\<lparr>users := [demo_admin, demo_member]\<rparr>) st = (Inr (), s')
     \<and> live 0 s' (session_key [9]) = None
     \<and> revoke_all_member_sessions mem_server 0 (tenant_context 5 3) demo_admin 7 (empty_db\<lparr>users := [demo_admin, demo_member]\<rparr>) st = (Inr n, s'')
     \<and> (\<forall>a. \<not> session_of 0 s'' 7 a)"
proof -
  let ?d = "empty_db\<lparr>users := [demo_admin, demo_member]\<rparr>" and ?uid = "utext_of (str_of_uuid 7)"
  obtain c st h where l: "demo_member_login = (Inr c, st)" "live 0 st (session_key [9]) = Some (RHash h, Some 604800000000)"
    "live 0 st (user_sessions_key ?uid) = Some (RZset [([9], 0)], Some 604800000000)"
    "h \<noteq> []" "text_field h ''sid'' = Some [9]" "text_field h ''user_id'' = Some ?uid" "text_field h ''refresh_jti'' = Some [3]"
    "time_field h ''expires_at'' = Some 604800000000" by (rule demo_member_session)
  have "session_reachable mem_server (\<lambda>st. st) demo_cfg (0, \<lambda>_. None)" by (rule session_reachable.start) simp
  moreover have "session_step mem_server (\<lambda>st. st) demo_cfg (0, \<lambda>_. None) (0, st)"
    using l(1) unfolding demo_member_login_def by (intro session_step.login) (simp_all add: live_def)
  ultimately have re: "session_reachable mem_server (\<lambda>st. st) demo_cfg (0, st)" by (rule session_reachable.step)
  have member: "tenant_member (tenant_context 5 3) 7 ?d = Inr demo_member" and admin: "require_roles ADMIN_ONLY demo_admin = Inr demo_admin"
    by (simp_all add: demo_admin_def demo_member_def demo_candidate_def tenant_member_def ADMIN_ONLY_def tenant_context_def)
  have id: "u_id demo_member = 7" by (simp add: demo_member_def demo_candidate_def)
  have "\<exists>s'. revoke_session mem_server 0 [9] (Some ?uid) st = (Inr True, s')"
    using l by (simp add: revoke_session_def run_simps Let_def)
  then obtain s' where one: "revoke_member_session mem_server 0 (tenant_context 5 3) demo_admin 7 [9] ?d st = (Inr (), s')"
    by (auto simp: revoke_member_session_def member admin id)
  have ls: "list_sessions mem_server 0 ?uid st = (Inr [refreshed_activity ([9], 0) h], st)"
    using l by (simp add: list_sessions_def run_simps by_score_def Let_def)
  have "\<exists>n s''. revoke_all_sessions mem_server 0 ?uid st = (Inr n, s'')"
    unfolding revoke_all_sessions_def ls using l by (simp add: revoke_session_def run_simps Let_def)
  then obtain n s'' where all: "revoke_all_member_sessions mem_server 0 (tenant_context 5 3) demo_admin 7 ?d st = (Inr n, s'')"
    by (auto simp: revoke_all_member_sessions_def member admin id)
  have "0 < refresh_lifetime_seconds demo_cfg" by (simp add: lifetime)
  from admin_ends_own_members_sessions_only [OF mem_sessions.session_store_axioms this re, of demo_admin ?d 7 "tenant_context 5 3" "[9]"] one all
  have "session_of 0 st 7 [9] \<and> live 0 s' (session_key [9]) = None \<and> (\<forall>a. \<not> session_of 0 s'' 7 a)" by simp
  with re one all show ?thesis by blast
qed

section \<open>Operational messages\<close>

lemma utf8_encode_inj: "utf8_encode a = Some x \<Longrightarrow> utf8_encode b = Some x \<Longrightarrow> a = b"
  by (metis utf8_round_trip option.inject)

lemma verify_ops_token_Inr:
  assumes "verify_ops_token cfg credentials = Inr u"
  shows "OPS_WEBHOOK_TOKEN cfg \<noteq> []" and "credentials = Some (OPS_WEBHOOK_TOKEN cfg)"
  using assms by (auto simp: verify_ops_token_def split: if_splits option.splits intro: utf8_encode_inj)

lemma insert_rows_Inr: "insert_rows key rs rows = Inr rows' \<Longrightarrow> rows' = rows @ rs"
  by (induction rs arbitrary: rows) (fastforce simp: insert_row_def split: if_splits sum.splits)+

text \<open>What the reader of a notification sees.\<close>

definition shown :: "notification \<Rightarrow> uuid \<times> utext \<times> utext option \<times> utext option \<times> bool" where
  "shown n = (n_user_id n, n_title n, n_content n, n_category n, n_is_read n)"

lemma map_enumerate_snd: "map (\<lambda>p. g (snd p)) (enumerate k xs) = map g xs"
  by (induction xs arbitrary: k) simp_all

lemma broadcast_fields:
  "map shown
     (snd (add_broadcast now new_id ids title content category pending))
   = map shown pending
     @ map (\<lambda>i. (i, take 255 title, content, Some category, False)) ids"
  by (simp add: add_broadcast_def comp_def case_prod_unfold shown_def) (rule map_enumerate_snd)

lemma alerts_fold:
  fixes f :: "'t AlertmanagerAlert \<Rightarrow> utext \<times> utext" and ids :: "uuid list" and now :: time and new_id :: "nat \<Rightarrow> uuid"
  defines "step \<equiv> \<lambda>alert (delivered, pending). let (title, content) = f alert;
       (n, pending1) = add_broadcast now new_id ids title (Some content) (utext_of ''alert'') pending in (delivered + n, pending1)"
  assumes "fold step alerts (k, pending) = (delivered, rows)"
  shows "delivered = k + length alerts * length ids
    \<and> map shown rows
      = map shown pending
        @ concat (map (\<lambda>a. map (\<lambda>i. (i, take 255 (fst (f a)), Some (snd (f a)), Some (utext_of ''alert''), False)) ids) alerts)"
  using assms(2)
proof (induction alerts arbitrary: k pending)
  case (Cons a alerts)
  define p1 where "p1 = snd (add_broadcast now new_id ids (fst (f a)) (Some (snd (f a))) (utext_of ''alert'') pending)"
  have "step a (k, pending) = (k + length ids, p1)" by (simp add: step_def p1_def add_broadcast_def case_prod_unfold Let_def)
  with Cons.prems have "fold step alerts (k + length ids, p1) = (delivered, rows)" by simp
  from Cons.IH [OF this] show ?case by (simp add: p1_def broadcast_fields)
qed simp

lemma get_ops_recipient_ids_Inr:
  assumes "get_ops_recipient_ids U cfg d = Inr ids"
  shows "\<exists>t. get_operator_tenant_id cfg d = Inr t
    \<and> ids = map u_id (filter (\<lambda>u. \<exists>x. t = Some x \<and> ops_recipient U cfg x u) (users d))"
  using assms by (auto simp: get_ops_recipient_ids_def split: sum.splits option.splits)

text \<open>
  An accepted webhook of alerts reaches the technical team and nobody else: only a caller with the configured token is
  heard; every alert becomes one notification, unread, for every active account of the operator's organisation that has one of the
  configured roles, in order; the answer counts them; and nothing else of the database changes, so that the
  administrators of the customers' organisations receive nothing.
\<close>

theorem alerts_reach_the_operators_only:
  assumes "receive_alertmanager_webhook U upper isoformat cfg now new_id credentials alerts d = (Inr answer, d')"
  shows "credentials = Some (OPS_WEBHOOK_TOKEN cfg) \<and> OPS_WEBHOOK_TOKEN cfg \<noteq> []
    \<and> (\<exists>t rows. get_operator_tenant_id cfg d = Inr t
        \<and> (let team = map u_id (filter (\<lambda>u. \<exists>x. t = Some x \<and> u_tenant_id u = Some x \<and> u_is_active u
                 \<and> utext_of (u_role u) \<in> set (get_ops_recipient_roles U cfg)) (users d))
           in d' = d\<lparr>notifications := notifications d @ rows\<rparr>
             \<and> map (\<lambda>n. (n_user_id n, n_title n, n_content n, n_is_read n)) rows
                = concat (map (\<lambda>a. let (title, content) = format_alert_message upper isoformat a
                     in map (\<lambda>i. (i, take 255 title, Some content, False)) team) alerts)
             \<and> delivered_notifications answer = length alerts * length team \<and> recipients answer = length team))"
proof -
  have tok: "\<exists>v. verify_ops_token cfg credentials = Inr v"
    using assms by (auto simp: receive_alertmanager_webhook_def split: sum.splits)
  obtain ids where ids: "get_ops_recipient_ids U cfg d = Inr ids"
    using assms by (auto simp: receive_alertmanager_webhook_def split: sum.splits)
  obtain delivered rows where fold: "fold (\<lambda>alert (delivered, pending).
                      let (title, content) = format_alert_message upper isoformat alert;
                          (n, pending1) = add_broadcast now new_id ids title (Some content) (utext_of ''alert'') pending
                      in (delivered + n, pending1)) alerts (0, []) = (delivered, rows)" by (rule prod.exhaust)
  have d': "d' = d\<lparr>notifications := notifications d @ rows\<rparr>" "answer = \<lparr>delivered_notifications = delivered, recipients = length ids\<rparr>"
    using assms tok ids fold
    by (auto simp: receive_alertmanager_webhook_def commit_notifications_def dest!: insert_rows_Inr split: sum.splits)
  note rows = alerts_fold [OF fold, unfolded case_prod_unfold]
  have fields: "map (\<lambda>n. (n_user_id n, n_title n, n_content n, n_is_read n)) rows
      = map (\<lambda>(i, title, content, category, r). (i, title, content, r)) (map shown rows)" by (simp add: shown_def comp_def)
  obtain t where t: "get_operator_tenant_id cfg d = Inr t"
    "ids = map u_id (filter (\<lambda>u. \<exists>x. t = Some x \<and> ops_recipient U cfg x u) (users d))"
    using get_ops_recipient_ids_Inr [OF ids] by blast
  have team: "ids = map u_id (filter (\<lambda>u. \<exists>x. t = Some x \<and> u_tenant_id u = Some x \<and> u_is_active u
                 \<and> utext_of (u_role u) \<in> set (get_ops_recipient_roles U cfg)) (users d))"
    unfolding t(2) ops_recipient_def by (simp add: conj_ac cong: filter_cong)
  show ?thesis
  proof (intro conjI exI [of _ t] exI [of _ rows])
    show "credentials = Some (OPS_WEBHOOK_TOKEN cfg)" "OPS_WEBHOOK_TOKEN cfg \<noteq> []" using tok verify_ops_token_Inr by blast+
    show "get_operator_tenant_id cfg d = Inr t" by (rule t(1))
  qed (unfold Let_def team [symmetric], use d' rows in \<open>simp add: fields map_concat comp_def case_prod_unfold\<close>)
qed

definition demo_ops :: ops_settings where
  "demo_ops = \<lparr>OPS_WEBHOOK_TOKEN = utext_of ''k'', OPS_ALERT_RECIPIENT_ROLES = utext_of ''Admin'', OPS_ALERT_TENANT_ID = []\<rparr>"

definition demo_alert :: "nat AlertmanagerAlert" where
  "demo_alert = \<lparr>al_status = Firing, al_labels = (\<lambda>_. None), al_annotations = (\<lambda>_. None), al_startsAt = None, al_endsAt = None\<rparr>"

lemma insert_rows_new: "distinct (map n_id (rows0 @ ns)) \<Longrightarrow> insert_rows n_id ns rows0 = Inr (rows0 @ ns)"
  by (induction ns arbitrary: rows0) (auto simp: insert_row_def)

lemma demo_alerted:
  "\<exists>answer d'. receive_alertmanager_webhook ascii_tables (\<lambda>t. t) (\<lambda>_. []) demo_ops 0 (\<lambda>i. i) (Some (utext_of ''k'')) [demo_alert]
     (empty_db\<lparr>users := [demo_admin, demo_member]\<rparr>) = (Inr answer, d')"
proof -
  have tok: "verify_ops_token demo_ops (Some (utext_of ''k'')) = Inr ()"
    by (simp add: verify_ops_token_def demo_ops_def utext_of_def utf8_char_def)
  have ids: "\<exists>ids. get_ops_recipient_ids ascii_tables demo_ops (empty_db\<lparr>users := [demo_admin, demo_member]\<rparr>) = Inr ids"
    by (simp add: get_ops_recipient_ids_def get_operator_tenant_id_def demo_ops_def demo_admin_def demo_member_def demo_candidate_def)
  have "insert_rows n_id (snd (add_broadcast 0 (\<lambda>i. i) ids t c k [])) [] = Inr (snd (add_broadcast 0 (\<lambda>i. i) ids t c k []))" for ids t c k
  proof -
    have "map n_id (snd (add_broadcast 0 (\<lambda>i. i) ids t c k [])) = [0..<length ids]"
      by (simp add: add_broadcast_def comp_def case_prod_unfold enumerate_eq_zip)
    then show ?thesis using insert_rows_new [of "[]" "snd (add_broadcast 0 (\<lambda>i. i) ids t c k [])"] by (simp only: append_Nil distinct_upt)
  qed
  then show ?thesis using tok ids
    by (auto simp: receive_alertmanager_webhook_def commit_notifications_def case_prod_unfold Let_def)
qed

theorem alerts_reach_the_operators_only_witness:
  "\<exists>answer d'. receive_alertmanager_webhook ascii_tables (\<lambda>t. t) (\<lambda>_. []) demo_ops 0 (\<lambda>i. i) (Some (utext_of ''k'')) [demo_alert]
     (empty_db\<lparr>users := [demo_admin, demo_member]\<rparr>) = (Inr answer, d')
     \<and> get_operator_tenant_id demo_ops (empty_db\<lparr>users := [demo_admin, demo_member]\<rparr>) = Inr (Some 5)
     \<and> recipients answer = 1 \<and> delivered_notifications answer = 1"
proof -
  obtain answer d' where run: "receive_alertmanager_webhook ascii_tables (\<lambda>t. t) (\<lambda>_. []) demo_ops 0 (\<lambda>i. i) (Some (utext_of ''k''))
     [demo_alert] (empty_db\<lparr>users := [demo_admin, demo_member]\<rparr>) = (Inr answer, d')"
    using demo_alerted by blast
  have t: "get_operator_tenant_id demo_ops (empty_db\<lparr>users := [demo_admin, demo_member]\<rparr>) = Inr (Some 5)"
    by (simp add: get_operator_tenant_id_def demo_ops_def demo_admin_def demo_member_def demo_candidate_def)
  have r: "get_ops_recipient_roles ascii_tables demo_ops = [utext_of ''Admin'']"
    by code_simp
  from alerts_reach_the_operators_only [OF run] t
  have "recipients answer = length (filter (\<lambda>u. \<exists>x. Some 5 = Some x \<and> u_tenant_id u = Some x \<and> u_is_active u
       \<and> utext_of (u_role u) \<in> set (get_ops_recipient_roles ascii_tables demo_ops)) [demo_admin, demo_member])
    \<and> delivered_notifications answer = recipients answer" by (auto simp: Let_def)
  with run t show ?thesis
    by (auto simp: r demo_admin_def demo_member_def demo_candidate_def utext_of_def)
qed

end
