(* ===== verification/Dataset_Text.thy ===== *)
theory Dataset_Text
  imports Py_Regex Py_Utf8
begin

text \<open>
  The normal form of the texts of the fine-tuning data set (app/datasets/finetune/text_clean.py). Parameters: the tables of
  Python's Unicode data base, beyond those of \<open>unicode\<close>: the normal form NFC, the general category of a character,
  full case folding, and the letters and digits of \<open>isalpha\<close> and \<open>isdigit\<close>.
\<close>

section \<open>Repairing mojibake\<close>

record unicode_data =
  ud_nfc :: "utext \<Rightarrow> utext"
  ud_category :: "nat \<Rightarrow> string"
  ud_casefold :: "utext \<Rightarrow> utext"
  ud_isalpha :: "nat \<Rightarrow> bool"
  ud_isdigit :: "nat \<Rightarrow> bool"

definition ZWNJ :: nat where "ZWNJ = 8204"
definition REPLACEMENT_CHAR :: nat where "REPLACEMENT_CHAR = 65533"

text \<open>The characters that the code page 1252 shows for 0x80 to 0x9F, with their bytes.\<close>

definition CP1252_SPECIALS :: "(nat \<times> nat) list" where
  "CP1252_SPECIALS =
     [(8364, 128), (8218, 130), (402, 131), (8222, 132), (8230, 133), (8224, 134), (8225, 135), (710, 136), (8240,
      137), (352, 138), (8249, 139), (338, 140), (381, 142), (8216, 145), (8217, 146), (8220, 147), (8221, 148),
      (8226, 149), (8211, 150), (8212, 151), (732, 152), (8482, 153), (353, 154), (8250, 155), (339, 156), (382,
      158), (376, 159)]"

definition continuation :: "nat \<Rightarrow> bool" where
  "continuation c \<longleftrightarrow> (128 \<le> c \<and> c \<le> 191) \<or> c \<in> fst ` set CP1252_SPECIALS"

definition MOJIBAKE_PATTERN :: regex where
  "MOJIBAKE_PATTERN = Alt (Seq (Cls (\<lambda>c. 194 \<le> c \<and> c \<le> 223)) (Cls continuation))
     (seqs [Cls (\<lambda>c. 224 \<le> c \<and> c \<le> 239), Cls continuation, Cls continuation])"

definition mojibake_char :: "nat \<Rightarrow> bool" where
  "mojibake_char c \<longleftrightarrow> (160 \<le> c \<and> c \<le> 255) \<or> (128 \<le> c \<and> c \<le> 159) \<or> c \<in> fst ` set CP1252_SPECIALS"

definition MOJIBAKE_RUN :: regex where
  "MOJIBAKE_RUN = seqs [Cls mojibake_char, Cls mojibake_char, Star (Cls mojibake_char)]"

definition has_mojibake :: "utext \<Rightarrow> bool" where
  "has_mojibake text \<longleftrightarrow> re_found MOJIBAKE_PATTERN text"

text \<open>\<open>str.encode\<close> for the two code pages: a character without a byte raises.\<close>

definition cp1252_byte :: "nat \<Rightarrow> nat option" where
  "cp1252_byte c = (if c < 128 \<or> (160 \<le> c \<and> c \<le> 255) then Some c else map_of CP1252_SPECIALS c)"

definition latin1_byte :: "nat \<Rightarrow> nat option" where
  "latin1_byte c = (if c \<le> 255 then Some c else None)"

fun encode_with :: "(nat \<Rightarrow> nat option) \<Rightarrow> utext \<Rightarrow> nat list option" where
  "encode_with byte [] = Some []"
| "encode_with byte (c # cs) = (case (byte c, encode_with byte cs) of (Some b, Some bs) \<Rightarrow> Some (b # bs) | _ \<Rightarrow> None)"

fun first_repair :: "(nat \<Rightarrow> nat option) list \<Rightarrow> utext \<Rightarrow> utext" where
  "first_repair [] run = run"
| "first_repair (byte # codecs) run =
     (case Option.bind (encode_with byte run) utf8_decode of
        None \<Rightarrow> first_repair codecs run
      | Some repaired \<Rightarrow> if has_mojibake repaired then first_repair codecs run else repaired)"

definition repair_run :: "utext \<Rightarrow> utext" where
  "repair_run run = (if has_mojibake run then first_repair [cp1252_byte, latin1_byte] run else run)"

definition repair_mojibake :: "utext \<Rightarrow> utext" where
  "repair_mojibake text = (if has_mojibake text then re_sub_with MOJIBAKE_RUN (\<lambda>run _. repair_run run) text else text)"

section \<open>Normal form\<close>

text \<open>Arabic letters to Persian ones, the tatweel away, tabs, returns, hard spaces, and all digits to those of ASCII.\<close>

definition char_map :: "nat \<Rightarrow> utext" where
  "char_map c =
     (if c = 1610 \<or> c = 1609 then [1740] else if c = 1603 then [1705] else if c = 1600 then []
      else if c = 9 \<or> c = 160 then [32] else if c = 13 then [10]
      else if 1776 \<le> c \<and> c \<le> 1785 then [48 + (c - 1776)] else if 1632 \<le> c \<and> c \<le> 1641 then [48 + (c - 1632)]
      else [c])"

definition keep_char :: "unicode_data \<Rightarrow> nat \<Rightarrow> bool" where
  "keep_char D c \<longleftrightarrow> (if c = 10 \<or> c = ZWNJ then True else if c = REPLACEMENT_CHAR then False
     else ud_category D c \<notin> {''Cc'', ''Cf'', ''Cs'', ''Co'', ''Cn''})"

definition strip_invalid_chars :: "unicode_data \<Rightarrow> utext \<Rightarrow> utext" where
  "strip_invalid_chars D text = filter (keep_char D) text"

definition HORIZONTAL_SPACE :: regex where
  "HORIZONTAL_SPACE = Plus (Cls (\<lambda>c. c = 32 \<or> (8192 \<le> c \<and> c \<le> 8203) \<or> c = 8239 \<or> c = 8287 \<or> c = 12288))"

definition SPACE_AROUND_NEWLINE :: regex where
  "SPACE_AROUND_NEWLINE = seqs [Star (Char 32), Char 10, Star (Char 32)]"

definition EXTRA_NEWLINES :: regex where
  "EXTRA_NEWLINES = seqs [Char 10, Char 10, Char 10, Star (Char 10)]"

definition dataset_text :: "unicode \<Rightarrow> unicode_data \<Rightarrow> utext option \<Rightarrow> utext" where
  "dataset_text U D text =
     (case text of
        None \<Rightarrow> []
      | Some t \<Rightarrow>
          if t = [] then []
          else (let t1 = repair_mojibake t;
                    t2 = concat (map char_map (ud_nfc D t1));
                    t3 = strip_invalid_chars D t2;
                    t4 = re_sub HORIZONTAL_SPACE [32] t3;
                    t5 = re_sub SPACE_AROUND_NEWLINE [10] t4;
                    t6 = re_sub EXTRA_NEWLINES [10, 10] t5
                in ustrip U t6))"

text \<open>For near duplicates: the letters only, in lower case.\<close>

definition fingerprint_text :: "unicode_data \<Rightarrow> utext \<Rightarrow> utext" where
  "fingerprint_text D text = filter (ud_isalpha D) (ud_casefold D text)"

end
