(* ===== verification/Anonymize.thy ===== *)
theory Anonymize
  imports Dataset_Text Resume_Parser Search
begin

text \<open>
  The redaction of a resume before it enters the data set (app/datasets/finetune/anonymize.py): first the values of the
  candidate's own identity, then general patterns. Sets of words are lists here, of which only the members matter.
\<close>

section \<open>Patterns\<close>

definition PH_NAME :: utext where "PH_NAME = utext_of ''[NAME]''"
definition PH_EMAIL :: utext where "PH_EMAIL = utext_of ''[EMAIL]''"
definition PH_PHONE :: utext where "PH_PHONE = utext_of ''[PHONE]''"
definition PH_LOCATION :: utext where "PH_LOCATION = utext_of ''[LOCATION]''"
definition PH_ADDRESS :: utext where "PH_ADDRESS = utext_of ''[ADDRESS]''"
definition PH_URL :: utext where "PH_URL = utext_of ''[URL]''"
definition PH_NATIONAL_ID :: utext where "PH_NATIONAL_ID = utext_of ''[NATIONAL_ID]''"
definition PH_POSTAL_CODE :: utext where "PH_POSTAL_CODE = utext_of ''[POSTAL_CODE]''"
definition PH_BIRTH_DATE :: utext where "PH_BIRTH_DATE = utext_of ''[BIRTH_DATE]''"

definition MIN_NAME_TOKEN_LENGTH :: nat where "MIN_NAME_TOKEN_LENGTH = 2"
definition MIN_EMAIL_TOKEN_LENGTH :: nat where "MIN_EMAIL_TOKEN_LENGTH = 3"
definition MAX_HEADER_NAME_WORDS :: nat where "MAX_HEADER_NAME_WORDS = 4"
definition MAX_HEADER_NAME_CHARS :: nat where "MAX_HEADER_NAME_CHARS = 40"

definition is_digit :: "unicode \<Rightarrow> nat \<Rightarrow> bool" where "is_digit U c \<longleftrightarrow> uc_digit U c \<noteq> None"
definition not_digit :: "unicode \<Rightarrow> regex" where "not_digit U = Not_Ahead (is_digit U)"

definition phone_separator :: "unicode \<Rightarrow> nat \<Rightarrow> bool" where
  "phone_separator U c \<longleftrightarrow> uc_space U c \<or> one_of ''-./()'' c \<or> c = ZWNJ"

text \<open>Digits with up to two separators after each, between \<open>m\<close> and \<open>n\<close> of them, and one more.\<close>

definition spaced_digits :: "unicode \<Rightarrow> nat \<Rightarrow> nat \<Rightarrow> regex" where
  "spaced_digits U m n = seqs [Rep m n (Seq (any_digit U) (Rep 0 2 (Cls (phone_separator U)))), any_digit U]"

definition DIGIT_RUN_RE :: "unicode \<Rightarrow> regex" where
  "DIGIT_RUN_RE U = seqs [Not_Behind (\<lambda>c. is_digit U c \<or> c = 43), Opt (Char 40), Opt (Char 43), spaced_digits U 7 15, not_digit U]"

text \<open>The mark after a label: an optional colon (also the full width one) or hyphen, with white space around.\<close>

definition label_mark :: "unicode \<Rightarrow> regex" where
  "label_mark U = seqs [Star (blank U), Opt (Cls (\<lambda>c. c = 58 \<or> c = 65306 \<or> c = 45)), Star (blank U)]"

definition PHONE_LABEL_RE :: "unicode \<Rightarrow> regex" where
  "PHONE_LABEL_RE U = seqs
     [Cap 1 (Seq (alts [word_i U [1578, 1604, 1601, 1606], word_i U [1578, 1605, 1575, 1587], word_i U [1605, 1608, 1576, 1575, 1740, 1604], word_i U [1607, 1605, 1585, 1575, 1607],
         seqs [word_i U [1588, 1605, 1575, 1585, 1607], Star (blank U), word_i U [1578, 1605, 1575, 1587]],
         Lit_i U ''phone'', Lit_i U ''tel'', Lit_i U ''mobile'', Lit_i U ''cell'']) (label_mark U)),
      Cap 2 (Seq (Opt (Char 43)) (spaced_digits U 6 14)), not_digit U]"

definition MOBILE_RE :: "unicode \<Rightarrow> regex" where
  "MOBILE_RE U = seqs [Opt (Char 48), Char 57, Rep 9 9 (any_digit U)]"

definition LANDLINE_RE :: "unicode \<Rightarrow> regex" where
  "LANDLINE_RE U = seqs [Char 48, Cls (\<lambda>c. 49 \<le> c \<and> c \<le> 56), Rep 9 9 (any_digit U)]"

definition EMAIL_RE :: "unicode \<Rightarrow> regex" where
  "EMAIL_RE U = (let host = Plus (Cls (\<lambda>c. uc_word U c \<or> c = 45))
     in seqs [Plus (Cls (\<lambda>c. uc_word U c \<or> one_of ''.+-'' c)), Char 64, host, Plus (Seq (Char 46) host)])"

definition TLDS :: "string list" where
  "TLDS =
     [''com'', ''org'', ''ir'', ''io'', ''me'', ''dev'', ''app'', ''co'', ''info'', ''xyz'', ''site'', ''online'',
      ''tech'', ''ai'', ''blog'', ''page'', ''ly'', ''edu'', ''gov'', ''biz'', ''us'', ''uk'', ''de'', ''ca'', ''tv'']"

text \<open>Letters and digits of ASCII, of either case, and what is no white space.\<close>

definition alnum_i :: "unicode \<Rightarrow> nat \<Rightarrow> bool" where
  "alnum_i U c \<longleftrightarrow> (case uc_lower U [c] of [x] \<Rightarrow> (97 \<le> x \<and> x \<le> 122) \<or> (48 \<le> x \<and> x \<le> 57) | _ \<Rightarrow> False)"

definition non_space :: "unicode \<Rightarrow> regex" where "non_space U = Cls (\<lambda>c. \<not> uc_space U c)"

definition domain_labels :: "unicode \<Rightarrow> regex" where
  "domain_labels U = Plus (seqs [Cls (alnum_i U), Opt (Seq (Star (Cls (\<lambda>c. alnum_i U c \<or> c = 45))) (Cls (alnum_i U))), Char 46])"

definition no_address_before :: "unicode \<Rightarrow> regex" where
  "no_address_before U = Not_Behind (\<lambda>c. uc_word U c \<or> one_of ''@.-'' c)"

definition URL_RE :: "unicode \<Rightarrow> regex" where
  "URL_RE U = alts
     [Seq (Alt (seqs [Lit_i U ''http'', Opt (Char_i U 115), Lit ''://'']) (Seq (Lit_i U ''www'') (Char 46))) (Plus (non_space U)),
      seqs [no_address_before U, domain_labels U, alts (map (Lit_i U) TLDS), Word_Edge (uc_word U), Opt (Seq (Char 47) (Star (non_space U)))],
      seqs [no_address_before U, domain_labels U, Lit_i U ''net'', Char 47, Plus (non_space U)]]"

definition TECH_DOTTED_NAMES :: "utext list" where
  "TECH_DOTTED_NAMES = map utext_of [''socket.io'', ''asp.net'', ''vb.net'', ''ado.net'', ''dot.net'']"

definition HANDLE_RE :: "unicode \<Rightarrow> regex" where
  "HANDLE_RE U = (let c = ascii_alnum_or ''_.''
     in seqs [Not_Behind (\<lambda>c. uc_word U c \<or> one_of ''@.'' c), Char 64, c, c, c, Star c])"

text \<open>A word character that is neither a digit nor the underscore.\<close>

definition letter :: "unicode \<Rightarrow> regex" where "letter U = Cls (\<lambda>c. uc_word U c \<and> \<not> is_digit U c \<and> c \<noteq> 95)"

definition BIRTH_RE :: "unicode \<Rightarrow> regex" where
  "BIRTH_RE U = (let d = any_digit U; sep = Cls (one_of ''/-.''); gap = Plus (blank U) in seqs
     [Cap 1 (seqs
        [alts [seqs [word_i U [1578, 1575, 1585, 1740, 1582], Star (blank U), word_i U [1578, 1608, 1604, 1583]],
           seqs [word_i U [1587, 1575, 1604], Star (blank U), word_i U [1578, 1608, 1604, 1583]], word_i U [1605, 1578, 1608, 1604, 1583], word_i U [1578, 1608, 1604, 1583],
           seqs [Lit_i U ''date'', Star (blank U), Lit_i U ''of'', Star (blank U), Lit_i U ''birth''],
           seqs [Lit_i U ''birth'', Star (blank U), Alt (Lit_i U ''date'') (Lit_i U ''day'')],
           Seq (Lit_i U ''born'') (Opt (Seq (Star (blank U)) (Alt (Lit_i U ''on'') (Lit_i U ''in'')))), Lit_i U ''dob''],
         label_mark U, Opt (Seq (word_i U [1587, 1575, 1604]) (Star (blank U)))]),
      Cap 2 (alts
        [seqs [Rep 1 4 d, sep, Rep 1 2 d, sep, Rep 1 4 d],
         seqs [Rep 1 2 d, gap, Plus (letter U), gap, Rep 2 4 d],
         seqs [Plus (letter U), gap, Rep 1 2 d, Opt (Char 44), gap, Rep 4 4 d],
         Rep 4 4 d])])"

definition ADDRESS_RE :: "unicode \<Rightarrow> regex" where
  "ADDRESS_RE U = seqs
     [Cap 1 (seqs [alts [word_i U [1570, 1583, 1585, 1587], word_i U [1606, 1588, 1575, 1606, 1740], seqs [word_i U [1605, 1581, 1604], Star (blank U), word_i U [1587, 1705, 1608, 1606, 1578]], Lit_i U ''address''],
        Star (blank U), Cls (\<lambda>c. c = 58 \<or> c = 65306), Star (blank U)]),
      Cap 2 (Plus (Cls (\<lambda>c. c \<noteq> 10 \<and> c \<noteq> 124)))]"

definition POSTAL_LABELED_RE :: "unicode \<Rightarrow> regex" where
  "POSTAL_LABELED_RE U = seqs
     [Cap 1 (Seq (alts [seqs [word_i U [1705, 1583], Star (blank U), word_i U [1662, 1587, 1578, 1740]], seqs [Lit_i U ''postal'', Star (blank U), Lit_i U ''code''],
        seqs [Lit_i U ''zip'', Star (blank U), Lit_i U ''code''], Lit_i U ''zip'']) (label_mark U)),
      Cap 2 (seqs [Rep 5 5 (any_digit U), Opt (Cls (\<lambda>c. uc_space U c \<or> c = 45)), Rep 5 5 (any_digit U)])]"

definition NATIONAL_ID_RE :: "unicode \<Rightarrow> regex" where
  "NATIONAL_ID_RE U = seqs [Not_Behind (is_digit U), any_digit U,
     Rep 9 9 (Seq (Opt (Cls (\<lambda>c. uc_space U c \<or> c = 45))) (any_digit U)), not_digit U]"

text \<open>The characters of a word, exactly those of the words of the search.\<close>

definition token_char :: "unicode \<Rightarrow> nat \<Rightarrow> bool" where "token_char U c \<longleftrightarrow> uc_word U c \<and> c \<noteq> 95"

definition TOKEN_RE :: "unicode \<Rightarrow> regex" where "TOKEN_RE U = Plus (Cls (token_char U))"

definition REPEATED_PLACEHOLDER_RE :: "unicode \<Rightarrow> regex" where
  "REPEATED_PLACEHOLDER_RE U = seqs
     [Cap 1 (seqs [Char 91, Plus (Cls (\<lambda>c. (65 \<le> c \<and> c \<le> 90) \<or> c = 95)), Char 93]),
      Plus (Seq (Plus (Cls (\<lambda>c. uc_space U c \<or> c = 44 \<or> c = 1548))) (Back 1))]"

definition HEADER_STOPWORDS :: "utext list" where
  "HEADER_STOPWORDS =
     [utext_of ''resume'', utext_of ''cv'', utext_of ''curriculum'', utext_of ''vitae'', utext_of ''profile'',
      utext_of ''summary'', utext_of ''senior'', utext_of ''junior'', utext_of ''lead'', utext_of ''developer'',
      utext_of ''engineer'', utext_of ''backend'', utext_of ''frontend'', utext_of ''fullstack'',
      utext_of ''manager'', utext_of ''designer'', utext_of ''analyst'', utext_of ''specialist'',
      [1585, 1586, 1608, 1605, 1607], [1587, 1608, 1575, 1576, 1602], [1705, 1575, 1585, 1740],
      [1582, 1604, 1575, 1589, 1607], [1576, 1585, 1606, 1575, 1605, 1607], [1606, 1608, 1740, 1587],
      [1578, 1608, 1587, 1593, 1607], [1583, 1607, 1606, 1583, 1607], [1705, 1575, 1585, 1588, 1606, 1575, 1587],
      [1605, 1607, 1606, 1583, 1587], [1605, 1583, 1740, 1585], [1591, 1585, 1575, 1581],
      [1578, 1581, 1604, 1740, 1604, 1711, 1585], [1575, 1585, 1588, 1583]]"

section \<open>The identity of a candidate\<close>

record Identity =
  id_names :: "utext list"
  id_emails :: "utext list"
  id_phones :: "utext list"
  id_locations :: "utext list"

definition header_name :: "unicode \<Rightarrow> unicode_data \<Rightarrow> utext \<Rightarrow> utext option" where
  "header_name U D text =
     (let first_line = (case filter (\<lambda>l. l \<noteq> []) (map (ustrip U) (splitlines text)) of [] \<Rightarrow> [] | l # _ \<Rightarrow> l);
          words = re_findall (TOKEN_RE U) first_line
      in if length words < 2 \<or> MAX_HEADER_NAME_WORDS < length words \<or> MAX_HEADER_NAME_CHARS < length first_line then None
         else if (\<exists>c \<in> set first_line. ud_isdigit D c) \<or> (\<exists>w \<in> set words. uc_lower U w \<in> set HEADER_STOPWORDS) then None
         else Some first_line)"

definition with_header_name :: "unicode \<Rightarrow> unicode_data \<Rightarrow> Identity \<Rightarrow> utext \<Rightarrow> Identity" where
  "with_header_name U D identity resume_text =
     (case header_name U D resume_text of
        None \<Rightarrow> identity
      | Some name \<Rightarrow> if name = [] then identity else identity\<lparr>id_names := id_names identity @ [name]\<rparr>)"

definition name_words :: "unicode \<Rightarrow> unicode_data \<Rightarrow> utext \<Rightarrow> utext list" where
  "name_words U D name =
     (let words = resume_search_words U (Some (dataset_text U D (Some name)))
      in words @ (if 2 \<le> length words \<and> length words \<le> 3 then [concat words] else []))"

definition is_number :: "unicode_data \<Rightarrow> utext \<Rightarrow> bool" where
  "is_number D token \<longleftrightarrow> token \<noteq> [] \<and> (\<forall>c \<in> set token. ud_isdigit D c)"

definition name_tokens :: "unicode \<Rightarrow> unicode_data \<Rightarrow> Identity \<Rightarrow> utext list" where
  "name_tokens U D identity =
     filter (\<lambda>token. MIN_NAME_TOKEN_LENGTH \<le> length token \<and> \<not> is_number D token)
       (concat (map (name_words U D) (id_names identity))
        @ concat (map (\<lambda>email. filter (\<lambda>word. MIN_EMAIL_TOKEN_LENGTH \<le> length word)
            (resume_search_words U (Some (takeWhile (\<lambda>c. c \<noteq> 64) (dataset_text U D (Some email)))))) (id_emails identity)))"

definition phone_digits :: "unicode \<Rightarrow> unicode_data \<Rightarrow> utext \<Rightarrow> utext option" where
  "phone_digits U D phone =
     (let digits = filter digit (dataset_text U D (Some phone))
      in if 8 \<le> length digits then Some (drop (length digits - 10) digits) else None)"

text \<open>The hashes are a sorted set; only their members matter.\<close>

definition identity_hashes :: "(utext \<Rightarrow> string) \<Rightarrow> unicode \<Rightarrow> unicode_data \<Rightarrow> Identity \<Rightarrow> string list" where
  "identity_hashes hmac U D identity =
     remdups (map (blind_index_token hmac U)
       (name_tokens U D identity
        @ concat (map (\<lambda>phone. case phone_digits U D phone of
             None \<Rightarrow> [] | Some digits \<Rightarrow> [digits, utext_of ''0'' @ digits, utext_of ''98'' @ digits]) (id_phones identity))))"

definition exact_phone_pattern :: "unicode \<Rightarrow> utext \<Rightarrow> regex" where
  "exact_phone_pattern U digits =
     (let sep = Star (Cls (phone_separator U));
          body = (case digits of [] \<Rightarrow> [] | d # ds \<Rightarrow> Char d # concat (map (\<lambda>d. [sep, Char d]) ds))
      in seqs ([Not_Behind (is_digit U),
           Opt (Alt (seqs [Opt (Alt (Char 43) (Lit ''00'')), Lit ''98'', sep]) (Seq (Char 48) sep))] @ body @ [not_digit U]))"

definition exact_phone_patterns :: "unicode \<Rightarrow> unicode_data \<Rightarrow> Identity \<Rightarrow> regex list" where
  "exact_phone_patterns U D identity =
     concat (map (\<lambda>phone. case phone_digits U D phone of None \<Rightarrow> [] | Some digits \<Rightarrow> [exact_phone_pattern U digits])
       (id_phones identity))"

section \<open>Redaction\<close>

definition is_phone_number :: "unicode \<Rightarrow> utext \<Rightarrow> bool" where
  "is_phone_number U raw =
     (let digits = filter digit raw;
          international = ((case dropWhile (\<lambda>c. c = 40) raw of c # _ \<Rightarrow> c = 43 | [] \<Rightarrow> False)
            \<or> (prefix (utext_of ''00'') digits \<and> 11 \<le> length digits));
          national = (if prefix (utext_of ''0098'') digits then drop 4 digits
            else if prefix (utext_of ''98'') digits \<and> (international \<or> length digits = 12) then drop 2 digits else digits)
      in if re_fullmatch (MOBILE_RE U) national \<or> re_fullmatch (LANDLINE_RE U) national then True
         else if length national = 10 \<and> 49 \<le> hd national \<and> hd national \<le> 56 \<and> national \<noteq> digits then True
         else international \<and> 8 \<le> length (dropWhile (\<lambda>c. c = 48) digits) \<and> length (dropWhile (\<lambda>c. c = 48) digits) \<le> 15)"

text \<open>A match with its first group kept.\<close>

definition keep_label :: "utext \<Rightarrow> utext \<Rightarrow> (nat \<times> utext) list \<Rightarrow> utext" where
  "keep_label placeholder m g = group_text g 1 @ placeholder"

definition redact_phones :: "unicode \<Rightarrow> utext \<Rightarrow> utext" where
  "redact_phones U text =
     re_sub_with (DIGIT_RUN_RE U) (\<lambda>m _. if is_phone_number U m then PH_PHONE else m)
       (re_sub_with (PHONE_LABEL_RE U) (keep_label PH_PHONE) text)"

definition phrase_pattern :: "unicode \<Rightarrow> unicode_data \<Rightarrow> utext \<Rightarrow> regex option" where
  "phrase_pattern U D phrase =
     (case re_findall (TOKEN_RE U) (dataset_text U D (Some phrase)) of
        [] \<Rightarrow> None
      | w # ws \<Rightarrow>
          (let gap = Plus (Cls (\<lambda>c. uc_space U c \<or> c = 44 \<or> c = 1548 \<or> c = 45))
           in Some (seqs ([Not_Behind (token_char U), word_i U w] @ concat (map (\<lambda>w. [gap, word_i U w]) ws)
                @ [Not_Ahead (token_char U)]))))"

definition redact_url :: "unicode \<Rightarrow> utext \<Rightarrow> utext" where
  "redact_url U m = (if uc_lower U m \<in> set TECH_DOTTED_NAMES then m else PH_URL)"

definition redact_patterns :: "unicode \<Rightarrow> utext \<Rightarrow> utext" where
  "redact_patterns U text =
     (let t1 = re_sub (EMAIL_RE U) PH_EMAIL text;
          t2 = re_sub_with (URL_RE U) (\<lambda>m _. redact_url U m) t1;
          t3 = re_sub (HANDLE_RE U) PH_URL t2;
          t4 = re_sub_with (BIRTH_RE U) (keep_label PH_BIRTH_DATE) t3;
          t5 = re_sub_with (POSTAL_LABELED_RE U) (keep_label PH_POSTAL_CODE) t4;
          t6 = redact_phones U t5;
          t7 = re_sub (NATIONAL_ID_RE U) PH_NATIONAL_ID t6
      in re_sub_with (ADDRESS_RE U) (keep_label PH_ADDRESS) t7)"

definition redact_names :: "unicode \<Rightarrow> utext \<Rightarrow> utext list \<Rightarrow> utext" where
  "redact_names U text tokens =
     (if tokens = [] then text
      else re_sub_with (REPEATED_PLACEHOLDER_RE U) (\<lambda>_ g. group_text g 1)
        (re_sub_with (TOKEN_RE U) (\<lambda>m _. if uc_lower U m \<in> set tokens then PH_NAME else m) text))"

definition redact_locations :: "unicode \<Rightarrow> unicode_data \<Rightarrow> utext \<Rightarrow> Identity \<Rightarrow> utext" where
  "redact_locations U D text identity =
     fold (\<lambda>location text. case phrase_pattern U D location of None \<Rightarrow> text | Some pattern \<Rightarrow> re_sub pattern PH_LOCATION text)
       (id_locations identity) text"

record Redactor =
  rd_identity :: Identity
  rd_tokens :: "utext list"
  rd_phone_patterns :: "regex list"

definition for_identity :: "unicode \<Rightarrow> unicode_data \<Rightarrow> Identity \<Rightarrow> Redactor" where
  "for_identity U D identity = \<lparr>rd_identity = identity, rd_tokens = name_tokens U D identity,
     rd_phone_patterns = exact_phone_patterns U D identity\<rparr>"

definition exact_phones :: "Redactor \<Rightarrow> utext \<Rightarrow> utext" where
  "exact_phones r text = fold (\<lambda>pattern text. re_sub pattern PH_PHONE text) (rd_phone_patterns r) text"

definition redact_whole_resume :: "unicode \<Rightarrow> unicode_data \<Rightarrow> Redactor \<Rightarrow> utext \<Rightarrow> utext" where
  "redact_whole_resume U D r text =
     redact_names U (redact_locations U D (redact_patterns U (exact_phones r text)) (rd_identity r)) (rd_tokens r)"

definition redact_other_text :: "unicode \<Rightarrow> Redactor \<Rightarrow> utext \<Rightarrow> utext" where
  "redact_other_text U r text = redact_names U (redact_patterns U (exact_phones r text)) (rd_tokens r)"

end
