(* ===== verification/Dataset_Records.thy ===== *)
theory Dataset_Records
  imports Anonymize Privacy Crypto
begin

text \<open>
  One record of the fine-tuning data set from a pair of resume and advert (app/datasets/finetune/records.py). The analysis of
  the agents is read as the JSON value that the data base holds, of any shape: what Python raises on a shape that does not
  fit (ValueError, TypeError, KeyError, AttributeError, OverflowError) is \<open>Invalid_Record\<close>. Parameters: Python's reading of
  a number from a text, its printing of a value and of a number, and the JSON printer. A number that is no number or
  infinite is not modelled; keys of soft skills that are no texts count as incomparable.
\<close>

section \<open>JSON values as Python reads them\<close>

datatype invalid = Invalid_Record

record python_text =
  pt_float :: "utext \<Rightarrow> rat option"
  pt_str :: "json \<Rightarrow> utext"
  pt_repr :: "rat \<Rightarrow> utext"

definition and_then :: "'e + 'a \<Rightarrow> ('a \<Rightarrow> 'e + 'b) \<Rightarrow> 'e + 'b" where
  "and_then r f = (case r of Inl e \<Rightarrow> Inl e | Inr a \<Rightarrow> f a)"

lemma and_then_Inr [simp]: "and_then r f = Inr b \<longleftrightarrow> (\<exists>a. r = Inr a \<and> f a = Inr b)"
  by (simp add: and_then_def split: sum.split)

fun dict_get :: "json \<Rightarrow> string \<Rightarrow> invalid + json" where
  "dict_get (JObj kvs) key = Inr (case map_of kvs key of None \<Rightarrow> JNull | Some v \<Rightarrow> v)"
| "dict_get _ key = Inl Invalid_Record"

definition json_or :: "json \<Rightarrow> json \<Rightarrow> json" where
  "json_or a b = (if json_truthy a then a else b)"

text \<open>\<open>(j.get(key) or {})\<close> and \<open>(j.get(key) or [])\<close>.\<close>

definition get_dict :: "json \<Rightarrow> string \<Rightarrow> invalid + json" where
  "get_dict j key = and_then (dict_get j key) (\<lambda>v. Inr (json_or v (JObj [])))"

definition get_list :: "json \<Rightarrow> string \<Rightarrow> invalid + json" where
  "get_list j key = and_then (dict_get j key) (\<lambda>v. Inr (json_or v (JArr [])))"

text \<open>Iteration, length and the first elements: a list, the characters of a text, the keys of an object.\<close>

fun elements :: "json \<Rightarrow> invalid + json list" where
  "elements (JArr xs) = Inr xs"
| "elements (JStr s) = Inr (map (\<lambda>c. JStr [c]) s)"
| "elements (JObj kvs) = Inr (map (\<lambda>(k, _). JStr (utext_of k)) kvs)"
| "elements _ = Inl Invalid_Record"

fun first_elements :: "nat \<Rightarrow> json \<Rightarrow> invalid + json list" where
  "first_elements n (JArr xs) = Inr (take n xs)"
| "first_elements n (JStr s) = Inr (map (\<lambda>c. JStr [c]) (take n s))"
| "first_elements n _ = Inl Invalid_Record"

definition json_length :: "json \<Rightarrow> invalid + nat" where
  "json_length j = and_then (elements j) (\<lambda>xs. Inr (length xs))"

fun json_float :: "python_text \<Rightarrow> json \<Rightarrow> invalid + rat" where
  "json_float P (JInt i) = Inr (of_int i)"
| "json_float P (JFloat x) = Inr x"
| "json_float P (JBool b) = Inr (if b then 1 else 0)"
| "json_float P (JStr s) = (case pt_float P s of None \<Rightarrow> Inl Invalid_Record | Some x \<Rightarrow> Inr x)"
| "json_float P _ = Inl Invalid_Record"

fun json_str :: "python_text \<Rightarrow> json \<Rightarrow> utext" where
  "json_str P (JStr s) = s"
| "json_str P j = pt_str P j"

fun as_text :: "json \<Rightarrow> invalid + utext" where
  "as_text (JStr s) = Inr s"
| "as_text _ = Inl Invalid_Record"

text \<open>\<open>normalize_text\<close> of a value: a falsy one gives the empty text, one that is no text raises.\<close>

definition json_dataset_text :: "unicode \<Rightarrow> unicode_data \<Rightarrow> json \<Rightarrow> invalid + utext" where
  "json_dataset_text U D j =
     (if json_truthy j then and_then (as_text j) (\<lambda>s. Inr (dataset_text U D (Some s))) else Inr [])"

definition round1 :: "rat \<Rightarrow> rat" where
  "round1 x = of_int (round_half_even (10 * x)) / 10"

fun nat_text :: "nat \<Rightarrow> utext" where
  "nat_text n = (if n < 10 then [48 + n] else nat_text (n div 10) @ [48 + n mod 10])"

declare nat_text.simps [simp del]

definition int_text :: "int \<Rightarrow> utext" where
  "int_text i = (if i < 0 then 45 # nat_text (nat (- i)) else nat_text (nat i))"

section \<open>Sources\<close>

definition INSTRUCTION :: utext where
  "INSTRUCTION =
     [1588, 1605, 1575, 32, 1705, 1575, 1585, 1588, 1606, 1575, 1587, 32, 1575, 1585, 1588, 1583, 32, 1580, 1584, 1576,
      32, 1608, 32, 1575, 1587, 1578, 1582, 1583, 1575, 1605, 32, 1583, 1585, 32, 1576, 1575, 1586, 1575, 1585, 32,
      1705, 1575, 1585, 32, 1575, 1740, 1585, 1575, 1606, 32, 1607, 1587, 1578, 1740, 1583, 46, 32, 1585, 1586, 1608,
      1605, 1607, 8204, 1740, 32, 1586, 1740, 1585, 32, 1585, 1575, 32, 1576, 1575, 32, 1570, 1711, 1607, 1740, 32,
      1588, 1594, 1604, 1740, 32, 1605, 1602, 1575, 1740, 1587, 1607, 32, 1608, 32, 1575, 1585, 1586, 1740, 1575, 1576,
      1740, 32, 1705, 1606, 1740, 1583, 46, 32, 1662, 1575, 1587, 1582, 32, 1585, 1575, 32, 1601, 1602, 1591, 32, 1576,
      1607, 8204, 1589, 1608, 1585, 1578, 32, 1740, 1705, 32, 1588, 1740, 1569, 32, 74, 83, 79, 78, 32, 1576, 1575, 32,
      1575, 1740, 1606, 32, 1705, 1604, 1740, 1583, 1607, 1575, 32, 1576, 1585, 1711, 1585, 1583, 1575, 1606, 1740,
      1583, 58, 32, 115, 99, 111, 114, 101, 32, 40, 1593, 1583, 1583, 32, 1589, 1581, 1740, 1581, 32, 48, 32, 1578,
      1575, 32, 49, 48, 48, 41, 1548, 32, 118, 101, 114, 100, 105, 99, 116, 1548, 32, 109, 97, 116, 99, 104, 101, 100,
      95, 115, 107, 105, 108, 108, 115, 1548, 32, 109, 105, 115, 115, 105, 110, 103, 95, 115, 107, 105, 108, 108, 115,
      1548, 32, 101, 120, 112, 101, 114, 105, 101, 110, 99, 101, 1548, 32, 115, 111, 102, 116, 95, 115, 107, 105, 108,
      108, 115, 1548, 32, 102, 108, 97, 103, 115, 1548, 32, 104, 114, 95, 111, 117, 116, 99, 111, 109, 101, 32, 1608,
      32, 114, 97, 116, 105, 111, 110, 97, 108, 101, 46, 32, 1575, 1591, 1604, 1575, 1593, 1575, 1578, 32, 1607, 1608,
      1740, 1578, 1740, 32, 1705, 1575, 1585, 1580, 1608, 32, 1576, 1575, 32, 1576, 1585, 1670, 1587, 1576, 8204, 1607,
      1575, 1740, 1740, 32, 1605, 1579, 1604, 32, 91, 78, 65, 77, 69, 93, 1548, 32, 91, 69, 77, 65, 73, 76, 93, 32,
      1608, 32, 91, 80, 72, 79, 78, 69, 93, 32, 1580, 1575, 1740, 1711, 1586, 1740, 1606, 32, 1588, 1583, 1607, 32,
      1575, 1587, 1578, 1563, 32, 1570, 1606, 8204, 1607, 1575, 32, 1585, 1575, 32, 1581, 1583, 1587, 32, 1606, 1586,
      1606, 1740, 1583, 32, 1608, 32, 1583, 1585, 32, 1575, 1585, 1586, 1740, 1575, 1576, 1740, 32, 1583, 1582, 1575,
      1604, 1578, 32, 1606, 1583, 1607, 1740, 1583, 46]"

definition STRONG_MATCH_SCORE :: int where "STRONG_MATCH_SCORE = 70"
definition POTENTIAL_MATCH_SCORE :: int where "POTENTIAL_MATCH_SCORE = 40"
definition SOFT_SKILL_MIN_SCORE :: rat where "SOFT_SKILL_MIN_SCORE = 1 / 2"
definition MAX_SOFT_SKILLS :: nat where "MAX_SOFT_SKILLS = 5"
definition MAX_POSITIONS :: nat where "MAX_POSITIONS = 10"

record JobInfo =
  ji_title :: utext
  ji_department :: "utext option"
  ji_description :: "utext option"
  ji_skills_required :: "utext list"
  ji_seniority :: "utext option"
  ji_education :: "utext option"

record PairSource =
  ps_candidate_key :: utext
  ps_score_ai :: "int option"
  ps_status :: string
  ps_job :: JobInfo
  ps_resume_text :: "utext option"
  ps_analysis :: "json option"
  ps_identity :: Identity
  ps_interview_score :: "rat option"
  ps_ambiguous_link :: bool

definition verdict_for :: "int \<Rightarrow> utext" where
  "verdict_for score =
     (if STRONG_MATCH_SCORE \<le> score then [1605, 1606, 1575, 1587, 1576]
      else if POTENTIAL_MATCH_SCORE \<le> score
      then [1606, 1740, 1575, 1586, 1605, 1606, 1583, 32, 1576, 1585, 1585, 1587, 1740, 32, 1576, 1740, 1588, 1578, 1585]
      else [1606, 1575, 1605, 1606, 1575, 1587, 1576])"

section \<open>Input\<close>

definition given_text :: "utext option \<Rightarrow> bool" where
  "given_text t \<longleftrightarrow> (case t of None \<Rightarrow> False | Some s \<Rightarrow> s \<noteq> [])"

definition labelled :: "utext \<Rightarrow> utext option \<Rightarrow> utext list" where
  "labelled label value = (if given_text value then [label @ [58, 32] @ the value] else [])"

definition persian_comma :: utext where "persian_comma = [1548, 32]"

definition job_block :: "unicode \<Rightarrow> unicode_data \<Rightarrow> JobInfo \<Rightarrow> Redactor \<Rightarrow> utext" where
  "job_block U D job redactor =
     (let lines =
        [[1593, 1606, 1608, 1575, 1606, 58, 32] @ ji_title job]
        @ labelled [1583, 1662, 1575, 1585, 1578, 1605, 1575, 1606] (ji_department job)
        @ labelled [1587, 1591, 1581, 32, 1575, 1585, 1588, 1583, 1740, 1578] (ji_seniority job)
        @ labelled [1578, 1581, 1589, 1740, 1604, 1575, 1578, 32, 1604, 1575, 1586, 1605] (ji_education job)
        @ (if ji_skills_required job \<noteq> []
           then [[1605, 1607, 1575, 1585, 1578, 8204, 1607, 1575, 1740, 32, 1604, 1575, 1586, 1605, 58, 32] @ join_texts persian_comma (ji_skills_required job)]
           else [])
        @ (if given_text (ji_description job) then [[1588, 1585, 1581, 58, 10] @ the (ji_description job)] else [])
      in redact_other_text U redactor (dataset_text U D (Some (join_texts [10] lines))))"

definition JOB_HEADING :: utext where "JOB_HEADING = [35, 35, 32, 1570, 1711, 1607, 1740, 32, 1588, 1594, 1604, 1740, 10]"
definition RESUME_HEADING :: utext where "RESUME_HEADING = [10, 10, 35, 35, 32, 1585, 1586, 1608, 1605, 1607, 10]"

definition build_input :: "unicode \<Rightarrow> unicode_data \<Rightarrow> PairSource \<Rightarrow> utext \<Rightarrow> Redactor \<Rightarrow> utext" where
  "build_input U D source resume_text redactor =
     JOB_HEADING @ job_block U D (ps_job source) redactor @ RESUME_HEADING @ resume_text"

section \<open>Output\<close>

text \<open>\<open>dict.fromkeys\<close> keeps the first of equal elements.\<close>

definition first_of_each :: "'a list \<Rightarrow> 'a list" where
  "first_of_each xs = rev (remdups (rev xs))"

definition lower_texts :: "unicode \<Rightarrow> json list \<Rightarrow> invalid + utext list" where
  "lower_texts U names = collect (map (\<lambda>n. and_then (as_text n) (\<lambda>s. Inr (uc_lower U s))) names)"

definition item_names :: "unicode \<Rightarrow> python_text \<Rightarrow> json list \<Rightarrow> invalid + utext list" where
  "item_names U P items = and_then
     (collect (map (\<lambda>item. case item of
          JObj kvs \<Rightarrow> Inr (map (\<lambda>key. uc_lower U (case map_of kvs key of None \<Rightarrow> [] | Some v \<Rightarrow> json_str P v)) [''name'', ''core''])
        | _ \<Rightarrow> Inl Invalid_Record) items))
     (\<lambda>names. Inr (concat names))"

definition reported_skills :: "unicode \<Rightarrow> python_text \<Rightarrow> json \<Rightarrow> invalid + utext list" where
  "reported_skills U P analysis =
     and_then (get_dict analysis ''matching'') (\<lambda>matching.
     and_then (get_list matching ''matched_required_skills'') (\<lambda>names.
     and_then (elements names) (\<lambda>xs.
     and_then (lower_texts U xs) (\<lambda>reported.
       if reported \<noteq> [] then Inr reported
       else and_then (get_dict analysis ''skills'') (\<lambda>sk.
            and_then (get_list sk ''items'') (\<lambda>l.
            and_then (elements l) (\<lambda>items. item_names U P items)))))))"

definition record_skills :: "unicode \<Rightarrow> python_text \<Rightarrow> json \<Rightarrow> JobInfo \<Rightarrow> invalid + utext list \<times> utext list" where
  "record_skills U P analysis job =
     (let required = first_of_each (filter (\<lambda>s. s \<noteq> []) (map (ustrip U) (ji_skills_required job)))
      in and_then (reported_skills U P analysis) (\<lambda>reported.
        Inr (filter (\<lambda>skill. uc_lower U skill \<in> set reported) required,
             filter (\<lambda>skill. uc_lower U skill \<notin> set reported) required)))"

definition position_fields :: "unicode \<Rightarrow> unicode_data \<Rightarrow> python_text \<Rightarrow> Redactor \<Rightarrow> (string \<times> json) list \<Rightarrow> json" where
  "position_fields U D P redactor kvs =
     JObj (concat (map (\<lambda>key. case map_of kvs key of
         Some v \<Rightarrow> if json_truthy v then [(key, JStr (redact_other_text U redactor (dataset_text U D (Some (json_str P v)))))] else []
       | None \<Rightarrow> []) [''job_title'', ''company'', ''duration'']))"

definition positions :: "unicode \<Rightarrow> unicode_data \<Rightarrow> python_text \<Rightarrow> Redactor \<Rightarrow> json list \<Rightarrow> invalid + json list" where
  "positions U D P redactor entries = and_then
     (collect (map (\<lambda>entry. case entry of
          JObj kvs \<Rightarrow> Inr (if (case map_of kvs ''is_valid'' of None \<Rightarrow> False | Some v \<Rightarrow> json_truthy v)
            then [position_fields U D P redactor kvs] else [])
        | _ \<Rightarrow> Inl Invalid_Record) entries))
     (\<lambda>ps. Inr (concat ps))"

record experience_part =
  ex_total_years :: rat
  ex_positions :: "json list"
  ex_overlaps :: nat
  ex_invalid_periods :: nat

definition record_experience :: "unicode \<Rightarrow> unicode_data \<Rightarrow> python_text \<Rightarrow> json \<Rightarrow> Redactor \<Rightarrow> invalid + experience_part" where
  "record_experience U D P analysis redactor =
     and_then (get_dict analysis ''experience'') (\<lambda>experience.
     and_then (get_list experience ''entries'') (\<lambda>entries.
     and_then (first_elements MAX_POSITIONS entries) (\<lambda>firsts.
     and_then (positions U D P redactor firsts) (\<lambda>ps.
     and_then (dict_get experience ''total_experience_years'') (\<lambda>years.
     and_then (json_float P (json_or years (JFloat 0))) (\<lambda>x.
     and_then (get_list experience ''overlaps'') (\<lambda>overlaps.
     and_then (json_length overlaps) (\<lambda>n.
     and_then (get_list experience ''invalid_periods'') (\<lambda>invalid_periods.
     and_then (json_length invalid_periods) (\<lambda>m.
       Inr \<lparr>ex_total_years = round1 x, ex_positions = ps, ex_overlaps = n, ex_invalid_periods = m\<rparr>))))))))))"

text \<open>Soft skills of at least one half, the strongest first, those of equal strength by key.\<close>

definition strong_item :: "python_text \<Rightarrow> json \<Rightarrow> invalid + (rat \<times> utext \<times> json) list" where
  "strong_item P item =
     and_then (dict_get item ''score'') (\<lambda>score.
     and_then (json_float P (json_or score (JInt 0))) (\<lambda>x.
       if SOFT_SKILL_MIN_SCORE \<le> x
       then (case item of
           JObj kvs \<Rightarrow> and_then (as_text (case map_of kvs ''key'' of None \<Rightarrow> JStr [] | Some k \<Rightarrow> k)) (\<lambda>key. Inr [(x, key, item)])
         | _ \<Rightarrow> Inl Invalid_Record)
       else Inr []))"

definition soft_label :: "unicode \<Rightarrow> unicode_data \<Rightarrow> Redactor \<Rightarrow> rat \<times> utext \<times> json \<Rightarrow> invalid + utext" where
  "soft_label U D redactor item =
     and_then (dict_get (snd (snd item)) ''label_fa'') (\<lambda>label.
     and_then (json_dataset_text U D (json_or label (JStr (fst (snd item))))) (\<lambda>text. Inr (redact_other_text U redactor text)))"

definition record_soft_skills :: "unicode \<Rightarrow> unicode_data \<Rightarrow> python_text \<Rightarrow> json \<Rightarrow> Redactor \<Rightarrow> invalid + utext list" where
  "record_soft_skills U D P analysis redactor =
     and_then (get_dict analysis ''soft_skills'') (\<lambda>soft.
     and_then (get_list soft ''items'') (\<lambda>l.
     and_then (elements l) (\<lambda>items.
     and_then (collect (map (strong_item P) items)) (\<lambda>strong.
       collect (map (soft_label U D redactor)
         (take MAX_SOFT_SKILLS (sort_key (\<lambda>(x, _, _). - x) (sort_key (\<lambda>(_, key, _). key) (concat strong)))))))))"

definition record_flag :: "unicode \<Rightarrow> unicode_data \<Rightarrow> Redactor \<Rightarrow> json \<Rightarrow> invalid + json" where
  "record_flag U D redactor flag =
     and_then (dict_get flag ''message'') (\<lambda>message.
     and_then (json_dataset_text U D (json_or message (JStr []))) (\<lambda>text.
     and_then (dict_get flag ''code'') (\<lambda>code.
     and_then (dict_get flag ''severity'') (\<lambda>severity.
       Inr (JObj [(''code'', code), (''severity'', severity), (''message'', JStr (redact_other_text U redactor text))])))))"

definition record_flags :: "unicode \<Rightarrow> unicode_data \<Rightarrow> json \<Rightarrow> Redactor \<Rightarrow> invalid + json list" where
  "record_flags U D analysis redactor =
     and_then (get_list analysis ''flags'') (\<lambda>l. and_then (elements l) (\<lambda>flags. collect (map (record_flag U D redactor) flags)))"

definition hr_outcome :: "PairSource \<Rightarrow> json" where
  "hr_outcome source =
     (let status = (if ps_status source = ''Draft'' then None else Some (ps_status source))
      in if status = None \<and> ps_interview_score source = None then JNull
         else JObj [(''status'', case status of None \<Rightarrow> JNull | Some s \<Rightarrow> JStr (utext_of s)),
                (''interview_score'', case ps_interview_score source of None \<Rightarrow> JNull | Some x \<Rightarrow> JFloat (round2 x))])"

definition rationale :: "python_text \<Rightarrow> int \<Rightarrow> utext list \<Rightarrow> utext list \<Rightarrow> experience_part \<Rightarrow> nat \<Rightarrow> utext" where
  "rationale P score matched missing experience n_flags =
     (let n = length matched + length missing
      in join_texts [32]
        ([[1606, 1605, 1585, 1607, 8204, 1740, 32, 1578, 1591, 1575, 1576, 1602, 32]
            @ int_text score @ [32, 1575, 1586, 32, 49, 48, 48, 32, 40]
            @ verdict_for score @ [41, 46]]
         @ (if n \<noteq> 0 then [nat_text (length matched) @ [32, 1575, 1586, 32] @ nat_text n
              @ [32, 1605, 1607, 1575, 1585, 1578, 32, 1604, 1575, 1586, 1605, 32, 1570, 1711, 1607, 1740, 32, 1583, 1585, 32, 1585, 1586, 1608, 1605, 1607, 32, 1583, 1740, 1583, 1607, 32, 1588, 1583, 46]] else [])
         @ (if missing \<noteq> [] then [[1605, 1607, 1575, 1585, 1578, 8204, 1607, 1575, 1740, 32, 1594, 1575, 1740, 1576, 58, 32]
              @ join_texts persian_comma missing @ [46]] else [])
         @ [[1587, 1575, 1576, 1602, 1607, 8204, 1740, 32, 1705, 1575, 1585, 1740, 32, 1605, 1593, 1578, 1576, 1585, 58, 32]
              @ pt_repr P (ex_total_years experience) @ [32, 1587, 1575, 1604, 46]]
         @ (if n_flags \<noteq> 0 then [nat_text n_flags @ [32, 1607, 1588, 1583, 1575, 1585, 32, 1575, 1593, 1578, 1576, 1575, 1585, 1587, 1606, 1580, 1740, 32, 1576, 1585, 1575, 1740, 32, 1576, 1585, 1585, 1587, 1740, 32, 72, 82, 32, 1579, 1576, 1578, 32, 1588, 1583, 46]] else [])))"

definition output_payload :: "unicode \<Rightarrow> unicode_data \<Rightarrow> python_text \<Rightarrow> PairSource \<Rightarrow> Redactor \<Rightarrow> invalid + json" where
  "output_payload U D P source redactor =
     (let analysis = (case ps_analysis source of None \<Rightarrow> JObj [] | Some a \<Rightarrow> json_or a (JObj []))
      in case ps_score_ai source of
        None \<Rightarrow> Inl Invalid_Record
      | Some score \<Rightarrow>
          and_then (record_skills U P analysis (ps_job source)) (\<lambda>(matched, missing).
          and_then (record_experience U D P analysis redactor) (\<lambda>experience.
          and_then (record_flags U D analysis redactor) (\<lambda>flags.
          and_then (record_soft_skills U D P analysis redactor) (\<lambda>soft.
            Inr (JObj
              [(''score'', JInt score), (''verdict'', JStr (verdict_for score)),
               (''matched_skills'', JArr (map JStr matched)), (''missing_skills'', JArr (map JStr missing)),
               (''experience'', JObj [(''total_years'', JFloat (ex_total_years experience)),
                  (''positions'', JArr (ex_positions experience)), (''overlaps'', JInt (int (ex_overlaps experience))),
                  (''invalid_periods'', JInt (int (ex_invalid_periods experience)))]),
               (''soft_skills'', JArr (map JStr soft)), (''flags'', JArr flags), (''hr_outcome'', hr_outcome source),
               (''rationale'', JStr (rationale P score matched missing experience (length flags)))]))))))"

record dataset_record =
  dr_instruction :: utext
  dr_input :: utext
  dr_output :: utext

definition build_record ::
  "unicode \<Rightarrow> unicode_data \<Rightarrow> python_text \<Rightarrow> json_text \<Rightarrow> PairSource \<Rightarrow> utext \<Rightarrow> Redactor \<Rightarrow> invalid + dataset_record" where
  "build_record U D P J source resume_text redactor =
     and_then (output_payload U D P source redactor) (\<lambda>payload.
       Inr \<lparr>dr_instruction = INSTRUCTION, dr_input = build_input U D source resume_text redactor, dr_output = dumps J payload\<rparr>)"

end
