(* ===== verification/Dataset_Split.thy ===== *)
theory Dataset_Split
  imports Matching "HOL-Library.Multiset" "HOL-Library.Product_Lexorder"
begin

text \<open>
  The split of the fine-tuning data set into training, validation and test parts (app/datasets/finetune/split.py): all
  records of a candidate (a group) go to one part, and the score bands (buckets) are divided separately. Parameters:
  the shuffle of the random generator (for a seed and a bucket) and the floating point term (\<open>deficit\<close>)
  \<open>split[1] * total - filled\<close>.
\<close>

section \<open>The program\<close>

datatype split_name = Train | Validation | Test

definition SPLITS :: "(split_name \<times> rat) list" where
  "SPLITS = [(Train, 4 / 5), (Validation, 1 / 10), (Test, 1 / 10)]"

text \<open>A \<open>Counter\<close>: the counts in the order of their first appearance, zero for an absent key.\<close>

type_synonym 'k counter = "('k \<times> nat) list"

definition count_of :: "'k counter \<Rightarrow> 'k \<Rightarrow> nat" where
  "count_of c k = (case map_of c k of None \<Rightarrow> 0 | Some n \<Rightarrow> n)"

definition bump :: "nat \<Rightarrow> 'k \<Rightarrow> 'k counter \<Rightarrow> 'k counter" where
  "bump n k c = dict_set c k (count_of c k + n)"

text \<open>\<open>max(xs, key=f)\<close>: the first of the elements of greatest key.\<close>

fun max_by :: "('a \<Rightarrow> 'b::linorder) \<Rightarrow> 'a \<Rightarrow> 'a list \<Rightarrow> 'a" where
  "max_by f best [] = best"
| "max_by f best (x # xs) = max_by f (if f best < f x then x else best) xs"

definition dominant_bucket :: "int counter \<Rightarrow> int" where
  "dominant_bucket votes = (case votes of [] \<Rightarrow> 0 | v # vs \<Rightarrow> fst (max_by (\<lambda>(b, n). (n, - b)) v vs))"

definition vote :: "utext \<times> int \<Rightarrow> utext counter \<times> (utext \<times> int counter) list \<Rightarrow> utext counter \<times> (utext \<times> int counter) list" where
  "vote item acc = (let (group, bucket) = item; (sizes, votes) = acc
     in (bump 1 group sizes, dict_set votes group (bump 1 bucket (case map_of votes group of None \<Rightarrow> [] | Some c \<Rightarrow> c))))"

definition group_buckets :: "(utext \<times> int) list \<Rightarrow> (utext \<times> int) list \<times> utext counter" where
  "group_buckets items = (let (sizes, votes) = fold vote items ([], [])
     in (map (\<lambda>(group, c). (group, dominant_bucket c)) votes, sizes))"

definition next_split :: "(rat \<Rightarrow> nat \<Rightarrow> nat \<Rightarrow> rat) \<Rightarrow> nat \<Rightarrow> split_name counter \<Rightarrow> split_name" where
  "next_split deficit whole filled =
     fst (max_by (\<lambda>(name, share). deficit share whole (count_of filled name)) (hd SPLITS) (tl SPLITS))"

fun fill :: "(rat \<Rightarrow> nat \<Rightarrow> nat \<Rightarrow> rat) \<Rightarrow> (utext \<Rightarrow> nat) \<Rightarrow> nat \<Rightarrow> utext list \<Rightarrow> split_name counter \<Rightarrow> (utext \<times> split_name) list" where
  "fill deficit size_of whole [] filled = []"
| "fill deficit size_of whole (g # gs) filled =
     (let name = next_split deficit whole filled
      in (g, name) # fill deficit size_of whole gs (bump (size_of g) name filled))"

definition assign_bucket ::
  "(rat \<Rightarrow> nat \<Rightarrow> nat \<Rightarrow> rat) \<Rightarrow> (int \<Rightarrow> int \<Rightarrow> utext list \<Rightarrow> utext list) \<Rightarrow> utext list \<Rightarrow> (utext \<Rightarrow> nat) \<Rightarrow> int \<Rightarrow> int \<Rightarrow> (utext \<times> split_name) list" where
  "assign_bucket deficit shuffle groups size_of seed bucket =
     (let ordered = sort_key (\<lambda>g. - int (size_of g)) (shuffle seed bucket (sort groups))
      in fill deficit size_of (\<Sum>g\<leftarrow>ordered. size_of g) ordered [])"

text \<open>\<open>dict.update\<close>.\<close>

definition dict_update :: "('k \<times> 'v) list \<Rightarrow> ('k \<times> 'v) list \<Rightarrow> ('k \<times> 'v) list" where
  "dict_update d kvs = fold (\<lambda>(k, v) d. dict_set d k v) kvs d"

definition assign_splits ::
  "(rat \<Rightarrow> nat \<Rightarrow> nat \<Rightarrow> rat) \<Rightarrow> (int \<Rightarrow> int \<Rightarrow> utext list \<Rightarrow> utext list) \<Rightarrow> int \<Rightarrow> (utext \<times> int) list \<Rightarrow> (utext \<times> split_name) list" where
  "assign_splits deficit shuffle seed items =
     (let (buckets, sizes) = group_buckets items
      in fold (\<lambda>b assignment. dict_update assignment
             (assign_bucket deficit shuffle (map fst (filter (\<lambda>(g, b'). b' = b) buckets)) (count_of sizes) seed b))
           (sort (remdups (map snd buckets))) [])"

section \<open>Counting the votes\<close>

declare map_of_dict_set [simp] keys_dict_set [simp] distinct_dict_set [simp]

lemma max_by_greatest: "max_by f x xs \<in> set (x # xs) \<and> (\<forall>y \<in> set (x # xs). f y \<le> f (max_by f x xs))"
proof (induction xs arbitrary: x)
  case (Cons y ys)
  have "f x \<le> f (max_by f (if f x < f y then y else x) ys)" "f y \<le> f (max_by f (if f x < f y then y else x) ys)"
    using Cons [of "if f x < f y then y else x"] by (auto split: if_splits intro: order_trans)
  with Cons [of "if f x < f y then y else x"] show ?case by auto
qed simp

lemma count_of_bump [simp]: "count_of (bump n k c) k' = count_of c k' + (if k = k' then n else 0)"
  by (simp add: count_of_def bump_def)

lemma bump_keys [simp]: "fst ` set (bump n k c) = insert k (fst ` set c)" "distinct (map fst c) \<Longrightarrow> distinct (map fst (bump n k c))"
  by (simp_all add: bump_def)

definition votes_for :: "(utext \<times> int) list \<Rightarrow> utext \<Rightarrow> int counter \<Rightarrow> bool" where
  "votes_for items g c \<longleftrightarrow> distinct (map fst c) \<and> fst ` set c = {b. (g, b) \<in> set items} \<and> (\<forall>b. count_of c b = count_list items (g, b))"

text \<open>What the two counters hold after a list of records.\<close>

definition votes_ok :: "(utext \<times> int) list \<Rightarrow> utext counter \<times> (utext \<times> int counter) list \<Rightarrow> bool" where
  "votes_ok items acc \<longleftrightarrow> distinct (map fst (snd acc)) \<and> fst ` set (snd acc) = fst ` set items
     \<and> (\<forall>g. count_of (fst acc) g = length (filter (\<lambda>i. fst i = g) items))
     \<and> (\<forall>g c. map_of (snd acc) g = Some c \<longrightarrow> votes_for items g c)"

lemma votes_ok_step:
  assumes "votes_ok items acc"
  shows "votes_ok (items @ [item]) (vote item acc)"
proof -
  obtain g b sizes votes where eq: "item = (g, b)" "acc = (sizes, votes)" by (metis surj_pair)
  have none: "votes_for items g []" if "map_of votes g = None"
  proof -
    from that have "g \<notin> fst ` set votes" by (simp add: map_of_eq_None_iff)
    then have "(g, b') \<notin> set items" for b' using assms eq by (force simp: votes_ok_def)
    then show ?thesis by (auto simp: votes_for_def count_of_def count_list_0_iff)
  qed
  have old: "votes_for items g (case map_of votes g of None \<Rightarrow> [] | Some c \<Rightarrow> c)"
    using none assms eq by (auto simp: votes_ok_def split: option.split)
  then have new: "votes_for (items @ [item]) g (bump 1 b (case map_of votes g of None \<Rightarrow> [] | Some c \<Rightarrow> c))"
    by (auto simp: votes_for_def eq)
  have rest: "votes_for (items @ [item]) g' c" if "map_of votes g' = Some c" "g' \<noteq> g" for g' c
    using assms that by (auto simp: votes_ok_def votes_for_def eq)
  show ?thesis using assms new rest by (auto simp: votes_ok_def vote_def eq)
qed

lemma votes_ok_fold: "votes_ok items (fold vote items ([], []))"
proof (induction items rule: rev_induct)
  case Nil
  show ?case by (simp add: votes_ok_def count_of_def)
next
  case (snoc x xs)
  then show ?case by (simp add: votes_ok_step)
qed

text \<open>The dominant bucket depends on the counts only: the most frequent, the smaller one of equals.\<close>

definition dominant_in :: "(utext \<times> int) list \<Rightarrow> utext \<Rightarrow> int \<Rightarrow> bool" where
  "dominant_in items g b \<longleftrightarrow> (g, b) \<in> set items
     \<and> (\<forall>b'. (g, b') \<in> set items \<longrightarrow> (count_list items (g, b'), - b') \<le> (count_list items (g, b), - b))"

lemma dominant_in_unique: "dominant_in items g b \<Longrightarrow> dominant_in items g b' \<Longrightarrow> b = b'"
  by (metis dominant_in_def antisym prod.inject neg_equal_iff_equal)

lemma dominant_bucket_in:
  assumes "votes_for items g c" and "g \<in> fst ` set items"
  shows "dominant_in items g (dominant_bucket c)"
proof -
  have c: "distinct (map fst c)" "fst ` set c = {b. (g, b) \<in> set items}" "\<And>b. count_of c b = count_list items (g, b)"
    using assms(1) by (simp_all add: votes_for_def)
  obtain v vs where v: "c = v # vs" using assms(2) c(2) by (cases c) auto
  define m where "m = max_by (\<lambda>(b, n). (n, - b)) v vs"
  have m: "m \<in> set c" "\<And>y. y \<in> set c \<Longrightarrow> (snd y, - fst y) \<le> (snd m, - fst m)"
    using max_by_greatest [where f = "\<lambda>(b, n). (n, - b)" and x = v and xs = vs] by (auto simp: m_def v case_prod_unfold)
  have n: "snd y = count_list items (g, fst y)" if "y \<in> set c" for y
    using c(1) c(3) [of "fst y"] that by (cases y) (simp add: count_of_def map_of_is_SomeI)
  have top: "(count_list items (g, b), - b) \<le> (count_list items (g, fst m), - fst m)" if "(g, b) \<in> set items" for b
  proof -
    have "b \<in> fst ` set c" using that c(2) by simp
    then obtain y where y: "y \<in> set c" "fst y = b" by auto
    from m(2) [OF y(1)] show ?thesis by (simp only: n [OF m(1)] n [OF y(1)] y(2))
  qed
  have "(g, fst m) \<in> set items" using m(1) c(2) by blast
  moreover have "dominant_bucket c = fst m" unfolding dominant_bucket_def v list.case m_def [symmetric] by simp
  ultimately show ?thesis using top by (simp add: dominant_in_def)
qed

lemma group_buckets_facts:
  assumes "group_buckets items = (bs, sizes)"
  shows "distinct (map fst bs)" and "set bs = {(g, b). dominant_in items g b}"
    and "count_of sizes = (\<lambda>g. length (filter (\<lambda>i. fst i = g) items))"
proof -
  define votes where "votes = snd (fold vote items ([], []))"
  have ok: "votes_ok items (sizes, votes)" and bs: "bs = map (\<lambda>(g, c). (g, dominant_bucket c)) votes"
    using votes_ok_fold [of items] assms by (auto simp: votes_def group_buckets_def case_prod_unfold Let_def)
  have d: "distinct (map fst votes)" "fst ` set votes = fst ` set items" using ok by (simp_all add: votes_ok_def)
  show "distinct (map fst bs)" using d(1) by (simp add: bs case_prod_unfold comp_def)
  show "count_of sizes = (\<lambda>g. length (filter (\<lambda>i. fst i = g) items))" using ok by (auto simp: votes_ok_def)
  have dom: "dominant_in items g (dominant_bucket c)" if "(g, c) \<in> set votes" for g c
  proof -
    have "votes_for items g c" using ok d(1) that by (auto simp: votes_ok_def)
    then show ?thesis using that d(2) by (intro dominant_bucket_in) force+
  qed
  show "set bs = {(g, b). dominant_in items g b}"
  proof (intro set_eqI iffI)
    fix p assume "p \<in> set bs"
    then show "p \<in> {(g, b). dominant_in items g b}" using dom by (auto simp: bs)
  next
    fix p assume "p \<in> {(g, b). dominant_in items g b}"
    then obtain g b where p: "p = (g, b)" "dominant_in items g b" by auto
    then have "g \<in> fst ` set votes" unfolding d(2) by (force simp: dominant_in_def)
    then obtain c where c: "(g, c) \<in> set votes" by auto
    then show "p \<in> set bs" using dominant_in_unique [OF p(2) dom [OF c]] p(1) by (force simp: bs)
  qed
qed

section \<open>The assignment\<close>

definition bucket_groups :: "(utext \<times> int) list \<Rightarrow> int \<Rightarrow> utext list" where
  "bucket_groups items b = sort (map fst (filter (\<lambda>(g, b'). b' = b) (fst (group_buckets items))))"

definition group_size :: "(utext \<times> int) list \<Rightarrow> utext \<Rightarrow> nat" where
  "group_size items g = length (filter (\<lambda>i. fst i = g) items)"

definition all_buckets :: "(utext \<times> int) list \<Rightarrow> int list" where
  "all_buckets items = sort (remdups (map snd (fst (group_buckets items))))"

lemma bucket_groups_facts: "distinct (bucket_groups items b)" "sorted (bucket_groups items b)"
  "set (bucket_groups items b) = {g. dominant_in items g b}"
proof -
  obtain bs sizes where eq: "group_buckets items = (bs, sizes)" by (cases "group_buckets items")
  note gb = group_buckets_facts [OF eq]
  show "distinct (bucket_groups items b)" using gb(1) by (simp add: bucket_groups_def eq distinct_map_filter)
  show "sorted (bucket_groups items b)" by (simp add: bucket_groups_def)
  show "set (bucket_groups items b) = {g. dominant_in items g b}" using gb(2) by (force simp: bucket_groups_def eq)
qed

lemma all_buckets_facts: "distinct (all_buckets items)" "sorted (all_buckets items)"
  "set (all_buckets items) = {b. \<exists>g. dominant_in items g b}"
proof -
  obtain bs sizes where eq: "group_buckets items = (bs, sizes)" by (cases "group_buckets items")
  show "distinct (all_buckets items)" "sorted (all_buckets items)" by (simp_all add: all_buckets_def)
  show "set (all_buckets items) = {b. \<exists>g. dominant_in items g b}"
    using group_buckets_facts(2) [OF eq] by (force simp: all_buckets_def eq)
qed

definition bucket_order :: "(int \<Rightarrow> int \<Rightarrow> utext list \<Rightarrow> utext list) \<Rightarrow> int \<Rightarrow> (utext \<times> int) list \<Rightarrow> int \<Rightarrow> utext list" where
  "bucket_order shuffle seed items b = sort_key (\<lambda>g. - int (group_size items g)) (shuffle seed b (bucket_groups items b))"

definition bucket_assignment ::
  "(rat \<Rightarrow> nat \<Rightarrow> nat \<Rightarrow> rat) \<Rightarrow> (int \<Rightarrow> int \<Rightarrow> utext list \<Rightarrow> utext list) \<Rightarrow> int \<Rightarrow> (utext \<times> int) list \<Rightarrow> int \<Rightarrow> (utext \<times> split_name) list" where
  "bucket_assignment deficit shuffle seed items b =
     (let ordered = bucket_order shuffle seed items b
      in fill deficit (group_size items) (\<Sum>g\<leftarrow>ordered. group_size items g) ordered [])"

lemma assign_splits_eq: "assign_splits deficit shuffle seed items =
    fold (\<lambda>b d. dict_update d (bucket_assignment deficit shuffle seed items b)) (all_buckets items) []"
proof -
  obtain bs sizes where eq: "group_buckets items = (bs, sizes)" by (cases "group_buckets items")
  have "count_of sizes = group_size items" using group_buckets_facts(3) [OF eq] by (simp add: group_size_def fun_eq_iff)
  then show ?thesis
    by (simp add: assign_splits_def eq all_buckets_def assign_bucket_def bucket_assignment_def bucket_order_def bucket_groups_def Let_def)
qed

text \<open>The order of the records does not matter.\<close>

lemma dominant_in_mset: "mset items = mset items' \<Longrightarrow> dominant_in items = dominant_in items'"
  by (simp add: dominant_in_def fun_eq_iff count_mset [symmetric] set_mset_mset [symmetric] del: set_mset_mset count_mset)

lemma bucket_groups_mset: "mset items = mset items' \<Longrightarrow> bucket_groups items b = bucket_groups items' b"
  by (intro sorted_distinct_set_unique bucket_groups_facts) (simp add: bucket_groups_facts dominant_in_mset [of items items'])

lemma all_buckets_mset: "mset items = mset items' \<Longrightarrow> all_buckets items = all_buckets items'"
  by (intro sorted_distinct_set_unique all_buckets_facts) (simp add: all_buckets_facts dominant_in_mset [of items items'])

lemma group_size_mset: "mset items = mset items' \<Longrightarrow> group_size items = group_size items'"
  by (simp add: group_size_def fun_eq_iff size_mset [symmetric] mset_filter del: size_mset)

text \<open>
  C38. The split is deterministic in the data: whatever the order in which the records were read, every
  candidate gets the same part (the same seed given), because ties between score bands go to the smaller band and the
  groups are sorted before they are shuffled.
\<close>

theorem split_ignores_order:
  assumes "mset items = mset items'"
  shows "assign_splits deficit shuffle seed items = assign_splits deficit shuffle seed items'"
proof -
  have "bucket_groups items = bucket_groups items'" by (rule ext) (rule bucket_groups_mset [OF assms])
  then have "bucket_assignment deficit shuffle seed items = bucket_assignment deficit shuffle seed items'"
    by (intro ext) (simp only: bucket_assignment_def bucket_order_def group_size_mset [OF assms])
  then show ?thesis by (simp add: assign_splits_eq all_buckets_mset [OF assms])
qed

definition exact_deficit :: "rat \<Rightarrow> nat \<Rightarrow> nat \<Rightarrow> rat" where
  "exact_deficit share whole filled = share * of_nat whole - of_nat filled"

theorem split_ignores_order_witness:
  "mset [([1], 2), ([2], 2), ([1 :: nat], 3 :: int)] = mset [([1], 3), ([1], 2), ([2], 2)]
   \<and> assign_splits exact_deficit (\<lambda>_ _ gs. gs) 42 [([1], 2), ([2], 2), ([1], 3)]
     = assign_splits exact_deficit (\<lambda>_ _ gs. gs) 42 [([1], 3), ([1], 2), ([2], 2)]"
proof (intro conjI)
  show m: "mset [([1], 2), ([2], 2), ([1 :: nat], 3 :: int)] = mset [([1], 3), ([1], 2), ([2], 2)]" by simp
  show "assign_splits exact_deficit (\<lambda>_ _ gs. gs) 42 [([1], 2), ([2], 2), ([1], 3)]
     = assign_splits exact_deficit (\<lambda>_ _ gs. gs) 42 [([1], 3), ([1], 2), ([2], 2)]" by (rule split_ignores_order [OF m])
qed

section \<open>Parts are whole groups\<close>

lemma fill_keys: "map fst (fill deficit size_of whole gs filled) = gs"
  by (induction gs arbitrary: filled) (simp_all add: Let_def)

lemma dict_update_append:
  assumes "distinct (map fst kvs)" and "fst ` set kvs \<inter> fst ` set d = {}"
  shows "dict_update d kvs = d @ kvs"
  using assms
proof (induction kvs arbitrary: d)
  case (Cons kv kvs)
  have "dict_set d (fst kv) (snd kv) = d @ [kv]" using Cons.prems by (subst dict_set_new) auto
  with Cons show ?case by (cases kv) (force simp: dict_update_def)
qed (simp add: dict_update_def)

text \<open>What the program relies on: a shuffle rearranges.\<close>

definition rearranging :: "(int \<Rightarrow> int \<Rightarrow> utext list \<Rightarrow> utext list) \<Rightarrow> bool" where
  "rearranging shuffle \<longleftrightarrow> (\<forall>seed b gs. mset (shuffle seed b gs) = mset gs)"

lemma bucket_order_facts:
  assumes "rearranging shuffle"
  shows "distinct (bucket_order shuffle seed items b)" and "set (bucket_order shuffle seed items b) = {g. dominant_in items g b}"
proof -
  have m: "mset (bucket_order shuffle seed items b) = mset (bucket_groups items b)"
    using assms by (simp add: bucket_order_def rearranging_def)
  show "distinct (bucket_order shuffle seed items b)" using bucket_groups_facts(1) mset_eq_imp_distinct_iff [OF m] by simp
  show "set (bucket_order shuffle seed items b) = {g. dominant_in items g b}"
    using mset_eq_setD [OF m] by (simp add: bucket_groups_facts)
qed

lemma bucket_assignment_keys:
  assumes "rearranging shuffle"
  shows "distinct (map fst (bucket_assignment deficit shuffle seed items b))"
    and "fst ` set (bucket_assignment deficit shuffle seed items b) = {g. dominant_in items g b}"
proof -
  have m: "map fst (bucket_assignment deficit shuffle seed items b) = bucket_order shuffle seed items b"
    by (simp add: bucket_assignment_def Let_def fill_keys)
  show "distinct (map fst (bucket_assignment deficit shuffle seed items b))" by (simp add: m bucket_order_facts [OF assms])
  show "fst ` set (bucket_assignment deficit shuffle seed items b) = {g. dominant_in items g b}"
    using bucket_order_facts(2) [OF assms] by (metis m list.set_map)
qed

lemma assign_splits_fold:
  assumes "rearranging shuffle" and "distinct bs" and "distinct (map fst d)"
    and "\<And>b g. b \<in> set bs \<Longrightarrow> dominant_in items g b \<Longrightarrow> g \<notin> fst ` set d"
  shows "fold (\<lambda>b d. dict_update d (bucket_assignment deficit shuffle seed items b)) bs d
    = d @ concat (map (bucket_assignment deficit shuffle seed items) bs)
    \<and> distinct (map fst (d @ concat (map (bucket_assignment deficit shuffle seed items) bs)))"
  using assms(2-)
proof (induction bs arbitrary: d)
  case (Cons b bs)
  note keys = bucket_assignment_keys [OF assms(1), of deficit seed items b]
  have apart: "fst ` set (bucket_assignment deficit shuffle seed items b) \<inter> fst ` set d = {}" using Cons.prems(3) keys(2) by auto
  have u: "dict_update d (bucket_assignment deficit shuffle seed items b) = d @ bucket_assignment deficit shuffle seed items b"
    by (rule dict_update_append [OF keys(1) apart])
  have "distinct (map fst (d @ bucket_assignment deficit shuffle seed items b))" using Cons.prems(2) keys(1) apart by auto
  moreover have "g \<notin> fst ` set (d @ bucket_assignment deficit shuffle seed items b)" if "b' \<in> set bs" "dominant_in items g b'" for b' g
    using Cons.prems(1,3) keys(2) that dominant_in_unique [of items g b b'] by (auto simp: image_Un)
  ultimately show ?case using Cons.IH [of "d @ bucket_assignment deficit shuffle seed items b"] Cons.prems(1) by (simp add: u)
qed simp

lemma assign_splits_concat:
  assumes "rearranging shuffle"
  shows "assign_splits deficit shuffle seed items = concat (map (bucket_assignment deficit shuffle seed items) (all_buckets items))"
    and "distinct (map fst (assign_splits deficit shuffle seed items))"
  using assign_splits_fold [OF assms all_buckets_facts(1), of "[]"] by (simp_all add: assign_splits_eq)

lemma dominant_exists: "g \<in> fst ` set items \<longleftrightarrow> (\<exists>b. dominant_in items g b)"
proof -
  obtain bs sizes where eq: "group_buckets items = (bs, sizes)" by (cases "group_buckets items")
  define votes where "votes = snd (fold vote items ([], []))"
  have ok: "votes_ok items (fst (fold vote items ([], [])), votes)" using votes_ok_fold [of items] by (simp add: votes_def)
  have "\<exists>b. dominant_in items g b" if "g \<in> fst ` set items"
  proof -
    have "g \<in> fst ` set votes" using ok that by (simp add: votes_ok_def)
    then obtain c where "map_of votes g = Some c" by (metis map_of_eq_None_iff not_None_eq)
    then have "votes_for items g c" using ok by (simp add: votes_ok_def)
    then show ?thesis using dominant_bucket_in that by blast
  qed
  moreover have "g \<in> fst ` set items" if "dominant_in items g b" for b using that by (force simp: dominant_in_def)
  ultimately show ?thesis by blast
qed

lemma assign_splits_of:
  assumes "rearranging shuffle" and "dominant_in items g b"
  shows "map_of (assign_splits deficit shuffle seed items) g = map_of (bucket_assignment deficit shuffle seed items b) g"
proof -
  have "g \<in> fst ` set (bucket_assignment deficit shuffle seed items b)" using bucket_assignment_keys(2) [OF assms(1)] assms(2) by blast
  then obtain s where s: "map_of (bucket_assignment deficit shuffle seed items b) g = Some s"
    by (metis map_of_eq_None_iff not_None_eq)
  have "b \<in> set (all_buckets items)" using assms(2) by (auto simp: all_buckets_facts)
  then have "(g, s) \<in> set (assign_splits deficit shuffle seed items)"
    using map_of_SomeD [OF s] by (auto simp: assign_splits_concat(1) [OF assms(1)])
  then show ?thesis using s map_of_is_SomeI [OF assign_splits_concat(2) [OF assms(1)]] by simp
qed

lemma every_group_placed:
  assumes "rearranging shuffle"
  shows "fst ` set (assign_splits deficit shuffle seed items) = fst ` set items"
proof -
  have "fst ` set (assign_splits deficit shuffle seed items) = {g. \<exists>b. dominant_in items g b}"
    by (auto simp: assign_splits_concat(1) [OF assms] bucket_assignment_keys(2) [OF assms] all_buckets_facts image_UN)
  then show ?thesis using dominant_exists [of _ items] by blast
qed

section \<open>The shares\<close>

fun share_of :: "split_name \<Rightarrow> rat" where
  "share_of Train = 4 / 5"
| "share_of Validation = 1 / 10"
| "share_of Test = 1 / 10"

lemma share_nonneg: "0 \<le> share_of s" by (cases s) simp_all

lemma SPLITS_share: "SPLITS = map (\<lambda>s. (s, share_of s)) [Train, Validation, Test]"
  by (simp add: SPLITS_def)

text \<open>
  The double precision term is near the exact one, up to 2 to the 40 records (the error there is below one thousandth). Exact
  terms are multiples of one tenth, so that the greatest double belongs to a greatest exact term.
\<close>

definition deficit_ok :: "(rat \<Rightarrow> nat \<Rightarrow> nat \<Rightarrow> rat) \<Rightarrow> bool" where
  "deficit_ok deficit \<longleftrightarrow> (\<forall>s whole filled. whole \<le> 2 ^ 40 \<longrightarrow> filled \<le> whole \<longrightarrow>
     \<bar>deficit (share_of s) whole filled - exact_deficit (share_of s) whole filled\<bar> \<le> 1 / 40)"

definition all_filled :: "split_name counter \<Rightarrow> nat" where
  "all_filled filled = count_of filled Train + count_of filled Validation + count_of filled Test"

lemma count_le_all: "count_of filled s \<le> all_filled filled"
  by (cases s) (simp_all add: all_filled_def)

lemma exact_deficit_tenths: "\<exists>k. 10 * exact_deficit (share_of s) whole filled = of_int k"
  by (rule exI [of _ "(case s of Train \<Rightarrow> 8 | _ \<Rightarrow> 1) * int whole - 10 * int filled"]) (cases s; simp add: exact_deficit_def algebra_simps)

lemma near_tenths:
  assumes "10 * x = of_int k" and "10 * y = of_int l" and "x < y + 1 / (10 :: rat)"
  shows "x \<le> y"
proof -
  have "(of_int k :: rat) < of_int (l + 1)" using assms by simp
  then have "k < l + 1" by (simp only: of_int_less_iff)
  then have "(of_int k :: rat) \<le> of_int l" by simp
  with assms(1,2) show ?thesis by simp
qed

text \<open>The next group goes to a part that lacks most, exactly.\<close>

lemma next_split_lacks_most:
  assumes "deficit_ok deficit" and "whole \<le> 2 ^ 40" and "all_filled filled < whole" and "s = next_split deficit whole filled"
  shows "exact_deficit (share_of s') whole (count_of filled s') \<le> exact_deficit (share_of s) whole (count_of filled s)"
proof -
  define d where "d = (\<lambda>s. deficit (share_of s) whole (count_of filled s))"
  define e where "e = (\<lambda>s. exact_deficit (share_of s) whole (count_of filled s))"
  have near: "d s \<le> e s + 1 / 40" "e s \<le> d s + 1 / 40" for s
  proof -
    have "count_of filled s \<le> whole" using assms(3) count_le_all [of filled s] by simp
    then have "\<bar>d s - e s\<bar> \<le> 1 / 40" using assms(1,2) by (simp add: deficit_ok_def d_def e_def)
    then show "d s \<le> e s + 1 / 40" "e s \<le> d s + 1 / 40" by linarith+
  qed
  have "max_by (\<lambda>(name, share). deficit share whole (count_of filled name)) (hd SPLITS) (tl SPLITS) \<in> set SPLITS
     \<and> (\<forall>y \<in> set SPLITS. (\<lambda>(name, share). deficit share whole (count_of filled name)) y
         \<le> (\<lambda>(name, share). deficit share whole (count_of filled name))
              (max_by (\<lambda>(name, share). deficit share whole (count_of filled name)) (hd SPLITS) (tl SPLITS)))"
    using max_by_greatest [where x = "hd SPLITS" and xs = "tl SPLITS"
        and f = "\<lambda>(name, share). deficit share whole (count_of filled name)"] by (simp add: SPLITS_def)
  then have "d s' \<le> d s" unfolding assms(4) next_split_def d_def SPLITS_share by (cases s') (auto simp: case_prod_unfold)
  then have "e s' < e s + 1 / 10" using near(2) [of s'] near(1) [of s] by linarith
  then have "e s' \<le> e s" unfolding e_def using exact_deficit_tenths near_tenths by metis
  then show ?thesis by (simp add: e_def)
qed

definition placed :: "split_name \<Rightarrow> (utext \<Rightarrow> nat) \<Rightarrow> (utext \<times> split_name) list \<Rightarrow> nat" where
  "placed s size_of as = (\<Sum>(g, n)\<leftarrow>as. if n = s then size_of g else 0)"

lemma placed_simps [simp]: "placed s size_of [] = 0"
  "placed s size_of ((g, n) # as) = (if n = s then size_of g else 0) + placed s size_of as"
  by (simp_all add: placed_def)

lemma all_filled_bump [simp]: "all_filled (bump n s filled) = all_filled filled + n"
  by (cases s) (simp_all add: all_filled_def)

text \<open>What the parts lack: a part that got too much lacks at most the greatest size less than any other.\<close>

definition balanced :: "nat \<Rightarrow> (split_name \<Rightarrow> rat) \<Rightarrow> bool" where
  "balanced M lack \<longleftrightarrow> (\<forall>s. 0 \<le> lack s \<or> (\<forall>s'. lack s' \<le> lack s + of_nat M))"

lemma balanced_bound:
  assumes "balanced M lack" and "lack Train + lack Validation + lack Test = 0"
  shows "3 * \<bar>lack s\<bar> \<le> 2 * of_nat M"
proof -
  have m: "(0 :: rat) \<le> of_nat M" by simp
  have b: "0 \<le> lack s \<or> (lack Train \<le> lack s + of_nat M \<and> lack Validation \<le> lack s + of_nat M \<and> lack Test \<le> lack s + of_nat M)" for s
    using assms(1) by (auto simp: balanced_def)
  show ?thesis using b [of Train] b [of Validation] b [of Test] assms(2) m by (cases s) (auto simp: abs_if)
qed

lemma fill_balanced:
  assumes "deficit_ok deficit" and "whole \<le> 2 ^ 40" and "\<And>g. g \<in> set gs \<Longrightarrow> 0 < size_of g \<and> size_of g \<le> M"
    and "all_filled filled + (\<Sum>g\<leftarrow>gs. size_of g) = whole"
    and "balanced M (\<lambda>s. exact_deficit (share_of s) whole (count_of filled s))"
  shows "balanced M (\<lambda>s. exact_deficit (share_of s) whole (count_of filled s + placed s size_of (fill deficit size_of whole gs filled)))"
  using assms(3-)
proof (induction gs arbitrary: filled)
  case Nil
  then show ?case by simp
next
  case (Cons g gs)
  define n where "n = next_split deficit whole filled"
  have "all_filled filled < whole" using Cons.prems(1) [of g] Cons.prems(2) by simp
  note most = next_split_lacks_most [OF assms(1,2) this n_def]
  have g: "of_nat (size_of g) \<le> (of_nat M :: rat)" "(0 :: rat) \<le> of_nat (size_of g)" using Cons.prems(1) [of g] by simp_all
  have "balanced M (\<lambda>s. exact_deficit (share_of s) whole (count_of (bump (size_of g) n filled) s))"
    unfolding balanced_def
  proof
    fix s
    show "0 \<le> exact_deficit (share_of s) whole (count_of (bump (size_of g) n filled) s)
        \<or> (\<forall>s'. exact_deficit (share_of s') whole (count_of (bump (size_of g) n filled) s')
            \<le> exact_deficit (share_of s) whole (count_of (bump (size_of g) n filled) s) + of_nat M)"
    proof (cases "s = n")
      case True
      have "exact_deficit (share_of s') whole (count_of (bump (size_of g) n filled) s')
            \<le> exact_deficit (share_of n) whole (count_of (bump (size_of g) n filled) n) + of_nat M" for s'
        using most [of s'] g by (auto simp: exact_deficit_def)
      with True show ?thesis by blast
    next
      case False
      have less: "exact_deficit (share_of s') whole (count_of (bump (size_of g) n filled) s')
          \<le> exact_deficit (share_of s') whole (count_of filled s')" for s' using g(2) by (simp add: exact_deficit_def)
      have "0 \<le> exact_deficit (share_of s) whole (count_of filled s)
          \<or> (\<forall>s'. exact_deficit (share_of s') whole (count_of filled s') \<le> exact_deficit (share_of s) whole (count_of filled s) + of_nat M)"
        using Cons.prems(3) by (simp add: balanced_def)
      moreover have "count_of (bump (size_of g) n filled) s = count_of filled s" using False by simp
      ultimately show ?thesis using less by (metis order_trans)
    qed
  qed
  with Cons.IH [of "bump (size_of g) n filled"] Cons.prems
  have "balanced M (\<lambda>s. exact_deficit (share_of s) whole (count_of (bump (size_of g) n filled) s
      + placed s size_of (fill deficit size_of whole gs (bump (size_of g) n filled))))" by simp
  then show ?case by (simp add: Let_def n_def [symmetric] add.assoc eq_commute [of n])
qed

lemma fill_sum:
  "(\<Sum>s\<leftarrow>[Train, Validation, Test]. placed s size_of (fill deficit size_of whole gs filled)) = (\<Sum>g\<leftarrow>gs. size_of g)"
proof (induction gs arbitrary: filled)
  case (Cons g gs)
  from Cons.IH [of "bump (size_of g) (next_split deficit whole filled) filled"] show ?case
    by (cases "next_split deficit whole filled") (simp_all add: Let_def)
qed simp

lemma length_filter_either:
  "(\<And>x. \<not> (P x \<and> Q x)) \<Longrightarrow> length (filter (\<lambda>x. P x \<or> Q x) xs) = length (filter P xs) + length (filter Q xs)"
  by (induction xs) auto

lemma length_of_groups: "distinct gs \<Longrightarrow> (\<Sum>g\<leftarrow>gs. group_size items g) = length (filter (\<lambda>i. fst i \<in> set gs) items)"
proof (induction gs)
  case (Cons g gs)
  then show ?case by (simp add: group_size_def) (subst length_filter_either, auto)
qed simp

lemma length_of_part:
  "distinct (map fst as) \<Longrightarrow> placed s (group_size items) as = length (filter (\<lambda>i. map_of as (fst i) = Some s) items)"
proof (induction as)
  case (Cons a as)
  obtain g n where a: "a = (g, n)" by (cases a)
  have none: "map_of as g = None" using Cons.prems by (simp add: a map_of_eq_None_iff)
  have "filter (\<lambda>i. map_of (a # as) (fst i) = Some s) items
      = filter (\<lambda>i. (fst i = g \<and> n = s) \<or> map_of as (fst i) = Some s) items"
    by (rule filter_cong) (auto simp: a none)
  also have "length \<dots> = length (filter (\<lambda>i. fst i = g \<and> n = s) items) + length (filter (\<lambda>i. map_of as (fst i) = Some s) items)"
    by (rule length_filter_either) (auto simp: none)
  finally show ?case using Cons by (simp add: a group_size_def)
qed simp

definition records_of_bucket :: "(utext \<times> int) list \<Rightarrow> int \<Rightarrow> (utext \<times> int) list" where
  "records_of_bucket items b = filter (\<lambda>i. map_of (fst (group_buckets items)) (fst i) = Some b) items"

definition records_in_part :: "(utext \<times> split_name) list \<Rightarrow> split_name \<Rightarrow> (utext \<times> int) list \<Rightarrow> (utext \<times> int) list" where
  "records_in_part assignment s items = filter (\<lambda>i. map_of assignment (fst i) = Some s) items"

lemma bucket_of_iff: "map_of (fst (group_buckets items)) g = Some b \<longleftrightarrow> dominant_in items g b"
proof -
  obtain bs sizes where eq: "group_buckets items = (bs, sizes)" by (cases "group_buckets items")
  show ?thesis using group_buckets_facts(1,2) [OF eq] by (simp add: eq)
qed

lemma records_in_bucket_part:
  assumes "rearranging shuffle"
  shows "records_in_part (assign_splits deficit shuffle seed items) s (records_of_bucket items b)
    = filter (\<lambda>i. map_of (bucket_assignment deficit shuffle seed items b) (fst i) = Some s) items"
proof -
  have "map_of (bucket_assignment deficit shuffle seed items b) g = None" if "\<not> dominant_in items g b" for g
    using bucket_assignment_keys(2) [OF assms, of deficit seed items b] that by (simp add: map_of_eq_None_iff)
  then have "(dominant_in items g b \<and> map_of (assign_splits deficit shuffle seed items) g = Some s)
      \<longleftrightarrow> map_of (bucket_assignment deficit shuffle seed items b) g = Some s" for g
    by (cases "dominant_in items g b") (simp_all add: assign_splits_of [OF assms])
  then show ?thesis by (simp add: records_in_part_def records_of_bucket_def bucket_of_iff)
qed

text \<open>
  C39. The shares are kept in every score band: with no candidate of more than M records, each part's number of records of
  the band differs from its share by at most two thirds of M, upwards and downwards, although a candidate's records are never divided.
  The rounding of the floating point arithmetic is covered.
\<close>

theorem split_keeps_the_shares:
  assumes "rearranging shuffle" and "deficit_ok deficit" and "length items \<le> 2 ^ 40"
    and "\<forall>g \<in> fst ` set items. length (filter (\<lambda>i. fst i = g) items) \<le> M"
  shows "3 * \<bar>share_of s * of_nat (length (records_of_bucket items b))
        - of_nat (length (records_in_part (assign_splits deficit shuffle seed items) s (records_of_bucket items b)))\<bar> \<le> 2 * (of_nat M :: rat)"
proof -
  define gs where "gs = bucket_order shuffle seed items b"
  define whole where "whole = (\<Sum>g\<leftarrow>gs. group_size items g)"
  define n where "n = (\<lambda>s. placed s (group_size items) (bucket_assignment deficit shuffle seed items b))"
  note gs = bucket_order_facts [OF assms(1), of seed items b, folded gs_def]
  have part: "length (records_in_part (assign_splits deficit shuffle seed items) s (records_of_bucket items b)) = n s" for s
    by (simp add: records_in_bucket_part [OF assms(1)] n_def length_of_part [OF bucket_assignment_keys(1) [OF assms(1)]])
  have whole: "length (records_of_bucket items b) = whole"
    by (simp add: whole_def length_of_groups [OF gs(1)] gs(2) records_of_bucket_def bucket_of_iff)
  have small: "whole \<le> 2 ^ 40" using assms(3) length_filter_le [of _ items] whole unfolding records_of_bucket_def by (metis order_trans)
  have size: "0 < group_size items g \<and> group_size items g \<le> M" if "g \<in> set gs" for g
  proof -
    have "g \<in> fst ` set items" using that gs(2) by (force simp: dominant_in_def)
    with assms(4) show ?thesis by (auto simp: group_size_def filter_empty_conv)
  qed
  have fill: "n s = placed s (group_size items) (fill deficit (group_size items) whole gs [])" for s
    by (simp add: n_def bucket_assignment_def gs_def whole_def Let_def)
  have start: "balanced M (\<lambda>s. exact_deficit (share_of s) whole (count_of [] s))"
    by (simp add: balanced_def exact_deficit_def count_of_def share_nonneg)
  have all: "all_filled [] + (\<Sum>g\<leftarrow>gs. group_size items g) = whole" by (simp add: all_filled_def count_of_def whole_def)
  have lack: "balanced M (\<lambda>s. exact_deficit (share_of s) whole (n s))"
    using fill_balanced [OF assms(2) small size all start] by (simp add: fill count_of_def)
  have "n Train + n Validation + n Test = whole" using fill_sum [of "group_size items" deficit whole gs "[]"] by (simp add: fill whole_def)
  then have "of_nat (n Train) + of_nat (n Validation) + of_nat (n Test) = (of_nat whole :: rat)" by (metis of_nat_add)
  then have "3 * \<bar>exact_deficit (share_of s) whole (n s)\<bar> \<le> 2 * of_nat M"
    by (intro balanced_bound [OF lack]) (simp add: exact_deficit_def algebra_simps)
  then show ?thesis by (simp add: part whole exact_deficit_def)
qed

lemma exact_deficit_ok: "deficit_ok exact_deficit" by (simp add: deficit_ok_def)

lemma same_order_rearranges: "rearranging (\<lambda>_ _ gs. gs)" by (simp add: rearranging_def)

theorem split_keeps_the_shares_witness:
  "length [([1 :: nat], 2 :: int), ([2], 2)] \<le> 2 ^ 40
   \<and> 3 * \<bar>share_of Train * of_nat (length (records_of_bucket [([1], 2), ([2], 2)] 2))
        - of_nat (length (records_in_part (assign_splits exact_deficit (\<lambda>_ _ gs. gs) 42 [([1], 2), ([2], 2)]) Train
           (records_of_bucket [([1], 2), ([2], 2)] 2)))\<bar> \<le> 2 * (of_nat (1 :: nat) :: rat)"
  using split_keeps_the_shares [OF same_order_rearranges exact_deficit_ok, of "[([1], 2), ([2], 2)]" 1 Train 2 42] by simp

end
