(* ===== verification/Dataset_Cleanse.thy ===== *)
theory Dataset_Cleanse
  imports Dataset_Records Dataset_Split
begin

text \<open>
  The cleansing of the fine-tuning data set (app/datasets/finetune/cleanse.py) and the counting of tokens
  (app/datasets/finetune/tokenization.py): every pair passes the rules in order and is either kept or counted under the
  first rule that refuses it. The state of the cleanser is its counters and the hashes of the inputs seen. Parameters:
  the tokenizer (\<open>None\<close> where it raises) and SHA-256.
\<close>

section \<open>Tokens\<close>

record tokenizer =
  tk_encode :: "utext \<Rightarrow> nat list option"
  tk_decode :: "nat list \<Rightarrow> utext"

definition DEFAULT_MAX_TOKENS :: nat where "DEFAULT_MAX_TOKENS = 4096"

definition im_start :: "string \<Rightarrow> utext" where "im_start role = utext_of ''<|im_start|>'' @ utext_of role @ [10]"
definition im_end :: utext where "im_end = utext_of ''<|im_end|>'' @ [10]"

definition render_chat :: "dataset_record \<Rightarrow> utext" where
  "render_chat r = im_start ''system'' @ dr_instruction r @ im_end @ im_start ''user'' @ dr_input r @ im_end
     @ im_start ''assistant'' @ dr_output r @ im_end"

definition count_tokens :: "tokenizer \<Rightarrow> dataset_record \<Rightarrow> invalid + nat" where
  "count_tokens K r = (case tk_encode K (render_chat r) of None \<Rightarrow> Inl Invalid_Record | Some ids \<Rightarrow> Inr (length ids))"

definition round_trips :: "tokenizer \<Rightarrow> utext \<Rightarrow> invalid + bool" where
  "round_trips K text = (case tk_encode K text of None \<Rightarrow> Inl Invalid_Record | Some ids \<Rightarrow> Inr (tk_decode K ids = text))"

section \<open>Rules\<close>

datatype rule =
    Ambiguous_Resume_Link | Incomplete_Resume_Text | Incomplete_Job | Missing_Score | Missing_Agent_Analysis
  | Outlier_Score | Outlier_Experience_Years | Mojibake | Outlier_Resume_Too_Short | Outlier_Resume_Too_Long
  | Duplicate_Exact | Duplicate_Near | Pii_Residual | Tokenizer_Round_Trip | Too_Many_Tokens | Bad_Record

definition RULES :: "rule list" where
  "RULES = [Ambiguous_Resume_Link, Incomplete_Resume_Text, Incomplete_Job, Missing_Score, Missing_Agent_Analysis,
     Outlier_Score, Outlier_Experience_Years, Mojibake, Outlier_Resume_Too_Short, Outlier_Resume_Too_Long,
     Duplicate_Exact, Duplicate_Near, Pii_Residual, Tokenizer_Round_Trip, Too_Many_Tokens, Bad_Record]"

record CleansingConfig =
  cc_min_resume_chars :: nat
  cc_max_resume_chars :: nat
  cc_max_experience_years :: rat
  cc_max_tokens :: nat

definition default_config :: CleansingConfig where
  "default_config = \<lparr>cc_min_resume_chars = 200, cc_max_resume_chars = 15000, cc_max_experience_years = 50,
     cc_max_tokens = DEFAULT_MAX_TOKENS\<rparr>"

record CleanRecord =
  cl_record :: dataset_record
  cl_group :: utext
  cl_bucket :: int
  cl_pii_hashes :: "string list"
  cl_tokens :: nat

definition SCORE_BUCKET_WIDTH :: int where "SCORE_BUCKET_WIDTH = 20"
definition SCORE_BUCKETS :: int where "SCORE_BUCKETS = 5"

definition score_bucket :: "int \<Rightarrow> int" where
  "score_bucket score = min (score div SCORE_BUCKET_WIDTH) (SCORE_BUCKETS - 1)"

text \<open>What the parameters of the cleanser are: Unicode tables, Python's texts of values, the JSON printer, the keyed hash, SHA-256.\<close>

record library =
  lb_unicode :: unicode
  lb_data :: unicode_data
  lb_python :: python_text
  lb_json :: json_text
  lb_hmac :: "utext \<Rightarrow> string"
  lb_sha256 :: "nat list \<Rightarrow> string"
  lb_tokenizer :: tokenizer

definition sha :: "library \<Rightarrow> utext \<Rightarrow> invalid + string" where
  "sha L text = (case utf8_encode text of None \<Rightarrow> Inl Invalid_Record | Some b \<Rightarrow> Inr (lb_sha256 L b))"

definition blank_text :: "unicode \<Rightarrow> utext option \<Rightarrow> bool" where
  "blank_text U t \<longleftrightarrow> (case t of None \<Rightarrow> True | Some s \<Rightarrow> ustrip U s = [])"

definition source_rejection :: "library \<Rightarrow> CleansingConfig \<Rightarrow> PairSource \<Rightarrow> invalid + rule option" where
  "source_rejection L config source =
     (let U = lb_unicode L; job = ps_job source
      in if ps_ambiguous_link source then Inr (Some Ambiguous_Resume_Link)
         else if blank_text U (ps_resume_text source) then Inr (Some Incomplete_Resume_Text)
         else if ustrip U (ji_title job) = [] \<and> blank_text U (ji_description job) then Inr (Some Incomplete_Job)
         else case ps_score_ai source of
           None \<Rightarrow> Inr (Some Missing_Score)
         | Some score \<Rightarrow>
             (case ps_analysis source of
                None \<Rightarrow> Inr (Some Missing_Agent_Analysis)
              | Some analysis \<Rightarrow>
                  if \<not> json_truthy analysis then Inr (Some Missing_Agent_Analysis)
                  else and_then (dict_get analysis ''status'') (\<lambda>status.
                    if status = JStr (utext_of ''failed'') then Inr (Some Missing_Agent_Analysis)
                    else if score < 0 \<or> 100 < score then Inr (Some Outlier_Score)
                    else and_then (get_dict analysis ''experience'') (\<lambda>experience.
                         and_then (dict_get experience ''total_experience_years'') (\<lambda>years.
                         and_then (json_float (lb_python L) (json_or years (JFloat 0))) (\<lambda>x.
                           Inr (if x < 0 \<or> cc_max_experience_years config < x then Some Outlier_Experience_Years else None)))))))"

definition text_rejection :: "CleansingConfig \<Rightarrow> utext \<Rightarrow> rule option" where
  "text_rejection config text =
     (if has_mojibake text then Some Mojibake
      else if length text < cc_min_resume_chars config then Some Outlier_Resume_Too_Short
      else if cc_max_resume_chars config < length text then Some Outlier_Resume_Too_Long
      else None)"

definition record_values :: "dataset_record \<Rightarrow> utext list" where
  "record_values r = [dr_instruction r, dr_input r, dr_output r]"

definition has_identity_word :: "library \<Rightarrow> string list \<Rightarrow> utext \<Rightarrow> bool" where
  "has_identity_word L pii_hashes value \<longleftrightarrow>
     (\<exists>word \<in> set (resume_search_words (lb_unicode L) (Some value)). blind_index_token (lb_hmac L) (lb_unicode L) word \<in> set pii_hashes)"

definition has_pii_residual :: "library \<Rightarrow> dataset_record \<Rightarrow> string list \<Rightarrow> bool" where
  "has_pii_residual L r pii_hashes \<longleftrightarrow>
     (\<exists>value \<in> set (record_values r). redact_patterns (lb_unicode L) value \<noteq> value \<or> has_identity_word L pii_hashes value)"

section \<open>The cleanser\<close>

record Cleanser =
  cn_kept :: nat
  cn_counters :: "rule counter"
  cn_seen_exact :: "string list"
  cn_seen_near :: "string list"

definition new_cleanser :: Cleanser where
  "new_cleanser = \<lparr>cn_kept = 0, cn_counters = [], cn_seen_exact = [], cn_seen_near = []\<rparr>"

definition reject :: "rule \<Rightarrow> Cleanser \<Rightarrow> Cleanser" where
  "reject r c = c\<lparr>cn_counters := bump 1 r (cn_counters c)\<rparr>"

definition is_duplicate :: "library \<Rightarrow> dataset_record \<Rightarrow> Cleanser \<Rightarrow> invalid + rule option \<times> Cleanser" where
  "is_duplicate L r c =
     and_then (sha L (dr_input r)) (\<lambda>exact.
     and_then (sha L (fingerprint_text (lb_data L) (dr_input r))) (\<lambda>near.
       Inr (if exact \<in> set (cn_seen_exact c) then (Some Duplicate_Exact, c)
            else if near \<in> set (cn_seen_near c) then (Some Duplicate_Near, c)
            else (None, c\<lparr>cn_seen_exact := exact # cn_seen_exact c, cn_seen_near := near # cn_seen_near c\<rparr>))))"

fun all_round_trip :: "tokenizer \<Rightarrow> utext list \<Rightarrow> invalid + bool" where
  "all_round_trip K [] = Inr True"
| "all_round_trip K (v # vs) = and_then (round_trips K v) (\<lambda>b. if b then all_round_trip K vs else Inr False)"

definition final_rejection :: "library \<Rightarrow> CleansingConfig \<Rightarrow> dataset_record \<Rightarrow> string list \<Rightarrow> invalid + rule option \<times> nat" where
  "final_rejection L config r pii_hashes =
     (if has_pii_residual L r pii_hashes then Inr (Some Pii_Residual, 0)
      else and_then (all_round_trip (lb_tokenizer L) (record_values r)) (\<lambda>ok.
        if \<not> ok then Inr (Some Tokenizer_Round_Trip, 0)
        else and_then (count_tokens (lb_tokenizer L) r) (\<lambda>tokens.
          Inr (if cc_max_tokens config < tokens then Some Too_Many_Tokens else None, tokens))))"

text \<open>One pair: the record that is kept, if any, or an exception (\<open>Inl\<close>), with the cleanser after it.\<close>

definition process :: "library \<Rightarrow> CleansingConfig \<Rightarrow> PairSource \<Rightarrow> Cleanser \<Rightarrow> (invalid + CleanRecord option) \<times> Cleanser" where
  "process L config source c =
     (let U = lb_unicode L; D = lb_data L
      in case source_rejection L config source of
           Inl e \<Rightarrow> (Inl e, c)
         | Inr (Some rule) \<Rightarrow> (Inr None, reject rule c)
         | Inr None \<Rightarrow>
             (let text = dataset_text U D (ps_resume_text source)
              in case text_rejection config text of
                   Some rule \<Rightarrow> (Inr None, reject rule c)
                 | None \<Rightarrow>
                     (let identity = with_header_name U D (ps_identity source) text; redactor = for_identity U D identity
                      in case build_record U D (lb_python L) (lb_json L) source (redact_whole_resume U D redactor text) redactor of
                           Inl e \<Rightarrow> (Inl e, c)
                         | Inr r \<Rightarrow>
                             (case is_duplicate L r c of
                                Inl e \<Rightarrow> (Inl e, c)
                              | Inr (Some rule, c1) \<Rightarrow> (Inr None, reject rule c1)
                              | Inr (None, c1) \<Rightarrow>
                                  (let pii_hashes = identity_hashes (lb_hmac L) U D identity
                                   in case final_rejection L config r pii_hashes of
                                        Inl e \<Rightarrow> (Inl e, c1)
                                      | Inr (Some rule, _) \<Rightarrow> (Inr None, reject rule c1)
                                      | Inr (None, tokens) \<Rightarrow>
                                          (Inr (Some \<lparr>cl_record = r, cl_group = ps_candidate_key source,
                                             cl_bucket = score_bucket (case ps_score_ai source of None \<Rightarrow> 0 | Some s \<Rightarrow> s),
                                             cl_pii_hashes = pii_hashes, cl_tokens = tokens\<rparr>),
                                           c1\<lparr>cn_kept := Suc (cn_kept c1)\<rparr>))))))"

definition process_safely :: "library \<Rightarrow> CleansingConfig \<Rightarrow> PairSource \<Rightarrow> Cleanser \<Rightarrow> CleanRecord option \<times> Cleanser" where
  "process_safely L config source c =
     (case process L config source c of
        (Inl _, c1) \<Rightarrow> (None, reject Bad_Record c1)
      | (Inr res, c1) \<Rightarrow> (res, c1))"

end
