(* ===== verification/Dataset_Build.thy ===== *)
theory Dataset_Build
  imports Dataset_Cleanse
begin

text \<open>
  Where the pairs come from (app/datasets/finetune/extract.py) and what is written (app/datasets/finetune/build.py). The
  extraction reads the data base in the system scope and never writes. A file is the list of its lines as bytes, without
  the newline, which the JSON printer never puts inside one. The options of the command line, the directory and the access
  rights of the files are not modelled; the manifest is the value that its JSON text holds.
\<close>

section \<open>Extraction\<close>

definition GROUP_PREFIX :: utext where "GROUP_PREFIX = utext_of ''candidate:''"

definition eligible :: "user \<Rightarrow> bool" where
  "eligible u \<longleftrightarrow> u_data_consent_at u \<noteq> None \<and> u_anonymized_at u = None \<and> u_is_active u"

definition resume_join :: "application \<Rightarrow> resume \<Rightarrow> bool" where
  "resume_join a r \<longleftrightarrow> r_candidate_id r = a_candidate_id a \<and> r_tenant_id r = a_tenant_id a \<and> r_agent_analysis r \<noteq> None"

definition count_eligible_pairs :: "db \<Rightarrow> nat" where
  "count_eligible_pairs d = length (remdups
     [a_id a. a \<leftarrow> select_applications SYSTEM_CONTEXT d, c \<leftarrow> select_candidates SYSTEM_CONTEXT d, c_id c = a_candidate_id a,
        u \<leftarrow> users d, u_id u = c_user_id c, r \<leftarrow> select_resumes SYSTEM_CONTEXT d, resume_join a r, eligible u])"

record pair_row =
  pr_application :: application
  pr_interview_score :: "rat option"
  pr_job :: job
  pr_candidate :: candidate
  pr_user :: user
  pr_resume :: resume

text \<open>\<open>avg\<close> of the scores that are there.\<close>

definition interview_score :: "db \<Rightarrow> application \<Rightarrow> rat option" where
  "interview_score d a =
     (let scores = [x. i \<leftarrow> select_interviews SYSTEM_CONTEXT d, i_application_id i = a_id a, x \<leftarrow> (case i_overall_score i of None \<Rightarrow> [] | Some x \<Rightarrow> [x])]
      in if scores = [] then None else Some (sum_list scores / of_nat (length scores)))"

definition pairs_query :: "db \<Rightarrow> pair_row list" where
  "pairs_query d = sort_key (\<lambda>p. a_id (pr_application p)) (sort_key (\<lambda>p. r_id (pr_resume p))
     [\<lparr>pr_application = a, pr_interview_score = interview_score d a, pr_job = j, pr_candidate = c, pr_user = u, pr_resume = r\<rparr>.
        a \<leftarrow> select_applications SYSTEM_CONTEXT d, j \<leftarrow> select_jobs SYSTEM_CONTEXT d, j_id j = a_job_id a,
        c \<leftarrow> select_candidates SYSTEM_CONTEXT d, c_id c = a_candidate_id a, u \<leftarrow> users d, u_id u = c_user_id c,
        r \<leftarrow> select_resumes SYSTEM_CONTEXT d, resume_join a r, eligible u])"

text \<open>\<open>(value or {})\<close> of a nullable JSON column.\<close>

definition column_dict :: "json option \<Rightarrow> json" where
  "column_dict v = (case v of None \<Rightarrow> JObj [] | Some j \<Rightarrow> json_or j (JObj []))"

text \<open>An optional text of the parsed resume: null, or a text (which is all that the parser writes).\<close>

definition text_entry :: "json \<Rightarrow> string \<Rightarrow> invalid + utext list" where
  "text_entry j key = and_then (dict_get j key) (\<lambda>v.
     if json_truthy v then and_then (as_text v) (\<lambda>s. Inr [s]) else Inr [])"

definition row_identity :: "unicode \<Rightarrow> pair_row \<Rightarrow> invalid + Identity" where
  "row_identity U row =
     (let c = pr_candidate row; given = (\<lambda>t. case t of None \<Rightarrow> [] | Some s \<Rightarrow> if s = [] then [] else [s])
      in and_then (get_dict (column_dict (r_parsed_data (pr_resume row))) ''personal_info'') (\<lambda>personal.
         and_then (text_entry personal ''name'') (\<lambda>name.
         and_then (text_entry personal ''email'') (\<lambda>email.
         and_then (text_entry personal ''phone'') (\<lambda>phone.
           Inr \<lparr>id_names = filter (\<lambda>n. ustrip U n \<noteq> [])
                  ([c_first_name c, c_last_name c, c_first_name c @ [32] @ c_last_name c] @ name),
                id_emails = filter (\<lambda>e. e \<noteq> []) ([u_email (pr_user row)] @ email),
                id_phones = given (c_phone c) @ phone, id_locations = given (c_location c)\<rparr>)))))"

definition analysis_score :: "json option \<Rightarrow> invalid + int option" where
  "analysis_score analysis =
     and_then (get_dict (column_dict analysis) ''matching'') (\<lambda>matching.
     and_then (dict_get matching ''score'') (\<lambda>score.
       case score of
         JNull \<Rightarrow> Inr None
       | JInt i \<Rightarrow> Inr (Some i)
       | JFloat x \<Rightarrow> Inr (Some (round_half_even x))
       | JBool b \<Rightarrow> Inr (Some (if b then 1 else 0))
       | _ \<Rightarrow> Inl Invalid_Record))"

text \<open>The resume of an application among several of the same candidate in the same organisation; \<open>None\<close>: it is not known.\<close>

definition pick_resume :: "pair_row list \<Rightarrow> int option \<Rightarrow> invalid + pair_row option" where
  "pick_resume rows score_ai =
     (case rows of
        [row] \<Rightarrow> Inr (Some row)
      | _ \<Rightarrow>
          (case score_ai of
             None \<Rightarrow> Inr None
           | Some s \<Rightarrow>
               and_then (collect (map (\<lambda>row. and_then (analysis_score (r_agent_analysis (pr_resume row))) (\<lambda>x.
                   Inr (if x = Some s then [row] else []))) rows))
                 (\<lambda>ms. Inr (case concat ms of [row] \<Rightarrow> Some row | _ \<Rightarrow> None))))"

definition to_source :: "library \<Rightarrow> pair_row list \<Rightarrow> invalid + PairSource" where
  "to_source L rows =
     (let first = hd rows; a = pr_application first; j = pr_job first
      in and_then (pick_resume rows (a_score_ai a)) (\<lambda>chosen.
         and_then (row_identity (lb_unicode L) (case chosen of None \<Rightarrow> first | Some row \<Rightarrow> row)) (\<lambda>identity.
           Inr \<lparr>ps_candidate_key = utext_of (blind_index_token (lb_hmac L) (lb_unicode L) (GROUP_PREFIX @ utext_of (str_of_uuid (a_candidate_id a)))),
                ps_score_ai = a_score_ai a, ps_status = a_current_status a,
                ps_job = \<lparr>ji_title = j_title j, ji_department = j_department j, ji_description = j_description j,
                  ji_skills_required = (case j_skills_required j of None \<Rightarrow> [] | Some s \<Rightarrow> s),
                  ji_seniority = j_required_seniority j, ji_education = j_required_education j\<rparr>,
                ps_resume_text = (case chosen of None \<Rightarrow> None | Some row \<Rightarrow> r_raw_text (pr_resume row)),
                ps_analysis = (case chosen of None \<Rightarrow> None | Some row \<Rightarrow> r_agent_analysis (pr_resume row)),
                ps_identity = identity, ps_interview_score = pr_interview_score first, ps_ambiguous_link = (chosen = None)\<rparr>)))"

text \<open>Neighbouring rows of the same application make one pair.\<close>

fun row_groups :: "pair_row list \<Rightarrow> pair_row list \<Rightarrow> pair_row list list" where
  "row_groups pending [] = (if pending = [] then [] else [pending])"
| "row_groups pending (row # rows) =
     (if pending \<noteq> [] \<and> a_id (pr_application (hd pending)) \<noteq> a_id (pr_application row)
      then pending # row_groups [row] rows else row_groups (pending @ [row]) rows)"

definition iter_pair_sources :: "library \<Rightarrow> db \<Rightarrow> (invalid + PairSource) list" where
  "iter_pair_sources L d = map (to_source L) (row_groups [] (pairs_query d))"

section \<open>Files\<close>

datatype build_error = Insufficient_Pairs nat nat | Build_Failed

record BuildOptions =
  bo_min_pairs :: nat
  bo_seed :: int
  bo_cleansing :: CleansingConfig

type_synonym line = "nat list"

definition record_json :: "dataset_record \<Rightarrow> json" where
  "record_json r = JObj [(''instruction'', JStr (dr_instruction r)), (''input'', JStr (dr_input r)), (''output'', JStr (dr_output r))]"

definition temp_json :: "CleanRecord \<Rightarrow> json" where
  "temp_json clean = JObj [(''g'', JStr (cl_group clean)), (''p'', JArr (map (\<lambda>h. JStr (utext_of h)) (cl_pii_hashes clean))),
     (''t'', JInt (int (cl_tokens clean))), (''r'', record_json (cl_record clean))]"

text \<open>A line of UTF-8; what cannot be encoded raises.\<close>

definition write_line :: "json_text \<Rightarrow> json \<Rightarrow> build_error + line" where
  "write_line J j = (case utf8_encode (dumps J j) of None \<Rightarrow> Inl Build_Failed | Some b \<Rightarrow> Inr b)"

record collected =
  co_fetched :: nat
  co_temp :: "line list"
  co_meta :: "(utext \<times> int) list"
  co_cleanser :: Cleanser

fun collect_pairs :: "library \<Rightarrow> CleansingConfig \<Rightarrow> (invalid + PairSource) list \<Rightarrow> collected \<Rightarrow> build_error + collected" where
  "collect_pairs L config [] st = Inr st"
| "collect_pairs L config (Inl e # sources) st = Inl Build_Failed"
| "collect_pairs L config (Inr source # sources) st =
     (case process_safely L config source (co_cleanser st) of
        (None, c) \<Rightarrow> collect_pairs L config sources (st\<lparr>co_fetched := Suc (co_fetched st), co_cleanser := c\<rparr>)
      | (Some clean, c) \<Rightarrow>
          (case write_line (lb_json L) (temp_json clean) of
             Inl e \<Rightarrow> Inl e
           | Inr b \<Rightarrow> collect_pairs L config sources
               (st\<lparr>co_fetched := Suc (co_fetched st), co_temp := co_temp st @ [b],
                   co_meta := co_meta st @ [(cl_group clean, cl_bucket clean)], co_cleanser := c\<rparr>)))"

record split_file =
  sp_lines :: "line list"
  sp_manifest :: "(utext \<times> string list) list"
  sp_tokens :: "nat list"

definition empty_file :: split_file where "empty_file = \<lparr>sp_lines = [], sp_manifest = [], sp_tokens = []\<rparr>"

text \<open>A line of the temporary file, read back.\<close>

definition read_temp :: "json_text \<Rightarrow> line \<Rightarrow> build_error + utext \<times> string list \<times> nat \<times> json" where
  "read_temp J b =
     (case Option.bind (utf8_decode b) (loads J) of
        Some (JObj kvs) \<Rightarrow>
          (case (map_of kvs ''g'', map_of kvs ''p'', map_of kvs ''t'', map_of kvs ''r'') of
             (Some (JStr g), Some (JArr p), Some (JInt t), Some r) \<Rightarrow>
               Inr (g, map (\<lambda>h. case h of JStr s \<Rightarrow> text_string s | _ \<Rightarrow> []) p, nat t, r)
           | _ \<Rightarrow> Inl Build_Failed)
      | _ \<Rightarrow> Inl Build_Failed)"

fun write_splits :: "json_text \<Rightarrow> (utext \<times> split_name) list \<Rightarrow> line list \<Rightarrow> (split_name \<Rightarrow> split_file) \<Rightarrow> build_error + (split_name \<Rightarrow> split_file)" where
  "write_splits J assignment [] files = Inr files"
| "write_splits J assignment (b # bs) files =
     (case read_temp J b of
        Inl e \<Rightarrow> Inl e
      | Inr (g, p, t, r) \<Rightarrow>
          (case map_of assignment g of
             None \<Rightarrow> Inl Build_Failed
           | Some name \<Rightarrow>
               (case write_line J r of
                  Inl e \<Rightarrow> Inl e
                | Inr l \<Rightarrow>
                    (let f = files name
                     in write_splits J assignment bs (files(name := \<lparr>sp_lines = sp_lines f @ [l], sp_manifest = sp_manifest f @ [(g, p)],
                          sp_tokens = sp_tokens f @ [t]\<rparr>))))))"

definition percentile :: "nat list \<Rightarrow> rat \<Rightarrow> nat" where
  "percentile values fraction =
     (if values = [] then 0
      else sort values ! min (length values - 1) (nat (round_half_even (fraction * of_nat (length values - 1)))))"

record split_stats =
  ss_records :: nat
  ss_ratio :: rat
  ss_groups :: nat
  ss_p50 :: nat
  ss_p95 :: nat
  ss_max :: nat

definition round4 :: "rat \<Rightarrow> rat" where "round4 x = of_int (round_half_even (10000 * x)) / 10000"

definition split_stats_of :: "(split_name \<Rightarrow> split_file) \<Rightarrow> split_name \<Rightarrow> split_stats" where
  "split_stats_of files s =
     (let whole = sum_list (map (\<lambda>n. length (sp_manifest (files n))) [Train, Validation, Test]); rows = sp_manifest (files s); tokens = sp_tokens (files s)
      in \<lparr>ss_records = length rows, ss_ratio = round4 (of_nat (length rows) / of_nat (if whole = 0 then 1 else whole)),
          ss_groups = length (remdups (map fst rows)), ss_p50 = percentile tokens (1 / 2), ss_p95 = percentile tokens (19 / 20),
          ss_max = percentile tokens 1\<rparr>)"

record build_stats =
  bs_eligible_pairs :: nat
  bs_fetched_pairs :: nat
  bs_kept :: nat
  bs_dropped :: "(rule \<times> nat) list"
  bs_splits :: "split_name \<Rightarrow> split_stats"

record dataset =
  ds_files :: "split_name \<Rightarrow> split_file"
  ds_stats :: build_stats

definition build_dataset ::
  "library \<Rightarrow> (rat \<Rightarrow> nat \<Rightarrow> nat \<Rightarrow> rat) \<Rightarrow> (int \<Rightarrow> int \<Rightarrow> utext list \<Rightarrow> utext list) \<Rightarrow> BuildOptions \<Rightarrow> db \<Rightarrow> build_error + dataset" where
  "build_dataset L deficit shuffle options d =
     (let eligible_pairs = count_eligible_pairs d
      in if eligible_pairs < bo_min_pairs options then Inl (Insufficient_Pairs eligible_pairs (bo_min_pairs options))
         else case collect_pairs L (bo_cleansing options) (iter_pair_sources L d)
                \<lparr>co_fetched = 0, co_temp = [], co_meta = [], co_cleanser = new_cleanser\<rparr> of
           Inl e \<Rightarrow> Inl e
         | Inr st \<Rightarrow>
             (case write_splits (lb_json L) (assign_splits deficit shuffle (bo_seed options) (co_meta st)) (co_temp st) (\<lambda>_. empty_file) of
                Inl e \<Rightarrow> Inl e
              | Inr files \<Rightarrow>
                  Inr \<lparr>ds_files = files,
                    ds_stats = \<lparr>bs_eligible_pairs = eligible_pairs, bs_fetched_pairs = co_fetched st, bs_kept = cn_kept (co_cleanser st),
                      bs_dropped = map (\<lambda>r. (r, count_of (cn_counters (co_cleanser st)) r)) RULES,
                      bs_splits = split_stats_of files\<rparr>\<rparr>))"

end
