(* ===== verification/Dataset_Validate.thy ===== *)
theory Dataset_Validate
  imports Dataset_Build
begin

text \<open>
  The validator of the fine-tuning data set (app/datasets/finetune/validate.py, validate_checks.py), which is written
  independently of the builder: its patterns are its own, and only the keyed hash and the words of the search are shared.
  The report is the list of what was added to it; the counts of the issues and the first examples are read off it. The
  manifest is the value that its JSON text holds, \<open>None\<close> when it cannot be read; a tokenizer that raises ends the run.
\<close>

section \<open>Issues\<close>

datatype issue =
    Manifest_Missing | Missing_File | Manifest_Mismatch
  | Schema_Invalid_Utf8 | Schema_Invalid_Json | Schema_Keys | Schema_Empty_Field | Schema_Output_Json | Schema_Score_Range
  | Pii_Address | Pii_Birth_Date | Pii_Email | Pii_Handle | Pii_Identity | Pii_National_Id | Pii_Phone | Pii_Url
  | Broken_Control_Char | Broken_Invisible_Char | Broken_Mojibake | Broken_Replacement_Char | Broken_Round_Trip | Broken_Surrogate
  | Context_Overflow | Leakage_Group | Split_Ratio

section \<open>Identity patterns\<close>

definition check_separator :: "nat \<Rightarrow> bool" where
  "check_separator c \<longleftrightarrow> c = 32 \<or> c = 9 \<or> one_of ''-./()'' c \<or> c = ZWNJ"

definition CHECK_EMAIL :: "unicode \<Rightarrow> regex" where
  "CHECK_EMAIL U = (let part = Plus (Cls (\<lambda>c. \<not> uc_space U c \<and> c \<noteq> 64 \<and> c \<noteq> 91 \<and> c \<noteq> 93));
       ascii_letter = Cls (\<lambda>c. (65 \<le> c \<and> c \<le> 90) \<or> (97 \<le> c \<and> c \<le> 122))
     in seqs [part, Char 64, part, Char 46, ascii_letter, Plus ascii_letter])"

definition CHECK_HANDLE :: "unicode \<Rightarrow> regex" where
  "CHECK_HANDLE U = (let c = ascii_alnum_or ''_''
     in seqs [Not_Behind (\<lambda>c. uc_word U c \<or> one_of ''@.'' c), Char 64, c, c, c, Star c])"

definition CHECK_NATIONAL_ID :: "unicode \<Rightarrow> regex" where
  "CHECK_NATIONAL_ID U = seqs [Not_Behind (is_digit U), any_digit U,
     Rep 9 9 (Seq (Opt (Cls (\<lambda>c. uc_space U c \<or> c = 45))) (any_digit U)), not_digit U]"

definition CHECK_BIRTH_DATE :: "unicode \<Rightarrow> regex" where
  "CHECK_BIRTH_DATE U = seqs [alts [word_i U [1578, 1608, 1604, 1583], Lit_i U ''born'', Lit_i U ''birth'', Lit_i U ''dob''],
     Rep 0 12 (Cls (\<lambda>c. c \<noteq> 10 \<and> \<not> is_digit U c \<and> c \<noteq> 91)), any_digit U]"

text \<open>After the mark of an address comes a visible character that does not begin its placeholder: a negative lookahead
  at a literal, spelled out for its proper prefixes.\<close>

fun not_literal :: "unicode \<Rightarrow> utext \<Rightarrow> regex" where
  "not_literal U [] = Cls (\<lambda>_. False)"
| "not_literal U (c # cs) = Alt (Not_Ahead (\<lambda>d. uc_lower U [d] = uc_lower U [c])) (Ahead (Seq (Char_i U c) (not_literal U cs)))"

definition CHECK_ADDRESS :: "unicode \<Rightarrow> regex" where
  "CHECK_ADDRESS U = seqs
     [alts [word_i U [1570, 1583, 1585, 1587], word_i U [1606, 1588, 1575, 1606, 1740],
        seqs [word_i U [1605, 1581, 1604], Star (blank U), word_i U [1587, 1705, 1608, 1606, 1578]], Lit_i U ''address''],
      Star (blank U), Cls (\<lambda>c. c = 58 \<or> c = 65306), Star (blank U), not_literal U PH_ADDRESS, non_space U]"

definition CHECK_URL_START :: "unicode \<Rightarrow> regex" where
  "CHECK_URL_START U = Alt (seqs [Lit_i U ''http'', Opt (Char_i U 115), Lit ''://'']) (Seq (Lit_i U ''www'') (Char 46))"

definition CHECK_DOMAIN :: "unicode \<Rightarrow> regex" where
  "CHECK_DOMAIN U = (let labels = Plus (Cls (\<lambda>c. alnum_i U c \<or> c = 45))
     in seqs [no_address_before U, labels, Star (Seq (Char 46) labels), Char 46,
       Alt (Seq (alts (map (Lit_i U) TLDS)) (Word_Edge (uc_word U))) (Seq (Lit_i U ''net'') (Char 47))])"

definition CHECK_DIGITS :: "unicode \<Rightarrow> regex" where
  "CHECK_DIGITS U = seqs [Opt (Char 43), Opt (Char 40), any_digit U, Rep 7 15 (Seq (Rep 0 2 (Cls check_separator)) (any_digit U))]"

definition CHECK_PHONE_AFTER_LABEL :: "unicode \<Rightarrow> regex" where
  "CHECK_PHONE_AFTER_LABEL U = seqs
     [alts [word_i U [1578, 1604, 1601, 1606], word_i U [1578, 1605, 1575, 1587],
        word_i U [1605, 1608, 1576, 1575, 1740, 1604], word_i U [1607, 1605, 1585, 1575, 1607],
        Lit_i U ''phone'', Lit_i U ''tel'', Lit_i U ''mobile'', Lit_i U ''cell''],
      label_mark U, Opt (Char 43), any_digit U]"

definition CHECK_IRAN_PHONE :: "unicode \<Rightarrow> regex" where
  "CHECK_IRAN_PHONE U = Alt
     (seqs [Opt (alts [Lit ''0098'', Lit ''98'', Lit ''0'']), Char 57, Rep 9 9 (any_digit U)])
     (seqs [alts [Lit ''0098'', Lit ''98'', Lit ''0''], Cls (\<lambda>c. 49 \<le> c \<and> c \<le> 56), Rep 9 9 (any_digit U)])"

definition looks_like_phone :: "unicode \<Rightarrow> unicode_data \<Rightarrow> utext \<Rightarrow> bool" where
  "looks_like_phone U D raw =
     (let digits = filter (ud_isdigit D) raw
      in re_fullmatch (CHECK_IRAN_PHONE U) digits
         \<or> (((prefix (utext_of ''+'') raw \<or> prefix (utext_of ''(+'') raw)) \<and> 9 \<le> length digits \<and> length digits \<le> 15)
         \<or> (prefix (utext_of ''00'') digits \<and> 11 \<le> length digits \<and> length digits \<le> 17))"

text \<open>The matches with the character before each and the text after it.\<close>

function find_spots :: "regex \<Rightarrow> nat option \<Rightarrow> utext \<Rightarrow> (nat option \<times> utext \<times> utext) list" where
  "find_spots r p s =
     (case s of
        [] \<Rightarrow> []
      | c # cs \<Rightarrow>
          (case match_here r p s of
             Some (p', s', _) \<Rightarrow>
               if length s' < length s then (p, take (length s - length s') s, s') # find_spots r p' s' else find_spots r (Some c) cs
           | None \<Rightarrow> find_spots r (Some c) cs))"
  by pat_completeness auto
termination
  by (relation "measure (\<lambda>(_, _, s). length s)") auto

declare find_spots.simps [simp del]

definition check_phone :: "unicode \<Rightarrow> unicode_data \<Rightarrow> utext \<Rightarrow> bool" where
  "check_phone U D value \<longleftrightarrow> re_found (CHECK_PHONE_AFTER_LABEL U) value
     \<or> (\<exists>(before, m, after) \<in> set (find_spots (CHECK_DIGITS U) None value).
          (case before of None \<Rightarrow> True | Some c \<Rightarrow> \<not> ud_isdigit D c) \<and> (case after of [] \<Rightarrow> True | c # _ \<Rightarrow> \<not> ud_isdigit D c)
          \<and> looks_like_phone U D m)"

definition strip_slashes :: "utext \<Rightarrow> utext" where
  "strip_slashes t = rev (dropWhile (\<lambda>c. c = 47) (rev t))"

definition check_url :: "unicode \<Rightarrow> utext \<Rightarrow> bool" where
  "check_url U value \<longleftrightarrow> re_found (CHECK_URL_START U) value
     \<or> (\<exists>m \<in> set (re_findall (CHECK_DOMAIN U) value). uc_lower U (strip_slashes m) \<notin> set TECH_DOTTED_NAMES)"

section \<open>Checks of a record\<close>

definition REQUIRED_KEYS :: "string list" where "REQUIRED_KEYS = [''instruction'', ''input'', ''output'']"

definition check_output :: "json_text \<Rightarrow> utext \<Rightarrow> issue list" where
  "check_output J output =
     (case loads J output of
        None \<Rightarrow> [Schema_Output_Json]
      | Some payload \<Rightarrow>
          (case (case payload of JObj kvs \<Rightarrow> map_of kvs ''score'' | _ \<Rightarrow> None) of
             Some (JInt score) \<Rightarrow> if 0 \<le> score \<and> score \<le> 100 then [] else [Schema_Score_Range]
           | _ \<Rightarrow> [Schema_Score_Range]))"

definition text_of_key :: "(string \<times> json) list \<Rightarrow> string \<Rightarrow> utext option" where
  "text_of_key kvs key = (case map_of kvs key of Some (JStr s) \<Rightarrow> Some s | _ \<Rightarrow> None)"

definition check_schema :: "unicode \<Rightarrow> json_text \<Rightarrow> line \<Rightarrow> dataset_record option \<times> issue list" where
  "check_schema U J raw =
     (case utf8_decode raw of
        None \<Rightarrow> (None, [Schema_Invalid_Utf8])
      | Some text \<Rightarrow>
          (case loads J text of
             None \<Rightarrow> (None, [Schema_Invalid_Json])
           | Some (JObj kvs) \<Rightarrow>
               if fst ` set kvs \<noteq> set REQUIRED_KEYS then (None, [Schema_Keys])
               else (case map (text_of_key kvs) REQUIRED_KEYS of
                   [Some instruction, Some inp, Some output] \<Rightarrow>
                     if ustrip U instruction = [] \<or> ustrip U inp = [] \<or> ustrip U output = [] then (None, [Schema_Empty_Field])
                     else (Some \<lparr>dr_instruction = instruction, dr_input = inp, dr_output = output\<rparr>, check_output J output)
                 | _ \<Rightarrow> (None, [Schema_Empty_Field]))
           | Some _ \<Rightarrow> (None, [Schema_Keys])))"

text \<open>The codes come sorted, each once.\<close>

definition check_pii :: "library \<Rightarrow> dataset_record \<Rightarrow> string list \<Rightarrow> issue list" where
  "check_pii L r pii_hashes =
     (let U = lb_unicode L; D = lb_data L
      in map fst (filter (\<lambda>(code, present). \<exists>value \<in> set (record_values r). present value)
        [(Pii_Address, re_found (CHECK_ADDRESS U)), (Pii_Birth_Date, re_found (CHECK_BIRTH_DATE U)),
         (Pii_Email, re_found (CHECK_EMAIL U)), (Pii_Handle, re_found (CHECK_HANDLE U)),
         (Pii_Identity, \<lambda>value. pii_hashes \<noteq> [] \<and> has_identity_word L pii_hashes value),
         (Pii_National_Id, re_found (CHECK_NATIONAL_ID U)), (Pii_Phone, check_phone U D), (Pii_Url, check_url U)]))"

definition char_issue :: "unicode_data \<Rightarrow> nat \<Rightarrow> issue option" where
  "char_issue D c =
     (if c = REPLACEMENT_CHAR then Some Broken_Replacement_Char
      else if 55296 \<le> c \<and> c \<le> 57343 then Some Broken_Surrogate
      else if ud_category D c = ''Cc'' \<and> c \<noteq> 10 then Some Broken_Control_Char
      else if ud_category D c \<in> {''Cf'', ''Co'', ''Cn''} \<and> c \<noteq> ZWNJ then Some Broken_Invisible_Char
      else None)"

text \<open>Once a surrogate was seen the tokenizer is not asked any more.\<close>

fun broken_values :: "library \<Rightarrow> utext list \<Rightarrow> issue set \<Rightarrow> invalid + issue set" where
  "broken_values L [] issues = Inr issues"
| "broken_values L (v # vs) issues =
     (let issues1 = issues \<union> {i. \<exists>c \<in> set v. char_issue (lb_data L) c = Some i};
          issues2 = (if re_found MOJIBAKE_PATTERN v then insert Broken_Mojibake issues1 else issues1)
      in if Broken_Surrogate \<in> issues2 then broken_values L vs issues2
         else and_then (round_trips (lb_tokenizer L) v) (\<lambda>ok.
           broken_values L vs (if ok then issues2 else insert Broken_Round_Trip issues2)))"

definition BROKEN_CODES :: "issue list" where
  "BROKEN_CODES = [Broken_Control_Char, Broken_Invisible_Char, Broken_Mojibake, Broken_Replacement_Char, Broken_Round_Trip, Broken_Surrogate]"

definition check_broken :: "library \<Rightarrow> dataset_record \<Rightarrow> invalid + issue list" where
  "check_broken L r = and_then (broken_values L (record_values r) {}) (\<lambda>issues. Inr (filter (\<lambda>i. i \<in> issues) BROKEN_CODES))"

text \<open>The chat is put together once more, from the roles and keys.\<close>

definition conversation_text :: "dataset_record \<Rightarrow> utext" where
  "conversation_text r = concat (map (\<lambda>(role, text). utext_of ''<|im_start|>'' @ utext_of role @ [10] @ text @ utext_of ''<|im_end|>'' @ [10])
     [(''system'', dr_instruction r), (''user'', dr_input r), (''assistant'', dr_output r)])"

definition conversation_tokens :: "tokenizer \<Rightarrow> dataset_record \<Rightarrow> invalid + nat" where
  "conversation_tokens K r = (case tk_encode K (conversation_text r) of None \<Rightarrow> Inl Invalid_Record | Some ids \<Rightarrow> Inr (length ids))"

definition check_record :: "library \<Rightarrow> nat \<Rightarrow> line \<Rightarrow> (utext \<times> string list) option \<Rightarrow> invalid + issue list \<times> nat" where
  "check_record L max_tokens raw entry =
     (case check_schema (lb_unicode L) (lb_json L) raw of
        (None, issues) \<Rightarrow> Inr (issues, 0)
      | (Some r, issues) \<Rightarrow>
          and_then (check_broken L r) (\<lambda>broken.
            let all = issues @ check_pii L r (case entry of None \<Rightarrow> [] | Some e \<Rightarrow> snd e) @ broken
            in if Broken_Surrogate \<in> set all then Inr (all, 0)
               else and_then (conversation_tokens (lb_tokenizer L) r) (\<lambda>tokens.
                 Inr (if max_tokens < tokens then all @ [Context_Overflow] else all, tokens))))"

section \<open>The data set\<close>

definition TARGETS :: "(split_name \<times> rat) list" where
  "TARGETS = [(Train, 4 / 5), (Validation, 1 / 10), (Test, 1 / 10)]"

text \<open>An entry of the report: the file (\<open>None\<close>: the manifest), the line and the code.\<close>

type_synonym report = "(split_name option \<times> nat \<times> issue) list"

fun check_lines :: "library \<Rightarrow> nat \<Rightarrow> split_name \<Rightarrow> nat \<Rightarrow> line list \<Rightarrow> (utext \<times> string list) list \<Rightarrow> invalid + report \<times> nat list" where
  "check_lines L max_tokens name n [] entries = Inr (if entries \<noteq> [] then [(Some name, n, Manifest_Mismatch)] else [], [])"
| "check_lines L max_tokens name n (raw # raws) entries =
     (let (entry, rest) = (case entries of [] \<Rightarrow> (None, []) | e # es \<Rightarrow> (Some e, es))
      in and_then (check_record L max_tokens raw entry) (\<lambda>(issues, tokens).
         and_then (check_lines L max_tokens name (Suc n) raws rest) (\<lambda>(more, lengths).
           Inr ((if entry = None then [(Some name, Suc n, Manifest_Mismatch)] else [])
                @ map (\<lambda>code. (Some name, Suc n, code)) issues @ more, tokens # lengths))))"

record split_report =
  sr_report :: report
  sr_groups :: "utext list"
  sr_count :: "nat option"
  sr_lengths :: "nat list"

definition validate_split ::
  "library \<Rightarrow> nat \<Rightarrow> split_name \<Rightarrow> line list option \<Rightarrow> (utext \<times> string list) list \<Rightarrow> invalid + split_report" where
  "validate_split L max_tokens name file entries =
     (case file of
        None \<Rightarrow> Inr \<lparr>sr_report = [(Some name, 0, Missing_File)], sr_groups = [], sr_count = None, sr_lengths = []\<rparr>
      | Some raws \<Rightarrow>
          and_then (check_lines L max_tokens name 0 raws entries) (\<lambda>(report, lengths).
            Inr \<lparr>sr_report = report, sr_groups = map fst entries, sr_count = Some (length raws), sr_lengths = lengths\<rparr>))"

definition leakage :: "(split_name \<Rightarrow> split_report) \<Rightarrow> report" where
  "leakage reports = map (\<lambda>(a, b). (Some a, 0, Leakage_Group))
     (filter (\<lambda>(a, b). set (sr_groups (reports a)) \<inter> set (sr_groups (reports b)) \<noteq> {})
       [(Train, Validation), (Train, Test), (Validation, Test)])"

definition off_share :: "rat \<Rightarrow> (split_name \<Rightarrow> split_report) \<Rightarrow> report" where
  "off_share tolerance reports =
     (let count = (\<lambda>s. case sr_count (reports s) of None \<Rightarrow> 0 | Some n \<Rightarrow> n); whole = sum_list (map (\<lambda>(s, _). count s) TARGETS)
      in map (\<lambda>(s, _). (Some s, 0, Split_Ratio))
           (filter (\<lambda>(s, target). tolerance < \<bar>(if whole = 0 then 0 else of_nat (count s) / of_nat whole) - target\<bar>) TARGETS))"

definition validate_dataset ::
  "library \<Rightarrow> nat \<Rightarrow> rat \<Rightarrow> (split_name \<Rightarrow> line list option) \<Rightarrow> (split_name \<Rightarrow> (utext \<times> string list) list) option \<Rightarrow> invalid + report" where
  "validate_dataset L max_tokens tolerance files manifest =
     (let entries = (\<lambda>s. case manifest of None \<Rightarrow> [] | Some m \<Rightarrow> m s)
      in and_then (validate_split L max_tokens Train (files Train) (entries Train)) (\<lambda>train.
         and_then (validate_split L max_tokens Validation (files Validation) (entries Validation)) (\<lambda>valid.
         and_then (validate_split L max_tokens Test (files Test) (entries Test)) (\<lambda>test.
           let reports = (\<lambda>s. case s of Train \<Rightarrow> train | Validation \<Rightarrow> valid | Test \<Rightarrow> test)
           in Inr ((if manifest = None then [(None, 0, Manifest_Missing)] else [])
             @ sr_report train @ sr_report valid @ sr_report test @ leakage reports @ off_share tolerance reports)))))"

text \<open>The lengths of a part: its 95th percentile and its maximum.\<close>

definition length_stats :: "nat list \<Rightarrow> nat \<times> nat" where
  "length_stats lengths = (let ordered = (if lengths = [] then [0] else sort lengths)
     in (ordered ! nat \<lfloor>19 / 20 * (of_nat (length ordered - 1) :: rat)\<rfloor>, last ordered))"

text \<open>The printed report: the status, the counts of the codes, and the first examples.\<close>

definition MAX_EXAMPLES :: nat where "MAX_EXAMPLES = 25"

definition report_passes :: "report \<Rightarrow> bool" where "report_passes r \<longleftrightarrow> r = []"

definition issue_counts :: "report \<Rightarrow> issue \<Rightarrow> nat" where
  "issue_counts r code = length (filter (\<lambda>e. snd (snd e) = code) r)"

definition examples :: "report \<Rightarrow> report" where "examples r = take MAX_EXAMPLES r"

end
