(* ===== verification/Dataset_Properties.thy ===== *)
theory Dataset_Properties
  imports Dataset_Validate Privacy_Properties
begin

text \<open>
  What the fine-tuning data set promises: every pair is kept or counted once, a kept record holds no word of its
  candidate's identity, and what the builder writes passes the independent checks of the validator.
\<close>

section \<open>Counting\<close>

definition counted :: "Cleanser \<Rightarrow> nat" where
  "counted c = cn_kept c + (\<Sum>r\<leftarrow>RULES. count_of (cn_counters c) r)"

lemma counted_reject [simp]: "counted (reject r c) = Suc (counted c)" "cn_kept (reject r c) = cn_kept c"
  by (cases r; simp add: counted_def reject_def RULES_def)+

lemma counted_new [simp]: "counted new_cleanser = 0" "cn_kept new_cleanser = 0"
  by (simp_all add: counted_def new_cleanser_def RULES_def count_of_def)

lemma counted_kept [simp]: "counted (c\<lparr>cn_kept := Suc (cn_kept c)\<rparr>) = Suc (counted c)"
  by (simp add: counted_def)

lemma is_duplicate_counted:
  "is_duplicate L r c = Inr (d, c1) \<Longrightarrow> counted c1 = counted c \<and> cn_kept c1 = cn_kept c \<and> cn_counters c1 = cn_counters c"
  by (auto simp: is_duplicate_def counted_def split: if_splits)

section \<open>Kept records\<close>

definition identity_of :: "library \<Rightarrow> PairSource \<Rightarrow> Identity" where
  "identity_of L source = with_header_name (lb_unicode L) (lb_data L) (ps_identity source)
     (dataset_text (lb_unicode L) (lb_data L) (ps_resume_text source))"

definition built_record :: "library \<Rightarrow> PairSource \<Rightarrow> invalid + dataset_record" where
  "built_record L source =
     (let U = lb_unicode L; D = lb_data L; redactor = for_identity U D (identity_of L source)
      in build_record U D (lb_python L) (lb_json L) source
           (redact_whole_resume U D redactor (dataset_text U D (ps_resume_text source))) redactor)"

text \<open>The ways a pair can take.\<close>

lemma process_cases:
  assumes "process L config source c = (res, c')"
  obtains (raised) e where "res = Inl e" "counted c' = counted c" "cn_kept c' = cn_kept c"
  | (refused) rule c1 where "res = Inr None" "c' = reject rule c1" "counted c1 = counted c" "cn_kept c1 = cn_kept c"
  | (kept) r c1 tokens where
      "source_rejection L config source = Inr None" "built_record L source = Inr r" "is_duplicate L r c = Inr (None, c1)"
      "final_rejection L config r (identity_hashes (lb_hmac L) (lb_unicode L) (lb_data L) (identity_of L source)) = Inr (None, tokens)"
      "res = Inr (Some \<lparr>cl_record = r, cl_group = ps_candidate_key source,
           cl_bucket = score_bucket (case ps_score_ai source of None \<Rightarrow> 0 | Some s \<Rightarrow> s),
           cl_pii_hashes = identity_hashes (lb_hmac L) (lb_unicode L) (lb_data L) (identity_of L source), cl_tokens = tokens\<rparr>)"
      "c' = c1\<lparr>cn_kept := Suc (cn_kept c1)\<rparr>"
  using assms unfolding process_def identity_of_def built_record_def Let_def
  by (fastforce dest: is_duplicate_counted split: sum.splits option.splits prod.splits)

lemma process_safely_counts:
  assumes "process_safely L config source c = (res, c')"
  shows "counted c' = Suc (counted c) \<and> cn_kept c' = cn_kept c + (if res = None then 0 else 1)"
proof -
  obtain r c1 where p: "process L config source c = (r, c1)" by (cases "process L config source c")
  show ?thesis
    using p
  proof (cases rule: process_cases)
    case raised
    then show ?thesis using assms p by (auto simp: process_safely_def)
  next
    case refused
    then show ?thesis using assms p by (auto simp: process_safely_def)
  next
    case kept
    have "counted c1 = Suc (counted c) \<and> cn_kept c1 = Suc (cn_kept c)"
      using is_duplicate_counted [OF kept(3)] kept(6) by (simp add: counted_def)
    moreover have "res \<noteq> None" "c' = c1" using assms p kept(5) by (auto simp: process_safely_def)
    ultimately show ?thesis by simp
  qed
qed

definition kept_ok :: "library \<Rightarrow> CleansingConfig \<Rightarrow> CleanRecord \<Rightarrow> bool" where
  "kept_ok L config k \<longleftrightarrow> (let r = cl_record k; K = lb_tokenizer L in
     dr_instruction r = INSTRUCTION \<and> (\<exists>t. dr_input r = JOB_HEADING @ t)
     \<and> (\<exists>s kvs. dr_output r = dumps (lb_json L) (JObj ((''score'', JInt s) # kvs)) \<and> 0 \<le> s \<and> s \<le> 100)
     \<and> \<not> has_pii_residual L r (cl_pii_hashes k)
     \<and> (\<forall>v \<in> set (record_values r). \<exists>ids. tk_encode K v = Some ids \<and> tk_decode K ids = v)
     \<and> (\<exists>ids. tk_encode K (render_chat r) = Some ids \<and> cl_tokens k = length ids \<and> length ids \<le> cc_max_tokens config))"

lemma source_accepted: "source_rejection L config source = Inr None \<Longrightarrow> \<exists>s. ps_score_ai source = Some s \<and> 0 \<le> s \<and> s \<le> 100"
  by (auto simp: source_rejection_def Let_def split: option.splits if_splits)

lemma built_record_fields:
  assumes "built_record L source = Inr r" and "ps_score_ai source = Some s"
  shows "dr_instruction r = INSTRUCTION" and "\<exists>t. dr_input r = JOB_HEADING @ t"
    and "\<exists>kvs. dr_output r = dumps (lb_json L) (JObj ((''score'', JInt s) # kvs))"
  using assms by (auto simp: built_record_def build_record_def build_input_def output_payload_def Let_def split: prod.splits)

lemma all_round_trip_True:
  "all_round_trip K vs = Inr True \<Longrightarrow> \<forall>v \<in> set vs. \<exists>ids. tk_encode K v = Some ids \<and> tk_decode K ids = v"
  by (induction vs) (auto simp: round_trips_def split: option.splits if_splits)

lemma final_accepted:
  assumes "final_rejection L config r hashes = Inr (None, tokens)"
  shows "\<not> has_pii_residual L r hashes" and "all_round_trip (lb_tokenizer L) (record_values r) = Inr True"
    and "\<exists>ids. tk_encode (lb_tokenizer L) (render_chat r) = Some ids \<and> tokens = length ids \<and> length ids \<le> cc_max_tokens config"
  using assms by (auto simp: final_rejection_def count_tokens_def split: if_splits option.splits)

lemma process_safely_Some:
  assumes "process_safely L config source c = (Some k, c')"
  shows "kept_ok L config k" and "cl_group k = ps_candidate_key source"
    and "cl_pii_hashes k = identity_hashes (lb_hmac L) (lb_unicode L) (lb_data L) (identity_of L source)"
    and "built_record L source = Inr (cl_record k)"
proof -
  have "process L config source c = (Inr (Some k), c')"
    using assms by (auto simp: process_safely_def split: prod.splits sum.splits)
  then obtain r c1 tokens where kept: "source_rejection L config source = Inr None" "built_record L source = Inr r"
      "final_rejection L config r (identity_hashes (lb_hmac L) (lb_unicode L) (lb_data L) (identity_of L source)) = Inr (None, tokens)"
      "k = \<lparr>cl_record = r, cl_group = ps_candidate_key source,
           cl_bucket = score_bucket (case ps_score_ai source of None \<Rightarrow> 0 | Some s \<Rightarrow> s),
           cl_pii_hashes = identity_hashes (lb_hmac L) (lb_unicode L) (lb_data L) (identity_of L source), cl_tokens = tokens\<rparr>"
    by (cases rule: process_cases) simp_all
  obtain s where s: "ps_score_ai source = Some s" "0 \<le> s" "s \<le> 100" using source_accepted [OF kept(1)] by blast
  show "kept_ok L config k"
    using built_record_fields [OF kept(2) s(1)] s(2,3) final_accepted [OF kept(3)] all_round_trip_True
    unfolding kept_ok_def Let_def by (simp add: kept(4)) blast
  show "cl_group k = ps_candidate_key source" "built_record L source = Inr (cl_record k)"
    "cl_pii_hashes k = identity_hashes (lb_hmac L) (lb_unicode L) (lb_data L) (identity_of L source)"
    using kept(2,4) by simp_all
qed

text \<open>The records that the cleansing keeps, in the order of the pairs.\<close>

fun kept_records :: "library \<Rightarrow> CleansingConfig \<Rightarrow> (invalid + PairSource) list \<Rightarrow> Cleanser \<Rightarrow> CleanRecord list" where
  "kept_records L config (Inr source # sources) c =
     (case process_safely L config source c of
        (None, c') \<Rightarrow> kept_records L config sources c'
      | (Some k, c') \<Rightarrow> k # kept_records L config sources c')"
| "kept_records L config _ c = []"

text \<open>What is collected: the kept records in order, and every source counted.\<close>

lemma collect_pairs_facts:
  assumes "collect_pairs L config sources st = Inr st'" and ks: "ks = kept_records L config sources (co_cleanser st)"
  shows "\<exists>bs. (\<forall>k \<in> set ks. kept_ok L config k) \<and> co_meta st' = co_meta st @ map (\<lambda>k. (cl_group k, cl_bucket k)) ks
    \<and> co_temp st' = co_temp st @ bs \<and> list_all2 (\<lambda>k b. write_line (lb_json L) (temp_json k) = Inr b) ks bs
    \<and> cn_kept (co_cleanser st') = cn_kept (co_cleanser st) + length ks
    \<and> co_fetched st' = co_fetched st + length sources
    \<and> counted (co_cleanser st') = counted (co_cleanser st) + length sources"
  using assms
proof (induction L config sources st arbitrary: ks rule: collect_pairs.induct)
  case (3 L config source sources st)
  obtain res c where p: "process_safely L config source (co_cleanser st) = (res, c)" by (cases "process_safely L config source (co_cleanser st)")
  note counts = process_safely_counts [OF p]
  show ?case
  proof (cases res)
    case None
    with 3(1) [OF p [symmetric, unfolded None] refl, of ks] 3(3,4) p counts show ?thesis by fastforce
  next
    case (Some k)
    then obtain b where b: "write_line (lb_json L) (temp_json k) = Inr b"
      using 3(3) p by (auto split: sum.splits)
    let ?st = "st\<lparr>co_fetched := Suc (co_fetched st), co_temp := co_temp st @ [b],
                   co_meta := co_meta st @ [(cl_group k, cl_bucket k)], co_cleanser := c\<rparr>"
    define ks' where "ks' = kept_records L config sources c"
    have run: "collect_pairs L config sources ?st = Inr st'" using 3(3) p Some b by simp
    have ks: "ks = k # ks'" using 3(4) p Some by (simp add: ks'_def)
    have "ks' = kept_records L config sources (co_cleanser ?st)" by (simp add: ks'_def)
    from 3(2) [OF p [symmetric, unfolded Some] refl b run this]
    obtain bs where ih: "\<forall>k \<in> set ks'. kept_ok L config k" "co_meta st' = co_meta ?st @ map (\<lambda>k. (cl_group k, cl_bucket k)) ks'"
      "co_temp st' = co_temp ?st @ bs" "list_all2 (\<lambda>k b. write_line (lb_json L) (temp_json k) = Inr b) ks' bs"
      "cn_kept (co_cleanser st') = cn_kept (co_cleanser ?st) + length ks'" "co_fetched st' = co_fetched ?st + length sources"
      "counted (co_cleanser st') = counted (co_cleanser ?st) + length sources" by blast
    show ?thesis using ih b counts Some process_safely_Some(1) [OF p [unfolded Some]]
      by (intro exI [of _ "b # bs"]) (simp add: ks)
  qed
qed simp_all

section \<open>The files\<close>

lemma text_string_utext [simp]: "text_string (utext_of s) = s"
  by (simp add: text_string_def utext_of_def comp_def)

lemma line_read_back: "json_text_ok J \<Longrightarrow> write_line J j = Inr b \<Longrightarrow> Option.bind (utf8_decode b) (loads J) = Some j"
  by (auto simp: write_line_def json_text_ok_def utf8_round_trip split: option.splits)

lemma temp_read_back:
  assumes "json_text_ok J" and "write_line J (temp_json k) = Inr b"
  shows "read_temp J b = Inr (cl_group k, cl_pii_hashes k, cl_tokens k, record_json (cl_record k))"
  using line_read_back [OF assms] by (simp add: read_temp_def temp_json_def comp_def)

lemma write_splits_facts:
  assumes "json_text_ok J" and "list_all2 (\<lambda>k b. write_line J (temp_json k) = Inr b) ks bs" and "write_splits J A bs files = Inr files'"
  shows "\<exists>ls. sp_lines (files' s) = sp_lines (files s) @ ls
    \<and> list_all2 (\<lambda>k l. write_line J (record_json (cl_record k)) = Inr l) (filter (\<lambda>k. map_of A (cl_group k) = Some s) ks) ls
    \<and> sp_manifest (files' s) = sp_manifest (files s) @ map (\<lambda>k. (cl_group k, cl_pii_hashes k)) (filter (\<lambda>k. map_of A (cl_group k) = Some s) ks)
    \<and> sp_tokens (files' s) = sp_tokens (files s) @ map cl_tokens (filter (\<lambda>k. map_of A (cl_group k) = Some s) ks)"
  using assms(2,3)
proof (induction ks bs arbitrary: files rule: list_all2_induct)
  case (Cons k ks b bs)
  note read = temp_read_back [OF assms(1) Cons.hyps(1)]
  obtain name l where n: "map_of A (cl_group k) = Some name" "write_line J (record_json (cl_record k)) = Inr l"
    using Cons.prems read by (auto split: option.splits sum.splits)
  let ?files = "files(name := \<lparr>sp_lines = sp_lines (files name) @ [l], sp_manifest = sp_manifest (files name) @ [(cl_group k, cl_pii_hashes k)],
      sp_tokens = sp_tokens (files name) @ [cl_tokens k]\<rparr>)"
  have "write_splits J A bs ?files = Inr files'" using Cons.prems read n by (simp add: Let_def)
  from Cons.IH [OF this] n show ?case by (cases "s = name") auto
qed simp

section \<open>The validator\<close>

text \<open>
  What the program relies on: the printable characters of ASCII are no white space, and the JSON text of an object holds a
  brace.
\<close>

definition ascii_visible :: "unicode \<Rightarrow> bool" where
  "ascii_visible U \<longleftrightarrow> (\<forall>c. 33 \<le> c \<and> c \<le> 126 \<longrightarrow> \<not> uc_space U c)"

definition braces_printed :: "json_text \<Rightarrow> bool" where
  "braces_printed J \<longleftrightarrow> (\<forall>kvs. 123 \<in> set (dumps J (JObj kvs)))"

lemma ustrip_visible:
  assumes "c \<in> set t" and "\<not> uc_space U c"
  shows "ustrip U t \<noteq> []"
proof -
  have "c \<in> set (dropWhile (uc_space U) t)" using assms by (induction t) auto
  then show ?thesis using assms(2) by (auto simp: ustrip_def strip_by_def dropWhile_eq_Nil_conv)
qed

lemma kept_values_visible:
  assumes "ascii_visible U" and "braces_printed (lb_json L)" and "kept_ok L config k" and "v \<in> set (record_values (cl_record k))"
  shows "ustrip U v \<noteq> []"
proof -
  obtain t s kvs where k: "dr_instruction (cl_record k) = INSTRUCTION" "dr_input (cl_record k) = JOB_HEADING @ t"
      "dr_output (cl_record k) = dumps (lb_json L) (JObj ((''score'', JInt s) # kvs))"
    using assms(3) unfolding kept_ok_def Let_def by blast
  have "74 \<in> set INSTRUCTION" "35 \<in> set JOB_HEADING" by (simp_all add: INSTRUCTION_def JOB_HEADING_def)
  then obtain c where "c \<in> set v" "c \<in> {74, 35, 123}"
    using assms(2,4) k by (force simp: record_values_def braces_printed_def)
  then show ?thesis using assms(1) by (intro ustrip_visible) (auto simp: ascii_visible_def)
qed

lemma schema_accepts:
  assumes "ascii_visible (lb_unicode L)" and "json_text_ok (lb_json L)" and "braces_printed (lb_json L)" and "kept_ok L config k"
    and "write_line (lb_json L) (record_json (cl_record k)) = Inr l"
  shows "check_schema (lb_unicode L) (lb_json L) l = (Some (cl_record k), [])"
proof -
  obtain body where t: "utf8_decode l = Some body" "loads (lb_json L) body = Some (record_json (cl_record k))"
    using line_read_back [OF assms(2,5)] by (cases "utf8_decode l") simp_all
  have visible: "ustrip (lb_unicode L) (dr_instruction (cl_record k)) \<noteq> []" "ustrip (lb_unicode L) (dr_input (cl_record k)) \<noteq> []"
    "ustrip (lb_unicode L) (dr_output (cl_record k)) \<noteq> []"
    by (rule kept_values_visible [OF assms(1,3,4)]; simp add: record_values_def)+
  have "check_output (lb_json L) (dr_output (cl_record k)) = []"
    using assms(2,4) unfolding kept_ok_def Let_def check_output_def json_text_ok_def by auto
  then show ?thesis using t visible by (simp add: check_schema_def record_json_def REQUIRED_KEYS_def text_of_key_def)
qed

text \<open>The codes that only the validator's own patterns and character tables decide.\<close>

definition OWN_CHECKS :: "issue set" where
  "OWN_CHECKS = {Pii_Address, Pii_Birth_Date, Pii_Email, Pii_Handle, Pii_National_Id, Pii_Phone, Pii_Url,
     Broken_Control_Char, Broken_Invisible_Char, Broken_Mojibake, Broken_Replacement_Char, Broken_Surrogate}"

lemma pii_codes:
  assumes "\<not> has_pii_residual L r hashes"
  shows "set (check_pii L r hashes) \<subseteq> OWN_CHECKS"
  using assms by (auto simp: check_pii_def has_pii_residual_def OWN_CHECKS_def Let_def split: if_splits)

lemma char_issue_codes: "char_issue D c = Some i \<Longrightarrow> i \<in> OWN_CHECKS"
  by (auto simp: char_issue_def OWN_CHECKS_def split: if_splits)

lemma broken_codes:
  assumes "\<forall>v \<in> set vs. \<exists>ids. tk_encode (lb_tokenizer L) v = Some ids \<and> tk_decode (lb_tokenizer L) ids = v" and "found \<subseteq> OWN_CHECKS"
  shows "\<exists>js. broken_values L vs found = Inr js \<and> js \<subseteq> OWN_CHECKS"
  using assms
proof (induction vs arbitrary: found)
  case (Cons v vs)
  define js where "js = (let issues1 = found \<union> {i. \<exists>c \<in> set v. char_issue (lb_data L) c = Some i}
    in if re_found MOJIBAKE_PATTERN v then insert Broken_Mojibake issues1 else issues1)"
  have js: "js \<subseteq> OWN_CHECKS" using Cons.prems(2) char_issue_codes unfolding js_def Let_def by (auto simp: OWN_CHECKS_def split: if_splits)
  have "round_trips (lb_tokenizer L) v = Inr True" using Cons.prems(1) by (auto simp: round_trips_def)
  then have "broken_values L (v # vs) found = broken_values L vs js" by (simp add: js_def Let_def and_then_def)
  with Cons.IH [OF _ js] Cons.prems(1) show ?case by simp
qed simp

lemma conversation_is_chat: "conversation_text r = render_chat r"
  by (simp add: conversation_text_def render_chat_def im_start_def im_end_def)

lemma record_accepted:
  assumes "ascii_visible (lb_unicode L)" and "json_text_ok (lb_json L)" and "braces_printed (lb_json L)" and "kept_ok L config k"
    and "write_line (lb_json L) (record_json (cl_record k)) = Inr l" and "cc_max_tokens config \<le> max_tokens"
  shows "\<exists>issues tokens. check_record L max_tokens l (Some (cl_group k, cl_pii_hashes k)) = Inr (issues, tokens) \<and> set issues \<subseteq> OWN_CHECKS"
proof -
  let ?r = "cl_record k"
  have k: "\<not> has_pii_residual L ?r (cl_pii_hashes k)"
      "\<forall>v \<in> set (record_values ?r). \<exists>ids. tk_encode (lb_tokenizer L) v = Some ids \<and> tk_decode (lb_tokenizer L) ids = v"
    using assms(4) unfolding kept_ok_def Let_def by simp_all
  obtain ids where ids: "tk_encode (lb_tokenizer L) (render_chat ?r) = Some ids" "length ids \<le> cc_max_tokens config"
    using assms(4) unfolding kept_ok_def Let_def by blast
  obtain js where "broken_values L (record_values ?r) {} = Inr js" "js \<subseteq> OWN_CHECKS" using broken_codes [OF k(2), of "{}"] by auto
  then obtain broken where b: "check_broken L ?r = Inr broken" "set broken \<subseteq> OWN_CHECKS" by (auto simp: check_broken_def)
  have tok: "conversation_tokens (lb_tokenizer L) ?r = Inr (length ids)" "\<not> max_tokens < length ids"
    using ids assms(6) by (simp_all add: conversation_tokens_def conversation_is_chat)
  show ?thesis using b pii_codes [OF k(1)] tok
    by (auto simp: check_record_def schema_accepts [OF assms(1-5)] and_then_def Let_def)
qed

lemma lines_accepted:
  assumes "ascii_visible (lb_unicode L)" and "json_text_ok (lb_json L)" and "braces_printed (lb_json L)" and "cc_max_tokens config \<le> max_tokens"
    and "list_all2 (\<lambda>k l. write_line (lb_json L) (record_json (cl_record k)) = Inr l) ks ls" and "\<forall>k \<in> set ks. kept_ok L config k"
  shows "\<exists>report lengths. check_lines L max_tokens name n ls (map (\<lambda>k. (cl_group k, cl_pii_hashes k)) ks) = Inr (report, lengths)
    \<and> (\<forall>e \<in> set report. snd (snd e) \<in> OWN_CHECKS)"
  using assms(5,6)
proof (induction ks ls arbitrary: n rule: list_all2_induct)
  case (Cons k ks l ls)
  from record_accepted [OF assms(1-3) _ Cons.hyps(1) assms(4)] Cons.prems
  obtain issues tokens where r: "check_record L max_tokens l (Some (cl_group k, cl_pii_hashes k)) = Inr (issues, tokens)" "set issues \<subseteq> OWN_CHECKS"
    by auto
  from Cons.IH [of "Suc n"] Cons.prems obtain report lengths where
    ih: "check_lines L max_tokens name (Suc n) ls (map (\<lambda>k. (cl_group k, cl_pii_hashes k)) ks) = Inr (report, lengths)"
      "\<forall>e \<in> set report. snd (snd e) \<in> OWN_CHECKS" by auto
  show ?case using r ih by (force simp: and_then_def)
qed simp

lemma write_splits_placed:
  assumes "json_text_ok J" and "list_all2 (\<lambda>k b. write_line J (temp_json k) = Inr b) ks bs" and "write_splits J A bs files = Inr files'"
  shows "\<forall>k \<in> set ks. \<exists>s. map_of A (cl_group k) = Some s"
  using assms(2,3)
proof (induction ks bs arbitrary: files rule: list_all2_induct)
  case (Cons k ks b bs)
  then show ?case using temp_read_back [OF assms(1) Cons.hyps(1)] by (auto simp: Let_def split: option.splits sum.splits)
qed simp

lemma build_dataset_facts:
  assumes "json_text_ok (lb_json L)" and "build_dataset L deficit shuffle options d = Inr ds"
  obtains ks A where "ks = kept_records L (bo_cleansing options) (iter_pair_sources L d) new_cleanser"
    "\<forall>k \<in> set ks. kept_ok L (bo_cleansing options) k" "\<forall>k \<in> set ks. \<exists>s. map_of A (cl_group k) = Some s"
    "A = assign_splits deficit shuffle (bo_seed options) (map (\<lambda>k. (cl_group k, cl_bucket k)) ks)"
    "\<And>s. list_all2 (\<lambda>k l. write_line (lb_json L) (record_json (cl_record k)) = Inr l)
        (filter (\<lambda>k. map_of A (cl_group k) = Some s) ks) (sp_lines (ds_files ds s))"
    "\<And>s. sp_manifest (ds_files ds s) = map (\<lambda>k. (cl_group k, cl_pii_hashes k)) (filter (\<lambda>k. map_of A (cl_group k) = Some s) ks)"
    "\<And>s. sp_tokens (ds_files ds s) = map cl_tokens (filter (\<lambda>k. map_of A (cl_group k) = Some s) ks)"
    "bs_splits (ds_stats ds) = split_stats_of (ds_files ds)"
    "bs_fetched_pairs (ds_stats ds) = length (iter_pair_sources L d)" "bs_kept (ds_stats ds) = length ks"
    "length (iter_pair_sources L d) = bs_kept (ds_stats ds) + (\<Sum>(r, n)\<leftarrow>bs_dropped (ds_stats ds). n)"
proof -
  let ?st0 = "\<lparr>co_fetched = 0, co_temp = [], co_meta = [], co_cleanser = new_cleanser\<rparr>"
  obtain st files where run: "collect_pairs L (bo_cleansing options) (iter_pair_sources L d) ?st0 = Inr st"
      "write_splits (lb_json L) (assign_splits deficit shuffle (bo_seed options) (co_meta st)) (co_temp st) (\<lambda>_. empty_file) = Inr files"
      "ds_files ds = files" "bs_splits (ds_stats ds) = split_stats_of files" "bs_fetched_pairs (ds_stats ds) = co_fetched st"
      "bs_kept (ds_stats ds) = cn_kept (co_cleanser st)"
      "bs_dropped (ds_stats ds) = map (\<lambda>r. (r, count_of (cn_counters (co_cleanser st)) r)) RULES"
    using assms(2) unfolding build_dataset_def Let_def by (auto split: if_splits sum.splits)
  define ks where "ks = kept_records L (bo_cleansing options) (iter_pair_sources L d) new_cleanser"
  obtain bs where ks: "\<forall>k \<in> set ks. kept_ok L (bo_cleansing options) k" "co_meta st = map (\<lambda>k. (cl_group k, cl_bucket k)) ks" "co_temp st = bs"
      "list_all2 (\<lambda>k b. write_line (lb_json L) (temp_json k) = Inr b) ks bs" "cn_kept (co_cleanser st) = length ks"
      "co_fetched st = length (iter_pair_sources L d)" "counted (co_cleanser st) = length (iter_pair_sources L d)"
    using collect_pairs_facts [OF run(1), of ks] by (auto simp: ks_def)
  define A where "A = assign_splits deficit shuffle (bo_seed options) (co_meta st)"
  note ws = run(2) [folded A_def, unfolded ks(3)]
  have placed: "\<forall>k \<in> set ks. \<exists>s. map_of A (cl_group k) = Some s" by (rule write_splits_placed [OF assms(1) ks(4) ws])
  note parts = write_splits_facts [OF assms(1) ks(4) ws]
  show thesis
  proof (rule that [OF ks_def ks(1) placed])
    show "A = assign_splits deficit shuffle (bo_seed options) (map (\<lambda>k. (cl_group k, cl_bucket k)) ks)" by (simp add: A_def ks(2))
    show "list_all2 (\<lambda>k l. write_line (lb_json L) (record_json (cl_record k)) = Inr l)
        (filter (\<lambda>k. map_of A (cl_group k) = Some s) ks) (sp_lines (ds_files ds s))" for s
      using parts [of s] by (auto simp: run(3) empty_file_def)
    show "sp_manifest (ds_files ds s) = map (\<lambda>k. (cl_group k, cl_pii_hashes k)) (filter (\<lambda>k. map_of A (cl_group k) = Some s) ks)" for s
      using parts [of s] by (auto simp: run(3) empty_file_def)
    show "sp_tokens (ds_files ds s) = map cl_tokens (filter (\<lambda>k. map_of A (cl_group k) = Some s) ks)" for s
      using parts [of s] by (auto simp: run(3) empty_file_def)
    show "length (iter_pair_sources L d) = bs_kept (ds_stats ds) + (\<Sum>(r, n)\<leftarrow>bs_dropped (ds_stats ds). n)"
      using ks(7) by (simp add: run(6,7) counted_def comp_def)
  qed (use run ks in simp_all)
qed

section \<open>Properties\<close>

text \<open>
  C37. Every pair is accounted for. The number of pairs that were read is the number kept plus the numbers counted under the rules
  of refusal. The kept records are written each once: in every file stand, line for line and in the order of the pairs, the kept records whose
  candidate the split assigned to it; the entry of the manifest at the same place holds the candidate's group and the hashes of the identity of that very record,
  and the length at the same place is the record's; every candidate of a kept record is assigned to a part, and the statistics count the lines.
\<close>

theorem every_pair_counted_once:
  assumes "json_text_ok (lb_json L)" and "build_dataset L deficit shuffle options d = Inr ds"
  shows "length (iter_pair_sources L d) = bs_kept (ds_stats ds) + (\<Sum>(r, n)\<leftarrow>bs_dropped (ds_stats ds). n)
    \<and> bs_fetched_pairs (ds_stats ds) = length (iter_pair_sources L d)
    \<and> (let ks = kept_records L (bo_cleansing options) (iter_pair_sources L d) new_cleanser;
           part = map_of (assign_splits deficit shuffle (bo_seed options) (map (\<lambda>k. (cl_group k, cl_bucket k)) ks))
       in bs_kept (ds_stats ds) = length ks \<and> (\<forall>k \<in> set ks. part (cl_group k) \<noteq> None)
         \<and> (\<Sum>s\<leftarrow>[Train, Validation, Test]. length (sp_lines (ds_files ds s))) = length ks
         \<and> (\<forall>s. let own = filter (\<lambda>k. part (cl_group k) = Some s) ks in
              list_all2 (\<lambda>k l. write_line (lb_json L) (record_json (cl_record k)) = Inr l) own (sp_lines (ds_files ds s))
              \<and> sp_manifest (ds_files ds s) = map (\<lambda>k. (cl_group k, cl_pii_hashes k)) own
              \<and> sp_tokens (ds_files ds s) = map cl_tokens own
              \<and> ss_records (bs_splits (ds_stats ds) s) = length (sp_lines (ds_files ds s))))"
  using assms
proof (cases rule: build_dataset_facts)
  case (1 ks A)
  define own where "own = (\<lambda>s. filter (\<lambda>k. map_of A (cl_group k) = Some s) ks)"
  have lines: "length (sp_lines (ds_files ds s)) = length (own s)" for s
    using list_all2_lengthD [OF 1(5) [of s]] by (simp add: own_def)
  have "length ks = (\<Sum>s\<leftarrow>[Train, Validation, Test]. length (filter (\<lambda>k. map_of A (cl_group k) = Some s) ks))"
    using 1(3)
  proof (induction ks)
    case (Cons k ks)
    then obtain s where "map_of A (cl_group k) = Some s" by auto
    with Cons show ?case by (cases s) auto
  qed simp
  then have total: "(\<Sum>s\<leftarrow>[Train, Validation, Test]. length (sp_lines (ds_files ds s))) = length ks" by (simp add: lines own_def)
  have records: "ss_records (bs_splits (ds_stats ds) s) = length (sp_lines (ds_files ds s))" for s
    by (simp add: 1(8) split_stats_of_def Let_def 1(6) lines own_def)
  have placed: "\<forall>k \<in> set ks. map_of A (cl_group k) \<noteq> None" using 1(3) by auto
  show ?thesis
    unfolding Let_def 1(1) [symmetric] 1(4) [symmetric]
    using 1(5-7,9-11) total records placed by (intro conjI allI) assumption+
qed

text \<open>
  C34. A kept record holds no word of its candidate's identity. In none of its three texts does any of the following stand as a whole word, a
  word as the search and the validator see words: a word of at least two letters, other than a number, of a name (of the account, of the parsed resume, or
  of a first line that reads as a name), or the two or three words of such a name run together; a word of at least three letters, other than a number, of the local part of
  an e-mail address; the last ten digits of a telephone number, alone or after 0 or 98. And the general patterns
  find nothing more in it: redacting it once more changes nothing. (A name of one letter, and a foreign number
  written with its country code but without the plus, pass.)
\<close>

theorem kept_records_hold_no_identity:
  assumes "process_safely L config source c = (Some k, c')" and "value \<in> set (record_values (cl_record k))"
  shows "redact_patterns (lb_unicode L) value = value
    \<and> (\<forall>name. (name \<in> set (id_names (ps_identity source))
          \<or> header_name (lb_unicode L) (lb_data L) (dataset_text (lb_unicode L) (lb_data L) (ps_resume_text source)) = Some name \<and> name \<noteq> []) \<longrightarrow>
         (let ws = resume_search_words (lb_unicode L) (Some (dataset_text (lb_unicode L) (lb_data L) (Some name)))
          in \<forall>w. (w \<in> set ws \<or> length ws \<in> {2, 3} \<and> w = concat ws) \<and> 2 \<le> length w \<and> \<not> is_number (lb_data L) w
             \<longrightarrow> w \<notin> set (resume_search_words (lb_unicode L) (Some value))))
    \<and> (\<forall>email \<in> set (id_emails (ps_identity source)).
         \<forall>w \<in> set (resume_search_words (lb_unicode L) (Some (takeWhile (\<lambda>c. c \<noteq> 64) (dataset_text (lb_unicode L) (lb_data L) (Some email))))).
         3 \<le> length w \<and> \<not> is_number (lb_data L) w \<longrightarrow> w \<notin> set (resume_search_words (lb_unicode L) (Some value)))
    \<and> (\<forall>phone \<in> set (id_phones (ps_identity source)). \<forall>digits. phone_digits (lb_unicode L) (lb_data L) phone = Some digits \<longrightarrow>
         {digits, utext_of ''0'' @ digits, utext_of ''98'' @ digits} \<inter> set (resume_search_words (lb_unicode L) (Some value)) = {})"
proof -
  let ?U = "lb_unicode L" and ?D = "lb_data L"
  have clean: "redact_patterns ?U value = value" "\<not> has_identity_word L (identity_hashes (lb_hmac L) ?U ?D (identity_of L source)) value"
    using process_safely_Some(1,3) [OF assms(1)] assms(2) unfolding kept_ok_def has_pii_residual_def Let_def by auto
  have hashed: "blind_index_token (lb_hmac L) ?U w \<notin> set (identity_hashes (lb_hmac L) ?U ?D (identity_of L source))"
    if "w \<in> set (resume_search_words ?U (Some value))" for w using clean(2) that by (auto simp: has_identity_word_def)
  then have tokens: "w \<notin> set (resume_search_words ?U (Some value))" if "w \<in> set (name_tokens ?U ?D (identity_of L source))" for w
    using that by (auto simp: identity_hashes_def)
  have ids: "set (id_names (ps_identity source)) \<subseteq> set (id_names (identity_of L source))" "id_phones (identity_of L source) = id_phones (ps_identity source)"
    "id_emails (identity_of L source) = id_emails (ps_identity source)"
    "header_name ?U ?D (dataset_text ?U ?D (ps_resume_text source)) = Some name \<Longrightarrow> name \<noteq> [] \<Longrightarrow> name \<in> set (id_names (identity_of L source))" for name
    by (auto simp: identity_of_def with_header_name_def split: option.splits if_splits)
  have names: "w \<notin> set (resume_search_words ?U (Some value))"
    if "name \<in> set (id_names (identity_of L source))" "w \<in> set (name_words ?U ?D name)" "2 \<le> length w" "\<not> is_number ?D w" for name w
    by (rule tokens) (use that in \<open>force simp: name_tokens_def MIN_NAME_TOKEN_LENGTH_def\<close>)
  have joined: "w \<in> set (name_words ?U ?D name)"
    if "w \<in> set ws \<or> length ws \<in> {2, 3} \<and> w = concat ws" and "ws = resume_search_words ?U (Some (dataset_text ?U ?D (Some name)))" for w ws name
    using that by (auto simp: name_words_def Let_def)
  have emails: "w \<notin> set (resume_search_words ?U (Some value))"
    if "email \<in> set (id_emails (ps_identity source))" "w \<in> set (resume_search_words ?U (Some (takeWhile (\<lambda>c. c \<noteq> 64) (dataset_text ?U ?D (Some email)))))"
      "3 \<le> length w" "\<not> is_number ?D w" for email w
    by (rule tokens) (use that ids(3) in \<open>force simp: name_tokens_def MIN_NAME_TOKEN_LENGTH_def MIN_EMAIL_TOKEN_LENGTH_def\<close>)
  have phones: "w \<notin> set (resume_search_words ?U (Some value))"
    if "phone \<in> set (id_phones (ps_identity source))" "phone_digits ?U ?D phone = Some digits"
      "w \<in> {digits, utext_of ''0'' @ digits, utext_of ''98'' @ digits}" for phone digits w
    using hashed [of w] that ids(2) by (fastforce simp: identity_hashes_def)
  show ?thesis
    using clean(1) names joined emails phones ids(1,4) unfolding Let_def by (intro conjI allI ballI impI) (blast | fast)+
qed

text \<open>
  C35. What the builder writes passes the validator, which is written independently: over the files and the manifest of a
  successful build, with the same tokenizer and at least the same limit of tokens, the validator runs through
  and reports nothing but findings of its own patterns and character tables and shares outside the tolerance. So no
  line is malformed, no score out of range, no entry of the manifest missing, no word of an identity left, no text broken by
  the tokenizer, no conversation too long, and no candidate in two parts.
\<close>

theorem built_data_set_validates:
  assumes "ascii_visible (lb_unicode L)" and "json_text_ok (lb_json L)" and "braces_printed (lb_json L)"
    and "build_dataset L deficit shuffle options d = Inr ds" and "cc_max_tokens (bo_cleansing options) \<le> max_tokens"
  shows "\<exists>report. validate_dataset L max_tokens tolerance (\<lambda>s. Some (sp_lines (ds_files ds s))) (Some (\<lambda>s. sp_manifest (ds_files ds s))) = Inr report
    \<and> (\<forall>(f, n, code) \<in> set report. code \<in> OWN_CHECKS \<or> code = Split_Ratio)"
  using assms(2,4)
proof (cases rule: build_dataset_facts)
  case (1 ks A)
  define part where "part = (\<lambda>s. filter (\<lambda>k. map_of A (cl_group k) = Some s) ks)"
  have ok: "\<forall>k \<in> set (part s). kept_ok L (bo_cleansing options) k" for s using 1(2) by (simp add: part_def)
  have split: "\<exists>r. validate_split L max_tokens s (Some (sp_lines (ds_files ds s))) (sp_manifest (ds_files ds s)) = Inr r
      \<and> (\<forall>e \<in> set (sr_report r). snd (snd e) \<in> OWN_CHECKS) \<and> sr_groups r = map cl_group (part s)" for s
    using lines_accepted [OF assms(1-3,5) 1(5) [of s] ok [of s, unfolded part_def], of s 0]
    by (auto simp: validate_split_def 1(6) and_then_def part_def comp_def)
  obtain reports where r: "\<And>s. validate_split L max_tokens s (Some (sp_lines (ds_files ds s))) (sp_manifest (ds_files ds s)) = Inr (reports s)"
      "\<And>s. \<forall>e \<in> set (sr_report (reports s)). snd (snd e) \<in> OWN_CHECKS" "\<And>s. sr_groups (reports s) = map cl_group (part s)"
    using split by metis
  have eta: "(\<lambda>s. case s of Train \<Rightarrow> reports Train | Validation \<Rightarrow> reports Validation | Test \<Rightarrow> reports Test) = reports"
    by (rule ext) (simp split: split_name.split)
  have "leakage reports = []" by (auto simp: leakage_def r(3) part_def filter_empty_conv)
  moreover have "\<forall>e \<in> set (off_share tolerance reports). snd (snd e) = Split_Ratio" by (auto simp: off_share_def)
  ultimately show ?thesis using r(2) by (force simp: validate_dataset_def r(1) and_then_def Let_def eta)
qed

section \<open>Whose data\<close>

lemma system_rows [simp]: "select_applications SYSTEM_CONTEXT d = applications d" "select_candidates SYSTEM_CONTEXT d = candidates d"
  "select_resumes SYSTEM_CONTEXT d = resumes d" "select_jobs SYSTEM_CONTEXT d = jobs d" "select_interviews SYSTEM_CONTEXT d = interviews d"
  by (simp_all add: select_applications_def select_candidates_def select_resumes_def select_jobs_def select_interviews_def rls_applications_def
      rls_jobs_def criterion_system visible_system)

lemma pairs_query_row:
  assumes "p \<in> set (pairs_query d)"
  shows "pr_application p \<in> set (applications d)" "pr_candidate p \<in> set (candidates d)" "c_id (pr_candidate p) = a_candidate_id (pr_application p)"
    "pr_user p \<in> set (users d)" "u_id (pr_user p) = c_user_id (pr_candidate p)" "eligible (pr_user p)"
    "pr_resume p \<in> set (resumes d)" "resume_join (pr_application p) (pr_resume p)"
  using assms by (auto simp: pairs_query_def split: if_splits)

definition one_application :: "pair_row list \<Rightarrow> bool" where
  "one_application rows \<longleftrightarrow> (\<exists>i. \<forall>p \<in> set rows. a_id (pr_application p) = i)"

lemma one_applicationD:
  "one_application rows \<Longrightarrow> p \<in> set rows \<Longrightarrow> q \<in> set rows \<Longrightarrow> a_id (pr_application p) = a_id (pr_application q)"
  unfolding one_application_def by metis

lemma one_application_single [simp]: "one_application []" "one_application [p]"
  by (simp_all add: one_application_def)

lemma one_application_append:
  "one_application rows \<Longrightarrow> rows = [] \<or> a_id (pr_application (hd rows)) = a_id (pr_application row) \<Longrightarrow> one_application (rows @ [row])"
  by (cases rows) (auto simp: one_application_def)

lemma row_groups_facts:
  "rows \<in> set (row_groups pending later) \<Longrightarrow> one_application pending
    \<Longrightarrow> rows \<noteq> [] \<and> set rows \<subseteq> set pending \<union> set later \<and> one_application rows"
proof (induction pending later rule: row_groups.induct)
  case (1 pending)
  then show ?case by (cases "pending = []") simp_all
next
  case (2 pending row later)
  show ?case
  proof (cases "pending \<noteq> [] \<and> a_id (pr_application (hd pending)) \<noteq> a_id (pr_application row)")
    case True
    with 2 show ?thesis by auto
  next
    case False
    then have "one_application (pending @ [row])" using 2(4) by (intro one_application_append) auto
    moreover have "rows \<in> set (row_groups (pending @ [row]) later)" using False 2(3) by (simp split: if_splits)
    ultimately show ?thesis using "2.IH"(2) [OF False] by auto
  qed
qed

lemma pick_resume_member:
  assumes "pick_resume rows score = Inr (Some p)"
  shows "p \<in> set rows"
proof (cases score)
  case None
  with assms show ?thesis by (auto simp: pick_resume_def split: list.splits)
next
  case (Some s)
  have matched: "p \<in> set rows" if "collect (map (\<lambda>row. and_then (analysis_score (r_agent_analysis (pr_resume row))) (\<lambda>x.
                   Inr (if x = Some s then [row] else []))) rows) = Inr ms" "concat ms = [p]" for ms
    using that
  proof (induction rows arbitrary: ms)
    case (Cons row rows)
    then show ?case by (auto simp: and_then_def split: sum.splits if_splits list.splits)
  qed simp
  show ?thesis
  proof (cases "\<exists>row. rows = [row]")
    case True
    with assms show ?thesis by (auto simp: pick_resume_def)
  next
    case False
    then have "pick_resume rows score = and_then (collect (map (\<lambda>row. and_then (analysis_score (r_agent_analysis (pr_resume row))) (\<lambda>x.
                   Inr (if x = Some s then [row] else []))) rows)) (\<lambda>ms. Inr (case concat ms of [row] \<Rightarrow> Some row | _ \<Rightarrow> None))"
      by (auto simp: pick_resume_def Some split: list.split)
    with assms obtain ms where "collect (map (\<lambda>row. and_then (analysis_score (r_agent_analysis (pr_resume row))) (\<lambda>x.
                   Inr (if x = Some s then [row] else []))) rows) = Inr ms" "(case concat ms of [row] \<Rightarrow> Some row | _ \<Rightarrow> None) = Some p"
      by auto
    then show ?thesis using matched by (cases "concat ms") (auto split: list.splits)
  qed
qed

lemma updated_user:
  assumes "v \<in> set (update_where (\<lambda>u. u_id u = person) f us)" and "u_id v = person" and "\<And>u. \<not> u_is_active (f u)"
  shows "\<not> u_is_active v"
  using assms by (auto simp: update_where_def)

text \<open>
  C36. Only people who agreed enter the data set: each pair belongs to an application of a candidate whose account is active,
  has consented to the processing and is not anonymised; the text and the analysis are those of one resume of this candidate in the
  organisation of the application; and after an account was deleted, the analyses of its resumes, which the deletion leaves in
  the data base, are not read.
\<close>

theorem only_consenting_people_enter:
  assumes "keyed a_id (applications d)" and "Inr source \<in> set (iter_pair_sources L d)"
  shows "\<exists>a \<in> set (applications d). \<exists>c \<in> set (candidates d). \<exists>v \<in> set (users d).
      c_id c = a_candidate_id a \<and> u_id v = c_user_id c
      \<and> u_data_consent_at v \<noteq> None \<and> u_anonymized_at v = None \<and> u_is_active v
      \<and> ps_score_ai source = a_score_ai a \<and> ps_status source = a_current_status a
      \<and> (\<not> ps_ambiguous_link source \<longrightarrow> (\<exists>r \<in> set (resumes d). r_candidate_id r = c_id c \<and> r_tenant_id r = a_tenant_id a
           \<and> ps_resume_text source = r_raw_text r \<and> ps_analysis source = r_agent_analysis r))
      \<and> (ps_ambiguous_link source \<longrightarrow> ps_resume_text source = None \<and> ps_analysis source = None)
      \<and> (\<forall>hmac U now h1 h2 h3 person d0 urls n. anonymize_rows hmac U now h1 h2 h3 person d0 = Inr (urls, n, d) \<longrightarrow> u_id v \<noteq> person)"
proof -
  obtain rows where rows: "rows \<in> set (row_groups [] (pairs_query d))" "to_source L rows = Inr source"
    using assms(2) by (auto simp: iter_pair_sources_def)
  note g = row_groups_facts [OF rows(1), simplified]
  note same = one_applicationD [OF conjunct2 [OF conjunct2 [OF g]]]
  define p where "p = hd rows"
  have p: "p \<in> set rows" using g by (simp add: p_def)
  have known: "p \<in> set (pairs_query d)" using p g by auto
  note row = pairs_query_row [OF known]
  obtain chosen where chosen: "pick_resume rows (a_score_ai (pr_application p)) = Inr chosen"
      "ps_score_ai source = a_score_ai (pr_application p)" "ps_status source = a_current_status (pr_application p)"
      "ps_ambiguous_link source = (chosen = None)"
      "ps_resume_text source = (case chosen of None \<Rightarrow> None | Some q \<Rightarrow> r_raw_text (pr_resume q))"
      "ps_analysis source = (case chosen of None \<Rightarrow> None | Some q \<Rightarrow> r_agent_analysis (pr_resume q))"
    using rows(2) by (auto simp: to_source_def Let_def p_def)
  have link: "\<exists>r \<in> set (resumes d). r_candidate_id r = c_id (pr_candidate p) \<and> r_tenant_id r = a_tenant_id (pr_application p)
      \<and> ps_resume_text source = r_raw_text r \<and> ps_analysis source = r_agent_analysis r" if "chosen = Some q" for q
  proof -
    have q: "q \<in> set rows" using pick_resume_member chosen(1) that by blast
    have qk: "q \<in> set (pairs_query d)" using q g by auto
    have "pr_application q = pr_application p"
      using same [OF q p] keyed_unique [OF assms(1)] pairs_query_row(1) [OF qk] row(1) by metis
    with pairs_query_row(8) [OF qk] row(3)
    have "r_candidate_id (pr_resume q) = c_id (pr_candidate p)" "r_tenant_id (pr_resume q) = a_tenant_id (pr_application p)"
      by (simp_all add: resume_join_def)
    with pairs_query_row(7) [OF qk] chosen(5,6) that show ?thesis by auto
  qed
  have deleted: "u_id (pr_user p) \<noteq> person" if "anonymize_rows hmac U now h1 h2 h3 person d0 = Inr (urls, n, d)" for hmac U now h1 h2 h3 person d0 urls n
  proof
    have us: "users d = update_where (\<lambda>u. u_id u = person) (\<lambda>u. u\<lparr>u_email := utext_of (''deleted-'' @ h2 @ ''@'' @ ANONYMIZED_EMAIL_DOMAIN),
        u_password_hash := h3, u_is_active := False, u_anonymized_at := Some now\<rparr>) (users d0)" by (rule anonymize_rows_Inr [OF that])
    assume "u_id (pr_user p) = person"
    with row(4) have "\<not> u_is_active (pr_user p)" unfolding us by (rule updated_user) simp
    then show False using row(6) by (simp add: eligible_def)
  qed
  have agreed: "u_data_consent_at (pr_user p) \<noteq> None" "u_anonymized_at (pr_user p) = None" "u_is_active (pr_user p)"
    using row(6) by (auto simp: eligible_def)
  have linked: "\<not> ps_ambiguous_link source \<longrightarrow> (\<exists>r \<in> set (resumes d). r_candidate_id r = c_id (pr_candidate p)
      \<and> r_tenant_id r = a_tenant_id (pr_application p) \<and> ps_resume_text source = r_raw_text r \<and> ps_analysis source = r_agent_analysis r)"
    "ps_ambiguous_link source \<longrightarrow> ps_resume_text source = None \<and> ps_analysis source = None"
    using link chosen(4-6) by (auto split: option.splits)
  show ?thesis
    by (rule bexI [OF _ row(1)], rule bexI [OF _ row(2)], rule bexI [OF _ row(4)])
      (use row(3,5) agreed chosen(2,3) linked deleted in blast)
qed

end
