(* ===== verification/Dataset_Claims.thy ===== *)
theory Dataset_Claims
  imports Dataset_Properties Crypto_Properties Hiring_Invariant Parser_Properties
begin

text \<open>
  The claims of \<open>Dataset_Properties\<close> applied to a data base with one application whose pair enters the data set: which
  words and how many digits a match of the patterns needs, texts without them, the redaction of a resume that begins with the
  candidate's name and telephone number, and the run of the builder.
\<close>

section \<open>What a match needs\<close>

text \<open>Every match of the expression consumes at least so many characters of the set.\<close>

primrec least :: "(nat \<Rightarrow> bool) \<Rightarrow> regex \<Rightarrow> nat" where
  "least P Eps = 0"
| "least P (Cls Q) = (if \<forall>c. Q c \<longrightarrow> P c then 1 else 0)"
| "least P (Seq a b) = least P a + least P b"
| "least P (Alt a b) = min (least P a) (least P b)"
| "least P (Star a) = 0"
| "least P (Cap n a) = least P a"
| "least P (Not_Behind Q) = 0"
| "least P (Not_Ahead Q) = 0"
| "least P (Ahead a) = 0"
| "least P (Word_Edge Q) = 0"
| "least P At_Start = 0"
| "least P At_End = 0"
| "least P (Back n) = 0"

definition tally :: "(nat \<Rightarrow> bool) \<Rightarrow> utext \<Rightarrow> nat" where "tally P s = length (filter P s)"

lemma tally_suffix: "suffix t s \<Longrightarrow> tally P t \<le> tally P s"
  by (auto simp: tally_def suffix_def)

lemma tally_none: "\<forall>c \<in> set s. \<not> P c \<Longrightarrow> tally P s = 0"
  by (simp add: tally_def)

lemma tally_match: "q \<in> set (match r ps) \<Longrightarrow> tally P (fst (snd q)) \<le> tally P (fst (snd ps))"
  by (rule tally_suffix [OF match_suffix])

lemma least_match: "q \<in> set (match r ps) \<Longrightarrow> least P r + tally P (fst (snd q)) \<le> tally P (fst (snd ps))"
proof (induction r arbitrary: q ps)
  case (Seq a b)
  then obtain q1 where q1: "q1 \<in> set (match a ps)" "q \<in> set (match b q1)" by auto
  then show ?case using Seq.IH(1) [OF q1(1)] Seq.IH(2) [OF q1(2)] by simp
next
  case (Cls Q)
  then show ?case by (cases ps) (auto simp: tally_def split: list.splits if_splits)
next
  case (Cap n a)
  obtain p s g where ps: "ps = (p, s, g)" by (cases ps)
  with Cap.prems obtain q1 where "q1 \<in> set (match a (p, s, g))" "fst (snd q) = fst (snd q1)" by auto
  with Cap.IH [of q1 "(p, s, g)"] show ?case by (simp add: ps)
next
  case (Alt a b)
  then have "q \<in> set (match a ps) \<or> q \<in> set (match b ps)" by simp
  then show ?case
  proof
    assume "q \<in> set (match a ps)"
    from Alt.IH(1) [OF this] show ?case by simp
  next
    assume "q \<in> set (match b ps)"
    from Alt.IH(2) [OF this] show ?case by simp
  qed
qed (simp_all only: least.simps add_0 tally_match)

lemma search_hit: "search_from r p s \<noteq> None \<Longrightarrow> \<exists>p' t. suffix t s \<and> match r (p', t, []) \<noteq> []"
proof (induction s arbitrary: p)
  case Nil
  then have "match r (p, [], []) \<noteq> []" by (subst (asm) search_from.simps) (auto simp: match_here_def split: option.splits list.splits)
  then show ?case by auto
next
  case (Cons c cs)
  show ?case
  proof (cases "match_here r p (c # cs)")
    case None
    with Cons.prems have "search_from r (Some c) cs \<noteq> None" by (subst (asm) search_from.simps) simp
    from Cons.IH [OF this] show ?thesis by (auto simp: suffix_Cons)
  next
    case (Some m)
    then show ?thesis by (intro exI [of _ p] exI [of _ "c # cs"]) (auto simp: match_here_def split: list.splits)
  qed
qed

lemma least_search:
  assumes "tally P s < least P r"
  shows "search_from r p s = None"
proof (rule ccontr)
  assume "search_from r p s \<noteq> None"
  then obtain p' t where t: "suffix t s" "match r (p', t, []) \<noteq> []" using search_hit by blast
  then obtain q where "q \<in> set (match r (p', t, []))" by (cases "match r (p', t, [])") auto
  from least_match [OF this, of P] tally_suffix [OF t(1), of P] assms show False by simp
qed

lemma sub_with_none: "search_from r p s = None \<Longrightarrow> sub_with r f p s = s"
proof (induction s arbitrary: p)
  case Nil
  then show ?case by (simp add: sub_with.simps)
next
  case (Cons c cs)
  then have "match_here r p (c # cs) = None" "search_from r (Some c) cs = None"
    by (auto simp: search_from.simps [of r p "c # cs"] split: option.splits)
  then show ?case using Cons.IH by (simp add: sub_with.simps [of r f p "c # cs"])
qed

lemma least_sub:
  "tally P s < least P r \<Longrightarrow> re_sub_with r f s = s"
  "tally P s < least P r \<Longrightarrow> re_sub r repl s = s"
  using least_search [of P s r None] by (auto simp: re_sub_with_def re_sub_def sub_with_none sub_from_none)

text \<open>Every match of a literal begins with it, in any case of its letters.\<close>

definition lower_text :: "utext \<Rightarrow> utext" where "lower_text = map cp_ascii_lower"

lemma first_part: "match (Seq a b) ps \<noteq> [] \<Longrightarrow> match a ps \<noteq> []" by auto

lemma cap_part: "match (Cap n a) ps \<noteq> [] \<longleftrightarrow> match a ps \<noteq> []" by (cases ps) simp

lemma alts_part: "match (alts rs) ps \<noteq> [] \<longleftrightarrow> (\<exists>r \<in> set rs. match r ps \<noteq> [])"
proof (induction rs rule: alts.induct)
  case 1
  then show ?case by (cases ps) (simp split: list.split)
qed simp_all

lemma seqs_part: "match (seqs (r # rs)) ps \<noteq> [] \<Longrightarrow> match r ps \<noteq> []"
  by (auto simp: seqs_def)

lemma word_part: "match (word_i ascii_tables w) (p, t, g) \<noteq> [] \<Longrightarrow> prefix (lower_text w) (lower_text t)"
proof (induction w arbitrary: p t)
  case (Cons c w)
  then show ?case
    by (cases t) (auto simp: word_i_def seqs_def Char_i_def ascii_tables_def lower_text_def split: if_splits)
qed (simp add: lower_text_def)

lemma lit_part: "match (Lit_i ascii_tables w) (p, t, g) \<noteq> [] \<Longrightarrow> prefix (lower_text (utext_of w)) (lower_text t)"
  using word_part [of "utext_of w"] by (simp add: Lit_i_def word_i_def)

section \<open>Texts without personal data\<close>

text \<open>Does one of the words begin somewhere in the text?\<close>

definition occurs :: "utext list \<Rightarrow> utext \<Rightarrow> bool" where
  "occurs ws s \<longleftrightarrow> list_ex (\<lambda>t. list_ex (\<lambda>w. prefix w t) ws) (suffixes s)"

lemma occursI:
  assumes "suffix t s" and "w \<in> set ws" and "prefix w (lower_text t)"
  shows "occurs ws (lower_text s)"
proof -
  have "lower_text t \<in> set (suffixes (lower_text s))" using assms(1) by (simp add: lower_text_def map_mono_suffix)
  with assms(2,3) show ?thesis unfolding occurs_def list_ex_iff by blast
qed

definition LABELS :: "utext list" where
  "LABELS = [[1578, 1575, 1585, 1740, 1582], [1587, 1575, 1604], [1605, 1578, 1608, 1604, 1583], [1578, 1608, 1604, 1583], utext_of ''date'', utext_of ''birth'',
     utext_of ''born'', utext_of ''dob'', [1570, 1583, 1585, 1587], [1606, 1588, 1575, 1606, 1740], [1605, 1581, 1604], utext_of ''address'', utext_of ''www'']"

definition ENDINGS :: "utext list" where "ENDINGS = map (\<lambda>t. 46 # utext_of t) (''net'' # TLDS)"

definition plain_text :: "utext \<Rightarrow> bool" where
  "plain_text s \<longleftrightarrow> list_all (\<lambda>c. c \<noteq> 64 \<and> c \<noteq> 47) s \<and> tally digit s < 7 \<and> \<not> occurs (LABELS @ ENDINGS) (lower_text s)"

lemma no_label:
  assumes "plain_text s" and "\<And>p t g. 47 \<notin> set t \<Longrightarrow> match r (p, t, g) \<noteq> [] \<Longrightarrow> \<exists>w \<in> set (LABELS @ ENDINGS). \<exists>u. suffix u t \<and> prefix w (lower_text u)"
  shows "search_from r p s = None"
proof (rule ccontr)
  assume "search_from r p s \<noteq> None"
  then obtain p' t where t: "suffix t s" "match r (p', t, []) \<noteq> []" using search_hit by blast
  then have "47 \<notin> set t" using assms(1) set_mono_suffix [OF t(1)] by (auto simp: plain_text_def list_all_iff)
  with t assms(2) obtain w u where "w \<in> set (LABELS @ ENDINGS)" "suffix u s" "prefix w (lower_text u)" by (meson suffix_order.trans)
  then have "occurs (LABELS @ ENDINGS) (lower_text s)" by (intro occursI)
  with assms(1) show False by (simp add: plain_text_def)
qed

lemma labelled:
  assumes "match (seqs (Cap 1 (seqs (alts rs # xs)) # rest)) ps \<noteq> []"
  obtains r where "r \<in> set rs" "match r ps \<noteq> []"
  using seqs_part [OF assms] by (metis cap_part alts_part seqs_part)

lemma birth_label: "match (BIRTH_RE ascii_tables) (p, t, g) \<noteq> [] \<Longrightarrow> \<exists>w \<in> set LABELS. prefix w (lower_text t)"
  unfolding BIRTH_RE_def Let_def
  by (erule labelled)
    (auto simp del: match.simps dest!: seqs_part first_part word_part lit_part simp: LABELS_def lower_text_def cp_ascii_lower_def utext_of_def)

lemma address_label: "match (ADDRESS_RE ascii_tables) (p, t, g) \<noteq> [] \<Longrightarrow> \<exists>w \<in> set LABELS. prefix w (lower_text t)"
  unfolding ADDRESS_RE_def
  by (erule labelled)
    (auto simp del: match.simps dest!: seqs_part first_part word_part lit_part simp: LABELS_def lower_text_def cp_ascii_lower_def utext_of_def)

text \<open>A name of a domain ends in a dot, and what follows begins with one of the endings.\<close>

lemma star_dot:
  assumes "\<And>ps q. q \<in> set (match r ps) \<Longrightarrow> suffix (46 # fst (snd q)) (fst (snd ps))"
  shows "q \<in> set (match (Star r) ps) \<Longrightarrow> q = ps \<or> suffix (46 # fst (snd q)) (fst (snd ps))"
proof (induction "length (fst (snd ps))" arbitrary: ps rule: less_induct)
  case less
  obtain p s g where ps: "ps = (p, s, g)" by (cases ps)
  consider "q = ps" | p1 s1 g1 where "(p1, s1, g1) \<in> set (match r ps)" "length s1 < length s" "q \<in> set (match (Star r) (p1, s1, g1))"
    using less.prems unfolding ps by (subst (asm) match.simps(5)) (auto split: if_splits)
  then show ?case
  proof cases
    case 2
    have "suffix (46 # s1) s" using assms [OF 2(1)] by (simp add: ps)
    then have "suffix s1 s" by (metis suffix_ConsD)
    then show ?thesis using less.hyps [of "(p1, s1, g1)"] 2(2,3) \<open>suffix (46 # s1) s\<close>
      by (auto simp: ps intro: suffix_order.trans)
  qed simp
qed

lemma label_dot: "q \<in> set (match (seqs [a, b, Char 46]) ps) \<Longrightarrow> suffix (46 # fst (snd q)) (fst (snd ps))"
proof -
  assume "q \<in> set (match (seqs [a, b, Char 46]) ps)"
  then obtain q1 q2 where q: "q1 \<in> set (match a ps)" "q2 \<in> set (match b q1)" "q \<in> set (match (Char 46) q2)"
    by (auto simp: seqs_def)
  then have "46 # fst (snd q) = fst (snd q2)" by (cases q2) (auto simp: Char_def split: list.splits if_splits)
  then show ?thesis using suffix_order.trans [OF match_suffix [OF q(2)] match_suffix [OF q(1)]] by simp
qed

lemma plus_dot:
  assumes "\<And>ps q. q \<in> set (match r ps) \<Longrightarrow> suffix (46 # fst (snd q)) (fst (snd ps))" and "q \<in> set (match (Plus r) ps)"
  shows "suffix (46 # fst (snd q)) (fst (snd ps))"
proof -
  obtain q1 where q1: "q1 \<in> set (match r ps)" "q \<in> set (match (Star r) q1)" using assms(2) by (auto simp: Plus_def)
  have first: "suffix (46 # fst (snd q1)) (fst (snd ps))" by (rule assms(1) [OF q1(1)])
  from star_dot [OF assms(1) q1(2)] show ?thesis
  proof
    assume "suffix (46 # fst (snd q)) (fst (snd q1))"
    then show ?thesis using suffix_ConsD [OF first] by (rule suffix_order.trans)
  next
    assume "q = q1"
    with first show ?thesis by (simp only:)
  qed
qed

lemma domain_dot: "q \<in> set (match (domain_labels U) ps) \<Longrightarrow> suffix (46 # fst (snd q)) (fst (snd ps))"
  unfolding domain_labels_def by (rule plus_dot [OF label_dot])

lemma seq_parts: "match (Seq a b) ps \<noteq> [] \<longleftrightarrow> (\<exists>q \<in> set (match a ps). match b q \<noteq> [])" by auto

lemma dotted:
  assumes "match (seqs (no_address_before U # domain_labels U # r # rest)) (p, t, g) \<noteq> []"
  shows "\<exists>p' u g'. suffix (46 # u) t \<and> match r (p', u, g') \<noteq> []"
proof -
  from assms obtain q1 q2 where q: "q1 \<in> set (match (no_address_before U) (p, t, g))" "q2 \<in> set (match (domain_labels U) q1)" "match (seqs (r # rest)) q2 \<noteq> []"
    unfolding seqs_def foldr.simps comp_def seq_parts by blast
  have "suffix (46 # fst (snd q2)) t"
    using suffix_order.trans [OF domain_dot [OF q(2)] match_suffix [OF q(1)]] by simp
  then show ?thesis using seqs_part [OF q(3)] by (cases q2) auto
qed

lemma url_label:
  assumes "match (URL_RE ascii_tables) (p, t, g) \<noteq> []" and "47 \<notin> set t"
  shows "\<exists>w \<in> set (LABELS @ ENDINGS). \<exists>u. suffix u t \<and> prefix w (lower_text u)"
proof -
  let ?scheme = "seqs [Lit_i ascii_tables ''http'', Opt (Char_i ascii_tables 115), Lit ''://'']"
  consider "match ?scheme (p, t, g) \<noteq> []" | "match (Lit_i ascii_tables ''www'') (p, t, g) \<noteq> []"
    | p' u g' where "suffix (46 # u) t" "match (alts (map (Lit_i ascii_tables) TLDS)) (p', u, g') \<noteq> []"
    | p' u g' where "suffix (46 # u) t" "match (Lit_i ascii_tables ''net'') (p', u, g') \<noteq> []"
    using assms(1) unfolding URL_RE_def alts_part by (auto simp del: match.simps(2-) dest!: first_part dotted simp: match.simps(4) alts_part)
  then show ?thesis
  proof cases
    case 1
    have "0 < least (\<lambda>c. c = 47) ?scheme" by (simp add: seqs_def Lit_def Char_def utext_of_def)
    moreover obtain q where "q \<in> set (match ?scheme (p, t, g))" using 1 by (cases "match ?scheme (p, t, g)") auto
    ultimately have "0 < tally (\<lambda>c. c = 47) t" using least_match [of q ?scheme "(p, t, g)" "\<lambda>c. c = 47"] by simp
    then show ?thesis using assms(2) by (auto simp: tally_def filter_empty_conv)
  next
    case 2
    have "prefix (utext_of ''www'') (lower_text t)"
      using lit_part [OF 2] by (simp add: lower_text_def utext_of_def cp_ascii_lower_def)
    then show ?thesis by (intro bexI [of _ "utext_of ''www''"] exI [of _ t]) (simp_all add: LABELS_def)
  next
    case 3
    then obtain w where "w \<in> set TLDS" "match (Lit_i ascii_tables w) (p', u, g') \<noteq> []" by (auto simp: alts_part)
    moreover have "lower_text (utext_of w) = utext_of w" if "w \<in> set TLDS" for w
      using that by (auto simp: TLDS_def lower_text_def utext_of_def cp_ascii_lower_def)
    ultimately have "prefix (46 # utext_of w) (lower_text (46 # u))" "46 # utext_of w \<in> set ENDINGS"
      using lit_part [of w p' u g'] by (auto simp: lower_text_def cp_ascii_lower_def ENDINGS_def)
    then show ?thesis using 3(1) by (intro bexI [of _ "46 # utext_of w"] exI [of _ "46 # u"]) simp_all
  next
    case 4
    have "prefix (46 # utext_of ''net'') (lower_text (46 # u))"
      using lit_part [OF 4(2)] by (simp add: lower_text_def utext_of_def cp_ascii_lower_def)
    then show ?thesis using 4(1) by (intro bexI [of _ "46 # utext_of ''net''"] exI [of _ "46 # u"]) (simp_all add: ENDINGS_def)
  qed
qed


lemma least_seqs: "least P (seqs rs) = sum_list (map (least P) rs)"
  by (induction rs) (simp_all add: seqs_def)

lemma least_Rep: "least P (Rep m n r) = m * least P r"
proof -
  have "least P (Up_To k r) = 0" for k by (induction k) simp_all
  then show ?thesis by (simp add: Rep_def least_seqs sum_list_replicate)
qed

lemma least_digit [simp]: "least digit (any_digit ascii_tables) = 1"
  by (simp add: any_digit_def ascii_tables_def digit_def)

lemma least_member: "n < least P r \<Longrightarrow> r \<in> set rs \<Longrightarrow> n < least P (seqs rs)"
  unfolding least_seqs by (induction rs) auto

lemma least_numbers: "6 < least digit (POSTAL_LABELED_RE ascii_tables)" "6 < least digit (PHONE_LABEL_RE ascii_tables)"
  "6 < least digit (DIGIT_RUN_RE ascii_tables)" "6 < least digit (NATIONAL_ID_RE ascii_tables)"
proof -
  show "6 < least digit (POSTAL_LABELED_RE ascii_tables)" unfolding POSTAL_LABELED_RE_def
    by (rule least_member [of _ _ "Cap 2 (seqs [Rep 5 5 (any_digit ascii_tables), Opt (Cls (\<lambda>c. uc_space ascii_tables c \<or> c = 45)), Rep 5 5 (any_digit ascii_tables)])"])
      (simp_all add: least_seqs least_Rep)
  show "6 < least digit (PHONE_LABEL_RE ascii_tables)" unfolding PHONE_LABEL_RE_def
    by (rule least_member [of _ _ "Cap 2 (Seq (Opt (Char 43)) (spaced_digits ascii_tables 6 14))"])
      (simp_all add: least_seqs least_Rep spaced_digits_def)
  show "6 < least digit (DIGIT_RUN_RE ascii_tables)" unfolding DIGIT_RUN_RE_def
    by (rule least_member [of _ _ "spaced_digits ascii_tables 7 15"]) (simp_all add: least_seqs least_Rep spaced_digits_def)
  show "6 < least digit (NATIONAL_ID_RE ascii_tables)" unfolding NATIONAL_ID_RE_def
    by (rule least_member [of _ _ "Rep 9 9 (Seq (Opt (Cls (\<lambda>c. uc_space ascii_tables c \<or> c = 45))) (any_digit ascii_tables))"])
      (simp_all add: least_Rep)
qed

lemma least_at: "0 < least (\<lambda>c. c = 64) (EMAIL_RE U)" "0 < least (\<lambda>c. c = 64) (HANDLE_RE U)"
  by (simp_all add: EMAIL_RE_def HANDLE_RE_def Let_def least_seqs Char_def)

lemma plain_redacted:
  assumes "plain_text s"
  shows "redact_patterns ascii_tables s = s"
proof -
  have at: "re_sub (EMAIL_RE ascii_tables) r s = s" "re_sub (HANDLE_RE ascii_tables) r s = s" for r
    using assms least_at tally_none [of s "\<lambda>c. c = 64"] by (auto simp: plain_text_def list_all_iff intro!: least_sub(2) [of "\<lambda>c. c = 64"])
  have n: "re_sub_with (POSTAL_LABELED_RE ascii_tables) f s = s" "re_sub_with (PHONE_LABEL_RE ascii_tables) f s = s"
    "re_sub_with (DIGIT_RUN_RE ascii_tables) f s = s" "re_sub (NATIONAL_ID_RE ascii_tables) t s = s" for f t
    using assms least_numbers by (auto simp: plain_text_def intro!: least_sub [of digit])
  have l: "re_sub_with (URL_RE ascii_tables) f s = s" "re_sub_with (BIRTH_RE ascii_tables) f s = s" "re_sub_with (ADDRESS_RE ascii_tables) f s = s" for f
    unfolding re_sub_with_def using birth_label address_label url_label
    by (intro sub_with_none no_label [OF assms]; fastforce)+
  show ?thesis by (simp add: redact_patterns_def Let_def redact_phones_def n at l)
qed

fun triple_in :: "(nat \<times> nat \<times> nat) set \<Rightarrow> utext \<Rightarrow> bool" where
  "triple_in P (a # b # c # cs) = ((a, b, c) \<in> P \<or> triple_in P (b # c # cs))"
| "triple_in P _ = False"

lemma triple_in_suffix: "suffix t s \<Longrightarrow> triple_in P t \<Longrightarrow> triple_in P s"
proof (induction s)
  case (Cons a s)
  then show ?case by (cases s; cases "tl s") (auto simp: suffix_Cons)
qed simp

lemma occurs_triple:
  assumes "occurs ws s" and "\<forall>w \<in> set ws. \<exists>a b c cs. w = a # b # c # cs \<and> (a, b, c) \<in> P"
  shows "triple_in P s"
proof -
  obtain t w where t: "suffix t s" "w \<in> set ws" "prefix w t" using assms(1) by (auto simp: occurs_def list_ex_iff)
  obtain a b c cs where "w = a # b # c # cs" "(a, b, c) \<in> P" using assms(2) t(2) by blast
  then have "triple_in P t" using t(3) by (auto simp: prefix_def)
  with t(1) show ?thesis by (rule triple_in_suffix)
qed

definition TRIPLES :: "(nat \<times> nat \<times> nat) set" where
  "TRIPLES = {(1578, 1575, 1585), (1587, 1575, 1604), (1605, 1578, 1608), (1578, 1608, 1604), (100, 97, 116), (98, 105, 114), (98, 111, 114),
     (100, 111, 98), (1570, 1583, 1585), (1606, 1588, 1575), (1605, 1581, 1604), (97, 100, 100), (119, 119, 119)} \<union> {(46, a, b) |a b. 97 \<le> a}"

lemma all_triples: "\<forall>w \<in> set (LABELS @ ENDINGS). \<exists>a b c cs. w = a # b # c # cs \<and> (a, b, c) \<in> TRIPLES"
  by (simp add: LABELS_def ENDINGS_def TLDS_def TRIPLES_def utext_of_def)

lemma plain_textI:
  assumes "list_all (\<lambda>c. c \<noteq> 64 \<and> c \<noteq> 47) s" and "tally digit s < 7" and "\<not> triple_in TRIPLES (lower_text s)"
  shows "plain_text s"
  using assms occurs_triple [OF _ all_triples] by (auto simp: plain_text_def)

lemma instruction_plain: "plain_text INSTRUCTION"
proof (rule plain_textI)
  show "list_all (\<lambda>c. c \<noteq> 64 \<and> c \<noteq> 47) INSTRUCTION" by (simp add: INSTRUCTION_def)
  show "tally digit INSTRUCTION < 7" by (simp add: tally_def digit_def INSTRUCTION_def)
  show "\<not> triple_in TRIPLES (lower_text INSTRUCTION)" by (simp add: INSTRUCTION_def lower_text_def cp_ascii_lower_def TRIPLES_def)
qed

lemma printed_plain: "plain_text (123 # replicate n 88)"
proof (rule plain_textI)
  have "\<not> triple_in TRIPLES (a # replicate n 120)" if "a \<in> {120, 123}" for a
    using that
  proof (induction n arbitrary: a)
    case (Suc n)
    then show ?case by (cases n) (auto simp: TRIPLES_def)
  qed simp
  then show "\<not> triple_in TRIPLES (lower_text (123 # replicate n 88))" by (simp add: lower_text_def cp_ascii_lower_def)
qed (simp_all add: list_all_iff tally_def digit_def)


section \<open>A data base with one pair\<close>

text \<open>
  The tables of ASCII, an injective keyed hash, and one candidate, ZZ ZZ with the telephone 9999999999, whose resume
  begins with the name and the number.
\<close>

definition demo_tables :: unicode_data where
  "demo_tables = \<lparr>ud_nfc = (\<lambda>s. s), ud_category = (\<lambda>_. ''Lo''), ud_casefold = (\<lambda>s. s), ud_isalpha = (\<lambda>c. 65 \<le> c), ud_isdigit = digit\<rparr>"

definition demo_json :: json_text where
  "demo_json = \<lparr>dumps = (\<lambda>j. 123 # replicate (to_nat j) 88), loads = (\<lambda>t. Some (from_nat (length t - 1)))\<rparr>"

definition demo_hmac :: "utext \<Rightarrow> string" where "demo_hmac s = replicate (to_nat s) CHR ''x''"

definition demo_library :: library where
  "demo_library = \<lparr>lb_unicode = ascii_tables, lb_data = demo_tables, lb_python = \<lparr>pt_float = (\<lambda>_. None), pt_str = (\<lambda>_. []), pt_repr = (\<lambda>_. [48])\<rparr>,
     lb_json = demo_json, lb_hmac = demo_hmac, lb_sha256 = map char_of,
     lb_tokenizer = \<lparr>tk_encode = (\<lambda>t. Some [to_nat t]), tk_decode = (\<lambda>ids. from_nat (hd ids))\<rparr>\<rparr>"

lemma demo_json_ok: "json_text_ok demo_json" "braces_printed demo_json"
  by (simp_all add: json_text_ok_def braces_printed_def demo_json_def)

lemma ascii_tables_visible: "ascii_visible ascii_tables"
  by (simp add: ascii_visible_def ascii_tables_def)

definition DEMO_NAME :: utext where "DEMO_NAME = [90, 90]"
definition DEMO_PHONE :: utext where "DEMO_PHONE = [57, 57, 57, 57, 57, 57, 57, 57, 57, 57]"
definition DEMO_EMAIL :: utext where "DEMO_EMAIL = [122, 122, 122, 64, 120, 46, 105, 111]"
definition DEMO_RESUME :: utext where "DEMO_RESUME = DEMO_NAME @ [32] @ DEMO_PHONE @ [32, 88, 89]"

definition demo_pair_db :: db where
  "demo_pair_db = demo_db\<lparr>users := [(demo_user 7 ''Candidate'' None)\<lparr>u_email := DEMO_EMAIL, u_data_consent_at := Some 1\<rparr>],
     candidates := [\<lparr>c_id = 3, c_user_id = 7, c_first_name = DEMO_NAME, c_last_name = DEMO_NAME, c_phone = Some DEMO_PHONE, c_skills = None, c_location = None\<rparr>],
     applications := [demo_application\<lparr>a_score_ai := Some 50\<rparr>],
     resumes := [\<lparr>r_id = 30, r_tenant_id = 5, r_candidate_id = 3, r_file_url = ''u'', r_raw_text = Some DEMO_RESUME,
       r_search_tokens = None, r_parsed_data = None, r_skill_analysis = None, r_agent_analysis = Some (JObj [(''status'', JStr [])])\<rparr>]\<rparr>"

definition demo_pair :: PairSource where
  "demo_pair = \<lparr>ps_candidate_key = utext_of (blind_index_token demo_hmac ascii_tables (GROUP_PREFIX @ utext_of (str_of_uuid 3))),
     ps_score_ai = Some 50, ps_status = ''Draft'',
     ps_job = \<lparr>ji_title = utext_of ''Dev'', ji_department = None, ji_description = None, ji_skills_required = [], ji_seniority = None, ji_education = None\<rparr>,
     ps_resume_text = Some DEMO_RESUME, ps_analysis = Some (JObj [(''status'', JStr [])]),
     ps_identity = \<lparr>id_names = [DEMO_NAME, DEMO_NAME, DEMO_NAME @ [32] @ DEMO_NAME], id_emails = [DEMO_EMAIL], id_phones = [DEMO_PHONE], id_locations = []\<rparr>,
     ps_interview_score = None, ps_ambiguous_link = False\<rparr>"

lemma demo_sources: "iter_pair_sources demo_library demo_pair_db = [Inr demo_pair]"
  by (simp add: iter_pair_sources_def pairs_query_def demo_pair_db_def demo_db_def empty_db_def demo_application_def demo_job_def demo_user_def
      resume_join_def eligible_def interview_score_def to_source_def pick_resume_def row_identity_def column_dict_def get_dict_def json_or_def
      text_entry_def and_then_def demo_library_def demo_pair_def ustrip_def strip_by_def ascii_tables_def utext_of_def Let_def
      DEMO_NAME_def DEMO_EMAIL_def DEMO_PHONE_def)

section \<open>The texts of the pair\<close>

lemma no_mojibake: "list_all (\<lambda>c. \<not> (194 \<le> c \<and> c \<le> 239)) s \<Longrightarrow> \<not> has_mojibake s"
  unfolding has_mojibake_def re_found_def
  using least_search [of "\<lambda>c. 194 \<le> c \<and> c \<le> 239" s MOJIBAKE_PATTERN None] tally_none [of s "\<lambda>c. 194 \<le> c \<and> c \<le> 239"]
  by (auto simp: MOJIBAKE_PATTERN_def seqs_def list_all_iff)

lemma newlines_kept:
  assumes "10 \<notin> set s"
  shows "re_sub SPACE_AROUND_NEWLINE r s = s" and "re_sub EXTRA_NEWLINES r s = s"
proof -
  have t: "tally (\<lambda>c. c = 10) s = 0" using assms by (intro tally_none) auto
  show "re_sub SPACE_AROUND_NEWLINE r s = s"
    by (rule least_sub(2) [of "\<lambda>c. c = 10"]) (simp add: t SPACE_AROUND_NEWLINE_def seqs_def Char_def)
  show "re_sub EXTRA_NEWLINES r s = s"
    by (rule least_sub(2) [of "\<lambda>c. c = 10"]) (simp add: t EXTRA_NEWLINES_def seqs_def Char_def)
qed

lemma match_Star_Cls:
  "match (Star (Cls P)) (p, [], g) = [(p, [], g)]"
  "match (Star (Cls P)) (p, c # cs, g) = (if P c then match (Star (Cls P)) (Some c, cs, g) else []) @ [(p, c # cs, g)]"
  by (subst match.simps(5), simp)+

definition DEMO_TITLE :: utext where "DEMO_TITLE = [1593, 1606, 1608, 1575, 1606, 58, 32, 68, 101, 118]"

lemma sub_from_cases:
  "sub_from r repl p [] = []"
  "sub_from r repl p (c # cs) = (case match_here r p (c # cs) of
      Some (p', s', _) \<Rightarrow> if length s' < length (c # cs) then repl @ sub_from r repl p' s' else c # sub_from r repl (Some c) cs
    | None \<Rightarrow> c # sub_from r repl (Some c) cs)"
  by (subst sub_from.simps, simp)+

lemma sub_with_cases:
  "sub_with r f p [] = []"
  "sub_with r f p (c # cs) = (case match_here r p (c # cs) of
      Some (p', s', g) \<Rightarrow> if length s' < length (c # cs) then f (take (length (c # cs) - length s') (c # cs)) g @ sub_with r f p' s'
        else c # sub_with r f (Some c) cs
    | None \<Rightarrow> c # sub_with r f (Some c) cs)"
  by (subst sub_with.simps, simp)+

definition neat_text :: "utext \<Rightarrow> bool" where
  "neat_text t \<longleftrightarrow> t \<noteq> [] \<and> list_all (\<lambda>c. \<not> (194 \<le> c \<and> c \<le> 239)) t \<and> 10 \<notin> set t \<and> concat (map char_map t) = t
     \<and> strip_invalid_chars demo_tables t = t \<and> re_sub HORIZONTAL_SPACE [32] t = t \<and> ustrip ascii_tables t = t"

lemma demo_nfc: "ud_nfc demo_tables t = t" by (simp add: demo_tables_def)

lemma neat_text_kept: "neat_text t \<Longrightarrow> dataset_text ascii_tables demo_tables (Some t) = t"
  by (simp add: neat_text_def dataset_text_def Let_def repair_mojibake_def no_mojibake newlines_kept demo_nfc)

lemmas neat_eval = neat_text_def char_map_def strip_invalid_chars_def keep_char_def demo_tables_def REPLACEMENT_CHAR_def ZWNJ_def
  re_sub_def sub_from_cases HORIZONTAL_SPACE_def Plus_def match_here_def match_Star_Cls ustrip_def strip_by_def ascii_tables_def
  DEMO_NAME_def DEMO_PHONE_def DEMO_EMAIL_def

lemma demo_neat: "neat_text DEMO_RESUME" "neat_text DEMO_TITLE" "neat_text DEMO_NAME" "neat_text (DEMO_NAME @ [32] @ DEMO_NAME)" "neat_text DEMO_EMAIL"
  "neat_text DEMO_PHONE"
  by (simp_all add: DEMO_RESUME_def DEMO_TITLE_def neat_eval)

lemmas demo_cleaned = demo_neat [THEN neat_text_kept]

text \<open>The identity: its words, its number, and what is hashed of them.\<close>

definition DEMO_TOKENS :: "utext list" where
  "DEMO_TOKENS = [[122, 122], [122, 122], [122, 122], [122, 122], [122, 122, 122, 122], [122, 122, 122]]"

lemmas words_eval = resume_search_words_def translate_split_def SPLIT_CHARS_def class_runs.simps ascii_tables_def cp_ascii_lower_def utext_of_def

lemma demo_words:
  "resume_search_words ascii_tables (Some DEMO_NAME) = [[122, 122]]" "resume_search_words ascii_tables (Some (DEMO_NAME @ [32] @ DEMO_NAME)) = [[122, 122], [122, 122]]"
  "resume_search_words ascii_tables (Some [122, 122, 122]) = [[122, 122, 122]]"
  "resume_search_words ascii_tables (Some DEMO_RESUME) = [[122, 122], DEMO_PHONE, [120, 121]]"
  by (simp_all add: words_eval DEMO_NAME_def DEMO_RESUME_def DEMO_PHONE_def)

lemma demo_name_tokens: "name_tokens ascii_tables demo_tables (ps_identity demo_pair) = DEMO_TOKENS"
proof -
  have "takeWhile (\<lambda>c. c \<noteq> 64) DEMO_EMAIL = [122, 122, 122]" by (simp add: DEMO_EMAIL_def)
  moreover have "is_number demo_tables w \<longleftrightarrow> w \<noteq> [] \<and> list_all digit w" for w by (simp add: is_number_def demo_tables_def list_all_iff)
  ultimately show ?thesis
    by (simp add: name_tokens_def name_words_def demo_pair_def demo_cleaned demo_words demo_cleaned [simplified] demo_words [simplified] Let_def digit_def
        MIN_NAME_TOKEN_LENGTH_def MIN_EMAIL_TOKEN_LENGTH_def DEMO_TOKENS_def)
qed

lemma demo_phone_digits: "phone_digits ascii_tables demo_tables DEMO_PHONE = Some DEMO_PHONE"
  by (simp add: phone_digits_def demo_cleaned Let_def, simp add: DEMO_PHONE_def digit_def)

lemma demo_header: "header_name ascii_tables demo_tables DEMO_RESUME = None"
proof -
  have "filter (\<lambda>l. l \<noteq> []) (map (ustrip ascii_tables) (splitlines DEMO_RESUME)) = [DEMO_RESUME]"
    by (simp add: DEMO_RESUME_def DEMO_NAME_def DEMO_PHONE_def splitlines_plain line_break_def ustrip_def strip_by_def ascii_tables_def)
  moreover have "\<exists>c \<in> set DEMO_RESUME. ud_isdigit demo_tables c"
    by (simp add: DEMO_RESUME_def DEMO_PHONE_def demo_tables_def digit_def)
  ultimately show ?thesis by (simp add: header_name_def Let_def)
qed

lemma demo_identity: "identity_of demo_library demo_pair = ps_identity demo_pair"
  by (simp add: identity_of_def demo_library_def with_header_name_def demo_pair_def demo_cleaned demo_header)

definition demo_redactor :: Redactor where
  "demo_redactor = \<lparr>rd_identity = ps_identity demo_pair, rd_tokens = DEMO_TOKENS, rd_phone_patterns = [exact_phone_pattern ascii_tables DEMO_PHONE]\<rparr>"

lemma demo_for_identity: "for_identity ascii_tables demo_tables (ps_identity demo_pair) = demo_redactor"
  unfolding for_identity_def demo_name_tokens demo_redactor_def by (simp add: exact_phone_patterns_def demo_pair_def demo_phone_digits)


definition DEMO_REDACTED :: utext where "DEMO_REDACTED = [90, 90, 32, 91, 80, 72, 79, 78, 69, 93, 32, 88, 89]"
definition DEMO_KEPT :: utext where "DEMO_KEPT = [91, 78, 65, 77, 69, 93, 32, 91, 80, 72, 79, 78, 69, 93, 32, 88, 89]"
definition DEMO_INPUT :: utext where "DEMO_INPUT = JOB_HEADING @ DEMO_TITLE @ RESUME_HEADING @ DEMO_KEPT"

lemma demo_plain: "plain_text DEMO_INPUT" "plain_text DEMO_TITLE" "plain_text DEMO_REDACTED"
  by (rule plain_textI;
      simp add: DEMO_INPUT_def JOB_HEADING_def DEMO_TITLE_def RESUME_HEADING_def DEMO_REDACTED_def DEMO_KEPT_def tally_def digit_def lower_text_def
        cp_ascii_lower_def TRIPLES_def)+

text \<open>The number goes first, then the name; the title has neither.\<close>

lemma demo_number_gone: "re_sub (exact_phone_pattern ascii_tables DEMO_PHONE) PH_PHONE DEMO_RESUME = DEMO_REDACTED"
  by (simp add: exact_phone_pattern_def DEMO_PHONE_def DEMO_RESUME_def DEMO_NAME_def DEMO_REDACTED_def PH_PHONE_def utext_of_def re_sub_def sub_from_cases
      match_here_def seqs_def Char_def Opt_def Lit_def match_Star_Cls phone_separator_def one_of_def ZWNJ_def not_digit_def is_digit_def ascii_tables_def Let_def)

lemmas names_eval = re_sub_with_def sub_with_cases match_here_def seqs_def Char_def TOKEN_RE_def token_char_def Plus_def match_Star_Cls REPEATED_PLACEHOLDER_RE_def
  DEMO_TOKENS_def PH_NAME_def utext_of_def ascii_tables_def cp_ascii_lower_def

lemma demo_name_gone: "redact_names ascii_tables DEMO_REDACTED DEMO_TOKENS = DEMO_KEPT"
proof -
  have words: "re_sub_with (TOKEN_RE ascii_tables) (\<lambda>m _. if uc_lower ascii_tables m \<in> set DEMO_TOKENS then PH_NAME else m) DEMO_REDACTED = DEMO_KEPT"
    by (simp add: names_eval DEMO_REDACTED_def DEMO_KEPT_def)
  have "re_sub_with (REPEATED_PLACEHOLDER_RE ascii_tables) (\<lambda>_ g. group_text g 1) DEMO_KEPT = DEMO_KEPT"
    by (simp add: names_eval DEMO_KEPT_def)
  moreover have "DEMO_TOKENS \<noteq> []" by (simp add: DEMO_TOKENS_def)
  ultimately show ?thesis by (simp add: redact_names_def words)
qed

lemma demo_resume_redacted: "redact_whole_resume ascii_tables demo_tables demo_redactor DEMO_RESUME = DEMO_KEPT"
  by (simp add: redact_whole_resume_def exact_phones_def demo_redactor_def demo_number_gone plain_redacted [OF demo_plain(3)] redact_locations_def demo_name_gone,
      simp add: demo_pair_def demo_name_gone)

lemma demo_title_redacted: "redact_other_text ascii_tables demo_redactor DEMO_TITLE = DEMO_TITLE"
proof -
  have "re_sub (exact_phone_pattern ascii_tables DEMO_PHONE) PH_PHONE DEMO_TITLE = DEMO_TITLE"
    by (rule least_sub(2) [of "\<lambda>c. c = 57"]) (simp add: exact_phone_pattern_def DEMO_PHONE_def DEMO_TITLE_def tally_def seqs_def Char_def Let_def)
  moreover have "re_sub_with (TOKEN_RE ascii_tables) (\<lambda>m _. if uc_lower ascii_tables m \<in> set DEMO_TOKENS then PH_NAME else m) DEMO_TITLE = DEMO_TITLE"
    by (simp add: names_eval DEMO_TITLE_def)
  moreover have "re_sub_with (REPEATED_PLACEHOLDER_RE ascii_tables) f DEMO_TITLE = DEMO_TITLE" for f
    by (rule least_sub(1) [of "\<lambda>c. c = 91"]) (simp add: REPEATED_PLACEHOLDER_RE_def DEMO_TITLE_def tally_def seqs_def Char_def)
  ultimately show ?thesis
    by (simp add: redact_other_text_def exact_phones_def demo_redactor_def plain_redacted [OF demo_plain(2)] redact_names_def)
qed

lemma demo_job_block: "job_block ascii_tables demo_tables (ps_job demo_pair) demo_redactor = DEMO_TITLE"
proof -
  have "[1593, 1606, 1608, 1575, 1606, 58, 32] @ utext_of ''Dev'' = DEMO_TITLE" by (simp add: DEMO_TITLE_def utext_of_def)
  then show ?thesis by (simp add: job_block_def labelled_def given_text_def demo_pair_def demo_cleaned demo_title_redacted)
qed

section \<open>No word of the identity is left\<close>

lemma class_runs_subset: "w \<in> set (class_runs p s) \<Longrightarrow> set w \<subseteq> set s"
proof (induction p s rule: class_runs.induct)
  case (1 p s)
  show ?case
  proof (cases "dropWhile (\<lambda>c. \<not> p c) s")
    case Nil
    with 1(2) show ?thesis by (simp add: class_runs.simps)
  next
    case (Cons c cs)
    then have "set (c # cs) \<subseteq> set s" by (metis set_dropWhileD subsetI)
    moreover have "w = c # takeWhile p cs \<or> w \<in> set (class_runs p (dropWhile p cs))" using 1(2) Cons by (simp add: class_runs.simps [of p s])
    moreover have "w \<in> set (class_runs p (dropWhile p cs)) \<Longrightarrow> set w \<subseteq> set (dropWhile p cs)" using 1(1) [OF Cons] by simp
    moreover have "set (takeWhile p cs) \<subseteq> set cs" "set (dropWhile p cs) \<subseteq> set cs" by (auto dest: set_takeWhileD set_dropWhileD)
    ultimately show ?thesis by auto
  qed
qed

lemma word_characters:
  assumes "w \<in> set (resume_search_words ascii_tables (Some v))"
  shows "set w \<subseteq> insert 32 (set (lower_text v))"
proof -
  obtain r where r: "r \<in> set (class_runs (uc_word ascii_tables) (translate_split v))" "w = map cp_ascii_lower r"
    using assms by (auto simp: resume_search_words_def ascii_tables_def)
  have "set r \<subseteq> insert 32 (set v)" using class_runs_subset [OF r(1)] by (auto simp: translate_split_def split: if_splits)
  then have "cp_ascii_lower ` set r \<subseteq> cp_ascii_lower ` insert 32 (set v)" by (rule image_mono)
  then show ?thesis by (simp add: r(2) lower_text_def cp_ascii_lower_def)
qed

lemma lower_twice: "lower_text (lower_text s) = lower_text s"
  by (simp add: lower_text_def cp_ascii_lower_def)

lemma same_hash: "blind_index_token demo_hmac ascii_tables a = blind_index_token demo_hmac ascii_tables b \<longleftrightarrow> lower_text a = lower_text b"
  by (simp add: blind_index_token_def demo_hmac_def ascii_tables_def lower_text_def)

lemma demo_unknown:
  assumes "122 \<notin> set (lower_text v)" and "57 \<notin> set (lower_text v)"
  shows "\<not> has_identity_word demo_library (identity_hashes demo_hmac ascii_tables demo_tables (ps_identity demo_pair)) v"
proof
  let ?secret = "DEMO_TOKENS @ [DEMO_PHONE, utext_of ''0'' @ DEMO_PHONE, utext_of ''98'' @ DEMO_PHONE]"
  have hashes: "identity_hashes demo_hmac ascii_tables demo_tables (ps_identity demo_pair) = remdups (map (blind_index_token demo_hmac ascii_tables) ?secret)"
    unfolding identity_hashes_def demo_name_tokens by (simp add: demo_pair_def demo_phone_digits)
  assume "has_identity_word demo_library (identity_hashes demo_hmac ascii_tables demo_tables (ps_identity demo_pair)) v"
  then obtain w x where w: "w \<in> set (resume_search_words ascii_tables (Some v))" and x: "x \<in> set ?secret" "lower_text w = lower_text x"
    unfolding has_identity_word_def hashes by (force simp: demo_library_def same_hash)
  have "set (lower_text w) \<subseteq> insert 32 (set (lower_text v))"
    using image_mono [OF word_characters [OF w], of cp_ascii_lower] lower_twice [of v] by (auto simp: lower_text_def cp_ascii_lower_def)
  moreover have "122 \<in> set (lower_text x) \<or> 57 \<in> set (lower_text x)"
    using x(1) by (auto simp: DEMO_TOKENS_def DEMO_PHONE_def lower_text_def cp_ascii_lower_def utext_of_def)
  ultimately show False using assms x(2) by auto
qed


section \<open>The pair is kept\<close>

lemma demo_output: "\<exists>j. output_payload ascii_tables demo_tables (lb_python demo_library) demo_pair R = Inr j"
  by (simp add: output_payload_def demo_pair_def json_or_def record_skills_def reported_skills_def get_dict_def get_list_def and_then_def lower_texts_def
      first_of_each_def item_names_def record_experience_def positions_def demo_library_def json_length_def record_flags_def record_soft_skills_def)

lemma utf8_below_surrogates: "\<forall>c \<in> set t. c < 55296 \<Longrightarrow> \<exists>b. utf8_encode t = Some b"
  by (induction t) (auto simp: utf8_char_def)

definition demo_config :: CleansingConfig where "demo_config = default_config\<lparr>cc_min_resume_chars := 1\<rparr>"

lemma demo_record: "\<exists>r. built_record demo_library demo_pair = Inr r \<and> dr_instruction r = INSTRUCTION \<and> dr_input r = DEMO_INPUT
    \<and> (\<exists>n. dr_output r = 123 # replicate n 88)"
proof -
  obtain j where j: "output_payload ascii_tables demo_tables (lb_python demo_library) demo_pair demo_redactor = Inr j" using demo_output by blast
  have libs: "lb_unicode demo_library = ascii_tables" "lb_data demo_library = demo_tables" "lb_json demo_library = demo_json"
    "ps_resume_text demo_pair = Some DEMO_RESUME" by (simp_all add: demo_library_def demo_pair_def)
  show ?thesis
    by (simp add: built_record_def Let_def libs demo_identity demo_for_identity demo_cleaned(1) demo_resume_redacted
        build_record_def j build_input_def demo_job_block DEMO_INPUT_def, simp add: demo_json_def)
qed

lemma demo_accepted: "source_rejection demo_library demo_config demo_pair = Inr None"
  by (simp add: source_rejection_def demo_pair_def demo_library_def ascii_tables_def blank_text_def ustrip_def strip_by_def and_then_def Let_def
      get_dict_def json_or_def demo_config_def default_config_def utext_of_def DEMO_RESUME_def DEMO_NAME_def)

lemma demo_new: "built_record demo_library demo_pair = Inr r \<Longrightarrow> dr_input r = DEMO_INPUT
    \<Longrightarrow> \<exists>c. is_duplicate demo_library r new_cleanser = Inr (None, c)"
  using utf8_below_surrogates [of DEMO_INPUT] utf8_below_surrogates [of "fingerprint_text (lb_data demo_library) DEMO_INPUT"]
  by (auto simp: is_duplicate_def sha_def new_cleanser_def DEMO_INPUT_def JOB_HEADING_def DEMO_TITLE_def RESUME_HEADING_def DEMO_KEPT_def fingerprint_text_def
      demo_library_def demo_tables_def and_then_def)

lemma demo_final:
  assumes "dr_instruction r = INSTRUCTION" "dr_input r = DEMO_INPUT" "dr_output r = 123 # replicate m 88"
  shows "\<exists>n. final_rejection demo_library demo_config r (identity_hashes demo_hmac ascii_tables demo_tables (ps_identity demo_pair)) = Inr (None, n)"
proof -
  have "122 \<notin> set (lower_text v) \<and> 57 \<notin> set (lower_text v)" if "v \<in> set (record_values r)" for v
  proof -
    have "122 \<notin> set (lower_text INSTRUCTION) \<and> 57 \<notin> set (lower_text INSTRUCTION)" by (simp add: INSTRUCTION_def lower_text_def cp_ascii_lower_def)
    moreover have "122 \<notin> set (lower_text DEMO_INPUT) \<and> 57 \<notin> set (lower_text DEMO_INPUT)"
      by (simp add: DEMO_INPUT_def JOB_HEADING_def DEMO_TITLE_def RESUME_HEADING_def DEMO_KEPT_def lower_text_def cp_ascii_lower_def)
    moreover have "122 \<notin> set (lower_text (123 # replicate m 88)) \<and> 57 \<notin> set (lower_text (123 # replicate m 88))"
      by (simp add: lower_text_def cp_ascii_lower_def)
    ultimately show ?thesis using that by (auto simp: record_values_def assms)
  qed
  then have words: "\<not> has_identity_word demo_library (identity_hashes demo_hmac ascii_tables demo_tables (ps_identity demo_pair)) v"
    if "v \<in> set (record_values r)" for v using that demo_unknown by blast
  have "redact_patterns ascii_tables v = v" if "v \<in> set (record_values r)" for v
    using that plain_redacted [OF instruction_plain] plain_redacted [OF demo_plain(1)] plain_redacted [OF printed_plain [of m]]
    by (auto simp: record_values_def assms)
  with words have "\<not> has_pii_residual demo_library r (identity_hashes demo_hmac ascii_tables demo_tables (ps_identity demo_pair))"
    by (auto simp: has_pii_residual_def, simp add: demo_library_def)
  moreover have "lb_tokenizer demo_library = \<lparr>tk_encode = (\<lambda>t. Some [to_nat t]), tk_decode = (\<lambda>ids. from_nat (hd ids))\<rparr>" by (simp add: demo_library_def)
  ultimately show ?thesis
    by (simp add: final_rejection_def record_values_def round_trips_def and_then_def count_tokens_def demo_config_def default_config_def DEFAULT_MAX_TOKENS_def)
qed

lemma demo_kept: "\<exists>k c. process_safely demo_library demo_config demo_pair new_cleanser = (Some k, c)"
proof -
  obtain r n where r: "built_record demo_library demo_pair = Inr r" "dr_instruction r = INSTRUCTION" "dr_input r = DEMO_INPUT" "dr_output r = 123 # replicate n 88"
    using demo_record by blast
  obtain c where c: "is_duplicate demo_library r new_cleanser = Inr (None, c)" using demo_new [OF r(1,3)] by blast
  have libs: "lb_hmac demo_library = demo_hmac" "lb_unicode demo_library = ascii_tables" "lb_data demo_library = demo_tables"
    "ps_resume_text demo_pair = Some DEMO_RESUME" by (simp_all add: demo_library_def demo_pair_def)
  obtain m where m: "final_rejection demo_library demo_config r (identity_hashes (lb_hmac demo_library) (lb_unicode demo_library) (lb_data demo_library)
      (identity_of demo_library demo_pair)) = Inr (None, m)" using demo_final [OF r(2-4)] by (auto simp: libs demo_identity)
  have t: "dataset_text (lb_unicode demo_library) (lb_data demo_library) (ps_resume_text demo_pair) = DEMO_RESUME"
    by (simp add: libs demo_cleaned)
  have "text_rejection demo_config DEMO_RESUME = None"
    by (simp add: text_rejection_def no_mojibake demo_config_def default_config_def DEMO_RESUME_def DEMO_NAME_def DEMO_PHONE_def)
  then show ?thesis
    using r(1) c m t by (simp add: process_safely_def process_def demo_accepted built_record_def identity_of_def Let_def)
qed

section \<open>A run of the builder\<close>

definition demo_options :: BuildOptions where "demo_options = \<lparr>bo_min_pairs = 1, bo_seed = 42, bo_cleansing = demo_config\<rparr>"

lemma demo_line: "\<exists>b. write_line demo_json j = Inr b"
proof -
  have "utf8_encode (123 # replicate (to_nat j) 88) = Some (123 # replicate (to_nat j) 88)" by (rule utf8_ascii) auto
  then show ?thesis by (simp only: write_line_def demo_json_def json_text.simps option.case) blast
qed

lemma demo_assigned: "\<exists>s. map_of (assign_splits exact_deficit (\<lambda>_ _ gs. gs) 42 [(g, b)]) g = Some s"
  by (simp add: assign_splits_def group_buckets_def vote_def bump_def count_of_def dominant_bucket_def assign_bucket_def dict_update_def Let_def)

lemma demo_eligible: "count_eligible_pairs demo_pair_db = 1"
  by (simp add: count_eligible_pairs_def demo_pair_db_def demo_db_def empty_db_def demo_application_def demo_user_def resume_join_def eligible_def)

lemma demo_built: "\<exists>ds. build_dataset demo_library exact_deficit (\<lambda>_ _ gs. gs) demo_options demo_pair_db = Inr ds \<and> bs_kept (ds_stats ds) = 1"
proof -
  obtain k c where k: "process_safely demo_library demo_config demo_pair new_cleanser = (Some k, c)" using demo_kept by blast
  have one: "cn_kept c = 1" using process_safely_counts [OF k] by simp
  have J: "lb_json demo_library = demo_json" by (simp add: demo_library_def)
  obtain b where b: "write_line demo_json (temp_json k) = Inr b" using demo_line by blast
  obtain l where l: "write_line demo_json (record_json (cl_record k)) = Inr l" using demo_line by blast
  obtain s where s: "map_of (assign_splits exact_deficit (\<lambda>_ _ gs. gs) 42 [(cl_group k, cl_bucket k)]) (cl_group k) = Some s" using demo_assigned by blast
  show ?thesis
    using k b l s temp_read_back [OF demo_json_ok(1) b]
    by (simp add: build_dataset_def demo_options_def demo_eligible demo_sources J Let_def one)
qed

section \<open>The claims on this data\<close>

theorem every_pair_counted_once_witness:
  "\<exists>ds k s l. build_dataset demo_library exact_deficit (\<lambda>_ _ gs. gs) demo_options demo_pair_db = Inr ds
    \<and> kept_records demo_library demo_config (iter_pair_sources demo_library demo_pair_db) new_cleanser = [k]
    \<and> length (iter_pair_sources demo_library demo_pair_db) = 1 + (\<Sum>(r, n)\<leftarrow>bs_dropped (ds_stats ds). n)
    \<and> sp_lines (ds_files ds s) = [l] \<and> write_line demo_json (record_json (cl_record k)) = Inr l
    \<and> sp_manifest (ds_files ds s) = [(cl_group k, cl_pii_hashes k)]"
proof -
  obtain ds where ds: "build_dataset demo_library exact_deficit (\<lambda>_ _ gs. gs) demo_options demo_pair_db = Inr ds" using demo_built by blast
  obtain k c where "process_safely demo_library demo_config demo_pair new_cleanser = (Some k, c)" using demo_kept by blast
  then have ks: "kept_records demo_library demo_config (iter_pair_sources demo_library demo_pair_db) new_cleanser = [k]" by (simp add: demo_sources)
  have J: "json_text_ok (lb_json demo_library)" "lb_json demo_library = demo_json" "bo_cleansing demo_options = demo_config"
    using demo_json_ok by (simp_all add: demo_library_def demo_options_def)
  let ?part = "map_of (assign_splits exact_deficit (\<lambda>_ _ gs. gs) (bo_seed demo_options) [(cl_group k, cl_bucket k)])"
  note all = every_pair_counted_once [OF J(1) ds, unfolded Let_def J(2,3) ks list.map]
  note files = all [THEN conjunct2, THEN conjunct2]
  obtain s where s: "?part (cl_group k) = Some s" using files [THEN conjunct2, THEN conjunct1] by auto
  then have own: "filter (\<lambda>k. ?part (cl_group k) = Some s) [k] = [k]" by simp
  note here = files [THEN conjunct2, THEN conjunct2, THEN conjunct2, THEN spec [of _ s], unfolded own]
  obtain l where "sp_lines (ds_files ds s) = [l]" "write_line demo_json (record_json (cl_record k)) = Inr l"
    using here [THEN conjunct1] by (auto simp: list_all2_Cons1)
  moreover have "sp_manifest (ds_files ds s) = [(cl_group k, cl_pii_hashes k)]" using here by simp
  moreover have "length (iter_pair_sources demo_library demo_pair_db) = 1 + (\<Sum>(r, n)\<leftarrow>bs_dropped (ds_stats ds). n)"
    using all [THEN conjunct1] files [THEN conjunct1] by simp
  ultimately show ?thesis using ds ks by blast
qed

theorem kept_records_hold_no_identity_witness:
  "\<exists>k c. process_safely demo_library demo_config demo_pair new_cleanser = (Some k, c)
    \<and> resume_search_words ascii_tables (ps_resume_text demo_pair) = [lower_text DEMO_NAME, DEMO_PHONE, [120, 121]]
    \<and> lower_text DEMO_NAME \<notin> set (resume_search_words ascii_tables (Some (dr_input (cl_record k))))
    \<and> DEMO_PHONE \<notin> set (resume_search_words ascii_tables (Some (dr_input (cl_record k))))
    \<and> redact_patterns ascii_tables (dr_input (cl_record k)) = dr_input (cl_record k)"
proof -
  obtain k c where k: "process_safely demo_library demo_config demo_pair new_cleanser = (Some k, c)" using demo_kept by blast
  have "dr_input (cl_record k) \<in> set (record_values (cl_record k))" by (simp add: record_values_def)
  note all = kept_records_hold_no_identity [OF k this]
  have libs: "lb_unicode demo_library = ascii_tables" "lb_data demo_library = demo_tables" by (simp_all add: demo_library_def)
  have ids: "DEMO_NAME \<in> set (id_names (ps_identity demo_pair))" "DEMO_PHONE \<in> set (id_phones (ps_identity demo_pair))" by (simp_all add: demo_pair_def)
  have name: "lower_text DEMO_NAME \<notin> set (resume_search_words ascii_tables (Some (dr_input (cl_record k))))"
    using all [THEN conjunct2, THEN conjunct1, rule_format, OF disjI1, OF ids(1), unfolded Let_def libs demo_cleaned demo_words, rule_format, of "lower_text DEMO_NAME"]
    by (simp add: lower_text_def DEMO_NAME_def cp_ascii_lower_def is_number_def demo_tables_def digit_def)
  have phone: "DEMO_PHONE \<notin> set (resume_search_words ascii_tables (Some (dr_input (cl_record k))))"
    using all ids(2) demo_phone_digits unfolding libs by auto
  have "resume_search_words ascii_tables (ps_resume_text demo_pair) = [lower_text DEMO_NAME, DEMO_PHONE, [120, 121]]"
    by (simp add: demo_pair_def demo_words, simp add: lower_text_def DEMO_NAME_def cp_ascii_lower_def)
  with k name phone all libs show ?thesis by auto
qed

theorem built_data_set_validates_witness:
  "\<exists>ds report. build_dataset demo_library exact_deficit (\<lambda>_ _ gs. gs) demo_options demo_pair_db = Inr ds
    \<and> validate_dataset demo_library 4096 (1 / 100) (\<lambda>s. Some (sp_lines (ds_files ds s))) (Some (\<lambda>s. sp_manifest (ds_files ds s))) = Inr report
    \<and> (\<forall>(f, n, code) \<in> set report. code \<in> OWN_CHECKS \<or> code = Split_Ratio)"
proof -
  obtain ds where ds: "build_dataset demo_library exact_deficit (\<lambda>_ _ gs. gs) demo_options demo_pair_db = Inr ds" using demo_built by blast
  have L: "ascii_visible (lb_unicode demo_library)" "json_text_ok (lb_json demo_library)" "braces_printed (lb_json demo_library)"
    using demo_json_ok ascii_tables_visible by (simp_all add: demo_library_def)
  have "cc_max_tokens (bo_cleansing demo_options) \<le> 4096" by (simp add: demo_options_def demo_config_def default_config_def DEFAULT_MAX_TOKENS_def)
  from built_data_set_validates [OF L ds this, of "1 / 100"] ds show ?thesis by blast
qed

theorem only_consenting_people_enter_witness:
  "Inr demo_pair \<in> set (iter_pair_sources demo_library demo_pair_db)
    \<and> (\<exists>v \<in> set (users demo_pair_db). u_data_consent_at v \<noteq> None \<and> u_anonymized_at v = None \<and> u_is_active v)"
proof -
  have s: "Inr demo_pair \<in> set (iter_pair_sources demo_library demo_pair_db)" by (simp add: demo_sources)
  have "keyed a_id (applications demo_pair_db)" by (simp add: demo_pair_db_def keyed_def)
  from only_consenting_people_enter [OF this s] s show ?thesis by blast
qed

end
