(* ===== verification/Spec2Isabelle.thy ===== *)
theory Spec2Isabelle
  imports Hiring_Properties Analytics Listings Matching Interviews Search Auth_Properties
    Crypto_Properties Privacy_Properties Question_Bank Service_Properties Backup_Claims
    Processing_Properties Admin_Properties Dataset_Claims
begin

text \<open>
  A verification development of the recruiting backend \<open>ats-smart-backend\<close>: the FastAPI application under
  \<open>src/app\<close>, the row policies and indexes of its migrations (\<open>src/alembic/versions\<close>) and its backup tool
  (\<open>src/backup\<close>).


  \<^bold>\<open>The program.\<close> Organisations (tenants) publish adverts; candidates upload resumes and thereby apply; managers move
  applications over a board from Draft to Hired or Rejected, plan and evaluate interviews, search the candidates and read
  analytics; candidates answer offers. A resume is analysed in the background and scored against the advert. A language
  model writes interview questions on request. All organisations share one PostgreSQL database whose row policies, together with a
  criterion added by the ORM, keep them apart. Sessions, one-time codes and caches live in Redis. Personal data are encrypted by the
  column types, a candidate can have the account forgotten, and the whole is backed up to an offsite storage.

  A request passes through the parts in this order: the token is checked against its session (\<open>Auth\<close>,
  \<open>Sessions\<close>), selects the request's context (\<open>Tenancy\<close>) and the user, the route's role guard is applied
  (\<open>Access_Control\<close>), the handler reads rows through the context's policies and criterion, changes the database,
  commits, and schedules jobs for the background worker (\<open>Task_Queue\<close>).


  \<^bold>\<open>How the model is made.\<close> The database is a record with one list of rows per table (\<open>ATS_Models\<close>), a row a record
  with the columns of its class. A handler is a function from the request's context, its input, the clock and its random
  values to a response or an exception together with the database afterwards; what was committed before an exception
  stays. Exceptions are values of a datatype (\<open>exc\<close> for a response's status and detail, whose texts are named
  constructors instead of the Persian sentences). A text is a list of code points (\<open>utext\<close>); the properties
  of characters that Python looks up in its Unicode tables are a parameter (\<open>unicode\<close>). Identifiers are numbers that are
  printed and read as UUIDs (\<open>Py_Uuid\<close>). Times are integers (microseconds, or seconds where the code truncates). Floating
  point numbers are idealised as rationals. Everything outside the repository is a parameter whose documented behaviour is a
  locale's or a theorem's hypothesis: Redis, the two token libraries, the password hash, the Fernet cipher, the keyed hash,
  the JSON printer and parser, the file store's disk or service, the location database, the HTTP exchange with the language model,
  the cipher, compressor and transfer of the backups, the readers of document formats, the language model that marks names,
  and, for the data set, the tokenizer, SHA-256, Python's texts of values, the shuffle and the floating point term of the split.
  An interleaving of two requests is an explicit sequence of their steps.


  \<^bold>\<open>The theories.\<close>

  \<^item> Foundations. \<open>ATS_Prelude\<close>: identifiers, exceptions, selects, inserts and updates of tables. \<open>ATS_Models\<close>:
    app/models. \<open>Py_Uuid\<close>, \<open>Py_Utf8\<close>, \<open>Py_Regex\<close>: the parts of Python's \<open>uuid\<close>, codecs and \<open>re\<close> that
    the program uses; the matcher is a backtracking one whose results come in the engine's order.
  \<^item> \<open>State_Machine\<close> (app/core/state_machine.py): the board's statuses over strings, and an abstract machine of seven stages
    that they implement.
  \<^item> \<open>Tenancy\<close> (app/core/tenancy.py, the migration d2f6b8a41c37): contexts, transaction settings, row policies, the ORM's criterion,
    the stamping of new rows; what each kind of request can read and write.
    \<open>Access_Control\<close> (app/core/deps.py, app/core/sanitize.py): roles, tenants of users, the sanitiser.
  \<^item> \<open>Hiring\<close>, \<open>Hiring_Invariant\<close>, \<open>Hiring_Properties\<close> (app/routers/jobs.py, applications.py, resumes.py, the offer
    endpoint of candidates.py, app/core/status_notifier.py): every operation that creates or moves an application; the reachable
    databases as an inductive relation with the invariant that the recorded history is a path of the machine; each handler branch by branch;
    and the interleaving of two moves that leaves a final status. \<open>Analytics\<close> (app/routers/analytics.py) draws its funnel's
    shape from that invariant.
  \<^item> \<open>Cursor_Pagination\<close> (app/core/pagination.py), \<open>Listings\<close> (the list endpoints and the notifications): keyset pages over any
    query, and that following the tokens visits every row once.
  \<^item> \<open>Experience_Analyzer\<close> (app/core/experience_analyzer.py), \<open>Matching\<close> (app/core/skill_graph.py, skill_engine.py,
    matching_engine.py): durations, merged intervals against sets of years, skill detection, the matching score.
  \<^item> \<open>Interviews\<close> (app/routers/interviews.py, app/core/interview_scheduler.py): the five endpoints over the database and
    the reminder queue beside it, which a failing request may leave changed.
  \<^item> \<open>Search\<close> (app/core/search_query.py, app/routers/candidates.py): the query language and its evaluation on keyed hashes.
  \<^item> \<open>Redis_Store\<close> (the contract of the store, as a locale), \<open>Sessions\<close>, \<open>Session_Invariant\<close>, \<open>Session_Properties\<close>,
    \<open>Session_Claims\<close> (app/core/sessions.py, geoip.py): the life of a session, the invariant that links sessions to the list of
    their user, single use of refresh tokens, simultaneous renewals. \<open>Auth\<close>, \<open>Auth_Properties\<close> (app/routers/auth.py,
    app/core/security.py, deps.py): registration, login, one-time codes, renewal, password changes; a login's token authenticates
    its owner through any requests in between, and only while its session is live.
  \<^item> \<open>Crypto\<close>, \<open>Crypto_Properties\<close> (app/core/crypto.py): column types, keys, the re-encryption of all rows in batches.
  \<^item> \<open>Storage\<close> (app/core/storage.py), \<open>Privacy\<close>, \<open>Privacy_Properties\<close> (app/core/privacy.py, the profile endpoints):
    both file backends behind one interface (locale \<open>file_store\<close>), and what deleting an account leaves.
  \<^item> \<open>Task_Queue\<close> (app/core/queue.py): policies, enqueueing, the runs of a job.
  \<^item> \<open>Question_Data\<close>, \<open>Question_Plan\<close>, \<open>Question_Generation\<close>, \<open>Question_Sets\<close>, \<open>Question_Api\<close>,
    \<open>Question_Properties\<close>, \<open>Question_Bank\<close> (app/genai, app/schemas/genai.py, app/routers/genai.py, app/tasks/genai.py): the
    candidate's profile, the plan of the questions, the model's answer and its single repair, the worker's job, the endpoints, and the
    invariant of the bank over requests and jobs.
  \<^item> \<open>Service_Auth\<close>, \<open>Service_Properties\<close> (app/core/service_auth.py, app/routers/internal.py): tokens between services and the internal
    endpoints, which show the profile that the worker reads.
  \<^item> \<open>Resume_Parser\<close>, \<open>Parser_Properties\<close> (app/core/text_extraction.py, resume_parser.py): from a file to its text and from the text to
    sections and entries; the two steps together read at most one entry of each kind. \<open>Text_Signals\<close>, \<open>Resume_Agents\<close>,
    \<open>Agent_Properties\<close> (app/agents/text_signals.py, schema.py and the three agents): claims in the text, the agents as total functions to a schema, and the
    work history against sets of years. \<open>Supervisor\<close>, \<open>Pipeline_Properties\<close> (app/agents/supervisor.py, graph.py): the conflict rules, the final
    score, and the graph with agents that fail, are late and end in any order. \<open>Resume_Processing\<close>, \<open>Processing_Properties\<close>
    (app/tasks/resume_processing.py): the linear and the multi-agent job over the database, their agreement, and a deletion in between.
  \<^item> \<open>Backup\<close>, \<open>Backup_Stamps\<close>, \<open>Backup_Policy\<close>, \<open>Backup_Storage\<close>, \<open>Backup_Claims\<close> (backup/retention.py,
    backup/ats_backup.py): the retention policy against an order-free statement of it, the commands over the offsite storage with a
    failure possible at every call, and what stays recoverable.
  \<^item> \<open>Administration\<close>, \<open>Admin_Properties\<close> (app/routers/tenants.py, admin.py, ops.py, app/core/ops_notifier.py and their
    schemas): an organisation's staff and figures, the sessions of its members in the hands of the administrator, and the alerts and events that
    the infrastructure reports to the operators; an administrator sees and ends sessions of the own members only.
  \<^item> The fine-tuning data set (app/datasets/finetune). \<open>Dataset_Text\<close> (text_clean.py): repair of mojibake and the normal form.
    \<open>Anonymize\<close> (anonymize.py): the patterns of personal data, the words of an identity and the redaction. \<open>Dataset_Records\<close>
    (records.py): the record of a pair, from an analysis of any JSON shape. \<open>Dataset_Split\<close> (split.py): whole candidates into parts by
    score band; the split ignores the order of the rows and keeps the shares up to two thirds of the largest candidate. \<open>Dataset_Cleanse\<close> (cleanse.py, tokenization.py): the rules that
    refuse a pair. \<open>Dataset_Build\<close> (extract.py, build.py): from the data base to the files. \<open>Dataset_Validate\<close> (validate.py,
    validate_checks.py): the checks that are written independently of the builder. \<open>Dataset_Properties\<close>: every pair is
    counted once and the files are the kept records in step with their manifest, kept records hold no word of an identity, the validator accepts what the builder writes, and only people who agreed enter;
    \<open>Dataset_Claims\<close> applies these to a data base with one pair.


  \<^bold>\<open>Interfaces.\<close> A locale states each contract between components and is interpreted on the model's definitions by the
  provider, among them \<open>redis_store\<close> and its extension \<open>session_store\<close> (the laws of the key-value store, interpreted on an
  executable store), \<open>file_store\<close> (put, fetch and delete, interpreted for both backends), \<open>row_rewrite\<close> (one batch of
  the re-encryption, interpreted for both tables), and those of \<open>Cursor_Pagination\<close> and \<open>Hiring_Invariant\<close>.


  \<^bold>\<open>Bounds and fuel.\<close> The walk over pages has as fuel the number of rows plus one, and \<open>walk_visits_every_row\<close> shows that this many pages suffice. A renewal
  of a refresh token tries the optimistic transaction the three times of the code. A job runs as often as its queue's policy says (three times
  for the questions). Bulk enqueueing sends chunks of 500 as the code does. All other loops are structural recursions or have a
  termination proof (batches of rows, the matcher of regular expressions, line splitting).


  \<^bold>\<open>Not modelled.\<close> Rate limits; metrics and logging; the sending of mails, their templates and the PDF of an offer
  (formatting through libraries); Role, Permission, Log and Audit rows, which no modelled operation reads; a U+0000 that PostgreSQL refuses in a text;
  rounding of floating point numbers; the migrations' data movement; health probes; the generator of artificial data sets, load tests,
  dashboards, deployment scripts and the web client, which are tools around the program.
\<close>

end
